(* ===== verification/Prelude.thy ===== *)
theory Prelude
  imports Main "HOL-Library.Word" "HOL-Library.AList" "HOL-Library.List_Lexorder"
begin

unbundle bit_operations_syntax

text \<open>
  Shared vocabulary of the development.

  \<^item> Go's unsigned integers are words of their width; \<open>byte\<close> slices are lists of octets; Go's
    \<open>int\<close> lengths and offsets are natural numbers.
  \<^item> An error value made with \<open>fmt.Errorf\<close> or \<open>errors.New\<close> is \<open>Errorf\<close> of its format string and
    its arguments (\<open>%w\<close> arguments included); \<open>ResultError\<close> is the MIB's error type (an OMCI result
    code, the failed and the unsupported attribute mask, a cause), \<open>JoinErr\<close> is \<open>errors.Join\<close>.
  \<^item> A Go function that returns \<open>(value, error)\<close> returns an outcome: \<open>Ok\<close>, \<open>Err\<close>, or \<open>Panic\<close>.
    \<open>Panic\<close> is the outcome of every index or slice expression that leaves the slice it is applied
    to. (Go checks a slice expression against the capacity, so some of these would read stale
    bytes instead of panicking; the model counts every one of them as \<open>Panic\<close>.)
  \<^item> A Go map is an association list with distinct keys. Go does not fix an iteration order; the
    model iterates in list order, and statements quantify over the list.
\<close>

section \<open>Types\<close>

type_synonym u8 = "8 word"
type_synonym u16 = "16 word"
type_synonym u32 = "32 word"
type_synonym u64 = "64 word"
type_synonym bytes = "u8 list"
type_synonym ('k, 'v) gomap = "('k \<times> 'v) list"

datatype go_error = Errorf string "go_arg list" | ResultError u8 u16 u16 "go_error option"
    | JoinErr "go_error list"
  and go_arg = AInt int | AStr string | ABytes bytes | AErr go_error

abbreviation AU :: "'a::len word \<Rightarrow> go_arg" where
  "AU w \<equiv> AInt (uint w)"

abbreviation AN :: "nat \<Rightarrow> go_arg" where
  "AN n \<equiv> AInt (int n)"

datatype ('e, 'a) outcome = Ok 'a | Err 'e | Panic

section \<open>Collections of rules\<close>

named_theorems go_bytes \<open>indexing, slicing and big-endian access\<close>
named_theorems go_loops \<open>row loops and traversals\<close>

section \<open>Outcomes\<close>

definition bindR :: "('e, 'a) outcome \<Rightarrow> ('a \<Rightarrow> ('e, 'b) outcome) \<Rightarrow> ('e, 'b) outcome" where
  "bindR m f = (case m of Ok x \<Rightarrow> f x | Err e \<Rightarrow> Err e | Panic \<Rightarrow> Panic)"

definition mapErr :: "('e \<Rightarrow> 'f) \<Rightarrow> ('e, 'a) outcome \<Rightarrow> ('f, 'a) outcome" where
  "mapErr g m = (case m of Ok x \<Rightarrow> Ok x | Err e \<Rightarrow> Err (g e) | Panic \<Rightarrow> Panic)"

text \<open>\<open>if err := ...; err != nil { return err }\<close> for a helper that returns only an error.\<close>

definition failIf :: "'e option \<Rightarrow> ('e, 'a) outcome \<Rightarrow> ('e, 'a) outcome" where
  "failIf err k = (case err of Some e \<Rightarrow> Err e | None \<Rightarrow> k)"

text \<open>A \<open>for range\<close> loop with a state that may return early.\<close>

fun foldR :: "('a \<Rightarrow> 's \<Rightarrow> ('e, 's) outcome) \<Rightarrow> 'a list \<Rightarrow> 's \<Rightarrow> ('e, 's) outcome" where
  "foldR f [] s = Ok s"
| "foldR f (x # xs) s = bindR (f x s) (foldR f xs)"

section \<open>Slices and integers\<close>

definition go_slice :: "bytes \<Rightarrow> nat \<Rightarrow> nat \<Rightarrow> ('e, bytes) outcome" where
  "go_slice xs a b = (if a \<le> b \<and> b \<le> length xs then Ok (take (b - a) (drop a xs)) else Panic)"

definition go_index :: "bytes \<Rightarrow> nat \<Rightarrow> ('e, u8) outcome" where
  "go_index xs i = (if i < length xs then Ok (xs ! i) else Panic)"

text \<open>\<open>copy(dst[a:], src)\<close> where the source fits.\<close>

definition overwrite :: "nat \<Rightarrow> 'a list \<Rightarrow> 'a list \<Rightarrow> 'a list" where
  "overwrite a src dst = take a dst @ src @ drop (a + length src) dst"

definition be16 :: "bytes \<Rightarrow> nat \<Rightarrow> u16" where
  "be16 xs i = push_bit 8 (ucast (xs ! i)) OR ucast (xs ! (i + 1))"

definition be32 :: "bytes \<Rightarrow> nat \<Rightarrow> u32" where
  "be32 xs i = push_bit 24 (ucast (xs ! i)) OR push_bit 16 (ucast (xs ! (i + 1)))
     OR push_bit 8 (ucast (xs ! (i + 2))) OR ucast (xs ! (i + 3))"

definition put16 :: "u16 \<Rightarrow> bytes" where
  "put16 w = [ucast (drop_bit 8 w), ucast w]"

definition put32 :: "u32 \<Rightarrow> bytes" where
  "put32 w = [ucast (drop_bit 24 w), ucast (drop_bit 16 w), ucast (drop_bit 8 w), ucast w]"

definition put64 :: "u64 \<Rightarrow> bytes" where
  "put64 w = put32 (ucast (drop_bit 32 w)) @ put32 (ucast w)"

definition be64 :: "bytes \<Rightarrow> nat \<Rightarrow> u64" where
  "be64 xs i = push_bit 32 (ucast (be32 xs i)) OR ucast (be32 xs (i + 4))"

text \<open>\<open>binary.BigEndian.Uint16(xs[i:i+2])\<close> and its 32- and 64-bit versions.\<close>

definition go_be16 :: "bytes \<Rightarrow> nat \<Rightarrow> ('e, u16) outcome" where
  "go_be16 xs i = (if i + 2 \<le> length xs then Ok (be16 xs i) else Panic)"

definition go_be32 :: "bytes \<Rightarrow> nat \<Rightarrow> ('e, u32) outcome" where
  "go_be32 xs i = (if i + 4 \<le> length xs then Ok (be32 xs i) else Panic)"

definition go_be64 :: "bytes \<Rightarrow> nat \<Rightarrow> ('e, u64) outcome" where
  "go_be64 xs i = (if i + 8 \<le> length xs then Ok (be64 xs i) else Panic)"

text \<open>
  The loop \<open>for offset := 0; offset < len(xs); offset += n { row := xs[offset:offset+n]; ... }\<close>
  with a loop state. A last row that is shorter than \<open>n\<close> leaves the slice. The row sizes of the
  program are positive constants.
\<close>

function foldRows :: "nat \<Rightarrow> (bytes \<Rightarrow> 's \<Rightarrow> ('e, 's) outcome) \<Rightarrow> bytes \<Rightarrow> 's \<Rightarrow> ('e, 's) outcome" where
  "foldRows n f xs s =
     (if xs = [] \<or> n = 0 then Ok s
      else if length xs < n then Panic
      else bindR (f (take n xs) s) (foldRows n f (drop n xs)))"
  by pat_completeness auto
termination
  by (relation "measure (\<lambda>(n, f, xs, s). length xs)") auto

declare foldRows.simps [simp del]

text \<open>The rows of a table whose length is a multiple of the row size.\<close>

function chunks :: "nat \<Rightarrow> 'a list \<Rightarrow> 'a list list" where
  "chunks n xs = (if xs = [] \<or> n = 0 then [] else take n xs # chunks n (drop n xs))"
  by pat_completeness auto
termination
  by (relation "measure (\<lambda>(n, xs). length xs)") auto

declare chunks.simps [simp del]

section \<open>Maps\<close>

definition gkeys :: "('k, 'v) gomap \<Rightarrow> 'k list" where
  "gkeys m = map fst m"

definition gm_wf :: "('k, 'v) gomap \<Rightarrow> bool" where
  "gm_wf m = distinct (map fst m)"

text \<open>Two maps with the same bindings (what \<open>reflect.DeepEqual\<close> decides for maps).\<close>

definition gm_eq :: "('k, 'v) gomap \<Rightarrow> ('k, 'v) gomap \<Rightarrow> bool" where
  "gm_eq a b = (length a = length b \<and> list_all (\<lambda>(k, v). map_of b k = Some v) a)"

text \<open>
  \<open>keys := ...; sort(keys); for _, key := range keys { result = append(result, rows[key]...) }\<close>.
\<close>

definition sorted_rows :: "('k::linorder, 'v list) gomap \<Rightarrow> 'v list" where
  "sorted_rows m = concat (map (\<lambda>k. case map_of m k of Some r \<Rightarrow> r | None \<Rightarrow> []) (sort (gkeys m)))"

section \<open>Lemmas on outcomes\<close>

lemma bindR_simps [simp]:
  "bindR (Ok x) f = f x"
  "bindR (Err e) f = Err e"
  "bindR Panic f = Panic"
  by (simp_all add: bindR_def)

lemma mapErr_simps [simp]:
  "mapErr g (Ok x) = Ok x"
  "mapErr g (Err e) = Err (g e)"
  "mapErr g Panic = Panic"
  by (simp_all add: mapErr_def)

lemma failIf_simps [simp]:
  "failIf None k = k"
  "failIf (Some e) k = Err e"
  by (simp_all add: failIf_def)

lemma failIf_eq_Ok [simp]: "failIf err k = Ok y \<longleftrightarrow> err = None \<and> k = Ok y"
  by (cases err) auto

lemma failIf_eq_Panic [simp]: "failIf err k = Panic \<longleftrightarrow> err = None \<and> k = Panic"
  by (cases err) auto

lemma bindR_eq_Ok: "bindR m f = Ok y \<longleftrightarrow> (\<exists>x. m = Ok x \<and> f x = Ok y)"
  by (cases m) auto

lemma bindR_eq_Panic: "bindR m f = Panic \<longleftrightarrow> m = Panic \<or> (\<exists>x. m = Ok x \<and> f x = Panic)"
  by (cases m) auto

lemma bindR_assoc: "bindR (bindR m f) g = bindR m (\<lambda>x. bindR (f x) g)"
  by (cases m) simp_all

lemma mapErr_eq_Ok [simp]: "mapErr g m = Ok y \<longleftrightarrow> m = Ok y"
  by (cases m) auto

lemma mapErr_eq_Panic [simp]: "mapErr g m = Panic \<longleftrightarrow> m = Panic"
  by (cases m) auto

lemma bindR_cong [fundef_cong]:
  "m = m' \<Longrightarrow> (\<And>x. m' = Ok x \<Longrightarrow> f x = f' x) \<Longrightarrow> bindR m f = bindR m' f'"
  by (cases m') auto

lemma foldR_append: "foldR f (xs @ ys) s = bindR (foldR f xs s) (foldR f ys)"
proof (induction xs arbitrary: s)
  case (Cons x xs)
  then show ?case by (cases "f x s") auto
qed simp

lemma foldR_invariant:
  assumes "foldR f xs s = Ok t" and "P s"
    and "\<And>x s t. x \<in> set xs \<Longrightarrow> P s \<Longrightarrow> f x s = Ok t \<Longrightarrow> P t"
  shows "P t"
  using assms
proof (induction xs arbitrary: s)
  case (Cons x xs)
  then obtain u where "f x s = Ok u" "foldR f xs u = Ok t"
    by (auto simp: bindR_eq_Ok)
  with Cons show ?case by (metis list.set_intros)
qed simp

lemma foldR_no_panic:
  assumes "P s"
    and "\<And>x s. x \<in> set xs \<Longrightarrow> P s \<Longrightarrow> f x s \<noteq> Panic"
    and "\<And>x s t. x \<in> set xs \<Longrightarrow> P s \<Longrightarrow> f x s = Ok t \<Longrightarrow> P t"
  shows "foldR f xs s \<noteq> Panic"
  using assms
proof (induction xs arbitrary: s)
  case (Cons x xs)
  show ?case
  proof (cases "f x s")
    case (Ok u)
    with Cons.prems(1) have "P u" by (rule Cons.prems(3) [rotated]) simp
    then have "foldR f xs u \<noteq> Panic"
      using Cons.prems(2,3) by (intro Cons.IH) (auto, blast)
    with Ok show ?thesis by simp
  qed (use Cons.prems in auto)
qed simp

section \<open>Lemmas on slices\<close>

lemma go_slice_ok [go_bytes, simp]:
  "a \<le> b \<Longrightarrow> b \<le> length xs \<Longrightarrow> go_slice xs a b = Ok (take (b - a) (drop a xs))"
  by (simp add: go_slice_def)

lemma go_index_ok [go_bytes, simp]: "i < length xs \<Longrightarrow> go_index xs i = Ok (xs ! i)"
  by (simp add: go_index_def)

lemma go_be16_ok [go_bytes, simp]: "i + 2 \<le> length xs \<Longrightarrow> go_be16 xs i = Ok (be16 xs i)"
  by (simp add: go_be16_def)

lemma go_be32_ok [go_bytes, simp]: "i + 4 \<le> length xs \<Longrightarrow> go_be32 xs i = Ok (be32 xs i)"
  by (simp add: go_be32_def)

lemma go_be64_ok [go_bytes, simp]: "i + 8 \<le> length xs \<Longrightarrow> go_be64 xs i = Ok (be64 xs i)"
  by (simp add: go_be64_def)

lemma length_put [simp]: "length (put16 w) = 2" "length (put32 v) = 4" "length (put64 u) = 8"
  by (simp_all add: put16_def put32_def put64_def)

lemma length_overwrite [simp]:
  "a + length src \<le> length dst \<Longrightarrow> length (overwrite a src dst) = length dst"
  by (simp add: overwrite_def)

lemma be16_Cons: "be16 (a # b # xs) 0 = push_bit 8 (ucast a) OR ucast b"
  by (simp add: be16_def)

lemma be32_Cons:
  "be32 (a # b # c # d # xs) 0 =
     push_bit 24 (ucast a) OR push_bit 16 (ucast b) OR push_bit 8 (ucast c) OR ucast d"
  by (simp add: be32_def eval_nat_numeral)

lemma be16_put16_append [go_bytes]: "be16 (put16 w @ xs) 0 = w"
  by (rule bit_word_eqI) (auto simp: be16_Cons put16_def bit_simps)

lemma be32_put32_append [go_bytes]: "be32 (put32 w @ xs) 0 = w"
proof (rule bit_word_eqI)
  fix n :: nat assume "n < LENGTH(32)"
  then consider "n < 8" | "8 \<le> n" "n < 16" | "16 \<le> n" "n < 24" | "24 \<le> n" "n < 32"
    using not_less by auto
  then show "bit (be32 (put32 w @ xs) 0) n \<longleftrightarrow> bit w n"
    by cases (auto simp: be32_Cons put32_def bit_simps)
qed

lemma put16_be16 [go_bytes]:
  assumes "i + 2 \<le> length xs"
  shows "put16 (be16 xs i) = take 2 (drop i xs)"
proof -
  from assms have "take 2 (drop i xs) = [xs ! i, xs ! (i + 1)]"
    by (simp add: numeral_2_eq_2 take_Suc_conv_app_nth)
  moreover have "ucast (drop_bit 8 (be16 xs i)) = xs ! i" "ucast (be16 xs i) = xs ! (i + 1)"
    by (rule bit_word_eqI; auto simp: be16_def bit_simps dest: bit_imp_le_length)+
  ultimately show ?thesis by (simp add: put16_def)
qed

lemma be_put [go_bytes, simp]: "be16 (put16 w) 0 = w" "be32 (put32 v) 0 = v"
  using be16_put16_append [of w "[]"] be32_put32_append [of v "[]"] by simp_all

lemma put32_be32 [go_bytes]:
  assumes "i + 4 \<le> length xs"
  shows "put32 (be32 xs i) = take 4 (drop i xs)"
proof -
  from assms have "take 4 (drop i xs) = [xs ! i, xs ! (i + 1), xs ! (i + 2), xs ! (i + 3)]"
    by (simp add: eval_nat_numeral take_Suc_conv_app_nth)
  moreover have "ucast (drop_bit 24 (be32 xs i)) = xs ! i" "ucast (be32 xs i) = xs ! (i + 3)"
      "ucast (drop_bit 16 (be32 xs i)) = xs ! (i + 1)" "ucast (drop_bit 8 (be32 xs i)) = xs ! (i + 2)"
    by (rule bit_word_eqI; auto simp: be32_def bit_simps dest: bit_imp_le_length)+
  ultimately show ?thesis by (simp add: put32_def)
qed

lemma be16_append1 [go_bytes]: "i + 2 \<le> length xs \<Longrightarrow> be16 (xs @ ys) i = be16 xs i"
  by (simp add: be16_def nth_append)

lemma be16_append2 [go_bytes]: "length xs \<le> i \<Longrightarrow> be16 (xs @ ys) i = be16 ys (i - length xs)"
  by (simp add: be16_def nth_append Suc_diff_le)

lemma be32_append1 [go_bytes]: "i + 4 \<le> length xs \<Longrightarrow> be32 (xs @ ys) i = be32 xs i"
  by (simp add: be32_def nth_append)

lemma be32_append2 [go_bytes]: "length xs \<le> i \<Longrightarrow> be32 (xs @ ys) i = be32 ys (i - length xs)"
  by (simp add: be32_def nth_append Suc_diff_le)

lemma be_Cons_pos [go_bytes]:
  "0 < i \<Longrightarrow> be16 (x # xs) i = be16 xs (i - 1)"
  "0 < i \<Longrightarrow> be32 (x # xs) i = be32 xs (i - 1)"
  "0 < i \<Longrightarrow> be64 (x # xs) i = be64 xs (i - 1)"
  by (simp_all add: be16_def be32_def be64_def nth_Cons')

lemma be64_append1 [go_bytes]: "i + 8 \<le> length xs \<Longrightarrow> be64 (xs @ ys) i = be64 xs i"
  by (simp add: be64_def be32_append1)

lemma be64_append2 [go_bytes]: "length xs \<le> i \<Longrightarrow> be64 (xs @ ys) i = be64 ys (i - length xs)"
  by (simp add: be64_def be32_append2)

lemma be64_put64 [go_bytes, simp]: "be64 (put64 w @ xs) 0 = w"
proof -
  have "be64 (put64 w @ xs) 0
      = push_bit 32 (ucast (ucast (drop_bit 32 w) :: u32)) OR ucast (ucast w :: u32)"
    by (simp add: be64_def put64_def be32_append2 be32_put32_append)
  also have "\<dots> = w"
    by (rule bit_word_eqI) (auto simp: bit_simps not_less)
  finally show ?thesis .
qed

lemma be32_drop: "k \<le> length xs \<Longrightarrow> be32 (drop k xs) i = be32 xs (k + i)"
  by (simp add: be32_def add.assoc)

lemma be16_drop: "k \<le> length xs \<Longrightarrow> be16 (drop k xs) i = be16 xs (k + i)"
  by (simp add: be16_def add.assoc)

lemma split_word:
  "k + 4 \<le> length xs \<Longrightarrow> drop k xs = put32 (be32 xs k) @ drop (k + 4) xs"
  by (metis add.commute append_take_drop_id drop_drop put32_be32)

lemma put64_be64: "i + 8 \<le> length xs \<Longrightarrow> put64 (be64 xs i) = take 8 (drop i xs)"
proof -
  assume len: "i + 8 \<le> length xs"
  have "put64 (be64 xs i) = put32 (be32 xs i) @ put32 (be32 xs (i + 4))"
  proof -
    have "ucast (drop_bit 32 (be64 xs i)) = be32 xs i" "ucast (be64 xs i) = be32 xs (i + 4)"
      by (rule bit_word_eqI; auto simp: be64_def bit_simps dest: bit_imp_le_length)+
    then show ?thesis by (simp add: put64_def)
  qed
  also have "\<dots> = take 4 (drop i xs) @ take 4 (drop (i + 4) xs)"
    using len by (simp add: put32_be32)
  also have "\<dots> = take 8 (drop i xs)"
    using take_add [of 4 4 "drop i xs"] by (simp add: add.commute)
  finally show ?thesis .
qed

lemma split_half:
  "k + 2 \<le> length xs \<Longrightarrow> drop k xs = put16 (be16 xs k) @ drop (k + 2) xs"
  by (metis add.commute append_take_drop_id drop_drop put16_be16)

lemma split_double:
  "k + 8 \<le> length xs \<Longrightarrow> drop k xs = put64 (be64 xs k) @ drop (k + 8) xs"
  by (metis add.commute append_take_drop_id drop_drop put64_be64)

lemma split_byte: "k < length xs \<Longrightarrow> drop k xs = xs ! k # drop (k + 1) xs"
  by (simp add: Cons_nth_drop_Suc)

lemma be32_zeros: "i + 4 \<le> n \<Longrightarrow> be32 (replicate n 0) i = 0"
  by (simp add: be32_def)

lemma bit_below:
  fixes v :: "'a::len word"
  assumes "v < 2 ^ k" "k \<le> n"
  shows "\<not> bit v n"
proof -
  from assms(1) have "v AND mask k = v" by (rule less_mask_eq)
  moreover have "\<not> bit (v AND mask k) n" using assms(2) by (simp add: bit_simps)
  ultimately show ?thesis by simp
qed

lemma bit_bound: "v < 2 ^ k \<Longrightarrow> bit (v::'a::len word) n \<Longrightarrow> n < k"
  using bit_below not_less by blast

lemma and_field_zero:
  assumes "w AND push_bit k (mask l) = (0::'a::len word)" "k \<le> n" "n < k + l"
  shows "\<not> bit w n"
proof
  assume "bit w n"
  with assms(2,3) have "bit (w AND push_bit k (mask l)) n"
    by (auto simp: bit_simps dest: bit_imp_le_length)
  with assms(1) show False by simp
qed

section \<open>Lemmas on row loops\<close>

lemma foldRows_Nil [simp]: "foldRows n f [] s = Ok s"
  by (simp add: foldRows.simps)

lemma foldRows_step [go_loops]:
  "0 < n \<Longrightarrow> length r = n \<Longrightarrow> foldRows n f (r @ xs) s = bindR (f r s) (foldRows n f xs)"
  by (subst foldRows.simps) auto

lemma chunks_Nil [simp]: "chunks n [] = []"
  by (simp add: chunks.simps)

lemma chunks_step [go_loops, simp]:
  "0 < n \<Longrightarrow> length r = n \<Longrightarrow> chunks n (r @ xs) = r # chunks n xs"
  by (subst chunks.simps) auto

lemma concat_chunks: "0 < n \<Longrightarrow> concat (chunks n xs) = xs"
proof (induction n xs rule: chunks.induct)
  case (1 n xs)
  then show ?case by (cases "xs = []") (simp_all add: chunks.simps [of n xs])
qed

lemma chunks_length:
  assumes "length xs mod n = 0" "r \<in> set (chunks n xs)"
  shows "length r = n"
  using assms
proof (induction n xs rule: chunks.induct)
  case (1 n xs)
  show ?case
  proof (cases "xs = [] \<or> n = 0")
    case False
    with "1.prems"(1) have ge: "n \<le> length xs" by (metis length_greater_0_conv mod_less not_less neq0_conv)
    then have "length (drop n xs) mod n = 0" using "1.prems"(1) by (simp add: le_mod_geq)
    with 1 False ge show ?thesis by (auto simp: chunks.simps [of n xs])
  qed (use 1 in \<open>auto simp: chunks.simps [of n xs]\<close>)
qed

lemma chunks_concat:
  "0 < n \<Longrightarrow> \<forall>r \<in> set rs. length r = n \<Longrightarrow> chunks n (concat rs) = rs"
  by (induction rs) auto

text \<open>A row loop over a whole number of rows is a traversal of the rows.\<close>

lemma foldRows_chunks:
  assumes "0 < n" "length xs mod n = 0"
  shows "foldRows n f xs s = foldR f (chunks n xs) s"
  using assms
proof (induction n xs arbitrary: s rule: chunks.induct)
  case (1 n xs)
  show ?case
  proof (cases "xs = []")
    case False
    with "1.prems" have ge: "n \<le> length xs" by (metis length_greater_0_conv mod_less not_less neq0_conv)
    then have "length (drop n xs) mod n = 0" using "1.prems"(2) by (simp add: le_mod_geq)
    with 1 False have "foldRows n f (drop n xs) = foldR f (chunks n (drop n xs))"
      by (auto simp: fun_eq_iff)
    with False ge "1.prems" show ?thesis
      by (simp add: foldRows.simps [of n f xs] chunks.simps [of n xs])
  qed simp
qed

section \<open>Lemmas on maps\<close>

lemma gm_wf_update [simp]: "gm_wf m \<Longrightarrow> gm_wf (AList.update k v m)"
  by (simp add: gm_wf_def distinct_update)

lemma gm_wf_delete [simp]: "gm_wf m \<Longrightarrow> gm_wf (AList.delete k m)"
  by (simp add: gm_wf_def distinct_delete)

lemma set_update_subset: "set (AList.update k v m) \<subseteq> insert (k, v) (set m)"
  by (induction m) auto

lemma gm_wf_filter [simp]: "gm_wf m \<Longrightarrow> gm_wf (filter P m)"
  by (simp add: gm_wf_def distinct_map_filter)

lemma gm_wf_Nil [simp]: "gm_wf []"
  by (simp add: gm_wf_def)

lemma gm_eq_iff:
  assumes "gm_wf a" "gm_wf b"
  shows "gm_eq a b \<longleftrightarrow> map_of a = map_of b"
proof
  assume eq: "gm_eq a b"
  then have sub: "map_of a \<subseteq>\<^sub>m map_of b"
    using assms by (auto simp: gm_eq_def list_all_iff map_le_def gm_wf_def dest!: map_of_SomeD)
  have "card (dom (map_of a)) = card (dom (map_of b))"
    using eq assms by (simp add: gm_eq_def gm_wf_def dom_map_of_conv_image_fst distinct_card flip: set_map)
  moreover have "dom (map_of a) \<subseteq> dom (map_of b)" using sub by (rule map_le_implies_dom_le)
  ultimately have "dom (map_of a) = dom (map_of b)"
    by (simp add: card_subset_eq finite_dom_map_of)
  with sub show "map_of a = map_of b"
    by (metis map_le_antisym map_le_def)
next
  assume eq: "map_of a = map_of b"
  then have "fst ` set a = fst ` set b" by (metis dom_map_of_conv_image_fst)
  then have "length a = length b"
    using assms by (metis distinct_card gm_wf_def length_map list.set_map)
  moreover have "map_of b k = Some v" if "(k, v) \<in> set a" for k v
    using that eq assms by (metis gm_wf_def map_of_is_SomeI)
  ultimately show "gm_eq a b" by (auto simp: gm_eq_def list_all_iff)
qed

lemma gm_eq_refl [simp]: "gm_wf a \<Longrightarrow> gm_eq a a"
  by (simp add: gm_eq_iff)

lemma set_gkeys [simp]: "set (gkeys m) = dom (map_of m)"
  by (simp add: gkeys_def dom_map_of_conv_image_fst)

lemma distinct_gkeys [simp]: "gm_wf m \<Longrightarrow> distinct (gkeys m)"
  by (simp add: gkeys_def gm_wf_def)

end
