(* ===== verification/Vlan.thy ===== *)
theory Vlan
  imports Prelude
begin

unbundle bit_operations_syntax

text \<open>
  Package \<open>vlan\<close> (src/internal/vlan/rule.go): the decoder of the extended VLAN classification
  tables of G.988 (16-octet classic rows, 28-octet enhanced rows) and of the DSCP to P-bit map.
  The theory shows that the decoder never leaves its input, that a row is accepted exactly when
  it is the encoding of a rule whose fields are in their domains (so decoding loses nothing), and
  the same for whole tables and for the DSCP map.
\<close>

section \<open>Data\<close>

definition ClassicRowSize :: nat where "ClassicRowSize = 16"

definition EnhancedRowSize :: nat where "EnhancedRowSize = 28"

record TagFilter =
  fPriority :: u8
  fVID :: u16
  fTPIDDEI :: u8

record TagTreatment =
  tPriority :: u8
  tVID :: u16
  tTPIDDEI :: u8

record Rule =
  Order :: u16
  RowKey :: u16
  Direction :: u8
  FilterOuter :: TagFilter
  FilterInner :: TagFilter
  EtherType :: u8
  ExtendedCriteria :: u8
  TagsToRemove :: u8
  TreatmentOuter :: TagTreatment
  TreatmentInner :: TagTreatment

section \<open>Decoding\<close>

definition decodeFilter :: "u32 \<Rightarrow> TagFilter" where
  "decodeFilter word =
     \<lparr> fPriority = ucast (drop_bit 28 word),
       fVID = ucast (drop_bit 15 word) AND 0x1fff,
       fTPIDDEI = ucast (drop_bit 12 word) AND 0x07 \<rparr>"

definition decodeTreatment :: "u32 \<Rightarrow> TagTreatment" where
  "decodeTreatment word =
     \<lparr> tPriority = ucast (drop_bit 16 word) AND 0x0f,
       tVID = ucast (drop_bit 3 word) AND 0x1fff,
       tTPIDDEI = ucast word AND 0x07 \<rparr>"

definition validateFilter :: "string \<Rightarrow> TagFilter \<Rightarrow> go_error option" where
  "validateFilter name f =
     (if fPriority f > 8 \<and> fPriority f \<noteq> 14 \<and> fPriority f \<noteq> 15
      then Some (Errorf ''filter %s priority %d is reserved'' [AStr name, AU (fPriority f)])
      else if fVID f = 4095 \<or> fVID f > 4096
      then Some (Errorf ''filter %s VID %d is reserved'' [AStr name, AU (fVID f)])
      else if fTPIDDEI f \<noteq> 0 \<and> fTPIDDEI f < 4
      then Some (Errorf ''filter %s TPID/DEI %d is reserved'' [AStr name, AU (fTPIDDEI f)])
      else None)"

definition validateTreatment :: "string \<Rightarrow> TagTreatment \<Rightarrow> go_error option" where
  "validateTreatment name t =
     (if tPriority t > 10 \<and> tPriority t \<noteq> 15
      then Some (Errorf ''treatment %s priority %d is reserved'' [AStr name, AU (tPriority t)])
      else if tVID t = 4095 \<or> tVID t > 4097
      then Some (Errorf ''treatment %s VID %d is reserved'' [AStr name, AU (tVID t)])
      else if tTPIDDEI t = 5
      then Some (Errorf ''treatment %s TPID/DEI 5 is reserved'' [AStr name])
      else None)"

text \<open>The enhanced row header: direction and row key.\<close>

definition parseHeader :: "bytes \<Rightarrow> (go_error, u8 \<times> u16) outcome" where
  "parseHeader encoded =
     bindR (go_be32 encoded 0) (\<lambda>header.
     let control = (ucast (drop_bit 30 header) :: u8) in
     if control \<noteq> 0 then Err (Errorf ''stored Set control is %d, want 0'' [AU control])
     else let direction = (ucast (drop_bit 28 header) :: u8) AND 0x03 in
     if direction = 3 then Err (Errorf ''direction 3 is reserved'' [])
     else if header AND 0x0fff0000 \<noteq> 0
     then Err (Errorf ''header reserved bits are non-zero'' [])
     else bindR (go_be32 encoded 20) (\<lambda>reserved1.
          if reserved1 \<noteq> 0 then Err (Errorf ''reserved words are non-zero'' [])
          else bindR (go_be32 encoded 24) (\<lambda>reserved2.
          if reserved2 \<noteq> 0 then Err (Errorf ''reserved words are non-zero'' [])
          else Ok (direction, ucast header))))"

text \<open>The checks and the rule built once the row's words have been read.\<close>

definition parseWords :: "u8 \<Rightarrow> u16 \<Rightarrow> u32 \<Rightarrow> u32 \<Rightarrow> u32 \<Rightarrow> u32 \<Rightarrow> (go_error, Rule) outcome" where
  "parseWords direction rowKey outerFilter innerFilter outerTreatment innerTreatment =
     (if outerFilter AND 0x00000fff \<noteq> 0
      then Err (Errorf ''outer filter reserved bits are non-zero'' [])
      else if outerTreatment AND 0x3ff00000 \<noteq> 0
      then Err (Errorf ''outer treatment reserved bits are non-zero'' [])
      else if innerTreatment AND 0xfff00000 \<noteq> 0
      then Err (Errorf ''inner treatment reserved bits are non-zero'' [])
      else let rule =
        \<lparr> Order = 0, RowKey = rowKey, Direction = direction,
          FilterOuter = decodeFilter outerFilter,
          FilterInner = decodeFilter innerFilter,
          EtherType = ucast innerFilter AND 0x0f,
          ExtendedCriteria = ucast (drop_bit 4 innerFilter) AND 0xff,
          TagsToRemove = ucast (drop_bit 30 outerTreatment),
          TreatmentOuter = decodeTreatment outerTreatment,
          TreatmentInner = decodeTreatment innerTreatment \<rparr> in
      failIf (validateFilter ''outer'' (FilterOuter rule)) (
      failIf (validateFilter ''inner'' (FilterInner rule)) (
      if EtherType rule > 5
      then Err (Errorf ''filter Ethertype %d is reserved'' [AU (EtherType rule)])
      else if ExtendedCriteria rule > 2
      then Err (Errorf ''extended criteria %d is reserved'' [AU (ExtendedCriteria rule)])
      else failIf (validateTreatment ''outer'' (TreatmentOuter rule)) (
      failIf (validateTreatment ''inner'' (TreatmentInner rule)) (
      Ok rule)))))"

definition ParseRow :: "bytes \<Rightarrow> bool \<Rightarrow> (go_error, Rule) outcome" where
  "ParseRow encoded enhanced =
     (let rowSize = (if enhanced then EnhancedRowSize else ClassicRowSize);
          wordOffset = (if enhanced then 4 else 0) in
      if length encoded \<noteq> rowSize
      then Err (Errorf ''row length is %d, want %d'' [AN (length encoded), AN rowSize])
      else bindR (if enhanced then parseHeader encoded else Ok (0, 0)) (\<lambda>(direction, rowKey).
      bindR (go_be32 encoded wordOffset) (\<lambda>outerFilter.
      bindR (go_be32 encoded (wordOffset + 4)) (\<lambda>innerFilter.
      bindR (go_be32 encoded (wordOffset + 8)) (\<lambda>outerTreatment.
      bindR (go_be32 encoded (wordOffset + 12)) (\<lambda>innerTreatment.
      parseWords direction rowKey outerFilter innerFilter outerTreatment innerTreatment))))))"

definition ParseRows :: "bytes \<Rightarrow> bool \<Rightarrow> (go_error, Rule list) outcome" where
  "ParseRows encoded enhanced =
     (let rowSize = (if enhanced then EnhancedRowSize else ClassicRowSize) in
      if length encoded mod rowSize \<noteq> 0
      then Err (Errorf ''VLAN table length %d is not a multiple of row size %d''
                  [AN (length encoded), AN rowSize])
      else foldRows rowSize (\<lambda>row rules.
             bindR (mapErr (\<lambda>e. Errorf ''VLAN rule %d: %w'' [AN (length rules), AErr e])
                      (ParseRow row enhanced))
               (\<lambda>rule. Ok (rules @ [rule\<lparr>Order := of_nat (length rules)\<rparr>])))
           encoded [])"

text \<open>The inner loop of \<open>DecodeDSCPMapping\<close>: three bits, most significant first.\<close>

definition dscpBit :: "bytes \<Rightarrow> nat \<Rightarrow> u8" where
  "dscpBit encoded position = drop_bit (7 - position mod 8) (encoded ! (position div 8)) AND 1"

definition dscpValue :: "bytes \<Rightarrow> nat \<Rightarrow> u8" where
  "dscpValue encoded dscp =
     fold (\<lambda>index acc. push_bit 1 acc OR dscpBit encoded (dscp * 3 + index)) [0..<3] 0"

definition DecodeDSCPMapping :: "bytes \<Rightarrow> (go_error, u8 list) outcome" where
  "DecodeDSCPMapping encoded =
     (if length encoded \<noteq> 24
      then Err (Errorf ''DSCP mapping length is %d, want 24'' [AN (length encoded)])
      else Ok (map (dscpValue encoded) [0..<64]))"

section \<open>Reference encoder\<close>

text \<open>The layout of Figures 9.3.13-1 and 9.3.13-2 of G.988, field by field.\<close>

definition filterWord :: "TagFilter \<Rightarrow> u32 \<Rightarrow> u32" where
  "filterWord f low = push_bit 28 (ucast (fPriority f)) OR push_bit 15 (ucast (fVID f))
     OR push_bit 12 (ucast (fTPIDDEI f)) OR low"

definition treatmentWord :: "u8 \<Rightarrow> TagTreatment \<Rightarrow> u32" where
  "treatmentWord remove t = push_bit 30 (ucast remove) OR push_bit 16 (ucast (tPriority t))
     OR push_bit 3 (ucast (tVID t)) OR ucast (tTPIDDEI t)"

definition criteriaBits :: "Rule \<Rightarrow> u32" where
  "criteriaBits r = push_bit 4 (ucast (ExtendedCriteria r)) OR ucast (EtherType r)"

definition headerWord :: "u8 \<Rightarrow> u16 \<Rightarrow> u32" where
  "headerWord direction rowKey = push_bit 28 (ucast direction) OR ucast rowKey"

definition encodeRow :: "bool \<Rightarrow> Rule \<Rightarrow> bytes" where
  "encodeRow enhanced r =
     (if enhanced then put32 (headerWord (Direction r) (RowKey r)) else [])
     @ put32 (filterWord (FilterOuter r) 0)
     @ put32 (filterWord (FilterInner r) (criteriaBits r))
     @ put32 (treatmentWord (TagsToRemove r) (TreatmentOuter r))
     @ put32 (treatmentWord 0 (TreatmentInner r))
     @ (if enhanced then replicate 8 0 else [])"

definition validFilter :: "TagFilter \<Rightarrow> bool" where
  "validFilter f = (fPriority f \<in> {0..8} \<union> {14, 15} \<and> fVID f \<in> {0..4096} - {4095}
     \<and> fTPIDDEI f \<in> {0} \<union> {4..7})"

definition validTreatment :: "TagTreatment \<Rightarrow> bool" where
  "validTreatment t = (tPriority t \<in> {0..10} \<union> {15} \<and> tVID t \<in> {0..4097} - {4095}
     \<and> tTPIDDEI t \<in> {0..7} - {5})"

definition validRule :: "bool \<Rightarrow> Rule \<Rightarrow> bool" where
  "validRule enhanced r =
     (Order r = 0 \<and> (if enhanced then Direction r < 3 else Direction r = 0 \<and> RowKey r = 0)
      \<and> validFilter (FilterOuter r) \<and> validFilter (FilterInner r)
      \<and> EtherType r \<le> 5 \<and> ExtendedCriteria r \<le> 2 \<and> TagsToRemove r < 4
      \<and> validTreatment (TreatmentOuter r) \<and> validTreatment (TreatmentInner r))"

text \<open>The position of each row, which \<open>ParseRows\<close> records as the rule's order (16 bits).\<close>

fun renumber :: "nat \<Rightarrow> Rule list \<Rightarrow> Rule list" where
  "renumber n [] = []"
| "renumber n (r # rs) = r\<lparr>Order := of_nat n\<rparr> # renumber (Suc n) rs"

section \<open>The words of a row\<close>

lemma vlan_masks:
  "(0x1fff :: 16 word) = mask 13" "(0x07 :: 8 word) = mask 3" "(0x0f :: 8 word) = mask 4"
  "(0x03 :: 8 word) = mask 2"
  "(0xfff :: 32 word) = mask 12" "(0x3ff00000 :: 32 word) = push_bit 20 (mask 10)"
  "(0xfff00000 :: 32 word) = push_bit 20 (mask 12)" "(0x0fff0000 :: 32 word) = push_bit 16 (mask 12)"
  "(0xff :: 8 word) = -1"
  by (simp_all add: mask_eq_decr_exp)

lemma validFilter_bounds:
  assumes "validFilter f"
  shows "fPriority f < 2 ^ 4" "fVID f < 2 ^ 13" "fTPIDDEI f < 2 ^ 3"
  using assms by (auto simp: validFilter_def word_le_nat_alt word_less_nat_alt)

lemma validTreatment_bounds:
  assumes "validTreatment t"
  shows "tPriority t < 2 ^ 4" "tVID t < 2 ^ 13" "tTPIDDEI t < 2 ^ 3"
  using assms by (auto simp: validTreatment_def word_le_nat_alt word_less_nat_alt)

lemma decodeFilter_filterWord:
  assumes "validFilter f" "low < 2 ^ 12"
  shows "decodeFilter (filterWord f low) = f"
proof -
  note b = validFilter_bounds [OF assms(1), THEN bit_below] assms(2) [THEN bit_below]
  note d = validFilter_bounds [OF assms(1), THEN bit_bound]
  have "fPriority (decodeFilter (filterWord f low)) = fPriority f"
    by (rule bit_word_eqI) (use b in \<open>auto simp: decodeFilter_def filterWord_def bit_simps dest: d\<close>)
  moreover have "fVID (decodeFilter (filterWord f low)) = fVID f"
    unfolding decodeFilter_def vlan_masks
    by (rule bit_word_eqI) (use b in \<open>auto simp: filterWord_def bit_simps not_less dest: d\<close>)
  moreover have "fTPIDDEI (decodeFilter (filterWord f low)) = fTPIDDEI f"
    unfolding decodeFilter_def vlan_masks
    by (rule bit_word_eqI) (use b in \<open>auto simp: filterWord_def bit_simps not_less dest: d\<close>)
  ultimately show ?thesis by (simp add: TagFilter.equality)
qed

lemma filterWord_decodeFilter: "filterWord (decodeFilter w) (w AND 0xfff) = w"
proof (rule bit_word_eqI)
  fix n :: nat assume "n < LENGTH(32)"
  then consider "n < 12" | "12 \<le> n" "n < 15" | "15 \<le> n" "n < 28" | "28 \<le> n" "n < 32"
    using not_less by auto
  then show "bit (filterWord (decodeFilter w) (w AND 0xfff)) n \<longleftrightarrow> bit w n"
    by cases (auto simp: filterWord_def decodeFilter_def vlan_masks bit_simps)
qed

lemma decodeTreatment_treatmentWord:
  assumes "validTreatment t" "remove < 4"
  shows "decodeTreatment (treatmentWord remove t) = t"
    and "ucast (drop_bit 30 (treatmentWord remove t)) = remove"
    and "treatmentWord remove t AND 0x3ff00000 = 0"
proof -
  have r: "remove < 2 ^ 2" using assms(2) by simp
  note b = validTreatment_bounds [OF assms(1), THEN bit_below] r [THEN bit_below]
  note d = validTreatment_bounds [OF assms(1), THEN bit_bound] r [THEN bit_bound]
  have "tPriority (decodeTreatment (treatmentWord remove t)) = tPriority t"
    unfolding decodeTreatment_def vlan_masks
    by (rule bit_word_eqI) (use b in \<open>auto simp: treatmentWord_def bit_simps not_less dest: d\<close>)
  moreover have "tVID (decodeTreatment (treatmentWord remove t)) = tVID t"
    unfolding decodeTreatment_def vlan_masks
    by (rule bit_word_eqI) (use b in \<open>auto simp: treatmentWord_def bit_simps not_less dest: d\<close>)
  moreover have "tTPIDDEI (decodeTreatment (treatmentWord remove t)) = tTPIDDEI t"
    unfolding decodeTreatment_def vlan_masks
    by (rule bit_word_eqI) (use b in \<open>auto simp: treatmentWord_def bit_simps not_less dest: d\<close>)
  ultimately show "decodeTreatment (treatmentWord remove t) = t" by (simp add: TagTreatment.equality)
  show "ucast (drop_bit 30 (treatmentWord remove t)) = remove"
    by (rule bit_word_eqI) (use b in \<open>auto simp: treatmentWord_def bit_simps not_less dest: d\<close>)
  show "treatmentWord remove t AND 0x3ff00000 = 0"
    unfolding vlan_masks
    by (rule bit_word_eqI) (use b in \<open>auto simp: treatmentWord_def bit_simps not_less dest: d\<close>)
qed

lemma treatmentWord_decodeTreatment:
  assumes "w AND 0x3ff00000 = 0"
  shows "treatmentWord (ucast (drop_bit 30 w)) (decodeTreatment w) = w"
proof (rule bit_word_eqI)
  fix n :: nat assume "n < LENGTH(32)"
  then consider "n < 3" | "3 \<le> n" "n < 16" | "16 \<le> n" "n < 20" | "20 \<le> n" "n < 30" | "30 \<le> n" "n < 32"
    using not_less by auto
  then show "bit (treatmentWord (ucast (drop_bit 30 w)) (decodeTreatment w)) n \<longleftrightarrow> bit w n"
    using and_field_zero [OF assms [unfolded vlan_masks], of n]
    by cases (auto simp: treatmentWord_def decodeTreatment_def vlan_masks bit_simps)
qed

lemma headerWord_fields:
  assumes "d < 3"
  shows "(ucast (drop_bit 30 (headerWord d k)) :: u8) = 0"
    and "(ucast (drop_bit 28 (headerWord d k)) :: u8) AND 0x03 = d"
    and "headerWord d k AND 0x0fff0000 = 0" and "ucast (headerWord d k) = k"
proof -
  have r: "d < 2 ^ 2" using assms by (simp add: word_less_nat_alt)
  note b = r [THEN bit_below] and d = r [THEN bit_bound]
  show "(ucast (drop_bit 30 (headerWord d k)) :: u8) = 0"
    by (rule bit_word_eqI)
      (use b in \<open>auto simp: headerWord_def bit_simps not_less dest: d bit_imp_le_length\<close>)
  show "(ucast (drop_bit 28 (headerWord d k)) :: u8) AND 0x03 = d"
    unfolding vlan_masks
    by (rule bit_word_eqI) (use b in \<open>auto simp: headerWord_def bit_simps not_less dest: d bit_imp_le_length\<close>)
  show "headerWord d k AND 0x0fff0000 = 0"
    unfolding vlan_masks
    by (rule bit_word_eqI) (use b in \<open>auto simp: headerWord_def bit_simps not_less dest: d bit_imp_le_length\<close>)
  show "ucast (headerWord d k) = k"
    by (rule bit_word_eqI) (use b in \<open>auto simp: headerWord_def bit_simps not_less dest: d\<close>)
qed

lemma headerWord_decoded:
  assumes "(ucast (drop_bit 30 w) :: u8) = 0" "w AND 0x0fff0000 = 0"
    and "d = ucast (drop_bit 28 w) AND 0x03" "k = ucast w"
  shows "headerWord d k = w"
proof (rule bit_word_eqI)
  have top: "\<not> bit w m" if "30 \<le> m" "m < 32" for m
  proof -
    have "bit (ucast (drop_bit 30 w) :: u8) (m - 30) = bit w m"
      using that less_diff_conv2 [of 30 m 8] by (auto simp: bit_simps)
    with assms(1) show ?thesis by simp
  qed
  fix n :: nat assume "n < LENGTH(32)"
  then consider "n < 16" | "16 \<le> n" "n < 28" | "28 \<le> n" "n < 30" | "30 \<le> n" "n < 32"
    using not_less by auto
  then show "bit (headerWord d k) n \<longleftrightarrow> bit w n"
    using and_field_zero [OF assms(2) [unfolded vlan_masks], of n] top [of n]
    by cases (auto simp: headerWord_def assms(3,4) vlan_masks bit_simps)
qed

lemma criteria_fields:
  assumes "EtherType r \<le> 5" "ExtendedCriteria r \<le> 2"
  shows "criteriaBits r < 2 ^ 12"
    and "(ucast (filterWord f (criteriaBits r)) :: u8) AND 0x0f = EtherType r"
    and "(ucast (drop_bit 4 (filterWord f (criteriaBits r))) :: u8) = ExtendedCriteria r"
proof -
  have r: "EtherType r < 2 ^ 4" "ExtendedCriteria r < 2 ^ 4"
    using assms by (auto simp: word_less_nat_alt word_le_nat_alt)
  note b = r [THEN bit_below] and d = r [THEN bit_bound]
  have "criteriaBits r = criteriaBits r AND mask 12"
    by (rule bit_word_eqI) (use b in \<open>auto simp: criteriaBits_def bit_simps not_less dest: d\<close>)
  then show "criteriaBits r < 2 ^ 12"
    using and_mask_less_size [of 12 "criteriaBits r"] by (simp add: word_size)
  show "(ucast (filterWord f (criteriaBits r)) :: u8) AND 0x0f = EtherType r"
    unfolding vlan_masks
    by (rule bit_word_eqI) (use b in \<open>auto simp: filterWord_def criteriaBits_def bit_simps not_less dest: d\<close>)
  show "(ucast (drop_bit 4 (filterWord f (criteriaBits r))) :: u8) = ExtendedCriteria r"
    by (rule bit_word_eqI) (use b in \<open>auto simp: filterWord_def criteriaBits_def bit_simps not_less dest: d\<close>)
qed

lemma criteriaBits_decoded:
  assumes "EtherType r = ucast w AND 0x0f" "ExtendedCriteria r = ucast (drop_bit 4 w)"
  shows "criteriaBits r = w AND 0xfff"
proof (rule bit_word_eqI)
  fix n :: nat assume "n < LENGTH(32)"
  then consider "n < 4" | "4 \<le> n" "n < 12" | "12 \<le> n" "n < 32"
    using not_less by auto
  then show "bit (criteriaBits r) n \<longleftrightarrow> bit (w AND 0xfff) n"
    by cases (auto simp: criteriaBits_def assms vlan_masks bit_simps)
qed

lemma validateFilter_iff: "fVID f < 2 ^ 13 \<Longrightarrow> fTPIDDEI f < 2 ^ 3 \<Longrightarrow> validateFilter name f = None \<longleftrightarrow> validFilter f"
  by (auto simp: validateFilter_def validFilter_def word_less_nat_alt word_le_nat_alt)

lemma validateTreatment_iff:
  "tTPIDDEI t < 2 ^ 3 \<Longrightarrow> validateTreatment name t = None \<longleftrightarrow> validTreatment t"
  by (auto simp: validateTreatment_def validTreatment_def word_less_nat_alt word_le_nat_alt)

lemma decode_bounds:
  "fVID (decodeFilter w) < 2 ^ 13" "fTPIDDEI (decodeFilter w) < 2 ^ 3"
  "tTPIDDEI (decodeTreatment w) < 2 ^ 3"
  unfolding decodeFilter_def decodeTreatment_def vlan_masks
  using and_mask_less_size [of 13 "ucast (drop_bit 15 w) :: u16"]
    and_mask_less_size [of 3 "ucast (drop_bit 12 w) :: u8"] and_mask_less_size [of 3 "ucast w :: u8"]
  by (simp_all add: word_size)

lemma length_encodeRow: "length (encodeRow e r) = (if e then EnhancedRowSize else ClassicRowSize)"
  by (simp add: encodeRow_def ClassicRowSize_def EnhancedRowSize_def)

lemma filterWord_0: "filterWord f 0 AND 0xfff = 0"
  unfolding vlan_masks by (rule bit_word_eqI) (auto simp: filterWord_def bit_simps)

lemma filterWord_0_iff:
  assumes "w AND 0xfff = 0"
  shows "filterWord (decodeFilter w) 0 = w"
  using filterWord_decodeFilter [of w] assms by simp

lemma treatmentWord_0: "validTreatment t \<Longrightarrow> treatmentWord 0 t AND 0xfff00000 = 0"
  unfolding vlan_masks
  by (rule bit_word_eqI) (auto simp: treatmentWord_def bit_simps not_less
      dest: validTreatment_bounds [THEN bit_bound] bit_imp_le_length)

lemma treatmentWord_0_iff:
  assumes "w AND 0xfff00000 = 0"
  shows "treatmentWord 0 (decodeTreatment w) = w"
proof -
  have "\<not> bit w (30 + n)" for n
    using and_field_zero [OF assms [unfolded vlan_masks], of "30 + n"] bit_imp_le_length [of w "30 + n"]
    by auto
  then have "ucast (drop_bit 30 w) = (0 :: u8)"
    by (intro bit_word_eqI) (simp add: bit_simps)
  moreover have "w AND 0x3ff00000 = 0"
    unfolding vlan_masks
    by (rule bit_word_eqI)
      (use and_field_zero [OF assms [unfolded vlan_masks]] in \<open>auto simp: bit_simps\<close>)
  ultimately show ?thesis using treatmentWord_decodeTreatment [of w] by simp
qed

lemma parseWords_iff:
  "parseWords d k ofl ifl otr itr = Ok r \<longleftrightarrow>
     validRule True r \<and> Direction r = d \<and> RowKey r = k
     \<and> filterWord (FilterOuter r) 0 = ofl
     \<and> filterWord (FilterInner r) (criteriaBits r) = ifl
     \<and> treatmentWord (TagsToRemove r) (TreatmentOuter r) = otr
     \<and> treatmentWord 0 (TreatmentInner r) = itr" (is "?L = ?R") if "d < 3"
proof
  assume ?L
  then have w: "ofl AND 0xfff = 0" "otr AND 0x3ff00000 = 0" "itr AND 0xfff00000 = 0"
    and r: "r = \<lparr> Order = 0, RowKey = k, Direction = d, FilterOuter = decodeFilter ofl,
          FilterInner = decodeFilter ifl, EtherType = ucast ifl AND 0x0f,
          ExtendedCriteria = ucast (drop_bit 4 ifl) AND 0xff,
          TagsToRemove = ucast (drop_bit 30 otr), TreatmentOuter = decodeTreatment otr,
          TreatmentInner = decodeTreatment itr \<rparr>"
    and v: "validateFilter ''outer'' (FilterOuter r) = None" "validateFilter ''inner'' (FilterInner r) = None"
      "validateTreatment ''outer'' (TreatmentOuter r) = None" "validateTreatment ''inner'' (TreatmentInner r) = None"
    and b: "EtherType r \<le> 5" "ExtendedCriteria r \<le> 2"
    by (auto simp: parseWords_def Let_def not_less split: if_splits)
  have valid: "validFilter (FilterOuter r)" "validFilter (FilterInner r)"
      "validTreatment (TreatmentOuter r)" "validTreatment (TreatmentInner r)"
    using v r validateFilter_iff [OF decode_bounds(1,2)] validateTreatment_iff [OF decode_bounds(3)]
    by auto
  have "TagsToRemove r AND mask 2 = TagsToRemove r"
    unfolding r by (rule bit_word_eqI) (auto simp: bit_simps dest: bit_imp_le_length)
  then have "TagsToRemove r < 4"
    using and_mask_less_size [of 2 "TagsToRemove r"] by (simp add: word_size)
  moreover have "criteriaBits r = ifl AND 0xfff"
    by (rule criteriaBits_decoded) (simp_all add: r vlan_masks)
  ultimately show ?R
    using valid b that w
    by (auto simp: validRule_def r filterWord_0_iff treatmentWord_0_iff treatmentWord_decodeTreatment
        filterWord_decodeFilter)
next
  assume R: ?R
  then have v: "validFilter (FilterOuter r)" "validFilter (FilterInner r)" "EtherType r \<le> 5"
      "ExtendedCriteria r \<le> 2" "TagsToRemove r < 4" "validTreatment (TreatmentOuter r)"
      "validTreatment (TreatmentInner r)" "Order r = 0" and d: "d = Direction r" "k = RowKey r"
    by (auto simp: validRule_def)
  have valid: "validateFilter n (FilterOuter r) = None" "validateFilter n (FilterInner r) = None"
      "validateTreatment n (TreatmentOuter r) = None" "validateTreatment n (TreatmentInner r) = None" for n
    using v validateFilter_iff [OF validFilter_bounds(2,3)] validateTreatment_iff [OF validTreatment_bounds(3)]
    by blast+
  have fields: "decodeFilter ofl = FilterOuter r" "decodeFilter ifl = FilterInner r"
      "decodeTreatment otr = TreatmentOuter r" "decodeTreatment itr = TreatmentInner r"
      "ucast (drop_bit 30 otr) = TagsToRemove r" "ofl AND 0xfff = 0" "otr AND 0x3ff00000 = 0"
      "itr AND 0xfff00000 = 0" "(ucast ifl :: u8) AND 0x0f = EtherType r"
      "(ucast (drop_bit 4 ifl) :: u8) = ExtendedCriteria r"
    using R v criteria_fields [of r] decodeTreatment_treatmentWord [of "TreatmentOuter r" "TagsToRemove r"]
      decodeTreatment_treatmentWord [of "TreatmentInner r" 0] decodeFilter_filterWord [of "FilterOuter r" 0]
      decodeFilter_filterWord [of "FilterInner r" "criteriaBits r"] treatmentWord_0 [of "TreatmentInner r"]
      filterWord_0 [of "FilterOuter r"]
    by auto
  show ?L
    using v by (simp add: parseWords_def fields valid d vlan_masks(9) Let_def not_less)
qed


lemma direction_bound:
  "(ucast (drop_bit 28 w) :: u8) AND 0x03 \<noteq> 3 \<Longrightarrow> (ucast (drop_bit 28 w) :: u8) AND 0x03 < 3"
  using and_mask_less_size [of 2 "ucast (drop_bit 28 w) :: u8"]
  unfolding vlan_masks by (simp add: word_size mask_eq_decr_exp) unat_arith

lemma parseHeader_iff:
  assumes "length enc = 28"
  shows "parseHeader enc = Ok (d, k) \<longleftrightarrow>
    d < 3 \<and> be32 enc 20 = 0 \<and> be32 enc 24 = 0 \<and> headerWord d k = be32 enc 0"
    (is "?L \<longleftrightarrow> ?R")
proof
  assume ?L
  then have "(ucast (drop_bit 30 (be32 enc 0)) :: u8) = 0" "be32 enc 0 AND 0x0fff0000 = 0"
      "d = ucast (drop_bit 28 (be32 enc 0)) AND 0x03" "k = ucast (be32 enc 0)" "d \<noteq> 3"
      "be32 enc 20 = 0" "be32 enc 24 = 0"
    using assms by (auto simp: parseHeader_def Let_def split: if_splits)
  then show ?R using headerWord_decoded direction_bound by auto
next
  assume R: ?R
  then show ?L
    using assms headerWord_fields [of d k] by (auto simp: parseHeader_def Let_def)
qed

lemma encodeRow_classic_iff:
  assumes "length enc = 16"
  shows "enc = encodeRow False r \<longleftrightarrow>
    be32 enc 0 = filterWord (FilterOuter r) 0 \<and>
    be32 enc 4 = filterWord (FilterInner r) (criteriaBits r) \<and>
    be32 enc 8 = treatmentWord (TagsToRemove r) (TreatmentOuter r) \<and>
    be32 enc 12 = treatmentWord 0 (TreatmentInner r)"
proof -
  have "enc = put32 (be32 enc 0) @ put32 (be32 enc 4) @ put32 (be32 enc 8) @ put32 (be32 enc 12)"
    using assms split_word [of 0 enc] split_word [of 4 enc] split_word [of 8 enc] split_word [of 12 enc]
    by simp
  then show ?thesis by (auto simp: encodeRow_def go_bytes)
qed

lemma encodeRow_enhanced_iff:
  assumes "length enc = 28"
  shows "enc = encodeRow True r \<longleftrightarrow>
    be32 enc 0 = headerWord (Direction r) (RowKey r) \<and>
    be32 enc 4 = filterWord (FilterOuter r) 0 \<and>
    be32 enc 8 = filterWord (FilterInner r) (criteriaBits r) \<and>
    be32 enc 12 = treatmentWord (TagsToRemove r) (TreatmentOuter r) \<and>
    be32 enc 16 = treatmentWord 0 (TreatmentInner r) \<and> be32 enc 20 = 0 \<and> be32 enc 24 = 0"
proof -
  have "enc = put32 (be32 enc 0) @ put32 (be32 enc 4) @ put32 (be32 enc 8) @ put32 (be32 enc 12)
      @ put32 (be32 enc 16) @ put32 (be32 enc 20) @ put32 (be32 enc 24)"
    using assms split_word [of 0 enc] split_word [of 4 enc] split_word [of 8 enc] split_word [of 12 enc]
      split_word [of 16 enc] split_word [of 20 enc] split_word [of 24 enc]
    by simp
  moreover have "put32 0 @ put32 0 = replicate 8 0" by (simp add: put32_def eval_nat_numeral)
  ultimately show ?thesis by (auto simp: encodeRow_def go_bytes be32_zeros)
qed

lemma validRule_classic:
  "validRule False r \<longleftrightarrow> validRule True r \<and> Direction r = 0 \<and> RowKey r = 0"
  by (auto simp: validRule_def)

lemma ParseRow_iff: "ParseRow enc e = Ok r \<longleftrightarrow> validRule e r \<and> enc = encodeRow e r"
proof (cases "length enc = (if e then EnhancedRowSize else ClassicRowSize)")
  case False
  then show ?thesis by (auto simp: ParseRow_def length_encodeRow)
next
  case len: True
  show ?thesis
  proof (cases e)
    case True
    with len have l: "length enc = 28" by (simp add: EnhancedRowSize_def)
    have "ParseRow enc e = Ok r \<longleftrightarrow> (\<exists>d k. parseHeader enc = Ok (d, k) \<and>
        parseWords d k (be32 enc 4) (be32 enc 8) (be32 enc 12) (be32 enc 16) = Ok r)"
      using True l by (auto simp: ParseRow_def EnhancedRowSize_def bindR_eq_Ok)
    also have "\<dots> \<longleftrightarrow> validRule True r \<and> enc = encodeRow True r"
      using parseHeader_iff [OF l] parseWords_iff encodeRow_enhanced_iff [OF l]
      by (auto simp: validRule_def)
    finally show ?thesis using True by simp
  next
    case False
    with len have l: "length enc = 16" by (simp add: ClassicRowSize_def)
    have "ParseRow enc e = Ok r \<longleftrightarrow>
        parseWords 0 0 (be32 enc 0) (be32 enc 4) (be32 enc 8) (be32 enc 12) = Ok r"
      using False l by (auto simp: ParseRow_def ClassicRowSize_def)
    also have "\<dots> \<longleftrightarrow> validRule False r \<and> enc = encodeRow False r"
      using parseWords_iff [of 0 0] encodeRow_classic_iff [OF l]
      by (auto simp: validRule_classic)
    finally show ?thesis using False by simp
  qed
qed


section \<open>Rows and tables\<close>

lemma parseWords_no_panic: "parseWords d k ofl ifl otr itr \<noteq> Panic"
  by (simp add: parseWords_def Let_def)

lemma ParseRow_no_panic: "ParseRow enc e \<noteq> Panic"
  by (auto simp: ParseRow_def parseHeader_def Let_def ClassicRowSize_def EnhancedRowSize_def
      bindR_eq_Panic parseWords_no_panic split: if_splits prod.splits)

lemma rows_loop_iff:
  "foldR (\<lambda>row rules.
      bindR (mapErr (\<lambda>x. Errorf ''VLAN rule %d: %w'' [AN (length rules), AErr x]) (ParseRow row e))
        (\<lambda>rule. Ok (rules @ [rule\<lparr>Order := of_nat (length rules)\<rparr>]))) rows acc = Ok rs
   \<longleftrightarrow> (\<exists>base. (list_all (validRule e) base) \<and> rows = map (encodeRow e) base
        \<and> rs = acc @ renumber (length acc) base)"
proof (induction rows arbitrary: acc)
  case Nil
  then show ?case by auto
next
  case (Cons row rows)
  let ?f = "\<lambda>row rules.
      bindR (mapErr (\<lambda>x. Errorf ''VLAN rule %d: %w'' [AN (length rules), AErr x]) (ParseRow row e))
        (\<lambda>rule. Ok (rules @ [rule\<lparr>Order := of_nat (length rules)\<rparr>]))"
  show ?case (is "?A \<longleftrightarrow> ?B")
  proof
    assume ?A
    then obtain r base where "validRule e r" "row = encodeRow e r" "list_all (validRule e) base"
        "rows = map (encodeRow e) base"
        "rs = (acc @ [r\<lparr>Order := of_nat (length acc)\<rparr>]) @ renumber (Suc (length acc)) base"
      by (auto simp: bindR_eq_Ok ParseRow_iff Cons.IH)
    then show ?B by (intro exI [of _ "r # base"]) simp
  next
    assume ?B
    then obtain r base where "validRule e r" "row = encodeRow e r" "list_all (validRule e) base"
        "rows = map (encodeRow e) base"
        "rs = acc @ r\<lparr>Order := of_nat (length acc)\<rparr> # renumber (Suc (length acc)) base"
      by (auto simp: Cons_eq_map_conv)
    note parts = this
    from parts(1,2) have "ParseRow row e = Ok r" by (simp add: ParseRow_iff)
    moreover have "foldR ?f rows (acc @ [r\<lparr>Order := of_nat (length acc)\<rparr>]) = Ok rs"
      unfolding Cons.IH using parts by (intro exI [of _ base]) simp
    ultimately show ?A by simp
  qed
qed

lemma length_concat_encodeRow:
  "length (concat (map (encodeRow e) base)) =
     length base * (if e then EnhancedRowSize else ClassicRowSize)"
  by (induction base) (simp_all add: length_encodeRow)

lemma row_size_pos: "0 < (if e then EnhancedRowSize else ClassicRowSize)"
  by (simp add: EnhancedRowSize_def ClassicRowSize_def)

lemma ParseRows_loop:
  assumes "length enc mod (if e then EnhancedRowSize else ClassicRowSize) = 0"
  shows "ParseRows enc e = foldR (\<lambda>row rules.
      bindR (mapErr (\<lambda>x. Errorf ''VLAN rule %d: %w'' [AN (length rules), AErr x]) (ParseRow row e))
        (\<lambda>rule. Ok (rules @ [rule\<lparr>Order := of_nat (length rules)\<rparr>])))
      (chunks (if e then EnhancedRowSize else ClassicRowSize) enc) []"
  using assms by (simp only: ParseRows_def Let_def foldRows_chunks [OF row_size_pos assms] simp_thms if_False)

lemma ParseRows_iff:
  "ParseRows enc e = Ok rs \<longleftrightarrow> (\<exists>base. (list_all (validRule e) base)
     \<and> enc = concat (map (encodeRow e) base) \<and> rs = renumber 0 base)"
proof (cases "length enc mod (if e then EnhancedRowSize else ClassicRowSize) = 0")
  case True
  let ?n = "if e then EnhancedRowSize else ClassicRowSize"
  have ch: "chunks ?n enc = map (encodeRow e) base \<longleftrightarrow> enc = concat (map (encodeRow e) base)" for base
    using concat_chunks [OF row_size_pos, of e enc] chunks_concat [OF row_size_pos, of "map (encodeRow e) base" e]
    by (auto simp: length_encodeRow)
  show ?thesis by (simp only: ParseRows_loop [OF True] rows_loop_iff ch append_Nil list.size)
next
  case False
  then have "\<forall>base. enc \<noteq> concat (map (encodeRow e) base)"
    by (metis length_concat_encodeRow mod_mult_self2_is_0)
  with False show ?thesis by (simp add: ParseRows_def Let_def)
qed

lemma ParseRows_no_panic: "ParseRows enc e \<noteq> Panic"
proof (cases "length enc mod (if e then EnhancedRowSize else ClassicRowSize) = 0")
  case True
  show ?thesis
    unfolding ParseRows_loop [OF True]
    by (rule foldR_no_panic [where P = "\<lambda>_. True"]) (auto simp: bindR_eq_Panic ParseRow_no_panic)
qed (simp add: ParseRows_def Let_def)

lemma dscpBit_of_bool: "dscpBit enc p = of_bool (bit (enc ! (p div 8)) (7 - p mod 8))"
  by (simp add: dscpBit_def and_one_eq mod_2_eq_odd bit_iff_odd_drop_bit)

lemma three_bits:
  "fold (\<lambda>i acc. push_bit 1 acc OR of_bool (b i)) [0..<3] (0 :: u8)
     = of_bool (b 0) * 4 + of_bool (b 1) * 2 + of_bool (b 2)"
proof -
  have "[0..<3] = [0, 1, 2 :: nat]" by (simp add: upt_rec)
  then show ?thesis by (cases "b 0"; cases "b 1"; cases "b 2") simp_all
qed

lemma three_bits_inj:
  "of_bool a * 4 + of_bool b * 2 + of_bool c = (of_bool a' * 4 + of_bool b' * 2 + of_bool c' :: u8)
    \<longleftrightarrow> a = a' \<and> b = b' \<and> c = c'"
  by (cases a; cases a'; cases b; cases b'; cases c; cases c') simp_all

lemma three_bits_less: "of_bool a * 4 + of_bool b * 2 + of_bool c < (8 :: u8)"
  by (cases a; cases b; cases c) simp_all

text \<open>Bit \<open>p\<close> of an octet string, counted from the most significant bit of its first octet.\<close>

abbreviation mapBit :: "bytes \<Rightarrow> nat \<Rightarrow> bool" where
  "mapBit enc p \<equiv> bit (enc ! (p div 8)) (7 - p mod 8)"

lemma dscpValue_bits:
  "dscpValue enc d = of_bool (mapBit enc (d * 3)) * 4 + of_bool (mapBit enc (d * 3 + 1)) * 2
     + of_bool (mapBit enc (d * 3 + 2))"
  unfolding dscpValue_def dscpBit_of_bool by (subst three_bits) simp

lemma bytes_eq_by_bits:
  assumes "length a = 24" "length b = 24" "\<And>p. p < 192 \<Longrightarrow> mapBit a p = mapBit b p"
  shows "a = b"
proof (rule nth_equalityI)
  fix i assume "i < length a"
  with assms have i: "i < 24" by simp
  show "a ! i = b ! i"
  proof (rule bit_word_eqI)
    fix n :: nat assume "n < LENGTH(8)"
    then have n: "n < 8" by simp
    obtain m where m: "m < 8" "7 - m = n" using n by (intro that [of "7 - n"]) auto
    then have "(i * 8 + m) div 8 = i" "7 - (i * 8 + m) mod 8 = n" "i * 8 + m < 192"
      using i by auto
    with assms(3) [of "i * 8 + m"] show "bit (a ! i) n \<longleftrightarrow> bit (b ! i) n" by simp
  qed
qed (use assms in simp)

lemma dscp_value_below_8: "dscpValue enc d < 8"
  unfolding dscpValue_bits by (rule three_bits_less)

section \<open>Properties\<close>

text \<open>
  C14. A row is accepted exactly when it is the encoding of a rule whose fields are in their
  domains, the rule returned is that rule, and no input makes the decoder leave its slice. So
  decoding loses nothing and every stored row has one meaning.
\<close>

theorem vlan_row_exact:
  "ParseRow enc e \<noteq> Panic \<and> (ParseRow enc e = Ok r \<longleftrightarrow> validRule e r \<and> enc = encodeRow e r)"
  by (simp add: ParseRow_no_panic ParseRow_iff)

text \<open>
  A table is accepted exactly when it is a sequence of valid rows; the rules returned are the
  rules of the rows, each with its position as its order.
\<close>

theorem vlan_table_exact:
  "ParseRows enc e \<noteq> Panic \<and>
   (ParseRows enc e = Ok rs \<longleftrightarrow> (\<exists>base. list_all (validRule e) base
      \<and> enc = concat (map (encodeRow e) base) \<and> rs = renumber 0 base))"
  by (simp add: ParseRows_no_panic ParseRows_iff)

text \<open>
  Two DSCP attributes that decode to the same map are equal: the 64 three-bit values are the
  192 bits of the attribute, none dropped and none read twice.
\<close>

theorem dscp_map_lossless:
  assumes "DecodeDSCPMapping a = Ok m" "DecodeDSCPMapping b = Ok m"
  shows "a = b"
proof -
  from assms have len: "length a = 24" "length b = 24"
    and eq: "map (dscpValue a) [0..<64] = map (dscpValue b) [0..<64]"
    by (auto simp: DecodeDSCPMapping_def split: if_splits)
  have bits: "mapBit a (d * 3 + j) = mapBit b (d * 3 + j)" if "d < 64" "j < 3" for d j
  proof -
    have "dscpValue a d = dscpValue b d" using eq that(1) by (simp add: map_eq_conv)
    then have "mapBit a (d * 3) = mapBit b (d * 3) \<and> mapBit a (d * 3 + 1) = mapBit b (d * 3 + 1)
        \<and> mapBit a (d * 3 + 2) = mapBit b (d * 3 + 2)"
      unfolding dscpValue_bits three_bits_inj .
    moreover from that(2) have "j = 0 \<or> j = 1 \<or> j = 2" by auto
    ultimately show ?thesis by auto
  qed
  show ?thesis
  proof (rule bytes_eq_by_bits [OF len])
    fix p :: nat assume "p < 192"
    then show "mapBit a p = mapBit b p" using bits [of "p div 3" "p mod 3"] by simp
  qed
qed

theorem dscp_map_lossless_witness:
  "DecodeDSCPMapping (replicate 24 0x53) = Ok (map (dscpValue (replicate 24 0x53)) [0..<64])
   \<and> replicate 24 (0x53 :: u8) = replicate 24 0x53"
proof -
  have h: "DecodeDSCPMapping (replicate 24 0x53) = Ok (map (dscpValue (replicate 24 0x53)) [0..<64])"
    by (simp add: DecodeDSCPMapping_def)
  show ?thesis using h dscp_map_lossless [OF h h] by simp
qed

end
