(* ===== verification/Transport.thy ===== *)
theory Transport
  imports Prelude
begin

unbundle bit_operations_syntax

text \<open>
  Package \<open>transport\<close> (src/internal/transport/transport.go and device.go): OMCI frames and the
  records of the secure OMCC character device. The theory shows that only a device that reports
  both directions secured is accepted, that a frame is marked as verified only when the driver's
  record says so in every field, and what the two record codecs compute.
\<close>

section \<open>Frames and capabilities\<close>

definition MaxFrameSize :: nat where "MaxFrameSize = 1980"

definition MaxDeviceContentSize :: nat where "MaxDeviceContentSize = MaxFrameSize - 4"

record Frame =
  Contents :: bytes
  MICVerified :: bool
  InstanceGeneration :: u64
  SessionGeneration :: u64

record Capabilities =
  VerifiedDownstreamMIC :: bool
  SignedUpstreamMIC :: bool

definition SecureOMCC :: "Capabilities \<Rightarrow> bool" where
  "SecureOMCC c = (VerifiedDownstreamMIC c \<and> SignedUpstreamMIC c)"

definition zeroFrame :: Frame where
  "zeroFrame = \<lparr> Contents = [], MICVerified = False, InstanceGeneration = 0, SessionGeneration = 0 \<rparr>"

section \<open>The secure device\<close>

definition deviceABIVersion :: "'a::len word" where "deviceABIVersion = 3"
definition deviceMagic :: u32 where "deviceMagic = 0x584f4d43"
definition deviceHeaderSize :: nat where "deviceHeaderSize = 28"
definition deviceDirectionRX :: u8 where "deviceDirectionRX = 1"
definition deviceDirectionTX :: u8 where "deviceDirectionTX = 2"
definition deviceFlagMICVerified :: u16 where "deviceFlagMICVerified = 1"
definition deviceFlagTrailerStripped :: u16 where "deviceFlagTrailerStripped = push_bit 1 1"
definition deviceInfoVersionMask :: u32 where "deviceInfoVersionMask = 0xff"
definition deviceInfoVerifiedDownstream :: u32 where "deviceInfoVerifiedDownstream = push_bit 8 1"
definition deviceInfoSignedUpstream :: u32 where "deviceInfoSignedUpstream = push_bit 9 1"
definition deviceInfoAllowed :: u32 where
  "deviceInfoAllowed =
     deviceInfoVersionMask OR deviceInfoVerifiedDownstream OR deviceInfoSignedUpstream"

lemmas device_constants = deviceABIVersion_def deviceMagic_def deviceHeaderSize_def
  deviceDirectionRX_def deviceDirectionTX_def deviceFlagMICVerified_def
  deviceFlagTrailerStripped_def deviceInfoVersionMask_def deviceInfoVerifiedDownstream_def
  deviceInfoSignedUpstream_def deviceInfoAllowed_def MaxDeviceContentSize_def MaxFrameSize_def

definition parseDeviceInfo :: "u32 \<Rightarrow> (go_error, Capabilities) outcome" where
  "parseDeviceInfo info =
     (let version = info AND deviceInfoVersionMask in
      if version \<noteq> deviceABIVersion
      then Err (Errorf ''unsupported secure OMCC ABI version %d'' [AU version])
      else if info AND NOT deviceInfoAllowed \<noteq> 0
      then Err (Errorf ''secure OMCC ABI reports unknown capabilities %#x'' [AU info])
      else let capabilities =
        \<lparr> VerifiedDownstreamMIC = info AND deviceInfoVerifiedDownstream \<noteq> 0,
          SignedUpstreamMIC = info AND deviceInfoSignedUpstream \<noteq> 0 \<rparr> in
      if \<not> SecureOMCC capabilities
      then Err (Errorf ''secure OMCC device lacks required capabilities %#x'' [AU info])
      else Ok capabilities)"

definition decodeDeviceRX :: "bytes \<Rightarrow> (go_error, Frame) outcome" where
  "decodeDeviceRX rec =
     (if length rec < deviceHeaderSize
      then Err (Errorf ''short secure OMCC record: %d bytes'' [AN (length rec)])
      else bindR (go_be32 rec 0) (\<lambda>magic.
      if magic \<noteq> deviceMagic then Err (Errorf ''invalid secure OMCC record magic'' [])
      else bindR (go_index rec 4) (\<lambda>version.
      if version \<noteq> deviceABIVersion
      then Err (Errorf ''unsupported secure OMCC record version %d'' [AU version])
      else bindR (go_index rec 5) (\<lambda>direction.
      if direction \<noteq> deviceDirectionRX
      then Err (Errorf ''invalid secure OMCC receive direction %d'' [AU direction])
      else bindR (go_be16 rec 6) (\<lambda>flags.
      let wantFlags = deviceFlagMICVerified OR deviceFlagTrailerStripped in
      if flags \<noteq> wantFlags
      then Err (Errorf ''untrusted secure OMCC receive flags %#x'' [AU flags])
      else bindR (go_be16 rec 8) (\<lambda>len16.
      let len = unat len16 in
      bindR (go_be16 rec 10) (\<lambda>reserved.
      if reserved \<noteq> 0
      then Err (Errorf ''secure OMCC record reserved field is non-zero'' [])
      else if len < 4 \<or> len > MaxDeviceContentSize \<or> length rec \<noteq> deviceHeaderSize + len
      then Err (Errorf ''invalid secure OMCC frame length %d in %d-byte record''
                  [AN len, AN (length rec)])
      else bindR (go_be64 rec 12) (\<lambda>instance.
      bindR (go_be64 rec 20) (\<lambda>session.
      Ok \<lparr> Contents = drop deviceHeaderSize rec, MICVerified = True,
           InstanceGeneration = instance, SessionGeneration = session \<rparr>)))))))))"

text \<open>The record is allocated zeroed and its fields are stored one by one.\<close>

definition encodeDeviceTX :: "bytes \<Rightarrow> (go_error, bytes) outcome" where
  "encodeDeviceTX frame =
     (if length frame < 4 \<or> length frame > MaxDeviceContentSize
      then Err (Errorf ''invalid OMCI frame length %d'' [AN (length frame)])
      else let rec0 = replicate (deviceHeaderSize + length frame) 0;
               rec1 = overwrite 0 (put32 deviceMagic) rec0;
               rec2 = rec1[4 := deviceABIVersion];
               rec3 = rec2[5 := deviceDirectionTX];
               rec4 = overwrite 8 (put16 (of_nat (length frame))) rec3
           in Ok (overwrite deviceHeaderSize frame rec4))"

section \<open>Reference record layout\<close>

definition deviceRecord :: "u8 \<Rightarrow> u16 \<Rightarrow> u64 \<Rightarrow> u64 \<Rightarrow> bytes \<Rightarrow> bytes" where
  "deviceRecord direction flags instance session contents =
     put32 deviceMagic @ [deviceABIVersion, direction] @ put16 flags
     @ put16 (of_nat (length contents)) @ put16 0 @ put64 instance @ put64 session @ contents"

section \<open>Lemmas\<close>

lemma length_deviceRecord [simp]:
  "length (deviceRecord dir flags i s c) = deviceHeaderSize + length c"
  by (simp add: deviceRecord_def device_constants)

lemma zero_header:
  "replicate (28 + n) (0 :: u8) = 0 # 0 # 0 # 0 # 0 # 0 # 0 # 0 # 0 # 0 # 0 # 0 # 0 # 0 # 0 # 0
     # 0 # 0 # 0 # 0 # 0 # 0 # 0 # 0 # 0 # 0 # 0 # 0 # replicate n 0"
  by (simp add: replicate_add numeral_eq_Suc)

lemma encodeDeviceTX_record:
  assumes "4 \<le> length frame" "length frame \<le> MaxDeviceContentSize"
  shows "encodeDeviceTX frame = Ok (deviceRecord deviceDirectionTX 0 0 0 frame)"
proof -
  have "overwrite 28 frame (overwrite 8 (put16 l) ((overwrite 0 (put32 m) (replicate (28 + length frame) 0))
      [4 := 3, 5 := 2])) = put32 m @ [3, 2, 0, 0] @ put16 l @ replicate 18 0 @ frame" for l m
    by (simp add: overwrite_def zero_header put32_def put16_def numeral_eq_Suc)
  moreover have "put16 0 @ put64 0 @ put64 0 = replicate 18 0"
    by (simp add: put16_def put32_def put64_def numeral_eq_Suc)
  ultimately show ?thesis
    using assms by (simp add: encodeDeviceTX_def deviceRecord_def device_constants put16_def [of 0])
qed

text \<open>A received record is accepted exactly when every field of it is what a trusted driver writes.\<close>

lemma decodeDeviceRX_deviceRecord:
  assumes "4 \<le> length c" "length c \<le> MaxDeviceContentSize"
  shows "decodeDeviceRX (deviceRecord deviceDirectionRX 3 i s c) =
    Ok \<lparr> Contents = c, MICVerified = True, InstanceGeneration = i, SessionGeneration = s \<rparr>"
proof -
  have "unat (of_nat (length c) :: u16) = length c"
    using assms by (simp add: device_constants unat_of_nat take_bit_nat_eq_self)
  with assms show ?thesis
    by (simp add: decodeDeviceRX_def deviceRecord_def device_constants go_bytes nth_append Let_def)
qed

lemma decodeDeviceRX_Ok:
  assumes "decodeDeviceRX rec = Ok f"
  shows "rec = deviceRecord deviceDirectionRX 3 (InstanceGeneration f) (SessionGeneration f) (Contents f)"
    and "4 \<le> length (Contents f)" and "length (Contents f) \<le> MaxDeviceContentSize" and "MICVerified f"
proof -
  from assms have len: "28 \<le> length rec"
    by (auto simp: decodeDeviceRX_def device_constants split: if_splits)
  with assms have fields: "be32 rec 0 = deviceMagic" "rec ! 4 = 3" "rec ! 5 = 1" "be16 rec 6 = 3"
      "be16 rec 10 = 0" "4 \<le> unat (be16 rec 8)" "unat (be16 rec 8) \<le> 1976"
      "length rec = 28 + unat (be16 rec 8)"
    and f: "f = \<lparr> Contents = drop 28 rec, MICVerified = True,
           InstanceGeneration = be64 rec 12, SessionGeneration = be64 rec 20 \<rparr>"
    by (auto simp: decodeDeviceRX_def device_constants Let_def split: if_splits)
  have "rec = put32 (be32 rec 0) @ rec ! 4 # rec ! 5 # put16 (be16 rec 6) @ put16 (be16 rec 8)
      @ put16 (be16 rec 10) @ put64 (be64 rec 12) @ put64 (be64 rec 20) @ drop 28 rec"
    using len split_word [of 0 rec] split_byte [of 4 rec] split_byte [of 5 rec] split_half [of 6 rec]
      split_half [of 8 rec] split_half [of 10 rec] split_double [of 12 rec] split_double [of 20 rec]
    by simp
  moreover have "be16 rec 8 = of_nat (length (drop 28 rec))"
    using fields by simp
  ultimately show "rec = deviceRecord deviceDirectionRX 3 (InstanceGeneration f) (SessionGeneration f) (Contents f)"
    using fields(1-5) by (simp add: f deviceRecord_def deviceABIVersion_def deviceDirectionRX_def)
  show "4 \<le> length (Contents f)" "length (Contents f) \<le> MaxDeviceContentSize" "MICVerified f"
    using fields f by (simp_all add: device_constants)
qed

lemma decodeDeviceRX_no_panic: "decodeDeviceRX rec \<noteq> Panic"
  by (auto simp: decodeDeviceRX_def device_constants Let_def bindR_eq_Panic)

lemma parseDeviceInfo_iff:
  "parseDeviceInfo info = Ok c \<longleftrightarrow> info = 0x303 \<and> c = \<lparr> VerifiedDownstreamMIC = True, SignedUpstreamMIC = True \<rparr>"
proof
  assume ok: "parseDeviceInfo info = Ok c"
  then have v: "info AND 0xff = 3" "info AND NOT 0x3ff = 0" "info AND 0x100 \<noteq> 0" "info AND 0x200 \<noteq> 0"
    and c: "c = \<lparr> VerifiedDownstreamMIC = True, SignedUpstreamMIC = True \<rparr>"
    by (auto simp: parseDeviceInfo_def device_constants Let_def SecureOMCC_def split: if_splits)
  show "info = 0x303 \<and> c = \<lparr> VerifiedDownstreamMIC = True, SignedUpstreamMIC = True \<rparr>"
  proof -
    have one: "w AND push_bit k 1 = push_bit k 1" if "w AND push_bit k 1 \<noteq> 0" for w :: u32 and k
    proof -
      have "bit w k" using that bit_iff_and_push_bit_not_eq_0 [of w k] by blast
      then show ?thesis by (intro bit_word_eqI) (auto simp: bit_simps)
    qed
    have "info = (info AND 0xff) OR (info AND 0x100) OR (info AND 0x200) OR (info AND NOT 0x3ff)"
      by (simp flip: bit.conj_disj_distrib)
    with v one [of info 8] one [of info 9] c show ?thesis by simp
  qed
next
  assume "info = 0x303 \<and> c = \<lparr> VerifiedDownstreamMIC = True, SignedUpstreamMIC = True \<rparr>"
  then show "parseDeviceInfo info = Ok c"
    by (simp add: parseDeviceInfo_def device_constants Let_def SecureOMCC_def)
qed

section \<open>Properties\<close>

text \<open>
  C36. The receive decoder of the secure device never leaves its record, and it yields a frame
  exactly when the record is the trusted driver's record of that frame: magic, version,
  direction, both trust flags and no others, zero reserved field, exact length. In particular a
  frame is marked MIC-verified only under those flags, and its generations are the record's.
\<close>

theorem device_rx_exact:
  "decodeDeviceRX rec \<noteq> Panic \<and>
   (decodeDeviceRX rec = Ok f \<longleftrightarrow>
      rec = deviceRecord deviceDirectionRX 3 (InstanceGeneration f) (SessionGeneration f) (Contents f)
      \<and> length (Contents f) \<in> {4..MaxDeviceContentSize} \<and> MICVerified f)"
  using decodeDeviceRX_Ok [of rec f] decodeDeviceRX_deviceRecord [of "Contents f"]
  by (auto simp: decodeDeviceRX_no_panic)

text \<open>
  The only device information word that is accepted reports ABI version 3 with both
  directions secured; every other word is refused, unknown capability bits included.
\<close>

theorem device_info_exact:
  "parseDeviceInfo info = Ok c \<longleftrightarrow>
     info = 0x303 \<and> c = \<lparr> VerifiedDownstreamMIC = True, SignedUpstreamMIC = True \<rparr>"
  by (rule parseDeviceInfo_iff)

end
