(* ===== verification/Transaction.thy ===== *)
theory Transaction
  imports Transport
begin

unbundle bit_operations_syntax

text \<open>
  Package \<open>transaction\<close> (src/internal/transaction/dispatcher.go): the bounded two-class frame queue
  and the dispatcher goroutine that drains the OMCC receive path. The locales \<open>service_queue\<close> and
  \<open>bounded_priority_queue\<close> state the queue's contract over the sequence of frames in service order;
  the interpretation \<open>fq\<close> discharges it for \<open>frameQueue\<close>. The goroutine's \<open>select\<close> loop is a
  step relation, one rule per case, and it refines a specification over that sequence.
\<close>

section \<open>The frame queue\<close>

definition ErrQueueFull :: go_error where
  "ErrQueueFull = Errorf ''OMCI transaction queue is full'' []"

record frameQueue =
  capacity :: int
  high :: "Frame list"
  normal :: "Frame list"

definition newFrameQueue :: "int \<Rightarrow> (go_error, frameQueue) outcome" where
  "newFrameQueue cap =
     (if cap \<le> 0 then Err (Errorf ''OMCI transaction queue capacity must be positive'' [])
      else Ok \<lparr> capacity = cap, high = [], normal = [] \<rparr>)"

definition queueLength :: "frameQueue \<Rightarrow> nat" where
  "queueLength q = length (high q) + length (normal q)"

definition BaselineIdent :: u8 where "BaselineIdent = 0x0A"

definition isBaselineHighPriority :: "Frame \<Rightarrow> bool" where
  "isBaselineHighPriority frame =
     (let contents = Contents frame in
      4 \<le> length contents \<and> contents ! 3 = BaselineIdent \<and> be16 contents 0 AND 0x8000 \<noteq> 0)"

text \<open>\<open>cloneFrame\<close> copies the contents; lists are values, so the copy is the frame itself.\<close>

definition cloneFrame :: "Frame \<Rightarrow> Frame" where
  "cloneFrame frame = frame\<lparr>Contents := [] @ Contents frame\<rparr>"

definition push :: "Frame \<Rightarrow> frameQueue \<Rightarrow> (go_error, frameQueue) outcome" where
  "push frame0 q =
     (if int (queueLength q) \<ge> capacity q
      then Err (Errorf ''%w: capacity %d'' [AErr ErrQueueFull, AInt (capacity q)])
      else let frame = cloneFrame frame0 in
        if isBaselineHighPriority frame then Ok (q\<lparr>high := high q @ [frame]\<rparr>)
        else Ok (q\<lparr>normal := normal q @ [frame]\<rparr>))"

definition peek :: "frameQueue \<Rightarrow> Frame" where
  "peek q = (case high q of f # _ \<Rightarrow> f | [] \<Rightarrow> (case normal q of f # _ \<Rightarrow> f | [] \<Rightarrow> zeroFrame))"

definition pop :: "frameQueue \<Rightarrow> frameQueue" where
  "pop q = (case high q of _ # fs \<Rightarrow> q\<lparr>high := fs\<rparr>
            | [] \<Rightarrow> (case normal q of _ # fs \<Rightarrow> q\<lparr>normal := fs\<rparr> | [] \<Rightarrow> q))"

definition clear :: "frameQueue \<Rightarrow> frameQueue" where
  "clear q = q\<lparr>high := [], normal := []\<rparr>"

section \<open>The dispatcher\<close>

text \<open>
  The state of the goroutine \<open>run\<close>: its local generation, the queue, the generation it has
  published atomically, what it has put into the error channel (capacity 1), and whether it is
  still running.
\<close>

record Dispatcher =
  generation :: u64
  queue :: frameQueue
  published :: u64
  errors :: "go_error list"
  running :: bool

definition newDispatcher :: "int \<Rightarrow> (go_error, Dispatcher) outcome" where
  "newDispatcher cap = bindR (newFrameQueue cap) (\<lambda>q.
     Ok \<lparr> generation = 0, queue = q, published = 0, errors = [], running = True \<rparr>)"

text \<open>
  What another goroutine can do to the dispatcher: reset it, offer it a frame received under some
  generation, take a frame from it, or cancel its context.
\<close>

datatype event = Reset | Ingress u64 Frame | Deliver Frame | Cancel

inductive step :: "Dispatcher \<Rightarrow> event \<Rightarrow> Dispatcher \<Rightarrow> bool" where
  cancelled: "running d \<Longrightarrow> step d Cancel (d\<lparr>running := False\<rparr>)"
| reset: "running d \<Longrightarrow> g = generation d + 1 \<Longrightarrow>
     step d Reset (d\<lparr>generation := g, queue := clear (queue d), published := g\<rparr>)"
| stale: "running d \<Longrightarrow> g \<noteq> generation d \<Longrightarrow> step d (Ingress g frame) d"
| accepted: "running d \<Longrightarrow> g = generation d \<Longrightarrow> push (cloneFrame frame) (queue d) = Ok q \<Longrightarrow>
     step d (Ingress g frame) (d\<lparr>queue := q\<rparr>)"
| overflow: "running d \<Longrightarrow> g = generation d \<Longrightarrow> push (cloneFrame frame) (queue d) = Err e \<Longrightarrow>
     step d (Ingress g frame) (d\<lparr>errors := errors d @ [e], running := False\<rparr>)"
| overflow_cancelled: "running d \<Longrightarrow> g = generation d \<Longrightarrow> push (cloneFrame frame) (queue d) = Err e \<Longrightarrow>
     step d (Ingress g frame) (d\<lparr>running := False\<rparr>)"
| deliver: "running d \<Longrightarrow> queueLength (queue d) \<noteq> 0 \<Longrightarrow> frame = peek (queue d) \<Longrightarrow>
     step d (Deliver frame) (d\<lparr>queue := pop (queue d)\<rparr>)"

inductive run :: "Dispatcher \<Rightarrow> event list \<Rightarrow> Dispatcher \<Rightarrow> bool" for d0 where
  start: "run d0 [] d0"
| snoc: "run d0 evs d \<Longrightarrow> step d ev d' \<Longrightarrow> run d0 (evs @ [ev]) d'"

inductive_cases step_CancelE: "step d Cancel d'"
inductive_cases step_ResetE: "step d Reset d'"
inductive_cases step_IngressE: "step d (Ingress g frame) d'"
inductive_cases step_DeliverE: "step d (Deliver frame) d'"

lemmas step_elims = step_CancelE step_ResetE step_IngressE step_DeliverE

inductive_simps run_Nil [simp]: "run d0 [] d"
inductive_simps run_snoc: "run d0 (evs @ [ev]) d"

section \<open>Specification\<close>

text \<open>The frames of a queue in service order, and how a frame joins them.\<close>

definition items :: "frameQueue \<Rightarrow> Frame list" where
  "items q = high q @ normal q"

definition enqueue :: "('a \<Rightarrow> bool) \<Rightarrow> 'a \<Rightarrow> 'a list \<Rightarrow> 'a list" where
  "enqueue urgent x xs =
     (if urgent x then takeWhile urgent xs @ [x] @ dropWhile urgent xs else xs @ [x])"

definition queue_inv :: "frameQueue \<Rightarrow> bool" where
  "queue_inv q = (0 < capacity q \<and> int (queueLength q) \<le> capacity q
     \<and> list_all isBaselineHighPriority (high q) \<and> list_all (Not \<circ> isBaselineHighPriority) (normal q))"

text \<open>
  The specification of a run: the session generation (the number of resets) and the frames
  accepted in this session and not yet delivered, in service order. \<open>None\<close> when the events are not
  a possible behaviour; after an overflow or a cancellation nothing more happens.
\<close>

record session =
  resets :: nat
  pending :: "Frame list"
  live :: bool

fun spec_step :: "int \<Rightarrow> session \<Rightarrow> event \<Rightarrow> session option" where
  "spec_step cap s Cancel = (if live s then Some (s\<lparr>live := False\<rparr>) else None)"
| "spec_step cap s Reset =
     (if live s then Some (s\<lparr>resets := Suc (resets s), pending := []\<rparr>) else None)"
| "spec_step cap s (Ingress g frame) =
     (if \<not> live s then None
      else if g \<noteq> of_nat (resets s) then Some s
      else if int (length (pending s)) < cap
      then Some (s\<lparr>pending := enqueue isBaselineHighPriority frame (pending s)\<rparr>)
      else Some (s\<lparr>live := False\<rparr>))"
| "spec_step cap s (Deliver frame) =
     (case pending s of
        f # fs \<Rightarrow> if live s \<and> f = frame then Some (s\<lparr>pending := fs\<rparr>) else None
      | [] \<Rightarrow> None)"

fun spec_run :: "int \<Rightarrow> session \<Rightarrow> event list \<Rightarrow> session option" where
  "spec_run cap s [] = Some s"
| "spec_run cap s (ev # evs) =
     (case spec_step cap s ev of None \<Rightarrow> None | Some s' \<Rightarrow> spec_run cap s' evs)"

definition initial_session :: session where
  "initial_session = \<lparr> resets = 0, pending = [], live = True \<rparr>"

definition session_of :: "nat \<Rightarrow> Dispatcher \<Rightarrow> session" where
  "session_of n d = \<lparr> resets = n, pending = items (queue d), live = running d \<rparr>"

definition dispatcher_inv :: "int \<Rightarrow> nat \<Rightarrow> Dispatcher \<Rightarrow> bool" where
  "dispatcher_inv cap n d = (queue_inv (queue d) \<and> capacity (queue d) = cap
     \<and> generation d = of_nat n \<and> published d = generation d \<and> length (errors d) \<le> 1
     \<and> (running d \<longrightarrow> errors d = []))"

section \<open>The queue contract\<close>

lemma enqueue_classes:
  assumes "list_all urgent us" "list_all (Not \<circ> urgent) ns"
  shows "enqueue urgent x (us @ ns) = (if urgent x then us @ x # ns else us @ ns @ [x])"
proof -
  have "takeWhile urgent (us @ ns) = us" "dropWhile urgent (us @ ns) = ns"
    using assms by (auto simp: list_all_iff takeWhile_append dropWhile_append takeWhile_eq_Nil_iff dropWhile_eq_self_iff)
  then show ?thesis by (simp add: enqueue_def)
qed

locale service_queue =
  fixes front :: "'q \<Rightarrow> 'a"
    and deq :: "'q \<Rightarrow> 'q"
    and wipe :: "'q \<Rightarrow> 'q"
    and size_of :: "'q \<Rightarrow> nat"
    and content :: "'q \<Rightarrow> 'a list"
    and invar :: "'q \<Rightarrow> bool"
  assumes size_of: "size_of q = length (content q)"
    and front: "content q \<noteq> [] \<Longrightarrow> front q = hd (content q)"
    and content_deq: "content (deq q) = tl (content q)"
    and content_wipe: "content (wipe q) = []"
    and invar_deq: "invar q \<Longrightarrow> invar (deq q)"
    and invar_wipe: "invar q \<Longrightarrow> invar (wipe q)"
begin

primrec drain :: "nat \<Rightarrow> 'q \<Rightarrow> 'a list" where
  "drain 0 q = []"
| "drain (Suc n) q = (if size_of q = 0 then [] else front q # drain n (deq q))"

text \<open>Taking \<open>n\<close> elements one by one yields the first \<open>n\<close> in service order.\<close>

lemma drain_take: "drain n q = take n (content q)"
proof (induction n arbitrary: q)
  case (Suc n)
  then show ?case
    by (cases "content q") (auto simp: size_of [of q] front content_deq)
qed simp

lemma drain_wiped: "drain n (wipe q) = []"
  by (simp add: drain_take content_wipe)

end

locale bounded_priority_queue = service_queue front deq wipe size_of content invar
  for front :: "'q \<Rightarrow> 'a" and deq wipe size_of content invar +
  fixes enq :: "'a \<Rightarrow> 'q \<Rightarrow> (go_error, 'q) outcome"
    and bound :: "'q \<Rightarrow> nat"
    and urgent :: "'a \<Rightarrow> bool"
  assumes enq_Ok: "invar q \<Longrightarrow> length (content q) < bound q \<Longrightarrow>
      \<exists>q'. enq x q = Ok q' \<and> content q' = enqueue urgent x (content q) \<and> invar q' \<and> bound q' = bound q"
    and enq_full: "invar q \<Longrightarrow> bound q \<le> length (content q) \<Longrightarrow> \<exists>e. enq x q = Err e"
    and invar_bound: "invar q \<Longrightarrow> length (content q) \<le> bound q"
begin

lemma enq_OkD: "invar q \<Longrightarrow> enq x q = Ok q' \<Longrightarrow>
    length (content q) < bound q \<and> content q' = enqueue urgent x (content q) \<and> invar q' \<and> bound q' = bound q"
  using enq_Ok [of q x] enq_full [of q x] by (cases "length (content q) < bound q") auto

lemma enq_ErrD: "invar q \<Longrightarrow> enq x q = Err e \<Longrightarrow> length (content q) = bound q"
  using enq_Ok [of q x] invar_bound [of q] by fastforce

text \<open>A burst that fits is kept whole: urgent frames first, each class in arrival order.\<close>

lemma burst:
  assumes "invar q" "content q = us @ ns" "list_all urgent us" "list_all (Not \<circ> urgent) ns"
    and "length us + length ns + length xs \<le> bound q"
  shows "\<exists>q'. foldR enq xs q = Ok q' \<and> invar q'
    \<and> content q' = us @ filter urgent xs @ ns @ filter (Not \<circ> urgent) xs"
  using assms
proof (induction xs arbitrary: q us ns)
  case (Cons x xs)
  then obtain q1 where q1: "enq x q = Ok q1" "content q1 = enqueue urgent x (us @ ns)"
      "invar q1" "bound q1 = bound q"
    using enq_Ok [of q x] by auto
  show ?case
  proof (cases "urgent x")
    case True
    with Cons.IH [of q1 "us @ [x]" ns] Cons.prems q1 show ?thesis
      by (auto simp: enqueue_classes)
  next
    case False
    with Cons.IH [of q1 us "ns @ [x]"] Cons.prems q1 show ?thesis
      by (auto simp: enqueue_classes)
  qed
qed simp

end

section \<open>The frame queue keeps the contract\<close>

lemma cloneFrame_id [simp]: "cloneFrame frame = frame"
  by (simp add: cloneFrame_def)

lemma length_items: "queueLength q = length (items q)"
  by (simp add: queueLength_def items_def)

interpretation fq: service_queue peek pop clear queueLength items queue_inv
proof unfold_locales
  fix q :: frameQueue
  show "items q \<noteq> [] \<Longrightarrow> peek q = hd (items q)" "items (pop q) = tl (items q)"
      "queue_inv q \<Longrightarrow> queue_inv (pop q)"
    by (auto simp: items_def peek_def pop_def queue_inv_def queueLength_def split: list.splits)
qed (auto simp: length_items, auto simp: items_def clear_def queue_inv_def queueLength_def)

interpretation fq: bounded_priority_queue peek pop clear queueLength items queue_inv push
    "\<lambda>q. nat (capacity q)" isBaselineHighPriority
proof unfold_locales
  fix q :: frameQueue and x
  assume inv: "queue_inv q"
  then show "length (items q) \<le> nat (capacity q)"
    by (auto simp: queue_inv_def length_items)
  show "\<exists>e. push x q = Err e" if "nat (capacity q) \<le> length (items q)"
    using inv that by (auto simp: push_def length_items queue_inv_def)
  show "\<exists>q'. push x q = Ok q' \<and> items q' = enqueue isBaselineHighPriority x (items q)
      \<and> queue_inv q' \<and> nat (capacity q') = nat (capacity q)" if "length (items q) < nat (capacity q)"
    using inv that enqueue_classes [of isBaselineHighPriority "high q" "normal q" x]
    by (auto simp: push_def length_items items_def queue_inv_def queueLength_def Let_def)
qed

section \<open>The dispatcher refines its specification\<close>

lemma spec_run_snoc:
  "spec_run cap s (evs @ [ev]) =
     (case spec_run cap s evs of None \<Rightarrow> None | Some s' \<Rightarrow> spec_step cap s' ev)"
  by (induction evs arbitrary: s) (auto split: option.splits)

lemma newDispatcher_inv:
  "newDispatcher cap = Ok d \<Longrightarrow> dispatcher_inv cap 0 d \<and> session_of 0 d = initial_session"
  by (auto simp: newDispatcher_def newFrameQueue_def dispatcher_inv_def queue_inv_def session_of_def
      initial_session_def items_def queueLength_def split: if_splits)

lemma push_capacity: "push frame q = Ok q' \<Longrightarrow> capacity q' = capacity q"
  by (auto simp: push_def Let_def split: if_splits)

lemma clear_simps [simp]: "items (clear q) = []" "capacity (clear q) = capacity q"
  by (simp_all add: clear_def items_def)

lemma pop_capacity [simp]: "capacity (pop q) = capacity q"
  by (simp add: pop_def split: list.split)

lemma step_refines:
  assumes "step d ev d'" "dispatcher_inv cap n d"
  shows "spec_step cap (session_of n d) ev = Some (session_of (n + of_bool (ev = Reset)) d')"
    and "dispatcher_inv cap (n + of_bool (ev = Reset)) d'"
proof -
  from assms(2) have inv: "queue_inv (queue d)" "capacity (queue d) = cap" "0 < cap"
      "generation d = of_nat n"
    by (auto simp: dispatcher_inv_def queue_inv_def)
  show "spec_step cap (session_of n d) ev = Some (session_of (n + of_bool (ev = Reset)) d')"
    using assms(1)
  proof cases
    case (accepted g frame q)
    with fq.enq_OkD [of "queue d" frame q] inv show ?thesis
      by (auto simp: session_of_def)
  next
    case (overflow g frame e)
    with fq.enq_ErrD [of "queue d" frame e] inv show ?thesis by (auto simp: session_of_def)
  next
    case (overflow_cancelled g frame e)
    with fq.enq_ErrD [of "queue d" frame e] inv show ?thesis by (auto simp: session_of_def)
  next
    case (deliver frame)
    then show ?thesis
      using fq.front [of "queue d"] fq.content_deq [of "queue d"]
      by (auto simp: session_of_def length_items split: list.split)
  qed (use inv in \<open>auto simp: session_of_def\<close>)
  show "dispatcher_inv cap (n + of_bool (ev = Reset)) d'"
    using assms(1)
  proof cases
    case (accepted g frame q)
    with fq.enq_OkD [of "queue d" frame q] push_capacity [of frame "queue d" q] assms(2) show ?thesis
      by (auto simp: dispatcher_inv_def)
  qed (use assms(2) fq.invar_deq fq.invar_wipe in \<open>auto simp: dispatcher_inv_def\<close>)
qed

lemma run_refines:
  assumes "run d0 evs d" "dispatcher_inv cap 0 d0"
  shows "spec_run cap (session_of 0 d0) evs = Some (session_of (count_list evs Reset) d)"
    and "dispatcher_inv cap (count_list evs Reset) d"
  using assms
proof (induction rule: run.induct)
  case (snoc evs d ev d')
  {
    case 1
    with snoc step_refines(1) [of d ev d' cap "count_list evs Reset"] show ?case
      by (simp add: spec_run_snoc)
  next
    case 2
    with snoc step_refines(2) [of d ev d' cap "count_list evs Reset"] show ?case
      by (cases "ev = Reset") simp_all
  }
qed simp_all

text \<open>In the specification, whatever is pending entered in the current session.\<close>

definition entered :: "event list \<Rightarrow> Frame \<Rightarrow> bool" where
  "entered evs frame = (\<exists>before after.
     evs = before @ Ingress (of_nat (count_list before Reset)) frame # after \<and> Reset \<notin> set after)"

lemma entered_snoc: "entered evs frame \<Longrightarrow> ev \<noteq> Reset \<Longrightarrow> entered (evs @ [ev]) frame"
  unfolding entered_def by (metis append.assoc append_Cons Un_iff empty_iff insert_iff list.set set_append)

lemma set_enqueue: "set (enqueue urgent x xs) = insert x (set xs)"
proof -
  have "set (takeWhile urgent xs) \<union> set (dropWhile urgent xs) = set xs"
    by (metis set_append takeWhile_dropWhile_id)
  then show ?thesis by (auto simp: enqueue_def)
qed

lemma spec_run_pending:
  assumes "spec_run cap initial_session evs = Some s"
  shows "resets s = count_list evs Reset \<and> (\<forall>frame \<in> set (pending s). entered evs frame)"
  using assms
proof (induction evs arbitrary: s rule: rev_induct)
  case Nil
  then show ?case by (auto simp: initial_session_def)
next
  case (snoc ev evs)
  then obtain s0 where s0: "spec_run cap initial_session evs = Some s0" "spec_step cap s0 ev = Some s"
    by (auto simp: spec_run_snoc split: option.splits)
  with snoc.IH have IH: "resets s0 = count_list evs Reset" "\<forall>frame \<in> set (pending s0). entered evs frame"
    by auto
  show ?case
  proof (cases ev)
    case (Ingress g frame)
    have "entered (evs @ [ev]) frame" if "g = of_nat (resets s0)"
      unfolding entered_def using Ingress that IH(1) by (intro exI [of _ evs] exI [of _ "[]"]) simp
    with Ingress s0(2) IH show ?thesis
      by (auto simp: set_enqueue intro: entered_snoc split: if_splits)
  qed (use s0(2) IH in \<open>auto intro: entered_snoc split: if_splits list.splits\<close>)
qed

section \<open>A sample run\<close>

definition lowFrame :: "u8 \<Rightarrow> Frame" where
  "lowFrame n = \<lparr> Contents = [0, n, 0x49, 0x0A], MICVerified = True,
     InstanceGeneration = 0, SessionGeneration = 0 \<rparr>"

definition urgentFrame :: "u8 \<Rightarrow> Frame" where
  "urgentFrame n = (lowFrame n)\<lparr>Contents := [0x80, n, 0x49, 0x0A]\<rparr>"

lemma high_bit_clear: "(ucast (n :: u8) :: u16) AND 0x8000 = 0"
proof -
  have "k = 15" if "bit (0x8000 :: u16) k" for k
    using that bit_exp_iff [where 'a = "16 word", of 15 k] by simp
  then show ?thesis
    by (intro bit_word_eqI) (fastforce simp: bit_and_iff bit_ucast_iff dest: bit_imp_le_length)
qed

lemma sample_frames [simp]:
  "\<not> isBaselineHighPriority (lowFrame n)" "isBaselineHighPriority (urgentFrame n)"
  by (simp_all add: isBaselineHighPriority_def lowFrame_def urgentFrame_def be16_def BaselineIdent_def
      high_bit_clear bit.conj_disj_distrib2)

lemma sample_frame_neq [simp]: "(lowFrame n = lowFrame m) = (n = m)"
  by (simp add: lowFrame_def)

lemma sample_run:
  "\<exists>d0 d. newDispatcher 1 = Ok d0
     \<and> run d0 [Ingress 0 (lowFrame 1), Reset, Ingress 0 (lowFrame 2), Ingress 1 (lowFrame 3)] d
     \<and> running d \<and> items (queue d) = [lowFrame 3]"
proof -
  define disp where "disp g fs = \<lparr> generation = g,
      queue = \<lparr> capacity = 1, high = [], normal = fs \<rparr>, published = g, errors = [], running = True \<rparr>" for g fs
  have push: "push (cloneFrame (lowFrame n)) \<lparr> capacity = 1, high = [], normal = [] \<rparr>
      = Ok \<lparr> capacity = 1, high = [], normal = [lowFrame n] \<rparr>" for n
    by (simp add: push_def queueLength_def)
  have "step (disp 0 []) (Ingress 0 (lowFrame 1)) (disp 0 [lowFrame 1])"
    using push [of 1] accepted [of "disp 0 []" 0 "lowFrame 1"] by (simp add: disp_def)
  moreover have "step (disp 0 [lowFrame 1]) Reset (disp 1 [])"
    using reset [of "disp 0 [lowFrame 1]" 1] by (simp add: disp_def clear_def)
  moreover have "step (disp 1 []) (Ingress 0 (lowFrame 2)) (disp 1 [])"
    by (rule stale) (simp_all add: disp_def)
  moreover have "step (disp 1 []) (Ingress 1 (lowFrame 3)) (disp 1 [lowFrame 3])"
    using push [of 3] accepted [of "disp 1 []" 1 "lowFrame 3"] by (simp add: disp_def)
  ultimately have "run (disp 0 []) (((([] @ [Ingress 0 (lowFrame 1)]) @ [Reset]) @ [Ingress 0 (lowFrame 2)])
      @ [Ingress 1 (lowFrame 3)]) (disp 1 [lowFrame 3])"
    by (intro run.snoc) simp_all
  moreover have "newDispatcher 1 = Ok (disp 0 [])"
    by (simp add: newDispatcher_def newFrameQueue_def disp_def)
  moreover have "running (disp 1 [lowFrame 3]) \<and> items (queue (disp 1 [lowFrame 3])) = [lowFrame 3]"
    by (simp add: disp_def items_def)
  ultimately show ?thesis by force
qed

lemma sample_run_delivered:
  "\<exists>d0 d. newDispatcher 1 = Ok d0
     \<and> run d0 ([Ingress 0 (lowFrame 1), Reset, Ingress 0 (lowFrame 2), Ingress 1 (lowFrame 3)]
               @ [Deliver (lowFrame 3)]) d"
proof -
  obtain d0 d where d: "newDispatcher 1 = Ok d0" "running d" "items (queue d) = [lowFrame 3]"
      "run d0 [Ingress 0 (lowFrame 1), Reset, Ingress 0 (lowFrame 2), Ingress 1 (lowFrame 3)] d"
    using sample_run by blast
  from d have "step d (Deliver (lowFrame 3)) (d\<lparr>queue := pop (queue d)\<rparr>)"
    using fq.front [of "queue d"] by (intro deliver) (auto simp: length_items)
  with d show ?thesis by (blast intro: run.intros)
qed

section \<open>Properties\<close>

text \<open>
  A burst of frames that fits the free space of the queue is kept whole and is delivered
  baseline high-priority frames first, each class in order of arrival, ahead of nothing and
  behind everything of its class that was already queued.
\<close>

theorem frame_queue_order:
  assumes "queue_inv q" "int (queueLength q + length frames) \<le> capacity q"
  shows "\<exists>q'. foldR push frames q = Ok q' \<and>
    fq.drain (queueLength q + length frames) q' =
      high q @ filter isBaselineHighPriority frames
      @ normal q @ filter (Not \<circ> isBaselineHighPriority) frames"
proof -
  have "\<exists>q'. foldR push frames q = Ok q' \<and> queue_inv q' \<and> items q' =
      high q @ filter isBaselineHighPriority frames
      @ normal q @ filter (Not \<circ> isBaselineHighPriority) frames"
    using assms by (intro fq.burst) (auto simp: items_def queue_inv_def queueLength_def)
  then obtain q' where q': "foldR push frames q = Ok q'" "items q' =
      high q @ filter isBaselineHighPriority frames
      @ normal q @ filter (Not \<circ> isBaselineHighPriority) frames" by blast
  moreover have "length (items q') = queueLength q + length frames"
    using sum_length_filter_compl [of isBaselineHighPriority frames]
    by (simp add: q'(2) queueLength_def comp_def)
  ultimately show ?thesis by (simp add: fq.drain_take)
qed

theorem frame_queue_order_witness:
  "\<exists>q'. foldR push [lowFrame 1, urgentFrame 2] \<lparr> capacity = 4, high = [], normal = [lowFrame 3] \<rparr> = Ok q'
     \<and> fq.drain 3 q' = [urgentFrame 2, lowFrame 3, lowFrame 1]"
  using frame_queue_order [of "\<lparr> capacity = 4, high = [], normal = [lowFrame 3] \<rparr>"
      "[lowFrame 1, urgentFrame 2]"]
  by (simp add: sample_frames queue_inv_def queueLength_def numeral_3_eq_3)

text \<open>
  C13. Every behaviour of the dispatcher goroutine is one of the specification: stale frames are
  dropped, the frames of the current session are delivered in service order without loss or
  duplication, an overflow stops the goroutine, and the queue stays within its capacity; the
  generation it publishes counts the resets.
\<close>

theorem dispatcher_refines_spec:
  assumes "newDispatcher cap = Ok d0" "run d0 evs d"
  shows "spec_run cap initial_session evs = Some (session_of (count_list evs Reset) d)
    \<and> int (queueLength (queue d)) \<le> cap
    \<and> published d = of_nat (count_list evs Reset)"
  using newDispatcher_inv [OF assms(1)] run_refines [OF assms(2)]
  by (auto simp: dispatcher_inv_def queue_inv_def)

theorem dispatcher_refines_spec_witness:
  "\<exists>d0 d. newDispatcher 1 = Ok d0
     \<and> run d0 [Ingress 0 (lowFrame 1), Reset, Ingress 0 (lowFrame 2), Ingress 1 (lowFrame 3)] d
     \<and> items (queue d) = [lowFrame 3] \<and> published d = 1"
proof -
  obtain d0 d where d: "newDispatcher 1 = Ok d0"
      "run d0 [Ingress 0 (lowFrame 1), Reset, Ingress 0 (lowFrame 2), Ingress 1 (lowFrame 3)] d"
    using sample_run by blast
  from dispatcher_refines_spec [OF d] have "items (queue d) = [lowFrame 3] \<and> published d = 1"
    by (simp add: initial_session_def session_of_def enqueue_def)
  with d show ?thesis by blast
qed

text \<open>
  C35. A frame that the dispatcher delivers was received under the current generation and entered
  the queue after the last reset: nothing received before a reset is ever delivered after it.
\<close>

theorem delivered_in_session:
  assumes "newDispatcher cap = Ok d0" "run d0 (evs @ [Deliver frame]) d"
  shows "entered evs frame"
proof -
  have "spec_run cap initial_session (evs @ [Deliver frame])
      = Some (session_of (count_list (evs @ [Deliver frame]) Reset) d)"
    using newDispatcher_inv [OF assms(1)] run_refines(1) [OF assms(2)] by auto
  then obtain s where "spec_run cap initial_session evs = Some s" "frame \<in> set (pending s)"
    by (auto simp: spec_run_snoc split: option.splits list.splits if_splits)
  then show ?thesis using spec_run_pending by blast
qed

theorem delivered_in_session_witness:
  "\<exists>d0 d. newDispatcher 1 = Ok d0
     \<and> run d0 ([Ingress 0 (lowFrame 1), Reset, Ingress 0 (lowFrame 2), Ingress 1 (lowFrame 3)]
               @ [Deliver (lowFrame 3)]) d
     \<and> entered [Ingress 0 (lowFrame 1), Reset, Ingress 0 (lowFrame 2), Ingress 1 (lowFrame 3)] (lowFrame 3)"
  using sample_run_delivered delivered_in_session by blast

end
