(* ===== verification/MeLib.thy ===== *)
theory MeLib
  imports Prelude
begin

unbundle bit_operations_syntax

text \<open>
  The managed-entity definitions that the MIB consults (package \<open>generated\<close> of the vendored
  library, src/vendor/github.com/opencord/omci-lib-go/v2/generated: me.go, medef.go, attribute.go,
  omcidefs.go, classidmap.go). The table of classes is a parameter of the model, \<open>classes\<close>: every
  statement about the MIB holds for any table. The constraint functions of the library's attribute
  definitions are left out: no definition of the library sets one. Attribute names are ASCII.
\<close>

section \<open>Constants\<close>

abbreviation (input) Success :: u8 where "Success \<equiv> 0"
abbreviation (input) ProcessingError :: u8 where "ProcessingError \<equiv> 1"
abbreviation (input) NotSupported :: u8 where "NotSupported \<equiv> 2"
abbreviation (input) ParameterError :: u8 where "ParameterError \<equiv> 3"
abbreviation (input) UnknownEntity :: u8 where "UnknownEntity \<equiv> 4"
abbreviation (input) UnknownInstance :: u8 where "UnknownInstance \<equiv> 5"
abbreviation (input) DeviceBusy :: u8 where "DeviceBusy \<equiv> 6"
abbreviation (input) InstanceExists :: u8 where "InstanceExists \<equiv> 7"
abbreviation (input) AttributeFailure :: u8 where "AttributeFailure \<equiv> 9"

datatype msg_type = MsgCreate | MsgDelete | MsgSet | MsgGet | MsgGetAllAlarms | MsgGetAllAlarmsNext
  | MsgMibUpload | MsgMibUploadNext | MsgMibReset | MsgAlarmNotification | MsgAttributeValueChange
  | MsgTest | MsgStartSoftwareDownload | MsgDownloadSection | MsgEndSoftwareDownload
  | MsgActivateSoftware | MsgCommitSoftware | MsgSynchronizeTime | MsgReboot | MsgGetNext
  | MsgTestResult | MsgGetCurrentData | MsgSetTable

datatype attribute_access = Read | Write | SetByCreate

datatype attribute_type = UnknownAttributeType | OctetsAttributeType | StringAttributeType
  | UnsignedIntegerAttributeType | TableAttributeType | SignedIntegerAttributeType
  | PointerAttributeType | BitFieldAttributeType | EnumerationAttributeType | CounterAttributeType

datatype class_access = UnknownAccess | CreatedByOnu | CreatedByOlt | CreatedByBoth

datatype class_support = UnknownSupport | Supported | Unsupported | PartiallySupported | Ignored
  | UnsupportedManagedEntity | UnsupportedVendorSpecificManagedEntity

abbreviation (input) OnuDataClassID :: u16 where "OnuDataClassID \<equiv> 2"
abbreviation (input) CircuitPackClassID :: u16 where "CircuitPackClassID \<equiv> 6"
abbreviation (input) PptpEthernetUniClassID :: u16 where "PptpEthernetUniClassID \<equiv> 11"
abbreviation (input) ExtendedVlanClassID :: u16 where "ExtendedVlanClassID \<equiv> 171"
abbreviation (input) OnuGClassID :: u16 where "OnuGClassID \<equiv> 256"
abbreviation (input) AniGClassID :: u16 where "AniGClassID \<equiv> 263"
abbreviation (input) UniGClassID :: u16 where "UniGClassID \<equiv> 264"
abbreviation (input) MulticastGemIwTpClassID :: u16 where "MulticastGemIwTpClassID \<equiv> 281"
abbreviation (input) OmciClassID :: u16 where "OmciClassID \<equiv> 287"
abbreviation (input) ManagedEntityMeClassID :: u16 where "ManagedEntityMeClassID \<equiv> 288"
abbreviation (input) AttributeMeClassID :: u16 where "AttributeMeClassID \<equiv> 289"
abbreviation (input) MulticastOperationsProfileClassID :: u16 where "MulticastOperationsProfileClassID \<equiv> 309"
abbreviation (input) MulticastSubscriberConfigInfoClassID :: u16 where "MulticastSubscriberConfigInfoClassID \<equiv> 310"
abbreviation (input) MulticastSubscriberMonitorClassID :: u16 where "MulticastSubscriberMonitorClassID \<equiv> 311"
abbreviation (input) Onu3GClassID :: u16 where "Onu3GClassID \<equiv> 441"

section \<open>Attribute values\<close>

record table_rows =
  NumRows :: int
  Rows :: bytes

text \<open>
  The dynamic types of an attribute value (\<open>interface{}\<close>): the nil interface, the unsigned
  integers, octet and integer slices, and table rows. A nil slice and an empty one are the same
  list: the MIB's \<open>cloneValue\<close> turns both into the nil slice before they are compared.
\<close>

datatype attr_value = VNil | VU8 u8 | VU16 u16 | VU32 u32 | VU64 u64
  | VOctets bytes | VU16s "u16 list" | VU32s "u32 list" | VU64s "u64 list" | VTable table_rows

type_synonym attribute_map = "(string, attr_value) gomap"

fun typeName :: "attr_value \<Rightarrow> string" where
  "typeName VNil = ''<nil>''"
| "typeName (VU8 _) = ''uint8''"
| "typeName (VU16 _) = ''uint16''"
| "typeName (VU32 _) = ''uint32''"
| "typeName (VU64 _) = ''uint64''"
| "typeName (VOctets _) = ''[]uint8''"
| "typeName (VU16s _) = ''[]uint16''"
| "typeName (VU32s _) = ''[]uint32''"
| "typeName (VU64s _) = ''[]uint64''"
| "typeName (VTable _) = ''generated.TableRows''"

section \<open>Definitions\<close>

record attribute_definition =
  AttrName :: string
  AttributeType :: attribute_type
  Mask :: u16
  DefValue :: attr_value
  AttrSize :: int
  Access :: "attribute_access list"
  Avc :: bool

type_synonym attribute_definitions = "(nat, attribute_definition) gomap"

record me_definition =
  DefName :: string
  MessageTypes :: "msg_type list"
  AllowedAttributeMask :: u16
  AttributeDefinitions :: attribute_definitions
  ClassAccess :: class_access
  Support :: class_support
  AlarmMap :: "u8 list"

type_synonym class_table = "u16 \<Rightarrow> me_definition option"

record managed_entity =
  entityClass :: u16
  medef :: me_definition
  attributes :: attribute_map

definition ManagedEntityID :: string where "ManagedEntityID = ''ManagedEntityId''"

definition toLowerChar :: "char \<Rightarrow> char" where
  "toLowerChar c = (let n = (of_char c :: nat) in if 65 \<le> n \<and> n \<le> 90 then char_of (n + 32) else c)"

definition toLower :: "string \<Rightarrow> string" where
  "toLower s = map toLowerChar s"

definition GetAttributeDefinitionByName ::
  "attribute_definitions \<Rightarrow> string \<Rightarrow> (go_error, attribute_definition) outcome" where
  "GetAttributeDefinitionByName defs name =
     (case find (\<lambda>d. toLower name = toLower (AttrName d)) (map snd defs) of
        Some d \<Rightarrow> Ok d
      | None \<Rightarrow> Err (Errorf ''attribute '%s' not found'' [AStr name]))"

definition SupportsMsgType :: "managed_entity \<Rightarrow> msg_type \<Rightarrow> bool" where
  "SupportsMsgType entity mt = (mt \<in> set (MessageTypes (medef entity)))"

definition SupportsAttributeAccess :: "attribute_definition \<Rightarrow> attribute_access \<Rightarrow> bool" where
  "SupportsAttributeAccess d acc = (acc \<in> set (Access d))"

definition IsTableAttribute :: "attribute_definition \<Rightarrow> bool" where
  "IsTableAttribute d = (AttributeType d = TableAttributeType)"

text \<open>The generic definitions used for class identifiers that the library does not know.\<close>

definition unknownAttribute :: "nat \<Rightarrow> string \<Rightarrow> nat \<times> attribute_definition" where
  "unknownAttribute index suffix =
     (index, \<lparr> AttrName = ''UnknownAttr_'' @ suffix, AttributeType = OctetsAttributeType,
               Mask = push_bit (16 - index) 1, DefValue = VOctets [0], AttrSize = 1, Access = [Read],
               Avc = True \<rparr>)"

definition entityIdAttribute :: "attribute_access list \<Rightarrow> nat \<times> attribute_definition" where
  "entityIdAttribute access =
     (0, \<lparr> AttrName = ManagedEntityID, AttributeType = PointerAttributeType, Mask = 0,
           DefValue = VU16 0, AttrSize = 2, Access = access, Avc = False \<rparr>)"

definition unknownME :: "class_support \<Rightarrow> me_definition" where
  "unknownME support =
     \<lparr> DefName = (if support = UnsupportedManagedEntity then ''UnknownItuG988ManagedEntity''
                   else ''UnknownVendorSpecificManagedEntity''),
       MessageTypes = [MsgMibUploadNext, MsgAlarmNotification, MsgAttributeValueChange],
       AllowedAttributeMask = 0xffff,
       AttributeDefinitions = entityIdAttribute [Read] #
         map (\<lambda>(i, s). unknownAttribute i s)
           [(1, ''1''), (2, ''2''), (3, ''3''), (4, ''4''), (5, ''5''), (6, ''6''), (7, ''7''), (8, ''8''),
            (9, ''9''), (10, ''10''), (11, ''11''), (12, ''12''), (13, ''13''), (14, ''14''), (15, ''15''),
            (16, ''16'')],
       ClassAccess = UnknownAccess, Support = support, AlarmMap = [] \<rparr>"

definition IsVendorSpecificClassID :: "u16 \<Rightarrow> bool" where
  "IsVendorSpecificClassID classID =
     ((240 \<le> classID \<and> classID \<le> 255) \<or> (350 \<le> classID \<and> classID \<le> 399)
      \<or> (65280 \<le> classID \<and> classID \<le> 65535))"

definition classDefinition :: "class_table \<Rightarrow> u16 \<Rightarrow> me_definition" where
  "classDefinition classes classID =
     (case classes classID of
        Some d \<Rightarrow> d
      | None \<Rightarrow> unknownME (if IsVendorSpecificClassID classID
                           then UnsupportedVendorSpecificManagedEntity else UnsupportedManagedEntity))"

definition entityIdName :: "me_definition \<Rightarrow> string" where
  "entityIdName d = (case map_of (AttributeDefinitions d) 0 of Some a \<Rightarrow> AttrName a | None \<Rightarrow> '''')"

definition SetAttribute :: "string \<Rightarrow> attr_value \<Rightarrow> managed_entity \<Rightarrow> (go_error, managed_entity) outcome" where
  "SetAttribute name val entity =
     bindR (GetAttributeDefinitionByName (AttributeDefinitions (medef entity)) name)
       (\<lambda>_. Ok (entity\<lparr>attributes := AList.update name val (attributes entity)\<rparr>))"

definition setAttributes :: "u16 \<Rightarrow> attribute_map \<Rightarrow> managed_entity \<Rightarrow> (go_error, managed_entity) outcome" where
  "setAttributes entityID params entity =
     (let eidName = entityIdName (medef entity) in
      foldR (\<lambda>(name, val) e. if name = eidName then Ok e else SetAttribute name val e) params
        (entity\<lparr>attributes := [(eidName, VU16 entityID)]\<rparr>))"

text \<open>
  \<open>LoadManagedEntityDefinition\<close> with parameters. It fails only when an attribute is not in the
  definition; the library's status code is then a processing error.
\<close>

definition LoadManagedEntityDefinition ::
  "class_table \<Rightarrow> u16 \<Rightarrow> u16 \<Rightarrow> attribute_map \<Rightarrow> (go_error, managed_entity) outcome" where
  "LoadManagedEntityDefinition classes classID entityID params =
     setAttributes entityID params
       \<lparr> entityClass = classID, medef = classDefinition classes classID, attributes = [] \<rparr>"

text \<open>\<open>GetAttributesDefinitions\<close> loads the definition without parameters, which cannot fail.\<close>

definition GetAttributesDefinitions :: "class_table \<Rightarrow> u16 \<Rightarrow> attribute_definitions" where
  "GetAttributesDefinitions classes classID = AttributeDefinitions (classDefinition classes classID)"

definition MergeInDefaultValues :: "class_table \<Rightarrow> u16 \<Rightarrow> attribute_map \<Rightarrow> attribute_map" where
  "MergeInDefaultValues classes classID attrs =
     fold (\<lambda>(index, d) m.
        if SetByCreate \<notin> set (Access d) \<and> index \<noteq> 0
           \<and> (DefValue d \<noteq> VNil
              \<or> AttributeType d \<in> {StringAttributeType, OctetsAttributeType, TableAttributeType})
           \<and> map_of m (AttrName d) \<in> {None, Some VNil}
        then AList.update (AttrName d) (DefValue d) m else m)
       (GetAttributesDefinitions classes classID) attrs"

section \<open>Lemmas\<close>

lemma toLowerChar_code [code]:
  "toLowerChar (Char b0 b1 b2 b3 b4 b5 b6 b7) =
     (if \<not> b7 \<and> b6 \<and> \<not> b5 \<and> (b0 \<or> b1 \<or> b2 \<or> b3 \<or> b4) \<and> \<not> (b4 \<and> b3 \<and> (b2 \<or> b1 \<and> b0))
      then Char b0 b1 b2 b3 b4 True b6 b7 else Char b0 b1 b2 b3 b4 b5 b6 b7)"
  by (cases b0; cases b1; cases b2; cases b3; cases b4; cases b5; cases b6; cases b7)
     (simp_all add: toLowerChar_def char_of_def bit_iff_odd)

lemma GetAttributeDefinitionByName_no_panic [simp]: "GetAttributeDefinitionByName defs name \<noteq> Panic"
  by (simp add: GetAttributeDefinitionByName_def split: option.split)

text \<open>An attribute name is known when some definition carries it, letter case aside.\<close>

definition knownAttr :: "attribute_definitions \<Rightarrow> string \<Rightarrow> bool" where
  "knownAttr defs name = (\<exists>d. GetAttributeDefinitionByName defs name = Ok d)"

definition covers :: "me_definition \<Rightarrow> attribute_map \<Rightarrow> bool" where
  "covers d attrs = list_all (\<lambda>(name, _). name = entityIdName d \<or> knownAttr (AttributeDefinitions d) name) attrs"

lemma SetAttribute_iff:
  "SetAttribute name val e = Ok e' \<longleftrightarrow> knownAttr (AttributeDefinitions (medef e)) name
    \<and> e' = e\<lparr>attributes := AList.update name val (attributes e)\<rparr>"
  by (auto simp: SetAttribute_def bindR_eq_Ok knownAttr_def)

lemma SetAttribute_no_panic [simp]: "SetAttribute name val e \<noteq> Panic"
  by (simp add: SetAttribute_def bindR_eq_Panic)

text \<open>
  Loading a definition with attributes: the entity identifier first, then the given attributes in
  order; it succeeds when every one of them is defined.
\<close>

definition loaded :: "string \<Rightarrow> u16 \<Rightarrow> attribute_map \<Rightarrow> attribute_map" where
  "loaded eidName entityID params =
     (eidName, VU16 entityID) # filter (\<lambda>(name, _). name \<noteq> eidName) params"

lemma update_append_new: "k \<notin> fst ` set m \<Longrightarrow> AList.update k v m = m @ [(k, v)]"
  by (induction m) auto

lemma foldR_SetAttribute:
  assumes "gm_wf (acc @ filter (\<lambda>(name, _). name \<noteq> eidName) params)" "attributes e = acc"
    "eidName = entityIdName (medef e)"
  shows "foldR (\<lambda>(name, val) e. if name = eidName then Ok e else SetAttribute name val e) params e = Ok e'
    \<longleftrightarrow> covers (medef e) params
      \<and> e' = e\<lparr>attributes := acc @ filter (\<lambda>(name, _). name \<noteq> eidName) params\<rparr>"
  using assms
proof (induction params arbitrary: acc e)
  case Nil
  then show ?case by (auto simp: covers_def)
next
  case (Cons p params)
  obtain name val where p: "p = (name, val)" by (cases p)
  show ?case
  proof (cases "name \<noteq> eidName \<and> knownAttr (AttributeDefinitions (medef e)) name")
    case True
    let ?e = "e\<lparr>attributes := acc @ [(name, val)]\<rparr>"
    have "name \<notin> fst ` set acc" using Cons.prems True p by (auto simp: gm_wf_def)
    then have "SetAttribute name val e = Ok ?e"
      using True Cons.prems by (simp add: SetAttribute_iff update_append_new)
    with Cons.IH [of "acc @ [(name, val)]" ?e] Cons.prems p True show ?thesis
      by (simp add: covers_def)
  next
    case False
    with Cons.IH [of acc e] Cons.prems p show ?thesis
      by (auto simp: covers_def bindR_eq_Ok SetAttribute_iff)
  qed
qed

lemma setAttributes_iff:
  assumes "gm_wf params"
  shows "setAttributes entityID params e = Ok e' \<longleftrightarrow>
    covers (medef e) params \<and> e' = e\<lparr>attributes := loaded (entityIdName (medef e)) entityID params\<rparr>"
proof -
  let ?n = "entityIdName (medef e)"
  have "gm_wf ([(?n, VU16 entityID)] @ filter (\<lambda>(name, _). name \<noteq> ?n) params)"
    using gm_wf_filter [OF assms, of "\<lambda>(name, _). name \<noteq> ?n"] by (auto simp: gm_wf_def)
  from foldR_SetAttribute [OF this, of "e\<lparr>attributes := [(?n, VU16 entityID)]\<rparr>"] show ?thesis
    by (simp add: setAttributes_def Let_def loaded_def)
qed

lemma setAttributes_no_panic [simp]: "setAttributes entityID params e \<noteq> Panic"
  unfolding setAttributes_def Let_def
  by (rule foldR_no_panic [where P = "\<lambda>_. True"]) (auto split: if_splits)

lemma LoadManagedEntityDefinition_iff:
  "gm_wf params \<Longrightarrow> LoadManagedEntityDefinition classes classID entityID params = Ok e \<longleftrightarrow>
    covers (classDefinition classes classID) params
    \<and> e = \<lparr> entityClass = classID, medef = classDefinition classes classID,
           attributes = loaded (entityIdName (classDefinition classes classID)) entityID params \<rparr>"
  by (simp add: LoadManagedEntityDefinition_def setAttributes_iff)

lemma gm_wf_loaded [simp]: "gm_wf params \<Longrightarrow> gm_wf (loaded n entityID params)"
  using gm_wf_filter [of params "\<lambda>(name, _). name \<noteq> n"] by (auto simp: loaded_def gm_wf_def)

text \<open>Loading is idempotent.\<close>

lemma loaded_loaded [simp]: "loaded n entityID (loaded n entityID params) = loaded n entityID params"
  by (simp add: loaded_def)

lemma covers_loaded [simp]: "covers d params \<Longrightarrow> covers d (loaded (entityIdName d) entityID params)"
  by (auto simp: covers_def loaded_def list_all_iff)

end
