(* ===== verification/MibTable.thy ===== *)
theory MibTable
  imports Vlan MeLib "HOL-Library.Product_Lexorder"
begin

unbundle bit_operations_syntax

text \<open>
  The row policies of the MIB's set-table operation (src/internal/mib/table.go): how a committed
  table and the rows of one request give the next table, for the two VLAN tables, the multicast
  address tables, the multicast access control lists, the multicast service packages and the
  allowed preview groups. The operations of the store that use them are in \<open>MibStore\<close>.

  Inside a row loop every row has the table's row size, so the fields of a row are read directly.
  A message built with \<open>fmt.Sprintf\<close> for an error is written as the format and its arguments.
\<close>

section \<open>Constants\<close>

definition extendedVLANRowSize :: nat where "extendedVLANRowSize = 16"
definition enhancedExtendedVLANRowSize :: nat where "enhancedExtendedVLANRowSize = 28"
definition multicastIPv4RowSize :: nat where "multicastIPv4RowSize = 12"
definition multicastIPv6RowSize :: nat where "multicastIPv6RowSize = 24"
definition multicastACLRowSize :: nat where "multicastACLRowSize = 24"
definition multicastServiceRowSize :: nat where "multicastServiceRowSize = 20"
definition multicastPreviewRowSize :: nat where "multicastPreviewRowSize = 22"

definition tableSetControlMask :: u16 where "tableSetControlMask = 0xc000"
definition tableRowPartMask :: u16 where "tableRowPartMask = 0x3800"
definition tableTestMask :: u16 where "tableTestMask = 0x0400"
definition tableRowKeyMask :: u16 where "tableRowKeyMask = 0x03ff"

lemmas row_sizes = extendedVLANRowSize_def enhancedExtendedVLANRowSize_def multicastIPv4RowSize_def
  multicastIPv6RowSize_def multicastACLRowSize_def multicastServiceRowSize_def
  multicastPreviewRowSize_def

lemmas row_masks = tableSetControlMask_def tableRowPartMask_def tableTestMask_def tableRowKeyMask_def

definition extendedVLANDefaultRows :: bytes where
  "extendedVLANDefaultRows = [
     0xf8, 0x00, 0x00, 0x00, 0xf8, 0x00, 0x00, 0x00, 0x00, 0x0f, 0x00, 0x00, 0x00, 0x0f, 0x00, 0x00,
     0xf8, 0x00, 0x00, 0x00, 0xe8, 0x00, 0x00, 0x00, 0x00, 0x0f, 0x00, 0x00, 0x00, 0x0f, 0x00, 0x00,
     0xe8, 0x00, 0x00, 0x00, 0xe8, 0x00, 0x00, 0x00, 0x00, 0x0f, 0x00, 0x00, 0x00, 0x0f, 0x00, 0x00]"

record AllowedPreviewTimer =
  RowKey :: u16
  Duration :: u16
  TimeLeft :: u16

section \<open>Helpers\<close>

definition allBytes :: "bytes \<Rightarrow> u8 \<Rightarrow> bool" where
  "allBytes value expected = (length value \<noteq> 0 \<and> count_list value expected = length value)"

definition tableCapacityError :: "nat \<Rightarrow> u16 \<Rightarrow> go_error" where
  "tableCapacityError rows cap =
     ResultError ProcessingError 0 0 (Some (Errorf ''table has %d rows, maximum is %d'' [AN rows, AU cap]))"

definition tableRows :: "attr_value \<Rightarrow> int \<Rightarrow> (go_error, table_rows) outcome" where
  "tableRows val rowSize =
     (case val of
        VNil \<Rightarrow> Ok \<lparr> NumRows = 0, Rows = [] \<rparr>
      | VTable rows \<Rightarrow>
          if NumRows rows < 0 \<or> int (length (Rows rows)) \<noteq> NumRows rows * rowSize
          then Err (Errorf ''committed table has invalid row data'' [])
          else Ok \<lparr> NumRows = NumRows rows, Rows = Rows rows \<rparr>
      | _ \<Rightarrow> Err (Errorf ''committed table has invalid row data'' []))"

definition put16_at :: "nat \<Rightarrow> u16 \<Rightarrow> bytes \<Rightarrow> bytes" where
  "put16_at offset value row = overwrite offset (put16 value) row"

definition rowControl :: "bytes \<Rightarrow> u16" where "rowControl row = be16 row 0"

definition rowKeyOf :: "u16 \<Rightarrow> u16" where "rowKeyOf control = control AND tableRowKeyMask"

definition rowPartOf :: "u16 \<Rightarrow> u8" where
  "rowPartOf control = ucast (drop_bit 11 (control AND tableRowPartMask))"

definition setControlOf :: "u16 \<Rightarrow> u16" where
  "setControlOf control = drop_bit 14 (control AND tableSetControlMask)"

section \<open>Rows replaced by their key bytes\<close>

definition applyKeyedRows ::
  "bytes \<Rightarrow> bytes \<Rightarrow> nat \<Rightarrow> nat \<Rightarrow> (bytes \<Rightarrow> bool) \<Rightarrow> (go_error, bytes) outcome" where
  "applyKeyedRows existing updates rowSize keySize deleted =
     bindR (foldRows rowSize (\<lambda>row rows. Ok (AList.update (take keySize row) row rows)) existing []) (\<lambda>rows.
     bindR (foldRows rowSize (\<lambda>row rows.
              let key = take keySize row in
              if deleted row then Ok (AList.delete key rows) else Ok (AList.update key row rows))
            updates rows) (\<lambda>rows.
     Ok (sorted_rows rows)))"

section \<open>VLAN tables\<close>

definition checkClassicRow :: "bytes \<Rightarrow> unit \<Rightarrow> (go_error, unit) outcome" where
  "checkClassicRow row _ =
     (if allBytes (drop 8 row) 0xff then Ok ()
      else mapErr (\<lambda>e. ResultError ParameterError 0 0 (Some e)) (bindR (ParseRow row False) (\<lambda>_. Ok ())))"

definition loadEnhancedRow :: "bytes \<Rightarrow> (u16, bytes) gomap \<Rightarrow> (go_error, (u16, bytes) gomap) outcome" where
  "loadEnhancedRow row0 rows =
     (let row = row0[0 := row0 ! 0 AND 0x3f] in Ok (AList.update (be16 row 2) row rows))"

definition updateEnhancedRow :: "bytes \<Rightarrow> (u16, bytes) gomap \<Rightarrow> (go_error, (u16, bytes) gomap) outcome" where
  "updateEnhancedRow row rows =
     (let control = drop_bit 6 (row ! 0); key = be16 row 2 in
      if control = 1 then
        (if drop_bit 4 (row ! 0) AND 0x03 = 3
         then Err (ResultError ParameterError 0 0
                (Some (Errorf ''enhanced VLAN row %#x has reserved direction'' [AU key])))
         else let stored = row[0 := row ! 0 AND 0x3f] in
           bindR (mapErr (\<lambda>e. ResultError ParameterError 0 0 (Some e)) (ParseRow stored True))
             (\<lambda>_. Ok (AList.update key stored rows)))
      else if control = 2 then Ok (AList.delete key rows)
      else if control = 3 then Ok []
      else Err (ResultError ParameterError 0 0
             (Some (Errorf ''enhanced VLAN row %#x has reserved set control'' [AU key]))))"

definition applyEnhancedVLANRows :: "bytes \<Rightarrow> bytes \<Rightarrow> (go_error, bytes) outcome" where
  "applyEnhancedVLANRows existing updates =
     bindR (foldRows enhancedExtendedVLANRowSize loadEnhancedRow existing []) (\<lambda>rows.
     bindR (foldRows enhancedExtendedVLANRowSize updateEnhancedRow updates rows) (\<lambda>rows.
     Ok (sorted_rows rows)))"

section \<open>Multicast address tables\<close>

definition checkAddressRow :: "nat \<Rightarrow> bytes \<Rightarrow> unit \<Rightarrow> (go_error, unit) outcome" where
  "checkAddressRow rowSize row _ =
     (if allBytes (drop 4 row) 0 then Ok ()
      else let portID = be16 row 0 in
      if portID > 0x0fff
      then Err (ResultError ParameterError 0 0
             (Some (Errorf ''multicast address row has out-of-range GEM Port-ID %d'' [AU portID])))
      else let start = be32 row 4; stop = be32 row 8 in
      if rowSize = multicastIPv4RowSize
      then (if drop_bit 28 start \<noteq> 0xe \<or> drop_bit 28 stop \<noteq> 0xe \<or> start > stop
            then Err (ResultError ParameterError 0 0
                   (Some (Errorf ''invalid IPv4 multicast range %08x..%08x'' [AU start, AU stop])))
            else Ok ())
      else (if row ! 12 \<noteq> 0xff \<or> start > stop
            then Err (ResultError ParameterError 0 0
                   (Some (Errorf ''invalid IPv6 multicast range in row %x'' [ABytes row])))
            else Ok ()))"

definition applyMulticastAddressRows ::
  "string \<Rightarrow> table_rows \<Rightarrow> table_rows \<Rightarrow> (go_error, table_rows) outcome" where
  "applyMulticastAddressRows name existing updates =
     (let rowSize = (if name = ''Ipv4MulticastAddressTable'' then multicastIPv4RowSize
                     else if name = ''Ipv6MulticastAddressTable'' then multicastIPv6RowSize else 0) in
      if rowSize = 0
      then Err (ResultError NotSupported 0 0
             (Some (Errorf ''SetTable policy for class %#x attribute %s is not implemented''
                      [AU MulticastGemIwTpClassID, AStr name])))
      else bindR (foldRows rowSize (checkAddressRow rowSize) (Rows updates) ()) (\<lambda>_.
      bindR (applyKeyedRows (Rows existing) (Rows updates) rowSize 4 (\<lambda>row. allBytes (drop 4 row) 0)) (\<lambda>rows.
      Ok \<lparr> NumRows = int (length rows div rowSize), Rows = rows \<rparr>)))"

section \<open>Multicast access control lists\<close>

type_synonym multicastACLRowKey = "u16 \<times> u8"

record multicastACLRange =
  rangeKey :: u16
  ipv6 :: bool
  start :: bytes
  stop :: bytes

definition multicastACLParameterError :: "u16 \<Rightarrow> string \<Rightarrow> go_arg list \<Rightarrow> go_error" where
  "multicastACLParameterError key detail args =
     ResultError ParameterError 0 0
       (Some (Errorf ''multicast ACL row key %d %s'' [AU key, AErr (Errorf detail args)]))"

definition validateMulticastACLPart :: "u16 \<Rightarrow> u8 \<Rightarrow> bytes \<Rightarrow> bool \<Rightarrow> go_error option" where
  "validateMulticastACLPart key part row isStatic =
     (if part = 0 then
        (let gemPortID = be16 row 2; vlanID = be16 row 4 in
         if gemPortID > 0x0fff
         then Some (multicastACLParameterError key ''has out-of-range GEM Port-ID %d'' [AU gemPortID])
         else if vlanID = 4096 \<or> vlanID > 4097 \<and> vlanID \<noteq> 0xffff
         then Some (multicastACLParameterError key ''has invalid ANI VLAN ID %d'' [AU vlanID])
         else if \<not> allBytes (take 2 (drop 22 row)) 0
         then Some (multicastACLParameterError key ''has non-zero reserved bytes in row part 0'' [])
         else None)
      else if part = 1 then
        (let reset = be16 row 20 in
         if \<not> isStatic \<and> reset > 24 \<and> reset < 241
         then Some (multicastACLParameterError key ''has reserved preview reset time %d'' [AU reset])
         else if \<not> allBytes (take 2 (drop 22 row)) 0
         then Some (multicastACLParameterError key ''has non-zero reserved bytes in row part 1'' [])
         else None)
      else if part = 2 then
        (if \<not> allBytes (take 10 (drop 14 row)) 0
         then Some (multicastACLParameterError key ''has non-zero reserved bytes in row part 2'' [])
         else None)
      else None)"

definition ipv4CompatiblePrefix :: "bytes \<Rightarrow> bool" where
  "ipv4CompatiblePrefix prefix =
     (allBytes (take 10 prefix) 0
      \<and> ((prefix ! 10 = 0 \<and> prefix ! 11 = 0) \<or> (prefix ! 10 = 0xff \<and> prefix ! 11 = 0xff)))"

definition ipv4Range :: "u16 \<Rightarrow> bytes \<Rightarrow> bytes \<Rightarrow> (go_error, multicastACLRange) outcome" where
  "ipv4Range key low high =
     (let first = replicate 12 0 @ low; last = replicate 12 0 @ high in
      if drop_bit 4 (first ! 12) \<noteq> 0xe \<or> drop_bit 4 (last ! 12) \<noteq> 0xe \<or> first > last
      then Err (multicastACLParameterError key ''has invalid IPv4 multicast range %x..%x''
                  [ABytes low, ABytes high])
      else Ok \<lparr> rangeKey = key, ipv6 = False, start = first, stop = last \<rparr>)"

definition multicastACLAddressRange ::
  "u16 \<Rightarrow> bytes \<Rightarrow> bytes option \<Rightarrow> (go_error, multicastACLRange) outcome" where
  "multicastACLAddressRange key part0 part2 =
     (let low = take 4 (drop 10 part0); high = take 4 (drop 14 part0) in
      case part2 of
        None \<Rightarrow> ipv4Range key low high
      | Some p2 \<Rightarrow>
          if ipv4CompatiblePrefix (take 12 (drop 2 p2)) then ipv4Range key low high
          else let first = take 12 (drop 2 p2) @ low; last = take 12 (drop 2 p2) @ high in
            if first ! 0 \<noteq> 0xff \<or> first > last
            then Err (multicastACLParameterError key ''has invalid IPv6 multicast range %x..%x''
                        [ABytes first, ABytes last])
            else Ok \<lparr> rangeKey = key, ipv6 = True, start = first, stop = last \<rparr>)"

text \<open>Two ranges meet when they are of the same family and neither ends before the other starts.\<close>

definition rangesMeet :: "multicastACLRange \<Rightarrow> multicastACLRange \<Rightarrow> bool" where
  "rangesMeet previous value =
     (\<not> (ipv6 previous \<noteq> ipv6 value \<or> stop previous < start value \<or> stop value < start previous))"

definition validateMulticastACLRows :: "(multicastACLRowKey, bytes) gomap \<Rightarrow> (go_error, unit) outcome" where
  "validateMulticastACLRows rows =
     bindR (foldR (\<lambda>(rowKey, part0) ranges.
         if snd rowKey \<noteq> 0 then Ok ranges
         else bindR (multicastACLAddressRange (fst rowKey) part0 (map_of rows (fst rowKey, 2))) (\<lambda>value.
           case find (\<lambda>previous. rangesMeet previous value) ranges of
             Some previous \<Rightarrow> Err (multicastACLParameterError (fst rowKey)
               ''destination range overlaps row key %d'' [AU (rangeKey previous)])
           | None \<Rightarrow> Ok (ranges @ [value])))
       rows []) (\<lambda>_. Ok ())"

definition loadACLRow :: "bool \<Rightarrow> bytes \<Rightarrow> (multicastACLRowKey, bytes) gomap
    \<Rightarrow> (go_error, (multicastACLRowKey, bytes) gomap) outcome" where
  "loadACLRow isStatic row rows =
     (let control = rowControl row; part = rowPartOf control in
      if control AND (tableSetControlMask OR tableTestMask) \<noteq> 0 \<or> part > 2
      then Err (ResultError ProcessingError 0 0
             (Some (Errorf ''committed multicast ACL table contains invalid control %#x'' [AU control])))
      else let key = rowKeyOf control in
        failIf (map_option (\<lambda>e. ResultError ProcessingError 0 0 (Some e))
                  (validateMulticastACLPart key part row isStatic))
          (Ok (AList.update (key, part) row rows)))"

definition updateACLRow :: "bool \<Rightarrow> bytes \<Rightarrow> (multicastACLRowKey, bytes) gomap
    \<Rightarrow> (go_error, (multicastACLRowKey, bytes) gomap) outcome" where
  "updateACLRow isStatic row rows =
     (let control = rowControl row; setControl = setControlOf control;
          key = rowKeyOf control; part = rowPartOf control in
      if setControl = 1 then
        (if part > 2 then Err (multicastACLParameterError key ''uses reserved row part %d'' [AU part])
         else let stored = put16_at 0 (push_bit 11 (ucast part) OR key) row in
           failIf (validateMulticastACLPart key part stored isStatic) (
           let rowKey = (key, part);
               stored' = (if \<not> isStatic \<and> part = 1 \<and> be16 stored 20 = 255
                 then put16_at 20 (case map_of rows rowKey of Some previous \<Rightarrow> be16 previous 20 | None \<Rightarrow> 0) stored
                 else stored) in
           Ok (AList.update rowKey stored' rows)))
      else if setControl = 2 then Ok (filter (\<lambda>(candidate, _). fst candidate \<noteq> key) rows)
      else if setControl = 3 then Ok []
      else Err (multicastACLParameterError key ''uses reserved set control'' []))"

definition applyMulticastACLRows ::
  "string \<Rightarrow> table_rows \<Rightarrow> table_rows \<Rightarrow> (go_error, table_rows) outcome" where
  "applyMulticastACLRows name existing updates =
     (if name \<noteq> ''DynamicAccessControlListTable'' \<and> name \<noteq> ''StaticAccessControlListTable''
      then Err (ResultError NotSupported 0 0
             (Some (Errorf ''SetTable policy for class %#x attribute %s is not implemented''
                      [AU MulticastOperationsProfileClassID, AStr name])))
      else let isStatic = (name = ''StaticAccessControlListTable'') in
        bindR (foldRows multicastACLRowSize (loadACLRow isStatic) (Rows existing) []) (\<lambda>rows.
        bindR (foldRows multicastACLRowSize (updateACLRow isStatic) (Rows updates) rows) (\<lambda>rows.
        bindR (validateMulticastACLRows rows) (\<lambda>_.
        Ok \<lparr> NumRows = int (length rows), Rows = sorted_rows rows \<rparr>))))"

section \<open>Multicast service packages\<close>

definition multicastSubscriberParameterError :: "u16 \<Rightarrow> string \<Rightarrow> go_arg list \<Rightarrow> go_error" where
  "multicastSubscriberParameterError key detail args =
     ResultError ParameterError 0 0
       (Some (Errorf ''multicast subscriber row key %d %s'' [AU key, AErr (Errorf detail args)]))"

definition validateMulticastServiceRow :: "u16 \<Rightarrow> bytes \<Rightarrow> go_error option" where
  "validateMulticastServiceRow key row =
     (let vlanID = be16 row 2; profile = be16 row 10 in
      if vlanID > 4097 \<and> vlanID \<noteq> 0xffff
      then Some (multicastSubscriberParameterError key ''service row has invalid UNI VLAN ID %d'' [AU vlanID])
      else if profile = 0 \<or> profile = 0xffff
      then Some (multicastSubscriberParameterError key
             ''service row has reserved operations profile pointer %#x'' [AU profile])
      else if \<not> allBytes (take 8 (drop 12 row)) 0
      then Some (multicastSubscriberParameterError key ''service row has non-zero reserved bytes'' [])
      else None)"

definition loadServiceRow ::
  "bytes \<Rightarrow> (u16, bytes) gomap \<Rightarrow> (go_error, (u16, bytes) gomap) outcome" where
  "loadServiceRow row rows =
     (let control = rowControl row in
      if control AND NOT tableRowKeyMask \<noteq> 0
      then Err (ResultError ProcessingError 0 0
             (Some (Errorf ''committed multicast service table contains invalid control %#x'' [AU control])))
      else let key = rowKeyOf control in
        failIf (map_option (\<lambda>e. ResultError ProcessingError 0 0 (Some e)) (validateMulticastServiceRow key row))
          (Ok (AList.update key row rows)))"

definition updateServiceRow ::
  "bytes \<Rightarrow> (u16, bytes) gomap \<Rightarrow> (go_error, (u16, bytes) gomap) outcome" where
  "updateServiceRow row rows =
     (let control = rowControl row; setControl = setControlOf control; key = rowKeyOf control in
      if setControl = 1 then
        (if control AND 0x3c00 \<noteq> 0
         then Err (multicastSubscriberParameterError key ''service row has non-zero reserved control bits'' [])
         else let stored = put16_at 0 key row in
           failIf (validateMulticastServiceRow key stored) (Ok (AList.update key stored rows)))
      else if setControl = 2 then Ok (AList.delete key rows)
      else if setControl = 3 then Ok []
      else Err (multicastSubscriberParameterError key ''service row uses reserved set control'' []))"

definition applyMulticastServiceRows :: "bytes \<Rightarrow> bytes \<Rightarrow> (go_error, table_rows) outcome" where
  "applyMulticastServiceRows existing updates =
     bindR (foldRows multicastServiceRowSize loadServiceRow existing []) (\<lambda>rows.
     bindR (foldRows multicastServiceRowSize updateServiceRow updates rows) (\<lambda>rows.
     Ok \<lparr> NumRows = int (length rows), Rows = sorted_rows rows \<rparr>))"

section \<open>Allowed preview groups\<close>

definition validatePreviewAddress :: "u16 \<Rightarrow> string \<Rightarrow> bytes \<Rightarrow> bool \<Rightarrow> go_error option" where
  "validatePreviewAddress key field value multicast =
     (if allBytes value 0 \<and> \<not> multicast then None
      else let ipv4 = allBytes (take 12 value) 0;
               valid = (if ipv4 then \<not> multicast \<or> drop_bit 4 (value ! 12) = 0xe
                        else \<not> multicast \<or> value ! 0 = 0xff) in
        if \<not> valid
        then Some (multicastSubscriberParameterError key ''preview row has invalid %s IP address %x''
                     [AStr field, ABytes value])
        else None)"

definition validateAllowedPreviewPart0 :: "u16 \<Rightarrow> bytes \<Rightarrow> go_error option" where
  "validateAllowedPreviewPart0 key row =
     (case find (\<lambda>offset. be16 row offset > 4095) [18, 20] of
        Some offset \<Rightarrow> Some (multicastSubscriberParameterError key
          ''preview row has invalid VLAN ID %d'' [AU (be16 row offset)])
      | None \<Rightarrow> validatePreviewAddress key ''source'' (take 16 (drop 2 row)) False)"

definition validateAllowedPreviewPart1 :: "u16 \<Rightarrow> bytes \<Rightarrow> go_error option" where
  "validateAllowedPreviewPart1 key row =
     validatePreviewAddress key ''destination'' (take 16 (drop 2 row)) True"

definition loadPreviewRow :: "bytes \<Rightarrow> (multicastACLRowKey, bytes) gomap
    \<Rightarrow> (go_error, (multicastACLRowKey, bytes) gomap) outcome" where
  "loadPreviewRow row rows =
     (let control = rowControl row; part = rowPartOf control in
      if control AND (tableSetControlMask OR tableTestMask) \<noteq> 0 \<or> part > 1
      then Err (ResultError ProcessingError 0 0
             (Some (Errorf ''committed allowed-preview table contains invalid control %#x'' [AU control])))
      else let key = rowKeyOf control in
        failIf (map_option (\<lambda>e. ResultError ProcessingError 0 0 (Some e))
                  (if part = 0 then validateAllowedPreviewPart0 key row
                   else validateAllowedPreviewPart1 key row))
          (Ok (AList.update (key, part) row rows)))"

text \<open>The time left of a re-written timed row: the old remainder moved by the change of duration.\<close>

definition previewTimeLeft :: "u16 \<Rightarrow> bytes option \<Rightarrow> u16" where
  "previewTimeLeft duration previous =
     (case previous of
        None \<Rightarrow> duration
      | Some row \<Rightarrow>
          let oldDuration = be16 row 18; oldTimeLeft = be16 row 20 in
          if oldDuration \<noteq> 0 \<and> duration \<noteq> 0
          then let adjusted = uint oldTimeLeft + uint duration - uint oldDuration;
                   adjusted' = (if adjusted < 0 then 0 else adjusted);
                   adjusted'' = (if adjusted' > 0xffff then 0xffff else adjusted') in
            word_of_int adjusted''
          else duration)"

definition updatePreviewRow :: "bytes \<Rightarrow> (multicastACLRowKey, bytes) gomap
    \<Rightarrow> (go_error, (multicastACLRowKey, bytes) gomap) outcome" where
  "updatePreviewRow row rows =
     (let control = rowControl row; setControl = setControlOf control;
          key = rowKeyOf control; part = rowPartOf control in
      if setControl = 1 then
        (if control AND tableTestMask \<noteq> 0 \<or> part > 1
         then Err (multicastSubscriberParameterError key ''preview row has invalid row part/control %d/%#x''
                     [AU part, AU control])
         else let stored = put16_at 0 (push_bit 11 (ucast part) OR key) row; rowKey = (key, part) in
           if part = 0
           then failIf (validateAllowedPreviewPart0 key stored) (Ok (AList.update rowKey stored rows))
           else failIf (validateAllowedPreviewPart1 key stored) (
             let duration = be16 stored 18;
                 timeLeft = previewTimeLeft duration (map_of rows rowKey);
                 stored' = put16_at 20 timeLeft stored in
             if duration \<noteq> 0 \<and> timeLeft = 0
             then Ok (filter (\<lambda>(candidate, _). fst candidate \<noteq> key) rows)
             else Ok (AList.update rowKey stored' rows)))
      else if setControl = 2 then Ok (filter (\<lambda>(candidate, _). fst candidate \<noteq> key) rows)
      else if setControl = 3 then Ok []
      else Err (multicastSubscriberParameterError key ''preview row uses reserved set control'' []))"

definition applyAllowedPreviewRows :: "bytes \<Rightarrow> bytes \<Rightarrow> (go_error, table_rows) outcome" where
  "applyAllowedPreviewRows existing updates =
     bindR (foldRows multicastPreviewRowSize loadPreviewRow existing []) (\<lambda>rows.
     bindR (foldRows multicastPreviewRowSize updatePreviewRow updates rows) (\<lambda>rows.
     Ok \<lparr> NumRows = int (length rows), Rows = sorted_rows rows \<rparr>))"

definition applyMulticastSubscriberRows ::
  "string \<Rightarrow> table_rows \<Rightarrow> table_rows \<Rightarrow> (go_error, table_rows) outcome" where
  "applyMulticastSubscriberRows name existing updates =
     (if name = ''MulticastServicePackageTable'' then applyMulticastServiceRows (Rows existing) (Rows updates)
      else if name = ''AllowedPreviewGroupsTable'' then applyAllowedPreviewRows (Rows existing) (Rows updates)
      else Err (ResultError NotSupported 0 0
             (Some (Errorf ''SetTable policy for class %#x attribute %s is not implemented''
                      [AU MulticastSubscriberConfigInfoClassID, AStr name]))))"

section \<open>Dispatch on class and attribute\<close>

text \<open>\<open>Store.applyTableRows\<close>, with the store's table size.\<close>

definition applyTableRows ::
  "u16 \<Rightarrow> u16 \<Rightarrow> string \<Rightarrow> table_rows \<Rightarrow> table_rows \<Rightarrow> (go_error, table_rows) outcome" where
  "applyTableRows extendedVLANTableSize classID name existing updates =
     (if classID = MulticastGemIwTpClassID then applyMulticastAddressRows name existing updates
      else if classID = MulticastOperationsProfileClassID then applyMulticastACLRows name existing updates
      else if classID = MulticastSubscriberConfigInfoClassID
      then applyMulticastSubscriberRows name existing updates
      else let notImplemented = Err (ResultError NotSupported 0 0
             (Some (Errorf ''SetTable policy for class %#x attribute %s is not implemented''
                      [AU classID, AStr name]))) in
      if classID \<noteq> ExtendedVlanClassID then notImplemented
      else if name = ''ReceivedFrameVlanTaggingOperationTable'' then
        bindR (foldRows extendedVLANRowSize checkClassicRow (Rows updates) ()) (\<lambda>_.
        bindR (applyKeyedRows (Rows existing) (Rows updates) extendedVLANRowSize 8
                 (\<lambda>row. allBytes (drop 8 row) 0xff)) (\<lambda>rows.
        if length rows div extendedVLANRowSize > unat extendedVLANTableSize
        then Err (tableCapacityError (length rows div extendedVLANRowSize) extendedVLANTableSize)
        else Ok \<lparr> NumRows = int (length rows div extendedVLANRowSize), Rows = rows \<rparr>))
      else if name = ''EnhancedReceivedFrameClassificationAndProcessingTable'' then
        bindR (applyEnhancedVLANRows (Rows existing) (Rows updates)) (\<lambda>rows.
        if length rows div enhancedExtendedVLANRowSize > unat extendedVLANTableSize
        then Err (tableCapacityError (length rows div enhancedExtendedVLANRowSize) extendedVLANTableSize)
        else Ok \<lparr> NumRows = int (length rows div enhancedExtendedVLANRowSize), Rows = rows \<rparr>)
      else notImplemented)"

section \<open>Preview timers\<close>

definition indexAllowedPreviewTimers ::
  "AllowedPreviewTimer list \<Rightarrow> (go_error, (u16, AllowedPreviewTimer) gomap) outcome" where
  "indexAllowedPreviewTimers timers =
     foldR (\<lambda>timer result.
       if RowKey timer > tableRowKeyMask \<or> (Duration timer = 0 \<and> TimeLeft timer \<noteq> 0)
          \<or> (Duration timer \<noteq> 0 \<and> TimeLeft timer > Duration timer)
       then Err (Errorf ''invalid allowed-preview timer row %d duration/time-left %d/%d''
                   [AU (RowKey timer), AU (Duration timer), AU (TimeLeft timer)])
       else if map_of result (RowKey timer) \<noteq> None
       then Err (Errorf ''duplicate allowed-preview timer row %d'' [AU (RowKey timer)])
       else Ok (AList.update (RowKey timer) timer result)) timers []"

text \<open>The row rewritten by \<open>OverlayAllowedPreviewTimers\<close>, and the keys collected for expiry.\<close>

definition overlayRow :: "(u16, AllowedPreviewTimer) gomap \<Rightarrow> bytes \<Rightarrow> bytes" where
  "overlayRow indexed row =
     (let control = rowControl row in
      if control AND tableRowPartMask \<noteq> push_bit 11 1 then row
      else case map_of indexed (rowKeyOf control) of
        None \<Rightarrow> row
      | Some timer \<Rightarrow> if Duration timer \<noteq> be16 row 18 then row else put16_at 20 (TimeLeft timer) row)"

definition expiredRow :: "(u16, AllowedPreviewTimer) gomap \<Rightarrow> bytes \<Rightarrow> u16 option" where
  "expiredRow indexed row =
     (let control = rowControl row in
      if control AND tableRowPartMask \<noteq> push_bit 11 1 then None
      else let key = rowKeyOf control; duration = be16 row 18 in
        case map_of indexed key of
          None \<Rightarrow> None
        | Some timer \<Rightarrow>
            if duration \<noteq> 0 \<and> Duration timer = duration \<and> TimeLeft timer = 0 then Some key else None)"

end
