(* ===== verification/MibStore.thy ===== *)
theory MibStore
  imports MibTable
begin

unbundle bit_operations_syntax

text \<open>
  The management information base of the ONU (src/internal/mib/store.go and the store operations of
  table.go). A store holds the factory MIB, the current MIB and the MIB data sync counter; every
  mutation builds the next MIB, hands the complete candidate to the platform (the applier) and is
  committed only when the platform accepts it.

  Each operation runs under the store's mutex, so it is one step on the store. The applier and a
  command transaction are external: they are functions on a state \<open>'w\<close> of the world outside.
  \<open>cloneValue\<close>, \<open>cloneAttributes\<close> and \<open>cloneInstance\<close> copy values, which are values here; the one
  place where the code relies on sharing is noted at \<open>commitLocked\<close>.
\<close>

section \<open>Data\<close>

abbreviation (input) OriginONU :: u8 where "OriginONU \<equiv> 0"
abbreviation (input) OriginOLT :: u8 where "OriginOLT \<equiv> 1"

datatype Key = Key (ClassID: u16) (EntityID: u16)

instantiation Key :: linorder
begin

definition less_eq_Key :: "Key \<Rightarrow> Key \<Rightarrow> bool" where
  "less_eq_Key a b = ((ClassID a, EntityID a) \<le> (ClassID b, EntityID b))"

definition less_Key :: "Key \<Rightarrow> Key \<Rightarrow> bool" where
  "less_Key a b = ((ClassID a, EntityID a) < (ClassID b, EntityID b))"

instance
  by standard (auto simp: less_eq_Key_def less_Key_def less_le_not_le intro: Key.expand)

end

record Instance =
  ikey :: Key
  Attributes :: attribute_map
  Origin :: u8

type_synonym instances = "(Key, Instance) gomap"

record AttributeCapability =
  LowerLimit :: u32
  UpperLimit :: u32
  BitField :: u32
  CodePoints :: "u16 list"

datatype Operation = OperationCreate | OperationSet | OperationSetTable | OperationDelete
  | OperationReset | OperationCommand | OperationAutonomous

record Change =
  Operation :: Operation
  StateDomain :: string
  Before :: "Instance option"
  After :: "Instance option"
  Snapshot :: "Instance list"
  MIBDataSync :: u8

type_synonym 'w applier = "Change \<Rightarrow> 'w \<Rightarrow> go_error option \<times> 'w"

record 'w CommandTransaction =
  Commit :: "'w \<Rightarrow> go_error option \<times> 'w"
  Abort :: "'w \<Rightarrow> go_error option \<times> 'w"

record 'w Options =
  OptApplier :: "'w applier option"
  OptExtendedVLANTableSize :: u16
  OptStateDomain :: string
  SupportedClasses :: "u16 list"
  SupportedAttributeMasks :: "(u16, u16) gomap option"
  OptValidateInstance :: "(Instance \<Rightarrow> go_error option) option"
  AttributeCapabilities :: "(u16 \<times> string, AttributeCapability) gomap"

record 'w Store =
  factory :: instances
  current :: instances
  dataSync :: u8
  applier :: "'w applier option"
  extendedVLANTableSize :: u16
  stateDomain :: string
  supportedClasses :: "u16 list option"
  supportedAttributes :: "(u16, u16) gomap option"
  attributeCapabilities :: "(u16 \<times> string, AttributeCapability) gomap"
  validateInstance :: "(Instance \<Rightarrow> go_error option) option"

definition defaultExtendedVLANTableSize :: u16 where "defaultExtendedVLANTableSize = 64"

definition onuDataKey :: Key where "onuDataKey = Key OnuDataClassID 0"

definition MibDataSync :: string where "MibDataSync = ''MibDataSync''"

section \<open>Definitions and masks\<close>

definition loadDefinition ::
  "class_table \<Rightarrow> u16 \<Rightarrow> u16 \<Rightarrow> attribute_map \<Rightarrow> (go_error, managed_entity) outcome" where
  "loadDefinition classes classID entityID attrs =
     bindR (mapErr (\<lambda>e. ResultError UnknownEntity 0 0 (Some e))
              (LoadManagedEntityDefinition classes classID entityID attrs)) (\<lambda>entity.
     if Support (medef entity) \<in> {UnsupportedManagedEntity, UnsupportedVendorSpecificManagedEntity}
     then Err (ResultError UnknownEntity 0 0
            (Some (Errorf ''managed entity class %#x is unknown'' [AU classID])))
     else Ok entity)"

definition attributeMask :: "class_table \<Rightarrow> u16 \<Rightarrow> string \<Rightarrow> u16" where
  "attributeMask classes classID name =
     (case GetAttributeDefinitionByName (GetAttributesDefinitions classes classID) name of
        Ok d \<Rightarrow> Mask d | _ \<Rightarrow> 0)"

definition attributeValueError :: "class_table \<Rightarrow> u16 \<Rightarrow> string \<Rightarrow> string \<Rightarrow> go_arg list \<Rightarrow> go_error" where
  "attributeValueError classes classID name format args =
     ResultError AttributeFailure (attributeMask classes classID name) 0 (Some (Errorf format args))"

definition supportsClass :: "'w Store \<Rightarrow> u16 \<Rightarrow> bool" where
  "supportsClass s classID =
     (case supportedClasses s of None \<Rightarrow> True | Some supported \<Rightarrow> classID \<in> set supported)"

definition supportedAttributeMask :: "'w Store \<Rightarrow> u16 \<Rightarrow> u16 option" where
  "supportedAttributeMask s classID =
     (case supportedAttributes s of None \<Rightarrow> None | Some masks \<Rightarrow> map_of masks classID)"

definition unknownKeyError0 :: "class_table \<Rightarrow> Key \<Rightarrow> go_error" where
  "unknownKeyError0 classes key =
     (case loadDefinition classes (ClassID key) (EntityID key) [] of
        Err e \<Rightarrow> e | _ \<Rightarrow> ResultError UnknownInstance 0 0 None)"

definition unknownKeyError :: "class_table \<Rightarrow> 'w Store \<Rightarrow> Key \<Rightarrow> go_error" where
  "unknownKeyError classes s key =
     (if \<not> supportsClass s (ClassID key)
      then ResultError UnknownEntity 0 0
             (Some (Errorf ''managed entity class %#x is not supported by this ONU'' [AU (ClassID key)]))
      else unknownKeyError0 classes key)"

definition validateSupportedAttributes :: "'w Store \<Rightarrow> managed_entity \<Rightarrow> attribute_map \<Rightarrow> go_error option" where
  "validateSupportedAttributes s entity attrs =
     (case supportedAttributeMask s (entityClass entity) of
        None \<Rightarrow> None
      | Some supported \<Rightarrow>
          let unsupported = fold (\<lambda>(name, _) unsupported.
                if name = ManagedEntityID then unsupported
                else case GetAttributeDefinitionByName (AttributeDefinitions (medef entity)) name of
                  Ok d \<Rightarrow> if Mask d AND supported = 0 then unsupported OR Mask d else unsupported
                | _ \<Rightarrow> 0xffff) attrs 0 in
          if unsupported \<noteq> 0 then Some (ResultError AttributeFailure 0 unsupported None) else None)"

definition pruneUnsupportedAttributes ::
  "class_table \<Rightarrow> 'w Store \<Rightarrow> u16 \<Rightarrow> attribute_map \<Rightarrow> attribute_map" where
  "pruneUnsupportedAttributes classes s classID attrs =
     (case supportedAttributeMask s classID of
        None \<Rightarrow> attrs
      | Some supported \<Rightarrow>
          filter (\<lambda>(name, _). name = ManagedEntityID \<or>
            (case GetAttributeDefinitionByName (GetAttributesDefinitions classes classID) name of
               Ok d \<Rightarrow> Mask d AND supported \<noteq> 0 | _ \<Rightarrow> False)) attrs)"

definition validateAccess :: "managed_entity \<Rightarrow> attribute_map \<Rightarrow> attribute_access \<Rightarrow> go_error option" where
  "validateAccess entity attrs required =
     (let (failed, unsupported) = fold (\<lambda>(name, _) (failed, unsupported).
            if name = ManagedEntityID then (failed, unsupported)
            else case find (\<lambda>(index, d). index \<noteq> 0 \<and> AttrName d = name) (AttributeDefinitions (medef entity)) of
              Some (_, d) \<Rightarrow> if SupportsAttributeAccess d required then (failed, unsupported)
                             else (failed OR Mask d, unsupported)
            | None \<Rightarrow> (failed, 0xffff)) attrs (0, 0) in
      if failed \<noteq> 0 \<or> unsupported \<noteq> 0
      then Some (ResultError AttributeFailure failed unsupported None) else None)"

section \<open>Validation of an instance\<close>

definition byteAttribute :: "attribute_map \<Rightarrow> string \<Rightarrow> u8 option" where
  "byteAttribute attrs name = (case map_of attrs name of Some (VU8 b) \<Rightarrow> Some b | _ \<Rightarrow> None)"

definition recordSize :: nat where "recordSize = 25"

definition onu3Error :: "string \<Rightarrow> go_arg list \<Rightarrow> go_error option" where
  "onu3Error format args = Some (ResultError ParameterError 0 0 (Some (Errorf format args)))"

definition recentSnapshotError :: "u16 \<Rightarrow> u16 \<Rightarrow> u16 \<Rightarrow> bytes \<Rightarrow> bytes \<Rightarrow> go_error option" where
  "recentSnapshotError cap valid next rows recent =
     (if valid = 0 then None
      else let latest = (unat next + unat cap - 1) mod unat cap; offset = latest * recordSize in
        if offset + recordSize > length rows \<or> recent \<noteq> take recordSize (drop offset rows)
        then onu3Error ''ONU3-G most recent snapshot does not match table index %d'' [AN latest]
        else None)"

definition validateONU3State :: "Instance \<Rightarrow> go_error option" where
  "validateONU3State inst =
     (let attrs = Attributes inst in
      case (map_of attrs ''TotalNumberOfStatusSnapshots'', map_of attrs ''NumberOfValidStatusSnapshots'',
            map_of attrs ''NextStatusSnapshotIndex'', map_of attrs ''StatusSnapshotRecordTable'',
            map_of attrs ''MostRecentStatusSnapshot'') of
        (Some (VU16 cap), Some (VU16 valid), Some (VU16 next), Some (VTable table), Some (VOctets recent)) \<Rightarrow>
          if cap = 0 \<or> valid > cap \<or> next \<ge> cap
          then onu3Error ''ONU3-G status snapshot S/M/K = %d/%d/%d is invalid'' [AU cap, AU valid, AU next]
          else if valid < cap \<and> next \<noteq> valid
          then onu3Error ''ONU3-G partial status table has M/K = %d/%d'' [AU valid, AU next]
          else if NumRows table \<noteq> uint valid \<or> length (Rows table) \<noteq> unat valid * recordSize
          then onu3Error ''ONU3-G status table has %d rows/%d bytes for M=%d''
                 [AInt (NumRows table), AN (length (Rows table)), AU valid]
          else if length recent \<noteq> recordSize
          then onu3Error ''ONU3-G most recent snapshot has %d bytes'' [AN (length recent)]
          else if (case byteAttribute attrs ''EnhancedMode'' of Some enhanced \<Rightarrow> enhanced > 1 | None \<Rightarrow> False)
          then onu3Error ''ONU3-G enhanced mode %d is not boolean''
                 [AU (the (byteAttribute attrs ''EnhancedMode''))]
          else recentSnapshotError cap valid next (Rows table) recent
      | _ \<Rightarrow> onu3Error ''ONU3-G status snapshot attributes have invalid types'' [])"

definition validateAniG :: "class_table \<Rightarrow> u16 \<Rightarrow> attribute_map \<Rightarrow> go_error option" where
  "validateAniG classes classID attrs =
     (let fail = (\<lambda>names format args. Some (ResultError AttributeFailure
            (fold (\<lambda>n m. m OR attributeMask classes classID n) names 0) 0 (Some (Errorf format args))));
          get = byteAttribute attrs in
      case (get ''SignalFailThreshold'', get ''SignalDegradeThreshold'', get ''LowerOpticalThreshold'',
            get ''UpperOpticalThreshold'', get ''LowerTransmitPowerThreshold'', get ''UpperTransmitPowerThreshold'')
      of (sf, sd, lowerRX, upperRX, lowerTX, upperTX) \<Rightarrow>
        if (case sf of Some v \<Rightarrow> v < 3 \<or> v > 8 | None \<Rightarrow> False)
        then Some (attributeValueError classes classID ''SignalFailThreshold''
               ''SF threshold %d is outside 3..8'' [AU (the sf)])
        else if (case sd of Some v \<Rightarrow> v < 4 \<or> v > 10 | None \<Rightarrow> False)
        then Some (attributeValueError classes classID ''SignalDegradeThreshold''
               ''SD threshold %d is outside 4..10'' [AU (the sd)])
        else if (case (sf, sd) of (Some f, Some d) \<Rightarrow> d \<le> f | _ \<Rightarrow> False)
        then fail [''SignalFailThreshold'', ''SignalDegradeThreshold'']
               ''SD threshold %d must be greater than SF threshold %d'' [AU (the sd), AU (the sf)]
        else if (case (lowerRX, upperRX) of
               (Some l, Some u) \<Rightarrow> l \<noteq> 0xff \<and> u \<noteq> 0xff \<and> l < u | _ \<Rightarrow> False)
        then fail [''LowerOpticalThreshold'', ''UpperOpticalThreshold'']
               ''lower receive threshold %#x is above upper threshold %#x'' [AU (the lowerRX), AU (the upperRX)]
        else if (case (lowerTX, upperTX) of
               (Some l, Some u) \<Rightarrow> l \<noteq> 0x81 \<and> u \<noteq> 0x81 \<and> sint l > sint u | _ \<Rightarrow> False)
        then fail [''LowerTransmitPowerThreshold'', ''UpperTransmitPowerThreshold'']
               ''lower transmit threshold %d is above upper threshold %d''
               [AInt (sint (the lowerTX)), AInt (sint (the upperTX))]
        else None)"

text \<open>The class-specific checks of \<open>validateSemantics\<close>.\<close>

definition validateClass :: "class_table \<Rightarrow> u16 \<Rightarrow> attribute_map \<Rightarrow> Instance \<Rightarrow> go_error option" where
  "validateClass classes classID attrs inst =
     (if classID = Onu3GClassID then validateONU3State inst
      else if classID \<in> {OnuGClassID, CircuitPackClassID, PptpEthernetUniClassID, UniGClassID}
      then (case byteAttribute attrs ''AdministrativeState'' of
          Some state \<Rightarrow> if state > 1
            then Some (ResultError AttributeFailure (attributeMask classes classID ''AdministrativeState'') 0
                   (Some (Errorf ''administrative state %d is not 0 or 1'' [AU state])))
            else None
        | None \<Rightarrow> None)
      else if classID \<noteq> AniGClassID then None
      else validateAniG classes classID attrs)"

definition validateSemantics :: "class_table \<Rightarrow> Instance \<Rightarrow> go_error option" where
  "validateSemantics classes inst =
     (let attrs = Attributes inst; classID = ClassID (ikey inst) in
      case byteAttribute attrs ''Arc'' of
        Some arc \<Rightarrow> if arc > 1
          then Some (ResultError AttributeFailure (attributeMask classes classID ''Arc'') 0
                 (Some (Errorf ''ARC value %d is not 0 or 1'' [AU arc])))
          else validateClass classes classID attrs inst
      | None \<Rightarrow> validateClass classes classID attrs inst)"

definition unsignedCapabilityValue :: "attr_value \<Rightarrow> u64 option" where
  "unsignedCapabilityValue val =
     (case val of VU8 w \<Rightarrow> Some (ucast w) | VU16 w \<Rightarrow> Some (ucast w) | VU32 w \<Rightarrow> Some (ucast w)
      | VU64 w \<Rightarrow> Some w | _ \<Rightarrow> None)"

definition maximumCapabilityValue :: "int \<Rightarrow> u64" where
  "maximumCapabilityValue sz =
     (if sz \<le> 0 \<or> sz \<ge> 8 then -1 else push_bit (nat sz * 8) 1 - 1)"

definition capabilityError :: "class_table \<Rightarrow> (u16 \<times> string) \<times> AttributeCapability \<Rightarrow> Instance \<Rightarrow> go_error option" where
  "capabilityError classes entry inst =
     (case entry of ((classID, name), capability) \<Rightarrow>
      if classID \<noteq> ClassID (ikey inst) then None
      else case map_of (Attributes inst) name of
        None \<Rightarrow> None
      | Some val \<Rightarrow>
          (case GetAttributeDefinitionByName (GetAttributesDefinitions classes classID) name of
             Ok d \<Rightarrow>
               (case unsignedCapabilityValue val of
                  None \<Rightarrow> Some (ResultError ParameterError 0 0
                    (Some (Errorf ''attribute %s has unsupported capability value type %T''
                             [AStr name, AStr (typeName val)])))
                | Some number \<Rightarrow>
                    let valid = (case AttributeType d of
                          EnumerationAttributeType \<Rightarrow>
                            list_ex (\<lambda>codePoint. number = ucast codePoint) (CodePoints capability)
                        | BitFieldAttributeType \<Rightarrow> number AND NOT (ucast (BitField capability)) = 0
                        | _ \<Rightarrow> ucast (LowerLimit capability) \<le> number \<and> number \<le> ucast (UpperLimit capability)) in
                    if \<not> valid
                    then Some (ResultError AttributeFailure (Mask d) 0
                           (Some (Errorf ''attribute %s value %d is outside the advertised device capability''
                                    [AStr name, AU number])))
                    else None)
           | Err e \<Rightarrow> Some (ResultError ProcessingError 0 0 (Some e))
           | Panic \<Rightarrow> None))"

definition validateAttributeCapabilities :: "class_table \<Rightarrow> 'w Store \<Rightarrow> Instance \<Rightarrow> go_error option" where
  "validateAttributeCapabilities classes s inst =
     fold (\<lambda>entry err. case err of Some e \<Rightarrow> Some e | None \<Rightarrow> capabilityError classes entry inst)
       (attributeCapabilities s) None"

definition normalize0 :: "class_table \<Rightarrow> Instance \<Rightarrow> (go_error, Instance) outcome" where
  "normalize0 classes inst =
     bindR (loadDefinition classes (ClassID (ikey inst)) (EntityID (ikey inst)) (Attributes inst)) (\<lambda>entity.
     let inst' = inst\<lparr>Attributes := attributes entity\<rparr> in
     failIf (validateSemantics classes inst') (Ok inst'))"

definition normalize :: "class_table \<Rightarrow> 'w Store \<Rightarrow> Instance \<Rightarrow> (go_error, Instance) outcome" where
  "normalize classes s inst =
     bindR (normalize0 classes inst) (\<lambda>normalized.
     failIf (validateAttributeCapabilities classes s normalized)
       (failIf (case validateInstance s of None \<Rightarrow> None | Some f \<Rightarrow> f normalized) (Ok normalized)))"

section \<open>Data sync and snapshots\<close>

definition incrementDataSync :: "u8 \<Rightarrow> u8" where
  "incrementDataSync value = (if value = 255 then 1 else value + 1)"

definition nextDataSync :: "'w Store \<Rightarrow> u8" where
  "nextDataSync s = incrementDataSync (dataSync s)"

definition withDataSync :: "u8 \<Rightarrow> Instance \<Rightarrow> Instance" where
  "withDataSync value inst = inst\<lparr>Attributes := AList.update MibDataSync (VU8 value) (Attributes inst)\<rparr>"

definition setDataSync :: "u8 \<Rightarrow> instances \<Rightarrow> instances" where
  "setDataSync value insts =
     (case map_of insts onuDataKey of
        None \<Rightarrow> insts
      | Some inst \<Rightarrow> AList.update onuDataKey (withDataSync value inst) insts)"

definition snapshotInstances :: "instances \<Rightarrow> Instance list" where
  "snapshotInstances insts = sort_key ikey (map snd insts)"

section \<open>Commit\<close>

text \<open>An operation on the store and the world outside.\<close>

type_synonym ('w, 'a) op = "'w Store \<Rightarrow> 'w \<Rightarrow> (go_error, 'a) outcome \<times> 'w Store \<times> 'w"

text \<open>The part of an operation that returns early with an error leaves the store as it is.\<close>

definition attempt :: "(go_error, 'b) outcome \<Rightarrow> ('b \<Rightarrow> ('w, 'a) op) \<Rightarrow> ('w, 'a) op" where
  "attempt m k s w = (case m of Ok x \<Rightarrow> k x s w | Err e \<Rightarrow> (Err e, s, w) | Panic \<Rightarrow> (Panic, s, w))"

definition callApplier :: "'w Store \<Rightarrow> Change \<Rightarrow> 'w \<Rightarrow> go_error option \<times> 'w" where
  "callApplier s change w = (case applier s of None \<Rightarrow> (None, w) | Some apply \<Rightarrow> apply change w)"

text \<open>
  \<open>commitLocked\<close>. The attribute map of \<open>after\<close> is the one stored in \<open>next\<close>, so the write of
  \<open>setDataSync\<close> shows in both.
\<close>

definition commitLocked :: "Operation \<Rightarrow> Instance option \<Rightarrow> Instance option \<Rightarrow> instances \<Rightarrow> u8 \<Rightarrow> ('w, unit) op" where
  "commitLocked operation before after next0 sync s w =
     (let next = setDataSync sync next0;
          change = \<lparr> Operation = operation, StateDomain = stateDomain s, Before = before,
            After = map_option (\<lambda>a. if ikey a = onuDataKey then withDataSync sync a else a) after,
            Snapshot = snapshotInstances next, MIBDataSync = sync \<rparr> in
      case callApplier s change w of
        (Some e, w') \<Rightarrow>
          (Err (ResultError ProcessingError 0 0 (Some (Errorf ''apply platform state: %w'' [AErr e]))), s, w')
      | (None, w') \<Rightarrow> (Ok (), s\<lparr>current := next, dataSync := sync\<rparr>, w'))"

section \<open>Reading\<close>

definition Exists :: "'w Store \<Rightarrow> Key \<Rightarrow> bool" where
  "Exists s key = (map_of (current s) key \<noteq> None)"

text \<open>\<open>Get\<close> returns the selected attributes, with an error that names the unsupported ones.\<close>

definition Get :: "class_table \<Rightarrow> 'w Store \<Rightarrow> Key \<Rightarrow> u16 \<Rightarrow> (go_error, Instance \<times> go_error option) outcome" where
  "Get classes s key requested =
     (case map_of (current s) key of
        None \<Rightarrow> Err (unknownKeyError classes s key)
      | Some inst \<Rightarrow>
          bindR (loadDefinition classes (ClassID key) (EntityID key) (Attributes inst)) (\<lambda>entity.
          let allowed0 = AllowedAttributeMask (medef entity);
              allowed = (case supportedAttributeMask s (ClassID key) of
                           Some supported \<Rightarrow> allowed0 AND supported | None \<Rightarrow> allowed0);
              unsupported = requested AND NOT allowed;
              selectedMask = requested AND allowed;
              selected = fold (\<lambda>(index, d) selected.
                  if index = 0 \<or> selectedMask AND Mask d \<noteq> 0
                  then (case map_of (Attributes inst) (AttrName d) of
                          Some val \<Rightarrow> AList.update (AttrName d) val selected | None \<Rightarrow> selected)
                  else selected) (AttributeDefinitions (medef entity)) [];
              inst' = inst\<lparr>Attributes := selected\<rparr> in
          Ok (inst', if unsupported \<noteq> 0 then Some (ResultError AttributeFailure 0 unsupported None) else None)))"

section \<open>Creating and deleting\<close>

definition emptyTable :: attr_value where "emptyTable = VTable \<lparr> NumRows = 0, Rows = [] \<rparr>"

definition setAll :: "(string \<times> attr_value) list \<Rightarrow> attribute_map \<Rightarrow> attribute_map" where
  "setAll updates attrs = fold (\<lambda>(name, val). AList.update name val) updates attrs"

definition initializeCreatedInstance :: "u16 \<Rightarrow> Instance \<Rightarrow> Instance" where
  "initializeCreatedInstance tableSize inst =
     (let classID = ClassID (ikey inst);
          updates = (if classID = ExtendedVlanClassID then
              [(''ReceivedFrameVlanTaggingOperationTableMaxSize'', VU16 tableSize),
               (''ReceivedFrameVlanTaggingOperationTable'',
                  VTable \<lparr> NumRows = 3, Rows = extendedVLANDefaultRows \<rparr>),
               (''EnhancedReceivedFrameClassificationAndProcessingTable'', emptyTable)]
            else if classID = MulticastGemIwTpClassID then
              [(''Ipv4MulticastAddressTable'', emptyTable), (''Ipv6MulticastAddressTable'', emptyTable)]
            else if classID = MulticastOperationsProfileClassID then
              [(''DynamicAccessControlListTable'', emptyTable), (''StaticAccessControlListTable'', emptyTable),
               (''LostGroupsListTable'', emptyTable)]
            else if classID = MulticastSubscriberConfigInfoClassID then
              [(''MulticastServicePackageTable'', emptyTable), (''AllowedPreviewGroupsTable'', emptyTable)]
            else if classID = MulticastSubscriberMonitorClassID then
              [(''Ipv4ActiveGroupListTable'', emptyTable), (''Ipv6ActiveGroupListTable'', emptyTable)]
            else []) in
      inst\<lparr>Attributes := setAll updates (Attributes inst)\<rparr>)"

definition createdByOlt :: "me_definition \<Rightarrow> bool" where
  "createdByOlt d = (ClassAccess d = CreatedByOlt \<or> ClassAccess d = CreatedByBoth)"

text \<open>The instance that \<open>Create\<close> builds, or the reason it refuses.\<close>

definition newInstance ::
  "class_table \<Rightarrow> 'w Store \<Rightarrow> u16 \<Rightarrow> u16 \<Rightarrow> attribute_map \<Rightarrow> (go_error, Instance) outcome" where
  "newInstance classes s classID entityID attrs =
     (let key = Key classID entityID in
      if \<not> supportsClass s classID
      then Err (ResultError UnknownEntity 0 0
             (Some (Errorf ''managed entity class %#x is not supported by this ONU'' [AU classID])))
      else if map_of (current s) key \<noteq> None then Err (ResultError InstanceExists 0 0 None)
      else bindR (loadDefinition classes classID entityID attrs) (\<lambda>entity.
      if \<not> SupportsMsgType entity MsgCreate \<or> \<not> createdByOlt (medef entity)
      then Err (ResultError NotSupported 0 0 None)
      else failIf (validateSupportedAttributes s entity attrs) (
      failIf (validateAccess entity attrs SetByCreate) (
      let createdAttributes = pruneUnsupportedAttributes classes s classID
            (MergeInDefaultValues classes classID attrs);
          inst0 = initializeCreatedInstance (extendedVLANTableSize s)
            \<lparr> ikey = key, Attributes = createdAttributes, Origin = OriginOLT \<rparr>;
          inst = inst0\<lparr>Attributes := pruneUnsupportedAttributes classes s classID (Attributes inst0)\<rparr> in
      normalize classes s inst))))"

definition Create :: "class_table \<Rightarrow> u16 \<Rightarrow> u16 \<Rightarrow> attribute_map \<Rightarrow> ('w, unit) op" where
  "Create classes classID entityID attrs s w =
     attempt (newInstance classes s classID entityID attrs) (\<lambda>inst s.
       let next = AList.update (Key classID entityID) inst (current s) in
       commitLocked OperationCreate None (Some inst) next (nextDataSync s) s) s w"

definition deletable :: "class_table \<Rightarrow> 'w Store \<Rightarrow> Key \<Rightarrow> (go_error, Instance) outcome" where
  "deletable classes s key =
     (case map_of (current s) key of
        None \<Rightarrow> Err (unknownKeyError classes s key)
      | Some inst \<Rightarrow>
          bindR (loadDefinition classes (ClassID key) (EntityID key) (Attributes inst)) (\<lambda>entity.
          if Origin inst = OriginONU \<or> \<not> SupportsMsgType entity MsgDelete \<or> \<not> createdByOlt (medef entity)
          then Err (ResultError NotSupported 0 0 None)
          else Ok inst))"

definition Delete :: "class_table \<Rightarrow> Key \<Rightarrow> ('w, unit) op" where
  "Delete classes key s w =
     attempt (deletable classes s key) (\<lambda>inst s.
       commitLocked OperationDelete (Some inst) None (AList.delete key (current s)) (nextDataSync s) s) s w"

section \<open>Writing attributes\<close>

definition writeAttributes :: "attribute_map \<Rightarrow> Instance \<Rightarrow> Instance" where
  "writeAttributes attrs inst = inst\<lparr>Attributes := setAll attrs (Attributes inst)\<rparr>"

definition sameAttributes :: "Instance \<Rightarrow> Instance \<Rightarrow> bool" where
  "sameAttributes a b = gm_eq (Attributes a) (Attributes b)"

text \<open>A write of the MIB data sync attribute itself sets the counter to the successor of the value.\<close>

definition syncedInstance :: "'w Store \<Rightarrow> Key \<Rightarrow> attribute_map \<Rightarrow> Instance \<Rightarrow> (go_error, Instance \<times> u8) outcome" where
  "syncedInstance s key attrs normalized =
     (if key = onuDataKey
      then (case map_of attrs MibDataSync of
          None \<Rightarrow> Ok (normalized, nextDataSync s)
        | Some (VU8 val) \<Rightarrow>
            let sync = incrementDataSync val in Ok (withDataSync sync normalized, sync)
        | Some requested \<Rightarrow> Err (ResultError ParameterError 0 0
            (Some (Errorf ''MIB data sync has invalid type %T'' [AStr (typeName requested)]))))
      else Ok (normalized, nextDataSync s))"

text \<open>The instance and the data sync value that \<open>Set\<close> would commit.\<close>

definition prepareSet :: "class_table \<Rightarrow> 'w Store \<Rightarrow> Key \<Rightarrow> attribute_map
    \<Rightarrow> (go_error, Instance \<times> Instance \<times> u8) outcome" where
  "prepareSet classes s key attrs =
     (case map_of (current s) key of
        None \<Rightarrow> Err (unknownKeyError classes s key)
      | Some inst \<Rightarrow>
          bindR (loadDefinition classes (ClassID key) (EntityID key) (Attributes inst)) (\<lambda>entity.
          if \<not> SupportsMsgType entity MsgSet then Err (ResultError NotSupported 0 0 None)
          else failIf (validateSupportedAttributes s entity attrs) (
          failIf (validateAccess entity attrs Write) (
          bindR (normalize classes s
                   (writeAttributes (filter (\<lambda>(name, _). name \<noteq> ManagedEntityID) attrs) inst)) (\<lambda>normalized.
          bindR (syncedInstance s key attrs normalized) (\<lambda>(normalized, sync).
          Ok (inst, normalized, sync)))))))"

definition Set :: "class_table \<Rightarrow> Key \<Rightarrow> attribute_map \<Rightarrow> ('w, unit) op" where
  "Set classes key attrs s w =
     attempt (prepareSet classes s key attrs) (\<lambda>(inst, normalized, sync) s w.
       if sameAttributes inst normalized then (Ok (), s, w)
       else commitLocked OperationSet (Some inst) (Some normalized)
              (AList.update key normalized (current s)) sync s w) s w"

definition bitCount16 :: "u16 \<Rightarrow> nat" where
  "bitCount16 w = length (filter (bit w) [0..<16])"

text \<open>The table attribute that a request selects, and the rows it carries.\<close>

definition tableRequest ::
  "managed_entity \<Rightarrow> u16 \<Rightarrow> attribute_map \<Rightarrow> (go_error, attribute_definition \<times> table_rows) outcome" where
  "tableRequest entity selected attrs =
     (if bitCount16 selected \<noteq> 1
      then Err (ResultError ParameterError 0 0
             (Some (Errorf ''SetTable mask %#x does not select one attribute'' [AU selected])))
      else case find (\<lambda>(index, d). index \<noteq> 0 \<and> Mask d = selected) (AttributeDefinitions (medef entity)) of
        None \<Rightarrow> Err (ResultError AttributeFailure selected 0 None)
      | Some (_, d) \<Rightarrow>
          if \<not> IsTableAttribute d \<or> \<not> SupportsAttributeAccess d Write
          then Err (ResultError AttributeFailure selected 0 None)
          else if length attrs \<noteq> 1 \<and> \<not> (length attrs = 2 \<and> map_of attrs ManagedEntityID \<notin> {None, Some VNil})
          then Err (ResultError ParameterError 0 0
                 (Some (Errorf ''SetTable requires exactly one table attribute'' [])))
          else (case map_of attrs (AttrName d) of
              None \<Rightarrow> Err (ResultError AttributeFailure selected 0 None)
            | Some val \<Rightarrow>
                let invalid = Err (ResultError ParameterError 0 0
                      (Some (Errorf ''invalid %s row data'' [AStr (AttrName d)]))) in
                (case val of
                   VTable updates \<Rightarrow>
                     if NumRows updates < 0 \<or> int (length (Rows updates)) \<noteq> NumRows updates * AttrSize d
                     then invalid else Ok (d, updates)
                 | _ \<Rightarrow> invalid)))"

definition attrOrNil :: "attribute_map \<Rightarrow> string \<Rightarrow> attr_value" where
  "attrOrNil attrs name = (case map_of attrs name of Some v \<Rightarrow> v | None \<Rightarrow> VNil)"

definition prepareSetTable :: "class_table \<Rightarrow> 'w Store \<Rightarrow> Key \<Rightarrow> u16 \<Rightarrow> attribute_map
    \<Rightarrow> (go_error, Instance \<times> Instance) outcome" where
  "prepareSetTable classes s key selected attrs =
     (case map_of (current s) key of
        None \<Rightarrow> Err (unknownKeyError classes s key)
      | Some inst \<Rightarrow>
          bindR (loadDefinition classes (ClassID key) (EntityID key) (Attributes inst)) (\<lambda>entity.
          let unsupported = (case supportedAttributeMask s (ClassID key) of
                Some supported \<Rightarrow> selected AND NOT supported | None \<Rightarrow> 0) in
          if \<not> SupportsMsgType entity MsgSetTable then Err (ResultError NotSupported 0 0 None)
          else if unsupported \<noteq> 0 then Err (ResultError AttributeFailure 0 unsupported None)
          else bindR (tableRequest entity selected attrs) (\<lambda>(d, updates).
          bindR (mapErr (\<lambda>e. ResultError ProcessingError 0 0 (Some e))
                   (tableRows (attrOrNil (Attributes inst) (AttrName d)) (AttrSize d))) (\<lambda>existing.
          bindR (applyTableRows (extendedVLANTableSize s) (ClassID key) (AttrName d) existing updates) (\<lambda>updated.
          bindR (normalize classes s (writeAttributes [(AttrName d, VTable updated)] inst)) (\<lambda>normalized.
          Ok (inst, normalized)))))))"

definition SetTable :: "class_table \<Rightarrow> Key \<Rightarrow> u16 \<Rightarrow> attribute_map \<Rightarrow> ('w, unit) op" where
  "SetTable classes key selected attrs s w =
     attempt (prepareSetTable classes s key selected attrs) (\<lambda>(inst, normalized) s w.
       if sameAttributes inst normalized then (Ok (), s, w)
       else commitLocked OperationSetTable (Some inst) (Some normalized)
              (AList.update key normalized (current s)) (nextDataSync s) s w) s w"

section \<open>Changes made by the ONU itself\<close>

text \<open>
  The attribute checks shared by the autonomous updates and the command updates: the entity
  identifier and the data sync counter may not be written, every other attribute must be defined
  and readable.
\<close>

definition checkAutonomous :: "managed_entity \<Rightarrow> u16 \<Rightarrow> attribute_map \<Rightarrow> go_error option" where
  "checkAutonomous entity classID attrs =
     (let (failed, unsupported) = fold (\<lambda>(name, _) (failed, unsupported).
            if name = ManagedEntityID \<or> (classID = OnuDataClassID \<and> name = MibDataSync)
            then (failed, 0xffff)
            else case GetAttributeDefinitionByName (AttributeDefinitions (medef entity)) name of
              Ok d \<Rightarrow> if SupportsAttributeAccess d Read then (failed, unsupported)
                      else (failed OR Mask d, unsupported)
            | _ \<Rightarrow> (failed, 0xffff)) attrs (0, 0) in
      if failed \<noteq> 0 \<or> unsupported \<noteq> 0
      then Some (ResultError AttributeFailure failed unsupported None) else None)"

text \<open>The body that the three update operations share, on a given set of instances.\<close>

definition prepareUpdate :: "class_table \<Rightarrow> 'w Store \<Rightarrow> instances \<Rightarrow> Key \<Rightarrow> attribute_map
    \<Rightarrow> (go_error, Instance \<times> Instance) outcome" where
  "prepareUpdate classes s insts key attrs =
     (case map_of insts key of
        None \<Rightarrow> Err (unknownKeyError classes s key)
      | Some inst \<Rightarrow>
          bindR (loadDefinition classes (ClassID key) (EntityID key) (Attributes inst)) (\<lambda>entity.
          failIf (validateSupportedAttributes s entity attrs) (
          failIf (checkAutonomous entity (ClassID key) attrs) (
          bindR (normalize classes s (writeAttributes attrs inst)) (\<lambda>normalized. Ok (inst, normalized))))))"

definition changedAttributes :: "Instance \<Rightarrow> Instance \<Rightarrow> attribute_map \<Rightarrow> attribute_map" where
  "changedAttributes inst normalized attrs =
     fold (\<lambda>(name, _) changed.
        let val = attrOrNil (Attributes normalized) name in
        if attrOrNil (Attributes inst) name \<noteq> val then AList.update name val changed else changed) attrs []"

definition UpdateAutonomous :: "class_table \<Rightarrow> Key \<Rightarrow> attribute_map \<Rightarrow> ('w, attribute_map) op" where
  "UpdateAutonomous classes key attrs s w =
     attempt (prepareUpdate classes s (current s) key attrs) (\<lambda>(inst, normalized) s w.
       let changed = changedAttributes inst normalized attrs in
       if changed = [] then (Ok changed, s, w)
       else (Ok changed, s\<lparr>current := AList.update key normalized (current s)\<rparr>, w)) s w"

definition UpdateAutonomousBatch :: "class_table \<Rightarrow> (Key, attribute_map) gomap \<Rightarrow> ('w, unit) op" where
  "UpdateAutonomousBatch classes updates s w =
     attempt (foldR (\<lambda>(key, attrs) proposed.
         bindR (prepareUpdate classes s proposed key attrs) (\<lambda>(_, normalized).
         Ok (AList.update key normalized proposed))) updates (current s))
       (\<lambda>proposed s w. (Ok (), s\<lparr>current := proposed\<rparr>, w)) s w"

section \<open>Changes made by a command\<close>

definition abortCommandTransaction :: "'w CommandTransaction option \<Rightarrow> go_error \<Rightarrow> 'w \<Rightarrow> go_error \<times> 'w" where
  "abortCommandTransaction transaction cause w =
     (case transaction of
        None \<Rightarrow> (cause, w)
      | Some t \<Rightarrow> (case Abort t w of
          (None, w') \<Rightarrow> (cause, w')
        | (Some e, w') \<Rightarrow> (JoinErr [cause, Errorf ''abort platform transaction: %w'' [AErr e]], w')))"

definition commandTransactionError :: "go_error \<Rightarrow> go_error option \<Rightarrow> go_error option \<Rightarrow> go_error" where
  "commandTransactionError cause abortErr rollbackErr =
     ResultError ProcessingError 0 0 (Some (JoinErr ([cause]
       @ (case abortErr of None \<Rightarrow> [] | Some e \<Rightarrow> [Errorf ''abort platform transaction: %w'' [AErr e]])
       @ (case rollbackErr of None \<Rightarrow> [] | Some e \<Rightarrow> [e]))))"

definition commandTransactionFailure ::
  "'w CommandTransaction \<Rightarrow> go_error option \<Rightarrow> go_error \<Rightarrow> 'w \<Rightarrow> go_error \<times> 'w" where
  "commandTransactionFailure t rollbackErr cause w =
     (case Abort t w of (abortErr, w') \<Rightarrow> (commandTransactionError cause abortErr rollbackErr, w'))"

definition proposeCommand :: "class_table \<Rightarrow> 'w Store \<Rightarrow> (Key, attribute_map) gomap
    \<Rightarrow> (go_error, instances \<times> bool) outcome" where
  "proposeCommand classes s updates =
     foldR (\<lambda>(key, attrs) (proposed, changed).
       bindR (prepareUpdate classes s (current s) key attrs) (\<lambda>(inst, normalized).
       if sameAttributes inst normalized then Ok (proposed, changed)
       else Ok (AList.update key normalized proposed, True))) updates (current s, False)"

text \<open>A command update without a transaction, once the candidate is known.\<close>

definition commandChange :: "'w Store \<Rightarrow> instances \<Rightarrow> u8 \<Rightarrow> Change" where
  "commandChange s insts sync =
     \<lparr> Operation = OperationCommand, StateDomain = stateDomain s, Before = None, After = None,
       Snapshot = snapshotInstances insts, MIBDataSync = sync \<rparr>"

definition commitTransaction :: "'w CommandTransaction \<Rightarrow> instances \<Rightarrow> u8 \<Rightarrow> ('w, unit) op" where
  "commitTransaction t proposed sync s w =
     (case callApplier s (commandChange s proposed sync) w of
        (Some e, w1) \<Rightarrow>
          (case commandTransactionFailure t None (Errorf ''apply platform state: %w'' [AErr e]) w1 of
             (err, w2) \<Rightarrow> (Err err, s, w2))
      | (None, w1) \<Rightarrow>
          (case Commit t w1 of
             (None, w2) \<Rightarrow> (Ok (), s\<lparr>current := proposed, dataSync := sync\<rparr>, w2)
           | (Some e, w2) \<Rightarrow>
               (case Abort t w2 of (abortErr, w3) \<Rightarrow>
                (case callApplier s (commandChange s (current s) (dataSync s)) w3 of (rollback, w4) \<Rightarrow>
                 let rollbackErr = map_option (\<lambda>r. Errorf ''restore persisted MIB state: %w'' [AErr r]) rollback in
                 (Err (commandTransactionError (Errorf ''commit platform transaction: %w'' [AErr e])
                         abortErr rollbackErr), s, w4)))))"

definition updateByCommand :: "class_table \<Rightarrow> (Key, attribute_map) gomap \<Rightarrow> 'w CommandTransaction option
    \<Rightarrow> ('w, unit) op" where
  "updateByCommand classes updates transaction s w =
     (case proposeCommand classes s updates of
        Panic \<Rightarrow> (Panic, s, w)
      | Err e \<Rightarrow> (case abortCommandTransaction transaction e w of (err, w') \<Rightarrow> (Err err, s, w'))
      | Ok (proposed0, changed) \<Rightarrow>
          if \<not> changed
          then (case transaction of
              None \<Rightarrow> (Ok (), s, w)
            | Some t \<Rightarrow> (case Commit t w of
                (None, w1) \<Rightarrow> (Ok (), s, w1)
              | (Some e, w1) \<Rightarrow>
                  (case commandTransactionFailure t None (Errorf ''commit platform transaction: %w'' [AErr e]) w1 of
                     (err, w2) \<Rightarrow> (Err err, s, w2))))
          else let sync = nextDataSync s; proposed = setDataSync sync proposed0 in
            (case transaction of
               None \<Rightarrow> commitLocked OperationCommand None None proposed sync s w
             | Some t \<Rightarrow> commitTransaction t proposed sync s w))"

definition UpdateByCommand :: "class_table \<Rightarrow> (Key, attribute_map) gomap \<Rightarrow> ('w, unit) op" where
  "UpdateByCommand classes updates = updateByCommand classes updates None"

definition UpdateByCommandTransactional :: "class_table \<Rightarrow> (Key, attribute_map) gomap
    \<Rightarrow> 'w CommandTransaction option \<Rightarrow> ('w, unit) op" where
  "UpdateByCommandTransactional classes updates transaction s w =
     (case transaction of
        None \<Rightarrow> (Err (ResultError ProcessingError 0 0 (Some (Errorf ''command transaction is nil'' []))), s, w)
      | Some t \<Rightarrow> updateByCommand classes updates (Some t) s w)"

section \<open>Reset\<close>

definition onu3Key :: Key where "onu3Key = Key Onu3GClassID 0"

definition onu3StateNames :: "string list" where
  "onu3StateNames = [''LatestRestartReason'', ''NumberOfValidStatusSnapshots'', ''NextStatusSnapshotIndex'',
     ''StatusSnapshotRecordTable'', ''MostRecentStatusSnapshot'']"

definition copyAttributes :: "string list \<Rightarrow> Instance \<Rightarrow> Instance \<Rightarrow> Instance" where
  "copyAttributes names source target =
     fold (\<lambda>name inst. case map_of (Attributes source) name of
        Some val \<Rightarrow> inst\<lparr>Attributes := AList.update name val (Attributes inst)\<rparr> | None \<Rightarrow> inst) names target"

definition preserveONU3State :: "instances \<Rightarrow> instances \<Rightarrow> instances" where
  "preserveONU3State current0 reset =
     (case (map_of current0 onu3Key, map_of reset onu3Key) of
        (Some before, Some after) \<Rightarrow> AList.update onu3Key (copyAttributes onu3StateNames before after) reset
      | _ \<Rightarrow> reset)"

definition Reset :: "('w, unit) op" where
  "Reset s w = commitLocked OperationReset None None (preserveONU3State (current s) (factory s)) 0 s w"

section \<open>Preview timers\<close>

definition overlayTable :: "(u16, AllowedPreviewTimer) gomap \<Rightarrow> bytes \<Rightarrow> (go_error, bytes) outcome" where
  "overlayTable indexed rows =
     foldRows multicastPreviewRowSize (\<lambda>row done. Ok (done @ overlayRow indexed row)) rows []"

definition OverlayAllowedPreviewTimers ::
  "Instance \<Rightarrow> AllowedPreviewTimer list \<Rightarrow> (go_error, Instance) outcome" where
  "OverlayAllowedPreviewTimers inst timers =
     (if ClassID (ikey inst) \<noteq> MulticastSubscriberConfigInfoClassID
      then Err (Errorf ''allowed-preview timers require class %d, got %d''
                  [AU MulticastSubscriberConfigInfoClassID, AU (ClassID (ikey inst))])
      else case map_of (Attributes inst) ''AllowedPreviewGroupsTable'' of
        None \<Rightarrow> Ok inst
      | Some val \<Rightarrow>
          bindR (tableRows val (int multicastPreviewRowSize)) (\<lambda>rows.
          bindR (indexAllowedPreviewTimers timers) (\<lambda>indexed.
          bindR (overlayTable indexed (Rows rows)) (\<lambda>written.
          Ok (writeAttributes [(''AllowedPreviewGroupsTable'', VTable (rows\<lparr>Rows := written\<rparr>))] inst)))))"

text \<open>The keys that have run out, and the table without their rows.\<close>

definition expiredKeys :: "(u16, AllowedPreviewTimer) gomap \<Rightarrow> bytes \<Rightarrow> (go_error, u16 list) outcome" where
  "expiredKeys indexed rows =
     foldRows multicastPreviewRowSize (\<lambda>row expired.
       Ok (case expiredRow indexed row of Some k \<Rightarrow> k # expired | None \<Rightarrow> expired)) rows []"

definition keptRows :: "u16 list \<Rightarrow> bytes \<Rightarrow> (go_error, bytes) outcome" where
  "keptRows expired rows =
     foldRows multicastPreviewRowSize (\<lambda>row kept.
       Ok (if rowKeyOf (rowControl row) \<in> set expired then kept else kept @ row)) rows []"

definition prepareExpiry :: "class_table \<Rightarrow> 'w Store \<Rightarrow> Key \<Rightarrow> AllowedPreviewTimer list
    \<Rightarrow> (go_error, (Instance \<times> Instance) option) outcome" where
  "prepareExpiry classes s key timers =
     (if ClassID key \<noteq> MulticastSubscriberConfigInfoClassID
      then Err (Errorf ''allowed-preview expiry requires class %d, got %d''
                  [AU MulticastSubscriberConfigInfoClassID, AU (ClassID key)])
      else case map_of (current s) key of
        None \<Rightarrow> Err (unknownKeyError0 classes key)
      | Some inst \<Rightarrow>
          bindR (indexAllowedPreviewTimers timers) (\<lambda>indexed.
          bindR (tableRows (attrOrNil (Attributes inst) ''AllowedPreviewGroupsTable'')
                   (int multicastPreviewRowSize)) (\<lambda>rows.
          bindR (expiredKeys indexed (Rows rows)) (\<lambda>expired.
          if expired = [] then Ok None
          else bindR (keptRows expired (Rows rows)) (\<lambda>kept.
          bindR (normalize classes s (writeAttributes [(''AllowedPreviewGroupsTable'',
                   VTable \<lparr> NumRows = int (length kept div multicastPreviewRowSize), Rows = kept \<rparr>)] inst))
            (\<lambda>normalized. Ok (Some (inst, normalized))))))))"

definition ExpireAllowedPreviewRows :: "class_table \<Rightarrow> Key \<Rightarrow> AllowedPreviewTimer list \<Rightarrow> ('w, bool) op" where
  "ExpireAllowedPreviewRows classes key timers s w =
     attempt (prepareExpiry classes s key timers) (\<lambda>prepared s w.
       case prepared of
         None \<Rightarrow> (Ok False, s, w)
       | Some (inst, normalized) \<Rightarrow>
           (case commitLocked OperationAutonomous (Some inst) (Some normalized)
                   (AList.update key normalized (current s)) (dataSync s) s w of
              (Ok _, s', w') \<Rightarrow> (Ok True, s', w')
            | (Err e, s', w') \<Rightarrow> (Err e, s', w')
            | (Panic, s', w') \<Rightarrow> (Panic, s', w'))) s w"

section \<open>Construction\<close>

definition isCapabilityClass :: "u16 \<Rightarrow> bool" where
  "isCapabilityClass classID = (classID \<in> {OmciClassID, ManagedEntityMeClassID, AttributeMeClassID})"

definition addSupportedClass :: "class_table \<Rightarrow> (u16, u16) gomap option \<Rightarrow> u16
    \<Rightarrow> u16 list \<times> (u16, u16) gomap \<Rightarrow> (go_error, u16 list \<times> (u16, u16) gomap) outcome" where
  "addSupportedClass classes masks classID = (\<lambda>(supported, attrs).
     if classID \<in> set supported
     then Err (Errorf ''duplicate supported managed-entity class %v'' [AU classID])
     else bindR (mapErr (\<lambda>e. Errorf ''invalid supported managed-entity class %v: %w'' [AU classID, AErr e])
              (loadDefinition classes classID 0 [])) (\<lambda>entity.
       let d = medef entity in
       case masks of
         Some m \<Rightarrow> (case map_of m classID of
             None \<Rightarrow> Err (Errorf ''supported managed-entity class %v has no attribute policy'' [AU classID])
           | Some policy \<Rightarrow>
               let unsupported = policy AND NOT (AllowedAttributeMask d) in
               if unsupported \<noteq> 0
               then Err (Errorf ''supported managed-entity class %v attribute mask %#x includes unknown bits %#x''
                           [AU classID, AU policy, AU unsupported])
               else Ok (supported @ [classID], AList.update classID policy attrs))
       | None \<Rightarrow>
           if ClassAccess d \<noteq> CreatedByOnu \<or> isCapabilityClass classID
           then Ok (supported @ [classID], AList.update classID (AllowedAttributeMask d) attrs)
           else Ok (supported @ [classID], attrs)))"

text \<open>The code points of an enumerated capability: within the wire size and strictly increasing.\<close>

definition checkCodePoint :: "u16 \<times> string \<Rightarrow> u32 \<Rightarrow> u16 list \<Rightarrow> nat \<Rightarrow> unit \<Rightarrow> (go_error, unit) outcome" where
  "checkCodePoint key maximum points index _ =
     (let val = points ! index in
      if (ucast val :: u32) > maximum
      then Err (Errorf ''attribute capability %v/%s code point %d exceeds its wire size''
                  [AU (fst key), AStr (snd key), AU val])
      else if index \<noteq> 0 \<and> val \<le> points ! (index - 1)
      then Err (Errorf ''attribute capability %v/%s code points are not strictly increasing''
                  [AU (fst key), AStr (snd key)])
      else Ok ())"

definition checkCapability ::
  "u16 \<times> string \<Rightarrow> AttributeCapability \<Rightarrow> attribute_definition \<Rightarrow> (go_error, unit) outcome" where
  "checkCapability key capability d =
     (let args = [AU (fst key), AStr (snd key)] in
      if LowerLimit capability > UpperLimit capability
      then Err (Errorf ''attribute capability %v/%s has lower limit %d above upper limit %d''
                  (args @ [AU (LowerLimit capability), AU (UpperLimit capability)]))
      else if AttributeType d \<noteq> EnumerationAttributeType \<and> CodePoints capability \<noteq> []
      then Err (Errorf ''non-enumerated attribute capability %v/%s has code points'' args)
      else if AttributeType d = EnumerationAttributeType
      then (if CodePoints capability = []
            then Err (Errorf ''enumerated attribute capability %v/%s has no code points'' args)
            else let maximum = ucast (maximumCapabilityValue (AttrSize d)) in
              foldR (checkCodePoint key maximum (CodePoints capability)) [0..<length (CodePoints capability)] ())
      else if AttributeType d \<in> {UnsignedIntegerAttributeType, CounterAttributeType, PointerAttributeType}
      then (if ucast (UpperLimit capability) > maximumCapabilityValue (AttrSize d)
            then Err (Errorf ''attribute capability %v/%s upper limit %d exceeds its wire size''
                        (args @ [AU (UpperLimit capability)]))
            else Ok ())
      else if AttributeType d \<noteq> BitFieldAttributeType
      then Err (Errorf ''attribute capability %v/%s has unsupported format %v'' args)
      else Ok ())"

definition addCapability :: "class_table \<Rightarrow> u16 list \<Rightarrow> (u16, u16) gomap
    \<Rightarrow> (u16 \<times> string) \<times> AttributeCapability \<Rightarrow> (u16 \<times> string, AttributeCapability) gomap
    \<Rightarrow> (go_error, (u16 \<times> string, AttributeCapability) gomap) outcome" where
  "addCapability classes supported attrs entry caps =
     (case entry of (key, capability) \<Rightarrow>
      if fst key \<notin> set supported
      then Err (Errorf ''attribute capability contains unsupported managed-entity class %v'' [AU (fst key)])
      else bindR (mapErr (\<lambda>e. Errorf ''invalid attribute capability %v/%s: %w'' [AU (fst key), AStr (snd key), AErr e])
              (GetAttributeDefinitionByName (GetAttributesDefinitions classes (fst key)) (snd key))) (\<lambda>d.
        if Mask d AND (case map_of attrs (fst key) of Some m \<Rightarrow> m | None \<Rightarrow> 0) = 0
        then Err (Errorf ''attribute capability %v/%s is not advertised'' [AU (fst key), AStr (snd key)])
        else bindR (checkCapability key capability d) (\<lambda>_. Ok (AList.update key capability caps))))"

definition learnAttribute :: "managed_entity \<Rightarrow> Instance \<Rightarrow> string \<times> attr_value \<Rightarrow> (u16, u16) gomap
    \<Rightarrow> (go_error, (u16, u16) gomap) outcome" where
  "learnAttribute entity normalized attr masks =
     (if fst attr = ManagedEntityID then Ok masks
      else let classID = ClassID (ikey normalized) in
        bindR (mapErr (\<lambda>_. Errorf ''factory ME %v/%#x has unknown attribute %s''
                   [AU classID, AU (EntityID (ikey normalized)), AStr (fst attr)])
                (GetAttributeDefinitionByName (AttributeDefinitions (medef entity)) (fst attr))) (\<lambda>d.
        Ok (AList.update classID
              ((case map_of masks classID of Some m \<Rightarrow> m | None \<Rightarrow> 0) OR Mask d) masks)))"

definition addFactory ::
  "class_table \<Rightarrow> 'w Options \<Rightarrow> Instance \<Rightarrow> 'w Store \<Rightarrow> (go_error, 'w Store) outcome" where
  "addFactory classes options inst0 s =
     (let args = [AU (ClassID (ikey inst0)), AU (EntityID (ikey inst0))] in
      if \<not> supportsClass s (ClassID (ikey inst0))
      then Err (Errorf ''factory ME %v/%#x is not in the supported class list'' args)
      else bindR (mapErr (\<lambda>e. Errorf ''invalid factory ME %v/%#x: %w'' (args @ [AErr e]))
              (normalize classes s (inst0\<lparr>Origin := OriginONU\<rparr>))) (\<lambda>normalized.
        if map_of (factory s) (ikey normalized) \<noteq> None
        then Err (Errorf ''duplicate factory ME %v/%#x'' args)
        else let s1 = s\<lparr>factory := AList.update (ikey normalized) normalized (factory s),
                        current := AList.update (ikey normalized) normalized (current s)\<rparr> in
          case supportedAttributes s1 of
            None \<Rightarrow> Ok s1
          | Some masks \<Rightarrow>
              bindR (loadDefinition classes (ClassID (ikey normalized)) (EntityID (ikey normalized))
                       (Attributes normalized)) (\<lambda>entity.
              if SupportedAttributeMasks options \<noteq> None
              then failIf (map_option (\<lambda>e. Errorf ''factory ME %v/%#x has unsupported attributes: %w'' (args @ [AErr e]))
                     (validateSupportedAttributes s1 entity (Attributes normalized))) (Ok s1)
              else bindR (foldR (learnAttribute entity normalized) (Attributes normalized) masks) (\<lambda>masks'.
                Ok (s1\<lparr>supportedAttributes := Some masks'\<rparr>)))))"

definition supportPolicy :: "class_table \<Rightarrow> 'w Options
    \<Rightarrow> (go_error, (u16 list \<times> (u16, u16) gomap) option) outcome" where
  "supportPolicy classes options =
     (if SupportedAttributeMasks options \<noteq> None \<and> SupportedClasses options = []
      then Err (Errorf ''supported attribute masks require an explicit supported class list'' [])
      else if SupportedClasses options = [] then Ok None
      else bindR (foldR (addSupportedClass classes (SupportedAttributeMasks options)) (SupportedClasses options) ([], []))
        (\<lambda>(supported, attrs).
        case SupportedAttributeMasks options of
          None \<Rightarrow> Ok (Some (supported, attrs))
        | Some masks \<Rightarrow>
            (case find (\<lambda>(classID, _). classID \<notin> set supported) masks of
               Some (classID, _) \<Rightarrow>
                 Err (Errorf ''attribute policy contains unsupported managed-entity class %v'' [AU classID])
             | None \<Rightarrow> Ok (Some (supported, attrs)))))"

definition capabilityPolicy :: "class_table \<Rightarrow> 'w Options \<Rightarrow> (u16 list \<times> (u16, u16) gomap) option
    \<Rightarrow> (go_error, (u16 \<times> string, AttributeCapability) gomap) outcome" where
  "capabilityPolicy classes options policy =
     (if AttributeCapabilities options = [] then Ok []
      else if SupportedAttributeMasks options = None
      then Err (Errorf ''attribute capabilities require an explicit supported attribute policy'' [])
      else case policy of
        None \<Rightarrow> Ok []
      | Some (supported, attrs) \<Rightarrow>
          foldR (addCapability classes supported attrs) (AttributeCapabilities options) [])"

definition NewWithOptions :: "class_table \<Rightarrow> Instance list \<Rightarrow> 'w Options \<Rightarrow> (go_error, 'w Store) outcome" where
  "NewWithOptions classes factory0 options =
     (let tableSize = (if OptExtendedVLANTableSize options = 0 then defaultExtendedVLANTableSize
                       else OptExtendedVLANTableSize options) in
      if tableSize < 3
      then Err (Errorf ''extended VLAN table size %d cannot hold the three mandatory default rules'' [AU tableSize])
      else bindR (supportPolicy classes options) (\<lambda>policy.
      bindR (capabilityPolicy classes options policy) (\<lambda>caps.
      let s = \<lparr> factory = [], current = [], dataSync = 0, applier = OptApplier options,
                extendedVLANTableSize = tableSize, stateDomain = OptStateDomain options,
                supportedClasses = map_option fst policy, supportedAttributes = map_option snd policy,
                attributeCapabilities = caps, validateInstance = OptValidateInstance options \<rparr> in
      bindR (foldR (addFactory classes options) factory0 s) (\<lambda>s.
      Ok (s\<lparr>dataSync := 0, current := setDataSync 0 (current s)\<rparr>)))))"

end
