(* ===== verification/MibState.thy ===== *)
theory MibState
  imports MibStore "HOL-Library.Char_ord"
begin

text \<open>
  The persisted form of the MIB (src/internal/mib/state.go): a versioned document of instances
  whose attribute values are tagged with their kind, its export from a snapshot, and the
  reconstruction of a store from it. A state document comes from a file, so nothing is known of it.
\<close>

section \<open>Documents\<close>

definition StateVersion :: u8 where "StateVersion = 1"

record StateAttribute =
  Name :: string
  Kind :: string
  Unsigned :: u64
  Octets :: bytes
  Values :: "u64 list"
  RowCount :: int

record StateInstance =
  SIClassID :: u16
  SIEntityID :: u16
  SIOrigin :: u8
  SIAttributes :: "StateAttribute list"

record State =
  Version :: u8
  Domain :: string
  SyncValue :: u8
  Instances :: "StateInstance list"

section \<open>Attribute values\<close>

definition noAttribute :: "string \<Rightarrow> StateAttribute" where
  "noAttribute name = \<lparr> Name = name, Kind = [], Unsigned = 0, Octets = [], Values = [], RowCount = 0 \<rparr>"

definition unsignedValues :: "'a::len word list \<Rightarrow> u64 list" where
  "unsignedValues values = map ucast values"

fun encodeStateAttribute :: "string \<Rightarrow> attr_value \<Rightarrow> (go_error, StateAttribute) outcome" where
  "encodeStateAttribute name (VU8 v) = Ok ((noAttribute name)\<lparr>Kind := ''uint8'', Unsigned := ucast v\<rparr>)"
| "encodeStateAttribute name (VU16 v) = Ok ((noAttribute name)\<lparr>Kind := ''uint16'', Unsigned := ucast v\<rparr>)"
| "encodeStateAttribute name (VU32 v) = Ok ((noAttribute name)\<lparr>Kind := ''uint32'', Unsigned := ucast v\<rparr>)"
| "encodeStateAttribute name (VU64 v) = Ok ((noAttribute name)\<lparr>Kind := ''uint64'', Unsigned := v\<rparr>)"
| "encodeStateAttribute name (VOctets v) = Ok ((noAttribute name)\<lparr>Kind := ''octets'', Octets := v\<rparr>)"
| "encodeStateAttribute name (VU16s v) = Ok ((noAttribute name)\<lparr>Kind := ''uint16s'', Values := unsignedValues v\<rparr>)"
| "encodeStateAttribute name (VU32s v) = Ok ((noAttribute name)\<lparr>Kind := ''uint32s'', Values := unsignedValues v\<rparr>)"
| "encodeStateAttribute name (VU64s v) = Ok ((noAttribute name)\<lparr>Kind := ''uint64s'', Values := v\<rparr>)"
| "encodeStateAttribute name (VTable v) =
     Ok ((noAttribute name)\<lparr>Kind := ''table'', RowCount := NumRows v, Octets := Rows v\<rparr>)"
| "encodeStateAttribute name VNil = Err (Errorf ''unsupported value type %T'' [AStr (typeName VNil)])"

definition narrowValue :: "u64 \<Rightarrow> string \<Rightarrow> u64 \<Rightarrow> 'a::len word list \<Rightarrow> (go_error, 'a word list) outcome" where
  "narrowValue limit format val done =
     (if val > limit then Err (Errorf format [AU val]) else Ok (done @ [ucast val]))"

definition decodeStateAttribute :: "StateAttribute \<Rightarrow> (go_error, attr_value) outcome" where
  "decodeStateAttribute a =
     (if Kind a = ''uint8'' then
        (if Unsigned a > 0xff then Err (Errorf ''uint8 value %d is out of range'' [AU (Unsigned a)])
         else Ok (VU8 (ucast (Unsigned a))))
      else if Kind a = ''uint16'' then
        (if Unsigned a > 0xffff then Err (Errorf ''uint16 value %d is out of range'' [AU (Unsigned a)])
         else Ok (VU16 (ucast (Unsigned a))))
      else if Kind a = ''uint32'' then
        (if Unsigned a > 0xffffffff then Err (Errorf ''uint32 value %d is out of range'' [AU (Unsigned a)])
         else Ok (VU32 (ucast (Unsigned a))))
      else if Kind a = ''uint64'' then Ok (VU64 (Unsigned a))
      else if Kind a = ''octets'' then Ok (VOctets (Octets a))
      else if Kind a = ''uint16s'' then
        bindR (foldR (narrowValue 0xffff ''uint16 array value %d is out of range'') (Values a) []) (\<lambda>vs. Ok (VU16s vs))
      else if Kind a = ''uint32s'' then
        bindR (foldR (narrowValue 0xffffffff ''uint32 array value %d is out of range'') (Values a) [])
          (\<lambda>vs. Ok (VU32s vs))
      else if Kind a = ''uint64s'' then Ok (VU64s (Values a))
      else if Kind a = ''table'' then
        (if RowCount a < 0 then Err (Errorf ''table row count %d is invalid'' [AInt (RowCount a)])
         else Ok (VTable \<lparr> NumRows = RowCount a, Rows = Octets a \<rparr>))
      else Err (Errorf ''unsupported value kind %q'' [AStr (Kind a)]))"

section \<open>Decoding a document\<close>

definition keyArgs :: "Key \<Rightarrow> go_arg list" where
  "keyArgs key = [AU (ClassID key), AU (EntityID key)]"

definition decodeAttribute :: "Key \<Rightarrow> StateAttribute \<Rightarrow> attribute_map \<Rightarrow> (go_error, attribute_map) outcome" where
  "decodeAttribute key a attrs =
     (if Name a = [] then Err (Errorf ''MIB state ME %v/%#x has an unnamed attribute'' (keyArgs key))
      else if map_of attrs (Name a) \<noteq> None
      then Err (Errorf ''MIB state ME %v/%#x has duplicate attribute %s'' (keyArgs key @ [AStr (Name a)]))
      else bindR (mapErr (\<lambda>e. Errorf ''decode ME %v/%#x attribute %s: %w'' (keyArgs key @ [AStr (Name a), AErr e]))
                   (decodeStateAttribute a)) (\<lambda>val.
           Ok (AList.update (Name a) val attrs)))"

definition decodeInstance :: "StateInstance \<Rightarrow> Instance list \<Rightarrow> (go_error, Instance list) outcome" where
  "decodeInstance enc done =
     (let key = Key (SIClassID enc) (SIEntityID enc) in
      if key \<in> ikey ` set done then Err (Errorf ''duplicate MIB state ME %v/%#x'' (keyArgs key))
      else if SIOrigin enc \<noteq> OriginONU \<and> SIOrigin enc \<noteq> OriginOLT
      then Err (Errorf ''MIB state ME %v/%#x has invalid origin %d'' (keyArgs key @ [AU (SIOrigin enc)]))
      else bindR (foldR (decodeAttribute key) (SIAttributes enc) []) (\<lambda>attrs.
           Ok (done @ [\<lparr> ikey = key, Attributes = attrs, Origin = SIOrigin enc \<rparr>])))"

definition decodeState :: "State \<Rightarrow> (go_error, Instance list) outcome" where
  "decodeState state =
     (if Version state \<noteq> StateVersion
      then Err (Errorf ''unsupported MIB state version %d'' [AU (Version state)])
      else if Instances state = [] then Err (Errorf ''MIB state contains no managed entities'' [])
      else foldR decodeInstance (Instances state) [])"

text \<open>The argument of a \<open>%#v\<close> verb: numbers and octets as they are, other values by their type.\<close>

fun valueArg :: "attr_value \<Rightarrow> go_arg" where
  "valueArg (VU8 w) = AU w"
| "valueArg (VU16 w) = AU w"
| "valueArg (VU32 w) = AU w"
| "valueArg (VU64 w) = AU w"
| "valueArg (VOctets b) = ABytes b"
| "valueArg v = AStr (typeName v)"

definition Validate :: "State \<Rightarrow> go_error option" where
  "Validate state =
     (case decodeState state of
        Err e \<Rightarrow> Some e
      | Panic \<Rightarrow> None
      | Ok insts \<Rightarrow>
          (case find (\<lambda>i. ikey i = onuDataKey) insts of
             None \<Rightarrow> Some (Errorf ''MIB state has no ONU data ME'' [])
           | Some i \<Rightarrow>
               let val = attrOrNil (Attributes i) MibDataSync in
               if val = VU8 (SyncValue state) then None
               else Some (Errorf ''MIB data sync attribute %#v does not match state %d''
                            [valueArg val, AU (SyncValue state)])))"

section \<open>Export\<close>

definition encodeInstance :: "Instance \<Rightarrow> StateInstance list \<Rightarrow> (go_error, StateInstance list) outcome" where
  "encodeInstance inst done =
     bindR (foldR (\<lambda>(name, val) atts.
         bindR (mapErr (\<lambda>e. Errorf ''encode ME %v/%#x attribute %s: %w'' (keyArgs (ikey inst) @ [AStr name, AErr e]))
                  (encodeStateAttribute name val)) (\<lambda>a. Ok (atts @ [a]))) (Attributes inst) []) (\<lambda>atts.
     Ok (done @ [\<lparr> SIClassID = ClassID (ikey inst), SIEntityID = EntityID (ikey inst), SIOrigin = Origin inst,
                  SIAttributes = sort_key Name atts \<rparr>]))"

definition stateKey :: "StateInstance \<Rightarrow> Key" where
  "stateKey i = Key (SIClassID i) (SIEntityID i)"

definition ExportState :: "Instance list \<Rightarrow> u8 \<Rightarrow> string list \<Rightarrow> (go_error, State) outcome" where
  "ExportState snapshot sync domains =
     (if length domains > 1 then Err (Errorf ''MIB state has multiple compatibility domains'' [])
      else bindR (foldR encodeInstance snapshot []) (\<lambda>insts.
        let state = \<lparr> Version = StateVersion, Domain = (case domains of [d] \<Rightarrow> d | _ \<Rightarrow> []),
              SyncValue = sync, Instances = sort_key stateKey insts \<rparr> in
        failIf (Validate state) (Ok state)))"

section \<open>Restoring a store\<close>

definition sameAttributeNames :: "attribute_map \<Rightarrow> attribute_map \<Rightarrow> bool" where
  "sameAttributeNames left right = (length left = length right \<and> list_all (\<lambda>n. map_of right n \<noteq> None) (gkeys left))"

definition normalizedEntityDefinition :: "class_table \<Rightarrow> Instance \<Rightarrow> me_definition option" where
  "normalizedEntityDefinition classes inst =
     (case loadDefinition classes (ClassID (ikey inst)) (EntityID (ikey inst)) (Attributes inst) of
        Ok entity \<Rightarrow> Some (medef entity) | _ \<Rightarrow> None)"

text \<open>The origin of a restored instance must be the one its class and the factory MIB allow.\<close>

definition checkOrigin :: "class_table \<Rightarrow> 'w Store \<Rightarrow> Instance \<Rightarrow> Instance \<Rightarrow> go_error option" where
  "checkOrigin classes s inst normalized =
     (let key = ikey inst in
      if Origin inst = OriginONU then
        (case map_of (factory s) key of
           None \<Rightarrow> Some (Errorf ''restored ONU-created ME %v/%#x is not in the factory MIB'' (keyArgs key))
         | Some factoryInstance \<Rightarrow>
             if sameAttributeNames (Attributes factoryInstance) (Attributes normalized) then None
             else Some (Errorf ''restored ONU-created ME %v/%#x attribute set does not match the factory MIB''
                          (keyArgs key)))
      else if Origin inst = OriginOLT then
        (if (case normalizedEntityDefinition classes normalized of None \<Rightarrow> False | Some d \<Rightarrow> createdByOlt d) then None
         else Some (Errorf ''restored OLT-created ME %v/%#x has incompatible access'' (keyArgs key)))
      else Some (Errorf ''restored ME %v/%#x has invalid origin %d'' (keyArgs key @ [AU (Origin inst)])))"

definition restoreInstance :: "class_table \<Rightarrow> 'w Store \<Rightarrow> Instance \<Rightarrow> instances \<Rightarrow> (go_error, instances) outcome" where
  "restoreInstance classes s inst insts =
     (let key = ikey inst in
      if map_of insts key \<noteq> None then Err (Errorf ''duplicate restored ME %v/%#x'' (keyArgs key))
      else bindR (mapErr (\<lambda>e. Errorf ''invalid restored ME %v/%#x: %w'' (keyArgs key @ [AErr e]))
                   (normalize classes s inst)) (\<lambda>normalized.
        if \<not> supportsClass s (ClassID key)
        then Err (Errorf ''restored ME %v/%#x is not supported by this ONU'' (keyArgs key))
        else bindR (loadDefinition classes (ClassID (ikey normalized)) (EntityID (ikey normalized))
                      (Attributes normalized)) (\<lambda>entity.
        failIf (map_option (\<lambda>e. Errorf ''restored ME %v/%#x has unsupported attributes: %w'' (keyArgs key @ [AErr e]))
                  (validateSupportedAttributes s entity (Attributes normalized))) (
        failIf (checkOrigin classes s inst normalized) (
        Ok (AList.update (ikey normalized) (normalized\<lparr>Origin := Origin inst\<rparr>) insts))))))"

definition checkFactory :: "Key \<times> Instance \<Rightarrow> instances \<Rightarrow> (go_error, instances) outcome" where
  "checkFactory entry insts =
     (case entry of (key, factoryInstance) \<Rightarrow>
      (case map_of insts key of
         None \<Rightarrow> if key = onu3Key then Ok (AList.update key factoryInstance insts)
                 else Err (Errorf ''factory ME %v/%#x is missing from restored state'' (keyArgs key))
       | Some inst \<Rightarrow> if Origin inst \<noteq> OriginONU
                 then Err (Errorf ''factory ME %v/%#x is missing from restored state'' (keyArgs key))
                 else Ok insts))"

definition onuGKey :: Key where "onuGKey = Key OnuGClassID 0"

definition identityNames :: "string list" where "identityNames = [''VendorId'', ''SerialNumber'']"

definition validateRestoredIdentity :: "instances \<Rightarrow> instances \<Rightarrow> go_error option" where
  "validateRestoredIdentity known restored =
     (case (map_of known onuGKey, map_of restored onuGKey) of
        (Some want, Some got) \<Rightarrow>
          (case find (\<lambda>name. attrOrNil (Attributes want) name \<noteq> attrOrNil (Attributes got) name) identityNames of
             Some name \<Rightarrow> Some (Errorf ''restored ONU-G %s does not match configured identity'' [AStr name])
           | None \<Rightarrow> None)
      | _ \<Rightarrow> Some (Errorf ''ONU-G identity ME is missing'' []))"

definition NewFromState :: "class_table \<Rightarrow> Instance list \<Rightarrow> State \<Rightarrow> 'w Options \<Rightarrow> (go_error, 'w Store) outcome" where
  "NewFromState classes factory0 state options =
     (if Domain state \<noteq> OptStateDomain options
      then Err (Errorf ''MIB state domain %q does not match configured domain %q''
                  [AStr (Domain state), AStr (OptStateDomain options)])
      else bindR (NewWithOptions classes factory0 options) (\<lambda>s.
      bindR (decodeState state) (\<lambda>restored.
      bindR (foldR (restoreInstance classes s) restored []) (\<lambda>insts.
      bindR (foldR checkFactory (factory s) insts) (\<lambda>insts.
      failIf (validateRestoredIdentity (factory s) insts) (
      (case map_of insts onuDataKey of
         None \<Rightarrow> Err (Errorf ''restored ONU data ME is missing'' [])
       | Some onuData \<Rightarrow>
           let val = attrOrNil (Attributes onuData) MibDataSync in
           if val = VU8 (SyncValue state) then Ok (s\<lparr>current := insts, dataSync := SyncValue state\<rparr>)
           else Err (Errorf ''restored MIB data sync attribute %#v does not match state %d''
                       [valueArg val, AU (SyncValue state)]))))))))"

section \<open>Restoring only the ONU3-G history\<close>

definition historyNames :: "string list" where
  "historyNames = [''NumberOfValidStatusSnapshots'', ''NextStatusSnapshotIndex'', ''StatusSnapshotRecordTable'',
     ''MostRecentStatusSnapshot'']"

definition mergeHistory :: "class_table \<Rightarrow> Instance \<Rightarrow> Instance \<Rightarrow> (go_error, Instance) outcome" where
  "mergeHistory classes persisted0 current0 =
     (if Origin persisted0 \<noteq> OriginONU
      then Err (Errorf ''persisted ONU3-G ME has origin %d'' [AU (Origin persisted0)])
      else bindR (mapErr (\<lambda>e. Errorf ''invalid persisted ONU3-G ME: %w'' [AErr e]) (normalize0 classes persisted0))
        (\<lambda>persisted.
        if attrOrNil (Attributes persisted) ''TotalNumberOfStatusSnapshots''
           \<noteq> attrOrNil (Attributes current0) ''TotalNumberOfStatusSnapshots''
        then Err (Errorf ''persisted ONU3-G snapshot capacity does not match this ONU'' [])
        else mapErr (\<lambda>e. Errorf ''merge persisted ONU3-G ME: %w'' [AErr e])
               (normalize0 classes
                 (writeAttributes (map (\<lambda>n. (n, attrOrNil (Attributes persisted) n)) historyNames) current0))))"

definition instanceMap :: "Instance list \<Rightarrow> instances" where
  "instanceMap insts = fold (\<lambda>i. AList.update (ikey i) i) insts []"

definition RestoreONU3Factory ::
  "class_table \<Rightarrow> Instance list \<Rightarrow> State \<Rightarrow> string list \<Rightarrow> (go_error, Instance list) outcome" where
  "RestoreONU3Factory classes factory0 state domains =
     (if length domains > 1 then Err (Errorf ''ONU3 restore has multiple compatibility domains'' [])
      else if (case domains of [d] \<Rightarrow> Domain state \<noteq> d | _ \<Rightarrow> False)
      then Err (Errorf ''MIB state domain %q does not match configured domain %q''
                  [AStr (Domain state), AStr (hd domains)])
      else failIf (Validate state) (
      bindR (decodeState state) (\<lambda>restored.
      let factoryMap = instanceMap factory0; restoredMap = instanceMap restored in
      failIf (validateRestoredIdentity factoryMap restoredMap) (
      (case map_of factoryMap onu3Key of
         None \<Rightarrow> Err (Errorf ''factory MIB has no ONU3-G ME'' [])
       | Some current0 \<Rightarrow>
           (case map_of restoredMap onu3Key of
              None \<Rightarrow> Ok (snapshotInstances factoryMap)
            | Some persisted \<Rightarrow>
                bindR (mergeHistory classes persisted current0) (\<lambda>merged.
                Ok (snapshotInstances (AList.update onu3Key merged factoryMap)))))))))"

end
