(* ===== verification/MibStoreProofs.thy ===== *)
theory MibStoreProofs
  imports MibStore
begin

unbundle bit_operations_syntax

text \<open>
  The invariant of the MIB store, that every operation keeps it, and the effect of an operation that
  fails. All operations are collected in the datatype \<open>mib_op\<close> and run by \<open>exec\<close>, so that the
  properties in \<open>MibContract\<close> range over every sequence of them.
\<close>

section \<open>Operations of the store\<close>

datatype 'w mib_op =
    OpCreate u16 u16 attribute_map
  | OpSet Key attribute_map
  | OpSetTable Key u16 attribute_map
  | OpDelete Key
  | OpReset
  | OpAutonomous Key attribute_map
  | OpAutonomousBatch "(Key, attribute_map) gomap"
  | OpCommand "(Key, attribute_map) gomap" "'w CommandTransaction option"
  | OpExpire Key "AllowedPreviewTimer list"

definition discard :: "('e, 'a) outcome \<times> 'b \<Rightarrow> ('e, unit) outcome \<times> 'b" where
  "discard r = (bindR (fst r) (\<lambda>_. Ok ()), snd r)"

fun exec :: "class_table \<Rightarrow> 'w mib_op \<Rightarrow> ('w, unit) op" where
  "exec classes (OpCreate c e attrs) s w = Create classes c e attrs s w"
| "exec classes (OpSet k attrs) s w = Set classes k attrs s w"
| "exec classes (OpSetTable k m attrs) s w = SetTable classes k m attrs s w"
| "exec classes (OpDelete k) s w = Delete classes k s w"
| "exec classes OpReset s w = Reset s w"
| "exec classes (OpAutonomous k attrs) s w = discard (UpdateAutonomous classes k attrs s w)"
| "exec classes (OpAutonomousBatch us) s w = UpdateAutonomousBatch classes us s w"
| "exec classes (OpCommand us t) s w = updateByCommand classes us t s w"
| "exec classes (OpExpire k ts) s w = discard (ExpireAllowedPreviewRows classes k ts s w)"

text \<open>The arguments are Go maps: no name occurs twice.\<close>

fun wf_op :: "'w mib_op \<Rightarrow> bool" where
  "wf_op (OpCreate c e attrs) = gm_wf attrs"
| "wf_op (OpSet k attrs) = gm_wf attrs"
| "wf_op (OpSetTable k m attrs) = gm_wf attrs"
| "wf_op (OpAutonomous k attrs) = gm_wf attrs"
| "wf_op (OpAutonomousBatch us) = list_all (gm_wf \<circ> snd) us"
| "wf_op (OpCommand us t) = list_all (gm_wf \<circ> snd) us"
| "wf_op _ = True"

section \<open>Invariant\<close>

text \<open>Every definition of the library names its attribute 0 \<open>ManagedEntityId\<close>.\<close>

definition library :: "class_table \<Rightarrow> bool" where
  "library classes = (\<forall>c. entityIdName (classDefinition classes c) = ManagedEntityID)"

definition instance_inv :: "class_table \<Rightarrow> 'w Store \<Rightarrow> Key \<Rightarrow> Instance \<Rightarrow> bool" where
  "instance_inv classes s k i = (ikey i = k \<and> gm_wf (Attributes i) \<and> supportsClass s (ClassID k)
     \<and> (k \<noteq> onuDataKey \<and> k \<noteq> onu3Key \<longrightarrow> normalize classes s i = Ok i))"

definition instances_inv :: "class_table \<Rightarrow> 'w Store \<Rightarrow> instances \<Rightarrow> bool" where
  "instances_inv classes s m = (gm_wf m
     \<and> (\<forall>k i. map_of m k = Some i \<longrightarrow> instance_inv classes s k i
          \<and> (if map_of (factory s) k \<noteq> None then Origin i = OriginONU
             else Origin i = OriginOLT \<and> createdByOlt (classDefinition classes (ClassID k))))
     \<and> dom (map_of (factory s)) \<subseteq> dom (map_of m))"

definition factory_inv :: "class_table \<Rightarrow> 'w Store \<Rightarrow> bool" where
  "factory_inv classes s = (gm_wf (factory s)
     \<and> (\<forall>k i. map_of (factory s) k = Some i \<longrightarrow> instance_inv classes s k i \<and> Origin i = OriginONU))"

definition sync_inv :: "instances \<Rightarrow> u8 \<Rightarrow> bool" where
  "sync_inv m sync = (\<forall>i. map_of m onuDataKey = Some i \<longrightarrow> map_of (Attributes i) MibDataSync = Some (VU8 sync))"

definition store_inv :: "class_table \<Rightarrow> 'w Store \<Rightarrow> bool" where
  "store_inv classes s = (factory_inv classes s \<and> instances_inv classes s (current s)
     \<and> sync_inv (current s) (dataSync s))"

text \<open>The parts of a store that no operation changes.\<close>

definition same_policy :: "'w Store \<Rightarrow> 'w Store \<Rightarrow> bool" where
  "same_policy s s' = (s' = s\<lparr>current := current s', dataSync := dataSync s'\<rparr>)"

section \<open>Attribute maps\<close>

lemma setAll_simps [simp]:
  "setAll [] attrs = attrs" "setAll ((n, v) # us) attrs = setAll us (AList.update n v attrs)"
  by (simp_all add: setAll_def)

lemma gm_wf_setAll [simp]: "gm_wf attrs \<Longrightarrow> gm_wf (setAll us attrs)"
  by (induction us arbitrary: attrs) auto

lemma map_of_setAll:
  "gm_wf us \<Longrightarrow> map_of (setAll us attrs) n = (case map_of us n of Some v \<Rightarrow> Some v | None \<Rightarrow> map_of attrs n)"
proof (induction us arbitrary: attrs)
  case (Cons u us)
  obtain k v where u: "u = (k, v)" by (cases u)
  with Cons.prems have "gm_wf us" "map_of us k = None"
    by (auto simp: gm_wf_def map_of_eq_None_iff)
  with Cons.IH u show ?case by (auto simp: update_conv' split: option.split)
qed simp

lemma map_of_loaded:
  "map_of (loaded n e attrs) name = (if name = n then Some (VU16 e) else map_of attrs name)"
  by (induction attrs) (auto simp: loaded_def)

lemma Attributes_update_id [simp]: "i\<lparr>Attributes := Attributes i\<rparr> = i"
  by simp

lemma withDataSync_simps [simp]:
  "ikey (withDataSync v i) = ikey i" "Origin (withDataSync v i) = Origin i"
  "gm_wf (Attributes i) \<Longrightarrow> gm_wf (Attributes (withDataSync v i))"
  "map_of (Attributes (withDataSync v i)) MibDataSync = Some (VU8 v)"
  by (simp_all add: withDataSync_def update_conv')

lemma writeAttributes_simps [simp]:
  "ikey (writeAttributes us i) = ikey i" "Origin (writeAttributes us i) = Origin i"
  "gm_wf (Attributes i) \<Longrightarrow> gm_wf (Attributes (writeAttributes us i))"
  by (simp_all add: writeAttributes_def)

section \<open>Normalisation\<close>

lemma loadDefinition_Ok:
  assumes "loadDefinition classes c e attrs = Ok entity" "gm_wf attrs"
  shows "covers (classDefinition classes c) attrs"
    and "entity = \<lparr> entityClass = c, medef = classDefinition classes c,
           attributes = loaded (entityIdName (classDefinition classes c)) e attrs \<rparr>"
    and "Support (classDefinition classes c) \<notin> {UnsupportedManagedEntity, UnsupportedVendorSpecificManagedEntity}"
  using assms by (auto simp: loadDefinition_def bindR_eq_Ok LoadManagedEntityDefinition_iff split: if_splits)

lemma loadDefinition_loaded:
  assumes "loadDefinition classes c e attrs = Ok entity" "gm_wf attrs"
  shows "loadDefinition classes c e (attributes entity) = Ok entity"
  using loadDefinition_Ok [OF assms] assms(2)
  by (simp add: loadDefinition_def bindR_eq_Ok LoadManagedEntityDefinition_iff)

lemma normalize_Ok:
  assumes "normalize classes s i = Ok i'" "gm_wf (Attributes i)"
  shows "ikey i' = ikey i" "Origin i' = Origin i"
    and "Attributes i' = loaded (entityIdName (classDefinition classes (ClassID (ikey i)))) (EntityID (ikey i)) (Attributes i)"
    and "gm_wf (Attributes i')" and "normalize classes s i' = Ok i'"
proof -
  from assms obtain entity where e: "loadDefinition classes (ClassID (ikey i)) (EntityID (ikey i)) (Attributes i) = Ok entity"
      and i': "i' = i\<lparr>Attributes := attributes entity\<rparr>"
    by (auto simp: normalize_def normalize0_def bindR_eq_Ok Let_def)
  note l = loadDefinition_Ok [OF e assms(2)]
  show "ikey i' = ikey i" "Origin i' = Origin i" by (simp_all add: i')
  show a: "Attributes i' = loaded (entityIdName (classDefinition classes (ClassID (ikey i)))) (EntityID (ikey i)) (Attributes i)"
    by (simp add: i' l(2))
  show "gm_wf (Attributes i')" using assms(2) by (simp add: a)
  show "normalize classes s i' = Ok i'"
    using assms(1) loadDefinition_loaded [OF e assms(2)]
    by (auto simp: normalize_def normalize0_def bindR_eq_Ok Let_def i')
qed

lemma normalize_cong:
  "attributeCapabilities s' = attributeCapabilities s \<Longrightarrow> validateInstance s' = validateInstance s
    \<Longrightarrow> normalize classes s' i = normalize classes s i"
  by (simp add: normalize_def validateAttributeCapabilities_def)

section \<open>Building candidates\<close>

lemma insts_update:
  assumes inv: "instances_inv classes s m" and old: "map_of m k = Some i"
    and i': "instance_inv classes s k i'" "Origin i' = Origin i"
  shows "instances_inv classes s (AList.update k i' m)"
  unfolding instances_inv_def
proof (intro conjI allI impI)
  show "gm_wf (AList.update k i' m)" using inv by (simp add: instances_inv_def)
  show "dom (map_of (factory s)) \<subseteq> dom (map_of (AList.update k i' m))"
    using inv by (auto simp: instances_inv_def update_conv')
next
  fix k' j assume j: "map_of (AList.update k i' m) k' = Some j"
  show "instance_inv classes s k' j" and "if map_of (factory s) k' \<noteq> None then Origin j = OriginONU
      else Origin j = OriginOLT \<and> createdByOlt (classDefinition classes (ClassID k'))"
    using inv old i' j by (cases "k' = k"; fastforce simp: instances_inv_def update_conv')+
qed

lemma instance_inv_normalized:
  assumes "normalize classes s j = Ok i'" "gm_wf (Attributes j)" "ikey j = k" "supportsClass s (ClassID k)"
  shows "instance_inv classes s k i'"
  using normalize_Ok [OF assms(1,2)] assms(3,4) by (simp add: instance_inv_def)

lemma insts_written:
  assumes inv: "instances_inv classes s m" and old: "map_of m k = Some i"
    and n: "normalize classes s (writeAttributes us i) = Ok i'"
  shows "instances_inv classes s (AList.update k i' m)"
proof -
  from inv old have i: "ikey i = k" "gm_wf (Attributes i)" "supportsClass s (ClassID k)"
    by (auto simp: instances_inv_def instance_inv_def)
  have "instance_inv classes s k i'"
    by (rule instance_inv_normalized [OF n]) (use i in simp_all)
  moreover have "Origin i' = Origin i" using normalize_Ok(2) [OF n] i by simp
  ultimately show ?thesis by (rule insts_update [OF inv old])
qed

lemma instance_inv_data [intro]:
  "instance_inv classes s k i \<Longrightarrow> k = onuDataKey \<Longrightarrow> instance_inv classes s k (withDataSync v i)"
  by (simp add: instance_inv_def)

lemma insts_setDataSync:
  assumes "instances_inv classes s m"
  shows "instances_inv classes s (setDataSync v m)" and "sync_inv (setDataSync v m) v"
proof -
  show "instances_inv classes s (setDataSync v m)"
  proof (cases "map_of m onuDataKey")
    case (Some i)
    then have "instance_inv classes s onuDataKey i" using assms by (auto simp: instances_inv_def)
    with insts_update [OF assms Some, of "withDataSync v i"] Some show ?thesis
      by (auto simp: setDataSync_def)
  qed (use assms in \<open>simp add: setDataSync_def\<close>)
  show "sync_inv (setDataSync v m) v"
    by (auto simp: sync_inv_def setDataSync_def update_conv' split: option.splits)
qed

lemma insts_create:
  assumes inv: "instances_inv classes s m" and new: "map_of m k = None"
    and i: "instance_inv classes s k i" "Origin i = OriginOLT" "createdByOlt (classDefinition classes (ClassID k))"
  shows "instances_inv classes s (AList.update k i m)"
proof -
  have k: "map_of (factory s) k = None" using inv new by (auto simp: instances_inv_def)
  show ?thesis
    unfolding instances_inv_def
  proof (intro conjI allI impI)
    show "gm_wf (AList.update k i m)" using inv by (simp add: instances_inv_def)
    show "dom (map_of (factory s)) \<subseteq> dom (map_of (AList.update k i m))"
      using inv by (auto simp: instances_inv_def update_conv')
  next
    fix k' j assume j: "map_of (AList.update k i m) k' = Some j"
    show "instance_inv classes s k' j" and "if map_of (factory s) k' \<noteq> None then Origin j = OriginONU
        else Origin j = OriginOLT \<and> createdByOlt (classDefinition classes (ClassID k'))"
      using inv new i j k by (cases "k' = k"; fastforce simp: instances_inv_def update_conv')+
  qed
qed

lemma insts_delete:
  assumes inv: "instances_inv classes s m" and old: "map_of m k = Some i" "Origin i \<noteq> OriginONU"
  shows "instances_inv classes s (AList.delete k m)"
proof -
  have k: "map_of (factory s) k = None" using inv old unfolding instances_inv_def by (metis option.distinct(1))
  show ?thesis
    using inv k by (auto simp: instances_inv_def delete_conv' split: if_splits)
qed

lemma copyAttributes_simps [simp]:
  "ikey (copyAttributes ns a b) = ikey b" "Origin (copyAttributes ns a b) = Origin b"
  "gm_wf (Attributes b) \<Longrightarrow> gm_wf (Attributes (copyAttributes ns a b))"
  by (induction ns arbitrary: b) (auto simp: copyAttributes_def split: option.splits)

lemma insts_reset:
  assumes "factory_inv classes s" "gm_wf m"
  shows "instances_inv classes s (preserveONU3State m (factory s))"
proof -
  have fac: "instances_inv classes s (factory s)"
    using assms(1) by (auto simp: factory_inv_def instances_inv_def)
  show ?thesis
  proof (cases "map_of m onu3Key")
    case None
    then show ?thesis using fac by (simp add: preserveONU3State_def)
  next
    case before: (Some before)
    show ?thesis
    proof (cases "map_of (factory s) onu3Key")
      case None
      then show ?thesis using fac before by (simp add: preserveONU3State_def)
    next
      case (Some after)
      then have "instance_inv classes s onu3Key after" using fac by (auto simp: instances_inv_def)
      then have "instance_inv classes s onu3Key (copyAttributes onu3StateNames before after)"
        by (simp add: instance_inv_def)
      with insts_update [OF fac Some this] before Some show ?thesis
        by (simp add: preserveONU3State_def)
    qed
  qed
qed

section \<open>Commit\<close>

lemma policy_cong [simp]:
  "instance_inv classes (s\<lparr>current := c, dataSync := d\<rparr>) = instance_inv classes s"
  "instances_inv classes (s\<lparr>current := c, dataSync := d\<rparr>) = instances_inv classes s"
  "factory_inv classes (s\<lparr>current := c, dataSync := d\<rparr>) = factory_inv classes s"
  "instances_inv classes (s\<lparr>current := c\<rparr>) = instances_inv classes s"
  "factory_inv classes (s\<lparr>current := c\<rparr>) = factory_inv classes s"
  by (simp_all add: fun_eq_iff instance_inv_def instances_inv_def factory_inv_def supportsClass_def normalize_def
      validateAttributeCapabilities_def)

lemma commitLocked_cases:
  "commitLocked o' before after next sync s w = (r, s', w') \<Longrightarrow>
     (s' = s \<and> (\<exists>e. r = Err e)) \<or> (r = Ok () \<and> s' = s\<lparr>current := setDataSync sync next, dataSync := sync\<rparr>)"
  by (auto simp: commitLocked_def Let_def split: prod.splits option.splits)

lemma attempt_cases:
  assumes "attempt m k s w = (r, s', w')"
  shows "(\<exists>x. m = Ok x \<and> k x s w = (r, s', w')) \<or> (s' = s \<and> w' = w \<and> r \<noteq> Ok y)"
  using assms by (cases m) (auto simp: attempt_def)

lemma commit_inv:
  assumes "commitLocked o' before after next sync s w = (r, s', w')"
    and "store_inv classes s" "instances_inv classes s next"
  shows "store_inv classes s'"
  using commitLocked_cases [OF assms(1)] assms(2,3) insts_setDataSync [OF assms(3), of sync]
  by (auto simp: store_inv_def)

lemma store_inv_simps:
  assumes "store_inv classes s"
  shows "instances_inv classes s (current s)" "factory_inv classes s" "gm_wf (current s)"
  using assms by (simp_all add: store_inv_def instances_inv_def)

section \<open>What the preparation steps establish\<close>

lemma prepareUpdate_Ok:
  assumes "prepareUpdate classes s m key attrs = Ok (i, n)"
  shows "map_of m key = Some i" and "normalize classes s (writeAttributes attrs i) = Ok n"
    and "\<exists>entity. loadDefinition classes (ClassID key) (EntityID key) (Attributes i) = Ok entity
      \<and> checkAutonomous entity (ClassID key) attrs = None"
  using assms by (auto simp: prepareUpdate_def bindR_eq_Ok split: option.splits)

lemma prepareSetTable_Ok:
  assumes "prepareSetTable classes s key selected attrs = Ok (i, n)"
  shows "map_of (current s) key = Some i"
    and "\<exists>name rows. normalize classes s (writeAttributes [(name, VTable rows)] i) = Ok n"
  using assms
  by (auto simp: prepareSetTable_def bindR_eq_Ok Let_def split: option.splits if_splits)

lemma prepareExpiry_Ok:
  assumes "prepareExpiry classes s key timers = Ok (Some (i, n))"
  shows "map_of (current s) key = Some i"
    and "\<exists>rows. normalize classes s (writeAttributes [(''AllowedPreviewGroupsTable'', VTable rows)] i) = Ok n"
  using assms by (auto simp: prepareExpiry_def bindR_eq_Ok split: option.splits if_splits)

lemma syncedInstance_Ok:
  assumes "syncedInstance s key attrs n0 = Ok (n, sync)"
  shows "n = n0 \<and> sync = nextDataSync s \<or> key = onuDataKey \<and> n = withDataSync sync n0
      \<and> (\<exists>v. map_of attrs MibDataSync = Some (VU8 v) \<and> sync = incrementDataSync v)"
  using assms by (auto simp: syncedInstance_def Let_def split: if_splits option.splits attr_value.splits)

lemma prepareSet_Ok:
  assumes "prepareSet classes s key attrs = Ok (i, n, sync)"
  obtains n0 entity where "map_of (current s) key = Some i"
    and "loadDefinition classes (ClassID key) (EntityID key) (Attributes i) = Ok entity"
    and "validateSupportedAttributes s entity attrs = None" and "validateAccess entity attrs Write = None"
    and "normalize classes s (writeAttributes (filter (\<lambda>(name, _). name \<noteq> ManagedEntityID) attrs) i) = Ok n0"
    and "syncedInstance s key attrs n0 = Ok (n, sync)"
  using assms by (auto simp: prepareSet_def bindR_eq_Ok split: option.splits if_splits)

lemma initializeCreatedInstance_simps [simp]:
  "ikey (initializeCreatedInstance t i) = ikey i" "Origin (initializeCreatedInstance t i) = Origin i"
  "gm_wf (Attributes i) \<Longrightarrow> gm_wf (Attributes (initializeCreatedInstance t i))"
  by (simp_all add: initializeCreatedInstance_def Let_def)

lemma gm_wf_prune [simp]: "gm_wf attrs \<Longrightarrow> gm_wf (pruneUnsupportedAttributes classes s c attrs)"
  by (simp add: pruneUnsupportedAttributes_def split: option.split)

lemma gm_wf_merge [simp]:
  assumes "gm_wf attrs"
  shows "gm_wf (MergeInDefaultValues classes c attrs)"
proof -
  have "gm_wf (fold (\<lambda>(index, d) m. if P index d m then AList.update (AttrName d) (DefValue d) m else m) ds m)"
    if "gm_wf m" for P and ds :: attribute_definitions and m :: attribute_map
    using that by (induction ds arbitrary: m) auto
  from this [OF assms] show ?thesis unfolding MergeInDefaultValues_def .
qed

lemma newInstance_Ok:
  assumes "newInstance classes s c e attrs = Ok i" "gm_wf attrs"
  shows "map_of (current s) (Key c e) = None" and "instance_inv classes s (Key c e) i"
    and "Origin i = OriginOLT" and "createdByOlt (classDefinition classes c)"
proof -
  from assms obtain entity j where
    new: "map_of (current s) (Key c e) = None" "supportsClass s c"
      "loadDefinition classes c e attrs = Ok entity" "createdByOlt (medef entity)"
    and n: "normalize classes s j = Ok i" and j: "ikey j = Key c e" "Origin j = OriginOLT" "gm_wf (Attributes j)"
    by (auto simp: newInstance_def bindR_eq_Ok Let_def split: if_splits)
  show "map_of (current s) (Key c e) = None" by (rule new(1))
  show "instance_inv classes s (Key c e) i"
    by (rule instance_inv_normalized [OF n j(3) j(1)]) (simp add: new(2))
  show "Origin i = OriginOLT" using normalize_Ok(2) [OF n j(3)] j(2) by simp
  show "createdByOlt (classDefinition classes c)" using new(4) loadDefinition_Ok(2) [OF new(3) assms(2)] by simp
qed

section \<open>Every operation keeps the invariant\<close>

lemma attempt_inv:
  assumes "attempt m k s w = (r, s', w')" "store_inv classes s"
    and "\<And>x. m = Ok x \<Longrightarrow> k x s w = (r, s', w') \<Longrightarrow> store_inv classes s'"
  shows "store_inv classes s'"
  using assms by (cases m) (auto simp: attempt_def)

lemma Create_inv:
  assumes "store_inv classes s" "gm_wf attrs" "Create classes c e attrs s w = (r, s', w')"
  shows "store_inv classes s'"
proof (rule attempt_inv [OF assms(3) [unfolded Create_def Let_def] assms(1)])
  fix i assume i: "newInstance classes s c e attrs = Ok i"
    and c: "commitLocked OperationCreate None (Some i) (AList.update (Key c e) i (current s)) (nextDataSync s) s w
      = (r, s', w')"
  note new = newInstance_Ok [OF i assms(2)]
  show ?thesis
    by (rule commit_inv [OF c assms(1)], rule insts_create [OF store_inv_simps(1) [OF assms(1)]]) (use new in simp_all)
qed

lemma Set_inv:
  assumes "store_inv classes s" "Set classes k attrs s w = (r, s', w')"
  shows "store_inv classes s'"
proof (rule attempt_inv [OF assms(2) [unfolded Set_def] assms(1)], clarify)
  fix i n sync assume x: "prepareSet classes s k attrs = Ok (i, n, sync)"
    and c: "(if sameAttributes i n then (Ok (), s, w)
       else commitLocked OperationSet (Some i) (Some n) (AList.update k n (current s)) sync s w) = (r, s', w')"
  from x obtain n0 where i: "map_of (current s) k = Some i"
    and n0: "normalize classes s (writeAttributes (filter (\<lambda>(name, _). name \<noteq> ManagedEntityID) attrs) i) = Ok n0"
    and n: "syncedInstance s k attrs n0 = Ok (n, sync)"
    by (rule prepareSet_Ok)
  note inv = store_inv_simps(1) [OF assms(1)]
  from inv i have wf: "gm_wf (Attributes i)" "ikey i = k" "supportsClass s (ClassID k)"
    by (auto simp: instances_inv_def instance_inv_def)
  have k0: "instance_inv classes s k n0" by (rule instance_inv_normalized [OF n0]) (use wf in simp_all)
  have "instance_inv classes s k n \<and> Origin n = Origin i"
    using syncedInstance_Ok [OF n] k0 normalize_Ok(2) [OF n0] wf by auto
  then have "instances_inv classes s (AList.update k n (current s))"
    by (intro insts_update [OF inv i]) simp_all
  with commit_inv [OF _ assms(1) this] c assms(1) show "store_inv classes s'" by (auto split: if_splits)
qed

lemma written_commit_inv:
  assumes "store_inv classes s" "map_of (current s) k = Some i"
    and "normalize classes s (writeAttributes us i) = Ok n"
    and "commitLocked o' before after (AList.update k n (current s)) sync s w = (r, s', w')"
  shows "store_inv classes s'"
  by (rule commit_inv [OF assms(4,1)], rule insts_written [OF store_inv_simps(1) [OF assms(1)] assms(2,3)])

lemma SetTable_inv:
  assumes "store_inv classes s" "SetTable classes k m attrs s w = (r, s', w')"
  shows "store_inv classes s'"
proof (rule attempt_inv [OF assms(2) [unfolded SetTable_def] assms(1)], clarify)
  fix i n assume x: "prepareSetTable classes s k m attrs = Ok (i, n)"
    and c: "(if sameAttributes i n then (Ok (), s, w)
       else commitLocked OperationSetTable (Some i) (Some n) (AList.update k n (current s)) (nextDataSync s) s w)
      = (r, s', w')"
  from prepareSetTable_Ok [OF x] obtain us where
    "map_of (current s) k = Some i" "normalize classes s (writeAttributes us i) = Ok n" by blast
  from written_commit_inv [OF assms(1) this] c assms(1) show "store_inv classes s'"
    by (auto split: if_splits)
qed

lemma Delete_inv:
  assumes "store_inv classes s" "Delete classes k s w = (r, s', w')"
  shows "store_inv classes s'"
proof (rule attempt_inv [OF assms(2) [unfolded Delete_def] assms(1)])
  fix i assume "deletable classes s k = Ok i"
    and c: "commitLocked OperationDelete (Some i) None (AList.delete k (current s)) (nextDataSync s) s w = (r, s', w')"
  then have i: "map_of (current s) k = Some i" "Origin i \<noteq> OriginONU"
    by (auto simp: deletable_def bindR_eq_Ok split: option.splits if_splits)
  show ?thesis
    by (rule commit_inv [OF c assms(1)]) (rule insts_delete [OF store_inv_simps(1) [OF assms(1)] i])
qed

lemma Reset_inv: "store_inv classes s \<Longrightarrow> Reset s w = (r, s', w') \<Longrightarrow> store_inv classes s'"
  unfolding Reset_def
  by (erule commit_inv) (simp_all add: insts_reset store_inv_simps)

lemma Expire_inv:
  assumes "store_inv classes s" "ExpireAllowedPreviewRows classes k ts s w = (r, s', w')"
  shows "store_inv classes s'"
proof (rule attempt_inv [OF assms(2) [unfolded ExpireAllowedPreviewRows_def] assms(1)])
  fix x assume x: "prepareExpiry classes s k ts = Ok x"
    and c: "(case x of None \<Rightarrow> (Ok False, s, w)
       | Some (inst, normalized) \<Rightarrow>
           (case commitLocked OperationAutonomous (Some inst) (Some normalized)
                   (AList.update k normalized (current s)) (dataSync s) s w of
              (Ok _, s', w') \<Rightarrow> (Ok True, s', w')
            | (Err e, s', w') \<Rightarrow> (Err e, s', w')
            | (Panic, s', w') \<Rightarrow> (Panic, s', w'))) = (r, s', w')"
  show ?thesis
  proof (cases x)
    case (Some y)
    obtain i n where y: "y = (i, n)" by (cases y)
    from prepareExpiry_Ok [OF x [unfolded Some y]] obtain us where
      us: "map_of (current s) k = Some i" "normalize classes s (writeAttributes us i) = Ok n" by blast
    from written_commit_inv [OF assms(1) us] c show ?thesis
      by (auto simp: Some y split: prod.splits outcome.splits)
  qed (use c assms(1) in simp)
qed

text \<open>An update by the ONU leaves the counter of an existing ONU data instance alone.\<close>

lemma checkAutonomous_names:
  assumes "checkAutonomous entity c attrs = None" "(name, v) \<in> set attrs"
  shows "name \<noteq> ManagedEntityID \<and> \<not> (c = OnuDataClassID \<and> name = MibDataSync)"
proof -
  let ?f = "\<lambda>(name, _) (failed, unsupported).
      if name = ManagedEntityID \<or> (c = OnuDataClassID \<and> name = MibDataSync) then (failed, 0xffff :: u16)
      else case GetAttributeDefinitionByName (AttributeDefinitions (medef entity)) name of
        Ok d \<Rightarrow> if SupportsAttributeAccess d Read then (failed, unsupported) else (failed OR Mask d, unsupported)
      | _ \<Rightarrow> (failed, 0xffff)"
  have keep: "snd (fold ?f as (f, 0xffff)) = 0xffff" for as :: attribute_map and f
    by (induction as arbitrary: f) (auto split: outcome.splits)
  have "snd (fold ?f as (f, u)) \<noteq> 0"
    if "(name, v) \<in> set as" "name = ManagedEntityID \<or> (c = OnuDataClassID \<and> name = MibDataSync)"
    for as :: attribute_map and f u
    using that(1)
  proof (induction as arbitrary: f u)
    case (Cons a as)
    show ?case
    proof (cases "a = (name, v)")
      case True
      then have "fold ?f (a # as) (f, u) = fold ?f as (f, 0xffff)" using that(2) by simp
      then show ?thesis by (simp only: keep) simp
    next
      case False
      with Cons have "\<And>f u. snd (fold ?f as (f, u)) \<noteq> 0" by simp
      then show ?thesis by (cases "?f a (f, u)") simp
    qed
  qed simp
  from this [OF assms(2), of 0 0] assms(1) show ?thesis
    by (auto simp: checkAutonomous_def Let_def split: prod.splits if_splits)
qed

lemma prepareUpdate_sync:
  assumes lib: "library classes" and "gm_wf attrs" and u: "prepareUpdate classes s m k attrs = Ok (i, n)"
    and "instances_inv classes s m" "sync_inv m sync"
  shows "instances_inv classes s (AList.update k n m)" and "sync_inv (AList.update k n m) sync"
proof -
  note p = prepareUpdate_Ok [OF u]
  show "instances_inv classes s (AList.update k n m)" by (rule insts_written [OF assms(4) p(1,2)])
  have i: "gm_wf (Attributes i)" "ikey i = k" using assms(4) p(1) by (auto simp: instances_inv_def instance_inv_def)
  have "map_of (Attributes n) MibDataSync = Some (VU8 sync)" if "k = onuDataKey"
  proof -
    have "map_of attrs MibDataSync = None"
    proof (rule ccontr)
      assume "map_of attrs MibDataSync \<noteq> None"
      then obtain v where v: "(MibDataSync, v) \<in> set attrs" by (auto dest: map_of_SomeD)
      from p(3) obtain entity where "checkAutonomous entity (ClassID k) attrs = None" by blast
      from checkAutonomous_names [OF this v] that show False by (simp add: onuDataKey_def)
    qed
    moreover have "MibDataSync \<noteq> ManagedEntityID" by (simp add: MibDataSync_def ManagedEntityID_def)
    ultimately show ?thesis
      using normalize_Ok(3) [OF p(2)] i lib assms(2,5) p(1) that
      by (simp add: map_of_loaded writeAttributes_def map_of_setAll library_def sync_inv_def)
  qed
  with assms(5) show "sync_inv (AList.update k n m) sync" by (auto simp: sync_inv_def update_conv')
qed

lemma UpdateAutonomous_inv:
  assumes lib: "library classes" "gm_wf attrs" and inv: "store_inv classes s"
    and e: "UpdateAutonomous classes k attrs s w = (r, s', w')"
  shows "store_inv classes s'"
proof (rule attempt_inv [OF e [unfolded UpdateAutonomous_def] inv], clarify)
  fix i n assume u: "prepareUpdate classes s (current s) k attrs = Ok (i, n)"
    and c: "(let changed = changedAttributes i n attrs in
       if changed = [] then (Ok changed, s, w)
       else (Ok changed, s\<lparr>current := AList.update k n (current s)\<rparr>, w)) = (r, s', w')"
  from prepareUpdate_sync [OF lib u, of "dataSync s"] inv c show "store_inv classes s'"
    by (auto simp: store_inv_def Let_def split: if_splits)
qed

lemma UpdateAutonomousBatch_inv:
  assumes lib: "library classes" "list_all (gm_wf \<circ> snd) us" and inv: "store_inv classes s"
    and e: "UpdateAutonomousBatch classes us s w = (r, s', w')"
  shows "store_inv classes s'"
proof (rule attempt_inv [OF e [unfolded UpdateAutonomousBatch_def] inv])
  let ?P = "\<lambda>m. instances_inv classes s m \<and> sync_inv m (dataSync s)"
  fix m assume f: "foldR (\<lambda>(key, attrs) proposed.
         bindR (prepareUpdate classes s proposed key attrs) (\<lambda>(_, normalized).
         Ok (AList.update key normalized proposed))) us (current s) = Ok m"
    and c: "(Ok (), s\<lparr>current := m\<rparr>, w) = (r, s', w')"
  have "?P m"
  proof (rule foldR_invariant [OF f, where P = ?P])
    show "?P (current s)" using inv by (simp add: store_inv_def)
  next
    fix x m m' assume "x \<in> set us" "?P m"
      and "(case x of (key, attrs) \<Rightarrow> \<lambda>proposed. bindR (prepareUpdate classes s proposed key attrs)
        (\<lambda>(_, normalized). Ok (AList.update key normalized proposed))) m = Ok m'"
    moreover obtain k attrs where "x = (k, attrs)" by (cases x)
    ultimately show "?P m'"
      using lib prepareUpdate_sync [OF lib(1), of attrs s m k _ _ "dataSync s"]
      by (auto simp: bindR_eq_Ok list_all_iff)
  qed
  with inv c show "store_inv classes s'" by (auto simp: store_inv_def)
qed

lemma proposeCommand_inv:
  assumes inv: "store_inv classes s" and p: "proposeCommand classes s us = Ok (m, changed)"
  shows "instances_inv classes s m"
proof -
  let ?origins = "\<lambda>m k. map_option Origin (map_of m k)"
  let ?P = "\<lambda>(m, _ :: bool). instances_inv classes s m \<and> ?origins m = ?origins (current s)"
  have "?P (m, changed)"
  proof (rule foldR_invariant [OF p [unfolded proposeCommand_def], where P = ?P])
    show "?P (current s, False)" using store_inv_simps(1) [OF inv] by simp
  next
    fix x and st st' :: "instances \<times> bool" assume st: "?P st"
      and step: "(case x of (key, attrs) \<Rightarrow> \<lambda>(proposed, changed).
       bindR (prepareUpdate classes s (current s) key attrs) (\<lambda>(inst, normalized).
       if sameAttributes inst normalized then Ok (proposed, changed)
       else Ok (AList.update key normalized proposed, True))) st = Ok st'"
    obtain k attrs m c where x: "x = (k, attrs)" "st = (m, c)" by (cases x, cases st)
    from step obtain i n where u: "prepareUpdate classes s (current s) k attrs = Ok (i, n)"
      and st': "st' = (m, c) \<or> st' = (AList.update k n m, True)"
      by (auto simp: x bindR_eq_Ok split: if_splits)
    note pu = prepareUpdate_Ok [OF u]
    have i: "gm_wf (Attributes i)" "ikey i = k" "supportsClass s (ClassID k)"
      using store_inv_simps(1) [OF inv] pu(1) by (auto simp: instances_inv_def instance_inv_def)
    have n: "instance_inv classes s k n" "Origin n = Origin i"
      by (rule instance_inv_normalized [OF pu(2)]) (use i normalize_Ok(2) [OF pu(2)] in simp_all)
    have m: "instances_inv classes s m" "?origins m = ?origins (current s)" using st by (simp_all add: x)
    have "?origins m k = Some (Origin i)" by (simp add: fun_cong [OF m(2)] pu(1))
    then obtain j where j: "map_of m k = Some j" "Origin j = Origin i" by auto
    have "instances_inv classes s (AList.update k n m)"
      by (rule insts_update [OF m(1) j(1) n(1)]) (simp add: n(2) j(2))
    moreover have "?origins (AList.update k n m) = ?origins (current s)"
      using m(2) by (auto simp: fun_eq_iff update_conv' pu(1) n(2))
    ultimately show "?P st'" using st st' by (auto simp: x)
  qed
  then show ?thesis by simp
qed

lemma commitTransaction_cases:
  "commitTransaction t m sync s w = (r, s', w') \<Longrightarrow>
     (s' = s \<and> (\<exists>e. r = Err e)) \<or> (r = Ok () \<and> s' = s\<lparr>current := m, dataSync := sync\<rparr>)"
  by (auto simp: commitTransaction_def Let_def split: prod.splits option.splits)

lemma updateByCommand_inv:
  assumes inv: "store_inv classes s" and e: "updateByCommand classes us t s w = (r, s', w')"
  shows "store_inv classes s'"
proof (cases "proposeCommand classes s us")
  case (Ok p)
  obtain m changed where p: "p = (m, changed)" by (cases p)
  note m = proposeCommand_inv [OF inv Ok [unfolded p]]
  note set = insts_setDataSync [OF m, of "nextDataSync s"]
  show ?thesis
  proof (cases changed)
    case True
    show ?thesis
    proof (cases t)
      case None
      with e Ok p True have "commitLocked OperationCommand None None
          (setDataSync (nextDataSync s) m) (nextDataSync s) s w = (r, s', w')"
        by (simp add: updateByCommand_def Let_def)
      from commit_inv [OF this inv set(1)] show ?thesis .
    next
      case (Some u)
      with e Ok p True have "commitTransaction u (setDataSync (nextDataSync s) m) (nextDataSync s) s w = (r, s', w')"
        by (simp add: updateByCommand_def Let_def)
      from commitTransaction_cases [OF this] inv set show ?thesis by (auto simp: store_inv_def)
    qed
  next
    case False
    with e Ok p inv show ?thesis
      by (auto simp: updateByCommand_def split: option.splits prod.splits)
  qed
qed (use inv e in \<open>auto simp: updateByCommand_def split: prod.splits\<close>)

lemma exec_inv:
  assumes "library classes" "wf_op op'" "store_inv classes s" "exec classes op' s w = (r, s', w')"
  shows "store_inv classes s'"
proof (cases op')
  case (OpAutonomous k attrs)
  obtain a b where u: "UpdateAutonomous classes k attrs s w = (a, b)" by (cases "UpdateAutonomous classes k attrs s w")
  with UpdateAutonomous_inv [OF assms(1) _ assms(3), of attrs k w a s' w'] assms(2,4) OpAutonomous show ?thesis
    by (simp add: discard_def)
next
  case (OpExpire k ts)
  obtain a b where u: "ExpireAllowedPreviewRows classes k ts s w = (a, b)"
    by (cases "ExpireAllowedPreviewRows classes k ts s w")
  with Expire_inv [OF assms(3), of k ts w a s' w'] assms(4) OpExpire show ?thesis by (simp add: discard_def)
qed (use assms in \<open>auto elim: Create_inv Set_inv SetTable_inv Delete_inv Reset_inv
       UpdateAutonomousBatch_inv updateByCommand_inv\<close>)

section \<open>Construction\<close>

lemma instance_inv_cong:
  assumes "supportedClasses s' = supportedClasses s" "attributeCapabilities s' = attributeCapabilities s"
    "validateInstance s' = validateInstance s"
  shows "instance_inv classes s' = instance_inv classes s" and "normalize classes s' = normalize classes s"
  using assms
  by (simp_all add: fun_eq_iff instance_inv_def supportsClass_def normalize_def validateAttributeCapabilities_def)

definition fresh_inv :: "class_table \<Rightarrow> 'w Store \<Rightarrow> 'w Store \<Rightarrow> bool" where
  "fresh_inv classes s0 s = (factory_inv classes s \<and> current s = factory s
     \<and> supportedClasses s = supportedClasses s0 \<and> attributeCapabilities s = attributeCapabilities s0
     \<and> validateInstance s = validateInstance s0)"

lemma addFactory_inv:
  assumes "addFactory classes options i0 s = Ok s'" "gm_wf (Attributes i0)" "fresh_inv classes s0 s"
  shows "fresh_inv classes s0 s'"
proof -
  from assms(1) obtain n where sup: "supportsClass s (ClassID (ikey i0))"
    and n: "normalize classes s (i0\<lparr>Origin := OriginONU\<rparr>) = Ok n"
    and s': "\<exists>masks. s' = s\<lparr>factory := AList.update (ikey n) n (factory s),
        current := AList.update (ikey n) n (current s), supportedAttributes := masks\<rparr>"
    by (auto simp: addFactory_def bindR_eq_Ok Let_def split: if_splits option.splits)
       (metis Store.surjective Store.update_convs(2) Store.update_convs(8))+
  note nk = normalize_Ok [OF n]
  have "instance_inv classes s (ikey n) n"
    by (rule instance_inv_normalized [OF n]) (use assms(2) sup nk(1) in simp_all)
  moreover have "Origin n = OriginONU" using nk(2) assms(2) by simp
  moreover obtain masks where m: "s' = s\<lparr>factory := AList.update (ikey n) n (factory s),
        current := AList.update (ikey n) n (current s), supportedAttributes := masks\<rparr>" using s' by blast
  moreover have "instance_inv classes s' = instance_inv classes s" by (rule instance_inv_cong) (simp_all add: m)
  ultimately show ?thesis
    using assms(3) by (auto simp: fresh_inv_def factory_inv_def update_conv' split: if_splits)
qed

lemma NewWithOptions_inv:
  fixes s :: "'w Store"
  assumes "NewWithOptions classes factory0 options = Ok s" "list_all (gm_wf \<circ> Attributes) factory0"
  shows "store_inv classes s"
proof -
  define size where "size = (if OptExtendedVLANTableSize options = 0 then defaultExtendedVLANTableSize
      else OptExtendedVLANTableSize options)"
  define s0 where "s0 policy caps = \<lparr> factory = [], current = [], dataSync = 0, applier = OptApplier options,
      extendedVLANTableSize = size, stateDomain = OptStateDomain options,
      supportedClasses = map_option fst policy, supportedAttributes = map_option snd policy,
      attributeCapabilities = caps, validateInstance = OptValidateInstance options \<rparr>"
    for policy :: "(u16 list \<times> (u16, u16) gomap) option" and caps
  from assms(1) [unfolded NewWithOptions_def, folded size_def] obtain policy caps s1 where
    loop: "foldR (addFactory classes options) factory0 (s0 policy caps) = Ok s1"
    and s: "s = s1\<lparr>dataSync := 0, current := setDataSync 0 (current s1)\<rparr>"
    by (auto simp: bindR_eq_Ok Let_def s0_def split: if_splits)
  let ?s0 = "s0 policy caps"
  have "fresh_inv classes ?s0 s1"
  proof (rule foldR_invariant [OF loop, where P = "fresh_inv classes ?s0"])
    show "fresh_inv classes ?s0 ?s0" by (simp add: s0_def fresh_inv_def factory_inv_def)
    show "fresh_inv classes ?s0 s'" if "i \<in> set factory0" "fresh_inv classes ?s0 s''" "addFactory classes options i s'' = Ok s'"
      for i s'' s' using addFactory_inv [OF that(3) _ that(2)] that(1) assms(2) by (simp add: list_all_iff)
  qed
  then have fac: "factory_inv classes s1" "current s1 = factory s1" by (simp_all add: fresh_inv_def)
  then have "instances_inv classes s1 (current s1)" by (auto simp: factory_inv_def instances_inv_def)
  note set = insts_setDataSync [OF this, of 0]
  have "s = s1\<lparr>current := setDataSync 0 (current s1), dataSync := 0\<rparr>" by (simp add: s)
  with set fac show ?thesis by (simp add: store_inv_def)
qed

fun execAll :: "class_table \<Rightarrow> 'w mib_op list \<Rightarrow> 'w Store \<Rightarrow> 'w \<Rightarrow> 'w Store \<times> 'w" where
  "execAll classes [] s w = (s, w)"
| "execAll classes (op' # ops) s w = (case exec classes op' s w of (_, s', w') \<Rightarrow> execAll classes ops s' w')"

lemma execAll_inv:
  assumes "library classes" "list_all wf_op ops" "store_inv classes s"
  shows "store_inv classes (fst (execAll classes ops s w))"
  using assms(2,3)
proof (induction ops arbitrary: s w)
  case (Cons op' ops)
  obtain r s' w' where e: "exec classes op' s w = (r, s', w')" by (cases "exec classes op' s w")
  with exec_inv [OF assms(1) _ _ e] Cons show ?case by simp
qed simp

section \<open>Effects on the store\<close>

text \<open>A failing operation leaves the store unchanged; no operation changes the factory or the policy.\<close>

definition effect :: "'w Store \<Rightarrow> (go_error, unit) outcome \<times> 'w Store \<times> 'w \<Rightarrow> bool" where
  "effect s res = (case res of (r, s', _) \<Rightarrow> (s' = s \<or> r = Ok ())
     \<and> s' = s\<lparr>current := current s', dataSync := dataSync s'\<rparr>)"

lemma effect_unchanged [simp]: "effect s (r, s, w)"
  by (simp add: effect_def)

lemma effect_commitLocked [simp]: "effect s (commitLocked o' b a next sync s w)"
  by (cases "commitLocked o' b a next sync s w") (auto simp: effect_def dest: commitLocked_cases)

lemma effect_attempt: "(\<And>x. m = Ok x \<Longrightarrow> effect s (k x s w)) \<Longrightarrow> effect s (attempt m k s w)"
  by (cases m) (simp_all add: attempt_def)

lemma effect_commitTransaction [simp]: "effect s (commitTransaction t m sync s w)"
  by (cases "commitTransaction t m sync s w") (auto simp: effect_def dest: commitTransaction_cases)

lemma effect_updateByCommand: "effect s (updateByCommand classes us t s w)"
  by (auto simp: updateByCommand_def Let_def split: outcome.split option.split prod.split)

lemma effect_UpdateAutonomous: "effect s (discard (UpdateAutonomous classes k attrs s w))"
  by (cases "prepareUpdate classes s (current s) k attrs")
     (auto simp: UpdateAutonomous_def attempt_def discard_def effect_def Let_def split: prod.split)

lemma effect_Expire: "effect s (discard (ExpireAllowedPreviewRows classes k ts s w))"
proof (cases "prepareExpiry classes s k ts")
  case (Ok x)
  then show ?thesis
    using effect_commitLocked
    by (cases x) (auto simp: ExpireAllowedPreviewRows_def attempt_def discard_def effect_def
        split: prod.split outcome.split, (force dest: commitLocked_cases)+)
qed (simp_all add: ExpireAllowedPreviewRows_def attempt_def discard_def effect_def)

lemma exec_effect: "effect s (exec classes op' s w)"
  by (cases op')
     (auto simp: Create_def Set_def SetTable_def Delete_def Reset_def UpdateAutonomousBatch_def Let_def
       effect_updateByCommand effect_UpdateAutonomous effect_Expire effect_def [of s "(Ok (), _)"]
       intro!: effect_attempt split: prod.split)

end
