(* ===== verification/MibSample.thy ===== *)
theory MibSample
  imports MibStore
begin

text \<open>
  A concrete table of managed-entity classes for the witnesses: the library's definitions of ONU
  data, ONU-G, ONU3-G and the extended VLAN tagging operation (onudata.go, onu-g.go, onu3-g.go,
  extendedvlantaggingoperationconfigurationdata.go of the vendored package \<open>generated\<close>), and a
  factory MIB with the two ONU-created instances.
\<close>

definition attr :: "nat \<Rightarrow> string \<Rightarrow> attribute_type \<Rightarrow> u16 \<Rightarrow> attr_value \<Rightarrow> int \<Rightarrow> attribute_access list
    \<Rightarrow> nat \<times> attribute_definition" where
  "attr index name ty bits def sz access =
     (index, \<lparr> AttrName = name, AttributeType = ty, Mask = bits, DefValue = def, AttrSize = sz, Access = access,
       Avc = False \<rparr>)"

definition avcAttr :: "nat \<Rightarrow> string \<Rightarrow> attribute_type \<Rightarrow> u16 \<Rightarrow> attr_value \<Rightarrow> int \<Rightarrow> attribute_access list
    \<Rightarrow> nat \<times> attribute_definition" where
  "avcAttr index name ty bits def sz access =
     (index, \<lparr> AttrName = name, AttributeType = ty, Mask = bits, DefValue = def, AttrSize = sz, Access = access,
       Avc = True \<rparr>)"

definition onuDataME :: me_definition where
  "onuDataME = \<lparr> DefName = ''OnuData'',
     MessageTypes = [MsgGet, MsgGetAllAlarms, MsgGetAllAlarmsNext, MsgMibReset, MsgMibUpload, MsgMibUploadNext, MsgSet],
     AllowedAttributeMask = 0x8000,
     AttributeDefinitions = [entityIdAttribute [Read],
       attr 1 ''MibDataSync'' UnsignedIntegerAttributeType 0x8000 (VU8 0) 1 [Read, Write]],
     ClassAccess = CreatedByOnu, Support = UnknownSupport, AlarmMap = [] \<rparr>"

definition onuGME :: me_definition where
  "onuGME = \<lparr> DefName = ''OnuG'',
     MessageTypes = [MsgGet, MsgReboot, MsgSet, MsgSynchronizeTime, MsgTest],
     AllowedAttributeMask = 0xfff8,
     AttributeDefinitions = [entityIdAttribute [Read],
       attr 1 ''VendorId'' StringAttributeType 0x8000 (VOctets [0x20, 0x20, 0x20, 0x20]) 4 [Read],
       attr 2 ''Version'' StringAttributeType 0x4000 (VOctets (0x30 # replicate 13 0)) 14 [Read],
       attr 3 ''SerialNumber'' OctetsAttributeType 0x2000 (VOctets (replicate 8 0)) 8 [Read],
       attr 4 ''TrafficManagementOption'' EnumerationAttributeType 0x1000 (VU8 0) 1 [Read],
       attr 5 ''Deprecated'' UnsignedIntegerAttributeType 0x0800 (VU8 0) 1 [Read],
       attr 6 ''BatteryBackup'' EnumerationAttributeType 0x0400 (VU8 0) 1 [Read, Write],
       attr 7 ''AdministrativeState'' EnumerationAttributeType 0x0200 (VU8 0) 1 [Read, Write],
       avcAttr 8 ''OperationalState'' EnumerationAttributeType 0x0100 (VU8 0) 1 [Read],
       attr 9 ''OnuSurvivalTime'' UnsignedIntegerAttributeType 0x0080 (VU8 0) 1 [Read],
       avcAttr 10 ''LogicalOnuId'' OctetsAttributeType 0x0040 (VOctets (replicate 24 0)) 24 [Read],
       avcAttr 11 ''LogicalPassword'' OctetsAttributeType 0x0020 (VOctets (replicate 12 0)) 12 [Read],
       attr 12 ''CredentialsStatus'' EnumerationAttributeType 0x0010 (VU8 0) 1 [Read, Write],
       attr 13 ''ExtendedTcLayerOptions'' BitFieldAttributeType 0x0008 (VU16 0) 2 [Read]],
     ClassAccess = CreatedByOnu, Support = UnknownSupport, AlarmMap = [0, 1, 2, 3, 4, 5, 6, 7, 8, 9, 10, 11, 12, 13, 14, 15] \<rparr>"

definition extendedVlanME :: me_definition where
  "extendedVlanME = \<lparr> DefName = ''ExtendedVlanTaggingOperationConfigurationData'',
     MessageTypes = [MsgCreate, MsgDelete, MsgGet, MsgGetNext, MsgSet, MsgSetTable],
     AllowedAttributeMask = 0xffc0,
     AttributeDefinitions = [entityIdAttribute [Read, SetByCreate],
       attr 1 ''AssociationType'' EnumerationAttributeType 0x8000 (VU8 0) 1 [Read, SetByCreate, Write],
       attr 2 ''ReceivedFrameVlanTaggingOperationTableMaxSize'' UnsignedIntegerAttributeType 0x4000 (VU16 0) 2 [Read],
       attr 3 ''InputTpid'' UnsignedIntegerAttributeType 0x2000 (VU16 34984) 2 [Read, Write],
       attr 4 ''OutputTpid'' UnsignedIntegerAttributeType 0x1000 (VU16 34984) 2 [Read, Write],
       attr 5 ''DownstreamMode'' EnumerationAttributeType 0x0800 (VU8 0) 1 [Read, Write],
       attr 6 ''ReceivedFrameVlanTaggingOperationTable'' TableAttributeType 0x0400 VNil 16 [Read, Write],
       attr 7 ''AssociatedMePointer'' PointerAttributeType 0x0200 (VU16 0) 2 [Read, SetByCreate, Write],
       attr 8 ''DscpToPBitMapping'' OctetsAttributeType 0x0100 (VOctets (replicate 24 0)) 24 [Read, Write],
       attr 9 ''EnhancedMode'' UnsignedIntegerAttributeType 0x0080 (VU8 0) 1 [Read, SetByCreate],
       attr 10 ''EnhancedReceivedFrameClassificationAndProcessingTable'' TableAttributeType 0x0040 VNil 28
         [Read, Write]],
     ClassAccess = CreatedByOlt, Support = UnknownSupport, AlarmMap = [] \<rparr>"

definition onu3GME :: me_definition where
  "onu3GME = \<lparr> DefName = ''Onu3G'', MessageTypes = [MsgGet, MsgGetNext, MsgSet], AllowedAttributeMask = 0xffc0,
     AttributeDefinitions = [entityIdAttribute [Read],
       avcAttr 1 ''FlashMemoryPerformanceValue'' UnsignedIntegerAttributeType 0x8000 (VU8 0) 1 [Read],
       attr 2 ''LatestRestartReason'' UnsignedIntegerAttributeType 0x4000 (VU8 0) 1 [Read],
       attr 3 ''TotalNumberOfStatusSnapshots'' UnsignedIntegerAttributeType 0x2000 (VU16 0) 2 [Read],
       avcAttr 4 ''NumberOfValidStatusSnapshots'' UnsignedIntegerAttributeType 0x1000 (VU16 0) 2 [Read],
       avcAttr 5 ''NextStatusSnapshotIndex'' UnsignedIntegerAttributeType 0x0800 (VU16 0) 2 [Read],
       attr 6 ''StatusSnapshotRecordTable'' TableAttributeType 0x0400 VNil 25 [Read],
       attr 7 ''SnapAction'' UnsignedIntegerAttributeType 0x0200 (VU8 0) 1 [Write],
       attr 8 ''MostRecentStatusSnapshot'' OctetsAttributeType 0x0100 (VOctets (replicate 25 0)) 25 [Read],
       attr 9 ''ResetAction'' UnsignedIntegerAttributeType 0x0080 (VU8 0) 1 [Write],
       attr 10 ''EnhancedMode'' UnsignedIntegerAttributeType 0x0040 (VU8 0) 1 [Read]],
     ClassAccess = CreatedByOnu, Support = UnknownSupport, AlarmMap = [0, 1, 2, 3, 4] \<rparr>"

definition sampleClasses :: class_table where
  "sampleClasses c = (if c = OnuDataClassID then Some onuDataME else if c = OnuGClassID then Some onuGME
     else if c = ExtendedVlanClassID then Some extendedVlanME
     else if c = Onu3GClassID then Some onu3GME else None)"

text \<open>An ONU3-G instance with room for two snapshot records, holding those given.\<close>

definition onu3Instance :: "bytes list \<Rightarrow> Instance" where
  "onu3Instance records = \<lparr> ikey = Key Onu3GClassID 0,
     Attributes = [(''LatestRestartReason'', VU8 1), (''TotalNumberOfStatusSnapshots'', VU16 2),
       (''NumberOfValidStatusSnapshots'', VU16 (of_nat (length records))),
       (''NextStatusSnapshotIndex'', VU16 (of_nat (length records mod 2))),
       (''StatusSnapshotRecordTable'', VTable \<lparr> NumRows = int (length records), Rows = concat records \<rparr>),
       (''MostRecentStatusSnapshot'', VOctets (if records = [] then replicate 25 0 else last records)),
       (''EnhancedMode'', VU8 1)],
     Origin = OriginONU \<rparr>"

definition sampleFactory :: "Instance list" where
  "sampleFactory =
     [\<lparr> ikey = Key OnuDataClassID 0, Attributes = [(''MibDataSync'', VU8 0)], Origin = OriginONU \<rparr>,
      \<lparr> ikey = Key OnuGClassID 0, Attributes = [(''VendorId'', VOctets [65, 66, 67, 68]),
          (''SerialNumber'', VOctets [1, 2, 3, 4, 5, 6, 7, 8]), (''AdministrativeState'', VU8 0)],
        Origin = OriginONU \<rparr>]"

definition sampleOptions :: "'w applier option \<Rightarrow> 'w Options" where
  "sampleOptions apply = \<lparr> OptApplier = apply, OptExtendedVLANTableSize = 0, OptStateDomain = ''onu'',
     SupportedClasses = [OnuDataClassID, OnuGClassID, ExtendedVlanClassID, Onu3GClassID], SupportedAttributeMasks = None,
     OptValidateInstance = None, AttributeCapabilities = [] \<rparr>"

definition sampleMe :: Key where "sampleMe = Key ExtendedVlanClassID 1"

definition sampleAttrs :: attribute_map where
  "sampleAttrs = [(''AssociationType'', VU8 2), (''AssociatedMePointer'', VU16 0x101), (''EnhancedMode'', VU8 1)]"

end
