(* ===== verification/RowTable.thy ===== *)
theory RowTable
  imports MeLib
begin

text \<open>
  What the keyed tables of the MIB have in common: a table is a byte string of fixed-size rows,
  strictly sorted by their keys; a request is a list of rows that edits the map from keys to rows.
  The locale \<open>row_policy\<close> states the contract of a policy (how a committed row is loaded, how a
  request row edits the map) and proves once that a table stays a sorted table of acceptable rows,
  that it can be loaded again, and that the byte-level edit is the edit of the finite map.
\<close>

section \<open>Keyed maps and tables\<close>

definition keyed :: "nat \<Rightarrow> (bytes \<Rightarrow> 'k) \<Rightarrow> (bytes \<Rightarrow> bool) \<Rightarrow> ('k, bytes) gomap \<Rightarrow> bool" where
  "keyed n key ok m = (gm_wf m \<and> (\<forall>(k, r) \<in> set m. length r = n \<and> ok r \<and> key r = k))"

definition keyed_table :: "nat \<Rightarrow> (bytes \<Rightarrow> 'k) \<Rightarrow> (bytes \<Rightarrow> bool) \<Rightarrow> bytes \<Rightarrow> bool" where
  "keyed_table n key ok table = (length table mod n = 0
     \<and> list_all ok (chunks n table) \<and> distinct (map key (chunks n table)))"

definition sorted_table :: "nat \<Rightarrow> (bytes \<Rightarrow> 'k::linorder) \<Rightarrow> (bytes \<Rightarrow> bool) \<Rightarrow> bytes \<Rightarrow> bool" where
  "sorted_table n key ok table = (length table mod n = 0
     \<and> list_all ok (chunks n table) \<and> sorted_wrt (<) (map key (chunks n table)))"

definition table_map :: "nat \<Rightarrow> (bytes \<Rightarrow> 'k) \<Rightarrow> bytes \<Rightarrow> 'k \<Rightarrow> bytes option" where
  "table_map n key table = map_of (map (\<lambda>r. (key r, r)) (chunks n table))"

lemma sorted_table_keyed: "sorted_table n key ok table \<Longrightarrow> keyed_table n key ok table"
  by (simp add: sorted_table_def keyed_table_def strict_sorted_iff)

lemma keyed_Nil [simp]: "keyed n key ok []"
  by (simp add: keyed_def)

lemma set_delete_subset: "set (AList.delete k m) \<subseteq> set m"
  by (auto simp: AList.delete_eq)

lemma keyed_update [intro]:
  "keyed n key ok m \<Longrightarrow> length r = n \<Longrightarrow> ok r \<Longrightarrow> key r = k \<Longrightarrow> keyed n key ok (AList.update k r m)"
  using set_update_subset [of k r m] unfolding keyed_def by auto

lemma keyed_delete [intro]: "keyed n key ok m \<Longrightarrow> keyed n key ok (AList.delete k m)"
  using set_delete_subset [of k m] unfolding keyed_def by auto

lemma keyed_filter [intro]: "keyed n key ok m \<Longrightarrow> keyed n key ok (filter P m)"
  unfolding keyed_def by auto

lemma keyed_lookup:
  assumes "keyed n key ok m" "map_of m k = Some r"
  shows "length r = n" "ok r" "key r = k"
  using assms map_of_SomeD [OF assms(2)] by (auto simp: keyed_def)

lemma map_of_filter_keys: "map_of (filter (\<lambda>(k, _). P k) m) = (map_of m) |` {k. P k}"
  by (induction m) (auto simp: restrict_map_def fun_eq_iff)

text \<open>Writing out a keyed map in key order and reading it back.\<close>

lemma sorted_rows_keyed:
  fixes key :: "bytes \<Rightarrow> 'k::linorder"
  assumes m: "keyed n key ok m" and n: "0 < n"
  shows "chunks n (sorted_rows m) = map (\<lambda>k. the (map_of m k)) (sort (gkeys m))"
    and "map key (chunks n (sorted_rows m)) = sort (gkeys m)"
    and "length (sorted_rows m) = n * length m"
proof -
  have dom: "k \<in> set (gkeys m) \<Longrightarrow> \<exists>r. map_of m k = Some r" for k by (auto simp: dom_def)
  have eq: "sorted_rows m = concat (map (\<lambda>k. the (map_of m k)) (sort (gkeys m)))"
    unfolding sorted_rows_def by (rule arg_cong [where f = concat], rule map_cong) (auto dest: dom split: option.split)
  have len: "\<forall>r \<in> set (map (\<lambda>k. the (map_of m k)) (sort (gkeys m))). length r = n"
    using m by (auto dest!: dom keyed_lookup(1))
  show rows: "chunks n (sorted_rows m) = map (\<lambda>k. the (map_of m k)) (sort (gkeys m))"
    unfolding eq by (rule chunks_concat [OF n len])
  have "map key (map (\<lambda>k. the (map_of m k)) (sort (gkeys m))) = map (\<lambda>k. k) (sort (gkeys m))"
    unfolding map_map by (rule map_cong) (use m in \<open>auto dest!: dom keyed_lookup(3)\<close>)
  then show "map key (chunks n (sorted_rows m)) = sort (gkeys m)" by (simp add: rows)
  have "length (concat rs) = n * length rs" if "\<forall>r \<in> set rs. length r = n" for rs :: "bytes list"
    using that by (induction rs) auto
  from this [OF len] show "length (sorted_rows m) = n * length m"
    unfolding eq by (simp add: gkeys_def)
qed

lemma sorted_table_sorted_rows:
  assumes m: "keyed n key ok m" and n: "0 < n"
  shows "sorted_table n key ok (sorted_rows m)"
  unfolding sorted_table_def
proof (intro conjI)
  note rows = sorted_rows_keyed [OF m n]
  show "length (sorted_rows m) mod n = 0" by (simp add: rows(3))
  show "list_all ok (chunks n (sorted_rows m))"
    using m by (auto simp: rows(1) list_all_iff dest!: keyed_lookup(2))
  show "sorted_wrt (<) (map key (chunks n (sorted_rows m)))"
    using m by (simp add: rows(2) strict_sorted_iff keyed_def)
qed

lemma table_map_sorted_rows:
  assumes m: "keyed n key ok m" and n: "0 < n"
  shows "table_map n key (sorted_rows m) = map_of m"
proof -
  note rows = sorted_rows_keyed [OF m n]
  have "map (\<lambda>r. (key r, r)) (chunks n (sorted_rows m)) = map (\<lambda>k. (k, the (map_of m k))) (sort (gkeys m))"
    unfolding rows(1) map_map by (rule map_cong) (use m in \<open>auto dest!: keyed_lookup(3)\<close>)
  moreover have "map_of (map (\<lambda>k. (k, the (map_of m k))) ks) = map_of m |` set ks"
    if "set ks \<subseteq> dom (map_of m)" for ks
    using that by (induction ks) (auto simp: restrict_map_def fun_eq_iff)
  moreover have "map_of m |` dom (map_of m) = map_of m"
    by (rule ext) (simp add: restrict_map_def domIff)
  ultimately show ?thesis by (simp add: table_map_def)
qed

text \<open>Two keyed maps with the same bindings are written out the same way.\<close>

lemma sorted_rows_cong:
  assumes "gm_wf a" "gm_wf b" "map_of a = map_of b"
  shows "sorted_rows a = sorted_rows b"
proof -
  have "sort (gkeys a) = sort (gkeys b)"
    using assms by (intro sorted_distinct_set_unique) simp_all
  with assms(3) show ?thesis by (simp add: sorted_rows_def)
qed

section \<open>The contract of a row policy\<close>

primrec edits :: "(bytes \<Rightarrow> 'm \<Rightarrow> 'm option) \<Rightarrow> bytes list \<Rightarrow> 'm \<Rightarrow> 'm option" where
  "edits spec [] m = Some m"
| "edits spec (r # rs) m = (case spec r m of None \<Rightarrow> None | Some m' \<Rightarrow> edits spec rs m')"

locale row_policy =
  fixes n :: nat
    and key :: "bytes \<Rightarrow> 'k::linorder"
    and ok :: "bytes \<Rightarrow> bool"
    and load :: "bytes \<Rightarrow> ('k, bytes) gomap \<Rightarrow> (go_error, ('k, bytes) gomap) outcome"
    and update :: "bytes \<Rightarrow> ('k, bytes) gomap \<Rightarrow> (go_error, ('k, bytes) gomap) outcome"
    and spec :: "bytes \<Rightarrow> ('k \<Rightarrow> bytes option) \<Rightarrow> ('k \<Rightarrow> bytes option) option"
  assumes size: "0 < n"
    and load_row: "length r = n \<Longrightarrow> ok r \<Longrightarrow> load r m = Ok (AList.update (key r) r m)"
    and update_row: "length r = n \<Longrightarrow> keyed n key ok m \<Longrightarrow>
      (case update r m of
         Ok m' \<Rightarrow> keyed n key ok m' \<and> spec r (map_of m) = Some (map_of m')
       | Err _ \<Rightarrow> spec r (map_of m) = None
       | Panic \<Rightarrow> False)"
begin

definition edit :: "bytes \<Rightarrow> bytes \<Rightarrow> (go_error, ('k, bytes) gomap) outcome" where
  "edit existing updates = bindR (foldRows n load existing []) (foldRows n update updates)"

lemma load_rows:
  assumes "list_all ok rs" "\<forall>r \<in> set rs. length r = n" "distinct (map fst m @ map key rs)"
  shows "foldR load rs m = Ok (m @ map (\<lambda>r. (key r, r)) rs)"
  using assms
proof (induction rs arbitrary: m)
  case (Cons r rs)
  have "AList.update (key r) r m = m @ [(key r, r)]"
  proof -
    have "AList.update k v xs = xs @ [(k, v)]" if "k \<notin> fst ` set xs" for k and v :: bytes and xs
      using that by (induction xs) auto
    then show ?thesis using Cons.prems by auto
  qed
  with Cons show ?case by (simp add: load_row)
qed simp

lemma load_table:
  assumes "keyed_table n key ok table"
  shows "foldRows n load table [] = Ok (map (\<lambda>r. (key r, r)) (chunks n table))"
    and "keyed n key ok (map (\<lambda>r. (key r, r)) (chunks n table))"
proof -
  from assms have t: "length table mod n = 0" "list_all ok (chunks n table)"
      "distinct (map key (chunks n table))"
    by (auto simp: keyed_table_def)
  have len: "\<forall>r \<in> set (chunks n table). length r = n" using chunks_length [OF t(1)] by blast
  show "foldRows n load table [] = Ok (map (\<lambda>r. (key r, r)) (chunks n table))"
    using load_rows [OF t(2) len, of "[]"] t(3) by (simp add: foldRows_chunks size t(1))
  show "keyed n key ok (map (\<lambda>r. (key r, r)) (chunks n table))"
    using t len by (auto simp: keyed_def gm_wf_def comp_def list_all_iff)
qed

lemma update_rows:
  assumes "\<forall>r \<in> set rs. length r = n" "keyed n key ok m"
  shows "case foldR update rs m of
      Ok m' \<Rightarrow> keyed n key ok m' \<and> edits spec rs (map_of m) = Some (map_of m')
    | Err _ \<Rightarrow> edits spec rs (map_of m) = None
    | Panic \<Rightarrow> False"
  using assms
proof (induction rs arbitrary: m)
  case (Cons r rs)
  then have len: "length r = n" "\<forall>r \<in> set rs. length r = n" by simp_all
  note step = update_row [OF len(1) Cons.prems(2)]
  show ?case
  proof (cases "update r m")
    case (Ok m')
    with step have m': "keyed n key ok m'" "spec r (map_of m) = Some (map_of m')" by simp_all
    from Cons.IH [OF len(2) m'(1)] Ok m'(2) show ?thesis by (simp split: outcome.splits)
  qed (use step in simp_all)
qed simp

text \<open>The byte-level edit of a table is the edit of its finite map.\<close>

lemma edit_refines:
  assumes "keyed_table n key ok existing" "length updates mod n = 0"
  shows "case edit existing updates of
      Ok m \<Rightarrow> keyed n key ok m \<and> edits spec (chunks n updates) (table_map n key existing) = Some (map_of m)
    | Err _ \<Rightarrow> edits spec (chunks n updates) (table_map n key existing) = None
    | Panic \<Rightarrow> False"
proof -
  have "\<forall>r \<in> set (chunks n updates). length r = n" using chunks_length [OF assms(2)] by blast
  note rows = update_rows [OF this load_table(2) [OF assms(1)]]
  have "edit existing updates
      = foldR update (chunks n updates) (map (\<lambda>r. (key r, r)) (chunks n existing))"
    by (simp add: edit_def load_table(1) [OF assms(1)] foldRows_chunks size assms(2))
  with rows show ?thesis by (simp only: table_map_def)
qed

lemma edit_written:
  assumes "keyed_table n key ok existing" "length updates mod n = 0" "edit existing updates = Ok m"
  shows "sorted_table n key ok (sorted_rows m)"
    and "edits spec (chunks n updates) (table_map n key existing) = Some (table_map n key (sorted_rows m))"
    and "length (sorted_rows m) = n * length m"
proof -
  have m: "keyed n key ok m" and e: "edits spec (chunks n updates) (table_map n key existing) = Some (map_of m)"
    using edit_refines [OF assms(1,2)] assms(3) by auto
  show "sorted_table n key ok (sorted_rows m)" by (rule sorted_table_sorted_rows [OF m size])
  show "edits spec (chunks n updates) (table_map n key existing) = Some (table_map n key (sorted_rows m))"
    by (simp add: e table_map_sorted_rows [OF m size])
  show "length (sorted_rows m) = n * length m" by (rule sorted_rows_keyed(3) [OF m size])
qed

text \<open>A table that is loaded and written out again is unchanged.\<close>

lemma rewrite_table:
  assumes "sorted_table n key ok table"
  shows "\<exists>m. edit table [] = Ok m \<and> keyed n key ok m \<and> map_of m = table_map n key table \<and> sorted_rows m = table"
proof -
  let ?m = "map (\<lambda>r. (key r, r)) (chunks n table)"
  from load_table [OF sorted_table_keyed [OF assms]] have m: "edit table [] = Ok ?m" "keyed n key ok ?m"
    by (simp_all add: edit_def)
  have s: "sorted_wrt (<) (map key (chunks n table))" using assms by (simp add: sorted_table_def)
  then have keys: "sort (gkeys ?m) = map key (chunks n table)"
    by (simp add: gkeys_def comp_def strict_sorted_imp_sorted sort_key_id_if_sorted)
  have "map (\<lambda>r. the (map_of ?m (key r))) (chunks n table) = chunks n table"
  proof (rule map_idI)
    fix r assume "r \<in> set (chunks n table)"
    moreover have "distinct (map fst ?m)" using s by (simp add: strict_sorted_iff comp_def)
    ultimately have "map_of ?m (key r) = Some r" by (intro map_of_is_SomeI) auto
    then show "the (map_of ?m (key r)) = r" by simp
  qed
  then have "chunks n (sorted_rows ?m) = chunks n table"
    unfolding sorted_rows_keyed(1) [OF m(2) size] keys map_map comp_def by (simp only:)
  from arg_cong [OF this, of concat] have "sorted_rows ?m = table" by (simp add: concat_chunks size)
  with m show ?thesis by (auto simp: table_map_def)
qed

end

section \<open>Results\<close>

text \<open>
  What a policy owes its caller: the edited table, written in key order and accepted by the
  policy's requirement on the whole map and its number of rows, or the refusal of the edit.
\<close>

definition refines_edit :: "nat \<Rightarrow> (bytes \<Rightarrow> 'k::linorder) \<Rightarrow> (bytes \<Rightarrow> bool)
    \<Rightarrow> (bytes \<Rightarrow> ('k \<Rightarrow> bytes option) \<Rightarrow> ('k \<Rightarrow> bytes option) option) \<Rightarrow> (('k \<Rightarrow> bytes option) \<Rightarrow> nat \<Rightarrow> bool)
    \<Rightarrow> bytes \<Rightarrow> bytes \<Rightarrow> (go_error, table_rows) outcome \<Rightarrow> bool" where
  "refines_edit n key ok spec accept existing updates result =
     (case result of
        Ok t \<Rightarrow> sorted_table n key ok (Rows t) \<and> int (length (Rows t)) = int n * NumRows t
          \<and> edits spec (chunks n updates) (table_map n key existing) = Some (table_map n key (Rows t))
          \<and> accept (table_map n key (Rows t)) (length (Rows t) div n)
      | Err _ \<Rightarrow> (case edits spec (chunks n updates) (table_map n key existing) of
          None \<Rightarrow> True | Some m \<Rightarrow> \<not> accept m (card (dom m)))
      | Panic \<Rightarrow> False)"

lemma card_dom_keyed: "keyed n key ok m \<Longrightarrow> card (dom (map_of m)) = length m"
  using distinct_card [of "map fst m"] by (simp add: keyed_def gm_wf_def dom_map_of_conv_image_fst)

context row_policy
begin

lemma refines_edit_bind:
  assumes t: "keyed_table n key ok existing" "length updates mod n = 0"
    and final: "\<And>m. keyed n key ok m \<Longrightarrow> (case final m of
        Ok t \<Rightarrow> accept (map_of m) (length m) \<and> Rows t = sorted_rows m \<and> NumRows t = int (length m)
      | Err _ \<Rightarrow> \<not> accept (map_of m) (length m)
      | Panic \<Rightarrow> False)"
  shows "refines_edit n key ok spec accept existing updates (bindR (edit existing updates) final)"
proof (cases "edit existing updates")
  case (Ok m)
  with edit_refines [OF t] have m: "keyed n key ok m" by simp
  show ?thesis
  proof (cases "final m")
    case F: (Ok r)
    with final [OF m] have r: "accept (map_of m) (length m)" "Rows r = sorted_rows m" "NumRows r = int (length m)"
      by simp_all
    have "length (sorted_rows m) div n = length m" using edit_written(3) [OF t Ok] size by simp
    with r F Ok edit_written [OF t Ok] show ?thesis
      by (simp add: refines_edit_def table_map_sorted_rows [OF m size])
  next
    case F: (Err e)
    with final [OF m] Ok edit_refines [OF t] card_dom_keyed [OF m] show ?thesis
      by (simp add: refines_edit_def)
  qed (use final [OF m] in simp)
next
  case (Err e)
  with edit_refines [OF t] show ?thesis by (simp add: refines_edit_def)
qed (use edit_refines [OF t] in simp)

end

end
