(* ===== verification/MibTableProofs.thy ===== *)
theory MibTableProofs
  imports MibTable RowTable
begin

unbundle bit_operations_syntax

text \<open>
  The row policies of \<open>MibTable\<close> keep the contract of \<open>RowTable\<close>: one interpretation of
  \<open>row_policy\<close> per table, and the properties of the tables, which rest on the interpretations.
\<close>

section \<open>Tables whose rows replace each other by their leading bytes\<close>

definition keyedOk :: "(bytes \<Rightarrow> bool) \<Rightarrow> (bytes \<Rightarrow> unit \<Rightarrow> (go_error, unit) outcome) \<Rightarrow> bytes \<Rightarrow> bool" where
  "keyedOk deleted check row = (\<not> deleted row \<and> check row () = Ok ())"

definition keyedLoad :: "nat \<Rightarrow> bytes \<Rightarrow> (bytes, bytes) gomap \<Rightarrow> (go_error, (bytes, bytes) gomap) outcome" where
  "keyedLoad k row rows = Ok (AList.update (take k row) row rows)"

definition keyedUpdate :: "nat \<Rightarrow> (bytes \<Rightarrow> bool) \<Rightarrow> (bytes \<Rightarrow> unit \<Rightarrow> (go_error, unit) outcome)
    \<Rightarrow> bytes \<Rightarrow> (bytes, bytes) gomap \<Rightarrow> (go_error, (bytes, bytes) gomap) outcome" where
  "keyedUpdate k deleted check row rows = bindR (check row ()) (\<lambda>_.
     if deleted row then Ok (AList.delete (take k row) rows) else Ok (AList.update (take k row) row rows))"

definition keyedSpec :: "nat \<Rightarrow> (bytes \<Rightarrow> bool) \<Rightarrow> (bytes \<Rightarrow> unit \<Rightarrow> (go_error, unit) outcome)
    \<Rightarrow> bytes \<Rightarrow> (bytes \<Rightarrow> bytes option) \<Rightarrow> (bytes \<Rightarrow> bytes option) option" where
  "keyedSpec k deleted check row m =
     (if deleted row then Some (m(take k row := None))
      else if keyedOk deleted check row then Some (m(take k row \<mapsto> row)) else None)"

lemma keyed_policy:
  assumes "0 < n" and "\<And>r. deleted r \<Longrightarrow> check r () = Ok ()" and "\<And>r. length r = n \<Longrightarrow> check r () \<noteq> Panic"
  shows "row_policy n (take k) (keyedOk deleted check) (keyedLoad k) (keyedUpdate k deleted check)
    (keyedSpec k deleted check)"
proof unfold_locales
  fix r :: bytes and m :: "(bytes, bytes) gomap"
  assume r: "length r = n" and m: "keyed n (take k) (keyedOk deleted check) m"
  show "case keyedUpdate k deleted check r m of
      Ok m' \<Rightarrow> keyed n (take k) (keyedOk deleted check) m' \<and> keyedSpec k deleted check r (map_of m) = Some (map_of m')
    | Err _ \<Rightarrow> keyedSpec k deleted check r (map_of m) = None | Panic \<Rightarrow> False"
    using r m assms(2) [of r] assms(3) [of r]
    by (cases "check r ()")
       (auto simp: keyedUpdate_def keyedSpec_def keyedOk_def update_conv' delete_conv' intro!: keyed_update keyed_delete)
qed (use assms in \<open>simp_all add: keyedLoad_def\<close>)

text \<open>Checking every row first and then editing is the same as doing both row by row.\<close>


lemma checked_rows:
  assumes "\<And>r m. \<exists>m'. step r m = Ok m'"
  shows "bindR (foldR check rs ()) (\<lambda>_. bindR (foldR step rs m) k)
    = bindR (foldR (\<lambda>r m. bindR (check r ()) (\<lambda>_. step r m)) rs m) k"
proof (induction rs arbitrary: m)
  case (Cons r rs)
  obtain m' where m': "step r m = Ok m'" using assms by blast
  show ?case
  proof (cases "check r ()")
    case (Ok u)
    then show ?thesis using Cons.IH [of m'] m' by (cases u) simp
  qed simp_all
qed simp

lemma applyKeyedRows_edit:
  assumes "0 < n" "length existing mod n = 0" "length updates mod n = 0"
  shows "bindR (foldRows n check updates ()) (\<lambda>_. bindR (applyKeyedRows existing updates n k deleted) f)
    = bindR (bindR (foldRows n (keyedLoad k) existing []) (foldRows n (keyedUpdate k deleted check) updates))
        (\<lambda>m. f (sorted_rows m))"
proof -
  let ?step = "\<lambda>row rows. if deleted row then Ok (AList.delete (take k row) rows)
      else Ok (AList.update (take k row) row rows)"
  have load: "foldRows n (keyedLoad k) existing [] = foldR (keyedLoad k) (chunks n existing) []"
    by (rule foldRows_chunks [OF assms(1,2)])
  obtain m where m: "foldR (keyedLoad k) (chunks n existing) [] = Ok m"
  proof -
    have "\<exists>m'. foldR (keyedLoad k) rs m = Ok m'" for rs m
      by (induction rs arbitrary: m) (auto simp: keyedLoad_def)
    then show ?thesis using that by blast
  qed
  have upd: "keyedUpdate k deleted check = (\<lambda>r m. bindR (check r ()) (\<lambda>_. ?step r m))"
    by (simp add: keyedUpdate_def fun_eq_iff)
  have "bindR (foldR check (chunks n updates) ()) (\<lambda>_. bindR (foldR ?step (chunks n updates) m) (\<lambda>m. f (sorted_rows m)))
      = bindR (foldR (keyedUpdate k deleted check) (chunks n updates) m) (\<lambda>m. f (sorted_rows m))"
    unfolding upd by (rule checked_rows) auto
  moreover have "bindR (applyKeyedRows existing updates n k deleted) f
      = bindR (foldR ?step (chunks n updates) m) (\<lambda>m. f (sorted_rows m))"
  proof -
    have "applyKeyedRows existing updates n k deleted
        = bindR (foldR ?step (chunks n updates) m) (\<lambda>m. Ok (sorted_rows m))"
      using m load by (simp add: applyKeyedRows_def keyedLoad_def [abs_def] foldRows_chunks assms Let_def)
    then show ?thesis by (simp add: bindR_assoc)
  qed
  ultimately show ?thesis
    using m by (simp add: load foldRows_chunks assms)
qed

subsection \<open>Classic VLAN rows\<close>

definition classicDeleted :: "bytes \<Rightarrow> bool" where
  "classicDeleted row = allBytes (drop 8 row) 0xff"

abbreviation "classicOk \<equiv> keyedOk classicDeleted checkClassicRow"
abbreviation "classicSpec \<equiv> keyedSpec 8 classicDeleted checkClassicRow"

lemma checkClassicRow_no_panic: "checkClassicRow row u \<noteq> Panic"
  by (simp add: checkClassicRow_def bindR_eq_Panic ParseRow_no_panic)

interpretation classic: row_policy extendedVLANRowSize "take 8" classicOk "keyedLoad 8"
    "keyedUpdate 8 classicDeleted checkClassicRow" classicSpec
  by (rule keyed_policy)
     (simp_all add: row_sizes checkClassicRow_no_panic, simp add: classicDeleted_def checkClassicRow_def)

lemma classicOk_iff:
  "classicOk row \<longleftrightarrow> \<not> classicDeleted row \<and> (\<exists>rule. ParseRow row False = Ok rule)"
  by (auto simp: keyedOk_def checkClassicRow_def classicDeleted_def bindR_eq_Ok split: if_splits)

subsection \<open>Multicast address rows\<close>

definition addressDeleted :: "bytes \<Rightarrow> bool" where
  "addressDeleted row = allBytes (drop 4 row) 0"

lemma checkAddressRow_no_panic: "checkAddressRow n row u \<noteq> Panic"
  by (simp add: checkAddressRow_def Let_def)

lemma address_policy:
  "0 < n \<Longrightarrow> row_policy n (take 4) (keyedOk addressDeleted (checkAddressRow n)) (keyedLoad 4)
    (keyedUpdate 4 addressDeleted (checkAddressRow n)) (keyedSpec 4 addressDeleted (checkAddressRow n))"
  by (rule keyed_policy)
     (simp_all add: checkAddressRow_no_panic, simp add: addressDeleted_def checkAddressRow_def)

interpretation ipv4: row_policy multicastIPv4RowSize "take 4" "keyedOk addressDeleted (checkAddressRow multicastIPv4RowSize)"
    "keyedLoad 4" "keyedUpdate 4 addressDeleted (checkAddressRow multicastIPv4RowSize)"
    "keyedSpec 4 addressDeleted (checkAddressRow multicastIPv4RowSize)"
  by (rule address_policy) (simp add: row_sizes)

interpretation ipv6: row_policy multicastIPv6RowSize "take 4" "keyedOk addressDeleted (checkAddressRow multicastIPv6RowSize)"
    "keyedLoad 4" "keyedUpdate 4 addressDeleted (checkAddressRow multicastIPv6RowSize)"
    "keyedSpec 4 addressDeleted (checkAddressRow multicastIPv6RowSize)"
  by (rule address_policy) (simp add: row_sizes)

section \<open>Enhanced VLAN rows\<close>

definition enhancedKey :: "bytes \<Rightarrow> u16" where "enhancedKey row = be16 row 2"

definition enhancedOk :: "bytes \<Rightarrow> bool" where
  "enhancedOk row = (case ParseRow row True of Ok _ \<Rightarrow> True | _ \<Rightarrow> False)"

text \<open>
  The two top bits of an update row are its set control: 1 writes the row under its key, 2 deletes
  the key, 3 empties the table.
\<close>

definition enhancedSpec :: "bytes \<Rightarrow> (u16 \<Rightarrow> bytes option) \<Rightarrow> (u16 \<Rightarrow> bytes option) option" where
  "enhancedSpec row m =
     (let control = drop_bit 6 (row ! 0); stored = row[0 := row ! 0 AND 0x3f] in
      if control = 1 \<and> enhancedOk stored then Some (m(enhancedKey row \<mapsto> stored))
      else if control = 2 then Some (m(enhancedKey row := None))
      else if control = 3 then Some Map.empty
      else None)"

lemma put32_head: "put32 w = ucast (drop_bit 24 w) # [ucast (drop_bit 16 w), ucast (drop_bit 8 w), ucast w]"
  by (simp add: put32_def)

lemma enhanced_first_byte:
  assumes "ParseRow row True = Ok rule"
  shows "row ! 0 AND 0x3f = row ! 0" and "drop_bit 4 (row ! 0) AND 0x03 \<noteq> 3"
proof -
  from assms have "row = encodeRow True rule" and d: "Direction rule < 3"
    by (auto simp: ParseRow_iff validRule_def)
  then have "row ! 0 = ucast (drop_bit 24 (headerWord (Direction rule) (Vlan.RowKey rule)))"
    by (simp add: encodeRow_def put32_head)
  also have "\<dots> = push_bit 4 (Direction rule)"
  proof (rule bit_word_eqI)
    fix n :: nat assume "n < LENGTH(8)"
    then show "bit (ucast (drop_bit 24 (headerWord (Direction rule) (Vlan.RowKey rule))) :: u8) n
        \<longleftrightarrow> bit (push_bit 4 (Direction rule)) n"
      by (auto simp: headerWord_def bit_simps dest: bit_imp_le_length)
  qed
  finally have r: "row ! 0 = push_bit 4 (Direction rule)" .
  have "Direction rule = 0 \<or> Direction rule = 1 \<or> Direction rule = 2"
    using d by unat_arith
  then show "row ! 0 AND 0x3f = row ! 0" "drop_bit 4 (row ! 0) AND 0x03 \<noteq> 3"
    by (auto simp: r)
qed

lemma enhancedOk_iff: "enhancedOk row \<longleftrightarrow> (\<exists>rule. ParseRow row True = Ok rule)"
  by (auto simp: enhancedOk_def split: outcome.splits)

lemma enhancedKey_stored [simp]: "enhancedKey (row[0 := b]) = enhancedKey row"
  by (simp add: enhancedKey_def be16_def)

lemma loadEnhancedRow_ok:
  "enhancedOk row \<Longrightarrow> loadEnhancedRow row rows = Ok (AList.update (enhancedKey row) row rows)"
  by (auto simp: enhancedOk_iff loadEnhancedRow_def enhancedKey_def enhanced_first_byte(1))

lemma low_direction: "drop_bit 4 (b :: u8) AND 0x03 = drop_bit 4 (b AND 0x3f) AND 0x03"
proof -
  have "(0x3f :: u8) = mask 6" "(0x03 :: u8) = mask 2" by (simp_all add: mask_eq_decr_exp)
  then show ?thesis by (simp only:) (rule bit_word_eqI, auto simp: bit_simps)
qed

lemma updateEnhancedRow_spec:
  assumes "length row = enhancedExtendedVLANRowSize" "keyed enhancedExtendedVLANRowSize enhancedKey enhancedOk rows"
  shows "case updateEnhancedRow row rows of
      Ok rows' \<Rightarrow> keyed enhancedExtendedVLANRowSize enhancedKey enhancedOk rows'
        \<and> enhancedSpec row (map_of rows) = Some (map_of rows')
    | Err _ \<Rightarrow> enhancedSpec row (map_of rows) = None
    | Panic \<Rightarrow> False"
proof -
  let ?stored = "row[0 := row ! 0 AND 0x3f]"
  have dir: "drop_bit 4 (row ! 0) AND 0x03 \<noteq> 3" if "enhancedOk ?stored"
  proof -
    from that obtain rule where "ParseRow ?stored True = Ok rule" by (auto simp: enhancedOk_iff)
    from enhanced_first_byte(2) [OF this] assms(1) show ?thesis
      by (subst low_direction) (simp add: row_sizes)
  qed
  have key: "enhancedKey row = be16 row 2" by (simp add: enhancedKey_def)
  consider "drop_bit 6 (row ! 0) = 1" | "drop_bit 6 (row ! 0) = 2" | "drop_bit 6 (row ! 0) = 3"
    | "drop_bit 6 (row ! 0) \<notin> {1, 2, 3}" by blast
  then show ?thesis
  proof cases
    case 1
    show ?thesis
    proof (cases "ParseRow ?stored True")
      case (Ok rule)
      then have "enhancedOk ?stored" by (simp add: enhancedOk_def)
      with 1 Ok dir assms show ?thesis
        by (simp add: updateEnhancedRow_def enhancedSpec_def key update_conv' keyed_update)
    next
      case (Err e)
      then have "\<not> enhancedOk ?stored" by (simp add: enhancedOk_def)
      with 1 Err show ?thesis by (simp add: updateEnhancedRow_def enhancedSpec_def Let_def)
    qed (simp add: ParseRow_no_panic)
  qed (use assms in \<open>simp_all add: updateEnhancedRow_def enhancedSpec_def key delete_conv' keyed_delete\<close>)
qed

interpretation enhanced: row_policy enhancedExtendedVLANRowSize enhancedKey enhancedOk loadEnhancedRow
    updateEnhancedRow enhancedSpec
proof unfold_locales
  show "0 < enhancedExtendedVLANRowSize" by (simp add: row_sizes)
qed (simp add: loadEnhancedRow_ok, rule updateEnhancedRow_spec)

lemma applyEnhancedVLANRows_edit:
  "applyEnhancedVLANRows existing updates = bindR (enhanced.edit existing updates) (\<lambda>m. Ok (sorted_rows m))"
  by (simp add: applyEnhancedVLANRows_def enhanced.edit_def bindR_assoc)

section \<open>Stored control words\<close>

lemma table_masks:
  "(0xc000 :: u16) = push_bit 14 (mask 2)" "(0x3800 :: u16) = push_bit 11 (mask 3)"
  "(0x0400 :: u16) = 2 ^ 10" "(0x03ff :: u16) = mask 10" "(0x3c00 :: u16) = push_bit 10 (mask 4)"
  by (simp_all add: mask_eq_decr_exp)

lemma bit_row_masks [bit_simps]:
  "bit tableSetControlMask n \<longleftrightarrow> n = 14 \<or> n = 15"
  "bit tableRowPartMask n \<longleftrightarrow> 11 \<le> n \<and> n < 14"
  "bit tableTestMask n \<longleftrightarrow> n = 10"
  "bit tableRowKeyMask n \<longleftrightarrow> n < 10"
proof -
  show "bit tableTestMask n \<longleftrightarrow> n = 10"
    using bit_exp_iff [where 'a = "16 word", of 10 n] by (auto simp: tableTestMask_def)
qed (unfold row_masks table_masks, auto simp: bit_push_bit_iff bit_mask_iff)

definition storedControl :: "u16 \<Rightarrow> u16" where
  "storedControl control = push_bit 11 (ucast (rowPartOf control)) OR rowKeyOf control"

lemma bit_storedControl:
  "bit (storedControl control) n \<longleftrightarrow> bit control n \<and> (n < 10 \<or> 11 \<le> n \<and> n < 14)"
  by (cases "n < LENGTH(16)")
     (auto simp: storedControl_def rowPartOf_def rowKeyOf_def bit_simps dest: bit_imp_le_length)

lemma storedControl_fields [simp]:
  "rowKeyOf (storedControl c) = rowKeyOf c" "rowPartOf (storedControl c) = rowPartOf c"
  "storedControl c AND (tableSetControlMask OR tableTestMask) = 0"
  by (rule bit_word_eqI; auto simp: rowKeyOf_def rowPartOf_def bit_storedControl bit_simps)+

lemma rowKeyOf_fields [simp]:
  "rowKeyOf (rowKeyOf c) = rowKeyOf c" "rowKeyOf c AND NOT tableRowKeyMask = 0"
  by (rule bit_word_eqI; auto simp: rowKeyOf_def bit_simps)+

lemma length_put16_at [simp]: "o' + 2 \<le> length row \<Longrightarrow> length (put16_at o' v row) = length row"
  by (simp add: put16_at_def)

lemma put16_at_0: "2 \<le> length row \<Longrightarrow> put16_at 0 v row = put16 v @ drop 2 row"
  by (simp add: put16_at_def overwrite_def numeral_2_eq_2)

lemma drop_put16_at:
  assumes "o' + 2 \<le> length row" "o' + 2 \<le> i"
  shows "drop i (put16_at o' v row) = drop i row"
proof -
  from assms(2) obtain j where "i = o' + 2 + j" using le_Suc_ex by blast
  with assms(1) show ?thesis by (simp add: put16_at_def overwrite_def add.commute)
qed

lemma be16_put16_at:
  assumes "o' + 2 \<le> length row"
  shows "be16 (put16_at o' v row) o' = v"
    and "i + 2 \<le> o' \<Longrightarrow> be16 (put16_at o' v row) i = be16 row i"
    and "o' + 2 \<le> i \<Longrightarrow> i + 2 \<le> length row \<Longrightarrow> be16 (put16_at o' v row) i = be16 row i"
proof -
  show "be16 (put16_at o' v row) o' = v"
    using assms by (simp add: put16_at_def overwrite_def be16_append2 be16_put16_append)
  show "be16 (put16_at o' v row) i = be16 row i" if "i + 2 \<le> o'"
    using assms that by (simp add: put16_at_def overwrite_def be16_append1) (simp add: be16_def)
  show "be16 (put16_at o' v row) i = be16 row i" if "o' + 2 \<le> i" "i + 2 \<le> length row"
    using be16_drop [of i "put16_at o' v row" 0] be16_drop [of i row 0] drop_put16_at [of o' row i v] assms that
    by simp
qed

lemma take_put16_at:
  "o' + 2 \<le> length row \<Longrightarrow> i \<le> o' \<Longrightarrow> take i (put16_at o' v row) = take i row"
  by (simp add: put16_at_def overwrite_def)

lemma slice_put16_at:
  assumes "o' + 2 \<le> length row" "b + a \<le> o'"
  shows "take a (drop b (put16_at o' v row)) = take a (drop b row)"
  using take_put16_at [of o' row "a + b" v] assms by (simp add: take_drop)

lemma rowControl_put [simp]:
  "2 \<le> length row \<Longrightarrow> rowControl (put16_at 0 v row) = v"
  "22 \<le> length row \<Longrightarrow> rowControl (put16_at 20 v row) = rowControl row"
  by (simp_all add: rowControl_def be16_put16_at)

section \<open>Service packages\<close>

definition serviceKey :: "bytes \<Rightarrow> u16" where "serviceKey row = rowKeyOf (rowControl row)"

definition serviceOk :: "bytes \<Rightarrow> bool" where
  "serviceOk row = (rowControl row AND NOT tableRowKeyMask = 0
     \<and> validateMulticastServiceRow (serviceKey row) row = None)"

definition serviceSpec :: "bytes \<Rightarrow> (u16 \<Rightarrow> bytes option) \<Rightarrow> (u16 \<Rightarrow> bytes option) option" where
  "serviceSpec row m =
     (let control = rowControl row; key = rowKeyOf control; stored = put16_at 0 key row in
      if setControlOf control = 1 \<and> control AND 0x3c00 = 0 \<and> serviceOk stored then Some (m(key \<mapsto> stored))
      else if setControlOf control = 2 then Some (m(key := None))
      else if setControlOf control = 3 then Some Map.empty
      else None)"

lemma updateServiceRow_spec:
  assumes "length row = multicastServiceRowSize" "keyed multicastServiceRowSize serviceKey serviceOk rows"
  shows "case updateServiceRow row rows of
      Ok rows' \<Rightarrow> keyed multicastServiceRowSize serviceKey serviceOk rows'
        \<and> serviceSpec row (map_of rows) = Some (map_of rows')
    | Err _ \<Rightarrow> serviceSpec row (map_of rows) = None
    | Panic \<Rightarrow> False"
proof -
  let ?key = "rowKeyOf (rowControl row)"
  let ?stored = "put16_at 0 ?key row"
  have key: "serviceKey ?stored = ?key" "length ?stored = multicastServiceRowSize"
    using assms(1) by (simp_all add: serviceKey_def row_sizes)
  have ok: "serviceOk ?stored \<longleftrightarrow> validateMulticastServiceRow ?key ?stored = None"
    using assms(1) key(1) by (simp add: serviceOk_def row_sizes)
  show ?thesis
    using assms key ok
    by (cases "validateMulticastServiceRow ?key ?stored")
       (auto simp: updateServiceRow_def serviceSpec_def Let_def update_conv' delete_conv'
         intro!: keyed_update keyed_delete)
qed

interpretation service: row_policy multicastServiceRowSize serviceKey serviceOk loadServiceRow
    updateServiceRow serviceSpec
proof unfold_locales
  show "0 < multicastServiceRowSize" by (simp add: row_sizes)
qed (simp add: loadServiceRow_def serviceOk_def serviceKey_def, rule updateServiceRow_spec)

lemma applyMulticastServiceRows_edit:
  "applyMulticastServiceRows existing updates = bindR (service.edit existing updates)
     (\<lambda>m. Ok \<lparr> NumRows = int (length m), Rows = sorted_rows m \<rparr>)"
  by (simp add: applyMulticastServiceRows_def service.edit_def bindR_assoc)

section \<open>Access control lists\<close>

definition aclKey :: "bytes \<Rightarrow> multicastACLRowKey" where
  "aclKey row = (rowKeyOf (rowControl row), rowPartOf (rowControl row))"

definition aclOk :: "bool \<Rightarrow> bytes \<Rightarrow> bool" where
  "aclOk isStatic row = (rowControl row AND (tableSetControlMask OR tableTestMask) = 0
     \<and> snd (aclKey row) \<le> 2
     \<and> validateMulticastACLPart (fst (aclKey row)) (snd (aclKey row)) row isStatic = None)"

text \<open>
  Set control 1 stores the row part under its row key with the control bits and the test bit
  cleared; in a dynamic list a preview reset time of 255 keeps the stored one (0 when there is
  none). Set control 2 deletes all parts of the row key, 3 empties the list.
\<close>

definition aclStored :: "bool \<Rightarrow> bytes \<Rightarrow> bytes option \<Rightarrow> bytes" where
  "aclStored isStatic row previous =
     (let stored = put16_at 0 (storedControl (rowControl row)) row in
      if \<not> isStatic \<and> snd (aclKey row) = 1 \<and> be16 stored 20 = 255
      then put16_at 20 (case previous of Some p \<Rightarrow> be16 p 20 | None \<Rightarrow> 0) stored else stored)"

definition aclSpec :: "bool \<Rightarrow> bytes \<Rightarrow> (multicastACLRowKey \<Rightarrow> bytes option)
    \<Rightarrow> (multicastACLRowKey \<Rightarrow> bytes option) option" where
  "aclSpec isStatic row m =
     (let setControl = setControlOf (rowControl row) in
      if setControl = 1 \<and> aclOk isStatic (put16_at 0 (storedControl (rowControl row)) row)
      then Some (m(aclKey row \<mapsto> aclStored isStatic row (m (aclKey row))))
      else if setControl = 2 then Some (m |` {k. fst k \<noteq> fst (aclKey row)})
      else if setControl = 3 then Some Map.empty
      else None)"

lemma aclKey_put [simp]:
  "2 \<le> length row \<Longrightarrow> aclKey (put16_at 0 (storedControl (rowControl row)) row) = aclKey row"
  "22 \<le> length row \<Longrightarrow> aclKey (put16_at 20 v row) = aclKey row"
  by (simp_all add: aclKey_def)

lemma aclOk_reset:
  assumes "aclOk isStatic row" "length row = 24" "snd (aclKey row) = 1"
    and "isStatic \<or> \<not> (24 < v \<and> v < 241)"
  shows "aclOk isStatic (put16_at 20 v row)"
  using assms
  by (auto simp: aclOk_def validateMulticastACLPart_def be16_put16_at drop_put16_at Let_def split: if_splits)

lemma aclOk_previous:
  "aclOk False row \<Longrightarrow> snd (aclKey row) = 1 \<Longrightarrow> \<not> (24 < be16 row 20 \<and> be16 row 20 < 241)"
  by (auto simp: aclOk_def validateMulticastACLPart_def Let_def split: if_splits)

lemma aclStored_ok:
  assumes "length row = 24" "aclOk isStatic (put16_at 0 (storedControl (rowControl row)) row)"
    and "keyed 24 aclKey (aclOk isStatic) rows"
  shows "length (aclStored isStatic row (map_of rows (aclKey row))) = 24"
    and "aclOk isStatic (aclStored isStatic row (map_of rows (aclKey row)))"
    and "aclKey (aclStored isStatic row (map_of rows (aclKey row))) = aclKey row"
proof -
  show "length (aclStored isStatic row (map_of rows (aclKey row))) = 24"
    and "aclKey (aclStored isStatic row (map_of rows (aclKey row))) = aclKey row"
    using assms(1) by (simp_all add: aclStored_def Let_def)
  have "\<not> (24 < v \<and> v < 241)"
    if "\<not> isStatic" "snd (aclKey row) = 1"
      "v = (case map_of rows (aclKey row) of Some p \<Rightarrow> be16 p 20 | None \<Rightarrow> 0)" for v
  proof (cases "map_of rows (aclKey row)")
    case (Some p)
    with keyed_lookup [OF assms(3) Some] that show ?thesis
      using aclOk_previous [of p] by simp
  qed (use that in simp)
  then show "aclOk isStatic (aclStored isStatic row (map_of rows (aclKey row)))"
    using assms(1,2) by (auto simp: aclStored_def Let_def intro!: aclOk_reset)
qed

lemma updateACLRow_spec:
  assumes "length row = multicastACLRowSize" "keyed multicastACLRowSize aclKey (aclOk isStatic) rows"
  shows "case updateACLRow isStatic row rows of
      Ok rows' \<Rightarrow> keyed multicastACLRowSize aclKey (aclOk isStatic) rows'
        \<and> aclSpec isStatic row (map_of rows) = Some (map_of rows')
    | Err _ \<Rightarrow> aclSpec isStatic row (map_of rows) = None
    | Panic \<Rightarrow> False"
proof -
  let ?c = "rowControl row"
  let ?stored = "put16_at 0 (storedControl ?c) row"
  have len: "length row = 24" and m: "keyed 24 aclKey (aclOk isStatic) rows"
    using assms by (simp_all add: row_sizes)
  have key: "aclKey row = (rowKeyOf ?c, rowPartOf ?c)" by (simp add: aclKey_def)
  have ok: "aclOk isStatic ?stored \<longleftrightarrow> rowPartOf ?c \<le> 2
      \<and> validateMulticastACLPart (rowKeyOf ?c) (rowPartOf ?c) ?stored isStatic = None"
    using len by (simp add: aclOk_def aclKey_def)
  consider "setControlOf ?c = 1" | "setControlOf ?c = 2" | "setControlOf ?c = 3"
    | "setControlOf ?c \<notin> {1, 2, 3}" by blast
  then show ?thesis
  proof cases
    case 1
    show ?thesis
    proof (cases "aclOk isStatic ?stored")
      case True
      have "updateACLRow isStatic row rows
          = Ok (AList.update (aclKey row) (aclStored isStatic row (map_of rows (aclKey row))) rows)"
        using 1 True ok
        by (simp add: updateACLRow_def aclStored_def Let_def key storedControl_def [symmetric] not_less [symmetric])
      with 1 True aclStored_ok [OF len True m] m show ?thesis
        by (simp add: aclSpec_def update_conv' keyed_update row_sizes)
    next
      case False
      with 1 ok show ?thesis
        by (auto simp: updateACLRow_def aclSpec_def Let_def storedControl_def [symmetric] failIf_def
            split: option.splits)
    qed
  qed (use m in \<open>simp_all add: updateACLRow_def aclSpec_def Let_def key row_sizes keyed_filter
      map_of_filter_keys [of "\<lambda>k. fst k \<noteq> rowKeyOf ?c"]\<close>)
qed

interpretation acl: row_policy multicastACLRowSize aclKey "aclOk isStatic" "loadACLRow isStatic"
    "updateACLRow isStatic" "aclSpec isStatic" for isStatic
proof unfold_locales
  show "0 < multicastACLRowSize" by (simp add: row_sizes)
next
  fix r :: bytes and m
  assume "length r = multicastACLRowSize" "aclOk isStatic r"
  then show "loadACLRow isStatic r m = Ok (AList.update (aclKey r) r m)"
    by (auto simp: loadACLRow_def aclOk_def aclKey_def Let_def not_less [symmetric])
qed (rule updateACLRow_spec)

lemma applyMulticastACLRows_edit:
  assumes "name = (if isStatic then ''StaticAccessControlListTable'' else ''DynamicAccessControlListTable'')"
  shows "applyMulticastACLRows name existing updates =
    bindR (acl.edit isStatic (Rows existing) (Rows updates)) (\<lambda>m.
    bindR (validateMulticastACLRows m) (\<lambda>_. Ok \<lparr> NumRows = int (length m), Rows = sorted_rows m \<rparr>))"
  using assms by (simp add: applyMulticastACLRows_def acl.edit_def bindR_assoc Let_def)

subsection \<open>Destination ranges\<close>

text \<open>The destination range of a row key, and the requirement on the whole list.\<close>

definition aclRange :: "(multicastACLRowKey \<Rightarrow> bytes option) \<Rightarrow> u16 \<Rightarrow> multicastACLRange option" where
  "aclRange m k = (case m (k, 0) of None \<Rightarrow> None
     | Some part0 \<Rightarrow> (case multicastACLAddressRange k part0 (m (k, 2)) of Ok r \<Rightarrow> Some r | _ \<Rightarrow> None))"

definition ranges_disjoint :: "(multicastACLRowKey \<Rightarrow> bytes option) \<Rightarrow> bool" where
  "ranges_disjoint m = ((\<forall>k. m (k, 0) \<noteq> None \<longrightarrow> aclRange m k \<noteq> None)
     \<and> (\<forall>k k' r r'. k \<noteq> k' \<longrightarrow> aclRange m k = Some r \<longrightarrow> aclRange m k' = Some r' \<longrightarrow> \<not> rangesMeet r r'))"

lemma rangesMeet_sym: "rangesMeet a b = rangesMeet b a"
  by (auto simp: rangesMeet_def)

lemma multicastACLAddressRange_no_panic [simp]: "multicastACLAddressRange k p0 p2 \<noteq> Panic"
  by (simp add: multicastACLAddressRange_def ipv4Range_def Let_def split: option.split)

text \<open>The loop keeps the ranges seen so far and refuses the first one that meets one of them.\<close>

lemma pairwise_loop:
  "(\<exists>R. foldR (\<lambda>x acc. if skip x then Ok acc
      else bindR (g x) (\<lambda>v. case find (\<lambda>p. meet p v) acc of
        Some p \<Rightarrow> Err (e x p) | None \<Rightarrow> Ok (acc @ [v]))) xs acc = Ok R)
    \<longleftrightarrow> (\<forall>x \<in> set (filter (Not \<circ> skip) xs). \<exists>v. g x = Ok v \<and> (\<forall>a \<in> set acc. \<not> meet a v))
      \<and> sorted_wrt (\<lambda>x y. \<forall>v w. g x = Ok v \<longrightarrow> g y = Ok w \<longrightarrow> \<not> meet v w) (filter (Not \<circ> skip) xs)"
proof (induction xs arbitrary: acc)
  case (Cons x xs)
  show ?case
  proof (cases "skip x")
    case False
    show ?thesis
    proof (cases "g x")
      case (Ok v)
      show ?thesis
      proof (cases "find (\<lambda>p. meet p v) acc")
        case None
        then have "\<forall>a \<in> set acc. \<not> meet a v" by (simp add: find_None_iff)
        with Cons.IH [of "acc @ [v]"] None False Ok show ?thesis by (auto simp: ball_Un)
      next
        case (Some p)
        then have "p \<in> set acc" "meet p v" by (auto simp: find_Some_iff)
        with Some False Ok show ?thesis by auto
      qed
    qed (use False in auto)
  qed (use Cons in auto)
qed simp

lemma pairwise_loop_no_panic:
  assumes "\<And>x. g x \<noteq> Panic"
  shows "foldR (\<lambda>x acc. if skip x then Ok acc
      else bindR (g x) (\<lambda>v. case find (\<lambda>p. meet p v) acc of
        Some p \<Rightarrow> Err (e x p) | None \<Rightarrow> Ok (acc @ [v]))) xs acc \<noteq> Panic"
  by (rule foldR_no_panic [where P = "\<lambda>_. True"])
     (use assms in \<open>auto simp: bindR_eq_Panic split: option.splits\<close>)

lemma sorted_wrt_symmetric:
  assumes "\<And>x y. P x y = P y x" "distinct zs"
  shows "sorted_wrt P zs \<longleftrightarrow> (\<forall>x \<in> set zs. \<forall>y \<in> set zs. x \<noteq> y \<longrightarrow> P x y)"
  using assms(2) by (induction zs) (auto simp: assms(1))

definition keyRange :: "(multicastACLRowKey, bytes) gomap \<Rightarrow> multicastACLRowKey \<times> bytes
    \<Rightarrow> (go_error, multicastACLRange) outcome" where
  "keyRange m x = multicastACLAddressRange (fst (fst x)) (snd x) (map_of m (fst (fst x), 2))"

lemma keyRange_no_panic: "keyRange m x \<noteq> Panic"
  by (simp add: keyRange_def)

lemma validateMulticastACLRows_loop:
  "validateMulticastACLRows m = bindR (foldR (\<lambda>x acc. if snd (fst x) \<noteq> 0 then Ok acc
      else bindR (keyRange m x) (\<lambda>v. case find (\<lambda>p. rangesMeet p v) acc of
        Some p \<Rightarrow> Err (multicastACLParameterError (fst (fst x)) ''destination range overlaps row key %d''
                    [AU (rangeKey p)])
      | None \<Rightarrow> Ok (acc @ [v]))) m []) (\<lambda>_. Ok ())"
  unfolding validateMulticastACLRows_def keyRange_def case_prod_unfold ..

lemma validateMulticastACLRows_no_panic: "validateMulticastACLRows m \<noteq> Panic"
  using pairwise_loop_no_panic [OF keyRange_no_panic, of "\<lambda>x. snd (fst x) \<noteq> 0"]
  by (simp add: validateMulticastACLRows_loop bindR_eq_Panic)

lemma part0_rows:
  assumes "gm_wf m"
  shows "x \<in> set (filter (Not \<circ> (\<lambda>x. snd (fst x) \<noteq> 0)) m)
    \<longleftrightarrow> (\<exists>k p. x = ((k, 0), p) \<and> map_of m (k, 0) = Some p)"
proof -
  obtain k j p where "x = ((k, j), p)" by (metis surj_pair)
  with assms show ?thesis by (auto simp: gm_wf_def)
qed

lemma keyRange_iff:
  "map_of m (k, 0) = Some p \<Longrightarrow> keyRange m ((k, 0), p) = Ok r \<longleftrightarrow> aclRange (map_of m) k = Some r"
  by (auto simp: keyRange_def aclRange_def split: outcome.splits)

lemma part0_pairs:
  assumes "gm_wf m"
  shows "(\<forall>x \<in> set (filter (Not \<circ> (\<lambda>x. snd (fst x) \<noteq> 0)) m). \<forall>y \<in> set (filter (Not \<circ> (\<lambda>x. snd (fst x) \<noteq> 0)) m).
      x \<noteq> y \<longrightarrow> (\<forall>v w. keyRange m x = Ok v \<longrightarrow> keyRange m y = Ok w \<longrightarrow> \<not> rangesMeet v w))
    \<longleftrightarrow> (\<forall>k k' r r'. k \<noteq> k' \<longrightarrow> aclRange (map_of m) k = Some r
         \<longrightarrow> aclRange (map_of m) k' = Some r' \<longrightarrow> \<not> rangesMeet r r')" (is "?L \<longleftrightarrow> ?R")
proof
  assume L: ?L
  show ?R
  proof (intro allI impI)
    fix k k' r r'
    assume k: "k \<noteq> k'" "aclRange (map_of m) k = Some r" "aclRange (map_of m) k' = Some r'"
    then obtain p p' where p: "map_of m (k, 0) = Some p" "map_of m (k', 0) = Some p'"
      by (auto simp: aclRange_def split: option.splits)
    then have "((k, 0), p) \<in> set (filter (Not \<circ> (\<lambda>x. snd (fst x) \<noteq> 0)) m)"
        "((k', 0), p') \<in> set (filter (Not \<circ> (\<lambda>x. snd (fst x) \<noteq> 0)) m)"
      unfolding part0_rows [OF assms] by auto
    with L k keyRange_iff [OF p(1), of r] keyRange_iff [OF p(2), of r'] show "\<not> rangesMeet r r'"
      by (metis fst_conv)
  qed
next
  assume ?R
  then show ?L
    unfolding Ball_def part0_rows [OF assms] by (auto simp: keyRange_iff) (metis option.inject)+
qed

lemma validateMulticastACLRows_iff:
  assumes "gm_wf m"
  shows "validateMulticastACLRows m = Ok () \<longleftrightarrow> ranges_disjoint (map_of m)"
proof -
  let ?zs = "filter (Not \<circ> (\<lambda>x. snd (fst x) \<noteq> 0)) m"
  let ?P = "\<lambda>x y. \<forall>v w. keyRange m x = Ok v \<longrightarrow> keyRange m y = Ok w \<longrightarrow> \<not> rangesMeet v w"
  have "distinct ?zs" using assms by (simp add: gm_wf_def distinct_map)
  then have "sorted_wrt ?P ?zs \<longleftrightarrow> (\<forall>x \<in> set ?zs. \<forall>y \<in> set ?zs. x \<noteq> y \<longrightarrow> ?P x y)"
    by (rule sorted_wrt_symmetric [rotated]) (auto simp: rangesMeet_sym)
  then have "validateMulticastACLRows m = Ok () \<longleftrightarrow>
      (\<forall>x \<in> set ?zs. \<exists>v. keyRange m x = Ok v) \<and> (\<forall>x \<in> set ?zs. \<forall>y \<in> set ?zs. x \<noteq> y \<longrightarrow> ?P x y)"
    using pairwise_loop [of "\<lambda>x. snd (fst x) \<noteq> 0" "keyRange m"]
    by (simp add: validateMulticastACLRows_loop bindR_eq_Ok)
  moreover have "(\<forall>x \<in> set ?zs. \<exists>v. keyRange m x = Ok v)
      \<longleftrightarrow> (\<forall>k. map_of m (k, 0) \<noteq> None \<longrightarrow> aclRange (map_of m) k \<noteq> None)"
    unfolding Ball_def part0_rows [OF assms] by (fastforce simp: keyRange_iff)
  ultimately show ?thesis
    unfolding ranges_disjoint_def part0_pairs [OF assms] by (simp only:)
qed

section \<open>Allowed preview groups\<close>

definition previewValid :: "u16 \<Rightarrow> u8 \<Rightarrow> bytes \<Rightarrow> go_error option" where
  "previewValid key part row =
     (if part = 0 then validateAllowedPreviewPart0 key row else validateAllowedPreviewPart1 key row)"

text \<open>
  A row that may be committed: a part 1 row has time left exactly when its preview is timed.
\<close>

definition previewRowOk :: "bytes \<Rightarrow> bool" where
  "previewRowOk row = (rowControl row AND (tableSetControlMask OR tableTestMask) = 0
     \<and> snd (aclKey row) \<le> 1 \<and> previewValid (fst (aclKey row)) (snd (aclKey row)) row = None)"

definition previewOk :: "bytes \<Rightarrow> bool" where
  "previewOk row = (previewRowOk row
     \<and> (snd (aclKey row) = 1 \<longrightarrow> (be16 row 18 = 0) = (be16 row 20 = 0)))"

text \<open>
  The time of a preview that has been used up, and the time that is left of a preview of a new
  duration after that much use: what a part 1 row with the given predecessor has to carry.
\<close>

definition previewUsed :: "bytes option \<Rightarrow> int" where
  "previewUsed previous =
     (case previous of
        Some row \<Rightarrow> if be16 row 18 = 0 then 0 else uint (be16 row 18) - uint (be16 row 20)
      | None \<Rightarrow> 0)"

definition previewRemaining :: "u16 \<Rightarrow> bytes option \<Rightarrow> u16" where
  "previewRemaining duration previous =
     (if duration = 0 then 0
      else word_of_int (min (2 ^ 16 - 1) (max 0 (uint duration - previewUsed previous))))"

definition previewSpec :: "bytes \<Rightarrow> (multicastACLRowKey \<Rightarrow> bytes option)
    \<Rightarrow> (multicastACLRowKey \<Rightarrow> bytes option) option" where
  "previewSpec row m =
     (let control = rowControl row; setControl = setControlOf control; key = aclKey row;
          stored = put16_at 0 (storedControl control) row;
          timeLeft = previewRemaining (be16 row 18) (m key);
          dropKey = m |` {k. fst k \<noteq> fst key} in
      if setControl = 1 \<and> control AND tableTestMask = 0 \<and> previewRowOk stored
      then if snd key = 0 then Some (m(key \<mapsto> stored))
           else if be16 row 18 \<noteq> 0 \<and> timeLeft = 0 then Some dropKey
           else Some (m(key \<mapsto> put16_at 20 timeLeft stored))
      else if setControl = 2 then Some dropKey
      else if setControl = 3 then Some Map.empty
      else None)"

lemma previewRemaining_0: "previewRemaining 0 previous = 0"
  by (simp add: previewRemaining_def)

lemma previewTimeLeft_eq: "previewTimeLeft duration previous = previewRemaining duration previous"
proof -
  have "uint duration < 2 ^ 16" by (rule order_less_le_trans [OF uint_lt2p]) simp
  then have "min (2 ^ 16 - 1) (max 0 (uint duration)) = uint duration" by simp
  then have full: "word_of_int (min (2 ^ 16 - 1) (max 0 (uint duration))) = duration" by (simp only: word_of_int_uint)
  have clamp: "(let x' = (if x < 0 then 0 else x); x'' = (if x' > 0xffff then 0xffff else x') in word_of_int x'')
      = (word_of_int (min (2 ^ 16 - 1) (max 0 x)) :: u16)" for x :: int
    by (auto simp: Let_def min_def max_def)
  have diff: "uint left + uint duration - uint old = uint duration - (uint old - uint left)" for left old :: u16 by simp
  show ?thesis
    by (cases previous) (simp_all only: previewTimeLeft_def previewRemaining_def previewUsed_def option.case clamp full
      diff Let_def [of "be16 _ _"] diff_0_right if_True if_False split: if_split, simp_all)
qed

lemma previewOk_put:
  assumes "length row = 22" "previewRowOk row" "snd (aclKey row) = 1" "(be16 row 18 = 0) = (v = 0)"
  shows "previewOk (put16_at 20 v row)"
  using assms
  by (simp add: previewOk_def previewRowOk_def previewValid_def validateAllowedPreviewPart1_def
      be16_put16_at slice_put16_at)

lemma updatePreviewRow_spec:
  assumes "length row = multicastPreviewRowSize" "keyed multicastPreviewRowSize aclKey previewOk rows"
  shows "case updatePreviewRow row rows of
      Ok rows' \<Rightarrow> keyed multicastPreviewRowSize aclKey previewOk rows'
        \<and> previewSpec row (map_of rows) = Some (map_of rows')
    | Err _ \<Rightarrow> previewSpec row (map_of rows) = None
    | Panic \<Rightarrow> False"
proof -
  let ?c = "rowControl row"
  let ?stored = "put16_at 0 (storedControl ?c) row"
  let ?drop = "filter (\<lambda>(candidate, _). fst candidate \<noteq> rowKeyOf ?c) rows"
  have len: "length row = 22" and m: "keyed 22 aclKey previewOk rows"
    using assms by (simp_all add: row_sizes)
  have key: "aclKey row = (rowKeyOf ?c, rowPartOf ?c)" by (simp add: aclKey_def)
  have dur: "be16 ?stored 18 = be16 row 18" using len by (simp add: be16_put16_at)
  have dropped: "keyed 22 aclKey previewOk ?drop"
      "map_of rows |` {k. fst k \<noteq> rowKeyOf ?c} = map_of ?drop"
    using m by (simp_all add: keyed_filter map_of_filter_keys [of "\<lambda>k. fst k \<noteq> rowKeyOf ?c"])
  have ok: "previewRowOk ?stored \<longleftrightarrow> rowPartOf ?c \<le> 1
      \<and> previewValid (rowKeyOf ?c) (rowPartOf ?c) ?stored = None"
    using len by (simp add: previewRowOk_def aclKey_def)
  note defs = updatePreviewRow_def previewSpec_def Let_def key storedControl_def [symmetric] dur row_sizes
    previewTimeLeft_eq
  consider "setControlOf ?c = 1" | "setControlOf ?c = 2" | "setControlOf ?c = 3"
    | "setControlOf ?c \<notin> {1, 2, 3}" by blast
  then show ?thesis
  proof cases
    case 1
    show ?thesis
    proof (cases "?c AND tableTestMask = 0 \<and> previewRowOk ?stored")
      case True
      show ?thesis
      proof (cases "rowPartOf ?c = 0")
        case part: True
        with True ok have "previewOk ?stored" using len by (simp add: previewOk_def aclKey_def)
        moreover have "aclKey ?stored = (rowKeyOf ?c, 0)" using len by (simp add: key part)
        moreover have "storedControl ?c = rowKeyOf ?c" by (simp add: storedControl_def part)
        ultimately show ?thesis
          using 1 True ok part len m
          by (simp add: updatePreviewRow_def previewSpec_def Let_def key row_sizes previewValid_def
              update_conv' keyed_update)
      next
        case part: False
        with True ok have p1: "rowPartOf ?c = 1" by unat_arith
        let ?left = "previewRemaining (be16 row 18) (map_of rows (rowKeyOf ?c, rowPartOf ?c))"
        have "previewOk (put16_at 20 ?left ?stored)" if "\<not> (be16 row 18 \<noteq> 0 \<and> ?left = 0)"
          using True p1 len that previewRemaining_0 by (intro previewOk_put) (auto simp: key dur)
        moreover have "aclKey ?stored = (rowKeyOf ?c, rowPartOf ?c)" using len by (simp add: key)
        moreover have "\<not> 1 < rowPartOf ?c" using p1 by simp
        ultimately show ?thesis
          using 1 True ok part len m dropped
          by (simp add: defs previewValid_def update_conv' keyed_update)
      qed
    next
      case False
      with 1 ok show ?thesis
        by (auto simp: defs previewValid_def failIf_def split: option.splits)
    qed
  qed (use m dropped in \<open>simp_all add: defs\<close>)
qed

interpretation preview: row_policy multicastPreviewRowSize aclKey previewOk loadPreviewRow
    updatePreviewRow previewSpec
proof unfold_locales
  show "0 < multicastPreviewRowSize" by (simp add: row_sizes)
next
  fix r :: bytes and m
  assume "length r = multicastPreviewRowSize" "previewOk r"
  then show "loadPreviewRow r m = Ok (AList.update (aclKey r) r m)"
    by (auto simp: loadPreviewRow_def previewOk_def previewRowOk_def previewValid_def aclKey_def Let_def
        not_less [symmetric])
qed (rule updatePreviewRow_spec)

lemma applyAllowedPreviewRows_edit:
  "applyAllowedPreviewRows existing updates = bindR (preview.edit existing updates)
     (\<lambda>m. Ok \<lparr> NumRows = int (length m), Rows = sorted_rows m \<rparr>)"
  by (simp add: applyAllowedPreviewRows_def preview.edit_def bindR_assoc)

section \<open>Sample rows\<close>

definition sampleClassicUpdate :: bytes where
  "sampleClassicUpdate = [0xf8, 0, 0, 0, 0x80, 0x32, 0, 0, 0x40, 0x0f, 0, 0, 0, 0x08, 0x06, 0x40]
     @ take 8 extendedVLANDefaultRows @ replicate 8 0xff"

definition sampleEnhancedRow :: bytes where
  "sampleEnhancedRow = [0, 0, 0, 7] @ take 16 extendedVLANDefaultRows @ replicate 8 0"

definition sampleACLRow :: bytes where
  "sampleACLRow = [0, 1, 0, 5, 0, 100, 10, 0, 0, 1, 0xe0, 1, 1, 1, 0xe0, 1, 1, 5, 0, 0, 0, 0, 0, 0]"

definition sampleServiceRow :: bytes where
  "sampleServiceRow = [0, 3, 0, 100, 0, 0, 0, 0, 0, 0, 0, 9] @ replicate 8 0"

definition samplePreviewRow :: bytes where
  "samplePreviewRow = [8, 3] @ replicate 12 0 @ [0xe0, 1, 1, 1, 0, 60, 0, 20]"

section \<open>Properties\<close>

lemma applyTableRows_classic:
  assumes "keyed_table extendedVLANRowSize (take 8) classicOk (Rows existing)"
    and "length (Rows updates) mod extendedVLANRowSize = 0"
  shows "applyTableRows maxRows ExtendedVlanClassID ''ReceivedFrameVlanTaggingOperationTable'' existing updates
    = bindR (classic.edit (Rows existing) (Rows updates)) (\<lambda>m.
        let rows = sorted_rows m in
        if length rows div extendedVLANRowSize > unat maxRows
        then Err (tableCapacityError (length rows div extendedVLANRowSize) maxRows)
        else Ok \<lparr> NumRows = int (length rows div extendedVLANRowSize), Rows = rows \<rparr>)"
  using assms
  by (simp add: applyTableRows_def classicDeleted_def [abs_def, symmetric] keyed_table_def
      applyKeyedRows_edit classic.size classic.edit_def Let_def)

lemma applyTableRows_enhanced:
  "applyTableRows maxRows ExtendedVlanClassID ''EnhancedReceivedFrameClassificationAndProcessingTable''
      existing updates
    = bindR (enhanced.edit (Rows existing) (Rows updates)) (\<lambda>m.
        let rows = sorted_rows m in
        if length rows div enhancedExtendedVLANRowSize > unat maxRows
        then Err (tableCapacityError (length rows div enhancedExtendedVLANRowSize) maxRows)
        else Ok \<lparr> NumRows = int (length rows div enhancedExtendedVLANRowSize), Rows = rows \<rparr>)"
  by (simp add: applyTableRows_def applyEnhancedVLANRows_edit bindR_assoc Let_def)

lemma sorted_rows_div: "keyed n key ok m \<Longrightarrow> 0 < n \<Longrightarrow> length (sorted_rows m) div n = length m"
  by (simp add: sorted_rows_keyed(3))

text \<open>
  C15. A set-table request on the classic VLAN table is the edit of the map from the first eight
  bytes of a row (its filter words) to the row: a row whose treatment words are all ones deletes,
  any other row must parse and is stored. The new table has one parseable row per key, sorted, and
  no more than the configured number; a request that does not parse or would exceed it is refused.
\<close>

theorem classic_vlan_table_refines:
  assumes "keyed_table extendedVLANRowSize (take 8) classicOk (Rows existing)"
    and "length (Rows updates) mod extendedVLANRowSize = 0"
  shows "refines_edit extendedVLANRowSize (take 8) classicOk classicSpec (\<lambda>_ rows. rows \<le> unat maxRows)
    (Rows existing) (Rows updates)
    (applyTableRows maxRows ExtendedVlanClassID ''ReceivedFrameVlanTaggingOperationTable'' existing updates)"
  unfolding applyTableRows_classic [OF assms]
  by (rule classic.refines_edit_bind [OF assms]) (simp add: Let_def sorted_rows_div classic.size)

theorem classic_vlan_table_refines_witness:
  "refines_edit extendedVLANRowSize (take 8) classicOk classicSpec (\<lambda>_ rows. rows \<le> unat (3 :: u16))
    extendedVLANDefaultRows sampleClassicUpdate
    (applyTableRows 3 ExtendedVlanClassID ''ReceivedFrameVlanTaggingOperationTable''
       \<lparr> NumRows = 3, Rows = extendedVLANDefaultRows \<rparr> \<lparr> NumRows = 2, Rows = sampleClassicUpdate \<rparr>)"
proof -
  have "keyed_table extendedVLANRowSize (take 8) classicOk extendedVLANDefaultRows"
    and "length sampleClassicUpdate mod extendedVLANRowSize = 0" by code_simp+
  then show ?thesis
    using classic_vlan_table_refines [of "\<lparr> NumRows = 3, Rows = extendedVLANDefaultRows \<rparr>"
        "\<lparr> NumRows = 2, Rows = sampleClassicUpdate \<rparr>" 3] by simp
qed

text \<open>
  C16. A set-table request on the enhanced VLAN table is the edit of the map from row keys to rows
  by the rows' set controls (1 write, 2 delete, 3 clear); every stored row parses, has its control
  bits cleared and is unique for its key, and the table stays within its configured size.
\<close>

theorem enhanced_vlan_table_refines:
  assumes "keyed_table enhancedExtendedVLANRowSize enhancedKey enhancedOk (Rows existing)"
    and "length (Rows updates) mod enhancedExtendedVLANRowSize = 0"
  shows "refines_edit enhancedExtendedVLANRowSize enhancedKey enhancedOk enhancedSpec
    (\<lambda>_ rows. rows \<le> unat maxRows) (Rows existing) (Rows updates)
    (applyTableRows maxRows ExtendedVlanClassID
       ''EnhancedReceivedFrameClassificationAndProcessingTable'' existing updates)"
  unfolding applyTableRows_enhanced
  by (rule enhanced.refines_edit_bind [OF assms]) (simp add: Let_def sorted_rows_div enhanced.size)

theorem enhanced_vlan_table_refines_witness:
  "refines_edit enhancedExtendedVLANRowSize enhancedKey enhancedOk enhancedSpec (\<lambda>_ rows. rows \<le> unat (64 :: u16))
    sampleEnhancedRow (0x40 # tl sampleEnhancedRow)
    (applyTableRows 64 ExtendedVlanClassID ''EnhancedReceivedFrameClassificationAndProcessingTable''
       \<lparr> NumRows = 1, Rows = sampleEnhancedRow \<rparr> \<lparr> NumRows = 1, Rows = 0x40 # tl sampleEnhancedRow \<rparr>)"
proof -
  have "keyed_table enhancedExtendedVLANRowSize enhancedKey enhancedOk sampleEnhancedRow"
    and "length (0x40 # tl sampleEnhancedRow) mod enhancedExtendedVLANRowSize = 0" by code_simp+
  then show ?thesis
    using enhanced_vlan_table_refines [of "\<lparr> NumRows = 1, Rows = sampleEnhancedRow \<rparr>"
        "\<lparr> NumRows = 1, Rows = 0x40 # tl sampleEnhancedRow \<rparr>" 64] by simp
qed

text \<open>
  C11. A set-table request on a multicast access control list is the edit of the map from (row key,
  row part) to row parts, and it is accepted exactly when every edit is valid and the destination
  ranges of the resulting list are valid and pairwise disjoint. So no committed list ever maps one
  group to two rows.
\<close>

theorem acl_table_refines:
  assumes "keyed_table multicastACLRowSize aclKey (aclOk isStatic) (Rows existing)"
    and "length (Rows updates) mod multicastACLRowSize = 0"
    and "name = (if isStatic then ''StaticAccessControlListTable'' else ''DynamicAccessControlListTable'')"
  shows "refines_edit multicastACLRowSize aclKey (aclOk isStatic) (aclSpec isStatic)
    (\<lambda>m _. ranges_disjoint m) (Rows existing) (Rows updates) (applyMulticastACLRows name existing updates)"
  unfolding applyMulticastACLRows_edit [OF assms(3)]
proof (rule acl.refines_edit_bind [OF assms(1,2)])
  fix m assume "keyed multicastACLRowSize aclKey (aclOk isStatic) m"
  then have "gm_wf m" by (simp add: keyed_def)
  note iff = validateMulticastACLRows_iff [OF this]
  then show "case bindR (validateMulticastACLRows m) (\<lambda>_. Ok \<lparr>NumRows = int (length m), Rows = sorted_rows m\<rparr>) of
      Ok t \<Rightarrow> ranges_disjoint (map_of m) \<and> Rows t = sorted_rows m \<and> NumRows t = int (length m)
    | Err _ \<Rightarrow> \<not> ranges_disjoint (map_of m) | Panic \<Rightarrow> False"
    by (cases "validateMulticastACLRows m") (auto simp: validateMulticastACLRows_no_panic)
qed

theorem acl_table_refines_witness:
  "refines_edit multicastACLRowSize aclKey (aclOk False) (aclSpec False) (\<lambda>m _. ranges_disjoint m)
    sampleACLRow (0x40 # 2 # drop 2 sampleACLRow)
    (applyMulticastACLRows ''DynamicAccessControlListTable'' \<lparr> NumRows = 1, Rows = sampleACLRow \<rparr>
       \<lparr> NumRows = 1, Rows = 0x40 # 2 # drop 2 sampleACLRow \<rparr>)
   \<and> (\<exists>e. applyMulticastACLRows ''DynamicAccessControlListTable'' \<lparr> NumRows = 1, Rows = sampleACLRow \<rparr>
       \<lparr> NumRows = 1, Rows = 0x40 # 2 # drop 2 sampleACLRow \<rparr> = Err e)"
proof -
  have "keyed_table multicastACLRowSize aclKey (aclOk False) sampleACLRow"
    and "length (0x40 # 2 # drop 2 sampleACLRow) mod multicastACLRowSize = 0" by code_simp+
  moreover have "case applyMulticastACLRows ''DynamicAccessControlListTable''
      \<lparr> NumRows = 1, Rows = sampleACLRow \<rparr> \<lparr> NumRows = 1, Rows = 0x40 # 2 # drop 2 sampleACLRow \<rparr> of
      Err _ \<Rightarrow> True | _ \<Rightarrow> False" by code_simp
  ultimately show ?thesis
    using acl_table_refines [of False "\<lparr> NumRows = 1, Rows = sampleACLRow \<rparr>"
        "\<lparr> NumRows = 1, Rows = 0x40 # 2 # drop 2 sampleACLRow \<rparr>"]
    by (simp split: outcome.splits)
qed

text \<open>
  C17. A set-table request on the multicast service packages is the edit of the map from row keys to
  rows: a stored row names an operations profile, a VLAN in range and nothing in its reserved bytes.
\<close>

theorem service_table_refines:
  assumes "keyed_table multicastServiceRowSize serviceKey serviceOk (Rows existing)"
    and "length (Rows updates) mod multicastServiceRowSize = 0"
  shows "refines_edit multicastServiceRowSize serviceKey serviceOk serviceSpec (\<lambda>_ _. True)
    (Rows existing) (Rows updates)
    (applyMulticastSubscriberRows ''MulticastServicePackageTable'' existing updates)"
proof -
  have "applyMulticastSubscriberRows ''MulticastServicePackageTable'' existing updates
      = bindR (service.edit (Rows existing) (Rows updates))
          (\<lambda>m. Ok \<lparr> NumRows = int (length m), Rows = sorted_rows m \<rparr>)"
    by (simp add: applyMulticastSubscriberRows_def applyMulticastServiceRows_edit)
  then show ?thesis by (simp add: service.refines_edit_bind [OF assms])
qed

theorem service_table_refines_witness:
  "refines_edit multicastServiceRowSize serviceKey serviceOk serviceSpec (\<lambda>_ _. True)
    sampleServiceRow (0x80 # tl sampleServiceRow)
    (applyMulticastSubscriberRows ''MulticastServicePackageTable'' \<lparr> NumRows = 1, Rows = sampleServiceRow \<rparr>
       \<lparr> NumRows = 1, Rows = 0x80 # tl sampleServiceRow \<rparr>)"
proof -
  have "keyed_table multicastServiceRowSize serviceKey serviceOk sampleServiceRow"
    and "length (0x80 # tl sampleServiceRow) mod multicastServiceRowSize = 0" by code_simp+
  then show ?thesis
    using service_table_refines [of "\<lparr> NumRows = 1, Rows = sampleServiceRow \<rparr>"
        "\<lparr> NumRows = 1, Rows = 0x80 # tl sampleServiceRow \<rparr>"] by simp
qed

text \<open>
  C18. A set-table request on the allowed preview groups is the edit of the map from (row key, row
  part) to row parts: a timed row carries the new duration less the time its predecessor has
  already used, clamped to 16 bits, and a row that has run out disappears with all its parts, so a
  committed row has time left exactly when its preview is timed.
\<close>

theorem preview_table_refines:
  assumes "keyed_table multicastPreviewRowSize aclKey previewOk (Rows existing)"
    and "length (Rows updates) mod multicastPreviewRowSize = 0"
  shows "refines_edit multicastPreviewRowSize aclKey previewOk previewSpec (\<lambda>_ _. True)
    (Rows existing) (Rows updates)
    (applyMulticastSubscriberRows ''AllowedPreviewGroupsTable'' existing updates)"
proof -
  have "applyMulticastSubscriberRows ''AllowedPreviewGroupsTable'' existing updates
      = bindR (preview.edit (Rows existing) (Rows updates))
          (\<lambda>m. Ok \<lparr> NumRows = int (length m), Rows = sorted_rows m \<rparr>)"
    by (simp add: applyMulticastSubscriberRows_def applyAllowedPreviewRows_edit)
  then show ?thesis by (simp add: preview.refines_edit_bind [OF assms])
qed

theorem preview_table_refines_witness:
  "refines_edit multicastPreviewRowSize aclKey previewOk previewSpec (\<lambda>_ _. True)
    samplePreviewRow (0x48 # take 18 (tl samplePreviewRow) @ [40, 0, 0])
    (applyMulticastSubscriberRows ''AllowedPreviewGroupsTable'' \<lparr> NumRows = 1, Rows = samplePreviewRow \<rparr>
       \<lparr> NumRows = 1, Rows = 0x48 # take 18 (tl samplePreviewRow) @ [40, 0, 0] \<rparr>)"
proof -
  have "keyed_table multicastPreviewRowSize aclKey previewOk samplePreviewRow"
    and "length (0x48 # take 18 (tl samplePreviewRow) @ [40, 0, 0]) mod multicastPreviewRowSize = 0"
    by code_simp+
  then show ?thesis
    using preview_table_refines [of "\<lparr> NumRows = 1, Rows = samplePreviewRow \<rparr>"
        "\<lparr> NumRows = 1, Rows = 0x48 # take 18 (tl samplePreviewRow) @ [40, 0, 0] \<rparr>"] by simp
qed

end
