(* ===== verification/MibContract.thy ===== *)
theory MibContract
  imports MibStoreProofs MibSample MibTableProofs
begin

unbundle bit_operations_syntax

text \<open>
  What the MIB store promises to its callers and to the platform: the properties of the operations
  of \<open>MibStore\<close>, for every table of classes, with witnesses on the sample MIB.
\<close>

section \<open>A traced platform\<close>

text \<open>
  The world outside is a trace of the calls made to it; whether the platform accepts a change, and
  whether a transaction commits or aborts, may depend on the whole trace.
\<close>

datatype call = Applied Change | Refused Change | Committed | CommitFailed | Aborted | AbortFailed

type_synonym trace = "call list"

definition tracedApplier :: "(trace \<Rightarrow> Change \<Rightarrow> bool) \<Rightarrow> trace applier" where
  "tracedApplier accept change log =
     (if accept log change then (None, log @ [Applied change])
      else (Some (Errorf ''refused'' []), log @ [Refused change]))"

definition tracedTransaction :: "(trace \<Rightarrow> bool) \<Rightarrow> (trace \<Rightarrow> bool) \<Rightarrow> trace CommandTransaction" where
  "tracedTransaction commits aborts =
     \<lparr> Commit = (\<lambda>log. if commits log then (None, log @ [Committed])
         else (Some (Errorf ''commit'' []), log @ [CommitFailed])),
       Abort = (\<lambda>log. if aborts log then (None, log @ [Aborted])
         else (Some (Errorf ''abort'' []), log @ [AbortFailed])) \<rparr>"

text \<open>The state the platform is in: the last change it accepted.\<close>

definition platform :: "trace \<Rightarrow> Change option" where
  "platform log = fold (\<lambda>c p. case c of Applied change \<Rightarrow> Some change | _ \<Rightarrow> p) log None"

definition shows_store :: "'w Store \<Rightarrow> Change \<Rightarrow> bool" where
  "shows_store s change = (Snapshot change = snapshotInstances (current s) \<and> MIBDataSync change = dataSync s
     \<and> StateDomain change = stateDomain s)"

definition agrees :: "'w Store \<Rightarrow> trace \<Rightarrow> bool" where
  "agrees s log = (case platform log of Some change \<Rightarrow> shows_store s change | None \<Rightarrow> False)"

text \<open>The operations that go through the platform, with traced transactions only.\<close>

fun platform_op :: "trace mib_op \<Rightarrow> bool" where
  "platform_op (OpAutonomous k attrs) = False"
| "platform_op (OpAutonomousBatch us) = False"
| "platform_op (OpCommand us t) = (case t of None \<Rightarrow> True | Some u \<Rightarrow> \<exists>c a. u = tracedTransaction c a)"
| "platform_op _ = True"

lemma platform_append [simp]:
  "platform (log @ [Applied change]) = Some change" "platform (log @ [Refused change]) = platform log"
  "platform (log @ [Committed]) = platform log" "platform (log @ [CommitFailed]) = platform log"
  "platform (log @ [Aborted]) = platform log" "platform (log @ [AbortFailed]) = platform log"
  by (simp_all add: platform_def)

lemma traced_Abort: "Abort (tracedTransaction c a) log = (e, log') \<Longrightarrow> log' = log @ [Aborted] \<or> log' = log @ [AbortFailed]"
  by (auto simp: tracedTransaction_def split: if_splits)

lemma traced_Commit: "Commit (tracedTransaction c a) log = (e, log') \<Longrightarrow>
    e = None \<and> log' = log @ [Committed] \<or> e \<noteq> None \<and> log' = log @ [CommitFailed]"
  by (auto simp: tracedTransaction_def split: if_splits)

lemma traced_apply: "applier s = Some (tracedApplier accept) \<Longrightarrow> callApplier s change log = (e, log') \<Longrightarrow>
    e = None \<and> log' = log @ [Applied change] \<or> e \<noteq> None \<and> log' = log @ [Refused change]"
  by (auto simp: callApplier_def tracedApplier_def split: if_splits)

section \<open>What the commits do to a traced platform\<close>

definition rollback_refused :: "trace \<Rightarrow> bool" where
  "rollback_refused log = (case rev log of
     Refused _ # _ # CommitFailed # Applied _ # _ \<Rightarrow> True | _ \<Rightarrow> False)"

lemma commitLocked_agrees:
  assumes "commitLocked o' b a next sync s log = (r, s', log')" "applier s = Some (tracedApplier accept)" "agrees s log"
  shows "agrees s' log'"
proof -
  obtain e log1 where c: "callApplier s \<lparr> Operation = o', StateDomain = stateDomain s, Before = b,
      After = map_option (\<lambda>i. if ikey i = onuDataKey then withDataSync sync i else i) a,
      Snapshot = snapshotInstances (setDataSync sync next), MIBDataSync = sync \<rparr> log = (e, log1)"
    by fastforce
  from traced_apply [OF assms(2) c] assms(1,3) c show ?thesis
    by (auto simp: commitLocked_def agrees_def shows_store_def Let_def split: option.splits)
qed

lemma commitTransaction_log:
  assumes "commitTransaction (tracedTransaction c a) m sync s log = (r, s', log')"
    and "applier s = Some (tracedApplier accept)"
  shows "(\<exists>ch. r = Ok () \<and> s' = s\<lparr>current := m, dataSync := sync\<rparr> \<and> log' = log @ [Applied ch, Committed] \<and> shows_store s' ch)
    \<or> (\<exists>e ch x. r = Err e \<and> s' = s \<and> x \<in> {Aborted, AbortFailed} \<and> log' = log @ [Refused ch, x])
    \<or> (\<exists>e ch x y. r = Err e \<and> s' = s \<and> x \<in> {Aborted, AbortFailed} \<and> shows_store s y
        \<and> (log' = log @ [Applied ch, CommitFailed, x, Applied y] \<or> log' = log @ [Applied ch, CommitFailed, x, Refused y]))"
proof -
  let ?ch = "commandChange s m sync" and ?old = "commandChange s (current s) (dataSync s)"
  obtain e1 log1 where ap: "callApplier s ?ch log = (e1, log1)" by fastforce
  show ?thesis
  proof (cases e1)
    case (Some e)
    obtain e2 log2 where ab: "Abort (tracedTransaction c a) log1 = (e2, log2)" by fastforce
    with Some ap assms(1) have "(\<exists>x. r = Err x) \<and> s' = s \<and> log' = log2"
      by (auto simp: commitTransaction_def commandTransactionFailure_def)
    with traced_Abort [OF ab] traced_apply [OF assms(2) ap] Some show ?thesis by auto
  next
    case None
    obtain e2 log2 where co: "Commit (tracedTransaction c a) log1 = (e2, log2)" by fastforce
    obtain e3 log3 where ab: "Abort (tracedTransaction c a) log2 = (e3, log3)" by fastforce
    obtain e4 log4 where rb: "callApplier s ?old log3 = (e4, log4)" by fastforce
    have ch: "shows_store (s\<lparr>current := m, dataSync := sync\<rparr>) ?ch" "shows_store s ?old"
      by (simp_all add: shows_store_def commandChange_def)
    show ?thesis
    proof (cases e2)
      case None2: None
      with None ap co assms(1) have "r = Ok ()" "s' = s\<lparr>current := m, dataSync := sync\<rparr>" "log' = log2"
        by (auto simp: commitTransaction_def)
      with traced_Commit [OF co] traced_apply [OF assms(2) ap] None None2 ch show ?thesis by auto
    next
      case (Some e)
      with None ap co ab rb assms(1) have "(\<exists>x. r = Err x) \<and> s' = s \<and> log' = log4"
        by (auto simp: commitTransaction_def Let_def)
      with traced_Commit [OF co] traced_apply [OF assms(2) ap] None Some traced_Abort [OF ab]
        traced_apply [OF assms(2) rb] ch show ?thesis by auto
    qed
  qed
qed

lemma platform_trace:
  "platform (log @ xs) = fold (\<lambda>c p. case c of Applied change \<Rightarrow> Some change | _ \<Rightarrow> p) xs (platform log)"
  by (simp add: platform_def)

lemma commitTransaction_agrees:
  assumes "commitTransaction (tracedTransaction c a) m sync s log = (r, s', log')"
    and "applier s = Some (tracedApplier accept)" "agrees s log"
  shows "agrees s' log' \<or> rollback_refused log'"
  using commitTransaction_log [OF assms(1,2)] assms(3)
  by (auto simp: agrees_def platform_trace rollback_refused_def split: option.splits)

lemma attempt_agrees:
  assumes "attempt m k s log = (r, s', log')" "agrees s log"
    and "\<And>x. m = Ok x \<Longrightarrow> k x s log = (r, s', log') \<Longrightarrow> agrees s' log'"
  shows "agrees s' log'"
  using assms by (cases m) (auto simp: attempt_def)

lemma updateByCommand_agrees:
  assumes e: "updateByCommand classes us t s log = (r, s', log')"
    and s: "applier s = Some (tracedApplier accept)" "agrees s log"
    and t: "t = None \<or> (\<exists>c a. t = Some (tracedTransaction c a))"
  shows "agrees s' log' \<or> rollback_refused log'"
proof (cases "proposeCommand classes s us")
  case (Ok p)
  obtain m changed where p: "p = (m, changed)" by (cases p)
  from t show ?thesis
  proof (elim disjE exE)
    assume "t = None"
    with e Ok p s show ?thesis
      by (cases changed) (auto simp: updateByCommand_def Let_def dest: commitLocked_agrees)
  next
    fix c a assume t: "t = Some (tracedTransaction c a)"
    show ?thesis
    proof (cases changed)
      case True
      with e Ok p t s show ?thesis
        by (auto simp: updateByCommand_def Let_def dest: commitTransaction_agrees)
    next
      case False
      with e Ok p t s show ?thesis
        by (auto simp: updateByCommand_def commandTransactionFailure_def agrees_def platform_trace
            split: option.splits prod.splits dest!: traced_Commit traced_Abort)
    qed
  qed
qed (use e s t in \<open>auto simp: updateByCommand_def abortCommandTransaction_def agrees_def platform_trace
      split: option.splits prod.splits dest!: traced_Abort\<close>)

lemma Expire_agrees:
  assumes e: "ExpireAllowedPreviewRows classes k ts s log = (r, s', log')"
    and s: "applier s = Some (tracedApplier accept)" "agrees s log"
  shows "agrees s' log'"
proof (rule attempt_agrees [OF e [unfolded ExpireAllowedPreviewRows_def] s(2)])
  fix x assume "(case x of None \<Rightarrow> (Ok False, s, log)
       | Some (inst, normalized) \<Rightarrow>
           (case commitLocked OperationAutonomous (Some inst) (Some normalized)
                   (AList.update k normalized (current s)) (dataSync s) s log of
              (Ok _, s', w') \<Rightarrow> (Ok True, s', w')
            | (Err e, s', w') \<Rightarrow> (Err e, s', w')
            | (Panic, s', w') \<Rightarrow> (Panic, s', w'))) = (r, s', log')"
  with s show ?thesis
    by (cases x) (auto split: prod.splits outcome.splits dest: commitLocked_agrees)
qed

lemma exec_agrees:
  assumes e: "exec classes op' s log = (r, s', log')" and op': "platform_op op'"
    and s: "applier s = Some (tracedApplier accept)" "agrees s log"
  shows "agrees s' log' \<or> rollback_refused log'"
proof (cases op')
  case (OpCreate c d attrs)
  with e s show ?thesis
    by (auto simp: Create_def Let_def elim!: attempt_agrees dest: commitLocked_agrees)
next
  case (OpSet k attrs)
  with e s show ?thesis
    by (auto simp: Set_def elim!: attempt_agrees dest: commitLocked_agrees split: if_splits)
next
  case (OpSetTable k m attrs)
  with e s show ?thesis
    by (auto simp: SetTable_def elim!: attempt_agrees dest: commitLocked_agrees split: if_splits)
next
  case (OpDelete k)
  with e s show ?thesis by (auto simp: Delete_def elim!: attempt_agrees dest: commitLocked_agrees)
next
  case OpReset
  with e s show ?thesis by (auto simp: Reset_def dest: commitLocked_agrees)
next
  case (OpCommand us t)
  with e op' have "updateByCommand classes us t s log = (r, s', log')"
    "t = None \<or> (\<exists>c a. t = Some (tracedTransaction c a))" by (auto split: option.splits)
  from updateByCommand_agrees [OF this(1) s this(2)] show ?thesis .
next
  case (OpExpire k ts)
  obtain x y where "ExpireAllowedPreviewRows classes k ts s log = (x, y)"
    by (cases "ExpireAllowedPreviewRows classes k ts s log")
  with e OpExpire Expire_agrees [of classes k ts s log x s' log'] s show ?thesis
    by (simp add: discard_def)
qed (use op' in simp_all)

section \<open>The data sync counter\<close>

text \<open>The counter after an operation that changed the MIB.\<close>

fun expectedSync :: "'w Store \<Rightarrow> 'w mib_op \<Rightarrow> u8" where
  "expectedSync s (OpSet k attrs) = (case (k = onuDataKey, map_of attrs MibDataSync) of
     (True, Some (VU8 v)) \<Rightarrow> incrementDataSync v | _ \<Rightarrow> incrementDataSync (dataSync s))"
| "expectedSync s OpReset = 0"
| "expectedSync s (OpAutonomous k attrs) = dataSync s"
| "expectedSync s (OpAutonomousBatch us) = dataSync s"
| "expectedSync s (OpExpire k ts) = dataSync s"
| "expectedSync s _ = incrementDataSync (dataSync s)"

definition sync_effect :: "'w Store \<Rightarrow> u8 \<Rightarrow> (go_error, unit) outcome \<times> 'w Store \<times> 'w \<Rightarrow> bool" where
  "sync_effect s sync res = (fst (snd res) = s \<or> dataSync (fst (snd res)) = sync)"

lemma sync_commit [simp]: "sync_effect s sync (commitLocked o' b a next sync s w)"
  by (cases "commitLocked o' b a next sync s w") (auto simp: sync_effect_def dest: commitLocked_cases)

lemma sync_attempt: "(\<And>x. m = Ok x \<Longrightarrow> sync_effect s sync (k x s w)) \<Longrightarrow> sync_effect s sync (attempt m k s w)"
  by (cases m) (simp_all add: attempt_def sync_effect_def)

lemma sync_unchanged [simp]: "sync_effect s sync (r, s, w)"
  by (simp add: sync_effect_def)

lemma sync_Set: "sync_effect s (expectedSync s (OpSet k attrs)) (Set classes k attrs s w)"
  unfolding Set_def
proof (rule sync_attempt, clarify)
  fix i n sync assume x: "prepareSet classes s k attrs = Ok (i, n, sync)"
  then obtain n0 where "syncedInstance s k attrs n0 = Ok (n, sync)" by (rule prepareSet_Ok)
  then have "sync = expectedSync s (OpSet k attrs)"
    by (auto simp: syncedInstance_def nextDataSync_def Let_def split: if_splits option.splits attr_value.splits)
  then show "sync_effect s (expectedSync s (OpSet k attrs)) (if sameAttributes i n then (Ok (), s, w)
      else commitLocked OperationSet (Some i) (Some n) (AList.update k n (current s)) sync s w)"
    by (simp del: expectedSync.simps)
qed

lemma sync_command: "sync_effect s (nextDataSync s) (updateByCommand classes us t s w)"
proof -
  have "sync_effect s sync (commitTransaction u m sync s w)" for u m sync
    by (cases "commitTransaction u m sync s w") (auto simp: sync_effect_def dest: commitTransaction_cases)
  then show ?thesis
    by (auto simp: updateByCommand_def Let_def split: outcome.split option.split prod.split)
qed

lemma sync_discard: "sync_effect s sync (discard (r, s', w')) = (s' = s \<or> dataSync s' = sync)"
  by (simp add: sync_effect_def discard_def)

lemma exec_sync: "sync_effect s (expectedSync s op') (exec classes op' s w)"
proof (cases op')
  case (OpSet k attrs)
  then show ?thesis using sync_Set by (simp del: expectedSync.simps)
next
  case (OpCommand us t)
  then show ?thesis using sync_command [of s classes us t w] by (simp add: nextDataSync_def)
next
  case (OpAutonomous k attrs)
  then show ?thesis
    by (cases "prepareUpdate classes s (current s) k attrs")
       (auto simp: UpdateAutonomous_def attempt_def sync_discard Let_def split: prod.split)
next
  case (OpExpire k ts)
  have "s' = s \<or> dataSync s' = dataSync s"
    if "ExpireAllowedPreviewRows classes k ts s w = (r, s', w')" for r s' w'
    using that
    by (auto simp: ExpireAllowedPreviewRows_def attempt_def split: outcome.splits option.splits prod.splits
        dest!: commitLocked_cases)
  then show ?thesis
    using OpExpire by (cases "ExpireAllowedPreviewRows classes k ts s w") (auto simp: sync_discard)
qed (auto simp: Create_def SetTable_def Delete_def Reset_def UpdateAutonomousBatch_def Let_def nextDataSync_def
      sync_effect_def [of s _ "(Ok (), _)"] split: prod.split intro!: sync_attempt)

section \<open>Frames\<close>

text \<open>The instances an operation may write; the ONU data instance is written by every commit.\<close>

fun touches :: "'w mib_op \<Rightarrow> Key \<Rightarrow> bool" where
  "touches (OpCreate c e attrs) k = (k = Key c e)"
| "touches (OpSet k' attrs) k = (k = k')"
| "touches (OpSetTable k' m attrs) k = (k = k')"
| "touches (OpDelete k') k = (k = k')"
| "touches OpReset k = True"
| "touches (OpAutonomous k' attrs) k = (k = k')"
| "touches (OpAutonomousBatch us) k = (k \<in> set (map fst us))"
| "touches (OpCommand us t) k = (k \<in> set (map fst us))"
| "touches (OpExpire k' ts) k = (k = k')"

definition keeps :: "Key \<Rightarrow> 'w Store \<Rightarrow> (go_error, unit) outcome \<times> 'w Store \<times> 'w \<Rightarrow> bool" where
  "keeps k s res = (map_of (current (fst (snd res))) k = map_of (current s) k)"

lemma keeps_unchanged [simp]: "keeps k s (r, s, w)"
  by (simp add: keeps_def)

lemma keeps_attempt: "(\<And>x. m = Ok x \<Longrightarrow> keeps k s (f x s w)) \<Longrightarrow> keeps k s (attempt m f s w)"
  by (cases m) (simp_all add: attempt_def)

lemma map_of_setDataSync: "k \<noteq> onuDataKey \<Longrightarrow> map_of (setDataSync v m) k = map_of m k"
  by (auto simp: setDataSync_def update_conv' split: option.split)

lemma keeps_commit:
  "map_of next k = map_of (current s) k \<Longrightarrow> k \<noteq> onuDataKey \<Longrightarrow> keeps k s (commitLocked o' b a next sync s w)"
  by (cases "commitLocked o' b a next sync s w")
     (auto simp: keeps_def map_of_setDataSync dest: commitLocked_cases)

lemma foldR_keeps:
  assumes f: "foldR f us m = Ok m'" and k: "k \<notin> set (map fst us)"
    and step: "\<And>k' a p p'. f (k', a) p = Ok p' \<Longrightarrow> k' \<noteq> k \<Longrightarrow> map_of (g p') k = map_of (g p) k"
  shows "map_of (g m') k = map_of (g m) k"
proof (rule foldR_invariant [OF f, where P = "\<lambda>p. map_of (g p) k = map_of (g m) k"])
  fix x p p' assume "x \<in> set us" "map_of (g p) k = map_of (g m) k" "f x p = Ok p'"
  with k step [of "fst x" "snd x" p p'] show "map_of (g p') k = map_of (g m) k" by force
qed simp

lemma proposeCommand_keeps:
  assumes "proposeCommand classes s us = Ok (m, changed)" "k \<notin> set (map fst us)"
  shows "map_of m k = map_of (current s) k"
  using foldR_keeps [OF assms(1) [unfolded proposeCommand_def] assms(2), where g = fst]
  by (force simp: bindR_eq_Ok update_conv' split: prod.splits if_splits)

lemma keeps_command:
  assumes k: "k \<notin> set (map fst us)" "k \<noteq> onuDataKey"
  shows "keeps k s (updateByCommand classes us t s w)"
proof (cases "proposeCommand classes s us")
  case (Ok p)
  obtain m changed where p: "p = (m, changed)" by (cases p)
  have m: "map_of (setDataSync v m) k = map_of (current s) k" for v
    using proposeCommand_keeps [OF Ok [unfolded p] k(1)] k(2) by (simp add: map_of_setDataSync)
  have "keeps k s (commitTransaction u (setDataSync v m) v s w)" for u v
    by (cases "commitTransaction u (setDataSync v m) v s w")
       (auto simp: keeps_def m dest: commitTransaction_cases)
  with Ok p m k(2) show ?thesis
    by (auto simp: updateByCommand_def Let_def intro!: keeps_commit split: option.split prod.split)
qed (auto simp: updateByCommand_def split: prod.split)

lemma exec_keeps:
  assumes "\<not> touches op' k" "k \<noteq> onuDataKey"
  shows "keeps k s (exec classes op' s w)"
proof (cases op')
  case (OpCommand us t)
  with assms keeps_command show ?thesis by (simp add: image_iff)
next
  case (OpAutonomous k' attrs)
  with assms show ?thesis
    by (cases "prepareUpdate classes s (current s) k' attrs")
       (auto simp: UpdateAutonomous_def attempt_def discard_def keeps_def Let_def update_conv' split: prod.split)
next
  case (OpAutonomousBatch us)
  show ?thesis
    unfolding OpAutonomousBatch exec.simps UpdateAutonomousBatch_def
  proof (rule keeps_attempt)
    fix m assume f: "foldR (\<lambda>(key, attrs) proposed.
         bindR (prepareUpdate classes s proposed key attrs) (\<lambda>(_, normalized).
         Ok (AList.update key normalized proposed))) us (current s) = Ok m"
    from foldR_keeps [OF f, of k id] assms OpAutonomousBatch have "map_of m k = map_of (current s) k"
      by (force simp: bindR_eq_Ok update_conv')
    then show "keeps k s (Ok (), s\<lparr>current := m\<rparr>, w)" by (simp add: keeps_def)
  qed
next
  case (OpExpire k' ts)
  have "map_of (current s') k = map_of (current s) k"
    if e: "ExpireAllowedPreviewRows classes k' ts s w = (r, s', w')" for r s' w'
    using e assms OpExpire
    by (auto simp: ExpireAllowedPreviewRows_def attempt_def map_of_setDataSync update_conv'
        split: outcome.splits option.splits prod.splits dest!: commitLocked_cases)
  then show ?thesis
    using OpExpire by (cases "ExpireAllowedPreviewRows classes k' ts s w") (auto simp: keeps_def discard_def)
qed (use assms in \<open>auto simp: Create_def Set_def SetTable_def Delete_def Let_def update_conv' delete_conv'
       intro!: keeps_attempt keeps_commit\<close>)

section \<open>What a write leaves\<close>

lemma filter_gm:
  "gm_wf attrs \<Longrightarrow> gm_wf (filter (\<lambda>(name, _). P name) attrs)"
  "map_of (filter (\<lambda>(name, _). P name) attrs) n = (if P n then map_of attrs n else None)"
  by (induction attrs) (auto simp: gm_wf_def)

lemma written_attributes:
  assumes n: "normalize classes s (writeAttributes us i) = Ok i'" and wf: "gm_wf us" "gm_wf (Attributes i)"
    and lib: "library classes" and name: "name \<noteq> ManagedEntityID"
  shows "map_of (Attributes i') name
    = (case map_of us name of Some v \<Rightarrow> Some v | None \<Rightarrow> map_of (Attributes i) name)"
  using normalize_Ok(3) [OF n] wf lib name
  by (simp add: map_of_loaded writeAttributes_def map_of_setAll library_def)

lemma Set_writes:
  assumes e: "Set classes k attrs s w = (Ok (), s', w')" and inv: "store_inv classes s"
    and lib: "library classes" and attrs: "gm_wf attrs" and k: "k \<noteq> onuDataKey"
  shows "\<exists>i i'. map_of (current s) k = Some i \<and> map_of (current s') k = Some i' \<and> Origin i' = Origin i
    \<and> (\<forall>name. name \<noteq> ManagedEntityID \<longrightarrow> map_of (Attributes i') name
        = (case map_of attrs name of Some v \<Rightarrow> Some v | None \<Rightarrow> map_of (Attributes i) name))"
proof -
  from e obtain i n sync where p: "prepareSet classes s k attrs = Ok (i, n, sync)"
    and c: "(if sameAttributes i n then (Ok (), s, w)
      else commitLocked OperationSet (Some i) (Some n) (AList.update k n (current s)) sync s w) = (Ok (), s', w')"
    by (auto simp: Set_def attempt_def split: outcome.splits)
  let ?us = "filter (\<lambda>(name, _). name \<noteq> ManagedEntityID) attrs"
  from p obtain n0 where i: "map_of (current s) k = Some i"
    and n0: "normalize classes s (writeAttributes ?us i) = Ok n0" and n: "syncedInstance s k attrs n0 = Ok (n, sync)"
    by (rule prepareSet_Ok)
  from syncedInstance_Ok [OF n] k have [simp]: "n = n0" by simp
  have wf: "gm_wf (Attributes i)" using store_inv_simps(1) [OF inv] i by (auto simp: instances_inv_def instance_inv_def)
  have w: "map_of (Attributes n) name = (case map_of attrs name of Some v \<Rightarrow> Some v | None \<Rightarrow> map_of (Attributes i) name)"
    if "name \<noteq> ManagedEntityID" for name
    using written_attributes [OF n0 filter_gm(1) [OF attrs] wf lib that] that by (simp add: filter_gm(2))
  have o: "Origin n = Origin i" using normalize_Ok(2) [OF n0] wf by simp
  show ?thesis
  proof (cases "sameAttributes i n")
    case True
    with normalize_Ok(4) [OF n0] wf have "map_of (Attributes i) = map_of (Attributes n)"
      by (simp add: sameAttributes_def gm_eq_iff)
    with True c i w show ?thesis by auto
  next
    case False
    with c k have "map_of (current s') k = Some n"
      by (auto simp: map_of_setDataSync update_conv' dest!: commitLocked_cases)
    with i w o show ?thesis by blast
  qed
qed

section \<open>The contract\<close>

lemma exec_policy: "exec classes op' s w = (r, s', w') \<Longrightarrow> applier s' = applier s"
  using exec_effect [of s classes op' w] by (simp add: effect_def) (metis Store.select_convs(4) Store.surjective Store.update_convs(2,3))

definition sampleStore :: "'w applier option \<Rightarrow> 'w Store" where
  "sampleStore apply = (case NewWithOptions sampleClasses sampleFactory (sampleOptions apply) of
     Ok s \<Rightarrow> s | _ \<Rightarrow> undefined)"

lemma library_sample: "library sampleClasses"
  by (simp add: library_def classDefinition_def sampleClasses_def unknownME_def entityIdName_def
      onuDataME_def onuGME_def extendedVlanME_def onu3GME_def entityIdAttribute_def ManagedEntityID_def)

lemma sampleStore_new: "NewWithOptions sampleClasses sampleFactory (sampleOptions apply) = Ok (sampleStore apply)"
proof -
  have "case NewWithOptions sampleClasses sampleFactory (sampleOptions apply) of Ok _ \<Rightarrow> True | _ \<Rightarrow> False"
    by code_simp
  then show ?thesis by (simp add: sampleStore_def split: outcome.splits)
qed

definition sampleOps :: "'w mib_op list" where
  "sampleOps = [OpCreate 171 1 sampleAttrs, OpSet sampleMe [(''DownstreamMode'', VU8 3)],
     OpSet onuDataKey [(''MibDataSync'', VU8 255)], OpAutonomous (Key OnuGClassID 0) [(''AdministrativeState'', VU8 1)],
     OpDelete sampleMe, OpDelete onuDataKey]"

text \<open>
  C1. The MIB invariant holds in every reachable store: after construction from any factory MIB, and
  after any sequence of the nine operations with any arguments and any platform, every factory
  instance is still there and owned by the ONU, every other instance was created by the OLT and is
  of a class the OLT may create, every instance is of a supported class, has no attribute twice and
  is in normal form (the ONU data and the ONU3-G instances, which are written directly, excepted),
  and the MIB data sync attribute of ONU data shows the store's counter.
\<close>
theorem mib_invariant:
  assumes "library classes" "list_all (gm_wf \<circ> Attributes) factory0"
    and "NewWithOptions classes factory0 options = Ok s" "list_all wf_op ops"
  shows "store_inv classes (fst (execAll classes ops s w))"
  by (rule execAll_inv [OF assms(1,4) NewWithOptions_inv [OF assms(3,2)]])

theorem mib_invariant_witness:
  "store_inv sampleClasses (fst (execAll sampleClasses sampleOps (sampleStore None) (0 :: nat)))"
  by (rule mib_invariant [OF library_sample _ sampleStore_new]) code_simp+

text \<open>
  C12. An operation that fails leaves the store exactly as it was, whatever the reason (a check of
  the request, a refusal of the platform, a transaction that does not commit), and no operation
  changes the factory MIB, the table size, the state domain or the capability policy.
\<close>
theorem failure_is_atomic:
  "case exec classes op' s w of (r, s', _) \<Rightarrow>
     (r = Ok () \<or> s' = s) \<and> factory s' = factory s \<and> applier s' = applier s
     \<and> extendedVLANTableSize s' = extendedVLANTableSize s \<and> stateDomain s' = stateDomain s
     \<and> supportedClasses s' = supportedClasses s \<and> supportedAttributes s' = supportedAttributes s
     \<and> attributeCapabilities s' = attributeCapabilities s \<and> validateInstance s' = validateInstance s"
proof (cases "exec classes op' s w")
  case (fields r s' w')
  then have e: "s' = s \<or> r = Ok ()" "s' = s\<lparr>current := current s', dataSync := dataSync s'\<rparr>"
    using exec_effect [of s classes op' w] by (simp_all add: effect_def)
  from e(2) obtain c d where "s' = s\<lparr>current := c, dataSync := d\<rparr>" by blast
  with e(1) fields show ?thesis by auto
qed

text \<open>
  C20. An operation writes only the instances it names and the counter in ONU data: every other
  instance is untouched, created, deleted or changed by no operation but a reset.
\<close>
theorem other_instances_untouched:
  "touches op' k \<or> k = onuDataKey
     \<or> map_of (current (fst (snd (exec classes op' s w)))) k = map_of (current s) k"
  using exec_keeps [of op' k s classes w] by (auto simp: keeps_def)

text \<open>
  C19. The data sync counter: an operation that changes the store moves the counter to the value
  \<open>expectedSync\<close> prescribes (unchanged for changes by the ONU, 0 for a reset, the successor of the
  written value for a write of the counter itself, the successor otherwise), and the successor
  runs 1, 2, ..., 255, 1, ... and is never 0: the n-th change after a reset shows 1 + (n - 1) mod 255.
\<close>
theorem data_sync_counter:
  "(case exec classes op' s w of (_, s', _) \<Rightarrow> s' = s \<or> dataSync s' = expectedSync s op')
     \<and> (incrementDataSync ^^ Suc n) 0 = of_nat (1 + n mod 255)"
proof
  show "case exec classes op' s w of (_, s', _) \<Rightarrow> s' = s \<or> dataSync s' = expectedSync s op'"
    using exec_sync [of s op' classes w] by (cases "exec classes op' s w") (simp add: sync_effect_def)
  show "(incrementDataSync ^^ Suc n) 0 = (of_nat (1 + n mod 255) :: u8)"
  proof (induction n)
    case (Suc n)
    have "incrementDataSync (of_nat (1 + n mod 255) :: u8) = of_nat (1 + Suc n mod 255)"
    proof (cases "n mod 255 = 254")
      case True
      then show ?thesis by (simp add: incrementDataSync_def mod_Suc)
    next
      case False
      have "n mod 255 < 255" by simp
      then have "1 + n mod 255 < 256" by arith
      then have "unat (word_of_nat (1 + n mod 255) :: u8) = 1 + n mod 255"
        by (subst unat_of_nat) simp
      with False have "(of_nat (1 + n mod 255) :: u8) \<noteq> 255" by (auto simp del: of_nat_add)
      with False show ?thesis by (simp add: incrementDataSync_def mod_Suc)
    qed
    with Suc show ?case by simp
  qed (simp add: incrementDataSync_def)
qed

lemma prepareUpdate_no_panic: "prepareUpdate classes s m k attrs \<noteq> Panic"
  by (auto simp: prepareUpdate_def loadDefinition_def normalize_def normalize0_def bindR_eq_Panic Let_def
      LoadManagedEntityDefinition_def split: option.splits if_splits)

lemma proposeCommand_no_panic: "proposeCommand classes s us \<noteq> Panic"
  unfolding proposeCommand_def
  by (rule foldR_no_panic) (auto simp: bindR_eq_Panic prepareUpdate_no_panic split: prod.splits if_splits)

text \<open>
  C2. The platform follows the store: when every call of the platform is recorded and the platform
  has the store's state, then after any sequence of operations other than autonomous changes (which
  the code writes to the store without calling the platform), with any decision of the platform on
  each change and of the transaction on each commit and abort, the last state the platform accepted
  is again the store's: its instances, its data sync counter and its domain. The one exception is a
  rollback that the platform refused: a transaction that did not commit after its change was
  accepted, and whose restoration of the old state was refused.
\<close>
theorem platform_follows_store:
  assumes "applier s = Some (tracedApplier accept)" "agrees s log" "list_all platform_op ops"
  shows "case execAll classes ops s log of (s', log') \<Rightarrow>
     agrees s' log' \<or> (\<exists>done rest. ops = done @ rest \<and> rollback_refused (snd (execAll classes done s log)))"
  using assms
proof (induction ops arbitrary: s log)
  case (Cons op' ops)
  obtain r s1 log1 where e: "exec classes op' s log = (r, s1, log1)" by (cases "exec classes op' s log")
  with exec_agrees [OF e _ Cons.prems(1,2)] Cons.prems(3) have "agrees s1 log1 \<or> rollback_refused log1" by simp
  then show ?case
  proof
    assume "agrees s1 log1"
    with Cons.IH [of s1 log1] exec_policy [OF e] Cons.prems e show ?thesis
      by (clarsimp split: prod.splits) (metis append_Cons execAll.simps(2) e case_prod_conv snd_conv)
  next
    assume "rollback_refused log1"
    then have "rollback_refused (snd (execAll classes [op'] s log))" by (simp add: e)
    then have "\<exists>done rest. op' # ops = done @ rest \<and> rollback_refused (snd (execAll classes done s log))"
      by (intro exI [of _ "[op']"] exI [of _ ops]) simp
    then show ?thesis by (simp split: prod.split)
  qed
qed simp

text \<open>
  C3. The protocol of a transactional command. With the platform's calls and those of the
  transaction recorded, a command either returns without error after exactly one commit, preceded
  by the acceptance of the new state when there is a change, or fails with the store unchanged
  after exactly one abort: of a refused request, of a refused change, or of a commit that failed;
  in the last case, when a change had been accepted, the old state is sent to the platform again.
\<close>
theorem command_transaction_protocol:
  assumes a: "applier s = Some (tracedApplier accept)"
    and e: "updateByCommand classes us (Some (tracedTransaction commits aborts)) s log = (r, s', log')"
  shows "\<exists>calls x ch old. log' = log @ calls \<and> x \<in> {Aborted, AbortFailed}
    \<and> (if r = Ok () then
         (calls = [Committed] \<and> s' = s)
         \<or> (calls = [Applied ch, Committed] \<and> shows_store s' ch \<and> dataSync s' = nextDataSync s)
       else s' = s \<and> shows_store s old
         \<and> calls \<in> {[x], [CommitFailed, x], [Refused ch, x], [Applied ch, CommitFailed, x, Applied old],
             [Applied ch, CommitFailed, x, Refused old]})"
proof (cases "proposeCommand classes s us")
  case (Ok p)
  obtain m changed where p: "p = (m, changed)" by (cases p)
  have old: "shows_store s (commandChange s (current s) (dataSync s))" by (simp add: shows_store_def commandChange_def)
  show ?thesis
  proof (cases changed)
    case True
    with e Ok p have "commitTransaction (tracedTransaction commits aborts) (setDataSync (nextDataSync s) m)
        (nextDataSync s) s log = (r, s', log')" by (simp add: updateByCommand_def Let_def)
    from commitTransaction_log [OF this a] old show ?thesis by auto
  next
    case False
    with e Ok p old show ?thesis
      by (auto simp: updateByCommand_def commandTransactionFailure_def
          split: option.splits prod.splits dest!: traced_Commit traced_Abort)
  qed
next
  case (Err x)
  have old: "shows_store s (commandChange s (current s) (dataSync s))" by (simp add: shows_store_def commandChange_def)
  with e Err show ?thesis
    by (auto simp: updateByCommand_def abortCommandTransaction_def
        split: option.splits prod.splits dest!: traced_Abort)
qed (simp add: proposeCommand_no_panic)

lemma applier_new:
  assumes "NewWithOptions classes factory0 options = Ok s"
  shows "applier s = OptApplier options"
proof -
  have step: "applier s'' = applier s'" if "addFactory classes options i s' = Ok s''" for i and s' s'' :: "'a Store"
    using that by (auto simp: addFactory_def bindR_eq_Ok Let_def split: if_splits option.splits)
  have "applier s'' = applier s'" if "foldR (addFactory classes options) is s' = Ok s''" for "is" and s' s'' :: "'a Store"
    by (rule foldR_invariant [OF that, where P = "\<lambda>t. applier t = applier s'"]) (simp_all add: step)
  with assms show ?thesis
    by (fastforce simp: NewWithOptions_def bindR_eq_Ok Let_def split: if_splits)
qed

lemma applier_sample: "applier (sampleStore apply) = apply"
  using applier_new [OF sampleStore_new] by (simp add: sampleOptions_def)

definition sampleLog :: "'w Store \<Rightarrow> trace" where
  "sampleLog s = [Applied (commandChange s (current s) (dataSync s))]"

lemma sampleLog_agrees: "agrees s (sampleLog s)"
  by (simp add: agrees_def sampleLog_def platform_def shows_store_def commandChange_def)

definition sampleUpdate :: "(Key, attribute_map) gomap" where
  "sampleUpdate = [(Key OnuGClassID 0, [(''AdministrativeState'', VU8 1)])]"

text \<open>A platform that refuses the fifth call, and a transaction that does not commit.\<close>

abbreviation samplePlatform :: "trace applier option" where
  "samplePlatform \<equiv> Some (tracedApplier (\<lambda>log _. length log \<noteq> 4))"

abbreviation sampleTransaction :: "trace CommandTransaction" where
  "sampleTransaction \<equiv> tracedTransaction (\<lambda>_. False) (\<lambda>_. True)"

theorem platform_follows_store_witness:
  "case execAll sampleClasses [OpCreate 171 1 sampleAttrs, OpCommand sampleUpdate (Some sampleTransaction), OpReset]
       (sampleStore samplePlatform) (sampleLog (sampleStore samplePlatform)) of
     (s', log') \<Rightarrow> agrees s' log' \<or> (\<exists>done rest.
       [OpCreate 171 1 sampleAttrs, OpCommand sampleUpdate (Some sampleTransaction), OpReset] = done @ rest
       \<and> rollback_refused (snd (execAll sampleClasses done (sampleStore samplePlatform)
            (sampleLog (sampleStore samplePlatform)))))"
  by (rule platform_follows_store [OF applier_sample sampleLog_agrees]) auto

lemma sample_command:
  "case updateByCommand sampleClasses sampleUpdate (Some sampleTransaction) (sampleStore samplePlatform) [] of
     (r, s', log') \<Rightarrow> r \<noteq> Ok () \<and> length log' = 4"
  by code_simp

theorem command_transaction_protocol_witness:
  "\<exists>r s' log' calls x ch old.
     updateByCommand sampleClasses sampleUpdate (Some sampleTransaction) (sampleStore samplePlatform) [] = (r, s', log')
     \<and> length log' = 4 \<and> log' = [] @ calls \<and> x \<in> {Aborted, AbortFailed}
     \<and> (if r = Ok () then
         (calls = [Committed] \<and> s' = sampleStore samplePlatform)
         \<or> (calls = [Applied ch, Committed] \<and> shows_store s' ch
            \<and> dataSync s' = nextDataSync (sampleStore samplePlatform))
       else s' = sampleStore samplePlatform \<and> shows_store (sampleStore samplePlatform) old
         \<and> calls \<in> {[x], [CommitFailed, x], [Refused ch, x], [Applied ch, CommitFailed, x, Applied old],
             [Applied ch, CommitFailed, x, Refused old]})"
proof -
  obtain r s' log' where
    e: "updateByCommand sampleClasses sampleUpdate (Some sampleTransaction) (sampleStore samplePlatform) [] = (r, s', log')"
    by (cases "updateByCommand sampleClasses sampleUpdate (Some sampleTransaction) (sampleStore samplePlatform) []")
  moreover have "length log' = 4" using sample_command by (simp add: e)
  ultimately show ?thesis using command_transaction_protocol [OF applier_sample e] by blast
qed

text \<open>
  C21. A successful Set of an instance other than ONU data writes exactly the attributes of the
  request: of the attributes other than the entity identifier each that is requested has the value
  given, every other one is as before, and so is the origin. (A Set of ONU data also advances the MIB
  data sync counter, as every command does; ManagedEntityId is no attribute of the request.)
\<close>
theorem set_writes_exactly:
  assumes "Set classes k attrs s w = (Ok (), s', w')" "store_inv classes s"
    and "library classes" "gm_wf attrs" "k \<noteq> onuDataKey"
  shows "\<exists>i i'. map_of (current s) k = Some i \<and> map_of (current s') k = Some i' \<and> Origin i' = Origin i
    \<and> (\<forall>name. name = ManagedEntityID \<or> map_of (Attributes i') name
        = (case map_of attrs name of Some v \<Rightarrow> Some v | None \<Rightarrow> map_of (Attributes i) name))"
  using Set_writes [OF assms] by blast

text \<open>The sample store with an extended VLAN instance that the OLT has created.\<close>

abbreviation sampleNew :: "nat Store" where "sampleNew \<equiv> sampleStore None"

abbreviation sampleCreated :: "nat Store" where
  "sampleCreated \<equiv> fst (execAll sampleClasses [OpCreate 171 1 sampleAttrs] (sampleStore None) 0)"

lemma sample_inv: "store_inv sampleClasses (sampleStore apply)"
  by (rule NewWithOptions_inv [OF sampleStore_new]) code_simp

lemma sampleCreated_inv: "store_inv sampleClasses sampleCreated"
  by (rule execAll_inv [OF library_sample _ sample_inv]) code_simp

lemma outcome_unitD: "(case x of (r, s, w) \<Rightarrow> r = Ok ()) \<Longrightarrow> \<exists>s w. x = (Ok (), s, w)"
  by (cases x) simp

theorem set_writes_exactly_witness:
  "\<exists>s' w'. Set sampleClasses sampleMe [(''DownstreamMode'', VU8 3)] sampleCreated 0 = (Ok (), s', w')
     \<and> (\<exists>i i'. map_of (current sampleCreated) sampleMe = Some i \<and> map_of (current s') sampleMe = Some i'
          \<and> Origin i' = Origin i
          \<and> (\<forall>name. name = ManagedEntityID \<or> map_of (Attributes i') name
              = (case map_of [(''DownstreamMode'', VU8 3)] name of Some v \<Rightarrow> Some v
                 | None \<Rightarrow> map_of (Attributes i) name)))"
proof -
  have "case Set sampleClasses sampleMe [(''DownstreamMode'', VU8 3)] sampleCreated (0 :: nat) of (r, s, w) \<Rightarrow> r = Ok ()"
    by code_simp
  from outcome_unitD [OF this] obtain s' w' where
    e: "Set sampleClasses sampleMe [(''DownstreamMode'', VU8 3)] sampleCreated (0 :: nat) = (Ok (), s', w')" by blast
  have "sampleMe \<noteq> onuDataKey" by (simp add: sampleMe_def onuDataKey_def)
  from set_writes_exactly [OF e sampleCreated_inv library_sample _ this] e show ?thesis by (simp add: gm_wf_def)
qed

lemma Create_Ok:
  assumes "Create classes c e attrs s w = (Ok (), s', w')" "gm_wf attrs"
  shows "map_of (current s) (Key c e) = None" "dataSync s' = nextDataSync s"
    and "\<exists>i. current s' = setDataSync (nextDataSync s) (AList.update (Key c e) i (current s))
      \<and> Origin i = OriginOLT \<and> createdByOlt (classDefinition classes c)"
proof -
  from assms(1) obtain i where i: "newInstance classes s c e attrs = Ok i"
    and co: "commitLocked OperationCreate None (Some i) (AList.update (Key c e) i (current s)) (nextDataSync s) s w
      = (Ok (), s', w')"
    by (auto simp: Create_def attempt_def Let_def split: outcome.splits)
  note n = newInstance_Ok [OF i assms(2)]
  from n commitLocked_cases [OF co] show "map_of (current s) (Key c e) = None" "dataSync s' = nextDataSync s"
    "\<exists>i. current s' = setDataSync (nextDataSync s) (AList.update (Key c e) i (current s))
      \<and> Origin i = OriginOLT \<and> createdByOlt (classDefinition classes c)" by auto
qed

lemma Delete_Ok:
  assumes "Delete classes k s w = (Ok (), s', w')"
  shows "\<exists>i. map_of (current s) k = Some i \<and> Origin i \<noteq> OriginONU" "dataSync s' = nextDataSync s"
    and "current s' = setDataSync (nextDataSync s) (AList.delete k (current s))"
  using assms
  by (auto simp: Delete_def deletable_def attempt_def bindR_eq_Ok split: outcome.splits option.splits if_splits
      dest!: commitLocked_cases)

text \<open>
  C22. The life of an instance: a successful Create finds no such instance, makes one owned by the
  OLT of a class the OLT may create, and a Delete that succeeds afterwards removes it and
  restores every instance (ONU data apart, which shows the counter two steps further); what Delete
  removes is never an instance of the factory MIB.
\<close>
theorem create_delete_cycle:
  assumes "store_inv classes s" "gm_wf attrs"
    and "Create classes c e attrs s w = (Ok (), s1, w1)" "Delete classes (Key c e) s1 w1 = (Ok (), s2, w2)"
  shows "map_of (current s) (Key c e) = None \<and> map_of (factory s2) (Key c e) = None
     \<and> (\<exists>i. map_of (current s1) (Key c e) = Some i \<and> Origin i = OriginOLT)
     \<and> createdByOlt (classDefinition classes c)
     \<and> dataSync s2 = incrementDataSync (incrementDataSync (dataSync s))
     \<and> (\<forall>k. k = onuDataKey \<or> map_of (current s2) k = map_of (current s) k)"
proof -
  note cr = Create_Ok [OF assms(3,2)] and de = Delete_Ok [OF assms(4)]
  from cr(3) obtain i where i: "current s1 = setDataSync (nextDataSync s) (AList.update (Key c e) i (current s))"
    "Origin i = OriginOLT" "createdByOlt (classDefinition classes c)" by blast
  have f: "factory s2 = factory s"
    using exec_effect [of s classes "OpCreate c e attrs" w] exec_effect [of s1 classes "OpDelete (Key c e)" w1] assms(3,4)
    by (auto simp: effect_def) (metis Store.select_convs(1) Store.surjective Store.update_convs(2,3))
  from assms(1) cr(1) have "map_of (factory s) (Key c e) = None" by (auto simp: store_inv_def instances_inv_def)
  moreover have "\<exists>j. map_of (current s1) (Key c e) = Some j \<and> Origin j = OriginOLT"
    using i by (cases "Key c e = onuDataKey") (auto simp: setDataSync_def update_conv' split: option.split)
  moreover have "map_of (current s2) k = map_of (current s) k" if "k \<noteq> onuDataKey" for k
    using that i(1) de(3) cr(1) by (simp add: map_of_setDataSync update_conv' delete_conv')
  ultimately show ?thesis using f cr(1,2) de(2) i(3) by (auto simp: nextDataSync_def)
qed

theorem create_delete_cycle_witness:
  "\<exists>s1 s2 w1 w2. Create sampleClasses 171 1 sampleAttrs sampleNew 0 = (Ok (), s1, w1)
     \<and> Delete sampleClasses (Key 171 1) s1 w1 = (Ok (), s2, w2)
     \<and> map_of (current sampleNew) (Key 171 1) = None \<and> map_of (factory s2) (Key 171 1) = None
     \<and> (\<exists>i. map_of (current s1) (Key 171 1) = Some i \<and> Origin i = OriginOLT)
     \<and> createdByOlt (classDefinition sampleClasses 171)
     \<and> dataSync s2 = incrementDataSync (incrementDataSync (dataSync sampleNew))
     \<and> (\<forall>k. k = onuDataKey \<or> map_of (current s2) k = map_of (current sampleNew) k)"
proof -
  have "case Create sampleClasses 171 1 sampleAttrs sampleNew 0 of
      (r, s, w) \<Rightarrow> r = Ok () \<and> (case Delete sampleClasses (Key 171 1) s w of (r, s, w) \<Rightarrow> r = Ok ())"
    by code_simp
  then obtain s1 w1 s2 w2 where
    e: "Create sampleClasses 171 1 sampleAttrs sampleNew 0 = (Ok (), s1, w1)"
      "Delete sampleClasses (Key 171 1) s1 w1 = (Ok (), s2, w2)"
    by (auto split: prod.splits)
  have "gm_wf sampleAttrs" by code_simp
  from create_delete_cycle [OF sample_inv this e] e show ?thesis by blast
qed

lemma map_of_copyAttributes:
  "map_of (Attributes (copyAttributes names source target)) n =
     (if n \<in> set names \<and> map_of (Attributes source) n \<noteq> None then map_of (Attributes source) n
      else map_of (Attributes target) n)"
  unfolding copyAttributes_def
  by (induction names arbitrary: target) (auto simp: update_conv' split: option.split)

text \<open>
  C23. A successful reset brings back the factory MIB with counter 0: every instance is the factory's
  and nothing else is left, except that ONU data shows the counter and that the ONU3-G instance
  keeps the five attributes of its history (restart reason, snapshot counters, tables) that it had;
  a reset the platform refuses changes nothing.
\<close>
theorem reset_restores_factory:
  "case Reset s w of (r, s', _) \<Rightarrow>
     if r = Ok () then
       dataSync s' = 0
       \<and> (\<forall>k. k = onuDataKey \<or> k = onu3Key \<or> map_of (current s') k = map_of (factory s) k)
       \<and> (case (map_of (current s) onu3Key, map_of (factory s) onu3Key) of
            (Some old, Some new) \<Rightarrow> (\<exists>i. map_of (current s') onu3Key = Some i \<and> Origin i = Origin new
              \<and> (\<forall>n. map_of (Attributes i) n =
                   (if n \<in> set onu3StateNames \<and> map_of (Attributes old) n \<noteq> None
                    then map_of (Attributes old) n else map_of (Attributes new) n)))
          | _ \<Rightarrow> map_of (current s') onu3Key = map_of (factory s) onu3Key)
     else s' = s"
proof (cases "Reset s w")
  case (fields r s' w')
  have keys: "onu3Key \<noteq> onuDataKey" by (simp add: onu3Key_def onuDataKey_def)
  from commitLocked_cases [OF fields [unfolded Reset_def]] have
    "r \<noteq> Ok () \<and> s' = s \<or> r = Ok () \<and> s' = s\<lparr>current := setDataSync 0 (preserveONU3State (current s) (factory s)),
      dataSync := 0\<rparr>" by auto
  then show ?thesis
  proof
    assume r: "r = Ok () \<and> s' = s\<lparr>current := setDataSync 0 (preserveONU3State (current s) (factory s)), dataSync := 0\<rparr>"
    then have cur: "map_of (current s') k = map_of (preserveONU3State (current s) (factory s)) k" if "k \<noteq> onuDataKey" for k
      using that by (simp add: map_of_setDataSync)
    have "map_of (current s') k = map_of (factory s) k" if "k \<noteq> onuDataKey" "k \<noteq> onu3Key" for k
      using cur [OF that(1)] that(2) by (simp add: preserveONU3State_def update_conv' split: option.split)
    then have others: "\<forall>k. k = onuDataKey \<or> k = onu3Key \<or> map_of (current s') k = map_of (factory s) k" by blast
    have onu3: "case (map_of (current s) onu3Key, map_of (factory s) onu3Key) of
            (Some old, Some new) \<Rightarrow> (\<exists>i. map_of (current s') onu3Key = Some i \<and> Origin i = Origin new
              \<and> (\<forall>n. map_of (Attributes i) n =
                   (if n \<in> set onu3StateNames \<and> map_of (Attributes old) n \<noteq> None
                    then map_of (Attributes old) n else map_of (Attributes new) n)))
          | _ \<Rightarrow> map_of (current s') onu3Key = map_of (factory s) onu3Key"
      unfolding cur [OF keys]
      by (auto simp: preserveONU3State_def update_conv' map_of_copyAttributes split: option.split)
    have ok: "r = Ok ()" "dataSync s' = 0" using r by simp_all
    show ?thesis
      unfolding fields prod.case ok(1) by (simp only: refl if_True) (intro conjI ok(2) others onu3 [unfolded prod.case])
  qed (use fields in simp)
qed

end
