(* ===== verification/MibStateProofs.thy ===== *)
theory MibStateProofs
  imports MibState MibContract
begin

unbundle bit_operations_syntax

text \<open>
  The persisted MIB: values survive the document, a store built from a document satisfies the MIB
  invariant whatever the document says, an exported store comes back as it was, and the recovery of
  the ONU3-G history takes nothing else from the document.
\<close>

section \<open>Values\<close>

lemma unat_widened:
  assumes "LENGTH('a) \<le> 64"
  shows "unat (ucast (v :: 'a::len word) :: u64) = unat v"
proof -
  have "unat v < 2 ^ LENGTH('a)" by (rule unsigned_less)
  also have "\<dots> \<le> 2 ^ 64" using assms by (rule power_increasing) simp
  finally show ?thesis by (simp add: unsigned_ucast_eq take_bit_nat_eq_self)
qed

lemma ucast_bound:
  "(ucast (v :: u8) :: u64) \<le> 0xff" "(ucast (w :: u16) :: u64) \<le> 0xffff" "(ucast (x :: u32) :: u64) \<le> 0xffffffff"
  using unsigned_less [of v, where 'a = nat] unsigned_less [of w, where 'a = nat] unsigned_less [of x, where 'a = nat]
  by (simp_all add: word_le_nat_alt unat_widened)

lemma ucast_back:
  "(ucast (ucast (v :: u8) :: u64) :: u8) = v" "(ucast (ucast (w :: u16) :: u64) :: u16) = w"
  "(ucast (ucast (x :: u32) :: u64) :: u32) = x"
  by (auto intro!: bit_word_eqI simp: bit_simps)

lemma foldR_narrow:
  fixes vs :: "'a::len word list"
  assumes "\<And>v :: 'a word. (ucast v :: u64) \<le> limit" "\<And>v :: 'a word. ucast (ucast v :: u64) = v"
  shows "foldR (narrowValue limit format) (unsignedValues vs) done = Ok (done @ vs)"
  by (induction vs arbitrary: "done") (auto simp: unsignedValues_def narrowValue_def assms not_less)

lemma narrow [simp]:
  "foldR (narrowValue 0xffff format) (unsignedValues (ws :: u16 list)) done = Ok (done @ ws)"
  "foldR (narrowValue 0xffffffff format) (unsignedValues (xs :: u32 list)) done' = Ok (done' @ xs)"
  by (rule foldR_narrow; simp only: ucast_bound ucast_back)+

lemma ucast_fits [simp]:
  "\<not> 0xff < (ucast (v :: u8) :: u64)" "\<not> 0xffff < (ucast (w :: u16) :: u64)"
  "\<not> 0xffffffff < (ucast (x :: u32) :: u64)"
  by (simp_all only: not_less ucast_bound)

lemma decode_encode:
  assumes "encodeStateAttribute n v = Ok a"
  shows "decodeStateAttribute a = (case v of
     VTable t \<Rightarrow> if NumRows t < 0 then Err (Errorf ''table row count %d is invalid'' [AInt (NumRows t)]) else Ok v
   | _ \<Rightarrow> Ok v)"
  using assms by (cases v) (auto simp: decodeStateAttribute_def noAttribute_def ucast_back)

lemma encode_Name: "encodeStateAttribute n v = Ok a \<Longrightarrow> Name a = n"
  by (cases v) (auto simp: noAttribute_def)

section \<open>Documents\<close>

lemma foldR_collect:
  assumes "foldR (\<lambda>x acc. bindR (f x) (\<lambda>y. Ok (acc @ [y]))) xs acc = Ok ys"
  shows "\<exists>zs. ys = acc @ zs \<and> list_all2 (\<lambda>x y. f x = Ok y) xs zs"
  using assms
proof (induction xs arbitrary: acc)
  case (Cons x xs)
  then obtain y where y: "f x = Ok y" and "foldR (\<lambda>x acc. bindR (f x) (\<lambda>y. Ok (acc @ [y]))) xs (acc @ [y]) = Ok ys"
    by (auto simp: bindR_eq_Ok)
  with Cons.IH obtain zs where "ys = (acc @ [y]) @ zs" "list_all2 (\<lambda>x y. f x = Ok y) xs zs" by blast
  with y show ?case by (intro exI [of _ "y # zs"]) simp
qed simp

definition decoded :: "StateAttribute \<Rightarrow> string \<times> attr_value \<Rightarrow> bool" where
  "decoded a nv = (fst nv = Name a \<and> decodeStateAttribute a = Ok (snd nv))"

lemma decodeAttribute_append:
  "decodeAttribute key a attrs = Ok attrs' \<longleftrightarrow>
     Name a \<noteq> [] \<and> Name a \<notin> fst ` set attrs \<and> (\<exists>v. decodeStateAttribute a = Ok v \<and> attrs' = attrs @ [(Name a, v)])"
  by (auto simp: decodeAttribute_def bindR_eq_Ok mapErr_eq_Ok map_of_eq_None_iff update_append_new)

lemma decode_attributes:
  assumes "foldR (decodeAttribute key) as0 attrs = Ok attrs'" "gm_wf attrs"
  shows "gm_wf attrs' \<and> (\<exists>zs. attrs' = attrs @ zs \<and> list_all2 decoded as0 zs)"
  using assms
proof (induction as0 arbitrary: attrs)
  case (Cons a as0)
  from Cons.prems(1) obtain v where a: "Name a \<notin> fst ` set attrs" "decodeStateAttribute a = Ok v"
    and rest: "foldR (decodeAttribute key) as0 (attrs @ [(Name a, v)]) = Ok attrs'"
    by (auto simp: bindR_eq_Ok decodeAttribute_append)
  from Cons.prems(2) a(1) have "gm_wf (attrs @ [(Name a, v)])" by (auto simp: gm_wf_def)
  from Cons.IH [OF rest this] obtain zs where "gm_wf attrs'" "list_all2 decoded as0 zs"
    "attrs' = (attrs @ [(Name a, v)]) @ zs" by blast
  moreover have "decoded a (Name a, v)" using a(2) by (simp add: decoded_def)
  ultimately show ?case by (intro conjI exI [of _ "(Name a, v) # zs"]) simp_all
qed simp

text \<open>What a document says of an instance, and what decoding makes of it.\<close>

definition decodes :: "StateInstance \<Rightarrow> Instance \<Rightarrow> bool" where
  "decodes enc i = (ikey i = stateKey enc \<and> Origin i = SIOrigin enc \<and> gm_wf (Attributes i)
     \<and> list_all2 decoded (SIAttributes enc) (Attributes i))"

lemma decodeInstance_append:
  "decodeInstance enc done = Ok out \<longleftrightarrow>
     stateKey enc \<notin> ikey ` set done \<and> SIOrigin enc \<in> {OriginONU, OriginOLT}
     \<and> (\<exists>attrs. foldR (decodeAttribute (stateKey enc)) (SIAttributes enc) [] = Ok attrs
          \<and> out = done @ [\<lparr>ikey = stateKey enc, Attributes = attrs, Origin = SIOrigin enc\<rparr>])"
  by (auto simp: decodeInstance_def stateKey_def Let_def bindR_eq_Ok)

lemma decode_instances:
  assumes "foldR decodeInstance encs done = Ok insts" "distinct (map ikey done)"
  shows "distinct (map ikey insts) \<and> (\<exists>zs. insts = done @ zs \<and> list_all2 decodes encs zs)"
  using assms
proof (induction encs arbitrary: "done")
  case (Cons enc encs)
  let ?key = "stateKey enc"
  from Cons.prems(1) obtain attrs where new: "?key \<notin> ikey ` set done"
    and attrs: "foldR (decodeAttribute ?key) (SIAttributes enc) [] = Ok attrs"
    and rest: "foldR decodeInstance encs (done @ [\<lparr>ikey = ?key, Attributes = attrs, Origin = SIOrigin enc\<rparr>]) = Ok insts"
    by (auto simp: bindR_eq_Ok decodeInstance_append)
  from decode_attributes [OF attrs] have
    d: "decodes enc \<lparr>ikey = ?key, Attributes = attrs, Origin = SIOrigin enc\<rparr>" by (simp add: decodes_def)
  from Cons.IH [OF rest] Cons.prems(2) new obtain zs where "distinct (map ikey insts)" "list_all2 decodes encs zs"
    "insts = (done @ [\<lparr>ikey = ?key, Attributes = attrs, Origin = SIOrigin enc\<rparr>]) @ zs" by auto
  with d show ?case by (intro conjI exI [of _ "\<lparr>ikey = ?key, Attributes = attrs, Origin = SIOrigin enc\<rparr> # zs"]) simp_all
qed simp

lemma decodeState_Ok:
  assumes "decodeState state = Ok insts"
  shows "distinct (map ikey insts)" "list_all2 decodes (Instances state) insts"
  using assms decode_instances [of "Instances state" "[]" insts] by (auto simp: decodeState_def split: if_splits)

section \<open>Export\<close>

definition encodes :: "Instance \<Rightarrow> StateInstance \<Rightarrow> bool" where
  "encodes i enc = (stateKey enc = ikey i \<and> SIOrigin enc = Origin i
     \<and> (\<exists>atts. SIAttributes enc = sort_key Name atts
          \<and> list_all2 (\<lambda>nv a. encodeStateAttribute (fst nv) (snd nv) = Ok a) (Attributes i) atts))"

lemma encode_instances:
  assumes "foldR encodeInstance snapshot [] = Ok encs"
  shows "list_all2 encodes snapshot encs"
proof -
  let ?enc = "\<lambda>i (name, val). mapErr (\<lambda>e. Errorf ''encode ME %v/%#x attribute %s: %w'' (keyArgs (ikey i) @ [AStr name, AErr e]))
    (encodeStateAttribute name val)"
  let ?f = "\<lambda>i. bindR (foldR (\<lambda>x acc. bindR (?enc i x) (\<lambda>y. Ok (acc @ [y]))) (Attributes i) [])
    (\<lambda>atts. Ok \<lparr>SIClassID = ClassID (ikey i), SIEntityID = EntityID (ikey i), SIOrigin = Origin i,
       SIAttributes = sort_key Name atts\<rparr>)"
  have "encodeInstance = (\<lambda>i acc. bindR (?f i) (\<lambda>y. Ok (acc @ [y])))"
    by (simp add: fun_eq_iff encodeInstance_def bindR_assoc case_prod_unfold)
  with foldR_collect [of ?f snapshot "[]" encs] assms have "list_all2 (\<lambda>i y. ?f i = Ok y) snapshot encs" by simp
  then show ?thesis
  proof (rule list_all2_mono)
    fix i :: Instance and enc assume "?f i = Ok enc"
    then obtain atts where loop: "foldR (\<lambda>x acc. bindR (?enc i x) (\<lambda>y. Ok (acc @ [y]))) (Attributes i) [] = Ok atts"
      and enc: "enc = \<lparr>SIClassID = ClassID (ikey i), SIEntityID = EntityID (ikey i), SIOrigin = Origin i,
       SIAttributes = sort_key Name atts\<rparr>" by (auto simp: bindR_eq_Ok)
    from foldR_collect [OF loop] have "list_all2 (\<lambda>nv a. encodeStateAttribute (fst nv) (snd nv) = Ok a) (Attributes i) atts"
      by (auto simp: mapErr_eq_Ok case_prod_unfold)
    with enc show "encodes i enc" by (auto simp: encodes_def stateKey_def)
  qed
qed

lemma all2_insort:
  assumes "list_all2 R xs ys" "R x y" "\<And>x y. R x y \<Longrightarrow> f x = g y"
  shows "list_all2 R (insort_key f x xs) (insort_key g y ys)"
  using assms(1)
proof (induction rule: list_all2_induct)
  case (Cons x' xs y' ys)
  with assms(2,3) have "f x' = g y'" "f x = g y" by blast+
  with Cons assms(2) show ?case by simp
qed (simp add: assms(2))

lemma all2_sort:
  assumes "list_all2 R xs ys" "\<And>x y. R x y \<Longrightarrow> f x = g y"
  shows "list_all2 R (sort_key f xs) (sort_key g ys)"
  using assms(1) by (induction rule: list_all2_induct) (auto intro: all2_insort assms(2))

lemma all2_member:
  assumes "list_all2 R xs ys"
  shows "x \<in> set xs \<Longrightarrow> \<exists>y\<in>set ys. R x y" and "y \<in> set ys \<Longrightarrow> \<exists>x\<in>set xs. R x y"
  using assms by (induction rule: list_all2_induct) auto

definition same_content :: "Instance \<Rightarrow> Instance \<Rightarrow> bool" where
  "same_content i j = (ikey j = ikey i \<and> Origin j = Origin i \<and> map_of (Attributes j) = map_of (Attributes i))"

lemma encoded_decoded:
  assumes "encodes i enc" "decodes enc j" "gm_wf (Attributes i)"
  shows "same_content i j"
proof -
  from assms(1) obtain atts where atts: "SIAttributes enc = sort_key Name atts"
    and enc: "list_all2 (\<lambda>nv a. encodeStateAttribute (fst nv) (snd nv) = Ok a) (Attributes i) atts"
    by (auto simp: encodes_def)
  from assms(2) atts have dec: "list_all2 decoded (sort_key Name atts) (Attributes j)" "gm_wf (Attributes j)"
    by (simp_all add: decodes_def)
  have pair: "nv = nv'" if "encodeStateAttribute (fst nv) (snd nv) = Ok a" "decoded a nv'" for nv nv' a
    using decode_encode [OF that(1)] encode_Name [OF that(1)] that(2)
    by (auto simp: decoded_def prod_eq_iff split: attr_value.splits if_splits)
  have "set (Attributes j) = set (Attributes i)"
  proof (intro equalityI subsetI)
    fix nv assume "nv \<in> set (Attributes j)"
    from all2_member(2) [OF dec(1) this] obtain a where "a \<in> set atts" "decoded a nv" by auto
    moreover from all2_member(2) [OF enc this(1)] obtain nv' where "nv' \<in> set (Attributes i)"
      "encodeStateAttribute (fst nv') (snd nv') = Ok a" by blast
    ultimately show "nv \<in> set (Attributes i)" using pair by blast
  next
    fix nv assume "nv \<in> set (Attributes i)"
    from all2_member(1) [OF enc this] obtain a where a: "a \<in> set atts" "encodeStateAttribute (fst nv) (snd nv) = Ok a"
      by blast
    with all2_member(1) [OF dec(1), of a] obtain nv' where "nv' \<in> set (Attributes j)" "decoded a nv'" by auto
    with pair [OF a(2)] show "nv \<in> set (Attributes j)" by blast
  qed
  with assms(3) dec(2) have "map_of (Attributes j) = map_of (Attributes i)"
    by (simp add: gm_wf_def map_of_inject_set)
  with assms(1,2) show ?thesis by (simp add: encodes_def decodes_def same_content_def)
qed

lemma export_decodes:
  assumes "ExportState snapshot sync domains = Ok st" "list_all (gm_wf \<circ> Attributes) snapshot"
  shows "\<exists>insts. decodeState st = Ok insts \<and> list_all2 same_content (sort_key ikey snapshot) insts"
    and "SyncValue st = sync" "Domain st = (case domains of [d] \<Rightarrow> d | _ \<Rightarrow> [])"
proof -
  from assms(1) obtain encs where encs: "foldR encodeInstance snapshot [] = Ok encs" and v: "Validate st = None"
    and st: "Instances st = sort_key stateKey encs" "SyncValue st = sync" "Domain st = (case domains of [d] \<Rightarrow> d | _ \<Rightarrow> [])"
    by (auto simp: ExportState_def bindR_eq_Ok Let_def split: if_splits)
  show "SyncValue st = sync" "Domain st = (case domains of [d] \<Rightarrow> d | _ \<Rightarrow> [])" by (fact st)+
  from v consider insts where "decodeState st = Ok insts" | "decodeState st = Panic"
    by (auto simp: Validate_def split: outcome.splits)
  then show "\<exists>insts. decodeState st = Ok insts \<and> list_all2 same_content (sort_key ikey snapshot) insts"
  proof cases
    case (1 insts)
    have "list_all2 encodes (sort_key ikey snapshot) (Instances st)"
      unfolding st(1) by (rule all2_sort [OF encode_instances [OF encs]]) (simp add: encodes_def)
    moreover have "list_all2 decodes (Instances st) insts" by (rule decodeState_Ok(2) [OF 1])
    ultimately have "list_all2 (\<lambda>i j. gm_wf (Attributes i) \<longrightarrow> same_content i j) (sort_key ikey snapshot) insts"
      by (rule list_all2_trans [rotated]) (blast intro: encoded_decoded)
    moreover have "\<forall>i\<in>set (sort_key ikey snapshot). gm_wf (Attributes i)"
      using assms(2) by (simp add: list_all_iff)
    ultimately show ?thesis
      using 1 by (auto elim!: list.rel_mono_strong)
  next
    case 2
    have narrow: "foldR (narrowValue limit format) vs ws \<noteq> Panic" for limit format vs and ws :: "'b::len word list"
      by (rule foldR_no_panic [where P = "\<lambda>_. True"]) (simp_all add: narrowValue_def)
    have "foldR (decodeAttribute key) as0 attrs \<noteq> Panic" for key as0 attrs
      by (rule foldR_no_panic [where P = "\<lambda>_. True"])
         (simp_all add: decodeAttribute_def decodeStateAttribute_def bindR_eq_Panic narrow)
    then have "foldR decodeInstance encs done \<noteq> Panic" for encs "done"
      by (intro foldR_no_panic [where P = "\<lambda>_. True"])
         (simp_all add: decodeInstance_def Let_def bindR_eq_Panic)
    with 2 show ?thesis by (simp add: decodeState_def split: if_splits)
  qed
qed

section \<open>Restoring\<close>

definition restored_as :: "class_table \<Rightarrow> 'w Store \<Rightarrow> Instance \<Rightarrow> Key \<times> Instance \<Rightarrow> bool" where
  "restored_as classes s j entry = (fst entry = ikey j \<and> supportsClass s (ClassID (ikey j))
     \<and> normalize classes s j = Ok (snd entry) \<and> checkOrigin classes s j (snd entry) = None)"

lemma restoreInstance_append:
  assumes "restoreInstance classes s j insts = Ok out" "gm_wf (Attributes j)"
  shows "ikey j \<notin> fst ` set insts \<and> (\<exists>entry. restored_as classes s j entry \<and> out = insts @ [entry])"
proof -
  from assms(1) obtain n where new: "ikey j \<notin> fst ` set insts" and n: "normalize classes s j = Ok n"
    and ok: "supportsClass s (ClassID (ikey j))" "checkOrigin classes s j n = None"
    and out: "out = AList.update (ikey n) (n\<lparr>Origin := Origin j\<rparr>) insts"
    by (auto simp: restoreInstance_def bindR_eq_Ok Let_def map_of_eq_None_iff simp del: split_paired_Ex split: if_splits)
  note nk = normalize_Ok(1,2) [OF n assms(2)]
  have "n\<lparr>Origin := Origin j\<rparr> = n" by (simp flip: nk(2))
  with new n ok out nk(1) show ?thesis
    by (intro conjI exI [of _ "(ikey j, n)"]) (simp_all add: restored_as_def update_append_new)
qed

lemma restore_loop:
  assumes "foldR (restoreInstance classes s) js insts = Ok out" "gm_wf insts" "list_all (gm_wf \<circ> Attributes) js"
  shows "gm_wf out \<and> (\<exists>zs. out = insts @ zs \<and> list_all2 (restored_as classes s) js zs)"
  using assms
proof (induction js arbitrary: insts)
  case (Cons j js)
  from Cons.prems(1) obtain mid where mid: "restoreInstance classes s j insts = Ok mid"
    and rest: "foldR (restoreInstance classes s) js mid = Ok out" by (auto simp: bindR_eq_Ok)
  from restoreInstance_append [OF mid] Cons.prems(3) obtain entry where
    e: "ikey j \<notin> fst ` set insts" "restored_as classes s j entry" "mid = insts @ [entry]" by auto
  with Cons.prems(2) have "gm_wf mid" by (auto simp: gm_wf_def restored_as_def)
  from Cons.IH [OF rest this] Cons.prems(3) e obtain zs where "gm_wf out" "out = (insts @ [entry]) @ zs"
    "list_all2 (restored_as classes s) js zs" by auto
  with e(2) show ?case by (intro conjI exI [of _ "entry # zs"]) simp_all
qed simp

lemma checkFactory_loop:
  assumes "foldR checkFactory es insts = Ok out" "gm_wf insts" "\<And>k i. (k, i) \<in> set es \<Longrightarrow> Origin i = OriginONU"
  shows "gm_wf out \<and> map_of insts \<subseteq>\<^sub>m map_of out
    \<and> (\<forall>k\<in>fst ` set es. \<exists>i. map_of out k = Some i \<and> Origin i = OriginONU)
    \<and> (\<forall>k i. map_of out k = Some i \<longrightarrow> map_of insts k = Some i \<or> (k, i) \<in> set es \<and> k = onu3Key \<and> map_of insts k = None)"
  using assms
proof (induction es arbitrary: insts)
  case (Cons e es)
  obtain k i where e: "e = (k, i)" by (cases e)
  from Cons.prems(1) obtain mid where mid: "checkFactory (k, i) insts = Ok mid" and rest: "foldR checkFactory es mid = Ok out"
    by (auto simp: bindR_eq_Ok e)
  have i: "Origin i = OriginONU" using Cons.prems(3) [of k i] by (simp add: e)
  from mid have m: "(mid = insts \<and> (\<exists>j. map_of insts k = Some j \<and> Origin j = OriginONU))
      \<or> (mid = AList.update k i insts \<and> map_of insts k = None \<and> k = onu3Key)"
    by (auto simp: checkFactory_def split: option.splits if_splits)
  with Cons.prems(2) have "gm_wf mid" by auto
  from Cons.IH [OF rest this] Cons.prems(3) have IH: "gm_wf out" "map_of mid \<subseteq>\<^sub>m map_of out"
    "\<forall>k\<in>fst ` set es. \<exists>i. map_of out k = Some i \<and> Origin i = OriginONU"
    "\<forall>k i. map_of out k = Some i \<longrightarrow> map_of mid k = Some i \<or> (k, i) \<in> set es \<and> k = onu3Key \<and> map_of mid k = None"
    by auto
  have sub: "map_of insts \<subseteq>\<^sub>m map_of mid" using m by (auto simp: map_le_def update_conv')
  have k: "\<exists>j. map_of mid k = Some j \<and> Origin j = OriginONU" using m i by (auto simp: update_conv')
  with IH(2) have here: "\<exists>j. map_of out k = Some j \<and> Origin j = OriginONU" by (metis domI map_le_def)
  have "map_of insts k' = Some i' \<or> (k', i') \<in> set (e # es) \<and> k' = onu3Key \<and> map_of insts k' = None"
    if out: "map_of out k' = Some i'" for k' i'
    using IH(4) [rule_format, OF out] m by (cases "k' = k") (auto simp: e update_conv')
  with IH(1,3) map_le_trans [OF sub IH(2)] here e show ?case by auto
qed simp

lemma restored_as_inv:
  assumes "restored_as classes s j (k, i)" "gm_wf (Attributes j)"
  shows "instance_inv classes s k i"
    and "Origin i = OriginONU \<and> map_of (factory s) k \<noteq> None
      \<or> Origin i = OriginOLT \<and> createdByOlt (classDefinition classes (ClassID k))"
proof -
  from assms(1) have n: "normalize classes s j = Ok i" "k = ikey j" "supportsClass s (ClassID k)"
    and o: "checkOrigin classes s j i = None" by (auto simp: restored_as_def)
  show "instance_inv classes s k i" by (rule instance_inv_normalized [OF n(1) assms(2)]) (use n in simp_all)
  have i: "gm_wf (Attributes i)" "ikey i = k" "Origin i = Origin j" using normalize_Ok [OF n(1) assms(2)] n by simp_all
  have "createdByOlt (classDefinition classes (ClassID k))"
    if "normalizedEntityDefinition classes i = Some d" "createdByOlt d" for d
    using that i by (auto simp: normalizedEntityDefinition_def dest!: loadDefinition_Ok(2) split: outcome.splits)
  then show "Origin i = OriginONU \<and> map_of (factory s) k \<noteq> None
      \<or> Origin i = OriginOLT \<and> createdByOlt (classDefinition classes (ClassID k))"
    using o n(2) i(3) by (auto simp: checkOrigin_def Let_def split: if_splits option.splits)
qed

lemma restored_as_cong [simp]:
  "restored_as classes (s\<lparr>current := c, dataSync := d\<rparr>) = restored_as classes s"
proof -
  have "normalize classes (s\<lparr>current := c, dataSync := d\<rparr>) = normalize classes s"
    by (rule ext, rule normalize_cong) simp_all
  moreover have "checkOrigin classes (s\<lparr>current := c, dataSync := d\<rparr>) = checkOrigin classes s"
    by (simp add: fun_eq_iff checkOrigin_def Let_def)
  ultimately show ?thesis by (simp add: fun_eq_iff restored_as_def supportsClass_def)
qed

text \<open>What an accepted document makes of the store.\<close>

lemma NewFromState_Ok:
  assumes new: "NewFromState classes factory0 state options = Ok s" and wf: "list_all (gm_wf \<circ> Attributes) factory0"
  obtains js zs where "decodeState state = Ok js" "list_all2 (restored_as classes s) js zs"
    and "gm_wf (current s)" "gm_wf zs" "map_of zs \<subseteq>\<^sub>m map_of (current s)"
    and "\<And>k i. map_of (current s) k = Some i \<Longrightarrow> map_of zs k = Some i \<or> k = onu3Key \<and> map_of (factory s) k = Some i"
    and "\<And>k. map_of (factory s) k \<noteq> None \<Longrightarrow> \<exists>i. map_of (current s) k = Some i \<and> Origin i = OriginONU"
    and "list_all (gm_wf \<circ> Attributes) js" "factory_inv classes s"
    and "validateRestoredIdentity (factory s) (current s) = None"
    and "\<exists>i. map_of (current s) onuDataKey = Some i \<and> attrOrNil (Attributes i) MibDataSync = VU8 (SyncValue state)"
    and "dataSync s = SyncValue state" "stateDomain s = Domain state"
proof -
  from new obtain s0 js insts0 insts onuData where
    s0: "NewWithOptions classes factory0 options = Ok s0" and js: "decodeState state = Ok js"
    and r: "foldR (restoreInstance classes s0) js [] = Ok insts0"
    and f: "foldR checkFactory (factory s0) insts0 = Ok insts"
    and id: "validateRestoredIdentity (factory s0) insts = None"
    and d: "map_of insts onuDataKey = Some onuData" "attrOrNil (Attributes onuData) MibDataSync = VU8 (SyncValue state)"
    and s: "s = s0\<lparr>current := insts, dataSync := SyncValue state\<rparr>" and dom: "Domain state = OptStateDomain options"
    by (auto simp: NewFromState_def bindR_eq_Ok Let_def split: if_splits option.splits)
  have js_wf: "list_all (gm_wf \<circ> Attributes) js"
    using all2_member(2) [OF decodeState_Ok(2) [OF js]] by (auto simp: list_all_iff decodes_def)
  from restore_loop [OF r gm_wf_Nil js_wf] have z: "gm_wf insts0" "list_all2 (restored_as classes s0) js insts0" by auto
  have fac: "factory_inv classes s0" using NewWithOptions_inv [OF s0 wf] by (simp add: store_inv_def)
  have "\<forall>(k, i)\<in>set (factory s0). Origin i = OriginONU"
    using fac by (auto simp: factory_inv_def gm_wf_def)
  then have c: "gm_wf insts" "map_of insts0 \<subseteq>\<^sub>m map_of insts"
    "\<forall>k\<in>fst ` set (factory s0). \<exists>i. map_of insts k = Some i \<and> Origin i = OriginONU"
    "\<forall>k i. map_of insts k = Some i \<longrightarrow> map_of insts0 k = Some i \<or> (k, i) \<in> set (factory s0) \<and> k = onu3Key"
    using checkFactory_loop [OF f z(1)] by blast+
  have "stateDomain s0 = OptStateDomain options"
  proof -
    have step: "stateDomain s'' = stateDomain s'" if "addFactory classes options i s' = Ok s''" for i and s' s'' :: "'a Store"
      using that by (auto simp: addFactory_def bindR_eq_Ok Let_def split: if_splits option.splits)
    have "stateDomain s'' = stateDomain s'" if "foldR (addFactory classes options) is s' = Ok s''" for "is" and s' s'' :: "'a Store"
      by (rule foldR_invariant [OF that, where P = "\<lambda>t. stateDomain t = stateDomain s'"]) (simp_all add: step)
    with s0 show ?thesis by (fastforce simp: NewWithOptions_def bindR_eq_Ok Let_def split: if_splits)
  qed
  then have sd: "stateDomain s = Domain state" by (simp add: s dom)
  show thesis
  proof (rule that [OF js, of insts0])
    show "list_all2 (restored_as classes s) js insts0" using z(2) by (simp add: s)
    show "map_of insts0 k = Some i \<or> k = onu3Key \<and> map_of (factory s) k = Some i"
      if k: "map_of (current s) k = Some i" for k i
    proof -
      have "map_of insts k = Some i" using k by (simp add: s)
      with c have "map_of insts0 k = Some i \<or> (k, i) \<in> set (factory s0) \<and> k = onu3Key" by blast
      with fac show ?thesis by (auto simp: s factory_inv_def gm_wf_def)
    qed
    show "\<exists>i. map_of (current s) k = Some i \<and> Origin i = OriginONU" if k: "map_of (factory s) k \<noteq> None" for k
    proof -
      have "k \<in> fst ` set (factory s0)" using k by (simp add: s map_of_eq_None_iff)
      with c(3) have "\<exists>i. map_of insts k = Some i \<and> Origin i = OriginONU" by blast
      then show ?thesis by (simp add: s)
    qed
    show "factory_inv classes s" using fac by (simp add: s)
  qed (use c z(1) js_wf id d sd in \<open>simp_all add: s\<close>)
qed

lemma NewFromState_inv:
  assumes new: "NewFromState classes factory0 state options = Ok s" and wf: "list_all (gm_wf \<circ> Attributes) factory0"
  shows "store_inv classes s"
  using NewFromState_Ok [OF assms]
proof -
  from assms obtain js zs where js: "list_all2 (restored_as classes s) js zs" "gm_wf (current s)" "gm_wf zs"
    and cur: "\<And>k i. map_of (current s) k = Some i \<Longrightarrow> map_of zs k = Some i \<or> k = onu3Key \<and> map_of (factory s) k = Some i"
    and fac: "\<And>k. map_of (factory s) k \<noteq> None \<Longrightarrow> \<exists>i. map_of (current s) k = Some i \<and> Origin i = OriginONU"
    and jw: "list_all (gm_wf \<circ> Attributes) js" and fi: "factory_inv classes s"
    and d: "\<exists>i. map_of (current s) onuDataKey = Some i \<and> attrOrNil (Attributes i) MibDataSync = VU8 (SyncValue state)"
      "dataSync s = SyncValue state"
    by (rule NewFromState_Ok) blast
  have each: "instance_inv classes s k i \<and> (if map_of (factory s) k \<noteq> None then Origin i = OriginONU
      else Origin i = OriginOLT \<and> createdByOlt (classDefinition classes (ClassID k)))"
    if k: "map_of (current s) k = Some i" for k i
  proof -
    from cur [OF k] consider "(k, i) \<in> set zs" | "map_of (factory s) k = Some i" by (auto dest: map_of_SomeD)
    then show ?thesis
    proof cases
      case 1
      with all2_member(2) [OF js(1)] obtain j where "j \<in> set js" "restored_as classes s j (k, i)" by blast
      with jw restored_as_inv [of classes s j k i] fac [of k] k show ?thesis by (auto simp: list_all_iff)
    qed (use fi in \<open>auto simp: factory_inv_def\<close>)
  qed
  have "dom (map_of (factory s)) \<subseteq> dom (map_of (current s))" using fac by (auto simp: dom_def)
  moreover have "sync_inv (current s) (dataSync s)"
    using d by (auto simp: sync_inv_def attrOrNil_def split: option.splits)
  ultimately show ?thesis using each js(2) fi by (simp add: store_inv_def instances_inv_def)
qed

section \<open>An exported store comes back\<close>

lemma restored_attributes:
  assumes "restored_as classes s j (k, n)" "gm_wf (Attributes j)" "library classes" "name \<noteq> ManagedEntityID"
  shows "map_of (Attributes n) name = map_of (Attributes j) name" "Origin n = Origin j" "k = ikey j"
  using assms normalize_Ok(2,3) [of classes s j n] by (auto simp: restored_as_def map_of_loaded library_def)

definition same_instance :: "Instance option \<Rightarrow> Instance option \<Rightarrow> bool" where
  "same_instance a b = (case (a, b) of
     (None, None) \<Rightarrow> True
   | (Some i, Some j) \<Rightarrow> Origin j = Origin i
       \<and> (\<forall>name. name = ManagedEntityID \<or> map_of (Attributes j) name = map_of (Attributes i) name)
   | _ \<Rightarrow> False)"

lemma restore_export:
  assumes lib: "library classes" and inv: "store_inv classes s"
    and ex: "ExportState (snapshotInstances (current s)) (dataSync s) [stateDomain s] = Ok st"
    and new: "NewFromState classes factory0 st options = Ok s'" and wf: "list_all (gm_wf \<circ> Attributes) factory0"
    and fac: "factory s' = factory s"
  shows "dataSync s' = dataSync s" "stateDomain s' = stateDomain s" "same_instance (map_of (current s) k) (map_of (current s') k)"
proof -
  note cur = store_inv_simps(1,3) [OF inv]
  have snap: "set (snapshotInstances (current s)) = snd ` set (current s)" by (simp add: snapshotInstances_def)
  have each: "ikey i = k \<and> gm_wf (Attributes i)" if "(k, i) \<in> set (current s)" for k i
    using cur that by (auto simp: instances_inv_def instance_inv_def gm_wf_def)
  have swf: "list_all (gm_wf \<circ> Attributes) (snapshotInstances (current s))"
    using each by (fastforce simp: list_all_iff snap)
  note dec = export_decodes [OF ex swf]
  from new wf obtain js zs where js: "decodeState st = Ok js" and z: "list_all2 (restored_as classes s') js zs"
    and out: "gm_wf zs" "map_of zs \<subseteq>\<^sub>m map_of (current s')"
    and prov: "\<And>k i. map_of (current s') k = Some i \<Longrightarrow> map_of zs k = Some i \<or> k = onu3Key \<and> map_of (factory s') k = Some i"
    and jw: "list_all (gm_wf \<circ> Attributes) js"
    and d: "dataSync s' = SyncValue st" "stateDomain s' = Domain st"
    by (rule NewFromState_Ok) blast
  show "dataSync s' = dataSync s" "stateDomain s' = stateDomain s" using d dec(2,3) by simp_all
  from dec(1) js have same: "list_all2 same_content (sort_key ikey (snapshotInstances (current s))) js" by auto
  show "same_instance (map_of (current s) k) (map_of (current s') k)"
  proof (cases "map_of (current s) k")
    case (Some i)
    then have i: "(k, i) \<in> set (current s)" by (rule map_of_SomeD)
    then have "i \<in> set (sort_key ikey (snapshotInstances (current s)))" by (force simp: snap)
    from all2_member(1) [OF same this] obtain j where j: "j \<in> set js" "same_content i j" by blast
    from all2_member(1) [OF z j(1)] obtain k' n where n: "(k', n) \<in> set zs" "restored_as classes s' j (k', n)"
      by auto
    have jwf: "gm_wf (Attributes j)" using jw j(1) by (simp add: list_all_iff)
    have "k' = k" using n(2) j(2) each [OF i] by (simp add: restored_as_def same_content_def)
    with n(1) out(1) have "map_of zs k = Some n" by (simp add: gm_wf_def)
    with out(2) have "map_of (current s') k = Some n" by (metis domI map_le_def)
    with Some j(2) restored_attributes [OF n(2) jwf lib] n(2) show ?thesis
      using normalize_Ok(2) [of classes s' j n] jwf
      by (auto simp: same_instance_def same_content_def restored_as_def)
  next
    case None
    have "map_of (current s') k = None"
    proof (rule ccontr)
      assume "map_of (current s') k \<noteq> None"
      then obtain n where n: "map_of (current s') k = Some n" by blast
      from prov [OF n] show False
      proof
        assume "map_of zs k = Some n"
        from all2_member(2) [OF z map_of_SomeD [OF this]] obtain j where
          j: "j \<in> set js" "restored_as classes s' j (k, n)" by blast
        from all2_member(2) [OF same j(1)] obtain i where "i \<in> snd ` set (current s)" "same_content i j"
          by (auto simp: snap)
        with each j(2) have "k \<in> fst ` set (current s)" by (force simp: restored_as_def same_content_def)
        with None show False by (simp add: map_of_eq_None_iff)
      next
        assume "k = onu3Key \<and> map_of (factory s') k = Some n"
        with fac cur(1) None show False by (auto simp: instances_inv_def dom_def subset_iff)
      qed
    qed
    with None show ?thesis by (simp add: same_instance_def)
  qed
qed

section \<open>The ONU3-G history\<close>

lemma instanceMap_distinct:
  assumes "distinct (map ikey insts)"
  shows "instanceMap insts = map (\<lambda>i. (ikey i, i)) insts"
proof -
  have "fold (\<lambda>i. AList.update (ikey i) i) insts m = m @ map (\<lambda>i. (ikey i, i)) insts"
    if "distinct (map ikey insts)" "ikey ` set insts \<inter> fst ` set m = {}" for m
    using that by (induction insts arbitrary: m) (auto simp: update_append_new)
  from this [OF assms, of "[]"] show ?thesis by (simp add: instanceMap_def)
qed

lemma normalize0_attributes:
  assumes "normalize0 classes i = Ok i'" "gm_wf (Attributes i)" "library classes"
  shows "ikey i' = ikey i" "Origin i' = Origin i"
    and "name \<noteq> ManagedEntityID \<Longrightarrow> map_of (Attributes i') name = map_of (Attributes i) name"
  using assms by (auto simp: normalize0_def bindR_eq_Ok map_of_loaded library_def Let_def dest!: loadDefinition_Ok(2))

lemma history_merged:
  assumes "mergeHistory classes persisted current0 = Ok i" "gm_wf (Attributes current0)" "library classes"
  shows "ikey i = ikey current0 \<and> Origin i = Origin current0
    \<and> (\<forall>name. name \<in> set historyNames \<or> name = ManagedEntityID \<or> map_of (Attributes i) name = map_of (Attributes current0) name)"
proof -
  from assms(1) obtain p :: Instance where
    n: "normalize0 classes (writeAttributes (map (\<lambda>n. (n, attrOrNil (Attributes p) n)) historyNames) current0) = Ok i"
    by (auto simp: mergeHistory_def bindR_eq_Ok split: if_splits)
  have h: "gm_wf (map (\<lambda>n. (n, attrOrNil (Attributes p) n)) historyNames)"
    by (simp add: gm_wf_def historyNames_def)
  have "map_of (map (\<lambda>n. (n, attrOrNil (Attributes p) n)) historyNames) name = None" if "name \<notin> set historyNames" for name
    using that by (simp add: map_of_eq_None_iff image_image)
  then have "map_of (Attributes i) name = map_of (Attributes current0) name"
    if "name \<notin> set historyNames" "name \<noteq> ManagedEntityID" for name
    using normalize0_attributes(3) [OF n _ assms(3) that(2)] that(1) assms(2) map_of_setAll [OF h]
    by (simp add: writeAttributes_def)
  with normalize0_attributes(1,2) [OF n _ assms(3)] assms(2) show ?thesis by auto
qed

section \<open>Properties\<close>

text \<open>
  A value survives the document: every attribute value but the nil interface is encoded, under
  its name, and the encoding decodes to the same value; only a table with a negative row count,
  which the MIB never holds, is refused on the way back. Neither direction can panic.
\<close>
theorem state_value_roundtrip:
  "case encodeStateAttribute name v of
     Ok a \<Rightarrow> v \<noteq> VNil \<and> Name a = name \<and> decodeStateAttribute a = (case v of
         VTable t \<Rightarrow> if NumRows t < 0 then Err (Errorf ''table row count %d is invalid'' [AInt (NumRows t)]) else Ok v
       | _ \<Rightarrow> Ok v)
   | Err e \<Rightarrow> v = VNil
   | Panic \<Rightarrow> False"
proof (cases "encodeStateAttribute name v")
  case (Ok a)
  then have "v \<noteq> VNil" by (cases v) simp_all
  with Ok decode_encode [OF Ok] encode_Name [OF Ok] show ?thesis by simp
qed (cases v; simp)+

text \<open>
  C24. A persisted document cannot smuggle anything past the invariant: whatever the document says, a
  store that is built from it satisfies the MIB invariant (ONU-created instances are exactly those of
  the factory MIB, OLT-created ones are of classes the OLT may create, the counter agrees with ONU
  data), is of the configured domain, and names the same vendor and serial number as the factory MIB.
\<close>
theorem restored_store_invariant:
  assumes "NewFromState classes factory0 state options = Ok s" "list_all (gm_wf \<circ> Attributes) factory0"
  shows "store_inv classes s \<and> stateDomain s = Domain state \<and> dataSync s = SyncValue state
     \<and> (\<exists>want got. map_of (factory s) onuGKey = Some want \<and> map_of (current s) onuGKey = Some got
          \<and> attrOrNil (Attributes want) ''VendorId'' = attrOrNil (Attributes got) ''VendorId''
          \<and> attrOrNil (Attributes want) ''SerialNumber'' = attrOrNil (Attributes got) ''SerialNumber'')"
proof -
  note inv = NewFromState_inv [OF assms]
  from assms have id: "validateRestoredIdentity (factory s) (current s) = None"
    and d: "dataSync s = SyncValue state" "stateDomain s = Domain state"
    by (rule NewFromState_Ok, blast)+
  from id obtain want got where g: "map_of (factory s) onuGKey = Some want" "map_of (current s) onuGKey = Some got"
    and eq: "attrOrNil (Attributes want) ''VendorId'' = attrOrNil (Attributes got) ''VendorId''"
      "attrOrNil (Attributes want) ''SerialNumber'' = attrOrNil (Attributes got) ''SerialNumber''"
    by (auto simp: validateRestoredIdentity_def identityNames_def split: option.splits if_splits)
  show ?thesis using inv d g eq by blast
qed

lemma NewFromState_factory:
  "NewFromState classes factory0 state options = Ok s' \<Longrightarrow> NewWithOptions classes factory0 options = Ok s
    \<Longrightarrow> factory s' = factory s"
  by (auto simp: NewFromState_def bindR_eq_Ok Let_def split: if_splits option.splits)

lemma execAll_factory: "factory (fst (execAll classes ops s w)) = factory s"
proof (induction ops arbitrary: s w)
  case (Cons op' ops)
  obtain r s' w' where e: "exec classes op' s w = (r, s', w')" by (cases "exec classes op' s w")
  with exec_effect [of s classes op' w] have "s' = s\<lparr>current := current s', dataSync := dataSync s'\<rparr>"
    by (simp add: effect_def)
  then have "factory s' = factory (s\<lparr>current := current s', dataSync := dataSync s'\<rparr>)" by (rule arg_cong)
  then show ?case using Cons.IH [of s' w'] by (simp add: e)
qed simp

text \<open>The document of the sample store, and what it restores to.\<close>

definition sampleState :: State where
  "sampleState = (case ExportState (snapshotInstances (current sampleCreated)) (dataSync sampleCreated) [''onu''] of
     Ok st \<Rightarrow> st | _ \<Rightarrow> undefined)"

definition sampleRestored :: "nat Store" where
  "sampleRestored = (case NewFromState sampleClasses sampleFactory sampleState (sampleOptions None) of
     Ok s \<Rightarrow> s | _ \<Rightarrow> undefined)"

lemma sampleState_exported:
  "ExportState (snapshotInstances (current sampleCreated)) (dataSync sampleCreated) [stateDomain sampleCreated] = Ok sampleState"
proof -
  have "stateDomain sampleCreated = ''onu''" by code_simp
  moreover have "case ExportState (snapshotInstances (current sampleCreated)) (dataSync sampleCreated) [''onu''] of
      Ok _ \<Rightarrow> True | _ \<Rightarrow> False" by code_simp
  ultimately show ?thesis by (simp add: sampleState_def split: outcome.splits)
qed

lemma sampleRestored_new: "NewFromState sampleClasses sampleFactory sampleState (sampleOptions None) = Ok sampleRestored"
proof -
  have "case NewFromState sampleClasses sampleFactory sampleState (sampleOptions (None :: nat applier option)) of
      Ok _ \<Rightarrow> True | _ \<Rightarrow> False" by code_simp
  then show ?thesis by (simp add: sampleRestored_def split: outcome.splits)
qed

lemma sampleFactory_wf: "list_all (gm_wf \<circ> Attributes) sampleFactory"
  by code_simp

theorem restored_store_invariant_witness:
  "store_inv sampleClasses sampleRestored \<and> stateDomain sampleRestored = Domain sampleState
     \<and> dataSync sampleRestored = SyncValue sampleState
     \<and> (\<exists>want got. map_of (factory sampleRestored) onuGKey = Some want \<and> map_of (current sampleRestored) onuGKey = Some got
          \<and> attrOrNil (Attributes want) ''VendorId'' = attrOrNil (Attributes got) ''VendorId''
          \<and> attrOrNil (Attributes want) ''SerialNumber'' = attrOrNil (Attributes got) ''SerialNumber'')"
  by (rule restored_store_invariant [OF sampleRestored_new sampleFactory_wf])

text \<open>
  C25. Persistence is lossless: when a store that satisfies the invariant is exported and a store with
  the same factory MIB is built from the document, the new store has the same counter, the same
  domain and the same instances: none is lost, none is added, each has its origin and every
  attribute as before (the entity identifier, which is the key, is written again).
\<close>
theorem restore_of_export:
  assumes "library classes" "store_inv classes s"
    and "ExportState (snapshotInstances (current s)) (dataSync s) [stateDomain s] = Ok st"
    and "NewFromState classes factory0 st options = Ok s'" "list_all (gm_wf \<circ> Attributes) factory0"
    and "factory s' = factory s"
  shows "dataSync s' = dataSync s \<and> stateDomain s' = stateDomain s
     \<and> (\<forall>k. same_instance (map_of (current s) k) (map_of (current s') k))"
  using restore_export [OF assms] by blast

theorem restore_of_export_witness:
  "dataSync sampleRestored = dataSync sampleCreated \<and> stateDomain sampleRestored = stateDomain sampleCreated
     \<and> (\<forall>k. same_instance (map_of (current sampleCreated) k) (map_of (current sampleRestored) k))"
  by (rule restore_of_export [OF library_sample sampleCreated_inv sampleState_exported sampleRestored_new
        sampleFactory_wf])
     (simp only: NewFromState_factory [OF sampleRestored_new sampleStore_new] execAll_factory)

lemma RestoreONU3Factory_Ok:
  assumes "RestoreONU3Factory classes factory0 state domains = Ok insts"
  shows "insts = snapshotInstances (instanceMap factory0)
    \<or> (\<exists>current0 persisted merged. map_of (instanceMap factory0) onu3Key = Some current0
        \<and> mergeHistory classes persisted current0 = Ok merged
        \<and> insts = snapshotInstances (AList.update onu3Key merged (instanceMap factory0)))"
proof (cases "map_of (instanceMap factory0) onu3Key")
  case (Some current0)
  from assms obtain restored where "(case map_of (instanceMap restored) onu3Key of
      None \<Rightarrow> Ok (snapshotInstances (instanceMap factory0))
    | Some persisted \<Rightarrow> bindR (mergeHistory classes persisted current0) (\<lambda>merged.
        Ok (snapshotInstances (AList.update onu3Key merged (instanceMap factory0))))) = Ok insts"
    by (auto simp: RestoreONU3Factory_def bindR_eq_Ok Let_def Some split: if_splits)
  with Some show ?thesis by (auto simp: bindR_eq_Ok split: option.splits)
qed (use assms in \<open>auto simp: RestoreONU3Factory_def bindR_eq_Ok Let_def split: if_splits\<close>)

text \<open>
  The recovery of the ONU3-G history takes nothing else from a persisted document: the result has
  an instance for each of the factory's, with its origin, and every attribute is the factory's except
  the four history attributes of the ONU3-G instance (whose entity identifier is written again).
\<close>
theorem only_history_restored:
  assumes "RestoreONU3Factory classes factory0 state domains = Ok insts" "library classes"
    and "distinct (map ikey factory0)" "list_all (gm_wf \<circ> Attributes) factory0"
  shows "list_all2 (\<lambda>f i. ikey i = ikey f \<and> Origin i = Origin f
     \<and> (\<forall>name. ikey f = onu3Key \<and> name \<in> set historyNames \<union> {ManagedEntityID}
          \<or> map_of (Attributes i) name = map_of (Attributes f) name)) (sort_key ikey factory0) insts"
    (is "list_all2 ?kept _ _")
proof -
  note im = instanceMap_distinct [OF assms(3)]
  have snap: "snapshotInstances (instanceMap factory0) = sort_key ikey factory0"
    by (simp add: snapshotInstances_def im comp_def)
  have refl: "list_all2 ?kept fs fs" for fs by (rule list_all2_refl) simp
  consider "insts = snapshotInstances (instanceMap factory0)"
    | merged current0 persisted where "map_of (instanceMap factory0) onu3Key = Some current0"
      "mergeHistory classes persisted current0 = Ok merged"
      "insts = snapshotInstances (AList.update onu3Key merged (instanceMap factory0))"
    using RestoreONU3Factory_Ok [OF assms(1)] by blast
  then show ?thesis
  proof cases
    case 1
    then show ?thesis using refl by (simp add: snap)
  next
    case (2 merged current0 persisted)
    from 2(1) have c: "current0 \<in> set factory0" "ikey current0 = onu3Key" by (auto simp: im dest!: map_of_SomeD)
    with assms(4) have "gm_wf (Attributes current0)" by (simp add: list_all_iff)
    note h = history_merged [OF 2(2) this assms(2)]
    have upd: "list_all2 (\<lambda>f i. ?kept f i \<and> ikey f = ikey i) fs
        (map snd (AList.update onu3Key merged (map (\<lambda>i. (ikey i, i)) fs)))"
      if "distinct (map ikey fs)" "current0 \<in> set fs" for fs
      using that
    proof (induction fs)
      case (Cons f fs)
      show ?case
      proof (cases "f = current0")
        case True
        moreover have "list_all2 (\<lambda>f i. ?kept f i \<and> ikey f = ikey i) fs fs" by (rule list_all2_refl) simp
        ultimately show ?thesis using h c(2) by (simp add: comp_def) blast
      next
        case False
        with Cons c(2) show ?thesis by (auto simp: image_iff)
      qed
    qed simp
    have "list_all2 (\<lambda>f i. ?kept f i \<and> ikey f = ikey i) (sort_key ikey factory0) insts"
      unfolding 2(3) snapshotInstances_def im
      by (rule all2_sort [OF upd [OF assms(3) c(1)]]) blast
    then show ?thesis by (rule list_all2_mono) blast
  qed
qed

definition sampleHistory :: State where
  "sampleHistory = (case ExportState (sampleFactory @ [onu3Instance [replicate 25 7]]) 0 [''onu''] of
     Ok st \<Rightarrow> st | _ \<Rightarrow> undefined)"

theorem only_history_restored_witness:
  "\<exists>insts. RestoreONU3Factory sampleClasses (sampleFactory @ [onu3Instance []]) sampleHistory [''onu''] = Ok insts
     \<and> list_all2 (\<lambda>f i. ikey i = ikey f \<and> Origin i = Origin f
     \<and> (\<forall>name. ikey f = onu3Key \<and> name \<in> set historyNames \<union> {ManagedEntityID}
          \<or> map_of (Attributes i) name = map_of (Attributes f) name)) (sort_key ikey (sampleFactory @ [onu3Instance []])) insts"
proof -
  have "case RestoreONU3Factory sampleClasses (sampleFactory @ [onu3Instance []]) sampleHistory [''onu''] of
      Ok _ \<Rightarrow> True | _ \<Rightarrow> False" by code_simp
  then obtain insts where
    r: "RestoreONU3Factory sampleClasses (sampleFactory @ [onu3Instance []]) sampleHistory [''onu''] = Ok insts"
    by (auto split: outcome.splits)
  have "distinct (map ikey (sampleFactory @ [onu3Instance []]))"
    "list_all (gm_wf \<circ> Attributes) (sampleFactory @ [onu3Instance []])" by code_simp+
  from only_history_restored [OF r library_sample this] r show ?thesis by blast
qed

end
