(* ===== verification/McTypes.thy ===== *)
theory McTypes
  imports Prelude
begin

unbundle bit_operations_syntax

text \<open>
  Vocabulary of package \<open>multicast\<close>: IP addresses and time of the standard library (net/netip and
  time), and the policy data of src/internal/multicast/policy.go.

  \<^item> A \<open>netip.Addr\<close> is the zero value, an IPv4 or an IPv6 address (the program's addresses come from
    octets, so they have no zone). Its methods are those of Go 1.24.
  \<^item> A \<open>time.Time\<close> is the number of nanoseconds since the zero time (January 1, year 1), a
    \<open>time.Duration\<close> a number of nanoseconds.
\<close>

section \<open>Addresses\<close>

datatype Addr = NoAddr | Addr4 u32 | Addr6 u64 u64

definition AddrFrom4 :: "bytes \<Rightarrow> Addr" where
  "AddrFrom4 b = Addr4 (be32 b 0)"

definition AddrFrom16 :: "bytes \<Rightarrow> Addr" where
  "AddrFrom16 b = Addr6 (be64 b 0) (be64 b 8)"

definition IPv4Unspecified :: Addr where "IPv4Unspecified = Addr4 0"
definition IPv6Unspecified :: Addr where "IPv6Unspecified = Addr6 0 0"

definition IsValid :: "Addr \<Rightarrow> bool" where "IsValid a = (a \<noteq> NoAddr)"

fun Is4 :: "Addr \<Rightarrow> bool" where
  "Is4 (Addr4 _) = True" | "Is4 _ = False"

fun Is6 :: "Addr \<Rightarrow> bool" where
  "Is6 (Addr6 _ _) = True" | "Is6 _ = False"

fun Is4In6 :: "Addr \<Rightarrow> bool" where
  "Is4In6 (Addr6 hi lo) = (hi = 0 \<and> drop_bit 32 lo = 0xffff)" | "Is4In6 _ = False"

definition IsUnspecified :: "Addr \<Rightarrow> bool" where
  "IsUnspecified a = (a = IPv4Unspecified \<or> a = IPv6Unspecified)"

text \<open>An IPv4-mapped IPv6 address is classified by the IPv4 address in it.\<close>

fun IsMulticast :: "Addr \<Rightarrow> bool" where
  "IsMulticast NoAddr = False"
| "IsMulticast (Addr4 a) = (drop_bit 28 a = 0xe)"
| "IsMulticast (Addr6 hi lo) =
     (if Is4In6 (Addr6 hi lo) then drop_bit 28 (ucast lo :: u32) = 0xe else drop_bit 56 hi = 0xff)"

fun BitLen :: "Addr \<Rightarrow> nat" where
  "BitLen NoAddr = 0" | "BitLen (Addr4 _) = 32" | "BitLen (Addr6 _ _) = 128"

fun AsSlice :: "Addr \<Rightarrow> bytes" where
  "AsSlice NoAddr = []"
| "AsSlice (Addr4 a) = put32 a"
| "AsSlice (Addr6 hi lo) = put64 hi @ put64 lo"

text \<open>\<open>As4\<close> panics on the zero address and on an IPv6 address that is not IPv4-mapped.\<close>

fun As4 :: "Addr \<Rightarrow> ('e, bytes) outcome" where
  "As4 (Addr4 a) = Ok (put32 a)"
| "As4 (Addr6 hi lo) = (if Is4In6 (Addr6 hi lo) then Ok (put32 (ucast lo)) else Panic)"
| "As4 NoAddr = Panic"

fun As16 :: "Addr \<Rightarrow> bytes" where
  "As16 NoAddr = replicate 16 0"
| "As16 (Addr4 a) = replicate 10 0 @ [0xff, 0xff] @ put32 a"
| "As16 (Addr6 hi lo) = put64 hi @ put64 lo"

text \<open>\<open>Compare\<close> orders by the number of bits and then by value.\<close>

fun addrValue :: "Addr \<Rightarrow> nat \<times> u64 \<times> u64" where
  "addrValue NoAddr = (0, 0, 0)"
| "addrValue (Addr4 a) = (32, 0, ucast a)"
| "addrValue (Addr6 hi lo) = (128, hi, lo)"

lemma ucast_u32_inj: "(ucast (a :: u32) :: u64) = ucast b \<longleftrightarrow> a = b"
proof
  assume "(ucast a :: u64) = ucast b"
  then have "(ucast (ucast a :: u64) :: u32) = ucast (ucast b :: u64)" by simp
  moreover have "(ucast (ucast c :: u64) :: u32) = c" for c :: u32
    by (auto intro!: bit_word_eqI simp: bit_simps)
  ultimately show "a = b" by simp
qed simp

lemma addrValue_inject: "addrValue a = addrValue b \<longleftrightarrow> a = b"
  by (cases a; cases b) (simp_all add: ucast_u32_inj)

fun lexLess :: "nat \<times> u64 \<times> u64 \<Rightarrow> nat \<times> u64 \<times> u64 \<Rightarrow> bool" where
  "lexLess (a, b, c) (a', b', c') = (a < a' \<or> a = a' \<and> (b < b' \<or> b = b' \<and> c < c'))"

instantiation Addr :: linorder
begin

definition less_Addr :: "Addr \<Rightarrow> Addr \<Rightarrow> bool" where
  "less_Addr a b = lexLess (addrValue a) (addrValue b)"

definition less_eq_Addr :: "Addr \<Rightarrow> Addr \<Rightarrow> bool" where
  "less_eq_Addr a b = (a = b \<or> lexLess (addrValue a) (addrValue b))"

instance
proof
  have irrefl: "\<not> lexLess x x" for x by (cases x) auto
  have trans: "lexLess x y \<Longrightarrow> lexLess y z \<Longrightarrow> lexLess x z" for x y z
    by (cases x; cases y; cases z) auto
  have total: "lexLess x y \<or> x = y \<or> lexLess y x" for x y by (cases x; cases y) auto
  fix a b c :: Addr
  show "a < b \<longleftrightarrow> a \<le> b \<and> \<not> b \<le> a"
    unfolding less_Addr_def less_eq_Addr_def using irrefl trans by blast
  show "a \<le> a" by (simp add: less_eq_Addr_def)
  show "a \<le> b \<Longrightarrow> b \<le> c \<Longrightarrow> a \<le> c" unfolding less_eq_Addr_def using trans by blast
  show "a \<le> b \<Longrightarrow> b \<le> a \<Longrightarrow> a = b" unfolding less_eq_Addr_def using irrefl trans by blast
  show "a \<le> b \<or> b \<le> a" unfolding less_eq_Addr_def using total addrValue_inject by metis
qed

end

section \<open>Time\<close>

type_synonym Time = int
type_synonym Duration = int

abbreviation (input) zeroTime :: Time where "zeroTime \<equiv> 0"

definition nsSecond :: Duration where "nsSecond = 1000000000"
definition nsMinute :: Duration where "nsMinute = 60 * nsSecond"
definition maxDuration :: Duration where "maxDuration = 2 ^ 63 - 1"

text \<open>Arithmetic on durations wraps around in 64 bits; \<open>Sub\<close> saturates.\<close>

definition wrap64 :: "int \<Rightarrow> int" where
  "wrap64 x = sint (word_of_int x :: u64)"

definition timeSub :: "Time \<Rightarrow> Time \<Rightarrow> Duration" where
  "timeSub t u = max (- (2 ^ 63)) (min maxDuration (t - u))"

section \<open>Policy data\<close>

record VLAN =
  Tagged :: bool
  ID :: u16

record ACLEntry =
  RowKey :: u16
  IPVersion :: u8
  AclGEMPortID :: u16
  VLANID :: u16
  AclSource :: Addr
  Start :: Addr
  Stop :: Addr
  AclBandwidth :: u32
  PreviewLength :: u16
  PreviewRepeatTime :: u16
  PreviewRepeatCount :: u16
  PreviewResetTime :: u16

record Profile =
  ProfileEntity :: u16
  IGMPVersion :: u8
  IGMPFunction :: u8
  ImmediateLeave :: bool
  UpstreamTCI :: u16
  UpstreamTagControl :: u8
  UpstreamRate :: u32
  Robustness :: u8
  QuerierIPAddress :: u32
  QueryInterval :: u32
  QueryMaxResponseTime :: u32
  LastMemberQueryInterval :: u32
  UnauthorizedJoinBehaviour :: bool
  DownstreamTagControl :: u8
  DownstreamTCI :: u16
  DynamicACL :: "ACLEntry list"
  StaticACL :: "ACLEntry list"

record ServicePackage =
  ServiceRow :: u16
  ServiceVLAN :: u16
  ServiceMaxGroups :: u16
  ServiceMaxBandwidth :: u32
  OperationsProfile :: u16

record AllowedPreview =
  PreviewRow :: u16
  PreviewSource :: Addr
  PreviewDestination :: Addr
  PreviewANI :: u16
  PreviewUNI :: u16
  PreviewDuration :: u16
  PreviewTimeLeft :: u16

record UpstreamMapper =
  GEMPortIDs :: "u16 list"
  UnmarkedFrameOption :: u8
  DefaultPBit :: u8
  DSCPToPBit :: "u8 list"

record Attachment =
  Interface :: string
  BridgeEntity :: u16
  BridgePortEntity :: u16
  DirectMapper :: "UpstreamMapper option"

record Subscriber =
  SubscriberEntity :: u16
  Attachments :: "Attachment list"
  SubscriberProfile :: u16
  MaxSimultaneousGroups :: u16
  MaxMulticastBandwidth :: u32
  BandwidthEnforcement :: bool
  ServicePackages :: "ServicePackage list"
  AllowedPreviews :: "AllowedPreview list"

record Config =
  Profiles :: "Profile list"
  Subscribers :: "Subscriber list"

record ActiveGroup =
  GroupInterface :: string
  GroupSource :: Addr
  IncludedSources :: "Addr list"
  ExcludedSources :: "Addr list"
  GroupAddr :: Addr
  GroupClient :: Addr
  UNIVLAN :: VLAN
  ANIVLAN :: u16
  GroupProfile :: u16
  GroupACLRow :: u16
  GEMPortID :: u16
  ImputedBandwidth :: u32
  TimeSinceJoin :: u32
  PreviewUntil :: Time

record VLANTag =
  TPID :: u16
  TCI :: u16

end
