(* ===== verification/McWire.thy ===== *)
theory McWire
  imports McTypes
begin

unbundle bit_operations_syntax

text \<open>
  The parser of IGMP and MLD frames (src/internal/multicast/report.go). Frames come from the network,
  so every index and slice is checked; the parser must neither panic nor accept what it does not
  understand. The message under construction is passed along; on an error the code discards it.
\<close>

section \<open>Messages\<close>

datatype MessageKind = NoMessage | MessageQuery | MessageReport

abbreviation (input) ModeIsInclude :: u8 where "ModeIsInclude \<equiv> 1"
abbreviation (input) ModeIsExclude :: u8 where "ModeIsExclude \<equiv> 2"
abbreviation (input) ChangeToIncludeMode :: u8 where "ChangeToIncludeMode \<equiv> 3"
abbreviation (input) ChangeToExcludeMode :: u8 where "ChangeToExcludeMode \<equiv> 4"
abbreviation (input) AllowNewSources :: u8 where "AllowNewSources \<equiv> 5"
abbreviation (input) BlockOldSources :: u8 where "BlockOldSources \<equiv> 6"

record MembershipRecord =
  RecordType :: u8
  RecordGroup :: Addr
  Sources :: "Addr list"

record MembershipMessage =
  MsgKind :: MessageKind
  MsgVersion :: u8
  Downstream :: bool
  MsgVLAN :: VLAN
  Client :: Addr
  SourceMAC :: bytes
  DestinationMAC :: bytes
  QueryRobustness :: u8
  MsgQueryInterval :: u32
  MsgQueryMaxResponseTime :: u32
  Tags :: "VLANTag list"
  Records :: "MembershipRecord list"

definition zeroMessage :: MembershipMessage where
  "zeroMessage = \<lparr> MsgKind = NoMessage, MsgVersion = 0, Downstream = False, MsgVLAN = \<lparr> Tagged = False, ID = 0 \<rparr>,
     Client = NoAddr, SourceMAC = replicate 6 0, DestinationMAC = replicate 6 0, QueryRobustness = 0,
     MsgQueryInterval = 0, MsgQueryMaxResponseTime = 0, Tags = [], Records = [] \<rparr>"

definition ErrNotMembership :: go_error where
  "ErrNotMembership = Errorf ''not an IGMP/MLD membership message'' []"

section \<open>Checksums\<close>

text \<open>The sum of the 16-bit words, in 32 bits, with a last odd octet as the high octet of a word.\<close>

fun wordSum :: "bytes \<Rightarrow> u32 \<Rightarrow> u32" where
  "wordSum (a # b # rest) acc = wordSum rest (acc + ucast (be16 [a, b] 0))"
| "wordSum [a] acc = acc + push_bit 8 (ucast a)"
| "wordSum [] acc = acc"

text \<open>The loop that folds the carries back; the sum shrinks with every turn.\<close>

lemma foldCarry_less: "drop_bit 16 (x :: u32) \<noteq> 0 \<Longrightarrow> unat ((x AND 0xffff) + drop_bit 16 x) < unat x"
proof -
  assume x: "drop_bit 16 x \<noteq> 0"
  have lo: "unat (x AND 0xffff) = unat x mod 2 ^ 16"
  proof -
    have "x AND 0xffff = take_bit 16 x" by (simp add: take_bit_eq_mask mask_eq_exp_minus_1)
    then have "unat (x AND 0xffff) = take_bit 16 (unat x)" by (simp only: unsigned_take_bit_eq)
    then show ?thesis by (simp only: take_bit_eq_mod)
  qed
  have hi: "unat (drop_bit 16 x) = unat x div 2 ^ 16" by (simp add: drop_bit_eq_div unat_div_distrib)
  have pos: "unat x div 2 ^ 16 > 0" using x hi by (metis gr0I unat_eq_zero)
  have bound: "unat x < 2 ^ 32" using unsigned_less [of x] by simp
  have "unat ((x AND 0xffff) + drop_bit 16 x) \<le> unat x mod 2 ^ 16 + unat x div 2 ^ 16"
    using unat_word_ariths(1) [of "x AND 0xffff" "drop_bit 16 x"] lo hi by (simp add: mod_le_divisor)
  also have "\<dots> < unat x" using pos by (metis add.commute add_less_cancel_left div_mult_mod_eq mult.commute
        mult_less_cancel1 nat_mult_1 not_less_zero one_less_numeral_iff one_less_power semiring_norm(76) zero_less_numeral)
  finally show ?thesis .
qed

function foldCarry :: "u32 \<Rightarrow> u32" where
  "foldCarry x = (if drop_bit 16 x \<noteq> 0 then foldCarry ((x AND 0xffff) + drop_bit 16 x) else x)"
  by pat_completeness auto
termination
  by (relation "measure unat") (simp_all add: foldCarry_less)

declare foldCarry.simps [simp del]

definition internetChecksum :: "bytes \<Rightarrow> u16" where
  "internetChecksum data = NOT (ucast (foldCarry (wordSum data 0)))"

definition icmpv6Checksum :: "bytes \<Rightarrow> bytes \<Rightarrow> bytes \<Rightarrow> u16" where
  "icmpv6Checksum source destination payload =
     (let pseudo0 = replicate (40 + length payload) 0;
          pseudo1 = overwrite 0 source pseudo0;
          pseudo2 = overwrite 16 destination pseudo1;
          pseudo3 = overwrite 32 (put32 (of_nat (length payload))) pseudo2;
          pseudo4 = pseudo3[39 := 58] in
      internetChecksum (overwrite 40 payload pseudo4))"

section \<open>Floating-point codes\<close>

text \<open>The exponent-and-mantissa codes of query intervals (query_build.go).\<close>

definition decodeFloating8 :: "u8 \<Rightarrow> u32" where
  "decodeFloating8 code =
     (if code < 128 then ucast code
      else let exponent = unat (drop_bit 4 code AND 7) + 3; mantissa = ucast (code AND 15) OR 16 in
        push_bit exponent mantissa)"

definition decodeFloating16 :: "u16 \<Rightarrow> u64" where
  "decodeFloating16 code =
     (if code < 0x8000 then ucast code
      else let exponent = unat (drop_bit 12 code AND 7) + 3; mantissa = ucast (code AND 0x0fff) OR 0x1000 in
        push_bit exponent mantissa)"

section \<open>Reading addresses\<close>

datatype family = IGMP | MLD

fun addrSize :: "family \<Rightarrow> nat" where
  "addrSize IGMP = 4" | "addrSize MLD = 16"

fun protocolName :: "family \<Rightarrow> string" where
  "protocolName IGMP = ''IGMPv3''" | "protocolName MLD = ''MLDv2''"

text \<open>\<open>netip.AddrFrom4([4]byte(xs[i:i+4]))\<close> and its 16-octet version.\<close>

fun addrOf :: "family \<Rightarrow> bytes \<Rightarrow> Addr" where
  "addrOf IGMP b = AddrFrom4 b" | "addrOf MLD b = AddrFrom16 b"

definition addrAt :: "family \<Rightarrow> bytes \<Rightarrow> nat \<Rightarrow> (go_error, Addr) outcome" where
  "addrAt f xs i = bindR (go_slice xs i (i + addrSize f)) (\<lambda>b. Ok (addrOf f b))"

fun sourceList :: "family \<Rightarrow> bytes \<Rightarrow> nat \<Rightarrow> nat \<Rightarrow> (go_error, Addr list) outcome" where
  "sourceList f xs start 0 = Ok []"
| "sourceList f xs start (Suc n) = bindR (addrAt f xs start) (\<lambda>a.
     bindR (sourceList f xs (start + addrSize f) n) (\<lambda>as. Ok (a # as)))"

definition addrArg :: "Addr \<Rightarrow> go_arg" where "addrArg a = ABytes (AsSlice a)"

section \<open>Version 3 and version 2 reports\<close>

text \<open>
  \<open>parseIGMPv3Records\<close> and \<open>parseMLDv2Records\<close> differ in the width of an address only; the record
  header is 4 octets and one address.
\<close>

definition parseRecord :: "family \<Rightarrow> bytes \<Rightarrow> nat \<Rightarrow> nat \<Rightarrow> (go_error, MembershipRecord \<times> nat) outcome" where
  "parseRecord f payload index offset =
     (let header = 4 + addrSize f in
      if length payload < offset + header then Err (Errorf (protocolName f @ '' record %d is truncated'') [AN index])
      else bindR (go_index payload offset) (\<lambda>typeValue.
      if typeValue < ModeIsInclude \<or> typeValue > BlockOldSources
      then Err (Errorf (protocolName f @ '' record %d has invalid type %d'') [AN index, AU typeValue])
      else bindR (go_index payload (offset + 1)) (\<lambda>aux.
      bindR (go_be16 payload (offset + 2)) (\<lambda>count.
      let auxLength = unat aux * 4; sourceCount = unat count;
          recordLength = header + sourceCount * addrSize f + auxLength in
      if length payload < offset + recordLength
      then Err (Errorf (protocolName f @ '' record %d sources are truncated'') [AN index])
      else bindR (addrAt f payload (offset + 4)) (\<lambda>group.
      if \<not> IsMulticast group
      then Err (Errorf (protocolName f @ '' record %d group %s is not multicast'') [AN index, addrArg group])
      else bindR (sourceList f payload (offset + header) sourceCount) (\<lambda>sources.
      Ok (\<lparr> RecordType = typeValue, RecordGroup = group, Sources = sources \<rparr>, recordLength)))))))"

fun recordLoop :: "family \<Rightarrow> bytes \<Rightarrow> nat \<Rightarrow> nat \<Rightarrow> nat \<Rightarrow> (go_error, MembershipRecord list \<times> nat) outcome" where
  "recordLoop f payload 0 index offset = Ok ([], offset)"
| "recordLoop f payload (Suc n) index offset = bindR (parseRecord f payload index offset) (\<lambda>(r, len).
     bindR (recordLoop f payload n (index + 1) (offset + len)) (\<lambda>(rs, end_offset). Ok (r # rs, end_offset)))"

definition parseRecords :: "family \<Rightarrow> bytes \<Rightarrow> MembershipMessage \<Rightarrow> (go_error, MembershipMessage) outcome" where
  "parseRecords f payload result =
     (if length payload < 8 then Err (Errorf (protocolName f @ '' report is truncated'') [])
      else bindR (go_be16 payload 6) (\<lambda>count.
      bindR (recordLoop f payload (unat count) 0 8) (\<lambda>(rs, offset).
      if offset \<noteq> length payload then Err (Errorf (protocolName f @ '' report has trailing bytes'') [])
      else Ok (result\<lparr>Records := rs\<rparr>))))"

definition parseIGMPv3Records :: "bytes \<Rightarrow> MembershipMessage \<Rightarrow> (go_error, MembershipMessage) outcome" where
  "parseIGMPv3Records = parseRecords IGMP"

definition parseMLDv2Records :: "bytes \<Rightarrow> MembershipMessage \<Rightarrow> (go_error, MembershipMessage) outcome" where
  "parseMLDv2Records = parseRecords MLD"

definition oneRecord :: "u8 \<Rightarrow> Addr \<Rightarrow> Addr list \<Rightarrow> MembershipRecord list" where
  "oneRecord t g srcs = [\<lparr> RecordType = t, RecordGroup = g, Sources = srcs \<rparr>]"

section \<open>IGMP\<close>

definition parseIGMPQuery :: "bytes \<Rightarrow> MembershipMessage \<Rightarrow> (go_error, MembershipMessage) outcome" where
  "parseIGMPQuery payload result =
     bindR (addrAt IGMP payload 4) (\<lambda>group.
     if group \<noteq> IPv4Unspecified \<and> \<not> IsMulticast group
     then Err (Errorf ''IGMP query group %s is not multicast'' [addrArg group])
     else bindR (go_index payload 1) (\<lambda>code.
     if length payload = 8 then
       (if code = 0
        then Ok (result\<lparr>MsgKind := MessageQuery, MsgVersion := 1, Records := oneRecord 0 group []\<rparr>)
        else Ok (result\<lparr>MsgKind := MessageQuery, MsgVersion := 2, MsgQueryMaxResponseTime := ucast code,
                   Records := oneRecord 0 group []\<rparr>))
     else if length payload < 12 then Err (Errorf ''IGMP query has invalid length'' [])
     else bindR (go_be16 payload 10) (\<lambda>count.
       let sourceCount = unat count in
       if length payload \<noteq> 12 + sourceCount * 4
       then Err (Errorf ''IGMPv3 query source list is truncated or has trailing bytes'' [])
       else bindR (go_index payload 8) (\<lambda>flags.
       bindR (go_index payload 9) (\<lambda>interval.
       bindR (sourceList IGMP payload 12 sourceCount) (\<lambda>sources.
       Ok (result\<lparr>MsgKind := MessageQuery, MsgVersion := 3, QueryRobustness := flags AND 7,
             MsgQueryInterval := decodeFloating8 interval, MsgQueryMaxResponseTime := decodeFloating8 code,
             Records := oneRecord 0 group sources\<rparr>)))))))"

definition parseIGMPPayload :: "bytes \<Rightarrow> MembershipMessage \<Rightarrow> (go_error, MembershipMessage) outcome" where
  "parseIGMPPayload payload result =
     bindR (go_index payload 0) (\<lambda>type.
     if type = 0x11 then parseIGMPQuery payload result
     else if type \<in> {0x12, 0x16, 0x17} then
       bindR (addrAt IGMP payload 4) (\<lambda>group.
       if \<not> IsMulticast group then Err (Errorf ''IGMP group %s is not multicast'' [addrArg group])
       else Ok (result\<lparr>MsgKind := MessageReport, MsgVersion := (if type = 0x12 then 1 else 2),
              Records := oneRecord (if type = 0x17 then ChangeToIncludeMode else ModeIsExclude) group []\<rparr>))
     else if type = 0x22 then parseIGMPv3Records payload (result\<lparr>MsgKind := MessageReport, MsgVersion := 3\<rparr>)
     else Err ErrNotMembership)"

definition parseIGMP :: "bytes \<Rightarrow> MembershipMessage \<Rightarrow> (go_error, MembershipMessage) outcome" where
  "parseIGMP packet result =
     (if length packet < 20 then Err (Errorf ''IGMP IPv4 header is invalid or truncated'' [])
      else bindR (go_index packet 0) (\<lambda>first.
      if drop_bit 4 first \<noteq> 4 then Err (Errorf ''IGMP IPv4 header is invalid or truncated'' [])
      else let headerLength = unat (first AND 0x0f) * 4 in
      bindR (go_be16 packet 2) (\<lambda>total.
      let totalLength = unat total in
      if headerLength < 20 \<or> totalLength < headerLength + 8 \<or> totalLength > length packet
      then Err (Errorf ''IGMP IPv4 length is invalid'' [])
      else bindR (go_index packet 9) (\<lambda>protocol.
      if protocol \<noteq> 2 then Err ErrNotMembership
      else bindR (go_be16 packet 6) (\<lambda>fragment.
      if fragment AND 0x3fff \<noteq> 0 then Err (Errorf ''fragmented IGMP is not supported'' [])
      else bindR (addrAt IGMP packet 12) (\<lambda>client.
      bindR (go_slice packet headerLength totalLength) (\<lambda>payload.
      if internetChecksum payload \<noteq> 0 then Err (Errorf ''IGMP checksum is invalid'' [])
      else parseIGMPPayload payload (result\<lparr>Client := client\<rparr>))))))))"

section \<open>MLD\<close>

text \<open>The loop over the IPv6 extension headers; it returns the next header and the offset of the payload.\<close>

function extensionHeaders :: "bytes \<Rightarrow> nat \<Rightarrow> u8 \<Rightarrow> nat \<Rightarrow> (go_error, u8 \<times> nat) outcome" where
  "extensionHeaders packet end_offset nextHeader offset =
     (if nextHeader \<notin> {0, 43, 60} then Ok (nextHeader, offset)
      else if end_offset < offset + 8 then Err (Errorf ''MLD IPv6 extension header is truncated'' [])
      else case go_index packet (offset + 1) of
        Ok units \<Rightarrow>
          (let len = (unat units + 1) * 8 in
           if end_offset < offset + len then Err (Errorf ''MLD IPv6 extension header length is invalid'' [])
           else case go_index packet offset of
             Ok next \<Rightarrow> extensionHeaders packet end_offset next (offset + len)
           | Err e \<Rightarrow> Err e | Panic \<Rightarrow> Panic)
      | Err e \<Rightarrow> Err e | Panic \<Rightarrow> Panic)"
  by pat_completeness auto
termination
  by (relation "measure (\<lambda>(packet, end_offset, nextHeader, offset). end_offset - offset)") auto

declare extensionHeaders.simps [simp del]

definition parseMLDQuery :: "bytes \<Rightarrow> MembershipMessage \<Rightarrow> (go_error, MembershipMessage) outcome" where
  "parseMLDQuery payload result =
     (if length payload < 24 then Err (Errorf ''MLD query is truncated'' [])
      else bindR (addrAt MLD payload 8) (\<lambda>group.
      if group \<noteq> IPv6Unspecified \<and> \<not> IsMulticast group
      then Err (Errorf ''MLD query group %s is not multicast'' [addrArg group])
      else bindR (go_be16 payload 4) (\<lambda>response.
      if length payload = 24 then
        (let milliseconds = (ucast response :: u32) in
         Ok (result\<lparr>MsgKind := MessageQuery, MsgVersion := 16,
               MsgQueryMaxResponseTime := (milliseconds + 99) div 100, Records := oneRecord 0 group []\<rparr>))
      else if length payload < 28 then Err (Errorf ''MLDv2 query is truncated'' [])
      else bindR (go_be16 payload 26) (\<lambda>count.
        let sourceCount = unat count in
        if length payload \<noteq> 28 + sourceCount * 16
        then Err (Errorf ''MLDv2 query source list is truncated or has trailing bytes'' [])
        else bindR (go_index payload 24) (\<lambda>flags.
        bindR (go_index payload 25) (\<lambda>interval.
        let milliseconds = decodeFloating16 response in
        bindR (sourceList MLD payload 28 sourceCount) (\<lambda>sources.
        Ok (result\<lparr>MsgKind := MessageQuery, MsgVersion := 17, QueryRobustness := flags AND 7,
              MsgQueryInterval := decodeFloating8 interval,
              MsgQueryMaxResponseTime := ucast (min ((milliseconds + 99) div 100) 0xffffffff),
              Records := oneRecord 0 group sources\<rparr>))))))))"

definition parseMLDPayload :: "bytes \<Rightarrow> MembershipMessage \<Rightarrow> (go_error, MembershipMessage) outcome" where
  "parseMLDPayload payload result =
     bindR (go_index payload 0) (\<lambda>type.
     if type = 130 then parseMLDQuery payload result
     else if type \<in> {131, 132} then
       (if length payload \<noteq> 24 then Err (Errorf ''MLDv1 message has invalid length'' [])
        else bindR (addrAt MLD payload 8) (\<lambda>group.
        if \<not> IsMulticast group then Err (Errorf ''MLDv1 group %s is not multicast'' [addrArg group])
        else Ok (result\<lparr>MsgKind := MessageReport, MsgVersion := 16,
               Records := oneRecord (if type = 132 then ChangeToIncludeMode else ModeIsExclude) group []\<rparr>)))
     else if type = 143 then parseMLDv2Records payload (result\<lparr>MsgKind := MessageReport, MsgVersion := 17\<rparr>)
     else Err ErrNotMembership)"

definition parseMLD :: "bytes \<Rightarrow> MembershipMessage \<Rightarrow> (go_error, MembershipMessage) outcome" where
  "parseMLD packet result =
     (if length packet < 48 then Err (Errorf ''MLD IPv6 header is invalid or truncated'' [])
      else bindR (go_index packet 0) (\<lambda>first.
      if drop_bit 4 first \<noteq> 6 then Err (Errorf ''MLD IPv6 header is invalid or truncated'' [])
      else bindR (go_be16 packet 4) (\<lambda>len16.
      let payloadLength = unat len16; end_offset = 40 + payloadLength in
      if payloadLength + 40 > length packet then Err (Errorf ''MLD IPv6 payload is truncated'' [])
      else bindR (go_index packet 6) (\<lambda>next0.
      bindR (extensionHeaders packet end_offset next0 40) (\<lambda>(nextHeader, offset).
      if nextHeader = 44 then Err (Errorf ''fragmented MLD is not supported'' [])
      else if nextHeader \<noteq> 58 then Err ErrNotMembership
      else bindR (go_slice packet offset end_offset) (\<lambda>payload.
      if length payload < 8 then Err (Errorf ''MLD ICMPv6 payload is truncated'' [])
      else bindR (go_slice packet 8 24) (\<lambda>source.
      bindR (go_slice packet 24 40) (\<lambda>destination.
      if icmpv6Checksum source destination payload \<noteq> 0 then Err (Errorf ''MLD checksum is invalid'' [])
      else parseMLDPayload payload (result\<lparr>Client := AddrFrom16 source\<rparr>)))))))))"

section \<open>Frames\<close>

abbreviation isVLANType :: "u16 \<Rightarrow> bool" where
  "isVLANType etherType \<equiv> etherType \<in> {0x8100, 0x88a8, 0x9100}"

text \<open>The loop over the VLAN headers: \<open>room\<close> is the number of tags that may still follow.\<close>

fun vlanHeaders :: "nat \<Rightarrow> bytes \<Rightarrow> u16 \<Rightarrow> nat \<Rightarrow> VLANTag list \<Rightarrow> (go_error, u16 \<times> nat \<times> VLANTag list) outcome" where
  "vlanHeaders room frame etherType offset tags =
     (if \<not> isVLANType etherType then Ok (etherType, offset, tags)
      else case room of
        0 \<Rightarrow> Err (Errorf ''membership Ethernet frame has more than two VLAN tags'' [])
      | Suc room' \<Rightarrow>
          if length frame < offset + 4 then Err (Errorf ''membership VLAN header is truncated'' [])
          else bindR (go_be16 frame offset) (\<lambda>tci. bindR (go_be16 frame (offset + 2)) (\<lambda>next.
            vlanHeaders room' frame next (offset + 4) (tags @ [\<lparr> TPID = etherType, TCI = tci \<rparr>]))))"

declare vlanHeaders.simps [simp del]

definition ParseMembershipFrame :: "bytes \<Rightarrow> (go_error, MembershipMessage) outcome" where
  "ParseMembershipFrame frame =
     (if length frame < 14 then Err (Errorf ''membership Ethernet frame is truncated'' [])
      else bindR (go_slice frame 0 6) (\<lambda>dst. bindR (go_slice frame 6 12) (\<lambda>src.
      bindR (go_be16 frame 12) (\<lambda>etherType0.
      bindR (vlanHeaders 2 frame etherType0 14 []) (\<lambda>(etherType, offset, tags).
      let result = zeroMessage\<lparr>DestinationMAC := dst, SourceMAC := src, Tags := tags,
            MsgVLAN := (case tags of [] \<Rightarrow> \<lparr> Tagged = False, ID = 0 \<rparr>
                        | tag # _ \<Rightarrow> \<lparr> Tagged = True, ID = TCI tag AND 0x0fff \<rparr>)\<rparr> in
      if etherType = 0x0800 then
        bindR (go_slice frame offset (length frame)) (\<lambda>packet. parseIGMP packet result)
      else if etherType = 0x86dd then
        bindR (go_slice frame offset (length frame)) (\<lambda>packet. parseMLD packet result)
      else Err ErrNotMembership)))))"

end
