(* ===== verification/McBuild.thy ===== *)
theory McBuild
  imports McWire
begin

unbundle bit_operations_syntax

text \<open>
  The frames the proxy sends: reports toward the OLT (src/internal/multicast/report_build.go) and
  queries toward a subscriber (src/internal/multicast/query_build.go). \<open>copy\<close> into a buffer is
  \<open>overwrite\<close>, an assignment to an octet a list update.
\<close>

section \<open>Timers of a profile\<close>

definition effectiveRobustness :: "Profile \<Rightarrow> u8" where
  "effectiveRobustness profile = (if Robustness profile = 0 then 2 else Robustness profile)"

definition effectiveQueryInterval :: "Profile \<Rightarrow> u32" where
  "effectiveQueryInterval profile = (if QueryInterval profile = 0 then 125 else QueryInterval profile)"

definition effectiveQueryResponse :: "Profile \<Rightarrow> u32" where
  "effectiveQueryResponse profile = (if QueryMaxResponseTime profile = 0 then 100 else QueryMaxResponseTime profile)"

definition secondsDuration :: "u64 \<Rightarrow> Duration" where
  "secondsDuration value =
     (if value > of_int (maxDuration div nsSecond) then maxDuration
      else wrap64 (sint value * nsSecond))"

definition decisecondsDuration :: "u64 \<Rightarrow> Duration" where
  "decisecondsDuration value =
     (if value > of_int (maxDuration div 100000000) then maxDuration
      else wrap64 (sint value * 100000000))"

definition effectiveLastMemberInterval :: "Profile \<Rightarrow> Duration" where
  "effectiveLastMemberInterval profile =
     (let value = LastMemberQueryInterval profile in
      decisecondsDuration (ucast (if value = 0 then 10 else value)))"

definition membershipInterval :: "Profile \<Rightarrow> Duration" where
  "membershipInterval profile =
     (let seconds = (ucast (effectiveRobustness profile) * ucast (effectiveQueryInterval profile) :: u64);
          first = secondsDuration seconds;
          second = decisecondsDuration (ucast (effectiveQueryResponse profile)) in
      if first > wrap64 (maxDuration - second) then maxDuration else wrap64 (first + second))"

section \<open>Floating-point codes\<close>

text \<open>The loops look for the first code from \<open>code\<close> to \<open>maxCode\<close> that stands for at least \<open>wanted\<close>.\<close>

function firstCode :: "(nat \<Rightarrow> 'v::linorder) \<Rightarrow> nat \<Rightarrow> 'v \<Rightarrow> nat \<Rightarrow> nat" where
  "firstCode decode maxCode wanted code =
     (if code > maxCode then maxCode
      else if decode code \<ge> wanted then code
      else firstCode decode maxCode wanted (code + 1))"
  by pat_completeness auto
termination
  by (relation "measure (\<lambda>(decode, maxCode, wanted, code). maxCode + 1 - code)") auto

declare firstCode.simps [simp del]

definition encodeFloating8 :: "u32 \<Rightarrow> u8" where
  "encodeFloating8 wanted =
     (if wanted < 128 then ucast wanted
      else of_nat (firstCode (\<lambda>code. decodeFloating8 (of_nat code)) 0xff wanted 128))"

definition encodeFloating16 :: "u64 \<Rightarrow> u16" where
  "encodeFloating16 wanted =
     (if wanted < 0x8000 then ucast wanted
      else of_nat (firstCode (\<lambda>code. decodeFloating16 (of_nat code)) 0xffff wanted 0x8000))"

section \<open>Shared by reports and queries\<close>

definition ipv4MulticastMAC :: "Addr \<Rightarrow> (go_error, bytes) outcome" where
  "ipv4MulticastMAC address = bindR (As4 address) (\<lambda>value.
     Ok [0x01, 0x00, 0x5e, value ! 1 AND 0x7f, value ! 2, value ! 3])"

definition ipv6MulticastMAC :: "Addr \<Rightarrow> bytes" where
  "ipv6MulticastMAC address =
     (let value = As16 address in [0x33, 0x33, value ! 12, value ! 13, value ! 14, value ! 15])"

text \<open>The loop that writes the VLAN headers, and the frame around a packet.\<close>

fun tagBytes :: "VLANTag list \<Rightarrow> bytes" where
  "tagBytes [] = []"
| "tagBytes (tag # tags) = put16 (TPID tag) @ put16 (TCI tag) @ tagBytes tags"

definition ethernetFrame :: "bytes \<Rightarrow> bytes \<Rightarrow> VLANTag list \<Rightarrow> u16 \<Rightarrow> bytes \<Rightarrow> bytes" where
  "ethernetFrame destination sourceMAC tags etherType payload =
     destination @ sourceMAC @ tagBytes tags @ put16 etherType @ payload"

text \<open>IPv4 with TTL 1 and the Router Alert option around an IGMP message.\<close>

definition igmpPacket :: "bytes \<Rightarrow> bytes \<Rightarrow> bytes \<Rightarrow> bytes" where
  "igmpPacket source destination igmp =
     (let ip = replicate (24 + length igmp) 0;
          ip = ip[0 := 0x46];
          ip = overwrite 2 (put16 (of_nat (length ip))) ip;
          ip = ip[8 := 1, 9 := 2];
          ip = overwrite 12 source ip;
          ip = overwrite 16 destination ip;
          ip = overwrite 20 [0x94, 0x04, 0x00, 0x00] ip;
          ip = overwrite 10 (put16 (internetChecksum (take 24 ip))) ip in
      overwrite 24 igmp ip)"

text \<open>IPv6 with hop limit 1 and a hop-by-hop Router Alert around an ICMPv6 message.\<close>

definition mldPacket :: "bytes \<Rightarrow> bytes \<Rightarrow> bytes \<Rightarrow> bytes" where
  "mldPacket source destination icmp =
     (let ip = replicate (48 + length icmp) 0;
          ip = ip[0 := 0x60];
          ip = overwrite 4 (put16 (of_nat (8 + length icmp))) ip;
          ip = ip[6 := 0, 7 := 1];
          ip = overwrite 8 source ip;
          ip = overwrite 24 destination ip;
          ip = overwrite 40 [58, 0, 5, 2, 0, 0, 1, 0] ip in
      overwrite 48 icmp ip)"

abbreviation (input) allHosts4 :: Addr where "allHosts4 \<equiv> Addr4 0xe0000001"
abbreviation (input) allRouters4 :: Addr where "allRouters4 \<equiv> Addr4 0xe0000002"
abbreviation (input) reportRouters4 :: Addr where "reportRouters4 \<equiv> Addr4 0xe0000016"
abbreviation (input) allNodes6 :: Addr where "allNodes6 \<equiv> Addr6 0xff02000000000000 1"
abbreviation (input) allRouters6 :: Addr where "allRouters6 \<equiv> Addr6 0xff02000000000000 2"
abbreviation (input) reportRouters6 :: Addr where "reportRouters6 \<equiv> Addr6 0xff02000000000000 0x16"

section \<open>Reports\<close>

record UpstreamReport =
  ReportJoin :: bool
  ReportSubscriber :: Subscriber
  ReportAttachment :: Attachment
  ReportProfile :: Profile
  ReportGroup :: ActiveGroup
  ReportSourceMAC :: bytes
  ReportTags :: "VLANTag list"

definition upstreamTags :: "VLANTag list \<Rightarrow> u8 \<Rightarrow> u16 \<Rightarrow> (go_error, VLANTag list) outcome" where
  "upstreamTags original control tci =
     (if control > 3 then Err (Errorf ''invalid upstream tag control %d'' [AU control])
      else if control = 0 then Ok original
      else if control = 1 then Ok (\<lparr> TPID = 0x8100, TCI = tci \<rparr> # original)
      else case original of
        [] \<Rightarrow> Ok [\<lparr> TPID = 0x8100, TCI = tci \<rparr>]
      | tag # tags \<Rightarrow>
          if control = 2 then Ok (tag\<lparr>TCI := tci\<rparr> # tags)
          else Ok (tag\<lparr>TCI := (TCI tag AND 0xf000) OR (tci AND 0x0fff)\<rparr> # tags))"

text \<open>The loops over the sources of a report of version 3 (IGMP) or 2 (MLD).\<close>

fun plainAddr :: "family \<Rightarrow> Addr \<Rightarrow> bool" where
  "plainAddr IGMP a = Is4 a" | "plainAddr MLD a = (Is6 a \<and> \<not> Is4In6 a)"

fun appendSources :: "family \<Rightarrow> string \<Rightarrow> Addr list \<Rightarrow> bytes \<Rightarrow> (go_error, bytes) outcome" where
  "appendSources f message [] msg = Ok msg"
| "appendSources f message (a # as) msg =
     (if \<not> plainAddr f a then Err (Errorf message [addrArg a])
      else appendSources f message as (msg @ AsSlice a))"

text \<open>
  The record of a report of version 3 (IGMP) or 2 (MLD), which the code writes twice, with an
  address of 4 or 16 octets: \<open>msg\<close> is the buffer with its first 8 octets written.
\<close>

definition unspecified :: "family \<Rightarrow> Addr" where
  "unspecified f = (case f of IGMP \<Rightarrow> IPv4Unspecified | MLD \<Rightarrow> IPv6Unspecified)"

definition familyName :: "family \<Rightarrow> string" where
  "familyName f = (case f of IGMP \<Rightarrow> ''IGMP'' | MLD \<Rightarrow> ''MLD'')"

definition addrName :: "family \<Rightarrow> string" where
  "addrName f = (case f of IGMP \<Rightarrow> ''IPv4'' | MLD \<Rightarrow> ''IPv6'')"

definition recordBody :: "family \<Rightarrow> UpstreamReport \<Rightarrow> bytes \<Rightarrow> bytes \<Rightarrow> (go_error, bytes) outcome" where
  "recordBody f report groupBytes msg =
     (let g = ReportGroup report; source = GroupSource g; wildcard = (source = unspecified f) in
      if length (ExcludedSources g) > 65535
      then Err (Errorf (''too many '' @ familyName f @ '' exclusion sources: %d'') [AN (length (ExcludedSources g))])
      else let included = (if IncludedSources g = [] \<and> \<not> wildcard then [source] else IncludedSources g) in
      if length included > 65535
      then Err (Errorf (''too many '' @ familyName f @ '' inclusion sources: %d'') [AN (length included)])
      else bindR
        (if ReportJoin report then
           (if wildcard
            then appendSources f (familyName f @ '' exclusion source %s is not '' @ addrName f) (ExcludedSources g)
              (overwrite 10 (put16 (of_nat (length (ExcludedSources g)))) (msg[8 := ChangeToExcludeMode]))
            else appendSources f (familyName f @ '' inclusion source %s is not '' @ addrName f) included
              (overwrite 10 (put16 (of_nat (length included))) (msg[8 := ChangeToIncludeMode])))
         else if wildcard then Ok (msg[8 := ChangeToIncludeMode])
         else Ok (overwrite 10 (put16 1) (msg[8 := BlockOldSources]) @ AsSlice source))
        (\<lambda>msg. Ok (overwrite 12 groupBytes msg)))"

text \<open>\<open>None\<close> is the nil packet of an IGMPv1 leave.\<close>

definition buildIGMPPacket :: "UpstreamReport \<Rightarrow> (go_error, bytes option) outcome" where
  "buildIGMPPacket report =
     (let version = IGMPVersion (ReportProfile report) in
      bindR (As4 (GroupAddr (ReportGroup report))) (\<lambda>groupBytes.
      let finish = (\<lambda>destination igmp.
            let igmp = (if version \<noteq> 3 then overwrite 4 groupBytes igmp else igmp);
                igmp = overwrite 2 (put16 (internetChecksum igmp)) igmp in
            Ok (Some (igmpPacket (AsSlice (GroupClient (ReportGroup report))) destination igmp))) in
      if version = 1 then
        (if \<not> ReportJoin report then Ok None else finish groupBytes ((replicate 8 0)[0 := 0x12]))
      else if version = 2 then
        (if ReportJoin report then finish groupBytes ((replicate 8 0)[0 := 0x16])
         else finish [224, 0, 0, 2] ((replicate 8 0)[0 := 0x17]))
      else if version = 3 then
        bindR (recordBody IGMP report groupBytes (overwrite 6 (put16 1) ((replicate 16 0)[0 := 0x22])))
          (finish [224, 0, 0, 22])
      else Err (Errorf ''invalid IGMP version %d'' [AU version])))"

definition buildMLDPacket :: "UpstreamReport \<Rightarrow> (go_error, bytes) outcome" where
  "buildMLDPacket report =
     (let version = IGMPVersion (ReportProfile report);
          groupBytes = As16 (GroupAddr (ReportGroup report));
          source = As16 (GroupClient (ReportGroup report));
          finish = (\<lambda>destination icmp.
            Ok (mldPacket source destination
              (overwrite 2 (put16 (icmpv6Checksum source destination icmp)) icmp))) in
      if version = 16 then
        (let icmp = (replicate 24 0)[0 := if ReportJoin report then 131 else 132];
             destination = (if ReportJoin report then groupBytes else As16 allRouters6) in
         finish destination (overwrite 8 groupBytes icmp))
      else if version = 17 then
        bindR (recordBody MLD report groupBytes (overwrite 6 (put16 1) ((replicate 28 0)[0 := 143])))
          (finish (As16 reportRouters6))
      else Err (Errorf ''invalid MLD version %d'' [AU version]))"

definition ipv4Destination :: "UpstreamReport \<Rightarrow> Addr" where
  "ipv4Destination report =
     (if IGMPVersion (ReportProfile report) = 3 then reportRouters4
      else if \<not> ReportJoin report \<and> IGMPVersion (ReportProfile report) = 2 then allRouters4
      else GroupAddr (ReportGroup report))"

definition ipv6Destination :: "UpstreamReport \<Rightarrow> Addr" where
  "ipv6Destination report =
     (if IGMPVersion (ReportProfile report) = 17 then reportRouters6
      else if \<not> ReportJoin report then allRouters6
      else GroupAddr (ReportGroup report))"

definition BuildUpstreamFrame :: "UpstreamReport \<Rightarrow> (go_error, bytes option) outcome" where
  "BuildUpstreamFrame report =
     (let g = ReportGroup report; group = GroupAddr g; profile = ReportProfile report;
          frame = (\<lambda>etherType destination payload.
            bindR (upstreamTags (ReportTags report) (UpstreamTagControl profile) (UpstreamTCI profile)) (\<lambda>tags.
            Ok (Some (ethernetFrame destination (ReportSourceMAC report) tags etherType payload)))) in
      if \<not> IsValid group \<or> \<not> IsMulticast group
      then Err (Errorf ''invalid upstream multicast group %s'' [addrArg group])
      else if \<not> IsValid (GroupSource g) \<or> BitLen (GroupSource g) \<noteq> BitLen group
        \<or> \<not> IsValid (GroupClient g) \<or> BitLen (GroupClient g) \<noteq> BitLen group
      then Err (Errorf ''upstream multicast source or client address has the wrong family'' [])
      else if Is4 group then
        (if IGMPVersion profile < 1 \<or> IGMPVersion profile > 3
         then Err (Errorf ''profile %d does not select an IGMP version'' [AU (ProfileEntity profile)])
         else bindR (buildIGMPPacket report) (\<lambda>payload. case payload of
           None \<Rightarrow> Ok None
         | Some packet \<Rightarrow> bindR (ipv4MulticastMAC (ipv4Destination report)) (\<lambda>destination.
             frame 0x0800 destination packet)))
      else if IGMPVersion profile \<noteq> 16 \<and> IGMPVersion profile \<noteq> 17
        then Err (Errorf ''profile %d does not select an MLD version'' [AU (ProfileEntity profile)])
      else bindR (buildMLDPacket report) (\<lambda>packet.
        frame 0x86dd (ipv6MulticastMAC (ipv6Destination report)) packet))"

section \<open>Queries\<close>

record DownstreamQuery =
  QuerySubscriber :: Subscriber
  QueryAttachment :: Attachment
  QueryProfile :: Profile
  QueryGroup :: Addr
  QuerySource :: Addr
  QueryTags :: "VLANTag list"

definition queryResponseDeciseconds :: "DownstreamQuery \<Rightarrow> u32" where
  "queryResponseDeciseconds query =
     (if IsValid (QueryGroup query) then
        (if LastMemberQueryInterval (QueryProfile query) = 0 then 10
         else LastMemberQueryInterval (QueryProfile query))
      else effectiveQueryResponse (QueryProfile query))"

definition hasSource :: "DownstreamQuery \<Rightarrow> bool" where
  "hasSource query = (IsValid (QuerySource query) \<and> \<not> IsUnspecified (QuerySource query))"

definition buildIGMPQuery :: "DownstreamQuery \<Rightarrow> (go_error, bytes) outcome" where
  "buildIGMPQuery query =
     (let profile = QueryProfile query; version = IGMPVersion profile;
          len = (if version = 3 then 12 + (if hasSource query then 4 else 0) else 8);
          igmp = (replicate len 0)[0 := 0x11];
          response = queryResponseDeciseconds query;
          igmp = (if version = 2 then igmp[1 := ucast (min response 255)]
                  else if version = 3 then igmp[1 := encodeFloating8 response] else igmp) in
      bindR (if IsValid (QueryGroup query)
             then bindR (As4 (QueryGroup query)) (\<lambda>group. Ok (overwrite 4 group igmp)) else Ok igmp) (\<lambda>igmp.
      let igmp =
        (if version = 3 then
           (let robustness = effectiveRobustness profile;
                igmp = (if robustness \<le> 7 then igmp[8 := robustness] else igmp);
                igmp = igmp[9 := encodeFloating8 (effectiveQueryInterval profile)] in
            if hasSource query then overwrite 12 (AsSlice (QuerySource query)) (overwrite 10 (put16 1) igmp)
            else igmp)
         else igmp);
        igmp = overwrite 2 (put16 (internetChecksum igmp)) igmp in
      bindR (As4 (if IsValid (QueryGroup query) then QueryGroup query else allHosts4)) (\<lambda>destination.
      Ok (igmpPacket (put32 (QuerierIPAddress profile)) destination igmp))))"

definition buildMLDQuery :: "DownstreamQuery \<Rightarrow> bytes" where
  "buildMLDQuery query =
     (let profile = QueryProfile query; version = IGMPVersion profile;
          len = (if version = 17 then 28 + (if hasSource query then 16 else 0) else 24);
          icmp = (replicate len 0)[0 := 130];
          responseMilliseconds = (ucast (queryResponseDeciseconds query) :: u64) * 100;
          icmp = (if version = 16 then overwrite 4 (put16 (ucast (min responseMilliseconds 0xffff))) icmp
                  else overwrite 4 (put16 (encodeFloating16 responseMilliseconds)) icmp);
          icmp = (if IsValid (QueryGroup query) then overwrite 8 (As16 (QueryGroup query)) icmp else icmp);
          icmp =
            (if version = 17 then
               (let robustness = effectiveRobustness profile;
                    icmp = (if robustness \<le> 7 then icmp[24 := robustness] else icmp);
                    icmp = icmp[25 := encodeFloating8 (effectiveQueryInterval profile)] in
                if hasSource query then overwrite 28 (AsSlice (QuerySource query)) (overwrite 26 (put16 1) icmp)
                else icmp)
             else icmp);
          destination = (if IsValid (QueryGroup query) then As16 (QueryGroup query) else As16 allNodes6);
          source = replicate 16 0 in
      mldPacket source destination (overwrite 2 (put16 (icmpv6Checksum source destination icmp)) icmp))"

definition BuildDownstreamQueryFrame :: "DownstreamQuery \<Rightarrow> bytes \<Rightarrow> (go_error, bytes) outcome" where
  "BuildDownstreamQueryFrame query sourceMAC =
     (let profile = QueryProfile query; version = IGMPVersion profile;
          ipv4 = (version \<ge> 1 \<and> version \<le> 3); group = QueryGroup query; source = QuerySource query in
      if \<not> ipv4 \<and> version \<noteq> 16 \<and> version \<noteq> 17
      then Err (Errorf ''profile %d has invalid query protocol version %d'' [AU (ProfileEntity profile), AU version])
      else if IsValid group \<and> (\<not> IsMulticast group \<or> Is4 group \<noteq> ipv4)
      then Err (Errorf ''invalid downstream query group %s'' [addrArg group])
      else if hasSource query \<and> (\<not> IsValid group \<or> Is4 source \<noteq> ipv4)
      then Err (Errorf ''invalid downstream query source %s'' [addrArg source])
      else if hasSource query \<and> version \<noteq> 3 \<and> version \<noteq> 17
      then Err (Errorf ''protocol version %d cannot encode a source-specific query'' [AU version])
      else if length (QueryTags query) > 2
      then Err (Errorf ''downstream query has more than two VLAN tags'' [])
      else case filter (\<lambda>tag. \<not> isVLANType (TPID tag)) (QueryTags query) of
        tag # _ \<Rightarrow> Err (Errorf ''downstream query has invalid VLAN TPID %#x'' [AU (TPID tag)])
      | [] \<Rightarrow>
          if ipv4 then
            bindR (buildIGMPQuery query) (\<lambda>packet.
            bindR (ipv4MulticastMAC (if IsValid group then group else allHosts4)) (\<lambda>destination.
            Ok (ethernetFrame destination sourceMAC (QueryTags query) 0x0800 packet)))
          else Ok (ethernetFrame (ipv6MulticastMAC (if IsValid group then group else allNodes6)) sourceMAC
            (QueryTags query) 0x86dd (buildMLDQuery query)))"

end
