(* ===== verification/McWireProofs.thy ===== *)
theory McWireProofs
  imports McWire
begin

unbundle bit_operations_syntax

text \<open>
  The parser of multicast frames: a weakest-precondition calculus for fallible code, the safety of
  the parser on arbitrary octets and the shape of every message it accepts.
\<close>

section \<open>Postconditions of fallible code\<close>

text \<open>\<open>holds P m\<close>: \<open>m\<close> does not panic, and a value it returns satisfies \<open>P\<close>.\<close>

definition holds :: "('a \<Rightarrow> bool) \<Rightarrow> ('e, 'a) outcome \<Rightarrow> bool" where
  "holds P m = (case m of Ok x \<Rightarrow> P x | Err _ \<Rightarrow> True | Panic \<Rightarrow> False)"

named_theorems wp "rules of the postcondition calculus"

lemma holds_simps [simp]: "holds P (Ok x) = P x" "holds P (Err e)" "\<not> holds P Panic"
  by (simp_all add: holds_def)

lemma holds_bindR: "holds (\<lambda>x. holds P (f x)) m \<Longrightarrow> holds P (bindR m f)"
  by (cases m) simp_all

lemma holds_mono: "holds Q m \<Longrightarrow> (\<And>x. Q x \<Longrightarrow> P x) \<Longrightarrow> holds P m"
  by (cases m) simp_all

lemma holds_if: "(c \<Longrightarrow> holds P a) \<Longrightarrow> (\<not> c \<Longrightarrow> holds P b) \<Longrightarrow> holds P (if c then a else b)"
  by simp

lemma holds_Let: "holds P (f a) \<Longrightarrow> holds P (let x = a in f x)"
  by simp

lemma holds_index: "i < length xs \<Longrightarrow> P (xs ! i) \<Longrightarrow> holds P (go_index xs i)"
  by simp

lemma holds_be16: "i + 2 \<le> length xs \<Longrightarrow> P (be16 xs i) \<Longrightarrow> holds P (go_be16 xs i)"
  by simp

lemma holds_slice: "a \<le> b \<Longrightarrow> b \<le> length xs \<Longrightarrow> P (take (b - a) (drop a xs)) \<Longrightarrow> holds P (go_slice xs a b)"
  by simp

lemmas holds_intros = holds_if holds_Let holds_index holds_be16 holds_slice

section \<open>Well-formed messages\<close>

fun inFamily :: "family \<Rightarrow> Addr \<Rightarrow> bool" where
  "inFamily IGMP a = Is4 a" | "inFamily MLD a = Is6 a"

text \<open>
  The records of a report name a multicast group and one of the six record types; the record of a
  query has no type, and its group may be unspecified (a general query).
\<close>

definition record_ok :: "family \<Rightarrow> MessageKind \<Rightarrow> MembershipRecord \<Rightarrow> bool" where
  "record_ok f k r = (inFamily f (RecordGroup r) \<and> list_all (inFamily f) (Sources r)
     \<and> (if k = MessageReport then IsMulticast (RecordGroup r) \<and> RecordType r \<noteq> 0 \<and> RecordType r \<le> 6
        else RecordType r = 0 \<and> (IsMulticast (RecordGroup r) \<or> IsUnspecified (RecordGroup r))))"

definition body_ok :: "family \<Rightarrow> MembershipMessage \<Rightarrow> bool" where
  "body_ok f m = (MsgVersion m \<in> (case f of IGMP \<Rightarrow> {1, 2, 3} | MLD \<Rightarrow> {16, 17})
     \<and> MsgKind m \<noteq> NoMessage \<and> inFamily f (Client m) \<and> list_all (record_ok f (MsgKind m)) (Records m)
     \<and> (length (Records m) = 1 \<or> MsgKind m = MessageReport \<and> MsgVersion m \<in> {3, 17})
     \<and> QueryRobustness m \<le> 7)"

definition header_ok :: "MembershipMessage \<Rightarrow> bool" where
  "header_ok m = (length (DestinationMAC m) = 6 \<and> length (SourceMAC m) = 6 \<and> \<not> Downstream m
     \<and> length (Tags m) \<le> 2 \<and> list_all (\<lambda>t. isVLANType (TPID t)) (Tags m)
     \<and> MsgVLAN m = (case Tags m of [] \<Rightarrow> \<lparr> Tagged = False, ID = 0 \<rparr>
                    | t # _ \<Rightarrow> \<lparr> Tagged = True, ID = TCI t AND 0x0fff \<rparr>))"

definition message_ok :: "MembershipMessage \<Rightarrow> bool" where
  "message_ok m = (header_ok m \<and> body_ok (if MsgVersion m \<le> 3 then IGMP else MLD) m)"

lemma inFamily_addrOf [simp]: "inFamily f (addrOf f b)"
  by (cases f) (simp_all add: AddrFrom4_def AddrFrom16_def)

lemma holds_addrAt [intro]:
  "i + addrSize f \<le> length xs \<Longrightarrow> (\<And>a. inFamily f a \<Longrightarrow> P a) \<Longrightarrow> holds P (addrAt f xs i)"
  by (simp add: addrAt_def)

lemma holds_sourceList:
  "start + n * addrSize f \<le> length xs \<Longrightarrow> holds (list_all (inFamily f)) (sourceList f xs start n)"
proof (induction n arbitrary: start)
  case (Suc n)
  have bound: "start + addrSize f \<le> length xs" "start + addrSize f + n * addrSize f \<le> length xs"
    using Suc.prems by simp_all
  show ?case unfolding sourceList.simps
  proof (intro holds_bindR holds_addrAt)
    fix a assume "inFamily f a"
    then show "holds (\<lambda>x. holds (list_all (inFamily f)) (Ok (a # x))) (sourceList f xs (start + addrSize f) n)"
      by (intro holds_mono [OF Suc.IH [OF bound(2)]]) simp
  qed (fact bound(1))
qed simp

section \<open>Records\<close>

lemma parseRecord_ok:
  "holds (\<lambda>(r, len). record_ok f MessageReport r \<and> offset + len \<le> length payload) (parseRecord f payload index offset)"
  unfolding parseRecord_def Let_def
proof (intro holds_if holds_bindR, goal_cases)
  case 1 show ?case by simp
next
  case 2
  then show ?case
    by (intro holds_index holds_if holds_bindR holds_be16 holds_addrAt) (auto intro!: holds_mono [OF holds_sourceList]
        simp: record_ok_def not_less)
qed

lemma recordLoop_ok:
  "holds (\<lambda>(rs, e). list_all (record_ok f MessageReport) rs) (recordLoop f payload n index offset)"
proof (induction n arbitrary: index offset)
  case (Suc n)
  show ?case unfolding recordLoop.simps
    by (rule holds_bindR, rule holds_mono [OF parseRecord_ok])
      (auto intro!: holds_bindR holds_mono [OF Suc.IH])
qed simp

lemma parseRecords_ok:
  "holds (\<lambda>m'. \<exists>rs. m' = m\<lparr>Records := rs\<rparr> \<and> list_all (record_ok f MessageReport) rs) (parseRecords f payload m)"
  unfolding parseRecords_def
  by (rule holds_if, simp, rule holds_bindR, rule holds_be16, simp, rule holds_bindR,
      rule holds_mono [OF recordLoop_ok]) auto

section \<open>IGMP\<close>

lemma decode_robustness: "(x :: u8) AND 7 \<le> 7"
  by (rule word_and_le1)

lemma parseIGMPQuery_ok:
  assumes "8 \<le> length payload" "header_ok m" "Is4 (Client m)" "QueryRobustness m = 0"
  shows "holds message_ok (parseIGMPQuery payload m)"
  unfolding parseIGMPQuery_def Let_def
  using assms
  by (intro holds_bindR holds_if holds_addrAt holds_index holds_be16)
    (auto intro!: holds_mono [OF holds_sourceList [where f = IGMP]]
      simp: message_ok_def header_ok_def body_ok_def record_ok_def oneRecord_def decode_robustness IsUnspecified_def)

lemma parseIGMPPayload_ok:
  assumes "8 \<le> length payload" "header_ok m" "Is4 (Client m)" "QueryRobustness m = 0"
  shows "holds message_ok (parseIGMPPayload payload m)"
  unfolding parseIGMPPayload_def parseIGMPv3Records_def
  using assms
  by (intro holds_bindR holds_if holds_addrAt holds_index parseIGMPQuery_ok)
    (auto intro!: holds_mono [OF parseRecords_ok [where f = IGMP]]
      simp: message_ok_def header_ok_def body_ok_def record_ok_def oneRecord_def)

lemma parseIGMP_ok:
  assumes "header_ok m" "QueryRobustness m = 0"
  shows "holds message_ok (parseIGMP packet m)"
proof -
  have client: "header_ok (m\<lparr>Client := a\<rparr>)" for a using assms by (simp add: header_ok_def)
  show ?thesis unfolding parseIGMP_def Let_def
    using assms client
    by (intro holds_bindR holds_if holds_addrAt holds_index holds_be16 holds_slice parseIGMPPayload_ok) auto
qed

section \<open>MLD\<close>

lemma extensionHeaders_ok:
  assumes "offset \<le> e" "e \<le> length packet"
  shows "holds (\<lambda>(next, offset'). offset' \<le> e) (extensionHeaders packet e nextHeader offset)"
  using assms
proof (induction packet e nextHeader offset rule: extensionHeaders.induct)
  case (1 packet e nextHeader offset)
  show ?case
    by (subst extensionHeaders.simps) (use 1 in \<open>auto simp: Let_def not_less split: outcome.split\<close>)
qed

lemma parseMLDQuery_ok:
  assumes "header_ok m" "Is6 (Client m)" "QueryRobustness m = 0"
  shows "holds message_ok (parseMLDQuery payload m)"
  unfolding parseMLDQuery_def Let_def
  using assms
  by (intro holds_bindR holds_if holds_addrAt holds_index holds_be16)
    (auto intro!: holds_mono [OF holds_sourceList [where f = MLD]]
      simp: message_ok_def header_ok_def body_ok_def record_ok_def oneRecord_def decode_robustness IsUnspecified_def)

lemma parseMLDPayload_ok:
  assumes "8 \<le> length payload" "header_ok m" "Is6 (Client m)" "QueryRobustness m = 0"
  shows "holds message_ok (parseMLDPayload payload m)"
  unfolding parseMLDPayload_def parseMLDv2Records_def
  using assms
  by (intro holds_bindR holds_if holds_addrAt holds_index parseMLDQuery_ok)
    (auto intro!: holds_mono [OF parseRecords_ok [where f = MLD]]
      simp: message_ok_def header_ok_def body_ok_def record_ok_def oneRecord_def)

lemma parseMLD_ok:
  assumes "header_ok m" "QueryRobustness m = 0"
  shows "holds message_ok (parseMLD packet m)"
proof -
  have client: "header_ok (m\<lparr>Client := a\<rparr>)" for a using assms by (simp add: header_ok_def)
  show ?thesis unfolding parseMLD_def Let_def
    using assms client
    by (intro holds_bindR holds_if holds_index holds_be16 holds_mono [OF extensionHeaders_ok])
      (auto intro!: holds_bindR holds_if parseMLDPayload_ok simp: AddrFrom16_def)
qed

section \<open>Frames\<close>

lemma vlanHeaders_ok:
  assumes "offset \<le> length frame" "list_all (\<lambda>t. isVLANType (TPID t)) tags"
  shows "holds (\<lambda>(etherType, offset', tags'). offset' \<le> length frame \<and> length tags' \<le> room + length tags
           \<and> list_all (\<lambda>t. isVLANType (TPID t)) tags') (vlanHeaders room frame etherType offset tags)"
  using assms
proof (induction room arbitrary: etherType offset tags)
  case (Suc room)
  show ?case
  proof (subst vlanHeaders.simps, simp only: nat.case, intro holds_if)
    assume type: "\<not> \<not> isVLANType etherType" and room_left: "\<not> length frame < offset + 4"
    show "holds (\<lambda>(etherType, offset', tags'). offset' \<le> length frame \<and> length tags' \<le> Suc room + length tags
           \<and> list_all (\<lambda>t. isVLANType (TPID t)) tags')
       (bindR (go_be16 frame offset) (\<lambda>tci. bindR (go_be16 frame (offset + 2)) (\<lambda>next.
            vlanHeaders room frame next (offset + 4) (tags @ [\<lparr> TPID = etherType, TCI = tci \<rparr>]))))"
      using type room_left Suc.prems
      by (intro holds_bindR holds_be16) (auto intro!: holds_mono [OF Suc.IH])
  qed (use Suc.prems in simp_all)
qed (simp add: vlanHeaders.simps)

text \<open>
  C33. The parser is safe on every sequence of octets: it never indexes or slices outside the frame
  (it does not panic), and a message it accepts is well formed: at most two tags with the TPIDs of
  VLAN headers, the VLAN of the outermost tag, a version of IGMP or MLD, client, groups and sources
  of that protocol's address family, record types and multicast groups in every report, exactly one
  record in a query and in a report of a version without records.
\<close>

theorem parse_total_and_well_formed:
  "case ParseMembershipFrame frame of Ok m \<Rightarrow> message_ok m | Err _ \<Rightarrow> True | Panic \<Rightarrow> False"
proof -
  have zero: "QueryRobustness zeroMessage = 0" "\<not> Downstream zeroMessage" by (simp_all add: zeroMessage_def)
  have "holds message_ok (ParseMembershipFrame frame)"
    unfolding ParseMembershipFrame_def
    using zero
    by (intro holds_if holds_bindR holds_slice holds_be16 holds_mono [OF vlanHeaders_ok])
      (auto intro!: holds_bindR parseIGMP_ok parseMLD_ok simp: Let_def header_ok_def split: list.split)
  then show ?thesis by (simp add: holds_def)
qed

end
