(* ===== verification/McBuildProofs.thy ===== *)
theory McBuildProofs
  imports McBuild McWireProofs
begin

unbundle bit_operations_syntax

text \<open>
  Arithmetic of the frames: the Internet checksum of a completed message verifies, and the
  floating-point codes of query times are exact.
\<close>

section \<open>The Internet checksum\<close>

text \<open>The sum of the 16-bit words as a number.\<close>

fun wordTotal :: "bytes \<Rightarrow> nat" where
  "wordTotal (a # b # rest) = unat a * 256 + unat b + wordTotal rest"
| "wordTotal [a] = unat a * 256"
| "wordTotal [] = 0"

lemma unat_octet: "unat (b :: u8) < 256"
  using unsigned_less [of b] by simp

lemma unat_half: "unat (w :: u16) < 65536"
  using unsigned_less [of w] by simp

lemma unat_widen_octet [simp]: "unat (ucast (b :: u8) :: u16) = unat b" "unat (ucast b :: u32) = unat b"
  using unat_octet [of b] by (simp_all add: unsigned_ucast_eq take_bit_nat_eq_self)

lemma unat_be16_Cons: "unat (be16 (a # b # rest) 0) = unat a * 256 + unat b"
proof -
  have "(push_bit 8 (ucast a) :: u16) AND ucast b = 0"
    by (rule bit_word_eqI) (auto simp: bit_simps dest: bit_imp_le_length)
  then have "be16 (a # b # rest) 0 = push_bit 8 (ucast a) + ucast b"
    by (simp add: be16_Cons disjunctive_add_eq_or)
  moreover have "unat (push_bit 8 (ucast a) :: u16) = unat a * 256"
    using unat_octet [of a] by (simp add: push_bit_eq_mult unat_word_ariths)
  ultimately show ?thesis
    using unat_octet [of a] unat_octet [of b] by (simp add: unat_word_ariths)
qed

lemma wordSum_total: "wordSum data acc = acc + of_nat (wordTotal data)"
proof (induction data acc rule: wordSum.induct)
  case (1 a b rest acc)
  have "unat (ucast (be16 [a, b] 0) :: u32) = unat (be16 [a, b] 0)"
    using unat_half [of "be16 [a, b] 0"] by (simp add: unsigned_ucast_eq take_bit_nat_eq_self)
  then have "(ucast (be16 [a, b] 0) :: u32) = of_nat (unat a * 256 + unat b)"
    by (metis unat_be16_Cons of_nat_unat ucast_id)
  with 1 show ?case by simp
next
  case (2 a acc)
  have "unat (push_bit 8 (ucast a) :: u32) = unat a * 256"
    using unat_octet [of a] by (simp add: push_bit_eq_mult unat_word_ariths)
  then have "(push_bit 8 (ucast a) :: u32) = of_nat (unat a * 256)" by (metis of_nat_unat ucast_id)
  then show ?case by simp
qed simp

lemma wordTotal_bound: "wordTotal data \<le> (length data + 1) div 2 * 65535"
proof (induction data rule: wordTotal.induct)
  case (1 a b rest)
  have "unat a * 256 + unat b \<le> 65535" using unat_octet [of a] unat_octet [of b] by simp
  with 1 show ?case by simp
next
  case (2 a) with unat_octet [of a] show ?case by simp
qed simp

lemma wordTotal_append: "even (length xs) \<Longrightarrow> wordTotal (xs @ ys) = wordTotal xs + wordTotal ys"
  by (induction xs rule: wordTotal.induct) auto

lemma unat_high: "unat (drop_bit 16 (x :: u32)) = unat x div 65536"
  by (simp add: drop_bit_eq_div unat_div_distrib)

lemma fold_nat: "unat ((x AND 0xffff) + drop_bit 16 (x :: u32)) = unat x mod 65536 + unat x div 65536"
proof -
  have "x AND 0xffff = take_bit 16 x" by (simp add: take_bit_eq_mask mask_eq_exp_minus_1)
  then have "unat (x AND 0xffff) = take_bit 16 (unat x)" by (simp only: unsigned_take_bit_eq)
  then have lo: "unat (x AND 0xffff) = unat x mod 65536" by (simp add: take_bit_eq_mod)
  have "unat x < 2 ^ 32" using unsigned_less [of x] by simp
  then have "unat x mod 65536 + unat x div 65536 < 2 ^ 32" by simp
  with lo unat_high [of x] show ?thesis by (simp add: unat_word_ariths)
qed

text \<open>Folding the carries computes the residue modulo 65535, with 65535 for a positive multiple.\<close>

lemma foldCarry_residue:
  "unat (foldCarry x) < 65536 \<and> unat (foldCarry x) mod 65535 = unat x mod 65535 \<and> (foldCarry x = 0 \<longleftrightarrow> x = 0)"
proof (induction x rule: foldCarry.induct)
  case (1 x)
  show ?case
  proof (cases "drop_bit 16 x = 0")
    case True
    then have "unat x div 65536 = 0" using unat_high [of x] by simp
    then have "unat x < 65536" by (simp add: div_eq_0_iff)
    moreover have "foldCarry x = x" using True by (subst foldCarry.simps) simp
    ultimately show ?thesis by simp
  next
    case False
    let ?y = "(x AND 0xffff) + drop_bit 16 x"
    have "n = n div 65536 * 65535 + (n mod 65536 + n div 65536)" for n :: nat
      using div_mult_mod_eq [of n 65536] by simp
    then have "unat x = unat x div 65536 * 65535 + unat ?y" unfolding fold_nat .
    then have res: "unat ?y mod 65535 = unat x mod 65535" by (metis mod_mult_self3)
    have "unat (drop_bit 16 x) \<noteq> 0" using False by (simp add: unat_eq_zero)
    then have "unat ?y \<noteq> 0" using fold_nat [of x] unat_high [of x] by simp
    then have "?y \<noteq> 0" by (simp add: unat_eq_zero)
    moreover have "x \<noteq> 0" using False by auto
    moreover have "foldCarry x = foldCarry ?y" using False by (subst foldCarry.simps) simp
    ultimately show ?thesis using "1.IH" [OF False] res by simp
  qed
qed

lemma unat_checksum:
  "unat (internetChecksum data) = 65535 - unat (foldCarry (of_nat (wordTotal data)))"
proof -
  let ?f = "foldCarry (of_nat (wordTotal data))"
  have less: "unat ?f < 65536" by (rule foldCarry_residue [THEN conjunct1])
  then have "unat (ucast ?f :: u16) = unat ?f" by (simp add: unsigned_ucast_eq take_bit_nat_eq_self)
  then have "uint (ucast ?f :: u16) = int (unat ?f)" by (metis uint_nat)
  moreover have "uint (NOT w) = 65535 - uint w" for w :: u16
    using uint_lt2p [of w]
    by (simp only: unsigned_not_eq take_bit_not_eq_mask_diff) (simp add: mask_eq_exp_minus_1 take_bit_int_eq_self)
  ultimately have "uint (NOT (ucast ?f :: u16)) = 65535 - int (unat ?f)" by simp
  then have "int (unat (NOT (ucast ?f :: u16))) = 65535 - int (unat ?f)" by (simp only: uint_nat)
  with less show ?thesis
    by (simp add: internetChecksum_def wordSum_total del: of_nat_unat)
qed

text \<open>
  Storing the checksum of a message whose checksum field is zero makes the whole verify, when the
  32-bit sum of its words does not overflow.
\<close>

lemma checksum_zero_iff:
  assumes "wordTotal data < 2 ^ 32"
  shows "internetChecksum data = 0 \<longleftrightarrow> wordTotal data \<noteq> 0 \<and> wordTotal data mod 65535 = 0"
proof -
  let ?f = "foldCarry (of_nat (wordTotal data))"
  have total: "unat (of_nat (wordTotal data) :: u32) = wordTotal data"
    using assms by (subst unat_of_nat) simp
  have res: "unat ?f < 65536" "unat ?f mod 65535 = wordTotal data mod 65535" "unat ?f = 0 \<longleftrightarrow> wordTotal data = 0"
    using foldCarry_residue [of "of_nat (wordTotal data)"] total by (simp_all add: unat_eq_zero [symmetric] del: unat_eq_zero)
  have "internetChecksum data = 0 \<longleftrightarrow> unat ?f = 65535"
    using unat_checksum [of data] res(1) by (auto simp: unat_eq_zero [symmetric] simp del: unat_eq_zero)
  also have "\<dots> \<longleftrightarrow> wordTotal data \<noteq> 0 \<and> wordTotal data mod 65535 = 0"
  proof
    assume f: "unat ?f = 65535"
    then show "wordTotal data \<noteq> 0 \<and> wordTotal data mod 65535 = 0" using res(2,3) by simp
  next
    assume w: "wordTotal data \<noteq> 0 \<and> wordTotal data mod 65535 = 0"
    then have "unat ?f mod 65535 = 0" "unat ?f \<noteq> 0" using res by simp_all
    then have "65535 dvd unat ?f" "unat ?f \<ge> 65535" by (auto simp: dvd_imp_le mod_eq_0_iff_dvd)
    with res(1) show "unat ?f = 65535" by (auto elim!: dvdE)
  qed
  finally show ?thesis .
qed

lemma checksum_verifies:
  assumes "even (length pre)" and bound: "length pre + 2 + length post \<le> 131000"
  shows "internetChecksum (pre @ put16 (internetChecksum (pre @ [0, 0] @ post)) @ post) = 0"
proof -
  let ?zeroed = "pre @ [0, 0] @ post"
  let ?c = "unat (internetChecksum ?zeroed)"
  let ?t = "wordTotal ?zeroed" and ?f = "foldCarry (of_nat (wordTotal ?zeroed))"
  have word: "wordTotal (put16 w @ post) = unat w + wordTotal post" for w
  proof -
    obtain a b where ab: "put16 w = [a, b]" by (simp add: put16_def)
    then have "unat w = unat a * 256 + unat b"
      using unat_be16_Cons [of a b "[]"] by (metis be_put(1))
    with ab show ?thesis by simp
  qed
  have total: "wordTotal (pre @ put16 (internetChecksum ?zeroed) @ post) = ?t + ?c"
    using assms(1) word by (simp add: wordTotal_append)
  have t: "?t < 2 ^ 32 - 65536" using wordTotal_bound [of ?zeroed] bound by simp
  then have unt: "unat (of_nat ?t :: u32) = ?t" by (subst unat_of_nat) simp
  have f: "unat ?f < 65536" "unat ?f mod 65535 = ?t mod 65535" "?f = 0 \<longleftrightarrow> (of_nat ?t :: u32) = 0"
    using foldCarry_residue [of "of_nat ?t"] unt by simp_all
  have c: "?c = 65535 - unat ?f" by (rule unat_checksum)
  have nonzero: "?t + ?c \<noteq> 0"
  proof
    assume "?t + ?c = 0"
    then have zero: "?t = 0" by (simp only: add_is_0)
    have "?f = 0" using f(3) unfolding zero by simp
    then have "?c = 65535" unfolding c by (simp only: unat_0 minus_nat.diff_0)
    with \<open>?t + ?c = 0\<close> show False by linarith
  qed
  have "(?t + ?c) mod 65535 = (unat ?f + ?c) mod 65535" by (rule mod_add_cong [OF f(2) [symmetric] refl])
  also have "unat ?f + ?c = 65535" using f(1) c by linarith
  also have "(65535 :: nat) mod 65535 = 0" by simp
  finally have residue: "(?t + ?c) mod 65535 = 0" .
  have "?c \<le> 65535" using c by linarith
  with t have "wordTotal (pre @ put16 (internetChecksum ?zeroed) @ post) < 2 ^ 32" unfolding total by linarith
  from checksum_zero_iff [OF this] show ?thesis unfolding total using nonzero residue by blast
qed

section \<open>Floating-point codes\<close>

lemma firstCode_least:
  assumes "code \<le> maxCode"
  shows "code \<le> firstCode decode maxCode wanted code" "firstCode decode maxCode wanted code \<le> maxCode"
    and "wanted \<le> decode (firstCode decode maxCode wanted code) \<or> firstCode decode maxCode wanted code = maxCode"
    and "code \<le> c \<Longrightarrow> c < firstCode decode maxCode wanted code \<Longrightarrow> decode c < wanted"
proof -
  have "code \<le> firstCode decode maxCode wanted code \<and> firstCode decode maxCode wanted code \<le> maxCode
      \<and> (wanted \<le> decode (firstCode decode maxCode wanted code) \<or> firstCode decode maxCode wanted code = maxCode)
      \<and> (code \<le> c \<and> c < firstCode decode maxCode wanted code \<longrightarrow> decode c < wanted)"
    using assms
  proof (induction decode maxCode wanted code rule: firstCode.induct)
    case (1 decode maxCode wanted code)
    show ?case
    proof (cases "wanted \<le> decode code \<or> code = maxCode")
      case True
      then have "firstCode decode maxCode wanted code = code"
        using "1.prems" by (auto simp: firstCode.simps [of decode maxCode wanted code] firstCode.simps [of decode maxCode wanted "Suc code"])
      with True "1.prems" show ?thesis by auto
    next
      case False
      then have "firstCode decode maxCode wanted code = firstCode decode maxCode wanted (code + 1)"
        using "1.prems" by (subst firstCode.simps) simp
      moreover have "c = code \<or> code + 1 \<le> c" if "code \<le> c" using that by auto
      ultimately show ?thesis using 1 False by (auto simp: not_le)
    qed
  qed
  then show "code \<le> firstCode decode maxCode wanted code" "firstCode decode maxCode wanted code \<le> maxCode"
    and "wanted \<le> decode (firstCode decode maxCode wanted code) \<or> firstCode decode maxCode wanted code = maxCode"
    and "code \<le> c \<Longrightarrow> c < firstCode decode maxCode wanted code \<Longrightarrow> decode c < wanted"
    by blast+
qed

lemma unat_field: "unat (w AND mask n) = unat w mod 2 ^ n" for w :: "'a::len word"
proof -
  have "unat (w AND mask n) = unat (take_bit n w)" by (simp only: take_bit_eq_mask)
  also have "\<dots> = take_bit n (unat w)" by (rule unsigned_take_bit_eq)
  finally show ?thesis by (simp only: take_bit_eq_mod)
qed

lemma unat_or_bit:
  fixes w :: "'a::len word"
  assumes "unat w < 2 ^ n" "n < LENGTH('a)"
  shows "unat (w OR push_bit n 1) = unat w + 2 ^ n"
proof -
  have "w AND push_bit n 1 = 0"
  proof (rule bit_word_eqI)
    fix k
    have "\<not> bit w n"
    proof
      assume "bit w n"
      then have "bit (unat w) n" by (simp add: bit_unsigned_iff)
      with assms(1) show False by (simp add: bit_iff_odd)
    qed
    then show "bit (w AND push_bit n 1) k = bit (0 :: 'a word) k"
      by (auto simp: bit_simps)
  qed
  then have "w OR push_bit n 1 = w + push_bit n 1" by (simp only: disjunctive_add_eq_or)
  moreover have "unat (push_bit n 1 :: 'a word) = 2 ^ n"
  proof -
    have "(push_bit n 1 :: 'a word) = of_nat (2 ^ n)" by (simp add: push_bit_eq_mult)
    moreover have "(2 :: nat) ^ n < 2 ^ LENGTH('a)" using assms(2) by simp
    ultimately show ?thesis by (simp only: unat_of_nat mod_less)
  qed
  moreover have "2 ^ n + 2 ^ n \<le> (2 :: nat) ^ LENGTH('a)"
    using assms(2) by (metis Suc_leI mult_2 one_le_numeral power_Suc power_increasing)
  ultimately show ?thesis using assms(1) by (simp add: unat_word_ariths)
qed

text \<open>
  The number a code stands for, with mantissas of \<open>P\<close> values: the codes below \<open>8 * P\<close> stand for
  themselves.
\<close>

definition codeValue :: "nat \<Rightarrow> nat \<Rightarrow> nat" where
  "codeValue P n = (if n < 8 * P then n else (P + n mod P) * 2 ^ (n div P mod 8 + 3))"

lemma div_mod_decomp: "(r :: nat) < P \<Longrightarrow> (P * q + r) div P = q \<and> (P * q + r) mod P = r"
  by simp

lemma codeValue_Suc:
  assumes "0 < P" "n + 1 < 16 * P"
  shows "codeValue P n < codeValue P (n + 1)"
proof (cases "n + 1 < 8 * P")
  case False
  define e m where "e = (n + 1) div P - 8" and "m = (n + 1) mod P"
  have range: "8 \<le> (n + 1) div P" "(n + 1) div P < 16"
    using False assms by (simp_all add: less_eq_div_iff_mult_less_eq less_mult_imp_div_less)
  then have e: "(n + 1) div P = e + 8" "(n + 1) div P mod 8 = e" by (simp_all add: e_def mod_if)
  have split: "n + 1 = P * (e + 8) + m" using e(1) m_def mult_div_mod_eq [of P "n + 1"] by simp
  have new: "codeValue P (n + 1) = (P + m) * 2 ^ (e + 3)" using False e(2) by (simp add: codeValue_def m_def)
  show ?thesis
  proof (cases "m = 0")
    case True
    then have n: "n = P * (e + 8) - 1" using split by simp
    show ?thesis
    proof (cases e)
      case 0
      then show ?thesis using new True n assms(1) by (simp add: codeValue_def)
    next
      case (Suc d)
      have decomp: "n = P * (d + 8) + (P - 1)" using n Suc assms(1) by (simp add: algebra_simps)
      have "P - 1 < P" using assms(1) by simp
      then have "n div P = d + 8" "n mod P = P - 1" using div_mod_decomp [of "P - 1" P "d + 8"] decomp by simp_all
      moreover have "d < 8" using range e Suc by simp
      moreover have "\<not> n < 8 * P" using decomp by (simp add: algebra_simps)
      ultimately have "codeValue P n = (P + (P - 1)) * 2 ^ (d + 3)" by (simp add: codeValue_def)
      moreover have "(P + (P - 1)) * 2 ^ (d + 3) < 2 * P * 2 ^ (d + 3)"
        by (rule mult_strict_right_mono) (use assms(1) in simp_all)
      moreover have "codeValue P (n + 1) = 2 * P * 2 ^ (d + 3)" using new True Suc by (simp add: power_add)
      ultimately show ?thesis by simp
    qed
  next
    case m: False
    have decomp: "n = P * (e + 8) + (m - 1)" using split m by simp
    moreover have "m - 1 < P" using assms(1) m_def by (meson less_imp_diff_less mod_less_divisor)
    ultimately have "n div P = e + 8" "n mod P = m - 1" by simp_all
    moreover have "e < 8" using range e by simp
    moreover have "\<not> n < 8 * P" using decomp by (simp add: algebra_simps)
    ultimately have "codeValue P n = (P + (m - 1)) * 2 ^ (e + 3)" by (simp add: codeValue_def)
    then show ?thesis using new m by simp
  qed
qed (simp add: codeValue_def)

lemma codeValue_mono:
  assumes "0 < P" "a < b" "b < 16 * P"
  shows "codeValue P a < codeValue P b"
  using assms(2,3)
proof (induction b)
  case (Suc b)
  have step: "codeValue P b < codeValue P (b + 1)" using codeValue_Suc [OF assms(1)] Suc.prems(2) by simp
  show ?case
  proof (cases "a = b")
    case False
    then show ?thesis using Suc step by simp
  qed (use step in simp)
qed simp

lemma unat_push:
  fixes w :: "'a::len word"
  assumes "unat w * 2 ^ k < 2 ^ LENGTH('a)"
  shows "unat (push_bit k w) = unat w * 2 ^ k"
proof -
  have "push_bit k w = of_nat (unat w * 2 ^ k)" by (simp add: push_bit_eq_mult)
  then show ?thesis using assms by (simp only: unat_of_nat mod_less)
qed

lemma exponent_bound: "(P + n mod P) * 2 ^ (e mod 8 + 3) \<le> 2 * P * 2 ^ 10" if "0 < P" for n P e :: nat
proof (rule mult_le_mono)
  have "n mod P < P" using that by simp
  then show "P + n mod P \<le> 2 * P" by simp
  show "(2 :: nat) ^ (e mod 8 + 3) \<le> 2 ^ 10" by (rule power_increasing) simp_all
qed

lemma decodeFloating8_value: "unat (decodeFloating8 c) = codeValue 16 (unat c)"
proof (cases "c < 128")
  case True
  moreover have "unat c < 128" using True by (simp add: word_less_nat_alt)
  ultimately show ?thesis by (simp add: decodeFloating8_def codeValue_def)
next
  case False
  have big: "\<not> unat c < 128" using False by (simp add: word_less_nat_alt)
  have mant: "unat (ucast (c AND 15) OR 16 :: u32) = 16 + unat c mod 16"
    using unat_or_bit [of "ucast (c AND 15) :: u32" 4] unat_field [of c 4]
    by (simp add: push_bit_eq_mult mask_eq_exp_minus_1)
  have expo: "unat (drop_bit 4 c AND 7) = unat c div 16 mod 8"
    using unat_field [of "drop_bit 4 c" 3] by (simp add: mask_eq_exp_minus_1 drop_bit_eq_div unat_div_distrib)
  have "unat (decodeFloating8 c) = (16 + unat c mod 16) * 2 ^ (unat c div 16 mod 8 + 3)"
    using False mant expo exponent_bound [of 16 "unat c" "unat c div 16"]
    by (simp add: decodeFloating8_def Let_def unat_push del: push_bit_or)
  then show ?thesis using big by (simp add: codeValue_def)
qed

lemma decodeFloating16_value: "unat (decodeFloating16 c) = codeValue 0x1000 (unat c)"
proof (cases "c < 0x8000")
  case True
  have "unat c < 0x8000" using True by (simp add: word_less_nat_alt)
  moreover from this have "unat (ucast c :: u64) = unat c" by (simp add: unsigned_ucast_eq take_bit_nat_eq_self)
  ultimately show ?thesis using True by (simp add: decodeFloating16_def codeValue_def)
next
  case False
  have big: "\<not> unat c < 0x8000" using False by (simp add: word_less_nat_alt)
  have field: "unat (c AND 0xfff) = unat c mod 0x1000"
    using unat_field [of c 12] by (simp add: mask_eq_exp_minus_1)
  then have low: "unat (ucast (c AND 0xfff) :: u64) = unat c mod 0x1000"
    using unat_half [of "c AND 0xfff"] by (simp add: unsigned_ucast_eq take_bit_nat_eq_self)
  have mant: "unat (ucast (c AND 0xfff) OR 0x1000 :: u64) = 0x1000 + unat c mod 0x1000"
    using unat_or_bit [of "ucast (c AND 0xfff) :: u64" 12] low by (simp add: push_bit_eq_mult)
  have expo: "unat (drop_bit 12 c AND 7) = unat c div 0x1000 mod 8"
    using unat_field [of "drop_bit 12 c" 3] by (simp add: mask_eq_exp_minus_1 drop_bit_eq_div unat_div_distrib)
  have "unat (decodeFloating16 c) = (0x1000 + unat c mod 0x1000) * 2 ^ (unat c div 0x1000 mod 8 + 3)"
    using False mant expo exponent_bound [of "0x1000" "unat c" "unat c div 0x1000"]
    by (simp add: decodeFloating16_def Let_def unat_push del: push_bit_or)
  then show ?thesis using big by (simp add: codeValue_def)
qed

text \<open>
  A table of codes whose values increase, with an encoder that returns the first code that stands for
  at least the wanted value, or the last code.
\<close>

locale code_table =
  fixes decode :: "'c::linorder \<Rightarrow> 'v::linorder" and encode :: "'v \<Rightarrow> 'c" and top_code :: 'c
  assumes decode_mono: "a < b \<Longrightarrow> decode a < decode b"
    and below_top: "c \<le> top_code"
    and before: "c < encode v \<Longrightarrow> decode c < v"
    and reaches: "v \<le> decode (encode v) \<or> encode v = top_code"
begin

lemma encode_decode: "encode (decode c) = c"
proof (rule linorder_cases [of "encode (decode c)" c])
  assume less: "encode (decode c) < c"
  then have "decode (encode (decode c)) < decode c" by (rule decode_mono)
  with reaches [of "decode c"] have "encode (decode c) = top_code" by auto
  with less below_top [of c] show ?thesis by auto
qed (use before [of c "decode c"] in auto)

lemma encode_covers: "v \<le> decode top_code \<Longrightarrow> v \<le> decode (encode v)"
  using reaches [of v] by auto

lemma encode_least: "decode c < v \<or> encode v \<le> c"
  using before [of c v] by (meson not_le)

lemma encode_saturates: "decode top_code < v \<Longrightarrow> encode v = top_code"
  using reaches [of v] below_top [of "encode v"] decode_mono [of "encode v" top_code] by fastforce

lemmas encode_facts = encode_decode encode_covers encode_least encode_saturates

end

lemma decodeFloating8_mono: "a < b \<Longrightarrow> decodeFloating8 a < decodeFloating8 b"
  using codeValue_mono [of 16 "unat a" "unat b"] unat_octet [of b]
  by (simp add: word_less_nat_alt decodeFloating8_value)

lemma decodeFloating16_mono: "a < b \<Longrightarrow> decodeFloating16 a < decodeFloating16 b"
  using codeValue_mono [of "0x1000" "unat a" "unat b"] unat_half [of b]
  by (simp add: word_less_nat_alt decodeFloating16_value)

interpretation code8: code_table decodeFloating8 encodeFloating8 255
proof
  fix a b c :: u8 and v :: u32
  show "a < b \<Longrightarrow> decodeFloating8 a < decodeFloating8 b" by (rule decodeFloating8_mono)
  show "c \<le> 255" using unat_octet [of c] by (simp add: word_le_nat_alt)
  have "(c < encodeFloating8 v \<longrightarrow> decodeFloating8 c < v)
      \<and> (v \<le> decodeFloating8 (encodeFloating8 v) \<or> encodeFloating8 v = 255)"
  proof (cases "v < 128")
    case True
    then have small: "unat v < 128" by (simp add: word_less_nat_alt)
    then have enc: "unat (encodeFloating8 v) = unat v"
      using True by (simp add: encodeFloating8_def unsigned_ucast_eq take_bit_nat_eq_self)
    then have "v = decodeFloating8 (encodeFloating8 v)"
      using small by (simp add: word_unat_eq_iff decodeFloating8_value codeValue_def)
    then show ?thesis using decodeFloating8_mono [of c "encodeFloating8 v"] by auto
  next
    case False
    let ?n = "firstCode (\<lambda>code. decodeFloating8 (of_nat code)) 255 v 128"
    have range: "128 \<le> ?n" "?n \<le> 255" by (rule firstCode_least; simp)+
    have enc: "encodeFloating8 v = of_nat ?n" "unat (encodeFloating8 v) = ?n"
      using False range by (simp_all add: encodeFloating8_def unat_of_nat)
    have low: "decodeFloating8 c < v" if "unat c < 128"
    proof -
      have "unat (decodeFloating8 c) < 128" using that by (simp add: decodeFloating8_value codeValue_def)
      then show ?thesis using False by (simp add: word_less_nat_alt)
    qed
    have "decodeFloating8 c < v" if "c < encodeFloating8 v"
      using firstCode_least(4) [of 128 255 "unat c" "\<lambda>code. decodeFloating8 (of_nat code)" v] low that enc(2)
      by (cases "unat c < 128") (auto simp: word_less_nat_alt)
    moreover have "v \<le> decodeFloating8 (encodeFloating8 v) \<or> encodeFloating8 v = 255"
      using firstCode_least(3) [of 128 255 v "\<lambda>code. decodeFloating8 (of_nat code)"] enc(1) by auto
    ultimately show ?thesis by blast
  qed
  then show "c < encodeFloating8 v \<Longrightarrow> decodeFloating8 c < v"
    and "v \<le> decodeFloating8 (encodeFloating8 v) \<or> encodeFloating8 v = 255" by blast+
qed

interpretation code16: code_table decodeFloating16 encodeFloating16 "0xffff"
proof
  fix a b c :: u16 and v :: u64
  show "a < b \<Longrightarrow> decodeFloating16 a < decodeFloating16 b" by (rule decodeFloating16_mono)
  show "c \<le> 0xffff" using unat_half [of c] by (simp add: word_le_nat_alt)
  have "(c < encodeFloating16 v \<longrightarrow> decodeFloating16 c < v)
      \<and> (v \<le> decodeFloating16 (encodeFloating16 v) \<or> encodeFloating16 v = 0xffff)"
  proof (cases "v < 0x8000")
    case True
    then have small: "unat v < 0x8000" by (simp add: word_less_nat_alt)
    then have enc: "unat (encodeFloating16 v) = unat v"
      using True by (simp add: encodeFloating16_def unsigned_ucast_eq take_bit_nat_eq_self)
    then have "v = decodeFloating16 (encodeFloating16 v)"
      using small by (simp add: word_unat_eq_iff decodeFloating16_value codeValue_def)
    then show ?thesis using decodeFloating16_mono [of c "encodeFloating16 v"] by auto
  next
    case False
    let ?n = "firstCode (\<lambda>code. decodeFloating16 (of_nat code)) 0xffff v 0x8000"
    have range: "0x8000 \<le> ?n" "?n \<le> 0xffff" by (rule firstCode_least; simp)+
    have enc: "encodeFloating16 v = of_nat ?n" "unat (encodeFloating16 v) = ?n"
      using False range by (simp_all add: encodeFloating16_def unat_of_nat)
    have low: "decodeFloating16 c < v" if "unat c < 0x8000"
    proof -
      have "unat (decodeFloating16 c) < 0x8000" using that by (simp add: decodeFloating16_value codeValue_def)
      then show ?thesis using False by (simp add: word_less_nat_alt)
    qed
    have "decodeFloating16 c < v" if "c < encodeFloating16 v"
      using firstCode_least(4) [of "0x8000" "0xffff" "unat c" "\<lambda>code. decodeFloating16 (of_nat code)" v] low that enc(2)
      by (cases "unat c < 0x8000") (auto simp: word_less_nat_alt)
    moreover have "v \<le> decodeFloating16 (encodeFloating16 v) \<or> encodeFloating16 v = 0xffff"
      using firstCode_least(3) [of "0x8000" "0xffff" v "\<lambda>code. decodeFloating16 (of_nat code)"] enc(1) by auto
    ultimately show ?thesis by blast
  qed
  then show "c < encodeFloating16 v \<Longrightarrow> decodeFloating16 c < v"
    and "v \<le> decodeFloating16 (encodeFloating16 v) \<or> encodeFloating16 v = 0xffff" by blast+
qed

text \<open>
  C34. The floating-point codes of query times are exact: every code is the code of its own value
  (for both widths), and the code chosen for a value is the least that stands for at least the
  value, so an advertised time is never shorter than the configured one; only values beyond the
  largest code are cut to it.
\<close>

theorem floating_codes:
  "encodeFloating8 (decodeFloating8 c) = c \<and> encodeFloating16 (decodeFloating16 d) = d
   \<and> (if v \<le> decodeFloating8 255
      then v \<le> decodeFloating8 (encodeFloating8 v) \<and> (\<forall>c'. decodeFloating8 c' < v \<or> encodeFloating8 v \<le> c')
      else encodeFloating8 v = 255)
   \<and> (if w \<le> decodeFloating16 0xffff
      then w \<le> decodeFloating16 (encodeFloating16 w) \<and> (\<forall>d'. decodeFloating16 d' < w \<or> encodeFloating16 w \<le> d')
      else encodeFloating16 w = 0xffff)"
  using code8.encode_facts code16.encode_facts by (auto simp: not_le)

section \<open>Durations\<close>

lemma wrap64_id: "0 \<le> x \<Longrightarrow> x \<le> maxDuration \<Longrightarrow> wrap64 x = x"
  unfolding wrap64_def by (subst sint_sbintrunc') (simp add: signed_take_bit_int_eq_self maxDuration_def)

lemma scaled_duration:
  fixes n :: u64
  assumes "0 < unit" "0 \<le> q" "q * unit \<le> maxDuration" "maxDuration < (q + 1) * unit"
  shows "(if n > of_int q then maxDuration else wrap64 (sint n * unit)) = min maxDuration (uint n * unit)"
proof -
  have q: "q < 2 ^ 63"
    using assms(1-3) mult_left_mono [of 1 unit q] by (simp add: maxDuration_def)
  then have "uint (of_int q :: u64) = q" using assms(2) by (simp add: uint_word_of_int)
  then have limit: "n > of_int q \<longleftrightarrow> uint n > q" by (simp add: word_less_def)
  show ?thesis
  proof (cases "uint n > q")
    case True
    then have "(q + 1) * unit \<le> uint n * unit" using assms(1) by (intro mult_right_mono) simp_all
    with True limit assms(4) show ?thesis by simp
  next
    case False
    then have le: "uint n * unit \<le> maxDuration"
      using assms(1,3) mult_right_mono [of "uint n" q unit] by linarith
    have "signed_take_bit 63 (uint n) = uint n"
      using False q order_trans [of "- (2 ^ 63)" 0 "uint n"] by (intro signed_take_bit_int_eq_self) simp_all
    then have "sint n = uint n" by (simp add: sint_uint)
    with False limit le assms(1) show ?thesis by (simp add: wrap64_id)
  qed
qed

lemma secondsDuration_exact: "secondsDuration n = min maxDuration (uint n * nsSecond)"
  unfolding secondsDuration_def by (rule scaled_duration) (simp_all add: maxDuration_def nsSecond_def)

lemma decisecondsDuration_exact: "decisecondsDuration n = min maxDuration (uint n * 100000000)"
  unfolding decisecondsDuration_def by (rule scaled_duration) (simp_all add: maxDuration_def)

lemma uint_widen32 [simp]: "uint (ucast (w :: u32) :: u64) = uint w"
  using uint_lt2p [of w] by (simp add: unsigned_ucast_eq take_bit_int_eq_self)

text \<open>
  The timers of a profile never wrap around: the group membership interval is the robustness times
  the query interval plus the response time, computed exactly and cut at the largest duration; the
  last member query interval is exact.
\<close>

theorem timers_saturate:
  "membershipInterval profile = min maxDuration
     (uint (effectiveRobustness profile) * uint (effectiveQueryInterval profile) * nsSecond
      + uint (effectiveQueryResponse profile) * 100000000)
   \<and> effectiveLastMemberInterval profile
     = uint (if LastMemberQueryInterval profile = 0 then 10 else LastMemberQueryInterval profile) * 100000000"
proof -
  let ?r = "effectiveRobustness profile" and ?i = "effectiveQueryInterval profile" and ?t = "effectiveQueryResponse profile"
  have r: "uint (ucast ?r :: u64) = uint ?r"
    using uint_lt2p [of ?r] by (simp add: unsigned_ucast_eq take_bit_int_eq_self)
  have "uint ?r * uint ?i \<le> 255 * (2 ^ 32 - 1)"
    by (rule mult_mono) (use uint_lt2p [of ?r] uint_lt2p [of ?i] in simp_all)
  then have product: "uint (ucast ?r * ucast ?i :: u64) = uint ?r * uint ?i"
    using r by (simp add: uint_word_ariths)
  have small: "uint w * 100000000 < 2 ^ 62" "0 \<le> uint w * 100000000" for w :: u32
    using uint_lt2p [of w] by simp_all
  let ?s = "min maxDuration (uint ?r * uint ?i * nsSecond)" and ?d = "uint ?t * 100000000"
  have d: "decisecondsDuration (ucast ?t) = ?d"
    using small(1) [of ?t] by (simp add: decisecondsDuration_exact maxDuration_def)
  have s: "secondsDuration (ucast ?r * ucast ?i) = ?s" by (simp add: secondsDuration_exact product)
  have range: "0 \<le> ?s" "?s \<le> maxDuration" by (simp_all add: maxDuration_def nsSecond_def)
  have diff: "wrap64 (maxDuration - ?d) = maxDuration - ?d"
    by (rule wrap64_id) (use small [of ?t] in \<open>simp_all add: maxDuration_def\<close>)
  have cut: "min m a > m - e \<Longrightarrow> 0 \<le> e \<Longrightarrow> min m (a + e) = m" "\<not> min m a > m - e \<Longrightarrow> 0 \<le> e \<Longrightarrow> min m (a + e) = min m a + e"
    for m a e :: int by (auto simp: min_def split: if_splits)
  have "membershipInterval profile = min maxDuration (uint ?r * uint ?i * nsSecond + ?d)"
  proof (cases "?s > maxDuration - ?d")
    case True
    then show ?thesis unfolding membershipInterval_def Let_def d s diff cut(1) [OF True small(2)]
      by (simp only: if_True)
  next
    case False
    then have "wrap64 (?s + ?d) = ?s + ?d"
      by (intro wrap64_id) (use False range small [of ?t] in linarith)+
    with False show ?thesis unfolding membershipInterval_def Let_def d s diff cut(2) [OF False small(2)]
      by (simp only: if_False)
  qed
  moreover have "effectiveLastMemberInterval profile
     = uint (if LastMemberQueryInterval profile = 0 then 10 else LastMemberQueryInterval profile) * 100000000"
    using small(1) [of "LastMemberQueryInterval profile"]
    by (simp add: effectiveLastMemberInterval_def decisecondsDuration_exact maxDuration_def)
  ultimately show ?thesis by blast
qed

end
