(* ===== verification/McRoundTrip.thy ===== *)
theory McRoundTrip
  imports McBuildProofs
begin

unbundle bit_operations_syntax

text \<open>
  The frames the proxy builds are the frames the parser reads: parsing a built report or query gives
  back what was reported or asked.
\<close>

section \<open>Packets in canonical form\<close>

lemma list_of_length:
  "length xs = 4 \<Longrightarrow> \<exists>a b c d. xs = [a, b, c, d]"
  by (auto simp: eval_nat_numeral length_Suc_conv)

lemma igmpPacket_form:
  assumes "length source = 4" "length destination = 4"
  shows "\<exists>ck. igmpPacket source destination igmp =
     [0x46, 0] @ put16 (of_nat (24 + length igmp)) @ [0, 0, 0, 0, 1, 2] @ put16 ck @ source @ destination
       @ [0x94, 0x04, 0, 0] @ igmp"
proof -
  obtain a b c d e f g h where ends: "source = [a, b, c, d]" "destination = [e, f, g, h]"
    using list_of_length [OF assms(1)] list_of_length [OF assms(2)] by blast
  have zeros: "replicate (24 + length igmp) 0 = replicate 24 0 @ replicate (length igmp) (0 :: u8)"
    by (rule replicate_add)
  let ?len = "put16 (of_nat (24 + length igmp))"
  let ?ip = "[0x46, 0] @ ?len @ [0, 0, 0, 0, 1, 2, 0, 0] @ source @ destination @ [0x94, 0x04, 0, 0]
      @ replicate (length igmp) 0"
  have header: "overwrite 20 [0x94, 0x04, 0x00, 0x00] (overwrite 16 destination (overwrite 12 source
      ((overwrite 2 ?len ((replicate (24 + length igmp) 0)[0 := 0x46]))[8 := 1, 9 := 2]))) = ?ip"
    unfolding zeros ends by (simp add: overwrite_def put16_def eval_nat_numeral)
  have "igmpPacket source destination igmp
      = overwrite 24 igmp (overwrite 10 (put16 (internetChecksum (take 24 ?ip))) ?ip)"
    unfolding igmpPacket_def Let_def by (simp only: header length_list_update length_replicate)
  also have "overwrite 24 igmp (overwrite 10 (put16 ck) ?ip) = [0x46, 0] @ ?len @ [0, 0, 0, 0, 1, 2] @ put16 ck
      @ source @ destination @ [0x94, 0x04, 0, 0] @ igmp" for ck
    unfolding ends by (simp add: overwrite_def put16_def eval_nat_numeral)
  finally show ?thesis by blast
qed

lemma mldPacket_form:
  assumes "length source = 16" "length destination = 16"
  shows "mldPacket source destination icmp =
     [0x60, 0, 0, 0] @ put16 (of_nat (8 + length icmp)) @ [0, 1] @ source @ destination
       @ [58, 0, 5, 2, 0, 0, 1, 0] @ icmp"
proof -
  have zeros: "replicate (48 + length icmp) 0 = replicate 8 0 @ replicate 16 0 @ replicate 16 0
      @ replicate 8 0 @ replicate (length icmp) (0 :: u8)"
    by (simp flip: replicate_add)
  show ?thesis
    unfolding mldPacket_def zeros Let_def
    using assms by (simp add: overwrite_def put16_def eval_nat_numeral)
qed

section \<open>Parsing canonical packets\<close>

lemma unat_of_nat16: "n \<le> 65535 \<Longrightarrow> unat (of_nat n :: u16) = n"
  by (subst unat_of_nat) simp

lemma parseIGMP_packet:
  assumes "length source = 4" "length destination = 4" "8 \<le> length igmp" "24 + length igmp \<le> 65535"
    and "internetChecksum igmp = 0"
  shows "parseIGMP (igmpPacket source destination igmp) m = parseIGMPPayload igmp (m\<lparr>Client := AddrFrom4 source\<rparr>)"
proof -
  obtain ck where form: "igmpPacket source destination igmp =
     [0x46, 0] @ put16 (of_nat (24 + length igmp)) @ [0, 0, 0, 0, 1, 2] @ put16 ck @ source @ destination
       @ [0x94, 0x04, 0, 0] @ igmp" using igmpPacket_form [OF assms(1,2)] by blast
  obtain a b c d e f g h where ends: "source = [a, b, c, d]" "destination = [e, f, g, h]"
    using list_of_length [OF assms(1)] list_of_length [OF assms(2)] by blast
  obtain l1 l2 where len: "put16 (of_nat (24 + length igmp)) = [l1, l2]" by (simp add: put16_def)
  obtain k1 k2 where ck: "put16 ck = [k1, k2]" by (simp add: put16_def)
  let ?p = "[0x46, 0, l1, l2, 0, 0, 0, 0, 1, 2, k1, k2, a, b, c, d, e, f, g, h, 0x94, 4, 0, 0] @ igmp"
  have "be16 ?p 2 = be16 ([l1, l2] @ []) 0" by (simp add: be16_def)
  also have "\<dots> = of_nat (24 + length igmp)" unfolding len [symmetric] by (rule be16_put16_append)
  finally have total: "unat (be16 ?p 2) = 24 + length igmp" using assms(4) by (simp only: unat_of_nat16)
  have "parseIGMP ?p m = parseIGMPPayload igmp (m\<lparr>Client := AddrFrom4 source\<rparr>)"
    using assms total by (simp add: parseIGMP_def addrAt_def ends be16_def [of _ 6] Let_def)
  then show ?thesis unfolding form unfolding len ck ends by simp
qed

lemma parseMLD_packet:
  assumes "length source = 16" "length destination = 16" "8 \<le> length icmp" "8 + length icmp \<le> 65535"
    and "icmpv6Checksum source destination icmp = 0"
  shows "parseMLD (mldPacket source destination icmp) m = parseMLDPayload icmp (m\<lparr>Client := AddrFrom16 source\<rparr>)"
proof -
  obtain l1 l2 where len: "put16 (of_nat (8 + length icmp)) = [l1, l2]" by (simp add: put16_def)
  let ?head = "[0x60, 0, 0, 0, l1, l2, 0, 1] @ source @ destination"
  let ?p = "?head @ [58, 0, 5, 2, 0, 0, 1, 0] @ icmp"
  have "be16 ?p 4 = be16 ([l1, l2] @ []) 0" by (simp add: be16_def)
  also have "\<dots> = of_nat (8 + length icmp)" unfolding len [symmetric] by (rule be16_put16_append)
  finally have total: "unat (be16 ?p 4) = 8 + length icmp" using assms(4) by (simp only: unat_of_nat16)
  have at: "?p ! 40 = 58" "?p ! 41 = 0" "?p ! 6 = 0" "?p ! 0 = 0x60"
    using assms(1,2) by (simp_all add: nth_append)
  have ends: "take 16 (drop 8 ?p) = source" "take 16 (drop 24 ?p) = destination" "drop 48 ?p = icmp"
    using assms(1,2) by simp_all
  have size: "length ?p = 48 + length icmp" using assms(1,2) by simp
  have ext: "extensionHeaders p e 0 40 = Ok (58, 48)" if "length p = 48 + n" "e = 48 + n" "p ! 40 = 58" "p ! 41 = 0" for p e n
    using that by (subst extensionHeaders.simps, simp, subst extensionHeaders.simps, simp)
  have parse: "parseMLD p m = parseMLDPayload icmp (m\<lparr>Client := AddrFrom16 source\<rparr>)"
    if "unat (be16 p 4) = 8 + length icmp" "p ! 40 = 58" "p ! 41 = 0" "p ! 6 = 0" "p ! 0 = 0x60"
      "take 16 (drop 8 p) = source" "take 16 (drop 24 p) = destination" "drop 48 p = icmp"
      "length p = 48 + length icmp" for p
    using that assms(3,5) by (simp add: parseMLD_def Let_def ext)
  have "parseMLD ?p m = parseMLDPayload icmp (m\<lparr>Client := AddrFrom16 source\<rparr>)"
    by (rule parse [OF total at ends size])
  moreover have "mldPacket source destination icmp = ?p"
    unfolding mldPacket_form [OF assms(1,2)] len by simp
  ultimately show ?thesis by simp
qed

section \<open>Parsing Ethernet frames\<close>

definition tagsVLAN :: "VLANTag list \<Rightarrow> VLAN" where
  "tagsVLAN tags = (case tags of [] \<Rightarrow> \<lparr> Tagged = False, ID = 0 \<rparr>
     | tag # _ \<Rightarrow> \<lparr> Tagged = True, ID = TCI tag AND 0x0fff \<rparr>)"

abbreviation frameTags :: "VLANTag list \<Rightarrow> bool" where
  "frameTags tags \<equiv> length tags \<le> 2 \<and> list_all (\<lambda>t. isVLANType (TPID t)) tags"

definition frameHeader :: "bytes \<Rightarrow> bytes \<Rightarrow> VLANTag list \<Rightarrow> MembershipMessage" where
  "frameHeader destination sourceMAC tags = zeroMessage\<lparr>DestinationMAC := destination, SourceMAC := sourceMAC,
     Tags := tags, MsgVLAN := tagsVLAN tags\<rparr>"

lemma length_tagBytes [simp]: "length (tagBytes tags) = 4 * length tags"
  by (induction tags) simp_all

lemma tag_fields: "\<lparr> TPID = TPID t, TCI = TCI t \<rparr> = (t :: VLANTag)"
  by (cases t) simp

lemma vlanHeaders_tags:
  assumes "length tags \<le> room" "list_all (\<lambda>t. isVLANType (TPID t)) tags" "\<not> isVLANType et"
  shows "vlanHeaders room (pre @ tagBytes tags @ put16 et @ packet) (be16 (tagBytes tags @ put16 et @ packet) 0)
      (length pre + 2) acc = Ok (et, length pre + 2 + 4 * length tags, acc @ tags)"
  using assms
proof (induction tags arbitrary: pre room acc)
  case Nil
  then show ?case by (simp add: vlanHeaders.simps be16_put16_append)
next
  case (Cons t ts)
  let ?rest = "tagBytes ts @ put16 et @ packet"
  let ?frame = "pre @ tagBytes (t # ts) @ put16 et @ packet"
  obtain room' where room: "room = Suc room'" using Cons.prems(1) by (cases room) auto
  have type: "be16 (tagBytes (t # ts) @ put16 et @ packet) 0 = TPID t" by (simp add: be16_put16_append)
  have tci: "be16 ?frame (length pre + 2) = TCI t" by (simp add: be16_append2 be16_put16_append)
  have later: "be16 ?frame (length pre + 2 + 2) = be16 ?rest 0" by (simp add: be16_append2)
  have len: "length pre + 2 + 4 \<le> length ?frame" by simp
  have "vlanHeaders room ?frame (TPID t) (length pre + 2) acc
      = vlanHeaders room' ?frame (be16 ?rest 0) (length pre + 6) (acc @ [t])"
    using Cons.prems(2) len tci later room by (subst vlanHeaders.simps) (simp add: tag_fields add.commute)
  also have "\<dots> = Ok (et, length pre + 2 + 4 * length (t # ts), acc @ t # ts)"
    using Cons.IH [of room' "pre @ put16 (TPID t) @ put16 (TCI t)" "acc @ [t]"] Cons.prems room by (simp add: ac_simps)
  finally show ?case unfolding type .
qed

lemma parse_ethernet:
  assumes "length destination = 6" "length sourceMAC = 6" "frameTags tags" "et = 0x0800 \<or> et = 0x86dd"
  shows "ParseMembershipFrame (ethernetFrame destination sourceMAC tags et packet) =
     (if et = 0x0800 then parseIGMP packet (frameHeader destination sourceMAC tags)
      else parseMLD packet (frameHeader destination sourceMAC tags))"
proof -
  let ?pre = "destination @ sourceMAC"
  let ?body = "tagBytes tags @ put16 et @ packet"
  let ?frame = "?pre @ ?body"
  have type: "be16 ?frame 12 = be16 ?body 0" using assms(1,2) by (simp add: be16_append2)
  have macs: "take 6 ?frame = destination" "take 6 (drop 6 ?frame) = sourceMAC" using assms(1,2) by simp_all
  have vlan: "vlanHeaders 2 ?frame (be16 ?body 0) 14 [] = Ok (et, 14 + 4 * length tags, tags)"
    using vlanHeaders_tags [of tags 2 et ?pre packet "[]"] assms by auto
  have tail: "drop (14 + 4 * length tags) ?frame = packet" "14 + 4 * length tags + length packet = length ?frame"
    using assms(1,2) by (simp_all add: numeral_eq_Suc)
  have gen: "ParseMembershipFrame f =
     (if et = 0x0800 then parseIGMP packet (frameHeader destination sourceMAC tags)
      else parseMLD packet (frameHeader destination sourceMAC tags))"
    if "be16 f 12 = t0" "take 6 f = destination" "take 6 (drop 6 f) = sourceMAC"
      "vlanHeaders 2 f t0 14 [] = Ok (et, 14 + 4 * length tags, tags)"
      "drop (14 + 4 * length tags) f = packet" "14 + 4 * length tags + length packet = length f" for f t0
    using that assms(4) by (auto simp: ParseMembershipFrame_def Let_def frameHeader_def tagsVLAN_def)
  show ?thesis unfolding ethernetFrame_def
    using gen [OF type macs vlan tail] by simp
qed

section \<open>Parsing addresses and records\<close>

lemma length_AsSlice: "inFamily f a \<Longrightarrow> length (AsSlice a) = addrSize f"
  by (cases f; cases a) simp_all

lemma addrOf_AsSlice: "inFamily f a \<Longrightarrow> addrOf f (AsSlice a) = a"
  using be64_put64 [of _ "[]"]
  by (cases f; cases a) (simp_all add: AddrFrom4_def AddrFrom16_def be64_append2)

lemma addrAt_AsSlice:
  assumes "inFamily f a" "i = length pre"
  shows "addrAt f (pre @ AsSlice a @ rest) i = Ok a"
  using assms length_AsSlice [OF assms(1)] by (simp add: addrAt_def addrOf_AsSlice)

abbreviation slices :: "Addr list \<Rightarrow> bytes" where
  "slices as \<equiv> concat (map AsSlice as)"

lemma length_slices: "list_all (inFamily f) as \<Longrightarrow> length (slices as) = length as * addrSize f"
  by (induction as) (simp_all add: length_AsSlice)

lemma sourceList_slices:
  assumes "list_all (inFamily f) as" "i = length pre" "n = length as"
  shows "sourceList f (pre @ slices as @ rest) i n = Ok as"
  using assms
proof (induction as arbitrary: pre i n)
  case (Cons a as)
  have "addrAt f (pre @ slices (a # as) @ rest) i = Ok a"
    using addrAt_AsSlice [of f a i pre "slices as @ rest"] Cons.prems by simp
  moreover have "sourceList f ((pre @ AsSlice a) @ slices as @ rest) (i + addrSize f) (length as) = Ok as"
    using Cons.IH [of "i + addrSize f" "pre @ AsSlice a" "length as"] Cons.prems length_AsSlice [of f a] by simp
  ultimately show ?case using Cons.prems(3) by simp
qed simp

lemma parseRecords_one:
  assumes "length hdr = 8" "be16 hdr 6 = 1" "type \<noteq> 0" "type \<le> 6" "inFamily f g" "IsMulticast g"
    and "list_all (inFamily f) srcs" "length srcs \<le> 65535"
  shows "parseRecords f (hdr @ [type, 0] @ put16 (of_nat (length srcs)) @ AsSlice g @ slices srcs) m
     = Ok (m\<lparr>Records := oneRecord type g srcs\<rparr>)"
proof -
  let ?n = "length srcs"
  let ?p = "hdr @ [type, 0] @ put16 (of_nat ?n) @ AsSlice g @ slices srcs"
  have len: "length ?p = 12 + addrSize f + ?n * addrSize f"
    using assms(1,5,7) by (simp add: length_AsSlice length_slices)
  have bytes: "?p ! 8 = type" "?p ! 9 = 0" using assms(1) by (simp_all add: nth_append)
  have "be16 ?p 10 = of_nat ?n"
    using assms(1) be16_put16_append by (simp add: be16_append2 be_Cons_pos)
  then have count: "unat (be16 ?p 10) = ?n" using assms(8) by (simp add: unat_of_nat16)
  have six: "be16 ?p 6 = 1" using assms(1,2) by (simp add: be16_append1)
  have grp: "addrAt f ?p 12 = Ok g"
    using addrAt_AsSlice [of f g 12 "hdr @ [type, 0] @ put16 (of_nat ?n)" "slices srcs"] assms(1,5) by simp
  have srcs: "sourceList f ?p (8 + (4 + addrSize f)) ?n = Ok srcs"
    using sourceList_slices [of f srcs "8 + (4 + addrSize f)" "hdr @ [type, 0] @ put16 (of_nat ?n) @ AsSlice g" ?n "[]"]
      assms(1,5,7) by (simp add: length_AsSlice)
  have gen: "parseRecords f p m = Ok (m\<lparr>Records := oneRecord type g srcs\<rparr>)"
    if "length p = 12 + addrSize f + ?n * addrSize f" "p ! 8 = type" "p ! 9 = 0" "unat (be16 p 10) = ?n" "be16 p 6 = 1"
      "addrAt f p 12 = Ok g" "sourceList f p (8 + (4 + addrSize f)) ?n = Ok srcs" for p
    using that assms(3,4,6) by (simp add: parseRecords_def parseRecord_def oneRecord_def Let_def not_less word_gt_0)
  show ?thesis by (rule gen [OF len bytes count six grp srcs])
qed

section \<open>Reports\<close>

lemma appendSources_slices:
  "appendSources f message as msg = Ok msg' \<Longrightarrow> list_all (plainAddr f) as \<and> msg' = msg @ slices as"
  by (induction as arbitrary: msg) (fastforce split: if_splits)+

lemma plain_inFamily: "plainAddr f a \<Longrightarrow> inFamily f a"
  by (cases f) simp_all

text \<open>
  The record a report stands for: which filter the network is told to use for the group, and the
  sources it names.
\<close>

definition reportRecord :: "UpstreamReport \<Rightarrow> MembershipRecord" where
  "reportRecord report =
     (let g = ReportGroup report; legacy = IGMPVersion (ReportProfile report) \<notin> {3, 17};
          anySource = IsUnspecified (GroupSource g);
          (type, srcs) =
            (if legacy then (if ReportJoin report then ModeIsExclude else ChangeToIncludeMode, [])
             else if ReportJoin report then
               (if anySource then (ChangeToExcludeMode, ExcludedSources g)
                else (ChangeToIncludeMode, if IncludedSources g = [] then [GroupSource g] else IncludedSources g))
             else if anySource then (ChangeToIncludeMode, []) else (BlockOldSources, [GroupSource g])) in
      \<lparr> RecordType = type, RecordGroup = GroupAddr g, Sources = srcs \<rparr>)"

lemma unspecified_family: "inFamily f a \<Longrightarrow> a = unspecified f \<longleftrightarrow> IsUnspecified a"
  by (cases f; cases a) (simp_all add: unspecified_def IsUnspecified_def IPv4Unspecified_def IPv6Unspecified_def)

lemma recordBody_form:
  assumes "recordBody f report (AsSlice g) base = Ok msg"
    and base: "base = hdr @ replicate (4 + addrSize f) 0" "length hdr = 8"
    and fam: "inFamily f g" "inFamily f (GroupSource (ReportGroup report))"
    and g: "g = GroupAddr (ReportGroup report)" and full: "IGMPVersion (ReportProfile report) \<in> {3, 17}"
  shows "\<exists>type srcs. reportRecord report = \<lparr> RecordType = type, RecordGroup = g, Sources = srcs \<rparr>
     \<and> msg = hdr @ [type, 0] @ put16 (of_nat (length srcs)) @ AsSlice g @ slices srcs
     \<and> list_all (inFamily f) srcs \<and> length srcs \<le> 65535 \<and> type \<noteq> 0 \<and> type \<le> 6"
proof -
  have len: "length (AsSlice g) = addrSize f" using fam(1) by (rule length_AsSlice)
  have put: "overwrite 12 (AsSlice g) ((overwrite 10 (put16 n) (base[8 := t])) @ rest)
      = hdr @ [t, 0] @ put16 n @ AsSlice g @ rest"
    "overwrite 12 (AsSlice g) (base[8 := t]) = hdr @ [t, 0] @ put16 0 @ AsSlice g" for t n rest
    using base len by (simp_all add: overwrite_def put16_def list_update_append eval_nat_numeral)
  have fam': "list_all (plainAddr f) as \<Longrightarrow> list_all (inFamily f) as" for as
    by (auto simp: list_all_iff plain_inFamily)
  show ?thesis
    using assms(1) fam(2) full unspecified_family [OF fam(2)] unfolding g
    by (auto simp: recordBody_def reportRecord_def Let_def bindR_eq_Ok put [unfolded g] fam' split: if_splits
        dest!: appendSources_slices)
qed

section \<open>Checksummed messages\<close>

lemma igmp_checked:
  fixes t c
  assumes "length post \<le> 100000"
  defines "msg \<equiv> [t, c, 0, 0] @ post"
  shows "\<exists>ck. overwrite 2 (put16 (internetChecksum msg)) msg = [t, c] @ put16 ck @ post
     \<and> internetChecksum ([t, c] @ put16 ck @ post) = 0"
proof (intro exI conjI)
  show "overwrite 2 (put16 (internetChecksum msg)) msg = [t, c] @ put16 (internetChecksum msg) @ post"
    by (simp add: msg_def overwrite_def eval_nat_numeral)
  show "internetChecksum ([t, c] @ put16 (internetChecksum msg) @ post) = 0"
    using checksum_verifies [of "[t, c]" post] assms(1) by (simp add: msg_def)
qed

lemma icmpv6Checksum_pseudo:
  assumes "length source = 16" "length destination = 16"
  shows "icmpv6Checksum source destination payload = internetChecksum
     (source @ destination @ put32 (of_nat (length payload)) @ [0, 0, 0, 58] @ payload)"
proof -
  have zeros: "replicate (40 + length payload) 0 = replicate 16 0 @ replicate 16 0 @ replicate 8 0
      @ replicate (length payload) (0 :: u8)" by (simp flip: replicate_add)
  show ?thesis unfolding icmpv6Checksum_def zeros Let_def using assms
    by (simp add: overwrite_def put32_def list_update_append eval_nat_numeral)
qed

lemma icmpv6_checked:
  fixes t c
  assumes "length post \<le> 100000" "length source = 16" "length destination = 16"
  defines "msg \<equiv> [t, c, 0, 0] @ post"
  shows "\<exists>ck. overwrite 2 (put16 (icmpv6Checksum source destination msg)) msg = [t, c] @ put16 ck @ post
     \<and> icmpv6Checksum source destination ([t, c] @ put16 ck @ post) = 0"
proof -
  let ?pre = "source @ destination @ put32 (of_nat (length ([t, c, 0, 0] @ post))) @ [0, 0, 0, 58] @ [t, c]"
  let ?ck = "icmpv6Checksum source destination msg"
  have "?ck = internetChecksum (?pre @ [0, 0] @ post)"
    by (simp add: icmpv6Checksum_pseudo [OF assms(2,3)] msg_def)
  moreover have "internetChecksum (?pre @ put16 (internetChecksum (?pre @ [0, 0] @ post)) @ post) = 0"
    by (rule checksum_verifies) (use assms in simp_all)
  ultimately have "icmpv6Checksum source destination ([t, c] @ put16 ?ck @ post) = 0"
    by (simp add: icmpv6Checksum_pseudo [OF assms(2,3)])
  moreover have "overwrite 2 (put16 ?ck) msg = [t, c] @ put16 ?ck @ post"
    by (simp add: msg_def overwrite_def eval_nat_numeral)
  ultimately show ?thesis by blast
qed

text \<open>A packet whose message was completed with its checksum is parsed as that message.\<close>

lemma igmp_packet_parses:
  fixes t c
  assumes "length source = 4" "length destination = 4" "4 \<le> length post"
  defines "msg \<equiv> [t, c, 0, 0] @ post"
  defines "packet \<equiv> igmpPacket source destination (overwrite 2 (put16 (internetChecksum msg)) msg)"
  assumes "length packet \<le> 65535"
  shows "\<exists>ck. parseIGMP packet m = parseIGMPPayload ([t, c] @ put16 ck @ post) (m\<lparr>Client := AddrFrom4 source\<rparr>)"
proof -
  have size: "length packet = 28 + length post"
    using igmpPacket_form [OF assms(1,2), of "overwrite 2 (put16 (internetChecksum msg)) msg"] assms(1,2)
    by (auto simp: packet_def msg_def)
  then obtain ck where ck: "overwrite 2 (put16 (internetChecksum msg)) msg = [t, c] @ put16 ck @ post"
      "internetChecksum ([t, c] @ put16 ck @ post) = 0"
    using igmp_checked [of post t c] assms(6) by (auto simp: msg_def)
  have "parseIGMP packet m = parseIGMPPayload ([t, c] @ put16 ck @ post) (m\<lparr>Client := AddrFrom4 source\<rparr>)"
    unfolding packet_def ck(1)
    by (rule parseIGMP_packet [OF assms(1,2) _ _ ck(2)]) (use assms(3,6) size in simp_all)
  then show ?thesis by blast
qed

lemma mld_packet_parses:
  fixes t c
  assumes "length source = 16" "length destination = 16" "4 \<le> length post"
  defines "msg \<equiv> [t, c, 0, 0] @ post"
  defines "packet \<equiv> mldPacket source destination (overwrite 2 (put16 (icmpv6Checksum source destination msg)) msg)"
  assumes "length packet \<le> 65535"
  shows "\<exists>ck. parseMLD packet m = parseMLDPayload ([t, c] @ put16 ck @ post) (m\<lparr>Client := AddrFrom16 source\<rparr>)"
proof -
  have size: "length packet = 52 + length post"
    using assms(1,2) by (simp add: packet_def mldPacket_form msg_def)
  then obtain ck where ck: "overwrite 2 (put16 (icmpv6Checksum source destination msg)) msg = [t, c] @ put16 ck @ post"
      "icmpv6Checksum source destination ([t, c] @ put16 ck @ post) = 0"
    using icmpv6_checked [of post source destination t c] assms(1,2,6) by (auto simp: msg_def)
  have "parseMLD packet m = parseMLDPayload ([t, c] @ put16 ck @ post) (m\<lparr>Client := AddrFrom16 source\<rparr>)"
    unfolding packet_def ck(1)
    by (rule parseMLD_packet [OF assms(1,2) _ _ ck(2)]) (use assms(3,6) size in simp_all)
  then show ?thesis by blast
qed

section \<open>Parsing a built report\<close>

definition reportMessage :: "bytes \<Rightarrow> VLANTag list \<Rightarrow> UpstreamReport \<Rightarrow> MembershipMessage" where
  "reportMessage destination tags report = (frameHeader destination (ReportSourceMAC report) tags)
     \<lparr>Client := GroupClient (ReportGroup report), MsgKind := MessageReport,
      MsgVersion := IGMPVersion (ReportProfile report), Records := [reportRecord report]\<rparr>"

lemma parse_legacy_igmp:
  assumes "Is4 g" "IsMulticast g" "t = 0x12 \<or> t = 0x16 \<or> t = 0x17"
  shows "parseIGMPPayload ([t, 0] @ put16 ck @ AsSlice g) m
      = Ok (m\<lparr>MsgKind := MessageReport, MsgVersion := if t = 0x12 then 1 else 2,
            Records := oneRecord (if t = 0x17 then ChangeToIncludeMode else ModeIsExclude) g []\<rparr>)"
proof -
  have "addrAt IGMP ([t, 0] @ put16 ck @ AsSlice g) 4 = Ok g" for t
    using addrAt_AsSlice [of IGMP g 4 "[t, 0] @ put16 ck" "[]"] assms(1) by simp
  then show ?thesis using assms(2,3) by (auto simp: parseIGMPPayload_def)
qed

lemma parse_legacy_mld:
  assumes "Is6 g" "IsMulticast g" "t = 131 \<or> t = 132"
  shows "parseMLDPayload ([t, 0] @ put16 ck @ [0, 0, 0, 0] @ AsSlice g) m
      = Ok (m\<lparr>MsgKind := MessageReport, MsgVersion := 16,
            Records := oneRecord (if t = 132 then ChangeToIncludeMode else ModeIsExclude) g []\<rparr>)"
proof -
  have "addrAt MLD ([t, 0] @ put16 ck @ [0, 0, 0, 0] @ AsSlice g) 8 = Ok g" for t
    using addrAt_AsSlice [of MLD g 8 "[t, 0] @ put16 ck @ [0, 0, 0, 0]" "[]"] assms(1) by simp
  then show ?thesis using assms length_AsSlice [of MLD g] by (auto simp: parseMLDPayload_def)
qed

lemma igmp_report_parses:
  assumes "buildIGMPPacket report = Ok (Some packet)" "length packet \<le> 65535"
    and g: "Is4 (GroupAddr (ReportGroup report))" "IsMulticast (GroupAddr (ReportGroup report))"
    and ends: "Is4 (GroupSource (ReportGroup report))" "Is4 (GroupClient (ReportGroup report))"
  shows "parseIGMP packet (frameHeader destination (ReportSourceMAC report) tags) = Ok (reportMessage destination tags report)"
proof -
  let ?g = "GroupAddr (ReportGroup report)" and ?client = "AsSlice (GroupClient (ReportGroup report))"
  let ?v = "IGMPVersion (ReportProfile report)" and ?m = "frameHeader destination (ReportSourceMAC report) tags"
  have group4: "As4 ?g = Ok (AsSlice ?g)" using g(1) by (cases ?g) simp_all
  have lens: "length ?client = 4" "length (AsSlice ?g) = 4"
    using length_AsSlice [of IGMP] ends(2) g(1) by simp_all
  have client: "AddrFrom4 ?client = GroupClient (ReportGroup report)"
    using addrOf_AsSlice [of IGMP] ends(2) by simp
  have parses: "\<exists>ck. parseIGMP packet ?m
      = parseIGMPPayload ([t, 0] @ put16 ck @ post) (?m\<lparr>Client := GroupClient (ReportGroup report)\<rparr>)"
    if "packet = igmpPacket ?client dst (overwrite 2 (put16 (internetChecksum ([t, 0, 0, 0] @ post))) ([t, 0, 0, 0] @ post))"
      "length dst = 4" "4 \<le> length post" for t dst post
    using igmp_packet_parses [OF lens(1) that(2,3), of t 0 ?m] that(1) assms(2) by (simp add: client)
  have fill: "overwrite 4 (AsSlice ?g) ((replicate 8 0)[0 := t]) = [t, 0, 0, 0] @ AsSlice ?g" for t
    using lens(2) by (simp add: overwrite_def eval_nat_numeral)
  have legacy: ?thesis if "?v = (if t = 0x12 then 1 else 2)" "t = 0x12 \<or> t = 0x16 \<or> t = 0x17"
      "ReportJoin report = (t \<noteq> 0x17)" "length dst = 4"
      "packet = igmpPacket ?client dst (overwrite 2 (put16 (internetChecksum ([t, 0, 0, 0] @ AsSlice ?g))) ([t, 0, 0, 0] @ AsSlice ?g))"
    for t dst
  proof -
    from parses [OF that(5,4)] lens(2) obtain ck where "parseIGMP packet ?m
        = parseIGMPPayload ([t, 0] @ put16 ck @ AsSlice ?g) (?m\<lparr>Client := GroupClient (ReportGroup report)\<rparr>)" by auto
    then show ?thesis unfolding parse_legacy_igmp [OF g that(2)]
      using that(1-3) by (auto simp: reportMessage_def reportRecord_def oneRecord_def Let_def)
  qed
  consider "?v = 1" "ReportJoin report" | "?v = 2" "ReportJoin report" | "?v = 2" "\<not> ReportJoin report" | "?v = 3"
    using assms(1) by (auto simp: buildIGMPPacket_def group4 Let_def split: if_splits)
  then show ?thesis
  proof cases
    case 1
    with assms(1) show ?thesis
      by (intro legacy [of "0x12" "AsSlice ?g"]) (simp_all add: buildIGMPPacket_def group4 Let_def fill lens(2))
  next
    case 2
    with assms(1) show ?thesis
      by (intro legacy [of "0x16" "AsSlice ?g"]) (simp_all add: buildIGMPPacket_def group4 Let_def fill lens(2))
  next
    case 3
    with assms(1) show ?thesis
      by (intro legacy [of "0x17" "[224, 0, 0, 2]"]) (simp_all add: buildIGMPPacket_def group4 Let_def fill)
  next
    case 4
    with assms(1) obtain msg where
      body: "recordBody IGMP report (AsSlice ?g) (overwrite 6 (put16 1) ((replicate 16 0)[0 := 0x22])) = Ok msg"
      and packet: "packet = igmpPacket ?client [224, 0, 0, 22] (overwrite 2 (put16 (internetChecksum msg)) msg)"
      by (auto simp: buildIGMPPacket_def group4 Let_def bindR_eq_Ok)
    have base: "overwrite 6 (put16 1) ((replicate 16 0)[0 := 0x22]) = [0x22, 0, 0, 0, 0, 0, 0, 1] @ replicate (4 + addrSize IGMP) 0"
      by (simp add: overwrite_def put16_def eval_nat_numeral)
    from recordBody_form [OF body base] ends g(1) 4 obtain type srcs where form:
      "reportRecord report = \<lparr> RecordType = type, RecordGroup = ?g, Sources = srcs \<rparr>"
      "msg = [0x22, 0, 0, 0, 0, 0, 0, 1] @ [type, 0] @ put16 (of_nat (length srcs)) @ AsSlice ?g @ slices srcs"
      "list_all (inFamily IGMP) srcs" "length srcs \<le> 65535" "type \<noteq> 0" "type \<le> 6" by auto
    let ?post = "[0, 0, 0, 1] @ [type, 0] @ put16 (of_nat (length srcs)) @ AsSlice ?g @ slices srcs"
    obtain ck where parse: "parseIGMP packet ?m
        = parseIGMPPayload ([0x22, 0] @ put16 ck @ ?post) (?m\<lparr>Client := GroupClient (ReportGroup report)\<rparr>)"
      using parses [of "[224, 0, 0, 22]" "0x22" ?post] packet form(2) by auto
    let ?hdr = "[0x22, 0] @ put16 ck @ [0, 0, 0, 1]"
    have "parseRecords IGMP (?hdr @ [type, 0] @ put16 (of_nat (length srcs)) @ AsSlice ?g @ slices srcs) m
        = Ok (m\<lparr>Records := oneRecord type ?g srcs\<rparr>)" for m
      by (rule parseRecords_one) (use form g in \<open>simp_all add: be16_def put16_def\<close>)
    then show ?thesis unfolding parse using 4 form(1)
      by (simp add: parseIGMPPayload_def parseIGMPv3Records_def reportMessage_def oneRecord_def)
  qed
qed

lemma As16_AsSlice: "Is6 a \<Longrightarrow> As16 a = AsSlice a"
  by (cases a) simp_all

lemma mld_report_parses:
  assumes "buildMLDPacket report = Ok packet" "length packet \<le> 65535"
    and g: "Is6 (GroupAddr (ReportGroup report))" "IsMulticast (GroupAddr (ReportGroup report))"
    and ends: "Is6 (GroupSource (ReportGroup report))" "Is6 (GroupClient (ReportGroup report))"
  shows "parseMLD packet (frameHeader destination (ReportSourceMAC report) tags) = Ok (reportMessage destination tags report)"
proof -
  let ?g = "GroupAddr (ReportGroup report)" and ?client = "AsSlice (GroupClient (ReportGroup report))"
  let ?v = "IGMPVersion (ReportProfile report)" and ?m = "frameHeader destination (ReportSourceMAC report) tags"
  have wide: "As16 ?g = AsSlice ?g" "As16 (GroupClient (ReportGroup report)) = ?client"
    using g(1) ends(2) by (simp_all add: As16_AsSlice)
  have lens: "length ?client = 16" "length (AsSlice ?g) = 16"
    using length_AsSlice [of MLD] ends(2) g(1) by simp_all
  have client: "AddrFrom16 ?client = GroupClient (ReportGroup report)"
    using addrOf_AsSlice [of MLD] ends(2) by simp
  have parses: "\<exists>ck. parseMLD packet ?m
      = parseMLDPayload ([t, 0] @ put16 ck @ post) (?m\<lparr>Client := GroupClient (ReportGroup report)\<rparr>)"
    if "packet = mldPacket ?client dst (overwrite 2 (put16 (icmpv6Checksum ?client dst ([t, 0, 0, 0] @ post))) ([t, 0, 0, 0] @ post))"
      "length dst = 16" "4 \<le> length post" for t dst post
    using mld_packet_parses [OF lens(1) that(2,3), of t 0 ?m] that(1) assms(2) by (simp add: client)
  have fill: "overwrite 8 (AsSlice ?g) ((replicate 24 0)[0 := t]) = [t, 0, 0, 0] @ [0, 0, 0, 0] @ AsSlice ?g" for t
    using lens(2) by (simp add: overwrite_def eval_nat_numeral)
  have legacy: ?thesis if "?v = 16" "t = 131 \<or> t = 132" "ReportJoin report = (t \<noteq> 132)" "length dst = 16"
      "packet = mldPacket ?client dst (overwrite 2 (put16 (icmpv6Checksum ?client dst
         ([t, 0, 0, 0] @ [0, 0, 0, 0] @ AsSlice ?g))) ([t, 0, 0, 0] @ [0, 0, 0, 0] @ AsSlice ?g))" for t dst
  proof -
    from parses [OF that(5,4)] obtain ck where "parseMLD packet ?m
        = parseMLDPayload ([t, 0] @ put16 ck @ [0, 0, 0, 0] @ AsSlice ?g) (?m\<lparr>Client := GroupClient (ReportGroup report)\<rparr>)" by auto
    then show ?thesis unfolding parse_legacy_mld [OF g that(2)]
      using that(1-3) by (auto simp: reportMessage_def reportRecord_def oneRecord_def Let_def)
  qed
  consider "?v = 16" "ReportJoin report" | "?v = 16" "\<not> ReportJoin report" | "?v = 17"
    using assms(1) by (auto simp: buildMLDPacket_def Let_def split: if_splits)
  then show ?thesis
  proof cases
    case 1
    with assms(1) show ?thesis
      by (intro legacy [of 131 "AsSlice ?g"]) (simp_all add: buildMLDPacket_def wide Let_def fill lens(2))
  next
    case 2
    with assms(1) show ?thesis
      by (intro legacy [of 132 "As16 allRouters6"]) (simp_all add: buildMLDPacket_def wide Let_def fill del: As16.simps, simp)
  next
    case 3
    let ?dst = "As16 reportRouters6"
    from 3 assms(1) obtain msg where
      body: "recordBody MLD report (AsSlice ?g) (overwrite 6 (put16 1) ((replicate 28 0)[0 := 143])) = Ok msg"
      and packet: "packet = mldPacket ?client ?dst (overwrite 2 (put16 (icmpv6Checksum ?client ?dst msg)) msg)"
      by (auto simp: buildMLDPacket_def wide Let_def bindR_eq_Ok simp del: As16.simps)
    have base: "overwrite 6 (put16 1) ((replicate 28 0)[0 := 143]) = [143, 0, 0, 0, 0, 0, 0, 1] @ replicate (4 + addrSize MLD) 0"
      by (simp add: overwrite_def put16_def eval_nat_numeral)
    from recordBody_form [OF body base] ends g(1) 3 obtain type srcs where form:
      "reportRecord report = \<lparr> RecordType = type, RecordGroup = ?g, Sources = srcs \<rparr>"
      "msg = [143, 0, 0, 0, 0, 0, 0, 1] @ [type, 0] @ put16 (of_nat (length srcs)) @ AsSlice ?g @ slices srcs"
      "list_all (inFamily MLD) srcs" "length srcs \<le> 65535" "type \<noteq> 0" "type \<le> 6" by auto
    let ?post = "[0, 0, 0, 1] @ [type, 0] @ put16 (of_nat (length srcs)) @ AsSlice ?g @ slices srcs"
    have "length ?dst = 16" by simp
    then obtain ck where parse: "parseMLD packet ?m
        = parseMLDPayload ([143, 0] @ put16 ck @ ?post) (?m\<lparr>Client := GroupClient (ReportGroup report)\<rparr>)"
      using parses [of ?dst 143 ?post] packet form(2) by auto
    let ?hdr = "[143, 0] @ put16 ck @ [0, 0, 0, 1]"
    have "parseRecords MLD (?hdr @ [type, 0] @ put16 (of_nat (length srcs)) @ AsSlice ?g @ slices srcs) m
        = Ok (m\<lparr>Records := oneRecord type ?g srcs\<rparr>)" for m
      by (rule parseRecords_one) (use form g in \<open>simp_all add: be16_def put16_def\<close>)
    then show ?thesis unfolding parse using 3 form(1)
      by (simp add: parseMLDPayload_def parseMLDv2Records_def reportMessage_def oneRecord_def)
  qed
qed

text \<open>
  C31. A report the proxy builds is read back, by the parser, as the report: for every version of IGMP
  and MLD, a frame of at most 65535 octets, with a source MAC of six octets and at most two upstream
  tags, all of VLAN type, parses without error, so its lengths and checksums are right, and the message carries the client's address, the upstream
  tags, the version of the profile and exactly the record the report stands for.
\<close>

theorem report_roundtrip:
  assumes built: "BuildUpstreamFrame report = Ok (Some frame)" "length frame \<le> 65535"
    and mac: "length (ReportSourceMAC report) = 6"
    and tags: "upstreamTags (ReportTags report) (UpstreamTagControl (ReportProfile report))
        (UpstreamTCI (ReportProfile report)) = Ok tags" "frameTags tags"
  shows "ParseMembershipFrame frame = Ok (reportMessage (take 6 frame) tags report)"
proof -
  let ?g = "ReportGroup report"
  have multicast: "IsMulticast (GroupAddr ?g)"
    using built(1) by (auto simp: BuildUpstreamFrame_def Let_def split: if_splits)
  have bits: "BitLen (GroupSource ?g) = BitLen (GroupAddr ?g)" "BitLen (GroupClient ?g) = BitLen (GroupAddr ?g)"
    using built(1) by (auto simp: BuildUpstreamFrame_def Let_def split: if_splits)
  show ?thesis
  proof (cases "Is4 (GroupAddr ?g)")
    case True
    then have four: "Is4 (GroupSource ?g)" "Is4 (GroupClient ?g)"
      using bits by (cases "GroupAddr ?g"; cases "GroupSource ?g"; cases "GroupClient ?g"; simp)+
    from built(1) True tags(1) obtain packet destination where packet: "buildIGMPPacket report = Ok (Some packet)"
      "ipv4MulticastMAC (ipv4Destination report) = Ok destination"
      "frame = ethernetFrame destination (ReportSourceMAC report) tags 0x0800 packet"
      by (auto simp: BuildUpstreamFrame_def Let_def bindR_eq_Ok split: if_splits option.splits)
    have dst: "length destination = 6" using packet(2) by (auto simp: ipv4MulticastMAC_def bindR_eq_Ok)
    have small: "length packet \<le> 65535" using built(2) packet(3) by (simp add: ethernetFrame_def)
    have "ParseMembershipFrame frame = parseIGMP packet (frameHeader destination (ReportSourceMAC report) tags)"
      unfolding packet(3) using parse_ethernet [OF dst mac tags(2)] by simp
    also have "\<dots> = Ok (reportMessage destination tags report)"
      by (rule igmp_report_parses [OF packet(1) small True multicast four])
    finally show ?thesis using dst packet(3) by (simp add: ethernetFrame_def)
  next
    case False
    then have six: "Is6 (GroupAddr ?g)" "Is6 (GroupSource ?g)" "Is6 (GroupClient ?g)"
      using bits multicast by (cases "GroupAddr ?g"; cases "GroupSource ?g"; cases "GroupClient ?g"; simp)+
    let ?destination = "ipv6MulticastMAC (ipv6Destination report)"
    from built(1) False tags(1) obtain packet where packet: "buildMLDPacket report = Ok packet"
      "frame = ethernetFrame ?destination (ReportSourceMAC report) tags 0x86dd packet"
      by (auto simp: BuildUpstreamFrame_def Let_def bindR_eq_Ok split: if_splits)
    have dst: "length ?destination = 6" by (simp add: ipv6MulticastMAC_def Let_def)
    have small: "length packet \<le> 65535" using built(2) packet(2) by (simp add: ethernetFrame_def)
    have "ParseMembershipFrame frame = parseMLD packet (frameHeader ?destination (ReportSourceMAC report) tags)"
      unfolding packet(2) using parse_ethernet [OF dst mac tags(2)] by simp
    also have "\<dots> = Ok (reportMessage ?destination tags report)"
      by (rule mld_report_parses [OF packet(1) small six(1) multicast six(2,3)])
    finally show ?thesis using dst packet(2) by (simp add: ethernetFrame_def)
  qed
qed

definition sampleProfile :: "u8 \<Rightarrow> Profile" where
  "sampleProfile version = \<lparr> ProfileEntity = 7, IGMPVersion = version, IGMPFunction = 2, ImmediateLeave = False,
     UpstreamTCI = 0x2064, UpstreamTagControl = 3, UpstreamRate = 0, Robustness = 0, QuerierIPAddress = 0xc0000201,
     QueryInterval = 0, QueryMaxResponseTime = 200, LastMemberQueryInterval = 0, UnauthorizedJoinBehaviour = False,
     DownstreamTagControl = 0, DownstreamTCI = 0, DynamicACL = [], StaticACL = [] \<rparr>"

definition sampleSubscriber :: Subscriber where
  "sampleSubscriber = \<lparr> SubscriberEntity = 1, Attachments = [], SubscriberProfile = 7, MaxSimultaneousGroups = 2,
     MaxMulticastBandwidth = 100, BandwidthEnforcement = True, ServicePackages = [], AllowedPreviews = [] \<rparr>"

definition sampleAttachment :: Attachment where
  "sampleAttachment = \<lparr> Interface = ''eth0'', BridgeEntity = 1, BridgePortEntity = 2, DirectMapper = None \<rparr>"

text \<open>Station 10.0.0.9 wants group 232.1.2.3 from every source but 10.0.0.1.\<close>

definition sampleReport :: UpstreamReport where
  "sampleReport = \<lparr> ReportJoin = True, ReportSubscriber = sampleSubscriber, ReportAttachment = sampleAttachment,
     ReportProfile = sampleProfile 3,
     ReportGroup = \<lparr> GroupInterface = ''eth0'', GroupSource = Addr4 0, IncludedSources = [],
       ExcludedSources = [Addr4 0x0a000001], GroupAddr = Addr4 0xe8010203, GroupClient = Addr4 0x0a000009,
       UNIVLAN = \<lparr> Tagged = True, ID = 100 \<rparr>, ANIVLAN = 100, GroupProfile = 7, GroupACLRow = 0, GEMPortID = 3,
       ImputedBandwidth = 0, TimeSinceJoin = 0, PreviewUntil = 0 \<rparr>,
     ReportSourceMAC = [2, 0, 0, 0, 0, 1], ReportTags = [\<lparr> TPID = 0x8100, TCI = 0x6001 \<rparr>] \<rparr>"

lemma report_roundtrip_witness:
  "case BuildUpstreamFrame sampleReport of
     Ok (Some frame) \<Rightarrow> ParseMembershipFrame frame
       = Ok (reportMessage (take 6 frame) [\<lparr> TPID = 0x8100, TCI = 0x6064 \<rparr>] sampleReport)
   | _ \<Rightarrow> False"
proof -
  have len: "length source = 4 \<Longrightarrow> length (igmpPacket source [224, 0, 0, 22] igmp) = 24 + length igmp" for source igmp
    using igmpPacket_form [of source "[224, 0, 0, 22]" igmp] by auto
  have "case BuildUpstreamFrame sampleReport of Ok (Some frame) \<Rightarrow> length frame \<le> 65535 | _ \<Rightarrow> False"
    by (simp add: BuildUpstreamFrame_def sampleReport_def sampleProfile_def buildIGMPPacket_def recordBody_def
        unspecified_def IPv4Unspecified_def IsValid_def overwrite_def put16_def upstreamTags_def
        ipv4MulticastMAC_def ipv4Destination_def ethernetFrame_def len Let_def)
  then obtain frame where frame: "BuildUpstreamFrame sampleReport = Ok (Some frame)" "length frame \<le> 65535"
    by (auto split: outcome.splits option.splits)
  have "length (ReportSourceMAC sampleReport) = 6" by (simp add: sampleReport_def)
  moreover have "upstreamTags (ReportTags sampleReport) (UpstreamTagControl (ReportProfile sampleReport))
        (UpstreamTCI (ReportProfile sampleReport)) = Ok [\<lparr> TPID = 0x8100, TCI = 0x6064 \<rparr>]"
    by (simp add: sampleReport_def sampleProfile_def upstreamTags_def)
  ultimately show ?thesis using report_roundtrip [OF frame] frame(1) by simp
qed

section \<open>Parsing a built query\<close>

definition queryTarget :: "family \<Rightarrow> DownstreamQuery \<Rightarrow> Addr" where
  "queryTarget f query = (if IsValid (QueryGroup query) then QueryGroup query else unspecified f)"

definition querySources :: "DownstreamQuery \<Rightarrow> Addr list" where
  "querySources query = (if hasSource query then [QuerySource query] else [])"

text \<open>What a receiver reads: the robustness does not fit above 7, times are rounded up to a code.\<close>

definition readRobustness :: "Profile \<Rightarrow> u8" where
  "readRobustness profile = (if effectiveRobustness profile \<le> 7 then effectiveRobustness profile else 0)"

definition readInterval :: "Profile \<Rightarrow> u32" where
  "readInterval profile = decodeFloating8 (encodeFloating8 (effectiveQueryInterval profile))"

definition readResponse :: "DownstreamQuery \<Rightarrow> u32" where
  "readResponse query =
     (let response = queryResponseDeciseconds query; version = IGMPVersion (QueryProfile query) in
      if version = 1 then 0
      else if version = 2 then min response 255
      else if version = 3 then decodeFloating8 (encodeFloating8 response)
      else if version = 16 then (if response \<le> 655 then response else 656)
      else ucast ((decodeFloating16 (encodeFloating16 (ucast response * 100)) + 99) div 100))"

definition queryMessage :: "bytes \<Rightarrow> bytes \<Rightarrow> DownstreamQuery \<Rightarrow> MembershipMessage" where
  "queryMessage destination sourceMAC query =
     (let profile = QueryProfile query; version = IGMPVersion profile;
          f = (if version \<le> 3 then IGMP else MLD); full = (version = 3 \<or> version = 17) in
      (frameHeader destination sourceMAC (QueryTags query))
        \<lparr>Client := (if f = IGMP then Addr4 (QuerierIPAddress profile) else IPv6Unspecified),
         MsgKind := MessageQuery, MsgVersion := version,
         QueryRobustness := (if full then readRobustness profile else 0),
         MsgQueryInterval := (if full then readInterval profile else 0),
         MsgQueryMaxResponseTime := readResponse query,
         Records := oneRecord 0 (queryTarget f query) (querySources query)\<rparr>)"

definition queryTail :: "DownstreamQuery \<Rightarrow> bytes" where
  "queryTail query = [readRobustness (QueryProfile query), encodeFloating8 (effectiveQueryInterval (QueryProfile query))]
     @ put16 (of_nat (length (querySources query))) @ slices (querySources query)"

lemma queryTarget_family:
  "(IsValid (QueryGroup query) \<Longrightarrow> inFamily f (QueryGroup query)) \<Longrightarrow> inFamily f (queryTarget f query)"
  by (cases f) (auto simp: queryTarget_def unspecified_def IPv4Unspecified_def IPv6Unspecified_def)

lemma buildIGMPQuery_form:
  assumes "buildIGMPQuery query = Ok packet"
    and fam: "IsValid (QueryGroup query) \<Longrightarrow> Is4 (QueryGroup query)" "hasSource query \<Longrightarrow> Is4 (QuerySource query)"
    and version: "IGMPVersion (QueryProfile query) = v" "v = 1 \<or> v = 2 \<or> v = 3"
  defines "code \<equiv> if v = 1 then 0 else if v = 2 then ucast (min (queryResponseDeciseconds query) 255)
      else encodeFloating8 (queryResponseDeciseconds query)"
  defines "msg \<equiv> [0x11, code, 0, 0] @ AsSlice (queryTarget IGMP query) @ (if v = 3 then queryTail query else [])"
  shows "\<exists>destination. length destination = 4 \<and>
     packet = igmpPacket (put32 (QuerierIPAddress (QueryProfile query))) destination (overwrite 2 (put16 (internetChecksum msg)) msg)"
proof -
  obtain a b c d where target: "AsSlice (queryTarget IGMP query) = [a, b, c, d]"
    using length_AsSlice [of IGMP "queryTarget IGMP query"] queryTarget_family [of query IGMP] fam(1)
      list_of_length [of "AsSlice (queryTarget IGMP query)"] by auto
  have group4: "(As4 (QueryGroup query) :: (go_error, bytes) outcome) = Ok [a, b, c, d]" if "IsValid (QueryGroup query)"
    using target fam(1) that by (cases "QueryGroup query") (simp_all add: queryTarget_def)
  have none: "[a, b, c, d] = [0, 0, 0, 0]" if "\<not> IsValid (QueryGroup query)"
    using target that by (simp add: queryTarget_def unspecified_def IPv4Unspecified_def put32_def)
  obtain e f g h where source: "AsSlice (QuerySource query) = [e, f, g, h]" if "hasSource query"
    using length_AsSlice [of IGMP "QuerySource query"] fam(2) list_of_length [of "AsSlice (QuerySource query)"]
    by (cases "hasSource query") auto
  have rep: "replicate 8 (0 :: u8) = [0, 0, 0, 0, 0, 0, 0, 0]"
    "replicate 12 (0 :: u8) = [0, 0, 0, 0, 0, 0, 0, 0, 0, 0, 0, 0]"
    "replicate 16 (0 :: u8) = [0, 0, 0, 0, 0, 0, 0, 0, 0, 0, 0, 0, 0, 0, 0, 0]" by (simp_all add: eval_nat_numeral)
  have put: "put16 0 = [0, 0]" "put16 1 = [0, 1]" by (simp_all add: put16_def)
  let ?dst = "if IsValid (QueryGroup query) then [a, b, c, d] else put32 0xe0000001"
  have "packet = igmpPacket (put32 (QuerierIPAddress (QueryProfile query))) ?dst (overwrite 2 (put16 (internetChecksum msg)) msg)"
  proof -
    note build = assms(1) [unfolded buildIGMPQuery_def Let_def version(1)]
    note writes = rep put overwrite_def [of 4] overwrite_def [of 10] overwrite_def [of 12]
      querySources_def queryTail_def readRobustness_def
    from version(2) show ?thesis
    proof (elim disjE)
      assume "v = 1"
      then show ?thesis unfolding msg_def code_def target using build
        by (cases "IsValid (QueryGroup query)") (simp_all add: writes group4 none source)
    next
      assume "v = 2"
      then show ?thesis unfolding msg_def code_def target using build
        by (cases "IsValid (QueryGroup query)") (simp_all add: writes group4 none source)
    next
      assume "v = 3"
      then show ?thesis unfolding msg_def code_def target using build
        by (cases "IsValid (QueryGroup query)"; cases "hasSource query"; cases "effectiveRobustness (QueryProfile query) \<le> 7")
          (simp_all add: writes group4 none source)
    qed
  qed
  moreover have "length ?dst = 4" by simp
  ultimately show ?thesis by blast
qed

lemma buildMLDQuery_form:
  assumes fam: "IsValid (QueryGroup query) \<Longrightarrow> Is6 (QueryGroup query)" "hasSource query \<Longrightarrow> Is6 (QuerySource query)"
    and version: "IGMPVersion (QueryProfile query) = v" "v = 16 \<or> v = 17"
  defines "milliseconds \<equiv> (ucast (queryResponseDeciseconds query) :: u64) * 100"
  defines "code \<equiv> if v = 16 then ucast (min milliseconds 0xffff) else encodeFloating16 milliseconds"
  defines "msg \<equiv> [130, 0, 0, 0] @ put16 code @ [0, 0] @ AsSlice (queryTarget MLD query) @ (if v = 17 then queryTail query else [])"
  shows "\<exists>destination. length destination = 16 \<and>
     buildMLDQuery query = mldPacket (replicate 16 0) destination
       (overwrite 2 (put16 (icmpv6Checksum (replicate 16 0) destination msg)) msg)"
proof -
  let ?t = "AsSlice (queryTarget MLD query)"
  have t: "length ?t = 16"
    using length_AsSlice [of MLD "queryTarget MLD query"] queryTarget_family [of query MLD] fam(1) by simp
  have group16: "As16 (QueryGroup query) = ?t" if "IsValid (QueryGroup query)"
    using fam(1) that by (simp add: queryTarget_def As16_AsSlice)
  have none: "?t = replicate 16 0" if "\<not> IsValid (QueryGroup query)"
    using that by (simp add: queryTarget_def unspecified_def IPv6Unspecified_def put32_def put64_def eval_nat_numeral)
  have source: "length (AsSlice (QuerySource query)) = 16" if "hasSource query"
    using length_AsSlice [of MLD "QuerySource query"] fam(2) that by simp
  have rep: "replicate 24 (0 :: u8) = [0, 0, 0, 0, 0, 0, 0, 0] @ replicate 16 0"
    "replicate 28 (0 :: u8) = [0, 0, 0, 0, 0, 0, 0, 0] @ replicate 16 0 @ [0, 0, 0, 0]"
    "replicate 44 (0 :: u8) = [0, 0, 0, 0, 0, 0, 0, 0] @ replicate 16 0 @ [0, 0, 0, 0] @ replicate 16 0"
    by (simp_all add: eval_nat_numeral)
  have put: "put16 0 = [0, 0]" "put16 1 = [0, 1]" by (simp_all add: put16_def)
  note writes = rep put overwrite_def [of 4] overwrite_def [of 8] overwrite_def [of 26] overwrite_def [of 28]
    list_update_append querySources_def queryTail_def readRobustness_def t
  let ?dst = "if IsValid (QueryGroup query) then ?t else As16 allNodes6"
  have "buildMLDQuery query = mldPacket (replicate 16 0) ?dst
       (overwrite 2 (put16 (icmpv6Checksum (replicate 16 0) ?dst msg)) msg)"
    using version(2)
  proof (elim disjE)
    assume "v = 16"
    then show ?thesis unfolding msg_def code_def milliseconds_def buildMLDQuery_def Let_def version(1)
      by (cases "IsValid (QueryGroup query)") (simp_all add: writes group16 none del: As16.simps)
  next
    assume "v = 17"
    then show ?thesis unfolding msg_def code_def milliseconds_def buildMLDQuery_def Let_def version(1)
      by (cases "IsValid (QueryGroup query)"; cases "hasSource query"; cases "effectiveRobustness (QueryProfile query) \<le> 7")
        (simp_all add: writes group16 none source del: As16.simps)
  qed
  moreover have "length ?dst = 16" using t by simp
  ultimately show ?thesis by blast
qed

lemma and7: "r \<le> 7 \<Longrightarrow> r AND 7 = r" for r :: u8
proof -
  assume "r \<le> 7"
  then have "unat r < 2 ^ 3" by (simp add: word_le_nat_alt)
  then have "unat (r AND mask 3) = unat r" by (simp add: unat_field)
  then show ?thesis by (simp add: mask_eq_exp_minus_1 word_unat_eq_iff)
qed

lemma robustness7: "readRobustness profile \<le> 7" "readRobustness profile AND 7 = readRobustness profile"
  by (simp_all add: readRobustness_def and7)

lemma parse_short_igmp_query:
  assumes "Is4 g" "g = IPv4Unspecified \<or> IsMulticast g"
  shows "parseIGMPPayload ([0x11, code] @ put16 ck @ AsSlice g) m
     = Ok (if code = 0 then m\<lparr>MsgKind := MessageQuery, MsgVersion := 1, Records := oneRecord 0 g []\<rparr>
           else m\<lparr>MsgKind := MessageQuery, MsgVersion := 2, MsgQueryMaxResponseTime := ucast code, Records := oneRecord 0 g []\<rparr>)"
proof -
  have "addrAt IGMP ([0x11, code] @ put16 ck @ AsSlice g) 4 = Ok g"
    using addrAt_AsSlice [of IGMP g 4 "[0x11, code] @ put16 ck" "[]"] assms(1) by simp
  then show ?thesis using assms length_AsSlice [of IGMP g] by (auto simp: parseIGMPPayload_def parseIGMPQuery_def)
qed

lemma parse_full_igmp_query:
  assumes "Is4 g" "g = IPv4Unspecified \<or> IsMulticast g" "list_all Is4 (querySources query)"
  shows "parseIGMPPayload ([0x11, code] @ put16 ck @ AsSlice g @ queryTail query) m
     = Ok (m\<lparr>MsgKind := MessageQuery, MsgVersion := 3, QueryRobustness := readRobustness (QueryProfile query),
             MsgQueryInterval := readInterval (QueryProfile query), MsgQueryMaxResponseTime := decodeFloating8 code,
             Records := oneRecord 0 g (querySources query)\<rparr>)"
proof -
  let ?p = "[0x11, code] @ put16 ck @ AsSlice g @ queryTail query"
  let ?r = "readRobustness (QueryProfile query)" and ?i = "encodeFloating8 (effectiveQueryInterval (QueryProfile query))"
  let ?srcs = "querySources query"
  have n: "length ?srcs \<le> 1" by (simp add: querySources_def)
  have g: "length (AsSlice g) = 4" using length_AsSlice [of IGMP g] assms(1) by simp
  have fam: "list_all (inFamily IGMP) ?srcs" using assms(3) by (simp add: list_all_iff)
  have grp: "addrAt IGMP ?p 4 = Ok g"
    using addrAt_AsSlice [of IGMP g 4 "[0x11, code] @ put16 ck" "queryTail query"] assms(1) by simp
  have len: "length ?p = 12 + length ?srcs * 4" using g length_slices [OF fam] by (simp add: queryTail_def)
  have bytes: "?p ! 8 = ?r" "?p ! 9 = ?i" "?p ! 1 = code" "?p ! 0 = 0x11"
    using g by (simp_all add: queryTail_def nth_append)
  have "be16 ?p 10 = of_nat (length ?srcs)"
    using g be16_put16_append by (simp add: queryTail_def be16_append2 be_Cons_pos)
  then have count: "unat (be16 ?p 10) = length ?srcs" using n by (simp add: unat_of_nat16)
  have srcs: "sourceList IGMP ?p 12 (length ?srcs) = Ok ?srcs"
    using sourceList_slices [OF fam, of 12 "[0x11, code] @ put16 ck @ AsSlice g @ [?r, ?i] @ put16 (of_nat (length ?srcs))" "length ?srcs" "[]"]
    g by (simp add: queryTail_def)
  have gen: "parseIGMPPayload p m
     = Ok (m\<lparr>MsgKind := MessageQuery, MsgVersion := 3, QueryRobustness := ?r,
             MsgQueryInterval := readInterval (QueryProfile query), MsgQueryMaxResponseTime := decodeFloating8 code,
             Records := oneRecord 0 g ?srcs\<rparr>)"
    if "addrAt IGMP p 4 = Ok g" "length p = 12 + length ?srcs * 4" "p ! 8 = ?r" "p ! 9 = ?i" "p ! 1 = code" "p ! 0 = 0x11"
      "unat (be16 p 10) = length ?srcs" "sourceList IGMP p 12 (length ?srcs) = Ok ?srcs" for p
    using that assms(2) n robustness7
    by (auto simp: parseIGMPPayload_def parseIGMPQuery_def Let_def readInterval_def)
  show ?thesis by (rule gen [OF grp len bytes count srcs])
qed

lemma parse_short_mld_query:
  assumes "Is6 g" "g = IPv6Unspecified \<or> IsMulticast g"
  shows "parseMLDPayload ([130, 0] @ put16 ck @ put16 code @ [0, 0] @ AsSlice g) m
     = Ok (m\<lparr>MsgKind := MessageQuery, MsgVersion := 16,
             MsgQueryMaxResponseTime := (ucast code + 99) div 100, Records := oneRecord 0 g []\<rparr>)"
proof -
  let ?p = "[130, 0] @ put16 ck @ put16 code @ [0, 0] @ AsSlice g"
  have grp: "addrAt MLD ?p 8 = Ok g"
    using addrAt_AsSlice [of MLD g 8 "[130, 0] @ put16 ck @ put16 code @ [0, 0]" "[]"] assms(1) by simp
  have len: "length ?p = 24" using length_AsSlice [of MLD g] assms(1) by simp
  have "be16 ?p 4 = code" by (simp add: be16_append2 be_Cons_pos be16_put16_append)
  then show ?thesis using assms(2) grp len by (auto simp: parseMLDPayload_def parseMLDQuery_def)
qed

lemma parse_full_mld_query:
  assumes "Is6 g" "g = IPv6Unspecified \<or> IsMulticast g" "list_all Is6 (querySources query)"
  shows "parseMLDPayload ([130, 0] @ put16 ck @ put16 code @ [0, 0] @ AsSlice g @ queryTail query) m
     = Ok (m\<lparr>MsgKind := MessageQuery, MsgVersion := 17, QueryRobustness := readRobustness (QueryProfile query),
             MsgQueryInterval := readInterval (QueryProfile query),
             MsgQueryMaxResponseTime := ucast (min ((decodeFloating16 code + 99) div 100) 0xffffffff),
             Records := oneRecord 0 g (querySources query)\<rparr>)"
proof -
  let ?pre = "[130, 0] @ put16 ck @ put16 code @ [0, 0]"
  let ?p = "?pre @ AsSlice g @ queryTail query"
  let ?r = "readRobustness (QueryProfile query)" and ?i = "encodeFloating8 (effectiveQueryInterval (QueryProfile query))"
  let ?srcs = "querySources query"
  have n: "length ?srcs \<le> 1" by (simp add: querySources_def)
  have g: "length (AsSlice g) = 16" using length_AsSlice [of MLD g] assms(1) by simp
  have fam: "list_all (inFamily MLD) ?srcs" using assms(3) by (simp add: list_all_iff)
  have grp: "addrAt MLD ?p 8 = Ok g" using addrAt_AsSlice [of MLD g 8 ?pre "queryTail query"] assms(1) by simp
  have len: "length ?p = 28 + length ?srcs * 16" using g length_slices [OF fam] by (simp add: queryTail_def)
  have bytes: "?p ! 24 = ?r" "?p ! 25 = ?i" "?p ! 0 = 130" using g by (simp_all add: queryTail_def nth_append)
  have response: "be16 ?p 4 = code" by (simp add: be16_append2 be_Cons_pos be16_put16_append)
  have "be16 ?p 26 = of_nat (length ?srcs)"
    using g be16_put16_append by (simp add: queryTail_def be16_append2 be_Cons_pos)
  then have count: "unat (be16 ?p 26) = length ?srcs" using n by (simp add: unat_of_nat16)
  have srcs: "sourceList MLD ?p 28 (length ?srcs) = Ok ?srcs"
    using sourceList_slices [OF fam, of 28 "?pre @ AsSlice g @ [?r, ?i] @ put16 (of_nat (length ?srcs))" "length ?srcs" "[]"]
    g by (simp add: queryTail_def)
  have gen: "parseMLDPayload p m
     = Ok (m\<lparr>MsgKind := MessageQuery, MsgVersion := 17, QueryRobustness := ?r,
             MsgQueryInterval := readInterval (QueryProfile query),
             MsgQueryMaxResponseTime := ucast (min ((decodeFloating16 code + 99) div 100) 0xffffffff),
             Records := oneRecord 0 g ?srcs\<rparr>)"
    if "addrAt MLD p 8 = Ok g" "length p = 28 + length ?srcs * 16" "p ! 24 = ?r" "p ! 25 = ?i" "p ! 0 = 130"
      "be16 p 4 = code" "unat (be16 p 26) = length ?srcs" "sourceList MLD p 28 (length ?srcs) = Ok ?srcs" for p
    using that assms(2) n robustness7
    by (auto simp: parseMLDPayload_def parseMLDQuery_def Let_def readInterval_def)
  show ?thesis using gen [OF grp len bytes response count srcs] by simp
qed

lemma response_nonzero: "queryResponseDeciseconds query \<noteq> 0"
  by (simp add: queryResponseDeciseconds_def effectiveQueryResponse_def)

lemma response_octet:
  assumes "r \<noteq> (0 :: u32)"
  shows "(ucast (min r 255) :: u8) \<noteq> 0" "(ucast (ucast (min r 255) :: u8) :: u32) = min r 255"
proof -
  have small: "unat (min r 255) \<le> 255" "unat (min r 255) \<noteq> 0"
    using assms by (auto simp: min_def word_le_nat_alt unat_eq_zero)
  then have octet: "unat (ucast (min r 255) :: u8) = unat (min r 255)"
    by (simp add: unsigned_ucast_eq take_bit_nat_eq_self)
  then show "(ucast (min r 255) :: u8) \<noteq> 0" using small(2) by (metis unat_0)
  show "(ucast (ucast (min r 255) :: u8) :: u32) = min r 255"
    using octet by (metis unat_widen_octet(2) word_unat_eq_iff)
qed

lemma response_milliseconds:
  fixes r :: u32
  shows "((ucast (ucast (min ((ucast r :: u64) * 100) 0xffff) :: u16) :: u32) + 99) div 100 = (if r \<le> 655 then r else 656)"
proof -
  let ?ms = "(ucast r :: u64) * 100" and ?code = "ucast (min ((ucast r :: u64) * 100) 0xffff) :: u16"
  have r: "unat r < 2 ^ 32" using unsigned_less [of r] by simp
  then have "unat (ucast r :: u64) = unat r" by (simp add: unsigned_ucast_eq take_bit_nat_eq_self)
  then have ms: "unat ?ms = unat r * 100" using r by (simp add: unat_word_ariths)
  have least: "unat (min ?ms 0xffff) = min (unat r * 100) 65535"
    using ms by (simp add: min_def word_le_nat_alt)
  have "unat ?code = min (unat r * 100) 65535"
    by (simp only: unsigned_ucast_eq least) (simp add: take_bit_nat_eq_self)
  moreover have "unat (ucast w :: u32) = unat w" for w :: u16
    using unat_half [of w] by (simp add: unsigned_ucast_eq take_bit_nat_eq_self)
  ultimately have "unat (ucast ?code :: u32) = min (unat r * 100) 65535" by simp
  then have "unat ((ucast ?code :: u32) + 99) = min (unat r * 100) 65535 + 99"
    by (simp add: unat_word_ariths)
  then have "unat (((ucast ?code :: u32) + 99) div 100) = (min (unat r * 100) 65535 + 99) div 100"
    by (simp add: unat_div_distrib)
  also have "\<dots> = (if unat r \<le> 655 then unat r else 656)" by (simp add: min_def)
  also have "\<dots> = unat (if r \<le> 655 then r else 656)" by (simp add: word_le_nat_alt)
  finally show ?thesis by (simp only: word_unat_eq_iff)
qed

lemma decodeFloating16_bound: "(decodeFloating16 c + 99) div 100 \<le> 0xffffffff"
proof -
  have "codeValue 0x1000 (unat c) \<le> 2 * 0x1000 * 2 ^ 10"
    using exponent_bound [of "0x1000" "unat c" "unat c div 0x1000"] by (auto simp: codeValue_def)
  then have "unat (decodeFloating16 c + 99) \<le> 0x800063"
    by (simp add: unat_word_ariths decodeFloating16_value)
  then have "unat ((decodeFloating16 c + 99) div 100) \<le> 0xffffffff"
    by (simp add: unat_div_distrib)
  then show ?thesis by (simp add: word_le_nat_alt)
qed

lemma version_cases: "1 \<le> v \<Longrightarrow> v \<le> 3 \<Longrightarrow> v = 1 \<or> v = 2 \<or> v = (3 :: u8)"
  by (auto simp: word_le_nat_alt word_unat_eq_iff)

lemma queryTarget_ok:
  assumes "IsValid (QueryGroup query) \<Longrightarrow> inFamily f (QueryGroup query) \<and> IsMulticast (QueryGroup query)"
  shows "inFamily f (queryTarget f query)" "queryTarget f query = unspecified f \<or> IsMulticast (queryTarget f query)"
  using assms queryTarget_family [of query f] by (auto simp: queryTarget_def)

lemma igmp_query_parses:
  assumes "buildIGMPQuery query = Ok packet"
    and group: "IsValid (QueryGroup query) \<Longrightarrow> Is4 (QueryGroup query) \<and> IsMulticast (QueryGroup query)"
    and source: "hasSource query \<Longrightarrow> Is4 (QuerySource query) \<and> v = 3"
    and v: "IGMPVersion (QueryProfile query) = v" "v = 1 \<or> v = 2 \<or> v = 3"
  shows "parseIGMP packet (frameHeader d sourceMAC (QueryTags query)) = Ok (queryMessage d sourceMAC query)"
proof -
  let ?t = "queryTarget IGMP query" and ?r = "queryResponseDeciseconds query" and ?m = "frameHeader d sourceMAC (QueryTags query)"
  let ?ip = "put32 (QuerierIPAddress (QueryProfile query))"
  define code :: u8 where "code = (if v = 1 then 0 else if v = 2 then ucast (min ?r 255) else encodeFloating8 ?r)"
  define post where "post = AsSlice ?t @ (if v = 3 then queryTail query else [])"
  have t: "Is4 ?t" "?t = IPv4Unspecified \<or> IsMulticast ?t"
    using queryTarget_ok [of query IGMP] group by (simp_all add: unspecified_def)
  have srcs: "list_all Is4 (querySources query)" "v = 3 \<or> querySources query = []"
    using source by (auto simp: querySources_def)
  obtain dst where packet: "length dst = 4"
      "packet = igmpPacket ?ip dst (overwrite 2 (put16 (internetChecksum ([0x11, code, 0, 0] @ post))) ([0x11, code, 0, 0] @ post))"
    using buildIGMPQuery_form [OF assms(1) _ _ v] group source by (auto simp: code_def post_def)
  have tail: "length (queryTail query) \<le> 8"
    using length_slices [of IGMP "querySources query"] srcs(1) by (auto simp: queryTail_def querySources_def)
  have size: "length post \<le> 12" "4 \<le> length post"
    using tail length_AsSlice [of IGMP ?t] t(1) by (auto simp: post_def)
  have "length packet \<le> 65535"
    using igmpPacket_form [OF _ packet(1), of ?ip "overwrite 2 (put16 (internetChecksum ([0x11, code, 0, 0] @ post))) ([0x11, code, 0, 0] @ post)"]
      size packet by auto
  then obtain ck where "parseIGMP packet ?m
      = parseIGMPPayload ([0x11, code] @ put16 ck @ post) (?m\<lparr>Client := AddrFrom4 ?ip\<rparr>)"
    using igmp_packet_parses [of ?ip dst post "0x11" code ?m] packet size by auto
  moreover have "AddrFrom4 ?ip = Addr4 (QuerierIPAddress (QueryProfile query))" by (simp add: AddrFrom4_def)
  ultimately have parse: "parseIGMP packet ?m
      = parseIGMPPayload ([0x11, code] @ put16 ck @ post) (?m\<lparr>Client := Addr4 (QuerierIPAddress (QueryProfile query))\<rparr>)" by simp
  show ?thesis
  proof (cases "v = 3")
    case True
    then show ?thesis unfolding parse using parse_full_igmp_query [OF t srcs(1)]
      by (simp add: post_def code_def queryMessage_def v(1) readResponse_def Let_def)
  next
    case False
    then show ?thesis unfolding parse using parse_short_igmp_query [OF t] v srcs(2) response_octet [OF response_nonzero, of query]
      by (auto simp: post_def code_def queryMessage_def readResponse_def frameHeader_def zeroMessage_def Let_def)
  qed
qed

lemma mld_query_parses:
  assumes group: "IsValid (QueryGroup query) \<Longrightarrow> Is6 (QueryGroup query) \<and> IsMulticast (QueryGroup query)"
    and source: "hasSource query \<Longrightarrow> Is6 (QuerySource query) \<and> v = 17"
    and v: "IGMPVersion (QueryProfile query) = v" "v = 16 \<or> v = 17"
  shows "parseMLD (buildMLDQuery query) (frameHeader d sourceMAC (QueryTags query)) = Ok (queryMessage d sourceMAC query)"
proof -
  let ?t = "queryTarget MLD query" and ?r = "queryResponseDeciseconds query" and ?m = "frameHeader d sourceMAC (QueryTags query)"
  let ?ms = "(ucast ?r :: u64) * 100" and ?ip = "replicate 16 0" and ?packet = "buildMLDQuery query"
  define code where "code = (if v = 16 then ucast (min ?ms 0xffff) else encodeFloating16 ?ms)"
  define post where "post = put16 code @ [0, 0] @ AsSlice ?t @ (if v = 17 then queryTail query else [])"
  have t: "Is6 ?t" "?t = IPv6Unspecified \<or> IsMulticast ?t"
    using queryTarget_ok [of query MLD] group by (simp_all add: unspecified_def)
  have srcs: "list_all Is6 (querySources query)" "v = 17 \<or> querySources query = []"
    using source by (auto simp: querySources_def)
  obtain dst where packet: "length dst = 16"
      "?packet = mldPacket ?ip dst (overwrite 2 (put16 (icmpv6Checksum ?ip dst ([130, 0, 0, 0] @ post))) ([130, 0, 0, 0] @ post))"
    using buildMLDQuery_form [OF _ _ v] group source by (auto simp: code_def post_def)
  have tail: "length (queryTail query) \<le> 20"
    using length_slices [of MLD "querySources query"] srcs(1) by (auto simp: queryTail_def querySources_def)
  have size: "length post \<le> 40" "4 \<le> length post"
    using tail length_AsSlice [of MLD ?t] t(1) by (auto simp: post_def)
  have "length ?packet \<le> 65535" unfolding packet(2) using size packet(1) by (simp add: mldPacket_form)
  then obtain ck where "parseMLD ?packet ?m
      = parseMLDPayload ([130, 0] @ put16 ck @ post) (?m\<lparr>Client := AddrFrom16 ?ip\<rparr>)"
    using mld_packet_parses [of ?ip dst post 130 0 ?m] packet size by auto
  moreover have "AddrFrom16 ?ip = IPv6Unspecified"
    by (simp add: AddrFrom16_def IPv6Unspecified_def be64_def be32_zeros)
  ultimately have parse: "parseMLD ?packet ?m
      = parseMLDPayload ([130, 0] @ put16 ck @ post) (?m\<lparr>Client := IPv6Unspecified\<rparr>)" by simp
  show ?thesis
  proof (cases "v = 17")
    case True
    then show ?thesis unfolding parse using parse_full_mld_query [OF t srcs(1)] decodeFloating16_bound [of code]
      by (simp add: post_def code_def queryMessage_def v(1) readResponse_def min_absorb1 Let_def)
  next
    case False
    then show ?thesis unfolding parse using parse_short_mld_query [OF t] v srcs(2) response_milliseconds [of ?r]
      by (auto simp: post_def code_def queryMessage_def readResponse_def frameHeader_def zeroMessage_def Let_def)
  qed
qed

text \<open>
  C32. A query the proxy sends is read back, by the parser, as the query: for every version of IGMP
  and MLD, general, group-specific or source-specific, the frame parses without error and carries the
  querier's address, the tags, the group and the source; the robustness and the times are those of the
  profile, rounded up to the next code and cut at the largest.
\<close>

theorem query_roundtrip:
  assumes built: "BuildDownstreamQueryFrame query sourceMAC = Ok frame" and mac: "length sourceMAC = 6"
  shows "ParseMembershipFrame frame = Ok (queryMessage (take 6 frame) sourceMAC query)"
proof -
  let ?p = "QueryProfile query" and ?g = "QueryGroup query" and ?m = "\<lambda>d. frameHeader d sourceMAC (QueryTags query)"
  obtain v where v: "IGMPVersion ?p = v" by simp
  note parts = built [unfolded BuildDownstreamQueryFrame_def Let_def v]
  have tags: "frameTags (QueryTags query)"
    using parts by (auto simp: list_all_iff filter_empty_conv split: if_splits list.splits)
  have group: "IsMulticast ?g \<and> Is4 ?g = (1 \<le> v \<and> v \<le> 3)" if "IsValid ?g"
    using parts that by (auto split: if_splits)
  have source: "IsValid ?g \<and> Is4 (QuerySource query) = (1 \<le> v \<and> v \<le> 3) \<and> (v = 3 \<or> v = 17)" if "hasSource query"
    using parts that by (auto split: if_splits)
  have valid: "IsValid a \<Longrightarrow> Is4 a \<or> Is6 a" for a by (cases a) (simp_all add: IsValid_def)
  show ?thesis
  proof (cases "1 \<le> v \<and> v \<le> 3")
    case True
    from parts True obtain packet d where packet: "buildIGMPQuery query = Ok packet"
        "ipv4MulticastMAC (if IsValid ?g then ?g else allHosts4) = Ok d"
        "frame = ethernetFrame d sourceMAC (QueryTags query) 0x0800 packet"
      by (auto simp: bindR_eq_Ok split: if_splits list.splits)
    have d: "length d = 6" using packet(2) by (auto simp: ipv4MulticastMAC_def bindR_eq_Ok)
    have "parseIGMP packet (?m d) = Ok (queryMessage d sourceMAC query)"
      by (rule igmp_query_parses [OF packet(1) _ _ v]) (use group source True version_cases [of v] in auto)
    then show ?thesis unfolding packet(3) using parse_ethernet [OF d mac tags] d
      by (simp add: ethernetFrame_def)
  next
    case False
    let ?d = "ipv6MulticastMAC (if IsValid ?g then ?g else allNodes6)"
    have d: "length ?d = 6" by (simp add: ipv6MulticastMAC_def Let_def)
    from parts False have versions: "v = 16 \<or> v = 17"
      and frame: "frame = ethernetFrame ?d sourceMAC (QueryTags query) 0x86dd (buildMLDQuery query)"
      by (auto split: if_splits list.splits)
    have "parseMLD (buildMLDQuery query) (?m ?d) = Ok (queryMessage ?d sourceMAC query)"
      by (rule mld_query_parses [OF _ _ v versions])
        (use group source False valid in \<open>auto simp: hasSource_def\<close>)
    then show ?thesis unfolding frame using parse_ethernet [OF d mac tags] d
      by (simp add: ethernetFrame_def)
  qed
qed

definition sampleQuery :: DownstreamQuery where
  "sampleQuery = \<lparr> QuerySubscriber = sampleSubscriber, QueryAttachment = sampleAttachment,
     QueryProfile = sampleProfile 17, QueryGroup = Addr6 0xff3e000000000000 0x1234,
     QuerySource = Addr6 0x20010db800000000 9, QueryTags = [\<lparr> TPID = 0x88a8, TCI = 5 \<rparr>] \<rparr>"

lemma query_roundtrip_witness:
  "case BuildDownstreamQueryFrame sampleQuery [2, 0, 0, 0, 0, 1] of
     Ok frame \<Rightarrow> ParseMembershipFrame frame = Ok (queryMessage (take 6 frame) [2, 0, 0, 0, 0, 1] sampleQuery)
   | _ \<Rightarrow> False"
proof -
  have "\<exists>frame. BuildDownstreamQueryFrame sampleQuery [2, 0, 0, 0, 0, 1] = Ok frame"
    by (simp add: BuildDownstreamQueryFrame_def sampleQuery_def sampleProfile_def IsValid_def hasSource_def
        IsUnspecified_def IPv4Unspecified_def IPv6Unspecified_def Let_def drop_bit_eq_div)
  then obtain frame where frame: "BuildDownstreamQueryFrame sampleQuery [2, 0, 0, 0, 0, 1] = Ok frame" by blast
  have "length [2, 0, 0, 0, 0, 1 :: u8] = 6" by simp
  from query_roundtrip [OF frame this] frame show ?thesis by simp
qed

section \<open>The length field of IPv4\<close>

text \<open>
  The builder bounds the number of sources by 65535, but the total length of IPv4 counts octets in 16
  bits: a report with 16374 to 16381 sources gets a length of less than one header and the parser
  (like any receiver) rejects it. \<open>report_roundtrip\<close> therefore bounds the frame.
\<close>

lemma oversized_report_rejected:
  assumes "length source = 4" "length destination = 4" "24 + length igmp = 65536 + k" "k < 32"
  shows "parseIGMP (igmpPacket source destination igmp) m = Err (Errorf ''IGMP IPv4 length is invalid'' [])"
proof -
  obtain ck where form: "igmpPacket source destination igmp =
     [0x46, 0] @ put16 (of_nat (24 + length igmp)) @ [0, 0, 0, 0, 1, 2] @ put16 ck @ source @ destination
       @ [0x94, 0x04, 0, 0] @ igmp" (is "_ = ?p") using igmpPacket_form [OF assms(1,2)] by blast
  have "be16 ?p 2 = of_nat (24 + length igmp)" by (simp add: be16_append2 be_Cons_pos be16_put16_append)
  moreover have "unat (of_nat (65536 + k) :: u16) = k" using assms(4) by (subst unat_of_nat) simp
  ultimately have total: "unat (be16 ?p 2) = k" unfolding assms(3) by simp
  have gen: "parseIGMP p m = Err (Errorf ''IGMP IPv4 length is invalid'' [])"
    if "unat (be16 p 2) = k" "go_index p 0 = (Ok 0x46 :: (go_error, u8) outcome)" "24 \<le> length p" for p
    using that assms(4) by (simp add: parseIGMP_def Let_def)
  have "go_index ?p 0 = (Ok 0x46 :: (go_error, u8) outcome)" by simp
  from gen [OF total this] show ?thesis unfolding form using assms(1,2) by simp
qed

end
