(* ===== verification/McPolicy.thy ===== *)
theory McPolicy
  imports McTypes "HOL-Library.Product_Lexorder"
begin

unbundle bit_operations_syntax

text \<open>
  The admission policy of multicast streams (src/internal/multicast/policy.go). An engine compiles a
  configuration once; \<open>Join\<close>, \<open>Leave\<close> and \<open>Expire\<close> keep the active groups of every subscriber
  within its limits. Each operation takes the engine's mutex, so it is one step on the engine record;
  the clock is an argument.

  \<^item> An embedded Go struct is a record extension (\<open>compiledSubscriber\<close>, \<open>activeState\<close>).
  \<^item> \<open>sort.Slice\<close> is \<open>sort_key\<close>; rows with equal keys, which the code may order either way, keep
    their order here. Sorting happens in the slices of the configuration.
  \<^item> A lookup of an absent key gives the zero value of the element type.
\<close>

section \<open>Data\<close>

record Join =
  JoinSubscriber :: u16
  JoinInterface :: string
  JoinVLAN :: VLAN
  JoinSource :: Addr
  JoinGroup :: Addr
  JoinClient :: Addr

datatype Reason = NoReason | ReasonAuthorized | ReasonAllowedPreview | ReasonPreview | ReasonUnauthorized
  | ReasonGroupLimit | ReasonBandwidthExceeded | ReasonPreviewExhausted | ReasonPreviewInterval
  | ReasonUnknownSubscriber

record Decision =
  Accepted :: bool
  ForwardUpstream :: bool
  Replicate :: bool
  DecisionReason :: Reason
  DecisionProfile :: u16
  DecisionACLRow :: u16
  DecisionGEMPort :: u16
  DecisionANIVLAN :: u16
  DecisionBandwidth :: u32
  DecisionExceeded :: bool
  DecisionPreviewUntil :: Time

definition zeroDecision :: Decision where
  "zeroDecision = \<lparr> Accepted = False, ForwardUpstream = False, Replicate = False, DecisionReason = NoReason,
     DecisionProfile = 0, DecisionACLRow = 0, DecisionGEMPort = 0, DecisionANIVLAN = 0, DecisionBandwidth = 0,
     DecisionExceeded = False, DecisionPreviewUntil = zeroTime \<rparr>"

record Monitor =
  CurrentBandwidth :: u32
  JoinMessages :: u32
  MonitorExceeded :: u32
  MonitorGroups :: "ActiveGroup list"

record PreviewTimer =
  TimerRow :: u16
  TimerDuration :: u16
  TimerTimeLeft :: u16

record compiledSubscriber = Subscriber +
  previewExpiry :: "(u16, Time) gomap"

record compiledConfig =
  profiles :: "(u16, Profile) gomap"
  subscribers :: "(u16, compiledSubscriber) gomap"

record activeKey =
  keyInterface :: string
  keySource :: Addr
  keyGroup :: Addr
  keyVLAN :: VLAN
  keyClient :: Addr

record streamKey =
  streamInterface :: string
  streamSource :: Addr
  streamGroup :: Addr
  streamVLAN :: VLAN

record activeState = ActiveGroup +
  joinedAt :: Time
  activeReason :: Reason
  packageID :: u16
  hasPackage :: bool

record previewKey =
  previewSubscriber :: u16
  previewProfile :: u16
  previewRow :: u16
  previewSource :: Addr
  previewGroup :: Addr

record previewState =
  previewCount :: u16
  nextAllowed :: Time
  lastReset :: Time

record subscriberState =
  groups :: "(activeKey, activeState) gomap"
  joinMessages :: u32
  bandwidthExceeded :: u32

record Engine =
  config :: compiledConfig
  states :: "(u16, subscriberState) gomap"
  previews :: "(previewKey, previewState) gomap"

definition zeroProfile :: Profile where
  "zeroProfile = \<lparr> ProfileEntity = 0, IGMPVersion = 0, IGMPFunction = 0, ImmediateLeave = False, UpstreamTCI = 0,
     UpstreamTagControl = 0, UpstreamRate = 0, Robustness = 0, QuerierIPAddress = 0, QueryInterval = 0,
     QueryMaxResponseTime = 0, LastMemberQueryInterval = 0, UnauthorizedJoinBehaviour = False,
     DownstreamTagControl = 0, DownstreamTCI = 0, DynamicACL = [], StaticACL = [] \<rparr>"

definition zeroPreview :: AllowedPreview where
  "zeroPreview = \<lparr> PreviewRow = 0, PreviewSource = NoAddr, PreviewDestination = NoAddr, PreviewANI = 0,
     PreviewUNI = 0, PreviewDuration = 0, PreviewTimeLeft = 0 \<rparr>"

definition zeroPreviewState :: previewState where
  "zeroPreviewState = \<lparr> previewCount = 0, nextAllowed = zeroTime, lastReset = zeroTime \<rparr>"

definition emptyState :: subscriberState where
  "emptyState = \<lparr> groups = [], joinMessages = 0, bandwidthExceeded = 0 \<rparr>"

definition lookup :: "'v \<Rightarrow> ('k, 'v) gomap \<Rightarrow> 'k \<Rightarrow> 'v" where
  "lookup zero m k = (case map_of m k of Some v \<Rightarrow> v | None \<Rightarrow> zero)"

section \<open>Compilation\<close>

definition addressVersion :: "Addr \<Rightarrow> u8 \<Rightarrow> bool" where
  "addressVersion address version = (IsValid address
     \<and> (version = 4 \<and> Is4 address \<or> version = 6 \<and> Is6 address \<and> \<not> Is4In6 address))"

definition validServiceVLAN :: "u16 \<Rightarrow> bool" where
  "validServiceVLAN vlan = (vlan \<le> 4097 \<or> vlan = 0xffff)"

definition validateACL :: "ACLEntry \<Rightarrow> go_error option" where
  "validateACL entry =
     (if RowKey entry > 1023 \<or> AclGEMPortID entry > 4095
        \<or> VLANID entry = 4096 \<or> VLANID entry > 4097 \<and> VLANID entry \<noteq> 0xffff
      then Some (Errorf ''ACL row %d has an invalid key, GEM Port-ID or ANI VLAN'' [AU (RowKey entry)])
      else if IPVersion entry \<noteq> 4 \<and> IPVersion entry \<noteq> 6
      then Some (Errorf ''ACL row %d has invalid IP version %d'' [AU (RowKey entry), AU (IPVersion entry)])
      else if \<not> addressVersion (Start entry) (IPVersion entry) \<or> \<not> addressVersion (Stop entry) (IPVersion entry)
        \<or> \<not> IsMulticast (Start entry) \<or> \<not> IsMulticast (Stop entry) \<or> Start entry > Stop entry
      then Some (Errorf ''ACL row %d has invalid multicast range %s..%s''
             [AU (RowKey entry), ABytes (AsSlice (Start entry)), ABytes (AsSlice (Stop entry))])
      else if IsValid (AclSource entry) \<and> \<not> IsUnspecified (AclSource entry)
        \<and> \<not> addressVersion (AclSource entry) (IPVersion entry)
      then Some (Errorf ''ACL row %d source %s does not match IP version %d''
             [AU (RowKey entry), ABytes (AsSlice (AclSource entry)), AU (IPVersion entry)])
      else if PreviewResetTime entry > 24 \<and> PreviewResetTime entry < 241
      then Some (Errorf ''ACL row %d has reserved preview reset time %d''
             [AU (RowKey entry), AU (PreviewResetTime entry)])
      else None)"

definition validateAllowedPreview :: "AllowedPreview \<Rightarrow> go_error option" where
  "validateAllowedPreview preview =
     (if PreviewRow preview > 1023 \<or> PreviewANI preview > 4095 \<or> PreviewUNI preview > 4095
      then Some (Errorf ''allowed-preview row %d has an invalid key or VLAN'' [AU (PreviewRow preview)])
      else if \<not> IsValid (PreviewDestination preview) \<or> \<not> IsMulticast (PreviewDestination preview)
      then Some (Errorf ''allowed-preview row %d has invalid destination %s''
             [AU (PreviewRow preview), ABytes (AsSlice (PreviewDestination preview))])
      else if IsValid (PreviewSource preview) \<and> \<not> IsUnspecified (PreviewSource preview)
        \<and> BitLen (PreviewSource preview) \<noteq> BitLen (PreviewDestination preview)
      then Some (Errorf ''allowed-preview row %d source and destination use different IP versions''
             [AU (PreviewRow preview)])
      else if PreviewDuration preview \<noteq> 0 \<and> PreviewTimeLeft preview > PreviewDuration preview
      then Some (Errorf ''allowed-preview row %d time left exceeds duration'' [AU (PreviewRow preview)])
      else None)"

text \<open>The loops of \<open>compile\<close>, each over the rows that are left.\<close>

fun checkACLs :: "u16 \<Rightarrow> ACLEntry list \<Rightarrow> go_error option" where
  "checkACLs profile [] = None"
| "checkACLs profile (entry # entries) =
     (case validateACL entry of
        Some e \<Rightarrow> Some (Errorf ''multicast profile %#x: %w'' [AU profile, AErr e])
      | None \<Rightarrow> checkACLs profile entries)"

definition compileProfile :: "Profile \<Rightarrow> (u16, Profile) gomap \<Rightarrow> (go_error, (u16, Profile) gomap) outcome" where
  "compileProfile profile result =
     (let key = ProfileEntity profile in
      if key = 0 \<or> key = 0xffff
      then Err (Errorf ''multicast profile has reserved entity ID %#x'' [AU key])
      else if IGMPVersion profile \<notin> {1, 2, 3, 16, 17}
      then Err (Errorf ''multicast profile %#x has invalid IGMP/MLD version %d'' [AU key, AU (IGMPVersion profile)])
      else if IGMPFunction profile > 2 \<or> UpstreamTagControl profile > 3 \<or> DownstreamTagControl profile > 7
      then Err (Errorf ''multicast profile %#x has invalid function or tag control'' [AU key])
      else if map_of result key \<noteq> None
      then Err (Errorf ''duplicate multicast profile %#x'' [AU key])
      else failIf (checkACLs key (DynamicACL profile)) (failIf (checkACLs key (StaticACL profile))
        (Ok (AList.update key
           (profile\<lparr>DynamicACL := sort_key RowKey (DynamicACL profile), StaticACL := sort_key RowKey (StaticACL profile)\<rparr>)
           result))))"

fun checkPackages :: "(u16, Profile) gomap \<Rightarrow> u16 \<Rightarrow> ServicePackage list \<Rightarrow> u16 list \<Rightarrow> go_error option" where
  "checkPackages ps subscriber [] seen = None"
| "checkPackages ps subscriber (service # services) seen =
     (if ServiceRow service \<in> set seen
      then Some (Errorf ''multicast subscriber %#x repeats service row %d'' [AU subscriber, AU (ServiceRow service)])
      else if \<not> validServiceVLAN (ServiceVLAN service)
      then Some (Errorf ''multicast subscriber %#x service row %d has invalid VLAN %d''
             [AU subscriber, AU (ServiceRow service), AU (ServiceVLAN service)])
      else if map_of ps (OperationsProfile service) = None
      then Some (Errorf ''multicast subscriber %#x service row %d references missing profile %#x''
             [AU subscriber, AU (ServiceRow service), AU (OperationsProfile service)])
      else checkPackages ps subscriber services (ServiceRow service # seen))"

fun compilePreviews :: "Time \<Rightarrow> u16 \<Rightarrow> AllowedPreview list \<Rightarrow> u16 list \<Rightarrow> (u16, Time) gomap
    \<Rightarrow> (go_error, (u16, Time) gomap) outcome" where
  "compilePreviews now subscriber [] seen expiry = Ok expiry"
| "compilePreviews now subscriber (preview # rest) seen expiry =
     (if PreviewRow preview \<in> set seen
      then Err (Errorf ''multicast subscriber %#x repeats preview row %d'' [AU subscriber, AU (PreviewRow preview)])
      else case validateAllowedPreview preview of
        Some e \<Rightarrow> Err (Errorf ''multicast subscriber %#x: %w'' [AU subscriber, AErr e])
      | None \<Rightarrow> compilePreviews now subscriber rest (PreviewRow preview # seen)
          (if PreviewDuration preview \<noteq> 0 \<and> PreviewTimeLeft preview \<noteq> 0
           then AList.update (PreviewRow preview) (now + uint (PreviewTimeLeft preview) * nsMinute) expiry
           else expiry))"

definition compileSubscriber :: "Time \<Rightarrow> (u16, Profile) gomap \<Rightarrow> Subscriber \<Rightarrow> (u16, compiledSubscriber) gomap
    \<Rightarrow> (go_error, (u16, compiledSubscriber) gomap) outcome" where
  "compileSubscriber now ps subscriber0 result =
     (let key = SubscriberEntity subscriber0;
          subscriber = subscriber0\<lparr>ServicePackages := sort_key ServiceRow (ServicePackages subscriber0)\<rparr> in
      if map_of result key \<noteq> None
      then Err (Errorf ''duplicate multicast subscriber %#x'' [AU key])
      else failIf (checkPackages ps key (ServicePackages subscriber) [])
       (if ServicePackages subscriber = [] \<and> map_of ps (SubscriberProfile subscriber) = None
        then Err (Errorf ''multicast subscriber %#x references missing profile %#x'' [AU key, AU (SubscriberProfile subscriber)])
        else bindR (compilePreviews now key (AllowedPreviews subscriber) [] []) (\<lambda>expiry.
          Ok (AList.update key (Subscriber.extend subscriber \<lparr> previewExpiry = expiry \<rparr>) result))))"

definition compile :: "Config \<Rightarrow> Time \<Rightarrow> (go_error, compiledConfig) outcome" where
  "compile c now =
     bindR (foldR compileProfile (Profiles c) []) (\<lambda>ps.
     bindR (foldR (compileSubscriber now ps) (Subscribers c) []) (\<lambda>ss.
     Ok \<lparr> profiles = ps, subscribers = ss \<rparr>))"

definition Validate :: "Config \<Rightarrow> Time \<Rightarrow> (go_error, unit) outcome" where
  "Validate c now = bindR (compile c now) (\<lambda>_. Ok ())"

definition New :: "Config \<Rightarrow> Time \<Rightarrow> (go_error, Engine) outcome" where
  "New c now = bindR (compile c now) (\<lambda>compiled. Ok \<lparr> config = compiled, states = [], previews = [] \<rparr>)"

text \<open>A reload keeps the exact deadline of every preview row that did not change.\<close>

definition keepExpiries :: "compiledSubscriber \<Rightarrow> compiledSubscriber \<Rightarrow> compiledSubscriber" where
  "keepExpiries old cur =
     (let oldRows = fold (\<lambda>preview. AList.update (PreviewRow preview) preview) (AllowedPreviews old) [];
          keep = (\<lambda>preview expiry.
            if lookup zeroPreview oldRows (PreviewRow preview) \<noteq> preview then expiry
            else case map_of (previewExpiry old) (PreviewRow preview) of
              Some deadline \<Rightarrow> AList.update (PreviewRow preview) deadline expiry
            | None \<Rightarrow> expiry) in
      cur\<lparr>previewExpiry := fold keep (AllowedPreviews cur) (previewExpiry cur)\<rparr>)"

definition preserveAllowedPreviewExpiries :: "Engine option \<Rightarrow> Engine \<Rightarrow> Engine" where
  "preserveAllowedPreviewExpiries previous e =
     (case previous of
        None \<Rightarrow> e
      | Some p \<Rightarrow> e\<lparr>config := (config e)\<lparr>subscribers := map (\<lambda>(entity, cur).
          (entity, case map_of (subscribers (config p)) entity of
             Some old \<Rightarrow> keepExpiries old cur
           | None \<Rightarrow> cur)) (subscribers (config e))\<rparr>\<rparr>)"

section \<open>Matching a request against the policy\<close>

definition validJoin :: "Join \<Rightarrow> bool" where
  "validJoin r =
     (if \<not> IsValid (JoinGroup r) \<or> \<not> IsMulticast (JoinGroup r) \<or> \<not> IsValid (JoinSource r)
        \<or> BitLen (JoinSource r) \<noteq> BitLen (JoinGroup r) \<or> ID (JoinVLAN r) > 4095
        \<or> \<not> Tagged (JoinVLAN r) \<and> ID (JoinVLAN r) \<noteq> 0
      then False
      else \<not> IsValid (JoinClient r) \<or> BitLen (JoinClient r) = BitLen (JoinGroup r))"

definition aclMatches :: "ACLEntry \<Rightarrow> Addr \<Rightarrow> Addr \<Rightarrow> bool" where
  "aclMatches acl source g =
     (if \<not> addressVersion g (IPVersion acl) \<or> g < Start acl \<or> g > Stop acl then False
      else \<not> IsValid (AclSource acl) \<or> IsUnspecified (AclSource acl) \<or> AclSource acl = source)"

definition serviceVLANMatches :: "u16 \<Rightarrow> VLAN \<Rightarrow> bool" where
  "serviceVLANMatches policy packet =
     (if policy = 4096 then \<not> Tagged packet
      else if policy = 4097 then Tagged packet
      else if policy = 0xffff then True
      else Tagged packet \<and> ID packet = policy)"

definition allowedPreviewMatches :: "AllowedPreview \<Rightarrow> Time \<Rightarrow> Join \<Rightarrow> u16 \<Rightarrow> Time \<Rightarrow> bool" where
  "allowedPreviewMatches allowed expires r aniVLAN now =
     (if PreviewDuration allowed \<noteq> 0 \<and> (PreviewTimeLeft allowed = 0 \<or> \<not> expires > now) then False
      else if PreviewDestination allowed \<noteq> JoinGroup r
        \<or> IsValid (PreviewSource allowed) \<and> \<not> IsUnspecified (PreviewSource allowed) \<and> PreviewSource allowed \<noteq> JoinSource r
      then False
      else if PreviewUNI allowed = 0 \<and> Tagged (JoinVLAN r) then False
      else if PreviewUNI allowed \<noteq> 0 \<and> (\<not> Tagged (JoinVLAN r) \<or> ID (JoinVLAN r) \<noteq> PreviewUNI allowed) then False
      else aniVLAN = 0xffff \<or> aniVLAN = 4097 \<and> PreviewANI allowed \<noteq> 0 \<or> aniVLAN = PreviewANI allowed)"

record policyMatch =
  matchProfile :: Profile
  matchACL :: ACLEntry
  matchService :: "ServicePackage option"
  matchReason :: Reason
  matchUntil :: Time

record candidate =
  candidateProfile :: Profile
  candidateService :: "ServicePackage option"

definition candidates :: "compiledConfig \<Rightarrow> compiledSubscriber \<Rightarrow> VLAN \<Rightarrow> candidate list" where
  "candidates c subscriber vlan =
     (if ServicePackages subscriber = []
      then [\<lparr> candidateProfile = lookup zeroProfile (profiles c) (SubscriberProfile subscriber), candidateService = None \<rparr>]
      else map (\<lambda>service. \<lparr> candidateProfile = lookup zeroProfile (profiles c) (OperationsProfile service),
                            candidateService = Some service \<rparr>)
        (filter (\<lambda>service. serviceVLANMatches (ServiceVLAN service) vlan) (ServicePackages subscriber)))"

text \<open>
  The loop over the ACL rows of a candidate stops at the first row that matches without a preview
  (\<open>Inl\<close>) and collects the others (\<open>Inr\<close>).
\<close>

fun scanRows :: "candidate \<Rightarrow> Join \<Rightarrow> ACLEntry list \<Rightarrow> policyMatch list \<Rightarrow> policyMatch + policyMatch list" where
  "scanRows cand r [] found = Inr found"
| "scanRows cand r (acl # rest) found =
     (let m = \<lparr> matchProfile = candidateProfile cand, matchACL = acl, matchService = candidateService cand,
                matchReason = NoReason, matchUntil = zeroTime \<rparr> in
      if \<not> aclMatches acl (JoinSource r) (JoinGroup r) then scanRows cand r rest found
      else if PreviewLength acl = 0 then Inl (m\<lparr>matchReason := ReasonAuthorized\<rparr>)
      else scanRows cand r rest (found @ [m]))"

fun scanCandidates :: "Join \<Rightarrow> candidate list \<Rightarrow> bool \<Rightarrow> u16 \<Rightarrow> policyMatch list
    \<Rightarrow> policyMatch + (policyMatch list \<times> bool \<times> u16)" where
  "scanCandidates r [] forward forwardID found = Inr (found, forward, forwardID)"
| "scanCandidates r (cand # rest) forward forwardID found =
     (let p = candidateProfile cand;
          forward' = (forward \<or> UnauthorizedJoinBehaviour p);
          forwardID' = (if UnauthorizedJoinBehaviour p \<and> forwardID = 0 then ProfileEntity p else forwardID) in
      case scanRows cand r (DynamicACL p) found of
        Inl m \<Rightarrow> Inl m
      | Inr found' \<Rightarrow> scanCandidates r rest forward' forwardID' found')"

text \<open>The loops over the preview matches and, inside, over the allowed previews of the subscriber.\<close>

fun allowedMatch :: "compiledSubscriber \<Rightarrow> Join \<Rightarrow> Time \<Rightarrow> policyMatch list \<Rightarrow> policyMatch option" where
  "allowedMatch subscriber r now [] = None"
| "allowedMatch subscriber r now (m # ms) =
     (case find (\<lambda>allowed. allowedPreviewMatches allowed (lookup zeroTime (previewExpiry subscriber) (PreviewRow allowed))
                   r (VLANID (matchACL m)) now) (AllowedPreviews subscriber) of
        Some allowed \<Rightarrow> Some (m\<lparr>matchReason := ReasonAllowedPreview,
            matchUntil := lookup zeroTime (previewExpiry subscriber) (PreviewRow allowed)\<rparr>)
      | None \<Rightarrow> allowedMatch subscriber r now ms)"

definition matchLocked :: "compiledConfig \<Rightarrow> compiledSubscriber \<Rightarrow> Join \<Rightarrow> Time \<Rightarrow> policyMatch option \<times> bool \<times> u16" where
  "matchLocked c subscriber r now =
     (case scanCandidates r (candidates c subscriber (JoinVLAN r)) False 0 [] of
        Inl m \<Rightarrow> (Some m, True, ProfileEntity (matchProfile m))
      | Inr (found, forward, forwardID) \<Rightarrow>
          (case allowedMatch subscriber r now found of
             Some m \<Rightarrow> (Some m, True, ProfileEntity (matchProfile m))
           | None \<Rightarrow>
               (case found of
                  m # _ \<Rightarrow> (Some (m\<lparr>matchReason := ReasonPreview\<rparr>), True, ProfileEntity (matchProfile m))
                | [] \<Rightarrow> (None, forward, forwardID))))"

section \<open>Load of a subscriber\<close>

definition groupStream :: "'a ActiveGroup_scheme \<Rightarrow> streamKey" where
  "groupStream g = \<lparr> streamInterface = GroupInterface g, streamSource = GroupSource g, streamGroup = GroupAddr g,
     streamVLAN = UNIVLAN g \<rparr>"

definition exceedsBandwidth :: "u64 \<Rightarrow> u32 \<Rightarrow> u32 \<Rightarrow> bool" where
  "exceedsBandwidth cur additional limit =
     (limit \<noteq> 0 \<and> (ucast additional :: u64) > ucast limit \<or> limit \<noteq> 0 \<and> cur > ucast limit - ucast additional)"

definition inPackage :: "u16 option \<Rightarrow> activeState \<Rightarrow> bool" where
  "inPackage row g = (case row of None \<Rightarrow> True | Some r \<Rightarrow> hasPackage g \<and> packageID g = r)"

fun bandwidthLoop :: "u16 option \<Rightarrow> activeState list \<Rightarrow> streamKey list \<Rightarrow> u64 \<Rightarrow> u64" where
  "bandwidthLoop row [] seen acc = acc"
| "bandwidthLoop row (g # gs) seen acc =
     (if \<not> inPackage row g \<or> groupStream g \<in> set seen then bandwidthLoop row gs seen acc
      else bandwidthLoop row gs (groupStream g # seen) (acc + ucast (ImputedBandwidth g)))"

definition activeBandwidth :: "(activeKey, activeState) gomap \<Rightarrow> u16 option \<Rightarrow> u64" where
  "activeBandwidth gs row = bandwidthLoop row (map snd gs) [] 0"

definition activeStreamCount :: "(activeKey, activeState) gomap \<Rightarrow> u16 option \<Rightarrow> nat" where
  "activeStreamCount gs row = length (remdups (map groupStream (filter (inPackage row) (map snd gs))))"

definition activePackageGroups :: "(activeKey, activeState) gomap \<Rightarrow> u16 \<Rightarrow> nat" where
  "activePackageGroups gs row = activeStreamCount gs (Some row)"

definition activeStream :: "(activeKey, activeState) gomap \<Rightarrow> streamKey \<Rightarrow> activeState option" where
  "activeStream gs wanted = find (\<lambda>g. groupStream g = wanted) (map snd gs)"

section \<open>Previews\<close>

text \<open>
  The last time of day \<open>hour\<close> before \<open>now\<close>, in a location \<open>zone\<close> nanoseconds east of UTC.
\<close>

definition nsHour :: Duration where "nsHour = 60 * nsMinute"
definition nsDay :: Duration where "nsDay = 24 * nsHour"

definition latestReset :: "Duration \<Rightarrow> Time \<Rightarrow> u16 \<Rightarrow> Time" where
  "latestReset zone now hour =
     (let resetHour = (if hour = 24 then 0 else uint hour);
          midnight = (now + zone) div nsDay * nsDay - zone;
          boundary = midnight + resetHour * nsHour in
      if boundary > now then boundary - nsDay else boundary)"

definition startPreviewLocked :: "Duration \<Rightarrow> u16 \<Rightarrow> policyMatch \<Rightarrow> Join \<Rightarrow> Time \<Rightarrow> (previewKey, previewState) gomap
    \<Rightarrow> Decision \<times> (previewKey, previewState) gomap" where
  "startPreviewLocked zone subscriberID m r now ps =
     (let acl = matchACL m;
          key = \<lparr> previewSubscriber = subscriberID, previewProfile = ProfileEntity (matchProfile m),
                  previewRow = RowKey acl, previewSource = JoinSource r, previewGroup = JoinGroup r \<rparr>;
          state0 = lookup zeroPreviewState ps key;
          boundary = latestReset zone now (PreviewResetTime acl);
          state =
            (if PreviewResetTime acl \<ge> 1 \<and> PreviewResetTime acl \<le> 24 then
               (if lastReset state0 = zeroTime then state0\<lparr>lastReset := boundary\<rparr>
                else if boundary > lastReset state0
                then state0\<lparr>previewCount := 0, nextAllowed := zeroTime, lastReset := boundary\<rparr>
                else state0)
             else state0);
          refuse = (\<lambda>why. (zeroDecision\<lparr>DecisionReason := why, DecisionProfile := ProfileEntity (matchProfile m),
            DecisionACLRow := RowKey acl\<rparr>, AList.update key state ps)) in
      if now < nextAllowed state then refuse ReasonPreviewInterval
      else if PreviewRepeatCount acl \<noteq> 0 \<and> previewCount state \<ge> PreviewRepeatCount acl
      then refuse ReasonPreviewExhausted
      else let len = uint (PreviewLength acl) * nsSecond;
               state' = state\<lparr>previewCount := previewCount state + 1,
                 nextAllowed := now + (len + uint (PreviewRepeatTime acl) * nsSecond)\<rparr> in
        (\<lparr> Accepted = True, ForwardUpstream = True, Replicate = True, DecisionReason = ReasonPreview,
           DecisionProfile = ProfileEntity (matchProfile m), DecisionACLRow = RowKey acl,
           DecisionGEMPort = AclGEMPortID acl, DecisionANIVLAN = VLANID acl, DecisionBandwidth = AclBandwidth acl,
           DecisionExceeded = False, DecisionPreviewUntil = now + len \<rparr>,
         AList.update key state' ps))"

section \<open>Operations\<close>

definition decisionFromActive :: "activeState \<Rightarrow> Reason \<Rightarrow> Decision" where
  "decisionFromActive active why =
     \<lparr> Accepted = True, ForwardUpstream = True, Replicate = True, DecisionReason = why,
       DecisionProfile = GroupProfile active, DecisionACLRow = GroupACLRow active, DecisionGEMPort = GEMPortID active,
       DecisionANIVLAN = ANIVLAN active, DecisionBandwidth = ImputedBandwidth active, DecisionExceeded = False,
       DecisionPreviewUntil = PreviewUntil active \<rparr>"

definition expiredAt :: "Time \<Rightarrow> activeState \<Rightarrow> bool" where
  "expiredAt now g = (PreviewUntil g \<noteq> zeroTime \<and> \<not> now < PreviewUntil g)"

definition expireLocked :: "Time \<Rightarrow> Engine \<Rightarrow> ActiveGroup list \<times> Engine" where
  "expireLocked now e =
     (concat (map (\<lambda>(_, s). map (\<lambda>(_, g). ActiveGroup.truncate g) (filter (\<lambda>(_, g). expiredAt now g) (groups s))) (states e)),
      e\<lparr>states := map (\<lambda>(k, s). (k, s\<lparr>groups := filter (\<lambda>(_, g). \<not> expiredAt now g) (groups s)\<rparr>)) (states e)\<rparr>)"

definition joinStream :: "Join \<Rightarrow> streamKey" where
  "joinStream r = \<lparr> streamInterface = JoinInterface r, streamSource = JoinSource r, streamGroup = JoinGroup r,
     streamVLAN = JoinVLAN r \<rparr>"

definition joinKey :: "Join \<Rightarrow> activeKey" where
  "joinKey r = \<lparr> keyInterface = JoinInterface r, keySource = JoinSource r, keyGroup = JoinGroup r,
     keyVLAN = JoinVLAN r, keyClient = JoinClient r \<rparr>"

definition newActive :: "policyMatch \<Rightarrow> Join \<Rightarrow> Time \<Rightarrow> activeState" where
  "newActive m r now =
     \<lparr> GroupInterface = JoinInterface r, GroupSource = JoinSource r, IncludedSources = [], ExcludedSources = [],
       GroupAddr = JoinGroup r, GroupClient = JoinClient r, UNIVLAN = JoinVLAN r, ANIVLAN = VLANID (matchACL m),
       GroupProfile = ProfileEntity (matchProfile m), GroupACLRow = RowKey (matchACL m),
       GEMPortID = AclGEMPortID (matchACL m), ImputedBandwidth = AclBandwidth (matchACL m), TimeSinceJoin = 0,
       PreviewUntil = matchUntil m, joinedAt = now, activeReason = matchReason m,
       packageID = (case matchService m of Some s \<Rightarrow> ServiceRow s | None \<Rightarrow> 0),
       hasPackage = (matchService m \<noteq> None) \<rparr>"

text \<open>The limits of the subscriber and of the service package: too many groups, too much bandwidth.\<close>

definition overLimits :: "compiledSubscriber \<Rightarrow> policyMatch \<Rightarrow> (activeKey, activeState) gomap \<Rightarrow> bool \<times> bool" where
  "overLimits subscriber m gs =
     (let additional = AclBandwidth (matchACL m);
          groupExceeded = (MaxSimultaneousGroups subscriber \<noteq> 0
            \<and> activeStreamCount gs None \<ge> unat (MaxSimultaneousGroups subscriber));
          exceeded = exceedsBandwidth (activeBandwidth gs None) additional (MaxMulticastBandwidth subscriber) in
      case matchService m of
        None \<Rightarrow> (groupExceeded, exceeded)
      | Some service \<Rightarrow>
          (groupExceeded \<or> ServiceMaxGroups service \<noteq> 0
             \<and> activePackageGroups gs (ServiceRow service) \<ge> unat (ServiceMaxGroups service),
           exceeded \<or> exceedsBandwidth (activeBandwidth gs (Some (ServiceRow service))) additional
             (ServiceMaxBandwidth service)))"

definition putState :: "u16 \<Rightarrow> subscriberState \<Rightarrow> Engine \<Rightarrow> Engine" where
  "putState k s e = e\<lparr>states := AList.update k s (states e)\<rparr>"

text \<open>The steps of \<open>Join\<close> after the lookup of the active groups failed.\<close>

definition admit :: "Duration \<Rightarrow> compiledSubscriber \<Rightarrow> Join \<Rightarrow> Time \<Rightarrow> policyMatch \<Rightarrow> subscriberState \<Rightarrow> Engine
    \<Rightarrow> Decision \<times> Engine" where
  "admit zone subscriber r now m state0 e =
     (let (groupExceeded, exceeded) = overLimits subscriber m (groups state0);
          state = (if exceeded then state0\<lparr>bandwidthExceeded := bandwidthExceeded state0 + 1\<rparr> else state0);
          k = JoinSubscriber r;
          enter = (\<lambda>m e.
            let active = newActive m r now in
            ((decisionFromActive active (matchReason m))\<lparr>DecisionExceeded := exceeded\<rparr>,
             putState k (state\<lparr>groups := AList.update (joinKey r) active (groups state),
                               joinMessages := joinMessages state + 1\<rparr>) e)) in
      if groupExceeded
      then (zeroDecision\<lparr>DecisionReason := ReasonGroupLimit, DecisionExceeded := exceeded\<rparr>, putState k state e)
      else if exceeded \<and> BandwidthEnforcement subscriber
      then (zeroDecision\<lparr>DecisionReason := ReasonBandwidthExceeded, DecisionExceeded := True\<rparr>, putState k state e)
      else if matchReason m = ReasonPreview then
        (case startPreviewLocked zone k m r now (previews e) of
           (decision, previews') \<Rightarrow>
             if \<not> Accepted decision
             then (decision\<lparr>DecisionExceeded := exceeded\<rparr>, putState k state (e\<lparr>previews := previews'\<rparr>))
             else enter (m\<lparr>matchUntil := DecisionPreviewUntil decision\<rparr>) (e\<lparr>previews := previews'\<rparr>))
      else enter m e)"

definition joinStep :: "Duration \<Rightarrow> Time \<Rightarrow> Join \<Rightarrow> Engine \<Rightarrow> Decision \<times> Engine" where
  "joinStep zone now r e0 =
     (let e = snd (expireLocked now e0); k = JoinSubscriber r in
      case map_of (subscribers (config e)) k of
        None \<Rightarrow> (zeroDecision\<lparr>DecisionReason := ReasonUnknownSubscriber\<rparr>, e)
      | Some subscriber \<Rightarrow>
          if \<not> validJoin r then (zeroDecision\<lparr>DecisionReason := ReasonUnauthorized\<rparr>, e)
          else
            let state = lookup emptyState (states e) k;
                refresh = (\<lambda>active. (decisionFromActive active (activeReason active),
                  putState k (state\<lparr>groups := AList.update (joinKey r) (active\<lparr>joinedAt := now\<rparr>) (groups state),
                                    joinMessages := joinMessages state + 1\<rparr>) e)) in
            case map_of (groups state) (joinKey r) of
              Some active \<Rightarrow> refresh active
            | None \<Rightarrow>
                (case activeStream (groups state) (joinStream r) of
                   Some active \<Rightarrow> refresh (active\<lparr>GroupClient := JoinClient r\<rparr>)
                 | None \<Rightarrow>
                     (case matchLocked (config e) subscriber r now of
                        (None, forward, forwardID) \<Rightarrow>
                          (zeroDecision\<lparr>ForwardUpstream := forward, DecisionReason := ReasonUnauthorized,
                             DecisionProfile := forwardID\<rparr>, putState k state e)
                      | (Some m, _) \<Rightarrow> admit zone subscriber r now m state e)))"

definition Leave :: "Join \<Rightarrow> Engine \<Rightarrow> bool \<times> Engine" where
  "Leave r e =
     (case map_of (states e) (JoinSubscriber r) of
        None \<Rightarrow> (False, e)
      | Some state \<Rightarrow>
          if IsValid (JoinClient r) then
            (if map_of (groups state) (joinKey r) = None then (False, e)
             else (True, putState (JoinSubscriber r) (state\<lparr>groups := AList.delete (joinKey r) (groups state)\<rparr>) e))
          else
            let same = (\<lambda>(key, _). keyInterface key = JoinInterface r \<and> keySource key = JoinSource r
                         \<and> keyGroup key = JoinGroup r \<and> keyVLAN key = JoinVLAN r) in
            (list_ex same (groups state),
             putState (JoinSubscriber r) (state\<lparr>groups := filter (\<lambda>x. \<not> same x) (groups state)\<rparr>) e))"

definition Expire :: "Time \<Rightarrow> Engine \<Rightarrow> ActiveGroup list \<times> Engine" where
  "Expire now e = expireLocked now e"

section \<open>Monitoring\<close>

definition secondsSince :: "Time \<Rightarrow> Time \<Rightarrow> u32" where
  "secondsSince now joined =
     (let elapsed = timeSub now joined in
      if elapsed > 0xffffffff * nsSecond then 0xffffffff
      else if elapsed > 0 then of_int (elapsed div nsSecond) else 0)"

definition MonitorStatus :: "Time \<Rightarrow> u16 \<Rightarrow> Engine \<Rightarrow> Monitor \<times> Engine" where
  "MonitorStatus now subscriberID e0 =
     (let e = snd (expireLocked now e0) in
      case map_of (states e) subscriberID of
        None \<Rightarrow> (\<lparr> CurrentBandwidth = 0, JoinMessages = 0, MonitorExceeded = 0, MonitorGroups = [] \<rparr>, e)
      | Some state \<Rightarrow>
          let bandwidth = bandwidthLoop None (map snd (groups state)) [] 0;
              entries = map (\<lambda>(_, g). (ActiveGroup.truncate g)\<lparr>TimeSinceJoin := secondsSince now (joinedAt g)\<rparr>) (groups state) in
          (\<lparr> CurrentBandwidth = (if bandwidth > 0xffffffff then 0xffffffff else ucast bandwidth),
             JoinMessages = joinMessages state, MonitorExceeded = bandwidthExceeded state,
             MonitorGroups = sort_key (\<lambda>g. (GroupAddr g, GroupSource g, GroupClient g)) entries \<rparr>, e))"

definition AllowedPreviewTimers :: "Time \<Rightarrow> u16 \<Rightarrow> Engine \<Rightarrow> PreviewTimer list" where
  "AllowedPreviewTimers now subscriberID e =
     (case map_of (subscribers (config e)) subscriberID of
        None \<Rightarrow> []
      | Some subscriber \<Rightarrow> sort_key TimerRow (map (\<lambda>preview.
          \<lparr> TimerRow = PreviewRow preview, TimerDuration = PreviewDuration preview,
            TimerTimeLeft =
              (case map_of (previewExpiry subscriber) (PreviewRow preview) of
                 Some deadline \<Rightarrow>
                   if deadline > now then
                     (let minutes = wrap64 (timeSub deadline now + nsMinute - 1) div nsMinute in
                      if minutes > 0xffff then 0xffff else of_int minutes)
                   else 0
               | None \<Rightarrow> 0) \<rparr>) (AllowedPreviews subscriber)))"

end
