(* ===== verification/McPolicyProofs.thy ===== *)
theory McPolicyProofs
  imports McPolicy
begin

text \<open>
  Admission control: every engine that operations reach keeps every subscriber within its limits,
  and every active group is covered by a row of the policy. The invariants also show that the order
  in which Go iterates over the active groups does not matter.
\<close>

section \<open>The load of a subscriber\<close>

definition loads :: "u16 option \<Rightarrow> activeState list \<Rightarrow> (streamKey \<times> nat) set" where
  "loads row gs = (\<lambda>g. (groupStream g, unat (ImputedBandwidth g))) ` set (filter (inPackage row) gs)"

text \<open>The bandwidth of the streams of a package (or of all), every stream counted once.\<close>

definition load :: "u16 option \<Rightarrow> activeState list \<Rightarrow> nat" where
  "load row gs = sum snd (loads row gs)"

definition streams :: "u16 option \<Rightarrow> activeState list \<Rightarrow> streamKey set" where
  "streams row gs = groupStream ` set (filter (inPackage row) gs)"

text \<open>Groups of one stream differ in their client and in the time of their last join only.\<close>

definition streamData :: "activeState \<Rightarrow> activeState" where
  "streamData g = g\<lparr>GroupClient := NoAddr, joinedAt := zeroTime\<rparr>"

definition agree :: "activeState list \<Rightarrow> bool" where
  "agree gs = (\<forall>x \<in> set gs. \<forall>y \<in> set gs. groupStream x = groupStream y \<longrightarrow> streamData x = streamData y)"

lemma finite_loads [simp]: "finite (loads row gs)" "finite (streams row gs)"
  by (simp_all add: loads_def streams_def)

lemma activeStreamCount_card: "activeStreamCount gs row = card (streams row (map snd gs))"
  by (simp add: activeStreamCount_def streams_def length_remdups_card_conv)

lemma streamData_fields:
  assumes "streamData x = streamData y"
  shows "ImputedBandwidth x = ImputedBandwidth y" "hasPackage x = hasPackage y" "packageID x = packageID y"
    "PreviewUntil x = PreviewUntil y"
  using arg_cong [OF assms, of ImputedBandwidth] arg_cong [OF assms, of hasPackage]
    arg_cong [OF assms, of packageID] arg_cong [OF assms, of PreviewUntil]
  by (simp_all add: streamData_def)

lemma agreeD: "agree gs \<Longrightarrow> x \<in> set gs \<Longrightarrow> y \<in> set gs \<Longrightarrow> groupStream x = groupStream y
    \<Longrightarrow> streamData x = streamData y"
  unfolding agree_def by blast

lemma agree_subset: "agree gs \<Longrightarrow> set hs \<subseteq> set gs \<Longrightarrow> agree hs"
  unfolding agree_def by blast

lemma load_mono: "set hs \<subseteq> set gs \<Longrightarrow> load row hs \<le> load row gs"
  unfolding load_def loads_def by (intro sum_mono2 image_mono) auto

lemma streams_mono: "set hs \<subseteq> set gs \<Longrightarrow> card (streams row hs) \<le> card (streams row gs)"
  unfolding streams_def by (intro card_mono image_mono) auto

lemma collapse:
  assumes "\<And>h. h \<in> A \<Longrightarrow> h \<notin> B \<Longrightarrow> f h = f g" "B \<subseteq> A"
  shows "f ` insert g A = insert (f g) (f ` B)"
  using assms by (auto simp: image_iff)

text \<open>The code's loop computes the load, whatever the order of the groups.\<close>

lemma bandwidthLoop_load:
  assumes "agree gs"
  shows "bandwidthLoop row gs seen acc
    = acc + of_nat (load row (filter (\<lambda>g. groupStream g \<notin> set seen) gs))"
  using assms
proof (induction gs arbitrary: seen acc)
  case Nil
  then show ?case by (simp add: load_def loads_def)
next
  case (Cons g gs)
  have agree: "agree gs" using Cons.prems by (rule agree_subset) auto
  let ?new = "filter (\<lambda>h. groupStream h \<notin> set seen) gs" and ?pair = "(groupStream g, unat (ImputedBandwidth g))"
  show ?case
  proof (cases "\<not> inPackage row g \<or> groupStream g \<in> set seen")
    case True
    then have "loads row (filter (\<lambda>h. groupStream h \<notin> set seen) (g # gs)) = loads row ?new"
      by (auto simp: loads_def)
    with True Cons.IH [OF agree] show ?thesis by (auto simp: load_def)
  next
    case False
    let ?rest = "filter (\<lambda>h. groupStream h \<notin> set (groupStream g # seen)) gs"
    have same: "(groupStream h, unat (ImputedBandwidth h)) = ?pair" if "h \<in> set gs" "groupStream h = groupStream g" for h
    proof -
      from Cons.prems that have "streamData h = streamData g" by (intro agreeD [of "g # gs" h g]) simp_all
      then have "ImputedBandwidth h = ImputedBandwidth g" by (rule streamData_fields)
      with that(2) show ?thesis by (simp only:)
    qed
    let ?F = "\<lambda>h. (groupStream h, unat (ImputedBandwidth h))"
    have "loads row (filter (\<lambda>h. groupStream h \<notin> set seen) (g # gs))
        = ?F ` insert g {h \<in> set gs. groupStream h \<notin> set seen \<and> inPackage row h}"
      using False by (simp add: loads_def conj_commute)
    also have "\<dots> = insert ?pair (?F ` {h \<in> set gs. groupStream h \<notin> set (groupStream g # seen) \<and> inPackage row h})"
    proof (rule collapse)
      fix h assume "h \<in> {h \<in> set gs. groupStream h \<notin> set seen \<and> inPackage row h}"
        and "h \<notin> {h \<in> set gs. groupStream h \<notin> set (groupStream g # seen) \<and> inPackage row h}"
      then have "h \<in> set gs" "groupStream h = groupStream g" by simp_all
      then show "?F h = ?pair" by (rule same)
    qed auto
    also have "\<dots> = insert ?pair (loads row ?rest)" by (simp add: loads_def conj_commute)
    finally have "loads row (filter (\<lambda>h. groupStream h \<notin> set seen) (g # gs)) = insert ?pair (loads row ?rest)" .
    moreover have "?pair \<notin> loads row ?rest" by (auto simp: loads_def)
    ultimately have "load row (filter (\<lambda>h. groupStream h \<notin> set seen) (g # gs))
        = unat (ImputedBandwidth g) + load row ?rest" by (simp add: load_def)
    moreover have "(ucast (ImputedBandwidth g) :: u64) = of_nat (unat (ImputedBandwidth g))" by (simp only: of_nat_unat)
    ultimately show ?thesis using False Cons.IH [OF agree, of "groupStream g # seen"] by simp
  qed
qed

corollary activeBandwidth_load:
  "agree (map snd gs) \<Longrightarrow> activeBandwidth gs row = of_nat (load row (map snd gs))"
  by (simp add: activeBandwidth_def bandwidthLoop_load)

text \<open>The test against a limit is exact as long as the load is below it.\<close>

lemma exceedsBandwidth_load:
  assumes "l \<le> unat limit" "limit \<noteq> 0"
  shows "exceedsBandwidth (of_nat l) additional limit \<longleftrightarrow> l + unat additional > unat limit"
proof -
  have small: "unat w < 4294967296" for w :: u32 using unsigned_less [of w] by simp
  have limit: "unat limit < 4294967296" by (rule small)
  have wide: "unat (ucast w :: u64) = unat w" for w :: u32
    using small [of w] by (simp add: unsigned_ucast_eq take_bit_nat_eq_self)
  have l: "unat (of_nat l :: u64) = l" using assms(1) limit by (subst unat_of_nat) simp
  show ?thesis
  proof (cases "unat additional > unat limit")
    case True
    then show ?thesis using assms(2) by (simp add: exceedsBandwidth_def word_less_nat_alt wide)
  next
    case False
    then have "unat (ucast limit - ucast additional :: u64) = unat limit - unat additional"
      by (simp add: unat_sub_if' wide)
    then show ?thesis using False assms(2) l by (auto simp: exceedsBandwidth_def word_less_nat_alt wide)
  qed
qed

text \<open>How the load changes: one more group of an active stream leaves it, a new stream adds its own.\<close>

lemma loads_Cons: "loads row (g # gs) = (if inPackage row g then insert (groupStream g, unat (ImputedBandwidth g)) (loads row gs) else loads row gs)"
  by (simp add: loads_def)

lemma load_new:
  assumes "groupStream g \<notin> streams None gs"
  shows "load row (g # gs) = (if inPackage row g then unat (ImputedBandwidth g) else 0) + load row gs"
    "card (streams row (g # gs)) = (if inPackage row g then 1 else 0) + card (streams row gs)"
proof -
  have fresh: "groupStream g \<notin> streams row gs" using assms by (auto simp: streams_def inPackage_def)
  then have "(groupStream g, n) \<notin> loads row gs" for n by (auto simp: loads_def streams_def)
  then show "load row (g # gs) = (if inPackage row g then unat (ImputedBandwidth g) else 0) + load row gs"
    by (simp add: load_def loads_Cons)
  have "streams row (g # gs) = (if inPackage row g then insert (groupStream g) (streams row gs) else streams row gs)"
    by (simp add: streams_def)
  with fresh show "card (streams row (g # gs)) = (if inPackage row g then 1 else 0) + card (streams row gs)" by simp
qed

lemma load_same:
  assumes "h \<in> set gs" "groupStream g = groupStream h" "streamData g = streamData h"
  shows "load row (g # gs) = load row gs" "streams row (g # gs) = streams row gs"
proof -
  note fields = streamData_fields [OF assms(3)]
  have pkg: "inPackage row g = inPackage row h" using fields by (simp add: inPackage_def split: option.split)
  show "load row (g # gs) = load row gs"
  proof (cases "inPackage row h")
    case True
    then have "(groupStream g, unat (ImputedBandwidth g)) \<in> loads row gs"
      using assms(1,2) fields(1) by (auto simp: loads_def)
    then show ?thesis using pkg True by (simp add: load_def loads_Cons insert_absorb)
  qed (simp add: load_def loads_Cons pkg)
  show "streams row (g # gs) = streams row gs"
    using assms(1,2) pkg by (auto simp: streams_def)
qed

section \<open>Limits\<close>

text \<open>
  The limits of a subscriber and of each of its service packages; a limit of 0 is none, and the
  bandwidth limits bind when they are enforced.
\<close>

definition withinLimits :: "compiledSubscriber \<Rightarrow> activeState list \<Rightarrow> bool" where
  "withinLimits sub gs =
     ((MaxSimultaneousGroups sub = 0 \<or> card (streams None gs) \<le> unat (MaxSimultaneousGroups sub))
      \<and> (\<not> BandwidthEnforcement sub \<or> MaxMulticastBandwidth sub = 0 \<or> load None gs \<le> unat (MaxMulticastBandwidth sub))
      \<and> list_all (\<lambda>service.
          (ServiceMaxGroups service = 0 \<or> card (streams (Some (ServiceRow service)) gs) \<le> unat (ServiceMaxGroups service))
          \<and> (\<not> BandwidthEnforcement sub \<or> ServiceMaxBandwidth service = 0
             \<or> load (Some (ServiceRow service)) gs \<le> unat (ServiceMaxBandwidth service))) (ServicePackages sub))"

lemma withinLimits_mono:
  assumes "withinLimits sub gs" "\<And>row. load row hs \<le> load row gs" "\<And>row. card (streams row hs) \<le> card (streams row gs)"
  shows "withinLimits sub hs"
  using assms unfolding withinLimits_def list_all_iff by (meson order_trans)

lemma withinLimits_subset: "withinLimits sub gs \<Longrightarrow> set hs \<subseteq> set gs \<Longrightarrow> withinLimits sub hs"
  by (erule withinLimits_mono) (erule load_mono streams_mono)+

text \<open>Admission in one step: what \<open>overLimits\<close> lets pass keeps the limits.\<close>

lemma withinLimits_admit:
  assumes "withinLimits sub (map snd gs)" "agree (map snd gs)" "distinct (map ServiceRow (ServicePackages sub))"
    and over: "overLimits sub m gs = (False, exceeded)" "\<not> (exceeded \<and> BandwidthEnforcement sub)"
    and g: "groupStream g \<notin> streams None (map snd gs)" "ImputedBandwidth g = AclBandwidth (matchACL m)"
    and service: "case matchService m of None \<Rightarrow> \<not> hasPackage g \<and> ServicePackages sub = []
        | Some s \<Rightarrow> hasPackage g \<and> packageID g = ServiceRow s \<and> s \<in> set (ServicePackages sub)"
  shows "withinLimits sub (g # map snd gs)"
proof -
  let ?gs = "map snd gs" and ?b = "unat (ImputedBandwidth g)"
  have all: "inPackage None g" by (simp add: inPackage_def)
  have group_limit: "MaxSimultaneousGroups sub = 0 \<or> card (streams None ?gs) < unat (MaxSimultaneousGroups sub)"
    using over(1) by (auto simp: overLimits_def Let_def activeStreamCount_card split: option.splits)
  have bandwidth: "limit = 0 \<or> load row ?gs + ?b \<le> unat limit"
    if "\<not> exceedsBandwidth (activeBandwidth gs row) (AclBandwidth (matchACL m)) limit" "limit = 0 \<or> load row ?gs \<le> unat limit"
    for row limit
  proof (cases "limit = 0")
    case False
    with that(2) have "load row ?gs \<le> unat limit" by blast
    with that(1) False assms(2) g(2) exceedsBandwidth_load [of "load row ?gs" limit "AclBandwidth (matchACL m)"]
    show ?thesis by (simp add: activeBandwidth_load)
  qed simp
  have own: "\<not> BandwidthEnforcement sub \<or> MaxMulticastBandwidth sub = 0 \<or> load None ?gs + ?b \<le> unat (MaxMulticastBandwidth sub)"
    using bandwidth [of None "MaxMulticastBandwidth sub"] over assms(1)
    by (auto simp: overLimits_def Let_def withinLimits_def split: option.splits)
  have package: "(ServiceMaxGroups s = 0 \<or> card (streams (Some (ServiceRow s)) (g # ?gs)) \<le> unat (ServiceMaxGroups s))
      \<and> (\<not> BandwidthEnforcement sub \<or> ServiceMaxBandwidth s = 0 \<or> load (Some (ServiceRow s)) (g # ?gs) \<le> unat (ServiceMaxBandwidth s))"
    if s: "s \<in> set (ServicePackages sub)" for s
  proof (cases "inPackage (Some (ServiceRow s)) g")
    case False
    then show ?thesis using assms(1) s by (auto simp: withinLimits_def list_all_iff load_new [OF g(1)])
  next
    case True
    then obtain s' where s': "matchService m = Some s'" "ServiceRow s' = ServiceRow s" "s' \<in> set (ServicePackages sub)"
      using service by (auto simp: inPackage_def split: option.splits)
    then have "s' = s" using assms(3) s by (meson distinct_map inj_onD)
    then have limits: "ServiceMaxGroups s = 0 \<or> card (streams (Some (ServiceRow s)) ?gs) < unat (ServiceMaxGroups s)"
      "BandwidthEnforcement sub \<longrightarrow> \<not> exceedsBandwidth (activeBandwidth gs (Some (ServiceRow s))) (AclBandwidth (matchACL m)) (ServiceMaxBandwidth s)"
      using over s'(1) by (auto simp: overLimits_def Let_def activePackageGroups_def activeStreamCount_card)
    have "\<not> BandwidthEnforcement sub \<or> ServiceMaxBandwidth s = 0 \<or> load (Some (ServiceRow s)) ?gs \<le> unat (ServiceMaxBandwidth s)"
      using assms(1) s by (auto simp: withinLimits_def list_all_iff)
    then show ?thesis using True limits bandwidth [of "Some (ServiceRow s)" "ServiceMaxBandwidth s"]
      by (auto simp: load_new [OF g(1)])
  qed
  show ?thesis unfolding withinLimits_def list_all_iff
    using group_limit own package all by (auto simp: load_new [OF g(1)])
qed

section \<open>Matching\<close>

text \<open>\<open>grants\<close>: the candidate's profile has the row, and the row covers the stream.\<close>

definition grants :: "candidate list \<Rightarrow> Join \<Rightarrow> policyMatch \<Rightarrow> bool" where
  "grants cands r m = (\<exists>cand \<in> set cands. matchProfile m = candidateProfile cand \<and> matchService m = candidateService cand
     \<and> matchACL m \<in> set (DynamicACL (candidateProfile cand)) \<and> aclMatches (matchACL m) (JoinSource r) (JoinGroup r))"

definition previewMatch :: "candidate list \<Rightarrow> Join \<Rightarrow> policyMatch \<Rightarrow> bool" where
  "previewMatch cands r m = (grants cands r m \<and> PreviewLength (matchACL m) \<noteq> 0 \<and> matchUntil m = zeroTime)"

definition fullMatch :: "candidate list \<Rightarrow> Join \<Rightarrow> policyMatch \<Rightarrow> bool" where
  "fullMatch cands r m = (grants cands r m \<and> PreviewLength (matchACL m) = 0 \<and> matchReason m = ReasonAuthorized
     \<and> matchUntil m = zeroTime)"

lemma scanRows_sound:
  assumes "cand \<in> set cands" "set acls \<subseteq> set (DynamicACL (candidateProfile cand))" "list_all (previewMatch cands r) found"
  shows "case scanRows cand r acls found of Inl m \<Rightarrow> fullMatch cands r m | Inr found' \<Rightarrow> list_all (previewMatch cands r) found'"
  using assms(2,3)
proof (induction acls arbitrary: found)
  case (Cons acl acls)
  let ?m = "\<lparr> matchProfile = candidateProfile cand, matchACL = acl, matchService = candidateService cand,
                matchReason = NoReason, matchUntil = zeroTime \<rparr>"
  have row: "grants cands r ?m" if "aclMatches acl (JoinSource r) (JoinGroup r)"
    using that assms(1) Cons.prems(1) by (auto simp: grants_def)
  show ?case
  proof (cases "aclMatches acl (JoinSource r) (JoinGroup r)")
    case True
    from row [OF True] have "PreviewLength acl = 0 \<Longrightarrow> fullMatch cands r (?m\<lparr>matchReason := ReasonAuthorized\<rparr>)"
      "PreviewLength acl \<noteq> 0 \<Longrightarrow> previewMatch cands r ?m"
      by (simp_all add: grants_def fullMatch_def previewMatch_def)
    with True Cons.IH [of "found @ [?m]"] Cons.prems show ?thesis by (auto simp: Let_def)
  next
    case False
    with Cons show ?thesis by (simp add: Let_def)
  qed
qed simp

lemma scanCandidates_sound:
  assumes "set rest \<subseteq> set cands" "list_all (previewMatch cands r) found"
  shows "case scanCandidates r rest forward forwardID found of
      Inl m \<Rightarrow> fullMatch cands r m | Inr (found', _) \<Rightarrow> list_all (previewMatch cands r) found'"
  using assms
proof (induction rest arbitrary: forward forwardID found)
  case (Cons cand rest)
  have rows: "case scanRows cand r (DynamicACL (candidateProfile cand)) found of
      Inl m \<Rightarrow> fullMatch cands r m | Inr found' \<Rightarrow> list_all (previewMatch cands r) found'"
    using Cons.prems by (intro scanRows_sound) auto
  show ?case
  proof (cases "scanRows cand r (DynamicACL (candidateProfile cand)) found")
    case (Inl m)
    with rows show ?thesis by (simp add: Let_def)
  next
    case (Inr found')
    with rows have ok: "list_all (previewMatch cands r) found'" and "set rest \<subseteq> set cands" using Cons.prems by simp_all
    then show ?thesis unfolding scanCandidates.simps Let_def Inr sum.case by (intro Cons.IH)
  qed
qed simp

lemma allowedMatch_sound:
  assumes "allowedMatch sub r now ms = Some m" "list_all (previewMatch cands r) ms"
  shows "grants cands r m \<and> PreviewLength (matchACL m) \<noteq> 0 \<and> matchReason m = ReasonAllowedPreview
    \<and> (\<exists>allowed \<in> set (AllowedPreviews sub). matchUntil m = lookup zeroTime (previewExpiry sub) (PreviewRow allowed)
        \<and> allowedPreviewMatches allowed (matchUntil m) r (VLANID (matchACL m)) now)"
  using assms
proof (induction ms)
  case (Cons x xs)
  show ?case
  proof (cases "allowedMatch sub r now (x # xs) = allowedMatch sub r now xs")
    case True
    with Cons show ?thesis by auto
  next
    case False
    with Cons.prems(1) obtain allowed where allowed: "allowed \<in> set (AllowedPreviews sub)"
      "allowedPreviewMatches allowed (lookup zeroTime (previewExpiry sub) (PreviewRow allowed)) r (VLANID (matchACL x)) now"
      "m = x\<lparr>matchReason := ReasonAllowedPreview, matchUntil := lookup zeroTime (previewExpiry sub) (PreviewRow allowed)\<rparr>"
      by (auto split: option.splits simp: find_Some_iff in_set_conv_nth)
    with Cons.prems(2) show ?thesis by (auto simp: previewMatch_def grants_def)
  qed
qed simp

text \<open>A match is a row of a candidate of the request, with the reason and deadline its row prescribes.\<close>

lemma matchLocked_sound:
  assumes "matchLocked c sub r now = (Some m, x)"
  defines "cands \<equiv> candidates c sub (JoinVLAN r)"
  shows "grants cands r m"
    and "(matchReason m = ReasonAuthorized \<and> PreviewLength (matchACL m) = 0 \<and> matchUntil m = zeroTime)
       \<or> (matchReason m = ReasonPreview \<and> PreviewLength (matchACL m) \<noteq> 0 \<and> matchUntil m = zeroTime)
       \<or> (matchReason m = ReasonAllowedPreview \<and> PreviewLength (matchACL m) \<noteq> 0
          \<and> (\<exists>allowed \<in> set (AllowedPreviews sub). matchUntil m = lookup zeroTime (previewExpiry sub) (PreviewRow allowed)
              \<and> allowedPreviewMatches allowed (matchUntil m) r (VLANID (matchACL m)) now))"
proof -
  have scan: "case scanCandidates r cands False 0 [] of
      Inl m \<Rightarrow> fullMatch cands r m | Inr (found', _) \<Rightarrow> list_all (previewMatch cands r) found'"
    by (rule scanCandidates_sound) simp_all
  have "grants cands r m \<and> ((matchReason m = ReasonAuthorized \<and> PreviewLength (matchACL m) = 0 \<and> matchUntil m = zeroTime)
       \<or> (matchReason m = ReasonPreview \<and> PreviewLength (matchACL m) \<noteq> 0 \<and> matchUntil m = zeroTime)
       \<or> (matchReason m = ReasonAllowedPreview \<and> PreviewLength (matchACL m) \<noteq> 0
          \<and> (\<exists>allowed \<in> set (AllowedPreviews sub). matchUntil m = lookup zeroTime (previewExpiry sub) (PreviewRow allowed)
              \<and> allowedPreviewMatches allowed (matchUntil m) r (VLANID (matchACL m)) now)))"
  proof (cases "scanCandidates r cands False 0 []")
    case (Inl full)
    with scan assms(1) show ?thesis by (auto simp: matchLocked_def cands_def fullMatch_def)
  next
    case (Inr y)
    then obtain found forward forwardID where found: "scanCandidates r cands False 0 [] = Inr (found, forward, forwardID)"
      by (cases y) auto
    with scan have ok: "list_all (previewMatch cands r) found" by simp
    show ?thesis
    proof (cases "allowedMatch sub r now found")
      case (Some a)
      with assms(1) found have "m = a" by (simp add: matchLocked_def cands_def)
      with allowedMatch_sound [OF Some ok] show ?thesis by blast
    next
      case None
      with assms(1) found obtain p ps where "found = p # ps" "m = p\<lparr>matchReason := ReasonPreview\<rparr>"
        by (auto simp: matchLocked_def cands_def split: list.splits)
      with ok show ?thesis by (auto simp: previewMatch_def grants_def)
    qed
  qed
  then show "grants cands r m" and "(matchReason m = ReasonAuthorized \<and> PreviewLength (matchACL m) = 0 \<and> matchUntil m = zeroTime)
       \<or> (matchReason m = ReasonPreview \<and> PreviewLength (matchACL m) \<noteq> 0 \<and> matchUntil m = zeroTime)
       \<or> (matchReason m = ReasonAllowedPreview \<and> PreviewLength (matchACL m) \<noteq> 0
          \<and> (\<exists>allowed \<in> set (AllowedPreviews sub). matchUntil m = lookup zeroTime (previewExpiry sub) (PreviewRow allowed)
              \<and> allowedPreviewMatches allowed (matchUntil m) r (VLANID (matchACL m)) now))" by blast+
qed

section \<open>Compiled configurations\<close>

definition profile_ok :: "u16 \<Rightarrow> Profile \<Rightarrow> bool" where
  "profile_ok k p = (ProfileEntity p = k \<and> k \<noteq> 0 \<and> k \<noteq> 0xffff \<and> IGMPVersion p \<in> {1, 2, 3, 16, 17}
     \<and> sorted (map RowKey (DynamicACL p)) \<and> list_all (\<lambda>acl. validateACL acl = None) (DynamicACL p @ StaticACL p))"

definition subscriber_ok :: "(u16, Profile) gomap \<Rightarrow> u16 \<Rightarrow> compiledSubscriber \<Rightarrow> bool" where
  "subscriber_ok ps k sub = (SubscriberEntity sub = k \<and> distinct (map ServiceRow (ServicePackages sub))
     \<and> (if ServicePackages sub = [] then map_of ps (SubscriberProfile sub) \<noteq> None
        else list_all (\<lambda>s. map_of ps (OperationsProfile s) \<noteq> None \<and> validServiceVLAN (ServiceVLAN s)) (ServicePackages sub))
     \<and> distinct (map PreviewRow (AllowedPreviews sub)) \<and> list_all (\<lambda>p. validateAllowedPreview p = None) (AllowedPreviews sub)
     \<and> list_all (\<lambda>(row, _). list_ex (\<lambda>p. PreviewRow p = row \<and> PreviewDuration p \<noteq> 0) (AllowedPreviews sub)) (previewExpiry sub))"

definition config_ok :: "compiledConfig \<Rightarrow> bool" where
  "config_ok c = (gm_wf (profiles c) \<and> gm_wf (subscribers c) \<and> list_all (\<lambda>(k, p). profile_ok k p) (profiles c)
     \<and> list_all (\<lambda>(k, s). subscriber_ok (profiles c) k s) (subscribers c))"

lemma extend_fields [simp]:
  "SubscriberEntity (Subscriber.extend s m) = SubscriberEntity s" "ServicePackages (Subscriber.extend s m) = ServicePackages s"
  "AllowedPreviews (Subscriber.extend s m) = AllowedPreviews s" "SubscriberProfile (Subscriber.extend s m) = SubscriberProfile s"
  by (simp_all add: Subscriber.extend_def)

lemma previewExpiry_extend [simp]: "previewExpiry (Subscriber.extend s \<lparr> previewExpiry = x \<rparr>) = x"
  by (simp add: Subscriber.extend_def)

lemma checkACLs_None: "checkACLs k acls = None \<longleftrightarrow> list_all (\<lambda>acl. validateACL acl = None) acls"
  by (induction acls) (auto split: option.splits)

lemma list_all_update:
  "list_all P m \<Longrightarrow> P (k, v) \<Longrightarrow> list_all P (AList.update k v m)"
  using set_update_subset [of k v m] by (auto simp: list_all_iff)

lemma compileProfile_ok:
  assumes "compileProfile p ps = Ok ps'" "gm_wf ps" "list_all (\<lambda>(k, p). profile_ok k p) ps"
  shows "gm_wf ps' \<and> list_all (\<lambda>(k, p). profile_ok k p) ps'"
proof -
  let ?p = "p\<lparr>DynamicACL := sort_key RowKey (DynamicACL p), StaticACL := sort_key RowKey (StaticACL p)\<rparr>"
  have ps': "ps' = AList.update (ProfileEntity p) ?p ps" and "profile_ok (ProfileEntity p) ?p"
    using assms(1) by (auto simp: compileProfile_def profile_ok_def Let_def checkACLs_None list_all_iff split: if_splits)
  then show ?thesis using assms(2,3) by (simp add: list_all_update)
qed

lemma checkPackages_ok:
  assumes "checkPackages ps k services seen = None"
  shows "distinct (map ServiceRow services) \<and> set (map ServiceRow services) \<inter> set seen = {}
    \<and> list_all (\<lambda>s. map_of ps (OperationsProfile s) \<noteq> None \<and> validServiceVLAN (ServiceVLAN s)) services"
  using assms
proof (induction services arbitrary: seen)
  case (Cons s services)
  then have "checkPackages ps k services (ServiceRow s # seen) = None" by (auto split: if_splits)
  from Cons.IH [OF this] Cons.prems show ?case by (auto split: if_splits)
qed simp

lemma compilePreviews_ok:
  assumes "compilePreviews now k rows seen expiry = Ok expiry'"
    and "list_all (\<lambda>(row, _). list_ex (\<lambda>p. PreviewRow p = row \<and> PreviewDuration p \<noteq> 0) all) expiry" "set rows \<subseteq> set all"
  shows "distinct (map PreviewRow rows) \<and> set (map PreviewRow rows) \<inter> set seen = {}
    \<and> list_all (\<lambda>p. validateAllowedPreview p = None) rows
    \<and> list_all (\<lambda>(row, _). list_ex (\<lambda>p. PreviewRow p = row \<and> PreviewDuration p \<noteq> 0) all) expiry'"
  using assms
proof (induction rows arbitrary: seen expiry)
  case (Cons p rows)
  let ?expiry = "if PreviewDuration p \<noteq> 0 \<and> PreviewTimeLeft p \<noteq> 0
      then AList.update (PreviewRow p) (now + uint (PreviewTimeLeft p) * nsMinute) expiry else expiry"
  from Cons.prems(1) have fresh: "PreviewRow p \<notin> set seen" "validateAllowedPreview p = None"
    and rest: "compilePreviews now k rows (PreviewRow p # seen) ?expiry = Ok expiry'"
    by (auto split: if_splits option.splits)
  have "list_all (\<lambda>(row, _). list_ex (\<lambda>p. PreviewRow p = row \<and> PreviewDuration p \<noteq> 0) all) ?expiry"
    using Cons.prems(2,3) by (auto intro!: list_all_update simp: list_ex_iff)
  from Cons.IH [OF rest this] Cons.prems(3) fresh show ?case by auto
qed simp

lemma compileSubscriber_ok:
  assumes "compileSubscriber now ps s subs = Ok subs'" "gm_wf subs" "list_all (\<lambda>(k, s). subscriber_ok ps k s) subs"
  shows "gm_wf subs' \<and> list_all (\<lambda>(k, s). subscriber_ok ps k s) subs'"
proof -
  let ?s = "s\<lparr>ServicePackages := sort_key ServiceRow (ServicePackages s)\<rparr>"
  from assms(1) obtain expiry where subs': "subs' = AList.update (SubscriberEntity s) (Subscriber.extend ?s \<lparr> previewExpiry = expiry \<rparr>) subs"
    and packages: "checkPackages ps (SubscriberEntity s) (ServicePackages ?s) [] = None"
    and profile: "ServicePackages ?s = [] \<Longrightarrow> map_of ps (SubscriberProfile s) \<noteq> None"
    and previews: "compilePreviews now (SubscriberEntity s) (AllowedPreviews s) [] [] = Ok expiry"
    by (auto simp: compileSubscriber_def Let_def bindR_eq_Ok split: if_splits)
  have "subscriber_ok ps (SubscriberEntity s) (Subscriber.extend ?s \<lparr> previewExpiry = expiry \<rparr>)"
    using checkPackages_ok [OF packages] profile compilePreviews_ok [OF previews, of "AllowedPreviews s"]
    by (simp add: subscriber_ok_def)
  then show ?thesis unfolding subs' using assms(2,3) by (simp add: list_all_update)
qed

lemma compile_ok: "compile c now = Ok compiled \<Longrightarrow> config_ok compiled"
proof -
  assume "compile c now = Ok compiled"
  then obtain ps ss where folds: "foldR compileProfile (Profiles c) [] = Ok ps"
      "foldR (compileSubscriber now ps) (Subscribers c) [] = Ok ss" and compiled: "compiled = \<lparr> profiles = ps, subscribers = ss \<rparr>"
    by (auto simp: compile_def bindR_eq_Ok)
  have "gm_wf ps \<and> list_all (\<lambda>(k, p). profile_ok k p) ps"
    using folds(1) by (rule foldR_invariant [where P = "\<lambda>ps. gm_wf ps \<and> list_all (\<lambda>(k, p). profile_ok k p) ps"])
      (use compileProfile_ok in \<open>auto simp: gm_wf_def\<close>)
  moreover have "gm_wf ss \<and> list_all (\<lambda>(k, s). subscriber_ok ps k s) ss"
    using folds(2) by (rule foldR_invariant [where P = "\<lambda>ss. gm_wf ss \<and> list_all (\<lambda>(k, s). subscriber_ok ps k s) ss"])
      (use compileSubscriber_ok in \<open>auto simp: gm_wf_def\<close>)
  ultimately show ?thesis by (simp add: config_ok_def compiled)
qed

section \<open>The invariant of the engine\<close>

definition keyOf :: "activeState \<Rightarrow> activeKey" where
  "keyOf g = \<lparr> keyInterface = GroupInterface g, keySource = GroupSource g, keyGroup = GroupAddr g, keyVLAN = UNIVLAN g,
     keyClient = GroupClient g \<rparr>"

text \<open>
  An active group is covered by the policy: a candidate profile for its VLAN has a row for its source
  and group, the group carries the row's ANI VLAN, GEM port and bandwidth and the candidate's package,
  and its deadline is the one its reason prescribes: none for a full authorisation, the deadline of an
  allowed preview, or the preview length after a Join (\<open>T\<close>: the clock values of the past Joins).
\<close>

definition covered :: "Time set \<Rightarrow> compiledConfig \<Rightarrow> compiledSubscriber \<Rightarrow> activeState \<Rightarrow> bool" where
  "covered T c sub g = (\<exists>cand \<in> set (candidates c sub (UNIVLAN g)). \<exists>acl \<in> set (DynamicACL (candidateProfile cand)).
     aclMatches acl (GroupSource g) (GroupAddr g) \<and> GroupProfile g = ProfileEntity (candidateProfile cand)
     \<and> GroupACLRow g = RowKey acl \<and> ANIVLAN g = VLANID acl \<and> GEMPortID g = AclGEMPortID acl
     \<and> ImputedBandwidth g = AclBandwidth acl
     \<and> hasPackage g = (candidateService cand \<noteq> None)
     \<and> packageID g = (case candidateService cand of Some s \<Rightarrow> ServiceRow s | None \<Rightarrow> 0)
     \<and> (activeReason g = ReasonAuthorized \<and> PreviewLength acl = 0 \<and> PreviewUntil g = zeroTime
        \<or> activeReason g = ReasonPreview \<and> PreviewLength acl \<noteq> 0
          \<and> (\<exists>start \<in> T. PreviewUntil g = start + uint (PreviewLength acl) * nsSecond)
        \<or> activeReason g = ReasonAllowedPreview \<and> PreviewLength acl \<noteq> 0
          \<and> (\<exists>allowed \<in> set (AllowedPreviews sub). PreviewDestination allowed = GroupAddr g
              \<and> PreviewUntil g = lookup zeroTime (previewExpiry sub) (PreviewRow allowed))))"

definition state_ok :: "Time set \<Rightarrow> compiledConfig \<Rightarrow> compiledSubscriber \<Rightarrow> subscriberState \<Rightarrow> bool" where
  "state_ok T c sub s = (gm_wf (groups s) \<and> list_all (\<lambda>(key, g). key = keyOf g) (groups s) \<and> agree (map snd (groups s))
     \<and> withinLimits sub (map snd (groups s)) \<and> list_all (covered T c sub) (map snd (groups s)))"

definition entry_ok :: "Time set \<Rightarrow> compiledConfig \<Rightarrow> u16 \<times> subscriberState \<Rightarrow> bool" where
  "entry_ok T c x = (case map_of (subscribers c) (fst x) of Some sub \<Rightarrow> state_ok T c sub (snd x) | None \<Rightarrow> False)"

definition engine_ok :: "Time set \<Rightarrow> Engine \<Rightarrow> bool" where
  "engine_ok T e = (config_ok (config e) \<and> gm_wf (states e) \<and> list_all (entry_ok T (config e)) (states e))"

lemma streamData_simps [simp]:
  "groupStream (streamData g) = groupStream g" "covered T c sub (streamData g) = covered T c sub g"
  "streamData (g\<lparr>joinedAt := t\<rparr>) = streamData g" "streamData (g\<lparr>GroupClient := a\<rparr>) = streamData g"
  by (simp_all add: streamData_def groupStream_def covered_def)

lemma streamData_stream: "streamData g = streamData h \<Longrightarrow> groupStream g = groupStream h"
  by (metis streamData_simps(1))

lemma streamData_covered: "streamData g = streamData h \<Longrightarrow> covered T c sub g = covered T c sub h"
  by (metis streamData_simps(2))

lemma covered_mono: "covered T c sub g \<Longrightarrow> T \<subseteq> T' \<Longrightarrow> covered T' c sub g"
  unfolding covered_def by blast

lemma empty_state_ok: "state_ok T c sub emptyState"
  by (simp add: state_ok_def emptyState_def agree_def withinLimits_def streams_def load_def loads_def list_all_iff)

lemma state_ok_counters [simp]:
  "state_ok T c sub (s\<lparr>joinMessages := x\<rparr>) = state_ok T c sub s"
  "state_ok T c sub (s\<lparr>bandwidthExceeded := y\<rparr>) = state_ok T c sub s"
  by (simp_all add: state_ok_def)

lemma state_ok_filter: "state_ok T c sub s \<Longrightarrow> state_ok T c sub (s\<lparr>groups := filter P (groups s)\<rparr>)"
proof -
  assume ok: "state_ok T c sub s"
  have "set (map snd (filter P (groups s))) \<subseteq> set (map snd (groups s))" by auto
  with ok agree_subset [OF _ this] withinLimits_subset [OF _ this] show ?thesis
    by (auto simp: state_ok_def list_all_iff)
qed

lemma state_ok_mono: "state_ok T c sub s \<Longrightarrow> T \<subseteq> T' \<Longrightarrow> state_ok T' c sub s"
  unfolding state_ok_def by (auto simp: list_all_iff intro: covered_mono)

lemma entries_update: "set (map snd (AList.update k v m)) \<subseteq> set (v # map snd m)"
  using set_update_subset [of k v m] by fastforce

text \<open>Entering a group: of a stream that is active already, or of a new one within the limits.\<close>

lemma state_ok_enter:
  assumes "state_ok T c sub s" "key = keyOf g" "agree (g # map snd (groups s))"
    and "withinLimits sub (g # map snd (groups s))" "covered T c sub g"
  shows "state_ok T c sub (s\<lparr>groups := AList.update key g (groups s)\<rparr>)"
proof -
  note sub = entries_update [of key g "groups s"]
  have "list_all (\<lambda>(key, g). key = keyOf g) (AList.update key g (groups s))"
    using assms(1,2) by (auto simp: state_ok_def intro!: list_all_update)
  moreover have "list_all (covered T c sub) (g # map snd (groups s))"
    using assms(1,5) by (simp add: state_ok_def)
  then have "list_all (covered T c sub) (map snd (AList.update key g (groups s)))"
    using sub unfolding list_all_iff by blast
  ultimately show ?thesis
    using assms(1) agree_subset [OF assms(3) sub] withinLimits_subset [OF assms(4) sub] by (simp add: state_ok_def)
qed

lemma agree_same:
  assumes "agree gs" "h \<in> set gs" "streamData g = streamData h"
  shows "agree (g # gs)"
  unfolding agree_def
proof (intro ballI impI)
  fix x y assume xy: "x \<in> set (g # gs)" "y \<in> set (g # gs)" "groupStream x = groupStream y"
  have rep: "\<exists>z' \<in> set gs. streamData z = streamData z'" if "z \<in> set (g # gs)" for z
    using that assms(2,3) by auto
  from rep [OF xy(1)] rep [OF xy(2)] obtain x' y' where
    rep': "x' \<in> set gs" "streamData x = streamData x'" "y' \<in> set gs" "streamData y = streamData y'" by blast
  then have "groupStream x' = groupStream y'"
    using xy(3) streamData_stream [OF rep'(2)] streamData_stream [OF rep'(4)] by simp
  with agreeD [OF assms(1) rep'(1,3)] rep'(2,4) show "streamData x = streamData y" by simp
qed

lemma agree_new:
  assumes "agree gs" "groupStream g \<notin> streams None gs"
  shows "agree (g # gs)"
  unfolding agree_def
proof (intro ballI impI)
  have fresh: "groupStream g \<noteq> groupStream z" if "z \<in> set gs" for z
    using assms(2) that by (auto simp: streams_def inPackage_def)
  fix x y assume xy: "x \<in> set (g # gs)" "y \<in> set (g # gs)" "groupStream x = groupStream y"
  show "streamData x = streamData y"
  proof (cases "x = g")
    case True
    then have "y \<notin> set gs" using xy(3) fresh [of y] by blast
    with xy(2) True show ?thesis by simp
  next
    case False
    then have x: "x \<in> set gs" using xy(1) by simp
    then have "y \<noteq> g" using xy(3) fresh [OF x] by metis
    with xy(2) have "y \<in> set gs" by simp
    from agreeD [OF assms(1) x this xy(3)] show ?thesis .
  qed
qed

lemma state_ok_refresh:
  assumes "state_ok T c sub s" "h \<in> set (map snd (groups s))" "streamData g = streamData h"
  shows "state_ok T c sub (s\<lparr>groups := AList.update (keyOf g) g (groups s)\<rparr>)"
proof (rule state_ok_enter [OF assms(1) refl])
  note same = load_same [OF assms(2) streamData_stream [OF assms(3)] assms(3)]
  show "agree (g # map snd (groups s))" using assms by (intro agree_same) (auto simp: state_ok_def)
  show "withinLimits sub (g # map snd (groups s))"
    by (rule withinLimits_mono [of sub "map snd (groups s)"]) (use assms(1) same in \<open>simp_all add: state_ok_def\<close>)
  show "covered T c sub g" using assms by (auto simp: state_ok_def list_all_iff streamData_covered [OF assms(3)])
qed

section \<open>The outcomes of Join\<close>

lemma find_SomeD: "find P xs = Some x \<Longrightarrow> x \<in> set xs \<and> P x"
  by (induction xs) (auto split: if_splits)

lemma startPreview_accepted:
  assumes "startPreviewLocked zone k m r now ps = (d, ps')" "Accepted d"
  shows "DecisionPreviewUntil d = now + uint (PreviewLength (matchACL m)) * nsSecond"
  using assms by (auto simp: startPreviewLocked_def Let_def zeroDecision_def split: if_splits)

lemma newActive_ids [simp]:
  "keyOf (newActive m r now) = joinKey r" "groupStream (newActive m r now) = joinStream r"
  by (simp_all add: newActive_def keyOf_def joinKey_def groupStream_def joinStream_def)

text \<open>
  A Join of a known subscriber leaves its groups alone, enters one more group of an active stream, or
  admits a new stream that a match grants and the limits allow.
\<close>

lemma admit_outcome:
  assumes "admit zone sub r now m s e = (d, e')"
  shows "(\<exists>x y ps. e' = putState (JoinSubscriber r) (s\<lparr>joinMessages := x, bandwidthExceeded := y\<rparr>) (e\<lparr>previews := ps\<rparr>))
     \<or> (\<exists>m' exceeded x y ps. overLimits sub m (groups s) = (False, exceeded) \<and> \<not> (exceeded \<and> BandwidthEnforcement sub)
           \<and> m' = (if matchReason m = ReasonPreview then m\<lparr>matchUntil := now + uint (PreviewLength (matchACL m)) * nsSecond\<rparr> else m)
           \<and> e' = putState (JoinSubscriber r) ((s\<lparr>groups := AList.update (joinKey r) (newActive m' r now) (groups s)\<rparr>)
                \<lparr>joinMessages := x, bandwidthExceeded := y\<rparr>) (e\<lparr>previews := ps\<rparr>))"
proof -
  obtain groupExceeded exceeded where over: "overLimits sub m (groups s) = (groupExceeded, exceeded)"
    by (cases "overLimits sub m (groups s)")
  let ?y = "if exceeded then bandwidthExceeded s + 1 else bandwidthExceeded s"
  let ?s = "s\<lparr>bandwidthExceeded := ?y\<rparr>"
  have s: "(if exceeded then s\<lparr>bandwidthExceeded := bandwidthExceeded s + 1\<rparr> else s) = ?s" by simp
  have refused: "e' = putState (JoinSubscriber r) ?s (e\<lparr>previews := ps\<rparr>) \<Longrightarrow> ?thesis" for ps
    by (rule disjI1, rule exI [of _ "joinMessages s"], rule exI [of _ ?y], rule exI [of _ ps]) simp
  have order: "s\<lparr>bandwidthExceeded := y, groups := gs, joinMessages := x\<rparr>
      = s\<lparr>groups := gs, joinMessages := x, bandwidthExceeded := y\<rparr>" for x y gs by (cases s) simp
  have entered: "\<not> groupExceeded \<Longrightarrow> \<not> (exceeded \<and> BandwidthEnforcement sub) \<Longrightarrow>
      m' = (if matchReason m = ReasonPreview then m\<lparr>matchUntil := now + uint (PreviewLength (matchACL m)) * nsSecond\<rparr> else m) \<Longrightarrow>
      e' = putState (JoinSubscriber r) (?s\<lparr>groups := AList.update (joinKey r) (newActive m' r now) (groups s),
             joinMessages := joinMessages s + 1\<rparr>) (e\<lparr>previews := ps\<rparr>) \<Longrightarrow> ?thesis" for m' ps
    by (rule disjI2, rule exI [of _ m'], rule exI [of _ exceeded], rule exI [of _ "joinMessages s + 1"],
      rule exI [of _ ?y], rule exI [of _ ps]) (use over order in simp)
  note step = assms [unfolded admit_def over Let_def prod.case s]
  show ?thesis
  proof (cases "groupExceeded \<or> exceeded \<and> BandwidthEnforcement sub")
    case True
    then have "e' = putState (JoinSubscriber r) ?s (e\<lparr>previews := previews e\<rparr>)"
      using step by (cases groupExceeded) auto
    then show ?thesis by (rule refused)
  next
    case False
    obtain decision ps where start: "startPreviewLocked zone (JoinSubscriber r) m r now (previews e) = (decision, ps)"
      by (cases "startPreviewLocked zone (JoinSubscriber r) m r now (previews e)")
    show ?thesis
    proof (cases "matchReason m = ReasonPreview")
      case preview: True
      show ?thesis
      proof (cases "Accepted decision")
        case True
        from startPreview_accepted [OF start this] step False preview start True show ?thesis
          by (intro entered [OF _ _ refl, of ps]) auto
      next
        case refuse: False
        with step False preview start have "e' = putState (JoinSubscriber r) ?s (e\<lparr>previews := ps\<rparr>)" by auto
        then show ?thesis by (rule refused)
      qed
    next
      case full: False
      with step False show ?thesis by (intro entered [OF _ _ refl, of "previews e"]) auto
    qed
  qed
qed

lemma joinStep_outcome:
  assumes "joinStep zone now r e0 = (d, e')"
    and inv: "list_all (\<lambda>(key, g). key = keyOf g) (groups (lookup emptyState (states (snd (expireLocked now e0))) (JoinSubscriber r)))"
  defines "e \<equiv> snd (expireLocked now e0)"
  defines "s \<equiv> lookup emptyState (states e) (JoinSubscriber r)"
  shows "e' = e \<or> (\<exists>sub. map_of (subscribers (config e)) (JoinSubscriber r) = Some sub \<and>
     ((\<exists>x y ps. e' = putState (JoinSubscriber r) (s\<lparr>joinMessages := x, bandwidthExceeded := y\<rparr>) (e\<lparr>previews := ps\<rparr>))
      \<or> (\<exists>h g x. h \<in> set (map snd (groups s)) \<and> streamData g = streamData h
           \<and> e' = putState (JoinSubscriber r) ((s\<lparr>groups := AList.update (keyOf g) g (groups s)\<rparr>)\<lparr>joinMessages := x\<rparr>) e)
      \<or> (\<exists>m a m' exceeded x y ps. joinStream r \<notin> streams None (map snd (groups s))
           \<and> matchLocked (config e) sub r now = (Some m, a)
           \<and> overLimits sub m (groups s) = (False, exceeded) \<and> \<not> (exceeded \<and> BandwidthEnforcement sub)
           \<and> m' = (if matchReason m = ReasonPreview then m\<lparr>matchUntil := now + uint (PreviewLength (matchACL m)) * nsSecond\<rparr> else m)
           \<and> e' = putState (JoinSubscriber r) ((s\<lparr>groups := AList.update (joinKey r) (newActive m' r now) (groups s)\<rparr>)
                \<lparr>joinMessages := x, bandwidthExceeded := y\<rparr>) (e\<lparr>previews := ps\<rparr>))))"
    (is "_ \<or> (\<exists>sub. _ \<and> ?outcome sub)")
proof (cases "map_of (subscribers (config e)) (JoinSubscriber r)")
  case None
  then show ?thesis using assms(1) by (auto simp: joinStep_def Let_def e_def)
next
  case (Some sub)
  note step = assms(1) [unfolded joinStep_def Let_def, folded e_def, folded s_def, unfolded Some option.case]
  show ?thesis
  proof (cases "validJoin r")
    case False
    then show ?thesis using step by auto
  next
    case valid: True
    have "?outcome sub"
    proof (cases "map_of (groups s) (joinKey r)")
      case (Some h)
      then have mem: "(joinKey r, h) \<in> set (groups s)" by (rule map_of_SomeD)
      then have h: "h \<in> set (map snd (groups s))" "keyOf h = joinKey r"
        using inv by (force, auto simp: s_def e_def list_all_iff)
      have key: "keyOf (h\<lparr>joinedAt := now\<rparr>) = joinKey r" using h(2) by (simp add: keyOf_def)
      show ?thesis using step valid Some h(1) key
        by (intro disjI2 disjI1 exI [of _ h] exI [of _ "h\<lparr>joinedAt := now\<rparr>"]) auto
    next
      case None
      show ?thesis
      proof (cases "activeStream (groups s) (joinStream r)")
        case (Some h)
        then have h: "h \<in> set (map snd (groups s))" "groupStream h = joinStream r"
          using find_SomeD [of _ "map snd (groups s)" h] by (auto simp: activeStream_def)
        let ?g = "h\<lparr>GroupClient := JoinClient r, joinedAt := now\<rparr>"
        have key: "keyOf ?g = joinKey r" using h(2) by (auto simp: keyOf_def joinKey_def groupStream_def joinStream_def)
        show ?thesis using step valid None Some h(1) key
          by (intro disjI2 disjI1 exI [of _ h] exI [of _ ?g]) auto
      next
        case none: None
        then have fresh: "joinStream r \<notin> streams None (map snd (groups s))"
          by (auto simp: activeStream_def find_None_iff streams_def)
        obtain match a where Pair: "matchLocked (config e) sub r now = (match, a)"
          by (cases "matchLocked (config e) sub r now")
        show ?thesis
        proof (cases match)
          case None
            have "s = s\<lparr>joinMessages := joinMessages s, bandwidthExceeded := bandwidthExceeded s\<rparr>" "e = e\<lparr>previews := previews e\<rparr>"
              by simp_all
            moreover have "e' = putState (JoinSubscriber r) s e"
              using step valid none Pair None \<open>map_of (groups s) (joinKey r) = None\<close> by (auto split: prod.splits)
            ultimately show ?thesis by (intro disjI1) metis
          next
            case (Some m)
            have "admit zone sub r now m s e = (d, e')"
              using step valid none Pair Some \<open>map_of (groups s) (joinKey r) = None\<close> by (auto split: prod.splits)
            from admit_outcome [OF this] show ?thesis using fresh Pair Some by blast
          qed
      qed
    qed
    with Some show ?thesis by blast
  qed
qed

section \<open>Every operation keeps the invariant\<close>

lemma entry_ok_iff: "entry_ok T c (k, s) \<longleftrightarrow> (\<exists>sub. map_of (subscribers c) k = Some sub \<and> state_ok T c sub s)"
  by (simp add: entry_ok_def split: option.split)

lemma engine_ok_mono: "engine_ok T e \<Longrightarrow> T \<subseteq> T' \<Longrightarrow> engine_ok T' e"
proof -
  assume e: "engine_ok T e" and T: "T \<subseteq> T'"
  have "entry_ok T' c x" if "entry_ok T c x" for c x
    using that T by (cases x) (auto simp: entry_ok_iff intro: state_ok_mono)
  with e show ?thesis by (simp add: engine_ok_def list_all_iff)
qed

lemma engine_ok_previews [simp]: "engine_ok T (e\<lparr>previews := ps\<rparr>) = engine_ok T e"
  by (simp add: engine_ok_def)

lemma engine_ok_put:
  assumes "engine_ok T e" "map_of (subscribers (config e)) k = Some sub" "state_ok T (config e) sub s"
  shows "engine_ok T (putState k s e)"
  using assms by (auto simp: engine_ok_def putState_def entry_ok_iff intro!: list_all_update)

lemma engine_ok_lookup:
  assumes "engine_ok T e" "map_of (subscribers (config e)) k = Some sub"
  shows "state_ok T (config e) sub (lookup emptyState (states e) k)"
proof (cases "map_of (states e) k")
  case (Some s)
  then have "(k, s) \<in> set (states e)" by (rule map_of_SomeD)
  with assms have "entry_ok T (config e) (k, s)" by (auto simp: engine_ok_def list_all_iff)
  with assms(2) Some show ?thesis by (simp add: entry_ok_iff lookup_def)
qed (simp add: lookup_def empty_state_ok)

lemma expire_config [simp]: "config (snd (expireLocked now e)) = config e" "previews (snd (expireLocked now e)) = previews e"
  by (simp_all add: expireLocked_def)

lemma expire_ok: "engine_ok T e \<Longrightarrow> engine_ok T (snd (expireLocked now e))"
proof -
  assume ok: "engine_ok T e"
  have "gm_wf (map (\<lambda>(k, s). (k, f s)) m) = gm_wf m" for f :: "subscriberState \<Rightarrow> subscriberState" and m :: "(u16, subscriberState) gomap"
    by (induction m) (auto simp: gm_wf_def image_iff split_beta)
  moreover have "entry_ok T c (k, s\<lparr>groups := filter P (groups s)\<rparr>)" if "entry_ok T c (k, s)" for c k s P
    using that by (auto simp: entry_ok_iff intro: state_ok_filter)
  ultimately show ?thesis using ok by (auto simp: engine_ok_def expireLocked_def list_all_iff)
qed

lemma covered_newActive:
  assumes "matchLocked c sub r now = (Some m, a)" "now \<in> T"
    and "m' = (if matchReason m = ReasonPreview then m\<lparr>matchUntil := now + uint (PreviewLength (matchACL m)) * nsSecond\<rparr> else m)"
  shows "covered T c sub (newActive m' r now)"
proof -
  note sound = matchLocked_sound [OF assms(1)]
  from sound(1) obtain cand where cand: "cand \<in> set (candidates c sub (JoinVLAN r))"
    "matchProfile m = candidateProfile cand" "matchService m = candidateService cand"
    "matchACL m \<in> set (DynamicACL (candidateProfile cand))" "aclMatches (matchACL m) (JoinSource r) (JoinGroup r)"
    by (auto simp: grants_def)
  have target: "allowedPreviewMatches allowed x r v now \<Longrightarrow> PreviewDestination allowed = JoinGroup r" for allowed x v
    by (simp add: allowedPreviewMatches_def split: if_splits)
  show ?thesis unfolding covered_def
  proof (intro bexI [of _ cand] bexI [of _ "matchACL m"])
    show "cand \<in> set (candidates c sub (UNIVLAN (newActive m' r now)))" using cand(1) by (simp add: newActive_def)
    show "matchACL m \<in> set (DynamicACL (candidateProfile cand))" by (rule cand(4))
  qed (use sound(2) cand assms(2,3) target in \<open>auto simp: newActive_def split: option.splits\<close>)
qed

lemma candidates_service:
  assumes "cand \<in> set (candidates c sub vlan)"
  shows "case candidateService cand of None \<Rightarrow> ServicePackages sub = [] | Some s \<Rightarrow> s \<in> set (ServicePackages sub)"
  using assms by (auto simp: candidates_def split: if_splits)

lemma join_ok:
  assumes ok: "engine_ok T e0" and "now \<in> T"
  shows "engine_ok T (snd (joinStep zone now r e0))"
proof -
  obtain d e' where step: "joinStep zone now r e0 = (d, e')" by (cases "joinStep zone now r e0")
  let ?e = "snd (expireLocked now e0)" and ?k = "JoinSubscriber r"
  let ?s = "lookup emptyState (states ?e) ?k"
  have e: "engine_ok T ?e" using ok by (rule expire_ok)
  have keys: "list_all (\<lambda>(key, g). key = keyOf g) (groups ?s)"
  proof (cases "map_of (subscribers (config ?e)) ?k")
    case (Some sub)
    from engine_ok_lookup [OF e this] show ?thesis by (simp add: state_ok_def)
  next
    case None
    have "map_of (states ?e) ?k = None"
    proof (rule ccontr)
      assume "map_of (states ?e) ?k \<noteq> None"
      then obtain s where "(?k, s) \<in> set (states ?e)" by (auto dest: map_of_SomeD)
      then have "entry_ok T (config ?e) (?k, s)" using e by (auto simp: engine_ok_def list_all_iff)
      with None show False by (simp add: entry_ok_iff)
    qed
    then show ?thesis by (simp add: lookup_def emptyState_def)
  qed
  from joinStep_outcome [OF step keys] have "engine_ok T e'"
  proof (elim disjE exE conjE)
    show "e' = ?e \<Longrightarrow> engine_ok T e'" using e by simp
  next
    fix sub x y ps
    assume "map_of (subscribers (config ?e)) ?k = Some sub"
      "e' = putState ?k (?s\<lparr>joinMessages := x, bandwidthExceeded := y\<rparr>) (?e\<lparr>previews := ps\<rparr>)"
    then show "engine_ok T e'" using engine_ok_lookup [OF e, of ?k sub] e by (auto intro!: engine_ok_put)
  next
    fix sub h g x
    assume sub: "map_of (subscribers (config ?e)) ?k = Some sub" and h: "h \<in> set (map snd (groups ?s))" "streamData g = streamData h"
      and e': "e' = putState ?k ((?s\<lparr>groups := AList.update (keyOf g) g (groups ?s)\<rparr>)\<lparr>joinMessages := x\<rparr>) ?e"
    from state_ok_refresh [OF engine_ok_lookup [OF e sub] h] show "engine_ok T e'"
      unfolding e' by (intro engine_ok_put [OF e sub]) (simp del: expire_config)
  next
    fix sub m a m' exceeded x y ps
    assume sub: "map_of (subscribers (config ?e)) ?k = Some sub" and new: "joinStream r \<notin> streams None (map snd (groups ?s))"
      and m: "matchLocked (config ?e) sub r now = (Some m, a)"
      and limits: "overLimits sub m (groups ?s) = (False, exceeded)" "\<not> (exceeded \<and> BandwidthEnforcement sub)"
      and m': "m' = (if matchReason m = ReasonPreview then m\<lparr>matchUntil := now + uint (PreviewLength (matchACL m)) * nsSecond\<rparr> else m)"
      and e': "e' = putState ?k ((?s\<lparr>groups := AList.update (joinKey r) (newActive m' r now) (groups ?s)\<rparr>)
                \<lparr>joinMessages := x, bandwidthExceeded := y\<rparr>) (?e\<lparr>previews := ps\<rparr>)"
    let ?g = "newActive m' r now"
    have s: "state_ok T (config ?e) sub ?s" by (rule engine_ok_lookup [OF e sub])
    have "subscriber_ok (profiles (config ?e)) ?k sub"
      using e sub by (auto simp: engine_ok_def config_ok_def list_all_iff dest: map_of_SomeD)
    then have rows: "distinct (map ServiceRow (ServicePackages sub))" by (simp add: subscriber_ok_def)
    from matchLocked_sound(1) [OF m] obtain cand where "cand \<in> set (candidates (config ?e) sub (JoinVLAN r))"
      "matchService m = candidateService cand" by (auto simp: grants_def)
    with candidates_service have service: "case matchService m of None \<Rightarrow> \<not> hasPackage ?g \<and> ServicePackages sub = []
        | Some s \<Rightarrow> hasPackage ?g \<and> packageID ?g = ServiceRow s \<and> s \<in> set (ServicePackages sub)"
      using m' by (fastforce simp: newActive_def split: option.splits)
    have "state_ok T (config ?e) sub (?s\<lparr>groups := AList.update (joinKey r) ?g (groups ?s)\<rparr>)"
    proof (rule state_ok_enter [OF s])
      show "agree (?g # map snd (groups ?s))" using s new by (intro agree_new) (simp_all add: state_ok_def)
      show "withinLimits sub (?g # map snd (groups ?s))"
        by (rule withinLimits_admit [OF _ _ rows limits _ _ service])
          (use s new m' in \<open>simp_all add: state_ok_def newActive_def groupStream_def joinStream_def\<close>)
      show "covered T (config ?e) sub ?g" by (rule covered_newActive [OF m assms(2) m'])
    qed simp
    with sub e show "engine_ok T e'" unfolding e' by (auto intro!: engine_ok_put)
  qed
  then show ?thesis by (simp add: step)
qed

section \<open>Runs of operations\<close>

datatype Operation = OpJoin Time Join | OpLeave Join | OpExpire Time | OpMonitor Time u16

fun execOp :: "Duration \<Rightarrow> Operation \<Rightarrow> Engine \<Rightarrow> Engine" where
  "execOp zone (OpJoin now r) e = snd (joinStep zone now r e)"
| "execOp zone (OpLeave r) e = snd (Leave r e)"
| "execOp zone (OpExpire now) e = snd (Expire now e)"
| "execOp zone (OpMonitor now k) e = snd (MonitorStatus now k e)"

fun opTimes :: "Operation \<Rightarrow> Time set" where
  "opTimes (OpJoin now r) = {now}" | "opTimes _ = {}"

definition joinTimes :: "Operation list \<Rightarrow> Time set" where
  "joinTimes ops = \<Union> (set (map opTimes ops))"

lemma leave_ok: "engine_ok T e \<Longrightarrow> engine_ok T (snd (Leave r e))"
proof (cases "map_of (states e) (JoinSubscriber r)")
  case (Some s)
  assume e: "engine_ok T e"
  with Some have "entry_ok T (config e) (JoinSubscriber r, s)"
    by (auto simp: engine_ok_def list_all_iff dest: map_of_SomeD)
  then obtain sub where sub: "map_of (subscribers (config e)) (JoinSubscriber r) = Some sub" and s: "state_ok T (config e) sub s"
    by (auto simp: entry_ok_iff)
  have "AList.delete key (groups s) = filter (\<lambda>(k, _). key \<noteq> k) (groups s)" for key
    by (simp add: AList.delete_eq split_def)
  then show ?thesis
    using e engine_ok_put [OF e sub state_ok_filter [OF s]] Some by (auto simp: Leave_def Let_def)
qed (simp add: Leave_def)

lemma execOp_ok: "engine_ok T e \<Longrightarrow> opTimes op \<subseteq> T \<Longrightarrow> engine_ok T (execOp zone op e)"
  by (cases op) (simp_all add: join_ok leave_ok expire_ok Expire_def MonitorStatus_def Let_def split: option.split)

lemma run_ok: "engine_ok T e \<Longrightarrow> joinTimes ops \<subseteq> T \<Longrightarrow> engine_ok T (fold (execOp zone) ops e)"
  by (induction ops arbitrary: e) (simp_all add: joinTimes_def execOp_ok)

lemma reachable_ok:
  assumes "New c t0 = Ok e"
  shows "engine_ok (joinTimes ops) (fold (execOp zone) ops e)"
proof (rule run_ok)
  from assms obtain compiled where "compile c t0 = Ok compiled" "e = \<lparr> config = compiled, states = [], previews = [] \<rparr>"
    by (auto simp: New_def bindR_eq_Ok)
  then show "engine_ok (joinTimes ops) e" by (simp add: engine_ok_def compile_ok gm_wf_def)
qed simp

text \<open>What the invariant promises for every subscriber with a state.\<close>

definition admission_respected :: "Engine \<Rightarrow> bool" where
  "admission_respected e = list_all (\<lambda>(k, s). case map_of (subscribers (config e)) k of
     Some sub \<Rightarrow> withinLimits sub (map snd (groups s)) | None \<Rightarrow> False) (states e)"

definition all_covered :: "Time set \<Rightarrow> Engine \<Rightarrow> bool" where
  "all_covered T e = list_all (\<lambda>(k, s). case map_of (subscribers (config e)) k of
     Some sub \<Rightarrow> list_all (covered T (config e) sub) (map snd (groups s)) | None \<Rightarrow> False) (states e)"

lemma engine_ok_promises: "engine_ok T e \<Longrightarrow> admission_respected e \<and> all_covered T e"
proof -
  assume "engine_ok T e"
  then have each: "entry_ok T (config e) x" if "x \<in> set (states e)" for x
    using that by (simp add: engine_ok_def list_all_iff)
  have "case x of (k, s) \<Rightarrow> \<exists>sub. map_of (subscribers (config e)) k = Some sub \<and> state_ok T (config e) sub s"
    if "x \<in> set (states e)" for x
    using each [OF that] by (cases x) (simp add: entry_ok_iff)
  then show ?thesis
    unfolding admission_respected_def all_covered_def list_all_iff state_ok_def by fastforce
qed

text \<open>
  C29. Admission control holds in every state an engine reaches: after any sequence of joins, leaves,
  expiries and monitoring requests at any times, each subscriber has at most its maximum of
  simultaneous streams and, where bandwidth is enforced, streams of at most its maximum bandwidth in
  sum (a stream counts once however many clients it has), and the same holds for each of its service
  packages; a limit of 0 is none.
\<close>

theorem admission_limits:
  "case New c t0 of Ok e \<Rightarrow> admission_respected (fold (execOp zone) ops e) | _ \<Rightarrow> True"
  by (cases "New c t0") (simp_all add: engine_ok_promises [OF reachable_ok])

text \<open>
  C30. Nothing is delivered that the policy does not grant: in every state an engine reaches, each
  active group is covered by a row of the dynamic access control list of a profile that applies to
  the group's VLAN, it carries that row's GEM port, ANI VLAN and imputed bandwidth and the service
  package of the profile, and it ends when its authorisation does: never for a full authorisation, at
  the deadline of the allowed preview, or the preview length after a join.
\<close>

theorem active_groups_granted:
  "case New c t0 of Ok e \<Rightarrow> all_covered (joinTimes ops) (fold (execOp zone) ops e) | _ \<Rightarrow> True"
  by (cases "New c t0") (simp_all add: engine_ok_promises [OF reachable_ok])

end
