(* ===== verification/Checksum.thy ===== *)
theory Checksum
  imports Prelude
begin

unbundle bit_operations_syntax

text \<open>
  The CRC of OMCI frames and software images (src/internal/checksum/crc32a.go): the non-reflected
  CRC-32 of ITU-T I.363.5. The two loops of \<open>UpdateCRC32A\<close> are a fold over the octets and the
  eightfold iteration of the shift register's step \<open>crcBit\<close>.
\<close>

definition crc32APolynomial :: u32 where "crc32APolynomial = 0x04c11db7"
definition CRC32AInitial :: u32 where "CRC32AInitial = 0xffffffff"

definition crcBit :: "u32 \<Rightarrow> u32" where
  "crcBit crc = (if crc AND 0x80000000 \<noteq> 0 then push_bit 1 crc XOR crc32APolynomial else push_bit 1 crc)"

definition crcOctet :: "u8 \<Rightarrow> u32 \<Rightarrow> u32" where
  "crcOctet octet crc = (crcBit ^^ 8) (crc XOR push_bit 24 (ucast octet))"

definition UpdateCRC32A :: "u32 \<Rightarrow> bytes \<Rightarrow> u32" where
  "UpdateCRC32A crc octets = fold crcOctet octets crc"

definition SumCRC32A :: "u32 \<Rightarrow> u32" where
  "SumCRC32A crc = crc XOR 0xffffffff"

definition CRC32A :: "bytes \<Rightarrow> u32" where
  "CRC32A octets = SumCRC32A (UpdateCRC32A CRC32AInitial octets)"

lemma UpdateCRC32A_simps [simp]:
  "UpdateCRC32A crc [] = crc"
  "UpdateCRC32A crc (x # xs) = UpdateCRC32A (crcOctet x crc) xs"
  "UpdateCRC32A crc (xs @ ys) = UpdateCRC32A (UpdateCRC32A crc xs) ys"
  by (simp_all add: UpdateCRC32A_def)

section \<open>The shift register\<close>

lemma xor_cancel:
  "(c XOR a = c XOR b) = (a = b)" "(a XOR c = b XOR c) = (a = b)" for a b c :: "'a::len word"
proof -
  have undo: "c XOR (c XOR a) = a" for a by (simp add: xor.assoc [symmetric])
  show left: "(c XOR a = c XOR b) = (a = b)" using undo by metis
  show "(a XOR c = b XOR c) = (a = b)" by (simp add: left xor.commute [of _ c])
qed

lemma high_bit: "(crc :: u32) AND 0x80000000 \<noteq> 0 \<longleftrightarrow> bit crc 31"
proof -
  have "(0x80000000 :: u32) = push_bit 31 1" by simp
  then show ?thesis
    by (metis (no_types, lifting) and_exp_eq_0_iff_not_bit push_bit_of_1)
qed

lemma bit_crcBit:
  "n < 32 \<Longrightarrow> bit (crcBit crc) n = ((0 < n \<and> bit crc (n - 1)) \<noteq> (bit crc 31 \<and> bit crc32APolynomial n))"
  by (cases n) (auto simp: crcBit_def high_bit bit_xor_iff bit_double_iff mult.commute [of crc])

lemma crcBit_inj: "crcBit a = crcBit b \<Longrightarrow> a = b"
proof -
  assume same: "crcBit a = crcBit b"
  have poly: "bit crc32APolynomial 0" by (simp add: crc32APolynomial_def)
  from same have top: "bit a 31 = bit b 31"
    using bit_crcBit [of 0 a] bit_crcBit [of 0 b] poly by simp
  show ?thesis
  proof (rule bit_word_eqI)
    fix n assume n: "n < LENGTH(32)"
    show "bit a n = bit b n"
    proof (cases "n = 31")
      case False
      with n have "Suc n < 32" by simp
      from bit_crcBit [OF this, of a] bit_crcBit [OF this, of b] same top show ?thesis by auto
    qed (simp add: top)
  qed
qed

lemma crcBits_inj: "(crcBit ^^ n) a = (crcBit ^^ n) b \<Longrightarrow> a = b"
  by (induction n) (auto dest: crcBit_inj)

lemma crcBit_xor: "crcBit (a XOR b) = crcBit a XOR crcBit b"
  by (rule bit_word_eqI) (auto simp: bit_crcBit bit_xor_iff)

lemma crcBits_xor: "(crcBit ^^ n) (a XOR b) = (crcBit ^^ n) a XOR (crcBit ^^ n) b"
  by (induction n) (simp_all add: crcBit_xor)

section \<open>The CRC bit by bit\<close>

text \<open>One message bit enters at the top of the register.\<close>

definition crcStep :: "bool \<Rightarrow> u32 \<Rightarrow> u32" where
  "crcStep b crc = crcBit (crc XOR (if b then 0x80000000 else 0))"

text \<open>Thirty-two bits or less enter the register as one word, the first bit at the top.\<close>

fun bitsWord :: "bool list \<Rightarrow> u32" where
  "bitsWord [] = 0"
| "bitsWord (b # bs) = (if b then 0x80000000 else 0) XOR drop_bit 1 (bitsWord bs)"

text \<open>The bits of a message in transmission order, the most significant bit of an octet first.\<close>

definition octetBits :: "u8 \<Rightarrow> bool list" where
  "octetBits x = map (bit x) [7, 6, 5, 4, 3, 2, 1, 0]"

definition messageBits :: "bytes \<Rightarrow> bool list" where
  "messageBits octets = concat (map octetBits octets)"

lemma bit_top: "n < 32 \<Longrightarrow> bit (0x80000000 :: u32) n \<longleftrightarrow> n = 31"
proof -
  have "(0x80000000 :: u32) = push_bit 31 1" by simp
  then show "n < 32 \<Longrightarrow> bit (0x80000000 :: u32) n \<longleftrightarrow> n = 31" by (simp only: bit_push_bit_iff) (auto simp: bit_1_iff)
qed

lemma bit_bitsWord: "length bs \<le> 32 \<Longrightarrow> n < 32 \<Longrightarrow> bit (bitsWord bs) n \<longleftrightarrow> 31 - n < length bs \<and> bs ! (31 - n)"
proof (induction bs arbitrary: n)
  case (Cons b bs)
  show ?case
  proof (cases "n = 31")
    case True
    have "\<not> bit (bitsWord bs) 32" using bit_imp_le_length [of "bitsWord bs" 32] by auto
    then show ?thesis by (simp add: True bit_xor_iff bit_drop_bit_eq bit_top)
  next
    case False
    then have "31 - n = Suc (31 - Suc n)" "Suc n < 32" using Cons.prems(2) by auto
    moreover have "\<not> bit (if b then 0x80000000 else 0 :: u32) n" using bit_top [OF Cons.prems(2)] False by simp
    ultimately show ?thesis using Cons.IH [of "Suc n"] Cons.prems(1)
      by (simp only: bitsWord.simps bit_xor_iff bit_drop_bit_eq comp_apply) simp
  qed
qed simp

lemma bitsWord_inj:
  assumes "length bs = length cs" "length bs \<le> 32" "bitsWord bs = bitsWord cs"
  shows "bs = cs"
proof (rule nth_equalityI)
  fix i assume "i < length bs"
  then show "bs ! i = cs ! i"
    using bit_bitsWord [of bs "31 - i"] bit_bitsWord [of cs "31 - i"] assms by simp
qed (rule assms)

text \<open>A register whose lowest bits are clear before the shift is only shifted.\<close>

lemma crcBit_drop: "bit w 0 = False \<Longrightarrow> crcBit (drop_bit 1 w) = w"
proof (rule bit_word_eqI)
  fix n assume low: "bit w 0 = False" and n: "n < LENGTH(32)"
  have "\<not> bit (drop_bit 1 w) 31" using bit_imp_le_length [of w 32] by (auto simp: bit_drop_bit_eq)
  then show "bit (crcBit (drop_bit 1 w)) n = bit w n"
    using low n by (cases n) (auto simp: bit_crcBit bit_drop_bit_eq)
qed

lemma crcSteps:
  "length bs \<le> 32 \<Longrightarrow> fold crcStep bs crc = (crcBit ^^ length bs) (crc XOR bitsWord bs)"
proof (induction bs arbitrary: crc)
  case (Cons b bs)
  have "bit (bitsWord bs) 0 = False" using bit_bitsWord [of bs 0] Cons.prems by simp
  then have tail: "crcBit (drop_bit 1 (bitsWord bs)) = bitsWord bs" by (rule crcBit_drop)
  have "fold crcStep (b # bs) crc = (crcBit ^^ length bs) (crcStep b crc XOR bitsWord bs)"
    using Cons by simp
  also have "crcStep b crc XOR bitsWord bs = crcBit (crc XOR bitsWord (b # bs))"
    by (simp only: crcStep_def crcBit_xor bitsWord.simps tail xor.assoc)
  also have "(crcBit ^^ length bs) (crcBit (crc XOR bitsWord (b # bs))) = (crcBit ^^ length (b # bs)) (crc XOR bitsWord (b # bs))"
    by (simp add: funpow_swap1)
  finally show ?case .
qed simp

lemma length_octetBits [simp]: "length (octetBits x) = 8"
  by (simp add: octetBits_def)

lemma nth_octetBits:
  assumes "i < 8" shows "octetBits x ! i = bit x (7 - i)"
proof -
  from assms have "i \<in> {0, 1, 2, 3, 4, 5, 6, 7}" by auto
  then show ?thesis by (auto simp: octetBits_def)
qed

lemma bitsWord_octet: "bitsWord (octetBits x) = push_bit 24 (ucast x)"
proof (rule bit_word_eqI)
  fix n assume n: "n < LENGTH(32)"
  then have word: "bit (bitsWord (octetBits x)) n \<longleftrightarrow> 31 - n < 8 \<and> octetBits x ! (31 - n)"
    using bit_bitsWord [of "octetBits x" n] by simp
  show "bit (bitsWord (octetBits x)) n = bit (push_bit 24 (ucast x) :: u32) n"
  proof (cases "24 \<le> n")
    case True
    then have "31 - n < 8" "7 - (31 - n) = n - 24" using n by simp_all
    moreover have "n - 24 < 32" using n by simp
    ultimately show ?thesis unfolding word using True n by (simp add: nth_octetBits bit_push_bit_iff bit_ucast_iff)
  next
    case False
    then have "\<not> 31 - n < 8" by arith
    then show ?thesis unfolding word using False by (simp add: bit_push_bit_iff)
  qed
qed

lemma UpdateCRC32A_bits: "UpdateCRC32A crc octets = fold crcStep (messageBits octets) crc"
proof (induction octets arbitrary: crc)
  case (Cons x xs)
  have "crcOctet x crc = fold crcStep (octetBits x) crc"
  proof -
    have len: "length (octetBits x) = 8" by simp
    show ?thesis using crcSteps [of "octetBits x" crc] unfolding len crcOctet_def bitsWord_octet by simp
  qed
  then show ?case using Cons by (simp add: messageBits_def)
qed (simp add: messageBits_def)

lemma messageBits_inj: "length xs = length ys \<Longrightarrow> messageBits xs = messageBits ys \<Longrightarrow> xs = ys"
proof (induction xs ys rule: list_induct2)
  case (Cons x xs y ys)
  have "octetBits x @ messageBits xs = octetBits y @ messageBits ys" using Cons.prems by (simp add: messageBits_def)
  then have "octetBits x = octetBits y" and tails: "messageBits xs = messageBits ys"
    by simp_all
  then have "push_bit 24 (ucast x) = (push_bit 24 (ucast y) :: u32)" using bitsWord_octet by metis
  then have "bit (push_bit 24 (ucast x) :: u32) (n + 24) = bit (push_bit 24 (ucast y) :: u32) (n + 24)" for n
    by simp
  then have "bit x n = bit y n" if "n < 8" for n
  proof -
    from that have "n < 32" by simp
    with that \<open>\<And>n. bit (push_bit 24 (ucast x) :: u32) (n + 24) = bit (push_bit 24 (ucast y) :: u32) (n + 24)\<close> [of n]
    show ?thesis by (simp add: bit_push_bit_iff bit_ucast_iff)
  qed
  then have "x = y" by (intro bit_word_eqI) simp
  with Cons.IH [OF tails] show ?case by simp
qed simp

lemma crcSteps_inj: "fold crcStep bs a = fold crcStep bs b \<Longrightarrow> a = b"
proof (induction bs arbitrary: a b)
  case (Cons c bs)
  then have "crcStep c a = crcStep c b" by simp
  then have "a XOR (if c then 0x80000000 else 0) = b XOR (if c then 0x80000000 else 0)"
    unfolding crcStep_def by (rule crcBit_inj)
  then show ?case by (simp only: xor_cancel)
qed simp

lemma length_messageBits [simp]: "length (messageBits octets) = 8 * length octets"
  by (induction octets) (simp_all add: messageBits_def)

text \<open>
  C40. The CRC detects every burst of errors of up to 32 bits, wherever it starts: two messages that
  differ only within 32 consecutive bits of their transmission order (aligned to octets or not) have
  the same CRC only if they are equal.
\<close>

theorem crc_detects_bursts:
  assumes "messageBits sent = prior @ burst @ rest" "messageBits received = prior @ burst' @ rest"
    and "length burst = length burst'" "length burst \<le> 32"
  shows "CRC32A sent = CRC32A received \<longleftrightarrow> sent = received"
proof
  let ?crc = "fold crcStep prior CRC32AInitial"
  assume "CRC32A sent = CRC32A received"
  then have "fold crcStep rest (fold crcStep burst ?crc) = fold crcStep rest (fold crcStep burst' ?crc)"
    using assms(1,2) by (simp add: CRC32A_def SumCRC32A_def xor_cancel UpdateCRC32A_bits)
  then have "fold crcStep burst ?crc = fold crcStep burst' ?crc" by (rule crcSteps_inj)
  then have "(crcBit ^^ length burst) (?crc XOR bitsWord burst) = (crcBit ^^ length burst) (?crc XOR bitsWord burst')"
    using assms(3,4) by (simp add: crcSteps)
  then have "?crc XOR bitsWord burst = ?crc XOR bitsWord burst'" by (rule crcBits_inj)
  then have "bitsWord burst = bitsWord burst'" by (simp only: xor_cancel)
  then have "messageBits sent = messageBits received" using assms bitsWord_inj by simp
  moreover from this have "length sent = length received"
    using length_messageBits [of sent] length_messageBits [of received] by simp
  ultimately show "sent = received" by (intro messageBits_inj)
qed simp

text \<open>Ten bits that straddle three octets.\<close>

theorem crc_detects_bursts_witness:
  "CRC32A [7, 0x12, 0x34, 0x56] \<noteq> CRC32A [7, 0x13, 0xcb, 0xd6]"
proof -
  let ?a = "[7, 0x12, 0x34, 0x56] :: bytes" and ?b = "[7, 0x13, 0xcb, 0xd6] :: bytes"
  have "messageBits ?a = take 15 (messageBits ?a) @ take 10 (drop 15 (messageBits ?a)) @ drop 25 (messageBits ?a)"
    "messageBits ?b = take 15 (messageBits ?a) @ take 10 (drop 15 (messageBits ?b)) @ drop 25 (messageBits ?a)"
    "length (take 10 (drop 15 (messageBits ?a))) = length (take 10 (drop 15 (messageBits ?b)))"
    "length (take 10 (drop 15 (messageBits ?a))) \<le> 32"
    by code_simp+
  then have "CRC32A ?a = CRC32A ?b \<longleftrightarrow> ?a = ?b" by (rule crc_detects_bursts)
  then show ?thesis by simp
qed

end
