(* ===== verification/PmCounters.thy ===== *)
theory PmCounters
  imports MeLib
begin

text \<open>
  Counters of performance monitoring: the counter records (src/internal/performance/performance.go)
  and, from src/internal/engine/performance.go, their differences over a collection interval and the
  attributes in which a history data entity reports them. A 64-bit counter that went backwards has
  restarted, and its current value is the difference; narrower attributes saturate.
\<close>

section \<open>Counters\<close>

record GEMPortCounters =
  ReceivedGEMFrames :: u64
  ReceivedPayloadBytes :: u64
  TransmittedGEMFrames :: u64
  TransmittedPayloadBytes :: u64

record FECCounters =
  CorrectedBytes :: u64
  CorrectedCodeWords :: u64
  UncorrectableCodeWords :: u64
  TotalCodeWords :: u64
  FECSeconds :: u64

record XGSPONTCCounters =
  PSBdHECErrors :: u64
  XGTCHECErrors :: u64
  UnknownProfiles :: u64
  TransmittedXGEMFrames :: u64
  FragmentXGEMFrames :: u64
  XGEMHECLostWords :: u64
  XGEMKeyErrors :: u64
  XGEMHECErrors :: u64
  TransmittedNonIdleBytes :: u64
  ReceivedNonIdleBytes :: u64
  LODSEvents :: u64
  LODSRestored :: u64
  ONUReactivationsByLODS :: u64

record XGSPONDownstreamManagementCounters =
  PLOAMMICErrors :: u64
  PLOAMMessages :: u64
  ProfileMessages :: u64
  RangingTimeMessages :: u64
  DeactivateONUIDMessages :: u64
  DisableSerialNumberMessages :: u64
  RequestRegistrationMessages :: u64
  AssignAllocIDMessages :: u64
  KeyControlMessages :: u64
  SleepAllowMessages :: u64
  BaselineOMCIMessages :: u64
  ExtendedOMCIMessages :: u64
  AssignONUIDMessages :: u64
  OMCIMICErrors :: u64

record XGSPONUpstreamManagementCounters =
  UpstreamPLOAMMessages :: u64
  SerialNumberMessages :: u64
  RegistrationMessages :: u64
  KeyReportMessages :: u64
  AcknowledgeMessages :: u64
  SleepRequestMessages :: u64

record XGSPONCounters =
  KernelInstanceGeneration :: u64
  KernelSessionGeneration :: u64
  DispatcherGeneration :: u64
  Sequence :: u64
  TC :: XGSPONTCCounters
  Downstream :: XGSPONDownstreamManagementCounters
  Upstream :: XGSPONUpstreamManagementCounters

record EthernetDirectionCounters =
  Frames :: u64
  Octets :: u64
  DropEvents :: u64
  BroadcastFrames :: u64
  MulticastFrames :: u64
  CRCErrors :: u64
  BufferOverflows :: u64
  InternalErrors :: u64
  UndersizeFrames :: u64
  Fragments :: u64
  Jabbers :: u64
  OversizeFrames :: u64
  SizeBuckets :: "u64 list"

record EthernetCounters =
  Received :: EthernetDirectionCounters
  Transmitted :: EthernetDirectionCounters

definition zeroGEMPortCounters :: GEMPortCounters where
  "zeroGEMPortCounters = \<lparr> ReceivedGEMFrames = 0, ReceivedPayloadBytes = 0, TransmittedGEMFrames = 0, TransmittedPayloadBytes = 0 \<rparr>"

definition zeroFECCounters :: FECCounters where
  "zeroFECCounters = \<lparr> CorrectedBytes = 0, CorrectedCodeWords = 0, UncorrectableCodeWords = 0, TotalCodeWords = 0, FECSeconds = 0 \<rparr>"

definition zeroXGSPONTCCounters :: XGSPONTCCounters where
  "zeroXGSPONTCCounters = \<lparr> PSBdHECErrors = 0, XGTCHECErrors = 0, UnknownProfiles = 0, TransmittedXGEMFrames = 0,
     FragmentXGEMFrames = 0, XGEMHECLostWords = 0, XGEMKeyErrors = 0, XGEMHECErrors = 0,
     TransmittedNonIdleBytes = 0, ReceivedNonIdleBytes = 0, LODSEvents = 0, LODSRestored = 0,
     ONUReactivationsByLODS = 0 \<rparr>"

definition zeroXGSPONDownstreamManagementCounters :: XGSPONDownstreamManagementCounters where
  "zeroXGSPONDownstreamManagementCounters = \<lparr> PLOAMMICErrors = 0, PLOAMMessages = 0, ProfileMessages = 0, RangingTimeMessages = 0,
     DeactivateONUIDMessages = 0, DisableSerialNumberMessages = 0, RequestRegistrationMessages = 0,
     AssignAllocIDMessages = 0, KeyControlMessages = 0, SleepAllowMessages = 0, BaselineOMCIMessages = 0,
     ExtendedOMCIMessages = 0, AssignONUIDMessages = 0, OMCIMICErrors = 0 \<rparr>"

definition zeroXGSPONUpstreamManagementCounters :: XGSPONUpstreamManagementCounters where
  "zeroXGSPONUpstreamManagementCounters = \<lparr> UpstreamPLOAMMessages = 0, SerialNumberMessages = 0, RegistrationMessages = 0, KeyReportMessages = 0,
     AcknowledgeMessages = 0, SleepRequestMessages = 0 \<rparr>"

definition zeroXGSPONCounters :: XGSPONCounters where
  "zeroXGSPONCounters = \<lparr> KernelInstanceGeneration = 0, KernelSessionGeneration = 0, DispatcherGeneration = 0, Sequence = 0,
     TC = zeroXGSPONTCCounters, Downstream = zeroXGSPONDownstreamManagementCounters,
     Upstream = zeroXGSPONUpstreamManagementCounters \<rparr>"

definition zeroEthernetDirectionCounters :: EthernetDirectionCounters where
  "zeroEthernetDirectionCounters = \<lparr> Frames = 0, Octets = 0, DropEvents = 0, BroadcastFrames = 0, MulticastFrames = 0, CRCErrors = 0,
     BufferOverflows = 0, InternalErrors = 0, UndersizeFrames = 0, Fragments = 0, Jabbers = 0,
     OversizeFrames = 0, SizeBuckets = replicate 6 0 \<rparr>"

definition zeroEthernetCounters :: EthernetCounters where
  "zeroEthernetCounters = \<lparr> Received = zeroEthernetDirectionCounters, Transmitted = zeroEthernetDirectionCounters \<rparr>"

section \<open>Differences over an interval\<close>

definition counterDelta :: "u64 \<Rightarrow> u64 \<Rightarrow> u64" where
  "counterDelta start cur = (if cur < start then cur else cur - start)"

definition deltaGEMCounters :: "GEMPortCounters \<Rightarrow> GEMPortCounters \<Rightarrow> GEMPortCounters" where
  "deltaGEMCounters start cur =
     \<lparr> ReceivedGEMFrames = counterDelta (ReceivedGEMFrames start) (ReceivedGEMFrames cur),
     ReceivedPayloadBytes = counterDelta (ReceivedPayloadBytes start) (ReceivedPayloadBytes cur),
     TransmittedGEMFrames = counterDelta (TransmittedGEMFrames start) (TransmittedGEMFrames cur),
     TransmittedPayloadBytes = counterDelta (TransmittedPayloadBytes start) (TransmittedPayloadBytes cur) \<rparr>"

definition deltaFECCounters :: "FECCounters \<Rightarrow> FECCounters \<Rightarrow> FECCounters" where
  "deltaFECCounters start cur =
     \<lparr> CorrectedBytes = counterDelta (CorrectedBytes start) (CorrectedBytes cur),
     CorrectedCodeWords = counterDelta (CorrectedCodeWords start) (CorrectedCodeWords cur),
     UncorrectableCodeWords = counterDelta (UncorrectableCodeWords start) (UncorrectableCodeWords cur),
     TotalCodeWords = counterDelta (TotalCodeWords start) (TotalCodeWords cur),
     FECSeconds = counterDelta (FECSeconds start) (FECSeconds cur) \<rparr>"

definition deltaEthernetDirection :: "EthernetDirectionCounters \<Rightarrow> EthernetDirectionCounters \<Rightarrow> EthernetDirectionCounters" where
  "deltaEthernetDirection start cur =
     \<lparr> Frames = counterDelta (Frames start) (Frames cur), Octets = counterDelta (Octets start) (Octets cur),
     DropEvents = counterDelta (DropEvents start) (DropEvents cur),
     BroadcastFrames = counterDelta (BroadcastFrames start) (BroadcastFrames cur),
     MulticastFrames = counterDelta (MulticastFrames start) (MulticastFrames cur),
     CRCErrors = counterDelta (CRCErrors start) (CRCErrors cur),
     BufferOverflows = counterDelta (BufferOverflows start) (BufferOverflows cur),
     InternalErrors = counterDelta (InternalErrors start) (InternalErrors cur),
     UndersizeFrames = counterDelta (UndersizeFrames start) (UndersizeFrames cur),
     Fragments = counterDelta (Fragments start) (Fragments cur),
     Jabbers = counterDelta (Jabbers start) (Jabbers cur),
     OversizeFrames = counterDelta (OversizeFrames start) (OversizeFrames cur),
     SizeBuckets = map2 counterDelta (SizeBuckets start) (SizeBuckets cur) \<rparr>"

definition deltaTC :: "XGSPONTCCounters \<Rightarrow> XGSPONTCCounters \<Rightarrow> XGSPONTCCounters" where
  "deltaTC start cur =
     \<lparr> PSBdHECErrors = counterDelta (PSBdHECErrors start) (PSBdHECErrors cur),
     XGTCHECErrors = counterDelta (XGTCHECErrors start) (XGTCHECErrors cur),
     UnknownProfiles = counterDelta (UnknownProfiles start) (UnknownProfiles cur),
     TransmittedXGEMFrames = counterDelta (TransmittedXGEMFrames start) (TransmittedXGEMFrames cur),
     FragmentXGEMFrames = counterDelta (FragmentXGEMFrames start) (FragmentXGEMFrames cur),
     XGEMHECLostWords = counterDelta (XGEMHECLostWords start) (XGEMHECLostWords cur),
     XGEMKeyErrors = counterDelta (XGEMKeyErrors start) (XGEMKeyErrors cur),
     XGEMHECErrors = counterDelta (XGEMHECErrors start) (XGEMHECErrors cur),
     TransmittedNonIdleBytes = counterDelta (TransmittedNonIdleBytes start) (TransmittedNonIdleBytes cur),
     ReceivedNonIdleBytes = counterDelta (ReceivedNonIdleBytes start) (ReceivedNonIdleBytes cur),
     LODSEvents = counterDelta (LODSEvents start) (LODSEvents cur),
     LODSRestored = counterDelta (LODSRestored start) (LODSRestored cur),
     ONUReactivationsByLODS = counterDelta (ONUReactivationsByLODS start) (ONUReactivationsByLODS cur) \<rparr>"

definition deltaDownstream :: "XGSPONDownstreamManagementCounters \<Rightarrow> XGSPONDownstreamManagementCounters \<Rightarrow> XGSPONDownstreamManagementCounters" where
  "deltaDownstream start cur =
     \<lparr> PLOAMMICErrors = counterDelta (PLOAMMICErrors start) (PLOAMMICErrors cur),
     PLOAMMessages = counterDelta (PLOAMMessages start) (PLOAMMessages cur),
     ProfileMessages = counterDelta (ProfileMessages start) (ProfileMessages cur),
     RangingTimeMessages = counterDelta (RangingTimeMessages start) (RangingTimeMessages cur),
     DeactivateONUIDMessages = counterDelta (DeactivateONUIDMessages start) (DeactivateONUIDMessages cur),
     DisableSerialNumberMessages = counterDelta (DisableSerialNumberMessages start) (DisableSerialNumberMessages cur),
     RequestRegistrationMessages = counterDelta (RequestRegistrationMessages start) (RequestRegistrationMessages cur),
     AssignAllocIDMessages = counterDelta (AssignAllocIDMessages start) (AssignAllocIDMessages cur),
     KeyControlMessages = counterDelta (KeyControlMessages start) (KeyControlMessages cur),
     SleepAllowMessages = counterDelta (SleepAllowMessages start) (SleepAllowMessages cur),
     BaselineOMCIMessages = counterDelta (BaselineOMCIMessages start) (BaselineOMCIMessages cur),
     ExtendedOMCIMessages = counterDelta (ExtendedOMCIMessages start) (ExtendedOMCIMessages cur),
     AssignONUIDMessages = counterDelta (AssignONUIDMessages start) (AssignONUIDMessages cur),
     OMCIMICErrors = counterDelta (OMCIMICErrors start) (OMCIMICErrors cur) \<rparr>"

definition deltaUpstream :: "XGSPONUpstreamManagementCounters \<Rightarrow> XGSPONUpstreamManagementCounters \<Rightarrow> XGSPONUpstreamManagementCounters" where
  "deltaUpstream start cur =
     \<lparr> UpstreamPLOAMMessages = counterDelta (UpstreamPLOAMMessages start) (UpstreamPLOAMMessages cur),
     SerialNumberMessages = counterDelta (SerialNumberMessages start) (SerialNumberMessages cur),
     RegistrationMessages = counterDelta (RegistrationMessages start) (RegistrationMessages cur),
     KeyReportMessages = counterDelta (KeyReportMessages start) (KeyReportMessages cur),
     AcknowledgeMessages = counterDelta (AcknowledgeMessages start) (AcknowledgeMessages cur),
     SleepRequestMessages = counterDelta (SleepRequestMessages start) (SleepRequestMessages cur) \<rparr>"

definition deltaEthernetCounters :: "EthernetCounters \<Rightarrow> EthernetCounters \<Rightarrow> EthernetCounters" where
  "deltaEthernetCounters start cur =
     \<lparr> Received = deltaEthernetDirection (Received start) (Received cur),
       Transmitted = deltaEthernetDirection (Transmitted start) (Transmitted cur) \<rparr>"

definition sameXGSPONCounterSession :: "XGSPONCounters \<Rightarrow> XGSPONCounters \<Rightarrow> bool" where
  "sameXGSPONCounterSession a b =
     (KernelInstanceGeneration a = KernelInstanceGeneration b
      \<and> KernelSessionGeneration a = KernelSessionGeneration b
      \<and> DispatcherGeneration a = DispatcherGeneration b)"

definition deltaXGSPONCounters :: "XGSPONCounters \<Rightarrow> XGSPONCounters \<Rightarrow> XGSPONCounters" where
  "deltaXGSPONCounters start cur =
     (if \<not> sameXGSPONCounterSession start cur then cur
      else \<lparr> KernelInstanceGeneration = KernelInstanceGeneration cur,
        KernelSessionGeneration = KernelSessionGeneration cur, DispatcherGeneration = DispatcherGeneration cur,
        Sequence = Sequence cur, TC = deltaTC (TC start) (TC cur),
        Downstream = deltaDownstream (Downstream start) (Downstream cur),
        Upstream = deltaUpstream (Upstream start) (Upstream cur) \<rparr>)"

section \<open>Attributes\<close>

definition saturatingUint32 :: "u64 \<Rightarrow> u32" where
  "saturatingUint32 val = (if val > 0xffffffff then 0xffffffff else ucast val)"

definition saturatingUint16 :: "u64 \<Rightarrow> u16" where
  "saturatingUint16 val = (if val > 0xffff then 0xffff else ucast val)"

definition gemPerformanceAttributes :: "u8 \<Rightarrow> GEMPortCounters \<Rightarrow> attribute_map" where
  "gemPerformanceAttributes intervalEnd counters =
     [(''IntervalEndTime'', VU8 intervalEnd),
      (''TransmittedGemFrames'', VU32 (saturatingUint32 (TransmittedGEMFrames counters))),
      (''ReceivedGemFrames'', VU32 (saturatingUint32 (ReceivedGEMFrames counters))),
      (''ReceivedPayloadBytes'', VU64 (ReceivedPayloadBytes counters)),
      (''TransmittedPayloadBytes'', VU64 (TransmittedPayloadBytes counters))]"

definition fecPerformanceAttributes :: "u8 \<Rightarrow> FECCounters \<Rightarrow> attribute_map" where
  "fecPerformanceAttributes intervalEnd counters =
     [(''IntervalEndTime'', VU8 intervalEnd),
      (''CorrectedBytes'', VU32 (saturatingUint32 (CorrectedBytes counters))),
      (''CorrectedCodeWords'', VU32 (saturatingUint32 (CorrectedCodeWords counters))),
      (''UncorrectableCodeWords'', VU32 (saturatingUint32 (UncorrectableCodeWords counters))),
      (''TotalCodeWords'', VU32 (saturatingUint32 (TotalCodeWords counters))),
      (''FecSeconds'', VU16 (saturatingUint16 (FECSeconds counters)))]"

definition tcAttributes :: "u8 \<Rightarrow> XGSPONTCCounters \<Rightarrow> attribute_map" where
  "tcAttributes intervalEnd value =
     [(''IntervalEndTime'', VU8 intervalEnd),
      (''PsbdHecErrorCount'', VU32 (saturatingUint32 (PSBdHECErrors value))),
      (''XgtcHecErrorCount'', VU32 (saturatingUint32 (XGTCHECErrors value))),
      (''UnknownProfileCount'', VU32 (saturatingUint32 (UnknownProfiles value))),
      (''TransmittedXgPonEncapsulationMethodXgemFrames'', VU32 (saturatingUint32 (TransmittedXGEMFrames value))),
      (''FragmentXgemFrames'', VU32 (saturatingUint32 (FragmentXGEMFrames value))),
      (''XgemHecLostWordsCount'', VU32 (saturatingUint32 (XGEMHECLostWords value))),
      (''XgemKeyErrors'', VU32 (saturatingUint32 (XGEMKeyErrors value))),
      (''XgemHecErrorCount'', VU32 (saturatingUint32 (XGEMHECErrors value))),
      (''TransmittedBytesInNonIdleXgemFrames'', VU64 (TransmittedNonIdleBytes value)),
      (''ReceivedBytesInNonIdleXgemFrames'', VU64 (ReceivedNonIdleBytes value)),
      (''LossOfDownstreamSynchronizationLodsEventCount'', VU32 (saturatingUint32 (LODSEvents value))),
      (''LodsEventRestoredCount'', VU32 (saturatingUint32 (LODSRestored value))),
      (''OnuReactivationByLodsEvents'', VU32 (saturatingUint32 (ONUReactivationsByLODS value)))]"

definition downstreamManagementAttributes :: "u8 \<Rightarrow> XGSPONDownstreamManagementCounters \<Rightarrow> attribute_map" where
  "downstreamManagementAttributes intervalEnd value =
     [(''IntervalEndTime'', VU8 intervalEnd),
      (''PloamMessageIntegrityCheckMicErrorCount'', VU32 (saturatingUint32 (PLOAMMICErrors value))),
      (''DownstreamPloamMessagesCount'', VU32 (saturatingUint32 (PLOAMMessages value))),
      (''ProfileMessagesReceived'', VU32 (saturatingUint32 (ProfileMessages value))),
      (''RangingTimeMessagesReceived'', VU32 (saturatingUint32 (RangingTimeMessages value))),
      (''DeactivateOnuIdMessagesReceived'', VU32 (saturatingUint32 (DeactivateONUIDMessages value))),
      (''DisableSerialNumberMessagesReceived'', VU32 (saturatingUint32 (DisableSerialNumberMessages value))),
      (''RequestRegistrationMessagesReceived'', VU32 (saturatingUint32 (RequestRegistrationMessages value))),
      (''AssignAllocIdMessagesReceived'', VU32 (saturatingUint32 (AssignAllocIDMessages value))),
      (''KeyControlMessagesReceived'', VU32 (saturatingUint32 (KeyControlMessages value))),
      (''SleepAllowMessagesReceived'', VU32 (saturatingUint32 (SleepAllowMessages value))),
      (''BaselineOmciMessagesReceivedCount'', VU32 (saturatingUint32 (BaselineOMCIMessages value))),
      (''ExtendedOmciMessagesReceivedCount'', VU32 (saturatingUint32 (ExtendedOMCIMessages value))),
      (''AssignOnuIdMessagesReceived'', VU32 (saturatingUint32 (AssignONUIDMessages value))),
      (''OmciMicErrorCount'', VU32 (saturatingUint32 (OMCIMICErrors value)))]"

definition upstreamManagementAttributes :: "u8 \<Rightarrow> XGSPONUpstreamManagementCounters \<Rightarrow> attribute_map" where
  "upstreamManagementAttributes intervalEnd value =
     [(''IntervalEndTime'', VU8 intervalEnd),
      (''UpstreamPloamMessageCount'', VU32 (saturatingUint32 (UpstreamPLOAMMessages value))),
      (''SerialNumberOnuMessageCount'', VU32 (saturatingUint32 (SerialNumberMessages value))),
      (''RegistrationMessageCount'', VU32 (saturatingUint32 (RegistrationMessages value))),
      (''KeyReportMessageCount'', VU32 (saturatingUint32 (KeyReportMessages value))),
      (''AcknowledgeMessageCount'', VU32 (saturatingUint32 (AcknowledgeMessages value))),
      (''SleepRequestMessageCount'', VU32 (saturatingUint32 (SleepRequestMessages value)))]"

definition ethernetHistoryAttributes :: "u8 \<Rightarrow> EthernetDirectionCounters \<Rightarrow> EthernetDirectionCounters \<Rightarrow> attribute_map" where
  "ethernetHistoryAttributes intervalEnd rx tx =
     [(''IntervalEndTime'', VU8 intervalEnd), (''FcsErrors'', VU32 (saturatingUint32 (CRCErrors rx))),
      (''ExcessiveCollisionCounter'', VU32 0), (''LateCollisionCounter'', VU32 0),
      (''FramesTooLong'', VU32 (saturatingUint32 (OversizeFrames rx))),
      (''BufferOverflowsOnReceive'', VU32 (saturatingUint32 (BufferOverflows rx))),
      (''BufferOverflowsOnTransmit'', VU32 (saturatingUint32 (BufferOverflows tx))),
      (''SingleCollisionFrameCounter'', VU32 0), (''MultipleCollisionsFrameCounter'', VU32 0),
      (''SqeCounter'', VU32 0), (''DeferredTransmissionCounter'', VU32 0),
      (''InternalMacTransmitErrorCounter'', VU32 (saturatingUint32 (InternalErrors tx))),
      (''CarrierSenseErrorCounter'', VU32 0), (''AlignmentErrorCounter'', VU32 0),
      (''InternalMacReceiveErrorCounter'', VU32 (saturatingUint32 (InternalErrors rx)))]"

definition ethernetHistory3Attributes :: "u8 \<Rightarrow> EthernetDirectionCounters \<Rightarrow> attribute_map" where
  "ethernetHistory3Attributes intervalEnd rx =
     [(''IntervalEndTime'', VU8 intervalEnd), (''DropEvents'', VU32 (saturatingUint32 (DropEvents rx))),
      (''Octets'', VU32 (saturatingUint32 (Octets rx))), (''Packets'', VU32 (saturatingUint32 (Frames rx))),
      (''BroadcastPackets'', VU32 (saturatingUint32 (BroadcastFrames rx))),
      (''MulticastPackets'', VU32 (saturatingUint32 (MulticastFrames rx))),
      (''UndersizePackets'', VU32 (saturatingUint32 (UndersizeFrames rx))),
      (''Fragments'', VU32 (saturatingUint32 (Fragments rx))),
      (''Jabbers'', VU32 (saturatingUint32 (Jabbers rx))),
      (''Packets64Octets'', VU32 (saturatingUint32 (SizeBuckets rx ! 0))),
      (''Packets65To127Octets'', VU32 (saturatingUint32 (SizeBuckets rx ! 1))),
      (''Packets128To255Octets'', VU32 (saturatingUint32 (SizeBuckets rx ! 2))),
      (''Packets256To511Octets'', VU32 (saturatingUint32 (SizeBuckets rx ! 3))),
      (''Packets512To1023Octets'', VU32 (saturatingUint32 (SizeBuckets rx ! 4))),
      (''Packets1024To1518Octets'', VU32 (saturatingUint32 (SizeBuckets rx ! 5)))]"

definition ethernetFrameDownstreamAttributes :: "u8 \<Rightarrow> EthernetDirectionCounters \<Rightarrow> attribute_map" where
  "ethernetFrameDownstreamAttributes intervalEnd counters =
     [(''IntervalEndTime'', VU8 intervalEnd), (''DropEvents'', VU32 (saturatingUint32 (DropEvents counters))),
      (''Octets'', VU32 (saturatingUint32 (Octets counters))),
      (''Packets'', VU32 (saturatingUint32 (Frames counters))),
      (''BroadcastPackets'', VU32 (saturatingUint32 (BroadcastFrames counters))),
      (''MulticastPackets'', VU32 (saturatingUint32 (MulticastFrames counters))),
      (''CrcErroredPackets'', VU32 (saturatingUint32 (CRCErrors counters))),
      (''UndersizePackets'', VU32 (saturatingUint32 (UndersizeFrames counters))),
      (''OversizePackets'', VU32 (saturatingUint32 (OversizeFrames counters))),
      (''Packets64Octets'', VU32 (saturatingUint32 (SizeBuckets counters ! 0))),
      (''Packets65To127Octets'', VU32 (saturatingUint32 (SizeBuckets counters ! 1))),
      (''Packets128To255Octets'', VU32 (saturatingUint32 (SizeBuckets counters ! 2))),
      (''Packets256To511Octets'', VU32 (saturatingUint32 (SizeBuckets counters ! 3))),
      (''Packets512To1023Octets'', VU32 (saturatingUint32 (SizeBuckets counters ! 4))),
      (''Packets1024To1518Octets'', VU32 (saturatingUint32 (SizeBuckets counters ! 5)))]"

definition ethernetFrameUpstreamAttributes :: "u8 \<Rightarrow> EthernetDirectionCounters \<Rightarrow> attribute_map" where
  "ethernetFrameUpstreamAttributes intervalEnd counters =
     [(''IntervalEndTime'', VU8 intervalEnd), (''DropEvents'', VU32 (saturatingUint32 (DropEvents counters))),
      (''Octets'', VU32 (saturatingUint32 (Octets counters))),
      (''Packets'', VU32 (saturatingUint32 (Frames counters))),
      (''BroadcastPackets'', VU32 (saturatingUint32 (BroadcastFrames counters))),
      (''MulticastPackets'', VU32 (saturatingUint32 (MulticastFrames counters))),
      (''CrcErroredPackets'', VU32 (saturatingUint32 (CRCErrors counters))),
      (''UndersizePackets'', VU32 (saturatingUint32 (UndersizeFrames counters))),
      (''OversizePackets'', VU32 (saturatingUint32 (OversizeFrames counters))),
      (''Packets64Octets'', VU32 (saturatingUint32 (SizeBuckets counters ! 0))),
      (''Packets65To127Octets'', VU32 (saturatingUint32 (SizeBuckets counters ! 1))),
      (''Packets128To255Octets'', VU32 (saturatingUint32 (SizeBuckets counters ! 2))),
      (''Packets256To511Octets'', VU32 (saturatingUint32 (SizeBuckets counters ! 3))),
      (''Packets512To1023Octets'', VU32 (saturatingUint32 (SizeBuckets counters ! 4))),
      (''Packets1024To1518Octets'', VU32 (saturatingUint32 (SizeBuckets counters ! 5)))]"

text \<open>The history data classes.\<close>

abbreviation (input) GemPerformanceClassID :: u16 where "GemPerformanceClassID \<equiv> 341"
abbreviation (input) FecPerformanceClassID :: u16 where "FecPerformanceClassID \<equiv> 312"
abbreviation (input) EthernetPerformanceClassID :: u16 where "EthernetPerformanceClassID \<equiv> 24"
abbreviation (input) EthernetPerformance3ClassID :: u16 where "EthernetPerformance3ClassID \<equiv> 296"
abbreviation (input) EthernetFrameDownstreamClassID :: u16 where "EthernetFrameDownstreamClassID \<equiv> 321"
abbreviation (input) EthernetFrameUpstreamClassID :: u16 where "EthernetFrameUpstreamClassID \<equiv> 322"
abbreviation (input) XgPonTcClassID :: u16 where "XgPonTcClassID \<equiv> 344"
abbreviation (input) XgPonDownstreamClassID :: u16 where "XgPonDownstreamClassID \<equiv> 345"
abbreviation (input) XgPonUpstreamClassID :: u16 where "XgPonUpstreamClassID \<equiv> 346"

definition zeroGEMPerformanceAttributes :: "u8 \<Rightarrow> attribute_map" where
  "zeroGEMPerformanceAttributes intervalEnd = gemPerformanceAttributes intervalEnd zeroGEMPortCounters"

definition xgsPerformanceAttributes :: "u16 \<Rightarrow> u8 \<Rightarrow> XGSPONCounters \<Rightarrow> attribute_map" where
  "xgsPerformanceAttributes classID intervalEnd counters =
     (if classID = XgPonTcClassID then tcAttributes intervalEnd (TC counters)
      else if classID = XgPonDownstreamClassID then downstreamManagementAttributes intervalEnd (Downstream counters)
      else if classID = XgPonUpstreamClassID then upstreamManagementAttributes intervalEnd (Upstream counters)
      else [])"

definition ethernetPerformanceAttributes :: "u16 \<Rightarrow> u8 \<Rightarrow> EthernetCounters \<Rightarrow> attribute_map" where
  "ethernetPerformanceAttributes classID intervalEnd counters =
     (if classID = EthernetPerformanceClassID
      then ethernetHistoryAttributes intervalEnd (Received counters) (Transmitted counters)
      else if classID = EthernetPerformance3ClassID then ethernetHistory3Attributes intervalEnd (Received counters)
      else if classID = EthernetFrameDownstreamClassID
      then ethernetFrameDownstreamAttributes intervalEnd (Transmitted counters)
      else if classID = EthernetFrameUpstreamClassID then ethernetFrameUpstreamAttributes intervalEnd (Received counters)
      else [])"

end
