(* ===== verification/EngTypes.thy ===== *)
theory EngTypes
  imports MibStore McPolicy Checksum PmCounters
begin

unbundle bit_operations_syntax

text \<open>
  State of the OMCI engine (src/internal/engine): the engine record, the requests it is given and the
  responses it returns, and the interfaces it calls.

  \<^item> Every exported method takes the engine's mutex, so it is one step on the engine record. The
    platform behind the controller interfaces is a state \<open>'w\<close> of the outside world, as for the store.
    An \<open>act\<close> is a method: it returns a value or an error, the engine and the world; an error does
    not undo the writes made before it.
  \<^item> The codec of the vendored omci-lib-go, the hashes and the floating-point logarithm of the standard
    library are the parameter \<open>OmciLib\<close>: \<open>decodePacket\<close> is \<open>gopacket.NewPacket\<close>,
    \<open>serializeLayers\<close> serializes a header and a layer, \<open>entitySize\<close> is the size of a serialized
    entity.
  \<^item> Go maps are association lists; the code sorts keys wherever the order of an iteration shows.
\<close>

section \<open>Constants\<close>

abbreviation (input) SoftwareImageClassID :: u16 where "SoftwareImageClassID \<equiv> 7"
abbreviation (input) MacBridgePortClassID :: u16 where "MacBridgePortClassID \<equiv> 47"
abbreviation (input) LctUniClassID :: u16 where "LctUniClassID \<equiv> 83"
abbreviation (input) SipConfigPortalClassID :: u16 where "SipConfigPortalClassID \<equiv> 149"
abbreviation (input) MgcConfigPortalClassID :: u16 where "MgcConfigPortalClassID \<equiv> 154"
abbreviation (input) GemPortNetworkCtpClassID :: u16 where "GemPortNetworkCtpClassID \<equiv> 268"
abbreviation (input) ThresholdData1ClassID :: u16 where "ThresholdData1ClassID \<equiv> 273"
abbreviation (input) ThresholdData2ClassID :: u16 where "ThresholdData2ClassID \<equiv> 274"
abbreviation (input) GeneralPurposeBufferClassID :: u16 where "GeneralPurposeBufferClassID \<equiv> 308"

abbreviation (input) BaselineIdent :: u8 where "BaselineIdent \<equiv> 0x0a"
abbreviation (input) ExtendedIdent :: u8 where "ExtendedIdent \<equiv> 0x0b"
abbreviation (input) AR :: u8 where "AR \<equiv> 0x40"
abbreviation (input) AK :: u8 where "AK \<equiv> 0x20"

fun msgCode :: "msg_type \<Rightarrow> u8" where
  "msgCode MsgCreate = 4" | "msgCode MsgDelete = 6" | "msgCode MsgSet = 8" | "msgCode MsgGet = 9"
| "msgCode MsgGetAllAlarms = 11" | "msgCode MsgGetAllAlarmsNext = 12" | "msgCode MsgMibUpload = 13"
| "msgCode MsgMibUploadNext = 14" | "msgCode MsgMibReset = 15" | "msgCode MsgAlarmNotification = 16"
| "msgCode MsgAttributeValueChange = 17" | "msgCode MsgTest = 18" | "msgCode MsgStartSoftwareDownload = 19"
| "msgCode MsgDownloadSection = 20" | "msgCode MsgEndSoftwareDownload = 21" | "msgCode MsgActivateSoftware = 22"
| "msgCode MsgCommitSoftware = 23" | "msgCode MsgSynchronizeTime = 24" | "msgCode MsgReboot = 25"
| "msgCode MsgGetNext = 26" | "msgCode MsgTestResult = 27" | "msgCode MsgGetCurrentData = 28"
| "msgCode MsgSetTable = 29"

definition requestType :: "msg_type \<Rightarrow> u8" where "requestType mt = msgCode mt OR AR"
definition responseType :: "msg_type \<Rightarrow> u8" where "responseType mt = msgCode mt OR AK"

text \<open>A download section may ask for no response; every other request does.\<close>

definition DownloadSectionRequestType :: u8 where "DownloadSectionRequestType = msgCode MsgDownloadSection"

section \<open>Requests and responses\<close>

record Header =
  TransactionID :: u16
  MessageType :: u8
  DeviceIdentifier :: u8
  LayerPayload :: bytes

record MePacket =
  EntityClass :: u16
  EntityInstance :: u16

record StartSoftwareDownload = MePacket +
  WindowSize :: u8
  ImageSize :: u32
  NumberOfCircuitPacks :: u8
  CircuitPacks :: "u16 list"

record DownloadSection = MePacket +
  SectionNumber :: u8
  SectionData :: bytes

record EndSoftwareDownload = MePacket +
  EndCRC32 :: u32
  EndImageSize :: u32
  NumberOfInstances :: u8
  ImageInstances :: "u16 list"

record ActivateSoftware = MePacket +
  ActivateFlags :: u8

record OpticalTest = MePacket +
  SelectTest :: u8
  GeneralPurposeBuffer :: u16
  VendorSpecificParameters :: u16

datatype request = CreateRequest MePacket attribute_map | DeleteRequest MePacket
  | SetRequest MePacket attribute_map | GetRequest MePacket u16
  | MibResetRequest MePacket | MibUploadRequest MePacket | MibUploadNextRequest MePacket u16
  | GetAllAlarmsRequest MePacket u8 | GetAllAlarmsNextRequest MePacket u16
  | GetNextRequest MePacket u16 u16 | SetTableRequest MePacket u16 attribute_map
  | GetCurrentDataRequest MePacket u16 | StartSoftwareDownloadRequest StartSoftwareDownload
  | DownloadSectionRequest DownloadSection | EndSoftwareDownloadRequest EndSoftwareDownload
  | ActivateSoftwareRequest ActivateSoftware | CommitSoftwareRequest MePacket
  | OpticalLineSupervisionTestRequest OpticalTest
  | SynchronizeTimeRequest MePacket u16 u8 u8 u8 u8 u8 | RebootRequest MePacket u8

text \<open>
  A decoded packet: the OMCI layer, the request layer, and the error layer with the status code of
  an OMCI error in its chain.
\<close>

record Packet =
  PacketHeader :: "Header option"
  PacketLayer :: "request option"
  ErrorLayer :: "(go_error \<times> u8 option) option"

record Alarm =
  AlarmKey :: Key
  AlarmBitmap :: bytes

record OpticalSample =
  Temperature :: u16
  SupplyVoltage :: u16
  LaserBiasCurrent :: u16
  TransmitPower :: u16
  ReceivePower :: u16

record Diagnostics =
  PowerFeedVoltage :: u16
  ReceivedOpticalPower :: u16
  MeanOpticalLaunch :: u16
  DiagnosticsBias :: u16
  DiagnosticsTemperature :: u16

record MeBasePacket = MePacket +
  Extended :: bool

datatype response = CreateResponse MeBasePacket u8 u16 | DeleteResponse MeBasePacket u8
  | SetResponse MeBasePacket u8 u16 u16 | GetResponse MeBasePacket u8 u16 attribute_map u16 u16
  | MibResetResponse MeBasePacket u8 | MibUploadResponse MeBasePacket u16
  | MibUploadNextResponse MeBasePacket managed_entity "managed_entity list"
  | GetAllAlarmsResponse MeBasePacket u16 | GetAllAlarmsNextResponse MeBasePacket Alarm "Alarm list"
  | GetNextResponse MeBasePacket u8 u16 attribute_map | SetTableResponse MeBasePacket u8
  | GetCurrentDataResponse MeBasePacket u8 u16 attribute_map u16 u16
  | StartSoftwareDownloadResponse MeBasePacket u8 u8 | DownloadSectionResponse MeBasePacket u8 u8
  | EndSoftwareDownloadResponse MeBasePacket u8 | ActivateSoftwareResponse MeBasePacket u8
  | CommitSoftwareResponse MeBasePacket u8 | TestResponse MeBasePacket u8
  | SynchronizeTimeResponse MeBasePacket u8 | RebootResponse MeBasePacket u8
  | AlarmNotificationMsg MeBasePacket bytes u8 | AttributeValueChangeMsg MeBasePacket u16 attribute_map
  | OpticalLineSupervisionTestResult MeBasePacket "(u8 \<times> u16) list" | TestResultNotification MeBasePacket bytes
  | RawLayer bytes

record OmciLib =
  classes :: class_table
  decodePacket :: "bytes \<Rightarrow> Packet"
  serializeLayers :: "u16 \<Rightarrow> u8 \<Rightarrow> u8 \<Rightarrow> response \<Rightarrow> (go_error, bytes) outcome"
  entitySize :: "managed_entity \<Rightarrow> u8 \<Rightarrow> nat \<Rightarrow> (go_error, nat) outcome"
  sha256 :: "bytes \<Rightarrow> bytes"
  md5Sum :: "bytes \<Rightarrow> bytes"
  roundedPower :: "u16 \<Rightarrow> int \<Rightarrow> int"

section \<open>Interfaces\<close>

type_synonym ('w, 'a) call = "'w \<Rightarrow> (go_error, 'a) outcome \<times> 'w"

record 'w Controller =
  SynchronizeTime :: "Time \<Rightarrow> 'w \<Rightarrow> go_error option \<times> 'w"
  Reboot :: "u8 \<Rightarrow> 'w \<Rightarrow> go_error option \<times> 'w"
  OpticalLineSupervision :: "('w, Diagnostics) call"

record Image =
  ImageEntity :: u16
  ImageVersion :: string
  ImageProductCode :: string
  ImageHash :: bytes
  ImageCommitted :: bool
  ImageActive :: bool
  ImageValid :: bool

record Metadata =
  MetadataVersion :: string
  MetadataProductCode :: string

record 'w Download =
  SinkWrite :: "bytes \<Rightarrow> 'w \<Rightarrow> (int \<times> go_error option) \<times> 'w"
  SinkFinish :: "('w, Metadata) call"
  SinkAbort :: "'w \<Rightarrow> go_error option \<times> 'w"

record 'w SoftwareController =
  Images :: "('w, Image list) call"
  StartDownload :: "u16 \<Rightarrow> u32 \<Rightarrow> ('w, 'w Download) call"
  PrepareActivate :: "u16 \<Rightarrow> u8 \<Rightarrow> ('w, 'w CommandTransaction option) call"
  PrepareCommit :: "u16 \<Rightarrow> ('w, 'w CommandTransaction option) call"

record AllowedPreviewSnapshot =
  SnapshotTimers :: "PreviewTimer list"
  SnapshotDataSync :: u8

section \<open>State\<close>

datatype transactionChannel = baselineLowPriority | baselineHighPriority | extendedPriority

record transactionReplay =
  replayValid :: bool
  replayID :: u16
  replayResponse :: bytes
  refreshUpload :: bool
  refreshAlarmUpload :: bool

definition noReplay :: transactionReplay where
  "noReplay = \<lparr> replayValid = False, replayID = 0, replayResponse = [], refreshUpload = False, refreshAlarmUpload = False \<rparr>"

type_synonym uploadCommand = "managed_entity list"

record uploadSession =
  uploadCommands :: "uploadCommand list"
  uploadExpires :: Time

record alarmUploadSession =
  sessionAlarms :: "Alarm list"
  sessionExpires :: Time

record tableKey =
  tableDevice :: u8
  tableClass :: u16
  tableEntity :: u16
  tableMask :: u16

datatype softwareDownloadPhase = softwareReceiving | softwareFinalizing | softwareComplete | softwareFailed

record softwareEndRequest =
  endEntity :: u16
  endDevice :: u8
  endCRC :: u32
  endSize :: u32

text \<open>
  The download in progress. The running MD5 is the list of octets written to it. \<open>finishing\<close> says
  that the goroutine that finishes the image runs; it sends its result to the channel \<open>finish\<close>.
\<close>

record 'w softwareDownload =
  downloadEntity :: u16
  downloadDevice :: u8
  expectedSize :: u32
  received :: u32
  windowSize :: u16
  expectedSection :: u8
  window :: bytes
  windowFailed :: bool
  sink :: "'w Download"
  crc :: u32
  md5 :: bytes
  phase :: softwareDownloadPhase
  endRequest :: softwareEndRequest
  finishing :: bool
  finish :: "(go_error, Metadata) outcome option"
  finished :: "(go_error, Metadata) outcome option"
  imageHash :: bytes

record SoftwareStatus =
  StatusPhase :: string
  StatusImage :: u16
  StatusBytes :: u32
  StatusSize :: u32
  StatusHash :: string

record BERSample =
  BERSequence :: u64
  BIPCount :: u32
  IntervalMS :: u32
  BootID :: string

text \<open>The state of a performance monitoring entity: what it counts and the counters at its last interval.\<close>

record 'c pmState =
  pmPort :: u16
  baseline :: 'c

record 'w OmciEngine =
  mib :: "'w Store"
  ponMode :: string
  transactions :: "transactionChannel \<Rightarrow> transactionReplay"
  oneWayDigest :: bytes
  oneWayValid :: bool
  upload :: "(u8, uploadSession) gomap"
  tables :: "(tableKey, bytes) gomap"
  alarms :: "(Key, bytes) gomap"
  alarmUpload :: "(u8, alarmUploadSession) gomap"
  alarmSequence :: u8
  arcFreeSince :: "(Key, Time) gomap"
  opticalSample :: "(Key, OpticalSample) gomap"
  berSample :: "(Key, BERSample) gomap"
  clock :: "'w \<Rightarrow> Time \<times> 'w"
  controller :: "'w Controller option"
  software :: "'w SoftwareController option"
  download :: "'w softwareDownload option"
  softwareState :: SoftwareStatus
  pendingFrames :: "bytes list"
  pendingError :: "go_error option"
  extendedSeen :: bool
  performance :: "(u16 \<Rightarrow> ('w, GEMPortCounters) call) option"
  performanceState :: "(Key, GEMPortCounters pmState) gomap"
  fecPerformance :: "(u16 \<Rightarrow> ('w, FECCounters) call) option"
  fecPMState :: "(Key, FECCounters pmState) gomap"
  ethernetPerformance :: "(u16 \<Rightarrow> ('w, EthernetCounters) call) option"
  ethernetPMState :: "(Key, EthernetCounters pmState) gomap"
  xgsPerformance :: "(u16 \<Rightarrow> ('w, XGSPONCounters) call) option"
  xgsPMState :: "(Key, XGSPONCounters pmState) gomap"
  performanceTCA :: "(Key, bytes) gomap"
  performanceNext :: Time
  performanceIntervalEnd :: u8
  multicast :: "(u16 \<Rightarrow> ('w, Monitor) call) option"
  multicastPreview :: "(u16 \<Rightarrow> ('w, AllowedPreviewSnapshot) call) option"

text \<open>
  A new engine. The controller's optional interfaces (performance, multicast), which the code finds
  by type assertions, are arguments.
\<close>

record 'w Backends =
  gemBackend :: "(u16 \<Rightarrow> ('w, GEMPortCounters) call) option"
  fecBackend :: "(u16 \<Rightarrow> ('w, FECCounters) call) option"
  ethernetBackend :: "(u16 \<Rightarrow> ('w, EthernetCounters) call) option"
  xgsBackend :: "(u16 \<Rightarrow> ('w, XGSPONCounters) call) option"
  monitorBackend :: "(u16 \<Rightarrow> ('w, Monitor) call) option"
  previewBackend :: "(u16 \<Rightarrow> ('w, AllowedPreviewSnapshot) call) option"

definition idleStatus :: SoftwareStatus where
  "idleStatus = \<lparr> StatusPhase = ''idle'', StatusImage = 0, StatusBytes = 0, StatusSize = 0, StatusHash = [] \<rparr>"

definition NewForMode :: "'w Store \<Rightarrow> 'w Controller option \<Rightarrow> 'w Backends \<Rightarrow> 'w SoftwareController option
    \<Rightarrow> string \<Rightarrow> ('w \<Rightarrow> Time \<times> 'w) \<Rightarrow> 'w OmciEngine" where
  "NewForMode store ctl backends sw mode now =
     \<lparr> mib = store, ponMode = mode, transactions = (\<lambda>_. noReplay), oneWayDigest = replicate 32 0, oneWayValid = False,
       upload = [], tables = [], alarms = [], alarmUpload = [], alarmSequence = 0, arcFreeSince = [],
       opticalSample = [], berSample = [], clock = now, controller = ctl, software = sw, download = None,
       softwareState = idleStatus, pendingFrames = [], pendingError = None, extendedSeen = False,
       performance = gemBackend backends, performanceState = [], fecPerformance = fecBackend backends, fecPMState = [],
       ethernetPerformance = ethernetBackend backends, ethernetPMState = [], xgsPerformance = xgsBackend backends,
       xgsPMState = [], performanceTCA = [], performanceNext = zeroTime, performanceIntervalEnd = 0,
       multicast = monitorBackend backends, multicastPreview = previewBackend backends \<rparr>"

section \<open>Methods\<close>

type_synonym ('w, 'a) act = "'w OmciEngine \<Rightarrow> 'w \<Rightarrow> (go_error, 'a) outcome \<times> 'w OmciEngine \<times> 'w"

definition pureE :: "(go_error, 'a) outcome \<Rightarrow> ('w, 'a) act" where
  "pureE r e w = (r, e, w)"

abbreviation returnE :: "'a \<Rightarrow> ('w, 'a) act" where "returnE x \<equiv> pureE (Ok x)"
abbreviation failE :: "go_error \<Rightarrow> ('w, 'a) act" where "failE err \<equiv> pureE (Err err)"

definition bindE :: "('w, 'a) act \<Rightarrow> ('a \<Rightarrow> ('w, 'b) act) \<Rightarrow> ('w, 'b) act" where
  "bindE m k e w = (case m e w of
     (Ok x, e', w') \<Rightarrow> k x e' w' | (Err err, e', w') \<Rightarrow> (Err err, e', w') | (Panic, e', w') \<Rightarrow> (Panic, e', w'))"

text \<open>The value of a call or its error, for a caller that looks at the error (a panic is passed on).\<close>

definition tryE :: "('w, 'a) act \<Rightarrow> ('w, go_error + 'a) act" where
  "tryE m e w = (case m e w of
     (Ok x, e', w') \<Rightarrow> (Ok (Inr x), e', w') | (Err err, e', w') \<Rightarrow> (Ok (Inl err), e', w')
   | (Panic, e', w') \<Rightarrow> (Panic, e', w'))"

definition wrapE :: "(go_error \<Rightarrow> go_error) \<Rightarrow> ('w, 'a) act \<Rightarrow> ('w, 'a) act" where
  "wrapE f m e w = (case m e w of (r, e', w') \<Rightarrow> (mapErr f r, e', w'))"

definition getE :: "('w OmciEngine \<Rightarrow> 'a) \<Rightarrow> ('w, 'a) act" where
  "getE f e w = (Ok (f e), e, w)"

definition putE :: "('w OmciEngine \<Rightarrow> 'w OmciEngine) \<Rightarrow> ('w, unit) act" where
  "putE f e w = (Ok (), f e, w)"

definition storeE :: "('w, 'a) op \<Rightarrow> ('w, 'a) act" where
  "storeE op e w = (case op (mib e) w of (r, s, w') \<Rightarrow> (r, e\<lparr>mib := s\<rparr>, w'))"

definition callE :: "('w, 'a) call \<Rightarrow> ('w, 'a) act" where
  "callE f e w = (case f w of (r, w') \<Rightarrow> (r, e, w'))"

definition errorCallE :: "('w \<Rightarrow> go_error option \<times> 'w) \<Rightarrow> ('w, unit) act" where
  "errorCallE f e w = (case f w of (None, w') \<Rightarrow> (Ok (), e, w') | (Some err, w') \<Rightarrow> (Err err, e, w'))"

definition nowE :: "('w, Time) act" where
  "nowE e w = (case clock e w of (t, w') \<Rightarrow> (Ok t, e, w'))"

fun forE :: "('a \<Rightarrow> 's \<Rightarrow> ('w, 's) act) \<Rightarrow> 'a list \<Rightarrow> 's \<Rightarrow> ('w, 's) act" where
  "forE f [] s = returnE s"
| "forE f (x # xs) s = bindE (f x s) (forE f xs)"

abbreviation thenE :: "('w, 'a) act \<Rightarrow> ('w, 'b) act \<Rightarrow> ('w, 'b) act" where
  "thenE m k \<equiv> bindE m (\<lambda>_. k)"

text \<open>The result code and the masks that a handler reports for an error.\<close>

fun errorChain :: "go_error \<Rightarrow> (u8 \<times> u16 \<times> u16) option"
and firstChain :: "go_error list \<Rightarrow> (u8 \<times> u16 \<times> u16) option"
and wrappedChain :: "go_arg list \<Rightarrow> (u8 \<times> u16 \<times> u16) option" where
  "errorChain (ResultError r f u cause) = Some (r, f, u)"
| "errorChain (Errorf _ args) = wrappedChain args"
| "errorChain (JoinErr es) = firstChain es"
| "firstChain [] = None"
| "firstChain (err # es) = (case errorChain err of Some r \<Rightarrow> Some r | None \<Rightarrow> firstChain es)"
| "wrappedChain [] = None"
| "wrappedChain (AErr err # args) = (case errorChain err of Some r \<Rightarrow> Some r | None \<Rightarrow> wrappedChain args)"
| "wrappedChain (AInt _ # args) = wrappedChain args"
| "wrappedChain (AStr _ # args) = wrappedChain args"
| "wrappedChain (ABytes _ # args) = wrappedChain args"

definition operationResult :: "go_error option \<Rightarrow> u8 \<times> u16 \<times> u16" where
  "operationResult err = (case err of
     None \<Rightarrow> (Success, 0, 0)
   | Some e \<Rightarrow> (case errorChain e of Some r \<Rightarrow> r | None \<Rightarrow> (ProcessingError, 0, 0)))"

abbreviation errorOf :: "go_error + 'a \<Rightarrow> go_error option" where
  "errorOf r \<equiv> (case r of Inl err \<Rightarrow> Some err | Inr _ \<Rightarrow> None)"

end
