(* ===== verification/EngRules.thy ===== *)
theory EngRules
  imports EngTypes
begin

unbundle bit_operations_syntax

text \<open>
  What the engine knows of the classes: the performance monitoring classes and their threshold rules
  (src/internal/engine/performance_threshold.go, performance.go), the alarms and attribute value
  changes that it advertises (capability.go), and bitmaps of alarms. A bitmap is 28 octets, alarm 0
  the top bit of the first.
\<close>

section \<open>Bitmaps\<close>

definition zeroBitmap :: bytes where "zeroBitmap = replicate 28 0"

definition alarmBit :: "u8 \<Rightarrow> u8" where "alarmBit alarm = push_bit (7 - unat (alarm mod 8)) 1"

definition alarmCondition :: "bytes \<Rightarrow> u8 \<Rightarrow> bool" where
  "alarmCondition bitmap alarm = (bitmap ! unat (alarm div 8) AND alarmBit alarm \<noteq> 0)"

definition setAlarmCondition :: "u8 \<Rightarrow> bool \<Rightarrow> bytes \<Rightarrow> bytes" where
  "setAlarmCondition alarm active bitmap =
     (let octet = unat (alarm div 8); bits = bitmap ! octet in
      bitmap[octet := (if active then bits OR alarmBit alarm else bits AND NOT (alarmBit alarm))])"

definition alarmNumbers :: "u8 list" where "alarmNumbers = map of_nat [0..<224]"

section \<open>Classes of performance monitoring\<close>

definition isEthernetPerformanceClass :: "u16 \<Rightarrow> bool" where
  "isEthernetPerformanceClass classID = (classID \<in> {EthernetPerformanceClassID, EthernetPerformance3ClassID,
     EthernetFrameDownstreamClassID, EthernetFrameUpstreamClassID})"

definition isXGSPONPerformanceClass :: "u16 \<Rightarrow> bool" where
  "isXGSPONPerformanceClass classID = (classID \<in> {XgPonTcClassID, XgPonDownstreamClassID, XgPonUpstreamClassID})"

definition isPerformanceClass :: "u16 \<Rightarrow> bool" where
  "isPerformanceClass classID = (classID = GemPerformanceClassID \<or> classID = FecPerformanceClassID
     \<or> isEthernetPerformanceClass classID \<or> isXGSPONPerformanceClass classID)"

section \<open>Threshold rules\<close>

definition performanceThresholdAttribute :: string where
  "performanceThresholdAttribute = ''ThresholdData12Id''"

definition performanceThresholdValueNames :: "string list" where
  "performanceThresholdValueNames = ['''', ''ThresholdValue1'', ''ThresholdValue2'', ''ThresholdValue3'',
     ''ThresholdValue4'', ''ThresholdValue5'', ''ThresholdValue6'', ''ThresholdValue7'', ''ThresholdValue8'',
     ''ThresholdValue9'', ''ThresholdValue10'', ''ThresholdValue11'', ''ThresholdValue12'', ''ThresholdValue13'',
     ''ThresholdValue14'']"

record performanceThresholdRule =
  ruleCounter :: string
  ruleThreshold :: u8
  thresholdName :: string
  ruleValue :: u32
  ruleAlarm :: u8

definition rule :: "string \<Rightarrow> u8 \<Rightarrow> u8 \<Rightarrow> performanceThresholdRule" where
  "rule counter threshold alarm =
     \<lparr> ruleCounter = counter, ruleThreshold = threshold, thresholdName = [], ruleValue = 0, ruleAlarm = alarm \<rparr>"

definition sequentialPerformanceThresholdRules :: "string list \<Rightarrow> performanceThresholdRule list" where
  "sequentialPerformanceThresholdRules counters =
     map (\<lambda>(index, counter). rule counter (of_nat (index + 1)) (of_nat index)) (List.enumerate 0 counters)"

definition performanceThresholdRules :: "u16 \<Rightarrow> performanceThresholdRule list" where
  "performanceThresholdRules classID =
      (if classID = GemPerformanceClassID then []
      else if classID = XgPonTcClassID
      then [rule ''PsbdHecErrorCount'' 1 1, rule ''XgtcHecErrorCount'' 2 2, rule ''UnknownProfileCount'' 3 3, rule ''XgemHecLostWordsCount'' 4 4,
        rule ''XgemKeyErrors'' 5 5, rule ''XgemHecErrorCount'' 6 6]
      else if classID = XgPonDownstreamClassID
      then [rule ''PloamMessageIntegrityCheckMicErrorCount'' 1 1, rule ''OmciMicErrorCount'' 2 2]
      else if classID = XgPonUpstreamClassID then []
      else if classID = FecPerformanceClassID
      then [rule ''CorrectedBytes'' 1 0, rule ''CorrectedCodeWords'' 2 1, rule ''UncorrectableCodeWords'' 3 2, rule ''FecSeconds'' 4 4]
      else if classID = EthernetPerformanceClassID
      then sequentialPerformanceThresholdRules [''FcsErrors'', ''ExcessiveCollisionCounter'',
        ''LateCollisionCounter'', ''FramesTooLong'', ''BufferOverflowsOnReceive'',
        ''BufferOverflowsOnTransmit'', ''SingleCollisionFrameCounter'', ''MultipleCollisionsFrameCounter'',
        ''SqeCounter'', ''DeferredTransmissionCounter'', ''InternalMacTransmitErrorCounter'',
        ''CarrierSenseErrorCounter'', ''AlignmentErrorCounter'', ''InternalMacReceiveErrorCounter'']
      else if classID = EthernetPerformance3ClassID
      then [rule ''DropEvents'' 1 0, rule ''UndersizePackets'' 2 1, rule ''Fragments'' 3 2, rule ''Jabbers'' 4 3]
      else if classID = EthernetFrameDownstreamClassID
      then [rule ''DropEvents'' 1 0, rule ''CrcErroredPackets'' 2 1, rule ''UndersizePackets'' 3 2, rule ''OversizePackets'' 4 3]
      else if classID = EthernetFrameUpstreamClassID
      then [rule ''DropEvents'' 1 0, rule ''CrcErroredPackets'' 2 1, rule ''UndersizePackets'' 3 2, rule ''OversizePackets'' 4 3]
      else [])"

section \<open>Advertised alarms and attribute value changes\<close>

definition capabilityAlarmCodes :: "u16 \<Rightarrow> u8 list" where
  "capabilityAlarmCodes classID =
     (if classID = AniGClassID then [0, 1, 2, 3, 4, 5, 6]
      else if classID = PptpEthernetUniClassID then [0]
      else sort (remdups (map ruleAlarm (performanceThresholdRules classID))))"

definition capabilityAVCIndexes :: "u16 \<Rightarrow> u8 list" where
  "capabilityAVCIndexes classID =
     (if classID = OnuGClassID then [8]
      else if classID = AniGClassID then [8, 10, 14]
      else if classID = PptpEthernetUniClassID then [6, 12]
      else if classID = Onu3GClassID then [4, 5]
      else [])"

definition containsCapabilityCode :: "u8 list \<Rightarrow> u8 \<Rightarrow> bool" where
  "containsCapabilityCode codes candidate = list_ex (\<lambda>code. code = candidate) codes"

definition validateAlarmBitmap :: "u8 list \<Rightarrow> bytes \<Rightarrow> go_error option" where
  "validateAlarmBitmap alarmMap bitmap =
     (if alarmMap = [] then Some (Errorf ''managed entity has no alarm map'' [])
      else map_option (\<lambda>alarm. Errorf ''alarm bit %d is not defined'' [AU alarm])
        (find (\<lambda>alarm. alarmCondition bitmap alarm \<and> alarm \<notin> set alarmMap) alarmNumbers))"

section \<open>Parents of performance monitoring entities\<close>

definition mibGet :: "OmciLib \<Rightarrow> Key \<Rightarrow> u16 \<Rightarrow> ('w, Instance \<times> go_error option) act" where
  "mibGet lib key requested e w = (Get (classes lib) (mib e) key requested, e, w)"

text \<open>\<open>instance, err := e.mib.Get(...)\<close> for a caller that gives up on any error.\<close>

definition mibGetAll :: "OmciLib \<Rightarrow> Key \<Rightarrow> u16 \<Rightarrow> ('w, Instance) act" where
  "mibGetAll lib key requested =
     bindE (mibGet lib key requested) (\<lambda>(inst, err). case err of Some x \<Rightarrow> failE x | None \<Rightarrow> returnE inst)"

text \<open>\<open>MibSnapshot\<close> is \<open>e.mib.Snapshot()\<close>: the instances sorted by key.\<close>

definition MibSnapshot :: "'w OmciEngine \<Rightarrow> Instance list" where
  "MibSnapshot e = snapshotInstances (current (mib e))"

definition resolveEthernetPerformanceUNI :: "OmciLib \<Rightarrow> Key \<Rightarrow> ('w, u16) act" where
  "resolveEthernetPerformanceUNI lib key =
     (let checkUNI = (\<lambda>uni. bindE (getE (\<lambda>e. Exists (mib e) (Key PptpEthernetUniClassID uni))) (\<lambda>ok.
            if \<not> ok then failE (Errorf ''Ethernet PM references missing PPTP Ethernet UNI %#x'' [AU uni])
            else returnE uni)) in
      if ClassID key = EthernetPerformanceClassID \<or> ClassID key = EthernetPerformance3ClassID then checkUNI (EntityID key)
      else if ClassID key = EthernetFrameDownstreamClassID \<or> ClassID key = EthernetFrameUpstreamClassID
      then bindE (wrapE (\<lambda>err. Errorf ''Ethernet frame PM parent: %w'' [AErr err])
             (mibGetAll lib (Key MacBridgePortClassID (EntityID key)) 0x3000)) (\<lambda>port.
           if map_of (Attributes port) ''TpType'' \<noteq> Some (VU8 1)
           then failE (Errorf ''Ethernet frame PM requires a PPTP Ethernet UNI bridge port'' [])
           else case map_of (Attributes port) ''TpPointer'' of
             Some (VU16 uni) \<Rightarrow> checkUNI uni
           | _ \<Rightarrow> failE (Errorf ''Ethernet frame PM parent has an invalid TP pointer'' []))
      else failE (Errorf ''unsupported Ethernet performance class %v'' [AU (ClassID key)]))"

definition bridgePortHasPerformance :: "'w OmciEngine \<Rightarrow> u16 \<Rightarrow> bool" where
  "bridgePortHasPerformance e entityID =
     (Exists (mib e) (Key EthernetFrameDownstreamClassID entityID) \<or> Exists (mib e) (Key EthernetFrameUpstreamClassID entityID))"

definition bridgePortAssociationChanged :: "attribute_map \<Rightarrow> bool" where
  "bridgePortAssociationChanged attrs =
     (map_of attrs ''TpType'' \<noteq> None \<or> map_of attrs ''TpPointer'' \<noteq> None)"

end
