(* ===== verification/Software.thy ===== *)
theory Software
  imports EngRules
begin

unbundle bit_operations_syntax

text \<open>
  The software image state machine (src/internal/engine/software.go). An image arrives as sections in
  windows: the last section of a window asks for a response, and the whole window is then written to
  the sink. \<open>End\<close> checks the size and the CRC and starts a goroutine that finishes the image
  (\<open>finishGoroutine\<close> is its step); the OLT repeats \<open>End\<close> until it has. Strings hold ASCII.
\<close>

section \<open>Helpers\<close>

definition softwareKey :: "u16 \<Rightarrow> Key" where "softwareKey entityID = Key SoftwareImageClassID entityID"

definition boolOctet :: "bool \<Rightarrow> u8" where "boolOctet b = (if b then 1 else 0)"

definition isSpace :: "char \<Rightarrow> bool" where
  "isSpace c = (let n = (of_char c :: nat) in n = 32 \<or> 9 \<le> n \<and> n \<le> 13)"

definition trimSpace :: "string \<Rightarrow> string" where
  "trimSpace s = rev (dropWhile isSpace (rev (dropWhile isSpace s)))"

definition fixedOctets :: "string \<Rightarrow> nat \<Rightarrow> bytes" where
  "fixedOctets val n = (let octets = map of_char (take n (trimSpace val)) in octets @ replicate (n - length octets) 0)"

definition zeroOctets :: "bytes \<Rightarrow> bool" where
  "zeroOctets octets = list_all (\<lambda>octet. octet = 0) octets"

definition hexDigit :: "u8 \<Rightarrow> char" where
  "hexDigit n = (''0123456789abcdef'' ! unat n)"

definition hexEncode :: "bytes \<Rightarrow> string" where
  "hexEncode octets = concat (map (\<lambda>x. [hexDigit (drop_bit 4 x), hexDigit (x AND 0x0f)]) octets)"

record imageFlags =
  active :: bool
  committed :: bool
  valid :: bool

definition noFlags :: imageFlags where "noFlags = \<lparr> active = False, committed = False, valid = False \<rparr>"

definition softwareImage :: "OmciLib \<Rightarrow> u16 \<Rightarrow> ('w, imageFlags \<times> u8) act" where
  "softwareImage lib entityID =
     bindE (tryE (mibGetAll lib (softwareKey entityID) 0x7000)) (\<lambda>r. case r of
       Inl err \<Rightarrow> returnE (noFlags, fst (operationResult (Some err)))
     | Inr inst \<Rightarrow>
         (case (map_of (Attributes inst) ''IsActive'', map_of (Attributes inst) ''IsCommitted'',
                map_of (Attributes inst) ''IsValid'') of
            (Some (VU8 a), Some (VU8 c), Some (VU8 v)) \<Rightarrow>
              returnE (\<lparr> active = (a = 1), committed = (c = 1), valid = (v = 1) \<rparr>, Success)
          | _ \<Rightarrow> returnE (noFlags, ProcessingError)))"

definition setExclusiveSoftwareFlag :: "OmciLib \<Rightarrow> u16 \<Rightarrow> string \<Rightarrow> 'w CommandTransaction option \<Rightarrow> ('w, unit) act" where
  "setExclusiveSoftwareFlag lib selected attribute transaction =
     storeE (UpdateByCommandTransactional (classes lib)
       (map (\<lambda>entityID. (softwareKey entityID, [(attribute, VU8 (if entityID = selected then 1 else 0))])) [0, 1])
       transaction)"

text \<open>The methods that a flag update calls: the update's error is only a failure to the caller.\<close>

definition succeeds :: "('w, 'a) act \<Rightarrow> ('w, bool) act" where
  "succeeds m = bindE (tryE m) (\<lambda>r. returnE (case r of Inl _ \<Rightarrow> False | Inr _ \<Rightarrow> True))"

section \<open>Boot slots\<close>

definition checkImage :: "Image \<Rightarrow> u16 list \<times> nat \<times> nat \<Rightarrow> (go_error, u16 list \<times> nat \<times> nat) outcome" where
  "checkImage img = (\<lambda>(seen, nActive, nCommitted).
     if ImageEntity img > 1 \<or> length (ImageVersion img) > 14 \<or> length (ImageProductCode img) > 25
     then Err (Errorf ''software backend returned invalid image metadata for %#x'' [AU (ImageEntity img)])
     else if ImageEntity img \<in> set seen
     then Err (Errorf ''software backend returned duplicate image %#x'' [AU (ImageEntity img)])
     else if (ImageActive img \<or> ImageCommitted img) \<and> \<not> ImageValid img
     then Err (Errorf ''software backend returned invalid selected image %#x'' [AU (ImageEntity img)])
     else Ok (ImageEntity img # seen, nActive + (if ImageActive img then 1 else 0),
              nCommitted + (if ImageCommitted img then 1 else 0)))"

definition imageAttributes :: "Image \<Rightarrow> attribute_map" where
  "imageAttributes img =
     [(''Version'', VOctets (fixedOctets (ImageVersion img) 14)),
      (''IsCommitted'', VU8 (boolOctet (ImageCommitted img))), (''IsActive'', VU8 (boolOctet (ImageActive img))),
      (''IsValid'', VU8 (boolOctet (ImageValid img))),
      (''ProductCode'', VOctets (fixedOctets (ImageProductCode img) 25)),
      (''ImageHash'', VOctets (ImageHash img))]"

definition RefreshSoftwareImages :: "OmciLib \<Rightarrow> ('w, unit) act" where
  "RefreshSoftwareImages lib =
     bindE (getE software) (\<lambda>backend. case backend of
       None \<Rightarrow> returnE ()
     | Some sw \<Rightarrow> bindE (callE (Images sw)) (\<lambda>images.
         if length images \<noteq> 2
         then failE (Errorf ''software backend returned %d images, want 2'' [AN (length images)])
         else bindE (pureE (foldR checkImage images ([], 0, 0))) (\<lambda>(_, nActive, nCommitted).
           if nActive \<noteq> 1 \<or> nCommitted \<noteq> 1
           then failE (Errorf ''software backend returned inconsistent image flags'' [])
           else forE (\<lambda>img _. thenE
               (wrapE (\<lambda>err. Errorf ''import software image %#x: %w'' [AU (ImageEntity img), AErr err])
                 (storeE (UpdateAutonomous (classes lib) (softwareKey (ImageEntity img)) (imageAttributes img))))
               (returnE ())) images ())))"

section \<open>Downloading\<close>

definition softwareDownloadBusy :: "'w OmciEngine \<Rightarrow> bool" where
  "softwareDownloadBusy e = (case download e of
     None \<Rightarrow> False | Some d \<Rightarrow> phase d = softwareReceiving \<or> phase d = softwareFinalizing)"

definition setDownload :: "'w softwareDownload \<Rightarrow> ('w, unit) act" where
  "setDownload d = putE (\<lambda>e. e\<lparr>download := Some d\<rparr>)"

definition newDownload :: "StartSoftwareDownload \<Rightarrow> u8 \<Rightarrow> 'w Download \<Rightarrow> 'w softwareDownload" where
  "newDownload request device target =
     \<lparr> downloadEntity = EntityInstance request, downloadDevice = device, expectedSize = ImageSize request,
       received = 0, windowSize = ucast (WindowSize request) + 1, expectedSection = 0, window = [],
       windowFailed = False, sink = target, crc = CRC32AInitial, md5 = [], phase = softwareReceiving,
       endRequest = \<lparr> endEntity = 0, endDevice = 0, endCRC = 0, endSize = 0 \<rparr>, finishing = False, finish = None,
       finished = None, imageHash = replicate 16 0 \<rparr>"

definition startSoftwareDownload :: "OmciLib \<Rightarrow> StartSoftwareDownload \<Rightarrow> u8 \<Rightarrow> ('w, u8) act" where
  "startSoftwareDownload lib request device =
     bindE (getE (\<lambda>e. e)) (\<lambda>e. case software e of
       None \<Rightarrow> returnE NotSupported
     | Some sw \<Rightarrow>
         if softwareDownloadBusy e then returnE DeviceBusy
         else if EntityClass request \<noteq> SoftwareImageClassID then returnE UnknownEntity
         else if EntityInstance request > 1 then returnE UnknownInstance
         else if ImageSize request = 0 \<or> NumberOfCircuitPacks request \<noteq> 1 \<or> length (CircuitPacks request) \<noteq> 1
           \<or> CircuitPacks request ! 0 \<noteq> EntityInstance request
         then returnE ParameterError
         else bindE (softwareImage lib (EntityInstance request)) (\<lambda>(img, result).
           if result \<noteq> Success then returnE result
           else if active img \<or> committed img then returnE ParameterError
           else thenE (putE (\<lambda>e. e\<lparr>download := None\<rparr>))
             (bindE (tryE (callE (StartDownload sw (EntityInstance request) (ImageSize request)))) (\<lambda>r. case r of
               Inl _ \<Rightarrow> returnE ProcessingError
             | Inr target \<Rightarrow>
                 bindE (succeeds (storeE (UpdateByCommand (classes lib)
                          [(softwareKey (EntityInstance request), [(''IsValid'', VU8 0)])]))) (\<lambda>ok.
                   if \<not> ok
                   then thenE (succeeds (errorCallE (SinkAbort target))) (returnE ProcessingError)
                   else thenE (setDownload (newDownload request device target))
                     (thenE (putE (\<lambda>e. e\<lparr>softwareState := \<lparr> StatusPhase = ''downloading'',
                               StatusImage = EntityInstance request, StatusBytes = 0,
                               StatusSize = ImageSize request, StatusHash = '''' \<rparr>\<rparr>))
                       (returnE Success)))))))"

definition resetSoftwareWindow :: "'w softwareDownload \<Rightarrow> 'w softwareDownload" where
  "resetSoftwareWindow d = d\<lparr>window := [], windowFailed := False, expectedSection := 0\<rparr>"

definition rejectSoftwareWindow :: "'w softwareDownload \<Rightarrow> bool \<Rightarrow> u8 \<Rightarrow> ('w, u8) act" where
  "rejectSoftwareWindow d acknowledged result =
     thenE (setDownload (d\<lparr>window := [], expectedSection := 0, windowFailed := \<not> acknowledged\<rparr>))
       (returnE (if acknowledged then result else Success))"

definition failSoftwareDownload :: "('w, unit) act" where
  "failSoftwareDownload =
     bindE (getE download) (\<lambda>d.
     thenE (case d of
         Some d \<Rightarrow> if phase d = softwareReceiving then succeeds (errorCallE (SinkAbort (sink d))) else returnE True
       | None \<Rightarrow> returnE True)
     (putE (\<lambda>e. e\<lparr>download := None, softwareState := (softwareState e)\<lparr>StatusPhase := ''failed''\<rparr>\<rparr>)))"

text \<open>The write of a complete window to the sink.\<close>

definition writeWindow :: "'w softwareDownload \<Rightarrow> ('w, u8) act" where
  "writeWindow d =
     (let finishWindow = (\<lambda>d. thenE (setDownload (resetSoftwareWindow d))
            (thenE (putE (\<lambda>e. e\<lparr>softwareState := (softwareState e)\<lparr>StatusBytes := received d\<rparr>\<rparr>)) (returnE Success))) in
      if window d = [] then finishWindow d
      else bindE (callE (\<lambda>w. case SinkWrite (sink d) (window d) w of (r, w') \<Rightarrow> (Ok r, w'))) (\<lambda>(written, err).
        if err \<noteq> None \<or> written \<noteq> int (length (window d))
        then thenE failSoftwareDownload (returnE ProcessingError)
        else finishWindow (d\<lparr>crc := UpdateCRC32A (crc d) (window d), md5 := md5 d @ window d,
                            received := received d + of_nat (length (window d))\<rparr>)))"

text \<open>A section in its place: its data, cut to the image's size, joins the window.\<close>

definition acceptSection :: "'w softwareDownload \<Rightarrow> DownloadSection \<Rightarrow> u8 \<Rightarrow> bool \<Rightarrow> ('w, u8) act" where
  "acceptSection d request device acknowledged =
     (let remaining = unat (expectedSize d - received d - of_nat (length (window d))); octets = SectionData request in
      if length octets > remaining \<and> (device \<noteq> BaselineIdent \<or> \<not> zeroOctets (drop remaining octets))
      then rejectSoftwareWindow d acknowledged ProcessingError
      else
        let d' = d\<lparr>window := window d @ take remaining octets\<rparr>;
            next = (ucast (expectedSection d) :: u16) + 1 in
        if acknowledged then writeWindow d'
        else if next \<ge> windowSize d'
        then thenE (setDownload (d'\<lparr>window := [], windowFailed := True, expectedSection := 0\<rparr>)) (returnE Success)
        else thenE (setDownload (d'\<lparr>expectedSection := ucast next\<rparr>)) (returnE Success))"

definition downloadSoftwareSection :: "DownloadSection \<Rightarrow> u8 \<Rightarrow> bool \<Rightarrow> ('w, u8) act" where
  "downloadSoftwareSection request device acknowledged =
     bindE (getE download) (\<lambda>dl. case dl of
       None \<Rightarrow> returnE ProcessingError
     | Some d \<Rightarrow>
         if phase d \<noteq> softwareReceiving then returnE ProcessingError
         else if EntityClass request \<noteq> SoftwareImageClassID \<or> EntityInstance request \<noteq> downloadEntity d
           \<or> device \<noteq> downloadDevice d
         then returnE ParameterError
         else if SectionData request = [] then rejectSoftwareWindow d acknowledged ParameterError
         else if windowFailed d \<and> SectionNumber request \<noteq> 0
         then (if acknowledged then thenE (setDownload (resetSoftwareWindow d)) (returnE ProcessingError)
               else returnE Success)
         else
           let d' = (if windowFailed d then resetSoftwareWindow d else d) in
           if SectionNumber request \<noteq> expectedSection d' then rejectSoftwareWindow d' acknowledged ProcessingError
           else acceptSection d' request device acknowledged)"

section \<open>Finishing\<close>

definition validEnd :: "'w softwareDownload \<Rightarrow> EndSoftwareDownload \<Rightarrow> bool" where
  "validEnd d request =
     (EndImageSize request = expectedSize d \<and> EndImageSize request = received d \<and> NumberOfInstances request = 1
      \<and> length (ImageInstances request) = 1 \<and> ImageInstances request ! 0 = downloadEntity d \<and> window d = []
      \<and> \<not> windowFailed d \<and> expectedSection d = 0)"

definition softwareFinishStatus :: "OmciLib \<Rightarrow> 'w softwareDownload \<Rightarrow> ('w, u8) act" where
  "softwareFinishStatus lib d =
     (case phase d of
        softwareComplete \<Rightarrow> returnE Success
      | softwareFailed \<Rightarrow> returnE ProcessingError
      | softwareReceiving \<Rightarrow> returnE ProcessingError
      | softwareFinalizing \<Rightarrow>
          (case (if finished d = None then finish d else finished d) of
             None \<Rightarrow> returnE DeviceBusy
           | Some result \<Rightarrow>
               let d = d\<lparr>finished := Some result\<rparr>;
                   fail = thenE (setDownload (d\<lparr>phase := softwareFailed\<rparr>))
                     (thenE (putE (\<lambda>e. e\<lparr>softwareState := (softwareState e)\<lparr>StatusPhase := ''failed''\<rparr>\<rparr>))
                       (returnE ProcessingError)) in
               (case result of
                  Ok metadata \<Rightarrow>
                    if length (MetadataVersion metadata) > 14 \<or> length (MetadataProductCode metadata) > 25 then fail
                    else
                      let product = (if trimSpace (MetadataProductCode metadata) = '''' then ''XG2010G''
                                     else MetadataProductCode metadata);
                          d = d\<lparr>finished := Some (Ok (metadata\<lparr>MetadataProductCode := product\<rparr>))\<rparr> in
                      bindE (succeeds (storeE (UpdateByCommand (classes lib) [(softwareKey (downloadEntity d),
                          [(''Version'', VOctets (fixedOctets (MetadataVersion metadata) 14)), (''IsValid'', VU8 1),
                           (''ProductCode'', VOctets (fixedOctets product 25)),
                           (''ImageHash'', VOctets (imageHash d))])]))) (\<lambda>ok.
                        if \<not> ok then thenE (setDownload d) (returnE ProcessingError)
                        else thenE (setDownload (d\<lparr>phase := softwareComplete\<rparr>))
                          (thenE (putE (\<lambda>e. e\<lparr>softwareState := (softwareState e)\<lparr>StatusPhase := ''staged'',
                              StatusBytes := expectedSize d, StatusHash := hexEncode (imageHash d)\<rparr>\<rparr>))
                            (returnE Success)))
                | _ \<Rightarrow> fail)))"

definition endSoftwareDownload :: "OmciLib \<Rightarrow> EndSoftwareDownload \<Rightarrow> u8 \<Rightarrow> ('w, u8) act" where
  "endSoftwareDownload lib request device =
     bindE (getE download) (\<lambda>dl. case dl of
       None \<Rightarrow> returnE ProcessingError
     | Some d \<Rightarrow>
         if EntityClass request \<noteq> SoftwareImageClassID then returnE UnknownEntity
         else if EntityInstance request > 1 then returnE UnknownInstance
         else if EntityInstance request \<noteq> downloadEntity d \<or> device \<noteq> downloadDevice d then returnE ProcessingError
         else
           let ending = \<lparr> endEntity = EntityInstance request, endDevice = device, endCRC = EndCRC32 request,
                        endSize = EndImageSize request \<rparr> in
           if phase d \<noteq> softwareReceiving
           then (if ending \<noteq> endRequest d then returnE ProcessingError else softwareFinishStatus lib d)
           else if \<not> validEnd d request \<or> EndCRC32 request \<noteq> SumCRC32A (crc d)
           then thenE failSoftwareDownload (returnE ProcessingError)
           else thenE (setDownload (d\<lparr>phase := softwareFinalizing, endRequest := ending,
                    imageHash := md5Sum lib (md5 d), finishing := True\<rparr>))
                 (thenE (putE (\<lambda>e. e\<lparr>softwareState := (softwareState e)\<lparr>StatusPhase := ''finalizing''\<rparr>\<rparr>))
                   (returnE DeviceBusy)))"

text \<open>The goroutine that \<open>End\<close> starts: it finishes the image and sends the result to its channel.\<close>

definition finishGoroutine :: "('w, unit) act" where
  "finishGoroutine =
     bindE (getE download) (\<lambda>dl. case dl of
       None \<Rightarrow> returnE ()
     | Some d \<Rightarrow>
         if \<not> finishing d then returnE ()
         else bindE (\<lambda>e w. case SinkFinish (sink d) w of (r, w') \<Rightarrow> (Ok r, e, w')) (\<lambda>result.
           setDownload (d\<lparr>finishing := False, finish := Some result\<rparr>)))"

section \<open>Activation and commitment\<close>

definition activateSoftware :: "OmciLib \<Rightarrow> ActivateSoftware \<Rightarrow> ('w, u8) act" where
  "activateSoftware lib request =
     bindE (getE (\<lambda>e. e)) (\<lambda>e. case software e of
       None \<Rightarrow> returnE NotSupported
     | Some sw \<Rightarrow>
         if softwareDownloadBusy e then returnE DeviceBusy
         else if EntityClass request \<noteq> SoftwareImageClassID then returnE UnknownEntity
         else if EntityInstance request > 1 then returnE UnknownInstance
         else bindE (softwareImage lib (EntityInstance request)) (\<lambda>(img, result).
           if result \<noteq> Success then returnE result
           else if \<not> valid img then returnE ParameterError
           else bindE (tryE (callE (PrepareActivate sw (EntityInstance request) (ActivateFlags request)))) (\<lambda>r. case r of
             Inl _ \<Rightarrow> returnE ProcessingError
           | Inr transaction \<Rightarrow>
               bindE (succeeds (setExclusiveSoftwareFlag lib (EntityInstance request) ''IsActive'' transaction)) (\<lambda>ok.
                 if \<not> ok then returnE ProcessingError
                 else thenE (putE (\<lambda>e. e\<lparr>softwareState := (softwareState e)\<lparr>StatusPhase := ''activating'',
                           StatusImage := EntityInstance request\<rparr>\<rparr>))
                       (returnE Success)))))"

definition commitSoftware :: "OmciLib \<Rightarrow> MePacket \<Rightarrow> ('w, u8) act" where
  "commitSoftware lib request =
     bindE (getE (\<lambda>e. e)) (\<lambda>e. case software e of
       None \<Rightarrow> returnE NotSupported
     | Some sw \<Rightarrow>
         if softwareDownloadBusy e then returnE DeviceBusy
         else if EntityClass request \<noteq> SoftwareImageClassID then returnE UnknownEntity
         else if EntityInstance request > 1 then returnE UnknownInstance
         else bindE (softwareImage lib (EntityInstance request)) (\<lambda>(img, result).
           if result \<noteq> Success then returnE result
           else if \<not> valid img then returnE ParameterError
           else if committed img then returnE Success
           else bindE (tryE (callE (PrepareCommit sw (EntityInstance request)))) (\<lambda>r. case r of
             Inl _ \<Rightarrow> returnE ProcessingError
           | Inr transaction \<Rightarrow>
               bindE (succeeds (setExclusiveSoftwareFlag lib (EntityInstance request) ''IsCommitted'' transaction)) (\<lambda>ok.
                 if \<not> ok then returnE ProcessingError
                 else thenE (putE (\<lambda>e. e\<lparr>softwareState := (softwareState e)\<lparr>StatusPhase := ''committed'',
                           StatusImage := EntityInstance request\<rparr>\<rparr>))
                       (returnE Success)))))"

end
