(* ===== verification/EngLogic.thy ===== *)
theory EngLogic
  imports EngTypes
begin

text \<open>
  Weakest preconditions of engine methods: \<open>wpE m Q R e w\<close> says that \<open>m\<close> started in \<open>e\<close> and \<open>w\<close> ends
  with a value for which \<open>Q\<close> holds of the value and the new state, or with an error (or a panic) in
  a state with \<open>R\<close>. The collection \<open>wpE\<close> computes them over the combinators.
\<close>

named_theorems wpE \<open>weakest preconditions of engine methods\<close>

definition wpE :: "('w, 'a) act \<Rightarrow> ('a \<Rightarrow> 'w OmciEngine \<Rightarrow> 'w \<Rightarrow> bool) \<Rightarrow> ('w OmciEngine \<Rightarrow> 'w \<Rightarrow> bool)
    \<Rightarrow> 'w OmciEngine \<Rightarrow> 'w \<Rightarrow> bool" where
  "wpE m Q R e w = (case m e w of (Ok x, e', w') \<Rightarrow> Q x e' w' | (_, e', w') \<Rightarrow> R e' w')"

lemma wpE_pure [wpE]: "wpE (pureE r) Q R = (\<lambda>e w. (case r of Ok x \<Rightarrow> Q x e w | _ \<Rightarrow> R e w))"
  by (intro ext) (simp add: wpE_def pureE_def split: outcome.splits)

lemma wpE_bind [wpE]: "wpE (bindE m k) Q R = (\<lambda>e w. wpE m (\<lambda>x. wpE (k x) Q R) R e w)"
  by (intro ext) (simp add: wpE_def bindE_def split: outcome.splits prod.splits)

lemma wpE_try [wpE]: "wpE (tryE m) Q R = (\<lambda>e w. (case m e w of (Ok x, e', w') \<Rightarrow> Q (Inr x) e' w' | (Err err, e', w') \<Rightarrow> Q (Inl err) e' w'
     | (Panic, e', w') \<Rightarrow> R e' w'))"
  by (intro ext) (simp add: wpE_def tryE_def split: outcome.splits prod.splits)

lemma wpE_wrap [wpE]: "wpE (wrapE f m) Q R = wpE m Q R"
  by (intro ext) (simp add: wpE_def wrapE_def mapErr_def split: outcome.splits prod.splits)

lemma wpE_get [wpE]: "wpE (getE f) Q R = (\<lambda>e w. Q (f e) e w)"
  by (intro ext) (simp add: wpE_def getE_def)

lemma wpE_put [wpE]: "wpE (putE f) Q R = (\<lambda>e w. Q () (f e) w)"
  by (intro ext) (simp add: wpE_def putE_def)

lemma wpE_call [wpE]: "wpE (callE f) Q R = (\<lambda>e w. (case f w of (Ok x, w') \<Rightarrow> Q x e w' | (_, w') \<Rightarrow> R e w'))"
  by (intro ext) (simp add: wpE_def callE_def split: outcome.splits prod.splits)

lemma wpE_errorCall [wpE]:
  "wpE (errorCallE f) Q R = (\<lambda>e w. (case f w of (None, w') \<Rightarrow> Q () e w' | (_, w') \<Rightarrow> R e w'))"
  by (intro ext) (simp add: wpE_def errorCallE_def split: option.splits prod.splits)

lemma wpE_now [wpE]: "wpE nowE Q R = (\<lambda>e w. (case clock e w of (t, w') \<Rightarrow> Q t e w'))"
  by (intro ext) (simp add: wpE_def nowE_def split: prod.splits)

lemma wpE_store [wpE]: "wpE (storeE op) Q R = (\<lambda>e w. (case op (mib e) w of (Ok x, s, w') \<Rightarrow> Q x (e\<lparr>mib := s\<rparr>) w' | (_, s, w') \<Rightarrow> R (e\<lparr>mib := s\<rparr>) w'))"
  by (intro ext) (simp add: wpE_def storeE_def split: outcome.splits prod.splits)

lemma wpE_case_option [wpE]:
  "wpE (case x of None \<Rightarrow> m | Some y \<Rightarrow> k y) Q R = (\<lambda>e w. (case x of None \<Rightarrow> wpE m Q R e w | Some y \<Rightarrow> wpE (k y) Q R e w))"
  by (intro ext) (simp split: option.splits)

lemma wpE_case_sum [wpE]:
  "wpE (case x of Inl a \<Rightarrow> m a | Inr b \<Rightarrow> k b) Q R = (\<lambda>e w. (case x of Inl a \<Rightarrow> wpE (m a) Q R e w | Inr b \<Rightarrow> wpE (k b) Q R e w))"
  by (intro ext) (simp split: sum.splits)

lemma wpE_case_prod [wpE]:
  "wpE (case x of (a, b) \<Rightarrow> m a b) Q R = (\<lambda>e w. (case x of (a, b) \<Rightarrow> wpE (m a b) Q R e w))"
  by (intro ext) (simp split: prod.splits)

lemma wpE_if [wpE]: "wpE (if b then m else k) Q R = (\<lambda>e w. (if b then wpE m Q R e w else wpE k Q R e w))"
  by (intro ext) simp

lemma wpE_mono: "wpE m Q R e w \<Longrightarrow> (\<And>x e w. Q x e w \<Longrightarrow> Q' x e w) \<Longrightarrow> (\<And>e w. R e w \<Longrightarrow> R' e w) \<Longrightarrow> wpE m Q' R' e w"
  by (cases "m e w"; cases "fst (m e w)") (auto simp: wpE_def)

text \<open>
  A method keeps a property of the engine: it holds after the method, however the method ends.
\<close>

definition keepsE :: "('w OmciEngine \<Rightarrow> bool) \<Rightarrow> ('w, 'a) act \<Rightarrow> bool" where
  "keepsE P m = (\<forall>e w. P e \<longrightarrow> P (fst (snd (m e w))))"

named_theorems keepsE \<open>methods that keep a property\<close>

lemma keepsE_D: "keepsE P m \<Longrightarrow> P e \<Longrightarrow> P (fst (snd (m e w)))"
  by (simp add: keepsE_def)

lemma keepsE_wp: "keepsE P m = (\<forall>e w. P e \<longrightarrow> wpE m (\<lambda>_ e _. P e) (\<lambda>e _. P e) e w)"
proof -
  have "P (fst (snd (m e w))) = wpE m (\<lambda>_ e _. P e) (\<lambda>e _. P e) e w" for e w
    by (cases "m e w"; cases "fst (m e w)") (auto simp: wpE_def)
  then show ?thesis by (simp add: keepsE_def)
qed

lemma keepsE_pure [keepsE]: "keepsE P (pureE r)" by (simp add: keepsE_def pureE_def)
lemma keepsE_get [keepsE]: "keepsE P (getE f)" by (simp add: keepsE_def getE_def)
lemma keepsE_call [keepsE]: "keepsE P (callE f)" by (simp add: keepsE_def callE_def split: prod.splits)
lemma keepsE_now [keepsE]: "keepsE P nowE" by (simp add: keepsE_def nowE_def split: prod.splits)
lemma keepsE_errorCall [keepsE]: "keepsE P (errorCallE f)"
  by (simp add: keepsE_def errorCallE_def split: prod.splits option.splits)

lemma keepsE_bind [keepsE]: "keepsE P m \<Longrightarrow> (\<And>x. keepsE P (k x)) \<Longrightarrow> keepsE P (bindE m k)"
  unfolding keepsE_wp wpE_bind by (blast intro: wpE_mono)

lemma keepsE_try [keepsE]: "keepsE P m \<Longrightarrow> keepsE P (tryE m)"
proof -
  assume keep: "keepsE P m"
  have "fst (snd (tryE m e w)) = fst (snd (m e w))" for e w
    by (cases "m e w"; cases "fst (m e w)") (auto simp: tryE_def)
  with keep show ?thesis by (simp add: keepsE_def)
qed

lemma keepsE_wrap [keepsE]: "keepsE P m \<Longrightarrow> keepsE P (wrapE f m)"
  by (simp add: keepsE_wp wpE_wrap)

lemma keepsE_put [keepsE]: "(\<And>e. P e \<Longrightarrow> P (f e)) \<Longrightarrow> keepsE P (putE f)"
  by (simp add: keepsE_def putE_def)

lemma keepsE_store [keepsE]: "(\<And>e w. P e \<Longrightarrow> P (e\<lparr>mib := fst (snd (op (mib e) w))\<rparr>)) \<Longrightarrow> keepsE P (storeE op)"
  by (auto simp: keepsE_def storeE_def case_prod_beta)

lemma keepsE_for [keepsE]: "(\<And>x s. keepsE P (f x s)) \<Longrightarrow> keepsE P (forE f xs s)"
  by (induction xs arbitrary: s) (simp_all add: keepsE)

lemma keepsE_option [keepsE]:
  "keepsE P m \<Longrightarrow> (\<And>y. keepsE P (k y)) \<Longrightarrow> keepsE P (case x of None \<Rightarrow> m | Some y \<Rightarrow> k y)"
  by (cases x) simp_all

lemma keepsE_sum [keepsE]:
  "(\<And>a. keepsE P (m a)) \<Longrightarrow> (\<And>b. keepsE P (k b)) \<Longrightarrow> keepsE P (case x of Inl a \<Rightarrow> m a | Inr b \<Rightarrow> k b)"
  by (cases x) simp_all

lemma keepsE_prod [keepsE]: "(\<And>a b. keepsE P (m a b)) \<Longrightarrow> keepsE P (case x of (a, b) \<Rightarrow> m a b)"
  by (cases x) simp

lemma keepsE_if [keepsE]: "keepsE P m \<Longrightarrow> keepsE P k \<Longrightarrow> keepsE P (if b then m else k)"
  by simp

text \<open>A method gives a property: the value that it returns has it.\<close>

definition givesE :: "('a \<Rightarrow> bool) \<Rightarrow> ('w, 'a) act \<Rightarrow> bool" where
  "givesE R m = (\<forall>e w. case fst (m e w) of Ok x \<Rightarrow> R x | _ \<Rightarrow> True)"

named_theorems givesE \<open>what methods return\<close>

lemma givesE_bind_gives:
  assumes "givesE S m" "\<And>x. S x \<Longrightarrow> givesE R (k x)" shows "givesE R (bindE m k)"
  unfolding givesE_def
proof (intro allI)
  fix e w
  obtain r e' w' where m: "m e w = (r, e', w')" by (cases "m e w")
  with assms show "case fst (bindE m k e w) of Ok x \<Rightarrow> R x | _ \<Rightarrow> True"
    by (cases r) (auto simp: givesE_def bindE_def dest!: spec [of _ e] spec [of _ w])
qed

lemma givesE_bind [givesE]: "(\<And>x. givesE R (k x)) \<Longrightarrow> givesE R (bindE m k)"
  by (rule givesE_bind_gives [where S = "\<lambda>_. True"]) (simp_all add: givesE_def split: outcome.splits)

lemma givesE_pure [givesE]: "(\<And>x. r = Ok x \<Longrightarrow> R x) \<Longrightarrow> givesE R (pureE r)"
  by (simp add: givesE_def pureE_def split: outcome.splits)

lemma givesE_try: "givesE R m \<Longrightarrow> givesE (\<lambda>r. case r of Inl _ \<Rightarrow> True | Inr x \<Rightarrow> R x) (tryE m)"
  unfolding givesE_def
proof (intro allI)
  fix e w assume "\<forall>e w. case fst (m e w) of Ok x \<Rightarrow> R x | _ \<Rightarrow> True"
  then have "case fst (m e w) of Ok x \<Rightarrow> R x | _ \<Rightarrow> True" by blast
  then show "case fst (tryE m e w) of Ok r \<Rightarrow> (case r of Inl _ \<Rightarrow> True | Inr x \<Rightarrow> R x) | _ \<Rightarrow> True"
    by (cases "m e w"; cases "fst (m e w)") (auto simp: tryE_def)
qed

lemma givesE_for: "R s \<Longrightarrow> (\<And>x s. R s \<Longrightarrow> givesE R (f x s)) \<Longrightarrow> givesE R (forE f xs s)"
  by (induction xs arbitrary: s) (auto intro!: givesE_pure givesE_bind_gives [of R])

lemma givesE_if [givesE]: "givesE R m \<Longrightarrow> givesE R k \<Longrightarrow> givesE R (if b then m else k)"
  by simp

lemma givesE_prod [givesE]: "(\<And>a b. givesE R (m a b)) \<Longrightarrow> givesE R (case x of (a, b) \<Rightarrow> m a b)"
  by (cases x) simp

lemma keepsE_bind_gives:
  assumes "keepsE P m" "givesE R m" "\<And>x. R x \<Longrightarrow> keepsE P (k x)" shows "keepsE P (bindE m k)"
  unfolding keepsE_def
proof (intro allI impI)
  fix e w assume "P e"
  obtain r e' w' where m: "m e w = (r, e', w')" by (cases "m e w")
  with assms(1) \<open>P e\<close> have "P e'" using keepsE_D [of P m e w] by simp
  with m assms(2,3) show "P (fst (snd (bindE m k e w)))"
    by (cases r) (auto simp: givesE_def bindE_def keepsE_def dest!: spec [of _ e] spec [of _ w])
qed

end
