(* ===== verification/SoftwareProofs.thy ===== *)
theory SoftwareProofs
  imports Software EngLogic
begin

text \<open>
  Properties of the software image state machine: what is finished is the image that was announced
  and checked (\<open>imageIntact\<close>), in every state that requests reach.
\<close>

section \<open>Integrity\<close>

definition imageIntact :: "OmciLib \<Rightarrow> 'w softwareDownload \<Rightarrow> bool" where
  "imageIntact lib d \<longleftrightarrow>
     unat (received d) = length (md5 d) \<and> length (md5 d) + length (window d) \<le> unat (expectedSize d)
     \<and> crc d = UpdateCRC32A CRC32AInitial (md5 d)
     \<and> (phase d \<noteq> softwareReceiving \<longrightarrow>
          length (md5 d) = unat (endSize (endRequest d)) \<and> endSize (endRequest d) = expectedSize d
          \<and> CRC32A (md5 d) = endCRC (endRequest d) \<and> imageHash d = md5Sum lib (md5 d)
          \<and> endEntity (endRequest d) = downloadEntity d \<and> endDevice (endRequest d) = downloadDevice d)"

definition downloadIntact :: "OmciLib \<Rightarrow> 'w OmciEngine \<Rightarrow> bool" where
  "downloadIntact lib e = (case download e of None \<Rightarrow> True | Some d \<Rightarrow> imageIntact lib d)"

abbreviation intactAfter :: "OmciLib \<Rightarrow> ('w, 'a) act \<Rightarrow> 'w OmciEngine \<Rightarrow> 'w \<Rightarrow> bool" where
  "intactAfter lib m e w \<equiv> wpE m (\<lambda>_ e _. downloadIntact lib e) (\<lambda>e _. downloadIntact lib e) e w"

lemma downloadIntact_simps [simp]:
  "downloadIntact lib (e\<lparr>mib := s\<rparr>) = downloadIntact lib e"
  "downloadIntact lib (e\<lparr>softwareState := st\<rparr>) = downloadIntact lib e"
  "downloadIntact lib (e\<lparr>download := None\<rparr>)"
  "downloadIntact lib (e\<lparr>download := Some d\<rparr>) = imageIntact lib d"
  by (simp_all add: downloadIntact_def)

lemma intact_set: "imageIntact lib d \<Longrightarrow> intactAfter lib (thenE (setDownload d) (returnE r)) e w"
  by (simp add: setDownload_def wpE)

lemma intact_reject: "imageIntact lib d \<Longrightarrow> intactAfter lib (rejectSoftwareWindow d a r) e w"
  unfolding rejectSoftwareWindow_def by (rule intact_set) (simp add: imageIntact_def)

lemma keeps_succeeds [keepsE]: "keepsE P m \<Longrightarrow> keepsE P (succeeds m)"
  unfolding succeeds_def by (intro keepsE)

lemma keeps_fail [keepsE]: "keepsE (downloadIntact lib) failSoftwareDownload"
  unfolding failSoftwareDownload_def by (intro keepsE) (auto simp: downloadIntact_def)

lemma imageIntact_reset: "imageIntact lib d \<Longrightarrow> imageIntact lib (resetSoftwareWindow d)"
  by (simp add: imageIntact_def resetSoftwareWindow_def)

lemma unat_add_length:
  "unat x = n \<Longrightarrow> n + k \<le> unat y \<Longrightarrow> unat (x + of_nat k) = n + k" for x y :: u32
  using unsigned_less [of y, where ?'a = nat]
  by (simp add: unat_word_ariths unat_of_nat)

text \<open>A window in place, written to the sink.\<close>

lemma imageIntact_written:
  assumes "imageIntact lib d" "phase d = softwareReceiving"
  shows "imageIntact lib (resetSoftwareWindow (d\<lparr>crc := UpdateCRC32A (crc d) (window d), md5 := md5 d @ window d,
    received := received d + of_nat (length (window d))\<rparr>))"
  using assms unat_add_length [of "received d" "length (md5 d)" "length (window d)" "expectedSize d"]
  by (simp add: imageIntact_def resetSoftwareWindow_def)

lemma intact_write:
  assumes "imageIntact lib d" "phase d = softwareReceiving" "downloadIntact lib e"
  shows "intactAfter lib (writeWindow d) e w"
proof (cases "window d = []")
  case True
  with assms show ?thesis by (simp add: writeWindow_def Let_def setDownload_def wpE imageIntact_reset)
next
  case False
  have "intactAfter lib failSoftwareDownload e w'" for w'
    by (rule keeps_fail [unfolded keepsE_wp, rule_format]) (fact assms)
  with False assms show ?thesis
    by (auto simp: writeWindow_def Let_def setDownload_def wpE imageIntact_written split: prod.splits)
qed

lemma unat_remaining:
  "imageIntact lib d \<Longrightarrow> unat (expectedSize d - received d - of_nat (length (window d)))
     = unat (expectedSize d) - length (md5 d) - length (window d)"
proof -
  assume ok: "imageIntact lib d"
  then have le: "length (md5 d) + length (window d) \<le> unat (expectedSize d)"
    and received: "unat (received d) = length (md5 d)" by (auto simp: imageIntact_def)
  have small: "unat (of_nat (length (window d)) :: u32) = length (window d)"
    using le unsigned_less [of "expectedSize d", where ?'a = nat] by (simp add: unat_of_nat)
  have "unat (expectedSize d - received d) = unat (expectedSize d) - length (md5 d)"
    using le received by (simp add: unat_sub word_le_nat_alt)
  then show ?thesis using le small by (simp add: unat_sub word_le_nat_alt)
qed

lemma imageIntact_window:
  "imageIntact lib d \<Longrightarrow> phase d = softwareReceiving \<Longrightarrow> length (window d) + length p \<le> unat (expectedSize d) - length (md5 d)
     \<Longrightarrow> imageIntact lib (d\<lparr>window := window d @ p\<rparr>)"
  by (auto simp: imageIntact_def)

lemma intact_accept:
  assumes "imageIntact lib d" "phase d = softwareReceiving" "downloadIntact lib e"
  shows "intactAfter lib (acceptSection d request device a) e w"
proof -
  let ?r = "unat (expectedSize d - received d - of_nat (length (window d)))"
  let ?d = "d\<lparr>window := window d @ take ?r (SectionData request)\<rparr>"
  have room: "length (md5 d) + length (window d) \<le> unat (expectedSize d)" using assms by (simp add: imageIntact_def)
  have ok: "imageIntact lib ?d"
    using assms room by (intro imageIntact_window) (auto simp: unat_remaining [OF assms(1)])
  then have cleared: "imageIntact lib (?d\<lparr>window := [], windowFailed := True, expectedSection := 0\<rparr>)"
    and next_ok: "imageIntact lib (?d\<lparr>expectedSection := k\<rparr>)" for k
    by (simp_all add: imageIntact_def)
  show ?thesis
    unfolding acceptSection_def Let_def wpE_if
    using intact_reject [OF assms(1)] intact_write [OF ok _ assms(3)] intact_set [OF cleared] intact_set [OF next_ok] assms(2)
    by (auto split: if_splits)
qed

lemma section_keeps [keepsE]: "keepsE (downloadIntact lib) (downloadSoftwareSection request device a)"
  unfolding keepsE_wp
proof (intro allI impI)
  fix e w assume ok: "downloadIntact lib e"
  show "intactAfter lib (downloadSoftwareSection request device a) e w"
  proof (cases "download e")
    case None
    with ok show ?thesis by (simp add: downloadSoftwareSection_def wpE)
  next
    case (Some d)
    with ok have d: "imageIntact lib d" by (simp add: downloadIntact_def)
    then have reset: "imageIntact lib (resetSoftwareWindow d)" by (rule imageIntact_reset)
    have same: "phase (resetSoftwareWindow d) = phase d" by (simp add: resetSoftwareWindow_def)
    from Some ok d reset show ?thesis
      by (simp add: downloadSoftwareSection_def wpE_bind wpE_get wpE_if wpE_pure Let_def same intact_reject
          intact_accept intact_set [unfolded wpE_bind])
        (simp add: wpE setDownload_def)
  qed
qed

lemma imageIntact_new: "imageIntact lib (newDownload request device target)"
  by (simp add: imageIntact_def newDownload_def)

lemma image_keeps [keepsE]: "keepsE P (softwareImage lib k)"
  unfolding softwareImage_def mibGetAll_def
  by (intro keepsE) (auto simp: keepsE_def mibGet_def pureE_def split: option.splits attr_value.splits)

lemma flag_keeps [keepsE]: "keepsE (downloadIntact lib) (setExclusiveSoftwareFlag lib' k attribute t)"
  unfolding setExclusiveSoftwareFlag_def by (intro keepsE) simp

lemma setDownload_keeps: "imageIntact lib d \<Longrightarrow> keepsE (downloadIntact lib) (setDownload d)"
  unfolding setDownload_def by (intro keepsE) simp

lemma start_keeps [keepsE]: "keepsE (downloadIntact lib) (startSoftwareDownload lib' request device)"
  unfolding startSoftwareDownload_def by (intro keepsE setDownload_keeps imageIntact_new) simp_all

lemma activate_keeps [keepsE]: "keepsE (downloadIntact lib) (activateSoftware lib' request)"
  unfolding activateSoftware_def by (intro keepsE) simp_all

lemma commit_keeps [keepsE]: "keepsE (downloadIntact lib) (commitSoftware lib' request)"
  unfolding commitSoftware_def by (intro keepsE) simp_all

lemma finish_keeps [keepsE]: "keepsE (downloadIntact lib) finishGoroutine"
  unfolding keepsE_wp by (auto simp: finishGoroutine_def setDownload_def wpE wpE_def downloadIntact_def imageIntact_def
      split: option.splits prod.splits)

lemma imageIntact_cong:
  "imageIntact lib d \<Longrightarrow> phase d \<noteq> softwareReceiving \<Longrightarrow> imageIntact lib (d\<lparr>finished := r, phase := p\<rparr>)"
  "imageIntact lib d \<Longrightarrow> imageIntact lib (d\<lparr>finished := r\<rparr>)"
  by (auto simp: imageIntact_def)

lemma wpE_succeeds_store [wpE]:
  "wpE (succeeds (storeE op)) Q R = (\<lambda>e w. case op (mib e) w of
     (Ok x, s, w') \<Rightarrow> Q True (e\<lparr>mib := s\<rparr>) w' | (Err x, s, w') \<Rightarrow> Q False (e\<lparr>mib := s\<rparr>) w'
   | (Panic, s, w') \<Rightarrow> R (e\<lparr>mib := s\<rparr>) w')"
  by (intro ext) (simp add: succeeds_def wpE_def bindE_def tryE_def storeE_def pureE_def split: prod.splits outcome.splits)

lemma intact_status:
  assumes "imageIntact lib d" "downloadIntact lib e"
  shows "intactAfter lib (softwareFinishStatus lib d) e w"
proof (cases "phase d = softwareFinalizing")
  case True
  show ?thesis
    using assms True
    by (auto simp: softwareFinishStatus_def Let_def setDownload_def wpE imageIntact_cong
        split: option.splits outcome.splits prod.splits)
next
  case False
  with assms show ?thesis by (cases "phase d") (simp_all add: softwareFinishStatus_def wpE)
qed

lemma end_keeps [keepsE]: "keepsE (downloadIntact lib) (endSoftwareDownload lib request device)"
  unfolding keepsE_wp
proof (intro allI impI)
  fix e w assume ok: "downloadIntact lib e"
  have fails: "intactAfter lib (thenE failSoftwareDownload (returnE ProcessingError)) e w"
    by (rule keepsE_bind [OF keeps_fail keepsE_pure, unfolded keepsE_wp, rule_format]) (rule ok)
  show "intactAfter lib (endSoftwareDownload lib request device) e w"
  proof (cases "download e")
    case None
    with ok show ?thesis by (simp add: endSoftwareDownload_def wpE)
  next
    case (Some d)
    with ok have d: "imageIntact lib d" by (simp add: downloadIntact_def)
    have checked: "imageIntact lib (d\<lparr>phase := softwareFinalizing, endRequest := r, imageHash := md5Sum lib (md5 d), finishing := True\<rparr>)"
      if "validEnd d request" "EndCRC32 request = SumCRC32A (crc d)" "phase d = softwareReceiving"
        "r = \<lparr> endEntity = downloadEntity d, endDevice = downloadDevice d, endCRC = EndCRC32 request,
               endSize = EndImageSize request \<rparr>" for r
      using that d by (auto simp: imageIntact_def validEnd_def CRC32A_def)
    from Some ok d fails checked show ?thesis
      by (auto simp: endSoftwareDownload_def Let_def wpE_get wpE_if wpE_pure wpE_put wpE_bind setDownload_def intact_status)
  qed
qed

datatype softwareOp = StartOp StartSoftwareDownload u8 | SectionOp DownloadSection u8 bool
  | EndOp EndSoftwareDownload u8 | FinishOp | ActivateOp ActivateSoftware | CommitOp MePacket

fun softwareStep :: "OmciLib \<Rightarrow> softwareOp \<Rightarrow> 'w OmciEngine \<times> 'w \<Rightarrow> 'w OmciEngine \<times> 'w" where
  "softwareStep lib (StartOp r device) (e, w) = snd (startSoftwareDownload lib r device e w)"
| "softwareStep lib (SectionOp r device a) (e, w) = snd (downloadSoftwareSection r device a e w)"
| "softwareStep lib (EndOp r device) (e, w) = snd (endSoftwareDownload lib r device e w)"
| "softwareStep lib FinishOp (e, w) = snd (finishGoroutine e w)"
| "softwareStep lib (ActivateOp r) (e, w) = snd (activateSoftware lib r e w)"
| "softwareStep lib (CommitOp r) (e, w) = snd (commitSoftware lib r e w)"

lemma softwareStep_intact: "downloadIntact lib (fst s) \<Longrightarrow> downloadIntact lib (fst (softwareStep lib op s))"
  by (cases s; cases op) (auto intro!: keepsE_D keepsE)

lemma softwareRun_intact: "downloadIntact lib (fst s) \<Longrightarrow> downloadIntact lib (fst (fold (softwareStep lib) ops s))"
  by (induction ops arbitrary: s) (simp_all add: softwareStep_intact)

text \<open>
  C37. A software image is finished only when it is complete and intact: in every state that any
  sequence of start, section, end, activate and commit requests and completions of the finishing
  goroutine reaches, the octets accepted by the sink never exceed the announced size, their number and
  their running CRC are the recorded ones, and once a download has left the receiving phase (its
  image is being finished, or is staged) they are exactly as many as announced, their CRC-32 is the
  one that the end request gave, and the recorded image hash is their MD5.
\<close>

theorem finished_image_intact:
  "downloadIntact lib (fst (fold (softwareStep lib) ops (e\<lparr>download := None\<rparr>, w)))"
  by (rule softwareRun_intact) simp

end
