(* ===== verification/EngSample.thy ===== *)
theory EngSample
  imports EngTypes MibContract
begin

text \<open>
  A concrete engine for the witnesses: the sample store without a platform, a clock that stands still
  and no controllers. The codec of the sample library decodes nothing and serializes every message to
  its transaction and message type.
\<close>

definition sampleLib :: OmciLib where
  "sampleLib = \<lparr> classes = sampleClasses, decodePacket = (\<lambda>_. \<lparr> PacketHeader = None, PacketLayer = None, ErrorLayer = None \<rparr>),
     serializeLayers = (\<lambda>tid mt device response. Ok (put16 tid @ [mt, device])),
     entitySize = (\<lambda>_ _ _. Ok 0), sha256 = (\<lambda>octets. take 32 octets), md5Sum = (\<lambda>octets. take 16 octets),
     roundedPower = (\<lambda>_ _. 0) \<rparr>"

definition noBackends :: "'w Backends" where
  "noBackends = \<lparr> gemBackend = None, fecBackend = None, ethernetBackend = None, xgsBackend = None,
     monitorBackend = None, previewBackend = None \<rparr>"

definition sampleEngine :: "'w OmciEngine" where
  "sampleEngine = NewForMode (sampleStore None) None noBackends None ''gpon'' (\<lambda>w. (1, w))"

end
