(* ===== verification/SoftwareDelivery.thy ===== *)
theory SoftwareDelivery
  imports SoftwareProofs EngSample
begin

text \<open>
  Delivery of an image: the sender's side of the window protocol, and that it makes progress from every
  state that requests reach. A
  section is a pair of the octets it stands for and the octets it carries: the last baseline section of an
  image is padded with zeros.
\<close>

section \<open>The sender\<close>

definition sectionRequest :: "u16 \<Rightarrow> nat \<Rightarrow> bytes \<Rightarrow> DownloadSection" where
  "sectionRequest k i octets = \<lparr> EntityClass = SoftwareImageClassID, EntityInstance = k, SectionNumber = of_nat i,
     SectionData = octets \<rparr>"

fun sendSections :: "u16 \<Rightarrow> u8 \<Rightarrow> nat \<Rightarrow> (bytes \<times> bytes) list \<Rightarrow> ('w, u8) act" where
  "sendSections k device i [] = returnE Success"
| "sendSections k device i (s # ss) =
     (if ss = [] then downloadSoftwareSection (sectionRequest k i (snd s)) device True
      else thenE (downloadSoftwareSection (sectionRequest k i (snd s)) device False) (sendSections k device (Suc i) ss))"

definition sendWindow :: "u16 \<Rightarrow> u8 \<Rightarrow> (bytes \<times> bytes) list \<Rightarrow> ('w, u8) act" where
  "sendWindow k device ss = sendSections k device 0 ss"

fun sendImage :: "u16 \<Rightarrow> u8 \<Rightarrow> (bytes \<times> bytes) list list \<Rightarrow> ('w, u8) act" where
  "sendImage k device [] = returnE Success"
| "sendImage k device (win # wins) =
     bindE (sendWindow k device win) (\<lambda>r. if r = Success then sendImage k device wins else returnE r)"

fun fits :: "nat \<Rightarrow> u8 \<Rightarrow> (bytes \<times> bytes) list \<Rightarrow> bool" where
  "fits room device [] \<longleftrightarrow> True"
| "fits room device ((c, octets) # ss) \<longleftrightarrow>
     octets \<noteq> [] \<and> length c \<le> room
     \<and> (octets = c \<or> device = BaselineIdent \<and> length c = room \<and> octets = c @ replicate (length octets - length c) 0)
     \<and> fits (room - length c) device ss"

abbreviation carried :: "(bytes \<times> bytes) list \<Rightarrow> bytes" where "carried ss \<equiv> concat (map fst ss)"

lemma fits_append:
  "fits room device (ss @ ts) \<longleftrightarrow> fits room device ss \<and> fits (room - length (carried ss)) device ts"
  by (induction ss arbitrary: room) (auto split: prod.splits)

lemma fits_carried: "fits room device ss \<Longrightarrow> length (carried ss) \<le> room"
  by (induction ss arbitrary: room) fastforce+

text \<open>A sink that accepts every write: \<open>stored\<close> reads what it holds.\<close>

definition accepting :: "'w Download \<Rightarrow> ('w \<Rightarrow> bytes) \<Rightarrow> bool" where
  "accepting target stored \<longleftrightarrow>
     (\<forall>octets w. fst (SinkWrite target octets w) = (int (length octets), None)
        \<and> stored (snd (SinkWrite target octets w)) = stored w @ octets)"

section \<open>One window\<close>

definition written :: "'w softwareDownload \<Rightarrow> bytes \<Rightarrow> 'w softwareDownload" where
  "written d octets = resetSoftwareWindow (d\<lparr>crc := UpdateCRC32A (crc d) octets, md5 := md5 d @ octets,
     received := received d + of_nat (length octets)\<rparr>)"

definition afterWindow :: "'w softwareDownload \<Rightarrow> 'w OmciEngine \<Rightarrow> 'w OmciEngine" where
  "afterWindow d e = e\<lparr>download := Some d, softwareState := (softwareState e)\<lparr>StatusBytes := received d\<rparr>\<rparr>"

lemma write_accepted:
  assumes "accepting (sink d) stored"
  shows "wpE (writeWindow d) (\<lambda>r e' w'. r = Success \<and> e' = afterWindow (written d (window d)) e
    \<and> stored w' = stored w @ window d) (\<lambda>_ _. False) e w"
proof -
  obtain w1 where put: "SinkWrite (sink d) (window d) w = ((int (length (window d)), None), w1)"
    and stored: "stored w1 = stored w @ window d"
    using assms unfolding accepting_def by (metis prod.collapse)
  show ?thesis
    by (cases "window d = []")
      (simp_all add: writeWindow_def Let_def setDownload_def wpE written_def afterWindow_def resetSoftwareWindow_def
        put stored)
qed

lemma take_section:
  assumes "fits room device ((c, octets) # ss)"
  shows "take room octets = c" "length octets > room \<Longrightarrow> device = BaselineIdent \<and> zeroOctets (drop room octets)"
proof -
  consider "octets = c" "length c \<le> room"
    | m where "octets = c @ replicate m 0" "length c = room" "device = BaselineIdent"
    using assms by (metis fits.simps(2))
  note split = this
  from split show "take room octets = c" by cases simp_all
  from split show "device = BaselineIdent \<and> zeroOctets (drop room octets)" if "length octets > room"
    using that by cases (simp_all add: zeroOctets_def list_all_iff)
qed

lemma accept_section:
  assumes "imageIntact lib d" "fits (unat (expectedSize d) - length (md5 d) - length (window d)) device ((c, octets) # ss)"
  shows "acceptSection d (sectionRequest k i octets) device a =
    (let d' = d\<lparr>window := window d @ c\<rparr>; next = (ucast (expectedSection d) :: u16) + 1 in
     if a then writeWindow d'
     else if next \<ge> windowSize d
     then thenE (setDownload (d'\<lparr>window := [], windowFailed := True, expectedSection := 0\<rparr>)) (returnE Success)
     else thenE (setDownload (d'\<lparr>expectedSection := ucast next\<rparr>)) (returnE Success))"
proof -
  have "\<not> (length octets > unat (expectedSize d) - length (md5 d) - length (window d)
      \<and> (device \<noteq> BaselineIdent \<or> \<not> zeroOctets (drop (unat (expectedSize d) - length (md5 d) - length (window d)) octets)))"
    using take_section(2) [OF assms(2)] by auto
  then show ?thesis
    by (simp only: acceptSection_def Let_def unat_remaining [OF assms(1)] sectionRequest_def DownloadSection.simps
        take_section(1) [OF assms(2)] if_False) simp
qed

text \<open>A download whose next section is section \<open>i\<close>.\<close>

definition midWindow :: "OmciLib \<Rightarrow> u16 \<Rightarrow> u8 \<Rightarrow> nat \<Rightarrow> 'w softwareDownload \<Rightarrow> bool" where
  "midWindow lib k device i d \<longleftrightarrow> imageIntact lib d \<and> phase d = softwareReceiving \<and> downloadEntity d = k
     \<and> downloadDevice d = device \<and> expectedSection d = of_nat i \<and> unat (windowSize d) \<le> 256"

lemma section_accepted:
  assumes "midWindow lib k device i d" "\<not> windowFailed d" "octets \<noteq> []" "download e = Some d"
  shows "downloadSoftwareSection (sectionRequest k i octets) device a e w
    = acceptSection d (sectionRequest k i octets) device a e w"
  using assms by (simp add: downloadSoftwareSection_def sectionRequest_def midWindow_def bindE_def getE_def)

lemma send_rest:
  assumes "midWindow lib k device i d" "accepting (sink d) stored"
    "\<And>octets a w. octets \<noteq> [] \<Longrightarrow> downloadSoftwareSection (sectionRequest k i octets) device a e w
       = acceptSection d (sectionRequest k i octets) device a e w"
    "fits (unat (expectedSize d) - length (md5 d) - length (window d)) device ss" "ss \<noteq> []"
    "i + length ss \<le> unat (windowSize d)" "\<not> windowFailed d"
  shows "wpE (sendSections k device i ss) (\<lambda>r e' w'. r = Success
      \<and> e' = afterWindow (written d (window d @ carried ss)) e
      \<and> stored w' = stored w @ window d @ carried ss) (\<lambda>_ _. False) e w"
  using assms
proof (induction ss arbitrary: i d e)
  case (Cons s ss)
  obtain c octets where s: "s = (c, octets)" by (cases s)
  let ?room = "unat (expectedSize d) - length (md5 d) - length (window d)"
  let ?d = "d\<lparr>window := window d @ c\<rparr>"
  from Cons.prems s have fit: "fits ?room device ((c, octets) # ss)" and octets: "octets \<noteq> []" by auto
  from Cons.prems have intact: "imageIntact lib d" and size: "unat (windowSize d) \<le> 256"
    and sec: "expectedSection d = of_nat i" and receiving: "phase d = softwareReceiving"
    by (auto simp: midWindow_def)
  note step = Cons.prems(3) [OF octets]
  show ?case
  proof (cases "ss = []")
    case True
    have "wpE (writeWindow ?d) (\<lambda>r e' w'. r = Success \<and> e' = afterWindow (written ?d (window ?d)) e
        \<and> stored w' = stored w @ window ?d) (\<lambda>_ _. False) e w"
      using Cons.prems by (intro write_accepted) simp
    then show ?thesis
      using True s by (simp add: wpE_def step accept_section [OF intact fit] Let_def written_def resetSoftwareWindow_def)
  next
    case False
    then have "Suc i < unat (windowSize d)" using Cons.prems by (cases ss) auto
    then have same: "take_bit 16 i = i" using size by (intro take_bit_nat_eq_self) simp
    have nat: "unat ((ucast (expectedSection d) :: u16) + 1) = Suc i"
      and less: "(ucast (expectedSection d) :: u16) + 1 < windowSize d"
      using \<open>Suc i < unat (windowSize d)\<close> size sec
      by (simp_all add: unat_word_ariths unsigned_ucast_eq unat_of_nat word_less_nat_alt same)
    let ?n = "?d\<lparr>expectedSection := ucast ((ucast (expectedSection d) :: u16) + 1)\<rparr>"
    have "expectedSection ?n = of_nat (unat ((ucast (expectedSection d) :: u16) + 1))" by simp
    then have sec': "expectedSection ?n = of_nat (Suc i)" by (simp only: nat)
    have room: "length (md5 d) + length (window d) + length c \<le> unat (expectedSize d)"
      using fit intact by (auto simp: imageIntact_def)
    have mid: "midWindow lib k device (Suc i) ?n"
      using Cons.prems(1) room sec' by (auto simp: midWindow_def imageIntact_def)
    have first: "downloadSoftwareSection (sectionRequest k i octets) device False e w = (Ok Success, e\<lparr>download := Some ?n\<rparr>, w)"
      using less by (simp add: step accept_section [OF intact fit] Let_def not_le setDownload_def bindE_def putE_def pureE_def)
    have open': "\<not> windowFailed ?n" using Cons.prems(7) by simp
    have "wpE (sendSections k device (Suc i) ss) (\<lambda>r e' w'. r = Success
        \<and> e' = afterWindow (written ?n (window ?n @ carried ss)) (e\<lparr>download := Some ?n\<rparr>)
        \<and> stored w' = stored w @ window ?n @ carried ss) (\<lambda>_ _. False) (e\<lparr>download := Some ?n\<rparr>) w"
      using Cons.prems fit False \<open>Suc i < unat (windowSize d)\<close>
      by (intro Cons.IH [OF mid] section_accepted [OF mid open']) (simp_all add: diff_diff_left add.assoc s)
    then show ?thesis
      using False s first by (simp add: wpE_def bindE_def written_def resetSoftwareWindow_def afterWindow_def)
  qed
qed simp

text \<open>
  A download that has room for a window, whatever part of an earlier window it has received.
\<close>

definition windowReady :: "OmciLib \<Rightarrow> u16 \<Rightarrow> u8 \<Rightarrow> (bytes \<times> bytes) list \<Rightarrow> 'w softwareDownload \<Rightarrow> bool" where
  "windowReady lib k device ss d \<longleftrightarrow> imageIntact lib d \<and> phase d = softwareReceiving \<and> downloadEntity d = k
     \<and> downloadDevice d = device \<and> unat (windowSize d) \<le> 256 \<and> (expectedSection d = 0 \<longrightarrow> window d = [])
     \<and> (windowFailed d \<longrightarrow> expectedSection d = 0) \<and> ss \<noteq> [] \<and> length ss \<le> unat (windowSize d)
     \<and> fits (unat (expectedSize d) - length (md5 d)) device ss"

lemma window_first_attempt:
  assumes "windowReady lib k device ss d" "expectedSection d = 0" "download e = Some d" "accepting (sink d) stored"
  shows "wpE (sendWindow k device ss) (\<lambda>r e' w'. r = Success \<and> e' = afterWindow (written d (carried ss)) e
    \<and> stored w' = stored w @ carried ss) (\<lambda>_ _. False) e w"
proof -
  let ?d = "resetSoftwareWindow d"
  obtain s ss' where ss: "ss = s # ss'" using assms by (cases ss) (auto simp: windowReady_def)
  have clean: "window d = []" using assms by (simp add: windowReady_def)
  have reset: "?d = d\<lparr>windowFailed := False\<rparr>" using assms(2) clean by (simp add: resetSoftwareWindow_def)
  have mid: "midWindow lib k device 0 ?d"
    using assms imageIntact_reset [of lib d] by (simp add: midWindow_def windowReady_def resetSoftwareWindow_def)
  have same: "?d = d" if "\<not> windowFailed d" 
    using that assms(2) clean by (cases d) (simp add: resetSoftwareWindow_def)
  have sec: "expectedSection ?d = 0" by (simp add: resetSoftwareWindow_def)
  have starts: "downloadSoftwareSection (sectionRequest k 0 octets) device a e w
      = acceptSection ?d (sectionRequest k 0 octets) device a e w" if "octets \<noteq> []" for octets a w
    using that assms same sec
    by (cases "windowFailed d") (simp_all add: downloadSoftwareSection_def sectionRequest_def bindE_def getE_def windowReady_def Let_def)
  have "wpE (sendSections k device 0 ss) (\<lambda>r e' w'. r = Success
      \<and> e' = afterWindow (written ?d (window ?d @ carried ss)) e
      \<and> stored w' = stored w @ window ?d @ carried ss) (\<lambda>_ _. False) e w"
    using assms by (intro send_rest [OF mid _ starts]) (simp_all add: windowReady_def resetSoftwareWindow_def)
  then show ?thesis
    by (simp add: sendWindow_def written_def resetSoftwareWindow_def)
qed

text \<open>A window sent into the middle of another one is dropped, and the next one is not.\<close>

definition sameButDownload :: "'w softwareDownload \<Rightarrow> 'w OmciEngine \<Rightarrow> 'w OmciEngine" where
  "sameButDownload d e = e\<lparr>download := Some d\<rparr>"

lemma send_dropped:
  assumes "windowFailed d" "midWindow lib k device 0 d" "download e = Some d" "0 < i" "i + length ss \<le> 256" "ss \<noteq> []"
    "list_all (\<lambda>s. snd s \<noteq> []) ss"
  shows "sendSections k device i ss e w = (Ok ProcessingError, sameButDownload (resetSoftwareWindow d) e, w)"
  using assms
proof (induction ss arbitrary: i)
  case (Cons s ss)
  have number: "(of_nat i :: u8) \<noteq> 0"
    using Cons.prems by (simp add: word_unat_eq_iff unat_of_nat take_bit_nat_eq_self)
  have step: "downloadSoftwareSection (sectionRequest k i (snd s)) device a e w
      = (if a then thenE (setDownload (resetSoftwareWindow d)) (returnE ProcessingError) else returnE Success) e w" for a
    using Cons.prems number by (simp add: downloadSoftwareSection_def sectionRequest_def bindE_def getE_def midWindow_def)
  show ?case
  proof (cases "ss = []")
    case True
    then show ?thesis by (simp add: step sameButDownload_def bindE_def setDownload_def putE_def pureE_def)
  next
    case False
    then show ?thesis using Cons.prems by (simp add: step bindE_def pureE_def Cons.IH)
  qed
qed simp

lemma fits_nonempty: "fits room device ss \<Longrightarrow> list_all (\<lambda>s. snd s \<noteq> []) ss"
  by (induction ss arbitrary: room) auto

lemma window_out_of_step:
  assumes "windowReady lib k device ss d" "expectedSection d \<noteq> 0" "download e = Some d"
  shows "sendWindow k device ss e w = (Ok ProcessingError, sameButDownload (resetSoftwareWindow d) e, w)"
proof -
  obtain s ss' where ss: "ss = s # ss'" using assms by (cases ss) (auto simp: windowReady_def)
  let ?f = "d\<lparr>window := [], expectedSection := 0, windowFailed := True\<rparr>"
  have octets: "snd s \<noteq> []" and rest: "list_all (\<lambda>s. snd s \<noteq> []) ss'"
    using assms fits_nonempty [of _ device ss] ss by (auto simp: windowReady_def)
  have first: "downloadSoftwareSection (sectionRequest k 0 (snd s)) device a e w
      = rejectSoftwareWindow d a ProcessingError e w" for a
    using assms octets by (simp add: downloadSoftwareSection_def sectionRequest_def bindE_def getE_def windowReady_def)
  show ?thesis
  proof (cases "ss' = []")
    case True
    then show ?thesis
      by (simp add: ss sendWindow_def first rejectSoftwareWindow_def bindE_def setDownload_def putE_def pureE_def
          sameButDownload_def resetSoftwareWindow_def)
  next
    case False
    have mid: "midWindow lib k device 0 ?f" using assms by (auto simp: midWindow_def windowReady_def imageIntact_def)
    have "sendSections k device (Suc 0) ss' (sameButDownload ?f e) w
        = (Ok ProcessingError, sameButDownload (resetSoftwareWindow ?f) (sameButDownload ?f e), w)"
      using assms False rest ss by (intro send_dropped [OF _ mid]) (simp_all add: sameButDownload_def windowReady_def)
    then show ?thesis
      using False by (simp add: ss sendWindow_def first rejectSoftwareWindow_def bindE_def setDownload_def putE_def pureE_def
          sameButDownload_def resetSoftwareWindow_def)
  qed
qed

definition fitsWindow :: "nat \<Rightarrow> (bytes \<times> bytes) list \<Rightarrow> bool" where
  "fitsWindow n win \<longleftrightarrow> win \<noteq> [] \<and> length win \<le> n"

text \<open>
  Between requests the receiver stands at the start of an empty window or inside one: what every
  software request and the finishing goroutine keep, whatever the sink answers.
\<close>

definition windowTidy :: "'w softwareDownload \<Rightarrow> bool" where
  "windowTidy d \<longleftrightarrow> unat (windowSize d) \<le> 256 \<and> (expectedSection d = 0 \<longrightarrow> window d = [])
     \<and> (windowFailed d \<longrightarrow> expectedSection d = 0)"

definition downloadTidy :: "'w OmciEngine \<Rightarrow> bool" where
  "downloadTidy e = (case download e of None \<Rightarrow> True | Some d \<Rightarrow> windowTidy d)"

abbreviation tidyAfter :: "('w, 'a) act \<Rightarrow> 'w OmciEngine \<Rightarrow> 'w \<Rightarrow> bool" where
  "tidyAfter m e w \<equiv> wpE m (\<lambda>_ e _. downloadTidy e) (\<lambda>e _. downloadTidy e) e w"

lemma downloadTidy_simps [simp]:
  "downloadTidy (e\<lparr>mib := s\<rparr>) = downloadTidy e"
  "downloadTidy (e\<lparr>softwareState := st\<rparr>) = downloadTidy e"
  "downloadTidy (e\<lparr>download := None\<rparr>)"
  "downloadTidy (e\<lparr>download := Some d\<rparr>) = windowTidy d"
  by (simp_all add: downloadTidy_def)

lemma windowTidy_new: "windowTidy (newDownload request device target)"
  using unsigned_less [of "WindowSize request", where ?'a = nat]
  by (simp add: windowTidy_def newDownload_def unat_word_ariths unsigned_ucast_eq take_bit_nat_eq_self)

lemma windowTidy_simps [simp]:
  "windowTidy (d\<lparr>phase := p\<rparr>) = windowTidy d" "windowTidy (d\<lparr>finished := r\<rparr>) = windowTidy d"
  "windowTidy (d\<lparr>finish := r\<rparr>) = windowTidy d" "windowTidy (d\<lparr>finishing := f\<rparr>) = windowTidy d"
  "windowTidy (d\<lparr>endRequest := q\<rparr>) = windowTidy d" "windowTidy (d\<lparr>imageHash := h\<rparr>) = windowTidy d"
  "windowTidy (d\<lparr>crc := x\<rparr>) = windowTidy d" "windowTidy (d\<lparr>md5 := m\<rparr>) = windowTidy d"
  "windowTidy (d\<lparr>received := n\<rparr>) = windowTidy d"
  by (simp_all add: windowTidy_def)

lemma windowTidy_reset:
  "unat (windowSize d) \<le> 256 \<Longrightarrow> windowTidy (resetSoftwareWindow d)"
  "unat (windowSize d) \<le> 256 \<Longrightarrow> windowTidy (d\<lparr>window := [], expectedSection := 0, windowFailed := f\<rparr>)"
  "unat (windowSize d) \<le> 256 \<Longrightarrow> windowTidy (d\<lparr>window := [], windowFailed := f, expectedSection := 0\<rparr>)"
  by (simp_all add: windowTidy_def resetSoftwareWindow_def)

lemma tidy_set: "windowTidy d \<Longrightarrow> keepsE downloadTidy (setDownload d)"
  unfolding setDownload_def by (intro keepsE) simp

lemma tidy_fail [keepsE]: "keepsE downloadTidy failSoftwareDownload"
  unfolding failSoftwareDownload_def by (intro keepsE) (auto simp: downloadTidy_def)

lemma tidy_write: "unat (windowSize d) \<le> 256 \<Longrightarrow> keepsE downloadTidy (writeWindow d)"
  unfolding writeWindow_def Let_def
  by (intro keepsE tidy_set windowTidy_reset) simp_all

lemma tidy_accept:
  assumes "unat (windowSize d) \<le> 256" "\<not> windowFailed d"
  shows "keepsE downloadTidy (acceptSection d request device a)"
proof -
  have "windowTidy (d\<lparr>window := win, expectedSection := ucast ((ucast (expectedSection d) :: u16) + 1)\<rparr>)"
    if less: "\<not> windowSize d \<le> (ucast (expectedSection d) :: u16) + 1" for win
  proof -
    have "unat ((ucast (expectedSection d) :: u16) + 1) = Suc (unat (expectedSection d))"
      using unsigned_less [of "expectedSection d", where ?'a = nat]
      by (simp add: unat_word_ariths unsigned_ucast_eq take_bit_nat_eq_self)
    moreover from this less assms have "Suc (unat (expectedSection d)) < 256"
      by (simp add: word_le_nat_alt)
    ultimately have "unat (ucast ((ucast (expectedSection d) :: u16) + 1) :: u8) \<noteq> 0"
      by (simp add: unsigned_ucast_eq take_bit_nat_eq_self)
    then show ?thesis using assms by (simp add: windowTidy_def unat_eq_0)
  qed
  then show ?thesis
    using assms unfolding acceptSection_def rejectSoftwareWindow_def Let_def
    by (auto intro!: keepsE tidy_set tidy_write windowTidy_reset)
qed

lemma tidy_section [keepsE]: "keepsE downloadTidy (downloadSoftwareSection request device a)"
  unfolding keepsE_def
proof (intro allI impI)
  fix e w assume tidy: "downloadTidy e"
  show "downloadTidy (fst (snd (downloadSoftwareSection request device a e w)))"
  proof (cases "download e")
    case None
    with tidy show ?thesis by (simp add: downloadSoftwareSection_def bindE_def getE_def pureE_def)
  next
    case (Some d)
    with tidy have d: "windowTidy d" by (simp add: downloadTidy_def)
    then have size: "unat (windowSize d) \<le> 256" by (simp add: windowTidy_def)
    let ?m = "if phase d \<noteq> softwareReceiving then returnE ProcessingError
         else if EntityClass request \<noteq> SoftwareImageClassID \<or> EntityInstance request \<noteq> downloadEntity d
           \<or> device \<noteq> downloadDevice d
         then returnE ParameterError
         else if SectionData request = [] then rejectSoftwareWindow d a ParameterError
         else if windowFailed d \<and> SectionNumber request \<noteq> 0
         then (if a then thenE (setDownload (resetSoftwareWindow d)) (returnE ProcessingError)
               else returnE Success)
         else
           let d' = (if windowFailed d then resetSoftwareWindow d else d) in
           if SectionNumber request \<noteq> expectedSection d' then rejectSoftwareWindow d' a ProcessingError
           else acceptSection d' request device a"
    have same: "downloadSoftwareSection request device a e w = ?m e w"
      using Some by (simp only: downloadSoftwareSection_def bindE_def getE_def) simp
    have reset: "windowSize (resetSoftwareWindow d) = windowSize d" "\<not> windowFailed (resetSoftwareWindow d)"
      by (simp_all add: resetSoftwareWindow_def)
    have "keepsE downloadTidy ?m"
      unfolding rejectSoftwareWindow_def Let_def
      by (auto simp: size reset intro!: keepsE tidy_set tidy_accept windowTidy_reset)
    with tidy show ?thesis unfolding same by (simp add: keepsE_D)
  qed
qed

lemma tidy_flag [keepsE]: "keepsE downloadTidy (setExclusiveSoftwareFlag lib k attribute t)"
  unfolding setExclusiveSoftwareFlag_def by (intro keepsE) simp

lemma tidy_start [keepsE]: "keepsE downloadTidy (startSoftwareDownload lib request device)"
  unfolding startSoftwareDownload_def by (intro keepsE tidy_set windowTidy_new) simp_all

lemma tidy_activate [keepsE]: "keepsE downloadTidy (activateSoftware lib request)"
  unfolding activateSoftware_def by (intro keepsE) simp_all

lemma tidy_commit [keepsE]: "keepsE downloadTidy (commitSoftware lib request)"
  unfolding commitSoftware_def by (intro keepsE) simp_all

lemma tidy_finish [keepsE]: "keepsE downloadTidy finishGoroutine"
  unfolding keepsE_wp by (auto simp: finishGoroutine_def setDownload_def wpE wpE_def downloadTidy_def
      split: option.splits prod.splits)

lemma tidy_status:
  assumes "windowTidy d" "downloadTidy e"
  shows "tidyAfter (softwareFinishStatus lib d) e w"
  using assms
  by (cases "phase d") (auto simp: softwareFinishStatus_def Let_def setDownload_def wpE
      split: option.splits outcome.splits prod.splits)

lemma tidy_end [keepsE]: "keepsE downloadTidy (endSoftwareDownload lib request device)"
  unfolding keepsE_wp
proof (intro allI impI)
  fix e w assume ok: "downloadTidy e"
  have fails: "tidyAfter (thenE failSoftwareDownload (returnE ProcessingError)) e w"
    by (rule keepsE_bind [OF tidy_fail keepsE_pure, unfolded keepsE_wp, rule_format]) (rule ok)
  show "tidyAfter (endSoftwareDownload lib request device) e w"
  proof (cases "download e")
    case None
    with ok show ?thesis by (simp add: endSoftwareDownload_def wpE)
  next
    case (Some d)
    with ok have d: "windowTidy d" by (simp add: downloadTidy_def)
    with Some ok fails show ?thesis
      by (auto simp: endSoftwareDownload_def Let_def wpE_get wpE_if wpE_pure wpE_put wpE_bind setDownload_def tidy_status)
  qed
qed

lemma softwareRun_tidy: "downloadTidy (fst s) \<Longrightarrow> downloadTidy (fst (fold (softwareStep lib) ops s))"
proof (induction ops arbitrary: s)
  case (Cons op ops)
  have "downloadTidy (fst (softwareStep lib op s))"
    using Cons.prems by (cases s; cases op) (auto intro!: keepsE_D keepsE)
  then show ?case by (simp add: Cons.IH)
qed simp

text \<open>The receiver of every reachable state is ready for a window that fits.\<close>

lemma reached_ready:
  assumes "fold (softwareStep lib) ops (e0, w0) = (e, w)" "download e0 = Some (newDownload req device target)"
    and "download e = Some d" "phase d = softwareReceiving"
    and "fitsWindow (unat (windowSize d)) ss" "fits (unat (expectedSize d) - length (md5 d)) (downloadDevice d) ss"
  shows "windowReady lib (downloadEntity d) (downloadDevice d) ss d"
proof -
  have "downloadIntact lib e0" "downloadTidy e0"
    using assms(2) by (simp_all add: downloadIntact_def downloadTidy_def imageIntact_new windowTidy_new)
  then have "downloadIntact lib e" "downloadTidy e"
    using softwareRun_intact [of lib "(e0, w0)" ops] softwareRun_tidy [of "(e0, w0)" lib ops] assms(1) by simp_all
  with assms show ?thesis
    by (simp add: windowReady_def fitsWindow_def windowTidy_def downloadIntact_def downloadTidy_def)
qed

lemma delivered_within_two:
  assumes "windowReady lib k device ss d" "download e = Some d" "accepting (sink d) stored"
  shows "case sendWindow k device ss e w of
      (Ok r, e', w') \<Rightarrow>
        if r = Success then download e' = Some (written d (carried ss)) \<and> stored w' = stored w @ carried ss
        else r = ProcessingError \<and> w' = w
          \<and> (case sendWindow k device ss e' w' of
                (Ok r, e'', w'') \<Rightarrow> r = Success \<and> download e'' = Some (written d (carried ss))
                  \<and> stored w'' = stored w @ carried ss
              | _ \<Rightarrow> False)
    | _ \<Rightarrow> False"
proof (cases "expectedSection d = 0")
  case True
  from window_first_attempt [OF assms(1) True assms(2, 3), of w] show ?thesis
    by (auto simp: wpE_def afterWindow_def split: outcome.splits prod.splits)
next
  case False
  let ?d = "resetSoftwareWindow d" and ?e = "sameButDownload (resetSoftwareWindow d) e"
  have ready: "windowReady lib k device ss ?d"
    using assms(1) imageIntact_reset [of lib d] by (simp add: windowReady_def resetSoftwareWindow_def)
  have "wpE (sendWindow k device ss) (\<lambda>r e' w'. r = Success \<and> e' = afterWindow (written ?d (carried ss)) ?e
      \<and> stored w' = stored w @ carried ss) (\<lambda>_ _. False) ?e w"
    using assms(3) by (intro window_first_attempt [OF ready]) (simp_all add: resetSoftwareWindow_def sameButDownload_def)
  then show ?thesis
    using window_out_of_step [OF assms(1) False assms(2), of w]
    by (auto simp: wpE_def afterWindow_def written_def resetSoftwareWindow_def split: outcome.splits prod.splits)
qed

text \<open>
  C39. A window is delivered within two attempts. Since a download was started any software requests
  may have reached the receiver (sections lost, repeated, out of order, empty or too long, of other
  images or devices, windows cut short or refused, end requests, new start requests), and the sinks
  may have answered as they like. In every state so reached in which an image is still being received
  and its sink accepts writes from now on (a write that fails drops the download): a window of at most
  the announced number of sections that fits the rest of the image, sent in order from its first section,
  is written to the sink in full and answered with success, or nothing is written, it is answered with
  a processing error, and then the same window sent again is written and answered with success.
\<close>

theorem window_delivered:
  assumes "fold (softwareStep lib) ops (e0, w0) = (e, w)" "download e0 = Some (newDownload req device target)"
    and "download e = Some d" "phase d = softwareReceiving" "accepting (sink d) stored"
    and "fitsWindow (unat (windowSize d)) ss" "fits (unat (expectedSize d) - length (md5 d)) (downloadDevice d) ss"
  shows "case sendWindow (downloadEntity d) (downloadDevice d) ss e w of
      (Ok r, e', w') \<Rightarrow>
        if r = Success then download e' = Some (written d (carried ss)) \<and> stored w' = stored w @ carried ss
        else r = ProcessingError \<and> w' = w
          \<and> (case sendWindow (downloadEntity d) (downloadDevice d) ss e' w' of
                (Ok r, e'', w'') \<Rightarrow> r = Success \<and> download e'' = Some (written d (carried ss))
                  \<and> stored w'' = stored w @ carried ss
              | _ \<Rightarrow> False)
    | _ \<Rightarrow> False"
  by (rule delivered_within_two [OF reached_ready [OF assms(1-4, 6, 7)] assms(3, 5)])

definition sampleSink :: "bytes Download" where
  "sampleSink = \<lparr> SinkWrite = (\<lambda>octets w. ((int (length octets), None), w @ octets)),
     SinkFinish = (\<lambda>w. (Ok \<lparr> MetadataVersion = ''1'', MetadataProductCode = [] \<rparr>, w)), SinkAbort = (\<lambda>w. (None, w)) \<rparr>"

definition sampleStart :: StartSoftwareDownload where
  "sampleStart = \<lparr> EntityClass = SoftwareImageClassID, EntityInstance = 1, WindowSize = 1, ImageSize = 5,
     NumberOfCircuitPacks = 1, CircuitPacks = [1] \<rparr>"

lemma accepting_sample: "accepting sampleSink (\<lambda>w. w)"
  by (simp add: accepting_def sampleSink_def)

abbreviation sampleWindow :: "(bytes \<times> bytes) list" where
  "sampleWindow \<equiv> [([1, 2], [1, 2]), ([3, 4], [3, 4])]"

definition sampleLost :: "softwareOp list" where
  "sampleLost = [SectionOp (sectionRequest 1 0 [1, 2]) 0x0a False]"

definition samplePartial :: "bytes softwareDownload" where
  "samplePartial = (newDownload sampleStart 0x0a sampleSink)\<lparr>window := [1, 2], expectedSection := 1\<rparr>"

lemma sampleLost_run:
  "fold (softwareStep sampleLib) sampleLost
     (sampleEngine\<lparr>download := Some (newDownload sampleStart 0x0a sampleSink)\<rparr>, [])
   = (sampleEngine\<lparr>download := Some samplePartial\<rparr>, [])"
  by (simp add: sampleLost_def samplePartial_def newDownload_def sampleStart_def sectionRequest_def
      downloadSoftwareSection_def acceptSection_def bindE_def getE_def setDownload_def putE_def pureE_def Let_def
      word_le_nat_alt)

theorem window_delivered_witness:
  "case sendWindow 1 0x0a sampleWindow (sampleEngine\<lparr>download := Some samplePartial\<rparr>) [] of
      (Ok r, e', w') \<Rightarrow>
        if r = Success then download e' = Some (written samplePartial [1, 2, 3, 4]) \<and> w' = [1, 2, 3, 4]
        else r = ProcessingError \<and> w' = []
          \<and> (case sendWindow 1 0x0a sampleWindow e' w' of
                (Ok r, e'', w'') \<Rightarrow> r = Success \<and> download e'' = Some (written samplePartial [1, 2, 3, 4])
                  \<and> w'' = [1, 2, 3, 4]
              | _ \<Rightarrow> False)
    | _ \<Rightarrow> False"
proof -
  have fields: "phase samplePartial = softwareReceiving" "accepting (sink samplePartial) (\<lambda>w. w)"
    "downloadEntity samplePartial = 1" "downloadDevice samplePartial = 0x0a"
    by (simp_all add: samplePartial_def newDownload_def sampleStart_def accepting_sample)
  have fit: "fitsWindow (unat (windowSize samplePartial)) sampleWindow"
    "fits (unat (expectedSize samplePartial) - length (md5 samplePartial)) (downloadDevice samplePartial) sampleWindow"
    by (simp_all add: samplePartial_def newDownload_def sampleStart_def fitsWindow_def unat_word_ariths)
  have "download (sampleEngine\<lparr>download := Some (newDownload sampleStart 0x0a sampleSink)\<rparr>)
      = Some (newDownload sampleStart 0x0a sampleSink)"
    and "download (sampleEngine\<lparr>download := Some samplePartial\<rparr>) = Some samplePartial" by simp_all
  note window_delivered [OF sampleLost_run this fields(1, 2) fit]
  then show ?thesis by (simp only: fields list.map concat.simps fst_conv append.simps)
qed

section \<open>A whole image\<close>

lemma written_Nil: "window d = [] \<Longrightarrow> expectedSection d = 0 \<Longrightarrow> \<not> windowFailed d \<Longrightarrow> written d [] = d"
  by (cases d) (simp add: written_def resetSoftwareWindow_def)

lemma written_append: "written (written d p) q = written d (p @ q)"
  by (cases d) (simp add: written_def resetSoftwareWindow_def add.assoc)

lemma written_simps [simp]:
  "window (written d p) = []" "expectedSection (written d p) = 0" "\<not> windowFailed (written d p)"
  "md5 (written d p) = md5 d @ p" "phase (written d p) = phase d" "sink (written d p) = sink d"
  "downloadEntity (written d p) = downloadEntity d" "downloadDevice (written d p) = downloadDevice d"
  "windowSize (written d p) = windowSize d" "expectedSize (written d p) = expectedSize d"
  "received (written d p) = received d + of_nat (length p)" "crc (written d p) = UpdateCRC32A (crc d) p"
  by (simp_all add: written_def resetSoftwareWindow_def)

lemma imageIntact_next:
  assumes "imageIntact lib d" "phase d = softwareReceiving" "length p \<le> unat (expectedSize d) - length (md5 d)"
  shows "imageIntact lib (written d p)"
  using assms unat_add_length [of "received d" "length (md5 d)" "length p" "expectedSize d"]
  by (auto simp: imageIntact_def)

lemma sendImage_ok:
  assumes "imageIntact lib d" "phase d = softwareReceiving" "downloadEntity d = k" "downloadDevice d = device"
    "unat (windowSize d) \<le> 256" "window d = []" "expectedSection d = 0" "\<not> windowFailed d"
    "fits (unat (expectedSize d) - length (md5 d)) device (concat wins)" "list_all (fitsWindow (unat (windowSize d))) wins"
    "download e = Some d" "accepting (sink d) stored"
  shows "wpE (sendImage k device wins) (\<lambda>r e' w'. r = Success
      \<and> (\<exists>st. e' = e\<lparr>download := Some (written d (carried (concat wins))), softwareState := st\<rparr>)
      \<and> stored w' = stored w @ carried (concat wins)) (\<lambda>_ _. False) e w"
  using assms
proof (induction wins arbitrary: d e w)
  case Nil
  have "e\<lparr>download := Some d, softwareState := softwareState e\<rparr> = e" using Nil.prems by (cases e) simp
  then have "\<exists>st. e = e\<lparr>download := Some d, softwareState := st\<rparr>" by (intro exI [of _ "softwareState e"]) (rule sym)
  then show ?case using Nil.prems by (simp only: sendImage.simps wpE_pure written_Nil outcome.case concat.simps list.map append_Nil2 simp_thms)
next
  case (Cons win wins)
  let ?d = "written d (carried win)"
  have fit: "fits (unat (expectedSize d) - length (md5 d)) device win"
    and rest: "fits (unat (expectedSize d) - length (md5 d) - length (carried win)) device (concat wins)"
    using Cons.prems by (simp_all add: fits_append)
  have ready: "windowReady lib k device win d"
    using Cons.prems fit by (simp add: windowReady_def fitsWindow_def)
  have intact: "imageIntact lib ?d"
    using Cons.prems fits_carried [OF fit] by (intro imageIntact_next) simp_all
  have "wpE (sendWindow k device win) (\<lambda>r e' w'. r = Success \<and> e' = afterWindow ?d e \<and> stored w' = stored w @ carried win)
      (\<lambda>_ _. False) e w"
    using Cons.prems by (intro window_first_attempt [OF ready]) simp_all
  then show ?case
    unfolding sendImage.simps wpE_bind
  proof (rule wpE_mono)
    fix r e' w'
    assume sent: "r = Success \<and> e' = afterWindow ?d e \<and> stored w' = stored w @ carried win"
    have "wpE (sendImage k device wins) (\<lambda>r e'' w''. r = Success
        \<and> (\<exists>st. e'' = e'\<lparr>download := Some (written ?d (carried (concat wins))), softwareState := st\<rparr>)
        \<and> stored w'' = stored w' @ carried (concat wins)) (\<lambda>_ _. False) e' w'"
      using Cons.prems sent rest
      by (intro Cons.IH [OF intact]) (simp_all add: afterWindow_def diff_diff_left)
    with sent show "wpE (if r = Success then sendImage k device wins else returnE r) (\<lambda>r e' w'. r = Success
        \<and> (\<exists>st. e' = e\<lparr>download := Some (written d (carried (concat (win # wins)))), softwareState := st\<rparr>)
        \<and> stored w' = stored w @ carried (concat (win # wins))) (\<lambda>_ _. False) e' w'"
      by (auto simp: afterWindow_def written_append elim!: wpE_mono)
  qed simp
qed

text \<open>The end request for an image, and the sender's whole exchange after the start request.\<close>

definition endFor :: "StartSoftwareDownload \<Rightarrow> bytes \<Rightarrow> EndSoftwareDownload" where
  "endFor req img = \<lparr> EntityClass = SoftwareImageClassID, EntityInstance = EntityInstance req, EndCRC32 = CRC32A img,
     EndImageSize = ImageSize req, NumberOfInstances = 1, ImageInstances = [EntityInstance req] \<rparr>"

definition transfer :: "OmciLib \<Rightarrow> StartSoftwareDownload \<Rightarrow> u8 \<Rightarrow> (bytes \<times> bytes) list list \<Rightarrow> ('w, u8 \<times> u8) act" where
  "transfer lib req device wins =
     bindE (sendImage (EntityInstance req) device wins) (\<lambda>r.
     bindE (endSoftwareDownload lib (endFor req (carried (concat wins))) device) (\<lambda>r'. returnE (r, r')))"

lemma end_accepted:
  assumes "download e = Some (written (newDownload req device target) img)" "length img = unat (ImageSize req)"
    "EntityInstance req \<le> 1"
  shows "wpE (endSoftwareDownload lib (endFor req img) device) (\<lambda>r e' w'. r = DeviceBusy \<and> w' = w
      \<and> (case download e' of Some d \<Rightarrow> phase d = softwareFinalizing \<and> finishing d \<and> imageHash d = md5Sum lib img
         | None \<Rightarrow> False)) (\<lambda>_ _. False) e w"
proof -
  have "of_nat (length img) = ImageSize req" using assms(2) by simp
  then show ?thesis
    using assms
    by (simp add: endSoftwareDownload_def endFor_def validEnd_def Let_def newDownload_def CRC32A_def setDownload_def wpE not_le)
qed

text \<open>
  C38. An image is delivered. After a start request, an image of the announced size sent in windows of at most
  the announced number of sections (the last baseline section may be padded with zeros), to a sink that
  accepts its writes: every window is answered with success, the sink has received exactly the image,
  and the end request with its size and CRC is accepted: the image is being finished, under the MD5 of the
  image.
\<close>

theorem image_delivered:
  assumes "download e = Some (newDownload req device target)" "accepting target stored" "EntityInstance req \<le> 1"
    "list_all (fitsWindow (unat (WindowSize req) + 1)) wins" "fits (unat (ImageSize req)) device (concat wins)"
    "length (carried (concat wins)) = unat (ImageSize req)"
  shows "case transfer lib req device wins e w of
      (Ok (r, r'), e', w') \<Rightarrow> r = Success \<and> r' = DeviceBusy \<and> stored w' = stored w @ carried (concat wins)
        \<and> (case download e' of
             Some d \<Rightarrow> phase d = softwareFinalizing \<and> finishing d \<and> imageHash d = md5Sum lib (carried (concat wins))
           | None \<Rightarrow> False)
    | _ \<Rightarrow> False"
proof -
  let ?d = "newDownload req device target" and ?img = "carried (concat wins)"
  have size: "unat (windowSize ?d) = unat (WindowSize req) + 1" "unat (windowSize ?d) \<le> 256"
    using unsigned_less [of "WindowSize req", where ?'a = nat]
    by (simp_all add: newDownload_def unat_word_ariths unsigned_ucast_eq take_bit_nat_eq_self)
  have "wpE (sendImage (EntityInstance req) device wins) (\<lambda>r e' w'. r = Success
      \<and> (\<exists>st. e' = e\<lparr>download := Some (written ?d ?img), softwareState := st\<rparr>) \<and> stored w' = stored w @ ?img)
      (\<lambda>_ _. False) e w"
    using assms size by (intro sendImage_ok [OF imageIntact_new [of lib]]) (simp_all add: newDownload_def)
  then have "wpE (transfer lib req device wins) (\<lambda>(r, r') e' w'. r = Success \<and> r' = DeviceBusy \<and> stored w' = stored w @ ?img
      \<and> (case download e' of Some d \<Rightarrow> phase d = softwareFinalizing \<and> finishing d \<and> imageHash d = md5Sum lib ?img
         | None \<Rightarrow> False)) (\<lambda>_ _. False) e w"
    unfolding transfer_def wpE_bind
  proof (rule wpE_mono)
    fix r e' w'
    assume "r = Success \<and> (\<exists>st. e' = e\<lparr>download := Some (written ?d ?img), softwareState := st\<rparr>) \<and> stored w' = stored w @ ?img"
    then show "wpE (endSoftwareDownload lib (endFor req ?img) device) (\<lambda>r'. wpE (returnE (r, r')) (\<lambda>(r, r') e' w'. r = Success
        \<and> r' = DeviceBusy \<and> stored w' = stored w @ ?img
        \<and> (case download e' of Some d \<Rightarrow> phase d = softwareFinalizing \<and> finishing d \<and> imageHash d = md5Sum lib ?img
           | None \<Rightarrow> False)) (\<lambda>_ _. False)) (\<lambda>_ _. False) e' w'"
      using assms by (auto simp: wpE_pure intro!: wpE_mono [OF end_accepted])
  qed simp
  then show ?thesis
    by (cases "transfer lib req device wins e w"; cases "fst (transfer lib req device wins e w)") (auto simp: wpE_def)
qed

abbreviation sampleWindows :: "(bytes \<times> bytes) list list" where
  "sampleWindows \<equiv> [[([1, 2], [1, 2]), ([3, 4], [3, 4])], [([5], [5, 0])]]"

theorem image_delivered_witness:
  "case transfer sampleLib sampleStart 0x0a sampleWindows
      (sampleEngine\<lparr>download := Some (newDownload sampleStart 0x0a sampleSink)\<rparr>) [] of
      (Ok (r, r'), e', w') \<Rightarrow> r = Success \<and> r' = DeviceBusy \<and> w' = [1, 2, 3, 4, 5] | _ \<Rightarrow> False"
proof -
  have fit: "list_all (fitsWindow (unat (WindowSize sampleStart) + 1)) sampleWindows"
    "fits (unat (ImageSize sampleStart)) 0x0a (concat sampleWindows)"
    "length (carried (concat sampleWindows)) = unat (ImageSize sampleStart)" "EntityInstance sampleStart \<le> 1"
    by (simp_all add: sampleStart_def fitsWindow_def)
  from image_delivered [OF _ accepting_sample fit(4) fit(1-3), of "sampleEngine\<lparr>download := Some (newDownload sampleStart 0x0a sampleSink)\<rparr>" "[]" sampleLib]
  show ?thesis
    by (auto split: outcome.splits prod.splits)
qed

end
