(* ===== verification/EngNotify.thy ===== *)
theory EngNotify
  imports EngRules
begin

unbundle bit_operations_syntax

text \<open>
  Autonomous notifications (src/internal/engine/notifications.go) and alarm reporting control
  (src/internal/engine/arc.go). While a managed entity reports no alarms (ARC), a timer runs from the
  moment its group is free of alarms; when it expires, ARC ends with an attribute value change. A
  frame that is not emitted is \<open>None\<close>.
\<close>

section \<open>Frames\<close>

definition serializeAutonomous :: "OmciLib \<Rightarrow> u8 \<Rightarrow> u16 \<Rightarrow> msg_type \<Rightarrow> response \<Rightarrow> ('w, bytes) act" where
  "serializeAutonomous lib device transactionID mt payload =
     wrapE (\<lambda>err. Errorf ''serialize %s: %w'' [AU (msgCode mt), AErr err])
       (pureE (serializeLayers lib transactionID (msgCode mt) device payload))"

definition entityBase :: "Key \<Rightarrow> u8 \<Rightarrow> MeBasePacket" where
  "entityBase key device =
     \<lparr> EntityClass = ClassID key, EntityInstance = EntityID key, Extended = (device = ExtendedIdent) \<rparr>"

definition validateDeviceIdentifier :: "u8 \<Rightarrow> ('w, unit) act" where
  "validateDeviceIdentifier device =
     (if device \<noteq> BaselineIdent \<and> device \<noteq> ExtendedIdent
      then failE (Errorf ''unsupported OMCI device identifier %#x'' [AU device]) else returnE ())"

definition notificationDevice :: "'w OmciEngine \<Rightarrow> u8 \<Rightarrow> u8" where
  "notificationDevice e requested =
     (if requested = ExtendedIdent \<and> \<not> extendedSeen e then BaselineIdent else requested)"

definition loadEntity :: "OmciLib \<Rightarrow> Key \<Rightarrow> ('w, managed_entity) act" where
  "loadEntity lib key = pureE (LoadManagedEntityDefinition (classes lib) (ClassID key) (EntityID key) [])"

section \<open>Suppression\<close>

definition administrativelyLocked :: "OmciLib \<Rightarrow> Key \<Rightarrow> string \<Rightarrow> ('w, bool) act" where
  "administrativelyLocked lib key attribute =
     bindE (getE (\<lambda>e. Exists (mib e) key)) (\<lambda>present.
     if \<not> present then returnE False
     else
       bindE (pureE (GetAttributeDefinitionByName (GetAttributesDefinitions (classes lib) (ClassID key)) attribute)) (\<lambda>d.
       bindE (mibGetAll lib key (Mask d)) (\<lambda>inst.
       let invalid = failE (Errorf ''managed entity %v/%#x has invalid administrative state'' [AU (ClassID key), AU (EntityID key)]) in
       case map_of (Attributes inst) attribute of
         None \<Rightarrow> returnE False
       | Some (VU8 state) \<Rightarrow> if state > 1 then invalid else returnE (state = 1)
       | Some _ \<Rightarrow> invalid)))"

text \<open>\<open>Arc\<close> and \<open>ArcInterval\<close> of an entity, and whether its class has them.\<close>

definition arcAttribute :: string where "arcAttribute = ''Arc''"
definition arcIntervalAttribute :: string where "arcIntervalAttribute = ''ArcInterval''"

definition byteOr0 :: "attribute_map \<Rightarrow> string \<Rightarrow> u8" where
  "byteOr0 attrs name = (case map_of attrs name of Some (VU8 x) \<Rightarrow> x | _ \<Rightarrow> 0)"

definition arcConfiguration :: "OmciLib \<Rightarrow> Key \<Rightarrow> ('w, bool \<times> u8 \<times> bool) act" where
  "arcConfiguration lib key =
     bindE (loadEntity lib key) (\<lambda>entity.
     let definitions = AttributeDefinitions (medef entity) in
     case (GetAttributeDefinitionByName definitions arcAttribute, GetAttributeDefinitionByName definitions arcIntervalAttribute) of
       (Ok arcDefinition, Ok intervalDefinition) \<Rightarrow>
         bindE (mibGetAll lib key (Mask arcDefinition OR Mask intervalDefinition)) (\<lambda>inst.
         returnE (byteOr0 (Attributes inst) arcAttribute = 1, byteOr0 (Attributes inst) arcIntervalAttribute, True))
     | _ \<Rightarrow> returnE (False, 0, False))"

definition arcOwner :: "OmciLib \<Rightarrow> Key \<Rightarrow> ('w, Key \<times> bool) act" where
  "arcOwner lib key =
     bindE (arcConfiguration lib key) (\<lambda>(_, _, supported).
     if supported then returnE (key, True)
     else
       bindE (if isEthernetPerformanceClass (ClassID key)
              then bindE (resolveEthernetPerformanceUNI lib key) (\<lambda>uni. returnE (Some (Key PptpEthernetUniClassID uni)))
              else if ClassID key = GemPerformanceClassID
              then getE (\<lambda>e. case filter (\<lambda>inst. ClassID (ikey inst) = AniGClassID) (MibSnapshot e) of
                     [ani] \<Rightarrow> Some (ikey ani) | _ \<Rightarrow> None)
              else if ClassID key = FecPerformanceClassID
              then getE (\<lambda>e. let owner = Key AniGClassID (EntityID key) in if Exists (mib e) owner then Some owner else None)
              else returnE None) (\<lambda>owner. case owner of
         None \<Rightarrow> returnE (key, False)
       | Some owner \<Rightarrow> bindE (arcConfiguration lib owner) (\<lambda>(_, _, supported). returnE (owner, supported))))"

definition suppressedBySlot :: "OmciLib \<Rightarrow> u8 \<Rightarrow> ('w, bool) act" where
  "suppressedBySlot lib slot =
     bindE (getE (\<lambda>e. find (\<lambda>inst. ClassID (ikey inst) = CircuitPackClassID \<and> ucast (EntityID (ikey inst)) = slot) (MibSnapshot e)))
       (\<lambda>pack. case pack of
          None \<Rightarrow> returnE False
        | Some inst \<Rightarrow> administrativelyLocked lib (ikey inst) ''AdministrativeState'')"

text \<open>The entity whose administrative state and slot decide: the port or the ANI behind a performance entity.\<close>

definition suppressionParent :: "OmciLib \<Rightarrow> Key \<Rightarrow> ('w, Key) act" where
  "suppressionParent lib key =
     (if isEthernetPerformanceClass (ClassID key)
      then bindE (resolveEthernetPerformanceUNI lib key) (\<lambda>uni. returnE (Key PptpEthernetUniClassID uni))
      else if ClassID key = GemPerformanceClassID \<or> ClassID key = FecPerformanceClassID
      then bindE (arcOwner lib key) (\<lambda>(owner, supported). returnE (if supported then owner else key))
      else returnE key)"

definition notificationsSuppressed :: "OmciLib \<Rightarrow> Key \<Rightarrow> ('w, bool) act" where
  "notificationsSuppressed lib key =
     bindE (administrativelyLocked lib (Key OnuGClassID 0) ''AdministrativeState'') (\<lambda>locked.
     if locked then returnE True
     else if ClassID key = CircuitPackClassID then administrativelyLocked lib key ''AdministrativeState''
     else bindE (suppressionParent lib key) (\<lambda>parent.
       if ClassID parent = PptpEthernetUniClassID \<or> ClassID parent = UniGClassID
       then bindE (administrativelyLocked lib (Key PptpEthernetUniClassID (EntityID parent)) ''AdministrativeState'') (\<lambda>locked.
            if locked then returnE True
            else bindE (administrativelyLocked lib (Key UniGClassID (EntityID parent)) ''AdministrativeState'') (\<lambda>locked.
              if locked then returnE True else suppressedBySlot lib (ucast (drop_bit 8 (EntityID parent)))))
       else if ClassID parent = AniGClassID then suppressedBySlot lib (ucast (drop_bit 8 (EntityID parent)))
       else returnE False))"

section \<open>Attribute value changes\<close>

definition validateCapabilityAlarm :: "'w OmciEngine \<Rightarrow> u16 \<Rightarrow> bytes \<Rightarrow> go_error option" where
  "validateCapabilityAlarm e classID bitmap =
     (if \<not> (supportedAttributeMask (mib e) classID \<noteq> None) then None
      else map_option (\<lambda>alarm. Errorf ''alarm bit %d is not advertised by the ONU capability'' [AU alarm])
        (find (\<lambda>alarm. alarmCondition bitmap alarm \<and> \<not> containsCapabilityCode (capabilityAlarmCodes classID) alarm) alarmNumbers))"

definition validateCapabilityAVC :: "OmciLib \<Rightarrow> Key \<Rightarrow> attribute_map \<Rightarrow> ('w, unit) act" where
  "validateCapabilityAVC lib key attrs =
     bindE (getE (\<lambda>e. supportedAttributeMask (mib e) (ClassID key) \<noteq> None)) (\<lambda>explicit.
     if \<not> explicit then returnE ()
     else bindE (loadEntity lib key) (\<lambda>entity.
       forE (\<lambda>(name, _) _.
         case find (\<lambda>(_, d). toLower name = toLower (AttrName d)) (AttributeDefinitions (medef entity)) of
           None \<Rightarrow> failE (Errorf ''AVC attribute %q is not defined for class %d'' [AStr name, AU (ClassID key)])
         | Some (index, _) \<Rightarrow>
             if index > 255 \<or> \<not> containsCapabilityCode (capabilityAVCIndexes (ClassID key)) (of_nat index)
             then failE (Errorf ''AVC attribute %s is not advertised by the ONU capability'' [AStr name])
             else returnE ()) attrs ()))"

record avcAttribute =
  avcName :: string
  avcMask :: u16
  avcSize :: int
  avcValue :: attr_value

definition baselineAVCPayloadLimit :: int where "baselineAVCPayloadLimit = 30"

text \<open>The changed attributes that announce their changes, in the order of their indexes.\<close>

definition orderedAVC :: "int \<Rightarrow> u8 \<Rightarrow> attribute_definitions \<Rightarrow> attribute_map \<Rightarrow> (go_error, avcAttribute list) outcome" where
  "orderedAVC limit device definitions changed =
     foldR (\<lambda>(index, d) ordered.
       if index = 0 then Ok ordered
       else case map_of changed (AttrName d) of
         None \<Rightarrow> Ok ordered
       | Some v \<Rightarrow>
           if \<not> Avc d then Ok ordered
           else if IsTableAttribute d \<or> AttrSize d \<le> 0 \<or> AttrSize d > limit
           then Err (Errorf ''AVC attribute %s cannot fit in %v format'' [AStr (AttrName d), AU device])
           else Ok (ordered @ [\<lparr> avcName = AttrName d, avcMask = Mask d, avcSize = AttrSize d, avcValue = v \<rparr>]))
       (sort_key fst definitions) []"

text \<open>The frames built so far and the frame being filled: its attributes, their mask and their size.\<close>

type_synonym avcState = "bytes list \<times> attribute_map \<times> u16 \<times> int"

definition flushAVC :: "OmciLib \<Rightarrow> Key \<Rightarrow> u8 \<Rightarrow> avcState \<Rightarrow> ('w, avcState) act" where
  "flushAVC lib key device st =
     (case st of (frames, pending, bits, used) \<Rightarrow>
       bindE (serializeAutonomous lib device 0 MsgAttributeValueChange
           (AttributeValueChangeMsg (entityBase key device) bits pending))
         (\<lambda>frame. returnE (frames @ [frame], [], 0, 0)))"

definition packAVC :: "OmciLib \<Rightarrow> Key \<Rightarrow> u8 \<Rightarrow> int \<Rightarrow> avcAttribute \<Rightarrow> avcState \<Rightarrow> ('w, avcState) act" where
  "packAVC lib key device limit attribute st =
     (case st of (_, _, _, used) \<Rightarrow>
       bindE (if used \<noteq> 0 \<and> used + avcSize attribute > limit then flushAVC lib key device st else returnE st)
         (\<lambda>(frames, pending, bits, used).
           returnE (frames, AList.update (avcName attribute) (avcValue attribute) pending,
             bits OR avcMask attribute, used + avcSize attribute)))"

definition attributeValueChangeFrames :: "OmciLib \<Rightarrow> Key \<Rightarrow> attribute_map \<Rightarrow> u8 \<Rightarrow> ('w, bytes list) act" where
  "attributeValueChangeFrames lib key changed device =
     thenE (validateDeviceIdentifier device)
       (if changed = [] then returnE []
        else bindE (getE (\<lambda>e. notificationDevice e device)) (\<lambda>device.
          bindE (notificationsSuppressed lib key) (\<lambda>suppressed.
          if suppressed then returnE []
          else bindE (loadEntity lib key) (\<lambda>entity.
            let limit = (if device = BaselineIdent then baselineAVCPayloadLimit else 1980 - 12 - 4) in
            bindE (pureE (orderedAVC limit device (AttributeDefinitions (medef entity)) changed)) (\<lambda>ordered.
            if ordered = [] then returnE []
            else bindE (forE (packAVC lib key device limit) ordered ([], [], 0, 0)) (\<lambda>st.
              bindE (if fst (snd st) \<noteq> [] then flushAVC lib key device st else returnE st)
                (\<lambda>st. returnE (fst st))))))))"

definition notifyAttributeChange :: "OmciLib \<Rightarrow> Key \<Rightarrow> attribute_map \<Rightarrow> u8 \<Rightarrow> ('w, bytes list) act" where
  "notifyAttributeChange lib key attrs device =
     thenE (validateCapabilityAVC lib key attrs)
       (bindE (storeE (UpdateAutonomous (classes lib) key attrs)) (\<lambda>changed.
          attributeValueChangeFrames lib key changed device))"

section \<open>Alarm reporting control\<close>

definition arcEnabled :: "OmciLib \<Rightarrow> Key \<Rightarrow> ('w, bool) act" where
  "arcEnabled lib key =
     bindE (tryE (arcOwner lib key)) (\<lambda>r. case r of
       Inr (owner, True) \<Rightarrow> bindE (tryE (arcConfiguration lib owner)) (\<lambda>r. case r of
           Inr (enabled, _, supported) \<Rightarrow> returnE (supported \<and> enabled) | Inl _ \<Rightarrow> returnE False)
     | _ \<Rightarrow> returnE False)"

definition arcGroupHasAlarm :: "OmciLib \<Rightarrow> Key \<Rightarrow> ('w, bool) act" where
  "arcGroupHasAlarm lib owner =
     bindE (getE alarms) (\<lambda>entries. forE (\<lambda>(key, bitmap) found.
       if found \<or> bitmap = zeroBitmap then returnE found
       else bindE (tryE (arcOwner lib key)) (\<lambda>r. returnE (case r of
         Inr (candidate, supported) \<Rightarrow> supported \<and> candidate = owner | Inl _ \<Rightarrow> False))) entries False)"

definition deleteArcFree :: "Key \<Rightarrow> ('w, unit) act" where
  "deleteArcFree key = putE (\<lambda>e. e\<lparr>arcFreeSince := AList.delete key (arcFreeSince e)\<rparr>)"

definition startArcFree :: "Key \<Rightarrow> ('w, unit) act" where
  "startArcFree key = bindE nowE (\<lambda>now. putE (\<lambda>e. e\<lparr>arcFreeSince := AList.update key now (arcFreeSince e)\<rparr>))"

definition pollARCKey :: "OmciLib \<Rightarrow> Key \<Rightarrow> u8 \<Rightarrow> ('w, bytes list) act" where
  "pollARCKey lib key device =
     bindE (arcConfiguration lib key) (\<lambda>(enabled, interval, supported).
     if \<not> supported \<or> \<not> enabled then thenE (deleteArcFree key) (returnE [])
     else bindE (arcGroupHasAlarm lib key) (\<lambda>alarmed.
       if alarmed then thenE (deleteArcFree key) (returnE [])
       else bindE nowE (\<lambda>now. bindE (getE (\<lambda>e. map_of (arcFreeSince e) key)) (\<lambda>started.
         thenE (if started = None then putE (\<lambda>e. e\<lparr>arcFreeSince := AList.update key now (arcFreeSince e)\<rparr>) else returnE ())
           (let since = (case started of None \<Rightarrow> now | Some t \<Rightarrow> t) in
            if interval = 255 \<or> now < since + uint interval * nsMinute then returnE []
            else thenE (deleteArcFree key) (notifyAttributeChange lib key [(arcAttribute, VU8 0)] device))))))"

definition PollARC :: "OmciLib \<Rightarrow> u8 \<Rightarrow> ('w, bytes list) act" where
  "PollARC lib device =
     thenE (validateDeviceIdentifier device)
       (bindE (getE (\<lambda>e. notificationDevice e device)) (\<lambda>device.
        bindE (getE (\<lambda>e. sort (gkeys (arcFreeSince e)))) (\<lambda>keys.
          forE (\<lambda>key frames. bindE (pollARCKey lib key device) (\<lambda>generated. returnE (frames @ generated))) keys [])))"

section \<open>Alarms\<close>

definition nextAlarmSequence :: "u8 \<Rightarrow> u8" where
  "nextAlarmSequence sequence = (if sequence = 0 \<or> sequence = 255 then 1 else sequence + 1)"

definition storeAlarm :: "Key \<Rightarrow> bytes \<Rightarrow> ('w, unit) act" where
  "storeAlarm key bitmap = putE (\<lambda>e. e\<lparr>alarms :=
     (if bitmap = zeroBitmap then AList.delete key (alarms e) else AList.update key bitmap (alarms e))\<rparr>)"

text \<open>The report of a changed alarm while ARC is in force: only the end of ARC is announced.\<close>

definition reportUnderARC :: "OmciLib \<Rightarrow> Key \<Rightarrow> bool \<Rightarrow> u8 \<Rightarrow> ('w, bytes option) act" where
  "reportUnderARC lib owner suppressed device =
     bindE (arcGroupHasAlarm lib owner) (\<lambda>alarmed.
     thenE (if alarmed then deleteArcFree owner
            else bindE (getE (\<lambda>e. map_of (arcFreeSince e) owner)) (\<lambda>started.
              if started = None then startArcFree owner else returnE ()))
       (bindE (pollARCKey lib owner device) (\<lambda>frames.
         returnE (if frames = [] \<or> suppressed then None else Some (frames ! 0)))))"

text \<open>The notification; if it cannot be serialized, the alarm and the sequence number are as before.\<close>

definition sendAlarm :: "OmciLib \<Rightarrow> Key \<Rightarrow> bytes \<Rightarrow> bytes option \<Rightarrow> u8 \<Rightarrow> ('w, bytes option) act" where
  "sendAlarm lib key bitmap previous device =
     bindE (getE alarmSequence) (\<lambda>previousSequence.
     let sequence = nextAlarmSequence previousSequence in
     thenE (putE (\<lambda>e. e\<lparr>alarmSequence := sequence\<rparr>))
       (bindE (tryE (serializeAutonomous lib device 0 MsgAlarmNotification
           (AlarmNotificationMsg (entityBase key device) bitmap sequence))) (\<lambda>r. case r of
          Inr frame \<Rightarrow> returnE (Some frame)
        | Inl err \<Rightarrow>
            thenE (putE (\<lambda>e. e\<lparr>alarmSequence := previousSequence, alarms :=
                (case previous of Some b \<Rightarrow> AList.update key b (alarms e) | None \<Rightarrow> AList.delete key (alarms e))\<rparr>))
              (failE err))))"

definition checkAlarm :: "OmciLib \<Rightarrow> Key \<Rightarrow> bytes \<Rightarrow> ('w, unit) act" where
  "checkAlarm lib key bitmap =
     bindE (getE (\<lambda>e. Exists (mib e) key)) (\<lambda>present.
     if \<not> present then failE (Errorf ''alarm target %v/%#x does not exist'' [AU (ClassID key), AU (EntityID key)])
     else bindE (loadEntity lib key) (\<lambda>entity.
       let target = (\<lambda>err. failE (Errorf ''alarm target %v/%#x: %w'' [AU (ClassID key), AU (EntityID key), AErr err])) in
       case validateAlarmBitmap (AlarmMap (medef entity)) bitmap of
         Some err \<Rightarrow> target err
       | None \<Rightarrow> bindE (getE (\<lambda>e. validateCapabilityAlarm e (ClassID key) bitmap)) (\<lambda>invalid. case invalid of
           Some err \<Rightarrow> target err | None \<Rightarrow> returnE ())))"

definition notifyAlarm :: "OmciLib \<Rightarrow> Key \<Rightarrow> bytes \<Rightarrow> u8 \<Rightarrow> ('w, bytes option) act" where
  "notifyAlarm lib key bitmap device =
     thenE (validateDeviceIdentifier device)
       (bindE (getE (\<lambda>e. notificationDevice e device)) (\<lambda>device.
        thenE (checkAlarm lib key bitmap)
          (bindE (getE (\<lambda>e. map_of (alarms e) key)) (\<lambda>previous.
           if previous = Some bitmap \<or> (previous = None \<and> bitmap = zeroBitmap) then returnE None
           else thenE (storeAlarm key bitmap)
             (bindE (notificationsSuppressed lib key) (\<lambda>suppressed.
              bindE (arcOwner lib key) (\<lambda>(owner, arcSupported).
              bindE (if arcSupported then bindE (arcConfiguration lib owner) (\<lambda>(enabled, _, _). returnE enabled)
                     else returnE False) (\<lambda>underARC.
              if underARC then reportUnderARC lib owner suppressed device
              else if suppressed then returnE None
              else sendAlarm lib key bitmap previous device))))))))"

definition NotifyAlarmBit :: "OmciLib \<Rightarrow> Key \<Rightarrow> u8 \<Rightarrow> bool \<Rightarrow> u8 \<Rightarrow> ('w, bytes option) act" where
  "NotifyAlarmBit lib key alarm active device =
     (if alarm \<ge> 224 then failE (Errorf ''alarm bit %d is outside the 224-bit bitmap'' [AU alarm])
      else bindE (getE (\<lambda>e. case map_of (alarms e) key of Some b \<Rightarrow> b | None \<Rightarrow> zeroBitmap)) (\<lambda>bitmap.
        notifyAlarm lib key (setAlarmCondition alarm active bitmap) device))"

definition SetAlarm :: "Key \<Rightarrow> bytes \<Rightarrow> ('w, unit) act" where
  "SetAlarm key bitmap = storeAlarm key bitmap"

section \<open>Test results\<close>

definition TestResult :: "OmciLib \<Rightarrow> u16 \<Rightarrow> Key \<Rightarrow> bytes \<Rightarrow> u8 \<Rightarrow> ('w, bytes option) act" where
  "TestResult lib transactionID key payload device =
     thenE (validateDeviceIdentifier device)
       (bindE (getE (\<lambda>e. notificationDevice e device)) (\<lambda>device.
        bindE (getE (\<lambda>e. Exists (mib e) key)) (\<lambda>present.
        if \<not> present then failE (Errorf ''test target %v/%#x does not exist'' [AU (ClassID key), AU (EntityID key)])
        else bindE (loadEntity lib key) (\<lambda>entity.
          if \<not> SupportsMsgType entity MsgTest
          then failE (Errorf ''managed entity %v/%#x does not support Test'' [AU (ClassID key), AU (EntityID key)])
          else bindE (if transactionID = 0 then notificationsSuppressed lib key else returnE False) (\<lambda>suppressed.
            if suppressed then returnE None
            else bindE (serializeAutonomous lib device transactionID MsgTestResult
                (TestResultNotification (entityBase key device) payload)) (\<lambda>frame. returnE (Some frame)))))))"

end
