(* ===== verification/EngOptical.thy ===== *)
theory EngOptical
  imports EngNotify
begin

unbundle bit_operations_syntax

text \<open>
  Optical supervision of the ANI (src/internal/engine/optical.go, src/internal/optical/diagnostics.go):
  one sample of the transceiver updates the levels and the optical alarms, one bit error sample the
  signal fail and signal degrade alarms; a Set that changes their thresholds evaluates the last
  samples again (\<open>afterSet\<close>, src/internal/engine/arc.go). Power levels are signed multiples of
  0.002 dB; the rounded logarithm \<open>round (5000 * (log10 raw - d))\<close> is the parameter \<open>roundedPower\<close>.
\<close>

section \<open>Levels\<close>

record ANILevels =
  OpticalSignalLevel :: u16
  TransmitOpticalLevel :: u16
  ReceiveDBm :: int
  TransmitDBm :: int

definition saturate16 :: "int \<Rightarrow> int" where
  "saturate16 x = (if x < -32768 then -32768 else if x > 32767 then 32767 else x)"

definition signed16 :: "int \<Rightarrow> u16" where "signed16 x = word_of_int (saturate16 x)"

definition opticalPower :: "OmciLib \<Rightarrow> u16 \<Rightarrow> u16" where
  "opticalPower lib raw = (if raw = 0 then 0x8000 else signed16 (roundedPower lib raw 1))"

definition opticalPowerDBm :: "OmciLib \<Rightarrow> u16 \<Rightarrow> int" where
  "opticalPowerDBm lib raw = (if raw = 0 then - 2147483648 else roundedPower lib raw 4)"

definition ANI :: "OmciLib \<Rightarrow> OpticalSample \<Rightarrow> ANILevels" where
  "ANI lib sample =
     (let receive = opticalPowerDBm lib (ReceivePower sample); transmit = opticalPowerDBm lib (TransmitPower sample) in
      \<lparr> OpticalSignalLevel = signed16 receive, TransmitOpticalLevel = signed16 transmit,
        ReceiveDBm = receive, TransmitDBm = transmit \<rparr>)"

definition OMCIDiagnostics :: "OmciLib \<Rightarrow> OpticalSample \<Rightarrow> Diagnostics" where
  "OMCIDiagnostics lib sample =
     \<lparr> PowerFeedVoltage = ucast ((ucast (SupplyVoltage sample) + 100 :: u32) div 200),
       ReceivedOpticalPower = opticalPower lib (ReceivePower sample),
       MeanOpticalLaunch = opticalPower lib (TransmitPower sample),
       DiagnosticsBias = LaserBiasCurrent sample, DiagnosticsTemperature = Temperature sample \<rparr>"

section \<open>Alarm conditions\<close>

abbreviation (input) aniLowReceiveAlarm :: u8 where "aniLowReceiveAlarm \<equiv> 0"
abbreviation (input) aniHighReceiveAlarm :: u8 where "aniHighReceiveAlarm \<equiv> 1"
abbreviation (input) aniSignalFailAlarm :: u8 where "aniSignalFailAlarm \<equiv> 2"
abbreviation (input) aniSignalDegradeAlarm :: u8 where "aniSignalDegradeAlarm \<equiv> 3"
abbreviation (input) aniLowTransmitAlarm :: u8 where "aniLowTransmitAlarm \<equiv> 4"
abbreviation (input) aniHighTransmitAlarm :: u8 where "aniHighTransmitAlarm \<equiv> 5"
abbreviation (input) aniLaserBiasAlarm :: u8 where "aniLaserBiasAlarm \<equiv> 6"

definition opticalHysteresis :: int where "opticalHysteresis = 250"

definition lowPowerAlarm :: "bool \<Rightarrow> int \<Rightarrow> int \<Rightarrow> bool" where
  "lowPowerAlarm active level threshold = (if active then level < threshold + opticalHysteresis else level < threshold)"

definition highPowerAlarm :: "bool \<Rightarrow> int \<Rightarrow> int \<Rightarrow> bool" where
  "highPowerAlarm active level threshold = (if active then level > threshold - opticalHysteresis else level > threshold)"

definition lowRawAlarm :: "bool \<Rightarrow> u16 \<Rightarrow> u16 \<Rightarrow> u16 \<Rightarrow> bool" where
  "lowRawAlarm active raw alarm clearing = (if active then raw < clearing else raw < alarm)"

definition highRawAlarm :: "bool \<Rightarrow> u16 \<Rightarrow> u16 \<Rightarrow> u16 \<Rightarrow> bool" where
  "highRawAlarm active raw alarm clearing = (if active then raw > clearing else raw > alarm)"

text \<open>A threshold code of the OLT, or the transceiver's own limits for the default code.\<close>

definition lowReceiveAlarm :: "bool \<Rightarrow> OpticalSample \<Rightarrow> ANILevels \<Rightarrow> u8 \<Rightarrow> bool" where
  "lowReceiveAlarm active sample levels code =
     (if code = 0xff then lowRawAlarm active (ReceivePower sample) 1 3
      else lowPowerAlarm active (ReceiveDBm levels) (- uint code * 250))"

definition highReceiveAlarm :: "bool \<Rightarrow> OpticalSample \<Rightarrow> ANILevels \<Rightarrow> u8 \<Rightarrow> bool" where
  "highReceiveAlarm active sample levels code =
     (if code = 0xff then highRawAlarm active (ReceivePower sample) 0x3124 0x2710
      else highPowerAlarm active (ReceiveDBm levels) (- uint code * 250))"

definition lowTransmitAlarm :: "bool \<Rightarrow> OpticalSample \<Rightarrow> ANILevels \<Rightarrow> u8 \<Rightarrow> bool" where
  "lowTransmitAlarm active sample levels code =
     (if code = 0x81 then lowRawAlarm active (TransmitPower sample) 0 0
      else lowPowerAlarm active (TransmitDBm levels) (sint code * 250))"

definition highTransmitAlarm :: "bool \<Rightarrow> OpticalSample \<Rightarrow> ANILevels \<Rightarrow> u8 \<Rightarrow> bool" where
  "highTransmitAlarm active sample levels code =
     (if code = 0x81 then highRawAlarm active (TransmitPower sample) 0xffff 0xffff
      else highPowerAlarm active (TransmitDBm levels) (sint code * 250))"

record aniOpticalConfiguration =
  lowerReceive :: u8
  upperReceive :: u8
  lowerTransmit :: u8
  upperTransmit :: u8

definition readOctet :: "Instance \<Rightarrow> string \<Rightarrow> ('w, u8) act" where
  "readOctet inst name = (case map_of (Attributes inst) name of
     Some (VU8 x) \<Rightarrow> returnE x | _ \<Rightarrow> failE (Errorf ''ANI-G %s is missing'' [AStr name]))"

definition readConfiguration :: "OmciLib \<Rightarrow> Key \<Rightarrow> ('w, aniOpticalConfiguration) act" where
  "readConfiguration lib key =
     bindE (mibGetAll lib key 0x0033) (\<lambda>inst.
     bindE (readOctet inst ''LowerOpticalThreshold'') (\<lambda>a. bindE (readOctet inst ''UpperOpticalThreshold'') (\<lambda>b.
     bindE (readOctet inst ''LowerTransmitPowerThreshold'') (\<lambda>c. bindE (readOctet inst ''UpperTransmitPowerThreshold'') (\<lambda>d.
       returnE \<lparr> lowerReceive = a, upperReceive = b, lowerTransmit = c, upperTransmit = d \<rparr>)))))"

definition opticalAlarms :: "OpticalSample \<Rightarrow> ANILevels \<Rightarrow> aniOpticalConfiguration \<Rightarrow> bytes \<Rightarrow> bytes" where
  "opticalAlarms sample levels configuration bitmap =
     (let evaluate = (\<lambda>alarm condition bitmap. setAlarmCondition alarm (condition (alarmCondition bitmap alarm)) bitmap) in
      evaluate aniLaserBiasAlarm (\<lambda>active. highRawAlarm active (LaserBiasCurrent sample) 0xa605 0x9c40)
       (evaluate aniHighTransmitAlarm (\<lambda>active. highTransmitAlarm active sample levels (upperTransmit configuration))
        (evaluate aniLowTransmitAlarm (\<lambda>active. lowTransmitAlarm active sample levels (lowerTransmit configuration))
         (evaluate aniHighReceiveAlarm (\<lambda>active. highReceiveAlarm active sample levels (upperReceive configuration))
          (evaluate aniLowReceiveAlarm (\<lambda>active. lowReceiveAlarm active sample levels (lowerReceive configuration)) bitmap)))))"

definition alarmsOf :: "'w OmciEngine \<Rightarrow> Key \<Rightarrow> bytes" where
  "alarmsOf e key = (case map_of (alarms e) key of Some b \<Rightarrow> b | None \<Rightarrow> zeroBitmap)"

definition evaluateOpticalSample :: "OmciLib \<Rightarrow> Key \<Rightarrow> OpticalSample \<Rightarrow> u8 \<Rightarrow> ('w, bytes list) act" where
  "evaluateOpticalSample lib key sample device =
     (let levels = ANI lib sample in
      bindE (notifyAttributeChange lib key [(''OpticalSignalLevel'', VU16 (OpticalSignalLevel levels)),
          (''TransmitOpticalLevel'', VU16 (TransmitOpticalLevel levels))] device) (\<lambda>frames.
      bindE (readConfiguration lib key) (\<lambda>configuration.
      bindE (getE (\<lambda>e. opticalAlarms sample levels configuration (alarmsOf e key))) (\<lambda>bitmap.
      bindE (notifyAlarm lib key bitmap device) (\<lambda>frame.
        returnE (frames @ (case frame of Some f \<Rightarrow> [f] | None \<Rightarrow> [])))))))"

definition NotifyOpticalSample :: "OmciLib \<Rightarrow> Key \<Rightarrow> OpticalSample \<Rightarrow> u8 \<Rightarrow> ('w, bytes list) act" where
  "NotifyOpticalSample lib key sample device =
     thenE (validateDeviceIdentifier device)
       (bindE (getE (\<lambda>e. notificationDevice e device)) (\<lambda>device.
        if ClassID key \<noteq> AniGClassID
        then failE (Errorf ''optical sample target %v/%#x is not ANI-G'' [AU (ClassID key), AU (EntityID key)])
        else thenE (putE (\<lambda>e. e\<lparr>opticalSample := AList.update key sample (opticalSample e)\<rparr>))
          (evaluateOpticalSample lib key sample device)))"

section \<open>Bit errors\<close>

definition gponDownstreamBitRate :: u64 where "gponDownstreamBitRate = 2488320000"

definition validBootID :: "string \<Rightarrow> bool" where
  "validBootID s =
     (length s = 36 \<and> s ! 8 = CHR ''-'' \<and> s ! 13 = CHR ''-'' \<and> s ! 18 = CHR ''-'' \<and> s ! 23 = CHR ''-''
      \<and> list_all (\<lambda>(index, c). index \<in> {8, 13, 18, 23}
          \<or> (let n = (of_char c :: nat) in 48 \<le> n \<and> n \<le> 57 \<or> 97 \<le> n \<and> n \<le> 102 \<or> 65 \<le> n \<and> n \<le> 70)) (List.enumerate 0 s))"

definition validateBERSample :: "BERSample \<Rightarrow> go_error option" where
  "validateBERSample sample =
     (if BERSequence sample = 0 then Some (Errorf ''BER sample sequence is zero'' [])
      else if IntervalMS sample = 0 then Some (Errorf ''BER sample interval is zero'' [])
      else if \<not> validBootID (BootID sample) then Some (Errorf ''BER sample boot ID is invalid'' [])
      else None)"

text \<open>The scale is computed in 64 bits; a scale of zero would be a division by zero.\<close>

definition berThresholdExceeded :: "BERSample \<Rightarrow> u8 \<Rightarrow> (go_error, bool) outcome" where
  "berThresholdExceeded sample exponent =
     (let scale = ((\<lambda>s. s * 10) ^^ unat exponent) (1000 :: u64);
          windowBits = gponDownstreamBitRate * ucast (IntervalMS sample) in
      if scale = 0 then Panic
      else
        let minimumBIP = windowBits div scale;
            minimumBIP = (if windowBits mod scale \<noteq> 0 then minimumBIP + 1 else minimumBIP) in
        Ok (ucast (BIPCount sample) \<ge> minimumBIP))"

definition evaluateBERSample :: "OmciLib \<Rightarrow> Key \<Rightarrow> BERSample \<Rightarrow> u8 \<Rightarrow> ('w, bytes list) act" where
  "evaluateBERSample lib key sample device =
     bindE (mibGetAll lib key 0x0600) (\<lambda>inst.
     case (map_of (Attributes inst) ''SignalFailThreshold'', map_of (Attributes inst) ''SignalDegradeThreshold'') of
       (Some (VU8 sf), Some (VU8 sd)) \<Rightarrow>
         bindE (getE (\<lambda>e. alarmsOf e key)) (\<lambda>bitmap.
         bindE (pureE (berThresholdExceeded sample sf)) (\<lambda>failing.
         bindE (pureE (berThresholdExceeded sample sd)) (\<lambda>degraded.
         bindE (notifyAlarm lib key (setAlarmCondition aniSignalDegradeAlarm degraded
             (setAlarmCondition aniSignalFailAlarm failing bitmap)) device) (\<lambda>frame.
           returnE (case frame of Some f \<Rightarrow> [f] | None \<Rightarrow> [])))))
     | _ \<Rightarrow> failE (Errorf ''ANI-G BER thresholds are missing'' []))"

definition NotifyBERSample :: "OmciLib \<Rightarrow> Key \<Rightarrow> BERSample \<Rightarrow> u8 \<Rightarrow> ('w, bytes list) act" where
  "NotifyBERSample lib key sample device =
     thenE (validateDeviceIdentifier device)
       (bindE (getE (\<lambda>e. notificationDevice e device)) (\<lambda>device.
        if ClassID key \<noteq> AniGClassID
        then failE (Errorf ''BER sample target %v/%#x is not ANI-G'' [AU (ClassID key), AU (EntityID key)])
        else case validateBERSample sample of
          Some err \<Rightarrow> failE err
        | None \<Rightarrow>
            bindE (getE (\<lambda>e. map_of (berSample e) key)) (\<lambda>previous.
            let stale = (case previous of None \<Rightarrow> False
                  | Some p \<Rightarrow> BootID sample = BootID p \<and> BERSequence sample \<le> BERSequence p) in
            if stale then failE (Errorf ''BER sample sequence %d is not newer'' [AU (BERSequence sample)])
            else bindE (evaluateBERSample lib key sample device) (\<lambda>frames.
              thenE (putE (\<lambda>e. e\<lparr>berSample := AList.update key sample (berSample e)\<rparr>)) (returnE frames)))))"

section \<open>After a Set\<close>

definition berConfigurationChanged :: "attribute_map \<Rightarrow> bool" where
  "berConfigurationChanged attrs =
     (map_of attrs ''SignalFailThreshold'' \<noteq> None \<or> map_of attrs ''SignalDegradeThreshold'' \<noteq> None)"

definition opticalConfigurationChanged :: "attribute_map \<Rightarrow> bool" where
  "opticalConfigurationChanged attrs =
     list_ex (\<lambda>name. map_of attrs name \<noteq> None) [''LowerOpticalThreshold'', ''UpperOpticalThreshold'',
       ''LowerTransmitPowerThreshold'', ''UpperTransmitPowerThreshold'', arcAttribute, arcIntervalAttribute]"

definition arcAfterSet :: "OmciLib \<Rightarrow> Key \<Rightarrow> ('w, unit) act" where
  "arcAfterSet lib key =
     bindE (arcConfiguration lib key) (\<lambda>(enabled, _, supported).
     if supported \<and> enabled
     then bindE (arcGroupHasAlarm lib key) (\<lambda>alarmed.
       if alarmed then deleteArcFree key
       else bindE (getE (\<lambda>e. map_of (arcFreeSince e) key)) (\<lambda>started.
         if started = None then startArcFree key else returnE ()))
     else deleteArcFree key)"

definition afterSet :: "OmciLib \<Rightarrow> Key \<Rightarrow> attribute_map \<Rightarrow> u8 \<Rightarrow> ('w, bytes list) act" where
  "afterSet lib key attrs device =
     (let arcTouched = (map_of attrs arcAttribute \<noteq> None \<or> map_of attrs arcIntervalAttribute \<noteq> None) in
      thenE (if arcTouched then arcAfterSet lib key else returnE ())
        (bindE (getE (\<lambda>e. map_of (opticalSample e) key)) (\<lambda>optic.
         bindE (case optic of
             Some sample \<Rightarrow> if opticalConfigurationChanged attrs then evaluateOpticalSample lib key sample device else returnE []
           | None \<Rightarrow> returnE []) (\<lambda>frames1.
         bindE (getE (\<lambda>e. map_of (berSample e) key)) (\<lambda>errors.
         bindE (case errors of
             Some sample \<Rightarrow> if berConfigurationChanged attrs then evaluateBERSample lib key sample device else returnE []
           | None \<Rightarrow> returnE []) (\<lambda>frames2.
         bindE (if arcTouched then pollARCKey lib key device else returnE []) (\<lambda>frames3.
           returnE (frames1 @ frames2 @ frames3))))))))"

end
