(* ===== verification/EngThreshold.thy ===== *)
theory EngThreshold
  imports EngNotify
begin

unbundle bit_operations_syntax

text \<open>
  Threshold crossing alerts (src/internal/engine/performance_threshold.go): the thresholds of a
  performance monitoring entity, the alarms raised when its counters reach them, and their clearing
  at the end of an interval.
\<close>

section \<open>Thresholds\<close>

definition validatePerformanceThresholdPointer :: "u16 \<Rightarrow> attribute_map \<Rightarrow> ('w, unit) act" where
  "validatePerformanceThresholdPointer classID attrs =
     (let failure = (\<lambda>cause. failE (ResultError ParameterError 0 0 (Some cause))) in
      if \<not> isPerformanceClass classID then returnE ()
      else case map_of attrs performanceThresholdAttribute of
        None \<Rightarrow> returnE ()
      | Some (VU16 thresholdID) \<Rightarrow>
          bindE (getE (\<lambda>e. Exists (mib e) (Key ThresholdData1ClassID thresholdID))) (\<lambda>present.
          if thresholdID \<noteq> 0 \<and> \<not> present
          then failure (Errorf ''performance threshold data 1 %#x does not exist'' [AU thresholdID]) else returnE ())
      | Some v \<Rightarrow> failure (Errorf ''performance threshold pointer has invalid type %T'' [AStr (typeName v)]))"

definition performanceThresholdReferenced :: "'w OmciEngine \<Rightarrow> u16 \<Rightarrow> bool" where
  "performanceThresholdReferenced e thresholdID =
     list_ex (\<lambda>inst. isPerformanceClass (ClassID (ikey inst))
       \<and> map_of (Attributes inst) performanceThresholdAttribute = Some (VU16 thresholdID)) (MibSnapshot e)"

text \<open>A rule with the value of its threshold; the values 0 and 65535 disable it.\<close>

definition configureRule :: "u16 \<Rightarrow> attribute_map \<Rightarrow> attribute_map option \<Rightarrow> performanceThresholdRule
    \<Rightarrow> performanceThresholdRule list \<Rightarrow> (go_error, performanceThresholdRule list) outcome" where
  "configureRule thresholdID threshold1 threshold2 r configured =
     (case (if ruleThreshold r \<le> 7 then Some threshold1 else threshold2) of
        None \<Rightarrow> Ok configured
      | Some attrs \<Rightarrow>
          let name = performanceThresholdValueNames ! unat (ruleThreshold r) in
          case map_of attrs name of
            None \<Rightarrow> Ok configured
          | Some (VU32 limit) \<Rightarrow>
              Ok (if limit \<noteq> 0 \<and> limit \<noteq> 0xffff then configured @ [r\<lparr>thresholdName := name, ruleValue := limit\<rparr>] else configured)
          | Some raw \<Rightarrow> Err (Errorf ''threshold data %#x %s has invalid type %T'' [AU thresholdID, AStr name, AStr (typeName raw)]))"

definition performanceThresholds :: "OmciLib \<Rightarrow> Key \<Rightarrow> ('w, performanceThresholdRule list) act" where
  "performanceThresholds lib key =
     bindE (mibGetAll lib key 0x4000) (\<lambda>inst. case map_of (Attributes inst) performanceThresholdAttribute of
       Some (VU16 thresholdID) \<Rightarrow>
         if thresholdID = 0 then returnE []
         else
           bindE (wrapE (\<lambda>err. Errorf ''resolve threshold data 1 %#x: %w'' [AU thresholdID, AErr err])
             (mibGetAll lib (Key ThresholdData1ClassID thresholdID) 0xfe00)) (\<lambda>threshold1.
           bindE (tryE (mibGetAll lib (Key ThresholdData2ClassID thresholdID) 0xfe00)) (\<lambda>threshold2.
           bindE (getE (\<lambda>e. Exists (mib e) (Key ThresholdData2ClassID thresholdID))) (\<lambda>present2.
           case threshold2 of
             Inl err \<Rightarrow>
               if present2 then failE (Errorf ''resolve threshold data 2 %#x: %w'' [AU thresholdID, AErr err])
               else pureE (foldR (configureRule thresholdID (Attributes threshold1) None) (performanceThresholdRules (ClassID key)) [])
           | Inr inst2 \<Rightarrow>
               pureE (foldR (configureRule thresholdID (Attributes threshold1) (Some (Attributes inst2)))
                 (performanceThresholdRules (ClassID key)) []))))
     | _ \<Rightarrow> failE (Errorf ''performance threshold pointer is missing from %v/%#x'' [AU (ClassID key), AU (EntityID key)]))"

section \<open>Alerts\<close>

fun performanceCounterValue :: "attr_value option \<Rightarrow> u64 option" where
  "performanceCounterValue (Some (VU8 x)) = Some (ucast x)"
| "performanceCounterValue (Some (VU16 x)) = Some (ucast x)"
| "performanceCounterValue (Some (VU32 x)) = Some (ucast x)"
| "performanceCounterValue (Some (VU64 x)) = Some x"
| "performanceCounterValue _ = None"

text \<open>The alarms raised by the rules, and whether any of them is new.\<close>

definition crossRule :: "attribute_map \<Rightarrow> performanceThresholdRule \<Rightarrow> bytes \<times> bool \<Rightarrow> (go_error, bytes \<times> bool) outcome" where
  "crossRule attrs r st =
     (case performanceCounterValue (map_of attrs (ruleCounter r)) of
        None \<Rightarrow> Err (Errorf ''performance counter %s has invalid type'' [AStr (ruleCounter r)])
      | Some counter \<Rightarrow>
          if counter \<ge> ucast (ruleValue r) \<and> \<not> alarmCondition (fst st) (ruleAlarm r)
          then Ok (setAlarmCondition (ruleAlarm r) True (fst st), True) else Ok st)"

definition evaluatePerformanceTCA :: "OmciLib \<Rightarrow> Key \<Rightarrow> attribute_map \<Rightarrow> performanceThresholdRule list \<Rightarrow> u8 \<Rightarrow> ('w, bytes option) act" where
  "evaluatePerformanceTCA lib key attrs rules device =
     (if rules = [] then returnE None
      else bindE (getE (\<lambda>e. case map_of (performanceTCA e) key of Some b \<Rightarrow> b | None \<Rightarrow> zeroBitmap)) (\<lambda>bitmap.
        bindE (pureE (foldR (crossRule attrs) rules (bitmap, False))) (\<lambda>(bitmap, changed).
        if \<not> changed then returnE None
        else bindE (notifyAlarm lib key bitmap device) (\<lambda>frame.
          thenE (if frame \<noteq> None then putE (\<lambda>e. e\<lparr>performanceTCA := AList.update key bitmap (performanceTCA e)\<rparr>) else returnE ())
            (returnE frame)))))"

section \<open>Clearing\<close>

definition clearPerformanceTCAKey :: "Key \<Rightarrow> ('w, unit) act" where
  "clearPerformanceTCAKey key =
     putE (\<lambda>e. if map_of (performanceTCA e) key = None then e
       else e\<lparr>performanceTCA := AList.delete key (performanceTCA e), alarms := AList.delete key (alarms e)\<rparr>)"

definition clearAllPerformanceTCAs :: "('w, unit) act" where
  "clearAllPerformanceTCAs =
     putE (\<lambda>e. e\<lparr>alarms := fold AList.delete (gkeys (performanceTCA e)) (alarms e), performanceTCA := []\<rparr>)"

text \<open>
  The frames of a loop over keys, which stops at the first error: the frames built before it are
  returned together with it.
\<close>

fun collectFrames :: "('k \<Rightarrow> ('w, bytes option) act) \<Rightarrow> 'k list \<Rightarrow> ('w, bytes list \<times> go_error option) act" where
  "collectFrames f [] = returnE ([], None)"
| "collectFrames f (key # keys) =
     bindE (tryE (f key)) (\<lambda>r. case r of
       Inl err \<Rightarrow> returnE ([], Some err)
     | Inr frame \<Rightarrow> bindE (collectFrames f keys) (\<lambda>(frames, err).
         returnE ((case frame of Some octets \<Rightarrow> octets # frames | None \<Rightarrow> frames), err)))"

definition clearPerformanceTCANotifications :: "OmciLib \<Rightarrow> u8 \<Rightarrow> ('w, bytes list \<times> go_error option) act" where
  "clearPerformanceTCANotifications lib device =
     bindE (getE (\<lambda>e. sort (gkeys (performanceTCA e))))
       (collectFrames (\<lambda>key.
          bindE (wrapE (\<lambda>err. Errorf ''clear performance TCA for %v/%#x: %w'' [AU (ClassID key), AU (EntityID key), AErr err])
            (notifyAlarm lib key zeroBitmap device)) (\<lambda>frame.
          thenE (putE (\<lambda>e. e\<lparr>performanceTCA := AList.delete key (performanceTCA e)\<rparr>)) (returnE frame))))"

end
