(* ===== verification/EngPerformance.thy ===== *)
theory EngPerformance
  imports EngThreshold
begin

unbundle bit_operations_syntax

text \<open>
  Performance monitoring (src/internal/engine/performance.go). Every 15 minutes the counters of a
  monitoring entity's last interval are stored as its attributes and the hardware counters become the
  next baseline; in between, thresholds are evaluated and the current interval can be read. The code
  repeats each loop for the four counter sources (GEM ports, FEC, Ethernet, XGS-PON), which differ in
  what \<open>pmKind\<close> holds. An error is returned together with the frames produced before it.
\<close>

section \<open>Counter sources\<close>

definition performanceInterval :: Duration where "performanceInterval = 15 * nsMinute"

record ('w, 'c) pmKind =
  kindName :: string
  kindLabel :: string
  kindClass :: "u16 \<Rightarrow> bool"
  kindStates :: "'w OmciEngine \<Rightarrow> (Key, 'c pmState) gomap"
  kindUpdate :: "((Key, 'c pmState) gomap \<Rightarrow> (Key, 'c pmState) gomap) \<Rightarrow> 'w OmciEngine \<Rightarrow> 'w OmciEngine"
  kindBackend :: "'w OmciEngine \<Rightarrow> (u16 \<Rightarrow> ('w, 'c) call) option"
  kindCreatePort :: "OmciLib \<Rightarrow> Key \<Rightarrow> ('w, u16) act"
  kindPort :: "OmciLib \<Rightarrow> Key \<Rightarrow> ('w, u16) act"
  kindFollows :: bool
  kindValues :: "u16 \<Rightarrow> u8 \<Rightarrow> 'c \<Rightarrow> attribute_map"
  kindDelta :: "'c \<Rightarrow> 'c \<Rightarrow> 'c"
  kindZero :: 'c

text \<open>
  \<open>kindPort\<close> resolves what an entity counts. \<open>kindFollows\<close>: an entity whose port has changed starts
  from new baselines.
\<close>

definition gemPort :: "OmciLib \<Rightarrow> (go_error \<Rightarrow> go_error) \<Rightarrow> go_error \<Rightarrow> Key \<Rightarrow> ('w, u16) act" where
  "gemPort lib resolveError invalid key =
     bindE (wrapE resolveError (mibGetAll lib (Key GemPortNetworkCtpClassID (EntityID key)) 0x8000)) (\<lambda>parent.
     case map_of (Attributes parent) ''PortId'' of
       Some (VU16 portID) \<Rightarrow> if portID > 0x0fff then failE invalid else returnE portID
     | _ \<Rightarrow> failE invalid)"

definition gemKind :: "('w, GEMPortCounters) pmKind" where
  "gemKind =
     \<lparr> kindName = ''GEM'', kindLabel = ''GEM port %d'', kindClass = (\<lambda>c. c = GemPerformanceClassID),
       kindStates = performanceState, kindUpdate = performanceState_update, kindBackend = performance,
       kindCreatePort = (\<lambda>lib key. gemPort lib (\<lambda>err. Errorf ''GEM PM parent: %w'' [AErr err])
         (Errorf ''GEM PM parent has invalid port ID'' []) key),
       kindPort = (\<lambda>lib key. gemPort lib (\<lambda>err. Errorf ''resolve GEM PM parent %#x: %w'' [AU (EntityID key), AErr err])
         (Errorf ''GEM PM parent %#x has invalid port ID'' [AU (EntityID key)]) key),
       kindFollows = True, kindValues = (\<lambda>_. gemPerformanceAttributes), kindDelta = deltaGEMCounters,
       kindZero = zeroGEMPortCounters \<rparr>"

definition aniPort :: "string \<Rightarrow> Key \<Rightarrow> ('w, u16) act" where
  "aniPort name key =
     bindE (getE (\<lambda>e. Exists (mib e) (Key AniGClassID (EntityID key)))) (\<lambda>present.
     if present then returnE (EntityID key)
     else failE (Errorf (name @ '' PM references missing ANI-G %#x'') [AU (EntityID key)]))"

definition fecKind :: "('w, FECCounters) pmKind" where
  "fecKind =
     \<lparr> kindName = ''FEC'', kindLabel = ''ANI-G %#x FEC'', kindClass = (\<lambda>c. c = FecPerformanceClassID),
       kindStates = fecPMState, kindUpdate = fecPMState_update, kindBackend = fecPerformance,
       kindCreatePort = (\<lambda>_. aniPort ''FEC''), kindPort = (\<lambda>_. aniPort ''FEC''),
       kindFollows = False, kindValues = (\<lambda>_. fecPerformanceAttributes), kindDelta = deltaFECCounters,
       kindZero = zeroFECCounters \<rparr>"

definition ethernetKind :: "('w, EthernetCounters) pmKind" where
  "ethernetKind =
     \<lparr> kindName = ''Ethernet'', kindLabel = ''Ethernet UNI %#x'', kindClass = isEthernetPerformanceClass,
       kindStates = ethernetPMState, kindUpdate = ethernetPMState_update, kindBackend = ethernetPerformance,
       kindCreatePort = resolveEthernetPerformanceUNI,
       kindPort = (\<lambda>lib key. wrapE (\<lambda>err. Errorf ''resolve Ethernet PM %v/%#x: %w'' [AU (ClassID key), AU (EntityID key), AErr err])
         (resolveEthernetPerformanceUNI lib key)),
       kindFollows = True, kindValues = ethernetPerformanceAttributes, kindDelta = deltaEthernetCounters,
       kindZero = zeroEthernetCounters \<rparr>"

definition xgsKind :: "('w, XGSPONCounters) pmKind" where
  "xgsKind =
     \<lparr> kindName = ''XGS-PON'', kindLabel = ''ANI-G %#x XGS-PON'', kindClass = isXGSPONPerformanceClass,
       kindStates = xgsPMState, kindUpdate = xgsPMState_update, kindBackend = xgsPerformance,
       kindCreatePort = (\<lambda>_. aniPort ''XGS-PON''), kindPort = (\<lambda>_. aniPort ''XGS-PON''),
       kindFollows = False, kindValues = xgsPerformanceAttributes, kindDelta = deltaXGSPONCounters,
       kindZero = zeroXGSPONCounters \<rparr>"

text \<open>A reading of the hardware counters; a missing backend would be a nil dereference.\<close>

definition readCounters :: "('w, 'c) pmKind \<Rightarrow> u16 \<Rightarrow> ('w, 'c) act" where
  "readCounters kind port =
     bindE (getE (kindBackend kind)) (\<lambda>backend. case backend of None \<Rightarrow> pureE Panic | Some source \<Rightarrow> callE (source port))"

definition labelled :: "('w, 'c) pmKind \<Rightarrow> string \<Rightarrow> u16 \<Rightarrow> go_error \<Rightarrow> go_error" where
  "labelled kind verb port err =
     Errorf (verb @ '' '' @ kindLabel kind @ '' performance counters: %w'') [AU port, AErr err]"

section \<open>Creation\<close>

definition prepareCreate :: "OmciLib \<Rightarrow> ('w, 'c) pmKind \<Rightarrow> Key \<Rightarrow> ('w, 'c pmState option) act" where
  "prepareCreate lib kind key =
     bindE (getE (\<lambda>e. Exists (mib e) key)) (\<lambda>present.
     if present then returnE None
     else bindE (getE (kindBackend kind)) (\<lambda>backend. case backend of
       None \<Rightarrow> failE (ResultError NotSupported 0 0 None)
     | Some source \<Rightarrow>
         bindE (wrapE (\<lambda>err. ResultError ParameterError 0 0 (Some err)) (kindCreatePort kind lib key)) (\<lambda>port.
         bindE (wrapE (\<lambda>err. ResultError ProcessingError 0 0 (Some err)) (callE (source port))) (\<lambda>counters.
           returnE (Some \<lparr> pmPort = port, baseline = counters \<rparr>)))))"

section \<open>Reconciliation\<close>

definition reconcileEntity :: "OmciLib \<Rightarrow> ('w, 'c) pmKind \<Rightarrow> Key \<Rightarrow> ('w, unit) act" where
  "reconcileEntity lib kind key =
     bindE (kindPort kind lib key) (\<lambda>port.
     bindE (getE (\<lambda>e. map_of (kindStates kind e) key)) (\<lambda>known.
     let current = (case known of None \<Rightarrow> False | Some state \<Rightarrow> kindFollows kind \<longrightarrow> pmPort state = port) in
     if current then returnE ()
     else bindE (wrapE (labelled kind ''initialize'' port) (readCounters kind port)) (\<lambda>counters.
       putE (kindUpdate kind (AList.update key \<lparr> pmPort = port, baseline = counters \<rparr>)))))"

definition reconcileKind :: "OmciLib \<Rightarrow> ('w, 'c) pmKind \<Rightarrow> ('w, unit) act" where
  "reconcileKind lib kind =
     bindE (getE (\<lambda>e. if kindBackend kind e = None then []
                      else map ikey (filter (\<lambda>inst. kindClass kind (ClassID (ikey inst))) (MibSnapshot e)))) (\<lambda>active.
     thenE (forE (\<lambda>key _. reconcileEntity lib kind key) active ())
       (putE (kindUpdate kind (filter (\<lambda>(key, _). key \<in> set active)))))"

definition reconcilePerformance :: "OmciLib \<Rightarrow> ('w, unit) act" where
  "reconcilePerformance lib =
     thenE (reconcileKind lib gemKind) (thenE (reconcileKind lib fecKind)
       (thenE (reconcileKind lib ethernetKind) (reconcileKind lib xgsKind)))"

definition noPerformance :: "'w OmciEngine \<Rightarrow> bool" where
  "noPerformance e = (performance e = None \<and> fecPerformance e = None \<and> ethernetPerformance e = None \<and> xgsPerformance e = None)"

section \<open>Polling\<close>

text \<open>The new attributes and baselines of the entities of a kind, and the thresholds to evaluate.\<close>

record 'c pmResult =
  pmUpdates :: "(Key, attribute_map) gomap"
  pmBaselines :: "(Key, 'c) gomap"
  pmEvaluations :: "(Key, attribute_map \<times> performanceThresholdRule list) gomap"

definition pollEntity :: "OmciLib \<Rightarrow> ('w, 'c) pmKind \<Rightarrow> u64 \<Rightarrow> u8 \<Rightarrow> Key \<times> 'c pmState \<Rightarrow> 'c pmResult \<Rightarrow> ('w, 'c pmResult) act" where
  "pollEntity lib kind intervals intervalEnd entry result =
     (case entry of (key, state) \<Rightarrow>
      bindE (wrapE (\<lambda>err. Errorf (''resolve '' @ kindName kind @ '' performance thresholds for %v/%#x: %w'')
          [AU (ClassID key), AU (EntityID key), AErr err]) (performanceThresholds lib key)) (\<lambda>rules.
      if intervals = 0 \<and> rules = [] then returnE result
      else bindE (wrapE (labelled kind ''read'' (pmPort state)) (readCounters kind (pmPort state))) (\<lambda>counters.
        let attrs = kindValues kind (ClassID key) intervalEnd
              (if intervals \<le> 1 then kindDelta kind (baseline state) counters else kindZero kind) in
        returnE \<lparr> pmUpdates = pmUpdates result @ (if intervals \<noteq> 0 then [(key, attrs)] else []),
          pmBaselines = pmBaselines result @ (if intervals \<noteq> 0 then [(key, counters)] else []),
          pmEvaluations = pmEvaluations result @ (if intervals \<le> 1 \<and> rules \<noteq> [] then [(key, attrs, rules)] else []) \<rparr>)))"

definition pollKind :: "OmciLib \<Rightarrow> ('w, 'c) pmKind \<Rightarrow> u64 \<Rightarrow> u8 \<Rightarrow> ('w, 'c pmResult) act" where
  "pollKind lib kind intervals intervalEnd =
     bindE (getE (kindStates kind)) (\<lambda>states.
       forE (pollEntity lib kind intervals intervalEnd) states \<lparr> pmUpdates = [], pmBaselines = [], pmEvaluations = [] \<rparr>)"

definition setBaselines :: "('w, 'c) pmKind \<Rightarrow> (Key, 'c) gomap \<Rightarrow> ('w, unit) act" where
  "setBaselines kind baselines =
     putE (kindUpdate kind (fold (\<lambda>(key, counters) states. AList.update key
       (case map_of states key of Some state \<Rightarrow> state\<lparr>baseline := counters\<rparr> | None \<Rightarrow> \<lparr> pmPort = 0, baseline = counters \<rparr>) states)
       baselines))"

definition elapsedIntervals :: "Time \<Rightarrow> Time \<Rightarrow> u64" where
  "elapsedIntervals now next = (if now < next then 0 else of_int (timeSub now next div performanceInterval) + 1)"

definition evaluateTCAs :: "OmciLib \<Rightarrow> u8 \<Rightarrow> (Key, attribute_map \<times> performanceThresholdRule list) gomap
    \<Rightarrow> ('w, bytes list \<times> go_error option) act" where
  "evaluateTCAs lib device evaluations =
     collectFrames (\<lambda>(key, attrs, rules).
       wrapE (\<lambda>err. Errorf ''evaluate performance TCA for %v/%#x: %w'' [AU (ClassID key), AU (EntityID key), AErr err])
         (evaluatePerformanceTCA lib key attrs rules device)) (sort_key fst evaluations)"

text \<open>The end of an interval: the history is stored, the counters read are the new baselines.\<close>

definition commitInterval :: "OmciLib \<Rightarrow> u64 \<Rightarrow> u8 \<Rightarrow> GEMPortCounters pmResult \<Rightarrow> FECCounters pmResult
    \<Rightarrow> EthernetCounters pmResult \<Rightarrow> XGSPONCounters pmResult \<Rightarrow> ('w, unit) act" where
  "commitInterval lib intervals intervalEnd gem fec ethernet xgs =
     thenE (wrapE (\<lambda>err. Errorf ''update performance history: %w'' [AErr err])
         (storeE (UpdateAutonomousBatch (classes lib)
           (pmUpdates gem @ pmUpdates fec @ pmUpdates ethernet @ pmUpdates xgs))))
       (thenE (setBaselines gemKind (pmBaselines gem)) (thenE (setBaselines fecKind (pmBaselines fec))
       (thenE (setBaselines ethernetKind (pmBaselines ethernet)) (thenE (setBaselines xgsKind (pmBaselines xgs))
       (putE (\<lambda>e. e\<lparr>performanceIntervalEnd := intervalEnd,
         performanceNext := performanceNext e + wrap64 (sint intervals * performanceInterval)\<rparr>))))))"

definition pollInterval :: "OmciLib \<Rightarrow> u8 \<Rightarrow> u64 \<Rightarrow> u8 \<Rightarrow> ('w, bytes list \<times> go_error option) act" where
  "pollInterval lib device intervals intervalEnd =
     bindE (pollKind lib gemKind intervals intervalEnd) (\<lambda>gem.
     bindE (pollKind lib fecKind intervals intervalEnd) (\<lambda>fec.
     bindE (pollKind lib ethernetKind intervals intervalEnd) (\<lambda>ethernet.
     bindE (pollKind lib xgsKind intervals intervalEnd) (\<lambda>xgs.
     thenE (if intervals = 0 then returnE () else commitInterval lib intervals intervalEnd gem fec ethernet xgs)
       (bindE (evaluateTCAs lib device (pmEvaluations gem @ pmEvaluations fec @ pmEvaluations ethernet @ pmEvaluations xgs))
         (\<lambda>(frames, err).
         if err \<noteq> None \<or> intervals = 0 then returnE (frames, err)
         else bindE (clearPerformanceTCANotifications lib device) (\<lambda>(clears, err).
           returnE (if err = None then frames @ clears else frames, err))))))))"

definition pollPerformance :: "OmciLib \<Rightarrow> Time \<Rightarrow> u8 \<Rightarrow> ('w, bytes list \<times> go_error option) act" where
  "pollPerformance lib now device =
     bindE (getE noPerformance) (\<lambda>absent.
     if absent then returnE ([], None)
     else thenE (reconcilePerformance lib)
      (bindE (getE performanceNext) (\<lambda>next.
       if next = zeroTime
       then thenE (putE (\<lambda>e. e\<lparr>performanceNext := now + performanceInterval\<rparr>)) (returnE ([], None))
       else bindE (getE (\<lambda>e. performanceIntervalEnd e + ucast (elapsedIntervals now next)))
         (pollInterval lib device (elapsedIntervals now next)))))"

definition PollPerformance :: "OmciLib \<Rightarrow> u8 \<Rightarrow> ('w, bytes list \<times> go_error option) act" where
  "PollPerformance lib device =
     thenE (validateDeviceIdentifier device)
       (bindE nowE (\<lambda>now. bindE (getE (\<lambda>e. notificationDevice e device)) (pollPerformance lib now)))"

section \<open>The current interval\<close>

definition currentDataSize :: "OmciLib \<Rightarrow> u16 \<Rightarrow> u16 \<Rightarrow> int" where
  "currentDataSize lib classID requested =
     (\<Sum>(index, d) \<leftarrow> GetAttributesDefinitions (classes lib) classID.
        if index \<noteq> 0 \<and> requested AND Mask d \<noteq> 0 then AttrSize d else 0)"

definition currentValues :: "('w, 'c) pmKind \<Rightarrow> Key \<Rightarrow> ('w, attribute_map) act" where
  "currentValues kind key =
     bindE (getE (\<lambda>e. map_of (kindStates kind e) key)) (\<lambda>known. case known of
       None \<Rightarrow> failE (ResultError UnknownInstance 0 0 None)
     | Some state \<Rightarrow>
         bindE (wrapE (\<lambda>err. ResultError ProcessingError 0 0 (Some err)) (readCounters kind (pmPort state))) (\<lambda>counters.
         getE (\<lambda>e. kindValues kind (ClassID key) (performanceIntervalEnd e) (kindDelta kind (baseline state) counters))))"

definition currentSupported :: "'w OmciEngine \<Rightarrow> u16 \<Rightarrow> bool" where
  "currentSupported e classID =
     ((classID = GemPerformanceClassID \<and> performance e \<noteq> None) \<or> (classID = FecPerformanceClassID \<and> fecPerformance e \<noteq> None)
      \<or> (isEthernetPerformanceClass classID \<and> ethernetPerformance e \<noteq> None)
      \<or> (isXGSPONPerformanceClass classID \<and> xgsPerformance e \<noteq> None))"

definition getCurrentPerformance :: "OmciLib \<Rightarrow> Key \<Rightarrow> u16 \<Rightarrow> ('w, Instance \<times> go_error option) act" where
  "getCurrentPerformance lib key requested =
     bindE (getE (\<lambda>e. currentSupported e (ClassID key))) (\<lambda>ok.
     if \<not> ok then failE (ResultError NotSupported 0 0 None)
     else if currentDataSize lib (ClassID key) requested > 25 then failE (ResultError ParameterError 0 0 None)
     else thenE (wrapE (\<lambda>err. ResultError ProcessingError 0 0 (Some err)) (reconcilePerformance lib))
       (bindE (mibGet lib key requested) (\<lambda>(inst, err).
        bindE (if ClassID key = GemPerformanceClassID then currentValues gemKind key
               else if ClassID key = FecPerformanceClassID then currentValues fecKind key
               else if isEthernetPerformanceClass (ClassID key) then currentValues ethernetKind key
               else currentValues xgsKind key) (\<lambda>values.
          returnE (inst\<lparr>Attributes := map (\<lambda>(name, v). (name, case map_of values name of Some x \<Rightarrow> x | None \<Rightarrow> v)) (Attributes inst)\<rparr>,
            err)))))"

section \<open>Synchronization\<close>

record performanceSynchronization =
  syncGEM :: "(Key, GEMPortCounters) gomap"
  syncFEC :: "(Key, FECCounters) gomap"
  syncEthernet :: "(Key, EthernetCounters) gomap"
  syncXGS :: "(Key, XGSPONCounters) gomap"

definition synchronizeKind :: "('w, 'c) pmKind \<Rightarrow> ('w, (Key, 'c) gomap) act" where
  "synchronizeKind kind =
     bindE (getE (kindStates kind)) (\<lambda>states. forE (\<lambda>(key, state) baselines.
       bindE (wrapE (labelled kind ''synchronize'' (pmPort state)) (readCounters kind (pmPort state))) (\<lambda>counters.
         returnE (AList.update key counters baselines))) states [])"

definition preparePerformanceSynchronization :: "OmciLib \<Rightarrow> ('w, performanceSynchronization) act" where
  "preparePerformanceSynchronization lib =
     bindE (getE noPerformance) (\<lambda>absent.
     if absent then returnE \<lparr> syncGEM = [], syncFEC = [], syncEthernet = [], syncXGS = [] \<rparr>
     else thenE (reconcilePerformance lib)
       (bindE (synchronizeKind gemKind) (\<lambda>gem. bindE (synchronizeKind fecKind) (\<lambda>fec.
        bindE (synchronizeKind ethernetKind) (\<lambda>ethernet. bindE (synchronizeKind xgsKind) (\<lambda>xgs.
          returnE \<lparr> syncGEM = gem, syncFEC = fec, syncEthernet = ethernet, syncXGS = xgs \<rparr>))))))"

definition zeroUpdates :: "(u16 \<Rightarrow> u8 \<Rightarrow> 'c \<Rightarrow> attribute_map) \<Rightarrow> 'c \<Rightarrow> (Key, 'c) gomap \<Rightarrow> (Key, attribute_map) gomap" where
  "zeroUpdates attrs zero baselines = map (\<lambda>(key, _). (key, attrs (ClassID key) 0 zero)) baselines"

definition commitPerformanceSynchronization :: "OmciLib \<Rightarrow> Time \<Rightarrow> performanceSynchronization \<Rightarrow> ('w, unit) act" where
  "commitPerformanceSynchronization lib now s =
     thenE (storeE (UpdateAutonomousBatch (classes lib) (
         zeroUpdates (\<lambda>_. gemPerformanceAttributes) zeroGEMPortCounters (syncGEM s)
         @ zeroUpdates (\<lambda>_. fecPerformanceAttributes) zeroFECCounters (syncFEC s)
         @ zeroUpdates ethernetPerformanceAttributes zeroEthernetCounters (syncEthernet s)
         @ zeroUpdates xgsPerformanceAttributes zeroXGSPONCounters (syncXGS s))))
       (thenE (setBaselines gemKind (syncGEM s)) (thenE (setBaselines fecKind (syncFEC s))
       (thenE (setBaselines ethernetKind (syncEthernet s)) (thenE (setBaselines xgsKind (syncXGS s))
       (putE (\<lambda>e. e\<lparr>performanceIntervalEnd := 0, performanceNext := now + performanceInterval\<rparr>))))))"

section \<open>The counter sources of another controller\<close>

definition SetPerformanceController :: "'w Backends \<Rightarrow> ('w, unit) act" where
  "SetPerformanceController backends =
     thenE (putE (\<lambda>e. e\<lparr>performance := gemBackend backends, performanceState := [], fecPerformance := fecBackend backends,
          fecPMState := [], ethernetPerformance := ethernetBackend backends, ethernetPMState := [],
          xgsPerformance := xgsBackend backends, xgsPMState := []\<rparr>))
       (thenE clearAllPerformanceTCAs (putE (\<lambda>e. e\<lparr>performanceNext := zeroTime, performanceIntervalEnd := 0\<rparr>)))"

end
