(* ===== verification/EngCapability.thy ===== *)
theory EngCapability
  imports EngRules
begin

unbundle bit_operations_syntax

text \<open>
  The capability classes 287 to 289 (src/internal/engine/capability.go): the OMCI, managed entity and
  attribute entities describe the classes that the ONU supports. They are not stored; a Get builds
  them from the library's definitions, the device's policy and the MIB.
\<close>

section \<open>Identifiers and encodings\<close>

definition capabilityMessageTypes :: "msg_type list" where
  "capabilityMessageTypes = [MsgCreate, MsgDelete, MsgSet, MsgGet, MsgGetAllAlarms, MsgGetAllAlarmsNext, MsgMibUpload,
     MsgMibUploadNext, MsgMibReset, MsgAlarmNotification, MsgAttributeValueChange, MsgTest, MsgStartSoftwareDownload,
     MsgDownloadSection, MsgEndSoftwareDownload, MsgActivateSoftware, MsgCommitSoftware, MsgSynchronizeTime,
     MsgReboot, MsgGetNext, MsgTestResult, MsgGetCurrentData, MsgSetTable]"

definition isCapabilityClass :: "u16 \<Rightarrow> bool" where
  "isCapabilityClass classID = (classID \<in> {OmciClassID, ManagedEntityMeClassID, AttributeMeClassID})"

definition capabilityAttributeID :: "u16 \<Rightarrow> nat \<Rightarrow> u16" where
  "capabilityAttributeID classID index = (push_bit 5 classID OR of_nat index)"

definition decodeCapabilityAttributeID :: "u16 \<Rightarrow> u16 \<times> nat" where
  "decodeCapabilityAttributeID entityID = (drop_bit 5 entityID, unat (entityID AND 31))"

definition capabilityAttributeAccess :: "attribute_definition \<Rightarrow> u8" where
  "capabilityAttributeAccess d =
     (if SupportsAttributeAccess d Read then 1 else 0) OR (if SupportsAttributeAccess d Write then 2 else 0)
     OR (if SupportsAttributeAccess d SetByCreate then 4 else 0)"

fun capabilityAttributeFormat :: "attribute_type \<Rightarrow> u8" where
  "capabilityAttributeFormat PointerAttributeType = 1"
| "capabilityAttributeFormat BitFieldAttributeType = 2"
| "capabilityAttributeFormat SignedIntegerAttributeType = 3"
| "capabilityAttributeFormat UnsignedIntegerAttributeType = 4"
| "capabilityAttributeFormat CounterAttributeType = 4"
| "capabilityAttributeFormat OctetsAttributeType = 5"
| "capabilityAttributeFormat StringAttributeType = 5"
| "capabilityAttributeFormat UnknownAttributeType = 5"
| "capabilityAttributeFormat EnumerationAttributeType = 6"
| "capabilityAttributeFormat TableAttributeType = 7"

definition capabilityAttributeBounds :: "attribute_definition \<Rightarrow> u32 \<times> u32 \<times> u32" where
  "capabilityAttributeBounds d =
     (let bits = AttrSize d * 8 in
      if bits \<le> 0 \<or> bits > 32 \<or> IsTableAttribute d
        \<or> AttributeType d \<in> {OctetsAttributeType, StringAttributeType, UnknownAttributeType}
      then (0, 0, 0)
      else
        let maximum = (if bits < 32 then push_bit (nat bits) 1 - 1 else 0xffffffff :: u32) in
        if AttributeType d = SignedIntegerAttributeType
        then let upper = drop_bit 1 maximum in (NOT upper, upper, 0)
        else if AttributeType d = BitFieldAttributeType then (0, maximum, maximum)
        else (0, maximum, 0))"

definition fixedCapabilityName :: "string \<Rightarrow> bytes" where
  "fixedCapabilityName name =
     (let octets = take 25 (map of_char name) in octets @ replicate (25 - length octets) 0)"

definition tableValue :: "bytes \<Rightarrow> nat \<Rightarrow> attr_value" where
  "tableValue rows rowSize = VTable \<lparr> NumRows = int (length rows div rowSize), Rows = rows \<rparr>"

text \<open>The binary search in a sorted list finds the first element that is not smaller.\<close>

definition classInSortedList :: "u16 list \<Rightarrow> u16 \<Rightarrow> bool" where
  "classInSortedList supported wanted = (find (\<lambda>c. c \<ge> wanted) supported = Some wanted)"

definition validateCapabilityClasses :: "u16 list \<Rightarrow> go_error option" where
  "validateCapabilityClasses supported =
     map_option (\<lambda>c. Errorf ''managed entity class %#x cannot be encoded in an Attribute ME ID'' [AU c])
       (find (\<lambda>c. c \<ge> 2048) supported)"

text \<open>The classes of the device's policy in ascending order; none without a policy.\<close>

definition SupportedClassList :: "'w OmciEngine \<Rightarrow> u16 list" where
  "SupportedClassList e = (case supportedClasses (mib e) of None \<Rightarrow> [] | Some supported \<Rightarrow> sort (remdups supported))"

section \<open>Descriptions\<close>

definition capabilityDefinition :: "OmciLib \<Rightarrow> u16 \<Rightarrow> (go_error, me_definition) outcome" where
  "capabilityDefinition lib classID =
     bindR (mapErr (\<lambda>err. ResultError UnknownEntity 0 0 (Some err)) (LoadManagedEntityDefinition (classes lib) classID 0 []))
       (\<lambda>entity. Ok (medef entity))"

definition capabilityAttributeDefinitions :: "'w OmciEngine \<Rightarrow> u16 \<Rightarrow> me_definition \<Rightarrow> attribute_definitions" where
  "capabilityAttributeDefinitions e classID d =
     filter (\<lambda>(index, attribute). index \<noteq> 0
       \<and> (case supportedAttributeMask (mib e) classID of None \<Rightarrow> True | Some bits \<Rightarrow> Mask attribute AND bits \<noteq> 0))
     (sort_key fst (AttributeDefinitions d))"

definition attributeIDs :: "OmciLib \<Rightarrow> 'w OmciEngine \<Rightarrow> u16 \<Rightarrow> u16 list" where
  "attributeIDs lib e classID = (case capabilityDefinition lib classID of
     Ok d \<Rightarrow> map (\<lambda>(index, _). capabilityAttributeID classID index) (capabilityAttributeDefinitions e classID d)
   | _ \<Rightarrow> [])"

definition capabilityInstanceIDs :: "OmciLib \<Rightarrow> 'w OmciEngine \<Rightarrow> u16 \<Rightarrow> u16 list \<Rightarrow> bytes" where
  "capabilityInstanceIDs lib e classID supported =
     concat (map put16
       (if classID = OmciClassID then [0]
        else if classID = ManagedEntityMeClassID then supported
        else if classID = AttributeMeClassID then sort (concat (map (attributeIDs lib e) supported))
        else map (\<lambda>inst. EntityID (ikey inst)) (filter (\<lambda>inst. ClassID (ikey inst) = classID) (MibSnapshot e))))"

fun capabilityActionImplemented :: "u16 \<Rightarrow> class_access \<Rightarrow> msg_type \<Rightarrow> bool" where
  "capabilityActionImplemented classID access mt =
     (if mt \<in> {MsgCreate, MsgDelete} then access = CreatedByOlt \<or> access = CreatedByBoth
      else if mt = MsgTest then classID = AniGClassID
      else if mt \<in> {MsgReboot, MsgSynchronizeTime} then classID = OnuGClassID
      else if mt \<in> {MsgStartSoftwareDownload, MsgDownloadSection, MsgEndSoftwareDownload, MsgActivateSoftware,
        MsgCommitSoftware} then classID = SoftwareImageClassID
      else if mt \<in> {MsgGetAllAlarms, MsgGetAllAlarmsNext, MsgMibUpload, MsgMibUploadNext, MsgMibReset}
      then classID = OnuDataClassID
      else if mt = MsgGetCurrentData then isPerformanceClass classID
      else if mt = MsgSetTable then classID \<in> {ExtendedVlanClassID, MulticastGemIwTpClassID,
        MulticastOperationsProfileClassID, MulticastSubscriberConfigInfoClassID}
      else True)"

definition capabilityActions :: "u16 \<Rightarrow> me_definition \<Rightarrow> u32" where
  "capabilityActions classID d =
     fold (\<lambda>mt actions. if msgCode mt \<ge> 32 \<or> mt \<notin> set (MessageTypes d)
         \<or> \<not> capabilityActionImplemented classID (ClassAccess d) mt
       then actions else actions OR push_bit (unat (msgCode mt)) 1) capabilityMessageTypes 0"

fun classAccessCode :: "class_access \<Rightarrow> u8" where
  "classAccessCode UnknownAccess = 0" | "classAccessCode CreatedByOnu = 1"
| "classAccessCode CreatedByOlt = 2" | "classAccessCode CreatedByBoth = 3"

definition partiallySupported :: attr_value where "partiallySupported = VU8 3"

section \<open>Instances\<close>

definition omciAttributes :: "u16 list \<Rightarrow> attribute_map" where
  "omciAttributes supported =
     [(''MeTypeTable'', tableValue (concat (map put16 supported)) 2),
      (''MessageTypeTable'', tableValue (map msgCode capabilityMessageTypes) 1)]"

definition managedEntityAttributes :: "OmciLib \<Rightarrow> 'w OmciEngine \<Rightarrow> u16 list \<Rightarrow> u16 \<Rightarrow> me_definition \<Rightarrow> attribute_map" where
  "managedEntityAttributes lib e supported classID d =
     [(''Name'', VOctets (fixedCapabilityName (DefName d))),
      (''AttributesTable'', tableValue (concat (map (\<lambda>(index, _). put16 (capabilityAttributeID classID index))
         (capabilityAttributeDefinitions e classID d))) 2),
      (''Access'', VU8 (classAccessCode (ClassAccess d))),
      (''AlarmsTable'', tableValue (capabilityAlarmCodes classID) 1),
      (''AvcsTable'', tableValue (capabilityAVCIndexes classID) 1),
      (''Actions'', VU32 (capabilityActions classID d)),
      (''InstancesTable'', tableValue (capabilityInstanceIDs lib e classID supported) 2),
      (''Support'', partiallySupported)]"

definition attributeAttributes :: "'w OmciEngine \<Rightarrow> u16 \<Rightarrow> attribute_definition \<Rightarrow> attribute_map" where
  "attributeAttributes e classID d =
     (let (lower, upper, bitField, codePoints) =
        (case map_of (attributeCapabilities (mib e)) (classID, AttrName d) of
           Some capability \<Rightarrow> (LowerLimit capability, UpperLimit capability, BitField capability,
             concat (map put16 (CodePoints capability)))
         | None \<Rightarrow> (case capabilityAttributeBounds d of (lower, upper, bitField) \<Rightarrow> (lower, upper, bitField, []))) in
      [(''Name'', VOctets (fixedCapabilityName (AttrName d))), (''Size'', VU16 (of_int (AttrSize d))),
       (''Access'', VU8 (capabilityAttributeAccess d)), (''Format'', VU8 (capabilityAttributeFormat (AttributeType d))),
       (''LowerLimit'', VU32 lower), (''UpperLimit'', VU32 upper), (''BitField'', VU32 bitField),
       (''CodePointsTable'', tableValue codePoints 2), (''Support'', partiallySupported)])"

definition capabilityInstance :: "OmciLib \<Rightarrow> 'w OmciEngine \<Rightarrow> Key \<Rightarrow> u16 list \<Rightarrow> (go_error, Instance) outcome" where
  "capabilityInstance lib e key supported =
     (let unknown = Err (ResultError UnknownInstance 0 0 None);
          entity = (\<lambda>attrs. Ok \<lparr> ikey = key, Attributes = (ManagedEntityID, VU16 (EntityID key)) # attrs, Origin = OriginONU \<rparr>) in
      if ClassID key = OmciClassID
      then (if EntityID key \<noteq> 0 then unknown else entity (omciAttributes supported))
      else if ClassID key = ManagedEntityMeClassID
      then (if \<not> classInSortedList supported (EntityID key) then unknown
            else bindR (capabilityDefinition lib (EntityID key)) (\<lambda>d.
              entity (managedEntityAttributes lib e supported (EntityID key) d)))
      else if ClassID key = AttributeMeClassID
      then (case decodeCapabilityAttributeID (EntityID key) of (classID, index) \<Rightarrow>
            if \<not> classInSortedList supported classID then unknown
            else bindR (capabilityDefinition lib classID) (\<lambda>d.
              case map_of (capabilityAttributeDefinitions e classID d) index of
                None \<Rightarrow> unknown
              | Some attribute \<Rightarrow> entity (attributeAttributes e classID attribute)))
      else entity [])"

definition capabilityInstanceExists :: "OmciLib \<Rightarrow> 'w OmciEngine \<Rightarrow> Key \<Rightarrow> bool" where
  "capabilityInstanceExists lib e key =
     (let supported = SupportedClassList e in
      isCapabilityClass (ClassID key) \<and> supported \<noteq> [] \<and> validateCapabilityClasses supported = None
      \<and> (case capabilityInstance lib e key supported of Ok _ \<Rightarrow> True | _ \<Rightarrow> False))"

text \<open>A Get of a capability entity; \<open>None\<close> leaves the request to the MIB.\<close>

definition getCapability :: "OmciLib \<Rightarrow> Key \<Rightarrow> u16 \<Rightarrow> ('w, (Instance \<times> go_error option) option) act" where
  "getCapability lib key requested =
     bindE (getE (\<lambda>e. e)) (\<lambda>e.
     let supported = SupportedClassList e in
     if \<not> isCapabilityClass (ClassID key) \<or> supported = [] then returnE None
     else case validateCapabilityClasses supported of
       Some err \<Rightarrow> failE (ResultError ProcessingError 0 0 (Some err))
     | None \<Rightarrow>
         bindE (pureE (capabilityInstance lib e key supported)) (\<lambda>inst.
         let d = classDefinition (classes lib) (ClassID key);
             unsupported = requested AND NOT (AllowedAttributeMask d);
             selected = fold (\<lambda>(index, attribute) selected.
               if index = 0 \<or> requested AND Mask attribute = 0 then selected
               else case map_of (Attributes inst) (AttrName attribute) of
                 Some v \<Rightarrow> AList.update (AttrName attribute) v selected | None \<Rightarrow> selected)
               (AttributeDefinitions d) [(ManagedEntityID, VU16 (EntityID key))] in
         returnE (Some (inst\<lparr>Attributes := selected\<rparr>,
           if unsupported \<noteq> 0 then Some (ResultError AttributeFailure 0 unsupported None) else None))))"

end
