(* ===== verification/EngMulticast.thy ===== *)
theory EngMulticast
  imports EngRules
begin

unbundle bit_operations_syntax

text \<open>
  The live attributes of the multicast classes (src/internal/engine/multicast.go): the time left of
  allowed previews (class 310), whose rows expire, and the subscriber monitor (class 311).
\<close>

section \<open>Allowed previews\<close>

definition mibAllowedPreviewTimers :: "PreviewTimer list \<Rightarrow> AllowedPreviewTimer list" where
  "mibAllowedPreviewTimers timers =
     map (\<lambda>t. \<lparr> AllowedPreviewTimer.RowKey = TimerRow t, Duration = TimerDuration t, TimeLeft = TimerTimeLeft t \<rparr>) timers"

definition refreshAllowedPreview :: "OmciLib \<Rightarrow> u16 \<Rightarrow> ('w, AllowedPreviewSnapshot option) act" where
  "refreshAllowedPreview lib entityID =
     bindE (getE multicastPreview) (\<lambda>backend. case backend of
       None \<Rightarrow> returnE None
     | Some status \<Rightarrow>
         bindE (wrapE (\<lambda>err. ResultError ProcessingError 0 0
             (Some (Errorf ''read multicast subscriber preview status %#x: %w'' [AU entityID, AErr err])))
           (callE (status entityID))) (\<lambda>snapshot.
         bindE (getE (\<lambda>e. dataSync (mib e))) (\<lambda>sync.
         if SnapshotDataSync snapshot \<noteq> sync then returnE None
         else bindE (wrapE (\<lambda>err. ResultError ProcessingError 0 0
               (Some (Errorf ''expire multicast subscriber preview rows %#x: %w'' [AU entityID, AErr err])))
             (storeE (ExpireAllowedPreviewRows (classes lib) (Key MulticastSubscriberConfigInfoClassID entityID)
               (mibAllowedPreviewTimers (SnapshotTimers snapshot))))) (\<lambda>changed.
           thenE (putE (\<lambda>e. if changed then e\<lparr>tables := []\<rparr> else e)) (returnE (Some snapshot))))))"

definition PollMulticast :: "OmciLib \<Rightarrow> ('w, unit) act" where
  "PollMulticast lib =
     bindE (getE (\<lambda>e. if multicastPreview e = None then []
         else filter (\<lambda>inst. ClassID (ikey inst) = MulticastSubscriberConfigInfoClassID) (MibSnapshot e))) (\<lambda>subscribers.
       forE (\<lambda>inst _. bindE (refreshAllowedPreview lib (EntityID (ikey inst))) (\<lambda>_. returnE ())) subscribers ())"

definition getAllowedPreview :: "OmciLib \<Rightarrow> Instance \<Rightarrow> u16 \<Rightarrow> ('w, Instance) act" where
  "getAllowedPreview lib inst requested =
     bindE (getE multicastPreview) (\<lambda>backend.
     if backend = None \<or> requested AND 0x0200 = 0 then returnE inst
     else bindE (refreshAllowedPreview lib (EntityID (ikey inst))) (\<lambda>snapshot. case snapshot of
       None \<Rightarrow> returnE inst
     | Some snapshot \<Rightarrow>
         bindE (mibGetAll lib (ikey inst) requested) (\<lambda>inst.
           pureE (OverlayAllowedPreviewTimers inst (mibAllowedPreviewTimers (SnapshotTimers snapshot))))))"

section \<open>The subscriber monitor\<close>

definition monitorIPv4 :: "Addr \<Rightarrow> string \<Rightarrow> (go_error, bytes) outcome" where
  "monitorIPv4 address name =
     (if \<not> IsValid address \<or> IsUnspecified address then Ok (replicate 4 0)
      else if \<not> Is4 address then Err (Errorf ''IPv4 multicast monitor has non-IPv4 %s %s'' [AStr name, ABytes (AsSlice address)])
      else As4 address)"

definition monitorIPv6 :: "Addr \<Rightarrow> string \<Rightarrow> (go_error, bytes) outcome" where
  "monitorIPv6 address name =
     (if \<not> IsValid address \<or> IsUnspecified address then Ok (replicate 16 0)
      else if Is4 address then bindR (As4 address) (\<lambda>octets. Ok (replicate 12 0 @ octets))
      else if \<not> Is6 address then Err (Errorf ''IPv6 multicast monitor has invalid %s %s'' [AStr name, ABytes (AsSlice address)])
      else Ok (As16 address))"

definition multicastMonitorIPv4Row :: "ActiveGroup \<Rightarrow> (go_error, bytes) outcome" where
  "multicastMonitorIPv4Row g =
     bindR (monitorIPv4 (GroupSource g) ''source'') (\<lambda>source. bindR (monitorIPv4 (GroupAddr g) ''group'') (\<lambda>address.
     bindR (monitorIPv4 (GroupClient g) ''client'') (\<lambda>client.
       Ok (put16 (ANIVLAN g) @ source @ address @ put32 (ImputedBandwidth g) @ client @ put32 (TimeSinceJoin g) @ [0, 0]))))"

definition multicastMonitorIPv6Row :: "ActiveGroup \<Rightarrow> (go_error, bytes) outcome" where
  "multicastMonitorIPv6Row g =
     bindR (monitorIPv6 (GroupSource g) ''source'') (\<lambda>source. bindR (monitorIPv6 (GroupAddr g) ''group'') (\<lambda>address.
     bindR (monitorIPv6 (GroupClient g) ''client'') (\<lambda>client.
       Ok (put16 (ANIVLAN g) @ source @ address @ put32 (ImputedBandwidth g) @ client @ put32 (TimeSinceJoin g)))))"

definition multicastMonitorTables :: "ActiveGroup list \<Rightarrow> (go_error, table_rows \<times> table_rows) outcome" where
  "multicastMonitorTables gs =
     bindR (foldR (\<lambda>g (ipv4, ipv6).
         if \<not> IsValid (GroupAddr g) \<or> \<not> IsMulticast (GroupAddr g) \<or> ANIVLAN g > 4095
         then Err (Errorf ''multicast monitor contains invalid group %s/VLAN %d'' [ABytes (AsSlice (GroupAddr g)), AU (ANIVLAN g)])
         else if Is4 (GroupAddr g) then bindR (multicastMonitorIPv4Row g) (\<lambda>row. Ok (ipv4 @ row, ipv6))
         else bindR (multicastMonitorIPv6Row g) (\<lambda>row. Ok (ipv4, ipv6 @ row)))
       (sort_key GroupAddr (sort_key GroupSource (sort_key GroupClient gs))) ([], []))
     (\<lambda>(ipv4, ipv6). Ok (\<lparr> NumRows = int (length ipv4 div 24), Rows = ipv4 \<rparr>, \<lparr> NumRows = int (length ipv6 div 58), Rows = ipv6 \<rparr>))"

definition setIf :: "bool \<Rightarrow> string \<Rightarrow> attr_value \<Rightarrow> Instance \<Rightarrow> Instance" where
  "setIf selected name v inst = (if selected then inst\<lparr>Attributes := AList.update name v (Attributes inst)\<rparr> else inst)"

definition getMulticastMonitor :: "Instance \<Rightarrow> u16 \<Rightarrow> ('w, Instance) act" where
  "getMulticastMonitor inst requested =
     bindE (getE multicast) (\<lambda>backend. case backend of
       None \<Rightarrow> failE (ResultError ProcessingError 0 0 (Some (Errorf ''multicast subscriber monitor backend is unavailable'' [])))
     | Some status \<Rightarrow>
         bindE (wrapE (\<lambda>err. ResultError ProcessingError 0 0
             (Some (Errorf ''read multicast subscriber monitor %#x: %w'' [AU (EntityID (ikey inst)), AErr err])))
           (callE (status (EntityID (ikey inst))))) (\<lambda>monitor.
         let counted = setIf (requested AND 0x1000 \<noteq> 0) ''BandwidthExceededCounter'' (VU32 (MonitorExceeded monitor))
               (setIf (requested AND 0x2000 \<noteq> 0) ''JoinMessagesCounter'' (VU32 (JoinMessages monitor))
               (setIf (requested AND 0x4000 \<noteq> 0) ''CurrentMulticastBandwidth'' (VU32 (CurrentBandwidth monitor)) inst)) in
         if requested AND 0x0c00 = 0 then returnE counted
         else bindE (wrapE (\<lambda>err. ResultError ProcessingError 0 0 (Some err)) (pureE (multicastMonitorTables (MonitorGroups monitor))))
           (\<lambda>(ipv4, ipv6). returnE (setIf (requested AND 0x0400 \<noteq> 0) ''Ipv6ActiveGroupListTable'' (VTable ipv6)
             (setIf (requested AND 0x0800 \<noteq> 0) ''Ipv4ActiveGroupListTable'' (VTable ipv4) counted)))))"

end
