(* ===== verification/EngOnu3.thy ===== *)
theory EngOnu3
  imports EngRules
begin

unbundle bit_operations_syntax

text \<open>
  The status snapshots of the ONU3-G entity (src/internal/engine/onu3.go, src/internal/onu3/record.go).
  A snap action appends a record of 25 octets to a table of fixed capacity, which then works as a
  ring; a reset action empties it.
\<close>

section \<open>Records\<close>

definition RecordSize :: nat where "RecordSize = 25"

record Onu3Record =
  Trigger :: u8
  TakenAt :: Time
  RecordDataSync :: u8
  MIBEntries :: u16
  ActiveAlarms :: u16
  ExtendedOMCI :: bool

text \<open>\<open>Unix\<close> counts the seconds since 1970, which is 62135596800 seconds after year 1.\<close>

definition unixSeconds :: "Time \<Rightarrow> u64" where
  "unixSeconds t = of_int (t div nsSecond - 62135596800)"

definition encodeRecord :: "Onu3Record \<Rightarrow> bytes" where
  "encodeRecord r = [1, Trigger r] @ put64 (unixSeconds (TakenAt r)) @ [RecordDataSync r] @ put16 (MIBEntries r)
     @ put16 (ActiveAlarms r) @ [if ExtendedOMCI r then 1 else 0] @ replicate 9 0"

section \<open>Actions\<close>

definition activeAlarmCount :: "'w OmciEngine \<Rightarrow> u16" where
  "activeAlarmCount e = saturatingUint16 (of_nat (\<Sum>(_, bitmap) \<leftarrow> alarms e. \<Sum>octet \<leftarrow> bitmap.
     length (filter (bit octet) [0..<8])))"

definition onu3AttributeMask :: "OmciLib \<Rightarrow> string \<Rightarrow> u16" where
  "onu3AttributeMask lib name =
     (case GetAttributeDefinitionByName (GetAttributesDefinitions (classes lib) Onu3GClassID) name of
        Ok d \<Rightarrow> Mask d | _ \<Rightarrow> 0xffff)"

text \<open>The actions that a Set asks for: snap and reset.\<close>

definition onu3Action :: "OmciLib \<Rightarrow> string \<times> attr_value \<Rightarrow> bool \<times> bool \<Rightarrow> (go_error, bool \<times> bool) outcome" where
  "onu3Action lib attribute st =
     (case attribute of (name, v) \<Rightarrow>
      let octet = (case v of VU8 _ \<Rightarrow> True | _ \<Rightarrow> False);
          invalid = (\<lambda>action. Err (ResultError ParameterError 0 0
            (Some (Errorf (''ONU3-G '' @ action @ '' action has type %T'') [AStr (typeName v)])))) in
      if name = ManagedEntityID then Ok st
      else if name = ''SnapAction'' then (if octet then Ok (True, snd st) else invalid ''Snap'')
      else if name = ''ResetAction'' then (if octet then Ok (fst st, True) else invalid ''Reset'')
      else Err (ResultError AttributeFailure 0 (onu3AttributeMask lib name) None))"

text \<open>
  The table after a snap: the record is appended while there is room and else overwrites the oldest
  one. A type assertion that fails and a remainder by zero panic.
\<close>

definition snapRows :: "u16 \<Rightarrow> u16 \<Rightarrow> u16 \<Rightarrow> bytes \<Rightarrow> bytes \<Rightarrow> (go_error, u16 \<times> u16 \<times> bytes) outcome" where
  "snapRows slots valid next rows record =
     (if slots = 0 then Panic
      else if valid < slots then Ok (valid + 1, (next + 1) mod slots, rows @ record)
      else
        let offset = unat next * RecordSize in
        if offset + RecordSize > length rows then Panic
        else Ok (valid, (next + 1) mod slots, overwrite offset record rows))"

definition noSnapshots :: table_rows where "noSnapshots = \<lparr> NumRows = 0, Rows = [] \<rparr>"

definition snapshotUpdates :: "u16 \<Rightarrow> u16 \<Rightarrow> table_rows \<Rightarrow> bytes \<Rightarrow> attribute_map" where
  "snapshotUpdates valid next table record =
     [(''NumberOfValidStatusSnapshots'', VU16 valid), (''NextStatusSnapshotIndex'', VU16 next),
      (''StatusSnapshotRecordTable'', VTable table), (''MostRecentStatusSnapshot'', VOctets record)]"

definition takeRecord :: "('w, Onu3Record) act" where
  "takeRecord =
     bindE nowE (\<lambda>now. getE (\<lambda>e. \<lparr> Trigger = 1, TakenAt = now, RecordDataSync = dataSync (mib e),
       MIBEntries = saturatingUint16 (of_nat (length (MibSnapshot e))), ActiveAlarms = activeAlarmCount e,
       ExtendedOMCI = extendedSeen e \<rparr>))"

definition onu3Changed :: "u16 \<Rightarrow> u16 \<Rightarrow> u16 \<Rightarrow> u16 \<Rightarrow> attribute_map" where
  "onu3Changed previousValid valid previousNext next =
     (if valid \<noteq> previousValid then [(''NumberOfValidStatusSnapshots'', VU16 valid)] else [])
     @ (if next \<noteq> previousNext then [(''NextStatusSnapshotIndex'', VU16 next)] else [])"

definition commitSnapshot :: "OmciLib \<Rightarrow> Key \<Rightarrow> u16 \<Rightarrow> u16 \<Rightarrow> u16 \<times> u16 \<times> table_rows \<times> bytes \<Rightarrow> ('w, attribute_map) act" where
  "commitSnapshot lib key previousValid previousNext result =
     (case result of (valid, next, table, record) \<Rightarrow>
       thenE (storeE (UpdateByCommand (classes lib) [(key, snapshotUpdates valid next table record)]))
         (returnE (onu3Changed previousValid valid previousNext next)))"

definition snapOrReset :: "bool \<Rightarrow> u16 \<Rightarrow> u16 \<Rightarrow> attribute_map \<Rightarrow> ('w, u16 \<times> u16 \<times> table_rows \<times> bytes) act" where
  "snapOrReset reset previousValid previousNext attrs =
     (if reset then returnE (0, 0, noSnapshots, replicate RecordSize 0)
      else case (map_of attrs ''TotalNumberOfStatusSnapshots'', map_of attrs ''StatusSnapshotRecordTable'') of
        (Some (VU16 capacity), Some (VTable table)) \<Rightarrow>
          bindE takeRecord (\<lambda>r.
          bindE (pureE (snapRows capacity previousValid previousNext (Rows table) (encodeRecord r))) (\<lambda>(valid, next, rows).
            returnE (valid, next, \<lparr> NumRows = uint valid, Rows = rows \<rparr>, encodeRecord r)))
      | _ \<Rightarrow> pureE Panic)"

definition setONU3 :: "OmciLib \<Rightarrow> Key \<Rightarrow> attribute_map \<Rightarrow> ('w, attribute_map) act" where
  "setONU3 lib key attrs =
     bindE (getE (\<lambda>e. Exists (mib e) key)) (\<lambda>present.
     if EntityID key \<noteq> 0 \<or> \<not> present then failE (ResultError UnknownInstance 0 0 None)
     else bindE (pureE (foldR (onu3Action lib) attrs (False, False))) (\<lambda>(snap, reset).
       if snap = reset
       then failE (ResultError ParameterError 0 0 (Some (Errorf ''ONU3-G Set requires exactly one action'' [])))
       else bindE (mibGetAll lib key 0x3d00) (\<lambda>inst.
         case (map_of (Attributes inst) ''NumberOfValidStatusSnapshots'', map_of (Attributes inst) ''NextStatusSnapshotIndex'') of
           (Some (VU16 valid), Some (VU16 next)) \<Rightarrow>
             bindE (snapOrReset reset valid next (Attributes inst)) (commitSnapshot lib key valid next)
         | _ \<Rightarrow> pureE Panic)))"

end
