(* ===== verification/EngUpload.thy ===== *)
theory EngUpload
  imports EngRules
begin

unbundle bit_operations_syntax

text \<open>
  The MIB upload (\<open>buildUpload\<close> of src/internal/engine/engine.go). Each instance becomes entities
  whose attributes fit a message; the baseline set sends one entity per command, the extended set packs
  as many into a command as fit. The size of a serialized entity is the library's \<open>entitySize\<close>.
\<close>

section \<open>What is uploaded\<close>

definition attributeLimit :: "u8 \<Rightarrow> int" where
  "attributeLimit device = (if device = ExtendedIdent then 1966 - 8 else 26)"

definition uploadLimit :: nat where "uploadLimit = 1966"

definition excludedFromMibUpload :: "u16 \<Rightarrow> bool" where
  "excludedFromMibUpload classID = (classID \<in> {LctUniClassID, SipConfigPortalClassID, MgcConfigPortalClassID, OmciClassID,
     ManagedEntityMeClassID, AttributeMeClassID, GeneralPurposeBufferClassID})"

definition containsString :: "string \<Rightarrow> string \<Rightarrow> bool" where
  "containsString s part = list_ex (\<lambda>i. take (length part) (drop i s) = part) [0..<Suc (length s)]"

definition isPerformanceMonitoringDefinition :: "string \<Rightarrow> bool" where
  "isPerformanceMonitoringDefinition name =
     (containsString name ''PerformanceMonitoringHistoryData'' \<or> containsString name ''ExtendedPm'')"

definition isPerformanceControlBlock :: "attribute_definition \<Rightarrow> bool" where
  "isPerformanceControlBlock d =
     (AttrName d = ''ControlBlock'' \<or> take (length ''ThresholdData'') (AttrName d) = ''ThresholdData'')"

text \<open>Counters and tables are read with other requests; of a history only its control block is sent.\<close>

definition uploadable :: "bool \<Rightarrow> int \<Rightarrow> attribute_definition \<Rightarrow> bool" where
  "uploadable monitoring limit d =
     (SupportsAttributeAccess d Read \<and> \<not> IsTableAttribute d \<and> AttributeType d \<noteq> CounterAttributeType
      \<and> \<not> (monitoring \<and> \<not> isPerformanceControlBlock d) \<and> AttrSize d \<le> limit)"

section \<open>Entities\<close>

text \<open>The entities built so far, the attributes of the next one and their size.\<close>

type_synonym uploadState = "managed_entity list \<times> attribute_map \<times> int"

definition flushEntity :: "OmciLib \<Rightarrow> Instance \<Rightarrow> uploadState \<Rightarrow> (go_error, uploadState) outcome" where
  "flushEntity lib inst st =
     (case st of (entities, attrs, used) \<Rightarrow>
       bindR (LoadManagedEntityDefinition (classes lib) (ClassID (ikey inst)) (EntityID (ikey inst)) attrs)
         (\<lambda>entity. Ok (entities @ [entity], [], 0)))"

definition uploadAttribute :: "OmciLib \<Rightarrow> int \<Rightarrow> bool \<Rightarrow> Instance \<Rightarrow> nat \<times> attribute_definition \<Rightarrow> uploadState
    \<Rightarrow> (go_error, uploadState) outcome" where
  "uploadAttribute lib limit monitoring inst definition st =
     (case definition of (index, d) \<Rightarrow>
      case map_of (Attributes inst) (AttrName d) of
        None \<Rightarrow> Ok st
      | Some v \<Rightarrow>
          if index = 0 \<or> \<not> uploadable monitoring limit d then Ok st
          else
            let used = snd (snd st) in
            bindR (if used > 0 \<and> used + AttrSize d > limit then flushEntity lib inst st else Ok st)
              (\<lambda>(entities, attrs, used). Ok (entities, AList.update (AttrName d) v attrs, used + AttrSize d)))"

definition instanceEntities :: "OmciLib \<Rightarrow> int \<Rightarrow> Instance \<Rightarrow> managed_entity list \<Rightarrow> (go_error, managed_entity list) outcome" where
  "instanceEntities lib limit inst entities =
     bindR (mapErr (\<lambda>err. Errorf ''load MIB upload definition %v: %w'' [AU (ClassID (ikey inst)), AErr err])
         (LoadManagedEntityDefinition (classes lib) (ClassID (ikey inst)) (EntityID (ikey inst)) [])) (\<lambda>definition.
     let d = medef definition; monitoring = isPerformanceMonitoringDefinition (DefName d) in
     bindR (foldR (uploadAttribute lib limit monitoring inst) (sort_key fst (AttributeDefinitions d)) (entities, [], 0)) (\<lambda>st.
     bindR (case st of (_, attrs, used) \<Rightarrow> if attrs \<noteq> [] \<or> used = 0 then flushEntity lib inst st else Ok st) (\<lambda>(entities, _, _).
       Ok entities)))"

section \<open>Commands\<close>

type_synonym packState = "uploadCommand list \<times> uploadCommand \<times> nat"

definition packEntity :: "OmciLib \<Rightarrow> managed_entity \<Rightarrow> packState \<Rightarrow> (go_error, packState) outcome" where
  "packEntity lib entity st =
     (case st of (commands, pending, used) \<Rightarrow>
      bindR (mapErr (\<lambda>err. Errorf ''size extended MIB upload ME %v: %w'' [AU (entityClass entity), AErr err])
          (entitySize lib entity (responseType MsgMibUploadNext) uploadLimit)) (\<lambda>octets.
        let cost = 2 + octets in
        if pending \<noteq> [] \<and> used + cost > uploadLimit then Ok (commands @ [pending], [entity], cost)
        else Ok (commands, pending @ [entity], used + cost)))"

definition buildUpload :: "OmciLib \<Rightarrow> Instance list \<Rightarrow> u8 \<Rightarrow> (go_error, uploadCommand list) outcome" where
  "buildUpload lib insts device =
     bindR (foldR (\<lambda>inst entities. if excludedFromMibUpload (ClassID (ikey inst)) then Ok entities
         else instanceEntities lib (attributeLimit device) inst entities) insts []) (\<lambda>entities.
     if device \<noteq> ExtendedIdent then Ok (map (\<lambda>entity. [entity]) entities)
     else bindR (foldR (packEntity lib) entities ([], [], 0)) (\<lambda>(commands, pending, _).
       Ok (if pending \<noteq> [] then commands @ [pending] else commands)))"

end
