(* ===== verification/EngCore.thy ===== *)
theory EngCore
  imports EngOptical EngPerformance EngCapability EngMulticast EngOnu3 EngUpload Software
begin

unbundle bit_operations_syntax

text \<open>
  The engine (src/internal/engine/engine.go): acceptance of a frame, replay of a transaction, the
  handlers of the requests and the frame handler that composes them. A request is answered at most
  once per transaction identifier on each of three channels: baseline low and high priority and the
  extended message set.
\<close>

section \<open>Responses\<close>

definition isExtended :: "Header \<Rightarrow> bool" where "isExtended header = (DeviceIdentifier header = ExtendedIdent)"

definition replyBase :: "Header \<Rightarrow> 'a MePacket_scheme \<Rightarrow> MeBasePacket" where
  "replyBase header p = \<lparr> EntityClass = EntityClass p, EntityInstance = EntityInstance p, Extended = isExtended header \<rparr>"

definition reply :: "OmciLib \<Rightarrow> Header \<Rightarrow> msg_type \<Rightarrow> response \<Rightarrow> ('w, bytes) act" where
  "reply lib header mt response =
     wrapE (\<lambda>err. Errorf ''serialize %s: %w'' [AU (responseType mt), AErr err])
       (pureE (serializeLayers lib (TransactionID header) (responseType mt) (DeviceIdentifier header) response))"

definition rawResult :: "Header \<Rightarrow> u16 \<Rightarrow> u16 \<Rightarrow> u8 \<Rightarrow> bytes" where
  "rawResult header classID entityID result =
     put16 classID @ put16 entityID @ (if isExtended header then put16 1 else []) @ [result]"

definition serializeRawResult :: "OmciLib \<Rightarrow> Header \<Rightarrow> u16 \<Rightarrow> u16 \<Rightarrow> u8 \<Rightarrow> ('w, bytes) act" where
  "serializeRawResult lib header classID entityID result =
     wrapE (\<lambda>err. Errorf ''serialize raw OMCI error response: %w'' [AErr err])
       (pureE (serializeLayers lib (TransactionID header) ((MessageType header AND NOT AR) OR AK) (DeviceIdentifier header)
         (RawLayer (rawResult header classID entityID result))))"

text \<open>The answer to a command number that is out of range: no contents.\<close>

definition emptyLayer :: "Header \<Rightarrow> 'a MePacket_scheme \<Rightarrow> response" where
  "emptyLayer header p =
     RawLayer (put16 (EntityClass p) @ put16 (EntityInstance p) @ (if isExtended header then put16 0 else []))"

definition clearTables :: "('w, unit) act" where "clearTables = putE (\<lambda>e. e\<lparr>tables := []\<rparr>)"

definition keyOf :: "'a MePacket_scheme \<Rightarrow> Key" where "keyOf p = Key (EntityClass p) (EntityInstance p)"

section \<open>Create, Delete, Set\<close>

text \<open>The state that a monitoring entity starts from, as the update that stores it.\<close>

definition prepareKind :: "OmciLib \<Rightarrow> ('w, 'c) pmKind \<Rightarrow> Key \<Rightarrow> ('w, 'w OmciEngine \<Rightarrow> 'w OmciEngine) act" where
  "prepareKind lib kind key =
     bindE (prepareCreate lib kind key) (\<lambda>prepared. returnE (case prepared of
       None \<Rightarrow> \<lambda>e. e | Some state \<Rightarrow> kindUpdate kind (AList.update key state)))"

definition preparePerformance :: "OmciLib \<Rightarrow> Key \<Rightarrow> ('w, 'w OmciEngine \<Rightarrow> 'w OmciEngine) act" where
  "preparePerformance lib key =
     (if ClassID key = GemPerformanceClassID then prepareKind lib gemKind key
      else if ClassID key = FecPerformanceClassID then prepareKind lib fecKind key
      else if isEthernetPerformanceClass (ClassID key) then prepareKind lib ethernetKind key
      else if isXGSPONPerformanceClass (ClassID key) then prepareKind lib xgsKind key
      else returnE (\<lambda>e. e))"

definition createEntity :: "OmciLib \<Rightarrow> Key \<Rightarrow> attribute_map \<Rightarrow> ('w, 'w OmciEngine \<Rightarrow> 'w OmciEngine) act" where
  "createEntity lib key attrs =
     bindE (getE (\<lambda>e. Exists (mib e) key)) (\<lambda>present.
     thenE (if present then returnE () else validatePerformanceThresholdPointer (ClassID key) attrs)
       (bindE (preparePerformance lib key) (\<lambda>prepared.
        thenE (storeE (Create (classes lib) (ClassID key) (EntityID key) attrs)) (returnE prepared))))"

definition handleCreate :: "OmciLib \<Rightarrow> Header \<Rightarrow> MePacket \<Rightarrow> attribute_map \<Rightarrow> ('w, bytes) act" where
  "handleCreate lib header p attrs =
     bindE (tryE (createEntity lib (keyOf p) attrs)) (\<lambda>r.
     case operationResult (errorOf r) of (result, failed, _) \<Rightarrow>
       thenE (case r of
           Inr prepared \<Rightarrow> thenE clearTables (putE prepared)
         | Inl _ \<Rightarrow> if result = Success then clearTables else returnE ())
         (reply lib header MsgCreate (CreateResponse (replyBase header p) result failed)))"

definition deleteEntity :: "OmciLib \<Rightarrow> Key \<Rightarrow> ('w, unit) act" where
  "deleteEntity lib key =
     bindE (getE (\<lambda>e. e)) (\<lambda>e.
     let refuse = (\<lambda>cause. failE (ResultError ParameterError 0 0 (Some (Errorf cause [])))) in
     if ClassID key = GemPortNetworkCtpClassID \<and> Exists (mib e) (Key GemPerformanceClassID (EntityID key))
     then refuse ''GEM port has an active performance monitoring instance''
     else if ClassID key = MacBridgePortClassID \<and> bridgePortHasPerformance e (EntityID key)
     then refuse ''MAC bridge port has an active performance monitoring instance''
     else if ClassID key = ThresholdData1ClassID \<and> performanceThresholdReferenced e (EntityID key)
     then refuse ''threshold data is referenced by performance monitoring''
     else storeE (Delete (classes lib) key))"

definition handleDelete :: "OmciLib \<Rightarrow> Header \<Rightarrow> MePacket \<Rightarrow> ('w, bytes) act" where
  "handleDelete lib header p =
     bindE (tryE (deleteEntity lib (keyOf p))) (\<lambda>r.
     case operationResult (errorOf r) of (result, _, _) \<Rightarrow>
       thenE (if result = Success
           then thenE clearTables (thenE (putE (\<lambda>e. e\<lparr>performanceState := AList.delete (keyOf p) (performanceState e),
                fecPMState := AList.delete (keyOf p) (fecPMState e),
                ethernetPMState := AList.delete (keyOf p) (ethernetPMState e),
                xgsPMState := AList.delete (keyOf p) (xgsPMState e)\<rparr>))
              (clearPerformanceTCAKey (keyOf p)))
           else returnE ())
         (reply lib header MsgDelete (DeleteResponse (replyBase header p) result)))"

text \<open>A Set returns the changes of an ONU3-G action, which the engine itself announces.\<close>

definition setEntity :: "OmciLib \<Rightarrow> Key \<Rightarrow> attribute_map \<Rightarrow> ('w, attribute_map) act" where
  "setEntity lib key attrs =
     (if ClassID key = Onu3GClassID then setONU3 lib key attrs
      else bindE (getE (\<lambda>e. e)) (\<lambda>e.
        thenE (if Exists (mib e) key then validatePerformanceThresholdPointer (ClassID key) attrs else returnE ())
          (if ClassID key = MacBridgePortClassID \<and> bridgePortHasPerformance e (EntityID key) \<and> bridgePortAssociationChanged attrs
           then failE (ResultError ParameterError 0 0 (Some (Errorf ''MAC bridge port association is monitored'' [])))
           else thenE (storeE (Set (classes lib) key attrs)) (returnE []))))"

definition notifySet :: "OmciLib \<Rightarrow> Header \<Rightarrow> Key \<Rightarrow> attribute_map \<Rightarrow> attribute_map \<Rightarrow> ('w, unit) act" where
  "notifySet lib header key attrs changes =
     bindE (tryE (if ClassID key = Onu3GClassID
         then attributeValueChangeFrames lib key changes (DeviceIdentifier header)
         else afterSet lib key attrs (DeviceIdentifier header))) (\<lambda>r. case r of
       Inl err \<Rightarrow> putE (\<lambda>e. e\<lparr>pendingError := Some (Errorf ''derive notifications after Set %v/%#x: %w''
           [AU (ClassID key), AU (EntityID key), AErr err])\<rparr>)
     | Inr frames \<Rightarrow> putE (\<lambda>e. e\<lparr>pendingFrames := pendingFrames e @ frames\<rparr>))"

definition handleSet :: "OmciLib \<Rightarrow> Header \<Rightarrow> MePacket \<Rightarrow> attribute_map \<Rightarrow> ('w, bytes) act" where
  "handleSet lib header p attrs =
     bindE (tryE (setEntity lib (keyOf p) attrs)) (\<lambda>r.
     case operationResult (errorOf r) of (result, failed, unsupported) \<Rightarrow>
       thenE (if result = Success
           then thenE clearTables (notifySet lib header (keyOf p) attrs (case r of Inr changes \<Rightarrow> changes | Inl _ \<Rightarrow> []))
           else returnE ())
         (reply lib header MsgSet (SetResponse (replyBase header p) result failed unsupported)))"

definition handleSetTable :: "OmciLib \<Rightarrow> Header \<Rightarrow> MePacket \<Rightarrow> u16 \<Rightarrow> attribute_map \<Rightarrow> ('w, bytes) act" where
  "handleSetTable lib header p requested attrs =
     bindE (tryE (storeE (SetTable (classes lib) (keyOf p) requested attrs))) (\<lambda>r.
     case operationResult (errorOf r) of (result, _, _) \<Rightarrow>
       thenE (if result = Success then clearTables else returnE ())
         (reply lib header MsgSetTable (SetTableResponse (replyBase header p) result)))"

definition handleMibReset :: "OmciLib \<Rightarrow> Header \<Rightarrow> MePacket \<Rightarrow> ('w, bytes) act" where
  "handleMibReset lib header p =
     bindE (tryE (storeE Reset)) (\<lambda>r.
     case operationResult (errorOf r) of (result, _, _) \<Rightarrow>
       thenE (if result = Success
           then thenE (putE (\<lambda>e. e\<lparr>upload := [], tables := [], arcFreeSince := [], berSample := [], performanceState := [],
                  fecPMState := [], ethernetPMState := [], xgsPMState := []\<rparr>))
                (thenE clearAllPerformanceTCAs (putE (\<lambda>e. e\<lparr>performanceNext := zeroTime, performanceIntervalEnd := 0\<rparr>)))
           else returnE ())
         (reply lib header MsgMibReset (MibResetResponse (replyBase header p) result)))"

section \<open>Get and its tables\<close>

text \<open>An instance whose attributes are nil is \<open>None\<close>.\<close>

definition lookupInstance :: "OmciLib \<Rightarrow> Key \<Rightarrow> u16 \<Rightarrow> ('w, Instance option \<times> go_error option) act" where
  "lookupInstance lib key requested =
     bindE (tryE (getCapability lib key requested)) (\<lambda>r. case r of
       Inl err \<Rightarrow> returnE (None, Some err)
     | Inr (Some (inst, err)) \<Rightarrow> returnE (Some inst, err)
     | Inr None \<Rightarrow> bindE (tryE (mibGet lib key requested)) (\<lambda>r. returnE (case r of
           Inl err \<Rightarrow> (None, Some err) | Inr (inst, err) \<Rightarrow> (Some inst, err))))"

definition overlayInstance :: "bool \<Rightarrow> (Instance \<Rightarrow> ('w, Instance) act) \<Rightarrow> Instance option \<times> go_error option
    \<Rightarrow> ('w, Instance option \<times> go_error option) act" where
  "overlayInstance selected f st =
     (case st of
        (Some inst, err) \<Rightarrow>
          if \<not> selected then returnE st
          else bindE (tryE (f inst)) (\<lambda>r. returnE (case r of Inl err' \<Rightarrow> (None, Some err') | Inr inst' \<Rightarrow> (Some inst', err)))
      | (None, _) \<Rightarrow> returnE st)"

text \<open>A table attribute is kept for the Get Next requests that follow; its size is reported instead.\<close>

definition keepTable :: "u8 \<Rightarrow> attribute_definition \<Rightarrow> bytes \<Rightarrow> Instance \<Rightarrow> ('w, Instance) act" where
  "keepTable device d rows inst =
     thenE (putE (\<lambda>e. e\<lparr>tables := AList.update \<lparr> tableDevice = device, tableClass = ClassID (ikey inst),
         tableEntity = EntityID (ikey inst), tableMask = Mask d \<rparr> rows (tables e)\<rparr>))
       (returnE (inst\<lparr>Attributes := AList.update (AttrName d) (VU32 (of_nat (length rows))) (Attributes inst)\<rparr>))"

definition prepareTable :: "u16 \<Rightarrow> u8 \<Rightarrow> nat \<times> attribute_definition \<Rightarrow> Instance \<Rightarrow> ('w, Instance) act" where
  "prepareTable requested device definition inst =
     (case definition of (index, d) \<Rightarrow>
      if index = 0 \<or> requested AND Mask d = 0 \<or> \<not> IsTableAttribute d then returnE inst
      else case map_of (Attributes inst) (AttrName d) of
        None \<Rightarrow> returnE inst
      | Some (VTable t) \<Rightarrow> keepTable device d (Rows t) inst
      | Some (VOctets rows) \<Rightarrow> keepTable device d rows inst
      | Some (VU32 _) \<Rightarrow> returnE inst
      | Some v \<Rightarrow> failE (Errorf ''table attribute %s has unsupported value type %T'' [AStr (AttrName d), AStr (typeName v)]))"

definition prepareTableGet :: "OmciLib \<Rightarrow> u16 \<Rightarrow> u8 \<Rightarrow> Instance \<Rightarrow> ('w, Instance) act" where
  "prepareTableGet lib requested device inst =
     bindE (loadEntity lib (ikey inst)) (\<lambda>entity.
     forE (prepareTable requested device) (AttributeDefinitions (medef entity)) inst)"

definition attributesOf :: "Instance option \<Rightarrow> attribute_map" where
  "attributesOf inst = (case inst of Some i \<Rightarrow> Attributes i | None \<Rightarrow> [])"

definition handleGet :: "OmciLib \<Rightarrow> Header \<Rightarrow> MePacket \<Rightarrow> u16 \<Rightarrow> ('w, bytes) act" where
  "handleGet lib header p requested =
     bindE (lookupInstance lib (keyOf p) requested) (\<lambda>st.
     bindE (overlayInstance (EntityClass p = MulticastSubscriberConfigInfoClassID \<and> requested AND 0x0200 \<noteq> 0)
         (\<lambda>inst. getAllowedPreview lib inst requested) st) (\<lambda>st.
     bindE (overlayInstance (EntityClass p = MulticastSubscriberMonitorClassID \<and> requested AND 0x7c00 \<noteq> 0)
         (\<lambda>inst. getMulticastMonitor inst requested) st) (\<lambda>(inst, err).
     case operationResult err of (result, failed, unsupported) \<Rightarrow>
       let answered = (result = Success \<or> result = AttributeFailure);
           responseMask = (if answered then (requested AND NOT unsupported) AND NOT failed else 0) in
       bindE (case (if answered then inst else None) of
           None \<Rightarrow> returnE None
         | Some i \<Rightarrow> bindE (prepareTableGet lib requested (DeviceIdentifier header) i) (\<lambda>i. returnE (Some i))) (\<lambda>inst.
         reply lib header MsgGet (GetResponse (replyBase header p) result responseMask (attributesOf inst) failed unsupported)))))"

definition getNextLimit :: "Header \<Rightarrow> nat" where
  "getNextLimit header = (if isExtended header then 1963 else 29)"

definition tableKeyOf :: "Header \<Rightarrow> 'a MePacket_scheme \<Rightarrow> u16 \<Rightarrow> tableKey" where
  "tableKeyOf header p requested = \<lparr> tableDevice = DeviceIdentifier header, tableClass = EntityClass p,
     tableEntity = EntityInstance p, tableMask = requested \<rparr>"

text \<open>The part of a table that a Get Next reports.\<close>

definition tablePart :: "OmciLib \<Rightarrow> Header \<Rightarrow> MePacket \<Rightarrow> u16 \<Rightarrow> u16 \<Rightarrow> bytes option \<Rightarrow> u8 \<times> attribute_map" where
  "tablePart lib header p requested sequence stored =
     (let limit = getNextLimit header; offset = unat sequence * limit in
      case stored of
        None \<Rightarrow> (ProcessingError, [])
      | Some octets \<Rightarrow>
          if offset \<ge> length octets then (ProcessingError, [])
          else case find (\<lambda>(index, d). index \<noteq> 0 \<and> Mask d = requested) (GetAttributesDefinitions (classes lib) (EntityClass p)) of
            None \<Rightarrow> (AttributeFailure, [])
          | Some (_, d) \<Rightarrow> (Success, [(AttrName d, VOctets (take limit (drop offset octets)))]))"

definition handleGetNext :: "OmciLib \<Rightarrow> Header \<Rightarrow> MePacket \<Rightarrow> u16 \<Rightarrow> u16 \<Rightarrow> ('w, bytes) act" where
  "handleGetNext lib header p requested sequence =
     bindE (getE (\<lambda>e. map_of (tables e) (tableKeyOf header p requested))) (\<lambda>stored.
     case tablePart lib header p requested sequence stored of (result, attrs) \<Rightarrow>
       reply lib header MsgGetNext (GetNextResponse (replyBase header p) result requested attrs))"

definition handleGetCurrentData :: "OmciLib \<Rightarrow> Header \<Rightarrow> MePacket \<Rightarrow> u16 \<Rightarrow> ('w, bytes) act" where
  "handleGetCurrentData lib header p requested =
     bindE (tryE (getCurrentPerformance lib (keyOf p) requested)) (\<lambda>r.
     let (attrs, err) = (case r of Inl err \<Rightarrow> ([], Some err) | Inr (inst, err) \<Rightarrow> (Attributes inst, err)) in
     case operationResult err of (result, failed, unsupported) \<Rightarrow>
       let answered = (result = Success \<or> result = AttributeFailure) in
       reply lib header MsgGetCurrentData (GetCurrentDataResponse (replyBase header p) result
         (if answered then (requested AND NOT unsupported) AND NOT failed else 0) (if answered then attrs else [])
         failed unsupported))"

end
