(* ===== verification/EngDispatch.thy ===== *)
theory EngDispatch
  imports EngCore
begin

unbundle bit_operations_syntax

text \<open>
  The rest of the engine (src/internal/engine/engine.go): the upload sessions, software download,
  supervision, time and reboot, the dispatch of a request, and the handling of a frame.
\<close>

section \<open>Upload sessions\<close>

definition setUpload :: "u8 \<Rightarrow> uploadSession \<Rightarrow> ('w, unit) act" where
  "setUpload device session = putE (\<lambda>e. e\<lparr>upload := AList.update device session (upload e)\<rparr>)"

definition dropUpload :: "u8 \<Rightarrow> ('w, unit) act" where
  "dropUpload device = putE (\<lambda>e. e\<lparr>upload := AList.delete device (upload e)\<rparr>)"

definition setAlarmUpload :: "u8 \<Rightarrow> alarmUploadSession \<Rightarrow> ('w, unit) act" where
  "setAlarmUpload device session = putE (\<lambda>e. e\<lparr>alarmUpload := AList.update device session (alarmUpload e)\<rparr>)"

definition dropAlarmUpload :: "u8 \<Rightarrow> ('w, unit) act" where
  "dropAlarmUpload device = putE (\<lambda>e. e\<lparr>alarmUpload := AList.delete device (alarmUpload e)\<rparr>)"

definition handleMibUpload :: "OmciLib \<Rightarrow> Header \<Rightarrow> MePacket \<Rightarrow> ('w, bytes) act" where
  "handleMibUpload lib header p =
     bindE (getE MibSnapshot) (\<lambda>insts.
     bindE (pureE (buildUpload lib insts (DeviceIdentifier header))) (\<lambda>commands.
     bindE nowE (\<lambda>now.
     thenE (setUpload (DeviceIdentifier header) \<lparr> uploadCommands = commands, uploadExpires = now + nsMinute \<rparr>)
       (reply lib header MsgMibUpload (MibUploadResponse (replyBase header p) (of_nat (length commands)))))))"

definition handleMibUploadNext :: "OmciLib \<Rightarrow> Header \<Rightarrow> MePacket \<Rightarrow> u16 \<Rightarrow> ('w, bytes) act" where
  "handleMibUploadNext lib header p sequence =
     bindE nowE (\<lambda>now.
     bindE (getE (\<lambda>e. map_of (upload e) (DeviceIdentifier header))) (\<lambda>present.
     let empty = reply lib header MsgMibUploadNext (emptyLayer header p) in
     case present of
       None \<Rightarrow> empty
     | Some session \<Rightarrow>
         if \<not> now < uploadExpires session then thenE (dropUpload (DeviceIdentifier header)) empty
         else if unat sequence \<ge> length (uploadCommands session) then empty
         else thenE (setUpload (DeviceIdentifier header) (session\<lparr>uploadExpires := now + nsMinute\<rparr>))
           (case uploadCommands session ! unat sequence of
              [] \<Rightarrow> pureE Panic
            | entity # others \<Rightarrow> reply lib header MsgMibUploadNext (MibUploadNextResponse (replyBase header p) entity others))))"

text \<open>With retrieval mode 1, alarms under ARC are left out.\<close>

definition reportedAlarms :: "OmciLib \<Rightarrow> u8 \<Rightarrow> ('w, Alarm list) act" where
  "reportedAlarms lib mode =
     bindE (getE alarms) (\<lambda>entries. forE (\<lambda>(key, bitmap) found.
       bindE (if mode = 1 then arcEnabled lib key else returnE False) (\<lambda>hidden.
         returnE (if hidden then found else found @ [\<lparr> AlarmKey = key, AlarmBitmap = bitmap \<rparr>]))) entries [])"

definition handleGetAllAlarms :: "OmciLib \<Rightarrow> Header \<Rightarrow> MePacket \<Rightarrow> u8 \<Rightarrow> ('w, bytes) act" where
  "handleGetAllAlarms lib header p mode =
     bindE (reportedAlarms lib mode) (\<lambda>found.
     let sorted = sort_key AlarmKey found in
     thenE (putE (\<lambda>e. e\<lparr>alarmSequence := 0\<rparr>))
       (bindE nowE (\<lambda>now.
        thenE (setAlarmUpload (DeviceIdentifier header) \<lparr> sessionAlarms = sorted, sessionExpires = now + nsMinute \<rparr>)
          (reply lib header MsgGetAllAlarms (GetAllAlarmsResponse (replyBase header p) (of_nat (length sorted)))))))"

definition maxExtendedAlarmsPerResponse :: nat where "maxExtendedAlarmsPerResponse = 61"

definition handleGetAllAlarmsNext :: "OmciLib \<Rightarrow> Header \<Rightarrow> MePacket \<Rightarrow> u16 \<Rightarrow> ('w, bytes) act" where
  "handleGetAllAlarmsNext lib header p sequence =
     bindE nowE (\<lambda>now.
     bindE (getE (\<lambda>e. map_of (alarmUpload e) (DeviceIdentifier header))) (\<lambda>present.
     let empty = reply lib header MsgGetAllAlarmsNext (emptyLayer header p) in
     case present of
       None \<Rightarrow> empty
     | Some session \<Rightarrow>
         if \<not> now < sessionExpires session then thenE (dropAlarmUpload (DeviceIdentifier header)) empty
         else (case drop (unat sequence) (sessionAlarms session) of
             [] \<Rightarrow> empty
           | alarm # others \<Rightarrow>
               thenE (setAlarmUpload (DeviceIdentifier header) (session\<lparr>sessionExpires := now + nsMinute\<rparr>))
                 (reply lib header MsgGetAllAlarmsNext (GetAllAlarmsNextResponse (replyBase header p) alarm
                   (if isExtended header then take (maxExtendedAlarmsPerResponse - 1) others else []))))))"

section \<open>Software download\<close>

definition handleStartDownload :: "OmciLib \<Rightarrow> Header \<Rightarrow> StartSoftwareDownload \<Rightarrow> ('w, bytes) act" where
  "handleStartDownload lib header request =
     bindE (startSoftwareDownload lib request (DeviceIdentifier header)) (\<lambda>result.
       reply lib header MsgStartSoftwareDownload
         (StartSoftwareDownloadResponse (replyBase header request) result (WindowSize request)))"

text \<open>A section that asks for no response gets none (the empty frame).\<close>

definition handleDownloadSection :: "OmciLib \<Rightarrow> Header \<Rightarrow> DownloadSection \<Rightarrow> ('w, bytes) act" where
  "handleDownloadSection lib header request =
     (let acknowledged = (MessageType header = requestType MsgDownloadSection) in
      bindE (downloadSoftwareSection request (DeviceIdentifier header) acknowledged) (\<lambda>result.
        if \<not> acknowledged then returnE []
        else reply lib header MsgDownloadSection
          (DownloadSectionResponse (replyBase header request) result (SectionNumber request))))"

definition handleEndDownload :: "OmciLib \<Rightarrow> Header \<Rightarrow> EndSoftwareDownload \<Rightarrow> ('w, bytes) act" where
  "handleEndDownload lib header request =
     bindE (endSoftwareDownload lib request (DeviceIdentifier header)) (\<lambda>result.
       reply lib header MsgEndSoftwareDownload (EndSoftwareDownloadResponse (replyBase header request) result))"

definition handleActivate :: "OmciLib \<Rightarrow> Header \<Rightarrow> ActivateSoftware \<Rightarrow> ('w, bytes) act" where
  "handleActivate lib header request =
     bindE (activateSoftware lib request) (\<lambda>result.
       reply lib header MsgActivateSoftware (ActivateSoftwareResponse (replyBase header request) result))"

definition handleCommit :: "OmciLib \<Rightarrow> Header \<Rightarrow> MePacket \<Rightarrow> ('w, bytes) act" where
  "handleCommit lib header p =
     bindE (commitSoftware lib p) (\<lambda>result.
       reply lib header MsgCommitSoftware (CommitSoftwareResponse (replyBase header p) result))"

section \<open>Supervision, time, reboot\<close>

definition opticalLineSupervision :: "OmciLib \<Rightarrow> Header \<Rightarrow> OpticalTest \<Rightarrow> ('w, u8) act" where
  "opticalLineSupervision lib header request =
     bindE (getE (\<lambda>e. e)) (\<lambda>e.
     if EntityClass request \<noteq> AniGClassID then returnE UnknownEntity
     else if \<not> Exists (mib e) (keyOf request) then returnE UnknownInstance
     else if SelectTest request \<noteq> 7 \<or> GeneralPurposeBuffer request \<noteq> 0 \<or> VendorSpecificParameters request \<noteq> 0
     then returnE ParameterError
     else case controller e of
       None \<Rightarrow> returnE NotSupported
     | Some ctl \<Rightarrow>
         bindE (tryE (callE (OpticalLineSupervision ctl))) (\<lambda>r. case r of
           Inl _ \<Rightarrow> returnE ProcessingError
         | Inr d \<Rightarrow>
             bindE (tryE (serializeAutonomous lib (DeviceIdentifier header) (TransactionID header) MsgTestResult
               (OpticalLineSupervisionTestResult (replyBase header request) [(1, PowerFeedVoltage d), (3, ReceivedOpticalPower d),
                 (5, MeanOpticalLaunch d), (9, DiagnosticsBias d), (12, DiagnosticsTemperature d)]))) (\<lambda>r. case r of
               Inl _ \<Rightarrow> returnE ProcessingError
             | Inr frame \<Rightarrow> thenE (putE (\<lambda>e. e\<lparr>pendingFrames := pendingFrames e @ [frame]\<rparr>)) (returnE Success))))"

definition handleTest :: "OmciLib \<Rightarrow> Header \<Rightarrow> OpticalTest \<Rightarrow> ('w, bytes) act" where
  "handleTest lib header request =
     bindE (opticalLineSupervision lib header request) (\<lambda>result.
       reply lib header MsgTest (TestResponse (replyBase header request) result))"

text \<open>
  A civil date. \<open>time.Date\<close> normalizes a date, so that it is unchanged exactly when it is valid; the
  days are counted in the proleptic Gregorian calendar from January 1 of year 1.
\<close>

definition leapYear :: "int \<Rightarrow> bool" where
  "leapYear y = (y mod 4 = 0 \<and> (y mod 100 \<noteq> 0 \<or> y mod 400 = 0))"

definition monthLength :: "int \<Rightarrow> nat \<Rightarrow> int" where
  "monthLength y m = ([31, if leapYear y then 29 else 28, 31, 30, 31, 30, 31, 31, 30, 31, 30, 31] ! (m - 1))"

definition validCivil :: "int \<Rightarrow> nat \<Rightarrow> int \<Rightarrow> int \<Rightarrow> int \<Rightarrow> int \<Rightarrow> bool" where
  "validCivil y m d hour mins secs = (1 \<le> m \<and> m \<le> 12 \<and> 1 \<le> d \<and> d \<le> monthLength y m \<and> hour < 24 \<and> mins < 60 \<and> secs < 60)"

definition daysBeforeYear :: "int \<Rightarrow> int" where
  "daysBeforeYear y = 365 * (y - 1) + (y - 1) div 4 - (y - 1) div 100 + (y - 1) div 400"

definition civilTime :: "int \<Rightarrow> nat \<Rightarrow> int \<Rightarrow> int \<Rightarrow> int \<Rightarrow> int \<Rightarrow> Time" where
  "civilTime y m d hour mins secs =
     ((daysBeforeYear y + (\<Sum>k \<leftarrow> [1..<m]. monthLength y k) + d - 1) * 86400 + hour * 3600 + mins * 60 + secs) * nsSecond"

definition synchronizeTime :: "OmciLib \<Rightarrow> u16 \<Rightarrow> u8 \<Rightarrow> u8 \<Rightarrow> u8 \<Rightarrow> u8 \<Rightarrow> u8 \<Rightarrow> u8 \<Rightarrow> ('w, u8) act" where
  "synchronizeTime lib year month day hour mins secs device =
     bindE (getE controller) (\<lambda>ctl. case ctl of
       None \<Rightarrow> returnE NotSupported
     | Some ctl \<Rightarrow>
         let requested = civilTime (uint year) (unat month) (uint day) (uint hour) (uint mins) (uint secs) in
         if \<not> validCivil (uint year) (unat month) (uint day) (uint hour) (uint mins) (uint secs) then returnE ParameterError
         else
           bindE (tryE (bindE (preparePerformanceSynchronization lib) (\<lambda>baselines.
             thenE (errorCallE (SynchronizeTime ctl requested))
               (commitPerformanceSynchronization lib requested baselines)))) (\<lambda>r. case r of
             Inl _ \<Rightarrow> returnE ProcessingError
           | Inr _ \<Rightarrow>
               bindE (getE (\<lambda>e. notificationDevice e device)) (\<lambda>device.
               bindE (clearPerformanceTCANotifications lib device) (\<lambda>(frames, err).
               thenE (case err of
                   Some x \<Rightarrow> thenE (putE (\<lambda>e. e\<lparr>pendingError :=
                         Some (Errorf ''clear performance TCAs after time synchronization: %w'' [AErr x])\<rparr>))
                       clearAllPerformanceTCAs
                 | None \<Rightarrow> putE (\<lambda>e. e\<lparr>pendingFrames := pendingFrames e @ frames\<rparr>))
                 (returnE Success)))))"

definition handleReboot :: "OmciLib \<Rightarrow> Header \<Rightarrow> MePacket \<Rightarrow> u8 \<Rightarrow> ('w, bytes) act" where
  "handleReboot lib header p condition =
     bindE (getE (\<lambda>e. e)) (\<lambda>e.
     bindE (if EntityClass p \<noteq> OnuGClassID then returnE UnknownEntity
            else if EntityInstance p \<noteq> 0 \<or> \<not> Exists (mib e) (Key OnuGClassID 0) then returnE UnknownInstance
            else if condition > 2 then returnE ParameterError
            else case controller e of
              None \<Rightarrow> returnE NotSupported
            | Some ctl \<Rightarrow> bindE (tryE (errorCallE (Reboot ctl condition))) (\<lambda>r.
                returnE (case r of Inl _ \<Rightarrow> ProcessingError | Inr _ \<Rightarrow> Success))) (\<lambda>result.
       reply lib header MsgReboot (RebootResponse (replyBase header p) result)))"

end
