(* ===== verification/EngFrame.thy ===== *)
theory EngFrame
  imports EngDispatch
begin

unbundle bit_operations_syntax

text \<open>
  From a frame to its response (src/internal/engine/engine.go): validation, the replay of a
  transaction, requests that the library cannot decode, dispatch, and the session operations. The
  decoder is the library's \<open>decodePacket\<close>. The empty frame is the nil slice.
\<close>

section \<open>Dispatch\<close>

definition resultBearingRequest :: "u8 \<Rightarrow> bool" where
  "resultBearingRequest mt = (mt \<in> requestType ` {MsgCreate, MsgDelete, MsgSet, MsgGet, MsgMibReset, MsgTest,
     MsgStartSoftwareDownload, MsgDownloadSection, MsgEndSoftwareDownload, MsgActivateSoftware, MsgCommitSoftware,
     MsgSynchronizeTime, MsgReboot, MsgGetNext, MsgGetCurrentData, MsgSetTable})"

text \<open>The message type that the code expects for each request layer.\<close>

fun layerType :: "request \<Rightarrow> msg_type" where
  "layerType (CreateRequest _ _) = MsgCreate" | "layerType (DeleteRequest _) = MsgDelete"
| "layerType (SetRequest _ _) = MsgSet" | "layerType (GetRequest _ _) = MsgGet"
| "layerType (MibResetRequest _) = MsgMibReset" | "layerType (MibUploadRequest _) = MsgMibUpload"
| "layerType (MibUploadNextRequest _ _) = MsgMibUploadNext" | "layerType (GetAllAlarmsRequest _ _) = MsgGetAllAlarms"
| "layerType (GetAllAlarmsNextRequest _ _) = MsgGetAllAlarmsNext" | "layerType (GetNextRequest _ _ _) = MsgGetNext"
| "layerType (SetTableRequest _ _ _) = MsgSetTable" | "layerType (GetCurrentDataRequest _ _) = MsgGetCurrentData"
| "layerType (StartSoftwareDownloadRequest _) = MsgStartSoftwareDownload" | "layerType (DownloadSectionRequest _) = MsgDownloadSection"
| "layerType (EndSoftwareDownloadRequest _) = MsgEndSoftwareDownload" | "layerType (ActivateSoftwareRequest _) = MsgActivateSoftware"
| "layerType (CommitSoftwareRequest _) = MsgCommitSoftware" | "layerType (OpticalLineSupervisionTestRequest _) = MsgTest"
| "layerType (SynchronizeTimeRequest _ _ _ _ _ _ _) = MsgSynchronizeTime" | "layerType (RebootRequest _ _) = MsgReboot"

fun handleRequest :: "OmciLib \<Rightarrow> Header \<Rightarrow> request \<Rightarrow> ('w, bytes) act" where
  "handleRequest lib header (CreateRequest p attrs) = handleCreate lib header p attrs"
| "handleRequest lib header (DeleteRequest p) = handleDelete lib header p"
| "handleRequest lib header (SetRequest p attrs) = handleSet lib header p attrs"
| "handleRequest lib header (GetRequest p requested) = handleGet lib header p requested"
| "handleRequest lib header (MibResetRequest p) = handleMibReset lib header p"
| "handleRequest lib header (MibUploadRequest p) = handleMibUpload lib header p"
| "handleRequest lib header (MibUploadNextRequest p sequence) = handleMibUploadNext lib header p sequence"
| "handleRequest lib header (GetAllAlarmsRequest p mode) = handleGetAllAlarms lib header p mode"
| "handleRequest lib header (GetAllAlarmsNextRequest p sequence) = handleGetAllAlarmsNext lib header p sequence"
| "handleRequest lib header (GetNextRequest p requested sequence) = handleGetNext lib header p requested sequence"
| "handleRequest lib header (SetTableRequest p requested attrs) = handleSetTable lib header p requested attrs"
| "handleRequest lib header (GetCurrentDataRequest p requested) = handleGetCurrentData lib header p requested"
| "handleRequest lib header (StartSoftwareDownloadRequest r) = handleStartDownload lib header r"
| "handleRequest lib header (DownloadSectionRequest r) = handleDownloadSection lib header r"
| "handleRequest lib header (EndSoftwareDownloadRequest r) = handleEndDownload lib header r"
| "handleRequest lib header (ActivateSoftwareRequest r) = handleActivate lib header r"
| "handleRequest lib header (CommitSoftwareRequest p) = handleCommit lib header p"
| "handleRequest lib header (OpticalLineSupervisionTestRequest r) = handleTest lib header r"
| "handleRequest lib header (SynchronizeTimeRequest p year month day hour mins secs) =
     bindE (synchronizeTime lib year month day hour mins secs (DeviceIdentifier header)) (\<lambda>result.
       reply lib header MsgSynchronizeTime (SynchronizeTimeResponse (replyBase header p) result))"
| "handleRequest lib header (RebootRequest p condition) = handleReboot lib header p condition"

definition requestTypes :: "msg_type list" where
  "requestTypes = [MsgCreate, MsgDelete, MsgSet, MsgGet, MsgMibReset, MsgMibUpload, MsgMibUploadNext, MsgGetAllAlarms,
     MsgGetAllAlarmsNext, MsgGetNext, MsgSetTable, MsgGetCurrentData, MsgStartSoftwareDownload, MsgDownloadSection,
     MsgEndSoftwareDownload, MsgActivateSoftware, MsgCommitSoftware, MsgTest, MsgSynchronizeTime, MsgReboot]"

definition dispatch :: "OmciLib \<Rightarrow> request option \<Rightarrow> Header \<Rightarrow> ('w, bytes) act" where
  "dispatch lib layer header =
     (if MessageType header = DownloadSectionRequestType \<or> MessageType header \<in> requestType ` set requestTypes
      then (case layer of
          None \<Rightarrow> failE (Errorf ''OMCI layer is missing'' [])
        | Some request \<Rightarrow>
            if MessageType header = requestType (layerType request)
              \<or> (MessageType header = DownloadSectionRequestType \<and> layerType request = MsgDownloadSection)
            then handleRequest lib header request
            else failE (Errorf ''OMCI layer is missing'' []))
      else if length (LayerPayload header) \<ge> 4 \<and> resultBearingRequest (MessageType header)
      then serializeRawResult lib header (be16 (LayerPayload header) 0) (be16 (LayerPayload header) 2) NotSupported
      else failE (Errorf ''unsupported OMCI request %s'' [AU (MessageType header)]))"

section \<open>Requests handled before decoding\<close>

definition answered :: "('w, bytes) act \<Rightarrow> ('w, bytes option) act" where
  "answered m = bindE m (\<lambda>response. returnE (Some response))"

definition rawSynchronizeTime :: "OmciLib \<Rightarrow> Header \<Rightarrow> bytes \<Rightarrow> ('w, bytes) act" where
  "rawSynchronizeTime lib header frame =
     (let classID = be16 frame 4; entityID = be16 frame 6; at = (if isExtended header then 10 else 8 :: nat);
          result = serializeRawResult lib header classID entityID in
      if classID \<noteq> OnuGClassID then result UnknownEntity
      else if entityID \<noteq> 0 then result UnknownInstance
      else if length frame < at + 7 then result ProcessingError
      else bindE (synchronizeTime lib (be16 frame at) (frame ! (at + 2)) (frame ! (at + 3)) (frame ! (at + 4))
          (frame ! (at + 5)) (frame ! (at + 6)) (DeviceIdentifier header)) result)"

definition rawTest :: "OmciLib \<Rightarrow> Header \<Rightarrow> bytes \<Rightarrow> ('w, bytes) act" where
  "rawTest lib header frame =
     (let classID = be16 frame 4; entityID = be16 frame 6; result = serializeRawResult lib header classID entityID in
      if length frame < 15 then result ProcessingError
      else if be16 frame 8 \<noteq> 5 then result ParameterError
      else bindE (opticalLineSupervision lib header \<lparr> EntityClass = classID, EntityInstance = entityID, SelectTest = frame ! 10,
          GeneralPurposeBuffer = be16 frame 11, VendorSpecificParameters = be16 frame 13 \<rparr>) result)"

definition handleRawSpecial :: "OmciLib \<Rightarrow> Header \<Rightarrow> bytes \<Rightarrow> ('w, bytes option) act" where
  "handleRawSpecial lib header frame =
     (if length frame < 8 then returnE None
      else if MessageType header = requestType MsgTest \<and> isExtended header then answered (rawTest lib header frame)
      else if MessageType header = requestType MsgSynchronizeTime then answered (rawSynchronizeTime lib header frame)
      else returnE None)"

text \<open>The answer to a request that cannot be decoded: what is wrong with its entity comes first.\<close>

definition decodeFailureResult :: "OmciLib \<Rightarrow> 'w OmciEngine \<Rightarrow> Header \<Rightarrow> Key \<Rightarrow> u8 option \<Rightarrow> u8" where
  "decodeFailureResult lib e header key status =
     (let support = Support (classDefinition (classes lib) (ClassID key)) in
      if \<not> supportsClass (mib e) (ClassID key) then UnknownEntity
      else if support = UnsupportedManagedEntity \<or> support = UnsupportedVendorSpecificManagedEntity then UnknownEntity
      else if MessageType header \<noteq> requestType MsgCreate \<and> \<not> Exists (mib e) key \<and> \<not> capabilityInstanceExists lib e key
      then UnknownInstance
      else case status of Some code \<Rightarrow> if code \<noteq> Success then code else ProcessingError | None \<Rightarrow> ProcessingError)"

definition decodeFailureResponse :: "OmciLib \<Rightarrow> Header \<Rightarrow> bytes \<Rightarrow> u8 option \<Rightarrow> ('w, bytes option) act" where
  "decodeFailureResponse lib header frame status =
     (if length frame < 8 \<or> MessageType header AND AR = 0 \<or> \<not> resultBearingRequest (MessageType header) then returnE None
      else
        let key = Key (be16 frame 4) (be16 frame 6) in
        bindE (getE (\<lambda>e. decodeFailureResult lib e header key status)) (\<lambda>result.
          answered (serializeRawResult lib header (ClassID key) (EntityID key) result)))"

section \<open>Replay\<close>

definition transactionPriority :: "Header \<Rightarrow> transactionChannel" where
  "transactionPriority header =
     (if isExtended header then extendedPriority
      else if TransactionID header AND 0x8000 \<noteq> 0 then baselineHighPriority else baselineLowPriority)"

definition mibUploadNextHasContents :: "bytes \<Rightarrow> u8 \<Rightarrow> bool" where
  "mibUploadNextHasContents response device =
     (if device = ExtendedIdent then length response \<ge> 10 \<and> be16 response 8 \<noteq> 0
      else length response \<ge> 14 \<and> list_ex (\<lambda>octet. octet \<noteq> 0) (take 6 (drop 8 response)))"

definition getAllAlarmsNextHasContents :: "bytes \<Rightarrow> u8 \<Rightarrow> bool" where
  "getAllAlarmsNextHasContents response device =
     (if device = ExtendedIdent then length response \<ge> 10 \<and> be16 response 8 \<noteq> 0
      else length response \<ge> 40 \<and> list_ex (\<lambda>octet. octet \<noteq> 0) (take 32 (drop 8 response)))"

definition rememberTransaction :: "Header \<Rightarrow> bytes \<Rightarrow> ('w, unit) act" where
  "rememberTransaction header response =
     (if MessageType header AND AR = 0 then returnE ()
      else putE (\<lambda>e. e\<lparr>transactions := (transactions e)(transactionPriority header :=
        \<lparr> replayValid = True, replayID = TransactionID header, replayResponse = response,
          refreshUpload = (MessageType header = requestType MsgMibUploadNext
            \<and> mibUploadNextHasContents response (DeviceIdentifier header)),
          refreshAlarmUpload = (MessageType header = requestType MsgGetAllAlarmsNext
            \<and> getAllAlarmsNextHasContents response (DeviceIdentifier header)) \<rparr>)\<rparr>))"

text \<open>
  A repeated command request keeps its upload session alive; it is handled anew when the session has
  expired (\<open>False\<close>).
\<close>

definition renewUpload :: "Header \<Rightarrow> transactionReplay \<Rightarrow> ('w, bool) act" where
  "renewUpload header replay =
     (if MessageType header = requestType MsgMibUploadNext \<and> refreshUpload replay
      then bindE nowE (\<lambda>now. bindE (getE (\<lambda>e. map_of (upload e) (DeviceIdentifier header))) (\<lambda>present.
        case present of
          None \<Rightarrow> thenE (dropUpload (DeviceIdentifier header)) (returnE False)
        | Some session \<Rightarrow>
            if \<not> now < uploadExpires session then thenE (dropUpload (DeviceIdentifier header)) (returnE False)
            else thenE (setUpload (DeviceIdentifier header) (session\<lparr>uploadExpires := now + nsMinute\<rparr>)) (returnE True)))
      else returnE True)"

definition renewAlarmUpload :: "Header \<Rightarrow> transactionReplay \<Rightarrow> ('w, bool) act" where
  "renewAlarmUpload header replay =
     (if MessageType header = requestType MsgGetAllAlarmsNext \<and> refreshAlarmUpload replay
      then bindE nowE (\<lambda>now. bindE (getE (\<lambda>e. map_of (alarmUpload e) (DeviceIdentifier header))) (\<lambda>present.
        case present of
          None \<Rightarrow> thenE (dropAlarmUpload (DeviceIdentifier header)) (returnE False)
        | Some session \<Rightarrow>
            if \<not> now < sessionExpires session then thenE (dropAlarmUpload (DeviceIdentifier header)) (returnE False)
            else thenE (setAlarmUpload (DeviceIdentifier header) (session\<lparr>sessionExpires := now + nsMinute\<rparr>)) (returnE True)))
      else returnE True)"

definition extendSessions :: "Header \<Rightarrow> ('w, unit) act" where
  "extendSessions header =
     (if MessageType header = requestType MsgMibUpload
      then bindE (getE (\<lambda>e. map_of (upload e) (DeviceIdentifier header))) (\<lambda>present. case present of
          None \<Rightarrow> returnE ()
        | Some session \<Rightarrow> bindE nowE (\<lambda>now. setUpload (DeviceIdentifier header) (session\<lparr>uploadExpires := now + nsMinute\<rparr>)))
      else if MessageType header = requestType MsgGetAllAlarms
      then bindE (getE (\<lambda>e. map_of (alarmUpload e) (DeviceIdentifier header))) (\<lambda>present. case present of
          None \<Rightarrow> returnE ()
        | Some session \<Rightarrow> bindE nowE (\<lambda>now. setAlarmUpload (DeviceIdentifier header) (session\<lparr>sessionExpires := now + nsMinute\<rparr>)))
      else returnE ())"

definition replayTransaction :: "Header \<Rightarrow> ('w, bytes option) act" where
  "replayTransaction header =
     (if MessageType header AND AR = 0 then returnE None
      else bindE (getE (\<lambda>e. transactions e (transactionPriority header))) (\<lambda>replay.
        if \<not> replayValid replay \<or> replayID replay \<noteq> TransactionID header then returnE None
        else bindE (renewUpload header replay) (\<lambda>alive.
          if \<not> alive then returnE None
          else bindE (renewAlarmUpload header replay) (\<lambda>alive.
            if \<not> alive then returnE None
            else thenE (extendSessions header) (returnE (Some (replayResponse replay)))))))"

section \<open>Frames\<close>

definition validateGPONMIC :: "bytes \<Rightarrow> bytes \<Rightarrow> go_error option" where
  "validateGPONMIC contents mic =
     (if be32 mic 0 \<noteq> CRC32A contents then Some (Errorf ''invalid GPON OMCI MIC'' []) else None)"

definition validateBaseline :: "string \<Rightarrow> bytes \<Rightarrow> bool \<Rightarrow> go_error option" where
  "validateBaseline mode frame verified =
     (if mode = ''xgspon'' \<and> \<not> verified then Some (Errorf ''XGS-PON OMCI frame has no trusted MIC verification'' [])
      else if length frame \<noteq> 48 \<and> length frame \<noteq> 44 \<and> length frame \<noteq> 40
      then Some (Errorf ''invalid baseline OMCI frame length %d'' [AN (length frame)])
      else if mode = ''gpon'' \<and> length frame = 48 then validateGPONMIC (take 44 frame) (drop 44 frame)
      else if mode = ''xgspon'' \<and> length frame = 48
      then Some (Errorf ''XGS-PON OMCI adapter did not remove the security trailer'' [])
      else None)"

definition validateExtended :: "string \<Rightarrow> bytes \<Rightarrow> bool \<Rightarrow> go_error option" where
  "validateExtended mode frame verified =
     (if mode = ''xgspon'' \<and> \<not> verified then Some (Errorf ''XGS-PON OMCI frame has no trusted MIC verification'' [])
      else if length frame < 10 then Some (Errorf ''invalid extended OMCI frame length %d'' [AN (length frame)])
      else
        let payloadEnd = 10 + unat (be16 frame 8) in
        if payloadEnd > 1976 \<or> (length frame \<noteq> payloadEnd \<and> length frame \<noteq> payloadEnd + 4)
        then Some (Errorf ''extended OMCI content length %d does not match frame length %d'' [AN (payloadEnd - 10), AN (length frame)])
        else if mode = ''gpon'' \<and> length frame = payloadEnd + 4
        then validateGPONMIC (take payloadEnd frame) (drop payloadEnd frame)
        else if mode = ''xgspon'' \<and> length frame = payloadEnd + 4
        then Some (Errorf ''XGS-PON OMCI adapter did not remove the security trailer'' [])
        else None)"

definition validateFrame :: "string \<Rightarrow> bytes \<Rightarrow> bool \<Rightarrow> go_error option" where
  "validateFrame mode frame verified =
     (if mode \<noteq> ''gpon'' \<and> mode \<noteq> ''xgspon'' then Some (Errorf ''unsupported PON mode %q'' [AStr mode])
      else if length frame < 4 \<or> length frame > 1980 then Some (Errorf ''invalid OMCI frame length %d'' [AN (length frame)])
      else if frame ! 3 = BaselineIdent then validateBaseline mode frame verified
      else if frame ! 3 = ExtendedIdent then validateExtended mode frame verified
      else Some (Errorf ''unsupported OMCI device identifier %#x'' [AU (frame ! 3)]))"

definition remembered :: "Header \<Rightarrow> bytes \<Rightarrow> ('w, bytes) act" where
  "remembered header response = thenE (rememberTransaction header response) (returnE response)"

text \<open>A request that is new: special cases, undecodable requests, and the dispatch.\<close>

definition serveRequest :: "OmciLib \<Rightarrow> Packet \<Rightarrow> Header \<Rightarrow> bytes \<Rightarrow> ('w, bytes) act" where
  "serveRequest lib packet header contents =
     bindE (handleRawSpecial lib header contents) (\<lambda>special. case special of
       Some response \<Rightarrow> remembered header response
     | None \<Rightarrow>
        (case ErrorLayer packet of
           Some (err, status) \<Rightarrow>
             bindE (decodeFailureResponse lib header contents status) (\<lambda>response. case response of
               None \<Rightarrow> failE (Errorf ''decode OMCI request: %w'' [AErr err])
             | Some response \<Rightarrow> remembered header response)
         | None \<Rightarrow>
             bindE (dispatch lib (PacketLayer packet) header) (\<lambda>response.
               if MessageType header = DownloadSectionRequestType
               then thenE (putE (\<lambda>e. e\<lparr>oneWayDigest := sha256 lib contents, oneWayValid := True\<rparr>)) (returnE response)
               else remembered header response)))"

definition HandleFrame :: "OmciLib \<Rightarrow> bytes \<Rightarrow> bool \<Rightarrow> ('w, bytes) act" where
  "HandleFrame lib contents verified =
     bindE (getE (\<lambda>e. validateFrame (ponMode e) contents verified)) (\<lambda>invalid. case invalid of
       Some err \<Rightarrow> failE err
     | None \<Rightarrow>
         thenE (putE (\<lambda>e. if contents ! 3 = ExtendedIdent then e\<lparr>extendedSeen := True\<rparr> else e))
           (let packet = decodePacket lib contents in
            case PacketHeader packet of
              None \<Rightarrow> failE (Errorf ''OMCI header is missing'' [])
            | Some header \<Rightarrow>
                let noResponseDownload = (MessageType header = DownloadSectionRequestType) in
                if MessageType header AND AK \<noteq> 0 \<or> (MessageType header AND AR = 0 \<and> \<not> noResponseDownload)
                then failE (Errorf ''unexpected downstream message type %#x'' [AU (MessageType header)])
                else bindE (replayTransaction header) (\<lambda>replay. case replay of
                  Some response \<Rightarrow> returnE response
                | None \<Rightarrow>
                    bindE (getE (\<lambda>e. noResponseDownload \<and> oneWayValid e \<and> sha256 lib contents = oneWayDigest e)) (\<lambda>repeated.
                      if repeated then returnE [] else serveRequest lib packet header contents))))"

section \<open>The session\<close>

definition DrainNotifications :: "('w, bytes list) act" where
  "DrainNotifications = bindE (getE pendingFrames) (\<lambda>frames. thenE (putE (\<lambda>e. e\<lparr>pendingFrames := []\<rparr>)) (returnE frames))"

definition DrainNotificationError :: "('w, go_error option) act" where
  "DrainNotificationError = bindE (getE pendingError) (\<lambda>err. thenE (putE (\<lambda>e. e\<lparr>pendingError := None\<rparr>)) (returnE err))"

definition ResetCommunicationSession :: "('w, unit) act" where
  "ResetCommunicationSession =
     putE (\<lambda>e. e\<lparr>transactions := (\<lambda>_. noReplay), oneWayDigest := replicate 32 0, oneWayValid := False, upload := [],
       tables := [], alarmUpload := [], alarmSequence := 0, berSample := [], pendingFrames := [], pendingError := None,
       extendedSeen := False\<rparr>)"

end
