(* ===== verification/EngClient.thy ===== *)
theory EngClient
  imports EngFrame EngLogic
begin

text \<open>
  What the methods of the engine keep. The interface between the engine and the MIB store is a locale:
  a property of the engine that the store's operations keep, and that depends on nothing but the store,
  the replayed transactions, the PON mode and whether extended messages have been seen, is kept by
  every method and every frame.
\<close>

section \<open>Attribute maps of the engine\<close>

text \<open>The attribute maps that the engine builds name no attribute twice.\<close>

lemma wf_performance [simp]:
  "gm_wf (gemPerformanceAttributes i c)" "gm_wf (fecPerformanceAttributes i c')"
  "gm_wf (ethernetPerformanceAttributes k i c'')" "gm_wf (xgsPerformanceAttributes k i c''')"
  by (simp_all add: gm_wf_def gemPerformanceAttributes_def fecPerformanceAttributes_def ethernetPerformanceAttributes_def
      ethernetHistoryAttributes_def ethernetHistory3Attributes_def ethernetFrameDownstreamAttributes_def
      ethernetFrameUpstreamAttributes_def xgsPerformanceAttributes_def tcAttributes_def
      downstreamManagementAttributes_def upstreamManagementAttributes_def)

lemma wf_image [simp]: "gm_wf (imageAttributes img)"
  by (simp add: gm_wf_def imageAttributes_def)

lemma keepsE_attr_value [keepsE]:
  assumes "keepsE P n" "\<And>x. keepsE P (a x)" "\<And>x. keepsE P (b x)" "\<And>x. keepsE P (c x)" "\<And>x. keepsE P (d x)"
    "\<And>x. keepsE P (f x)" "\<And>x. keepsE P (g x)" "\<And>x. keepsE P (h x)" "\<And>x. keepsE P (i x)" "\<And>x. keepsE P (j x)"
  shows "keepsE P (case v of VNil \<Rightarrow> n | VU8 x \<Rightarrow> a x | VU16 x \<Rightarrow> b x | VU32 x \<Rightarrow> c x | VU64 x \<Rightarrow> d x | VOctets x \<Rightarrow> f x
    | VU16s x \<Rightarrow> g x | VU32s x \<Rightarrow> h x | VU64s x \<Rightarrow> i x | VTable x \<Rightarrow> j x)"
  using assms by (cases v) auto

lemma keepsE_list [keepsE]:
  "keepsE P m \<Longrightarrow> (\<And>x xs. keepsE P (k x xs)) \<Longrightarrow> keepsE P (case l of [] \<Rightarrow> m | x # xs \<Rightarrow> k x xs)"
  by (cases l) simp_all

lemma keepsE_outcome [keepsE]:
  "(\<And>x. keepsE P (a x)) \<Longrightarrow> (\<And>x. keepsE P (b x)) \<Longrightarrow> keepsE P c \<Longrightarrow> keepsE P (case r of Ok x \<Rightarrow> a x | Err x \<Rightarrow> b x | Panic \<Rightarrow> c)"
  by (cases r) simp_all

lemma keepsE_bool [keepsE]:
  "keepsE P a \<Longrightarrow> keepsE P b \<Longrightarrow> keepsE P (case r of True \<Rightarrow> a | False \<Rightarrow> b)"
  by (cases r) simp_all

lemma keepsE_mibGet [keepsE]: "keepsE P (mibGet lib k m)"
  by (simp add: keepsE_def mibGet_def)

lemma keepsE_mibGetAll [keepsE]: "keepsE P (mibGetAll lib k m)"
  unfolding mibGetAll_def by (intro keepsE)

lemma keepsE_prod_app [keepsE]: "(\<And>a b. keepsE P (m a b s)) \<Longrightarrow> keepsE P ((case x of (a, b) \<Rightarrow> m a b) s)"
  by (cases x) simp

lemma keepsE_option_app [keepsE]:
  "keepsE P (m s) \<Longrightarrow> (\<And>y. keepsE P (k y s)) \<Longrightarrow> keepsE P ((case x of None \<Rightarrow> m | Some y \<Rightarrow> k y) s)"
  by (cases x) simp_all

section \<open>Methods that only read\<close>

text \<open>Methods that read the engine and its MIB keep everything.\<close>

lemmas reading_defs = loadEntity_def serializeAutonomous_def validateDeviceIdentifier_def administrativelyLocked_def
  arcConfiguration_def arcOwner_def suppressedBySlot_def suppressionParent_def notificationsSuppressed_def
  resolveEthernetPerformanceUNI_def Let_def

lemma keepsE_reading [keepsE]:
  "keepsE P (loadEntity lib k)" "keepsE P (serializeAutonomous lib device tid mt payload)"
  "keepsE P (validateDeviceIdentifier device)"
  by (simp_all add: loadEntity_def serializeAutonomous_def validateDeviceIdentifier_def keepsE)

lemma keepsE_resolve [keepsE]: "keepsE P (resolveEthernetPerformanceUNI lib k)"
  unfolding resolveEthernetPerformanceUNI_def Let_def by (intro keepsE)

lemma keepsE_locked [keepsE]: "keepsE P (administrativelyLocked lib k a)"
  unfolding administrativelyLocked_def Let_def by (intro keepsE)

lemma keepsE_arcConfiguration [keepsE]: "keepsE P (arcConfiguration lib k)"
  unfolding arcConfiguration_def Let_def by (intro keepsE)

lemma keepsE_arcOwner [keepsE]: "keepsE P (arcOwner lib k)"
  unfolding arcOwner_def by (intro keepsE)

lemma keepsE_suppressed [keepsE]: "keepsE P (notificationsSuppressed lib k)"
  unfolding notificationsSuppressed_def suppressionParent_def suppressedBySlot_def by (intro keepsE)

lemma keepsE_arcEnabled [keepsE]: "keepsE P (arcEnabled lib k)"
  unfolding arcEnabled_def by (intro keepsE)

lemma keepsE_groupAlarm [keepsE]: "keepsE P (arcGroupHasAlarm lib k)"
  unfolding arcGroupHasAlarm_def by (intro keepsE)

lemma keepsE_validateAVC [keepsE]: "keepsE P (validateCapabilityAVC lib k attrs)"
  unfolding validateCapabilityAVC_def by (intro keepsE)

lemma keepsE_frames [keepsE]: "keepsE P (attributeValueChangeFrames lib k changed device)"
  unfolding attributeValueChangeFrames_def packAVC_def flushAVC_def Let_def by (intro keepsE)

lemma keepsE_checkAlarm [keepsE]: "keepsE P (checkAlarm lib k bitmap)"
  unfolding checkAlarm_def Let_def by (intro keepsE)

lemma keepsE_thresholds [keepsE]: "keepsE P (performanceThresholds lib k)"
  unfolding performanceThresholds_def by (intro keepsE)

lemma keepsE_pointer [keepsE]: "keepsE P (validatePerformanceThresholdPointer c attrs)"
  unfolding validatePerformanceThresholdPointer_def Let_def by (intro keepsE)

lemma keepsE_configuration [keepsE]: "keepsE P (readConfiguration lib k)"
  unfolding readConfiguration_def readOctet_def by (intro keepsE)

lemma keepsE_readCounters [keepsE]: "keepsE P (readCounters kind port)"
  unfolding readCounters_def by (intro keepsE)

lemma keepsE_capability [keepsE]: "keepsE P (getCapability lib k m)"
  unfolding getCapability_def Let_def by (intro keepsE)

lemma keepsE_monitor [keepsE]: "keepsE P (getMulticastMonitor inst m)"
  unfolding getMulticastMonitor_def Let_def by (intro keepsE)

lemma keepsE_softwareImage [keepsE]: "keepsE P (softwareImage lib i)"
  unfolding softwareImage_def by (intro keepsE)

lemma keepsE_succeeds [keepsE]: "keepsE P m \<Longrightarrow> keepsE P (succeeds m)"
  unfolding succeeds_def by (intro keepsE)

lemma keepsE_reply [keepsE]: "keepsE P (reply lib header mt response)"
  unfolding reply_def by (intro keepsE)

lemma keepsE_rawResult [keepsE]: "keepsE P (serializeRawResult lib header c i result)"
  unfolding serializeRawResult_def by (intro keepsE)

lemma keepsE_lookup [keepsE]: "keepsE P (lookupInstance lib k m)"
  unfolding lookupInstance_def by (intro keepsE)

lemma keepsE_overlay [keepsE]: "(\<And>inst. keepsE P (f inst)) \<Longrightarrow> keepsE P (overlayInstance selected f st)"
  unfolding overlayInstance_def by (intro keepsE)

lemma keepsE_reported [keepsE]: "keepsE P (reportedAlarms lib mode)"
  unfolding reportedAlarms_def by (intro keepsE)

lemma keepsE_collect [keepsE]: "(\<And>k. keepsE P (f k)) \<Longrightarrow> keepsE P (collectFrames f ks)"
  by (induction ks) (auto intro!: keepsE)

text \<open>Of the requests, only Create needs that its attributes are a map.\<close>

fun wf_request :: "request \<Rightarrow> bool" where
  "wf_request (CreateRequest p attrs) = gm_wf attrs"
| "wf_request _ = True"

section \<open>Methods that change the MIB\<close>

text \<open>The state that the interface looks at.\<close>

definition sameCore :: "'w OmciEngine \<Rightarrow> 'w OmciEngine \<Rightarrow> bool" where
  "sameCore e e' = (mib e' = mib e \<and> transactions e' = transactions e \<and> ponMode e' = ponMode e
     \<and> extendedSeen e' = extendedSeen e)"

definition keepsCore :: "('w OmciEngine \<Rightarrow> 'w OmciEngine) \<Rightarrow> bool" where
  "keepsCore f = (\<forall>e. sameCore e (f e))"

lemma sameCore_refl [simp]: "sameCore e e"
  by (simp add: sameCore_def)

locale engine_client =
  fixes lib :: OmciLib and P :: "'w OmciEngine \<Rightarrow> bool"
  assumes core_law: "P e \<Longrightarrow> sameCore e e' \<Longrightarrow> P e'"
    and seen_law: "P e \<Longrightarrow> P (e\<lparr>extendedSeen := True\<rparr>)"
    and create_law: "P e \<Longrightarrow> gm_wf attrs \<Longrightarrow> P (e\<lparr>mib := fst (snd (Create (classes lib) c i attrs (mib e) w))\<rparr>)"
    and set_law: "P e \<Longrightarrow> P (e\<lparr>mib := fst (snd (Set (classes lib) k as (mib e) w))\<rparr>)"
    and table_law: "P e \<Longrightarrow> P (e\<lparr>mib := fst (snd (SetTable (classes lib) k m as (mib e) w))\<rparr>)"
    and delete_law: "P e \<Longrightarrow> P (e\<lparr>mib := fst (snd (Delete (classes lib) k (mib e) w))\<rparr>)"
    and reset_law: "P e \<Longrightarrow> P (e\<lparr>mib := fst (snd (Reset (mib e) w))\<rparr>)"
    and autonomous_law:
      "P e \<Longrightarrow> gm_wf attrs \<Longrightarrow> P (e\<lparr>mib := fst (snd (UpdateAutonomous (classes lib) k attrs (mib e) w))\<rparr>)"
    and batch_law:
      "P e \<Longrightarrow> list_all (gm_wf \<circ> snd) us \<Longrightarrow> P (e\<lparr>mib := fst (snd (UpdateAutonomousBatch (classes lib) us (mib e) w))\<rparr>)"
    and command_law: "P e \<Longrightarrow> P (e\<lparr>mib := fst (snd (updateByCommand (classes lib) us' t (mib e) w))\<rparr>)"
    and expire_law: "P e \<Longrightarrow> P (e\<lparr>mib := fst (snd (ExpireAllowedPreviewRows (classes lib) k ts (mib e) w))\<rparr>)"
begin

abbreviation kept :: "('w, 'a) act \<Rightarrow> bool" where
  "kept m \<equiv> keepsE P m"

lemma transactional_law:
  "P e \<Longrightarrow> P (e\<lparr>mib := fst (snd (UpdateByCommandTransactional (classes lib) us t (mib e) w))\<rparr>)"
  by (cases t) (simp_all add: UpdateByCommandTransactional_def command_law)

lemmas store_laws = create_law set_law table_law delete_law reset_law autonomous_law batch_law command_law
  command_law [where t = None, folded UpdateByCommand_def] transactional_law expire_law

lemma kept_store [keepsE]:
  "gm_wf attrs \<Longrightarrow> kept (storeE (Create (classes lib) c i attrs))" "kept (storeE (Set (classes lib) k as))"
  "kept (storeE (SetTable (classes lib) k m as))" "kept (storeE (Delete (classes lib) k))" "kept (storeE Reset)"
  "gm_wf attrs \<Longrightarrow> kept (storeE (UpdateAutonomous (classes lib) k attrs))"
  "list_all (gm_wf \<circ> snd) us \<Longrightarrow> kept (storeE (UpdateAutonomousBatch (classes lib) us))"
  "kept (storeE (UpdateByCommand (classes lib) us'))" "kept (storeE (UpdateByCommandTransactional (classes lib) us' t))"
  "kept (storeE (ExpireAllowedPreviewRows (classes lib) k ts))"
  by (rule keepsE_store; simp add: store_laws)+

lemma kept_core: "keepsCore f \<Longrightarrow> kept (putE f)"
  using core_law by (auto simp: keepsCore_def intro!: keepsE_put)

lemma kept_put: "(\<And>e. sameCore e (f e)) \<Longrightarrow> kept (putE f)"
  by (rule kept_core) (simp add: keepsCore_def)

text \<open>Notifications, alarms, samples.\<close>

lemma kept_change [keepsE]: "gm_wf attrs \<Longrightarrow> kept (notifyAttributeChange lib k attrs device)"
  unfolding notifyAttributeChange_def by (intro keepsE)

lemma kept_arc_free [keepsE]: "kept (deleteArcFree k)" "kept (startArcFree k)"
  unfolding deleteArcFree_def startArcFree_def by (intro keepsE kept_put; simp add: sameCore_def)+

lemma kept_pollARC [keepsE]: "kept (pollARCKey lib k device)"
  unfolding pollARCKey_def Let_def by (intro keepsE kept_put) (simp_all add: gm_wf_def sameCore_def)

lemma kept_alarm [keepsE]: "kept (notifyAlarm lib k bitmap device)"
  unfolding notifyAlarm_def reportUnderARC_def sendAlarm_def storeAlarm_def Let_def by (intro keepsE kept_put) (simp_all add: sameCore_def)

lemma kept_evaluate [keepsE]: "kept (evaluateOpticalSample lib k optic device)" "kept (evaluateBERSample lib k ber device)"
  unfolding evaluateOpticalSample_def evaluateBERSample_def Let_def by (intro keepsE; simp add: gm_wf_def)+

lemma kept_afterSet [keepsE]: "kept (afterSet lib k attrs device)"
  unfolding afterSet_def arcAfterSet_def Let_def by (intro keepsE)

lemma kept_TCA [keepsE]: "kept (evaluatePerformanceTCA lib k attrs rules device)"
  unfolding evaluatePerformanceTCA_def by (intro keepsE kept_put) (simp_all add: sameCore_def)

lemma kept_clear [keepsE]:
  "kept (clearPerformanceTCAKey k)" "kept clearAllPerformanceTCAs" "kept (clearPerformanceTCANotifications lib device)"
  unfolding clearPerformanceTCAKey_def clearAllPerformanceTCAs_def clearPerformanceTCANotifications_def
  by (intro keepsE kept_put; simp add: sameCore_def)+

text \<open>Performance monitoring, for each kind of counters.\<close>

definition kind_ok :: "('w, 'c) pmKind \<Rightarrow> bool" where
  "kind_ok kind = ((\<forall>f. keepsCore (kindUpdate kind f)) \<and> (\<forall>k. kept (kindPort kind lib k))
     \<and> (\<forall>k. kept (kindCreatePort kind lib k)) \<and> (\<forall>c i x. gm_wf (kindValues kind c i x)))"

lemma kind_okD:
  assumes "kind_ok kind"
  shows "sameCore e (kindUpdate kind f e)" "kept (kindPort kind lib k)" "kept (kindCreatePort kind lib k)"
    "gm_wf (kindValues kind c i x)"
  using assms by (simp_all add: kind_ok_def keepsCore_def)

lemma kinds_ok: "kind_ok gemKind" "kind_ok fecKind" "kind_ok ethernetKind" "kind_ok xgsKind"
  unfolding kind_ok_def gemKind_def fecKind_def ethernetKind_def xgsKind_def gemPort_def aniPort_def
  by (auto simp: keepsCore_def sameCore_def intro!: keepsE)

lemma kept_create: "kind_ok kind \<Longrightarrow> kept (prepareCreate lib kind k)"
  unfolding prepareCreate_def by (intro keepsE) (rule kind_okD)

lemma kept_reconcile: "kind_ok kind \<Longrightarrow> kept (reconcileKind lib kind)"
  unfolding reconcileKind_def reconcileEntity_def Let_def
  by (intro keepsE kept_put) (simp_all add: kind_okD)

lemma kept_reconciled [keepsE]: "kept (reconcilePerformance lib)"
  unfolding reconcilePerformance_def by (intro keepsE kept_reconcile kinds_ok)

lemma kept_baselines: "kind_ok kind \<Longrightarrow> kept (setBaselines kind b)"
  unfolding setBaselines_def by (intro kept_put) (rule kind_okD)

lemma kept_synchronizeKind: "kept (synchronizeKind kind)"
  unfolding synchronizeKind_def by (intro keepsE)

lemma kept_current [keepsE]: "kept (getCurrentPerformance lib k m)"
  unfolding getCurrentPerformance_def currentValues_def Let_def by (intro keepsE)

lemma kept_prepareSync [keepsE]: "kept (preparePerformanceSynchronization lib)"
  unfolding preparePerformanceSynchronization_def by (intro keepsE kept_synchronizeKind)

lemma wf_zeroUpdates: "(\<And>k. gm_wf (attrs (ClassID k) 0 zero)) \<Longrightarrow> list_all (gm_wf \<circ> snd) (zeroUpdates attrs zero b)"
  by (auto simp: zeroUpdates_def list_all_iff)

lemma kept_commitSync [keepsE]: "kept (commitPerformanceSynchronization lib now s)"
  unfolding commitPerformanceSynchronization_def
  by (intro keepsE kept_put kept_baselines kinds_ok) (simp_all add: wf_zeroUpdates sameCore_def)

text \<open>A poll stores only maps that the counters' attribute functions built.\<close>

definition updates_ok :: "'c pmResult \<Rightarrow> bool" where
  "updates_ok r = list_all (gm_wf \<circ> snd) (pmUpdates r)"

lemma gives_pollEntity: "kind_ok kind \<Longrightarrow> updates_ok r \<Longrightarrow> givesE updates_ok (pollEntity lib kind n i entry r)"
  unfolding pollEntity_def Let_def by (intro givesE) (auto simp: updates_ok_def kind_okD)

lemma gives_pollKind: "kind_ok kind \<Longrightarrow> givesE updates_ok (pollKind lib kind n i)"
  unfolding pollKind_def by (intro givesE givesE_for gives_pollEntity) (simp_all add: updates_ok_def)

lemma kept_pollKind [keepsE]: "kept (pollKind lib kind n i)"
  unfolding pollKind_def pollEntity_def Let_def by (intro keepsE)

lemma kept_commitInterval:
  "updates_ok gem \<Longrightarrow> updates_ok fec \<Longrightarrow> updates_ok ethernet \<Longrightarrow> updates_ok xgs \<Longrightarrow>
    kept (commitInterval lib n i gem fec ethernet xgs)"
  unfolding commitInterval_def updates_ok_def by (intro keepsE kept_put kept_baselines kinds_ok) (simp_all add: sameCore_def)

lemma kept_evaluateTCAs [keepsE]: "kept (evaluateTCAs lib device evaluations)"
  unfolding evaluateTCAs_def by (intro keepsE)

lemma kept_pollInterval [keepsE]: "kept (pollInterval lib device n i)"
  unfolding pollInterval_def
  by (intro keepsE_bind_gives [OF kept_pollKind gives_pollKind] kinds_ok keepsE kept_commitInterval)

lemma kept_poll [keepsE]: "kept (pollPerformance lib now device)"
  unfolding pollPerformance_def by (intro keepsE kept_put) (simp_all add: sameCore_def)

text \<open>Multicast, ONU3-G, software.\<close>

lemma kept_preview [keepsE]: "kept (refreshAllowedPreview lib i)"
  unfolding refreshAllowedPreview_def by (intro keepsE kept_put) (simp add: sameCore_def)

lemma kept_getPreview [keepsE]: "kept (getAllowedPreview lib inst m)"
  unfolding getAllowedPreview_def by (intro keepsE)

lemma kept_onu3 [keepsE]: "kept (setONU3 lib k attrs)"
  unfolding setONU3_def snapOrReset_def takeRecord_def commitSnapshot_def by (intro keepsE)

lemma kept_setDownload [keepsE]: "kept (setDownload d)"
  unfolding setDownload_def by (intro kept_put) (simp add: sameCore_def)

lemma kept_fail [keepsE]: "kept failSoftwareDownload"
  unfolding failSoftwareDownload_def by (intro keepsE kept_put) (simp add: sameCore_def)

lemma kept_start [keepsE]: "kept (startSoftwareDownload lib request device)"
  unfolding startSoftwareDownload_def by (intro keepsE kept_put) (simp_all add: sameCore_def)

lemma kept_reject [keepsE]: "kept (rejectSoftwareWindow d a result)"
  unfolding rejectSoftwareWindow_def by (intro keepsE)

lemma kept_section [keepsE]: "kept (downloadSoftwareSection request device a)"
  unfolding downloadSoftwareSection_def acceptSection_def writeWindow_def Let_def by (intro keepsE kept_put) (simp_all add: sameCore_def)

lemma keepsE_phase [keepsE]:
  "keepsE P a \<Longrightarrow> keepsE P b \<Longrightarrow> keepsE P c \<Longrightarrow> keepsE P d \<Longrightarrow> keepsE P (case p of softwareReceiving \<Rightarrow> a
    | softwareFinalizing \<Rightarrow> b | softwareComplete \<Rightarrow> c | softwareFailed \<Rightarrow> d)"
  by (cases p) simp_all

lemma kept_end [keepsE]: "kept (endSoftwareDownload lib request device)"
  unfolding endSoftwareDownload_def softwareFinishStatus_def Let_def by (intro keepsE kept_put) (simp_all add: sameCore_def)

lemma kept_finish [keepsE]: "kept finishGoroutine"
  unfolding finishGoroutine_def by (intro keepsE) (simp add: keepsE_def split: prod.splits)

lemma kept_flag [keepsE]: "kept (setExclusiveSoftwareFlag lib i a t)"
  unfolding setExclusiveSoftwareFlag_def by (intro keepsE)

lemma kept_activate [keepsE]: "kept (activateSoftware lib request)" "kept (commitSoftware lib p)"
  unfolding activateSoftware_def commitSoftware_def by (intro keepsE kept_put; simp add: sameCore_def)+

lemma kept_images [keepsE]: "kept (RefreshSoftwareImages lib)"
  unfolding RefreshSoftwareImages_def by (intro keepsE) simp_all

text \<open>Requests.\<close>

lemma gives_prepareKind: "kind_ok kind \<Longrightarrow> givesE keepsCore (prepareKind lib kind k)"
  unfolding prepareKind_def by (intro givesE) (auto simp: keepsCore_def kind_okD split: option.splits)

lemma gives_prepare: "givesE (keepsCore :: ('w OmciEngine \<Rightarrow> _) \<Rightarrow> bool) (preparePerformance lib k)"
  unfolding preparePerformance_def by (intro givesE_if givesE_pure gives_prepareKind kinds_ok) (auto simp: keepsCore_def)

lemma kept_prepare [keepsE]: "kept (preparePerformance lib k)"
  unfolding preparePerformance_def prepareKind_def by (intro keepsE kept_create kinds_ok)

lemma kept_clearTables [keepsE]: "kept clearTables"
  unfolding clearTables_def by (intro kept_put) (simp add: sameCore_def)

lemma gives_create: "givesE (keepsCore :: ('w OmciEngine \<Rightarrow> _) \<Rightarrow> bool) (createEntity lib k attrs)"
  unfolding createEntity_def
  by (rule givesE_bind, rule givesE_bind, rule givesE_bind_gives [OF gives_prepare]) (intro givesE; simp)

lemma kept_createEntity [keepsE]: "gm_wf attrs \<Longrightarrow> kept (createEntity lib k attrs)"
  unfolding createEntity_def by (intro keepsE)

lemma kept_handleCreate [keepsE]: "gm_wf attrs \<Longrightarrow> kept (handleCreate lib header p attrs)"
  unfolding handleCreate_def
proof (rule keepsE_bind_gives [OF keepsE_try [OF kept_createEntity] givesE_try [OF gives_create]])
  fix r :: "go_error + ('w OmciEngine \<Rightarrow> 'w OmciEngine)" assume "case r of Inl _ \<Rightarrow> True | Inr f \<Rightarrow> keepsCore f"
  then show "kept (case operationResult (errorOf r) of (result, failed, _) \<Rightarrow>
      thenE (case r of Inr prepared \<Rightarrow> thenE clearTables (putE prepared)
         | Inl _ \<Rightarrow> if result = Success then clearTables else returnE ())
       (reply lib header MsgCreate (CreateResponse (replyBase header p) result failed)))"
    by (cases r) (auto intro!: keepsE kept_core)
qed

lemma kept_handleDelete [keepsE]: "kept (handleDelete lib header p)"
  unfolding handleDelete_def deleteEntity_def Let_def by (intro keepsE kept_put) (simp add: sameCore_def)

lemma kept_handleSet [keepsE]: "kept (handleSet lib header p attrs)"
  unfolding handleSet_def setEntity_def notifySet_def by (intro keepsE kept_put) (simp_all add: sameCore_def)

lemma kept_handleSetTable [keepsE]: "kept (handleSetTable lib header p m attrs)"
  unfolding handleSetTable_def by (intro keepsE)

lemma kept_handleMibReset [keepsE]: "kept (handleMibReset lib header p)"
  unfolding handleMibReset_def by (intro keepsE kept_put) (simp_all add: sameCore_def)

lemma kept_handleGet [keepsE]: "kept (handleGet lib header p m)"
  unfolding handleGet_def prepareTableGet_def prepareTable_def keepTable_def Let_def by (intro keepsE kept_put) (simp_all add: sameCore_def)

lemma kept_handleGetNext [keepsE]: "kept (handleGetNext lib header p m n)" "kept (handleGetCurrentData lib header p m)"
  unfolding handleGetNext_def handleGetCurrentData_def Let_def by (intro keepsE)+

lemma kept_sessions [keepsE]:
  "kept (setUpload device u)" "kept (dropUpload device)" "kept (setAlarmUpload device a)" "kept (dropAlarmUpload device)"
  unfolding setUpload_def dropUpload_def setAlarmUpload_def dropAlarmUpload_def by (intro kept_put; simp add: sameCore_def)+

lemma kept_uploads [keepsE]:
  "kept (handleMibUpload lib header p)" "kept (handleMibUploadNext lib header p n)"
  "kept (handleGetAllAlarms lib header p mode)" "kept (handleGetAllAlarmsNext lib header p n)"
  unfolding handleMibUpload_def handleMibUploadNext_def handleGetAllAlarms_def handleGetAllAlarmsNext_def Let_def
  by (intro keepsE kept_put; simp add: sameCore_def)+

lemma kept_software [keepsE]:
  "kept (handleStartDownload lib header r1)" "kept (handleDownloadSection lib header r2)"
  "kept (handleEndDownload lib header r3)" "kept (handleActivate lib header r4)" "kept (handleCommit lib header p)"
  unfolding handleStartDownload_def handleDownloadSection_def handleEndDownload_def handleActivate_def handleCommit_def Let_def
  by (intro keepsE)+

lemma kept_supervision [keepsE]: "kept (opticalLineSupervision lib header r)"
  unfolding opticalLineSupervision_def by (intro keepsE kept_put) (simp add: sameCore_def)

lemma kept_time [keepsE]: "kept (synchronizeTime lib year month day hour mins secs device)"
  unfolding synchronizeTime_def Let_def by (intro keepsE kept_put) (simp_all add: sameCore_def)

lemma kept_test [keepsE]: "kept (handleTest lib header r)" "kept (handleReboot lib header p c)"
  unfolding handleTest_def handleReboot_def by (intro keepsE)+

lemma kept_request: "wf_request r \<Longrightarrow> kept (handleRequest lib header r)"
  by (cases r) (simp_all add: kept_handleCreate kept_handleDelete kept_handleSet kept_handleSetTable kept_handleMibReset
      kept_handleGet kept_handleGetNext kept_uploads kept_software kept_test kept_time keepsE_bind keepsE_reply)

lemma kept_dispatch: "(\<And>r. layer = Some r \<Longrightarrow> wf_request r) \<Longrightarrow> kept (dispatch lib layer header)"
  unfolding dispatch_def by (cases layer; simp only: option.case) (intro keepsE kept_request; simp)+

lemma kept_raw [keepsE]: "kept (handleRawSpecial lib header frame)" "kept (decodeFailureResponse lib header frame status)"
  unfolding handleRawSpecial_def rawTest_def rawSynchronizeTime_def decodeFailureResponse_def answered_def Let_def
  by (intro keepsE)+

lemma kept_replay [keepsE]: "kept (replayTransaction header)"
  unfolding replayTransaction_def renewUpload_def renewAlarmUpload_def extendSessions_def by (intro keepsE)

text \<open>A frame may replace the response remembered on its channel.\<close>

lemma kept_frame:
  assumes "\<And>octets r. PacketLayer (decodePacket lib octets) = Some r \<Longrightarrow> wf_request r"
    and "\<And>header response. PacketHeader (decodePacket lib contents) = Some header \<Longrightarrow> kept (rememberTransaction header response)"
  shows "kept (HandleFrame lib contents verified)"
proof -
  have seen: "kept (putE (\<lambda>e. if contents ! 3 = ExtendedIdent then e\<lparr>extendedSeen := True\<rparr> else e))"
    by (rule keepsE_put) (simp add: seen_law)
  have serve: "kept (serveRequest lib (decodePacket lib contents) header contents)"
    if "PacketHeader (decodePacket lib contents) = Some header" for header
    unfolding serveRequest_def remembered_def Let_def
    by (intro keepsE kept_put kept_dispatch assms that) (simp_all add: sameCore_def assms)
  show ?thesis
    unfolding HandleFrame_def Let_def
    by (cases "PacketHeader (decodePacket lib contents)"; simp only: option.case)
      (intro keepsE seen serve; simp)+
qed

text \<open>The other entry points.\<close>

lemma kept_entry [keepsE]:
  "kept (NotifyAlarmBit lib k a b device)" "kept (SetAlarm k bitmap)" "kept (PollARC lib device)"
  "kept (NotifyOpticalSample lib k optic device)" "kept (NotifyBERSample lib k ber device)"
  "kept (TestResult lib tid k payload device)" "kept (PollPerformance lib device)" "kept (PollMulticast lib)"
  "kept (SetPerformanceController backends)" "kept DrainNotifications" "kept DrainNotificationError"
  unfolding NotifyAlarmBit_def SetAlarm_def storeAlarm_def PollARC_def NotifyOpticalSample_def NotifyBERSample_def
    TestResult_def PollPerformance_def PollMulticast_def SetPerformanceController_def DrainNotifications_def
    DrainNotificationError_def Let_def
  by (intro keepsE kept_put; simp add: sameCore_def)+

end

end
