(* ===== verification/EngContract.thy ===== *)
theory EngContract
  imports EngClient EngSample
begin

unbundle bit_operations_syntax

text \<open>
  What the engine promises over its whole life: the events that reach it, in any order, and what they
  keep. The interface \<open>engine_client\<close> is interpreted for the invariant of the MIB store and for a slot of
  the replay memory.
\<close>

section \<open>Events\<close>

text \<open>
  Everything the daemon calls on an engine: frames of the OLT, notifications and samples of the
  platform, the polls of its timers, the import of the software images and the end of a download.
\<close>

datatype 'w engineEvent =
    EvFrame bytes bool
  | EvAlarm Key bytes u8
  | EvAlarmBit Key u8 bool u8
  | EvSetAlarm Key bytes
  | EvChange Key attribute_map u8
  | EvOptical Key OpticalSample u8
  | EvBER Key BERSample u8
  | EvTestResult u16 Key bytes u8
  | EvPollARC u8
  | EvPollPerformance u8
  | EvPollMulticast
  | EvController "'w Backends"
  | EvRefreshImages
  | EvDownloadFinished
  | EvDrain
  | EvDrainError
  | EvReset

definition stateOf :: "('w, 'a) act \<Rightarrow> 'w OmciEngine \<Rightarrow> 'w \<Rightarrow> 'w OmciEngine \<times> 'w" where
  "stateOf m e w = snd (m e w)"

fun engineStep :: "OmciLib \<Rightarrow> 'w engineEvent \<Rightarrow> 'w OmciEngine \<Rightarrow> 'w \<Rightarrow> 'w OmciEngine \<times> 'w" where
  "engineStep lib (EvFrame contents verified) = stateOf (HandleFrame lib contents verified)"
| "engineStep lib (EvAlarm key bitmap device) = stateOf (notifyAlarm lib key bitmap device)"
| "engineStep lib (EvAlarmBit key alarm on device) = stateOf (NotifyAlarmBit lib key alarm on device)"
| "engineStep lib (EvSetAlarm key bitmap) = stateOf (SetAlarm key bitmap)"
| "engineStep lib (EvChange key attrs device) = stateOf (notifyAttributeChange lib key attrs device)"
| "engineStep lib (EvOptical key optic device) = stateOf (NotifyOpticalSample lib key optic device)"
| "engineStep lib (EvBER key ber device) = stateOf (NotifyBERSample lib key ber device)"
| "engineStep lib (EvTestResult tid key payload device) = stateOf (TestResult lib tid key payload device)"
| "engineStep lib (EvPollARC device) = stateOf (PollARC lib device)"
| "engineStep lib (EvPollPerformance device) = stateOf (PollPerformance lib device)"
| "engineStep lib EvPollMulticast = stateOf (PollMulticast lib)"
| "engineStep lib (EvController backends) = stateOf (SetPerformanceController backends)"
| "engineStep lib EvRefreshImages = stateOf (RefreshSoftwareImages lib)"
| "engineStep lib EvDownloadFinished = stateOf finishGoroutine"
| "engineStep lib EvDrain = stateOf DrainNotifications"
| "engineStep lib EvDrainError = stateOf DrainNotificationError"
| "engineStep lib EvReset = stateOf ResetCommunicationSession"

fun engineRun :: "OmciLib \<Rightarrow> 'w engineEvent list \<Rightarrow> 'w OmciEngine \<Rightarrow> 'w \<Rightarrow> 'w OmciEngine \<times> 'w" where
  "engineRun lib [] e w = (e, w)"
| "engineRun lib (event # events) e w = (case engineStep lib event e w of (e', w') \<Rightarrow> engineRun lib events e' w')"

text \<open>The attributes of a notification are a Go map.\<close>

fun wf_event :: "'w engineEvent \<Rightarrow> bool" where
  "wf_event (EvChange key attrs device) = gm_wf attrs"
| "wf_event _ = True"

definition wf_decoder :: "OmciLib \<Rightarrow> bool" where
  "wf_decoder lib = (\<forall>octets r. PacketLayer (decodePacket lib octets) = Some r \<longrightarrow> wf_request r)"

lemma wf_decoderD: "wf_decoder lib \<Longrightarrow> PacketLayer (decodePacket lib octets) = Some r \<Longrightarrow> wf_request r"
  by (simp add: wf_decoder_def)

lemma engineRun_keeps:
  assumes "\<And>event e w. event \<in> set events \<Longrightarrow> P e \<Longrightarrow> P (fst (engineStep lib event e w))" "P e"
  shows "P (fst (engineRun lib events e w))"
  using assms
proof (induction events arbitrary: e w)
  case (Cons event events)
  have "P (fst (engineStep lib event e w))" by (rule Cons.prems) (simp_all add: Cons.prems(2))
  from Cons.IH [OF _ this, of "snd (engineStep lib event e w)"] Cons.prems(1) show ?case
    by (simp add: case_prod_beta)
qed simp

lemma stateOf_keeps: "keepsE P m \<Longrightarrow> P e \<Longrightarrow> P (fst (stateOf m e w))"
  by (simp add: stateOf_def keepsE_D)

context engine_client begin

lemma kept_step:
  assumes "event \<noteq> EvReset" "wf_event event" "P e"
    and "\<And>contents verified. event = EvFrame contents verified \<Longrightarrow> kept (HandleFrame lib contents verified)"
  shows "P (fst (engineStep lib event e w))"
  using assms by (cases event) (simp_all add: stateOf_keeps keepsE)

end

section \<open>The MIB of the engine\<close>

text \<open>The MIB invariant, the policy of the store and the PON mode, under the laws of the class table.\<close>

definition engineLaw :: "OmciLib \<Rightarrow> 'w OmciEngine \<Rightarrow> 'w OmciEngine \<Rightarrow> bool" where
  "engineLaw lib e0 e = (store_inv (classes lib) (mib e) \<and> same_policy (mib e0) (mib e) \<and> ponMode e = ponMode e0)"

definition guardedLaw :: "OmciLib \<Rightarrow> 'w OmciEngine \<Rightarrow> 'w OmciEngine \<Rightarrow> bool" where
  "guardedLaw lib e0 e = (library (classes lib) \<longrightarrow> engineLaw lib e0 e)"

lemma parts: "r = (fst r, fst (snd r), snd (snd r))"
  by simp

lemmas store_keeps = Create_inv [OF _ _ parts] Set_inv [OF _ parts] SetTable_inv [OF _ parts] Delete_inv [OF _ parts]
  Reset_inv [OF _ parts] UpdateAutonomous_inv [OF _ _ _ parts] UpdateAutonomousBatch_inv [OF _ _ _ parts]
  updateByCommand_inv [OF _ parts] Expire_inv [OF _ parts]

lemma same_policy_refl [simp]: "same_policy s s"
  by (simp add: same_policy_def)

lemma same_policy_trans: "same_policy s0 s \<Longrightarrow> same_policy s s' \<Longrightarrow> same_policy s0 s'"
  unfolding same_policy_def by (metis Store.surjective Store.update_convs(2,3))

lemma effect_policy: "effect s res \<Longrightarrow> same_policy s (fst (snd res))"
  by (cases res) (simp add: effect_def same_policy_def)

lemma discard_state [simp]: "fst (snd (discard r)) = fst (snd r)"
  by (simp add: discard_def)

lemma policy_keeps:
  assumes "same_policy s0 s"
  shows "same_policy s0 (fst (snd (Create tbl c i attrs s w)))" "same_policy s0 (fst (snd (Set tbl k as s w)))"
    "same_policy s0 (fst (snd (SetTable tbl k m as s w)))" "same_policy s0 (fst (snd (Delete tbl k s w)))"
    "same_policy s0 (fst (snd (Reset s w)))" "same_policy s0 (fst (snd (UpdateAutonomous tbl k attrs s w)))"
    "same_policy s0 (fst (snd (UpdateAutonomousBatch tbl us s w)))"
    "same_policy s0 (fst (snd (updateByCommand tbl us t s w)))"
    "same_policy s0 (fst (snd (ExpireAllowedPreviewRows tbl k ts s w)))"
  using effect_policy [OF exec_effect [of s tbl "OpCreate c i attrs" w]]
    effect_policy [OF exec_effect [of s tbl "OpSet k as" w]]
    effect_policy [OF exec_effect [of s tbl "OpSetTable k m as" w]]
    effect_policy [OF exec_effect [of s tbl "OpDelete k" w]]
    effect_policy [OF exec_effect [of s tbl "OpReset" w]]
    effect_policy [OF exec_effect [of s tbl "OpAutonomous k attrs" w]]
    effect_policy [OF exec_effect [of s tbl "OpAutonomousBatch us" w]]
    effect_policy [OF exec_effect [of s tbl "OpCommand us t" w]]
    effect_policy [OF exec_effect [of s tbl "OpExpire k ts" w]]
  by (simp_all add: same_policy_trans [OF assms])

interpretation em: engine_client lib "guardedLaw lib e0" for lib and e0 :: "'w OmciEngine"
proof
  show "guardedLaw lib e0 e'" if "guardedLaw lib e0 e" "sameCore e e'" for e e' :: "'w OmciEngine"
    using that by (simp add: guardedLaw_def engineLaw_def sameCore_def)
  show "guardedLaw lib e0 (e\<lparr>extendedSeen := True\<rparr>)" if "guardedLaw lib e0 e" for e :: "'w OmciEngine"
    using that by (simp add: guardedLaw_def engineLaw_def)
qed (auto simp: guardedLaw_def engineLaw_def intro: store_keeps policy_keeps)

lemma remember_law: "keepsE (guardedLaw lib e0) (rememberTransaction header response)"
  unfolding rememberTransaction_def by (intro keepsE) (simp add: guardedLaw_def engineLaw_def)

lemma reset_law: "guardedLaw lib e0 e \<Longrightarrow> guardedLaw lib e0 (fst (engineStep lib EvReset e w))"
  by (simp add: stateOf_def ResetCommunicationSession_def putE_def guardedLaw_def engineLaw_def)

text \<open>
  A concrete decoder for the witnesses: the header is read from the first four octets, and a MIB reset
  of ONU data is the only request.
\<close>

definition resetLib :: OmciLib where
  "resetLib = sampleLib\<lparr>decodePacket := (\<lambda>octets. \<lparr>
     PacketHeader = Some \<lparr> TransactionID = be16 octets 0, MessageType = octets ! 2, DeviceIdentifier = octets ! 3,
       LayerPayload = drop 4 octets \<rparr>,
     PacketLayer = (if octets ! 2 = requestType MsgMibReset
       then Some (MibResetRequest \<lparr> EntityClass = 2, EntityInstance = 0 \<rparr>) else None),
     ErrorLayer = None \<rparr>)\<rparr>"

lemma wf_resetLib: "wf_decoder resetLib" "classes resetLib = sampleClasses"
  by (auto simp: wf_decoder_def resetLib_def sampleLib_def split: if_splits)

definition resetFrame :: bytes where
  "resetFrame = [0, 1, 0x4f, 0x0a, 0, 2, 0, 0] @ replicate 32 0"

text \<open>
  C4. The engine keeps the MIB invariant. Whatever events reach an engine (frames of the OLT of any
  content, notifications and samples of the platform, polls of its timers, software image imports, the
  end of a download, session resets), in any order, whatever its controllers, counters, clock and sinks
  do: the MIB of the engine satisfies the invariant of the store afterwards, its factory MIB and
  capability policy are the configured ones, and the PON mode is unchanged. The library's decoder is
  only assumed to decode a Create request into a map.
\<close>
theorem engine_invariant:
  assumes "library (classes lib)" "wf_decoder lib" "store_inv (classes lib) (mib e)" "list_all wf_event events"
  shows "engineLaw lib e (fst (engineRun lib events e w))"
proof -
  have "guardedLaw lib e (fst (engineRun lib events e w))"
  proof (rule engineRun_keeps)
    fix event :: "'a engineEvent" and e' :: "'a OmciEngine" and w
    assume event: "event \<in> set events" and e': "guardedLaw lib e e'"
    show "guardedLaw lib e (fst (engineStep lib event e' w))"
    proof (cases "event = EvReset")
      case False
      show ?thesis
        using em.kept_step [OF False _ e' em.kept_frame [OF wf_decoderD [OF assms(2)] remember_law]] event assms(4)
        by (auto simp: list_all_iff)
    qed (simp add: reset_law [OF e'] del: engineStep.simps)
  qed (simp add: guardedLaw_def engineLaw_def assms)
  with assms(1) show ?thesis by (simp add: guardedLaw_def)
qed

lemma engineSample_inv: "store_inv sampleClasses (sampleStore None)"
  by (rule NewWithOptions_inv [OF sampleStore_new]) code_simp

theorem engine_invariant_witness:
  "engineLaw resetLib sampleEngine (fst (engineRun resetLib
     [EvFrame resetFrame False, EvChange (Key 2 0) [(''MibDataSync'', VU8 9)] 0, EvPollARC 0] sampleEngine (0 :: nat)))"
  by (rule engine_invariant)
    (simp_all add: wf_resetLib library_sample sampleEngine_def NewForMode_def engineSample_inv gm_wf_def)

section \<open>Replay\<close>

text \<open>What a retransmission depends on: the PON mode, that extended messages were seen, and the slot of its channel.\<close>

definition slotLaw :: "string \<Rightarrow> bool \<Rightarrow> (transactionChannel \<times> transactionReplay) option \<Rightarrow> 'w OmciEngine \<Rightarrow> bool" where
  "slotLaw mode seen slot e = (ponMode e = mode \<and> (seen \<longrightarrow> extendedSeen e)
     \<and> (case slot of None \<Rightarrow> True | Some (channel, replay) \<Rightarrow> transactions e channel = replay))"

interpretation er: engine_client lib "slotLaw mode seen slot" for lib mode seen slot
  by unfold_locales (auto simp: slotLaw_def sameCore_def split: option.splits)

definition frameHeader :: "OmciLib \<Rightarrow> bytes \<Rightarrow> Header option" where
  "frameHeader lib contents = PacketHeader (decodePacket lib contents)"

text \<open>The events that may replace what is remembered on a channel: its own frames and a session reset.\<close>

fun touches :: "OmciLib \<Rightarrow> transactionChannel \<Rightarrow> 'w engineEvent \<Rightarrow> bool" where
  "touches lib channel (EvFrame contents verified) =
     (case frameHeader lib contents of None \<Rightarrow> False | Some header \<Rightarrow> transactionPriority header = channel)"
| "touches lib channel EvReset = True"
| "touches lib channel _ = False"

text \<open>The commands of the two upload procedures, whose retransmissions also keep a session alive.\<close>

definition uploadMessage :: "Header \<Rightarrow> bool" where
  "uploadMessage header = (MessageType header \<in> requestType ` {MsgMibUpload, MsgMibUploadNext, MsgGetAllAlarms, MsgGetAllAlarmsNext})"

definition replays :: "Header \<Rightarrow> bytes \<Rightarrow> 'w OmciEngine \<Rightarrow> bool" where
  "replays header response e = (case transactions e (transactionPriority header) of replay \<Rightarrow>
     replayValid replay \<and> replayID replay = TransactionID header \<and> replayResponse replay = response)"

text \<open>What holds of every value, whatever an error leaves.\<close>

definition ends :: "('w, 'a) act \<Rightarrow> ('a \<Rightarrow> 'w OmciEngine \<Rightarrow> bool) \<Rightarrow> bool" where
  "ends m Q = (\<forall>e w. wpE m (\<lambda>x e _. Q x e) (\<lambda>_ _. True) e w)"

lemma ends_bind: "(\<And>x. ends (k x) Q) \<Longrightarrow> ends (bindE m k) Q"
proof -
  assume k: "\<And>x. ends (k x) Q"
  have "wpE (bindE m k) (\<lambda>x e _. Q x e) (\<lambda>_ _. True) e w" for e w
  proof (cases "m e w")
    case (fields r e' w')
    with k show ?thesis by (cases r) (simp_all add: ends_def wpE_def bindE_def)
  qed
  then show ?thesis by (simp add: ends_def)
qed

lemma ends_fail: "ends (failE err) Q"
  by (simp add: ends_def wpE)

lemma ends_option: "ends m Q \<Longrightarrow> (\<And>y. ends (k y) Q) \<Longrightarrow> ends (case x of None \<Rightarrow> m | Some y \<Rightarrow> k y) Q"
  by (cases x) simp_all

lemma remembered_replays:
  assumes "MessageType header AND AR \<noteq> 0"
  shows "ends (remembered header response) (replays header)"
  using assms by (simp add: ends_def remembered_def rememberTransaction_def wpE replays_def)

lemma serveRequest_replays:
  assumes "MessageType header AND AR \<noteq> 0"
  shows "ends (serveRequest lib packet header contents) (replays header)"
proof -
  have "MessageType header \<noteq> DownloadSectionRequestType"
    using assms by (auto simp: DownloadSectionRequestType_def)
  then show ?thesis
    unfolding serveRequest_def
    by (cases "ErrorLayer packet")
      (auto intro!: ends_bind ends_option ends_fail remembered_replays [OF assms])
qed

lemma replayTransaction_replays:
  "wpE (replayTransaction header) (\<lambda>replay e _. case replay of None \<Rightarrow> True | Some response \<Rightarrow> replays header response e)
     (\<lambda>_ _. True) e w"
  by (simp add: replayTransaction_def renewUpload_def renewAlarmUpload_def extendSessions_def dropUpload_def
      setUpload_def dropAlarmUpload_def setAlarmUpload_def wpE replays_def split: option.split prod.split)

lemma wpE_ok: "wpE m Q R e w \<Longrightarrow> m e w = (Ok x, e', w') \<Longrightarrow> Q x e' w'"
  by (simp add: wpE_def)

text \<open>The engine once a frame has been seen.\<close>

definition seenBy :: "bytes \<Rightarrow> 'w OmciEngine \<Rightarrow> 'w OmciEngine" where
  "seenBy contents e = (if contents ! 3 = ExtendedIdent then e\<lparr>extendedSeen := True\<rparr> else e)"

lemma seenBy_idle: "(contents ! 3 = ExtendedIdent \<longrightarrow> extendedSeen e) \<Longrightarrow> seenBy contents e = e"
  by (cases e) (auto simp: seenBy_def)

lemma seenBy_simps [simp]: "seenBy contents (seenBy contents e) = seenBy contents e" "ponMode (seenBy contents e) = ponMode e"
  by (simp_all add: seenBy_def)

text \<open>A frame with a request that is not a retransmitted download section.\<close>

lemma HandleFrame_request:
  assumes "frameHeader lib contents = Some header" "MessageType header AND AR \<noteq> 0"
  shows "HandleFrame lib contents verified e w =
     (case validateFrame (ponMode e) contents verified of
        Some err \<Rightarrow> (Err err, e, w)
      | None \<Rightarrow>
          if MessageType header AND AK \<noteq> 0
          then (Err (Errorf ''unexpected downstream message type %#x'' [AU (MessageType header)]), seenBy contents e, w)
          else bindE (replayTransaction header) (\<lambda>replay. case replay of
              Some response \<Rightarrow> returnE response
            | None \<Rightarrow> serveRequest lib (decodePacket lib contents) header contents) (seenBy contents e) w)"
proof -
  have "MessageType header \<noteq> DownloadSectionRequestType"
    using assms(2) by (auto simp: DownloadSectionRequestType_def)
  with assms show ?thesis
    by (auto simp: HandleFrame_def frameHeader_def Let_def getE_def putE_def pureE_def seenBy_def bindE_def [of "getE _"]
        bindE_def [of "putE _"] split: option.split intro!: arg_cong [of _ _ "\<lambda>k. bindE _ k _ _"] ext)
qed

lemma HandleFrame_accepted:
  assumes "HandleFrame lib contents verified e w = (Ok response, e', w')"
    and "frameHeader lib contents = Some header" "MessageType header AND AR \<noteq> 0"
  shows "validateFrame (ponMode e) contents verified = None" "MessageType header AND AK = 0" "replays header response e'"
proof -
  let ?rest = "bindE (replayTransaction header) (\<lambda>replay. case replay of
      Some response \<Rightarrow> returnE response | None \<Rightarrow> serveRequest lib (decodePacket lib contents) header contents)"
  from assms(1) show v: "validateFrame (ponMode e) contents verified = None" "MessageType header AND AK = 0"
    by (simp_all add: HandleFrame_request [OF assms(2,3)] split: option.splits if_splits)
  with assms(1) have run: "?rest (seenBy contents e) w = (Ok response, e', w')"
    by (simp add: HandleFrame_request [OF assms(2,3)])
  have "wpE ?rest (\<lambda>r e _. replays header r e) (\<lambda>_ _. True) (seenBy contents e) w"
    unfolding wpE_bind
    by (rule wpE_mono [OF replayTransaction_replays])
      (auto simp: wpE serveRequest_replays [OF assms(3), unfolded ends_def, rule_format] split: option.split)
  from wpE_ok [OF this run] show "replays header response e'" .
qed

lemma HandleFrame_replayed:
  assumes "frameHeader lib contents = Some header" "MessageType header AND AR \<noteq> 0" "MessageType header AND AK = 0"
    and "validateFrame (ponMode e) contents verified = None" "replays header response e" "\<not> uploadMessage header"
    and "contents ! 3 = ExtendedIdent \<longrightarrow> extendedSeen e"
  shows "HandleFrame lib contents verified e w = (Ok response, e, w)"
proof -
  from assms(6) have "MessageType header \<noteq> requestType mt" if "mt \<in> {MsgMibUpload, MsgMibUploadNext, MsgGetAllAlarms, MsgGetAllAlarmsNext}" for mt
    using that by (auto simp: uploadMessage_def)
  then have "replayTransaction header e w = (Ok (Some response), e, w)"
    using assms(2,5)
    by (simp add: replayTransaction_def renewUpload_def renewAlarmUpload_def extendSessions_def bindE_def getE_def pureE_def replays_def)
  with assms show ?thesis
    by (simp add: HandleFrame_request seenBy_idle bindE_def pureE_def)
qed

text \<open>
  C5. A command is carried out at most once. Once a request (a frame with a decodable header that asks
  for a response) other than MIB Upload, MIB Upload Next, Get All Alarms and Get All Alarms Next has
  been answered, its retransmission is answered with the same octets and does nothing: no state of the
  engine changes and no clock, controller, platform or sink is called. This holds as long as no other
  frame of the same channel (baseline low priority, baseline high priority, extended) and no reset of
  the session has come between, whatever the events in between do to the MIB. The four upload commands
  are excepted because a retransmission renews their session, or is carried out again once it has expired.
\<close>
theorem answered_at_most_once:
  assumes "wf_decoder lib" "HandleFrame lib contents verified e w = (Ok response, e1, w1)"
    and "frameHeader lib contents = Some header" "MessageType header AND AR \<noteq> 0" "\<not> uploadMessage header"
    and "list_all (\<lambda>event. wf_event event \<and> \<not> touches lib (transactionPriority header) event) events"
    and "engineRun lib events e1 w1 = (e2, w2)"
  shows "HandleFrame lib contents verified e2 w2 = (Ok response, e2, w2)"
proof -
  let ?seen = "contents ! 3 = ExtendedIdent" and ?slot = "transactions e1 (transactionPriority header)"
  note first = HandleFrame_accepted [OF assms(2-4)]
  have any: "keepsE (slotLaw mode seen None) (rememberTransaction h r)" for mode seen h r
    unfolding rememberTransaction_def by (intro keepsE) (simp add: slotLaw_def)
  have run: "HandleFrame lib contents verified (seenBy contents e) w = (Ok response, e1, w1)"
    using assms(2) first(1,2) by (simp add: HandleFrame_request [OF assms(3,4)])
  have seen: "slotLaw (ponMode e) ?seen None (seenBy contents e)" by (simp add: slotLaw_def seenBy_def)
  have "keepsE (slotLaw (ponMode e) ?seen None) (HandleFrame lib contents verified)"
    by (rule er.kept_frame) (auto intro: any dest: wf_decoderD [OF assms(1)])
  from keepsE_D [OF this seen, of w] have "slotLaw (ponMode e) ?seen None e1" by (simp add: run)
  then have e1: "slotLaw (ponMode e) ?seen (Some (transactionPriority header, ?slot)) e1" by (simp add: slotLaw_def)
  have "slotLaw (ponMode e) ?seen (Some (transactionPriority header, ?slot)) (fst (engineRun lib events e1 w1))" (is "?L (fst _)")
  proof (rule engineRun_keeps)
    fix event :: "'a engineEvent" and e' :: "'a OmciEngine" and w
    assume "event \<in> set events" and e': "?L e'"
    with assms(6) have event: "wf_event event" "\<not> touches lib (transactionPriority header) event"
      by (auto simp: list_all_iff)
    show "?L (fst (engineStep lib event e' w))"
    proof (rule er.kept_step [OF _ event(1) e'])
      show "event \<noteq> EvReset" using event(2) by auto
      fix contents' verified'
      assume "event = EvFrame contents' verified'"
      then have "keepsE ?L (rememberTransaction h r)" if "PacketHeader (decodePacket lib contents') = Some h" for h r
        using event(2) that unfolding rememberTransaction_def
        by (intro keepsE) (auto simp: slotLaw_def frameHeader_def)
      then show "keepsE ?L (HandleFrame lib contents' verified')"
        by (intro er.kept_frame) (auto dest: wf_decoderD [OF assms(1)])
    qed
  qed (rule e1)
  then have e2: "ponMode e2 = ponMode e" "?seen \<longrightarrow> extendedSeen e2" "transactions e2 (transactionPriority header) = ?slot"
    by (simp_all add: assms(7) slotLaw_def)
  show ?thesis
    by (rule HandleFrame_replayed [OF assms(3,4) first(2) _ _ assms(5) e2(2)])
      (use first e2 in \<open>simp_all add: replays_def\<close>)
qed

lemma sample_answered:
  "case HandleFrame resetLib resetFrame False sampleEngine (0 :: nat) of (Ok response, _) \<Rightarrow> True | _ \<Rightarrow> False"
  by code_simp

theorem answered_at_most_once_witness:
  "case HandleFrame resetLib resetFrame False sampleEngine (0 :: nat) of
     (Ok response, e1, w1) \<Rightarrow>
       (case engineRun resetLib [EvFrame (0x80 # tl resetFrame) False, EvPollARC 0, EvDrain] e1 w1 of
          (e2, w2) \<Rightarrow> HandleFrame resetLib resetFrame False e2 w2 = (Ok response, e2, w2))
   | _ \<Rightarrow> False"
proof (cases "HandleFrame resetLib resetFrame False sampleEngine (0 :: nat)")
  case (fields r e1 w1)
  with sample_answered obtain response where ok: "r = Ok response" by (cases r) simp_all
  obtain e2 w2 where run: "engineRun resetLib [EvFrame (0x80 # tl resetFrame) False, EvPollARC 0, EvDrain] e1 w1 = (e2, w2)"
    by fastforce
  let ?header = "\<lparr> TransactionID = be16 resetFrame 0, MessageType = resetFrame ! 2, DeviceIdentifier = resetFrame ! 3,
       LayerPayload = drop 4 resetFrame \<rparr>"
  have "HandleFrame resetLib resetFrame False e2 w2 = (Ok response, e2, w2)"
    by (rule answered_at_most_once [OF wf_resetLib(1) fields [unfolded ok] _ _ _ _ run, of ?header])
      (code_simp | simp add: frameHeader_def resetLib_def)+
  with fields ok run show ?thesis by simp
qed

end
