(* ===== verification/EngServices.thy ===== *)
theory EngServices
  imports EngFrame EngSample
begin

unbundle bit_operations_syntax

text \<open>
  What the services of the engine compute: the comparison of a bit error count with a threshold, the
  ring of status snapshots, the transfer of a table with Get and Get Next, and the MIB upload.
\<close>

section \<open>Bit error rates\<close>

lemma scale_power: "((\<lambda>s. s * 10) ^^ n) (1000 :: u64) = 10 ^ (n + 3)"
  by (induction n) (simp_all add: power_add)

lemma small_power: "n \<le> 19 \<Longrightarrow> unat ((10 :: u64) ^ n) = 10 ^ n"
proof -
  assume "n \<le> 19"
  then have "(10 :: nat) ^ n \<le> 10 ^ 19" by (intro power_increasing) simp_all
  also have "(10 :: nat) ^ 19 < 2 ^ 64" by simp
  finally have "(10 :: nat) ^ n < 2 ^ 64" .
  then have "unat (of_nat (10 ^ n) :: u64) = 10 ^ n"
    by (simp add: unat_of_nat take_bit_nat_eq_self del: of_nat_power)
  then show ?thesis by simp
qed

lemma unat_inc: "unat (x :: u64) + 1 < 2 ^ 64 \<Longrightarrow> unat (x + 1) = unat x + 1"
  by (simp add: unat_word_ariths)

lemma ceiling_div_le:
  fixes a b c :: nat
  assumes "0 < b"
  shows "(if a mod b \<noteq> 0 then a div b + 1 else a div b) \<le> c \<longleftrightarrow> a \<le> c * b"
proof -
  have a: "a = a div b * b + a mod b" by simp
  show ?thesis
  proof (cases "a mod b = 0")
    case True
    with a have "a = a div b * b" by simp
    then show ?thesis using assms True by (metis mult_le_cancel2)
  next
    case False
    have "a div b + 1 \<le> c \<longleftrightarrow> a < c * b" using assms by (simp add: div_less_iff_less_mult Suc_le_eq)
    moreover have "a \<noteq> c * b" using False by auto
    ultimately show ?thesis using False by auto
  qed
qed

lemma unat_widen: "unat (ucast (x :: u32) :: u64) = unat x"
proof -
  have "unat x < 2 ^ 32" using unsigned_less [of x, where ?'a = nat] by simp
  then show ?thesis by (simp add: unsigned_ucast_eq take_bit_nat_eq_self)
qed

lemma windowBits_nat: "unat (gponDownstreamBitRate * ucast (i :: u32)) = 2488320000 * unat i"
proof -
  have "unat i < 2 ^ 32" using unsigned_less [of i, where ?'a = nat] by simp
  then have "2488320000 * unat i < 2 ^ 64" by simp
  then show ?thesis
    by (simp add: gponDownstreamBitRate_def unat_word_ariths unat_widen)
qed

text \<open>
  C10. The comparison of a bit error sample with a threshold is exact. For every exponent up to 16 (the
  store admits 3 to 10) the integer arithmetic on 64 bits neither overflows nor divides by zero, and it
  says that the threshold is exceeded exactly when the errors of the sample are at least
  10 to the power -exponent of the bits received in its interval, i.e. when
  errors * 10^exponent * 1000 reaches the bit rate times the milliseconds.
\<close>
theorem ber_threshold_exact:
  assumes "exponent \<le> 16"
  shows "berThresholdExceeded ber exponent =
    Ok (2488320000 * unat (IntervalMS ber) \<le> unat (BIPCount ber) * (10 ^ unat exponent * 1000))"
proof -
  let ?n = "unat exponent" and ?w = "gponDownstreamBitRate * ucast (IntervalMS ber)" and ?s = "10 ^ (unat exponent + 3) :: u64"
  have "?n \<le> 16" using assms by (simp add: word_le_nat_alt)
  then have s: "unat ?s = 10 ^ (?n + 3)" by (intro small_power) simp
  then have s0: "?s \<noteq> 0" by (metis power_not_zero unsigned_0 zero_neq_numeral)
  define m where "m = (if ?w mod ?s \<noteq> 0 then ?w div ?s + 1 else ?w div ?s)"
  have div: "unat (?w div ?s) = 2488320000 * unat (IntervalMS ber) div 10 ^ (?n + 3)"
    by (simp only: unat_div windowBits_nat s)
  have mod: "?w mod ?s = 0 \<longleftrightarrow> 2488320000 * unat (IntervalMS ber) mod 10 ^ (?n + 3) = 0"
    by (simp only: unat_eq_0 [symmetric] unat_mod windowBits_nat s)
  have "unat (?w div ?s) \<le> 2488320000 * unat (IntervalMS ber)" by (simp only: div div_le_dividend)
  moreover have "unat (IntervalMS ber) < 2 ^ 32" using unsigned_less [of "IntervalMS ber", where ?'a = nat] by simp
  ultimately have "unat (?w div ?s) + 1 < 2 ^ 64" by simp
  then have m: "unat m = (if 2488320000 * unat (IntervalMS ber) mod 10 ^ (?n + 3) \<noteq> 0
      then 2488320000 * unat (IntervalMS ber) div 10 ^ (?n + 3) + 1 else 2488320000 * unat (IntervalMS ber) div 10 ^ (?n + 3))"
    by (simp only: m_def mod unat_inc div if_distrib [of unat] not_False_eq_True)
  have "m \<le> ucast (BIPCount ber) \<longleftrightarrow> unat m \<le> unat (BIPCount ber)"
    by (simp add: word_le_nat_alt unat_widen)
  also have "\<dots> \<longleftrightarrow> 2488320000 * unat (IntervalMS ber) \<le> unat (BIPCount ber) * 10 ^ (?n + 3)"
    unfolding m by (rule ceiling_div_le) simp
  finally have "(m \<le> ucast (BIPCount ber)) = (2488320000 * unat (IntervalMS ber) \<le> unat (BIPCount ber) * 10 ^ (?n + 3))" .
  moreover have "(10 :: nat) ^ ?n * 1000 = 10 ^ (?n + 3)" by (simp add: power_add)
  ultimately show ?thesis
    unfolding berThresholdExceeded_def Let_def scale_power m_def using s0 by (simp only: if_False)
qed

theorem ber_threshold_exact_witness:
  "berThresholdExceeded \<lparr> BERSequence = 1, BIPCount = 25000, IntervalMS = 10000, BootID = '''' \<rparr> 6 = Ok True"
  by (subst ber_threshold_exact) simp_all

section \<open>Status snapshots\<close>

text \<open>
  Row \<open>j\<close> of the table after the snapshots \<open>h\<close>: the latest one whose number is \<open>j\<close> modulo the capacity.
\<close>

definition snapshotRow :: "nat \<Rightarrow> bytes list \<Rightarrow> nat \<Rightarrow> bytes" where
  "snapshotRow n h j = h ! (length h - 1 - (length h - 1 - j) mod n)"

definition snapshotRing :: "nat \<Rightarrow> bytes list \<Rightarrow> bytes list" where
  "snapshotRing n h = map (snapshotRow n h) [0..<min (length h) n]"

lemma length_snapshotRing [simp]: "length (snapshotRing n h) = min (length h) n"
  by (simp add: snapshotRing_def)

lemma snapshotRow_next:
  assumes "j < n" "j \<le> length h"
  shows "snapshotRow n (h @ [r]) j = (if j = length h mod n then r else snapshotRow n h j)"
proof -
  let ?k = "length h"
  show ?thesis
  proof (cases "j = ?k")
    case False
    with assms(2) have j: "?k - j = Suc (?k - 1 - j)" "j < ?k" by auto
    have "(?k - j) mod n = 0 \<longleftrightarrow> j = ?k mod n"
    proof
      assume "(?k - j) mod n = 0"
      then obtain q where "?k - j = n * q" by auto
      then have "?k = n * q + j" using j(2) by simp
      then show "j = ?k mod n" using assms(1) by simp
    next
      assume "j = ?k mod n"
      then show "(?k - j) mod n = 0" by (simp add: minus_mod_eq_mult_div)
    qed
    then have m: "(?k - j) mod n = (if j = ?k mod n then 0 else Suc ((?k - 1 - j) mod n))"
      by (metis j(1) mod_Suc)
    define t where "t = (?k - 1 - j) mod n"
    have "t \<le> ?k - 1 - j" by (simp add: t_def)
    with j(2) have "?k - Suc t < ?k" "?k - Suc t = ?k - 1 - t" by auto
    with m show ?thesis by (simp add: snapshotRow_def nth_append flip: t_def del: diff_diff_left One_nat_def)
  qed (use assms in \<open>simp add: snapshotRow_def\<close>)
qed

lemma snapshotRing_grow: "length h < n \<Longrightarrow> snapshotRing n (h @ [r]) = snapshotRing n h @ [r]"
  by (rule nth_equalityI) (auto simp: snapshotRing_def nth_append snapshotRow_next less_Suc_eq)

lemma snapshotRing_turn:
  assumes "n \<le> length h" "0 < n"
  shows "snapshotRing n (h @ [r]) = (snapshotRing n h)[length h mod n := r]"
  using assms by (intro nth_equalityI) (auto simp: snapshotRing_def nth_list_update snapshotRow_next)

lemma snapshotRing_records:
  "list_all (\<lambda>r. length r = m) h \<Longrightarrow> list_all (\<lambda>r. length r = m) (snapshotRing n h)"
proof -
  assume "list_all (\<lambda>r. length r = m) h"
  moreover have "snapshotRow n h j \<in> set h" if "j < length h" for j
    unfolding snapshotRow_def using that by (intro nth_mem) (simp add: less_imp_diff_less)
  ultimately show ?thesis by (simp add: list_all_iff snapshotRing_def)
qed

text \<open>Read from the next index on, a full table lists the last records, the oldest first.\<close>

lemma snapshotRing_rotated:
  assumes "n \<le> length h" "0 < n"
  shows "rotate (length h mod n) (snapshotRing n h) = drop (length h - n) h"
proof (rule nth_equalityI)
  show "length (rotate (length h mod n) (snapshotRing n h)) = length (drop (length h - n) h)" using assms by simp
next
  fix i assume "i < length (rotate (length h mod n) (snapshotRing n h))"
  with assms have i: "i < n" by simp
  let ?k = "length h" and ?j = "(length h mod n + i) mod n"
  have j: "?j < n" using assms(2) by simp
  have "(?k - 1 - ?j) mod n = n - 1 - i"
  proof -
    define q a where "q = ?k div n" and "a = ?k mod n"
    have k: "?k = q * n + a" "a < n" "1 \<le> q"
      using assms by (simp_all add: q_def a_def div_greater_zero_iff Suc_le_eq)
    have turns: "(c * n + (n - 1 - i)) mod n = n - 1 - i" for c
      by (subst mod_mult_self3) (use i in simp)
    show ?thesis
    proof (cases "a + i < n")
      case True
      moreover obtain c where "q = Suc c" using k(3) by (cases q) auto
      ultimately have "?k - 1 - (a + i) mod n = c * n + (n - 1 - i)" using k(1) i by simp
      then show ?thesis by (simp only: turns flip: a_def)
    next
      case False
      then have "(a + i) mod n = a + i - n" using k(2) i by (simp add: le_mod_geq)
      then have "?k - 1 - (a + i) mod n = q * n + (n - 1 - i)" using k(1,2) False i by simp
      then show ?thesis by (simp only: turns flip: a_def)
    qed
  qed
  then show "rotate (?k mod n) (snapshotRing n h) ! i = drop (?k - n) h ! i"
    using i j assms by (simp add: nth_rotate snapshotRing_def snapshotRow_def)
qed

lemma length_encodeRecord [simp]: "length (encodeRecord r) = RecordSize"
  by (simp add: encodeRecord_def RecordSize_def)

lemma overwrite_row:
  assumes "list_all (\<lambda>r. length r = m) rs" "i < length rs" "length r = m"
  shows "overwrite (i * m) r (concat rs) = concat (rs[i := r])"
  using assms
proof (induction rs arbitrary: i)
  case (Cons x rs)
  then show ?case
    by (cases i) (auto simp: overwrite_def add.commute [of m])
qed simp

lemma snapRows_step:
  assumes "slots \<noteq> 0" "list_all (\<lambda>r. length r = RecordSize) h" "length r = RecordSize"
  shows "snapRows slots (of_nat (min (length h) (unat slots))) (of_nat (length h mod unat slots)) (concat (snapshotRing (unat slots) h)) r
    = Ok (of_nat (min (length (h @ [r])) (unat slots)), of_nat (length (h @ [r]) mod unat slots),
        concat (snapshotRing (unat slots) (h @ [r])))"
proof -
  let ?n = "unat slots" and ?k = "length h"
  have n: "0 < ?n" "?n < 2 ^ 16" using assms(1) unsigned_less [of slots, where ?'a = nat] by (simp_all add: unat_gt_0)
  have small: "unat (of_nat m :: u16) = m" if "m \<le> ?n" for m
    using that n(2) by (simp add: unat_of_nat take_bit_nat_eq_self)
  have lt: "?k mod ?n < ?n" using n(1) by simp
  have inc: "of_nat (?k mod ?n) + (1 :: u16) = of_nat (Suc (?k mod ?n))" by simp
  from lt have "unat ((of_nat (?k mod ?n) + 1) mod slots) = Suc ?k mod ?n"
    by (simp only: inc unat_mod small Suc_leI mod_Suc_eq)
  then have advance: "(of_nat (?k mod ?n) + 1) mod slots = of_nat (Suc ?k mod ?n)"
    using small [of "Suc ?k mod ?n"] n(1) by (intro word_unat_eq_iff [THEN iffD2]) simp
  show ?thesis
  proof (cases "?k < ?n")
    case True
    then have "of_nat ?k < slots" using small [of ?k] by (simp add: word_less_nat_alt)
    with True assms(1) advance show ?thesis by (simp add: snapRows_def snapshotRing_grow add.commute)
  next
    case False
    then have "\<not> of_nat (min ?k ?n) < slots" using small [of ?n] by (simp add: word_less_nat_alt min_absorb2)
    moreover have "?k mod ?n * RecordSize + RecordSize \<le> length (concat (snapshotRing ?n h))"
    proof -
      have "length (concat (snapshotRing ?n h)) = ?n * RecordSize"
        using snapshotRing_records [OF assms(2), of ?n] False
        by (simp add: length_concat list_all_iff map_idI cong: map_cong) (simp add: sum_list_triv)
      moreover have "Suc (?k mod ?n) * RecordSize \<le> ?n * RecordSize" using lt by (intro mult_le_mono1) simp
      ultimately show ?thesis by simp
    qed
    moreover have "overwrite (?k mod ?n * RecordSize) r (concat (snapshotRing ?n h))
        = concat (snapshotRing ?n (h @ [r]))"
      using overwrite_row [OF snapshotRing_records [OF assms(2), of ?n] _ assms(3), of "?k mod ?n"] False lt
      by (simp add: snapshotRing_turn)
    ultimately show ?thesis
      using False assms(1) small [of "?k mod ?n"] lt advance by (simp add: snapRows_def min_absorb2 add.commute)
  qed
qed

text \<open>The table after a sequence of snap actions on an empty one.\<close>

definition snapshotTable :: "u16 \<Rightarrow> Onu3Record list \<Rightarrow> (go_error, u16 \<times> u16 \<times> bytes) outcome" where
  "snapshotTable slots records =
     foldR (\<lambda>r (valid, next, rows). snapRows slots valid next rows (encodeRecord r)) records (0, 0, [])"

lemma snapshotTable_ring:
  assumes "slots \<noteq> 0"
  shows "snapshotTable slots records = Ok (of_nat (min (length records) (unat slots)), of_nat (length records mod unat slots),
    concat (snapshotRing (unat slots) (map encodeRecord records)))"
proof (induction records rule: rev_induct)
  case Nil
  then show ?case by (simp add: snapshotTable_def snapshotRing_def)
next
  case (snoc r records)
  have "snapRows slots (of_nat (min (length records) (unat slots))) (of_nat (length records mod unat slots))
      (concat (snapshotRing (unat slots) (map encodeRecord records))) (encodeRecord r)
    = Ok (of_nat (min (length (records @ [r])) (unat slots)), of_nat (length (records @ [r]) mod unat slots),
      concat (snapshotRing (unat slots) (map encodeRecord (records @ [r]))))"
    using snapRows_step [OF assms, of "map encodeRecord records" "encodeRecord r"] by (simp add: list_all_iff)
  with snoc show ?case by (simp add: snapshotTable_def foldR_append)
qed

text \<open>
  C9. The status snapshot table keeps the latest snapshots. After any number of snap actions on an empty
  table of a positive capacity no index is out of range, the number of valid snapshots is the number of
  actions up to the capacity, and the table is the concatenation of that many records of 25 octets: all
  of them in order while there is room, and afterwards the last ones, with the oldest at the next index.
\<close>
theorem snapshots_keep_latest:
  assumes "slots \<noteq> 0"
  shows "\<exists>rows. snapshotTable slots records = Ok (of_nat (min (length records) (unat slots)),
        of_nat (length records mod unat slots), concat rows)
    \<and> length rows = min (length records) (unat slots)
    \<and> rotate (if length records < unat slots then 0 else length records mod unat slots) rows
        = map encodeRecord (drop (length records - unat slots) records)"
proof -
  let ?n = "unat slots" and ?h = "map encodeRecord records"
  have n: "0 < ?n" using assms by (simp add: unat_gt_0)
  have "snapshotRing ?n ?h = ?h" if "length records < ?n"
    using that by (intro nth_equalityI) (simp_all add: snapshotRing_def snapshotRow_def)
  with snapshotTable_ring [OF assms, of records] snapshotRing_rotated [of ?n ?h] n show ?thesis
    by (intro exI [of _ "snapshotRing ?n ?h"]) (simp add: drop_map)
qed

theorem snapshots_keep_latest_witness:
  "let records = map (\<lambda>i. \<lparr> Trigger = 1, TakenAt = i, RecordDataSync = 0, MIBEntries = 3, ActiveAlarms = 0, ExtendedOMCI = False \<rparr>) [1, 2, 3]
   in \<exists>rows. snapshotTable 2 records = Ok (of_nat (min (length records) (unat (2 :: u16))),
        of_nat (length records mod unat (2 :: u16)), concat rows)
    \<and> length rows = min (length records) (unat (2 :: u16))
    \<and> rotate (if length records < unat (2 :: u16) then 0 else length records mod unat (2 :: u16)) rows
        = map encodeRecord (drop (length records - unat (2 :: u16)) records)"
  unfolding Let_def by (rule snapshots_keep_latest) simp

section \<open>Tables\<close>

text \<open>Pieces of a list, of \<open>n\<close> elements but for the last one.\<close>

lemma pieces_concat: "0 < n \<Longrightarrow> length xs \<le> m * n \<Longrightarrow> concat (map (\<lambda>i. take n (drop (i * n) xs)) [0..<m]) = xs"
proof (induction m arbitrary: xs)
  case (Suc m)
  have "concat (map (\<lambda>i. take n (drop (i * n) xs)) [0..<Suc m])
      = take n xs @ concat (map (\<lambda>i. take n (drop (i * n) (drop n xs))) [0..<m])"
    unfolding upt_conv_Cons [OF zero_less_Suc] map_Suc_upt [symmetric]
    by (simp add: comp_def add.commute)
  also have "\<dots> = xs" using Suc.prems by (subst Suc.IH) simp_all
  finally show ?case .
qed simp

definition tablePieces :: "nat \<Rightarrow> bytes \<Rightarrow> bytes list" where
  "tablePieces n octets = map (\<lambda>i. take n (drop (i * n) octets)) [0..<(length octets + n - 1) div n]"

lemma pieces_count:
  assumes "0 < (n :: nat)"
  shows "i < (k + n - 1) div n \<longleftrightarrow> i * n < k"
  using assms by (simp add: less_eq_div_iff_mult_less_eq Suc_le_eq [symmetric] flip: Suc_le_eq) (cases k; simp)

lemma tablePieces:
  assumes "0 < n"
  shows "concat (tablePieces n octets) = octets"
    and "list_all (\<lambda>part. part \<noteq> [] \<and> length part \<le> n) (tablePieces n octets)"
    and "i < length (tablePieces n octets) \<longleftrightarrow> i * n < length octets"
proof -
  let ?m = "(length octets + n - 1) div n"
  have "\<not> ?m * n < length octets" using pieces_count [OF assms, of ?m "length octets"] by simp
  then show "concat (tablePieces n octets) = octets" using assms by (simp add: tablePieces_def pieces_concat)
  show "list_all (\<lambda>part. part \<noteq> [] \<and> length part \<le> n) (tablePieces n octets)"
    using pieces_count [OF assms] assms by (auto simp: tablePieces_def list_all_iff)
  show "i < length (tablePieces n octets) \<longleftrightarrow> i * n < length octets"
    using pieces_count [OF assms] by (simp add: tablePieces_def)
qed

text \<open>A Get on tables: each table attribute is stored for the transfer and its size takes its place.\<close>

definition tableRows :: "attr_value \<Rightarrow> bytes option" where
  "tableRows v = (case v of VTable t \<Rightarrow> Some (Rows t) | VOctets rows \<Rightarrow> Some rows | _ \<Rightarrow> None)"

lemma prepareTable_other:
  assumes "prepareTable requested device (index, d) inst e w = (Ok inst', e', w')"
  shows "ikey inst' = ikey inst" "name \<noteq> AttrName d \<Longrightarrow> map_of (Attributes inst') name = map_of (Attributes inst) name"
    "tableMask key \<noteq> Mask d \<Longrightarrow> map_of (tables e') key = map_of (tables e) key" "w' = w"
  using assms
  by (auto simp: prepareTable_def keepTable_def bindE_def putE_def pureE_def update_conv' split: if_splits option.splits attr_value.splits)

lemma prepareTables_other:
  assumes "forE (prepareTable requested device) defs inst e w = (Ok inst', e', w')"
    and "list_all (\<lambda>(_, d). AttrName d \<noteq> name \<and> Mask d \<noteq> tableMask key) defs"
  shows "ikey inst' = ikey inst \<and> map_of (Attributes inst') name = map_of (Attributes inst) name
    \<and> map_of (tables e') key = map_of (tables e) key"
  using assms
proof (induction defs arbitrary: inst e w)
  case Nil
  then show ?case by (simp add: pureE_def)
next
  case (Cons x defs)
  obtain index d where x: "x = (index, d)" by (cases x)
  from Cons.prems(1) obtain inst1 e1 w1 where s: "prepareTable requested device (index, d) inst e w = (Ok inst1, e1, w1)"
    and r: "forE (prepareTable requested device) defs inst1 e1 w1 = (Ok inst', e', w')"
    by (auto simp: x bindE_def split: outcome.splits prod.splits)
  from Cons.IH [OF r] Cons.prems(2) prepareTable_other [OF s] show ?case by (auto simp: x)
qed

lemma prepareTables_stored:
  assumes "forE (prepareTable requested device) defs inst e w = (Ok inst', e', w')"
    and "(index, d) \<in> set defs" "index \<noteq> 0" "requested AND Mask d \<noteq> 0" "IsTableAttribute d"
    and "distinct (map (Mask \<circ> snd) defs)" "distinct (map (AttrName \<circ> snd) defs)"
    and "map_of (Attributes inst) (AttrName d) = Some v" "tableRows v = Some rows"
  shows "map_of (tables e') \<lparr> tableDevice = device, tableClass = ClassID (ikey inst),
        tableEntity = EntityID (ikey inst), tableMask = Mask d \<rparr> = Some rows
    \<and> map_of (Attributes inst') (AttrName d) = Some (VU32 (of_nat (length rows)))"
  using assms
proof (induction defs arbitrary: inst e w)
  case (Cons x defs)
  obtain i c where x: "x = (i, c)" by (cases x)
  from Cons.prems(1) obtain inst1 e1 w1 where s: "prepareTable requested device (i, c) inst e w = (Ok inst1, e1, w1)"
    and r: "forE (prepareTable requested device) defs inst1 e1 w1 = (Ok inst', e', w')"
    by (auto simp: x bindE_def split: outcome.splits prod.splits)
  show ?case
  proof (cases "(index, d) = (i, c)")
    case True
    with s Cons.prems(3-5,8,9) have kept: "map_of (tables e1) \<lparr> tableDevice = device, tableClass = ClassID (ikey inst),
        tableEntity = EntityID (ikey inst), tableMask = Mask d \<rparr> = Some rows" "ikey inst1 = ikey inst"
      "map_of (Attributes inst1) (AttrName d) = Some (VU32 (of_nat (length rows)))"
      by (auto simp: prepareTable_def keepTable_def bindE_def putE_def pureE_def update_conv' tableRows_def split: attr_value.splits)
    have "list_all (\<lambda>(_, c). AttrName c \<noteq> AttrName d \<and> Mask c \<noteq> Mask d) defs"
      using Cons.prems(6,7) True by (force simp: x list_all_iff)
    with prepareTables_other [OF r, of "AttrName d" "\<lparr> tableDevice = device, tableClass = ClassID (ikey inst),
        tableEntity = EntityID (ikey inst), tableMask = Mask d \<rparr>"] kept show ?thesis by simp
  next
    case False
    with Cons.prems(2) have d: "(index, d) \<in> set defs" by (auto simp: x)
    with Cons.prems(6,7) have "AttrName d \<noteq> AttrName c" by (force simp: x)
    then have "map_of (Attributes inst1) (AttrName d) = Some v" "ikey inst1 = ikey inst"
      using prepareTable_other [OF s] Cons.prems(8) by auto
    from Cons.IH [OF r d Cons.prems(3-5) _ _ this(1) Cons.prems(9)] this(2) Cons.prems(6,7) show ?thesis
      by (simp add: x)
  qed
qed simp

lemma getNextLimit_pos: "0 < getNextLimit header"
  by (simp add: getNextLimit_def)

text \<open>The definitions of a class: no two attributes have the same mask or name.\<close>

definition distinctAttributes :: "OmciLib \<Rightarrow> u16 \<Rightarrow> bool" where
  "distinctAttributes lib c = (distinct (map (Mask \<circ> snd) (GetAttributesDefinitions (classes lib) c))
     \<and> distinct (map (AttrName \<circ> snd) (GetAttributesDefinitions (classes lib) c)))"

lemma find_mask:
  assumes "distinct (map (Mask \<circ> snd) defs)" "(index, d) \<in> set defs" "index \<noteq> 0"
  shows "find (\<lambda>(index, c). index \<noteq> 0 \<and> Mask c = Mask d) defs = Some (index, d)"
  using assms by (induction defs) (force split: prod.split)+

lemma tablePart_pieces:
  assumes "distinctAttributes lib (EntityClass p)" "(index, d) \<in> set (GetAttributesDefinitions (classes lib) (EntityClass p))"
    and "index \<noteq> 0" "sequence < 2 ^ 16"
  shows "tablePart lib header p (Mask d) (of_nat sequence) (Some octets)
    = (if sequence < length (tablePieces (getNextLimit header) octets)
       then (Success, [(AttrName d, VOctets (tablePieces (getNextLimit header) octets ! sequence))])
       else (ProcessingError, []))"
proof -
  have n: "unat (of_nat sequence :: u16) = sequence" using assms(4) by (simp add: unat_of_nat take_bit_nat_eq_self)
  have f: "find (\<lambda>(index, c). index \<noteq> 0 \<and> Mask c = Mask d) (GetAttributesDefinitions (classes lib) (EntityClass p))
      = Some (index, d)"
    by (rule find_mask) (use assms in \<open>simp_all add: distinctAttributes_def\<close>)
  show ?thesis
    using tablePieces(3) [OF getNextLimit_pos, of sequence header octets] f
    by (auto simp: tablePart_def Let_def n tablePieces_def not_less)
qed

text \<open>
  C8. A table is transferred whole. Once a Get has prepared an instance whose requested attribute is a
  table, the reported value is the number of its octets, and for some pieces whose concatenation is the
  table, none of them empty or longer than a message allows, the Get Next request with sequence number
  n is answered with piece n, and with a processing error once there is none left. Reading changes no state
  of the engine.
\<close>
theorem table_transfer:
  fixes header :: Header and p :: MePacket
  assumes "prepareTableGet lib (Mask d) (DeviceIdentifier header) inst e0 w0 = (Ok inst', e, w)"
    and "ikey inst = keyOf p" "map_of (Attributes inst) (AttrName d) = Some v" "tableRows v = Some rows"
    and "distinctAttributes lib (EntityClass p)" "(index, d) \<in> set (GetAttributesDefinitions (classes lib) (EntityClass p))"
    and "index \<noteq> 0" "Mask d \<noteq> 0" "IsTableAttribute d"
  shows "map_of (Attributes inst') (AttrName d) = Some (VU32 (of_nat (length rows)))
    \<and> (\<exists>parts. concat parts = rows \<and> list_all (\<lambda>part. part \<noteq> [] \<and> length part \<le> getNextLimit header) parts
      \<and> (\<forall>n. unat n < length parts \<longrightarrow>
            handleGetNext lib header p (Mask d) n e w = reply lib header MsgGetNext
              (GetNextResponse (replyBase header p) Success (Mask d) [(AttrName d, VOctets (parts ! unat n))]) e w)
      \<and> (\<forall>n. unat n \<ge> length parts \<longrightarrow>
            handleGetNext lib header p (Mask d) n e w = reply lib header MsgGetNext
              (GetNextResponse (replyBase header p) ProcessingError (Mask d) []) e w))"
proof -
  let ?defs = "GetAttributesDefinitions (classes lib) (EntityClass p)" and ?parts = "tablePieces (getNextLimit header) rows"
  have "LoadManagedEntityDefinition (classes lib) (EntityClass p) (EntityInstance p) [] = Ok
      \<lparr> entityClass = EntityClass p, medef = classDefinition (classes lib) (EntityClass p),
        attributes = loaded (entityIdName (classDefinition (classes lib) (EntityClass p))) (EntityInstance p) [] \<rparr>"
    by (simp add: LoadManagedEntityDefinition_iff gm_wf_def covers_def)
  then have run: "forE (prepareTable (Mask d) (DeviceIdentifier header)) ?defs inst e0 w0 = (Ok inst', e, w)"
    using assms(1,2) by (simp add: prepareTableGet_def loadEntity_def bindE_def pureE_def keyOf_def GetAttributesDefinitions_def)
  have distinct: "distinct (map (Mask \<circ> snd) ?defs)" "distinct (map (AttrName \<circ> snd) ?defs)"
    using assms(5) by (simp_all add: distinctAttributes_def)
  from prepareTables_stored [OF run assms(6,7) _ assms(9) distinct assms(3,4)] assms(2,8)
  have stored: "map_of (tables e) (tableKeyOf header p (Mask d)) = Some rows"
    and len: "map_of (Attributes inst') (AttrName d) = Some (VU32 (of_nat (length rows)))"
    by (simp_all add: tableKeyOf_def keyOf_def)
  have answer: "handleGetNext lib header p (Mask d) n e w = reply lib header MsgGetNext
      (case (if unat n < length ?parts then (Success, [(AttrName d, VOctets (?parts ! unat n))]) else (ProcessingError, []))
       of (result, attrs) \<Rightarrow> GetNextResponse (replyBase header p) result (Mask d) attrs) e w" for n
    using tablePart_pieces [OF assms(5-7), of "unat n" header rows] unsigned_less [of n, where ?'a = nat]
    by (simp add: handleGetNext_def bindE_def getE_def stored)
  show ?thesis
    by (intro conjI len exI [of _ ?parts] tablePieces [OF getNextLimit_pos]) (simp_all add: answer)
qed

definition sampleTable :: attribute_definition where
  "sampleTable = snd (AttributeDefinitions onu3GME ! 6)"

definition sampleGet :: MePacket where
  "sampleGet = \<lparr> EntityClass = Onu3GClassID, EntityInstance = 0 \<rparr>"

definition sampleHeader :: Header where
  "sampleHeader = \<lparr> TransactionID = 1, MessageType = requestType MsgGet, DeviceIdentifier = BaselineIdent, LayerPayload = [] \<rparr>"

lemma sample_prepared:
  "case prepareTableGet sampleLib (Mask sampleTable) (DeviceIdentifier sampleHeader)
     (onu3Instance [replicate 25 1, replicate 25 2]) sampleEngine (0 :: nat) of (Ok inst', _) \<Rightarrow> True | _ \<Rightarrow> False"
  by code_simp

theorem table_transfer_witness:
  "case prepareTableGet sampleLib (Mask sampleTable) (DeviceIdentifier sampleHeader)
     (onu3Instance [replicate 25 1, replicate 25 2]) sampleEngine (0 :: nat) of
     (Ok inst', e, w) \<Rightarrow> map_of (Attributes inst') (AttrName sampleTable) = Some (VU32 50)
       \<and> (\<exists>parts. concat parts = replicate 25 1 @ replicate 25 2
          \<and> list_all (\<lambda>part. part \<noteq> [] \<and> length part \<le> getNextLimit sampleHeader) parts
          \<and> (\<forall>n. unat n < length parts \<longrightarrow>
              handleGetNext sampleLib sampleHeader sampleGet (Mask sampleTable) n e w = reply sampleLib sampleHeader MsgGetNext
                (GetNextResponse (replyBase sampleHeader sampleGet) Success (Mask sampleTable)
                  [(AttrName sampleTable, VOctets (parts ! unat n))]) e w))
   | _ \<Rightarrow> False"
proof (cases "prepareTableGet sampleLib (Mask sampleTable) (DeviceIdentifier sampleHeader)
     (onu3Instance [replicate 25 1, replicate 25 2]) sampleEngine (0 :: nat)")
  case (fields r e w)
  with sample_prepared obtain inst' where ok: "r = Ok inst'" by (cases r) simp_all
  let ?v = "VTable \<lparr> NumRows = 2, Rows = replicate 25 1 @ replicate 25 2 \<rparr>"
  have "distinctAttributes sampleLib (EntityClass sampleGet)"
    and "(6, sampleTable) \<in> set (GetAttributesDefinitions (classes sampleLib) (EntityClass sampleGet))"
    and "map_of (Attributes (onu3Instance [replicate 25 1, replicate 25 2])) (AttrName sampleTable) = Some ?v"
    and "ikey (onu3Instance [replicate 25 1, replicate 25 2]) = keyOf sampleGet" "Mask sampleTable \<noteq> 0"
    "IsTableAttribute sampleTable" by code_simp+
  from table_transfer [OF fields [unfolded ok] this(4,3) _ this(1,2) _ this(5,6), of "replicate 25 1 @ replicate 25 2"]
  show ?thesis unfolding fields ok by (auto simp: tableRows_def)
qed

end
