(* ===== verification/EngUploadProofs.thy ===== *)
theory EngUploadProofs
  imports EngServices
begin

text \<open>
  What a MIB upload reports: the commands flatten to the uploadable attributes of the MIB, in order,
  each of them once, and every entity fits its message.
\<close>

section \<open>What should be reported\<close>

text \<open>The attributes of an instance that an upload reports, in the order of their indices.\<close>

definition selectAttribute :: "int \<Rightarrow> bool \<Rightarrow> Instance \<Rightarrow> nat \<times> attribute_definition \<Rightarrow> attribute_map" where
  "selectAttribute limit monitoring inst definition = (case definition of (index, d) \<Rightarrow>
     case map_of (Attributes inst) (AttrName d) of
       None \<Rightarrow> [] | Some v \<Rightarrow> if index = 0 \<or> \<not> uploadable monitoring limit d then [] else [(AttrName d, v)])"

definition uploadedAttributes :: "OmciLib \<Rightarrow> int \<Rightarrow> Instance \<Rightarrow> attribute_map" where
  "uploadedAttributes lib limit inst = (let d = classDefinition (classes lib) (ClassID (ikey inst)) in
     concat (map (selectAttribute limit (isPerformanceMonitoringDefinition (DefName d)) inst)
       (sort_key fst (AttributeDefinitions d))))"

text \<open>What a list of entities says: the class, the instance and the value of each attribute.\<close>

definition reported :: "managed_entity list \<Rightarrow> ((u16 \<times> attr_value) \<times> string \<times> attr_value) list" where
  "reported entities = concat (map (\<lambda>entity.
     map (Pair (entityClass entity, snd (hd (attributes entity)))) (tl (attributes entity))) entities)"

definition reportedInstance :: "OmciLib \<Rightarrow> int \<Rightarrow> Instance \<Rightarrow> ((u16 \<times> attr_value) \<times> string \<times> attr_value) list" where
  "reportedInstance lib limit inst =
     map (Pair (ClassID (ikey inst), VU16 (EntityID (ikey inst)))) (uploadedAttributes lib limit inst)"

definition attributeSize :: "OmciLib \<Rightarrow> u16 \<Rightarrow> string \<Rightarrow> int" where
  "attributeSize lib c name = (case find (\<lambda>(_, d). AttrName d = name) (GetAttributesDefinitions (classes lib) c) of
     Some (_, d) \<Rightarrow> AttrSize d | None \<Rightarrow> 0)"

definition sizes :: "OmciLib \<Rightarrow> u16 \<Rightarrow> attribute_map \<Rightarrow> int" where
  "sizes lib c attrs = sum_list (map (attributeSize lib c \<circ> fst) attrs)"

definition fits :: "OmciLib \<Rightarrow> int \<Rightarrow> managed_entity \<Rightarrow> bool" where
  "fits lib limit entity = (sizes lib (entityClass entity) (tl (attributes entity)) \<le> limit)"

text \<open>A class of the library: attribute 0 is defined and no two attributes have the same mask or name.\<close>

definition wellDefined :: "OmciLib \<Rightarrow> bool" where
  "wellDefined lib = (\<forall>c. distinctAttributes lib c \<and> map_of (GetAttributesDefinitions (classes lib) c) 0 \<noteq> None)"

section \<open>The entities of an instance\<close>

lemma reported_simps [simp]: "reported [] = []" "reported (xs @ ys) = reported xs @ reported ys"
  by (simp_all add: reported_def)

lemma sizes_simps [simp]: "sizes lib c [] = 0" "sizes lib c (xs @ ys) = sizes lib c xs + sizes lib c ys"
  "sizes lib c [(name, v)] = attributeSize lib c name"
  by (simp_all add: sizes_def)

lemma known_name: "(i, d) \<in> set defs \<Longrightarrow> knownAttr defs (AttrName d)"
  unfolding knownAttr_def GetAttributeDefinitionByName_def
  by (force split: option.split simp: find_None_iff)

lemma find_name:
  assumes "distinct (map (AttrName \<circ> snd) defs)" "(i, d) \<in> set defs"
  shows "find (\<lambda>(_, c). AttrName c = AttrName d) defs = Some (i, d)"
  using assms by (induction defs) (force split: prod.split)+

lemma attributeSize_def_of:
  "distinctAttributes lib c \<Longrightarrow> (i, d) \<in> set (GetAttributesDefinitions (classes lib) c) \<Longrightarrow> attributeSize lib c (AttrName d) = AttrSize d"
  by (simp add: attributeSize_def distinctAttributes_def find_name)

lemma other_name:
  assumes "wellDefined lib" "(i, d) \<in> set (GetAttributesDefinitions (classes lib) c)" "i \<noteq> 0"
  shows "AttrName d \<noteq> entityIdName (classDefinition (classes lib) c)"
proof -
  let ?defs = "GetAttributesDefinitions (classes lib) c"
  from assms(1) obtain a where a: "map_of ?defs 0 = Some a" "distinct (map (AttrName \<circ> snd) ?defs)"
    by (auto simp: wellDefined_def distinctAttributes_def)
  then have "(0, a) \<in> set ?defs" by (simp add: map_of_SomeD)
  from a(2) have "inj_on (AttrName \<circ> snd) (set ?defs)" by (simp only: distinct_map)
  from inj_on_eq_iff [OF this assms(2) \<open>(0, a) \<in> set ?defs\<close>] assms(3) have "AttrName d \<noteq> AttrName a" by auto
  with a(1) show ?thesis by (simp add: entityIdName_def GetAttributesDefinitions_def)
qed

text \<open>The attributes of the next entity.\<close>

definition pendingOk :: "me_definition \<Rightarrow> attribute_map \<Rightarrow> bool" where
  "pendingOk d attrs = (gm_wf attrs \<and> covers d attrs \<and> entityIdName d \<notin> fst ` set attrs)"

lemma flushEntity_ok:
  assumes "pendingOk (classDefinition (classes lib) (ClassID (ikey inst))) attrs"
    and "sizes lib (ClassID (ikey inst)) attrs \<le> limit"
  shows "\<exists>entity. flushEntity lib inst (entities, attrs, used) = Ok (entities @ [entity], [], 0)
    \<and> reported [entity] = map (Pair (ClassID (ikey inst), VU16 (EntityID (ikey inst)))) attrs \<and> fits lib limit entity"
proof -
  let ?d = "classDefinition (classes lib) (ClassID (ikey inst))"
  have "filter (\<lambda>(name, _). name \<noteq> entityIdName ?d) attrs = attrs"
    using assms(1) by (force simp: pendingOk_def filter_id_conv)
  moreover have "LoadManagedEntityDefinition (classes lib) (ClassID (ikey inst)) (EntityID (ikey inst)) attrs = Ok
      \<lparr> entityClass = ClassID (ikey inst), medef = ?d, attributes = loaded (entityIdName ?d) (EntityID (ikey inst)) attrs \<rparr>"
    using assms(1) by (simp add: LoadManagedEntityDefinition_iff pendingOk_def)
  ultimately show ?thesis using assms(2)
    by (simp add: flushEntity_def loaded_def reported_def fits_def)
qed

lemma pendingOk_empty [simp]: "pendingOk d []"
  by (simp add: pendingOk_def gm_wf_def covers_def)

lemma uploadAttributes_ok:
  fixes inst :: Instance
  defines "c \<equiv> ClassID (ikey inst)" and "key \<equiv> (ClassID (ikey inst), VU16 (EntityID (ikey inst)))"
  assumes lib: "wellDefined lib"
    and "set ds \<subseteq> set (GetAttributesDefinitions (classes lib) c)" "distinct (map (AttrName \<circ> snd) ds)"
    and "pendingOk (classDefinition (classes lib) c) attrs" "fst ` set attrs \<inter> (AttrName \<circ> snd) ` set ds = {}"
    and "sizes lib c attrs \<le> limit"
  shows "\<exists>es attrs'. foldR (uploadAttribute lib limit monitoring inst) ds (es0, attrs, sizes lib c attrs)
        = Ok (es0 @ es, attrs', sizes lib c attrs')
    \<and> reported es @ map (Pair key) attrs' = map (Pair key) (attrs @ concat (map (selectAttribute limit monitoring inst) ds))
    \<and> list_all (fits lib limit) es \<and> pendingOk (classDefinition (classes lib) c) attrs' \<and> sizes lib c attrs' \<le> limit"
  using assms(4-)
proof (induction ds arbitrary: es0 attrs)
  case Nil
  then show ?case by (intro exI [of _ "[]"] exI [of _ attrs]) simp
next
  case (Cons x ds)
  let ?d = "classDefinition (classes lib) c" and ?run = "uploadAttribute lib limit monitoring inst"
  obtain i d where x: "x = (i, d)" by (cases x)
  show ?case
  proof (cases "selectAttribute limit monitoring inst x")
    case Nil
    then have "?run x st = Ok st" for st
      by (auto simp: x uploadAttribute_def selectAttribute_def split: option.splits if_splits)
    with Cons.IH [of attrs es0] Cons.prems Nil show ?thesis by auto
  next
    case sel: (Cons y ys)
    then obtain v where v: "map_of (Attributes inst) (AttrName d) = Some v" "i \<noteq> 0" "uploadable monitoring limit d"
      and y: "selectAttribute limit monitoring inst x = [(AttrName d, v)]"
      by (auto simp: x selectAttribute_def split: option.splits if_splits)
    have mem: "(i, d) \<in> set (GetAttributesDefinitions (classes lib) c)" using Cons.prems(1) by (simp add: x)
    have size: "attributeSize lib c (AttrName d) = AttrSize d"
      using attributeSize_def_of [OF _ mem] lib by (simp add: wellDefined_def)
    have small: "AttrSize d \<le> limit" using v(3) by (simp add: uploadable_def)
    have grown: "pendingOk ?d (old @ [(AttrName d, v)])" if "pendingOk ?d old" "AttrName d \<notin> fst ` set old" for old
      using that other_name [OF lib mem v(2)] known_name [OF mem [unfolded GetAttributesDefinitions_def]]
      by (auto simp: pendingOk_def gm_wf_def covers_def)
    have new: "AttrName d \<notin> fst ` set attrs" using Cons.prems(4) by (auto simp: x)
    have rest: "set ds \<subseteq> set (GetAttributesDefinitions (classes lib) c)" "distinct (map (AttrName \<circ> snd) ds)"
      "AttrName d \<notin> (AttrName \<circ> snd) ` set ds" using Cons.prems(1,2) by (auto simp: x comp_def)
    show ?thesis
    proof (cases "sizes lib c attrs > 0 \<and> sizes lib c attrs + AttrSize d > limit")
      case True
      from flushEntity_ok [OF Cons.prems(3) [unfolded c_def] Cons.prems(5) [unfolded c_def], of es0 "sizes lib c attrs"]
      obtain entity where f: "flushEntity lib inst (es0, attrs, sizes lib c attrs) = Ok (es0 @ [entity], [], 0)"
        and e: "reported [entity] = map (Pair key) attrs" "fits lib limit entity" unfolding key_def by blast
      have step: "?run x (es0, attrs, sizes lib c attrs) = Ok (es0 @ [entity], [(AttrName d, v)], sizes lib c [(AttrName d, v)])"
        using True v f by (simp add: x uploadAttribute_def size Let_def)
      have "pendingOk ?d [(AttrName d, v)]" "sizes lib c [(AttrName d, v)] \<le> limit"
        using grown [of "[]"] small by (simp_all add: size)
      from Cons.IH [OF rest(1,2) this(1) _ this(2), of "es0 @ [entity]"] rest(3) obtain es attrs' where
        ih: "foldR ?run ds (es0 @ [entity], [(AttrName d, v)], sizes lib c [(AttrName d, v)])
          = Ok ((es0 @ [entity]) @ es, attrs', sizes lib c attrs')"
        "reported es @ map (Pair key) attrs' = map (Pair key) ([(AttrName d, v)] @ concat (map (selectAttribute limit monitoring inst) ds))"
        "list_all (fits lib limit) es" "pendingOk ?d attrs'" "sizes lib c attrs' \<le> limit"
        by auto
      show ?thesis
        using e ih reported_simps(2) [of "[entity]" es]
        by (intro exI [of _ "entity # es"] exI [of _ attrs']) (simp add: step y)
    next
      case False
      have step: "?run x (es0, attrs, sizes lib c attrs)
          = Ok (es0, attrs @ [(AttrName d, v)], sizes lib c (attrs @ [(AttrName d, v)]))"
        using False v new by (auto simp: x uploadAttribute_def size Let_def update_append_new)
      have "sizes lib c (attrs @ [(AttrName d, v)]) \<le> limit" using False small by (auto simp: size)
      from Cons.IH [OF rest(1,2) grown [OF Cons.prems(3) new] _ this, of es0] Cons.prems(4) rest(3) obtain es attrs' where
        "foldR ?run ds (es0, attrs @ [(AttrName d, v)], sizes lib c (attrs @ [(AttrName d, v)]))
          = Ok (es0 @ es, attrs', sizes lib c attrs')"
        "reported es @ map (Pair key) attrs' = map (Pair key) ((attrs @ [(AttrName d, v)]) @ concat (map (selectAttribute limit monitoring inst) ds))"
        "list_all (fits lib limit) es" "pendingOk ?d attrs'" "sizes lib c attrs' \<le> limit"
        by (auto simp: x)
      then show ?thesis by (intro exI [of _ es] exI [of _ attrs']) (simp add: step y)
    qed
  qed
qed

lemma instanceEntities_ok:
  assumes "wellDefined lib" "0 \<le> limit"
  shows "\<exists>es. instanceEntities lib limit inst es0 = Ok (es0 @ es) \<and> reported es = reportedInstance lib limit inst
    \<and> list_all (fits lib limit) es"
proof -
  let ?c = "ClassID (ikey inst)" let ?d = "classDefinition (classes lib) ?c"
  let ?m = "isPerformanceMonitoringDefinition (DefName ?d)" and ?ds = "sort_key fst (AttributeDefinitions ?d)"
  have load: "\<exists>entity. LoadManagedEntityDefinition (classes lib) ?c (EntityID (ikey inst)) [] = Ok entity \<and> medef entity = ?d"
    by (simp add: LoadManagedEntityDefinition_iff gm_wf_def covers_def)
  have "distinct (map (AttrName \<circ> snd) (AttributeDefinitions ?d))"
    using assms(1) by (simp add: wellDefined_def distinctAttributes_def GetAttributesDefinitions_def)
  then have "distinct (map (AttrName \<circ> snd) ?ds)"
    by (simp only: distinct_map distinct_sort set_sort)
  from uploadAttributes_ok [OF assms(1) _ this pendingOk_empty, where limit = limit and monitoring = ?m and inst = inst and ?es0.0 = es0] assms(2)
  obtain es attrs' where up: "foldR (uploadAttribute lib limit ?m inst) ?ds (es0, [], 0) = Ok (es0 @ es, attrs', sizes lib ?c attrs')"
    and r: "reported es @ map (Pair (?c, VU16 (EntityID (ikey inst)))) attrs' = reportedInstance lib limit inst"
    and ok: "list_all (fits lib limit) es" "pendingOk ?d attrs'" "sizes lib ?c attrs' \<le> limit"
    by (auto simp: GetAttributesDefinitions_def reportedInstance_def uploadedAttributes_def Let_def)
  obtain entity where f: "flushEntity lib inst (es0 @ es, attrs', sizes lib ?c attrs') = Ok ((es0 @ es) @ [entity], [], 0)"
    and e: "reported [entity] = map (Pair (?c, VU16 (EntityID (ikey inst)))) attrs'" "fits lib limit entity"
    using flushEntity_ok [OF ok(2,3), of "es0 @ es" "sizes lib ?c attrs'"] by blast
  have "attrs' \<noteq> [] \<or> sizes lib ?c attrs' = 0" by (cases attrs') simp_all
  with load up f have "instanceEntities lib limit inst es0 = Ok (es0 @ es @ [entity])"
    by (auto simp: instanceEntities_def Let_def)
  moreover have "reported (es @ [entity]) = reportedInstance lib limit inst" using r e(1) by simp
  ultimately show ?thesis using ok(1) e(2) by (intro exI [of _ "es @ [entity]"]) simp
qed

section \<open>The whole upload\<close>

definition uploadedInstances :: "Instance list \<Rightarrow> Instance list" where
  "uploadedInstances insts = filter (\<lambda>inst. \<not> excludedFromMibUpload (ClassID (ikey inst))) insts"

lemma uploadEntities_ok:
  assumes "wellDefined lib" "0 \<le> limit"
  shows "\<exists>es. foldR (\<lambda>inst entities. if excludedFromMibUpload (ClassID (ikey inst)) then Ok entities
        else instanceEntities lib limit inst entities) insts es0 = Ok (es0 @ es)
    \<and> reported es = concat (map (reportedInstance lib limit) (uploadedInstances insts)) \<and> list_all (fits lib limit) es"
proof (induction insts arbitrary: es0)
  case Nil
  then show ?case by (simp add: uploadedInstances_def)
next
  case (Cons inst insts)
  show ?case
  proof (cases "excludedFromMibUpload (ClassID (ikey inst))")
    case True
    with Cons.IH [of es0] show ?thesis by (simp add: uploadedInstances_def)
  next
    case False
    obtain es where "instanceEntities lib limit inst es0 = Ok (es0 @ es)" "reported es = reportedInstance lib limit inst"
      "list_all (fits lib limit) es" using instanceEntities_ok [OF assms] by blast
    moreover obtain more where "foldR (\<lambda>inst entities. if excludedFromMibUpload (ClassID (ikey inst)) then Ok entities
          else instanceEntities lib limit inst entities) insts (es0 @ es) = Ok ((es0 @ es) @ more)"
      "reported more = concat (map (reportedInstance lib limit) (uploadedInstances insts))" "list_all (fits lib limit) more"
      using Cons.IH [of "es0 @ es"] by blast
    ultimately show ?thesis using False by (intro exI [of _ "es @ more"]) (simp add: uploadedInstances_def)
  qed
qed

text \<open>Packing keeps the order of the entities, and no command is empty.\<close>

lemma packEntities:
  assumes "foldR (packEntity lib) entities (commands, pending, used) = Ok (commands', pending', used')"
    and "[] \<notin> set commands"
  shows "concat commands' @ pending' = concat commands @ pending @ entities \<and> [] \<notin> set commands'"
  using assms
proof (induction entities arbitrary: commands pending used)
  case (Cons entity entities)
  from Cons.prems(1) obtain c p u where step: "packEntity lib entity (commands, pending, used) = Ok (c, p, u)"
    and rest: "foldR (packEntity lib) entities (c, p, u) = Ok (commands', pending', used')"
    by (auto simp: bindR_eq_Ok)
  from step Cons.prems(2) have c: "[] \<notin> set c" "concat c @ p = concat commands @ pending @ [entity]"
    by (auto simp: packEntity_def bindR_eq_Ok Let_def split: if_splits)
  from Cons.IH [OF rest c(1)] c(2) show ?case
    by (metis append.assoc append_Cons append_Nil)
qed simp

text \<open>
  C6. A MIB upload reports the whole MIB and nothing else. For a library whose classes are well defined
  the upload of any instances succeeds on the baseline message set (on the extended set unless the
  library cannot size an entity), and its commands, read one after another, say exactly the class, the
  instance and the value of every uploadable attribute of every instance of an uploaded class, in the
  order of the instances and of the attribute indices, each of them once. No command is empty (so Upload
  Next never panics), and the attributes of each entity fit a message.
\<close>
theorem upload_complete:
  assumes "wellDefined lib"
  shows "case buildUpload lib insts device of
      Ok commands \<Rightarrow> reported (concat commands) = concat (map (reportedInstance lib (attributeLimit device)) (uploadedInstances insts))
        \<and> [] \<notin> set commands \<and> list_all (fits lib (attributeLimit device)) (concat commands)
    | _ \<Rightarrow> device = ExtendedIdent"
proof -
  have "0 \<le> attributeLimit device" by (simp add: attributeLimit_def)
  from uploadEntities_ok [OF assms this, of insts "[]"] obtain es where
    es: "foldR (\<lambda>inst entities. if excludedFromMibUpload (ClassID (ikey inst)) then Ok entities
        else instanceEntities lib (attributeLimit device) inst entities) insts [] = Ok es"
    and r: "reported es = concat (map (reportedInstance lib (attributeLimit device)) (uploadedInstances insts))"
      "list_all (fits lib (attributeLimit device)) es" by auto
  have up: "buildUpload lib insts device = (if device \<noteq> ExtendedIdent then Ok (map (\<lambda>entity. [entity]) es)
      else bindR (foldR (packEntity lib) es ([], [], 0)) (\<lambda>(commands, pending, _).
        Ok (if pending \<noteq> [] then commands @ [pending] else commands)))"
    by (simp only: buildUpload_def es bindR_def outcome.case)
  show ?thesis
  proof (cases "device = ExtendedIdent")
    case False
    with r show ?thesis by (auto simp: up comp_def)
  next
    case True
    show ?thesis
    proof (cases "foldR (packEntity lib) es ([], [], 0)")
      case (Ok st)
      obtain commands pending used where st: "st = (commands, pending, used)" by (cases st)
      with Ok have "concat commands @ pending = es \<and> [] \<notin> set commands"
        using packEntities [of lib es "[]" "[]" 0 commands pending used] by simp
      moreover have "buildUpload lib insts device = Ok (if pending \<noteq> [] then commands @ [pending] else commands)"
        unfolding up using True Ok st by simp
      ultimately show ?thesis using r by auto
    qed (unfold up, use True in simp_all)
  qed
qed

lemma wellDefined_sample: "wellDefined sampleLib"
proof -
  define ok where "ok d = (distinct (map (Mask \<circ> snd) (AttributeDefinitions d))
    \<and> distinct (map (AttrName \<circ> snd) (AttributeDefinitions d)) \<and> map_of (AttributeDefinitions d) 0 \<noteq> None)" for d :: me_definition
  have "ok onuDataME" "ok onuGME" "ok extendedVlanME" "ok onu3GME" "ok (unknownME s)" for s
    by (simp_all add: ok_def onuDataME_def onuGME_def extendedVlanME_def onu3GME_def unknownME_def attr_def avcAttr_def
        entityIdAttribute_def unknownAttribute_def ManagedEntityID_def)
  then have "ok (classDefinition sampleClasses c)" for c
    by (simp add: classDefinition_def sampleClasses_def)
  then show ?thesis
    by (simp add: ok_def wellDefined_def distinctAttributes_def GetAttributesDefinitions_def sampleLib_def)
qed

theorem upload_complete_witness:
  "case buildUpload sampleLib sampleFactory BaselineIdent of
      Ok commands \<Rightarrow> reported (concat commands) = concat (map (reportedInstance sampleLib (attributeLimit BaselineIdent))
          (uploadedInstances sampleFactory))
        \<and> [] \<notin> set commands \<and> list_all (fits sampleLib (attributeLimit BaselineIdent)) (concat commands)
    | _ \<Rightarrow> BaselineIdent = ExtendedIdent"
  by (rule upload_complete [OF wellDefined_sample])

end
