(* ===== verification/McRuntime.thy ===== *)
theory McRuntime
  imports McPolicy McBuild "HOL-Library.Char_ord" "HOL-Library.List_Lexorder"
begin

unbundle bit_operations_syntax

text \<open>
  The multicast runtime (src/internal/multicast/runtime.go): packet-level membership of the clients,
  joined to the admission policy of \<open>McPolicy\<close> and to a platform backend.

  \<^item> A method is a function of the \<open>Runtime\<close> record and of the world, which holds everything outside
    it. The backend's methods and the clock are fields of the record, functions on the world; a Go
    error is an \<open>Err\<close> that keeps what was done before it. Every method holds the mutex, so it is one
    step.
  \<^item> A Go map is an association list; where the code ranges over a map, whose order Go leaves open,
    the model takes the order of the list. A set of addresses is a \<open>set\<close>, read in ascending order by
    the sorting helpers. A slice that is nil and one that is empty are the same list.
  \<^item> The pointer to a \<open>runtimeStream\<close> is held by one map only, so a stream is a value that is written back.
\<close>

section \<open>Data\<close>

record ReplicationChange =
  Enable :: bool
  ChangeSubscriber :: Subscriber
  ChangeAttachment :: Attachment
  ChangeProfile :: Profile
  ChangeGroup :: ActiveGroup

record BandwidthKey =
  SampleSubscriber :: u16
  SampleInterface :: string
  SampleSource :: Addr
  SampleGroup :: Addr
  SampleVLAN :: VLAN

type_synonym samples = "(BandwidthKey, u32) gomap"

text \<open>\<open>SampleBandwidth\<close> is optional: a backend that is no \<open>RuntimeBandwidthSampler\<close> has \<open>None\<close>.\<close>

record 'w RuntimeBackend =
  ConfigureBackend :: "Config \<Rightarrow> 'w \<Rightarrow> go_error option \<times> 'w"
  SetReplication :: "ReplicationChange \<Rightarrow> 'w \<Rightarrow> go_error option \<times> 'w"
  SendReport :: "UpstreamReport \<Rightarrow> 'w \<Rightarrow> go_error option \<times> 'w"
  SendQuery :: "DownstreamQuery \<Rightarrow> 'w \<Rightarrow> go_error option \<times> 'w"
  Sampler :: "('w \<Rightarrow> (go_error, samples) outcome \<times> 'w) option"

definition noopRuntimeBackend :: "'w RuntimeBackend" where
  "noopRuntimeBackend = \<lparr> ConfigureBackend = (\<lambda>_ w. (None, w)), SetReplication = (\<lambda>_ w. (None, w)),
     SendReport = (\<lambda>_ w. (None, w)), SendQuery = (\<lambda>_ w. (None, w)), Sampler = None \<rparr>"

record subscriberBinding =
  boundSubscriber :: Subscriber
  boundAttachment :: Attachment

record clientGroupKey =
  ckSubscriber :: u16
  ckInterface :: string
  ckClient :: Addr
  ckMAC :: bytes
  ckVLAN :: VLAN
  ckGroup :: Addr

record runtimeStreamKey =
  rsSubscriber :: u16
  rsInterface :: string
  rsSource :: Addr
  rsGroup :: Addr
  rsVLAN :: VLAN

record clientIdentity =
  idAddress :: Addr
  idMAC :: bytes

datatype filterMode = FilterInclude | FilterExclude

record membershipState =
  filterOf :: filterMode
  sourcesOf :: "Addr set"

record runtimeClient =
  clientGroup :: ActiveGroup
  clientTags :: "VLANTag list"
  lastSeen :: Time

type_synonym runtimeStream = "(clientIdentity, runtimeClient) gomap"

record pendingLeaveKey =
  pendingStream :: runtimeStreamKey
  pendingIdentity :: clientIdentity

record pendingLeave =
  leaveBinding :: subscriberBinding
  leaveProfile :: Profile
  leaveGroup :: ActiveGroup
  leaveTags :: "VLANTag list"
  remaining :: u8
  leaveNext :: Time

record generalQuery =
  queryBinding :: subscriberBinding
  proxyProfile :: Profile
  generalTags :: "VLANTag list"
  queryNext :: Time

record rateKey =
  rateSubscriber :: u16
  rateInterface :: string
  rateProfile :: u16

record rateWindow =
  windowSecond :: int
  windowCount :: u32

record robustnessKey =
  robustInterface :: string
  robustProfile :: u16

text \<open>\<open>location\<close> is the offset of the clock's time zone, which the policy needs for daily resets.\<close>

record 'w Runtime =
  runtimeClock :: "'w \<Rightarrow> Time \<times> 'w"
  location :: Duration
  backend :: "'w RuntimeBackend"
  runtimeEngine :: "Engine option"
  runtimeConfig :: Config
  runtimeProfiles :: "(u16, Profile) gomap"
  bindings :: "(string, subscriberBinding) gomap"
  memberships :: "(clientGroupKey, membershipState) gomap"
  runtimeStreams :: "(runtimeStreamKey, runtimeStream) gomap"
  pendingLeaves :: "(pendingLeaveKey, pendingLeave) gomap"
  generalQueries :: "generalQuery list"
  rates :: "(rateKey, rateWindow) gomap"
  learnedRobustness :: "(robustnessKey, u8) gomap"
  bandwidthSamples :: samples

definition zeroGroup :: ActiveGroup where
  "zeroGroup = \<lparr> GroupInterface = [], GroupSource = NoAddr, IncludedSources = [], ExcludedSources = [],
     GroupAddr = NoAddr, GroupClient = NoAddr, UNIVLAN = \<lparr> Tagged = False, ID = 0 \<rparr>, ANIVLAN = 0, GroupProfile = 0,
     GroupACLRow = 0, GEMPortID = 0, ImputedBandwidth = 0, TimeSinceJoin = 0, PreviewUntil = zeroTime \<rparr>"

definition zeroClient :: runtimeClient where
  "zeroClient = \<lparr> clientGroup = zeroGroup, clientTags = [], lastSeen = zeroTime \<rparr>"

definition zeroIdentity :: clientIdentity where
  "zeroIdentity = \<lparr> idAddress = NoAddr, idMAC = replicate 6 0 \<rparr>"

definition zeroMembership :: membershipState where
  "zeroMembership = \<lparr> filterOf = FilterInclude, sourcesOf = {} \<rparr>"

definition zeroBinding :: subscriberBinding where
  "zeroBinding = \<lparr>
     boundSubscriber = \<lparr> SubscriberEntity = 0, Attachments = [], SubscriberProfile = 0, MaxSimultaneousGroups = 0,
       MaxMulticastBandwidth = 0, BandwidthEnforcement = False, ServicePackages = [], AllowedPreviews = [] \<rparr>,
     boundAttachment = \<lparr> Interface = [], BridgeEntity = 0, BridgePortEntity = 0, DirectMapper = None \<rparr> \<rparr>"

section \<open>Methods\<close>

type_synonym ('w, 'a) mc = "'w Runtime \<Rightarrow> 'w \<Rightarrow> (go_error, 'a) outcome \<times> 'w Runtime \<times> 'w"

definition pureM :: "(go_error, 'a) outcome \<Rightarrow> ('w, 'a) mc" where
  "pureM x r w = (x, r, w)"

abbreviation returnM :: "'a \<Rightarrow> ('w, 'a) mc" where "returnM x \<equiv> pureM (Ok x)"
abbreviation failM :: "go_error \<Rightarrow> ('w, 'a) mc" where "failM err \<equiv> pureM (Err err)"

definition bindM :: "('w, 'a) mc \<Rightarrow> ('a \<Rightarrow> ('w, 'b) mc) \<Rightarrow> ('w, 'b) mc" where
  "bindM m k r w = (case m r w of
     (Ok x, r', w') \<Rightarrow> k x r' w' | (Err err, r', w') \<Rightarrow> (Err err, r', w') | (Panic, r', w') \<Rightarrow> (Panic, r', w'))"

abbreviation thenM :: "('w, 'a) mc \<Rightarrow> ('w, 'b) mc \<Rightarrow> ('w, 'b) mc" where
  "thenM m k \<equiv> bindM m (\<lambda>_. k)"

definition getM :: "('w Runtime \<Rightarrow> 'a) \<Rightarrow> ('w, 'a) mc" where
  "getM f r w = (Ok (f r), r, w)"

definition putM :: "('w Runtime \<Rightarrow> 'w Runtime) \<Rightarrow> ('w, unit) mc" where
  "putM f r w = (Ok (), f r, w)"

text \<open>The value of a call or its error, for a caller that looks at the error (a panic is passed on).\<close>

definition tryM :: "('w, 'a) mc \<Rightarrow> ('w, go_error + 'a) mc" where
  "tryM m r w = (case m r w of
     (Ok x, r', w') \<Rightarrow> (Ok (Inr x), r', w') | (Err err, r', w') \<Rightarrow> (Ok (Inl err), r', w')
   | (Panic, r', w') \<Rightarrow> (Panic, r', w'))"

definition nowM :: "('w, Time) mc" where
  "nowM r w = (case runtimeClock r w of (t, w') \<Rightarrow> (Ok t, r, w'))"

text \<open>A call of the backend; the second argument wraps its error.\<close>

definition backendM :: "('w RuntimeBackend \<Rightarrow> 'w \<Rightarrow> go_error option \<times> 'w) \<Rightarrow> (go_error \<Rightarrow> go_error) \<Rightarrow> ('w, unit) mc" where
  "backendM call wrap r w = (case call (backend r) w of
     (None, w') \<Rightarrow> (Ok (), r, w') | (Some err, w') \<Rightarrow> (Err (wrap err), r, w'))"

text \<open>A call of the policy engine; its methods lock the engine, which a nil pointer does not survive.\<close>

definition policyM :: "(Engine \<Rightarrow> 'a \<times> Engine) \<Rightarrow> ('w, 'a) mc" where
  "policyM step r w = (case runtimeEngine r of
     None \<Rightarrow> (Panic, r, w)
   | Some e \<Rightarrow> (case step e of (x, e') \<Rightarrow> (Ok x, r\<lparr>runtimeEngine := Some e'\<rparr>, w)))"

fun forM :: "('a \<Rightarrow> 's \<Rightarrow> ('w, 's) mc) \<Rightarrow> 'a list \<Rightarrow> 's \<Rightarrow> ('w, 's) mc" where
  "forM f [] s = returnM s"
| "forM f (x # xs) s = bindM (f x s) (forM f xs)"

definition joinM :: "Join \<Rightarrow> ('w, Decision) mc" where
  "joinM request = bindM nowM (\<lambda>now. bindM (getM location) (\<lambda>zone. policyM (joinStep zone now request)))"

definition leaveM :: "Join \<Rightarrow> ('w, bool) mc" where
  "leaveM request = policyM (Leave request)"

section \<open>Membership of a client\<close>

definition transitionMembership :: "membershipState \<Rightarrow> MembershipRecord \<Rightarrow> membershipState" where
  "transitionMembership held record =
     (let sources = set (Sources record); type = RecordType record in
      if type = ModeIsInclude \<or> type = ChangeToIncludeMode
      then \<lparr> filterOf = FilterInclude, sourcesOf = sources \<rparr>
      else if type = ModeIsExclude \<or> type = ChangeToExcludeMode
      then \<lparr> filterOf = FilterExclude, sourcesOf = sources \<rparr>
      else if type = AllowNewSources then
        (if filterOf held = FilterExclude
         then held\<lparr>sourcesOf := sourcesOf held - sources\<rparr>
         else held\<lparr>sourcesOf := sourcesOf held \<union> sources\<rparr>)
      else if type = BlockOldSources then
        (if filterOf held = FilterExclude
         then held\<lparr>sourcesOf := sourcesOf held \<union> sources\<rparr>
         else held\<lparr>sourcesOf := sourcesOf held - sources\<rparr>)
      else held)"

definition forwardingSources :: "membershipState \<Rightarrow> nat \<Rightarrow> Addr set" where
  "forwardingSources state bitLength =
     (if filterOf state \<noteq> FilterExclude then sourcesOf state
      else {if bitLength = 128 then IPv6Unspecified else IPv4Unspecified})"

definition sortedSources :: "Addr set \<Rightarrow> Addr list" where
  "sortedSources sources = sorted_list_of_set sources"

definition sortedSourceDifference :: "Addr set \<Rightarrow> Addr set \<Rightarrow> Addr list" where
  "sortedSourceDifference left right = sorted_list_of_set (left - right)"

definition sortedSourceIntersection :: "Addr set \<Rightarrow> Addr set \<Rightarrow> Addr list" where
  "sortedSourceIntersection left right = sorted_list_of_set (left \<inter> right)"

definition activeGroup :: "Join \<Rightarrow> Decision \<Rightarrow> ActiveGroup" where
  "activeGroup request decision =
     \<lparr> GroupInterface = JoinInterface request, GroupSource = JoinSource request, IncludedSources = [],
       ExcludedSources = [], GroupAddr = JoinGroup request, GroupClient = JoinClient request,
       UNIVLAN = JoinVLAN request, ANIVLAN = DecisionANIVLAN decision, GroupProfile = DecisionProfile decision,
       GroupACLRow = DecisionACLRow decision, GEMPortID = DecisionGEMPort decision,
       ImputedBandwidth = DecisionBandwidth decision, TimeSinceJoin = 0,
       PreviewUntil = DecisionPreviewUntil decision \<rparr>"

section \<open>Groups that several clients share\<close>

text \<open>A stream is replicated without the sources that every wildcard client excludes.\<close>

fun commonExcluded :: "runtimeClient list \<Rightarrow> Addr set option \<Rightarrow> Addr set option" where
  "commonExcluded [] excluded = excluded"
| "commonExcluded (client # clients) excluded =
     (if \<not> IsUnspecified (GroupSource (clientGroup client)) then commonExcluded clients excluded
      else let candidate = set (ExcludedSources (clientGroup client)) in
        commonExcluded clients (Some (case excluded of None \<Rightarrow> candidate | Some ex \<Rightarrow> ex \<inter> candidate)))"

definition effectiveReplicationGroup :: "runtimeStream \<Rightarrow> ActiveGroup" where
  "effectiveReplicationGroup stream =
     (let result = (case stream of [] \<Rightarrow> zeroGroup | (_, client) # _ \<Rightarrow> clientGroup client);
          excluded = (case commonExcluded (map snd stream) None of None \<Rightarrow> {} | Some ex \<Rightarrow> ex) in
      result\<lparr>ExcludedSources := sortedSources excluded\<rparr>)"

text \<open>The loop over the streams: the first valid group, the included sources, and the common excluded ones.\<close>

fun upstreamLoop :: "runtimeStreamKey \<Rightarrow> (runtimeStreamKey \<times> runtimeStream) list
    \<Rightarrow> ActiveGroup \<times> Addr set \<times> Addr set option \<Rightarrow> ActiveGroup \<times> Addr set \<times> Addr set option" where
  "upstreamLoop wanted [] acc = acc"
| "upstreamLoop wanted ((key, stream) # rest) (result, included, excluded) =
     (if rsSubscriber key \<noteq> rsSubscriber wanted \<or> rsInterface key \<noteq> rsInterface wanted
        \<or> rsGroup key \<noteq> rsGroup wanted \<or> rsVLAN key \<noteq> rsVLAN wanted \<or> stream = []
      then upstreamLoop wanted rest (result, included, excluded)
      else
        let cur = effectiveReplicationGroup stream;
            result' = (if \<not> IsValid (GroupAddr result) then cur else result) in
        if IsUnspecified (rsSource key)
        then upstreamLoop wanted rest (result', included,
               Some (case excluded of None \<Rightarrow> set (ExcludedSources cur) | Some ex \<Rightarrow> ex \<inter> set (ExcludedSources cur)))
        else upstreamLoop wanted rest (result', insert (rsSource key) included, excluded))"

definition anySource :: "Addr \<Rightarrow> Addr" where
  "anySource g = (if Is4 g then IPv4Unspecified else IPv6Unspecified)"

definition upstreamGroup :: "(runtimeStreamKey, runtimeStream) gomap \<Rightarrow> runtimeStreamKey
    \<Rightarrow> (go_error, ActiveGroup option) outcome" where
  "upstreamGroup all wanted =
     (case upstreamLoop wanted all (zeroGroup, {}, None) of (result, included, excluded) \<Rightarrow>
        if \<not> IsValid (GroupAddr result) then Ok None
        else case excluded of
          Some ex \<Rightarrow> Ok (Some (result\<lparr>GroupSource := anySource (GroupAddr result), IncludedSources := [],
                        ExcludedSources := sortedSources (ex - included)\<rparr>))
        | None \<Rightarrow> (case sortedSources included of
              [] \<Rightarrow> Panic
            | source # sources \<Rightarrow> Ok (Some (result\<lparr>IncludedSources := source # sources, ExcludedSources := [],
                  GroupSource := source\<rparr>))))"

definition effectiveUpstreamGroup :: "runtimeStreamKey \<Rightarrow> ('w, ActiveGroup option) mc" where
  "effectiveUpstreamGroup wanted = bindM (getM runtimeStreams) (\<lambda>all. pureM (upstreamGroup all wanted))"

definition emptyMembershipGroup :: "ActiveGroup \<Rightarrow> ActiveGroup" where
  "emptyMembershipGroup previous =
     previous\<lparr>GroupSource := anySource (GroupAddr previous), IncludedSources := [], ExcludedSources := []\<rparr>"

definition sameMembershipGroup :: "ActiveGroup \<Rightarrow> ActiveGroup \<Rightarrow> bool" where
  "sameMembershipGroup left right =
     (if IsUnspecified (GroupSource left) \<noteq> IsUnspecified (GroupSource right) then False
      else IncludedSources left = IncludedSources right \<and> ExcludedSources left = ExcludedSources right)"

definition sameReplicationGroup :: "ActiveGroup \<Rightarrow> ActiveGroup \<Rightarrow> bool" where
  "sameReplicationGroup left right =
     (if GroupSource left \<noteq> GroupSource right \<or> GroupAddr left \<noteq> GroupAddr right \<or> UNIVLAN left \<noteq> UNIVLAN right
        \<or> ANIVLAN left \<noteq> ANIVLAN right \<or> GEMPortID left \<noteq> GEMPortID right then False
      else IncludedSources left = IncludedSources right \<and> ExcludedSources left = ExcludedSources right)"

section \<open>Proxy queries of a binding\<close>

definition proxyQueryTags :: "Profile \<Rightarrow> ServicePackage option \<Rightarrow> VLANTag list" where
  "proxyQueryTags profile service =
     (let ofProfile = (if DownstreamTagControl profile \<ge> 2
                       then [\<lparr> TPID = 0x8100, TCI = DownstreamTCI profile \<rparr>] else []) in
      case service of
        None \<Rightarrow> ofProfile
      | Some s \<Rightarrow>
          if ServiceVLAN s = 4096 then []
          else if ServiceVLAN s = 4097 \<or> ServiceVLAN s = 0xffff then ofProfile
          else [\<lparr> TPID = 0x8100, TCI = (DownstreamTCI profile AND 0xf000) OR ServiceVLAN s \<rparr>])"

text \<open>\<open>%04x\<close> of a 16-bit number.\<close>

definition hexDigit :: "u16 \<Rightarrow> char" where
  "hexDigit d = ''0123456789abcdef'' ! unat (d AND 15)"

definition hex4 :: "u16 \<Rightarrow> string" where
  "hex4 x = [hexDigit (drop_bit 12 x), hexDigit (drop_bit 8 x), hexDigit (drop_bit 4 x), hexDigit x]"

fun vlanTagsKey :: "VLANTag list \<Rightarrow> string" where
  "vlanTagsKey [] = []"
| "vlanTagsKey (tag # tags) = hex4 (TPID tag) @ ''.'' @ hex4 (TCI tag) @ ''/'' @ vlanTagsKey tags"

text \<open>\<open>appendQuery\<close>; its key is the entity in decimal, a colon, and the tags.\<close>

definition appendQuery :: "subscriberBinding \<Rightarrow> Time \<Rightarrow> Profile \<Rightarrow> VLANTag list
    \<Rightarrow> (u16 \<times> string) set \<times> generalQuery list \<Rightarrow> (u16 \<times> string) set \<times> generalQuery list" where
  "appendQuery binding now profile tags acc =
     (case acc of (seen, result) \<Rightarrow>
        let key = (ProfileEntity profile, vlanTagsKey tags) in
        if IGMPFunction profile \<noteq> 2 then (seen, result)
        else if key \<in> seen then (seen, result)
        else (insert key seen, result @ [\<lparr> queryBinding = binding, proxyProfile = profile, generalTags = tags,
               queryNext = now \<rparr>]))"

definition proxyQueries :: "Subscriber \<Rightarrow> Attachment \<Rightarrow> (u16, Profile) gomap \<Rightarrow> Time \<Rightarrow> generalQuery list" where
  "proxyQueries subscriber attachment ps now =
     (let binding = \<lparr> boundSubscriber = subscriber, boundAttachment = attachment \<rparr> in
      if ServicePackages subscriber = [] then
        (let profile = lookup zeroProfile ps (SubscriberProfile subscriber) in
         snd (appendQuery binding now profile (proxyQueryTags profile None) ({}, [])))
      else snd (fold (\<lambda>service.
             let profile = lookup zeroProfile ps (OperationsProfile service) in
             appendQuery binding now profile (proxyQueryTags profile (Some service)))
           (ServicePackages subscriber) ({}, [])))"


section \<open>Configuration\<close>

text \<open>
  \<open>compile\<close> sorts the ACL rows and the service packages in the slices of the configuration, so the
  runtime, which shares them, goes on with the sorted ones.
\<close>

definition sortedConfig :: "Config \<Rightarrow> Config" where
  "sortedConfig c = \<lparr>
     Profiles = map (\<lambda>p. p\<lparr>DynamicACL := sort_key RowKey (DynamicACL p), StaticACL := sort_key RowKey (StaticACL p)\<rparr>) (Profiles c),
     Subscribers = map (\<lambda>s. s\<lparr>ServicePackages := sort_key ServiceRow (ServicePackages s)\<rparr>) (Subscribers c) \<rparr>"

type_synonym bound = "(string, subscriberBinding) gomap \<times> generalQuery list"

definition bindAttachment :: "(u16, Profile) gomap \<Rightarrow> Time \<Rightarrow> Subscriber \<Rightarrow> Attachment \<Rightarrow> bound \<Rightarrow> (go_error, bound) outcome" where
  "bindAttachment ps now subscriber attachment acc =
     (case acc of (bs, qs) \<Rightarrow>
        if Interface attachment = []
        then Err (Errorf ''multicast subscriber %#x has an empty attachment interface'' [AU (SubscriberEntity subscriber)])
        else case map_of bs (Interface attachment) of
          Some previous \<Rightarrow> Err (Errorf ''multicast interface %s is shared by subscribers %#x and %#x''
            [AStr (Interface attachment), AU (SubscriberEntity (boundSubscriber previous)), AU (SubscriberEntity subscriber)])
        | None \<Rightarrow> Ok (AList.update (Interface attachment)
              \<lparr> boundSubscriber = subscriber, boundAttachment = attachment \<rparr> bs,
            qs @ proxyQueries subscriber attachment ps now))"

definition bindSubscriber :: "(u16, Profile) gomap \<Rightarrow> Time \<Rightarrow> Subscriber \<Rightarrow> bound \<Rightarrow> (go_error, bound) outcome" where
  "bindSubscriber ps now subscriber acc =
     (if Attachments subscriber = []
      then Err (Errorf ''multicast subscriber %#x has no attachment'' [AU (SubscriberEntity subscriber)])
      else foldR (bindAttachment ps now subscriber) (Attachments subscriber) acc)"

definition queryOrder :: "generalQuery \<Rightarrow> string \<times> u16 \<times> string" where
  "queryOrder q = (Interface (boundAttachment (queryBinding q)), ProfileEntity (proxyProfile q), vlanTagsKey (generalTags q))"

text \<open>\<open>Validate\<close> reads the clock of the system; its answer does not depend on it.\<close>

definition configureLocked :: "Config \<Rightarrow> ('w, unit) mc" where
  "configureLocked given =
     thenM (pureM (Validate given zeroTime))
    (let c = sortedConfig given in
     bindM (getM (\<lambda>r. runtimeEngine r \<noteq> None \<and> c = runtimeConfig r)) (\<lambda>same.
     if same then returnM ()
     else
       let ps = fold (\<lambda>profile. AList.update (ProfileEntity profile) profile) (Profiles c) [] in
       bindM nowM (\<lambda>now.
       bindM (pureM (foldR (bindSubscriber ps now) (Subscribers c) ([], []))) (\<lambda>(bs, qs).
       bindM nowM (\<lambda>compiledAt.
       bindM (pureM (New c compiledAt)) (\<lambda>fresh.
       bindM (getM runtimeEngine) (\<lambda>previous.
       let engine = preserveAllowedPreviewExpiries previous fresh in
       thenM (backendM (\<lambda>b. ConfigureBackend b c) (\<lambda>err. Errorf ''configure multicast backend: %w'' [AErr err]))
        (putM (\<lambda>r. r\<lparr>runtimeEngine := Some engine, runtimeConfig := c, runtimeProfiles := ps, bindings := bs,
            memberships := [], runtimeStreams := [], pendingLeaves := [], generalQueries := sort_key queryOrder qs,
            rates := [], learnedRobustness := [], bandwidthSamples := []\<rparr>)))))))))"

definition NewRuntime :: "Config \<Rightarrow> 'w RuntimeBackend option \<Rightarrow> ('w \<Rightarrow> Time \<times> 'w) \<Rightarrow> Duration \<Rightarrow> 'w
    \<Rightarrow> (go_error, 'w Runtime) outcome \<times> 'w" where
  "NewRuntime c b clock zone w =
     (let r = \<lparr> runtimeClock = clock, location = zone,
                backend = (case b of None \<Rightarrow> noopRuntimeBackend | Some given \<Rightarrow> given), runtimeEngine = None,
                runtimeConfig = \<lparr> Profiles = [], Subscribers = [] \<rparr>, runtimeProfiles = [], bindings = [], memberships = [],
                runtimeStreams = [], pendingLeaves = [], generalQueries = [], rates = [], learnedRobustness = [],
                bandwidthSamples = [] \<rparr> in
      case configureLocked c r w of
        (Ok _, r', w') \<Rightarrow> (Ok r', w') | (Err err, _, w') \<Rightarrow> (Err err, w') | (Panic, _, w') \<Rightarrow> (Panic, w'))"

definition learnQueryLocked :: "subscriberBinding \<Rightarrow> MembershipMessage \<Rightarrow> 'w Runtime \<Rightarrow> 'w Runtime" where
  "learnQueryLocked binding message r =
     (let subscriber = boundSubscriber binding;
          profileIDs = (if ServicePackages subscriber = [] then [SubscriberProfile subscriber]
            else remdups (map OperationsProfile
              (filter (\<lambda>service. serviceVLANMatches (ServiceVLAN service) (MsgVLAN message)) (ServicePackages subscriber))));
          learn = (\<lambda>profileID learned.
            case map_of (runtimeProfiles r) profileID of
              None \<Rightarrow> learned
            | Some profile \<Rightarrow>
                if Robustness profile \<noteq> 0 \<or> (IGMPVersion profile \<le> 3) \<noteq> (MsgVersion message \<le> 3) then learned
                else AList.update \<lparr> robustInterface = Interface (boundAttachment binding), robustProfile = profileID \<rparr>
                       (QueryRobustness message) learned) in
      if QueryRobustness message = 0 then r
      else r\<lparr>learnedRobustness := fold learn profileIDs (learnedRobustness r)\<rparr>)"

definition effectiveProfile :: "'w Runtime \<Rightarrow> string \<Rightarrow> Profile \<Rightarrow> Profile" where
  "effectiveProfile r interfaceName profile =
     (if Robustness profile \<noteq> 0 then profile
      else let learned = lookup 0 (learnedRobustness r)
             \<lparr> robustInterface = interfaceName, robustProfile = ProfileEntity profile \<rparr> in
        if learned \<noteq> 0 then profile\<lparr>Robustness := learned\<rparr> else profile)"

section \<open>Upstream reports\<close>

definition unixEpoch :: int where "unixEpoch = 62135596800"

definition Unix :: "Time \<Rightarrow> int" where
  "Unix t = t div nsSecond - unixEpoch"

definition deliverReport :: "UpstreamReport \<Rightarrow> ('w, unit) mc" where
  "deliverReport report =
     backendM (\<lambda>b. SendReport b report) (\<lambda>err. Errorf ''send upstream multicast report: %w'' [AErr err])"

definition rateKeyOf :: "UpstreamReport \<Rightarrow> rateKey" where
  "rateKeyOf report = \<lparr> rateSubscriber = SubscriberEntity (ReportSubscriber report),
     rateInterface = Interface (ReportAttachment report), rateProfile = ProfileEntity (ReportProfile report) \<rparr>"

definition sendReportLocked :: "UpstreamReport \<Rightarrow> ('w, unit) mc" where
  "sendReportLocked report =
     (let limit = UpstreamRate (ReportProfile report); key = rateKeyOf report in
      if limit = 0 then deliverReport report
      else
        bindM nowM (\<lambda>t.
        let now = Unix t in
        bindM (getM (\<lambda>r. lookup \<lparr> windowSecond = 0, windowCount = 0 \<rparr> (rates r) key)) (\<lambda>window0.
        let window = (if windowSecond window0 \<noteq> now then \<lparr> windowSecond = now, windowCount = 0 \<rparr> else window0) in
        if windowCount window \<ge> limit then putM (\<lambda>r. r\<lparr>rates := AList.update key window (rates r)\<rparr>)
        else thenM (putM (\<lambda>r. r\<lparr>rates := AList.update key (window\<lparr>windowCount := windowCount window + 1\<rparr>) (rates r)\<rparr>))
              (deliverReport report))))"

definition upstreamReport :: "bool \<Rightarrow> subscriberBinding \<Rightarrow> Profile \<Rightarrow> ActiveGroup \<Rightarrow> bytes \<Rightarrow> VLANTag list \<Rightarrow> UpstreamReport" where
  "upstreamReport join binding profile g mac tags =
     \<lparr> ReportJoin = join, ReportSubscriber = boundSubscriber binding, ReportAttachment = boundAttachment binding,
       ReportProfile = profile, ReportGroup = g, ReportSourceMAC = mac, ReportTags = tags \<rparr>"

text \<open>A change of the replication, with the text that wraps the backend's error.\<close>

definition setReplication :: "bool \<Rightarrow> subscriberBinding \<Rightarrow> Profile \<Rightarrow> ActiveGroup \<Rightarrow> string \<Rightarrow> ('w, unit) mc" where
  "setReplication enable binding profile g what =
     backendM (\<lambda>b. SetReplication b \<lparr> Enable = enable, ChangeSubscriber = boundSubscriber binding,
         ChangeAttachment = boundAttachment binding, ChangeProfile = profile, ChangeGroup = g \<rparr>)
       (\<lambda>err. Errorf what [AErr err])"

section \<open>Clients of a stream\<close>

definition streamOf :: "clientGroupKey \<Rightarrow> subscriberBinding \<Rightarrow> Addr \<Rightarrow> runtimeStreamKey" where
  "streamOf client binding source =
     \<lparr> rsSubscriber = SubscriberEntity (boundSubscriber binding), rsInterface = Interface (boundAttachment binding),
       rsSource = source, rsGroup = ckGroup client, rsVLAN = ckVLAN client \<rparr>"

definition identityOf :: "clientGroupKey \<Rightarrow> clientIdentity" where
  "identityOf client = \<lparr> idAddress = ckClient client, idMAC = ckMAC client \<rparr>"

definition requestOf :: "clientGroupKey \<Rightarrow> subscriberBinding \<Rightarrow> Addr \<Rightarrow> Join" where
  "requestOf client binding source =
     \<lparr> JoinSubscriber = SubscriberEntity (boundSubscriber binding), JoinInterface = Interface (boundAttachment binding),
       JoinVLAN = ckVLAN client, JoinSource = source, JoinGroup = ckGroup client, JoinClient = ckClient client \<rparr>"

definition putStream :: "runtimeStreamKey \<Rightarrow> runtimeStream \<Rightarrow> 'w Runtime \<Rightarrow> 'w Runtime" where
  "putStream key stream r = r\<lparr>runtimeStreams := AList.update key stream (runtimeStreams r)\<rparr>"

definition dropPending :: "pendingLeaveKey \<Rightarrow> 'w Runtime \<Rightarrow> 'w Runtime" where
  "dropPending key r = r\<lparr>pendingLeaves := AList.delete key (pendingLeaves r)\<rparr>"

text \<open>The group of a client; a wildcard carries the excluded sources.\<close>

definition clientGroupOf :: "Join \<Rightarrow> Decision \<Rightarrow> Addr list \<Rightarrow> ActiveGroup" where
  "clientGroupOf request decision excluded =
     (let g = activeGroup request decision in
      if IsUnspecified (JoinSource request) then g\<lparr>ExcludedSources := excluded\<rparr> else g)"

text \<open>The report after a join: of the client alone without a proxy, else of all clients of the group.\<close>

definition reportJoin :: "subscriberBinding \<Rightarrow> clientGroupKey \<Rightarrow> runtimeStreamKey \<Rightarrow> Profile \<Rightarrow> ActiveGroup \<Rightarrow> ActiveGroup
    \<Rightarrow> VLANTag list \<Rightarrow> bool \<Rightarrow> ('w, unit) mc" where
  "reportJoin binding client key profile own replicated tags changed =
     bindM (if IGMPFunction profile = 0 then returnM own
            else bindM (effectiveUpstreamGroup key) (\<lambda>aggregate.
              returnM (case aggregate of Some g \<Rightarrow> g | None \<Rightarrow> replicated))) (\<lambda>g.
     if IGMPFunction profile = 0 \<or> changed
     then sendReportLocked (upstreamReport True binding profile g (ckMAC client) tags)
     else returnM ())"

text \<open>The part of \<open>addLocked\<close> that enters an admitted client; its value tells whether the replication changed.\<close>

definition enterClient :: "subscriberBinding \<Rightarrow> clientGroupKey \<Rightarrow> Join \<Rightarrow> runtimeStreamKey \<Rightarrow> runtimeStream option
    \<Rightarrow> Profile \<Rightarrow> ActiveGroup \<Rightarrow> VLANTag list \<Rightarrow> ('w, runtimeStream \<times> bool) mc" where
  "enterClient binding client request key stream0 profile g tags =
     bindM nowM (\<lambda>now.
     let entry = \<lparr> clientGroup = g, clientTags = tags, lastSeen = now \<rparr>;
         undone = (\<lambda>err undo. thenM (putM undo) (thenM (leaveM request) (failM err))) in
     case stream0 of
       None \<Rightarrow>
         (let stream = [(identityOf client, entry)] in
          bindM (tryM (setReplication True binding profile (effectiveReplicationGroup stream)
                   ''enable multicast replication: %w'')) (\<lambda>result.
          case result of
            Inl err \<Rightarrow> undone err id
          | Inr _ \<Rightarrow> thenM (putM (putStream key stream)) (returnM (stream, True))))
     | Some clients \<Rightarrow>
         (let stream = AList.update (identityOf client) entry clients;
              previous = effectiveReplicationGroup clients; cur = effectiveReplicationGroup stream in
          thenM (putM (putStream key stream))
           (if sameReplicationGroup previous cur then returnM (stream, False)
            else bindM (tryM (setReplication True binding profile cur ''update multicast replication: %w'')) (\<lambda>result.
              case result of
                Inl err \<Rightarrow> undone err (putStream key (AList.delete (identityOf client) clients))
              | Inr _ \<Rightarrow> returnM (stream, True)))))"

definition addLocked :: "subscriberBinding \<Rightarrow> clientGroupKey \<Rightarrow> Addr \<Rightarrow> Addr list \<Rightarrow> VLANTag list \<Rightarrow> ('w, bool) mc" where
  "addLocked binding client source excluded tags =
     (let request = requestOf client binding source; key = streamOf client binding source in
      bindM (getM (\<lambda>r. map_of (runtimeStreams r) key)) (\<lambda>stream0.
      bindM (joinM request) (\<lambda>decision.
      let g = clientGroupOf request decision excluded in
      bindM (getM (\<lambda>r. map_of (runtimeProfiles r) (DecisionProfile decision))) (\<lambda>found.
      if \<not> Accepted decision then
        (case found of
           Some profile \<Rightarrow>
             if ForwardUpstream decision
             then thenM (sendReportLocked (upstreamReport True binding profile g (ckMAC client) tags)) (returnM False)
             else returnM False
         | None \<Rightarrow> returnM False)
      else
        (case found of
           None \<Rightarrow> thenM (leaveM request) (failM
             (Errorf ''authorized multicast decision references missing profile %#x'' [AU (DecisionProfile decision)]))
         | Some profile \<Rightarrow>
             thenM (putM (dropPending \<lparr> pendingStream = key, pendingIdentity = identityOf client \<rparr>))
            (bindM (enterClient binding client request key stream0 profile g tags) (\<lambda>(stream, changed).
             thenM (reportJoin binding client key profile g (effectiveReplicationGroup stream) tags changed)
              (returnM True))))))))"

definition refreshLocked :: "subscriberBinding \<Rightarrow> clientGroupKey \<Rightarrow> Addr \<Rightarrow> Addr list \<Rightarrow> VLANTag list \<Rightarrow> ('w, unit) mc" where
  "refreshLocked binding client source excluded tags =
     (let request = requestOf client binding source; key = streamOf client binding source;
          identity = identityOf client in
      bindM (joinM request) (\<lambda>decision.
      if \<not> Accepted decision
      then failM (Errorf ''active multicast stream %s/%s was rejected during refresh''
             [ABytes (AsSlice source), ABytes (AsSlice (ckGroup client))])
      else
      bindM (getM (\<lambda>r. map_of (runtimeProfiles r) (DecisionProfile decision))) (\<lambda>found.
      case found of
        None \<Rightarrow> failM (Errorf ''active multicast stream references missing profile %#x'' [AU (DecisionProfile decision)])
      | Some profile \<Rightarrow>
      bindM (getM (\<lambda>r. map_of (runtimeStreams r) key)) (\<lambda>stream0.
      case stream0 of
        None \<Rightarrow> failM (Errorf ''active multicast stream %s/%s has no runtime state''
             [ABytes (AsSlice source), ABytes (AsSlice (ckGroup client))])
      | Some clients \<Rightarrow>
      let g = clientGroupOf request decision excluded in
      thenM (putM (dropPending \<lparr> pendingStream = key, pendingIdentity = identity \<rparr>))
     (bindM nowM (\<lambda>now.
      let previousClient = lookup zeroClient clients identity;
          stream = AList.update identity \<lparr> clientGroup = g, clientTags = tags, lastSeen = now \<rparr> clients;
          cur = effectiveReplicationGroup stream;
          changed = (\<not> sameReplicationGroup (effectiveReplicationGroup clients) cur) in
      thenM (putM (putStream key stream))
     (thenM (if \<not> changed then returnM ()
             else bindM (tryM (setReplication True binding profile cur ''update multicast replication: %w'')) (\<lambda>result.
               case result of
                 Inl err \<Rightarrow> thenM (putM (putStream key (AList.update identity previousClient clients))) (failM err)
               | Inr _ \<Rightarrow> returnM ()))
      (reportJoin binding client key profile g cur tags changed))))))))"

text \<open>The report after a client is gone: of the client alone, or of the group if its membership changed.\<close>

definition reportLeave :: "subscriberBinding \<Rightarrow> runtimeStreamKey \<Rightarrow> Profile \<Rightarrow> ActiveGroup \<Rightarrow> ActiveGroup option \<Rightarrow> bytes
    \<Rightarrow> VLANTag list \<Rightarrow> ('w, unit) mc" where
  "reportLeave binding key profile own previousUpstream mac tags =
     (if IGMPFunction profile = 0 then sendReportLocked (upstreamReport False binding profile own mac tags)
      else case previousUpstream of
        None \<Rightarrow> returnM ()
      | Some previous \<Rightarrow>
          bindM (effectiveUpstreamGroup key) (\<lambda>now.
          case now of
            Some cur \<Rightarrow> if sameMembershipGroup previous cur then returnM ()
                        else sendReportLocked (upstreamReport True binding profile cur mac tags)
          | None \<Rightarrow> sendReportLocked (upstreamReport False binding profile (emptyMembershipGroup previous) mac tags)))"

definition finalizeClientLocked :: "subscriberBinding \<Rightarrow> runtimeStreamKey \<Rightarrow> clientIdentity \<Rightarrow> Profile \<Rightarrow> runtimeClient \<Rightarrow> bool
    \<Rightarrow> ('w, unit) mc" where
  "finalizeClientLocked binding key identity profile active sendReport =
     bindM (getM (\<lambda>r. map_of (runtimeStreams r) key)) (\<lambda>stream0.
     case stream0 of
       None \<Rightarrow> returnM ()
     | Some clients \<Rightarrow>
     if map_of clients identity = None then returnM ()
     else
       let isLast = (length clients = 1); left = AList.delete identity clients; g = clientGroup active;
           request = \<lparr> JoinSubscriber = SubscriberEntity (boundSubscriber binding),
             JoinInterface = Interface (boundAttachment binding), JoinVLAN = UNIVLAN g, JoinSource = GroupSource g,
             JoinGroup = GroupAddr g, JoinClient = GroupClient g \<rparr> in
       bindM (effectiveUpstreamGroup key) (\<lambda>previousUpstream.
       thenM (if isLast then setReplication False binding profile g ''disable multicast replication: %w'' else returnM ())
      (bindM (leaveM request) (\<lambda>present.
       if \<not> present
       then failM (Errorf ''active multicast stream %s/%s is missing from policy state''
              [ABytes (AsSlice (GroupSource g)), ABytes (AsSlice (GroupAddr g))])
       else
       thenM (putM (putStream key left))
      (thenM (putM (dropPending \<lparr> pendingStream = key, pendingIdentity = identity \<rparr>))
      (thenM (if isLast then putM (\<lambda>r. r\<lparr>runtimeStreams := AList.delete key (runtimeStreams r)\<rparr>)
              else if sameReplicationGroup (effectiveReplicationGroup clients) (effectiveReplicationGroup left) then returnM ()
              else setReplication True binding profile (effectiveReplicationGroup left)
                     ''update multicast replication after leave: %w'')
       (if sendReport
        then reportLeave binding key profile g previousUpstream (idMAC identity) (clientTags active)
        else returnM ())))))))"

definition removeLocked :: "subscriberBinding \<Rightarrow> clientGroupKey \<Rightarrow> Addr \<Rightarrow> VLANTag list \<Rightarrow> ('w, unit) mc" where
  "removeLocked binding client source tags =
     (let key = streamOf client binding source; identity = identityOf client in
      bindM (getM (\<lambda>r. map_of (runtimeStreams r) key)) (\<lambda>stream0.
      case stream0 of
        None \<Rightarrow> returnM ()
      | Some clients \<Rightarrow>
      case map_of clients identity of
        None \<Rightarrow> returnM ()
      | Some active \<Rightarrow>
      let g = clientGroup active in
      bindM (getM (\<lambda>r. map_option (\<lambda>p. (p, effectiveProfile r (Interface (boundAttachment binding)) p))
               (map_of (runtimeProfiles r) (GroupProfile g)))) (\<lambda>found.
      case found of
        None \<Rightarrow> failM (Errorf ''active multicast stream references missing profile %#x'' [AU (GroupProfile g)])
      | Some (profile, effective) \<Rightarrow>
      if length clients \<noteq> 1 \<or> ImmediateLeave profile
      then finalizeClientLocked binding key identity profile active True
      else
        thenM (backendM (\<lambda>b. SendQuery b \<lparr> QuerySubscriber = boundSubscriber binding,
                  QueryAttachment = boundAttachment binding, QueryProfile = effective, QueryGroup = GroupAddr g,
                  QuerySource = (if IsUnspecified (GroupSource g) then NoAddr else GroupSource g), QueryTags = tags \<rparr>)
                (\<lambda>err. Errorf ''send last-member multicast query: %w'' [AErr err]))
       (thenM (if IGMPFunction profile = 0
               then sendReportLocked (upstreamReport False binding profile g (ckMAC client) tags)
               else returnM ())
       (bindM nowM (\<lambda>now.
        putM (\<lambda>r. r\<lparr>pendingLeaves := AList.update \<lparr> pendingStream = key, pendingIdentity = identity \<rparr>
          \<lparr> leaveBinding = binding, leaveProfile = effective, leaveGroup = g, leaveTags = tags,
            remaining = effectiveRobustness effective - 1,
            leaveNext = now + effectiveLastMemberInterval effective \<rparr> (pendingLeaves r)\<rparr>)))))))"

definition applyRecordLocked :: "subscriberBinding \<Rightarrow> MembershipMessage \<Rightarrow> MembershipRecord \<Rightarrow> ('w, unit) mc" where
  "applyRecordLocked binding message record =
     (let key = \<lparr> ckSubscriber = SubscriberEntity (boundSubscriber binding),
            ckInterface = Interface (boundAttachment binding), ckClient = Client message, ckMAC = SourceMAC message,
            ckVLAN = MsgVLAN message, ckGroup = RecordGroup record \<rparr>; bits = BitLen (Client message) in
      bindM (getM (\<lambda>r. lookup zeroMembership (memberships r) key)) (\<lambda>held.
      let wanted = transitionMembership held record;
          beforeForwarding = forwardingSources held bits; wantedForwarding = forwardingSources wanted bits;
          excluded = sortedSources (sourcesOf wanted) in
      bindM (forM (\<lambda>source after. thenM (removeLocked binding key source (Tags message)) (returnM (after - {source})))
               (sortedSourceDifference beforeForwarding wantedForwarding) beforeForwarding) (\<lambda>kept.
      bindM (forM (\<lambda>source after. bindM (addLocked binding key source excluded (Tags message)) (\<lambda>accepted.
                 returnM (if accepted then insert source after else after)))
               (sortedSourceDifference wantedForwarding beforeForwarding) kept) (\<lambda>afterForwarding.
      thenM (forM (\<lambda>source _. refreshLocked binding key source excluded (Tags message))
               (sortedSourceIntersection beforeForwarding wantedForwarding) ())
       (putM (\<lambda>r. r\<lparr>memberships :=
          (if afterForwarding = {} then AList.delete key (memberships r)
           else AList.update key
             (if filterOf wanted = FilterInclude then wanted\<lparr>sourcesOf := afterForwarding\<rparr> else wanted)
             (memberships r))\<rparr>))))))"

definition HandleReport :: "string \<Rightarrow> MembershipMessage \<Rightarrow> ('w, unit) mc" where
  "HandleReport interfaceName message =
     bindM (getM (\<lambda>r. map_of (bindings r) interfaceName)) (\<lambda>found.
     case found of
       None \<Rightarrow> failM (Errorf ''multicast report arrived on unmanaged interface %s'' [AStr interfaceName])
     | Some binding \<Rightarrow>
         if Downstream message then
           (if MsgKind message = MessageQuery then putM (learnQueryLocked binding message) else returnM ())
         else if MsgKind message \<noteq> MessageReport then returnM ()
         else forM (\<lambda>record _. applyRecordLocked binding message record) (Records message) ())"

section \<open>Timers\<close>

text \<open>The entries of the memberships that an expired group belongs to.\<close>

definition forgetExpired :: "u16 \<Rightarrow> ActiveGroup \<Rightarrow> (clientGroupKey, membershipState) gomap \<Rightarrow> (clientGroupKey, membershipState) gomap" where
  "forgetExpired subscriberID g ms =
     concat (map (\<lambda>(key, membership).
       if ckSubscriber key = subscriberID \<and> ckInterface key = GroupInterface g \<and> ckClient key = GroupClient g
          \<and> ckVLAN key = UNIVLAN g \<and> ckGroup key = GroupAddr g
       then (if filterOf membership = FilterExclude \<and> IsUnspecified (GroupSource g) then []
             else let sources = sourcesOf membership - {GroupSource g} in
               if sources = {} then [] else [(key, membership\<lparr>sourcesOf := sources\<rparr>)])
       else [(key, membership)]) ms)"

definition expireGroup :: "ActiveGroup \<Rightarrow> ('w, unit) mc" where
  "expireGroup g =
     bindM (getM (\<lambda>r. lookup zeroBinding (bindings r) (GroupInterface g))) (\<lambda>binding.
     let key = \<lparr> rsSubscriber = SubscriberEntity (boundSubscriber binding), rsInterface = GroupInterface g,
                 rsSource = GroupSource g, rsGroup = GroupAddr g, rsVLAN = UNIVLAN g \<rparr> in
     bindM (getM (\<lambda>r. map_of (runtimeStreams r) key)) (\<lambda>stream0.
     case stream0 of
       None \<Rightarrow> returnM ()
     | Some clients \<Rightarrow>
     bindM (effectiveUpstreamGroup key) (\<lambda>previousUpstream.
     let (identity, active) = (case find (\<lambda>(candidate, _). idAddress candidate = GroupClient g) clients of
            Some found \<Rightarrow> found | None \<Rightarrow> (zeroIdentity, zeroClient));
         left = AList.delete identity clients in
     thenM (putM (dropPending \<lparr> pendingStream = key, pendingIdentity = identity \<rparr>))
    (thenM (putM (putStream key left))
    (bindM (getM (\<lambda>r. lookup zeroProfile (runtimeProfiles r) (GroupProfile g))) (\<lambda>profile.
     thenM (if left = [] then
              thenM (setReplication False binding profile g ''expire multicast replication: %w'')
               (putM (\<lambda>r. r\<lparr>runtimeStreams := AList.delete key (runtimeStreams r)\<rparr>))
            else if sameReplicationGroup (effectiveReplicationGroup clients) (effectiveReplicationGroup left)
            then returnM ()
            else setReplication True binding profile (effectiveReplicationGroup left)
                   ''update multicast replication after expiry: %w'')
    (thenM (putM (\<lambda>r. r\<lparr>memberships := forgetExpired (SubscriberEntity (boundSubscriber binding)) g (memberships r)\<rparr>))
     (reportLeave binding key profile g previousUpstream (idMAC identity) (clientTags active)))))))))"

definition runGeneralQueriesLocked :: "Time \<Rightarrow> ('w, unit) mc" where
  "runGeneralQueriesLocked now =
     bindM (getM (\<lambda>r. [0..<length (generalQueries r)])) (\<lambda>indices.
     forM (\<lambda>index _.
       bindM (getM (\<lambda>r. generalQueries r ! index)) (\<lambda>query.
       if queryNext query > now then returnM ()
       else
         let binding = queryBinding query in
         bindM (getM (\<lambda>r. effectiveProfile r (Interface (boundAttachment binding)) (proxyProfile query))) (\<lambda>profile.
         thenM (backendM (\<lambda>b. SendQuery b \<lparr> QuerySubscriber = boundSubscriber binding,
                   QueryAttachment = boundAttachment binding, QueryProfile = profile, QueryGroup = NoAddr,
                   QuerySource = NoAddr, QueryTags = generalTags query \<rparr>)
                 (\<lambda>err. Errorf ''send general multicast query on %s: %w''
                   [AStr (Interface (boundAttachment binding)), AErr err]))
          (putM (\<lambda>r. r\<lparr>generalQueries := (generalQueries r)[index :=
             query\<lparr>queryNext := now + secondsDuration (ucast (effectiveQueryInterval profile))\<rparr>]\<rparr>)))))
       indices ())"

definition runPendingLeave :: "Time \<Rightarrow> pendingLeaveKey \<Rightarrow> ('w, unit) mc" where
  "runPendingLeave now key =
     bindM (getM (\<lambda>r. map_of (pendingLeaves r) key)) (\<lambda>found.
     case found of
       None \<Rightarrow> returnM ()
     | Some pending \<Rightarrow>
     if leaveNext pending > now then returnM ()
     else
     bindM (getM (\<lambda>r. map_of (runtimeStreams r) (pendingStream key))) (\<lambda>stream0.
     case (case stream0 of None \<Rightarrow> None | Some clients \<Rightarrow> map_of clients (pendingIdentity key)) of
       None \<Rightarrow> putM (dropPending key)
     | Some active \<Rightarrow>
     if remaining pending \<noteq> 0 then
       (let binding = leaveBinding pending; g = leaveGroup pending in
        thenM (backendM (\<lambda>b. SendQuery b \<lparr> QuerySubscriber = boundSubscriber binding,
                  QueryAttachment = boundAttachment binding, QueryProfile = leaveProfile pending,
                  QueryGroup = GroupAddr g,
                  QuerySource = (if IsUnspecified (GroupSource g) then NoAddr else GroupSource g),
                  QueryTags = leaveTags pending \<rparr>)
                (\<lambda>err. Errorf ''repeat last-member multicast query: %w'' [AErr err]))
         (putM (\<lambda>r. r\<lparr>pendingLeaves := AList.update key (pending\<lparr>remaining := remaining pending - 1,
            leaveNext := now + effectiveLastMemberInterval (leaveProfile pending)\<rparr>) (pendingLeaves r)\<rparr>)))
     else finalizeClientLocked (leaveBinding pending) (pendingStream key) (pendingIdentity key)
            (leaveProfile pending) active (IGMPFunction (leaveProfile pending) \<noteq> 0)))"

definition runPendingLeavesLocked :: "Time \<Rightarrow> ('w, unit) mc" where
  "runPendingLeavesLocked now =
     bindM (getM (\<lambda>r. sort_key (\<lambda>key. (rsInterface (pendingStream key), rsGroup (pendingStream key),
                idAddress (pendingIdentity key))) (map fst (pendingLeaves r)))) (\<lambda>keys.
     forM (\<lambda>key _. runPendingLeave now key) keys ())"

record staleClient =
  staleStream :: runtimeStreamKey
  staleIdentity :: clientIdentity
  staleActive :: runtimeClient
  staleProfile :: Profile
  staleBinding :: subscriberBinding

definition staleClients :: "Time \<Rightarrow> 'w Runtime \<Rightarrow> staleClient list" where
  "staleClients now r =
     concat (map (\<lambda>(key, stream). concat (map (\<lambda>(identity, active).
       let profile = effectiveProfile r (rsInterface key) (lookup zeroProfile (runtimeProfiles r) (GroupProfile (clientGroup active))) in
       if IGMPFunction profile \<noteq> 2 then []
       else if map_of (pendingLeaves r) \<lparr> pendingStream = key, pendingIdentity = identity \<rparr> \<noteq> None then []
       else if lastSeen active + membershipInterval profile > now then []
       else [\<lparr> staleStream = key, staleIdentity = identity, staleActive = active, staleProfile = profile,
               staleBinding = lookup zeroBinding (bindings r) (rsInterface key) \<rparr>]) stream)) (runtimeStreams r))"

definition expireProxyMembershipsLocked :: "Time \<Rightarrow> ('w, unit) mc" where
  "expireProxyMembershipsLocked now =
     bindM (getM (staleClients now)) (\<lambda>stale.
     forM (\<lambda>client _.
       bindM (tryM (finalizeClientLocked (staleBinding client) (staleStream client) (staleIdentity client)
                (staleProfile client) (staleActive client) True)) (\<lambda>result.
       case result of
         Inl err \<Rightarrow> failM (Errorf ''expire proxy multicast membership: %w'' [AErr err])
       | Inr _ \<Rightarrow> returnM ())) stale ())"

definition ExpireRuntime :: "('w, unit) mc" where
  "ExpireRuntime =
     bindM nowM (\<lambda>now.
     bindM nowM (\<lambda>expiredAt.
     bindM (policyM (Expire expiredAt)) (\<lambda>expired.
     thenM (forM (\<lambda>g _. expireGroup g) expired ())
    (thenM (runGeneralQueriesLocked now)
    (thenM (runPendingLeavesLocked now)
      (expireProxyMembershipsLocked now))))))"

section \<open>Monitoring\<close>

text \<open>The bandwidth of the distinct streams: the sample of a stream, or else what its ACL row imputes.\<close>

fun sampledBandwidth :: "u16 \<Rightarrow> samples \<Rightarrow> ActiveGroup list \<Rightarrow> BandwidthKey list \<Rightarrow> u64 \<Rightarrow> u64" where
  "sampledBandwidth subscriberID bandwidth [] seen acc = acc"
| "sampledBandwidth subscriberID bandwidth (g # gs) seen acc =
     (let key = \<lparr> SampleSubscriber = subscriberID, SampleInterface = GroupInterface g, SampleSource = GroupSource g,
                  SampleGroup = GroupAddr g, SampleVLAN = UNIVLAN g \<rparr> in
      if key \<in> set seen then sampledBandwidth subscriberID bandwidth gs seen acc
      else sampledBandwidth subscriberID bandwidth gs (key # seen)
             (acc + ucast (case map_of bandwidth key of Some sampled \<Rightarrow> sampled | None \<Rightarrow> ImputedBandwidth g)))"

definition MonitorRuntime :: "u16 \<Rightarrow> ('w, Monitor) mc" where
  "MonitorRuntime subscriberID =
     bindM nowM (\<lambda>now. bindM (policyM (MonitorStatus now subscriberID)) (\<lambda>result.
     bindM (getM (\<lambda>r. (Sampler (backend r), bandwidthSamples r))) (\<lambda>(sampler, samples).
     case sampler of
       None \<Rightarrow> returnM result
     | Some _ \<Rightarrow>
         (let bandwidth = sampledBandwidth subscriberID samples (MonitorGroups result) [] 0 in
          returnM (result\<lparr>CurrentBandwidth := (if bandwidth > 0xffffffff then 0xffffffff else ucast bandwidth)\<rparr>)))))"

definition SampleBandwidth :: "('w, unit) mc" where
  "SampleBandwidth r w =
     (case Sampler (backend r) of
        None \<Rightarrow> (Ok (), r\<lparr>bandwidthSamples := []\<rparr>, w)
      | Some sample \<Rightarrow> (case sample w of
            (Ok values, w') \<Rightarrow> (Ok (), r\<lparr>bandwidthSamples := values\<rparr>, w')
          | (Err err, w') \<Rightarrow> (Err err, r\<lparr>bandwidthSamples := []\<rparr>, w')
          | (Panic, w') \<Rightarrow> (Panic, r, w')))"

definition RuntimePreviewTimers :: "u16 \<Rightarrow> ('w, PreviewTimer list) mc" where
  "RuntimePreviewTimers subscriberID =
     bindM nowM (\<lambda>now. policyM (\<lambda>e. (AllowedPreviewTimers now subscriberID e, e)))"

definition SubscriberIDs :: "'w Runtime \<Rightarrow> u16 list" where
  "SubscriberIDs r = sort (remdups (map SubscriberEntity (Subscribers (runtimeConfig r))))"

definition Interfaces :: "'w Runtime \<Rightarrow> string list" where
  "Interfaces r = sort (map fst (bindings r))"

end
