(* ===== verification/McRuntimeLogic.thy ===== *)
theory McRuntimeLogic
  imports McRuntime
begin

text \<open>
  Weakest preconditions of runtime methods, and methods that keep a property of the runtime and the
  world; the collections \<open>wpM\<close> and \<open>keepsM\<close> compute both over the combinators.
\<close>

section \<open>Weakest preconditions of runtime methods\<close>

named_theorems wpM \<open>weakest preconditions of runtime methods\<close>
named_theorems keepsM \<open>runtime methods that keep a property\<close>

definition wpM :: "('w, 'a) mc \<Rightarrow> ((go_error, 'a) outcome \<Rightarrow> 'w Runtime \<Rightarrow> 'w \<Rightarrow> bool) \<Rightarrow> 'w Runtime \<Rightarrow> 'w \<Rightarrow> bool" where
  "wpM m Q r w = (case m r w of (x, r', w') \<Rightarrow> Q x r' w')"

lemma wpM_pure [wpM]: "wpM (pureM x) Q r w = Q x r w"
  by (simp add: wpM_def pureM_def)

lemma wpM_bind [wpM]: "wpM (bindM m k) Q r w = wpM m (\<lambda>x r w. case x of Ok y \<Rightarrow> wpM (k y) Q r w
    | Err err \<Rightarrow> Q (Err err) r w | Panic \<Rightarrow> Q Panic r w) r w"
  by (simp add: wpM_def bindM_def split: prod.splits outcome.splits)

lemma wpM_try [wpM]: "wpM (tryM m) Q r w = wpM m (\<lambda>x r w. case x of Ok y \<Rightarrow> Q (Ok (Inr y)) r w
    | Err err \<Rightarrow> Q (Ok (Inl err)) r w | Panic \<Rightarrow> Q Panic r w) r w"
  by (simp add: wpM_def tryM_def split: prod.splits outcome.splits)

lemma wpM_get [wpM]: "wpM (getM f) Q r w = Q (Ok (f r)) r w"
  by (simp add: wpM_def getM_def)

lemma wpM_put [wpM]: "wpM (putM f) Q r w = Q (Ok ()) (f r) w"
  by (simp add: wpM_def putM_def)

lemma wpM_now [wpM]: "wpM nowM Q r w = Q (Ok (fst (runtimeClock r w))) r (snd (runtimeClock r w))"
  by (simp add: wpM_def nowM_def split: prod.splits)

lemma wpM_backend [wpM]: "wpM (backendM call wrap) Q r w =
    (case call (backend r) w of (None, w') \<Rightarrow> Q (Ok ()) r w' | (Some err, w') \<Rightarrow> Q (Err (wrap err)) r w')"
  by (simp add: wpM_def backendM_def split: prod.splits option.splits)

lemma wpM_policy [wpM]: "wpM (policyM step) Q r w =
    (case runtimeEngine r of None \<Rightarrow> Q Panic r w
     | Some e \<Rightarrow> Q (Ok (fst (step e))) (r\<lparr>runtimeEngine := Some (snd (step e))\<rparr>) w)"
  by (simp add: wpM_def policyM_def split: prod.splits option.splits)

lemma wpM_mono: "wpM m Q r w \<Longrightarrow> (\<And>x r w. Q x r w \<Longrightarrow> Q' x r w) \<Longrightarrow> wpM m Q' r w"
  by (simp add: wpM_def split: prod.splits)

definition keepsM :: "('w Runtime \<Rightarrow> 'w \<Rightarrow> bool) \<Rightarrow> ('w, 'a) mc \<Rightarrow> bool" where
  "keepsM P m = (\<forall>r w. P r w \<longrightarrow> wpM m (\<lambda>_. P) r w)"

lemma keepsM_D: "keepsM P m \<Longrightarrow> P r w \<Longrightarrow> wpM m (\<lambda>_. P) r w"
  by (simp add: keepsM_def)

lemma keepsM_pure [keepsM]: "keepsM P (pureM x)" by (simp add: keepsM_def wpM)
lemma keepsM_get [keepsM]: "keepsM P (getM f)" by (simp add: keepsM_def wpM)

lemma keepsM_bind [keepsM]: "keepsM P m \<Longrightarrow> (\<And>x. keepsM P (k x)) \<Longrightarrow> keepsM P (bindM m k)"
  unfolding keepsM_def wpM_bind by (intro allI impI, erule allE, erule allE, erule (1) impE, erule wpM_mono) (simp split: outcome.splits)

text \<open>A value that a method reads may be used by what follows, if it satisfies something static.\<close>

lemma keepsM_read: "(\<And>r w. P r w \<Longrightarrow> S (f r)) \<Longrightarrow> (\<And>x. S x \<Longrightarrow> keepsM P (k x)) \<Longrightarrow> keepsM P (bindM (getM f) k)"
  by (auto simp: keepsM_def wpM)

lemma keepsM_try [keepsM]: "keepsM P m \<Longrightarrow> keepsM P (tryM m)"
  unfolding keepsM_def wpM_try by (intro allI impI, erule allE, erule allE, erule (1) impE, erule wpM_mono) (simp split: outcome.splits)

lemma keepsM_put [keepsM]: "(\<And>r w. P r w \<Longrightarrow> P (f r) w) \<Longrightarrow> keepsM P (putM f)"
  by (simp add: keepsM_def wpM)

lemma keepsM_for: "(\<And>x s. x \<in> set xs \<Longrightarrow> keepsM P (f x s)) \<Longrightarrow> keepsM P (forM f xs s)"
  by (induction xs arbitrary: s) (simp_all add: keepsM)

lemma keepsM_if [keepsM]: "(b \<Longrightarrow> keepsM P m) \<Longrightarrow> (\<not> b \<Longrightarrow> keepsM P k) \<Longrightarrow> keepsM P (if b then m else k)"
  by simp

lemma keepsM_option [keepsM]:
  "(x = None \<Longrightarrow> keepsM P m) \<Longrightarrow> (\<And>y. x = Some y \<Longrightarrow> keepsM P (k y)) \<Longrightarrow> keepsM P (case x of None \<Rightarrow> m | Some y \<Rightarrow> k y)"
  by (cases x) simp_all

lemma keepsM_sum [keepsM]:
  "(\<And>a. keepsM P (m a)) \<Longrightarrow> (\<And>b. keepsM P (k b)) \<Longrightarrow> keepsM P (case x of Inl a \<Rightarrow> m a | Inr b \<Rightarrow> k b)"
  by (cases x) simp_all

lemma keepsM_prod [keepsM]: "(\<And>a b. x = (a, b) \<Longrightarrow> keepsM P (m a b)) \<Longrightarrow> keepsM P (case x of (a, b) \<Rightarrow> m a b)"
  by (cases x) simp

end
