(* ===== verification/McRuntimeProofs.thy ===== *)
theory McRuntimeProofs
  imports McRuntime
begin

text \<open>
  Facts about the multicast runtime: the filter that a client's reports build, the group that the proxy
  reports upstream, what stays replicated, and two runs in which the runtime and the policy part ways.
\<close>

section \<open>A ledger of the replications\<close>

text \<open>
  The world of a backend with a ledger: the time, which the caller of the runtime advances, and the
  replication changes, the latest first.
\<close>

record ledger =
  ledgerTime :: Time
  ledgerChanges :: "ReplicationChange list"

definition ledgerClock :: "ledger \<Rightarrow> Time \<times> ledger" where
  "ledgerClock w = (ledgerTime w, w)"

definition ledgerBackend :: "ledger RuntimeBackend" where
  "ledgerBackend = noopRuntimeBackend\<lparr>SetReplication := (\<lambda>c w. (None, w\<lparr>ledgerChanges := c # ledgerChanges w\<rparr>))\<rparr>"

section \<open>A preview that outlives its time\<close>

definition previewACL :: ACLEntry where
  "previewACL = \<lparr> RowKey = 1, IPVersion = 4, AclGEMPortID = 100, VLANID = 0, AclSource = NoAddr, Start = Addr4 0xe8000000,
     Stop = Addr4 0xe80000ff, AclBandwidth = 1000, PreviewLength = 60, PreviewRepeatTime = 0, PreviewRepeatCount = 1,
     PreviewResetTime = 0 \<rparr>"

definition fullACL :: ACLEntry where
  "fullACL = previewACL\<lparr>PreviewLength := 0\<rparr>"

definition sampleProfile :: "ACLEntry list \<Rightarrow> Profile" where
  "sampleProfile acl = zeroProfile\<lparr>ProfileEntity := 1, IGMPVersion := 3, ImmediateLeave := True, DynamicACL := acl\<rparr>"

definition sampleAttachment :: Attachment where
  "sampleAttachment = \<lparr> Interface = ''lan0'', BridgeEntity = 1, BridgePortEntity = 1, DirectMapper = None \<rparr>"

definition sampleSubscriber :: Subscriber where
  "sampleSubscriber = (boundSubscriber zeroBinding)\<lparr>SubscriberEntity := 7, Attachments := [sampleAttachment], SubscriberProfile := 1\<rparr>"

definition sampleConfig :: "ACLEntry list \<Rightarrow> Config" where
  "sampleConfig acl = \<lparr> Profiles = [sampleProfile acl], Subscribers = [sampleSubscriber] \<rparr>"

definition sampleReport :: "bytes \<Rightarrow> u8 \<Rightarrow> Addr list \<Rightarrow> MembershipMessage" where
  "sampleReport mac type sources = zeroMessage\<lparr>MsgKind := MessageReport, MsgVersion := 3, Client := Addr4 0, SourceMAC := mac,
     Records := [\<lparr> RecordType = type, RecordGroup = Addr4 0xe8000001, Sources = sources \<rparr>]\<rparr>"

definition advance :: "Duration \<Rightarrow> (ledger, unit) mc" where
  "advance d r w = (Ok (), r, w\<lparr>ledgerTime := ledgerTime w + d\<rparr>)"

definition startAt :: ledger where
  "startAt = \<lparr> ledgerTime = 1000000 * nsSecond, ledgerChanges = [] \<rparr>"

definition runFrom :: "Config \<Rightarrow> (ledger, 'a) mc \<Rightarrow> (go_error, 'a) outcome \<times> ledger Runtime \<times> ledger" where
  "runFrom c m = (case NewRuntime c (Some ledgerBackend) ledgerClock 0 startAt of
      (Ok r, w) \<Rightarrow> m r w)"

abbreviation allSources :: u8 where "allSources \<equiv> ChangeToExcludeMode"
abbreviation noSource :: u8 where "noSource \<equiv> ChangeToIncludeMode"

text \<open>
  A client joins on a 60 s preview and the time of the preview passes. \<open>Expire\<close> stops the replication;
  but when the monitor is read first, the policy drops the group, \<open>Expire\<close> finds nothing, and the
  stream stays enabled.
\<close>

lemma preview_stops:
  "case runFrom (sampleConfig [previewACL])
     (thenM (HandleReport ''lan0'' (sampleReport [1, 2, 3, 4, 5, 6] allSources []))
     (thenM (advance (61 * nsSecond)) ExpireRuntime)) of
     (result, r, w) \<Rightarrow> result = Ok () \<and> map Enable (ledgerChanges w) = [False, True] \<and> runtimeStreams r = []"
  by code_simp

lemma preview_outlives_its_time:
  "case runFrom (sampleConfig [previewACL])
     (thenM (HandleReport ''lan0'' (sampleReport [1, 2, 3, 4, 5, 6] allSources []))
     (thenM (advance (61 * nsSecond))
     (thenM (MonitorRuntime 7) ExpireRuntime))) of
     (result, r, w) \<Rightarrow> result = Ok () \<and> map Enable (ledgerChanges w) = [True] \<and> length (runtimeStreams r) = 1
       \<and> map_option states (runtimeEngine r) = Some [(7, emptyState\<lparr>joinMessages := 1\<rparr>)]"
  by code_simp

section \<open>Two clients that share an address\<close>

text \<open>
  The runtime tells clients apart by address and MAC, the policy by address only. When two of them
  leave, the second one disables the replication and then fails, because its entry of the policy went
  with the first; the stream stays in the runtime, and a client that joins again is not served.
\<close>

lemma shared_address_stuck:
  "case runFrom (sampleConfig [fullACL])
     (thenM (HandleReport ''lan0'' (sampleReport [1, 2, 3, 4, 5, 6] allSources []))
     (thenM (HandleReport ''lan0'' (sampleReport [1, 2, 3, 4, 5, 7] allSources []))
     (thenM (HandleReport ''lan0'' (sampleReport [1, 2, 3, 4, 5, 6] noSource []))
     (bindM (tryM (HandleReport ''lan0'' (sampleReport [1, 2, 3, 4, 5, 7] noSource []))) (\<lambda>second.
      thenM (HandleReport ''lan0'' (sampleReport [1, 2, 3, 4, 5, 6] allSources []))
      (returnM second)))))) of
     (result, r, w) \<Rightarrow> result = Ok (Inl (Errorf ''active multicast stream %s/%s is missing from policy state''
           [ABytes [0, 0, 0, 0], ABytes [232, 0, 0, 1]]))
       \<and> map Enable (ledgerChanges w) = [False, True] \<and> length (runtimeStreams r) = 1"
  by code_simp

end
