(* ===== verification/McTracked.thy ===== *)
theory McTracked
  imports McRuntimeLogic McRuntimeProofs
begin

text \<open>
  Invariants of the multicast runtime over every sequence of its operations, on a backend
  whose \<open>SetReplication\<close> never fails (\<open>reliable\<close>): an observer beside the backend collects the streams that it replicates. \<open>tracked\<close> is kept by every
  method, for fixed bindings; a reconfiguration starts over. What the proxy reports upstream is
  compared with the filters of the clients.
\<close>

section \<open>An observer of the replication\<close>

text \<open>The streams that a backend replicates, by the changes that it accepted.\<close>

definition changeKey :: "ReplicationChange \<Rightarrow> runtimeStreamKey" where
  "changeKey c = \<lparr> rsSubscriber = SubscriberEntity (ChangeSubscriber c), rsInterface = Interface (ChangeAttachment c),
     rsSource = GroupSource (ChangeGroup c), rsGroup = GroupAddr (ChangeGroup c), rsVLAN = UNIVLAN (ChangeGroup c) \<rparr>"

type_synonym 'v watched = "'v \<times> runtimeStreamKey set"

definition lifted :: "('v \<Rightarrow> 'a \<times> 'v) \<Rightarrow> 'v watched \<Rightarrow> 'a \<times> 'v watched" where
  "lifted f w = (fst (f (fst w)), (snd (f (fst w)), snd w))"

definition watchedBackend :: "'v RuntimeBackend \<Rightarrow> 'v watched RuntimeBackend" where
  "watchedBackend b = \<lparr>
     ConfigureBackend = (\<lambda>c w. case ConfigureBackend b c (fst w) of
         (None, v) \<Rightarrow> (None, (v, {})) | (Some err, v) \<Rightarrow> (Some err, (v, snd w))),
     SetReplication = (\<lambda>c w. case SetReplication b c (fst w) of
         (None, v) \<Rightarrow> (None, (v, if Enable c then insert (changeKey c) (snd w) else snd w - {changeKey c}))
       | (Some err, v) \<Rightarrow> (Some err, (v, snd w))),
     SendReport = (\<lambda>report. lifted (SendReport b report)),
     SendQuery = (\<lambda>query. lifted (SendQuery b query)),
     Sampler = map_option lifted (Sampler b) \<rparr>"

definition reliable :: "'v RuntimeBackend \<Rightarrow> bool" where
  "reliable b = (\<forall>c v. fst (SetReplication b c v) = None)"

lemma wp_setReplication:
  assumes "reliable b" "backend r = watchedBackend b"
    and after: "\<And>v. Q (Ok ()) r (v, let k = \<lparr> rsSubscriber = SubscriberEntity (boundSubscriber binding),
        rsInterface = Interface (boundAttachment binding), rsSource = GroupSource g, rsGroup = GroupAddr g, rsVLAN = UNIVLAN g \<rparr>
      in if enable then insert k (snd w) else snd w - {k})"
  shows "wpM (setReplication enable binding profile g what) Q r w"
proof -
  let ?c = "\<lparr> Enable = enable, ChangeSubscriber = boundSubscriber binding,
         ChangeAttachment = boundAttachment binding, ChangeProfile = profile, ChangeGroup = g \<rparr>"
  obtain v where "SetReplication b ?c (fst w) = (None, v)"
    using assms(1) unfolding reliable_def by (metis prod.collapse)
  then show ?thesis using assms(2) after [of v]
    by (cases enable) (simp_all add: setReplication_def wpM watchedBackend_def changeKey_def Let_def)
qed

section \<open>The invariant\<close>

definition ofStream :: "runtimeStreamKey \<Rightarrow> ActiveGroup \<Rightarrow> bool" where
  "ofStream key g = (GroupInterface g = rsInterface key \<and> GroupSource g = rsSource key \<and> GroupAddr g = rsGroup key
     \<and> UNIVLAN g = rsVLAN key)"

definition wf_stream :: "runtimeStreamKey \<Rightarrow> runtimeStream \<Rightarrow> bool" where
  "wf_stream key clients = (clients \<noteq> [] \<and> gm_wf clients
     \<and> (\<forall>(_, client) \<in> set clients. ofStream key (clientGroup client)))"

definition wf_key :: "(string, subscriberBinding) gomap \<Rightarrow> runtimeStreamKey \<Rightarrow> bool" where
  "wf_key bs key = (IsValid (rsGroup key) \<and> (case map_of bs (rsInterface key) of None \<Rightarrow> False
     | Some binding \<Rightarrow> SubscriberEntity (boundSubscriber binding) = rsSubscriber key))"

definition wf_streams :: "(string, subscriberBinding) gomap \<Rightarrow> (runtimeStreamKey, runtimeStream) gomap \<Rightarrow> bool" where
  "wf_streams bs all = (gm_wf all \<and> (\<forall>(key, clients) \<in> set all. wf_key bs key \<and> wf_stream key clients))"

definition wf_bindings :: "(string, subscriberBinding) gomap \<Rightarrow> bool" where
  "wf_bindings bs = (\<forall>(i, binding) \<in> set bs. Interface (boundAttachment binding) = i)"

definition wf_leaves :: "(string, subscriberBinding) gomap \<Rightarrow> (pendingLeaveKey, pendingLeave) gomap \<Rightarrow> bool" where
  "wf_leaves bs leaves = (\<forall>(key, leave) \<in> set leaves. map_of bs (rsInterface (pendingStream key)) = Some (leaveBinding leave))"

definition tracked :: "'v RuntimeBackend \<Rightarrow> ('v \<Rightarrow> Time \<times> 'v) \<Rightarrow> (string, subscriberBinding) gomap
    \<Rightarrow> 'v watched Runtime \<Rightarrow> 'v watched \<Rightarrow> bool" where
  "tracked b c bs r w = (reliable b \<and> wf_bindings bs \<and> backend r = watchedBackend b \<and> runtimeClock r = lifted c \<and> bindings r = bs
     \<and> wf_streams bs (runtimeStreams r) \<and> wf_leaves bs (pendingLeaves r) \<and> snd w \<subseteq> fst ` set (runtimeStreams r))"


lemma tracked_simps [simp]:
  "tracked b c bs (r\<lparr>runtimeEngine := e\<rparr>) w = tracked b c bs r w"
  "tracked b c bs (r\<lparr>rates := x\<rparr>) w = tracked b c bs r w"
  "tracked b c bs (r\<lparr>memberships := ms\<rparr>) w = tracked b c bs r w"
  "tracked b c bs (r\<lparr>generalQueries := qs\<rparr>) w = tracked b c bs r w"
  "tracked b c bs (r\<lparr>learnedRobustness := lr\<rparr>) w = tracked b c bs r w"
  "tracked b c bs (r\<lparr>bandwidthSamples := sa\<rparr>) w = tracked b c bs r w"
  by (simp_all add: tracked_def)

lemma snd_lifted [simp]: "snd (snd (lifted f w)) = snd w"
  by (simp add: lifted_def)

lemma tracked_world: "tracked b c bs r w \<Longrightarrow> snd w' = snd w \<Longrightarrow> tracked b c bs r w'"
  by (simp add: tracked_def)

lemma tracked_now [keepsM]: "keepsM (tracked b c bs) nowM"
  by (auto simp: keepsM_def wpM tracked_def)

lemma tracked_policy [keepsM]: "keepsM (tracked b c bs) (policyM step)"
  by (auto simp: keepsM_def wpM split: option.splits)

lemma tracked_join [keepsM]: "keepsM (tracked b c bs) (joinM request)"
  unfolding joinM_def by (intro keepsM)

lemma tracked_leave [keepsM]: "keepsM (tracked b c bs) (leaveM request)"
  unfolding leaveM_def by (intro keepsM)

lemma tracked_upstream [keepsM]: "keepsM (tracked b c bs) (effectiveUpstreamGroup key)"
  unfolding effectiveUpstreamGroup_def by (intro keepsM)

lemma tracked_query [keepsM]: "keepsM (tracked b c bs) (backendM (\<lambda>b. SendQuery b query) wrap)"
  by (auto simp: keepsM_def wpM tracked_def watchedBackend_def lifted_def split: prod.splits option.splits)

lemma tracked_report [keepsM]: "keepsM (tracked b c bs) (sendReportLocked report)"
proof -
  have "keepsM (tracked b c bs) (deliverReport report)"
    by (auto simp: deliverReport_def keepsM_def wpM tracked_def watchedBackend_def lifted_def split: prod.splits option.splits)
  then show ?thesis
    unfolding sendReportLocked_def Let_def by (intro keepsM; simp)
qed

lemma tracked_reportJoin [keepsM]: "keepsM (tracked b c bs) (reportJoin binding client key profile own g tags changed)"
  unfolding reportJoin_def by (intro keepsM)

lemma tracked_reportLeave [keepsM]: "keepsM (tracked b c bs) (reportLeave binding key profile own previous mac tags)"
  unfolding reportLeave_def by (intro keepsM)

lemma tracked_dropPending [keepsM]: "keepsM (tracked b c bs) (putM (dropPending key))"
  by (rule keepsM_put)
    (auto simp: tracked_def dropPending_def wf_leaves_def AList.delete_eq)

section \<open>Streams\<close>

lemma effectiveReplicationGroup_of:
  "wf_stream key clients \<Longrightarrow> ofStream key (effectiveReplicationGroup clients)"
  by (cases clients) (auto simp: wf_stream_def effectiveReplicationGroup_def ofStream_def Let_def split: prod.splits)

lemma ofStream_key:
  "ofStream key g \<Longrightarrow> SubscriberEntity (boundSubscriber binding) = rsSubscriber key \<Longrightarrow> Interface (boundAttachment binding) = rsInterface key
   \<Longrightarrow> \<lparr> rsSubscriber = SubscriberEntity (boundSubscriber binding), rsInterface = Interface (boundAttachment binding),
        rsSource = GroupSource g, rsGroup = GroupAddr g, rsVLAN = UNIVLAN g \<rparr> = key"
  by (simp add: ofStream_def)

text \<open>A binding that a key belongs to.\<close>

definition bindsKey :: "(string, subscriberBinding) gomap \<Rightarrow> subscriberBinding \<Rightarrow> runtimeStreamKey \<Rightarrow> bool" where
  "bindsKey bs binding key = (map_of bs (rsInterface key) = Some binding \<and> wf_key bs key)"

lemma bindsKey_fields:
  "wf_bindings bs \<Longrightarrow> bindsKey bs binding key \<Longrightarrow> SubscriberEntity (boundSubscriber binding) = rsSubscriber key"
  "wf_bindings bs \<Longrightarrow> bindsKey bs binding key \<Longrightarrow> Interface (boundAttachment binding) = rsInterface key"
  by (auto simp: bindsKey_def wf_key_def wf_bindings_def dest: map_of_SomeD)

lemma wf_streams_update:
  "wf_streams bs all \<Longrightarrow> wf_key bs key \<Longrightarrow> wf_stream key clients \<Longrightarrow> wf_streams bs (AList.update key clients all)"
  using set_update_subset [of key clients all] by (fastforce simp: wf_streams_def)

lemma wf_streams_lookup:
  "wf_streams bs all \<Longrightarrow> map_of all key = Some clients \<Longrightarrow> wf_key bs key \<and> wf_stream key clients"
  by (auto simp: wf_streams_def dest!: map_of_SomeD)

lemma wf_stream_update:
  assumes "wf_stream key clients \<or> clients = []" "ofStream key (clientGroup client)"
  shows "wf_stream key (AList.update identity client clients)"
proof -
  have "gm_wf clients" "\<forall>(_, c) \<in> set clients. ofStream key (clientGroup c)"
    using assms(1) by (auto simp: wf_stream_def)
  then show ?thesis
    using assms(2) set_update_subset [of identity client clients] by (auto simp: wf_stream_def)
qed

lemma wf_stream_delete:
  "wf_stream key clients \<Longrightarrow> AList.delete identity clients \<noteq> [] \<Longrightarrow> wf_stream key (AList.delete identity clients)"
  by (auto simp: wf_stream_def AList.delete_eq distinct_map inj_on_def)

lemma delete_single:
  "map_of clients identity \<noteq> None \<Longrightarrow> gm_wf clients \<Longrightarrow> AList.delete identity clients = [] \<longleftrightarrow> length clients = 1"
  by (cases clients rule: list.exhaust; cases "tl clients") (auto simp: AList.delete_eq filter_empty_conv gm_wf_def split: if_splits prod.splits)


section \<open>Methods on streams\<close>

lemma wf_stream_group: "wf_stream key clients \<Longrightarrow> map_of clients identity = Some client \<Longrightarrow> ofStream key (clientGroup client)"
  by (auto simp: wf_stream_def dest!: map_of_SomeD)

lemma tracked_stream:
  "tracked b c bs r w \<Longrightarrow> map_of (runtimeStreams r) key = Some clients \<Longrightarrow> wf_key bs key \<and> wf_stream key clients"
  unfolding tracked_def using wf_streams_lookup by blast

lemma tracked_put:
  assumes "tracked b c bs r w" "wf_key bs key" "wf_stream key clients"
  shows "tracked b c bs (putStream key clients r) w" "tracked b c bs (putStream key clients r) (v, insert key (snd w))"
  using assms by (auto simp: tracked_def putStream_def wf_streams_update dom_update)

lemma wp_replicate:
  assumes "tracked b c bs r' w'" "bindsKey bs binding key" "ofStream key g" "backend r = watchedBackend b"
    and "\<And>v. Q (Ok ()) r (v, if enable then insert key (snd w) else snd w - {key})"
  shows "wpM (setReplication enable binding profile g what) Q r w"
proof (rule wp_setReplication)
  have "reliable b" "wf_bindings bs" using assms(1) by (simp_all add: tracked_def)
  then show "reliable b" by simp
  fix v
  show "Q (Ok ()) r (v, let k = \<lparr> rsSubscriber = SubscriberEntity (boundSubscriber binding),
        rsInterface = Interface (boundAttachment binding), rsSource = GroupSource g, rsGroup = GroupAddr g, rsVLAN = UNIVLAN g \<rparr>
      in if enable then insert k (snd w) else snd w - {k})"
    unfolding Let_def ofStream_key [OF assms(3) bindsKey_fields [OF \<open>wf_bindings bs\<close> assms(2)]] by (rule assms(5))
qed (rule assms(4))

lemma tracked_backend: "tracked b c bs r w \<Longrightarrow> backend r = watchedBackend b"
  by (simp add: tracked_def)

lemma putStream_simps [simp]: "backend (putStream key clients r) = backend r"
  "runtimeStreams (putStream key clients r) = AList.update key clients (runtimeStreams r)"
  by (simp_all add: putStream_def)

lemma enterClient_tracked:
  assumes key: "bindsKey bs binding key"
    and stream0: "\<And>clients. stream0 = Some clients \<Longrightarrow> wf_stream key clients" and g: "ofStream key g"
  shows "keepsM (tracked b c bs) (enterClient binding client request key stream0 profile g tags)"
proof -
  have wf: "wf_key bs key" using key by (simp add: bindsKey_def)
  define entry where "entry now = \<lparr> clientGroup = g, clientTags = tags, lastSeen = now \<rparr>" for now
  have fresh: "wf_stream key [(identityOf client, entry now)]" for now
    using g by (simp add: wf_stream_def entry_def gm_wf_def)
  have joined: "wf_stream key (AList.update (identityOf client) (entry now) clients)" if "stream0 = Some clients" for clients now
    using stream0 [OF that] g by (intro wf_stream_update) (simp_all add: entry_def)
  show ?thesis
    unfolding enterClient_def Let_def entry_def [symmetric]
  proof (rule keepsM_bind [OF tracked_now], rule keepsM_option)
    fix now assume none: "stream0 = None"
    show "keepsM (tracked b c bs) (bindM (tryM (setReplication True binding profile
        (effectiveReplicationGroup [(identityOf client, entry now)]) ''enable multicast replication: %w''))
      (\<lambda>result. case result of Inl err \<Rightarrow> thenM (putM id) (thenM (leaveM request) (failM err))
         | Inr _ \<Rightarrow> thenM (putM (putStream key [(identityOf client, entry now)])) (returnM ([(identityOf client, entry now)], True))))"
      unfolding keepsM_def wpM
      by (intro allI impI, rule wp_replicate, assumption, rule key, rule effectiveReplicationGroup_of [OF fresh],
          erule tracked_backend) (simp add: wpM tracked_put wf fresh)
  next
    fix now clients assume some: "stream0 = Some clients"
    let ?stream = "AList.update (identityOf client) (entry now) clients"
    show "keepsM (tracked b c bs) (thenM (putM (putStream key ?stream))
           (if sameReplicationGroup (effectiveReplicationGroup clients) (effectiveReplicationGroup ?stream) then returnM (?stream, False)
            else bindM (tryM (setReplication True binding profile (effectiveReplicationGroup ?stream) ''update multicast replication: %w''))
             (\<lambda>result. case result of
                Inl err \<Rightarrow> thenM (putM (putStream key (AList.delete (identityOf client) clients))) (thenM (leaveM request) (failM err))
              | Inr _ \<Rightarrow> returnM (?stream, True))))"
      unfolding keepsM_def wpM outcome.case
      apply (intro allI impI)
      apply (split if_split)
      apply (intro conjI impI)
      apply (simp add: wpM tracked_put wf joined [OF some])
      apply (unfold wpM)
      apply (rule wp_replicate, assumption, rule key, rule effectiveReplicationGroup_of [OF joined [OF some]], simp add: tracked_backend)
      apply (simp add: wpM tracked_put wf joined [OF some])
      done
  qed
qed


lemma dropPending_simps [simp]: "backend (dropPending key r) = backend r" "runtimeStreams (dropPending key r) = runtimeStreams r"
  by (simp_all add: dropPending_def)

lemma tracked_drop: "tracked b c bs r w \<Longrightarrow> tracked b c bs (dropPending key r) w"
  by (auto simp: tracked_def dropPending_def wf_leaves_def AList.delete_eq)

lemma tracked_forget:
  assumes "tracked b c bs r w"
  shows "tracked b c bs (r\<lparr>runtimeStreams := AList.delete key (runtimeStreams r)\<rparr>) (v, snd w - {key})"
proof -
  have "fst ` set (AList.delete key (runtimeStreams r)) = fst ` set (runtimeStreams r) - {key}"
    by (auto simp: AList.delete_eq image_iff)
  then show ?thesis
    using assms by (auto simp: tracked_def wf_streams_def AList.delete_eq)
qed

lemma tracked_without: "tracked b c bs r w \<Longrightarrow> tracked b c bs r (v, snd w - {key})"
  by (auto simp: tracked_def)

lemma forget_put [simp]:
  "(putStream key clients r)\<lparr>runtimeStreams := AList.delete key (AList.update key clients (runtimeStreams r))\<rparr>
    = r\<lparr>runtimeStreams := AList.delete key (runtimeStreams r)\<rparr>"
  by (simp add: putStream_def delete_update_same)

text \<open>The end of \<open>finalizeClientLocked\<close>: a last client, or a client that leaves others behind.\<close>

lemma leaveM_case: "wpM (leaveM request) Q r w = (case runtimeEngine r of None \<Rightarrow> Q Panic r w
    | Some e \<Rightarrow> Q (Ok (fst (Leave request e))) (r\<lparr>runtimeEngine := Some (snd (Leave request e))\<rparr>) w)"
  by (simp add: leaveM_def wpM)

lemma finalize_last:
  assumes key: "bindsKey bs binding key" and g: "ofStream key g" and tail: "keepsM (tracked b c bs) tail"
  shows "keepsM (tracked b c bs)
      (thenM (setReplication False binding profile g what)
      (bindM (leaveM request) (\<lambda>present. if \<not> present then failM err
       else thenM (putM (putStream key []))
           (thenM (putM (dropPending pk))
           (thenM (putM (\<lambda>r. r\<lparr>runtimeStreams := AList.delete key (runtimeStreams r)\<rparr>)) tail)))))"
  unfolding keepsM_def
proof (intro allI impI)
  fix r w assume t: "tracked b c bs r w"
  have gone: "tracked b c bs ((dropPending pk (putStream key [] (r\<lparr>runtimeEngine := e\<rparr>)))\<lparr>runtimeStreams :=
      AList.delete key (AList.update key [] (runtimeStreams r))\<rparr>) (v, snd w - {key})" for e v
  proof -
    have "tracked b c bs (dropPending pk (r\<lparr>runtimeEngine := e\<rparr>)) w"
      using t by (intro tracked_drop) simp
    from tracked_forget [OF this, of key v] show ?thesis
      by (simp add: dropPending_def putStream_def delete_update_same)
  qed
  show "wpM (thenM (setReplication False binding profile g what)
      (bindM (leaveM request) (\<lambda>present. if \<not> present then failM err
       else thenM (putM (putStream key []))
           (thenM (putM (dropPending pk))
           (thenM (putM (\<lambda>r. r\<lparr>runtimeStreams := AList.delete key (runtimeStreams r)\<rparr>)) tail))))) (\<lambda>_. tracked b c bs) r w"
    unfolding wpM_bind [of "setReplication False binding profile g what"]
    by (rule wp_replicate [OF t key g tracked_backend [OF t]])
      (auto simp: wpM leaveM_case tracked_without [OF t] intro!: keepsM_D [OF tail] gone split: option.split)
qed

lemma tracked_update:
  assumes key: "bindsKey bs binding key" and left: "wf_stream key left"
  shows "keepsM (tracked b c bs) (thenM (putM (putStream key left)) (thenM (putM (dropPending pk))
     (if same then returnM () else setReplication True binding profile (effectiveReplicationGroup left) what)))"
  unfolding keepsM_def
proof (intro allI impI)
  fix r w assume t: "tracked b c bs r w"
  have wf: "wf_key bs key" using key by (simp add: bindsKey_def)
  note put = tracked_drop [OF tracked_put(1) [OF t wf left], of pk]
  show "wpM (thenM (putM (putStream key left)) (thenM (putM (dropPending pk))
     (if same then returnM () else setReplication True binding profile (effectiveReplicationGroup left) what))) (\<lambda>_. tracked b c bs) r w"
  proof (cases same)
    case True then show ?thesis by (simp add: wpM put)
  next
    case False
    have "wpM (setReplication True binding profile (effectiveReplicationGroup left) what) (\<lambda>_. tracked b c bs)
        (dropPending pk (putStream key left r)) w"
      by (rule wp_replicate [OF t key effectiveReplicationGroup_of [OF left]])
        (simp_all add: tracked_backend [OF t] tracked_drop [OF tracked_put(2) [OF t wf left]])
    with False show ?thesis by (simp add: wpM)
  qed
qed

lemma bindM_assoc: "bindM (bindM m k) l = bindM m (\<lambda>x. bindM (k x) l)"
  by (intro ext) (simp add: bindM_def split: prod.splits outcome.splits)

lemma tracked_update_then:
  assumes "bindsKey bs binding key" "wf_stream key left" "keepsM (tracked b c bs) tail"
  shows "keepsM (tracked b c bs) (thenM (putM (putStream key left)) (thenM (putM (dropPending pk))
     (thenM (if same then returnM () else setReplication True binding profile (effectiveReplicationGroup left) what) tail)))"
  using keepsM_bind [OF tracked_update [OF assms(1,2)] assms(3)] by (simp add: bindM_assoc)

text \<open>What the caller of a method on a client knows: the binding of the interface.\<close>

definition ownBinding :: "(string, subscriberBinding) gomap \<Rightarrow> subscriberBinding \<Rightarrow> bool" where
  "ownBinding bs binding = (map_of bs (Interface (boundAttachment binding)) = Some binding)"

lemma keepsM_stream:
  assumes "\<And>stream0. (\<And>clients. stream0 = Some clients \<Longrightarrow> wf_key bs key \<and> wf_stream key clients)
      \<Longrightarrow> keepsM (tracked b c bs) (k stream0)"
  shows "keepsM (tracked b c bs) (bindM (getM (\<lambda>r. map_of (runtimeStreams r) key)) k)"
  by (rule keepsM_read [where S = "\<lambda>stream0. \<forall>clients. stream0 = Some clients \<longrightarrow> wf_key bs key \<and> wf_stream key clients"])
    (use tracked_stream assms in blast)+

lemma finalize_tracked [keepsM]:
  assumes "map_of bs (rsInterface key) = Some binding" "ofStream key (clientGroup active)"
  shows "keepsM (tracked b c bs) (finalizeClientLocked binding key identity profile active sendReport)"
  unfolding finalizeClientLocked_def
proof (rule keepsM_stream, rule keepsM_option, rule keepsM_pure, rule keepsM_if, rule keepsM_pure, goal_cases)
  case (1 stream0 clients)
  then have wf: "wf_key bs key" "wf_stream key clients" by auto
  then have key: "bindsKey bs binding key" using assms(1) by (simp add: bindsKey_def)
  have tail: "keepsM (tracked b c bs) (if sendReport
      then reportLeave binding key profile (clientGroup active) previous (idMAC identity) (clientTags active)
      else returnM ())" for previous by (intro keepsM)
  have left: "AList.delete identity clients = [] \<longleftrightarrow> length clients = 1"
    using wf(2) 1(3) by (intro delete_single) (auto simp: wf_stream_def)
  show ?case
  proof (cases "length clients = 1")
    case True
    with left show ?thesis
      by (simp only: Let_def if_True simp_thms) (intro keepsM_bind tracked_upstream finalize_last [OF key assms(2) tail])
  next
    case False
    with left have "wf_stream key (AList.delete identity clients)" using wf_stream_delete [OF wf(2)] by blast
    with False show ?thesis
      by (simp only: Let_def if_False simp_thms) (intro keepsM_bind keepsM_if keepsM_pure tracked_upstream tracked_leave
          tracked_update_then [OF key _ tail])
  qed
qed


lemma joinStep_valid: "Accepted (fst (joinStep zone now request e)) \<Longrightarrow> IsValid (JoinGroup request)"
  by (auto simp: joinStep_def zeroDecision_def validJoin_def Let_def split: option.splits if_splits)

lemma keepsM_join:
  assumes "\<And>decision. (Accepted decision \<Longrightarrow> IsValid (JoinGroup request)) \<Longrightarrow> keepsM (tracked b c bs) (k decision)"
  shows "keepsM (tracked b c bs) (bindM (joinM request) k)"
  unfolding keepsM_def
proof (intro allI impI)
  fix r w assume t: "tracked b c bs r w"
  have "wpM (k (fst (joinStep (location r) now request e))) (\<lambda>_. tracked b c bs) (r\<lparr>runtimeEngine := e'\<rparr>) w'"
    if "snd w' = snd w" for now e e' w'
    by (rule keepsM_D [OF assms]) (auto dest: joinStep_valid intro: tracked_world [OF _ that] simp: t)
  moreover have "snd (snd (runtimeClock r w)) = snd w" using t by (simp add: tracked_def)
  ultimately show "wpM (bindM (joinM request) k) (\<lambda>_. tracked b c bs) r w"
    using tracked_world [OF t] by (auto simp: joinM_def wpM split: option.split)
qed

lemma request_simps [simp]: "JoinGroup (requestOf client binding source) = ckGroup client"
  "JoinSource (requestOf client binding source) = source" "JoinVLAN (requestOf client binding source) = ckVLAN client"
  "JoinInterface (requestOf client binding source) = Interface (boundAttachment binding)"
  by (simp_all add: requestOf_def)

lemma streamOf_simps [simp]: "rsInterface (streamOf client binding source) = Interface (boundAttachment binding)"
  "rsSource (streamOf client binding source) = source" "rsGroup (streamOf client binding source) = ckGroup client"
  "rsVLAN (streamOf client binding source) = ckVLAN client"
  "rsSubscriber (streamOf client binding source) = SubscriberEntity (boundSubscriber binding)"
  by (simp_all add: streamOf_def)

lemma ofStream_request: "ofStream (streamOf client binding source) (clientGroupOf (requestOf client binding source) decision excluded)"
  by (simp add: ofStream_def clientGroupOf_def activeGroup_def Let_def)

lemma bindsKey_streamOf: "ownBinding bs binding \<Longrightarrow> IsValid (ckGroup client) \<Longrightarrow> bindsKey bs binding (streamOf client binding source)"
  by (simp add: bindsKey_def wf_key_def ownBinding_def)

lemma add_tracked [keepsM]:
  assumes own: "ownBinding bs binding"
  shows "keepsM (tracked b c bs) (addLocked binding client source excluded tags)"
  unfolding addLocked_def Let_def
proof (rule keepsM_stream, rule keepsM_join, rule keepsM_bind [OF keepsM_get], rule keepsM_if, goal_cases)
  case (1 stream0 decision found)
  show ?case by (intro keepsM)
next
  case (2 stream0 decision found)
  have enter: "keepsM (tracked b c bs) (enterClient binding client (requestOf client binding source) (streamOf client binding source)
      stream0 profile (clientGroupOf (requestOf client binding source) decision excluded) tags)" for profile
    using 2 by (intro enterClient_tracked bindsKey_streamOf own ofStream_request) auto
  show ?case by (intro keepsM enter)
qed

text \<open>A change of a stream that is undone if the backend refuses it.\<close>

lemma tracked_replace:
  assumes key: "bindsKey bs binding key" and stream: "wf_stream key stream" and tail: "keepsM (tracked b c bs) tail"
  shows "keepsM (tracked b c bs) (thenM (putM (putStream key stream))
     (thenM (if same then returnM ()
             else bindM (tryM (setReplication True binding profile (effectiveReplicationGroup stream) what)) (\<lambda>result.
               case result of Inl err \<Rightarrow> undo err | Inr _ \<Rightarrow> returnM ())) tail))"
  unfolding keepsM_def
proof (intro allI impI)
  fix r w assume t: "tracked b c bs r w"
  have wf: "wf_key bs key" using key by (simp add: bindsKey_def)
  show "wpM (thenM (putM (putStream key stream))
     (thenM (if same then returnM ()
             else bindM (tryM (setReplication True binding profile (effectiveReplicationGroup stream) what)) (\<lambda>result.
               case result of Inl err \<Rightarrow> undo err | Inr _ \<Rightarrow> returnM ())) tail)) (\<lambda>_. tracked b c bs) r w"
  proof (cases same)
    case True then show ?thesis by (simp add: wpM keepsM_D [OF tail] tracked_put [OF t wf stream])
  next
    case False
    have "wpM (setReplication True binding profile (effectiveReplicationGroup stream) what) (\<lambda>x. case x of
        Ok _ \<Rightarrow> \<lambda>r w. wpM tail (\<lambda>_. tracked b c bs) r w | _ \<Rightarrow> \<lambda>_ _. False) (putStream key stream r) w"
      by (rule wp_replicate [OF t key effectiveReplicationGroup_of [OF stream]])
        (simp_all add: tracked_backend [OF t] keepsM_D [OF tail] tracked_put(2) [OF t wf stream])
    then show ?thesis
      unfolding wpM if_not_P [OF False] outcome.case by (rule wpM_mono) (auto simp: wpM split: outcome.splits)
  qed
qed

lemma refresh_tracked [keepsM]:
  assumes own: "ownBinding bs binding"
  shows "keepsM (tracked b c bs) (refreshLocked binding client source excluded tags)"
  unfolding refreshLocked_def Let_def
proof (rule keepsM_join, rule keepsM_if, rule keepsM_pure, rule keepsM_bind [OF keepsM_get], rule keepsM_option, rule keepsM_pure,
    rule keepsM_stream, rule keepsM_option, rule keepsM_pure, rule keepsM_bind [OF tracked_dropPending],
    rule keepsM_bind [OF tracked_now], goal_cases)
  case (1 decision found profile stream0 clients u now)
  let ?key = "streamOf client binding source"
  let ?stream = "AList.update (identityOf client) \<lparr> clientGroup = clientGroupOf (requestOf client binding source) decision excluded,
      clientTags = tags, lastSeen = now \<rparr> clients"
  have key: "bindsKey bs binding ?key" using 1 own by (intro bindsKey_streamOf) auto
  have stream: "wf_stream ?key ?stream" using 1 by (intro wf_stream_update) (auto simp: ofStream_request)
  show ?case
    unfolding not_not by (intro tracked_replace [OF key stream] tracked_reportJoin)
qed

lemma remove_tracked [keepsM]:
  assumes own: "ownBinding bs binding"
  shows "keepsM (tracked b c bs) (removeLocked binding client source tags)"
  unfolding removeLocked_def Let_def
proof (rule keepsM_stream, rule keepsM_option, rule keepsM_pure, rule keepsM_option, rule keepsM_pure,
    rule keepsM_bind [OF keepsM_get], rule keepsM_option, rule keepsM_pure, goal_cases)
  case (1 stream0 clients active found both)
  let ?key = "streamOf client binding source"
  have "ofStream ?key (clientGroup active)" using 1 by (auto intro: wf_stream_group)
  moreover have own': "map_of bs (rsInterface ?key) = Some binding" using own by (simp add: ownBinding_def)
  ultimately have final: "keepsM (tracked b c bs) (finalizeClientLocked binding ?key (identityOf client) profile active True)" for profile
    by (intro finalize_tracked)
  have wait: "keepsM (tracked b c bs) (putM (\<lambda>r. r\<lparr>pendingLeaves := AList.update \<lparr> pendingStream = ?key, pendingIdentity = identity \<rparr>
      leave (pendingLeaves r)\<rparr>))" if "leaveBinding leave = binding" for identity leave
  proof (rule keepsM_put)
    fix r w assume "tracked b c bs r w"
    then show "tracked b c bs (r\<lparr>pendingLeaves := AList.update \<lparr> pendingStream = ?key, pendingIdentity = identity \<rparr>
      leave (pendingLeaves r)\<rparr>) w"
      using own' that set_update_subset by (fastforce simp: tracked_def wf_leaves_def)
  qed
  show ?case by (intro keepsM final wait) simp
qed


section \<open>Operations\<close>

lemma apply_tracked [keepsM]:
  assumes own: "ownBinding bs binding"
  shows "keepsM (tracked b c bs) (applyRecordLocked binding message record)"
  unfolding applyRecordLocked_def Let_def
  by (intro keepsM keepsM_for remove_tracked add_tracked refresh_tracked own) simp_all

lemma handle_tracked: "keepsM (tracked b c bs) (HandleReport i message)"
  unfolding HandleReport_def
proof (rule keepsM_read [where S = "\<lambda>found. \<forall>binding. found = Some binding \<longrightarrow> ownBinding bs binding"], goal_cases)
  case (1 r w)
  then have same: "bindings r = bs" and wf: "wf_bindings bs" by (simp_all add: tracked_def)
  have "Interface (boundAttachment binding) = i" if "map_of bs i = Some binding" for binding
    using wf map_of_SomeD [OF that] by (auto simp: wf_bindings_def)
  with same show ?case by (simp add: ownBinding_def)
next
  case (2 found)
  then show ?case
    by (intro keepsM keepsM_for apply_tracked) (auto simp: learnQueryLocked_def Let_def)
qed

lemma expire_last:
  assumes key: "bindsKey bs binding key" and g: "ofStream key g" and tail: "\<And>profile. keepsM (tracked b c bs) (tail profile)"
  shows "keepsM (tracked b c bs) (thenM (putM (dropPending pk)) (thenM (putM (putStream key []))
     (bindM (getM f) (\<lambda>profile.
      thenM (thenM (setReplication False binding profile g what)
              (putM (\<lambda>r. r\<lparr>runtimeStreams := AList.delete key (runtimeStreams r)\<rparr>))) (tail profile)))))"
  unfolding keepsM_def
proof (intro allI impI)
  fix r w assume t: "tracked b c bs r w"
  have "tracked b c bs ((putStream key [] (dropPending pk r))\<lparr>runtimeStreams := AList.delete key (AList.update key [] (runtimeStreams r))\<rparr>)
      (v, snd w - {key})" for v
    using tracked_forget [OF tracked_drop [OF t, of pk], of key v] by (simp add: putStream_def delete_update_same)
  then have "wpM (setReplication False binding profile g what) (\<lambda>x. case x of
        Ok _ \<Rightarrow> \<lambda>r w. wpM (tail profile) (\<lambda>_. tracked b c bs) (r\<lparr>runtimeStreams := AList.delete key (runtimeStreams r)\<rparr>) w
      | _ \<Rightarrow> \<lambda>_ _. False) (putStream key [] (dropPending pk r)) w" for profile
    by (intro wp_replicate [OF t key g]) (simp_all add: tracked_backend [OF t] keepsM_D [OF tail])
  then show "wpM (thenM (putM (dropPending pk)) (thenM (putM (putStream key []))
     (bindM (getM f) (\<lambda>profile.
      thenM (thenM (setReplication False binding profile g what)
              (putM (\<lambda>r. r\<lparr>runtimeStreams := AList.delete key (runtimeStreams r)\<rparr>))) (tail profile))))) (\<lambda>_. tracked b c bs) r w"
    unfolding wpM outcome.case by (rule wpM_mono) (auto simp: wpM split: outcome.splits)
qed

lemma expire_others:
  assumes key: "bindsKey bs binding key" and left: "wf_stream key left" and tail: "\<And>profile. keepsM (tracked b c bs) (tail profile)"
  shows "keepsM (tracked b c bs) (thenM (putM (dropPending pk)) (thenM (putM (putStream key left))
     (bindM (getM f) (\<lambda>profile.
      thenM (if same then returnM () else setReplication True binding profile (effectiveReplicationGroup left) what) (tail profile)))))"
  unfolding keepsM_def
proof (intro allI impI)
  fix r w assume t: "tracked b c bs r w"
  have wf: "wf_key bs key" using key by (simp add: bindsKey_def)
  note put = tracked_put [OF tracked_drop [OF t, of pk] wf left]
  have "wpM (if same then returnM () else setReplication True binding profile (effectiveReplicationGroup left) what) (\<lambda>x. case x of
        Ok _ \<Rightarrow> \<lambda>r w. wpM (tail profile) (\<lambda>_. tracked b c bs) r w
      | _ \<Rightarrow> \<lambda>_ _. False) (putStream key left (dropPending pk r)) w" for profile
  proof (cases same)
    case True then show ?thesis by (simp add: wpM keepsM_D [OF tail] put)
  next
    case False
    then show ?thesis unfolding if_not_P [OF False]
      by (intro wp_replicate [OF t key effectiveReplicationGroup_of [OF left]])
        (simp_all add: tracked_backend [OF t] keepsM_D [OF tail] put(2))
  qed
  then show "wpM (thenM (putM (dropPending pk)) (thenM (putM (putStream key left))
     (bindM (getM f) (\<lambda>profile.
      thenM (if same then returnM () else setReplication True binding profile (effectiveReplicationGroup left) what) (tail profile)))))
      (\<lambda>_. tracked b c bs) r w"
    unfolding wpM outcome.case by (rule wpM_mono) (auto split: outcome.splits)
qed

lemma expireGroup_tracked: "keepsM (tracked b c bs) (expireGroup g)"
  unfolding expireGroup_def Let_def
proof (rule keepsM_read [where S = "\<lambda>binding. binding = lookup zeroBinding bs (GroupInterface g)"], simp add: tracked_def,
    rule keepsM_stream, rule keepsM_option, rule keepsM_pure, rule keepsM_bind [OF tracked_upstream], rule keepsM_prod, goal_cases)
  case (1 binding stream0 clients previous identity active)
  let ?key = "\<lparr> rsSubscriber = SubscriberEntity (boundSubscriber binding), rsInterface = GroupInterface g,
                 rsSource = GroupSource g, rsGroup = GroupAddr g, rsVLAN = UNIVLAN g \<rparr>"
  have wf: "wf_key bs ?key" "wf_stream ?key clients" using 1 by auto
  obtain owner where "map_of bs (GroupInterface g) = Some owner"
    using wf(1) by (auto simp: wf_key_def split: option.splits)
  with 1(1) have "map_of bs (GroupInterface g) = Some binding" by (simp add: lookup_def)
  with wf(1) have key: "bindsKey bs binding ?key" by (simp add: bindsKey_def)
  have of_key: "ofStream ?key g" by (simp add: ofStream_def)
  let ?left = "AList.delete identity clients"
  show ?case
  proof (cases "?left = []")
    case True
    show ?thesis
      unfolding True if_P [OF refl] by (intro expire_last [OF key of_key] keepsM) simp
  next
    case False
    then have left: "wf_stream ?key ?left" by (rule wf_stream_delete [OF wf(2)])
    show ?thesis
      unfolding if_not_P [OF False] by (intro expire_others [OF key left] keepsM) simp
  qed
qed

lemma queries_tracked: "keepsM (tracked b c bs) (runGeneralQueriesLocked now)"
  unfolding runGeneralQueriesLocked_def Let_def by (intro keepsM keepsM_for) simp

lemma pendingLeave_tracked: "keepsM (tracked b c bs) (runPendingLeave now key)"
  unfolding runPendingLeave_def Let_def
proof (rule keepsM_read [where S = "\<lambda>found. \<forall>leave. found = Some leave \<longrightarrow> map_of bs (rsInterface (pendingStream key)) = Some (leaveBinding leave)"],
    goal_cases)
  case (1 r w)
  then show ?case by (auto simp: tracked_def wf_leaves_def dest!: map_of_SomeD)
next
  case (2 found)
  have again: "keepsM (tracked b c bs) (putM (\<lambda>r. r\<lparr>pendingLeaves := AList.update key leave (pendingLeaves r)\<rparr>))"
    if "map_of bs (rsInterface (pendingStream key)) = Some (leaveBinding leave)" for leave
  proof (rule keepsM_put)
    fix r w assume "tracked b c bs r w"
    then show "tracked b c bs (r\<lparr>pendingLeaves := AList.update key leave (pendingLeaves r)\<rparr>) w"
      using that set_update_subset by (fastforce simp: tracked_def wf_leaves_def)
  qed
  show ?case
  proof (rule keepsM_option, rule keepsM_pure, rule keepsM_if, rule keepsM_pure, rule keepsM_stream, goal_cases)
    case (1 pending stream0)
    with 2 show ?case
      by (intro keepsM again finalize_tracked) (auto split: option.splits intro: wf_stream_group)
  qed
qed

lemma pendingLeaves_tracked: "keepsM (tracked b c bs) (runPendingLeavesLocked now)"
  unfolding runPendingLeavesLocked_def by (intro keepsM keepsM_for pendingLeave_tracked)

lemma proxy_tracked: "keepsM (tracked b c bs) (expireProxyMembershipsLocked now)"
  unfolding expireProxyMembershipsLocked_def
proof (rule keepsM_read [where S = "list_all (\<lambda>client. map_of bs (rsInterface (staleStream client)) = Some (staleBinding client)
    \<and> ofStream (staleStream client) (clientGroup (staleActive client)))"], goal_cases)
  case (1 r w)
  have "map_of bs (rsInterface key) = Some (lookup zeroBinding bs (rsInterface key)) \<and> ofStream key (clientGroup client)"
    if "(key, clients) \<in> set (runtimeStreams r)" "(identity, client) \<in> set clients" for key clients identity client
  proof -
    have "wf_key bs key" "wf_stream key clients" using 1 that(1) by (auto simp: tracked_def wf_streams_def)
    with that(2) show ?thesis by (auto simp: wf_key_def wf_stream_def lookup_def split: option.splits)
  qed
  moreover have "bindings r = bs" using 1 by (simp add: tracked_def)
  ultimately show ?case
    by (fastforce simp: staleClients_def list_all_iff Let_def split: if_splits)
next
  case (2 stale)
  then show ?case by (intro keepsM keepsM_for finalize_tracked) (auto simp: list_all_iff)
qed

lemma expire_tracked: "keepsM (tracked b c bs) ExpireRuntime"
  unfolding ExpireRuntime_def
  by (intro keepsM keepsM_for expireGroup_tracked queries_tracked pendingLeaves_tracked proxy_tracked)

lemma monitor_tracked: "keepsM (tracked b c bs) (MonitorRuntime subscriberID)"
  unfolding MonitorRuntime_def Let_def by (intro keepsM)

lemma timers_tracked: "keepsM (tracked b c bs) (RuntimePreviewTimers subscriberID)"
  unfolding RuntimePreviewTimers_def by (intro keepsM)

lemma sample_tracked: "keepsM (tracked b c bs) SampleBandwidth"
  by (auto simp: keepsM_def wpM_def SampleBandwidth_def tracked_def watchedBackend_def lifted_def split: option.splits outcome.splits prod.splits)


section \<open>Configuration and reachable states\<close>

lemma wf_bindAttachment:
  "bindAttachment ps now subscriber attachment acc = Ok acc' \<Longrightarrow> wf_bindings (fst acc) \<Longrightarrow> wf_bindings (fst acc')"
  by (cases acc) (auto simp: bindAttachment_def wf_bindings_def split: if_splits option.splits dest!: set_mp [OF set_update_subset])

lemma wf_bindSubscribers:
  assumes "foldR (bindSubscriber ps now) subs acc = Ok acc'" "wf_bindings (fst acc)" shows "wf_bindings (fst acc')"
proof (rule foldR_invariant [where P = "\<lambda>acc. wf_bindings (fst acc)", OF assms])
  fix subscriber acc acc'
  assume wf: "wf_bindings (fst acc)" and step: "bindSubscriber ps now subscriber acc = Ok acc'"
  then have "foldR (bindAttachment ps now subscriber) (Attachments subscriber) acc = Ok acc'"
    by (simp add: bindSubscriber_def split: if_splits)
  then show "wf_bindings (fst acc')"
    by (rule foldR_invariant [where P = "\<lambda>acc. wf_bindings (fst acc)", OF _ wf]) (rule wf_bindAttachment)
qed

definition watched_ok :: "'v RuntimeBackend \<Rightarrow> ('v \<Rightarrow> Time \<times> 'v) \<Rightarrow> 'v watched Runtime \<Rightarrow> 'v watched \<Rightarrow> bool" where
  "watched_ok b c r w = (\<exists>bs. tracked b c bs r w)"

lemma keepsM_watched: "(\<And>bs. keepsM (tracked b c bs) m) \<Longrightarrow> keepsM (watched_ok b c) m"
  unfolding keepsM_def watched_ok_def by (blast intro: wpM_mono)

lemma configure_watched: "keepsM (watched_ok b c) (configureLocked given)"
  unfolding keepsM_def
proof (intro allI impI)
  fix r w assume "watched_ok b c r w"
  then obtain bs where t: "tracked b c bs r w" by (auto simp: watched_ok_def)
  have wf: "wf_bindings bs'" if "foldR (bindSubscriber ps now) subs ([], []) = Ok (bs', qs)" for bs' qs ps now subs
    using wf_bindSubscribers [OF that] by (simp add: wf_bindings_def)
  have fresh: "watched_ok b c (r\<lparr>runtimeEngine := e, runtimeConfig := cfg, runtimeProfiles := ps, bindings := bs',
            memberships := [], runtimeStreams := [], pendingLeaves := [], generalQueries := qs,
            rates := [], learnedRobustness := [], bandwidthSamples := []\<rparr>) (v, {})" if "wf_bindings bs'" for e cfg ps bs' qs v
    using t that by (auto simp: watched_ok_def tracked_def wf_streams_def wf_leaves_def)
  have old: "watched_ok b c r w'" if "snd w' = snd w" for w'
    using tracked_world [OF t that] by (auto simp: watched_ok_def)
  have clock: "snd (snd (runtimeClock r w')) = snd w'" for w'
    using t by (simp add: tracked_def)
  show "wpM (configureLocked given) (\<lambda>_. watched_ok b c) r w"
    unfolding configureLocked_def Let_def
    using t by (auto simp: wpM watchedBackend_def tracked_backend [OF t] clock intro!: old fresh
        split: outcome.split prod.split option.split dest: wf)
qed

datatype runtimeOp = ConfigureOp Config | ReportOp string MembershipMessage | ExpireOp | MonitorOp u16 | SampleOp | TimersOp u16

fun execRuntime :: "runtimeOp \<Rightarrow> 'w Runtime \<times> 'w \<Rightarrow> 'w Runtime \<times> 'w" where
  "execRuntime (ConfigureOp given) (r, w) = snd (configureLocked given r w)"
| "execRuntime (ReportOp i message) (r, w) = snd (HandleReport i message r w)"
| "execRuntime ExpireOp (r, w) = snd (ExpireRuntime r w)"
| "execRuntime (MonitorOp subscriberID) (r, w) = snd (MonitorRuntime subscriberID r w)"
| "execRuntime SampleOp (r, w) = snd (SampleBandwidth r w)"
| "execRuntime (TimersOp subscriberID) (r, w) = snd (RuntimePreviewTimers subscriberID r w)"

lemma keepsM_snd: "keepsM P m \<Longrightarrow> P r w \<Longrightarrow> case snd (m r w) of (r', w') \<Rightarrow> P r' w'"
  using keepsM_D [of P m r w] by (simp add: wpM_def split: prod.splits)

lemma exec_watched: "watched_ok b c r w \<Longrightarrow> case execRuntime op (r, w) of (r', w') \<Rightarrow> watched_ok b c r' w'"
  by (cases op) (simp_all only: execRuntime.simps, (rule keepsM_snd, (rule configure_watched keepsM_watched
      handle_tracked expire_tracked monitor_tracked sample_tracked timers_tracked)+, assumption)+)

lemma run_watched: "watched_ok b c r w \<Longrightarrow> case fold execRuntime ops (r, w) of (r', w') \<Rightarrow> watched_ok b c r' w'"
proof (induction ops arbitrary: r w)
  case (Cons op ops)
  then show ?case using exec_watched [of b c r w op] by (cases "execRuntime op (r, w)") simp
qed simp

text \<open>The start of a runtime on a watched backend, where nothing is replicated yet.\<close>

definition started :: "Config \<Rightarrow> 'v RuntimeBackend \<Rightarrow> ('v \<Rightarrow> Time \<times> 'v) \<Rightarrow> Duration \<Rightarrow> 'v
    \<Rightarrow> (go_error, 'v watched Runtime) outcome \<times> 'v watched" where
  "started cfg b c zone v = NewRuntime cfg (Some (watchedBackend b)) (lifted c) zone (v, {})"

lemma started_watched: "reliable b \<Longrightarrow> started cfg b c zone v = (Ok r, w) \<Longrightarrow> watched_ok b c r w"
proof -
  assume "reliable b" and start: "started cfg b c zone v = (Ok r, w)"
  let ?r = "\<lparr> runtimeClock = lifted c, location = zone, backend = watchedBackend b, runtimeEngine = None,
                runtimeConfig = \<lparr> Profiles = [], Subscribers = [] \<rparr>, runtimeProfiles = [], bindings = [], memberships = [],
                runtimeStreams = [], pendingLeaves = [], generalQueries = [], rates = [], learnedRobustness = [],
                bandwidthSamples = [] \<rparr>"
  have "watched_ok b c ?r (v, {})"
    using \<open>reliable b\<close> by (auto simp: watched_ok_def tracked_def wf_bindings_def wf_streams_def wf_leaves_def)
  from keepsM_snd [OF configure_watched this, of cfg] start show ?thesis
    by (auto simp: started_def NewRuntime_def Let_def split: outcome.splits prod.splits)
qed

lemma reachable_watched:
  assumes "reliable b" "started cfg b c zone v = (Ok r0, w0)" "fold execRuntime ops (r0, w0) = (r, w)"
  shows "watched_ok b c r w"
  using run_watched [OF started_watched [OF assms(1,2)], of ops] assms(3) by simp

section \<open>What the proxy reports upstream\<close>

text \<open>The sources that a client of a stream asks for, and those that an aggregated group asks for.\<close>

definition wants :: "runtimeStreamKey \<Rightarrow> runtimeClient \<Rightarrow> Addr \<Rightarrow> bool" where
  "wants key client s = (if IsUnspecified (rsSource key) then s \<notin> set (ExcludedSources (clientGroup client)) else s = rsSource key)"

definition asksFor :: "ActiveGroup \<Rightarrow> Addr \<Rightarrow> bool" where
  "asksFor g s = (if IsUnspecified (GroupSource g) then s \<notin> set (ExcludedSources g) else s \<in> set (IncludedSources g))"

definition sharesGroup :: "runtimeStreamKey \<Rightarrow> runtimeStreamKey \<Rightarrow> bool" where
  "sharesGroup wanted key = (rsSubscriber key = rsSubscriber wanted \<and> rsInterface key = rsInterface wanted
     \<and> rsGroup key = rsGroup wanted \<and> rsVLAN key = rsVLAN wanted)"

lemma ex_entry: "(\<exists>i x. (i, x) \<in> set m) \<longleftrightarrow> m \<noteq> []"
  by (cases m) auto

lemma set_sortedSources [simp]: "finite sources \<Longrightarrow> set (sortedSources sources) = sources"
  by (simp add: sortedSources_def)

abbreviation (input) excludedBy :: "runtimeClient \<Rightarrow> Addr set" where
  "excludedBy client \<equiv> set (ExcludedSources (clientGroup client))"

lemma commonExcluded_wild:
  "\<forall>client \<in> set clients. IsUnspecified (GroupSource (clientGroup client)) \<Longrightarrow>
   commonExcluded clients excluded = (if clients = [] then excluded
     else Some ((case excluded of None \<Rightarrow> UNIV | Some ex \<Rightarrow> ex) \<inter> (\<Inter>client \<in> set clients. excludedBy client)))"
  by (induction clients excluded rule: commonExcluded.induct) (auto simp: Let_def split: option.splits)

lemma excluded_replication:
  assumes "wf_stream key clients" "IsUnspecified (rsSource key)"
  shows "set (ExcludedSources (effectiveReplicationGroup clients)) = (\<Inter>client \<in> snd ` set clients. excludedBy client)"
proof -
  obtain entry rest where clients: "clients = entry # rest" using assms(1) by (cases clients) (auto simp: wf_stream_def)
  have "\<forall>client \<in> set (map snd clients). IsUnspecified (GroupSource (clientGroup client))"
    using assms by (auto simp: wf_stream_def ofStream_def)
  from commonExcluded_wild [OF this, of None] clients
  have "commonExcluded (map snd clients) None = Some (\<Inter>client \<in> snd ` set clients. excludedBy client)" by simp
  moreover have "finite (\<Inter>client \<in> snd ` set clients. excludedBy client)"
    using clients by (intro finite_INT) auto
  ultimately show ?thesis by (simp add: effectiveReplicationGroup_def Let_def)
qed

lemma zeroGroup_invalid [simp]: "\<not> IsValid (GroupAddr zeroGroup)"
  by (simp add: zeroGroup_def IsValid_def)

definition matching :: "runtimeStreamKey \<Rightarrow> (runtimeStreamKey \<times> runtimeStream) list \<Rightarrow> (runtimeStreamKey \<times> runtimeStream) set" where
  "matching wanted all = {x \<in> set all. sharesGroup wanted (fst x)}"

definition wild :: "(runtimeStreamKey \<times> runtimeStream) set \<Rightarrow> (runtimeStreamKey \<times> runtimeStream) set" where
  "wild ms = {x \<in> ms. IsUnspecified (rsSource (fst x))}"

definition summary :: "runtimeStreamKey \<Rightarrow> (runtimeStreamKey \<times> runtimeStream) list \<Rightarrow> ActiveGroup \<times> Addr set \<times> Addr set option \<Rightarrow> bool" where
  "summary wanted all acc = (case acc of (result, included, excluded) \<Rightarrow>
     let ms = matching wanted all in
     (if ms = {} then result = zeroGroup else GroupAddr result = rsGroup wanted)
     \<and> included = rsSource ` fst ` (ms - wild ms)
     \<and> excluded = (if wild ms = {} then None else Some (\<Inter>x \<in> wild ms. \<Inter>client \<in> snd ` set (snd x). excludedBy client)))"

lemma matching_append: "matching wanted (all @ [x]) = (if sharesGroup wanted (fst x) then insert x (matching wanted all) else matching wanted all)"
  by (auto simp: matching_def)

lemma wild_insert: "wild (insert x ms) = (if IsUnspecified (rsSource (fst x)) then insert x (wild ms) else wild ms)"
  by (auto simp: wild_def)

lemma wild_keep: "\<not> IsUnspecified (rsSource (fst x)) \<Longrightarrow> insert x ms - wild ms = insert x (ms - wild ms)"
  by (auto simp: wild_def)

lemma wild_absorb: "IsUnspecified (rsSource (fst x)) \<Longrightarrow> ms - insert x (wild ms) = ms - wild ms"
  by (auto simp: wild_def)

lemma upstreamLoop_append: "upstreamLoop wanted (xs @ ys) acc = upstreamLoop wanted ys (upstreamLoop wanted xs acc)"
  by (induction wanted xs acc rule: upstreamLoop.induct) (simp_all add: Let_def)

lemma upstreamLoop_one:
  assumes "summary wanted all acc" "wf_key bs key" "wf_stream key clients"
  shows "summary wanted (all @ [(key, clients)]) (upstreamLoop wanted [(key, clients)] acc)"
proof -
  obtain result included excluded where acc: "acc = (result, included, excluded)" by (cases acc)
  let ?cur = "effectiveReplicationGroup clients"
  have nonempty: "clients \<noteq> []" using assms(3) by (simp add: wf_stream_def)
  have addr: "GroupAddr ?cur = rsGroup key" using effectiveReplicationGroup_of [OF assms(3)] by (simp add: ofStream_def)
  have valid: "IsValid (rsGroup key)" using assms(2) by (simp add: wf_key_def)
  show ?thesis
  proof (cases "sharesGroup wanted key")
    case False
    then have "upstreamLoop wanted [(key, clients)] acc = acc" by (auto simp: acc sharesGroup_def)
    then show ?thesis using assms(1) False by (simp add: summary_def matching_append)
  next
    case True
    then have key: "rsSubscriber key = rsSubscriber wanted" "rsInterface key = rsInterface wanted" "rsGroup key = rsGroup wanted"
      "rsVLAN key = rsVLAN wanted" by (simp_all add: sharesGroup_def)
    have result: "GroupAddr (if \<not> IsValid (GroupAddr result) then ?cur else result) = rsGroup wanted"
      using assms(1) addr valid by (auto simp: summary_def acc Let_def key split: if_splits)
    have loop: "upstreamLoop wanted [(key, clients)] acc = (if \<not> IsValid (GroupAddr result) then ?cur else result,
        if IsUnspecified (rsSource key) then included else insert (rsSource key) included,
        if IsUnspecified (rsSource key)
        then Some (case excluded of None \<Rightarrow> set (ExcludedSources ?cur) | Some ex \<Rightarrow> ex \<inter> set (ExcludedSources ?cur)) else excluded)"
      using nonempty by (simp add: acc key Let_def)
    show ?thesis
    proof (cases "IsUnspecified (rsSource key)")
      case wildcard: True
      have "(case excluded of None \<Rightarrow> set (ExcludedSources ?cur) | Some ex \<Rightarrow> ex \<inter> set (ExcludedSources ?cur))
          = (\<Inter>x \<in> insert (key, clients) (wild (matching wanted all)). \<Inter>client \<in> snd ` set (snd x). excludedBy client)"
        using assms(1) by (auto simp: summary_def acc Let_def excluded_replication [OF assms(3) wildcard] split: option.splits if_splits)
      then show ?thesis
        using assms(1) result unfolding loop
        by (simp add: summary_def acc Let_def True wildcard matching_append wild_insert wild_absorb)
    next
      case plain: False
      then show ?thesis
        using assms(1) result unfolding loop
        by (simp add: summary_def acc Let_def True plain matching_append wild_insert wild_keep)
    qed
  qed
qed

lemma upstreamLoop_summary:
  "\<forall>(key, clients) \<in> set all. wf_key bs key \<and> wf_stream key clients \<Longrightarrow> summary wanted all (upstreamLoop wanted all (zeroGroup, {}, None))"
proof (induction all rule: rev_induct)
  case Nil then show ?case by (simp add: summary_def matching_def wild_def)
next
  case (snoc entry all)
  then show ?case by (cases entry) (auto simp: upstreamLoop_append intro: upstreamLoop_one)
qed


text \<open>The group that the proxy reports asks for exactly the sources that some client asks for.\<close>

lemma upstreamGroup_exact:
  assumes "wf_streams bs all"
  shows "case upstreamGroup all wanted of
      Ok None \<Rightarrow> matching wanted all = {}
    | Ok (Some g) \<Rightarrow> matching wanted all \<noteq> {} \<and> GroupAddr g = rsGroup wanted
        \<and> (\<forall>s. asksFor g s = (\<exists>(key, clients) \<in> matching wanted all. \<exists>client \<in> snd ` set clients. wants key client s))
    | _ \<Rightarrow> False"
proof -
  have wf: "\<forall>(key, clients) \<in> set all. wf_key bs key \<and> wf_stream key clients" using assms by (simp add: wf_streams_def)
  obtain result included excluded where loop: "upstreamLoop wanted all (zeroGroup, {}, None) = (result, included, excluded)"
    by (cases "upstreamLoop wanted all (zeroGroup, {}, None)")
  let ?ms = "matching wanted all"
  have sum: "(if ?ms = {} then result = zeroGroup else GroupAddr result = rsGroup wanted)"
    "included = rsSource ` fst ` (?ms - wild ?ms)"
    "excluded = (if wild ?ms = {} then None else Some (\<Inter>x \<in> wild ?ms. \<Inter>client \<in> snd ` set (snd x). excludedBy client))"
    using upstreamLoop_summary [OF wf, of wanted] by (simp_all add: loop summary_def Let_def)
  have fin: "finite ?ms" by (simp add: matching_def)
  have nonempty: "\<exists>client. client \<in> snd ` set clients" if "(key, clients) \<in> ?ms" for key clients
    using wf that by (cases clients) (auto simp: matching_def wf_stream_def)
  show ?thesis
  proof (cases "?ms = {}")
    case True
    then show ?thesis using sum(1) by (simp add: upstreamGroup_def loop)
  next
    case False
    then obtain key clients where member: "(key, clients) \<in> ?ms" by (cases "SOME x. x \<in> ?ms") (metis all_not_in_conv prod.collapse)
    have valid: "IsValid (GroupAddr result)"
    proof -
      have "wf_key bs key" "sharesGroup wanted key" using wf member by (auto simp: matching_def)
      then show ?thesis using sum(1) False by (simp add: sharesGroup_def wf_key_def)
    qed
    show ?thesis
    proof (cases "wild ?ms = {}")
      case True
      then have included: "included = rsSource ` fst ` ?ms" "included \<noteq> {}" and excluded: "excluded = None" using sum False by auto
      have fin_inc: "finite included" using fin included by simp
      then obtain source sources where sorted: "sortedSources included = source # sources"
        using included(2) by (cases "sortedSources included") (auto simp: sortedSources_def)
      then have members: "set (source # sources) = included" using fin_inc by (metis set_sortedSources)
      have plain: "\<not> IsUnspecified (rsSource key)" if "(key, clients) \<in> ?ms" for key clients
        using True that by (auto simp: wild_def)
      have "source \<in> rsSource ` fst ` ?ms" using members included(1) by auto
      then have "\<not> IsUnspecified source" using plain by auto
      moreover have "s \<in> included \<longleftrightarrow> (\<exists>(key, clients) \<in> ?ms. \<exists>client \<in> snd ` set clients. wants key client s)" for s
      proof
        assume "s \<in> included"
        then obtain key clients where member: "(key, clients) \<in> ?ms" "s = rsSource key" using included(1) by auto
        moreover obtain client where "client \<in> snd ` set clients" using nonempty [OF member(1)] by (elim exE)
        moreover have "wants key client s" using member plain [OF member(1)] by (simp add: wants_def)
        ultimately show "\<exists>(key, clients) \<in> ?ms. \<exists>client \<in> snd ` set clients. wants key client s" by blast
      next
        assume "\<exists>(key, clients) \<in> ?ms. \<exists>client \<in> snd ` set clients. wants key client s"
        then show "s \<in> included" using plain included(1) by (force simp: wants_def)
      qed
      ultimately show ?thesis
        using False valid sum(1) members by (simp add: upstreamGroup_def loop excluded sorted asksFor_def)
    next
      case wilds: False
      define ex where "ex = (\<Inter>x \<in> wild ?ms. \<Inter>client \<in> snd ` set (snd x). excludedBy client)"
      have excluded: "excluded = Some ex" using wilds sum(3) by (simp add: ex_def)
      obtain key clients where "(key, clients) \<in> wild ?ms" using wilds by auto
      then have member: "(key, clients) \<in> wild ?ms" and "(key, clients) \<in> ?ms" by (auto simp: wild_def)
      then obtain client where client: "client \<in> snd ` set clients" using nonempty [of key clients] by (elim meta_impE exE)
      have "ex \<subseteq> excludedBy client"
        unfolding ex_def by (rule order_trans [OF INF_lower [OF member]]) (use client in auto)
      then have fin_ex: "finite ex" by (rule finite_subset) simp
      have "s \<notin> ex - included \<longleftrightarrow> (\<exists>(key, clients) \<in> ?ms. \<exists>client \<in> snd ` set clients. wants key client s)" for s
      proof -
        have ex: "s \<notin> ex \<longleftrightarrow> (\<exists>(key, clients) \<in> ?ms. IsUnspecified (rsSource key)
            \<and> (\<exists>client \<in> snd ` set clients. s \<notin> excludedBy client))"
          by (auto simp: ex_def wild_def)
        have inc: "s \<in> included \<longleftrightarrow> (\<exists>(key, clients) \<in> ?ms. \<not> IsUnspecified (rsSource key)
            \<and> (\<exists>client \<in> snd ` set clients. s = rsSource key))"
        proof
          assume "s \<in> included"
          then obtain x where "x \<in> ?ms - wild ?ms" "s = rsSource (fst x)" by (auto simp: sum(2))
          then obtain key clients where member: "(key, clients) \<in> ?ms" "\<not> IsUnspecified (rsSource key)" "s = rsSource key"
            by (cases x) (auto simp: wild_def)
          then obtain client where "client \<in> snd ` set clients" using nonempty [of key clients] by (elim meta_impE exE) auto
          with member show "\<exists>(key, clients) \<in> ?ms. \<not> IsUnspecified (rsSource key) \<and> (\<exists>client \<in> snd ` set clients. s = rsSource key)"
            by blast
        qed (force simp: sum(2) wild_def)
        have "s \<notin> ex - included \<longleftrightarrow> s \<notin> ex \<or> s \<in> included" by simp
        then show ?thesis
          unfolding ex inc wants_def case_prod_unfold bex_disj_distrib [symmetric] by (auto intro!: bex_cong simp: ex_entry)
      qed
      moreover have "IsUnspecified (anySource a)" for a by (simp add: anySource_def IsUnspecified_def)
      ultimately show ?thesis
        using False valid sum(1) fin_ex by (simp add: upstreamGroup_def loop excluded asksFor_def)
    qed
  qed
qed


section \<open>Properties\<close>

text \<open>A backend that accepts everything, and a run on it: two clients with different filters.\<close>

definition idleClock :: "unit \<Rightarrow> Time \<times> unit" where
  "idleClock w = (1000000 * nsSecond, w)"

definition sampleOps :: "runtimeOp list" where
  "sampleOps = [ReportOp ''lan0'' (sampleReport [1, 2, 3, 4, 5, 6] allSources [Addr4 0x0a000001, Addr4 0x0a000002]),
     ReportOp ''lan0'' (sampleReport [1, 2, 3, 4, 5, 7] ModeIsInclude [Addr4 0x0a000001]), ExpireOp, MonitorOp 7]"

lemma noop_reliable: "reliable noopRuntimeBackend"
  by (simp add: reliable_def noopRuntimeBackend_def)

lemma sample_started:
  "\<exists>r w. started (sampleConfig [fullACL]) noopRuntimeBackend idleClock 0 () = (Ok r, w)"
proof -
  have "case started (sampleConfig [fullACL]) noopRuntimeBackend idleClock 0 () of (Ok _, _) \<Rightarrow> True | _ \<Rightarrow> False"
    by code_simp
  then show ?thesis by (auto split: prod.splits outcome.splits)
qed

text \<open>
  C27. Nothing stays replicated that the runtime has forgotten, on a backend whose SetReplication never
  fails: after any sequence of operations (reconfigurations, which the backend may refuse, reports,
  expiry, monitoring) every stream that the backend replicates is an entry of the runtime's stream
  table. Nothing is claimed for a backend that refuses a change of the replication.
\<close>

theorem replications_are_tracked:
  assumes "reliable b" "started cfg b c zone v = (Ok r0, w0)" "fold execRuntime ops (r0, w0) = (r, w)"
  shows "snd w \<subseteq> fst ` set (runtimeStreams r)"
  using reachable_watched [OF assms] by (auto simp: watched_ok_def tracked_def)

theorem replications_are_tracked_witness:
  "\<exists>r0 w0 r w. started (sampleConfig [fullACL]) noopRuntimeBackend idleClock 0 () = (Ok r0, w0)
     \<and> fold execRuntime sampleOps (r0, w0) = (r, w) \<and> snd w \<subseteq> fst ` set (runtimeStreams r)"
proof -
  obtain r0 w0 where start: "started (sampleConfig [fullACL]) noopRuntimeBackend idleClock 0 () = (Ok r0, w0)"
    using sample_started by auto
  obtain r w where run: "fold execRuntime sampleOps (r0, w0) = (r, w)" by (cases "fold execRuntime sampleOps (r0, w0)")
  show ?thesis using start run replications_are_tracked [OF noop_reliable start run] by blast
qed

text \<open>
  C26. The proxy subscribes upstream to exactly what the clients in its stream table ask for: in every
  state that the runtime reaches on a backend whose SetReplication never fails, the group it would
  report for a group address asks for a source if and only if some client entered in the runtime's
  stream table for that group asks for it (as an included source, or by a filter that does not exclude
  it); it reports nothing when the table has no such stream, and the computation never fails.
\<close>

theorem upstream_report_exact:
  assumes "reliable b" "started cfg b c zone v = (Ok r0, w0)" "fold execRuntime ops (r0, w0) = (r, w)"
  shows "case upstreamGroup (runtimeStreams r) wanted of
      Ok None \<Rightarrow> matching wanted (runtimeStreams r) = {}
    | Ok (Some g) \<Rightarrow> matching wanted (runtimeStreams r) \<noteq> {} \<and> GroupAddr g = rsGroup wanted
        \<and> (\<forall>s. asksFor g s = (\<exists>(key, clients) \<in> matching wanted (runtimeStreams r). \<exists>client \<in> snd ` set clients. wants key client s))
    | _ \<Rightarrow> False"
  using reachable_watched [OF assms] upstreamGroup_exact by (auto simp: watched_ok_def tracked_def)

definition sampleWanted :: runtimeStreamKey where
  "sampleWanted = \<lparr> rsSubscriber = 7, rsInterface = ''lan0'', rsSource = Addr4 0, rsGroup = Addr4 0xe8000001,
     rsVLAN = \<lparr> Tagged = False, ID = 0 \<rparr> \<rparr>"

lemma sample_upstream:
  "case started (sampleConfig [fullACL]) noopRuntimeBackend idleClock 0 () of (Ok r0, w0) \<Rightarrow>
     (case fold execRuntime sampleOps (r0, w0) of (r, w) \<Rightarrow>
        (case upstreamGroup (runtimeStreams r) sampleWanted of Ok (Some g) \<Rightarrow>
            ExcludedSources g = [Addr4 0x0a000002] | _ \<Rightarrow> False)) | _ \<Rightarrow> False"
  by code_simp

theorem upstream_report_exact_witness:
  "\<exists>r0 w0 r w. started (sampleConfig [fullACL]) noopRuntimeBackend idleClock 0 () = (Ok r0, w0)
     \<and> fold execRuntime sampleOps (r0, w0) = (r, w)
     \<and> (case upstreamGroup (runtimeStreams r) sampleWanted of
          Ok (Some g) \<Rightarrow> ExcludedSources g = [Addr4 0x0a000002]
            \<and> (\<forall>s. asksFor g s = (\<exists>(key, clients) \<in> matching sampleWanted (runtimeStreams r). \<exists>client \<in> snd ` set clients. wants key client s))
        | _ \<Rightarrow> False)"
proof -
  obtain r0 w0 where start: "started (sampleConfig [fullACL]) noopRuntimeBackend idleClock 0 () = (Ok r0, w0)"
    using sample_started by auto
  obtain r w where run: "fold execRuntime sampleOps (r0, w0) = (r, w)" by (cases "fold execRuntime sampleOps (r0, w0)")
  have "case upstreamGroup (runtimeStreams r) sampleWanted of Ok (Some g) \<Rightarrow> ExcludedSources g = [Addr4 0x0a000002] | _ \<Rightarrow> False"
    using sample_upstream by (simp add: start run)
  then obtain g where "upstreamGroup (runtimeStreams r) sampleWanted = Ok (Some g)" "ExcludedSources g = [Addr4 0x0a000002]"
    by (auto split: outcome.splits option.splits)
  then show ?thesis
    using upstream_report_exact [OF noop_reliable start run, of sampleWanted]
    by (intro exI [of _ r0] exI [of _ w0] exI [of _ r] exI [of _ w]) (simp add: start run)
qed

end
