(* ===== verification/McRange.thy ===== *)
theory McRange
  imports McTypes
begin

unbundle bit_operations_syntax

text \<open>
  Address ranges as prefixes (the functions at the end of src/internal/multicast/linux_backend.go): the
  filters of the kernel match prefixes, the rows of an access control list give ranges. A
  \<open>netip.Prefix\<close> is an address and a number of bits; the 16 octets of an IPv6 address are a list.
  \<open>TrailingZeros32\<close>, \<open>TrailingZeros8\<close> and \<open>Len64\<close> are those of math/bits.
\<close>

record Prefix =
  PrefixAddr :: Addr
  PrefixBits :: nat

definition trailingZeros :: "'a::len word \<Rightarrow> nat" where
  "trailingZeros x = length (takeWhile (\<lambda>i. \<not> bit x i) [0..<LENGTH('a)])"

definition Len64 :: "u64 \<Rightarrow> nat" where
  "Len64 x = length (dropWhile Not (rev (map (bit x) [0..<64])))"

definition blockBits4 :: "u32 \<Rightarrow> u32 \<Rightarrow> nat" where
  "blockBits4 cur stop =
     (let alignment = trailingZeros cur;
          remaining = (ucast stop - ucast cur + 1 :: u64);
          sizeBits = Len64 remaining - 1 in
      min alignment sizeBits)"

lemma trailingZeros_le: "trailingZeros (x :: 'a::len word) \<le> LENGTH('a)"
  using length_takeWhile_le [of "\<lambda>i. \<not> bit x i" "[0..<LENGTH('a)]"] by (simp add: trailingZeros_def)

lemma trailingZeros_bit: "i < trailingZeros (x :: 'a::len word) \<Longrightarrow> \<not> bit x i"
proof -
  assume i: "i < trailingZeros x"
  let ?zs = "takeWhile (\<lambda>i. \<not> bit x i) [0..<LENGTH('a)]"
  have "?zs ! i \<in> set ?zs" using i by (simp add: trailingZeros_def)
  moreover have "?zs ! i = i" using i takeWhile_nth [of i "\<lambda>i. \<not> bit x i" "[0..<LENGTH('a)]"] trailingZeros_le [of x]
    by (simp add: trailingZeros_def)
  ultimately show ?thesis by (metis set_takeWhileD)
qed

lemma trailingZeros_dvd: "2 ^ trailingZeros x dvd unat (x :: 'a::len word)"
proof -
  have "take_bit (trailingZeros x) x = 0"
    by (rule bit_word_eqI) (auto simp: bit_take_bit_iff dest: trailingZeros_bit)
  then have "take_bit (trailingZeros x) (unat x) = 0"
    by (metis unsigned_0 unsigned_take_bit_eq)
  then show ?thesis by (simp add: take_bit_eq_mod dvd_eq_mod_eq_0)
qed

lemma bit_le: "bit (x :: 'a::len word) n \<Longrightarrow> 2 ^ n \<le> unat x"
proof -
  assume "bit x n"
  then have "bit (unat x) n" by (simp add: bit_unsigned_iff bit_imp_le_length)
  then have "odd (unat x div 2 ^ n)" by (simp add: bit_iff_odd)
  then have "unat x div 2 ^ n \<noteq> 0" by (metis even_zero)
  then show ?thesis by (simp add: div_eq_0_iff not_less)
qed

lemma Len64_bounds:
  assumes "x \<noteq> 0" shows "0 < Len64 x" "2 ^ (Len64 x - 1) \<le> unat x" "Len64 x \<le> 64"
proof -
  let ?bs = "rev (map (bit x) [0..<64])"
  have "\<exists>i < 64. bit x i" using assms bit_word_eqI [of x 0] by (auto dest: bit_imp_le_length)
  then have nonempty: "dropWhile Not ?bs \<noteq> []" by auto
  then show pos: "0 < Len64 x" by (simp add: Len64_def)
  show le: "Len64 x \<le> 64" using length_dropWhile_le [of Not ?bs] by (simp add: Len64_def)
  have "hd (dropWhile Not ?bs)" using hd_dropWhile [OF nonempty] by simp
  moreover have "dropWhile Not ?bs = drop (64 - Len64 x) ?bs"
  proof -
    have "dropWhile Not ?bs = drop (length (takeWhile Not ?bs)) ?bs" by (simp add: dropWhile_eq_drop)
    moreover have "length (takeWhile Not ?bs) + Len64 x = 64"
      unfolding Len64_def length_append [symmetric] takeWhile_dropWhile_id by simp
    ultimately show ?thesis by (metis add_diff_cancel_right')
  qed
  ultimately have "bit x (Len64 x - 1)"
    using pos le by (simp add: hd_drop_conv_nth rev_nth)
  then show "2 ^ (Len64 x - 1) \<le> unat x" by (rule bit_le)
qed

text \<open>The block at \<open>cur\<close> is aligned and does not leave the range.\<close>

lemma blockBits4_ok:
  assumes "cur \<le> stop"
  shows "blockBits4 cur stop \<le> 32" "2 ^ blockBits4 cur stop dvd unat cur" "unat cur + 2 ^ blockBits4 cur stop \<le> unat stop + 1"
proof -
  define remaining where "remaining = (ucast stop - ucast cur + 1 :: u64)"
  have le: "unat cur \<le> unat stop" "unat stop < 2 ^ 32" using assms unsigned_less [of stop] by (simp_all add: word_le_nat_alt)
  have "unat remaining = unat stop - unat cur + 1"
  proof -
    have "(ucast cur :: u64) \<le> ucast stop" using le by (simp add: word_le_nat_alt unsigned_ucast_eq take_bit_nat_eq_self)
    then have "unat (ucast stop - ucast cur :: u64) = unat stop - unat cur"
      using le by (simp add: unat_sub unsigned_ucast_eq take_bit_nat_eq_self)
    then show ?thesis using le by (simp add: remaining_def unat_word_ariths)
  qed
  moreover from this have "remaining \<noteq> 0" by auto
  ultimately have "2 ^ (Len64 remaining - 1) \<le> unat stop - unat cur + 1" using Len64_bounds(2) [of remaining] by simp
  moreover have bits: "blockBits4 cur stop = min (trailingZeros cur) (Len64 remaining - 1)"
    by (simp add: blockBits4_def remaining_def Let_def)
  moreover have "(2::nat) ^ blockBits4 cur stop \<le> 2 ^ (Len64 remaining - 1)"
    unfolding bits by (intro power_increasing) simp_all
  ultimately have "2 ^ blockBits4 cur stop \<le> unat stop - unat cur + 1" by (meson order_trans)
  with le show "unat cur + 2 ^ blockBits4 cur stop \<le> unat stop + 1" by simp
  show "blockBits4 cur stop \<le> 32" using trailingZeros_le [of cur] by (simp add: bits)
  have "(2::nat) ^ blockBits4 cur stop dvd 2 ^ trailingZeros cur" by (intro le_imp_power_dvd) (simp add: bits)
  then show "2 ^ blockBits4 cur stop dvd unat cur" using trailingZeros_dvd dvd_trans by blast
qed

text \<open>The first address after the block; it wraps around only past the last address.\<close>

definition after4 :: "u32 \<Rightarrow> u32 \<Rightarrow> u32" where
  "after4 cur stop = cur + push_bit (blockBits4 cur stop) 1"

lemma after4_mod: "unat (after4 cur stop) = (unat cur + 2 ^ blockBits4 cur stop) mod 2 ^ 32"
proof -
  have "after4 cur stop = cur + of_nat (2 ^ blockBits4 cur stop)" by (simp add: after4_def push_bit_eq_mult)
  then show ?thesis by (simp add: unat_word_ariths unat_of_nat take_bit_eq_mod mod_simps del: of_nat_power)
qed

lemma after4_bound: "cur \<le> stop \<Longrightarrow> unat cur + 2 ^ blockBits4 cur stop \<le> 2 ^ 32"
  using blockBits4_ok(3) [of cur stop] unsigned_less [of stop, where ?'a = nat] by simp

lemma after4_wraps: "cur \<le> stop \<Longrightarrow> after4 cur stop = 0 \<longleftrightarrow> unat cur + 2 ^ blockBits4 cur stop = 2 ^ 32"
proof -
  assume "cur \<le> stop"
  have "after4 cur stop = 0 \<longleftrightarrow> (unat cur + 2 ^ blockBits4 cur stop) mod 2 ^ 32 = 0"
    by (simp add: word_unat_eq_iff after4_mod)
  moreover have "n mod 2 ^ 32 = 0 \<longleftrightarrow> n = 2 ^ 32" if "0 < n" "n \<le> 2 ^ 32" for n :: nat
    using that by (cases "n = 2 ^ 32") simp_all
  ultimately show ?thesis using after4_bound [OF \<open>cur \<le> stop\<close>] by simp
qed

lemma after4_value:
  assumes "cur \<le> stop" "after4 cur stop \<noteq> 0"
  shows "unat (after4 cur stop) = unat cur + 2 ^ blockBits4 cur stop"
  using after4_mod [of cur stop] after4_wraps [OF assms(1)] after4_bound [OF assms(1)] assms(2) by simp

function ipv4Loop :: "u32 \<Rightarrow> u32 \<Rightarrow> Prefix list" where
  "ipv4Loop cur stop =
     (if cur > stop then []
      else \<lparr> PrefixAddr = AddrFrom4 (put32 cur), PrefixBits = 32 - blockBits4 cur stop \<rparr> #
        (if after4 cur stop = 0 then [] else ipv4Loop (after4 cur stop) stop))"
  by pat_completeness auto
termination
proof (relation "measure (\<lambda>(cur, stop). 2 ^ 32 - unat cur)")
  fix cur stop :: u32
  assume "\<not> cur > stop" "after4 cur stop \<noteq> 0"
  then have "unat (after4 cur stop) = unat cur + 2 ^ blockBits4 cur stop" by (intro after4_value) simp_all
  moreover have "unat (after4 cur stop) < 2 ^ 32" using unsigned_less [of "after4 cur stop", where ?'a = nat] by simp
  ultimately have "2 ^ 32 - unat (after4 cur stop) < 2 ^ 32 - unat cur"
    by (intro diff_less_mono2) simp_all
  then show "((after4 cur stop, stop), cur, stop) \<in> measure (\<lambda>(cur, stop). 2 ^ 32 - unat cur)" by simp
qed simp

declare ipv4Loop.simps [simp del]

definition binaryAddress4 :: "Addr \<Rightarrow> ('e, u32) outcome" where
  "binaryAddress4 address = bindR (As4 address) (\<lambda>octets. Ok (be32 octets 0))"

definition ipv4RangePrefixes :: "Addr \<Rightarrow> Addr \<Rightarrow> ('e, Prefix list) outcome" where
  "ipv4RangePrefixes start stop =
     bindR (binaryAddress4 start) (\<lambda>cur. bindR (binaryAddress4 stop) (\<lambda>stop'. Ok (ipv4Loop cur stop')))"


section \<open>IPv6\<close>

definition trailingZeros16 :: "bytes \<Rightarrow> nat" where
  "trailingZeros16 value' = (let zeros = takeWhile (\<lambda>octet. octet = 0) (rev value') in
     8 * length zeros + (if length zeros < length value' then trailingZeros (value' ! (length value' - 1 - length zeros)) else 0))"

definition prefixLast16 :: "bytes \<Rightarrow> nat \<Rightarrow> bytes" where
  "prefixLast16 address prefixLength =
     fold (\<lambda>i result. result[i div 8 := (result ! (i div 8)) OR push_bit (7 - i mod 8) 1]) [prefixLength..<128] address"

fun compare16 :: "bytes \<Rightarrow> bytes \<Rightarrow> int" where
  "compare16 (l # ls) (r # rs) = (if l < r then -1 else if l > r then 1 else compare16 ls rs)"
| "compare16 _ _ = 0"

text \<open>The loop from the last octet: the octets that are left, reversed, and whether all of them overflowed.\<close>

fun incrementLoop :: "bytes \<Rightarrow> bytes \<times> bool" where
  "incrementLoop [] = ([], True)"
| "incrementLoop (octet # octets) =
     (if octet + 1 \<noteq> 0 then ((octet + 1) # octets, False)
      else case incrementLoop octets of (rest, overflow) \<Rightarrow> ((octet + 1) # rest, overflow))"

definition increment16 :: "bytes \<Rightarrow> bytes \<times> bool" where
  "increment16 value' = (case incrementLoop (rev value') of (result, overflow) \<Rightarrow> (rev result, overflow))"

fun shrinkBlock :: "bytes \<Rightarrow> bytes \<Rightarrow> nat \<Rightarrow> nat" where
  "shrinkBlock cur stop 0 = 0"
| "shrinkBlock cur stop (Suc blockBits) =
     (if compare16 (prefixLast16 cur (128 - Suc blockBits)) stop > 0 then shrinkBlock cur stop blockBits else Suc blockBits)"


section \<open>Octets as numbers\<close>

definition octetsValue :: "bytes \<Rightarrow> int" where
  "octetsValue xs = horner_sum uint (2 ^ 8) (rev xs)"

lemma octetsValue_Nil [simp]: "octetsValue [] = 0"
  by (simp add: octetsValue_def)

lemma octetsValue_Cons: "octetsValue (x # xs) = uint x * 2 ^ (8 * length xs) + octetsValue xs"
  by (simp add: octetsValue_def horner_sum_append power_mult)

lemma digit_less:
  assumes "x < y" "0 \<le> v" "v < b" "0 \<le> v'" shows "x * b + v < y * b + (v' :: int)"
proof -
  have "(x + 1) * b \<le> y * b" using assms by (intro mult_right_mono) simp_all
  with assms show ?thesis by (simp add: distrib_right)
qed

lemma octetsValue_bounds: "0 \<le> octetsValue xs \<and> octetsValue xs < 2 ^ (8 * length xs)"
proof (induction xs)
  case (Cons x xs)
  have "uint x < 2 ^ 8" using uint_bounded [of x] by simp
  from digit_less [OF this, of "octetsValue xs" "2 ^ (8 * length xs)" 0] Cons
  have "uint x * 2 ^ (8 * length xs) + octetsValue xs < 2 ^ 8 * 2 ^ (8 * length xs)" by simp
  with Cons show ?case by (simp add: octetsValue_Cons power_add)
qed simp

lemma compare16_value:
  "length l = length r \<Longrightarrow> compare16 l r = sgn (octetsValue l - octetsValue r)"
proof (induction l r rule: list_induct2)
  case (Cons x xs y ys)
  have less: "octetsValue (a # as) < octetsValue (b # bs)" if "a < b" "length as = length bs" for a b as bs
    using digit_less [of "uint a" "uint b" "octetsValue as" "2 ^ (8 * length bs)" "octetsValue bs"]
      octetsValue_bounds [of as] octetsValue_bounds [of bs] that
    by (simp add: octetsValue_Cons word_less_def)
  consider "x < y" | "y < x" | "x = y" by fastforce
  then show ?case
  proof cases
    case 1 then show ?thesis using less [OF 1 Cons(1)] by simp
  next
    case 2 then show ?thesis using less [OF 2 Cons(1) [symmetric]] by simp
  next
    case 3 then show ?thesis using Cons by (simp add: octetsValue_Cons)
  qed
qed simp

lemma compare16_le: "length l = length r \<Longrightarrow> compare16 l r \<le> 0 \<longleftrightarrow> octetsValue l \<le> octetsValue r"
  by (simp add: compare16_value sgn_if)

lemma compare16_greater: "length l = length r \<Longrightarrow> compare16 l r > 0 \<longleftrightarrow> octetsValue l > octetsValue r"
  by (simp add: compare16_value sgn_if)

lemma octetsValue_rev_Cons: "octetsValue (rev (y # ys)) = uint y + 2 ^ 8 * octetsValue (rev ys)"
  by (simp add: octetsValue_def)

lemma incrementLoop_value:
  "incrementLoop ys = (zs, overflow) \<Longrightarrow> length zs = length ys
    \<and> (if overflow then octetsValue (rev ys) + 1 = 2 ^ (8 * length ys) else octetsValue (rev zs) = octetsValue (rev ys) + 1)"
proof (induction ys arbitrary: zs overflow)
  case (Cons y ys)
  show ?case
  proof (cases "y + 1 = 0")
    case True
    then have "y = - 1" by (simp add: eq_neg_iff_add_eq_0)
    then have y: "uint y = 255" by (simp add: unsigned_minus_1_eq_mask mask_eq_exp_minus_1)
    obtain rest o' where rest: "incrementLoop ys = (rest, o')" by (cases "incrementLoop ys")
    with Cons.prems True have zs: "zs = 0 # rest" "o' = overflow" by auto
    show ?thesis using Cons.IH [OF rest] zs y by (auto simp: octetsValue_rev_Cons power_add simp del: rev.simps)
  next
    case False
    then have "unat (1 + y) = Suc (unat y)" by (intro unatSuc) (simp add: add.commute)
    then have "int (unat (1 + y)) = int (Suc (unat y))" by (rule arg_cong)
    then have "uint (y + 1) = uint y + 1" by (simp add: add.commute)
    with Cons.prems False show ?thesis by (auto simp: octetsValue_rev_Cons simp del: rev.simps)
  qed
qed simp

lemma octetsValue_bit: "bit (octetsValue xs) n \<longleftrightarrow> n < 8 * length xs \<and> bit (xs ! (length xs - 1 - n div 8)) (n mod 8)"
proof -
  have "n div 8 < length xs \<longleftrightarrow> n < 8 * length xs" by auto
  then show ?thesis
    using bit_horner_sum_uint_exp_iff [of "rev xs" n] by (auto simp: octetsValue_def rev_nth)
qed

lemma octetsValue_inject: "length xs = length ys \<Longrightarrow> octetsValue xs = octetsValue ys \<longleftrightarrow> xs = ys"
proof (induction xs ys rule: list_induct2)
  case (Cons x xs y ys)
  have "octetsValue (x # xs) \<noteq> octetsValue (y # ys)" if "x \<noteq> y"
  proof -
    have "compare16 (x # xs) (y # ys) \<noteq> 0" using that by auto
    then have "sgn (octetsValue (x # xs) - octetsValue (y # ys)) \<noteq> 0"
      using compare16_value [of "x # xs" "y # ys"] Cons(1) by (metis length_Cons)
    then show ?thesis by auto
  qed
  with Cons show ?case by (cases "x = y") (simp_all add: octetsValue_Cons)
qed simp

lemma one_bit: "m < 8 \<Longrightarrow> bit (push_bit m (1 :: u8)) i \<longleftrightarrow> i = m"
  unfolding bit_push_bit_iff bit_1_iff by auto

lemma octal_eq: "b < 8 \<Longrightarrow> d < 8 \<Longrightarrow> a = c \<and> b = d \<longleftrightarrow> 8 * c + b = 8 * a + (d :: nat)"
proof
  assume "b < 8" "d < 8" and eq: "8 * c + b = 8 * a + d"
  then have "(8 * c + b) div 8 = c" "(8 * a + d) div 8 = a" by simp_all
  with eq show "a = c \<and> b = d" by simp
qed simp

lemma setBits_bit:
  assumes "length address = 16" "p \<le> q" "q \<le> 128"
  shows "length (fold (\<lambda>i result. result[i div 8 := (result ! (i div 8)) OR push_bit (7 - i mod 8) 1]) [p..<q] address) = 16 \<and>
    bit (octetsValue (fold (\<lambda>i result. result[i div 8 := (result ! (i div 8)) OR push_bit (7 - i mod 8) 1]) [p..<q] address)) n
     = (bit (octetsValue address) n \<or> 128 - q \<le> n \<and> n < 128 - p)"
  using assms(2,3)
proof (induction rule: dec_induct)
  case base then show ?case using assms(1) by auto
next
  case (step q)
  define r where "r = fold (\<lambda>i result. result[i div 8 := (result ! (i div 8)) OR push_bit (7 - i mod 8) (1 :: u8)]) [p..<q] address"
  have r: "length r = 16" "bit (octetsValue r) n = (bit (octetsValue address) n \<or> 128 - q \<le> n \<and> n < 128 - p)"
    using step by (simp_all add: r_def)
  have place: "n < 128 \<Longrightarrow> 15 - n div 8 = q div 8 \<and> n mod 8 = 7 - q mod 8 \<longleftrightarrow> n = 127 - q"
  proof -
    assume n: "n < 128"
    obtain a b c d where nq: "n = 8 * a + b" "b < 8" "q = 8 * c + d" "d < 8" "a = n div 8" "b = n mod 8" "c = q div 8" "d = q mod 8"
      by (metis mod_less_divisor mult_div_mod_eq zero_less_numeral)
    define a' d' where "a' = 15 - a" and "d' = 7 - d"
    then have "a + a' = 15" "d + d' = 7" using n nq(1,4) by simp_all
    moreover have "q < 128" using step.prems by simp
    ultimately have sums: "n = 127 - q \<longleftrightarrow> 8 * c + b = 8 * a' + d'" using nq(1,3) by auto
    have "d' < 8" using \<open>d + d' = 7\<close> by simp
    then have "a' = c \<and> b = d' \<longleftrightarrow> 8 * c + b = 8 * a' + d'"
      using octal_eq [OF nq(2)] by blast
    with sums have "a' = c \<and> b = d' \<longleftrightarrow> n = 127 - q" by simp
    then show ?thesis using nq(5-8) by (simp add: a'_def d'_def)
  qed
  have q8: "q div 8 < 16" using step.prems by simp
  have assigned: "bit (octetsValue (r[q div 8 := (r ! (q div 8)) OR push_bit (7 - q mod 8) 1])) n = (bit (octetsValue r) n \<or> n = 127 - q)"
  proof (cases "n < 128")
    case True
    have seven: "7 - q mod 8 < 8" by simp
    show ?thesis
    proof (cases "15 - n div 8 = q div 8")
      case same: True
      then have "bit (octetsValue (r[q div 8 := (r ! (q div 8)) OR push_bit (7 - q mod 8) 1])) n
          = (bit (r ! (q div 8)) (n mod 8) \<or> n mod 8 = 7 - q mod 8)"
        using r(1) q8 True by (simp add: octetsValue_bit bit_or_iff one_bit [OF seven] del: push_bit_of_1)
      moreover have "bit (octetsValue r) n = bit (r ! (q div 8)) (n mod 8)"
        using r(1) same True by (simp add: octetsValue_bit)
      moreover have "n mod 8 = 7 - q mod 8 \<longleftrightarrow> n = 127 - q" using place [OF True] same by blast
      ultimately show ?thesis by blast
    next
      case False
      then have idx: "q div 8 \<noteq> length r - 1 - n div 8" unfolding r(1) by simp
      have "bit (octetsValue (r[q div 8 := (r ! (q div 8)) OR push_bit (7 - q mod 8) 1])) n = bit (octetsValue r) n"
        unfolding octetsValue_bit length_list_update nth_list_update_neq [OF idx] by (rule refl)
      moreover have "n \<noteq> 127 - q" using place [OF True] False by blast
      ultimately show ?thesis by blast
    qed
  qed (use r(1) step.prems in \<open>simp add: octetsValue_bit\<close>)
  have range: "128 - Suc q \<le> n \<and> n < 128 - p \<longleftrightarrow> (128 - q \<le> n \<and> n < 128 - p) \<or> n = 127 - q"
    using step.hyps step.prems by linarith
  have "fold (\<lambda>i result. result[i div 8 := (result ! (i div 8)) OR push_bit (7 - i mod 8) (1 :: u8)]) [p..<Suc q] address
      = r[q div 8 := (r ! (q div 8)) OR push_bit (7 - q mod 8) 1]"
    using step.hyps by (simp add: r_def)
  then show ?case
    unfolding range by (simp only: length_list_update assigned r) blast
qed

lemma prefixLast16_bit:
  assumes "length address = 16" "p \<le> 128"
  shows "length (prefixLast16 address p) = 16 \<and>
    bit (octetsValue (prefixLast16 address p)) n = (bit (octetsValue address) n \<or> n < 128 - p)"
  using setBits_bit [OF assms order_refl] by (simp add: prefixLast16_def)

lemma prefixLast16_value:
  assumes "length address = 16" "k \<le> 128" "2 ^ k dvd octetsValue address"
  shows "octetsValue (prefixLast16 address (128 - k)) = octetsValue address + 2 ^ k - 1"
proof -
  have low: "\<not> bit (octetsValue address) n" if "n < k" for n
  proof -
    have "take_bit k (octetsValue address) = 0" using assms(3) by (simp add: take_bit_eq_0_iff)
    then have "\<not> bit (take_bit k (octetsValue address)) n" by simp
    with that show ?thesis by (simp add: bit_take_bit_iff)
  qed
  have "octetsValue (prefixLast16 address (128 - k)) = octetsValue address OR mask k"
    using prefixLast16_bit [OF assms(1), of "128 - k"] assms(2) by (intro bit_eqI) (auto simp: bit_or_iff bit_mask_iff)
  also have "\<dots> = octetsValue address + mask k"
    by (rule disjunctive_add [symmetric]) (auto simp: bit_mask_iff low)
  finally show ?thesis by (simp add: mask_eq_exp_minus_1)
qed

lemma trailingZeros16_bit:
  assumes "length xs = 16" "n < trailingZeros16 xs" shows "\<not> bit (octetsValue xs) n"
proof -
  let ?zs = "takeWhile (\<lambda>octet. octet = 0) (rev xs)"
  have z: "length ?zs \<le> 16" using length_takeWhile_le [of "\<lambda>octet. octet = 0" "rev xs"] assms(1) by simp
  have zero: "xs ! (15 - i) = 0" if "i < length ?zs" for i
  proof -
    have "?zs ! i = rev xs ! i" using that by (rule takeWhile_nth)
    moreover have "?zs ! i = 0" using nth_mem [OF that] set_takeWhileD by fastforce
    ultimately show ?thesis using that z assms(1) by (simp add: rev_nth)
  qed
  show ?thesis
  proof (cases "n div 8 < length ?zs")
    case True
    then show ?thesis using zero [OF True] assms(1) by (simp add: octetsValue_bit)
  next
    case False
    have tz: "trailingZeros16 xs = 8 * length ?zs + (if length ?zs < 16 then trailingZeros (xs ! (15 - length ?zs)) else 0)"
      using assms(1) by (simp add: trailingZeros16_def Let_def)
    have t: "trailingZeros (xs ! (15 - length ?zs)) \<le> 8" using trailingZeros_le [of "xs ! (15 - length ?zs)"] by simp
    have less: "length ?zs < 16" and "n < 8 * length ?zs + trailingZeros (xs ! (15 - length ?zs))"
      using assms(2) False z tz by (auto split: if_splits)
    then have "n < (length ?zs + 1) * 8" using t by simp
    then have "n div 8 < length ?zs + 1" by (rule less_mult_imp_div_less)
    with False have eight: "n div 8 = length ?zs" by simp
    moreover have "n mod 8 < trailingZeros (xs ! (15 - length ?zs))"
      using \<open>n < 8 * length ?zs + trailingZeros _\<close> mult_div_mod_eq [of 8 n] unfolding eight by linarith
    ultimately show ?thesis
      using assms(1) trailingZeros_bit [of "n mod 8" "xs ! (15 - length ?zs)"] by (simp add: octetsValue_bit)
  qed
qed

lemma trailingZeros16_le: "length xs = 16 \<Longrightarrow> trailingZeros16 xs \<le> 128"
proof -
  assume len: "length xs = 16"
  let ?zs = "takeWhile (\<lambda>octet. octet = 0) (rev xs)"
  have "length ?zs \<le> 16" using length_takeWhile_le [of "\<lambda>octet. octet = 0" "rev xs"] len by simp
  moreover have "trailingZeros (xs ! (15 - length ?zs)) \<le> 8" using trailingZeros_le [of "xs ! (15 - length ?zs)"] by simp
  ultimately show ?thesis using len by (simp add: trailingZeros16_def Let_def)
qed

lemma trailingZeros16_dvd: "length xs = 16 \<Longrightarrow> k \<le> trailingZeros16 xs \<Longrightarrow> 2 ^ k dvd octetsValue xs"
  unfolding take_bit_eq_0_iff [symmetric] by (rule bit_eqI) (auto simp: bit_take_bit_iff trailingZeros16_bit)


section \<open>The IPv6 loop\<close>

text \<open>What \<open>shrinkBlock\<close> leaves: the largest block at \<open>cur\<close> within \<open>bits\<close> that ends in the range.\<close>

lemma shrinkBlock_ok:
  assumes "length cur = 16" "length stop = 16" "octetsValue cur \<le> octetsValue stop"
  shows "k \<le> 128 \<Longrightarrow> 2 ^ k dvd octetsValue cur \<Longrightarrow> shrinkBlock cur stop k \<le> k
    \<and> octetsValue cur + 2 ^ shrinkBlock cur stop k \<le> octetsValue stop + 1"
proof (induction k)
  case (Suc k)
  have "2 ^ k dvd octetsValue cur" using Suc.prems(2) by (metis dvd_trans le_imp_power_dvd le_SucI order_refl)
  moreover have "octetsValue (prefixLast16 cur (128 - Suc k)) = octetsValue cur + 2 ^ Suc k - 1"
    by (rule prefixLast16_value [OF assms(1) Suc.prems])
  moreover have "length (prefixLast16 cur (128 - Suc k)) = 16" using prefixLast16_bit [OF assms(1)] by simp
  ultimately show ?case
    using Suc compare16_greater [of "prefixLast16 cur (128 - Suc k)" stop] assms(2) by auto
qed (use assms(3) in simp)

definition blockBits6 :: "bytes \<Rightarrow> bytes \<Rightarrow> nat" where
  "blockBits6 cur stop = shrinkBlock cur stop (trailingZeros16 cur)"

definition end6 :: "bytes \<Rightarrow> bytes \<Rightarrow> bytes" where
  "end6 cur stop = prefixLast16 cur (128 - blockBits6 cur stop)"

lemma block6_ok:
  assumes "length cur = 16" "length stop = 16" "octetsValue cur \<le> octetsValue stop"
  shows "blockBits6 cur stop \<le> 128" "2 ^ blockBits6 cur stop dvd octetsValue cur"
    "octetsValue cur + 2 ^ blockBits6 cur stop \<le> octetsValue stop + 1"
    "length (end6 cur stop) = 16" "octetsValue (end6 cur stop) = octetsValue cur + 2 ^ blockBits6 cur stop - 1"
proof -
  have shrink: "blockBits6 cur stop \<le> trailingZeros16 cur" "octetsValue cur + 2 ^ blockBits6 cur stop \<le> octetsValue stop + 1"
    using shrinkBlock_ok [OF assms trailingZeros16_le [OF assms(1)] trailingZeros16_dvd [OF assms(1) order_refl]]
    by (simp_all add: blockBits6_def)
  then show le: "blockBits6 cur stop \<le> 128" and "octetsValue cur + 2 ^ blockBits6 cur stop \<le> octetsValue stop + 1"
    using trailingZeros16_le [OF assms(1)] by simp_all
  show dvd: "2 ^ blockBits6 cur stop dvd octetsValue cur" by (rule trailingZeros16_dvd [OF assms(1) shrink(1)])
  show "length (end6 cur stop) = 16" using prefixLast16_bit [OF assms(1)] by (simp add: end6_def)
  show "octetsValue (end6 cur stop) = octetsValue cur + 2 ^ blockBits6 cur stop - 1"
    unfolding end6_def by (rule prefixLast16_value [OF assms(1) le dvd])
qed

lemma increment16_value:
  assumes "increment16 xs = (ys, overflow)"
  shows "length ys = length xs" "if overflow then octetsValue xs + 1 = 2 ^ (8 * length xs) else octetsValue ys = octetsValue xs + 1"
proof -
  obtain zs where "incrementLoop (rev xs) = (zs, overflow)" "ys = rev zs"
    using assms by (auto simp: increment16_def split: prod.splits)
  with incrementLoop_value [OF this(1)] show "length ys = length xs"
    "if overflow then octetsValue xs + 1 = 2 ^ (8 * length xs) else octetsValue ys = octetsValue xs + 1" by auto
qed

text \<open>The octets of an address are always 16; the test of the lengths is for the model's lists only.\<close>

function ipv6Loop :: "bytes \<Rightarrow> bytes \<Rightarrow> Prefix list" where
  "ipv6Loop cur stop =
     (if length cur \<noteq> 16 \<or> length stop \<noteq> 16 \<or> compare16 cur stop > 0 then []
      else \<lparr> PrefixAddr = AddrFrom16 cur, PrefixBits = 128 - blockBits6 cur stop \<rparr> #
        (case increment16 (end6 cur stop) of (nxt, overflow) \<Rightarrow> if overflow then [] else ipv6Loop nxt stop))"
  by pat_completeness auto
termination
proof (relation "measure (\<lambda>(cur, stop). nat (2 ^ 128 - octetsValue cur))", simp, goal_cases)
  case (1 cur stop nxt overflow)
  then have len: "length cur = 16" "length stop = 16" and le: "octetsValue cur \<le> octetsValue stop"
    using compare16_greater [of cur stop] by auto
  note block = block6_ok [OF len le]
  have "increment16 (end6 cur stop) = (nxt, overflow)" using 1 by simp
  from increment16_value [OF this] block(4,5) 1 have "octetsValue nxt = octetsValue cur + 2 ^ blockBits6 cur stop"
    by simp
  moreover have "octetsValue cur < 2 ^ 128" using octetsValue_bounds [of cur] len by simp
  ultimately show ?case by simp
qed

declare ipv6Loop.simps [simp del]

definition ipv6RangePrefixes :: "Addr \<Rightarrow> Addr \<Rightarrow> Prefix list" where
  "ipv6RangePrefixes start stop = ipv6Loop (As16 start) (As16 stop)"

definition addressRangePrefixes :: "Addr \<Rightarrow> Addr \<Rightarrow> (go_error, Prefix list) outcome" where
  "addressRangePrefixes start stop =
     (if \<not> IsValid start \<or> \<not> IsValid stop \<or> BitLen start \<noteq> BitLen stop \<or> start > stop
      then Err (Errorf ''invalid multicast range %s..%s'' [ABytes (AsSlice start), ABytes (AsSlice stop)])
      else if Is4 start then ipv4RangePrefixes start stop
      else Ok (ipv6RangePrefixes start stop))"

end
