(* ===== verification/McRangeProofs.thy ===== *)
theory McRangeProofs
  imports McRange
begin

text \<open>
  The prefixes of an address range cover it exactly, for IPv4 and IPv6: each address of the range lies
  in exactly one of them, no other address does, and they come in ascending order.
\<close>

definition addressNumber :: "Addr \<Rightarrow> int" where
  "addressNumber a = octetsValue (AsSlice a)"

text \<open>\<open>Prefix.Contains\<close> of net/netip: an address of the same family with the same leading bits.\<close>

definition Contains :: "Prefix \<Rightarrow> Addr \<Rightarrow> bool" where
  "Contains p a = (BitLen a = BitLen (PrefixAddr p)
     \<and> addressNumber a div 2 ^ (BitLen a - PrefixBits p) = addressNumber (PrefixAddr p) div 2 ^ (BitLen a - PrefixBits p))"

definition hits :: "Prefix list \<Rightarrow> Addr \<Rightarrow> nat" where
  "hits ps a = length (filter (\<lambda>p. Contains p a) ps)"

section \<open>Addresses as numbers\<close>

lemma octetsValue_append: "octetsValue (xs @ ys) = octetsValue xs * 2 ^ (8 * length ys) + octetsValue ys"
  by (induction xs) (simp_all add: octetsValue_Cons power_add distrib_right)

lemma octetsValue_put32: "octetsValue (put32 w) = uint w"
proof (rule bit_eqI)
  fix n :: nat
  consider "n < 8" | "8 \<le> n" "n < 16" | "16 \<le> n" "n < 24" | "24 \<le> n" "n < 32" | "32 \<le> n" by linarith
  then show "bit (octetsValue (put32 w)) n = bit (uint w) n"
  proof cases
    case 1 then show ?thesis by (simp add: octetsValue_bit put32_def bit_simps)
  next
    case 2 then have "n div 8 = 1" by (intro div_nat_eqI) simp_all
    moreover from this have "n mod 8 = n - 8" "n - 8 < 8" using minus_div_mult_eq_mod [of n 8] 2 by simp_all
    ultimately show ?thesis using 2 by (simp add: octetsValue_bit put32_def bit_simps)
  next
    case 3 then have "n div 8 = 2" by (intro div_nat_eqI) simp_all
    moreover from this have "n mod 8 = n - 16" "n - 16 < 8" using minus_div_mult_eq_mod [of n 8] 3 by simp_all
    ultimately show ?thesis using 3 by (simp add: octetsValue_bit put32_def bit_simps)
  next
    case 4 then have "n div 8 = 3" by (intro div_nat_eqI) simp_all
    moreover from this have "n mod 8 = n - 24" "n - 24 < 8" using minus_div_mult_eq_mod [of n 8] 4 by simp_all
    ultimately show ?thesis using 4 by (simp add: octetsValue_bit put32_def bit_simps)
  next
    case 5 then show ?thesis by (simp add: octetsValue_bit bit_uint_iff)
  qed
qed

lemma octetsValue_put64: "octetsValue (put64 w) = uint w"
proof -
  have "uint (drop_bit 32 w) = uint w div 2 ^ 32"
    using unsigned_less [of w, where ?'a = int]
    by (simp only: unsigned_drop_bit_eq) (simp add: drop_bit_eq_div take_bit_int_eq_self)
  moreover have "uint (ucast v :: u32) = uint v mod 2 ^ 32" for v :: u64
    by (simp add: unsigned_ucast_eq take_bit_eq_mod)
  moreover have "uint w div 2 ^ 32 < 2 ^ 32" "0 \<le> uint w div 2 ^ 32"
    using unsigned_less [of w, where ?'a = int] by (simp_all add: pos_imp_zdiv_nonneg_iff)
  ultimately have "uint (ucast (drop_bit 32 w) :: u32) = uint w div 2 ^ 32" by simp
  moreover have "uint (ucast w :: u32) = uint w mod 2 ^ 32"
    by (simp add: unsigned_ucast_eq take_bit_eq_mod)
  ultimately show ?thesis
    by (simp add: put64_def octetsValue_append octetsValue_put32)
qed

lemma addressNumber_simps [simp]:
  "addressNumber NoAddr = 0" "addressNumber (Addr4 x) = uint x" "addressNumber (Addr6 hi lo) = uint hi * 2 ^ 64 + uint lo"
  by (simp_all add: addressNumber_def octetsValue_append octetsValue_put32 octetsValue_put64)

lemma addressNumber_order:
  assumes "BitLen a = BitLen b" shows "a \<le> b \<longleftrightarrow> addressNumber a \<le> addressNumber b"
proof (cases a; cases b)
  fix hi lo hi' lo' assume ab: "a = Addr6 hi lo" "b = Addr6 hi' lo'"
  have less: "uint h * 2 ^ 64 + uint l < uint h' * 2 ^ 64 + uint l'" if "h < h'" for h h' l l' :: u64
    using digit_less [of "uint h" "uint h'" "uint l" "2 ^ 64" "uint l'"] uint_bounded [of l] that by (simp add: word_less_def)
  consider "hi < hi'" | "hi' < hi" | "hi = hi'" by fastforce
  then show ?thesis
  proof cases
    case 1 then show ?thesis using less [OF 1, of lo lo'] by (simp add: ab less_eq_Addr_def)
  next
    case 2 then show ?thesis using less [OF 2, of lo' lo] by (auto simp: ab less_eq_Addr_def)
  next
    case 3 then show ?thesis by (auto simp: ab less_eq_Addr_def word_less_def word_uint_eq_iff)
  qed
next
  fix x y assume ab: "a = Addr4 x" "b = Addr4 y"
  have "(ucast x :: u64) < ucast y \<longleftrightarrow> x < y"
  proof -
    have "take_bit 64 (uint z) = uint z" for z :: u32
      using unsigned_less [of z, where ?'a = int] by (intro take_bit_int_eq_self) simp_all
    then show ?thesis by (simp add: word_less_def unsigned_ucast_eq)
  qed
  then show ?thesis by (auto simp: ab less_eq_Addr_def word_less_def word_uint_eq_iff)
qed (use assms in simp_all)

lemma AsSlice_AddrFrom16: "length xs = 16 \<Longrightarrow> AsSlice (AddrFrom16 xs) = xs"
  using put64_be64 [of 0 xs] put64_be64 [of 8 xs] by (simp add: AddrFrom16_def)

section \<open>Blocks\<close>

lemma aligned_block:
  assumes "2 ^ k dvd (b :: int)" shows "x div 2 ^ k = b div 2 ^ k \<longleftrightarrow> b \<le> x \<and> x < b + 2 ^ k"
proof -
  obtain c where b: "b = 2 ^ k * c" using assms by (rule dvdE)
  have "x div 2 ^ k = c \<longleftrightarrow> 2 ^ k * c \<le> x \<and> x < 2 ^ k * c + 2 ^ k"
  proof
    assume "x div 2 ^ k = c"
    then have "x = 2 ^ k * c + x mod 2 ^ k" using mult_div_mod_eq [of "2 ^ k" x] by simp
    moreover have "0 \<le> x mod 2 ^ k" "x mod 2 ^ k < 2 ^ k" by simp_all
    ultimately show "2 ^ k * c \<le> x \<and> x < 2 ^ k * c + 2 ^ k" by linarith
  next
    assume "2 ^ k * c \<le> x \<and> x < 2 ^ k * c + 2 ^ k"
    then show "x div 2 ^ k = c" by (intro int_div_pos_eq [where r = "x - 2 ^ k * c"]) simp_all
  qed
  then show ?thesis by (simp add: b)
qed


lemma Contains_block:
  assumes "BitLen a = BitLen b" "k \<le> BitLen a" "2 ^ k dvd addressNumber b"
  shows "Contains \<lparr> PrefixAddr = b, PrefixBits = BitLen a - k \<rparr> a
    \<longleftrightarrow> addressNumber b \<le> addressNumber a \<and> addressNumber a < addressNumber b + 2 ^ k"
  using aligned_block [OF assms(3), of "addressNumber a"] assms(1,2) by (simp add: Contains_def)

lemma hits_Cons: "hits (p # ps) a = (if Contains p a then 1 else 0) + hits ps a"
  by (simp add: hits_def)

section \<open>The loops\<close>

lemma ipv4Loop_hits:
  "hits (ipv4Loop cur stop) (Addr4 x) = (if cur \<le> x \<and> x \<le> stop then 1 else 0)"
proof (induction cur stop rule: ipv4Loop.induct)
  case (1 cur stop)
  show ?case
  proof (cases "cur > stop")
    case True
    then show ?thesis by (auto simp: ipv4Loop.simps [of cur stop] hits_def)
  next
    case False
    then have le: "cur \<le> stop" by simp
    let ?k = "blockBits4 cur stop"
    have "int (unat cur + 2 ^ ?k) \<le> int (unat stop + 1)" using blockBits4_ok(3) [OF le] by (simp only: of_nat_le_iff)
    then have range: "uint cur + 2 ^ ?k \<le> uint stop + 1" by simp
    have "int (2 ^ ?k) dvd int (unat cur)" using blockBits4_ok(2) [OF le] by (simp only: of_nat_dvd_iff)
    then have "2 ^ ?k dvd uint cur" by simp
    then have inside: "Contains \<lparr> PrefixAddr = AddrFrom4 (put32 cur), PrefixBits = 32 - ?k \<rparr> (Addr4 x)
        \<longleftrightarrow> uint cur \<le> uint x \<and> uint x < uint cur + 2 ^ ?k"
      using Contains_block [of "Addr4 x" "Addr4 cur" ?k] blockBits4_ok(1) [OF le] by (simp add: AddrFrom4_def)
    show ?thesis
    proof (cases "after4 cur stop = 0")
      case True
      then have "int (unat cur + 2 ^ ?k) = int (2 ^ 32)" using after4_wraps [OF le] by (simp only:)
      then have "uint x < uint cur + 2 ^ ?k" "uint x \<le> uint stop"
        using range unsigned_less [of x, where ?'a = int] by simp_all
      with True False show ?thesis
        by (simp add: ipv4Loop.simps [of cur stop] hits_Cons inside word_le_def) (simp add: hits_def)
    next
      case more: False
      have "int (unat (after4 cur stop)) = int (unat cur + 2 ^ ?k)" using after4_value [OF le more] by (simp only:)
      then have "uint (after4 cur stop) = uint cur + 2 ^ ?k" by simp
      moreover have "ipv4Loop cur stop = \<lparr> PrefixAddr = AddrFrom4 (put32 cur), PrefixBits = 32 - ?k \<rparr> # ipv4Loop (after4 cur stop) stop"
        using False more by (simp add: ipv4Loop.simps [of cur stop])
      moreover have "uint cur \<le> uint x" if "uint cur + 2 ^ ?k \<le> uint x" by (rule order_trans [OF _ that]) simp
      ultimately show ?thesis
        using range 1 [OF False more] by (auto simp: hits_Cons inside word_le_def)
    qed
  qed
qed

lemma ipv6Loop_hits:
  assumes "BitLen a = 128" "length cur = 16" "length stop = 16"
  shows "hits (ipv6Loop cur stop) a = (if octetsValue cur \<le> addressNumber a \<and> addressNumber a \<le> octetsValue stop then 1 else 0)"
  using assms(2,3)
proof (induction cur stop rule: ipv6Loop.induct)
  case (1 cur stop)
  show ?case
  proof (cases "compare16 cur stop > 0")
    case True
    then show ?thesis using compare16_greater [of cur stop] 1 by (simp add: ipv6Loop.simps [of cur stop] hits_def)
  next
    case False
    then have le: "octetsValue cur \<le> octetsValue stop" using compare16_greater [of cur stop] 1 by simp
    let ?k = "blockBits6 cur stop"
    note block = block6_ok [OF 1(2,3) le]
    have number: "addressNumber (AddrFrom16 cur) = octetsValue cur" by (simp add: addressNumber_def AsSlice_AddrFrom16 1)
    have inside: "Contains \<lparr> PrefixAddr = AddrFrom16 cur, PrefixBits = 128 - ?k \<rparr> a
        \<longleftrightarrow> octetsValue cur \<le> addressNumber a \<and> addressNumber a < octetsValue cur + 2 ^ ?k"
    proof -
      have "BitLen (AddrFrom16 cur) = 128" by (simp add: AddrFrom16_def)
      then show ?thesis using Contains_block [of a "AddrFrom16 cur" ?k] assms(1) block(1,2) by (simp add: number)
    qed
    obtain nxt overflow where inc: "increment16 (end6 cur stop) = (nxt, overflow)" by (cases "increment16 (end6 cur stop)")
    note after = increment16_value [OF inc]
    show ?thesis
    proof (cases overflow)
      case True
      then have "octetsValue cur + 2 ^ ?k = 2 ^ 128" using after(2) block(4,5) by simp
      moreover have "addressNumber a < 2 ^ 128"
        using octetsValue_bounds [of "AsSlice a"] assms(1) by (cases a) (simp_all add: addressNumber_def)
      ultimately show ?thesis
        using True False block(3) 1(2,3) by (simp add: ipv6Loop.simps [of cur stop] hits_Cons inside inc) (simp add: hits_def)
    next
      case more: False
      then have nxt: "length nxt = 16" "octetsValue nxt = octetsValue cur + 2 ^ ?k" using after block(4,5) by simp_all
      have "hits (ipv6Loop nxt stop) a = (if octetsValue nxt \<le> addressNumber a \<and> addressNumber a \<le> octetsValue stop then 1 else 0)"
        using 1(1) [OF _ inc [symmetric] more nxt(1) 1(3)] False 1(2,3) by simp
      moreover have "octetsValue cur \<le> addressNumber a" if "octetsValue cur + 2 ^ ?k \<le> addressNumber a"
        by (rule order_trans [OF _ that]) simp
      ultimately show ?thesis
        using more False block(3) 1(2,3) nxt(2) by (auto simp: ipv6Loop.simps [of cur stop] hits_Cons inside inc)
    qed
  qed
qed


lemma ipv4Loop_family: "p \<in> set (ipv4Loop cur stop) \<Longrightarrow> BitLen (PrefixAddr p) = 32"
proof (induction cur stop rule: ipv4Loop.induct)
  case (1 cur stop)
  then show ?case by (subst (asm) (2) ipv4Loop.simps) (auto simp: AddrFrom4_def split: if_splits)
qed

lemma ipv6Loop_family: "p \<in> set (ipv6Loop cur stop) \<Longrightarrow> BitLen (PrefixAddr p) = 128"
proof (induction cur stop rule: ipv6Loop.induct)
  case (1 cur stop)
  then show ?case by (subst (asm) (2) ipv6Loop.simps) (auto simp: AddrFrom16_def split: if_splits prod.splits)
qed

lemma hits_other_family: "(\<And>p. p \<in> set ps \<Longrightarrow> BitLen (PrefixAddr p) \<noteq> BitLen a) \<Longrightarrow> hits ps a = 0"
  unfolding hits_def by (simp add: filter_empty_conv) (metis Contains_def)

section \<open>The order of the prefixes\<close>

definition ascending :: "Prefix list \<Rightarrow> bool" where
  "ascending ps = sorted_wrt (\<lambda>p q. PrefixAddr p < PrefixAddr q) ps"

lemma address_less:
  assumes "BitLen a = BitLen b" shows "a < b \<longleftrightarrow> addressNumber a < addressNumber b"
  using addressNumber_order [of b a] assms by (simp add: not_le [symmetric])

lemma ipv4Loop_ascending:
  "ascending (ipv4Loop cur stop) \<and> (\<forall>p \<in> set (ipv4Loop cur stop). uint cur \<le> addressNumber (PrefixAddr p))"
proof (induction cur stop rule: ipv4Loop.induct)
  case (1 cur stop)
  show ?case
  proof (cases "cur > stop")
    case True
    then show ?thesis by (simp add: ipv4Loop.simps [of cur stop] ascending_def)
  next
    case False
    let ?p = "\<lparr> PrefixAddr = AddrFrom4 (put32 cur), PrefixBits = 32 - blockBits4 cur stop \<rparr>"
    have p: "PrefixAddr ?p = Addr4 cur" by (simp add: AddrFrom4_def)
    show ?thesis
    proof (cases "after4 cur stop = 0")
      case True
      with False show ?thesis by (simp add: ipv4Loop.simps [of cur stop] ascending_def AddrFrom4_def)
    next
      case more: False
      have "int (unat (after4 cur stop)) = int (unat cur + 2 ^ blockBits4 cur stop)"
        using after4_value [OF _ more] False by (simp only: not_less)
      then have next_greater: "uint cur < uint (after4 cur stop)" by simp
      note rest = 1 [OF False more]
      have above: "PrefixAddr ?p < PrefixAddr q" "uint cur \<le> addressNumber (PrefixAddr q)"
        if q: "q \<in> set (ipv4Loop (after4 cur stop) stop)" for q
      proof -
        have "uint cur < addressNumber (PrefixAddr q)" using rest q next_greater by fastforce
        then show "PrefixAddr ?p < PrefixAddr q" "uint cur \<le> addressNumber (PrefixAddr q)"
          using address_less [of "PrefixAddr ?p" "PrefixAddr q"] ipv4Loop_family [OF q] by (simp_all add: AddrFrom4_def)
      qed
      have "ipv4Loop cur stop = ?p # ipv4Loop (after4 cur stop) stop"
        using False more by (simp add: ipv4Loop.simps [of cur stop])
      then show ?thesis using rest above by (simp add: ascending_def AddrFrom4_def)
    qed
  qed
qed

lemma ipv6Loop_ascending:
  assumes "length cur = 16" "length stop = 16"
  shows "ascending (ipv6Loop cur stop) \<and> (\<forall>p \<in> set (ipv6Loop cur stop). octetsValue cur \<le> addressNumber (PrefixAddr p))"
  using assms
proof (induction cur stop rule: ipv6Loop.induct)
  case (1 cur stop)
  show ?case
  proof (cases "compare16 cur stop > 0")
    case True
    then show ?thesis by (simp add: ipv6Loop.simps [of cur stop] ascending_def)
  next
    case False
    then have le: "octetsValue cur \<le> octetsValue stop" using compare16_greater [of cur stop] 1 by simp
    note block = block6_ok [OF 1(2,3) le]
    let ?p = "\<lparr> PrefixAddr = AddrFrom16 cur, PrefixBits = 128 - blockBits6 cur stop \<rparr>"
    have p: "addressNumber (PrefixAddr ?p) = octetsValue cur" "BitLen (PrefixAddr ?p) = 128"
      using 1(2) AsSlice_AddrFrom16 by (simp_all add: addressNumber_def) (simp add: AddrFrom16_def)
    obtain nxt overflow where inc: "increment16 (end6 cur stop) = (nxt, overflow)" by (cases "increment16 (end6 cur stop)")
    note after = increment16_value [OF inc]
    show ?thesis
    proof (cases overflow)
      case True
      with False show ?thesis using p(1) 1(2,3) by (simp add: ipv6Loop.simps [of cur stop] ascending_def inc)
    next
      case more: False
      then have nxt: "length nxt = 16" "octetsValue cur < octetsValue nxt" using after block(4,5) by simp_all
      have rest: "ascending (ipv6Loop nxt stop)" "\<And>q. q \<in> set (ipv6Loop nxt stop) \<Longrightarrow> octetsValue nxt \<le> addressNumber (PrefixAddr q)"
        using 1(1) [OF _ inc [symmetric] more nxt(1) 1(3)] False 1(2,3) by auto
      have above: "PrefixAddr ?p < PrefixAddr q" "octetsValue cur \<le> addressNumber (PrefixAddr q)"
        if q: "q \<in> set (ipv6Loop nxt stop)" for q
      proof -
        have "octetsValue cur < addressNumber (PrefixAddr q)" using rest(2) [OF q] nxt(2) by simp
        then show "PrefixAddr ?p < PrefixAddr q" "octetsValue cur \<le> addressNumber (PrefixAddr q)"
          using address_less [of "PrefixAddr ?p" "PrefixAddr q"] ipv6Loop_family [OF q] p by simp_all
      qed
      have "ipv6Loop cur stop = ?p # ipv6Loop nxt stop"
        using False more 1(2,3) by (simp add: ipv6Loop.simps [of cur stop] inc)
      then show ?thesis using rest(1) above p(1) by (simp add: ascending_def)
    qed
  qed
qed

text \<open>
  C28. The prefixes that stand for an address range are exactly the range: a valid range (two
  addresses of one family in order) is always accepted, each of its addresses lies in exactly one of
  the prefixes, no other address lies in any, and the prefixes come in ascending order.
\<close>

theorem range_prefixes_exact:
  assumes "IsValid start" "BitLen start = BitLen stop" "start \<le> stop"
  shows "\<exists>ps. addressRangePrefixes start stop = Ok ps \<and> ascending ps
     \<and> (\<forall>a. hits ps a = (if BitLen a = BitLen start \<and> start \<le> a \<and> a \<le> stop then 1 else 0))"
proof (cases start)
  case (Addr4 x)
  with assms obtain y where stop: "stop = Addr4 y" by (cases stop) auto
  have "addressRangePrefixes start stop = Ok (ipv4Loop x y)"
    using assms by (auto simp: addressRangePrefixes_def ipv4RangePrefixes_def binaryAddress4_def bindR_def IsValid_def Addr4 stop)
  moreover have "hits (ipv4Loop x y) a = (if BitLen a = BitLen start \<and> start \<le> a \<and> a \<le> stop then 1 else 0)" for a
  proof (cases "BitLen a = 32")
    case True
    then obtain z where a: "a = Addr4 z" by (cases a) auto
    show ?thesis using ipv4Loop_hits [of x y z] addressNumber_order [of start a] addressNumber_order [of a stop]
      by (simp add: a Addr4 stop word_le_def)
  next
    case False
    then show ?thesis using hits_other_family [of "ipv4Loop x y" a] ipv4Loop_family [of _ x y] by (auto simp: Addr4)
  qed
  ultimately show ?thesis using ipv4Loop_ascending by blast
next
  case (Addr6 hi lo)
  with assms obtain hi' lo' where stop: "stop = Addr6 hi' lo'" by (cases stop) auto
  let ?ps = "ipv6Loop (AsSlice start) (AsSlice stop)"
  have "addressRangePrefixes start stop = Ok ?ps"
    using assms by (auto simp: addressRangePrefixes_def ipv6RangePrefixes_def IsValid_def Addr6 stop)
  moreover have "hits ?ps a = (if BitLen a = BitLen start \<and> start \<le> a \<and> a \<le> stop then 1 else 0)" for a
  proof (cases "BitLen a = 128")
    case True
    have "hits ?ps a = (if addressNumber start \<le> addressNumber a \<and> addressNumber a \<le> addressNumber stop then 1 else 0)"
      using ipv6Loop_hits [OF True, of "AsSlice start" "AsSlice stop"] unfolding addressNumber_def [symmetric] by (simp add: Addr6 stop)
    then show ?thesis
      using True addressNumber_order [of start a] addressNumber_order [of a stop] by (simp add: Addr6 stop del: addressNumber_simps)
  next
    case False
    then show ?thesis using hits_other_family [of ?ps a] ipv6Loop_family [of _ "AsSlice start" "AsSlice stop"] by (auto simp: Addr6)
  qed
  moreover have "ascending ?ps" using ipv6Loop_ascending [of "AsSlice start" "AsSlice stop"] by (simp add: Addr6 stop)
  ultimately show ?thesis by blast
qed (use assms in \<open>simp add: IsValid_def\<close>)

theorem range_prefixes_exact_witness:
  "\<exists>ps. addressRangePrefixes (Addr4 0xe8000001) (Addr4 0xe8000006) = Ok ps \<and> ascending ps
     \<and> (\<forall>a. hits ps a = (if BitLen a = BitLen (Addr4 0xe8000001) \<and> Addr4 0xe8000001 \<le> a \<and> a \<le> Addr4 0xe8000006 then 1 else 0))"
  by (rule range_prefixes_exact) (simp_all add: IsValid_def less_eq_Addr_def)

end
