(* ===== verification/Graph.thy ===== *)
theory Graph
  imports MibStore Vlan McTypes
begin

unbundle bit_operations_syntax

text \<open>
  The data of the service graph (src/internal/platform/graph.go): what a snapshot of the MIB
  configures, resolved for the backend, and the readers of the attributes of an instance.

  \<^item> An array \<open>[n]T\<close> is a list of length \<open>n\<close>. A field whose Go name another record of the development
    has carries a prefix (\<open>tcont\<close>, \<open>gem\<close>, \<open>iw\<close>, \<open>mc\<close>, ...).
  \<^item> The graph keeps IP addresses as text, written by \<open>netip.Addr.String\<close> and read back by
    \<open>netip.ParseAddr\<close>. Text is represented by the address it was written from: \<open>String\<close> is
    injective and \<open>ParseAddr\<close> undoes it on every address but the zero one, whose text it rejects.
  \<^item> The capacity given to \<open>make\<close> is not modelled, and a product \<open>NumRows * rowSize\<close> is exact: the
    lengths of slices in memory are far below \<open>2^63\<close>.
\<close>

section \<open>Classes\<close>

abbreviation (input) MacBridgeServiceProfileClassID :: u16 where "MacBridgeServiceProfileClassID \<equiv> 45"
abbreviation (input) MacBridgePortConfigurationDataClassID :: u16 where "MacBridgePortConfigurationDataClassID \<equiv> 47"
abbreviation (input) VlanTaggingOperationClassID :: u16 where "VlanTaggingOperationClassID \<equiv> 78"
abbreviation (input) VlanTaggingFilterDataClassID :: u16 where "VlanTaggingFilterDataClassID \<equiv> 84"
abbreviation (input) MapperClassID :: u16 where "MapperClassID \<equiv> 130"
abbreviation (input) TContClassID :: u16 where "TContClassID \<equiv> 262"
abbreviation (input) GemIwTpClassID :: u16 where "GemIwTpClassID \<equiv> 266"
abbreviation (input) GemCtpClassID :: u16 where "GemCtpClassID \<equiv> 268"
abbreviation (input) GalEthernetProfileClassID :: u16 where "GalEthernetProfileClassID \<equiv> 272"
abbreviation (input) PriorityQueueClassID :: u16 where "PriorityQueueClassID \<equiv> 277"
abbreviation (input) TrafficSchedulerClassID :: u16 where "TrafficSchedulerClassID \<equiv> 278"
abbreviation (input) TrafficDescriptorClassID :: u16 where "TrafficDescriptorClassID \<equiv> 280"
abbreviation (input) Dot1RateLimiterClassID :: u16 where "Dot1RateLimiterClassID \<equiv> 298"

section \<open>PON modes (src/internal/pon/mode.go)\<close>

definition GPON :: string where "GPON = ''gpon''"
definition XGSPON :: string where "XGSPON = ''xgspon''"

definition validateMode :: "string \<Rightarrow> go_error option" where
  "validateMode m =
     (if m = GPON \<or> m = XGSPON then None else Some (Errorf ''unsupported PON mode %q'' [AStr m]))"

definition ParseMode :: "string \<Rightarrow> (go_error, string) outcome" where
  "ParseMode v = failIf (validateMode v) (Ok v)"

definition modeStateDomain :: "string \<Rightarrow> (go_error, string) outcome" where
  "modeStateDomain m = failIf (validateMode m) (Ok (''xg2010g:'' @ m))"

section \<open>Text of addresses\<close>

datatype addrText = AddrString Addr

fun ParseAddr :: "addrText \<Rightarrow> (go_error, Addr) outcome" where
  "ParseAddr (AddrString a) =
     (if IsValid a then Ok a else Err (Errorf ''ParseAddr: unable to parse IP'' []))"

fun MustParseAddr :: "addrText \<Rightarrow> (go_error, Addr) outcome" where
  "MustParseAddr (AddrString a) = (if IsValid a then Ok a else Panic)"

section \<open>The graph\<close>

definition nullPointer :: u16 where "nullPointer = 0xffff"

definition mapperPBitAttributes :: "string list" where
  "mapperPBitAttributes =
     [''InterworkTpPointerForPBitPriority0'', ''InterworkTpPointerForPBitPriority1'',
      ''InterworkTpPointerForPBitPriority2'', ''InterworkTpPointerForPBitPriority3'',
      ''InterworkTpPointerForPBitPriority4'', ''InterworkTpPointerForPBitPriority5'',
      ''InterworkTpPointerForPBitPriority6'', ''InterworkTpPointerForPBitPriority7'']"

record EthernetUNI =
  uniEntity :: u16
  uniInterface :: string
  uniAdministrative :: u8
  uniOperational :: u8
  uniConfiguration :: u8

record TCONT =
  tcontEntity :: u16
  tcontAllocID :: u16
  SchedulerPolicy :: u8
  SchedulerWeight :: u8
  QueueEntities :: "u16 list"
  QueueWeights :: "u8 list"

record GEMPort =
  gemEntity :: u16
  gemPortID :: u16
  gemTCONT :: u16
  gemAllocID :: u16
  gemDirection :: u8
  UpstreamQueue :: u16
  DownstreamQueue :: u16
  UpstreamTD :: u16
  DownstreamTD :: u16
  EncryptionKeyRing :: u8

record TrafficDescriptor =
  tdEntity :: u16
  CIR :: u32
  PIR :: u32
  CBS :: u32
  PBS :: u32
  ColourMode :: u8
  IngressColourMarking :: u8
  EgressColourMarking :: u8
  MeterType :: u8

record Dot1RateLimiter =
  limiterEntity :: u16
  ParentME :: u16
  limiterTPType :: u8
  UpstreamUnicastFloodTD :: u16
  UpstreamBroadcastTD :: u16
  UpstreamMulticastPayloadTD :: u16

record GEMInterworking =
  iwEntity :: u16
  iwGEMPort :: u16
  iwOption :: u8
  iwServiceProfile :: u16
  InterworkingTermination :: u16
  iwGALProfile :: u16

text \<open>\<open>MulticastIPv4Range\<close> and \<open>MulticastIPv6Range\<close> have the same fields.\<close>

record MulticastRange =
  rangeGEMPortID :: u16
  SecondaryKey :: u16
  rangeStart :: addrText
  rangeStop :: addrText

record MulticastGEMInterworking =
  mcEntity :: u16
  mcGEMPort :: u16
  mcPortID :: u16
  mcTCONT :: u16
  mcAllocID :: u16
  mcOption :: u8
  mcServiceProfile :: u16
  mcGALProfile :: u16
  IPv4Ranges :: "MulticastRange list"
  IPv6Ranges :: "MulticastRange list"

record MulticastACLEntry =
  aclRowKey :: u16
  aclIPVersion :: u8
  aclGEMPortID :: u16
  aclVLANID :: u16
  aclSource :: addrText
  aclStart :: addrText
  aclStop :: addrText
  aclBandwidth :: u32
  aclPreviewLength :: u16
  aclRepeatTime :: u16
  aclRepeatCount :: u16
  aclResetTime :: u16

record MulticastOperationsProfile =
  opEntity :: u16
  opIGMPVersion :: u8
  opIGMPFunction :: u8
  opImmediateLeave :: u8
  opUpstreamTCI :: u16
  opUpstreamTagControl :: u8
  opUpstreamRate :: u32
  opDynamicACL :: "MulticastACLEntry list"
  opStaticACL :: "MulticastACLEntry list"
  opRobustness :: u8
  opQuerierIPAddress :: u32
  opQueryInterval :: u32
  opQueryMaxResponseTime :: u32
  opLastMemberQueryInterval :: u32
  opUnauthorizedJoin :: u8
  opDownstreamTagControl :: u8
  opDownstreamTCI :: u16

record MulticastServicePackage =
  packageRowKey :: u16
  packageVLANID :: u16
  packageMaxGroups :: u16
  packageMaxBandwidth :: u32
  packageProfile :: u16

record AllowedPreviewGroup =
  groupRowKey :: u16
  groupIPVersion :: u8
  groupSource :: addrText
  groupDestination :: addrText
  groupANIVLAN :: u16
  groupUNIVLAN :: u16
  groupDuration :: u16
  groupTimeLeft :: u16

record MulticastSubscriberConfigInfo =
  subEntity :: u16
  subMEType :: u8
  subProfile :: u16
  subMaxGroups :: u16
  subMaxBandwidth :: u32
  subEnforcement :: u8
  subPackages :: "MulticastServicePackage list"
  subPreviews :: "AllowedPreviewGroup list"

record PBitMapper =
  mapperEntity :: u16
  mapperTPType :: u8
  mapperTPPointer :: u16
  PBits :: "u16 list"
  mapperUnmarked :: u8
  mapperDefaultPBit :: u8
  mapperDSCP :: "u8 list"

record MACBridgePort =
  portEntity :: u16
  portNumber :: u8
  portTPType :: u8
  portTP :: u16
  portPriority :: u16
  portPathCost :: u16
  portSpanningTree :: u8
  OutboundTD :: u16
  InboundTD :: u16
  portLearningDepth :: u8

record MACBridge =
  bridgeEntity :: u16
  bridgeSpanningTree :: u8
  bridgeLearning :: u8
  PortBridging :: u8
  bridgePriority :: u16
  MaxAge :: u16
  HelloTime :: u16
  ForwardDelay :: u16
  UnknownMACDiscard :: u8
  bridgeLearningDepth :: u8
  DynamicFilteringAgeTime :: u32
  Ports :: "MACBridgePort list"

datatype VLANFilterAction = ActionBridge | ActionDiscard | ActionNegative | ActionPositive | ActionPositiveDA

datatype VLANFilterCriterion = CriterionNone | CriterionVID | CriterionPriority | CriterionTCI

record VLANFilter =
  filterEntity :: u16
  filterBridgePort :: u16
  ForwardOperation :: u8
  TaggedAction :: VLANFilterAction
  TaggedCriterion :: VLANFilterCriterion
  UntaggedAction :: VLANFilterAction
  filterEntries :: "u16 list"

record ExtendedVLAN =
  extEntity :: u16
  extAssociationType :: u8
  extAssociatedClass :: u16
  extAssociatedME :: u16
  InputTPID :: u16
  OutputTPID :: u16
  extDownstreamMode :: u8
  EnhancedMode :: u8
  extDSCP :: "u8 list"
  extRules :: "Rule list"

record VLANOperation =
  vopEntity :: u16
  vopAssociationType :: u8
  vopAssociatedClass :: u16
  vopAssociatedME :: u16
  vopUpstreamMode :: u8
  vopUpstreamTCI :: u16
  vopDownstreamMode :: u8

record ServiceGraph =
  graphMode :: string
  UNIs :: "EthernetUNI list"
  TCONTs :: "TCONT list"
  TrafficDescs :: "TrafficDescriptor list"
  Dot1RateLimiters :: "Dot1RateLimiter list"
  GEMPorts :: "GEMPort list"
  Interworking :: "GEMInterworking list"
  MulticastInterworking :: "MulticastGEMInterworking list"
  MulticastProfiles :: "MulticastOperationsProfile list"
  MulticastSubscribers :: "MulticastSubscriberConfigInfo list"
  Mappers :: "PBitMapper list"
  Bridges :: "MACBridge list"
  VLANFilters :: "VLANFilter list"
  VLANOperations :: "VLANOperation list"
  ExtendedVLANs :: "ExtendedVLAN list"

section \<open>Attributes\<close>

definition hasInstance :: "instances \<Rightarrow> u16 \<Rightarrow> u16 \<Rightarrow> bool" where
  "hasInstance insts classID entityID = (map_of insts (Key classID entityID) \<noteq> None)"

abbreviation (input) meErr :: "Instance \<Rightarrow> string \<Rightarrow> go_arg list \<Rightarrow> go_error" where
  "meErr inst format args \<equiv> Errorf format ([AU (ClassID (ikey inst)), AU (EntityID (ikey inst))] @ args)"

definition missingAttribute :: "Instance \<Rightarrow> string \<Rightarrow> go_error" where
  "missingAttribute inst name = meErr inst ''managed entity %d/%#x is missing %s'' [AStr name]"

definition wrongType :: "Instance \<Rightarrow> string \<Rightarrow> attr_value \<Rightarrow> string \<Rightarrow> go_error" where
  "wrongType inst name v want =
     meErr inst (''managed entity %d/%#x attribute %s has type %T, want '' @ want) [AStr name, AStr (typeName v)]"

definition uint8Attribute :: "Instance \<Rightarrow> string \<Rightarrow> (go_error, u8) outcome" where
  "uint8Attribute inst name =
     (case map_of (Attributes inst) name of
        None \<Rightarrow> Err (missingAttribute inst name)
      | Some v \<Rightarrow> (case v of VU8 x \<Rightarrow> Ok x | _ \<Rightarrow> Err (wrongType inst name v ''uint8'')))"

definition uint16Attribute :: "Instance \<Rightarrow> string \<Rightarrow> (go_error, u16) outcome" where
  "uint16Attribute inst name =
     (case map_of (Attributes inst) name of
        None \<Rightarrow> Err (missingAttribute inst name)
      | Some v \<Rightarrow> (case v of VU16 x \<Rightarrow> Ok x | _ \<Rightarrow> Err (wrongType inst name v ''uint16'')))"

definition uint32Attribute :: "Instance \<Rightarrow> string \<Rightarrow> (go_error, u32) outcome" where
  "uint32Attribute inst name =
     (case map_of (Attributes inst) name of
        None \<Rightarrow> Err (missingAttribute inst name)
      | Some v \<Rightarrow> (case v of VU32 x \<Rightarrow> Ok x | _ \<Rightarrow> Err (wrongType inst name v ''uint32'')))"

definition uint8AttributeDefault :: "Instance \<Rightarrow> string \<Rightarrow> u8 \<Rightarrow> (go_error, u8) outcome" where
  "uint8AttributeDefault inst name fallback =
     (if map_of (Attributes inst) name = None then Ok fallback else uint8Attribute inst name)"

definition uint16AttributeDefault :: "Instance \<Rightarrow> string \<Rightarrow> u16 \<Rightarrow> (go_error, u16) outcome" where
  "uint16AttributeDefault inst name fallback =
     (if map_of (Attributes inst) name = None then Ok fallback else uint16Attribute inst name)"

definition uint32AttributeDefault :: "Instance \<Rightarrow> string \<Rightarrow> u32 \<Rightarrow> (go_error, u32) outcome" where
  "uint32AttributeDefault inst name fallback =
     (if map_of (Attributes inst) name = None then Ok fallback else uint32Attribute inst name)"

definition bytesAttribute :: "Instance \<Rightarrow> string \<Rightarrow> nat \<Rightarrow> (go_error, bytes) outcome" where
  "bytesAttribute inst name n =
     (case map_of (Attributes inst) name of
        None \<Rightarrow> Err (missingAttribute inst name)
      | Some v \<Rightarrow>
          let typed = (case v of VOctets b \<Rightarrow> Some b | _ \<Rightarrow> None);
              failure = meErr inst ''managed entity %d/%#x attribute %s has type/length %T/%d, want []byte/%d''
                 [AStr name, AStr (typeName v), AN (case typed of Some b \<Rightarrow> length b | None \<Rightarrow> 0), AN n]
          in case typed of None \<Rightarrow> Err failure | Some b \<Rightarrow> if length b \<noteq> n then Err failure else Ok b)"

definition bytesAttributeDefault :: "Instance \<Rightarrow> string \<Rightarrow> nat \<Rightarrow> bytes \<Rightarrow> (go_error, bytes) outcome" where
  "bytesAttributeDefault inst name n fallback =
     (if map_of (Attributes inst) name = None
      then (if length fallback \<noteq> n
            then Err (Errorf ''invalid default length %d for %s, want %d'' [AN (length fallback), AStr name, AN n])
            else Ok fallback)
      else bytesAttribute inst name n)"

definition tableAttributeDefault :: "Instance \<Rightarrow> string \<Rightarrow> nat \<Rightarrow> (go_error, table_rows) outcome" where
  "tableAttributeDefault inst name rowSize =
     (case map_of (Attributes inst) name of
        None \<Rightarrow> Ok \<lparr> NumRows = 0, Rows = [] \<rparr>
      | Some VNil \<Rightarrow> Ok \<lparr> NumRows = 0, Rows = [] \<rparr>
      | Some (VTable t) \<Rightarrow>
          if NumRows t < 0 \<or> int (length (Rows t)) \<noteq> NumRows t * int rowSize
          then Err (meErr inst ''managed entity %d/%#x attribute %s has invalid table rows'' [AStr name])
          else Ok \<lparr> NumRows = NumRows t, Rows = Rows t \<rparr>
      | _ \<Rightarrow> Err (meErr inst ''managed entity %d/%#x attribute %s has invalid table rows'' [AStr name]))"

definition booleanAttributeDefault :: "Instance \<Rightarrow> string \<Rightarrow> u8 \<Rightarrow> (go_error, u8) outcome" where
  "booleanAttributeDefault inst name fallback =
     bindR (uint8AttributeDefault inst name fallback) (\<lambda>v.
     if v > 1
     then Err (meErr inst ''managed entity %d/%#x attribute %s is not boolean: %d'' [AStr name, AU v])
     else Ok v)"

definition administrativeState :: "Instance \<Rightarrow> string \<Rightarrow> (go_error, u8) outcome" where
  "administrativeState inst name =
     bindR (uint8AttributeDefault inst name 0) (\<lambda>state.
     if state > 1
     then Err (meErr inst ''managed entity %d/%#x has invalid administrative state %d'' [AU state])
     else Ok state)"

text \<open>The slot of a circuit pack is the low octet of its entity identifier.\<close>

definition circuitPackAdministrativeStates :: "instances \<Rightarrow> (go_error, (u8, u8) gomap) outcome" where
  "circuitPackAdministrativeStates insts =
     foldR (\<lambda>(key, inst) states.
       if ClassID (ikey inst) \<noteq> CircuitPackClassID then Ok states
       else let slot = (ucast (EntityID (ikey inst)) :: u8) in
         if map_of states slot \<noteq> None
         then Err (Errorf ''multiple circuit packs declare slot %d'' [AU slot])
         else bindR (administrativeState inst ''AdministrativeState'') (\<lambda>state.
              Ok (AList.update slot state states))) insts []"

definition ethernetUNIInterface :: "u16 \<Rightarrow> (go_error, string) outcome" where
  "ethernetUNIInterface entityID =
     (if entityID = 0x0101 then Ok ''lan1''
      else if entityID = 0x0102 then Ok ''lan2''
      else if entityID = 0x0103 then Ok ''lan3''
      else if entityID = 0x0104 then Ok ''lan4''
      else Err (Errorf ''Ethernet UNI %#x has no XG2010G interface mapping'' [AU entityID]))"

section \<open>Readers do not panic\<close>

named_theorems graph_safe \<open>operations that never panic\<close>

lemma uintAttribute_safe [graph_safe, simp]:
  "uint8Attribute inst name \<noteq> Panic" "uint16Attribute inst name \<noteq> Panic" "uint32Attribute inst name \<noteq> Panic"
  by (auto simp: uint8Attribute_def uint16Attribute_def uint32Attribute_def split: option.splits attr_value.splits)

lemma uintAttributeDefault_safe [graph_safe, simp]:
  "uint8AttributeDefault inst name d \<noteq> Panic" "uint16AttributeDefault inst name e \<noteq> Panic"
  "uint32AttributeDefault inst name f \<noteq> Panic"
  by (auto simp: uint8AttributeDefault_def uint16AttributeDefault_def uint32AttributeDefault_def)

lemma bytesAttribute_safe [graph_safe, simp]:
  "bytesAttribute inst name n \<noteq> Panic" "bytesAttributeDefault inst name n d \<noteq> Panic"
  by (auto simp: bytesAttribute_def bytesAttributeDefault_def Let_def split: option.splits attr_value.splits)

lemma tableAttributeDefault_safe [graph_safe, simp]: "tableAttributeDefault inst name n \<noteq> Panic"
  by (auto simp: tableAttributeDefault_def split: option.splits attr_value.splits)

lemma booleanAttributeDefault_safe [graph_safe, simp]:
  "booleanAttributeDefault inst name d \<noteq> Panic" "administrativeState inst name \<noteq> Panic"
  by (auto simp: booleanAttributeDefault_def administrativeState_def bindR_eq_Panic)

lemma bytesAttribute_length: "bytesAttribute inst name n = Ok b \<Longrightarrow> length b = n"
  by (auto simp: bytesAttribute_def Let_def split: option.splits attr_value.splits if_splits)

lemma bytesAttributeDefault_length: "bytesAttributeDefault inst name n d = Ok b \<Longrightarrow> length b = n"
  by (auto simp: bytesAttributeDefault_def dest: bytesAttribute_length split: if_splits)

lemma tableAttributeDefault_rows:
  "tableAttributeDefault inst name n = Ok t \<Longrightarrow> 0 \<le> NumRows t \<and> int (length (Rows t)) = NumRows t * int n"
  by (auto simp: tableAttributeDefault_def split: option.splits attr_value.splits if_splits)

end
