(* ===== verification/GraphMulticast.thy ===== *)
theory GraphMulticast
  imports Graph
begin

unbundle bit_operations_syntax

text \<open>
  The multicast part of the service graph (src/internal/platform/graph.go): the address ranges of a
  multicast GEM interworking termination point, the access control lists and parameters of an
  operations profile, and the subscribers with their service packages and allowed previews.

  A row of a table has exactly the row size (\<open>foldRows\<close> panics on a shorter one), so the constant
  indices into a row are read without a bounds check; a nil slice of the code is \<open>None\<close>.
\<close>

definition octets :: "bytes \<Rightarrow> nat \<Rightarrow> nat \<Rightarrow> bytes" where
  "octets row a b = take (b - a) (drop a row)"

definition zeroBytes :: "bytes \<Rightarrow> bool" where
  "zeroBytes v = list_all (\<lambda>current. current = 0) v"

text \<open>The GEM port identifiers a row may not have: \<open>(mode == GPON \&\& id > 0x0fff) || (mode == XGSPON \&\& id == 0xffff)\<close>.\<close>

definition badGEMPort :: "string \<Rightarrow> u16 \<Rightarrow> bool" where
  "badGEMPort mode portID = (mode = GPON \<and> portID > 0x0fff \<or> mode = XGSPON \<and> portID = 0xffff)"

section \<open>Address ranges\<close>

definition rangeOrder :: "MulticastRange \<Rightarrow> u16 \<times> u16" where
  "rangeOrder r = (rangeGEMPortID r, SecondaryKey r)"

definition rangeKey :: "u16 \<Rightarrow> u16 \<Rightarrow> u32" where
  "rangeKey portID secondary = push_bit 16 (ucast portID) OR ucast secondary"

definition ipv4RangeRow :: "Instance \<Rightarrow> string \<Rightarrow> bytes \<Rightarrow> MulticastRange list \<times> u32 list
    \<Rightarrow> (go_error, MulticastRange list \<times> u32 list) outcome" where
  "ipv4RangeRow inst mode row = (\<lambda>(ranges, keys).
     let portID = be16 row 0; secondary = be16 row 2; startAddr = be32 row 4; stopAddr = be32 row 8 in
     if badGEMPort mode portID \<or> drop_bit 28 startAddr \<noteq> 0xe \<or> drop_bit 28 stopAddr \<noteq> 0xe \<or> startAddr > stopAddr
     then Err (Errorf ''multicast GEM IW TP %#x has invalid IPv4 address row %x''
            [AU (EntityID (ikey inst)), ABytes row])
     else if rangeKey portID secondary \<in> set keys
     then Err (Errorf ''multicast GEM IW TP %#x repeats IPv4 address row key %d/%d''
            [AU (EntityID (ikey inst)), AU portID, AU secondary])
     else Ok (ranges @ [\<lparr> rangeGEMPortID = portID, SecondaryKey = secondary,
            rangeStart = AddrString (AddrFrom4 (put32 startAddr)), rangeStop = AddrString (AddrFrom4 (put32 stopAddr)) \<rparr>],
          rangeKey portID secondary # keys))"

definition multicastIPv4Ranges :: "Instance \<Rightarrow> string \<Rightarrow> (go_error, MulticastRange list) outcome" where
  "multicastIPv4Ranges inst mode =
     bindR (tableAttributeDefault inst ''Ipv4MulticastAddressTable'' 12) (\<lambda>rows.
     bindR (foldRows 12 (ipv4RangeRow inst mode) (Rows rows) ([], [])) (\<lambda>(ranges, keys).
     Ok (sort_key rangeOrder ranges)))"

definition ipv6RangeRow :: "Instance \<Rightarrow> string \<Rightarrow> bytes \<Rightarrow> MulticastRange list \<times> u32 list
    \<Rightarrow> (go_error, MulticastRange list \<times> u32 list) outcome" where
  "ipv6RangeRow inst mode row = (\<lambda>(ranges, keys).
     let portID = be16 row 0; secondary = be16 row 2; startLow = be32 row 4; stopLow = be32 row 8 in
     if badGEMPort mode portID \<or> row ! 12 \<noteq> 0xff \<or> startLow > stopLow
     then Err (Errorf ''multicast GEM IW TP %#x has invalid IPv6 address row %x''
            [AU (EntityID (ikey inst)), ABytes row])
     else if rangeKey portID secondary \<in> set keys
     then Err (Errorf ''multicast GEM IW TP %#x repeats IPv6 address row key %d/%d''
            [AU (EntityID (ikey inst)), AU portID, AU secondary])
     else
       let startAddr = octets row 12 24 @ octets row 4 8; stopAddr = octets row 12 24 @ octets row 8 12 in
       Ok (ranges @ [\<lparr> rangeGEMPortID = portID, SecondaryKey = secondary,
            rangeStart = AddrString (AddrFrom16 startAddr), rangeStop = AddrString (AddrFrom16 stopAddr) \<rparr>],
          rangeKey portID secondary # keys))"

definition multicastIPv6Ranges :: "Instance \<Rightarrow> string \<Rightarrow> (go_error, MulticastRange list) outcome" where
  "multicastIPv6Ranges inst mode =
     bindR (tableAttributeDefault inst ''Ipv6MulticastAddressTable'' 24) (\<lambda>rows.
     bindR (foldRows 24 (ipv6RangeRow inst mode) (Rows rows) ([], [])) (\<lambda>(ranges, keys).
     Ok (sort_key rangeOrder ranges)))"

section \<open>Access control lists\<close>

definition ipv4AddressPrefix :: "bytes \<Rightarrow> bool" where
  "ipv4AddressPrefix prefix =
     (zeroBytes (take 10 prefix) \<and>
      (prefix ! 10 = 0 \<and> prefix ! 11 = 0 \<or> prefix ! 10 = 0xff \<and> prefix ! 11 = 0xff))"

definition multicastACLAddress :: "bytes option \<Rightarrow> bytes \<Rightarrow> Addr \<times> bool" where
  "multicastACLAddress prefixPart low =
     (case prefixPart of
        None \<Rightarrow> (AddrFrom4 low, False)
      | Some part \<Rightarrow>
          if ipv4AddressPrefix (octets part 2 14) then (AddrFrom4 low, False)
          else (AddrFrom16 (octets part 2 14 @ low), True))"

definition multicastTableAddress :: "bytes \<Rightarrow> Addr \<times> bool" where
  "multicastTableAddress v =
     (if zeroBytes (take 12 v) then (AddrFrom4 (octets v 12 16), False) else (AddrFrom16 v, True))"

definition aclFailure :: "Instance \<Rightarrow> string \<Rightarrow> u16 \<Rightarrow> string \<Rightarrow> go_arg list \<Rightarrow> go_error" where
  "aclFailure inst name key what args =
     Errorf (''multicast operations profile %#x %s row key %d '' @ what)
       ([AU (EntityID (ikey inst)), AStr name, AU key] @ args)"

text \<open>What part 1 of an entry adds: the preview parameters.\<close>

definition aclPreview :: "Instance \<Rightarrow> string \<Rightarrow> u16 \<Rightarrow> bytes option \<Rightarrow> MulticastACLEntry
    \<Rightarrow> (go_error, MulticastACLEntry) outcome" where
  "aclPreview inst name key part entry =
     (case part of
        None \<Rightarrow> Ok entry
      | Some part1 \<Rightarrow>
          if \<not> zeroBytes (octets part1 22 24)
          then Err (aclFailure inst name key ''has non-zero part 1 reserved bytes'' [])
          else if name = ''DynamicAccessControlListTable'' \<and> be16 part1 20 > 24 \<and> be16 part1 20 < 241
          then Err (aclFailure inst name key ''has reserved preview reset time %d'' [AU (be16 part1 20)])
          else Ok (entry\<lparr>aclPreviewLength := be16 part1 14, aclRepeatTime := be16 part1 16,
                 aclRepeatCount := be16 part1 18, aclResetTime := be16 part1 20\<rparr>))"

text \<open>The destination range of an entry is two multicast addresses of one family, in order.\<close>

definition badDestination :: "Addr \<times> bool \<Rightarrow> Addr \<times> bool \<Rightarrow> bool" where
  "badDestination startAddr stopAddr =
     (snd startAddr \<noteq> snd stopAddr \<or> fst startAddr > fst stopAddr
      \<or> (\<not> snd startAddr \<and> \<not> Is4 (fst startAddr) \<or> \<not> snd startAddr \<and> \<not> Is4 (fst stopAddr))
      \<or> (snd startAddr \<and> \<not> Is6 (fst startAddr) \<or> snd startAddr \<and> \<not> Is6 (fst stopAddr))
      \<or> \<not> IsMulticast (fst startAddr) \<or> \<not> IsMulticast (fst stopAddr))"

definition resolveMulticastACLEntry :: "Instance \<Rightarrow> string \<Rightarrow> u16 \<Rightarrow> bytes option list \<Rightarrow> string
    \<Rightarrow> (go_error, MulticastACLEntry) outcome" where
  "resolveMulticastACLEntry inst name key parts mode =
     (case parts ! 0 of None \<Rightarrow> Panic | Some part0 \<Rightarrow>
      let gem = be16 part0 2; vid = be16 part0 4;
          source = multicastACLAddress (parts ! 1) (octets part0 6 10);
          startAddr = multicastACLAddress (parts ! 2) (octets part0 10 14);
          stopAddr = multicastACLAddress (parts ! 2) (octets part0 14 18) in
      if badGEMPort mode gem
      then Err (aclFailure inst name key ''has invalid GEM Port-ID %d'' [AU gem])
      else if vid = 4096 \<or> vid > 4097 \<and> vid \<noteq> 0xffff
      then Err (aclFailure inst name key ''has invalid VLAN ID %d'' [AU vid])
      else if \<not> zeroBytes (octets part0 22 24)
      then Err (aclFailure inst name key ''has non-zero part 0 reserved bytes'' [])
      else if badDestination startAddr stopAddr
      then Err (aclFailure inst name key ''has invalid destination range %s..%s'' [])
      else
        bindR (aclPreview inst name key (parts ! 1)
          \<lparr> aclRowKey = key, aclIPVersion = (if snd startAddr then 6 else 4), aclGEMPortID = gem,
            aclVLANID = vid, aclSource = AddrString (fst source), aclStart = AddrString (fst startAddr),
            aclStop = AddrString (fst stopAddr), aclBandwidth = be32 part0 18, aclPreviewLength = 0,
            aclRepeatTime = 0, aclRepeatCount = 0, aclResetTime = 0 \<rparr>) (\<lambda>entry.
        case parts ! 2 of
          Some part2 \<Rightarrow>
            if \<not> zeroBytes (octets part2 14 24)
            then Err (aclFailure inst name key ''has non-zero part 2 reserved bytes'' [])
            else Ok entry
        | None \<Rightarrow> Ok entry))"

text \<open>
  The first loop collects the parts of each row key. \<open>n\<close> is the number of parts of an entry, 3 in an
  access control list and 2 in a table of allowed previews, whose first loop is the same but for the
  error texts.
\<close>

definition collectPart :: "nat \<Rightarrow> (u16 \<Rightarrow> go_error) \<Rightarrow> (u16 \<Rightarrow> u8 \<Rightarrow> go_error) \<Rightarrow> bytes
    \<Rightarrow> (u16, bytes option list) gomap \<Rightarrow> (go_error, (u16, bytes option list) gomap) outcome" where
  "collectPart n invalid repeated row logical =
     (let control = be16 row 0; part = (ucast (drop_bit 11 control AND 0x07) :: u8);
          key = control AND 0x03ff in
      if control AND 0xc400 \<noteq> 0 \<or> unat part \<ge> n then Err (invalid control)
      else
        let entry = (case map_of logical key of Some e \<Rightarrow> e | None \<Rightarrow> replicate n None) in
        if entry ! unat part \<noteq> None then Err (repeated key part)
        else Ok (AList.update key (entry[unat part := Some row]) logical))"

definition aclOverlap :: "Instance \<Rightarrow> string \<Rightarrow> u16 \<Rightarrow> MulticastACLEntry \<Rightarrow> MulticastACLEntry
    \<Rightarrow> unit \<Rightarrow> (go_error, unit) outcome" where
  "aclOverlap inst name key resolved previous u =
     (if aclIPVersion previous \<noteq> aclIPVersion resolved then Ok ()
      else
        bindR (MustParseAddr (aclStart previous)) (\<lambda>previousStart.
        bindR (MustParseAddr (aclStop previous)) (\<lambda>previousStop.
        bindR (MustParseAddr (aclStart resolved)) (\<lambda>startAddr.
        bindR (MustParseAddr (aclStop resolved)) (\<lambda>stopAddr.
        if previousStop < startAddr \<or> stopAddr < previousStart then Ok ()
        else Err (aclFailure inst name key ''overlaps row key %d'' [AU (aclRowKey previous)]))))))"

definition aclEntry :: "Instance \<Rightarrow> string \<Rightarrow> string \<Rightarrow> (u16, bytes option list) gomap \<Rightarrow> u16
    \<Rightarrow> MulticastACLEntry list \<Rightarrow> (go_error, MulticastACLEntry list) outcome" where
  "aclEntry inst name mode logical key result =
     (let entry = the (map_of logical key) in
      if entry ! 0 = None then Ok result
      else
        bindR (resolveMulticastACLEntry inst name key entry mode) (\<lambda>resolved.
        bindR (foldR (aclOverlap inst name key resolved) result ()) (\<lambda>_.
        Ok (result @ [resolved]))))"

definition multicastACL :: "Instance \<Rightarrow> string \<Rightarrow> string \<Rightarrow> (go_error, MulticastACLEntry list) outcome" where
  "multicastACL inst name mode =
     bindR (tableAttributeDefault inst name 24) (\<lambda>rows.
     bindR (foldRows 24 (collectPart 3
         (\<lambda>control. Errorf ''multicast operations profile %#x %s row has invalid stored control %#x''
            [AU (EntityID (ikey inst)), AStr name, AU control])
         (\<lambda>key part. Errorf ''multicast operations profile %#x %s repeats row key/part %d/%d''
            [AU (EntityID (ikey inst)), AStr name, AU key, AU part])) (Rows rows) []) (\<lambda>logical.
     foldR (aclEntry inst name mode logical) (sort (gkeys logical)) []))"

section \<open>Operations profiles\<close>

abbreviation (input) profileErr :: "Instance \<Rightarrow> string \<Rightarrow> go_arg list \<Rightarrow> go_error" where
  "profileErr inst what args \<equiv>
     Errorf (''multicast operations profile %#x '' @ what) ([AU (EntityID (ikey inst))] @ args)"

definition buildMulticastOperationsProfile :: "Instance \<Rightarrow> string
    \<Rightarrow> (go_error, MulticastOperationsProfile) outcome" where
  "buildMulticastOperationsProfile inst mode =
     bindR (uint8Attribute inst ''IgmpVersion'') (\<lambda>version.
     if version \<notin> {1, 2, 3, 16, 17} then Err (profileErr inst ''uses invalid IGMP/MLD version %d'' [AU version]) else
     bindR (uint8Attribute inst ''IgmpFunction'') (\<lambda>igmpFunction.
     if igmpFunction > 2 then Err (profileErr inst ''uses invalid IGMP function %d'' [AU igmpFunction]) else
     bindR (booleanAttributeDefault inst ''ImmediateLeave'' 0) (\<lambda>leave.
     bindR (uint16AttributeDefault inst ''UpstreamIgmpTci'' 0) (\<lambda>upstreamTCI.
     bindR (uint8AttributeDefault inst ''UpstreamIgmpTagControl'' 0) (\<lambda>tagControl.
     if tagControl > 3 \<or> tagControl \<noteq> 0 \<and> upstreamTCI AND 0x0fff = 0x0fff
     then Err (profileErr inst ''has invalid upstream tag control/TCI %d/%#x'' [AU tagControl, AU upstreamTCI]) else
     bindR (uint32AttributeDefault inst ''UpstreamIgmpRate'' 0) (\<lambda>rate.
     bindR (multicastACL inst ''DynamicAccessControlListTable'' mode) (\<lambda>dynamicACL.
     bindR (multicastACL inst ''StaticAccessControlListTable'' mode) (\<lambda>staticACL.
     bindR (uint8AttributeDefault inst ''Robustness'' 0) (\<lambda>robustness.
     bindR (uint32AttributeDefault inst ''QuerierIpAddress'' 0) (\<lambda>querier.
     bindR (uint32AttributeDefault inst ''QueryInterval'' 0) (\<lambda>interval.
     bindR (uint32AttributeDefault inst ''QueryMaxResponseTime'' 0) (\<lambda>response.
     bindR (uint32AttributeDefault inst ''LastMemberQueryInterval'' 0) (\<lambda>lastMember.
     bindR (uint8AttributeDefault inst ''UnauthorizedJoinRequestBehaviour'' 0) (\<lambda>unauthorized.
     if unauthorized > 1
     then Err (profileErr inst ''has invalid unauthorized-join behaviour %d'' [AU unauthorized]) else
     bindR (bytesAttributeDefault inst ''DownstreamIgmpAndMulticastTci'' 3 [0, 0, 0]) (\<lambda>downstream.
     bindR (go_index downstream 0) (\<lambda>downstreamControl.
     bindR (go_be16 downstream 1) (\<lambda>downstreamTCI.
     if downstreamControl > 7 \<or> downstreamControl \<ge> 2 \<and> downstreamTCI AND 0x0fff = 0x0fff
     then Err (profileErr inst ''has invalid downstream tag control/TCI %d/%#x'' [AU downstreamControl, AU downstreamTCI])
     else Ok \<lparr> opEntity = EntityID (ikey inst), opIGMPVersion = version, opIGMPFunction = igmpFunction,
       opImmediateLeave = leave, opUpstreamTCI = upstreamTCI, opUpstreamTagControl = tagControl,
       opUpstreamRate = rate, opDynamicACL = dynamicACL, opStaticACL = staticACL, opRobustness = robustness,
       opQuerierIPAddress = querier, opQueryInterval = interval, opQueryMaxResponseTime = response,
       opLastMemberQueryInterval = lastMember, opUnauthorizedJoin = unauthorized,
       opDownstreamTagControl = downstreamControl, opDownstreamTCI = downstreamTCI \<rparr>)))))))))))))))))"

section \<open>Subscribers\<close>

abbreviation (input) subscriberErr :: "Instance \<Rightarrow> string \<Rightarrow> go_arg list \<Rightarrow> go_error" where
  "subscriberErr inst what args \<equiv>
     Errorf (''multicast subscriber %#x '' @ what) ([AU (EntityID (ikey inst))] @ args)"

definition servicePackageRow :: "Instance \<Rightarrow> (u16, MulticastOperationsProfile) gomap \<Rightarrow> bytes
    \<Rightarrow> MulticastServicePackage list \<times> u16 list
    \<Rightarrow> (go_error, MulticastServicePackage list \<times> u16 list) outcome" where
  "servicePackageRow inst mcProfiles row = (\<lambda>(result, seen).
     let control = be16 row 0; key = control AND 0x03ff; vid = be16 row 2; profile = be16 row 10 in
     if control AND 0xfc00 \<noteq> 0
     then Err (subscriberErr inst ''service package has invalid stored control %#x'' [AU control])
     else if key \<in> set seen
     then Err (subscriberErr inst ''repeats service package row key %d'' [AU key])
     else if vid > 4097 \<and> vid \<noteq> 0xffff
     then Err (subscriberErr inst ''service package row key %d has invalid VLAN ID %d'' [AU key, AU vid])
     else if map_of mcProfiles profile = None
     then Err (subscriberErr inst ''service package row key %d references missing operations profile %#x'' [AU key, AU profile])
     else if \<not> zeroBytes (octets row 12 20)
     then Err (subscriberErr inst ''service package row key %d has non-zero reserved bytes'' [AU key])
     else Ok (result @ [\<lparr> packageRowKey = key, packageVLANID = vid, packageMaxGroups = be16 row 4,
            packageMaxBandwidth = be32 row 6, packageProfile = profile \<rparr>], key # seen))"

definition multicastServicePackages :: "Instance \<Rightarrow> (u16, MulticastOperationsProfile) gomap
    \<Rightarrow> (go_error, MulticastServicePackage list) outcome" where
  "multicastServicePackages inst mcProfiles =
     bindR (tableAttributeDefault inst ''MulticastServicePackageTable'' 20) (\<lambda>rows.
     bindR (foldRows 20 (servicePackageRow inst mcProfiles) (Rows rows) ([], [])) (\<lambda>(result, seen).
     Ok (sort_key packageRowKey result)))"

definition previewGroup :: "Instance \<Rightarrow> (u16, bytes option list) gomap \<Rightarrow> u16
    \<Rightarrow> AllowedPreviewGroup list \<Rightarrow> (go_error, AllowedPreviewGroup list) outcome" where
  "previewGroup inst logical key result =
     (let parts = the (map_of logical key) in
      case (parts ! 0, parts ! 1) of
        (Some part0, Some part1) \<Rightarrow>
          let source = multicastTableAddress (octets part0 2 18);
              destination = multicastTableAddress (octets part1 2 18);
              ani = be16 part0 18; uni = be16 part0 20 in
          if ani > 4095 \<or> uni > 4095 \<or> \<not> IsMulticast (fst destination)
          then Err (subscriberErr inst ''preview row key %d has invalid VLAN/address'' [AU key])
          else Ok (result @ [\<lparr> groupRowKey = key, groupIPVersion = (if snd destination then 6 else 4),
                 groupSource = AddrString (fst source), groupDestination = AddrString (fst destination),
                 groupANIVLAN = ani, groupUNIVLAN = uni, groupDuration = be16 part1 18,
                 groupTimeLeft = be16 part1 20 \<rparr>])
      | _ \<Rightarrow> Ok result)"

definition allowedPreviewGroups :: "Instance \<Rightarrow> (go_error, AllowedPreviewGroup list) outcome" where
  "allowedPreviewGroups inst =
     bindR (tableAttributeDefault inst ''AllowedPreviewGroupsTable'' 22) (\<lambda>rows.
     bindR (foldRows 22 (collectPart 2
         (\<lambda>control. subscriberErr inst ''preview row has invalid stored control %#x'' [AU control])
         (\<lambda>key part. subscriberErr inst ''repeats preview row key/part %d/%d'' [AU key, AU part]))
       (Rows rows) []) (\<lambda>logical.
     foldR (previewGroup inst logical) (sort (gkeys logical)) []))"

definition subscriberTarget :: "Instance \<Rightarrow> u8 \<Rightarrow> (u16, MACBridgePort) gomap \<Rightarrow> (u16, PBitMapper) gomap
    \<Rightarrow> go_error option" where
  "subscriberTarget inst meType bridgePorts mappers =
     (if meType = 0 then
        case map_of bridgePorts (EntityID (ikey inst)) of
          None \<Rightarrow> Some (subscriberErr inst ''does not identify an Ethernet UNI bridge port'' [])
        | Some port \<Rightarrow> if portTPType port \<noteq> 1
            then Some (subscriberErr inst ''does not identify an Ethernet UNI bridge port'' []) else None
      else if meType = 1 then
        (if map_of mappers (EntityID (ikey inst)) = None
         then Some (subscriberErr inst ''references missing 802.1p mapper'' []) else None)
      else Some (subscriberErr inst ''uses invalid ME type %d'' [AU meType]))"

definition buildMulticastSubscriber :: "Instance \<Rightarrow> (u16, MACBridgePort) gomap \<Rightarrow> (u16, PBitMapper) gomap
    \<Rightarrow> (u16, MulticastOperationsProfile) gomap \<Rightarrow> (go_error, MulticastSubscriberConfigInfo) outcome" where
  "buildMulticastSubscriber inst bridgePorts mappers mcProfiles =
     bindR (uint8Attribute inst ''MeType'') (\<lambda>meType.
     failIf (subscriberTarget inst meType bridgePorts mappers) (
     bindR (uint16Attribute inst ''MulticastOperationsProfilePointer'') (\<lambda>profile.
     bindR (uint16AttributeDefault inst ''MaxSimultaneousGroups'' 0) (\<lambda>maxGroups.
     bindR (uint32AttributeDefault inst ''MaxMulticastBandwidth'' 0) (\<lambda>maxBandwidth.
     bindR (booleanAttributeDefault inst ''BandwidthEnforcement'' 0) (\<lambda>enforcement.
     bindR (multicastServicePackages inst mcProfiles) (\<lambda>packages.
     if packages = [] \<and> map_of mcProfiles profile = None
     then Err (subscriberErr inst ''references missing operations profile %#x'' [AU profile]) else
     bindR (allowedPreviewGroups inst) (\<lambda>previews.
     Ok \<lparr> subEntity = EntityID (ikey inst), subMEType = meType, subProfile = profile,
          subMaxGroups = maxGroups, subMaxBandwidth = maxBandwidth, subEnforcement = enforcement,
          subPackages = packages, subPreviews = previews \<rparr>))))))))"

end
