(* ===== verification/GraphBuild.thy ===== *)
theory GraphBuild
  imports GraphMulticast
begin

unbundle bit_operations_syntax

text \<open>
  The builders of the service graph that resolve one instance (src/internal/platform/graph.go): what
  \<open>buildServiceGraph\<close> calls for a traffic descriptor, a rate limiter, a bridge and its ports, a
  mapper, an interworking termination point, a VLAN filter and the two kinds of VLAN operations.
  Each returns the resolved element, or the error of the first check that fails in the order of the
  code.
\<close>

abbreviation (input) elementErr :: "string \<Rightarrow> Instance \<Rightarrow> string \<Rightarrow> go_arg list \<Rightarrow> go_error" where
  "elementErr kind inst what args \<equiv> Errorf (kind @ '' %#x '' @ what) ([AU (EntityID (ikey inst))] @ args)"

section \<open>Traffic\<close>

definition buildTrafficDescriptor :: "Instance \<Rightarrow> (go_error, TrafficDescriptor) outcome" where
  "buildTrafficDescriptor inst =
     bindR (uint32AttributeDefault inst ''Cir'' 0) (\<lambda>cir.
     bindR (uint32AttributeDefault inst ''Pir'' 0) (\<lambda>pir.
     bindR (uint32AttributeDefault inst ''Cbs'' 0) (\<lambda>cbs.
     bindR (uint32AttributeDefault inst ''Pbs'' 0) (\<lambda>pbs.
     bindR (uint8AttributeDefault inst ''ColourMode'' 0) (\<lambda>colour.
     bindR (uint8AttributeDefault inst ''IngressColourMarking'' 0) (\<lambda>ingress.
     bindR (uint8AttributeDefault inst ''EgressColourMarking'' 0) (\<lambda>egress.
     bindR (uint8AttributeDefault inst ''MeterType'' 0) (\<lambda>meter.
     if pir \<noteq> 0 \<and> cir > pir
     then Err (elementErr ''traffic descriptor'' inst ''has CIR %d above PIR %d'' [AU cir, AU pir])
     else if colour > 1
     then Err (elementErr ''traffic descriptor'' inst ''has invalid colour mode %d'' [AU colour])
     else if ingress = 1 \<or> ingress > 7
     then Err (elementErr ''traffic descriptor'' inst ''has invalid ingress colour marking %d'' [AU ingress])
     else if egress > 7
     then Err (elementErr ''traffic descriptor'' inst ''has invalid egress colour marking %d'' [AU egress])
     else if meter > 2
     then Err (elementErr ''traffic descriptor'' inst ''has invalid meter type %d'' [AU meter])
     else Ok \<lparr> tdEntity = EntityID (ikey inst), CIR = cir, PIR = pir, CBS = cbs, PBS = pbs,
            ColourMode = colour, IngressColourMarking = ingress, EgressColourMarking = egress,
            MeterType = meter \<rparr>))))))))"

text \<open>The class a rate limiter's parent has.\<close>

definition limiterParentClass :: "u8 \<Rightarrow> u16 option" where
  "limiterParentClass tpType =
     (if tpType = 1 then Some MacBridgeServiceProfileClassID
      else if tpType = 2 then Some MapperClassID else None)"

text \<open>One turn of the loop over the three pointers of a rate limiter.\<close>

definition limiterPointer :: "Instance \<Rightarrow> instances \<Rightarrow> string \<Rightarrow> string \<Rightarrow> (go_error, u16) outcome" where
  "limiterPointer inst insts name field =
     bindR (uint16AttributeDefault inst field 0) (\<lambda>v.
     let target = (if v = 0 then nullPointer else v) in
     if target \<noteq> nullPointer \<and> \<not> hasInstance insts TrafficDescriptorClassID target
     then Err (elementErr ''dot1 rate limiter'' inst ''references missing %s traffic descriptor %#x'' [AStr name, AU target])
     else Ok target)"

definition buildDot1RateLimiter :: "Instance \<Rightarrow> instances \<Rightarrow> (go_error, Dot1RateLimiter \<times> Key) outcome" where
  "buildDot1RateLimiter inst insts =
     bindR (uint16Attribute inst ''ParentMePointer'') (\<lambda>parentME.
     bindR (uint8Attribute inst ''TpType'') (\<lambda>tpType.
     case limiterParentClass tpType of
       None \<Rightarrow> Err (elementErr ''dot1 rate limiter'' inst ''has invalid TP type %d'' [AU tpType])
     | Some classID \<Rightarrow>
         if map_of insts (Key classID parentME) = None
         then Err (elementErr ''dot1 rate limiter'' inst ''references missing parent %d/%#x'' [AU classID, AU parentME])
         else
           bindR (limiterPointer inst insts ''upstream unknown-unicast flood'' ''UpstreamUnicastFloodRatePointer'') (\<lambda>flood.
           bindR (limiterPointer inst insts ''upstream broadcast'' ''UpstreamBroadcastRatePointer'') (\<lambda>broadcast.
           bindR (limiterPointer inst insts ''upstream multicast payload'' ''UpstreamMulticastPayloadRatePointer'') (\<lambda>payload.
           Ok (\<lparr> limiterEntity = EntityID (ikey inst), ParentME = parentME, limiterTPType = tpType,
                 UpstreamUnicastFloodTD = flood, UpstreamBroadcastTD = broadcast,
                 UpstreamMulticastPayloadTD = payload \<rparr>, Key classID parentME))))))"

definition validateUpstreamTrafficPointer :: "instances \<Rightarrow> u16 \<Rightarrow> u16 \<Rightarrow> u16 \<Rightarrow> u8 \<Rightarrow> (go_error, unit) outcome" where
  "validateUpstreamTrafficPointer insts gem tcont pointer option =
     (if option = 1 then
        if pointer \<noteq> tcont
        then Err (Errorf ''GEM CTP %#x rate-controlled upstream pointer %#x does not match T-CONT %#x''
               [AU gem, AU pointer, AU tcont])
        else Ok ()
      else
        case map_of insts (Key PriorityQueueClassID pointer) of
          None \<Rightarrow> Err (Errorf ''GEM CTP %#x references missing upstream priority queue %#x'' [AU gem, AU pointer])
        | Some queue \<Rightarrow>
            bindR (uint32Attribute queue ''RelatedPort'') (\<lambda>related.
            if (ucast (drop_bit 16 related) :: u16) \<noteq> tcont
            then Err (Errorf ''GEM CTP %#x upstream queue %#x belongs to %#x, not T-CONT %#x''
                   [AU gem, AU pointer, AU (ucast (drop_bit 16 related) :: u16), AU tcont])
            else Ok ()))"

definition validateTrafficDescriptorPointer :: "instances \<Rightarrow> u16 \<Rightarrow> string \<Rightarrow> u16 \<Rightarrow> go_error option" where
  "validateTrafficDescriptorPointer insts gem direction pointer =
     (if pointer = nullPointer then None
      else if \<not> hasInstance insts TrafficDescriptorClassID pointer
      then Some (Errorf ''GEM CTP %#x references missing %s traffic descriptor %#x'' [AU gem, AStr direction, AU pointer])
      else None)"

definition validateBridgePortTrafficDescriptorPointer :: "instances \<Rightarrow> u16 \<Rightarrow> string \<Rightarrow> u16 \<Rightarrow> go_error option" where
  "validateBridgePortTrafficDescriptorPointer insts port direction pointer =
     (if pointer = nullPointer then None
      else if \<not> hasInstance insts TrafficDescriptorClassID pointer
      then Some (Errorf ''MAC bridge port %#x references missing %s traffic descriptor %#x'' [AU port, AStr direction, AU pointer])
      else None)"

section \<open>Bridges\<close>

definition buildMACBridge :: "Instance \<Rightarrow> (go_error, MACBridge) outcome" where
  "buildMACBridge inst =
     bindR (booleanAttributeDefault inst ''SpanningTreeInd'' 0) (\<lambda>spanningTree.
     bindR (booleanAttributeDefault inst ''LearningInd'' 0) (\<lambda>learning.
     bindR (booleanAttributeDefault inst ''PortBridgingInd'' 0) (\<lambda>portBridging.
     bindR (uint16AttributeDefault inst ''Priority'' 0) (\<lambda>priority.
     bindR (uint16AttributeDefault inst ''MaxAge'' 0x0600) (\<lambda>maxAge.
     if maxAge < 0x0600 \<or> maxAge > 0x2800
     then Err (elementErr ''MAC bridge'' inst ''max age %#x is outside 6..40 seconds'' [AU maxAge]) else
     bindR (uint16AttributeDefault inst ''HelloTime'' 0x0100) (\<lambda>helloTime.
     if helloTime < 0x0100 \<or> helloTime > 0x0a00
     then Err (elementErr ''MAC bridge'' inst ''hello time %#x is outside 1..10 seconds'' [AU helloTime]) else
     bindR (uint16AttributeDefault inst ''ForwardDelay'' 0x0400) (\<lambda>forwardDelay.
     if forwardDelay < 0x0400 \<or> forwardDelay > 0x1e00
     then Err (elementErr ''MAC bridge'' inst ''forward delay %#x is outside 4..30 seconds'' [AU forwardDelay]) else
     bindR (booleanAttributeDefault inst ''UnknownMacAddressDiscard'' 0) (\<lambda>discard.
     bindR (uint8AttributeDefault inst ''MacLearningDepth'' 0) (\<lambda>depth.
     bindR (uint32AttributeDefault inst ''DynamicFilteringAgeingTime'' 300) (\<lambda>age.
     if age \<noteq> 0 \<and> (age < 10 \<or> age > 1000000)
     then Err (elementErr ''MAC bridge'' inst ''dynamic filtering age %d is outside 10..1000000 seconds'' [AU age]) else
     Ok \<lparr> bridgeEntity = EntityID (ikey inst), bridgeSpanningTree = spanningTree, bridgeLearning = learning,
          PortBridging = portBridging, bridgePriority = priority, MaxAge = maxAge, HelloTime = helloTime,
          ForwardDelay = forwardDelay, UnknownMACDiscard = discard, bridgeLearningDepth = depth,
          DynamicFilteringAgeTime = age, Ports = [] \<rparr>))))))))))"

definition buildMACBridgePort :: "Instance \<Rightarrow> u8 \<Rightarrow> u8 \<Rightarrow> u16 \<Rightarrow> (go_error, MACBridgePort) outcome" where
  "buildMACBridgePort inst number tpType tp =
     bindR (uint16AttributeDefault inst ''PortPriority'' 0) (\<lambda>priority.
     bindR (uint16AttributeDefault inst ''PortPathCost'' 1) (\<lambda>pathCost.
     if pathCost = 0 then Err (elementErr ''MAC bridge port'' inst ''has zero path cost'' []) else
     bindR (booleanAttributeDefault inst ''PortSpanningTreeInd'' 0) (\<lambda>spanningTree.
     bindR (uint16AttributeDefault inst ''OutboundTdPointer'' 0) (\<lambda>outbound.
     bindR (uint16AttributeDefault inst ''InboundTdPointer'' 0) (\<lambda>inbound.
     bindR (uint8AttributeDefault inst ''MacLearningDepth'' 0) (\<lambda>depth.
     Ok \<lparr> portEntity = EntityID (ikey inst), portNumber = number, portTPType = tpType, portTP = tp,
          portPriority = priority, portPathCost = pathCost, portSpanningTree = spanningTree,
          OutboundTD = (if outbound = 0 then nullPointer else outbound),
          InboundTD = (if inbound = 0 then nullPointer else inbound), portLearningDepth = depth \<rparr>))))))"

text \<open>The class a bridge port's termination point has.\<close>

definition bridgePortClass :: "u8 \<Rightarrow> u16 option" where
  "bridgePortClass tpType =
     (if tpType = 1 then Some PptpEthernetUniClassID
      else if tpType = 3 then Some MapperClassID
      else if tpType = 5 then Some GemIwTpClassID
      else if tpType = 6 then Some MulticastGemIwTpClassID else None)"

definition noGEMInterworking :: GEMInterworking where
  "noGEMInterworking = \<lparr> iwEntity = 0, iwGEMPort = 0, iwOption = 0, iwServiceProfile = 0,
     InterworkingTermination = 0, iwGALProfile = 0 \<rparr>"

definition noMulticastInterworking :: MulticastGEMInterworking where
  "noMulticastInterworking = \<lparr> mcEntity = 0, mcGEMPort = 0, mcPortID = 0, mcTCONT = 0, mcAllocID = 0,
     mcOption = 0, mcServiceProfile = 0, mcGALProfile = 0, IPv4Ranges = [], IPv6Ranges = [] \<rparr>"

definition noInstance :: Instance where
  "noInstance = \<lparr> ikey = Key 0 0, Attributes = [], Origin = 0 \<rparr>"

text \<open>An index into a map without the key gives the zero value.\<close>

definition orZero :: "'v \<Rightarrow> 'v option \<Rightarrow> 'v" where
  "orZero zero found = (case found of Some v \<Rightarrow> v | None \<Rightarrow> zero)"

definition validateBridgePortTP :: "u16 \<Rightarrow> u16 \<Rightarrow> u8 \<Rightarrow> u16 \<Rightarrow> instances \<Rightarrow> (u16, GEMInterworking) gomap
    \<Rightarrow> (u16, MulticastGEMInterworking) gomap \<Rightarrow> (go_error, unit) outcome" where
  "validateBridgePortTP entityID bridgeID tpType pointer insts interworking multicast =
     (case bridgePortClass tpType of
        None \<Rightarrow> Err (Errorf ''MAC bridge port %#x uses unsupported TP type %d'' [AU entityID, AU tpType])
      | Some classID \<Rightarrow>
          if \<not> hasInstance insts classID pointer
          then Err (Errorf ''MAC bridge port %#x TP type %d references missing class %d/%#x''
                 [AU entityID, AU tpType, AU classID, AU pointer])
          else if tpType = 5 then
            let iw = orZero noGEMInterworking (map_of interworking pointer) in
            if iwOption iw \<noteq> 1 \<or> iwServiceProfile iw \<noteq> bridgeID
            then Err (Errorf ''MAC bridge port %#x references GEM IW TP %#x option/profile %d/%#x, want 1/%#x''
                   [AU entityID, AU pointer, AU (iwOption iw), AU (iwServiceProfile iw), AU bridgeID])
            else Ok ()
          else if tpType = 6 then
            let iw = orZero noMulticastInterworking (map_of multicast pointer) in
            if mcOption iw = 1 \<and> mcServiceProfile iw \<noteq> 0 \<and> mcServiceProfile iw \<noteq> bridgeID
            then Err (Errorf ''MAC bridge port %#x references multicast GEM IW TP %#x bridge profile %#x, want %#x''
                   [AU entityID, AU pointer, AU (mcServiceProfile iw), AU bridgeID])
            else Ok ()
          else if tpType = 3 then
            let mapper = orZero noInstance (map_of insts (Key MapperClassID pointer)) in
            bindR (uint8AttributeDefault mapper ''TpType'' 0) (\<lambda>mapperTP.
            if mapperTP \<noteq> 0
            then Err (Errorf ''MAC bridge port %#x references non-bridging 802.1p mapper %#x TP type %d''
                   [AU entityID, AU pointer, AU mapperTP])
            else Ok ())
          else Ok ())"

section \<open>Mappers and interworking\<close>

definition buildMapper :: "Instance \<Rightarrow> (go_error, PBitMapper) outcome" where
  "buildMapper inst =
     bindR (uint16Attribute inst ''TpPointer'') (\<lambda>tpPointer.
     bindR (uint8AttributeDefault inst ''TpType'' 0) (\<lambda>tpType.
     bindR (foldR (\<lambda>name pbits. bindR (uint16Attribute inst name) (\<lambda>v. Ok (pbits @ [v]))) mapperPBitAttributes []) (\<lambda>pbits.
     bindR (uint8AttributeDefault inst ''UnmarkedFrameOption'' 0) (\<lambda>unmarked.
     if unmarked > 1
     then Err (elementErr ''802.1p mapper'' inst ''has invalid unmarked frame option %d'' [AU unmarked]) else
     bindR (uint8AttributeDefault inst ''DefaultPBitAssumption'' 0) (\<lambda>defaultPBit.
     if defaultPBit > 7
     then Err (elementErr ''802.1p mapper'' inst ''has invalid default P-bit %d'' [AU defaultPBit]) else
     bindR (if map_of (Attributes inst) ''DscpToPBitMapping'' \<noteq> None
            then bytesAttribute inst ''DscpToPBitMapping'' 24 else Ok (replicate 24 0)) (\<lambda>dscpBytes.
     bindR (DecodeDSCPMapping dscpBytes) (\<lambda>dscp.
     Ok \<lparr> mapperEntity = EntityID (ikey inst), mapperTPType = tpType, mapperTPPointer = tpPointer,
          PBits = pbits, mapperUnmarked = unmarked, mapperDefaultPBit = defaultPBit, mapperDSCP = dscp \<rparr>)))))))"

abbreviation (input) mapperErr :: "PBitMapper \<Rightarrow> string \<Rightarrow> go_arg list \<Rightarrow> go_error" where
  "mapperErr mapper what args \<equiv> Errorf (''802.1p mapper %#x '' @ what) ([AU (mapperEntity mapper)] @ args)"

text \<open>The checks of one P-bit of a mapper.\<close>

definition validatePBit :: "PBitMapper \<Rightarrow> (u16, GEMInterworking) gomap \<Rightarrow> nat \<times> u16 \<Rightarrow> unit \<Rightarrow> (go_error, unit) outcome" where
  "validatePBit mapper interworking = (\<lambda>(priority, pointer) u.
     if pointer = nullPointer then Ok ()
     else case map_of interworking pointer of
       None \<Rightarrow> Err (mapperErr mapper ''P-bit %d references missing GEM IW TP %#x'' [AN priority, AU pointer])
     | Some iw \<Rightarrow>
         if iwOption iw \<noteq> 5 \<or> iwServiceProfile iw \<noteq> mapperEntity mapper
         then Err (mapperErr mapper ''P-bit %d references GEM IW TP %#x owned by option %d/profile %#x''
                [AN priority, AU pointer, AU (iwOption iw), AU (iwServiceProfile iw)])
         else if mapperTPType mapper = 0 \<and> InterworkingTermination iw \<noteq> 0 \<and> InterworkingTermination iw \<noteq> nullPointer
         then Err (Errorf ''bridging 802.1p mapper %#x P-bit %d GEM IW TP %#x has non-null interworking TP %#x''
                [AU (mapperEntity mapper), AN priority, AU pointer, AU (InterworkingTermination iw)])
         else if mapperTPType mapper = 1 \<and> InterworkingTermination iw \<noteq> mapperTPPointer mapper
         then Err (Errorf ''direct 802.1p mapper %#x P-bit %d GEM IW TP %#x points to UNI %#x, want %#x''
                [AU (mapperEntity mapper), AN priority, AU pointer, AU (InterworkingTermination iw), AU (mapperTPPointer mapper)])
         else Ok ())"

definition validateMapper :: "PBitMapper \<Rightarrow> instances \<Rightarrow> (u16, GEMInterworking) gomap \<Rightarrow> (go_error, unit) outcome" where
  "validateMapper mapper insts interworking =
     bindR
       (if mapperTPType mapper = 0 then
          if mapperTPPointer mapper \<noteq> nullPointer
          then Err (mapperErr mapper ''uses bridge mapping but TP pointer is %#x, want 0xffff'' [AU (mapperTPPointer mapper)])
          else Ok ()
        else if mapperTPType mapper = 1 then
          if \<not> hasInstance insts PptpEthernetUniClassID (mapperTPPointer mapper)
          then Err (mapperErr mapper ''references missing Ethernet UNI %#x'' [AU (mapperTPPointer mapper)])
          else Ok ()
        else Err (mapperErr mapper ''uses unsupported TP type %d'' [AU (mapperTPType mapper)])) (\<lambda>_.
     foldR (validatePBit mapper interworking) (zip [0..<length (PBits mapper)] (PBits mapper)) ())"

definition validateGALProfile :: "instances \<Rightarrow> u16 \<Rightarrow> u16 \<Rightarrow> (go_error, unit) outcome" where
  "validateGALProfile insts interworking gal =
     (case map_of insts (Key GalEthernetProfileClassID gal) of
        None \<Rightarrow> Err (Errorf ''GEM IW TP %#x references missing GAL Ethernet profile %#x'' [AU interworking, AU gal])
      | Some profile \<Rightarrow>
          bindR (uint16Attribute profile ''MaximumGemPayloadSize'') (\<lambda>payload.
          if payload \<noteq> 48
          then Err (Errorf ''GAL Ethernet profile %#x has unsupported maximum GEM payload size %d'' [AU gal, AU payload])
          else Ok ()))"

definition buildGEMInterworking :: "Instance \<Rightarrow> instances \<Rightarrow> (u16, GEMPort) gomap \<Rightarrow> (u16, MACBridge) gomap
    \<Rightarrow> (u16, PBitMapper) gomap \<Rightarrow> (go_error, GEMInterworking) outcome" where
  "buildGEMInterworking inst insts gems bridges mappers =
     bindR (uint16Attribute inst ''GemPortNetworkCtpConnectivityPointer'') (\<lambda>pointer.
     if map_of gems pointer = None
     then Err (elementErr ''GEM IW TP'' inst ''references missing GEM CTP %#x'' [AU pointer]) else
     bindR (uint8Attribute inst ''InterworkingOption'') (\<lambda>option.
     bindR (uint16Attribute inst ''ServiceProfilePointer'') (\<lambda>service.
     if option = 1 \<and> map_of bridges service = None
     then Err (elementErr ''GEM IW TP'' inst ''option 1 references missing bridge profile %#x'' [AU service])
     else if option = 5 \<and> map_of mappers service = None
     then Err (elementErr ''GEM IW TP'' inst ''option 5 references missing 802.1p mapper %#x'' [AU service])
     else if option \<noteq> 1 \<and> option \<noteq> 5
     then Err (elementErr ''GEM IW TP'' inst ''uses unsupported interworking option %d'' [AU option]) else
     bindR (uint16Attribute inst ''InterworkingTerminationPointPointer'') (\<lambda>interworkingTP.
     if option = 5 \<and> interworkingTP \<noteq> 0 \<and> interworkingTP \<noteq> nullPointer
        \<and> \<not> hasInstance insts PptpEthernetUniClassID interworkingTP
     then Err (elementErr ''GEM IW TP'' inst ''references missing interworking Ethernet UNI %#x'' [AU interworkingTP]) else
     bindR (uint16Attribute inst ''GalProfilePointer'') (\<lambda>gal.
     bindR (validateGALProfile insts (EntityID (ikey inst)) gal) (\<lambda>_.
     bindR (uint8AttributeDefault inst ''GalLoopbackConfiguration'' 0) (\<lambda>loopback.
     if loopback \<noteq> 0
     then Err (elementErr ''GEM IW TP'' inst ''requests unsupported GAL loopback mode %d'' [AU loopback])
     else Ok \<lparr> iwEntity = EntityID (ikey inst), iwGEMPort = pointer, iwOption = option,
            iwServiceProfile = service, InterworkingTermination = interworkingTP, iwGALProfile = gal \<rparr>)))))))"

definition buildMulticastGEMInterworking :: "Instance \<Rightarrow> instances \<Rightarrow> (u16, GEMPort) gomap
    \<Rightarrow> (u16, MACBridge) gomap \<Rightarrow> (u16, PBitMapper) gomap \<Rightarrow> string
    \<Rightarrow> (go_error, MulticastGEMInterworking) outcome" where
  "buildMulticastGEMInterworking inst insts gems bridges mappers mode =
     bindR (uint16Attribute inst ''GemPortNetworkCtpConnectivityPointer'') (\<lambda>pointer.
     case map_of gems pointer of
       None \<Rightarrow> Err (elementErr ''multicast GEM IW TP'' inst ''references missing GEM CTP %#x'' [AU pointer])
     | Some gem \<Rightarrow>
     if gemDirection gem AND 1 = 0
     then Err (elementErr ''multicast GEM IW TP'' inst ''references GEM CTP %#x without downstream direction'' [AU pointer]) else
     bindR (uint8Attribute inst ''InterworkingOption'') (\<lambda>option.
     bindR (uint16Attribute inst ''ServiceProfilePointer'') (\<lambda>service.
     if option = 1 \<and> service \<noteq> 0 \<and> map_of bridges service = None
     then Err (elementErr ''multicast GEM IW TP'' inst ''option 1 references missing bridge profile %#x'' [AU service])
     else if option = 5 \<and> service \<noteq> 0 \<and> map_of mappers service = None
     then Err (elementErr ''multicast GEM IW TP'' inst ''option 5 references missing 802.1p mapper %#x'' [AU service])
     else if option \<noteq> 0 \<and> option \<noteq> 1 \<and> option \<noteq> 5
     then Err (elementErr ''multicast GEM IW TP'' inst ''uses unsupported interworking option %d'' [AU option]) else
     bindR (uint16AttributeDefault inst ''NotUsed1'' 0) (\<lambda>notUsed1.
     bindR (uint8AttributeDefault inst ''NotUsed2'' 0) (\<lambda>notUsed2.
     if notUsed1 \<noteq> 0 \<or> notUsed2 \<noteq> 0
     then Err (elementErr ''multicast GEM IW TP'' inst ''has non-zero reserved attributes'' []) else
     bindR (uint16AttributeDefault inst ''GalProfilePointer'' 0) (\<lambda>gal.
     bindR (if gal \<noteq> 0 then mapErr (\<lambda>e. Errorf ''multicast %w'' [AErr e])
              (validateGALProfile insts (EntityID (ikey inst)) gal) else Ok ()) (\<lambda>_.
     bindR (multicastIPv4Ranges inst mode) (\<lambda>ipv4.
     bindR (multicastIPv6Ranges inst mode) (\<lambda>ipv6.
     Ok \<lparr> mcEntity = EntityID (ikey inst), mcGEMPort = pointer, mcPortID = gemPortID gem,
          mcTCONT = gemTCONT gem, mcAllocID = gemAllocID gem, mcOption = option,
          mcServiceProfile = service, mcGALProfile = gal, IPv4Ranges = ipv4, IPv6Ranges = ipv6 \<rparr>)))))))))"

section \<open>VLANs\<close>

definition decodeVLANForwardOperation :: "u8 \<Rightarrow>
    (go_error, VLANFilterAction \<times> VLANFilterCriterion \<times> VLANFilterAction) outcome" where
  "decodeVLANForwardOperation operation =
     (let untagged = (if operation \<in> {0x02, 0x04, 0x06, 0x08, 0x0a, 0x0c, 0x0e, 0x10, 0x12, 0x14, 0x15, 0x17,
            0x19, 0x1b, 0x1d, 0x1f, 0x21} then ActionDiscard else ActionBridge) in
      if operation \<in> {0x00, 0x02, 0x15} then Ok (ActionBridge, CriterionNone, untagged)
      else if operation = 0x01 then Ok (ActionDiscard, CriterionNone, untagged)
      else if operation \<in> {0x03, 0x04, 0x0f, 0x10, 0x1c, 0x1d} then Ok (ActionPositive, CriterionVID, untagged)
      else if operation \<in> {0x05, 0x06} then Ok (ActionNegative, CriterionVID, untagged)
      else if operation \<in> {0x07, 0x08, 0x11, 0x12, 0x1e, 0x1f} then Ok (ActionPositive, CriterionPriority, untagged)
      else if operation \<in> {0x09, 0x0a} then Ok (ActionNegative, CriterionPriority, untagged)
      else if operation \<in> {0x0b, 0x0c, 0x13, 0x14, 0x20, 0x21} then Ok (ActionPositive, CriterionTCI, untagged)
      else if operation \<in> {0x0d, 0x0e} then Ok (ActionNegative, CriterionTCI, untagged)
      else if operation \<in> {0x16, 0x17} then Ok (ActionPositiveDA, CriterionVID, untagged)
      else if operation \<in> {0x18, 0x19} then Ok (ActionPositiveDA, CriterionPriority, untagged)
      else if operation \<in> {0x1a, 0x1b} then Ok (ActionPositiveDA, CriterionTCI, untagged)
      else Err (Errorf ''forward operation %#02x is reserved'' [AU operation]))"

definition filterEntry :: "Instance \<Rightarrow> bytes \<Rightarrow> nat \<Rightarrow> u16 list \<Rightarrow> (go_error, u16 list) outcome" where
  "filterEntry inst vids index entries =
     bindR (go_be16 vids (index * 2)) (\<lambda>entry.
     if entry AND 0x0fff = 0x0fff
     then Err (elementErr ''VLAN filter'' inst ''entry %d uses reserved VID 4095'' [AN index])
     else Ok (entries @ [entry]))"

definition buildVLANFilter :: "Instance \<Rightarrow> (u16, MACBridgePort) gomap \<Rightarrow> (go_error, VLANFilter) outcome" where
  "buildVLANFilter inst bridgePorts =
     (if map_of bridgePorts (EntityID (ikey inst)) = None
      then Err (elementErr ''VLAN filter'' inst ''has no implicitly linked MAC bridge port'' []) else
      bindR (bytesAttribute inst ''VlanFilterList'' 24) (\<lambda>vids.
      bindR (uint8Attribute inst ''NumberOfEntries'') (\<lambda>count.
      if count > 12
      then Err (elementErr ''VLAN filter'' inst ''has %d entries, maximum is 12'' [AU count]) else
      bindR (foldR (filterEntry inst vids) [0..<unat count] []) (\<lambda>entries.
      bindR (uint8Attribute inst ''ForwardOperation'') (\<lambda>operation.
      bindR (mapErr (\<lambda>e. Errorf ''VLAN filter %#x: %w'' [AU (EntityID (ikey inst)), AErr e]) (decodeVLANForwardOperation operation))
        (\<lambda>(tagged, criterion, untagged).
      Ok \<lparr> filterEntity = EntityID (ikey inst), filterBridgePort = EntityID (ikey inst),
           ForwardOperation = operation, TaggedAction = tagged, TaggedCriterion = criterion,
           UntaggedAction = untagged, filterEntries = entries \<rparr>))))))"

definition vlanOperationTarget :: "u8 \<Rightarrow> u16 option" where
  "vlanOperationTarget associationType =
     (if associationType = 0 \<or> associationType = 10 then Some PptpEthernetUniClassID
      else if associationType = 2 then Some MapperClassID
      else if associationType = 3 then Some MacBridgePortConfigurationDataClassID
      else if associationType = 5 then Some GemIwTpClassID else None)"

definition buildVLANOperation :: "Instance \<Rightarrow> instances \<Rightarrow> (go_error, VLANOperation) outcome" where
  "buildVLANOperation inst insts =
     bindR (uint8Attribute inst ''UpstreamVlanTaggingOperationMode'') (\<lambda>upstreamMode.
     if upstreamMode > 2
     then Err (elementErr ''VLAN operation ME'' inst ''has invalid upstream mode %d'' [AU upstreamMode]) else
     bindR (uint16Attribute inst ''UpstreamVlanTagTciValue'') (\<lambda>tci.
     if upstreamMode \<noteq> 0 \<and> tci AND 0x0fff = 0x0fff
     then Err (elementErr ''VLAN operation ME'' inst ''uses reserved upstream VID 4095'' []) else
     bindR (uint8Attribute inst ''DownstreamVlanTaggingOperationMode'') (\<lambda>downstreamMode.
     if downstreamMode > 1
     then Err (elementErr ''VLAN operation ME'' inst ''has invalid downstream mode %d'' [AU downstreamMode]) else
     bindR (uint8AttributeDefault inst ''AssociationType'' 0) (\<lambda>associationType.
     bindR (if associationType \<noteq> 0 then uint16Attribute inst ''AssociatedMePointer'' else Ok (EntityID (ikey inst))) (\<lambda>pointer.
     case vlanOperationTarget associationType of
       None \<Rightarrow> Err (elementErr ''VLAN operation ME'' inst ''uses unsupported association type %d'' [AU associationType])
     | Some targetClass \<Rightarrow>
         if \<not> hasInstance insts targetClass pointer
         then Err (elementErr ''VLAN operation ME'' inst ''association type %d references missing class %d/%#x''
                [AU associationType, AU targetClass, AU pointer])
         else Ok \<lparr> vopEntity = EntityID (ikey inst), vopAssociationType = associationType,
                vopAssociatedClass = targetClass, vopAssociatedME = pointer, vopUpstreamMode = upstreamMode,
                vopUpstreamTCI = tci, vopDownstreamMode = downstreamMode \<rparr>)))))"

definition extendedVLANTarget :: "u8 \<Rightarrow> u16 option" where
  "extendedVLANTarget associationType =
     (if associationType = 0 then Some MacBridgePortConfigurationDataClassID
      else if associationType = 1 then Some MapperClassID
      else if associationType = 2 then Some PptpEthernetUniClassID
      else if associationType = 5 then Some GemIwTpClassID else None)"

text \<open>The table of rules an extended VLAN operation uses in its mode, and its row size.\<close>

definition extendedVLANTable :: "u8 \<Rightarrow> string \<times> nat" where
  "extendedVLANTable enhanced =
     (if enhanced = 1 then (''EnhancedReceivedFrameClassificationAndProcessingTable'', EnhancedRowSize)
      else (''ReceivedFrameVlanTaggingOperationTable'', ClassicRowSize))"

definition buildExtendedVLAN :: "Instance \<Rightarrow> instances \<Rightarrow> (go_error, ExtendedVLAN) outcome" where
  "buildExtendedVLAN inst insts =
     bindR (uint8Attribute inst ''AssociationType'') (\<lambda>associationType.
     bindR (uint16Attribute inst ''AssociatedMePointer'') (\<lambda>pointer.
     case extendedVLANTarget associationType of
       None \<Rightarrow> Err (elementErr ''extended VLAN ME'' inst ''uses unsupported association type %d'' [AU associationType])
     | Some targetClass \<Rightarrow>
     if \<not> hasInstance insts targetClass pointer
     then Err (elementErr ''extended VLAN ME'' inst ''association type %d references missing class %d/%#x''
            [AU associationType, AU targetClass, AU pointer]) else
     bindR (uint16Attribute inst ''InputTpid'') (\<lambda>inputTPID.
     bindR (uint16Attribute inst ''OutputTpid'') (\<lambda>outputTPID.
     bindR (uint8Attribute inst ''DownstreamMode'') (\<lambda>downstream.
     if downstream > 8
     then Err (elementErr ''extended VLAN ME'' inst ''has invalid downstream mode %d'' [AU downstream]) else
     bindR (uint8AttributeDefault inst ''EnhancedMode'' 0) (\<lambda>enhanced.
     if enhanced > 1
     then Err (elementErr ''extended VLAN ME'' inst ''has invalid enhanced mode %d'' [AU enhanced]) else
     bindR (tableAttributeDefault inst (fst (extendedVLANTable enhanced)) (snd (extendedVLANTable enhanced))) (\<lambda>rules.
     bindR (uint16AttributeDefault inst ''ReceivedFrameVlanTaggingOperationTableMaxSize'' 0) (\<lambda>maximum.
     if maximum \<noteq> 0 \<and> NumRows rules > uint maximum
     then Err (elementErr ''extended VLAN ME'' inst ''has %d rules, maximum is %d'' [AInt (NumRows rules), AU maximum]) else
     bindR (mapErr (\<lambda>e. Errorf ''extended VLAN ME %#x: %w'' [AU (EntityID (ikey inst)), AErr e]) (ParseRows (Rows rules) (enhanced = 1))) (\<lambda>parsed.
     bindR (if map_of (Attributes inst) ''DscpToPBitMapping'' \<noteq> None
            then bytesAttribute inst ''DscpToPBitMapping'' 24 else Ok (replicate 24 0)) (\<lambda>dscpBytes.
     bindR (DecodeDSCPMapping dscpBytes) (\<lambda>dscp.
     Ok \<lparr> extEntity = EntityID (ikey inst), extAssociationType = associationType, extAssociatedClass = targetClass,
          extAssociatedME = pointer, InputTPID = inputTPID, OutputTPID = outputTPID,
          extDownstreamMode = downstream, EnhancedMode = enhanced, extDSCP = dscp, extRules = parsed \<rparr>)))))))))))"

end
