(* ===== verification/GraphService.thy ===== *)
theory GraphService
  imports GraphBuild
begin

unbundle bit_operations_syntax

text \<open>
  \<open>buildServiceGraph\<close> of src/internal/platform/graph.go: from a snapshot of the MIB to the graph. The
  function is one sequence of loops over the snapshot; each loop is a definition whose state is what
  the loop fills (the maps it builds for the later loops and its list in the graph), in the order
  of the code. The map \<open>unis\<close>, which the code fills and never reads, is left out. The loops over the
  maps \<open>tconts\<close>, \<open>bridges\<close> and \<open>instances\<close> go through them in list order: the order only decides which
  of several errors is reported.
\<close>

section \<open>Instances of the snapshot\<close>

definition indexInstance :: "Instance \<Rightarrow> instances \<Rightarrow> (go_error, instances) outcome" where
  "indexInstance inst insts =
     (if map_of insts (ikey inst) \<noteq> None
      then Err (meErr inst ''duplicate managed entity %d/%#x'' [])
      else Ok (AList.update (ikey inst) inst insts))"

text \<open>The traffic management option and the administrative state of ONU-G.\<close>

definition onuStates :: "instances \<Rightarrow> (go_error, u8 \<times> u8) outcome" where
  "onuStates insts =
     (case map_of insts (Key OnuGClassID 0) of
        None \<Rightarrow> Ok (0, 0)
      | Some onu \<Rightarrow>
          bindR (uint8AttributeDefault onu ''TrafficManagementOption'' 0) (\<lambda>option.
          if option > 2 then Err (Errorf ''ONU-G has invalid traffic management option %d'' [AU option])
          else bindR (administrativeState onu ''AdministrativeState'') (\<lambda>state. Ok (option, state))))"

definition allocIDLimit :: "string \<Rightarrow> u16" where
  "allocIDLimit mode = (if mode = XGSPON then 0x3fff else 0x0fff)"

definition gemPortLimit :: "string \<Rightarrow> u16" where
  "gemPortLimit mode = (if mode = XGSPON then 0xfffe else 0x0fff)"

section \<open>UNIs, T-CONTs, bridges, mappers and profiles\<close>

record collected =
  foundUNIs :: "EthernetUNI list"
  tconts :: "(u16, TCONT) gomap"
  activeAllocIDs :: "(u16, u16) gomap"
  tcontIndexes :: "(u16, nat) gomap"
  foundTCONTs :: "TCONT list"
  bridges :: "(u16, MACBridge) gomap"
  mappers :: "(u16, PBitMapper) gomap"
  foundMappers :: "PBitMapper list"
  multicastProfiles :: "(u16, MulticastOperationsProfile) gomap"
  foundProfiles :: "MulticastOperationsProfile list"

definition nothingCollected :: collected where
  "nothingCollected = \<lparr> foundUNIs = [], tconts = [], activeAllocIDs = [], tcontIndexes = [], foundTCONTs = [],
     bridges = [], mappers = [], foundMappers = [], multicastProfiles = [], foundProfiles = [] \<rparr>"

text \<open>The administrative state of a UNI is locked by its UNI-G, its circuit pack and the ONU.\<close>

definition uniAdministrativeState :: "instances \<Rightarrow> (u8, u8) gomap \<Rightarrow> u8 \<Rightarrow> Instance \<Rightarrow> (go_error, u8) outcome" where
  "uniAdministrativeState insts packs onuState inst =
     bindR (uint8AttributeDefault inst ''AdministrativeState'' 0) (\<lambda>administrative.
     if administrative > 1
     then Err (elementErr ''Ethernet UNI'' inst ''has invalid administrative state %d'' [AU administrative]) else
     bindR (case map_of insts (Key UniGClassID (EntityID (ikey inst))) of
              Some uniG \<Rightarrow> bindR (administrativeState uniG ''AdministrativeState'') (\<lambda>locked.
                Ok (if locked = 1 then 1 else administrative))
            | None \<Rightarrow> Ok administrative) (\<lambda>state.
     Ok (if orZero 0 (map_of packs (ucast (drop_bit 8 (EntityID (ikey inst))))) = 1 \<or> onuState = 1 then 1 else state)))"

definition collectUNI :: "instances \<Rightarrow> (u8, u8) gomap \<Rightarrow> u8 \<Rightarrow> Instance \<Rightarrow> collected \<Rightarrow> (go_error, collected) outcome" where
  "collectUNI insts packs onuState inst c =
     bindR (ethernetUNIInterface (EntityID (ikey inst))) (\<lambda>interfaceName.
     bindR (uniAdministrativeState insts packs onuState inst) (\<lambda>administrative.
     bindR (uint8AttributeDefault inst ''OperationalState'' 1) (\<lambda>operational.
     bindR (uint8AttributeDefault inst ''ConfigurationInd'' 0) (\<lambda>configuration.
     Ok (c\<lparr>foundUNIs := foundUNIs c @ [\<lparr> uniEntity = EntityID (ikey inst), uniInterface = interfaceName,
       uniAdministrative = administrative, uniOperational = operational, uniConfiguration = configuration \<rparr>]\<rparr>)))))"

definition newTCONT :: "u16 \<Rightarrow> u16 \<Rightarrow> u8 \<Rightarrow> TCONT" where
  "newTCONT entityID allocID policy = \<lparr> tcontEntity = entityID, tcontAllocID = allocID, SchedulerPolicy = policy,
     SchedulerWeight = 0, QueueEntities = replicate 8 0, QueueWeights = replicate 8 0 \<rparr>"

text \<open>An Alloc-ID that is not null is in range and belongs to one T-CONT.\<close>

definition claimAllocID :: "string \<Rightarrow> Instance \<Rightarrow> u16 \<Rightarrow> (u16, u16) gomap \<Rightarrow> (go_error, (u16, u16) gomap) outcome" where
  "claimAllocID mode inst allocID active =
     (if allocID = nullPointer then Ok active
      else if allocID > allocIDLimit mode
      then Err (elementErr ''T-CONT'' inst ''has out-of-range Alloc-ID %d'' [AU allocID])
      else case map_of active allocID of
        Some previous \<Rightarrow> Err (Errorf ''Alloc-ID %d is shared by T-CONT %#x and %#x''
            [AU allocID, AU previous, AU (EntityID (ikey inst))])
      | None \<Rightarrow> Ok (AList.update allocID (EntityID (ikey inst)) active))"

definition collectTCONT :: "string \<Rightarrow> Instance \<Rightarrow> collected \<Rightarrow> (go_error, collected) outcome" where
  "collectTCONT mode inst c =
     bindR (uint16Attribute inst ''AllocId'') (\<lambda>allocID.
     bindR (claimAllocID mode inst allocID (activeAllocIDs c)) (\<lambda>active.
     bindR (uint8AttributeDefault inst ''Policy'' 0) (\<lambda>policy.
     if policy > 2
     then Err (elementErr ''T-CONT'' inst ''uses unsupported scheduler policy %d'' [AU policy])
     else
       let tcont = newTCONT (EntityID (ikey inst)) allocID policy in
       Ok (c\<lparr>activeAllocIDs := active,
             tconts := AList.update (EntityID (ikey inst)) tcont (tconts c),
             tcontIndexes := AList.update (EntityID (ikey inst)) (length (foundTCONTs c)) (tcontIndexes c),
             foundTCONTs := foundTCONTs c @ [tcont]\<rparr>))))"

definition collectInstance :: "instances \<Rightarrow> (u8, u8) gomap \<Rightarrow> u8 \<Rightarrow> string \<Rightarrow> Instance \<Rightarrow> collected
    \<Rightarrow> (go_error, collected) outcome" where
  "collectInstance insts packs onuState mode inst c =
     (let classID = ClassID (ikey inst); entityID = EntityID (ikey inst) in
      if classID = PptpEthernetUniClassID then collectUNI insts packs onuState inst c
      else if classID = TContClassID then collectTCONT mode inst c
      else if classID = MacBridgeServiceProfileClassID then
        bindR (buildMACBridge inst) (\<lambda>bridge. Ok (c\<lparr>bridges := AList.update entityID bridge (bridges c)\<rparr>))
      else if classID = MapperClassID then
        bindR (buildMapper inst) (\<lambda>mapper.
        Ok (c\<lparr>mappers := AList.update entityID mapper (mappers c), foundMappers := foundMappers c @ [mapper]\<rparr>))
      else if classID = MulticastOperationsProfileClassID then
        bindR (buildMulticastOperationsProfile inst mode) (\<lambda>profile.
        Ok (c\<lparr>multicastProfiles := AList.update entityID profile (multicastProfiles c),
              foundProfiles := foundProfiles c @ [profile]\<rparr>))
      else Ok c)"

section \<open>Schedulers and queues of a T-CONT\<close>

definition resolveScheduler :: "u16 \<Rightarrow> Instance \<Rightarrow> TCONT \<times> u16 option \<Rightarrow> (go_error, TCONT \<times> u16 option) outcome" where
  "resolveScheduler tcontID inst = (\<lambda>(tcont, scheduler).
     if ClassID (ikey inst) \<noteq> TrafficSchedulerClassID then Ok (tcont, scheduler) else
     bindR (uint16AttributeDefault inst ''TContPointer'' nullPointer) (\<lambda>pointer.
     if pointer \<noteq> tcontID then Ok (tcont, scheduler) else
     case scheduler of
       Some schedulerID \<Rightarrow> Err (Errorf ''T-CONT %#x is served by traffic schedulers %#x and %#x''
           [AU tcontID, AU schedulerID, AU (EntityID (ikey inst))])
     | None \<Rightarrow>
         bindR (uint8AttributeDefault inst ''Policy'' (SchedulerPolicy tcont)) (\<lambda>policy.
         bindR (uint8AttributeDefault inst ''PriorityWeight'' 0) (\<lambda>weight.
         if policy > 2
         then Err (Errorf ''T-CONT %#x uses unsupported scheduler policy %d'' [AU tcontID, AU policy])
         else Ok (tcont\<lparr>SchedulerPolicy := policy, SchedulerWeight := weight\<rparr>, Some (EntityID (ikey inst)))))))"

text \<open>A queue that names a scheduler must name one that serves the same T-CONT.\<close>

definition queueSchedulerCheck :: "instances \<Rightarrow> u16 \<Rightarrow> Instance \<Rightarrow> (go_error, unit) outcome" where
  "queueSchedulerCheck insts tcontID inst =
     bindR (uint16AttributeDefault inst ''TrafficSchedulerPointer'' 0) (\<lambda>queueScheduler.
     if queueScheduler = 0 then Ok () else
     case map_of insts (Key TrafficSchedulerClassID queueScheduler) of
       None \<Rightarrow> Err (elementErr ''priority queue'' inst ''references missing traffic scheduler %#x'' [AU queueScheduler])
     | Some scheduler \<Rightarrow>
         bindR (uint16AttributeDefault scheduler ''TContPointer'' nullPointer) (\<lambda>schedulerTCONT.
         if schedulerTCONT \<noteq> tcontID
         then Err (elementErr ''priority queue'' inst ''scheduler %#x serves T-CONT %#x, not %#x''
                [AU queueScheduler, AU schedulerTCONT, AU tcontID])
         else Ok ()))"

definition resolveQueue :: "instances \<Rightarrow> u16 \<Rightarrow> Instance \<Rightarrow> TCONT \<times> bool list \<Rightarrow> (go_error, TCONT \<times> bool list) outcome" where
  "resolveQueue insts tcontID inst = (\<lambda>(tcont, queueSlots).
     if ClassID (ikey inst) \<noteq> PriorityQueueClassID then Ok (tcont, queueSlots) else
     bindR (uint32AttributeDefault inst ''RelatedPort'' 0xffffffff) (\<lambda>related.
     if (ucast (drop_bit 16 related) :: u16) \<noteq> tcontID then Ok (tcont, queueSlots) else
     let priority = (ucast (related AND 0xff) :: u8) in
     if priority \<ge> 8
     then Err (Errorf ''T-CONT %#x priority queue %#x has invalid priority %d''
            [AU tcontID, AU (EntityID (ikey inst)), AU priority])
     else if queueSlots ! unat priority
     then Err (Errorf ''T-CONT %#x has more than one priority queue at priority %d'' [AU tcontID, AU priority])
     else
       bindR (queueSchedulerCheck insts tcontID inst) (\<lambda>_.
       bindR (uint8AttributeDefault inst ''Weight'' 1) (\<lambda>queueWeight.
       Ok (tcont\<lparr>QueueEntities := (QueueEntities tcont)[unat priority := EntityID (ikey inst)],
                 QueueWeights := (QueueWeights tcont)[unat priority := queueWeight]\<rparr>,
           queueSlots[unat priority := True])))))"

definition resolveTCONT :: "Instance list \<Rightarrow> instances \<Rightarrow> (u16, nat) gomap \<Rightarrow> u16 \<times> TCONT \<Rightarrow> TCONT list
    \<Rightarrow> (go_error, TCONT list) outcome" where
  "resolveTCONT snapshot insts indexes = (\<lambda>(tcontID, tcont0) found.
     bindR (foldR (resolveScheduler tcontID) snapshot (tcont0, None)) (\<lambda>(tcont1, scheduler).
     bindR (foldR (resolveQueue insts tcontID) snapshot (tcont1, replicate 8 False)) (\<lambda>(tcont, queueSlots).
     if SchedulerPolicy tcont = 2 \<and> \<not> list_ex (\<lambda>weight. weight \<noteq> 0) (QueueWeights tcont)
     then Err (Errorf ''T-CONT %#x WRR scheduler has no non-zero queue weight'' [AU tcontID])
     else Ok (case map_of indexes tcontID of Some index \<Rightarrow> found[index := tcont] | None \<Rightarrow> found))))"

section \<open>Traffic descriptors, rate limiters and GEM ports\<close>

definition addTrafficDescriptor :: "Instance \<Rightarrow> TrafficDescriptor list \<Rightarrow> (go_error, TrafficDescriptor list) outcome" where
  "addTrafficDescriptor inst found =
     (if ClassID (ikey inst) \<noteq> TrafficDescriptorClassID then Ok found
      else bindR (buildTrafficDescriptor inst) (\<lambda>descriptor. Ok (found @ [descriptor])))"

definition addRateLimiter :: "instances \<Rightarrow> Instance \<Rightarrow> (Key, u16) gomap \<times> Dot1RateLimiter list
    \<Rightarrow> (go_error, (Key, u16) gomap \<times> Dot1RateLimiter list) outcome" where
  "addRateLimiter insts inst = (\<lambda>(parents, found).
     if ClassID (ikey inst) \<noteq> Dot1RateLimiterClassID then Ok (parents, found) else
     bindR (buildDot1RateLimiter inst insts) (\<lambda>(limiter, parent).
     case map_of parents parent of
       Some previous \<Rightarrow> Err (Errorf ''dot1 rate limiters %#x and %#x share parent %d/%#x''
           [AU previous, AU (EntityID (ikey inst)), AU (ClassID parent), AU (EntityID parent)])
     | None \<Rightarrow> Ok (AList.update parent (EntityID (ikey inst)) parents, found @ [limiter])))"

definition buildGEMPort :: "instances \<Rightarrow> (u16, TCONT) gomap \<Rightarrow> u8 \<Rightarrow> Instance \<Rightarrow> u16 \<Rightarrow> (go_error, GEMPort) outcome" where
  "buildGEMPort insts tcontMap option inst portID =
     bindR (uint16Attribute inst ''TContPointer'') (\<lambda>tcontID.
     case map_of tcontMap tcontID of
       None \<Rightarrow> Err (elementErr ''GEM CTP'' inst ''references missing T-CONT %#x'' [AU tcontID])
     | Some tcont \<Rightarrow>
     bindR (uint8Attribute inst ''Direction'') (\<lambda>direction.
     if direction < 1 \<or> direction > 3
     then Err (elementErr ''GEM CTP'' inst ''has invalid direction %d'' [AU direction]) else
     bindR (uint16Attribute inst ''TrafficManagementPointerForUpstream'') (\<lambda>upstreamQueue.
     bindR (validateUpstreamTrafficPointer insts (EntityID (ikey inst)) tcontID upstreamQueue option) (\<lambda>_.
     bindR (uint16Attribute inst ''PriorityQueuePointerForDownStream'') (\<lambda>downstreamQueue.
     if downstreamQueue \<noteq> nullPointer \<and> \<not> hasInstance insts PriorityQueueClassID downstreamQueue
     then Err (elementErr ''GEM CTP'' inst ''references missing downstream priority queue %#x'' [AU downstreamQueue]) else
     bindR (uint16AttributeDefault inst ''TrafficDescriptorProfilePointerForUpstream'' nullPointer) (\<lambda>upstreamTD.
     bindR (uint16AttributeDefault inst ''TrafficDescriptorProfilePointerForDownstream'' nullPointer) (\<lambda>downstreamTD.
     failIf (validateTrafficDescriptorPointer insts (EntityID (ikey inst)) ''upstream'' upstreamTD) (
     failIf (validateTrafficDescriptorPointer insts (EntityID (ikey inst)) ''downstream'' downstreamTD) (
     bindR (uint8AttributeDefault inst ''EncryptionKeyRing'' 0) (\<lambda>keyRing.
     if keyRing > 3
     then Err (elementErr ''GEM CTP'' inst ''has invalid encryption key ring %d'' [AU keyRing])
     else Ok \<lparr> gemEntity = EntityID (ikey inst), gemPortID = portID, gemTCONT = tcontID,
            gemAllocID = tcontAllocID tcont, gemDirection = direction, UpstreamQueue = upstreamQueue,
            DownstreamQueue = downstreamQueue, UpstreamTD = upstreamTD, DownstreamTD = downstreamTD,
            EncryptionKeyRing = keyRing \<rparr>))))))))))"

definition addGEMPort :: "instances \<Rightarrow> (u16, TCONT) gomap \<Rightarrow> u8 \<Rightarrow> string \<Rightarrow> Instance
    \<Rightarrow> (u16, u16) gomap \<times> (u16, GEMPort) gomap \<times> GEMPort list
    \<Rightarrow> (go_error, (u16, u16) gomap \<times> (u16, GEMPort) gomap \<times> GEMPort list) outcome" where
  "addGEMPort insts tcontMap option mode inst = (\<lambda>(portIDs, gems, found).
     if ClassID (ikey inst) \<noteq> GemCtpClassID then Ok (portIDs, gems, found) else
     bindR (uint16Attribute inst ''PortId'') (\<lambda>portID.
     if portID > gemPortLimit mode
     then Err (elementErr ''GEM CTP'' inst ''has out-of-range port ID %d'' [AU portID]) else
     case map_of portIDs portID of
       Some previous \<Rightarrow> Err (Errorf ''GEM port ID %d cannot be mapped by XG2010G CTPs %#x and %#x''
           [AU portID, AU previous, AU (EntityID (ikey inst))])
     | None \<Rightarrow>
         bindR (buildGEMPort insts tcontMap option inst portID) (\<lambda>gem.
         Ok (AList.update portID (EntityID (ikey inst)) portIDs,
             AList.update (EntityID (ikey inst)) gem gems, found @ [gem]))))"

section \<open>Interworking\<close>

definition addInterworking :: "instances \<Rightarrow> (u16, GEMPort) gomap \<Rightarrow> collected \<Rightarrow> Instance
    \<Rightarrow> (u16, GEMInterworking) gomap \<times> GEMInterworking list
    \<Rightarrow> (go_error, (u16, GEMInterworking) gomap \<times> GEMInterworking list) outcome" where
  "addInterworking insts gems c inst = (\<lambda>(interworking, found).
     if ClassID (ikey inst) \<noteq> GemIwTpClassID then Ok (interworking, found) else
     bindR (buildGEMInterworking inst insts gems (bridges c) (mappers c)) (\<lambda>iw.
     Ok (AList.update (EntityID (ikey inst)) iw interworking, found @ [iw])))"

definition addMulticastInterworking :: "instances \<Rightarrow> (u16, GEMPort) gomap \<Rightarrow> collected \<Rightarrow> string \<Rightarrow> Instance
    \<Rightarrow> (u16, MulticastGEMInterworking) gomap \<times> MulticastGEMInterworking list
    \<Rightarrow> (go_error, (u16, MulticastGEMInterworking) gomap \<times> MulticastGEMInterworking list) outcome" where
  "addMulticastInterworking insts gems c mode inst = (\<lambda>(interworking, found).
     if ClassID (ikey inst) \<noteq> MulticastGemIwTpClassID then Ok (interworking, found) else
     bindR (buildMulticastGEMInterworking inst insts gems (bridges c) (mappers c) mode) (\<lambda>iw.
     Ok (AList.update (EntityID (ikey inst)) iw interworking, found @ [iw])))"

section \<open>Bridge ports\<close>

type_synonym portState = "(u16, MACBridge) gomap \<times> (u16, (u8, u16) gomap) gomap \<times> (u16, MACBridgePort) gomap"

definition addBridgePort :: "instances \<Rightarrow> (u16, GEMInterworking) gomap \<Rightarrow> (u16, MulticastGEMInterworking) gomap
    \<Rightarrow> Instance \<Rightarrow> portState \<Rightarrow> (go_error, portState) outcome" where
  "addBridgePort insts interworking multicast inst = (\<lambda>(bridgeMap, numbers, bridgePorts).
     if ClassID (ikey inst) \<noteq> MacBridgePortConfigurationDataClassID then Ok (bridgeMap, numbers, bridgePorts) else
     bindR (uint16Attribute inst ''BridgeIdPointer'') (\<lambda>bridgeID.
     case map_of bridgeMap bridgeID of
       None \<Rightarrow> Err (elementErr ''MAC bridge port'' inst ''references missing bridge profile %#x'' [AU bridgeID])
     | Some bridge \<Rightarrow>
     bindR (uint8Attribute inst ''PortNum'') (\<lambda>number.
     let taken = orZero [] (map_of numbers bridgeID) in
     case map_of taken number of
       Some previous \<Rightarrow> Err (Errorf ''bridge %#x port number %d is shared by MEs %#x and %#x''
           [AU bridgeID, AU number, AU previous, AU (EntityID (ikey inst))])
     | None \<Rightarrow>
     bindR (uint8Attribute inst ''TpType'') (\<lambda>tpType.
     bindR (uint16Attribute inst ''TpPointer'') (\<lambda>tp.
     bindR (validateBridgePortTP (EntityID (ikey inst)) bridgeID tpType tp insts interworking multicast) (\<lambda>_.
     bindR (buildMACBridgePort inst number tpType tp) (\<lambda>port.
     failIf (validateBridgePortTrafficDescriptorPointer insts (EntityID (ikey inst)) ''outbound'' (OutboundTD port)) (
     failIf (validateBridgePortTrafficDescriptorPointer insts (EntityID (ikey inst)) ''inbound'' (InboundTD port)) (
     Ok (AList.update bridgeID (bridge\<lparr>Ports := Ports bridge @ [port]\<rparr>) bridgeMap,
         AList.update bridgeID (AList.update number (EntityID (ikey inst)) taken) numbers,
         AList.update (EntityID (ikey inst)) port bridgePorts))))))))))"

definition addSubscriber :: "(u16, MACBridgePort) gomap \<Rightarrow> collected \<Rightarrow> Instance
    \<Rightarrow> MulticastSubscriberConfigInfo list \<Rightarrow> (go_error, MulticastSubscriberConfigInfo list) outcome" where
  "addSubscriber bridgePorts c inst found =
     (if ClassID (ikey inst) \<noteq> MulticastSubscriberConfigInfoClassID then Ok found
      else bindR (buildMulticastSubscriber inst bridgePorts (mappers c) (multicastProfiles c)) (\<lambda>subscriber.
           Ok (found @ [subscriber])))"

section \<open>VLAN filters and operations\<close>

record vlanState =
  associations :: "(Key, u16) gomap"
  foundFilters :: "VLANFilter list"
  foundOperations :: "VLANOperation list"
  foundExtended :: "ExtendedVLAN list"

text \<open>Two VLAN operations must not share a target.\<close>

definition claimTarget :: "Key \<Rightarrow> u16 \<Rightarrow> (Key, u16) gomap \<Rightarrow> (go_error, (Key, u16) gomap) outcome" where
  "claimTarget association entityID taken =
     (case map_of taken association of
        Some previous \<Rightarrow> Err (Errorf ''VLAN operation MEs %#x and %#x share target %d/%#x''
            [AU previous, AU entityID, AU (ClassID association), AU (EntityID association)])
      | None \<Rightarrow> Ok (AList.update association entityID taken))"

definition addVLAN :: "instances \<Rightarrow> (u16, MACBridgePort) gomap \<Rightarrow> Instance \<Rightarrow> vlanState \<Rightarrow> (go_error, vlanState) outcome" where
  "addVLAN insts bridgePorts inst v =
     (if ClassID (ikey inst) = VlanTaggingFilterDataClassID then
        bindR (buildVLANFilter inst bridgePorts) (\<lambda>filter. Ok (v\<lparr>foundFilters := foundFilters v @ [filter]\<rparr>))
      else if ClassID (ikey inst) = VlanTaggingOperationClassID then
        bindR (buildVLANOperation inst insts) (\<lambda>operation.
        bindR (claimTarget (Key (vopAssociatedClass operation) (vopAssociatedME operation)) (vopEntity operation) (associations v)) (\<lambda>taken.
        Ok (v\<lparr>associations := taken, foundOperations := foundOperations v @ [operation]\<rparr>)))
      else if ClassID (ikey inst) = ExtendedVlanClassID then
        bindR (buildExtendedVLAN inst insts) (\<lambda>extended.
        bindR (claimTarget (Key (extAssociatedClass extended) (extAssociatedME extended)) (extEntity extended) (associations v)) (\<lambda>taken.
        Ok (v\<lparr>associations := taken, foundExtended := foundExtended v @ [extended]\<rparr>)))
      else Ok v)"

section \<open>The whole graph\<close>

definition sortServiceGraph :: "ServiceGraph \<Rightarrow> ServiceGraph" where
  "sortServiceGraph g = g\<lparr>
     UNIs := sort_key uniEntity (UNIs g), TCONTs := sort_key tcontEntity (TCONTs g),
     TrafficDescs := sort_key tdEntity (TrafficDescs g), Dot1RateLimiters := sort_key limiterEntity (Dot1RateLimiters g),
     GEMPorts := sort_key gemEntity (GEMPorts g), Interworking := sort_key iwEntity (Interworking g),
     MulticastInterworking := sort_key mcEntity (MulticastInterworking g),
     MulticastProfiles := sort_key opEntity (MulticastProfiles g),
     MulticastSubscribers := sort_key subEntity (MulticastSubscribers g),
     Mappers := sort_key mapperEntity (Mappers g), Bridges := sort_key bridgeEntity (Bridges g),
     VLANFilters := sort_key filterEntity (VLANFilters g), VLANOperations := sort_key vopEntity (VLANOperations g),
     ExtendedVLANs := sort_key extEntity (ExtendedVLANs g)\<rparr>"

definition buildServiceGraph :: "Instance list \<Rightarrow> string \<Rightarrow> bool \<Rightarrow> (go_error, ServiceGraph) outcome" where
  "buildServiceGraph snapshot mode explicitMode =
     bindR (foldR indexInstance snapshot []) (\<lambda>insts.
     bindR (onuStates insts) (\<lambda>(trafficManagementOption, onuState).
     bindR (circuitPackAdministrativeStates insts) (\<lambda>packs.
     bindR (foldR (collectInstance insts packs onuState mode) snapshot nothingCollected) (\<lambda>c.
     bindR (foldR (resolveTCONT snapshot insts (tcontIndexes c)) (tconts c) (foundTCONTs c)) (\<lambda>foundTconts.
     bindR (foldR addTrafficDescriptor snapshot []) (\<lambda>descriptors.
     bindR (foldR (addRateLimiter insts) snapshot ([], [])) (\<lambda>(parents, limiters).
     bindR (foldR (addGEMPort insts (tconts c) trafficManagementOption mode) snapshot ([], [], [])) (\<lambda>(portIDs, gems, foundGems).
     bindR (foldR (addInterworking insts gems c) snapshot ([], [])) (\<lambda>(interworking, foundInterworking).
     bindR (foldR (addMulticastInterworking insts gems c mode) snapshot ([], [])) (\<lambda>(multicast, foundMulticast).
     bindR (foldR (\<lambda>mapper _. validateMapper mapper insts interworking) (foundMappers c) ()) (\<lambda>_.
     bindR (foldR (addBridgePort insts interworking multicast) snapshot (bridges c, [], [])) (\<lambda>(bridgeMap, numbers, bridgePorts).
     bindR (foldR (addSubscriber bridgePorts c) snapshot []) (\<lambda>foundSubscribers.
     bindR (foldR (addVLAN insts bridgePorts) snapshot
              \<lparr> associations = [], foundFilters = [], foundOperations = [], foundExtended = [] \<rparr>) (\<lambda>v.
     Ok (sortServiceGraph
       \<lparr> graphMode = (if explicitMode then mode else []), UNIs = foundUNIs c, TCONTs = foundTconts,
         TrafficDescs = descriptors, Dot1RateLimiters = limiters, GEMPorts = foundGems,
         Interworking = foundInterworking, MulticastInterworking = foundMulticast,
         MulticastProfiles = foundProfiles c, MulticastSubscribers = foundSubscribers,
         Mappers = foundMappers c,
         Bridges = map (\<lambda>(bridgeID, bridge). bridge\<lparr>Ports := sort_key portNumber (Ports bridge)\<rparr>) bridgeMap,
         VLANFilters = foundFilters v, VLANOperations = foundOperations v,
         ExtendedVLANs = foundExtended v \<rparr>)))))))))))))))"

definition BuildServiceGraph :: "Instance list \<Rightarrow> (go_error, ServiceGraph) outcome" where
  "BuildServiceGraph snapshot = buildServiceGraph snapshot GPON False"

definition ValidateServiceGraph :: "Instance list \<Rightarrow> (go_error, unit) outcome" where
  "ValidateServiceGraph snapshot = bindR (BuildServiceGraph snapshot) (\<lambda>_. Ok ())"

definition BuildServiceGraphForMode :: "Instance list \<Rightarrow> string \<Rightarrow> (go_error, ServiceGraph) outcome" where
  "BuildServiceGraphForMode snapshot mode =
     failIf (validateMode mode) (buildServiceGraph snapshot mode True)"

end
