(* ===== verification/GraphSafe.thy ===== *)
theory GraphSafe
  imports GraphService
begin

text \<open>
  The builder of the service graph never panics: whatever the snapshot, \<open>buildServiceGraph\<close> returns a
  graph or an error. The lemmas follow the call tree, collected in \<open>graph_safe\<close>; the places that
  could leave a slice or read an address that is not there are the rows of the tables, the parts of
  an access control list entry and the addresses compared for overlap.
\<close>

lemma bindR_safe: "m \<noteq> Panic \<Longrightarrow> (\<And>x. m = Ok x \<Longrightarrow> f x \<noteq> Panic) \<Longrightarrow> bindR m f \<noteq> Panic"
  by (cases m) auto

lemma failIf_safe: "(err = None \<Longrightarrow> k \<noteq> Panic) \<Longrightarrow> failIf err k \<noteq> Panic"
  by (cases err) auto

lemma mapErr_safe: "m \<noteq> Panic \<Longrightarrow> mapErr g m \<noteq> Panic"
  by simp

lemma if_safe: "(c \<Longrightarrow> a \<noteq> Panic) \<Longrightarrow> (\<not> c \<Longrightarrow> b \<noteq> Panic) \<Longrightarrow> (if c then a else b) \<noteq> Panic"
  by simp

lemma option_safe:
  "(m = None \<Longrightarrow> a \<noteq> Panic) \<Longrightarrow> (\<And>x. m = Some x \<Longrightarrow> f x \<noteq> Panic) \<Longrightarrow> (case m of None \<Rightarrow> a | Some x \<Rightarrow> f x) \<noteq> Panic"
  by (cases m) auto

lemmas safe_rules = bindR_safe failIf_safe mapErr_safe if_safe option_safe

lemma foldR_safe: "(\<And>x s. x \<in> set xs \<Longrightarrow> f x s \<noteq> Panic) \<Longrightarrow> foldR f xs s \<noteq> Panic"
  by (rule foldR_no_panic [where P = "\<lambda>_. True"]) auto

lemma table_mod:
  assumes "tableAttributeDefault inst name n = Ok t"
  shows "length (Rows t) mod n = 0"
proof -
  have "int (length (Rows t)) = NumRows t * int n" using tableAttributeDefault_rows [OF assms] by simp
  then have "int n dvd int (length (Rows t))" by simp
  then show ?thesis by (simp add: mod_eq_0_iff_dvd)
qed

lemma foldRows_table:
  "tableAttributeDefault inst name n = Ok t \<Longrightarrow> 0 < n \<Longrightarrow> foldRows n f (Rows t) s = foldR f (chunks n (Rows t)) s"
  by (rule foldRows_chunks) (auto dest: table_mod)

lemma foldRows_safe:
  "tableAttributeDefault inst name n = Ok t \<Longrightarrow> 0 < n \<Longrightarrow> (\<And>row s. f row s \<noteq> Panic) \<Longrightarrow> foldRows n f (Rows t) s \<noteq> Panic"
  by (simp add: foldRows_table foldR_safe)

section \<open>Multicast tables\<close>

lemma multicastIPv4Ranges_safe [simp]: "multicastIPv4Ranges inst mode \<noteq> Panic"
  unfolding multicastIPv4Ranges_def
  by (intro bindR_safe tableAttributeDefault_safe foldRows_safe)
    (auto simp: ipv4RangeRow_def Let_def split: prod.splits)

lemma multicastIPv6Ranges_safe [simp]: "multicastIPv6Ranges inst mode \<noteq> Panic"
  unfolding multicastIPv6Ranges_def
  by (intro bindR_safe tableAttributeDefault_safe foldRows_safe)
    (auto simp: ipv6RangeRow_def Let_def split: prod.splits)

lemma collectPart_safe: "collectPart n invalid repeated row logical \<noteq> Panic"
  by (auto simp: collectPart_def Let_def)

text \<open>The addresses of an entry are never the zero address.\<close>

definition textValid :: "addrText \<Rightarrow> bool" where
  "textValid t = (case t of AddrString a \<Rightarrow> IsValid a)"

definition entryValid :: "MulticastACLEntry \<Rightarrow> bool" where
  "entryValid e = (textValid (aclSource e) \<and> textValid (aclStart e) \<and> textValid (aclStop e))"

lemma IsValid_From [simp]: "IsValid (AddrFrom4 b)" "IsValid (AddrFrom16 c)"
  by (simp_all add: IsValid_def AddrFrom4_def AddrFrom16_def)

lemma multicastACLAddress_valid [simp]: "IsValid (fst (multicastACLAddress part low))"
  by (auto simp: multicastACLAddress_def split: option.splits)

lemma aclPreview_ok:
  "aclPreview inst name key part e = Ok e' \<Longrightarrow> aclSource e' = aclSource e \<and> aclStart e' = aclStart e
     \<and> aclStop e' = aclStop e \<and> aclRowKey e' = aclRowKey e \<and> aclIPVersion e' = aclIPVersion e
     \<and> aclGEMPortID e' = aclGEMPortID e \<and> aclVLANID e' = aclVLANID e"
  by (auto simp: aclPreview_def split: option.splits if_splits)

lemma resolve_valid: "resolveMulticastACLEntry inst name key parts mode = Ok e \<Longrightarrow> entryValid e"
  by (auto simp: resolveMulticastACLEntry_def Let_def bindR_eq_Ok entryValid_def textValid_def
      dest!: aclPreview_ok split: option.splits if_splits)

lemma resolve_safe: "parts ! 0 \<noteq> None \<Longrightarrow> resolveMulticastACLEntry inst name key parts mode \<noteq> Panic"
  by (auto simp: resolveMulticastACLEntry_def Let_def bindR_eq_Panic aclPreview_def split: option.splits)

lemma MustParseAddr_valid: "textValid t \<Longrightarrow> MustParseAddr t = Ok (case t of AddrString a \<Rightarrow> a)"
  by (cases t) (simp add: textValid_def)

lemma aclOverlap_safe: "entryValid p \<Longrightarrow> entryValid r \<Longrightarrow> aclOverlap inst name key r p u \<noteq> Panic"
  by (auto simp: aclOverlap_def entryValid_def MustParseAddr_valid)

lemma aclEntry_valid:
  "aclEntry inst name mode logical key result = Ok result' \<Longrightarrow> list_all entryValid result \<Longrightarrow> list_all entryValid result'"
  by (auto simp: aclEntry_def Let_def bindR_eq_Ok dest: resolve_valid split: if_splits)

lemma aclEntry_safe:
  assumes "list_all entryValid result"
  shows "aclEntry inst name mode logical key result \<noteq> Panic"
proof (cases "the (map_of logical key) ! 0 = None")
  case False
  have "foldR (aclOverlap inst name key r) result () \<noteq> Panic"
    if "resolveMulticastACLEntry inst name key (the (map_of logical key)) mode = Ok r" for r
    using assms resolve_valid [OF that] by (intro foldR_safe aclOverlap_safe) (auto simp: list_all_iff)
  then have "bindR (resolveMulticastACLEntry inst name key (the (map_of logical key)) mode) (\<lambda>resolved.
      bindR (foldR (aclOverlap inst name key resolved) result ()) (\<lambda>_. Ok (result @ [resolved]))) \<noteq> Panic"
    using False by (intro bindR_safe resolve_safe) auto
  then show ?thesis by (simp only: aclEntry_def Let_def False if_False not_False_eq_True)
qed (simp add: aclEntry_def)

lemma multicastACL_safe [simp]: "multicastACL inst name mode \<noteq> Panic"
proof -
  have "foldR (aclEntry inst name mode logical) (sort (gkeys logical)) [] \<noteq> Panic" for logical
    by (rule foldR_no_panic [where P = "list_all entryValid"]) (simp, erule aclEntry_safe, erule (1) aclEntry_valid)
  then show ?thesis unfolding multicastACL_def
    by (intro bindR_safe tableAttributeDefault_safe foldRows_safe) (auto simp: collectPart_safe)
qed

lemma buildMulticastOperationsProfile_safe [simp]: "buildMulticastOperationsProfile inst mode \<noteq> Panic"
  unfolding buildMulticastOperationsProfile_def
  by (intro safe_rules) (simp_all add: bytesAttributeDefault_length)

lemma multicastServicePackages_safe [simp]: "multicastServicePackages inst mcProfiles \<noteq> Panic"
  unfolding multicastServicePackages_def
  by (intro bindR_safe tableAttributeDefault_safe foldRows_safe)
    (auto simp: servicePackageRow_def Let_def split: prod.splits)

lemma allowedPreviewGroups_safe [simp]: "allowedPreviewGroups inst \<noteq> Panic"
  unfolding allowedPreviewGroups_def
  by (intro bindR_safe tableAttributeDefault_safe foldRows_safe foldR_safe)
    (auto simp: collectPart_safe previewGroup_def Let_def split: option.splits)

lemma buildMulticastSubscriber_safe [simp]: "buildMulticastSubscriber inst bp ms ps \<noteq> Panic"
  unfolding buildMulticastSubscriber_def by (intro safe_rules; simp)+

section \<open>The other builders\<close>

lemma traffic_safe [simp]: "buildTrafficDescriptor inst \<noteq> Panic"
  unfolding buildTrafficDescriptor_def by (intro safe_rules; simp)+

lemma limiter_safe [simp]: "limiterPointer inst insts name field \<noteq> Panic" "buildDot1RateLimiter inst insts \<noteq> Panic"
  unfolding limiterPointer_def buildDot1RateLimiter_def
  unfolding Let_def by (intro safe_rules; simp)+

lemma bridge_safe [simp]: "buildMACBridge inst \<noteq> Panic" "buildMACBridgePort inst number tpType tp \<noteq> Panic"
  unfolding buildMACBridge_def buildMACBridgePort_def by (intro safe_rules; simp)+

lemma portTP_safe [simp]: "validateBridgePortTP e b t p insts iws mcs \<noteq> Panic"
  unfolding validateBridgePortTP_def by (auto simp: bindR_eq_Panic Let_def split: if_splits option.splits)

lemma DecodeDSCPMapping_safe [simp]: "DecodeDSCPMapping b \<noteq> Panic"
  by (simp add: DecodeDSCPMapping_def)

lemma mapper_safe [simp]: "buildMapper inst \<noteq> Panic"
  unfolding buildMapper_def
  by (intro safe_rules foldR_safe) simp_all

lemma GAL_safe [simp]: "validateGALProfile insts iw gal \<noteq> Panic"
  unfolding validateGALProfile_def by (intro safe_rules; simp)+

lemma interworking_safe [simp]:
  "buildGEMInterworking inst insts gems bs ms \<noteq> Panic"
  "buildMulticastGEMInterworking inst insts gems bs ms mode \<noteq> Panic"
  unfolding buildGEMInterworking_def buildMulticastGEMInterworking_def
  by (intro safe_rules; simp)+

lemma validateMapper_safe [simp]: "validateMapper mapper insts iws \<noteq> Panic"
  unfolding validateMapper_def
  by (intro bindR_safe foldR_safe) (auto simp: validatePBit_def split: if_splits option.splits)

lemma VLANFilter_safe [simp]: "buildVLANFilter inst bp \<noteq> Panic"
proof -
  have "filterEntry inst vids i es \<noteq> Panic" if "length vids = 24" "i < unat count" "\<not> (12 :: u8) < count" for vids i count es
  proof -
    have "unat count \<le> 12" using that(3) by (simp add: word_less_nat_alt)
    then have "i * 2 + 2 \<le> length vids" using that(1,2) by simp
    then show ?thesis by (auto simp: filterEntry_def)
  qed
  then have entries: "foldR (filterEntry inst vids) [0..<unat count] [] \<noteq> Panic"
    if "bytesAttribute inst ''VlanFilterList'' 24 = Ok vids" "\<not> (12 :: u8) < count" for vids count
    using that bytesAttribute_length by (intro foldR_safe) (metis atLeastLessThan_iff set_upt)
  have "decodeVLANForwardOperation operation \<noteq> Panic" for operation
    by (simp add: decodeVLANForwardOperation_def Let_def)
  with entries show ?thesis unfolding buildVLANFilter_def
    by (auto simp: bindR_eq_Panic split: if_splits prod.splits)
qed

lemma VLANOperation_safe [simp]: "buildVLANOperation inst insts \<noteq> Panic" "buildExtendedVLAN inst insts \<noteq> Panic"
  unfolding buildVLANOperation_def buildExtendedVLAN_def
  by (intro safe_rules; simp add: ParseRows_no_panic)+

section \<open>The loops\<close>

lemma prod_safe: "(\<And>a b. p = (a, b) \<Longrightarrow> f a b \<noteq> Panic) \<Longrightarrow> (case p of (a, b) \<Rightarrow> f a b) \<noteq> Panic"
  by (cases p) auto

lemmas loop_rules = safe_rules prod_safe

lemma packs_safe [simp]: "circuitPackAdministrativeStates insts \<noteq> Panic"
  unfolding circuitPackAdministrativeStates_def
  by (rule foldR_safe) (simp add: bindR_eq_Panic Let_def split: prod.splits)

lemma states_safe [simp]: "onuStates insts \<noteq> Panic" "ethernetUNIInterface e \<noteq> Panic"
  "uniAdministrativeState insts packs onuState inst \<noteq> Panic"
  unfolding onuStates_def uniAdministrativeState_def ethernetUNIInterface_def by (intro loop_rules; simp)+

lemma collect_safe [simp]: "indexInstance inst insts \<noteq> Panic" "collectUNI insts packs onuState inst c \<noteq> Panic"
  "collectTCONT mode inst c \<noteq> Panic"
  unfolding indexInstance_def collectUNI_def collectTCONT_def claimAllocID_def Let_def by (intro loop_rules; simp)+

lemma collectInstance_safe [simp]: "collectInstance insts packs onuState mode inst c \<noteq> Panic"
  unfolding collectInstance_def Let_def by (intro loop_rules; simp)+

lemma tcont_safe [simp]: "resolveScheduler t inst st \<noteq> Panic" "queueSchedulerCheck insts t inst \<noteq> Panic"
  "resolveQueue insts t inst qt \<noteq> Panic"
  subgoal unfolding resolveScheduler_def by (intro loop_rules; simp)
  subgoal unfolding queueSchedulerCheck_def by (intro loop_rules; simp)
  subgoal unfolding resolveQueue_def Let_def
    by (intro loop_rules; simp add: queueSchedulerCheck_def bindR_eq_Panic split: option.splits if_splits)
  done

lemma resolveTCONT_safe [simp]: "resolveTCONT snapshot insts indexes tc found \<noteq> Panic"
  by (cases tc) (simp only: resolveTCONT_def prod.case, intro loop_rules foldR_safe; simp)

lemma upstream_safe [simp]: "validateUpstreamTrafficPointer insts gem tcont p option \<noteq> Panic"
  unfolding validateUpstreamTrafficPointer_def by (intro loop_rules; simp)

lemma add_safe [simp]: "addTrafficDescriptor inst tds \<noteq> Panic" "addRateLimiter insts inst ls \<noteq> Panic"
  "buildGEMPort insts ts option inst portID \<noteq> Panic"
  unfolding addTrafficDescriptor_def addRateLimiter_def buildGEMPort_def by (intro loop_rules; simp)+

lemma addGEMPort_safe [simp]: "addGEMPort insts ts option mode inst gs \<noteq> Panic"
  unfolding addGEMPort_def by (intro loop_rules; simp)

lemma addInterworking_safe [simp]: "addInterworking insts gems c inst iws \<noteq> Panic"
  "addMulticastInterworking insts gems c mode inst mcs \<noteq> Panic"
  unfolding addInterworking_def addMulticastInterworking_def by (intro loop_rules; simp)+

lemma addBridgePort_safe [simp]: "addBridgePort insts iws mcs inst ps \<noteq> Panic"
  unfolding addBridgePort_def Let_def by (intro loop_rules; simp)

lemma addSubscriber_safe [simp]: "addSubscriber bp c inst subs \<noteq> Panic"
  unfolding addSubscriber_def by (intro loop_rules; simp)

lemma addVLAN_safe [simp]: "addVLAN insts bp inst v \<noteq> Panic"
  unfolding addVLAN_def claimTarget_def by (intro loop_rules; simp)

lemma buildServiceGraph_safe: "buildServiceGraph snapshot mode explicitMode \<noteq> Panic"
  unfolding buildServiceGraph_def by (intro loop_rules foldR_safe; simp)

end
