(* ===== verification/GraphCollect.thy ===== *)
theory GraphCollect
  imports GraphSafe
begin

text \<open>
  What the loops of \<open>buildServiceGraph\<close> find: the elements of each class are the instances of that
  class in the snapshot, the maps that the later loops look up hold exactly these elements, and the
  identifiers the code checks for duplicates are distinct.
\<close>

section \<open>Loops that collect\<close>

text \<open>A loop whose step appends \<open>h x\<close> to the observation \<open>g\<close> of its state appends all of them.\<close>

lemma foldR_appends:
  assumes "foldR f xs s = Ok t" and "\<And>x s t. x \<in> set xs \<Longrightarrow> f x s = Ok t \<Longrightarrow> g t = g s @ h x"
  shows "g t = g s @ concat (map h xs)"
  using assms
proof (induction xs arbitrary: s)
  case (Cons x xs)
  then obtain u where u: "f x s = Ok u" "foldR f xs u = Ok t" by (auto simp: bindR_eq_Ok)
  have "g t = g u @ concat (map h xs)" using Cons.IH [OF u(2)] Cons.prems(2) by simp
  moreover have "g u = g s @ h x" using Cons.prems(2) u(1) by simp
  ultimately show ?case by simp
qed simp

lemma foldR_unions:
  assumes "foldR f xs s = Ok t" and "\<And>x s t. x \<in> set xs \<Longrightarrow> f x s = Ok t \<Longrightarrow> g t = g s \<union> h x"
  shows "g t = g s \<union> (\<Union>x \<in> set xs. h x)"
  using assms
proof (induction xs arbitrary: s)
  case (Cons x xs)
  then obtain u where u: "f x s = Ok u" "foldR f xs u = Ok t" by (auto simp: bindR_eq_Ok)
  have "g t = g u \<union> (\<Union>x \<in> set xs. h x)" using Cons.IH [OF u(2)] Cons.prems(2) by simp
  moreover have "g u = g s \<union> h x" using Cons.prems(2) u(1) by simp
  ultimately show ?case by auto
qed simp

lemma foldR_all:
  assumes "foldR f xs s = Ok t" "x \<in> set xs" and "\<And>s t. f x s = Ok t \<Longrightarrow> Q x"
  shows "Q x"
  using assms(1,2)
proof (induction xs arbitrary: s)
  case (Cons y ys)
  then show ?case using assms(3) by (auto simp: bindR_eq_Ok)
qed simp

text \<open>A check: a loop that carries nothing.\<close>

lemma foldR_unit:
  "foldR f xs () = Ok u \<Longrightarrow> x \<in> set xs \<Longrightarrow> f x () = Ok ()"
  by (induction xs) (auto simp: bindR_eq_Ok)

lemma fst_update [simp]: "fst ` set (AList.update k v m) = insert k (fst ` set m)"
  by (induction m) auto

lemma set_updateD: "p \<in> set (AList.update k v m) \<Longrightarrow> p = (k, v) \<or> p \<in> set m"
  by (induction m) (auto split: if_splits)

lemma update_fresh: "k \<notin> fst ` set m \<Longrightarrow> AList.update k v m = m @ [(k, v)]"
  by (induction m) auto

lemma set_update_wf: "gm_wf m \<Longrightarrow> set (AList.update k v m) = insert (k, v) {p \<in> set m. fst p \<noteq> k}"
  by (induction m) (auto simp: gm_wf_def image_iff split: if_splits)

lemma in_update [simp]: "(k, v) \<in> set (AList.update k v m)"
  by (induction m) auto

section \<open>The snapshot\<close>

definition entitiesOf :: "u16 \<Rightarrow> Instance list \<Rightarrow> u16 list" where
  "entitiesOf classID snapshot = map EntityID (filter (\<lambda>key. ClassID key = classID) (map ikey snapshot))"

definition entityIf :: "u16 \<Rightarrow> Instance \<Rightarrow> u16 list" where
  "entityIf classID inst = (if ClassID (ikey inst) = classID then [EntityID (ikey inst)] else [])"

lemma entitiesOf_concat: "entitiesOf classID snapshot = concat (map (entityIf classID) snapshot)"
  by (induction snapshot) (auto simp: entitiesOf_def entityIf_def)

lemma in_entitiesOf: "e \<in> set (entitiesOf classID snapshot) \<longleftrightarrow> Key classID e \<in> ikey ` set snapshot"
proof -
  have "key = Key classID e \<longleftrightarrow> ClassID key = classID \<and> EntityID key = e" for key by (cases key) auto
  then show ?thesis by (auto simp: entitiesOf_def image_iff)
qed

lemma entitiesOf_Cons: "entitiesOf classID (inst # snapshot) = entityIf classID inst @ entitiesOf classID snapshot"
  by (simp add: entitiesOf_concat)

lemma distinct_entitiesOf: "distinct (map ikey snapshot) \<Longrightarrow> distinct (entitiesOf classID snapshot)"
proof (induction snapshot)
  case (Cons inst snapshot)
  have "Key (ClassID (ikey inst)) (EntityID (ikey inst)) \<notin> ikey ` set snapshot" using Cons.prems by simp
  then have "EntityID (ikey inst) \<notin> set (entitiesOf (ClassID (ikey inst)) snapshot)" by (subst in_entitiesOf)
  with Cons show ?case by (auto simp: entitiesOf_Cons entityIf_def)
qed (simp add: entitiesOf_def)

lemma indexInstance_state:
  assumes "indexInstance inst insts = Ok insts'"
  shows "map fst insts' = map fst insts @ [ikey inst]"
    and "distinct (map fst insts) \<Longrightarrow> distinct (map fst insts')"
    and "(\<And>k i. (k, i) \<in> set insts \<Longrightarrow> ikey i = k) \<Longrightarrow> (k, i) \<in> set insts' \<Longrightarrow> ikey i = k"
proof -
  have new: "map_of insts (ikey inst) = None" and insts': "insts' = AList.update (ikey inst) inst insts"
    using assms by (auto simp: indexInstance_def split: if_splits)
  have "AList.update (ikey inst) inst insts = insts @ [(ikey inst, inst)]"
    using new by (simp add: update_fresh map_of_eq_None_iff)
  then show "map fst insts' = map fst insts @ [ikey inst]" using insts' by simp
  show "distinct (map fst insts) \<Longrightarrow> distinct (map fst insts')" by (simp add: insts' distinct_update)
  show "(\<And>k i. (k, i) \<in> set insts \<Longrightarrow> ikey i = k) \<Longrightarrow> (k, i) \<in> set insts' \<Longrightarrow> ikey i = k"
    by (auto simp: insts' dest: set_updateD)
qed

lemma indexed:
  assumes "foldR indexInstance snapshot [] = Ok insts"
  shows "map fst insts = map ikey snapshot" "distinct (map ikey snapshot)"
    and "(k, i) \<in> set insts \<Longrightarrow> ikey i = k"
proof -
  have "map fst insts = map fst ([] :: instances) @ concat (map (\<lambda>inst. [ikey inst]) snapshot)"
    by (rule foldR_appends [OF assms, where g = "map fst" and h = "\<lambda>inst. [ikey inst]"]) (rule indexInstance_state(1))
  then show keys: "map fst insts = map ikey snapshot" by (simp add: concat_map_singleton)
  have "distinct (map fst insts)"
    by (rule foldR_invariant [OF assms, where P = "\<lambda>m. distinct (map fst m)"]) (auto dest: indexInstance_state(2))
  with keys show "distinct (map ikey snapshot)" by simp
  have "\<forall>(k, i) \<in> set insts. ikey i = k"
    by (rule foldR_invariant [OF assms, where P = "\<lambda>m. \<forall>(k, i) \<in> set m. ikey i = k"])
      (auto dest: indexInstance_state(3) [rotated 2])
  then show "(k, i) \<in> set insts \<Longrightarrow> ikey i = k" by auto
qed

lemma hasInstance_indexed:
  "foldR indexInstance snapshot [] = Ok insts \<Longrightarrow> hasInstance insts classID e \<longleftrightarrow> e \<in> set (entitiesOf classID snapshot)"
  unfolding hasInstance_def in_entitiesOf
  by (simp add: map_of_eq_None_iff indexed(1) flip: set_map)

section \<open>UNIs, T-CONTs, bridges, mappers and profiles\<close>

text \<open>The elements of each class.\<close>

lemma builders_entity:
  "buildMACBridge inst = Ok bridge \<Longrightarrow> bridgeEntity bridge = EntityID (ikey inst) \<and> Ports bridge = []"
  "buildMapper inst = Ok mapper \<Longrightarrow> mapperEntity mapper = EntityID (ikey inst)"
  "buildMulticastOperationsProfile inst mode = Ok profile \<Longrightarrow> opEntity profile = EntityID (ikey inst)"
  by (auto simp: buildMACBridge_def buildMapper_def buildMulticastOperationsProfile_def bindR_eq_Ok split: if_splits)

lemma collectUNI_state:
  "collectUNI insts packs onuState inst c = Ok c' \<Longrightarrow>
     \<exists>uni. c' = c\<lparr>foundUNIs := foundUNIs c @ [uni]\<rparr> \<and> uniEntity uni = EntityID (ikey inst)"
  by (auto simp: collectUNI_def bindR_eq_Ok)

definition sameTCONT :: "TCONT \<Rightarrow> u16 \<times> u16" where
  "sameTCONT t = (tcontEntity t, tcontAllocID t)"

lemma claimAllocID_ok:
  assumes "claimAllocID mode inst allocID active = Ok active'"
  shows "allocID = nullPointer \<or> allocID \<le> allocIDLimit mode"
    and "allocID = nullPointer \<or> allocID \<notin> fst ` set active"
    and "fst ` set active' = (if allocID = nullPointer then fst ` set active else insert allocID (fst ` set active))"
proof -
  show "allocID = nullPointer \<or> allocID \<le> allocIDLimit mode"
    using assms by (auto simp: claimAllocID_def split: if_splits)
  show "allocID = nullPointer \<or> allocID \<notin> fst ` set active"
    using assms by (auto simp: claimAllocID_def map_of_eq_None_iff split: if_splits option.splits)
  have "active' = (if allocID = nullPointer then active else AList.update allocID (EntityID (ikey inst)) active)"
    using assms by (simp add: claimAllocID_def split: if_splits option.splits)
  then show "fst ` set active' = (if allocID = nullPointer then fst ` set active else insert allocID (fst ` set active))"
    by simp
qed

lemma newTCONT_simps [simp]: "tcontEntity (newTCONT e a p) = e" "tcontAllocID (newTCONT e a p) = a"
  by (simp_all add: newTCONT_def)

lemma collectTCONT_state:
  assumes "collectTCONT mode inst c = Ok c'"
  obtains t active where "tcontEntity t = EntityID (ikey inst)"
    "claimAllocID mode inst (tcontAllocID t) (activeAllocIDs c) = Ok active"
    "c' = c\<lparr>activeAllocIDs := active, tconts := AList.update (tcontEntity t) t (tconts c),
            tcontIndexes := AList.update (tcontEntity t) (length (foundTCONTs c)) (tcontIndexes c),
            foundTCONTs := foundTCONTs c @ [t]\<rparr>"
  using assms unfolding collectTCONT_def
  by (auto simp: bindR_eq_Ok Let_def split: if_splits intro: that [of "newTCONT (EntityID (ikey inst)) _ _"])

text \<open>The state of the loop: lists and maps hold the same elements.\<close>

definition collectedOK :: "string \<Rightarrow> collected \<Rightarrow> bool" where
  "collectedOK mode c \<longleftrightarrow>
     (\<forall>(e, b) \<in> set (bridges c). bridgeEntity b = e \<and> Ports b = []) \<and> gm_wf (bridges c)
   \<and> (\<forall>(e, m) \<in> set (mappers c). m \<in> set (foundMappers c) \<and> mapperEntity m = e)
   \<and> (\<forall>(e, p) \<in> set (multicastProfiles c). p \<in> set (foundProfiles c) \<and> opEntity p = e)
   \<and> (\<forall>(e, t) \<in> set (tconts c). \<exists>i. map_of (tcontIndexes c) e = Some i \<and> i < length (foundTCONTs c)
        \<and> foundTCONTs c ! i = t \<and> tcontEntity t = e)
   \<and> gm_wf (tconts c)
   \<and> (\<forall>t \<in> set (foundTCONTs c). tcontAllocID t = nullPointer \<or> tcontAllocID t \<le> allocIDLimit mode)
   \<and> fst ` set (activeAllocIDs c) = set (map tcontAllocID (foundTCONTs c)) - {nullPointer}
   \<and> distinct (filter (\<lambda>a. a \<noteq> nullPointer) (map tcontAllocID (foundTCONTs c)))"

lemma collectedOK_uni: "collectedOK mode c \<Longrightarrow> collectedOK mode (c\<lparr>foundUNIs := unis\<rparr>)"
  by (simp add: collectedOK_def)

lemma collectedOK_bridge:
  "collectedOK mode c \<Longrightarrow> bridgeEntity b = e \<Longrightarrow> Ports b = [] \<Longrightarrow> collectedOK mode (c\<lparr>bridges := AList.update e b (bridges c)\<rparr>)"
  by (auto simp: collectedOK_def set_update_wf)

lemma collectedOK_mapper:
  "collectedOK mode c \<Longrightarrow> mapperEntity m = e \<Longrightarrow>
     collectedOK mode (c\<lparr>mappers := AList.update e m (mappers c), foundMappers := foundMappers c @ [m]\<rparr>)"
  by (auto simp: collectedOK_def dest: set_updateD)

lemma collectedOK_profile:
  "collectedOK mode c \<Longrightarrow> opEntity p = e \<Longrightarrow>
     collectedOK mode (c\<lparr>multicastProfiles := AList.update e p (multicastProfiles c), foundProfiles := foundProfiles c @ [p]\<rparr>)"
  by (auto simp: collectedOK_def dest: set_updateD)

lemma collectedOK_tcont:
  assumes c: "collectedOK mode c" and step: "collectTCONT mode inst c = Ok c'"
  shows "collectedOK mode c'"
  using step
proof (rule collectTCONT_state)
  fix t active
  assume t: "tcontEntity t = EntityID (ikey inst)" "claimAllocID mode inst (tcontAllocID t) (activeAllocIDs c) = Ok active"
    and c': "c' = c\<lparr>activeAllocIDs := active, tconts := AList.update (tcontEntity t) t (tconts c),
            tcontIndexes := AList.update (tcontEntity t) (length (foundTCONTs c)) (tcontIndexes c),
            foundTCONTs := foundTCONTs c @ [t]\<rparr>"
  have maps: "\<forall>(e, u) \<in> set (tconts c'). \<exists>i. map_of (tcontIndexes c') e = Some i \<and> i < length (foundTCONTs c')
        \<and> foundTCONTs c' ! i = u \<and> tcontEntity u = e"
  proof clarify
    fix e u assume "(e, u) \<in> set (tconts c')"
    then consider "e = tcontEntity t" "u = t" | "(e, u) \<in> set (tconts c)" "e \<noteq> tcontEntity t"
      using c by (auto simp: c' set_update_wf collectedOK_def)
    then show "\<exists>i. map_of (tcontIndexes c') e = Some i \<and> i < length (foundTCONTs c') \<and> foundTCONTs c' ! i = u \<and> tcontEntity u = e"
    proof cases
      case 2
      then obtain i where "map_of (tcontIndexes c) e = Some i" "i < length (foundTCONTs c)" "foundTCONTs c ! i = u" "tcontEntity u = e"
        using c by (auto simp: collectedOK_def)
      with 2 show ?thesis by (intro exI [of _ i]) (simp add: c' update_conv' nth_append)
    qed (simp add: c' update_conv')
  qed
  note claim = claimAllocID_ok [OF t(2)]
  have "fst ` set (activeAllocIDs c') = set (map tcontAllocID (foundTCONTs c')) - {nullPointer}"
  proof -
    have old: "fst ` set (activeAllocIDs c) = tcontAllocID ` set (foundTCONTs c) - {nullPointer}"
      using c by (simp add: collectedOK_def)
    have "fst ` set active = insert (tcontAllocID t) (tcontAllocID ` set (foundTCONTs c)) - {nullPointer}"
      unfolding claim(3) old by auto
    then show ?thesis by (simp add: c')
  qed
  moreover have "distinct (filter (\<lambda>a. a \<noteq> nullPointer) (map tcontAllocID (foundTCONTs c')))"
    using c claim(2) by (auto simp: c' collectedOK_def)
  moreover have "\<forall>t \<in> set (foundTCONTs c'). tcontAllocID t = nullPointer \<or> tcontAllocID t \<le> allocIDLimit mode"
    using c claim(1) by (auto simp: c' collectedOK_def)
  ultimately show ?thesis using c maps unfolding collectedOK_def by (simp add: c')
qed

lemma collectInstance_cases:
  assumes "collectInstance insts packs onuState mode inst c = Ok c'"
  obtains (uni) uni where "ClassID (ikey inst) = PptpEthernetUniClassID" "uniEntity uni = EntityID (ikey inst)"
      "c' = c\<lparr>foundUNIs := foundUNIs c @ [uni]\<rparr>"
  | (tcont) "ClassID (ikey inst) = TContClassID" "collectTCONT mode inst c = Ok c'"
  | (bridge) b where "ClassID (ikey inst) = MacBridgeServiceProfileClassID" "bridgeEntity b = EntityID (ikey inst)" "Ports b = []"
      "c' = c\<lparr>bridges := AList.update (EntityID (ikey inst)) b (bridges c)\<rparr>"
  | (mapper) m where "ClassID (ikey inst) = MapperClassID" "mapperEntity m = EntityID (ikey inst)"
      "c' = c\<lparr>mappers := AList.update (EntityID (ikey inst)) m (mappers c), foundMappers := foundMappers c @ [m]\<rparr>"
  | (profile) p where "ClassID (ikey inst) = MulticastOperationsProfileClassID" "opEntity p = EntityID (ikey inst)"
      "c' = c\<lparr>multicastProfiles := AList.update (EntityID (ikey inst)) p (multicastProfiles c), foundProfiles := foundProfiles c @ [p]\<rparr>"
  | (other) "ClassID (ikey inst) \<notin> {PptpEthernetUniClassID, TContClassID, MacBridgeServiceProfileClassID,
      MapperClassID, MulticastOperationsProfileClassID}" "c' = c"
proof -
  let ?k = "ClassID (ikey inst)"
  note def = assms [unfolded collectInstance_def Let_def]
  consider "?k = PptpEthernetUniClassID" | "?k = TContClassID" | "?k = MacBridgeServiceProfileClassID"
    | "?k = MapperClassID" | "?k = MulticastOperationsProfileClassID"
    | "?k \<notin> {PptpEthernetUniClassID, TContClassID, MacBridgeServiceProfileClassID, MapperClassID, MulticastOperationsProfileClassID}"
    by auto
  then show thesis
  proof cases
    case 1
    then show thesis using def uni by (auto dest: collectUNI_state)
  next
    case 2
    then show thesis using def tcont by simp
  next
    case 3
    then show thesis using def by (auto simp: bindR_eq_Ok dest: builders_entity(1) intro: bridge)
  next
    case 4
    then show thesis using def by (auto simp: bindR_eq_Ok dest: builders_entity(2) intro: mapper)
  next
    case 5
    then show thesis using def by (auto simp: bindR_eq_Ok dest: builders_entity(3) intro: profile)
  next
    case 6
    then show thesis using def by (intro other) auto
  qed
qed

lemma collectInstance_OK:
  assumes "collectInstance insts packs onuState mode inst c = Ok c'" "collectedOK mode c"
  shows "collectedOK mode c'"
  using assms(1)
proof (cases rule: collectInstance_cases)
  case uni
  with assms(2) show ?thesis by (simp only: collectedOK_uni)
next
  case tcont
  with assms(2) show ?thesis by (blast intro: collectedOK_tcont)
next
  case bridge
  with assms(2) show ?thesis by (simp only: collectedOK_bridge)
next
  case mapper
  with assms(2) show ?thesis by (simp only: collectedOK_mapper)
next
  case profile
  with assms(2) show ?thesis by (simp only: collectedOK_profile)
next
  case other
  with assms(2) show ?thesis by (simp only:)
qed

lemma collectInstance_entities:
  assumes "collectInstance insts packs onuState mode inst c = Ok c'"
  shows "map uniEntity (foundUNIs c') = map uniEntity (foundUNIs c) @ entityIf PptpEthernetUniClassID inst"
    and "map tcontEntity (foundTCONTs c') = map tcontEntity (foundTCONTs c) @ entityIf TContClassID inst"
    and "map mapperEntity (foundMappers c') = map mapperEntity (foundMappers c) @ entityIf MapperClassID inst"
    and "map opEntity (foundProfiles c') = map opEntity (foundProfiles c) @ entityIf MulticastOperationsProfileClassID inst"
    and "fst ` set (bridges c') = fst ` set (bridges c) \<union> set (entityIf MacBridgeServiceProfileClassID inst)"
  using assms unfolding entityIf_def
  by (cases rule: collectInstance_cases; simp; elim collectTCONT_state; simp)+

lemma collectedOK_init: "collectedOK mode nothingCollected"
  by (simp add: collectedOK_def nothingCollected_def gm_wf_def)

lemma collected_entities:
  assumes "foldR (collectInstance insts packs onuState mode) snapshot nothingCollected = Ok c"
  shows "map uniEntity (foundUNIs c) = entitiesOf PptpEthernetUniClassID snapshot"
    and "map tcontEntity (foundTCONTs c) = entitiesOf TContClassID snapshot"
    and "map mapperEntity (foundMappers c) = entitiesOf MapperClassID snapshot"
    and "map opEntity (foundProfiles c) = entitiesOf MulticastOperationsProfileClassID snapshot"
    and "fst ` set (bridges c) = set (entitiesOf MacBridgeServiceProfileClassID snapshot)"
    and "collectedOK mode c"
proof -
  note run = foldR_appends [OF assms]
  show "map uniEntity (foundUNIs c) = entitiesOf PptpEthernetUniClassID snapshot"
    using run [where g = "\<lambda>c. map uniEntity (foundUNIs c)" and h = "entityIf PptpEthernetUniClassID"]
    by (simp add: collectInstance_entities(1) nothingCollected_def entitiesOf_concat)
  show "map tcontEntity (foundTCONTs c) = entitiesOf TContClassID snapshot"
    using run [where g = "\<lambda>c. map tcontEntity (foundTCONTs c)" and h = "entityIf TContClassID"]
    by (simp add: collectInstance_entities(2) nothingCollected_def entitiesOf_concat)
  show "map mapperEntity (foundMappers c) = entitiesOf MapperClassID snapshot"
    using run [where g = "\<lambda>c. map mapperEntity (foundMappers c)" and h = "entityIf MapperClassID"]
    by (simp add: collectInstance_entities(3) nothingCollected_def entitiesOf_concat)
  show "map opEntity (foundProfiles c) = entitiesOf MulticastOperationsProfileClassID snapshot"
    using run [where g = "\<lambda>c. map opEntity (foundProfiles c)" and h = "entityIf MulticastOperationsProfileClassID"]
    by (simp add: collectInstance_entities(4) nothingCollected_def entitiesOf_concat)
  show "fst ` set (bridges c) = set (entitiesOf MacBridgeServiceProfileClassID snapshot)"
    using foldR_unions [OF assms, where g = "\<lambda>c. fst ` set (bridges c)" and h = "\<lambda>i. set (entityIf MacBridgeServiceProfileClassID i)"]
    by (simp add: collectInstance_entities(5) nothingCollected_def entitiesOf_concat)
  show "collectedOK mode c"
    using assms collectedOK_init by (rule foldR_invariant) (rule collectInstance_OK)
qed

end
