(* ===== verification/GraphContract.thy ===== *)
theory GraphContract
  imports GraphCollect "HOL-Library.Multiset"
begin

unbundle bit_operations_syntax

text \<open>
  What the service graph promises the backend: every reference in it leads to an element of the
  graph that fits, and the identifiers that select hardware resources are unique. \<open>resolvedGraph\<close> and
  \<open>uniqueGraph\<close> state this of the graph alone; the loops of \<open>buildServiceGraph\<close> are shown to establish it.
\<close>

section \<open>The contract\<close>

definition knownTD :: "ServiceGraph \<Rightarrow> u16 \<Rightarrow> bool" where
  "knownTD g p = (p = nullPointer \<or> p \<in> tdEntity ` set (TrafficDescs g))"

definition resolvedGEMPort :: "ServiceGraph \<Rightarrow> GEMPort \<Rightarrow> bool" where
  "resolvedGEMPort g p =
     ((gemTCONT p, gemAllocID p) \<in> sameTCONT ` set (TCONTs g) \<and> knownTD g (UpstreamTD p) \<and> knownTD g (DownstreamTD p))"

definition resolvedInterworking :: "ServiceGraph \<Rightarrow> GEMInterworking \<Rightarrow> bool" where
  "resolvedInterworking g iw =
     (iwGEMPort iw \<in> gemEntity ` set (GEMPorts g) \<and>
      (iwOption iw = 1 \<and> iwServiceProfile iw \<in> bridgeEntity ` set (Bridges g)
       \<or> iwOption iw = 5 \<and> iwServiceProfile iw \<in> mapperEntity ` set (Mappers g)))"

definition resolvedMulticast :: "ServiceGraph \<Rightarrow> MulticastGEMInterworking \<Rightarrow> bool" where
  "resolvedMulticast g iw =
     (\<exists>p \<in> set (GEMPorts g). gemEntity p = mcGEMPort iw \<and> gemPortID p = mcPortID iw \<and> gemTCONT p = mcTCONT iw
        \<and> gemAllocID p = mcAllocID iw \<and> gemDirection p AND 1 \<noteq> 0)"

definition resolvedMapper :: "ServiceGraph \<Rightarrow> PBitMapper \<Rightarrow> bool" where
  "resolvedMapper g m =
     ((mapperTPType m = 0 \<and> mapperTPPointer m = nullPointer
       \<or> mapperTPType m = 1 \<and> mapperTPPointer m \<in> uniEntity ` set (UNIs g))
      \<and> (\<forall>pointer \<in> set (PBits m). pointer = nullPointer \<or> (\<exists>iw \<in> set (Interworking g).
           iwEntity iw = pointer \<and> iwOption iw = 5 \<and> iwServiceProfile iw = mapperEntity m)))"

definition resolvedPort :: "ServiceGraph \<Rightarrow> u16 \<Rightarrow> MACBridgePort \<Rightarrow> bool" where
  "resolvedPort g bridgeID p =
     ((portTPType p = 1 \<and> portTP p \<in> uniEntity ` set (UNIs g)
       \<or> portTPType p = 3 \<and> portTP p \<in> mapperEntity ` set (Mappers g)
       \<or> portTPType p = 5 \<and> (\<exists>iw \<in> set (Interworking g). iwEntity iw = portTP p \<and> iwOption iw = 1 \<and> iwServiceProfile iw = bridgeID)
       \<or> portTPType p = 6 \<and> (\<exists>iw \<in> set (MulticastInterworking g). mcEntity iw = portTP p
            \<and> (mcOption iw = 1 \<longrightarrow> mcServiceProfile iw = 0 \<or> mcServiceProfile iw = bridgeID)))
      \<and> knownTD g (OutboundTD p) \<and> knownTD g (InboundTD p))"

definition allPorts :: "ServiceGraph \<Rightarrow> MACBridgePort set" where
  "allPorts g = (\<Union>b \<in> set (Bridges g). set (Ports b))"

definition resolvedSubscriber :: "ServiceGraph \<Rightarrow> MulticastSubscriberConfigInfo \<Rightarrow> bool" where
  "resolvedSubscriber g s =
     ((subMEType s = 0 \<and> (\<exists>p \<in> allPorts g. portEntity p = subEntity s \<and> portTPType p = 1)
       \<or> subMEType s = 1 \<and> subEntity s \<in> mapperEntity ` set (Mappers g))
      \<and> (\<forall>package \<in> set (subPackages s). packageProfile package \<in> opEntity ` set (MulticastProfiles g))
      \<and> (subPackages s \<noteq> [] \<or> subProfile s \<in> opEntity ` set (MulticastProfiles g)))"

text \<open>The element that a VLAN operation or a rate limiter is attached to.\<close>

definition resolvedTarget :: "ServiceGraph \<Rightarrow> u16 \<Rightarrow> u16 \<Rightarrow> bool" where
  "resolvedTarget g classID e =
     (classID = PptpEthernetUniClassID \<and> e \<in> uniEntity ` set (UNIs g)
      \<or> classID = MapperClassID \<and> e \<in> mapperEntity ` set (Mappers g)
      \<or> classID = MacBridgeServiceProfileClassID \<and> e \<in> bridgeEntity ` set (Bridges g)
      \<or> classID = MacBridgePortConfigurationDataClassID \<and> e \<in> portEntity ` allPorts g
      \<or> classID = GemIwTpClassID \<and> e \<in> iwEntity ` set (Interworking g))"

definition limiterParent :: "Dot1RateLimiter \<Rightarrow> Key" where
  "limiterParent l = Key (the (limiterParentClass (limiterTPType l))) (ParentME l)"

definition resolvedLimiter :: "ServiceGraph \<Rightarrow> Dot1RateLimiter \<Rightarrow> bool" where
  "resolvedLimiter g l =
     (resolvedTarget g (ClassID (limiterParent l)) (EntityID (limiterParent l))
      \<and> knownTD g (UpstreamUnicastFloodTD l) \<and> knownTD g (UpstreamBroadcastTD l) \<and> knownTD g (UpstreamMulticastPayloadTD l))"

definition resolvedGraph :: "ServiceGraph \<Rightarrow> bool" where
  "resolvedGraph g \<longleftrightarrow>
     list_all (resolvedGEMPort g) (GEMPorts g) \<and> list_all (resolvedInterworking g) (Interworking g)
   \<and> list_all (resolvedMulticast g) (MulticastInterworking g) \<and> list_all (resolvedMapper g) (Mappers g)
   \<and> list_all (\<lambda>b. list_all (resolvedPort g (bridgeEntity b)) (Ports b)) (Bridges g)
   \<and> list_all (resolvedSubscriber g) (MulticastSubscribers g)
   \<and> list_all (\<lambda>f. filterBridgePort f \<in> portEntity ` allPorts g) (VLANFilters g)
   \<and> list_all (\<lambda>v. resolvedTarget g (vopAssociatedClass v) (vopAssociatedME v)) (VLANOperations g)
   \<and> list_all (\<lambda>v. resolvedTarget g (extAssociatedClass v) (extAssociatedME v)) (ExtendedVLANs g)
   \<and> list_all (resolvedLimiter g) (Dot1RateLimiters g)"

text \<open>Identifiers that must not be shared, and those that must be in the range of the PON mode.\<close>

definition vlanTargets :: "ServiceGraph \<Rightarrow> Key list" where
  "vlanTargets g = map (\<lambda>v. Key (vopAssociatedClass v) (vopAssociatedME v)) (VLANOperations g)
     @ map (\<lambda>v. Key (extAssociatedClass v) (extAssociatedME v)) (ExtendedVLANs g)"

definition uniqueGraph :: "string \<Rightarrow> ServiceGraph \<Rightarrow> bool" where
  "uniqueGraph mode g \<longleftrightarrow>
     distinct (filter (\<lambda>a. a \<noteq> nullPointer) (map tcontAllocID (TCONTs g)))
   \<and> list_all (\<lambda>t. tcontAllocID t = nullPointer \<or> tcontAllocID t \<le> allocIDLimit mode) (TCONTs g)
   \<and> distinct (map gemPortID (GEMPorts g)) \<and> list_all (\<lambda>p. gemPortID p \<le> gemPortLimit mode) (GEMPorts g)
   \<and> list_all (\<lambda>b. distinct (map portNumber (Ports b))) (Bridges g)
   \<and> distinct (vlanTargets g) \<and> distinct (map limiterParent (Dot1RateLimiters g))"

section \<open>Sorting changes nothing of this\<close>

lemma sort_sets [simp]:
  "set (UNIs (sortServiceGraph g)) = set (UNIs g)" "set (TCONTs (sortServiceGraph g)) = set (TCONTs g)"
  "set (TrafficDescs (sortServiceGraph g)) = set (TrafficDescs g)"
  "set (Dot1RateLimiters (sortServiceGraph g)) = set (Dot1RateLimiters g)"
  "set (GEMPorts (sortServiceGraph g)) = set (GEMPorts g)" "set (Interworking (sortServiceGraph g)) = set (Interworking g)"
  "set (MulticastInterworking (sortServiceGraph g)) = set (MulticastInterworking g)"
  "set (MulticastProfiles (sortServiceGraph g)) = set (MulticastProfiles g)"
  "set (MulticastSubscribers (sortServiceGraph g)) = set (MulticastSubscribers g)"
  "set (Mappers (sortServiceGraph g)) = set (Mappers g)" "set (Bridges (sortServiceGraph g)) = set (Bridges g)"
  "set (VLANFilters (sortServiceGraph g)) = set (VLANFilters g)"
  "set (VLANOperations (sortServiceGraph g)) = set (VLANOperations g)"
  "set (ExtendedVLANs (sortServiceGraph g)) = set (ExtendedVLANs g)"
  by (simp_all add: sortServiceGraph_def)

lemmas resolved_defs = knownTD_def resolvedGEMPort_def resolvedInterworking_def resolvedMulticast_def resolvedMapper_def
  resolvedPort_def resolvedSubscriber_def resolvedTarget_def resolvedLimiter_def allPorts_def

lemma resolved_sort [simp]: "resolvedGraph (sortServiceGraph g) = resolvedGraph g"
  by (simp add: resolvedGraph_def resolved_defs list_all_iff)

lemma distinct_sort_key: "distinct (map f (sort_key k xs)) = distinct (map f xs)"
  by (rule mset_eq_imp_distinct_iff) simp

lemma distinct_filter_sort_key: "distinct (filter P (map f (sort_key k xs))) = distinct (filter P (map f xs))"
  by (rule mset_eq_imp_distinct_iff) simp

lemma unique_sort [simp]: "uniqueGraph mode (sortServiceGraph g) = uniqueGraph mode g"
proof -
  have "distinct (vlanTargets (sortServiceGraph g)) = distinct (vlanTargets g)"
    by (rule mset_eq_imp_distinct_iff) (simp add: vlanTargets_def sortServiceGraph_def)
  then show ?thesis unfolding uniqueGraph_def list_all_iff sort_sets
    by (simp add: sortServiceGraph_def distinct_sort_key distinct_filter_sort_key)
qed

end
