(* ===== verification/GraphLoops.thy ===== *)
theory GraphLoops
  imports GraphContract
begin

unbundle bit_operations_syntax

text \<open>
  What each later loop of \<open>buildServiceGraph\<close> establishes, as an invariant of the loop: its map and its
  list hold the same elements, each element passed its checks, the identifiers it claims are new.
\<close>

section \<open>Success of a chain of checks\<close>

lemma bind_OkE: "bindR m f = Ok y \<Longrightarrow> (\<And>x. m = Ok x \<Longrightarrow> f x = Ok y \<Longrightarrow> P) \<Longrightarrow> P"
  by (cases m) auto

lemma if_OkE: "(if c then Err e else k) = Ok y \<Longrightarrow> (\<not> c \<Longrightarrow> k = Ok y \<Longrightarrow> P) \<Longrightarrow> P"
  by (cases c) auto

lemma failIf_OkE: "failIf err k = Ok y \<Longrightarrow> (err = None \<Longrightarrow> k = Ok y \<Longrightarrow> P) \<Longrightarrow> P"
  by simp

lemma found_OkE:
  "(case m of None \<Rightarrow> Err e | Some x \<Rightarrow> f x) = Ok y \<Longrightarrow> (\<And>x. m = Some x \<Longrightarrow> f x = Ok y \<Longrightarrow> P) \<Longrightarrow> P"
  by (cases m) auto

lemma fresh_OkE:
  "(case m of None \<Rightarrow> k | Some x \<Rightarrow> Err (e x)) = Ok y \<Longrightarrow> (m = None \<Longrightarrow> k = Ok y \<Longrightarrow> P) \<Longrightarrow> P"
  by (cases m) auto

lemma class_OkE: "(if c \<noteq> d then a else k) = Ok y \<Longrightarrow> c = d \<Longrightarrow> (k = Ok y \<Longrightarrow> P) \<Longrightarrow> P"
  by simp

lemmas OkE = bind_OkE if_OkE failIf_OkE found_OkE fresh_OkE

section \<open>T-CONTs\<close>

lemma resolveScheduler_same: "resolveScheduler t inst (tc, s) = Ok (tc', s') \<Longrightarrow> sameTCONT tc' = sameTCONT tc"
  by (auto simp: resolveScheduler_def bindR_eq_Ok sameTCONT_def split: if_splits option.splits)

lemma resolveQueue_same: "resolveQueue insts t inst (tc, s) = Ok (tc', s') \<Longrightarrow> sameTCONT tc' = sameTCONT tc"
  by (auto simp: resolveQueue_def bindR_eq_Ok Let_def sameTCONT_def split: if_splits)

lemma resolveTCONT_same:
  assumes run: "resolveTCONT snapshot insts indexes (e, tc) found = Ok found'"
    and i: "map_of indexes e = Some i" "i < length found" "sameTCONT (found ! i) = sameTCONT tc"
  shows "map sameTCONT found' = map sameTCONT found"
proof -
  from run i(1) obtain tc1 s1 tc2 s2 where sched: "foldR (resolveScheduler e) snapshot (tc, None) = Ok (tc1, s1)"
    and queue: "foldR (resolveQueue insts e) snapshot (tc1, replicate 8 False) = Ok (tc2, s2)" and found': "found' = found[i := tc2]"
    by (auto simp: resolveTCONT_def bindR_eq_Ok split: if_splits)
  have "sameTCONT (fst (tc1, s1)) = sameTCONT tc"
    by (rule foldR_invariant [OF sched, where P = "\<lambda>st. sameTCONT (fst st) = sameTCONT tc"])
      (auto dest: resolveScheduler_same)
  moreover have "sameTCONT (fst (tc2, s2)) = sameTCONT tc1"
    by (rule foldR_invariant [OF queue, where P = "\<lambda>st. sameTCONT (fst st) = sameTCONT tc1"])
      (auto dest: resolveQueue_same)
  ultimately have "sameTCONT tc2 = sameTCONT (found ! i)" using i(3) by simp
  then show ?thesis using i(2) by (simp add: found' map_update list_update_same_conv)
qed

lemma resolved_tconts:
  assumes run: "foldR (resolveTCONT snapshot insts (tcontIndexes c)) (tconts c) (foundTCONTs c) = Ok found"
    and c: "collectedOK mode c"
  shows "map sameTCONT found = map sameTCONT (foundTCONTs c)"
proof (rule foldR_invariant [OF run, where P = "\<lambda>f. map sameTCONT f = map sameTCONT (foundTCONTs c)"])
  fix et s t
  assume "et \<in> set (tconts c)" and s: "map sameTCONT s = map sameTCONT (foundTCONTs c)"
    and step: "resolveTCONT snapshot insts (tcontIndexes c) et s = Ok t"
  moreover obtain e tc where et: "et = (e, tc)" by force
  ultimately obtain i where i: "map_of (tcontIndexes c) e = Some i" "i < length (foundTCONTs c)" "foundTCONTs c ! i = tc"
    using c by (auto simp: collectedOK_def)
  have "length s = length (foundTCONTs c)" using arg_cong [OF s, of length] by simp
  then have "i < length s" "sameTCONT (s ! i) = sameTCONT tc"
    using i(2,3) arg_cong [OF s, of "\<lambda>l. l ! i"] by simp_all
  then show "map sameTCONT t = map sameTCONT (foundTCONTs c)"
    using resolveTCONT_same [OF step [unfolded et] i(1)] s by simp
qed simp

lemma tcont_lookup:
  assumes "collectedOK mode c" "map_of (tconts c) e = Some t"
  shows "t \<in> set (foundTCONTs c) \<and> tcontEntity t = e"
  using assms(1) map_of_SomeD [OF assms(2)] by (auto simp: collectedOK_def)

section \<open>Traffic descriptors, rate limiters and GEM ports\<close>

lemma descriptors_entities:
  assumes "foldR addTrafficDescriptor snapshot [] = Ok descriptors"
  shows "map tdEntity descriptors = entitiesOf TrafficDescriptorClassID snapshot"
proof -
  have step: "map tdEntity t = map tdEntity s @ entityIf TrafficDescriptorClassID x"
    if "addTrafficDescriptor x s = Ok t" for x s t
    using that by (auto simp: addTrafficDescriptor_def buildTrafficDescriptor_def entityIf_def bindR_eq_Ok split: if_splits)
  then show ?thesis
    using foldR_appends [OF assms, where g = "map tdEntity" and h = "entityIf TrafficDescriptorClassID"]
    by (simp add: entitiesOf_concat)
qed

definition limiterOK :: "instances \<Rightarrow> Dot1RateLimiter \<Rightarrow> bool" where
  "limiterOK insts l = (hasInstance insts (ClassID (limiterParent l)) (ParentME l)
     \<and> ClassID (limiterParent l) \<in> {MacBridgeServiceProfileClassID, MapperClassID}
     \<and> (\<forall>p \<in> {UpstreamUnicastFloodTD l, UpstreamBroadcastTD l, UpstreamMulticastPayloadTD l}.
          p = nullPointer \<or> hasInstance insts TrafficDescriptorClassID p))"

lemma limiterPointer_ok:
  "limiterPointer inst insts name field = Ok p \<Longrightarrow> p = nullPointer \<or> hasInstance insts TrafficDescriptorClassID p"
  by (auto simp: limiterPointer_def bindR_eq_Ok Let_def split: if_splits)

lemma buildDot1RateLimiter_ok:
  "buildDot1RateLimiter inst insts = Ok (l, parent) \<Longrightarrow> limiterOK insts l \<and> parent = limiterParent l"
  by (auto simp: buildDot1RateLimiter_def bindR_eq_Ok limiterOK_def limiterParent_def hasInstance_def limiterParentClass_def
      dest: limiterPointer_ok split: option.splits if_splits)

definition limitersOK :: "instances \<Rightarrow> (Key, u16) gomap \<times> Dot1RateLimiter list \<Rightarrow> bool" where
  "limitersOK insts st = (fst ` set (fst st) = limiterParent ` set (snd st)
     \<and> distinct (map limiterParent (snd st)) \<and> list_all (limiterOK insts) (snd st))"

lemma addRateLimiter_ok:
  assumes "addRateLimiter insts inst st = Ok st'" "limitersOK insts st"
  shows "limitersOK insts st'"
proof (cases "ClassID (ikey inst) = Dot1RateLimiterClassID")
  case True
  with assms(1) obtain l where l: "buildDot1RateLimiter inst insts = Ok (l, limiterParent l)" "limiterOK insts l"
      "limiterParent l \<notin> fst ` set (fst st)"
      "st' = (AList.update (limiterParent l) (EntityID (ikey inst)) (fst st), snd st @ [l])"
    by (auto simp: addRateLimiter_def bindR_eq_Ok map_of_eq_None_iff dest: buildDot1RateLimiter_ok
        split: prod.splits option.splits)
  with assms(2) show ?thesis by (auto simp: limitersOK_def)
qed (use assms in \<open>auto simp: addRateLimiter_def split: prod.splits\<close>)

lemma limiters_ok:
  assumes "foldR (addRateLimiter insts) snapshot ([], []) = Ok st"
  shows "limitersOK insts st"
proof (rule foldR_invariant [OF assms, where P = "limitersOK insts"])
  show "limitersOK insts ([], [])" by (simp add: limitersOK_def)
qed (rule addRateLimiter_ok)

definition gemOK :: "instances \<Rightarrow> (u16, TCONT) gomap \<Rightarrow> string \<Rightarrow> GEMPort \<Rightarrow> bool" where
  "gemOK insts tcontMap mode p =
     ((\<exists>t. map_of tcontMap (gemTCONT p) = Some t \<and> gemAllocID p = tcontAllocID t) \<and> gemPortID p \<le> gemPortLimit mode
      \<and> (\<forall>td \<in> {UpstreamTD p, DownstreamTD p}. td = nullPointer \<or> hasInstance insts TrafficDescriptorClassID td))"

lemma buildGEMPort_ok:
  "buildGEMPort insts tcontMap option inst portID = Ok p \<Longrightarrow> portID \<le> gemPortLimit mode \<Longrightarrow>
     gemOK insts tcontMap mode p \<and> gemPortID p = portID \<and> gemEntity p = EntityID (ikey inst)"
  unfolding buildGEMPort_def
  by (elim OkE) (auto simp: gemOK_def validateTrafficDescriptorPointer_def split: if_splits)

definition gemsOK :: "instances \<Rightarrow> (u16, TCONT) gomap \<Rightarrow> string \<Rightarrow> (u16, u16) gomap \<times> (u16, GEMPort) gomap \<times> GEMPort list \<Rightarrow> bool" where
  "gemsOK insts tcontMap mode = (\<lambda>(portIDs, gems, found).
     (\<forall>(e, p) \<in> set gems. p \<in> set found \<and> gemEntity p = e) \<and> fst ` set portIDs = gemPortID ` set found
     \<and> distinct (map gemPortID found) \<and> list_all (gemOK insts tcontMap mode) found)"

lemma addGEMPort_ok:
  assumes step: "addGEMPort insts tcontMap option mode inst st = Ok st'" and ok: "gemsOK insts tcontMap mode st"
  shows "gemsOK insts tcontMap mode st'"
proof -
  obtain portIDs gems found where st: "st = (portIDs, gems, found)" by (cases st)
  show ?thesis
  proof (cases "ClassID (ikey inst) = GemCtpClassID")
    case True
    obtain portID p where portID: "portID \<le> gemPortLimit mode" "portID \<notin> fst ` set portIDs"
      and built: "buildGEMPort insts tcontMap option inst portID = Ok p"
      and st': "st' = (AList.update portID (EntityID (ikey inst)) portIDs, AList.update (EntityID (ikey inst)) p gems, found @ [p])"
      using step [unfolded addGEMPort_def st prod.case] True
      by (elim class_OkE OkE) (auto simp: map_of_eq_None_iff not_less)
    have p: "gemOK insts tcontMap mode p" "gemEntity p = EntityID (ikey inst)" "gemPortID p = portID"
      using buildGEMPort_ok [OF built portID(1)] by simp_all
    from ok have old: "\<forall>(e, q) \<in> set gems. q \<in> set found \<and> gemEntity q = e" "fst ` set portIDs = gemPortID ` set found"
        "distinct (map gemPortID found)" "list_all (gemOK insts tcontMap mode) found"
      by (simp_all add: gemsOK_def st)
    have "\<forall>(e, q) \<in> set (AList.update (EntityID (ikey inst)) p gems). q \<in> set (found @ [p]) \<and> gemEntity q = e"
      using old(1) p(2) by (auto dest!: set_updateD)
    then show ?thesis using old(2-4) p portID(2) by (simp add: gemsOK_def st')
  qed (use step ok in \<open>auto simp: addGEMPort_def st\<close>)
qed

lemma gems_ok:
  assumes "foldR (addGEMPort insts tcontMap option mode) snapshot ([], [], []) = Ok st"
  shows "gemsOK insts tcontMap mode st"
proof (rule foldR_invariant [OF assms, where P = "gemsOK insts tcontMap mode"])
  show "gemsOK insts tcontMap mode ([], [], [])" by (simp add: gemsOK_def)
qed (rule addGEMPort_ok)

section \<open>Interworking\<close>

definition heldBy :: "('a \<Rightarrow> u16) \<Rightarrow> (u16, 'a) gomap \<Rightarrow> 'a list \<Rightarrow> bool" where
  "heldBy entity m found = (\<forall>(e, x) \<in> set m. x \<in> set found \<and> entity x = e)"

lemma heldBy_add: "heldBy entity m found \<Longrightarrow> entity x = e \<Longrightarrow> heldBy entity (AList.update e x m) (found @ [x])"
  by (auto simp: heldBy_def dest!: set_updateD)

lemma heldBy_lookup: "heldBy entity m found \<Longrightarrow> map_of m e = Some x \<Longrightarrow> x \<in> set found \<and> entity x = e"
  by (auto simp: heldBy_def dest: map_of_SomeD)

definition interworkingOK :: "(u16, GEMPort) gomap \<Rightarrow> collected \<Rightarrow> GEMInterworking \<Rightarrow> bool" where
  "interworkingOK gems c iw = (map_of gems (iwGEMPort iw) \<noteq> None
     \<and> (iwOption iw = 1 \<and> map_of (bridges c) (iwServiceProfile iw) \<noteq> None
        \<or> iwOption iw = 5 \<and> map_of (mappers c) (iwServiceProfile iw) \<noteq> None))"

lemma buildGEMInterworking_ok:
  "buildGEMInterworking inst insts gems (bridges c) (mappers c) = Ok iw \<Longrightarrow>
     interworkingOK gems c iw \<and> iwEntity iw = EntityID (ikey inst)"
  unfolding buildGEMInterworking_def by (elim OkE) (auto simp: interworkingOK_def)

lemma interworking_ok:
  assumes "foldR (addInterworking insts gems c) snapshot ([], []) = Ok (m, found)"
  shows "heldBy iwEntity m found" "list_all (interworkingOK gems c) found" "map iwEntity found = entitiesOf GemIwTpClassID snapshot"
proof -
  have step: "heldBy iwEntity (fst t) (snd t) \<and> list_all (interworkingOK gems c) (snd t)"
    if st: "heldBy iwEntity (fst s) (snd s) \<and> list_all (interworkingOK gems c) (snd s)" "addInterworking insts gems c x s = Ok t" for x s t
    using st by (auto simp: addInterworking_def bindR_eq_Ok split: prod.splits if_splits
        intro!: heldBy_add dest!: buildGEMInterworking_ok)
  have "heldBy iwEntity (fst (m, found)) (snd (m, found)) \<and> list_all (interworkingOK gems c) (snd (m, found))"
    using assms by (rule foldR_invariant) (simp add: heldBy_def, rule step)
  then show "heldBy iwEntity m found" "list_all (interworkingOK gems c) found" by simp_all
  have "map iwEntity (snd t) = map iwEntity (snd s) @ entityIf GemIwTpClassID x" if "addInterworking insts gems c x s = Ok t" for x s t
    using that by (auto simp: addInterworking_def bindR_eq_Ok entityIf_def split: prod.splits if_splits dest: buildGEMInterworking_ok)
  from foldR_appends [OF assms, where g = "\<lambda>s. map iwEntity (snd s)" and h = "entityIf GemIwTpClassID", OF this]
  show "map iwEntity found = entitiesOf GemIwTpClassID snapshot" by (simp add: entitiesOf_concat)
qed

definition multicastOK :: "(u16, GEMPort) gomap \<Rightarrow> MulticastGEMInterworking \<Rightarrow> bool" where
  "multicastOK gems iw = (\<exists>p. map_of gems (mcGEMPort iw) = Some p \<and> gemPortID p = mcPortID iw
     \<and> gemTCONT p = mcTCONT iw \<and> gemAllocID p = mcAllocID iw \<and> gemDirection p AND 1 \<noteq> 0)"

lemma buildMulticastGEMInterworking_ok:
  "buildMulticastGEMInterworking inst insts gems bs ms mode = Ok iw \<Longrightarrow> multicastOK gems iw \<and> mcEntity iw = EntityID (ikey inst)"
  unfolding buildMulticastGEMInterworking_def by (elim OkE) (auto simp: multicastOK_def)

lemma multicast_ok:
  assumes "foldR (addMulticastInterworking insts gems c mode) snapshot ([], []) = Ok (m, found)"
  shows "heldBy mcEntity m found" "list_all (multicastOK gems) found" "map mcEntity found = entitiesOf MulticastGemIwTpClassID snapshot"
    and "fst ` set m = set (entitiesOf MulticastGemIwTpClassID snapshot)"
proof -
  have step: "heldBy mcEntity (fst t) (snd t) \<and> list_all (multicastOK gems) (snd t)"
    if st: "heldBy mcEntity (fst s) (snd s) \<and> list_all (multicastOK gems) (snd s)" "addMulticastInterworking insts gems c mode x s = Ok t" for x s t
    using st by (auto simp: addMulticastInterworking_def bindR_eq_Ok split: prod.splits if_splits
        intro!: heldBy_add dest!: buildMulticastGEMInterworking_ok)
  have "heldBy mcEntity (fst (m, found)) (snd (m, found)) \<and> list_all (multicastOK gems) (snd (m, found))"
    using assms by (rule foldR_invariant) (simp add: heldBy_def, rule step)
  then show "heldBy mcEntity m found" "list_all (multicastOK gems) found" by simp_all
  have "map mcEntity (snd t) = map mcEntity (snd s) @ entityIf MulticastGemIwTpClassID x"
    if "addMulticastInterworking insts gems c mode x s = Ok t" for x s t
    using that by (auto simp: addMulticastInterworking_def bindR_eq_Ok entityIf_def split: prod.splits if_splits
        dest: buildMulticastGEMInterworking_ok)
  from foldR_appends [OF assms, where g = "\<lambda>s. map mcEntity (snd s)" and h = "entityIf MulticastGemIwTpClassID", OF this]
  show "map mcEntity found = entitiesOf MulticastGemIwTpClassID snapshot" by (simp add: entitiesOf_concat)
  have "fst ` set (fst t) = fst ` set (fst s) \<union> set (entityIf MulticastGemIwTpClassID x)"
    if "addMulticastInterworking insts gems c mode x s = Ok t" for x s t
    using that by (clarsimp simp: addMulticastInterworking_def bindR_eq_Ok entityIf_def split: prod.splits if_splits)
  from foldR_unions [OF assms, where g = "\<lambda>s. fst ` set (fst s)" and h = "\<lambda>x. set (entityIf MulticastGemIwTpClassID x)", OF this]
  show "fst ` set m = set (entitiesOf MulticastGemIwTpClassID snapshot)" by (simp add: entitiesOf_concat)
qed

definition mapperOK :: "instances \<Rightarrow> (u16, GEMInterworking) gomap \<Rightarrow> PBitMapper \<Rightarrow> bool" where
  "mapperOK insts interworking m =
     ((mapperTPType m = 0 \<and> mapperTPPointer m = nullPointer
       \<or> mapperTPType m = 1 \<and> hasInstance insts PptpEthernetUniClassID (mapperTPPointer m))
      \<and> (\<forall>pointer \<in> set (PBits m). pointer = nullPointer \<or> (\<exists>iw. map_of interworking pointer = Some iw
           \<and> iwOption iw = 5 \<and> iwServiceProfile iw = mapperEntity m)))"

lemma validateMapper_ok:
  assumes "validateMapper m insts interworking = Ok ()"
  shows "mapperOK insts interworking m"
proof -
  from assms have tp: "mapperTPType m = 0 \<and> mapperTPPointer m = nullPointer
       \<or> mapperTPType m = 1 \<and> hasInstance insts PptpEthernetUniClassID (mapperTPPointer m)"
    and bits: "foldR (validatePBit m interworking) (zip [0..<length (PBits m)] (PBits m)) () = Ok ()"
    by (auto simp: validateMapper_def bindR_eq_Ok split: if_splits)
  have "pointer = nullPointer \<or> (\<exists>iw. map_of interworking pointer = Some iw \<and> iwOption iw = 5 \<and> iwServiceProfile iw = mapperEntity m)"
    if "pointer \<in> set (PBits m)" for pointer
  proof -
    from that obtain i where "i < length (PBits m)" "pointer = PBits m ! i" by (auto simp: in_set_conv_nth)
    then have "(i, pointer) \<in> set (zip [0..<length (PBits m)] (PBits m))" by (auto simp: in_set_zip intro!: exI [of _ i])
    from foldR_unit [OF bits this] show ?thesis
      by (auto simp: validatePBit_def split: if_splits option.splits)
  qed
  with tp show ?thesis by (auto simp: mapperOK_def)
qed

lemma mappers_ok:
  "foldR (\<lambda>mapper _. validateMapper mapper insts interworking) ms () = Ok u \<Longrightarrow> list_all (mapperOK insts interworking) ms"
  by (auto simp: list_all_iff dest: foldR_unit intro: validateMapper_ok)

end
