(* ===== verification/GraphPorts.thy ===== *)
theory GraphPorts
  imports GraphLoops
begin

unbundle bit_operations_syntax

text \<open>
  The loops of \<open>buildServiceGraph\<close> over the bridge ports, the multicast subscribers and the VLAN
  filters and operations.
\<close>

section \<open>Bridge ports\<close>

definition portOK :: "instances \<Rightarrow> (u16, GEMInterworking) gomap \<Rightarrow> (u16, MulticastGEMInterworking) gomap \<Rightarrow> u16
    \<Rightarrow> MACBridgePort \<Rightarrow> bool" where
  "portOK insts interworking multicast bridgeID p =
     (validateBridgePortTP (portEntity p) bridgeID (portTPType p) (portTP p) insts interworking multicast = Ok ()
      \<and> (\<forall>td \<in> {OutboundTD p, InboundTD p}. td = nullPointer \<or> hasInstance insts TrafficDescriptorClassID td))"

lemma buildMACBridgePort_ok:
  "buildMACBridgePort inst number tpType tp = Ok p \<Longrightarrow>
     portEntity p = EntityID (ikey inst) \<and> portNumber p = number \<and> portTPType p = tpType \<and> portTP p = tp"
  unfolding buildMACBridgePort_def by (elim OkE) auto

lemma portTD_ok:
  "validateBridgePortTrafficDescriptorPointer insts port direction p = None \<Longrightarrow>
     p = nullPointer \<or> hasInstance insts TrafficDescriptorClassID p"
  by (auto simp: validateBridgePortTrafficDescriptorPointer_def split: if_splits)

text \<open>One port: the bridge it joins, its number free on that bridge.\<close>

lemma addBridgePort_cases:
  assumes "addBridgePort insts interworking multicast inst (bridgeMap, numbers, bridgePorts) = Ok st'"
  obtains (other) "ClassID (ikey inst) \<noteq> MacBridgePortConfigurationDataClassID" "st' = (bridgeMap, numbers, bridgePorts)"
  | (port) bridgeID bridge p where "ClassID (ikey inst) = MacBridgePortConfigurationDataClassID"
      "map_of bridgeMap bridgeID = Some bridge" "portEntity p = EntityID (ikey inst)"
      "portOK insts interworking multicast bridgeID p"
      "map_of (orZero [] (map_of numbers bridgeID)) (portNumber p) = None"
      "st' = (AList.update bridgeID (bridge\<lparr>Ports := Ports bridge @ [p]\<rparr>) bridgeMap,
         AList.update bridgeID (AList.update (portNumber p) (portEntity p) (orZero [] (map_of numbers bridgeID))) numbers,
         AList.update (portEntity p) p bridgePorts)"
proof (cases "ClassID (ikey inst) = MacBridgePortConfigurationDataClassID")
  case True
  note run = assms [unfolded addBridgePort_def prod.case Let_def]
  show thesis using run True
  proof (elim class_OkE OkE)
    fix bridgeID bridge number tpType tp u p
    assume found: "map_of bridgeMap bridgeID = Some bridge"
      and free: "map_of (orZero [] (map_of numbers bridgeID)) number = None"
      and tp: "validateBridgePortTP (EntityID (ikey inst)) bridgeID tpType tp insts interworking multicast = Ok u"
      and built: "buildMACBridgePort inst number tpType tp = Ok p"
      and td: "validateBridgePortTrafficDescriptorPointer insts (EntityID (ikey inst)) ''outbound'' (OutboundTD p) = None"
        "validateBridgePortTrafficDescriptorPointer insts (EntityID (ikey inst)) ''inbound'' (InboundTD p) = None"
      and st': "Ok (AList.update bridgeID (bridge\<lparr>Ports := Ports bridge @ [p]\<rparr>) bridgeMap,
         AList.update bridgeID (AList.update number (EntityID (ikey inst)) (orZero [] (map_of numbers bridgeID))) numbers,
         AList.update (EntityID (ikey inst)) p bridgePorts) = Ok st'"
    note p = buildMACBridgePort_ok [OF built]
    have ok: "portOK insts interworking multicast bridgeID p"
      using p tp portTD_ok [OF td(1)] portTD_ok [OF td(2)] by (simp add: portOK_def)
    show thesis by (rule port [OF True found _ ok]) (use p free st' in auto)
  qed
qed (use assms other in \<open>simp add: addBridgePort_def\<close>)

definition portsOK :: "instances \<Rightarrow> (u16, GEMInterworking) gomap \<Rightarrow> (u16, MulticastGEMInterworking) gomap \<Rightarrow> u16 set
    \<Rightarrow> portState \<Rightarrow> bool" where
  "portsOK insts interworking multicast known = (\<lambda>(bridgeMap, numbers, bridgePorts).
     gm_wf bridgeMap \<and> fst ` set bridgeMap = known
     \<and> (\<forall>(e, b) \<in> set bridgeMap. bridgeEntity b = e
          \<and> list_all (portOK insts interworking multicast e) (Ports b) \<and> distinct (map portNumber (Ports b))
          \<and> fst ` set (orZero [] (map_of numbers e)) = portNumber ` set (Ports b))
     \<and> (\<forall>(e, p) \<in> set bridgePorts. portEntity p = e \<and> (\<exists>(i, b) \<in> set bridgeMap. p \<in> set (Ports b)))
     \<and> (\<forall>(e, b) \<in> set bridgeMap. \<forall>p \<in> set (Ports b). portEntity p \<in> fst ` set bridgePorts))"

lemma addBridgePort_ok:
  assumes run: "addBridgePort insts interworking multicast inst st = Ok st'" and ok: "portsOK insts interworking multicast known st"
  shows "portsOK insts interworking multicast known st'"
proof -
  obtain bridgeMap numbers bridgePorts where st: "st = (bridgeMap, numbers, bridgePorts)" by (cases st)
  from run [unfolded st] show ?thesis
  proof (cases rule: addBridgePort_cases)
    case other
    then show ?thesis using ok by (simp add: st)
  next
    case (port bridgeID bridge p)
    let ?b = "bridge\<lparr>Ports := Ports bridge @ [p]\<rparr>"
    have wf: "gm_wf bridgeMap" and known: "fst ` set bridgeMap = known"
      and each: "\<And>e b. (e, b) \<in> set bridgeMap \<Longrightarrow> bridgeEntity b = e
          \<and> list_all (portOK insts interworking multicast e) (Ports b) \<and> distinct (map portNumber (Ports b))
          \<and> fst ` set (orZero [] (map_of numbers e)) = portNumber ` set (Ports b)"
      and held: "\<And>e q. (e, q) \<in> set bridgePorts \<Longrightarrow> portEntity q = e \<and> (\<exists>(i, b) \<in> set bridgeMap. q \<in> set (Ports b))"
      and mapped: "\<And>e b q. (e, b) \<in> set bridgeMap \<Longrightarrow> q \<in> set (Ports b) \<Longrightarrow> portEntity q \<in> fst ` set bridgePorts"
      using ok unfolding portsOK_def st prod.case by blast+
    have old: "(bridgeID, bridge) \<in> set bridgeMap" using port(2) by (rule map_of_SomeD)
    then have in_known: "bridgeID \<in> known" using known by force
    let ?map = "AList.update bridgeID ?b bridgeMap"
    let ?numbers = "AList.update bridgeID (AList.update (portNumber p) (portEntity p) (orZero [] (map_of numbers bridgeID))) numbers"
    have members: "(e, b) \<in> set ?map \<longleftrightarrow> e = bridgeID \<and> b = ?b \<or> e \<noteq> bridgeID \<and> (e, b) \<in> set bridgeMap" for e b
      using wf by (auto simp: set_update_wf)
    have free: "portNumber p \<notin> portNumber ` set (Ports bridge)"
      using port(5) each [OF old] by (simp add: map_of_eq_None_iff)
    have each': "bridgeEntity b = e \<and> list_all (portOK insts interworking multicast e) (Ports b) \<and> distinct (map portNumber (Ports b))
          \<and> fst ` set (orZero [] (map_of ?numbers e)) = portNumber ` set (Ports b)" if "(e, b) \<in> set ?map" for e b
    proof (cases "e = bridgeID")
      case True
      with that have b: "b = ?b" by (simp add: members)
      show ?thesis using each [OF old] port(4) free by (simp add: True b update_conv' orZero_def)
    next
      case False
      with that have "(e, b) \<in> set bridgeMap" by (simp add: members)
      from each [OF this] False show ?thesis by (simp add: update_conv')
    qed
    have kept: "\<exists>(i, b) \<in> set ?map. q \<in> set (Ports b)" if ex: "\<exists>(i, b) \<in> set bridgeMap. q \<in> set (Ports b)" for q
    proof -
      from ex obtain i b where ib: "(i, b) \<in> set bridgeMap" "q \<in> set (Ports b)" by blast
      show ?thesis
      proof (cases "i = bridgeID")
        case True
        then have "b = bridge" using ib(1) port(2) wf by (simp add: gm_wf_def)
        then show ?thesis using ib by (intro bexI [of _ "(bridgeID, ?b)"]) simp_all
      next
        case False
        then show ?thesis using ib by (intro bexI [of _ "(i, b)"]) (simp_all add: members)
      qed
    qed
    have new: "\<exists>(i, b) \<in> set ?map. p \<in> set (Ports b)" by (intro bexI [of _ "(bridgeID, ?b)"]) simp_all
    have held': "portEntity q = e \<and> (\<exists>(i, b) \<in> set ?map. q \<in> set (Ports b))"
      if "(e, q) \<in> set (AList.update (portEntity p) p bridgePorts)" for e q
      using set_updateD [OF that] held kept new by blast
    have mapped': "portEntity q \<in> fst ` set (AList.update (portEntity p) p bridgePorts)"
      if "(e, b) \<in> set ?map" "q \<in> set (Ports b)" for e b q
    proof (cases "e = bridgeID")
      case True
      with that have "q = p \<or> q \<in> set (Ports bridge)" by (auto simp: members)
      then show ?thesis unfolding fst_update using mapped [OF old] by blast
    next
      case False
      with that have "(e, b) \<in> set bridgeMap" by (simp add: members)
      then show ?thesis unfolding fst_update using mapped that(2) by blast
    qed
    have maps: "gm_wf ?map" "fst ` set ?map = known" using wf known in_known by (simp_all add: insert_absorb)
    have "\<forall>(e, b) \<in> set ?map. bridgeEntity b = e
          \<and> list_all (portOK insts interworking multicast e) (Ports b) \<and> distinct (map portNumber (Ports b))
          \<and> fst ` set (orZero [] (map_of ?numbers e)) = portNumber ` set (Ports b)" using each' by blast
    moreover have "\<forall>(e, q) \<in> set (AList.update (portEntity p) p bridgePorts). portEntity q = e
        \<and> (\<exists>(i, b) \<in> set ?map. q \<in> set (Ports b))" using held' by blast
    moreover have "\<forall>(e, b) \<in> set ?map. \<forall>q \<in> set (Ports b). portEntity q \<in> fst ` set (AList.update (portEntity p) p bridgePorts)"
      using mapped' by blast
    ultimately show ?thesis unfolding portsOK_def port(6) prod.case by (intro conjI maps)
  qed
qed

lemma ports_ok:
  assumes run: "foldR (addBridgePort insts interworking multicast) snapshot (bridges c, [], []) = Ok (bridgeMap, numbers, bridgePorts)"
    and c: "collectedOK mode c"
  shows "portsOK insts interworking multicast (fst ` set (bridges c)) (bridgeMap, numbers, bridgePorts)"
    and "fst ` set bridgePorts = set (entitiesOf MacBridgePortConfigurationDataClassID snapshot)"
proof -
  have "portsOK insts interworking multicast (fst ` set (bridges c)) (bridges c, [], [])"
    using c by (auto simp: portsOK_def collectedOK_def orZero_def)
  with run show "portsOK insts interworking multicast (fst ` set (bridges c)) (bridgeMap, numbers, bridgePorts)"
    by (rule foldR_invariant) (rule addBridgePort_ok)
  have "fst ` set (snd (snd t)) = fst ` set (snd (snd s)) \<union> set (entityIf MacBridgePortConfigurationDataClassID x)"
    if "addBridgePort insts interworking multicast x s = Ok t" for x s t
    using that by (cases s, simp only:) (erule addBridgePort_cases; simp add: entityIf_def)
  from foldR_unions [OF run, where g = "\<lambda>s. fst ` set (snd (snd s))"
      and h = "\<lambda>x. set (entityIf MacBridgePortConfigurationDataClassID x)", OF this]
  show "fst ` set bridgePorts = set (entitiesOf MacBridgePortConfigurationDataClassID snapshot)" by (simp add: entitiesOf_concat)
qed

section \<open>Subscribers\<close>

definition subscriberOK :: "(u16, MACBridgePort) gomap \<Rightarrow> collected \<Rightarrow> MulticastSubscriberConfigInfo \<Rightarrow> bool" where
  "subscriberOK bridgePorts c s =
     ((subMEType s = 0 \<and> (\<exists>p. map_of bridgePorts (subEntity s) = Some p \<and> portTPType p = 1)
       \<or> subMEType s = 1 \<and> map_of (mappers c) (subEntity s) \<noteq> None)
      \<and> list_all (\<lambda>package. map_of (multicastProfiles c) (packageProfile package) \<noteq> None) (subPackages s)
      \<and> (subPackages s \<noteq> [] \<or> map_of (multicastProfiles c) (subProfile s) \<noteq> None))"

lemma multicastServicePackages_ok:
  assumes "multicastServicePackages inst ps = Ok packages"
  shows "list_all (\<lambda>package. map_of ps (packageProfile package) \<noteq> None) packages"
proof -
  from assms obtain rows result seen where rows: "tableAttributeDefault inst ''MulticastServicePackageTable'' 20 = Ok rows"
    and run: "foldRows 20 (servicePackageRow inst ps) (Rows rows) ([], []) = Ok (result, seen)"
    and packages: "packages = sort_key packageRowKey result"
    by (auto simp: multicastServicePackages_def bindR_eq_Ok)
  have run': "foldR (servicePackageRow inst ps) (chunks 20 (Rows rows)) ([], []) = Ok (result, seen)"
    using run foldRows_table [OF rows, of "servicePackageRow inst ps" "([], [])"] by simp
  have "list_all (\<lambda>package. map_of ps (packageProfile package) \<noteq> None) (fst (result, seen))"
    by (rule foldR_invariant [OF run', where P = "\<lambda>st. list_all (\<lambda>package. map_of ps (packageProfile package) \<noteq> None) (fst st)"])
      (auto simp: servicePackageRow_def Let_def split: prod.splits if_splits)
  then show ?thesis by (simp add: packages list_all_iff)
qed

lemma subscriberTarget_ok:
  "subscriberTarget inst meType bridgePorts ms = None \<Longrightarrow>
     meType = 0 \<and> (\<exists>p. map_of bridgePorts (EntityID (ikey inst)) = Some p \<and> portTPType p = 1)
     \<or> meType = 1 \<and> map_of ms (EntityID (ikey inst)) \<noteq> None"
  by (auto simp: subscriberTarget_def split: if_splits option.splits)

lemma buildMulticastSubscriber_ok:
  "buildMulticastSubscriber inst bridgePorts (mappers c) (multicastProfiles c) = Ok s \<Longrightarrow> subscriberOK bridgePorts c s"
  unfolding buildMulticastSubscriber_def
  by (elim OkE) (auto simp: subscriberOK_def dest: subscriberTarget_ok multicastServicePackages_ok)

lemma subscribers_ok:
  assumes "foldR (addSubscriber bridgePorts c) snapshot [] = Ok found"
  shows "list_all (subscriberOK bridgePorts c) found"
proof (rule foldR_invariant [OF assms, where P = "list_all (subscriberOK bridgePorts c)"])
  show "list_all (subscriberOK bridgePorts c) t"
    if "addSubscriber bridgePorts c x s = Ok t" "list_all (subscriberOK bridgePorts c) s" for x s t
    using that by (auto simp: addSubscriber_def bindR_eq_Ok split: if_splits dest: buildMulticastSubscriber_ok)
qed simp

section \<open>VLAN filters and operations\<close>

definition targetOf :: "VLANOperation \<Rightarrow> Key" where
  "targetOf v = Key (vopAssociatedClass v) (vopAssociatedME v)"

definition extTargetOf :: "ExtendedVLAN \<Rightarrow> Key" where
  "extTargetOf v = Key (extAssociatedClass v) (extAssociatedME v)"

definition targetClasses :: "u16 set" where
  "targetClasses = {PptpEthernetUniClassID, MapperClassID, MacBridgePortConfigurationDataClassID, GemIwTpClassID}"

definition targetOK :: "instances \<Rightarrow> Key \<Rightarrow> bool" where
  "targetOK insts key = (ClassID key \<in> targetClasses \<and> hasInstance insts (ClassID key) (EntityID key))"

lemma buildVLANFilter_ok:
  "buildVLANFilter inst bridgePorts = Ok f \<Longrightarrow> map_of bridgePorts (filterBridgePort f) \<noteq> None"
  unfolding buildVLANFilter_def by (elim OkE) (auto split: prod.splits)

lemma buildVLANOperation_ok: "buildVLANOperation inst insts = Ok v \<Longrightarrow> targetOK insts (targetOf v)"
  unfolding buildVLANOperation_def
  by (elim OkE) (auto simp: targetOK_def targetOf_def targetClasses_def vlanOperationTarget_def split: if_splits)

lemma buildExtendedVLAN_ok: "buildExtendedVLAN inst insts = Ok v \<Longrightarrow> targetOK insts (extTargetOf v)"
  unfolding buildExtendedVLAN_def
  by (elim OkE) (auto simp: targetOK_def extTargetOf_def targetClasses_def extendedVLANTarget_def split: if_splits)

lemma claimTarget_ok:
  "claimTarget key e taken = Ok taken' \<Longrightarrow> key \<notin> fst ` set taken \<and> fst ` set taken' = insert key (fst ` set taken)"
  by (clarsimp simp: claimTarget_def map_of_eq_None_iff split: option.splits)

definition vlansOK :: "instances \<Rightarrow> (u16, MACBridgePort) gomap \<Rightarrow> vlanState \<Rightarrow> bool" where
  "vlansOK insts bridgePorts v =
     (list_all (\<lambda>f. map_of bridgePorts (filterBridgePort f) \<noteq> None) (foundFilters v)
      \<and> list_all (targetOK insts) (map targetOf (foundOperations v) @ map extTargetOf (foundExtended v))
      \<and> distinct (map targetOf (foundOperations v) @ map extTargetOf (foundExtended v))
      \<and> fst ` set (associations v) = set (map targetOf (foundOperations v) @ map extTargetOf (foundExtended v)))"

lemma addVLAN_ok:
  assumes run: "addVLAN insts bridgePorts inst v = Ok v'" and ok: "vlansOK insts bridgePorts v"
  shows "vlansOK insts bridgePorts v'"
proof -
  let ?k = "ClassID (ikey inst)"
  note def = run [unfolded addVLAN_def]
  consider "?k = VlanTaggingFilterDataClassID" | "?k = VlanTaggingOperationClassID" | "?k = ExtendedVlanClassID"
    | "?k \<notin> {VlanTaggingFilterDataClassID, VlanTaggingOperationClassID, ExtendedVlanClassID}" by auto
  then show ?thesis
  proof cases
    case 1
    then have "bindR (buildVLANFilter inst bridgePorts) (\<lambda>f. Ok (v\<lparr>foundFilters := foundFilters v @ [f]\<rparr>)) = Ok v'"
      using def by simp
    then obtain f where "buildVLANFilter inst bridgePorts = Ok f" "v' = v\<lparr>foundFilters := foundFilters v @ [f]\<rparr>"
      by (elim OkE) simp
    then show ?thesis using ok buildVLANFilter_ok by (simp add: vlansOK_def)
  next
    case 2
    then have "bindR (buildVLANOperation inst insts) (\<lambda>op. bindR (claimTarget (targetOf op) (vopEntity op) (associations v))
        (\<lambda>taken. Ok (v\<lparr>associations := taken, foundOperations := foundOperations v @ [op]\<rparr>))) = Ok v'"
      using def by (simp add: targetOf_def)
    then obtain op taken where o: "buildVLANOperation inst insts = Ok op"
        "claimTarget (targetOf op) (vopEntity op) (associations v) = Ok taken"
        "v' = v\<lparr>associations := taken, foundOperations := foundOperations v @ [op]\<rparr>"
      by (elim OkE) simp
    show ?thesis using ok buildVLANOperation_ok [OF o(1)] claimTarget_ok [OF o(2)] by (simp add: vlansOK_def o(3))
  next
    case 3
    then have "bindR (buildExtendedVLAN inst insts) (\<lambda>ext. bindR (claimTarget (extTargetOf ext) (extEntity ext) (associations v))
        (\<lambda>taken. Ok (v\<lparr>associations := taken, foundExtended := foundExtended v @ [ext]\<rparr>))) = Ok v'"
      using def by (simp add: extTargetOf_def)
    then obtain ext taken where x: "buildExtendedVLAN inst insts = Ok ext"
        "claimTarget (extTargetOf ext) (extEntity ext) (associations v) = Ok taken"
        "v' = v\<lparr>associations := taken, foundExtended := foundExtended v @ [ext]\<rparr>"
      by (elim OkE) simp
    show ?thesis using ok buildExtendedVLAN_ok [OF x(1)] claimTarget_ok [OF x(2)] by (simp add: vlansOK_def x(3))
  next
    case 4
    then have "v' = v" using def by simp
    with ok show ?thesis by simp
  qed
qed

lemma vlans_ok:
  assumes "foldR (addVLAN insts bridgePorts) snapshot
      \<lparr> associations = [], foundFilters = [], foundOperations = [], foundExtended = [] \<rparr> = Ok v"
  shows "vlansOK insts bridgePorts v"
proof (rule foldR_invariant [OF assms, where P = "vlansOK insts bridgePorts"])
  show "vlansOK insts bridgePorts \<lparr> associations = [], foundFilters = [], foundOperations = [], foundExtended = [] \<rparr>"
    by (simp add: vlansOK_def)
qed (rule addVLAN_ok)

end
