(* ===== verification/GraphProofs.thy ===== *)
theory GraphProofs
  imports GraphPorts
begin

unbundle bit_operations_syntax




section \<open>Every instance that is referred to is in the graph\<close>

definition coveredGraph :: "Instance list \<Rightarrow> ServiceGraph \<Rightarrow> bool" where
  "coveredGraph snapshot g \<longleftrightarrow>
     uniEntity ` set (UNIs g) = set (entitiesOf PptpEthernetUniClassID snapshot)
   \<and> tcontEntity ` set (TCONTs g) = set (entitiesOf TContClassID snapshot)
   \<and> tdEntity ` set (TrafficDescs g) = set (entitiesOf TrafficDescriptorClassID snapshot)
   \<and> mapperEntity ` set (Mappers g) = set (entitiesOf MapperClassID snapshot)
   \<and> bridgeEntity ` set (Bridges g) = set (entitiesOf MacBridgeServiceProfileClassID snapshot)
   \<and> opEntity ` set (MulticastProfiles g) = set (entitiesOf MulticastOperationsProfileClassID snapshot)
   \<and> iwEntity ` set (Interworking g) = set (entitiesOf GemIwTpClassID snapshot)
   \<and> mcEntity ` set (MulticastInterworking g) = set (entitiesOf MulticastGemIwTpClassID snapshot)
   \<and> portEntity ` allPorts g = set (entitiesOf MacBridgePortConfigurationDataClassID snapshot)"

lemma covered_sort [simp]: "coveredGraph snapshot (sortServiceGraph g) = coveredGraph snapshot g"
  by (simp add: coveredGraph_def allPorts_def)

text \<open>The ports of the bridges of a graph that was built, and the map the later loops look ports up in.\<close>

definition sortedBridge :: "u16 \<times> MACBridge \<Rightarrow> MACBridge" where
  "sortedBridge = (\<lambda>(bridgeID, bridge). bridge\<lparr>Ports := sort_key portNumber (Ports bridge)\<rparr>)"

lemma sortedBridge_simps [simp]:
  "bridgeEntity (sortedBridge p) = bridgeEntity (snd p)" "set (Ports (sortedBridge p)) = set (Ports (snd p))"
  "distinct (map portNumber (Ports (sortedBridge p))) = distinct (map portNumber (Ports (snd p)))"
  by (simp_all add: sortedBridge_def distinct_sort_key split: prod.split)


section \<open>What a successful run establishes\<close>

text \<open>The checks each element passed, in terms of the maps the code looked it up in.\<close>

definition checkedGraph :: "string \<Rightarrow> ServiceGraph \<Rightarrow> instances \<Rightarrow> collected \<Rightarrow> (u16, GEMPort) gomap
    \<Rightarrow> (u16, GEMInterworking) gomap \<Rightarrow> (u16, MulticastGEMInterworking) gomap \<Rightarrow> (u16, MACBridgePort) gomap \<Rightarrow> bool" where
  "checkedGraph mode g insts c gems interworking multicast bridgePorts \<longleftrightarrow>
     list_all (gemOK insts (tconts c) mode) (GEMPorts g) \<and> list_all (interworkingOK gems c) (Interworking g)
   \<and> list_all (multicastOK gems) (MulticastInterworking g) \<and> list_all (mapperOK insts interworking) (Mappers g)
   \<and> list_all (\<lambda>b. list_all (portOK insts interworking multicast (bridgeEntity b)) (Ports b)) (Bridges g)
   \<and> list_all (subscriberOK bridgePorts c) (MulticastSubscribers g)
   \<and> list_all (\<lambda>f. map_of bridgePorts (filterBridgePort f) \<noteq> None) (VLANFilters g)
   \<and> list_all (\<lambda>v. targetOK insts (targetOf v)) (VLANOperations g)
   \<and> list_all (\<lambda>v. targetOK insts (extTargetOf v)) (ExtendedVLANs g)
   \<and> list_all (limiterOK insts) (Dot1RateLimiters g)"

text \<open>The maps hold the elements of the graph.\<close>

definition mappedGraph :: "ServiceGraph \<Rightarrow> collected \<Rightarrow> (u16, GEMPort) gomap
    \<Rightarrow> (u16, GEMInterworking) gomap \<Rightarrow> (u16, MulticastGEMInterworking) gomap \<Rightarrow> (u16, MACBridgePort) gomap \<Rightarrow> bool" where
  "mappedGraph g c gems interworking multicast bridgePorts \<longleftrightarrow>
     (\<forall>e t. map_of (tconts c) e = Some t \<longrightarrow> (e, tcontAllocID t) \<in> sameTCONT ` set (TCONTs g))
   \<and> (\<forall>e p. map_of gems e = Some p \<longrightarrow> p \<in> set (GEMPorts g) \<and> gemEntity p = e)
   \<and> (\<forall>e iw. map_of interworking e = Some iw \<longrightarrow> iw \<in> set (Interworking g) \<and> iwEntity iw = e)
   \<and> (\<forall>e iw. map_of multicast e = Some iw \<longrightarrow> iw \<in> set (MulticastInterworking g) \<and> mcEntity iw = e)
   \<and> fst ` set multicast = mcEntity ` set (MulticastInterworking g)
   \<and> (\<forall>e p. map_of bridgePorts e = Some p \<longrightarrow> p \<in> allPorts g \<and> portEntity p = e)
   \<and> (\<forall>e. map_of (bridges c) e \<noteq> None \<longrightarrow> e \<in> bridgeEntity ` set (Bridges g))
   \<and> (\<forall>e. map_of (mappers c) e \<noteq> None \<longrightarrow> e \<in> mapperEntity ` set (Mappers g))
   \<and> (\<forall>e. map_of (multicastProfiles c) e \<noteq> None \<longrightarrow> e \<in> opEntity ` set (MulticastProfiles g))"

lemma checked_sort [simp]:
  "checkedGraph mode (sortServiceGraph g) insts c gems iws mcs ps = checkedGraph mode g insts c gems iws mcs ps"
  "mappedGraph (sortServiceGraph g) c gems iws mcs ps = mappedGraph g c gems iws mcs ps"
  by (simp_all add: checkedGraph_def mappedGraph_def allPorts_def list_all_iff)





section \<open>From the checks to the contract\<close>




section \<open>The remaining lists\<close>






section \<open>Every instance is in the graph\<close>





section \<open>What a run establishes\<close>



section \<open>Property\<close>

text \<open>
  A bridged service: a T-CONT with one GEM port, whose interworking termination point and an Ethernet
  UNI are ports of one bridge.
\<close>

definition sampleServices :: "Instance list" where
  "sampleServices = map (\<lambda>(k, e, attrs). \<lparr> ikey = Key k e, Attributes = attrs, Origin = OriginOLT \<rparr>)
     [(OnuGClassID, 0, [(''TrafficManagementOption'', VU8 1)]),
      (PptpEthernetUniClassID, 0x0101, []),
      (TContClassID, 0x8000, [(''AllocId'', VU16 1024), (''Policy'', VU8 1)]),
      (GalEthernetProfileClassID, 1, [(''MaximumGemPayloadSize'', VU16 48)]),
      (GemCtpClassID, 2, [(''PortId'', VU16 1025), (''TContPointer'', VU16 0x8000), (''Direction'', VU8 3),
         (''TrafficManagementPointerForUpstream'', VU16 0x8000), (''PriorityQueuePointerForDownStream'', VU16 0xffff)]),
      (MacBridgeServiceProfileClassID, 1, []),
      (GemIwTpClassID, 3, [(''GemPortNetworkCtpConnectivityPointer'', VU16 2), (''InterworkingOption'', VU8 1),
         (''ServiceProfilePointer'', VU16 1), (''InterworkingTerminationPointPointer'', VU16 0), (''GalProfilePointer'', VU16 1)]),
      (MacBridgePortConfigurationDataClassID, 5, [(''BridgeIdPointer'', VU16 1), (''PortNum'', VU8 2), (''TpType'', VU8 5),
         (''TpPointer'', VU16 3)]),
      (MacBridgePortConfigurationDataClassID, 4, [(''BridgeIdPointer'', VU16 1), (''PortNum'', VU8 1), (''TpType'', VU8 1),
         (''TpPointer'', VU16 0x0101)])]"

lemma sampleServices_accepted:
  "case buildServiceGraph sampleServices GPON False of
     Ok g \<Rightarrow> map portEntity (concat (map Ports (Bridges g))) = [4, 5] \<and> map gemAllocID (GEMPorts g) = [1024]
   | _ \<Rightarrow> False"
  by code_simp


end
