(* ===== verification/GraphPolicy.thy ===== *)
theory GraphPolicy
  imports GraphService
begin

unbundle bit_operations_syntax

text \<open>
  From the service graph to the multicast policy (src/internal/platform/multicast.go): the profiles
  with their access control lists, and the subscribers with their attachments to Ethernet UNIs. The
  pointer \<open>*PBitMapper\<close> found by a loop is the first element of the list with the entity identifier.
\<close>

section \<open>Access control lists\<close>

definition parseText :: "string \<Rightarrow> go_arg list \<Rightarrow> addrText \<Rightarrow> (go_error, Addr) outcome" where
  "parseText format args text = mapErr (\<lambda>e. Errorf format (args @ [AErr e])) (ParseAddr text)"

definition convertMulticastACL :: "u16 \<Rightarrow> string \<Rightarrow> MulticastACLEntry list \<Rightarrow> (go_error, ACLEntry list) outcome" where
  "convertMulticastACL profileID kind entries =
     foldR (\<lambda>source result.
       let args = [AU profileID, AStr kind, AU (aclRowKey source)] in
       bindR (parseText ''multicast profile %#x %s ACL row %d source: %w'' args (aclSource source)) (\<lambda>sourceAddress.
       bindR (parseText ''multicast profile %#x %s ACL row %d start: %w'' args (aclStart source)) (\<lambda>startAddress.
       bindR (parseText ''multicast profile %#x %s ACL row %d stop: %w'' args (aclStop source)) (\<lambda>stopAddress.
       Ok (result @ [\<lparr> RowKey = aclRowKey source, IPVersion = aclIPVersion source,
         AclGEMPortID = aclGEMPortID source, VLANID = aclVLANID source, AclSource = sourceAddress,
         Start = startAddress, Stop = stopAddress, AclBandwidth = aclBandwidth source,
         PreviewLength = aclPreviewLength source, PreviewRepeatTime = aclRepeatTime source,
         PreviewRepeatCount = aclRepeatCount source, PreviewResetTime = aclResetTime source \<rparr>]))))) entries []"

definition convertProfile :: "MulticastOperationsProfile \<Rightarrow> Profile list \<Rightarrow> (go_error, Profile list) outcome" where
  "convertProfile source result =
     bindR (convertMulticastACL (opEntity source) ''dynamic'' (opDynamicACL source)) (\<lambda>dynamicACL.
     bindR (convertMulticastACL (opEntity source) ''static'' (opStaticACL source)) (\<lambda>staticACL.
     Ok (result @ [\<lparr> ProfileEntity = opEntity source, IGMPVersion = opIGMPVersion source,
       IGMPFunction = opIGMPFunction source, ImmediateLeave = (opImmediateLeave source \<noteq> 0),
       UpstreamTCI = opUpstreamTCI source, UpstreamTagControl = opUpstreamTagControl source,
       UpstreamRate = opUpstreamRate source, Robustness = opRobustness source,
       QuerierIPAddress = opQuerierIPAddress source, QueryInterval = opQueryInterval source,
       QueryMaxResponseTime = opQueryMaxResponseTime source,
       LastMemberQueryInterval = opLastMemberQueryInterval source,
       UnauthorizedJoinBehaviour = (opUnauthorizedJoin source \<noteq> 0),
       DownstreamTagControl = opDownstreamTagControl source, DownstreamTCI = opDownstreamTCI source,
       DynamicACL = dynamicACL, StaticACL = staticACL \<rparr>])))"

section \<open>Attachments\<close>

abbreviation (input) attachErr :: "MulticastSubscriberConfigInfo \<Rightarrow> string \<Rightarrow> go_arg list \<Rightarrow> go_error" where
  "attachErr source what args \<equiv> Errorf (''multicast subscriber %#x '' @ what) ([AU (subEntity source)] @ args)"

definition addBridgeUNI :: "(u16, string) gomap \<Rightarrow> MulticastSubscriberConfigInfo \<Rightarrow> MACBridge \<Rightarrow> MACBridgePort
    \<Rightarrow> Attachment list \<Rightarrow> (go_error, Attachment list) outcome" where
  "addBridgeUNI unis source bridge port attachments =
     (case map_of unis (portTP port) of
        None \<Rightarrow> Err (attachErr source ''bridge port %#x references missing UNI %#x'' [AU (portEntity port), AU (portTP port)])
      | Some ifname \<Rightarrow> Ok (attachments @ [\<lparr> Interface = ifname, BridgeEntity = bridgeEntity bridge,
          BridgePortEntity = portEntity port, DirectMapper = None \<rparr>]))"

text \<open>The ports of a bridge that satisfy a condition, each attached to its UNI.\<close>

definition attachPorts :: "(u16, string) gomap \<Rightarrow> MulticastSubscriberConfigInfo \<Rightarrow> (MACBridgePort \<Rightarrow> bool)
    \<Rightarrow> MACBridge \<Rightarrow> Attachment list \<Rightarrow> (go_error, Attachment list) outcome" where
  "attachPorts unis source selected bridge =
     foldR (\<lambda>port attachments. if selected port then addBridgeUNI unis source bridge port attachments
                               else Ok attachments) (Ports bridge)"

definition mapperAssociated :: "PBitMapper \<Rightarrow> MACBridge \<Rightarrow> bool" where
  "mapperAssociated mapper bridge =
     (if mapperTPType mapper = 0
      then list_ex (\<lambda>port. portTPType port = 3 \<and> portTP port = mapperEntity mapper) (Ports bridge)
      else mapperTPType mapper = 1)"

text \<open>\<open>directMulticastMapper\<close>: the GEM port of each P-bit, 0xffff where the mapper has none.\<close>

definition directGEMPort :: "ServiceGraph \<Rightarrow> PBitMapper \<Rightarrow> nat \<Rightarrow> (go_error, u16) outcome" where
  "directGEMPort g mapper priority =
     (let pointer = PBits mapper ! priority in
      if pointer = 0xffff then Ok 0xffff
      else
        case find (\<lambda>iw. iwEntity iw = pointer) (Interworking g) of
          None \<Rightarrow> Err (Errorf ''P-bit %d references invalid GEM IW TP %#x'' [AN priority, AU pointer])
        | Some iw \<Rightarrow>
            if iwOption iw \<noteq> 5 \<or> iwServiceProfile iw \<noteq> mapperEntity mapper
            then Err (Errorf ''P-bit %d references invalid GEM IW TP %#x'' [AN priority, AU pointer])
            else case find (\<lambda>gem. gemEntity gem = iwGEMPort iw) (GEMPorts g) of
              None \<Rightarrow> Err (Errorf ''P-bit %d GEM IW TP %#x references missing GEM CTP %#x''
                  [AN priority, AU pointer, AU (iwGEMPort iw)])
            | Some gem \<Rightarrow>
                if gemDirection gem AND 2 = 0
                then Err (Errorf ''P-bit %d GEM %d has no upstream direction'' [AN priority, AU (gemPortID gem)])
                else Ok (gemPortID gem))"

definition directMulticastMapper :: "ServiceGraph \<Rightarrow> PBitMapper \<Rightarrow> (go_error, UpstreamMapper) outcome" where
  "directMulticastMapper g mapper =
     bindR (foldR (\<lambda>priority ports. bindR (directGEMPort g mapper priority) (\<lambda>p. Ok (ports @ [p]))) [0..<8] []) (\<lambda>ports.
     Ok \<lparr> GEMPortIDs = ports, UnmarkedFrameOption = mapperUnmarked mapper,
          DefaultPBit = mapperDefaultPBit mapper, DSCPToPBit = mapperDSCP mapper \<rparr>)"

definition directAttachment :: "ServiceGraph \<Rightarrow> (u16, string) gomap \<Rightarrow> MulticastSubscriberConfigInfo
    \<Rightarrow> PBitMapper \<Rightarrow> (go_error, Attachment list) outcome" where
  "directAttachment g unis source mapper =
     (case map_of unis (mapperTPPointer mapper) of
        None \<Rightarrow> Err (attachErr source ''mapper references missing UNI %#x'' [AU (mapperTPPointer mapper)])
      | Some ifname \<Rightarrow>
          bindR (mapErr (\<lambda>e. attachErr source ''direct mapper: %w'' [AErr e]) (directMulticastMapper g mapper)) (\<lambda>upstream.
          Ok [\<lparr> Interface = ifname, BridgeEntity = 0, BridgePortEntity = 0, DirectMapper = Some upstream \<rparr>]))"

definition mapperAttachments :: "ServiceGraph \<Rightarrow> (u16, string) gomap \<Rightarrow> MulticastSubscriberConfigInfo
    \<Rightarrow> (go_error, Attachment list) outcome" where
  "mapperAttachments g unis source =
     (case find (\<lambda>m. mapperEntity m = subEntity source) (Mappers g) of
        None \<Rightarrow> Err (attachErr source ''references missing mapper'' [])
      | Some mapper \<Rightarrow>
          bindR (foldR (\<lambda>bridge attachments.
                   if mapperAssociated mapper bridge
                   then attachPorts unis source (\<lambda>port. portTPType port = 1 \<and>
                          (mapperTPType mapper = 0 \<or> portTP port = mapperTPPointer mapper)) bridge attachments
                   else Ok attachments) (Bridges g) []) (\<lambda>attachments.
          if attachments = [] \<and> mapperTPType mapper = 1 then directAttachment g unis source mapper
          else Ok attachments))"

definition multicastAttachments :: "ServiceGraph \<Rightarrow> MulticastSubscriberConfigInfo \<Rightarrow> (go_error, Attachment list) outcome" where
  "multicastAttachments g source =
     (let unis = foldl (\<lambda>m uni. AList.update (uniEntity uni) (uniInterface uni) m) [] (UNIs g) in
      bindR
        (if subMEType source = 0 then
           foldR (attachPorts unis source (\<lambda>port. portEntity port = subEntity source \<and> portTPType port = 1)) (Bridges g) []
         else if subMEType source = 1 then mapperAttachments g unis source
         else Err (attachErr source ''has invalid ME type %d'' [AU (subMEType source)])) (\<lambda>attachments.
      if attachments = []
      then Err (attachErr source ''has no Ethernet UNI attachment'' [])
      else Ok (sort_key (\<lambda>a. (BridgeEntity a, BridgePortEntity a, map (of_char :: char \<Rightarrow> nat) (Interface a))) attachments)))"

section \<open>The policy\<close>

definition convertPreview :: "MulticastSubscriberConfigInfo \<Rightarrow> AllowedPreviewGroup \<Rightarrow> AllowedPreview list
    \<Rightarrow> (go_error, AllowedPreview list) outcome" where
  "convertPreview source preview result =
     (let args = [AU (subEntity source), AU (groupRowKey preview)] in
      bindR (parseText ''multicast subscriber %#x preview row %d source: %w'' args (groupSource preview)) (\<lambda>sourceAddress.
      bindR (parseText ''multicast subscriber %#x preview row %d destination: %w'' args (groupDestination preview)) (\<lambda>destination.
      Ok (result @ [\<lparr> PreviewRow = groupRowKey preview, PreviewSource = sourceAddress,
        PreviewDestination = destination, PreviewANI = groupANIVLAN preview, PreviewUNI = groupUNIVLAN preview,
        PreviewDuration = groupDuration preview, PreviewTimeLeft = groupTimeLeft preview \<rparr>]))))"

definition convertPackage :: "MulticastServicePackage \<Rightarrow> ServicePackage" where
  "convertPackage service =
     \<lparr> ServiceRow = packageRowKey service, ServiceVLAN = packageVLANID service,
       ServiceMaxGroups = packageMaxGroups service, ServiceMaxBandwidth = packageMaxBandwidth service,
       OperationsProfile = packageProfile service \<rparr>"

definition convertSubscriber :: "ServiceGraph \<Rightarrow> MulticastSubscriberConfigInfo \<Rightarrow> Subscriber list
    \<Rightarrow> (go_error, Subscriber list) outcome" where
  "convertSubscriber g source result =
     bindR (multicastAttachments g source) (\<lambda>attachments.
     bindR (foldR (convertPreview source) (subPreviews source) []) (\<lambda>previews.
     Ok (result @ [\<lparr> SubscriberEntity = subEntity source, Attachments = attachments,
       SubscriberProfile = subProfile source, MaxSimultaneousGroups = subMaxGroups source,
       MaxMulticastBandwidth = subMaxBandwidth source, BandwidthEnforcement = (subEnforcement source \<noteq> 0),
       ServicePackages = map convertPackage (subPackages source), AllowedPreviews = previews \<rparr>])))"

definition MulticastPolicy :: "ServiceGraph \<Rightarrow> (go_error, Config) outcome" where
  "MulticastPolicy g =
     bindR (foldR convertProfile (MulticastProfiles g) []) (\<lambda>converted.
     bindR (foldR (convertSubscriber g) (MulticastSubscribers g) []) (\<lambda>found.
     Ok \<lparr> Profiles = converted, Subscribers = found \<rparr>))"

end
