(* ===== verification/Spec2Isabelle.thy ===== *)
theory Spec2Isabelle
  imports Vlan Transport Transaction MibStateProofs McRoundTrip McPolicyProofs SoftwareDelivery EngContract EngUploadProofs McTracked McRangeProofs GraphProofs GraphPolicy
begin

text \<open>
  Verification of airoha-omci, the OMCI daemon of an optical network unit (Go sources under
  src/internal and src/cmd).

  \<^bold>\<open>The program.\<close> The OLT manages the ONU over the OMCI channel. A transport (package
  \<open>transport\<close>) delivers frames, the dispatcher (package \<open>transaction\<close>) queues them and hands
  them one at a time to the engine (package \<open>engine\<close>). The engine validates and decodes each frame,
  answers a retransmission from memory, and carries the request out on the MIB store (package
  \<open>mib\<close>); the store hands every candidate MIB to the platform, which configures the hardware,
  before it commits it. The platform (package \<open>platform\<close>) resolves a MIB to a service graph and
  derives from it the multicast configuration. The tables of the MIB carry VLAN rules (package
  \<open>vlan\<close>) and multicast policy. A second daemon snoops the membership reports of the subscribers
  (package \<open>multicast\<close>): it parses their frames, admits streams by the policy, switches their
  replication, and reports to the OLT as a proxy. The engine also supervises alarms, optical levels
  and performance counters, and takes software images (packages \<open>software\<close>, \<open>checksum\<close>).

  \<^bold>\<open>Conventions.\<close> \<open>Prelude\<close> holds the Go side of the models. Fallible code returns an
  \<open>outcome\<close>: a value, an error, or \<open>Panic\<close> for an index or slice out of range. Errors are
  \<open>go_error\<close>s: a format with its arguments, or an OMCI result error. Maps are association lists
  without duplicate keys (\<open>gm_wf\<close>), loops are folds that stop at an error (\<open>foldR\<close>, \<open>foldRows\<close> over
  fixed-width rows), integers are words of their width. Exported methods run under a mutex, so each is
  one step on its record. The world outside (platform, backend, clock, sink) is a state \<open>'w\<close> and the
  interfaces are records of functions on it, arguments of the model. State passing in the engine and in
  the multicast runtime goes through combinators (\<open>bindE\<close>, \<open>bindM\<close>) with weakest-precondition rules
  (collections \<open>wpE\<close>, \<open>wpM\<close>) and rules for kept properties (\<open>keepsE\<close>, \<open>keepsM\<close>).

  \<^bold>\<open>Lower layers.\<close>
  \<^item> \<open>Vlan\<close> (src/internal/vlan/rule.go): \<open>ParseRow\<close>, \<open>ParseRows\<close>, \<open>DecodeDSCPMapping\<close>.
  \<^item> \<open>Transport\<close> (src/internal/transport/device.go, transport.go): \<open>parseDeviceInfo\<close>,
    \<open>decodeDeviceRX\<close>, \<open>encodeDeviceTX\<close>.
  \<^item> \<open>Transaction\<close> (src/internal/transaction/dispatcher.go): the queue with two service classes and
    the dispatcher goroutine, a step relation whose events are the communications on its channels
    (ingress, reset, delivery). The locales state the contract of a service queue; the
    interpretation \<open>fq\<close> discharges it for the code's queue.
  \<^item> \<open>Checksum\<close> (src/internal/checksum/crc32a.go): the CRC octet by octet, and that it is the fold of
    \<open>crcStep\<close> over the bits of the message.

  \<^bold>\<open>The MIB.\<close>
  \<^item> \<open>MeLib\<close>: the managed-entity definitions of the vendored package \<open>generated\<close> as a parameter
    \<open>classes\<close> and, translated from the vendored source, the functions on them that the store calls.
  \<^item> \<open>RowTable\<close>: the refinement of row tables to finite maps, once for all tables (locale
    \<open>row_policy\<close>: how a committed row is read back and how an update row edits the map).
  \<^item> \<open>MibTable\<close>, \<open>MibTableProofs\<close> (src/internal/mib/table.go): the tables a SetTable writes, with one
    interpretation of \<open>row_policy\<close> for each table.
  \<^item> \<open>MibStore\<close>, \<open>MibStoreProofs\<close> (src/internal/mib/store.go and the store operations of table.go):
    the store record, its construction and its operations. \<open>exec\<close> runs any of the nine operations,
    \<open>store_inv\<close> is the invariant.
  \<^item> \<open>MibSample\<close>: library definitions of four classes and a factory MIB, on which the witnesses run.
  \<^item> \<open>MibContract\<close>: the properties of the store.
  \<^item> \<open>MibState\<close>, \<open>MibStateProofs\<close> (src/internal/mib/state.go): the persisted document, its export,
    and the store built from a document of unknown origin.

  \<^bold>\<open>The engine.\<close>
  \<^item> \<open>PmCounters\<close> (src/internal/performance/performance.go and the counter arithmetic of
    engine/performance.go); \<open>EngTypes\<close>: the engine record, requests, responses and interfaces;
    \<open>EngLogic\<close>: the logic of its methods; \<open>EngRules\<close>: what it knows of the classes.
  \<^item> \<open>EngNotify\<close> (notifications.go, arc.go), \<open>EngOptical\<close> (optical.go, src/internal/optical),
    \<open>EngThreshold\<close> (performance_threshold.go), \<open>EngPerformance\<close> (performance.go),
    \<open>EngCapability\<close> (capability.go), \<open>EngMulticast\<close> (multicast.go), \<open>EngOnu3\<close> (onu3.go,
    src/internal/onu3), \<open>Software\<close> (software.go): the services.
  \<^item> \<open>EngUpload\<close>, \<open>EngCore\<close>, \<open>EngDispatch\<close>, \<open>EngFrame\<close> (engine.go): the upload, the handlers of the
    requests, their dispatch, and \<open>HandleFrame\<close> from a frame to its response. The codec of the library
    is the parameter \<open>OmciLib\<close>.
  \<^item> \<open>EngClient\<close>: the locale \<open>engine_client\<close>, the interface between the engine and the store: a
    property that the store's operations keep is kept by every event (\<open>engineRun\<close>).
    \<open>EngContract\<close> interprets it for the store invariant and for a remembered response.
  \<^item> \<open>EngSample\<close>: an engine for the witnesses. \<open>EngServices\<close>, \<open>EngUploadProofs\<close>: what the
    services compute. \<open>SoftwareProofs\<close>, \<open>SoftwareDelivery\<close>: integrity and delivery of an image.

  \<^bold>\<open>Multicast.\<close>
  \<^item> \<open>McTypes\<close>: addresses, times and the data of the policy; \<open>McWire\<close> (report.go): the parser of
    IGMP and MLD; \<open>McBuild\<close> (report_build.go, query_build.go): the builders; \<open>McWireProofs\<close>,
    \<open>McBuildProofs\<close>, \<open>McRoundTrip\<close>: no panic, checksums, and parsing of what was built.
  \<^item> \<open>McPolicy\<close>, \<open>McPolicyProofs\<close> (policy.go): the admission engine and its limits.
  \<^item> \<open>McRuntime\<close> (runtime.go): memberships, streams, timers and the proxy; \<open>McRuntimeLogic\<close>,
    \<open>McRuntimeProofs\<close>, \<open>McTracked\<close>: its logic, two runs in which runtime and policy part, and what an
    observer beside the backend sees replicated.
  \<^item> \<open>McRange\<close>, \<open>McRangeProofs\<close> (end of linux_backend.go): address ranges as prefixes.

  \<^bold>\<open>The service graph.\<close>
  \<^item> \<open>Graph\<close>, \<open>GraphMulticast\<close>, \<open>GraphBuild\<close>, \<open>GraphService\<close> (src/internal/platform/graph.go): the
    graph, the readers of attributes, the builder of each element, and \<open>buildServiceGraph\<close> as a
    sequence of loops over the snapshot. \<open>GraphPolicy\<close> (platform/multicast.go): the multicast
    configuration of a graph.
  \<^item> \<open>GraphSafe\<close>: no panic. \<open>GraphCollect\<close>, \<open>GraphLoops\<close>, \<open>GraphPorts\<close>: an invariant for each loop.
    \<open>GraphContract\<close>: what a graph promises, stated of the graph alone. \<open>GraphProofs\<close>: that an accepted
    graph keeps it.

  \<^bold>\<open>What is shown.\<close> Parsers accept exactly the encodings of valid values (VLAN rows, device records)
  or never panic and accept only well-formed messages (multicast frames); built frames are parsed back.
  The dispatcher refines a bounded queue of two classes that a reset empties, and delivers only frames
  accepted in the current session. Each table update computes the finite-map edits its rows prescribe,
  keeps tables sorted and valid, and reports the first invalid row. Every reachable store satisfies the MIB
  invariant, through the engine as well; a failing operation changes nothing; the platform's last accepted
  state is the store's, autonomous changes apart, which bypass it; a transactional command ends with one
  commit or one abort; the data sync counter follows its protocol; Set, Create, Delete and Reset change
  exactly what they name; a restored store satisfies the invariant and an export comes back. A command is
  carried out at most once, uploads excepted; an upload and a table transfer lose nothing; the ring of
  snapshots keeps the latest records; the bit error comparison is exact. A finished software image is the
  announced one; its windows and the whole image are delivered to a sink that accepts. Admission keeps the
  limits and grants only what a row allows; on a backend that does not refuse, nothing stays replicated
  that the runtime's table has forgotten, and the proxy asks for what the clients in it ask for. An
  accepted service graph is complete and resolved, and its hardware identifiers are unique. The CRC
  detects bursts of up to 32 bits at any position.

  \<^bold>\<open>Bounds and fuel.\<close> No definition has fuel. Loops are structural recursion, or functions with a
  termination proof: on the octets left (\<open>foldRows\<close>, \<open>extensionHeaders\<close>), on the value
  (\<open>foldCarry\<close>), on the codes left (\<open>firstCode\<close>), on the addresses left (\<open>ipv4Loop\<close>,
  \<open>ipv6Loop\<close>). Lengths are bounded only where the code's integers are: frames of at most 65535
  octets where the 16-bit length of a header would wrap, windows of at most 256 sections, images below
  \<open>2 ^ 32\<close> octets.

  \<^bold>\<open>Not modelled.\<close> Mutexes and cloning (operations are atomic, values are values; spare capacity of
  slices is not observable), logging, system calls, sockets and processes (transport I/O, the kernel
  backend but for the prefixes, platform control), JSON and the event source, the persisted state of
  the engine (engine/runtime_state.go), the key derivation of XGS-PON over the ciphers of the standard
  library, the tables of constants of the device model, the daemons' wiring, and the vendored packages
  apart from the definitions the store reads.
\<close>

end
